(* ===== verification/Prelude.thy ===== *)
theory Prelude
  imports Complex_Main "HOL-Library.State_Monad" "HOL-Library.Word"
    "HOL-Library.List_Lexorder" "HOL-Library.Char_ord" "HOL-Library.Multiset"
begin

text \<open>
  The prelude of the development: the error type of the model, the calls that leave the
  process (SQL, Redis, HTTP) with a script of faults, the error-passing bind that stands for
  Go's \<^verbatim>\<open>if err != nil { return err }\<close>, Hoare triples over the state monad with the rule
  collections \<open>hoare_rules\<close> and \<open>keeps_rules\<close>, and the facts on lists, sorting and
  association lists that the components share.
\<close>

named_theorems hoare_rules
named_theorems keeps_rules
named_theorems model_defs

section \<open>Types shared by the components\<close>

type_synonym i64 = "64 word"

text \<open>Go's errors, by the constructors that the callers tell apart.\<close>

datatype error =
    ErrInfra                        \<comment> \<open>a failed SQL, Redis or HTTP call\<close>
  | ErrParam string                 \<comment> \<open>\<^verbatim>\<open>xerror.WrapParamErrorWithMsg\<close>\<close>
  | ErrModel string                 \<comment> \<open>\<^verbatim>\<open>xerror.WrapModelErrorWithMsg\<close>\<close>
  | ErrRecordNotExist string        \<comment> \<open>\<^verbatim>\<open>xerror.WrapRecordNotExist\<close>\<close>
  | ErrExisted string               \<comment> \<open>\<^verbatim>\<open>xerror.WrapRecordExisted\<close>\<close>
  | ErrDirty string                 \<comment> \<open>\<^verbatim>\<open>xerror.WrapDirtyDataErrorWithMsg\<close>\<close>
  | ErrConflict string              \<comment> \<open>\<^verbatim>\<open>xerror.WrapConflictErrorWithMsg\<close>\<close>
  | ErrUpstream                     \<comment> \<open>\<^verbatim>\<open>ErrUpstreamUnreachable\<close>\<close>
  | ErrUpstreamNotFound             \<comment> \<open>\<^verbatim>\<open>ErrUpstreamBatchNotFound\<close>\<close>
  | ErrSyncSkip                     \<comment> \<open>\<^verbatim>\<open>errSyncSkip\<close>\<close>
  | ErrAuthenticate string          \<comment> \<open>\<^verbatim>\<open>xerror.WrapAuthenticateFailErrorWithMsg\<close>\<close>
  | ErrAuthorizate string           \<comment> \<open>\<^verbatim>\<open>xerror.WrapAuthorizateFailErrorWithMsg\<close>\<close>
  | ErrMsg string                   \<comment> \<open>\<^verbatim>\<open>fmt.Errorf\<close>\<close>

section \<open>Calls that leave the process\<close>

text \<open>
  Every call to the database, to Redis or to an upstream consumes one entry of the fault
  script. \<open>FaultBefore\<close> is a call that failed and had no effect, \<open>FaultAfter\<close> one whose effect
  took place although the caller saw an error (a reply that timed out). An exhausted script means no
  more faults, so a property that holds for every script holds for every failure pattern.
\<close>

datatype fault = NoFault | FaultBefore | FaultAfter

record env =
  faults :: "fault list"

definition ext_call ::
  "('w env_scheme \<Rightarrow> (error + 'r) \<times> 'w env_scheme) \<Rightarrow> ('w env_scheme, error + 'r) state" where
  "ext_call f = State (\<lambda>s. case faults s of
       [] \<Rightarrow> f s
     | NoFault # fs \<Rightarrow> f (s\<lparr>faults := fs\<rparr>)
     | FaultBefore # fs \<Rightarrow> (Inl ErrInfra, s\<lparr>faults := fs\<rparr>)
     | FaultAfter # fs \<Rightarrow> (Inl ErrInfra, snd (f (s\<lparr>faults := fs\<rparr>))))"

definition returnE :: "'a \<Rightarrow> ('s, error + 'a) state" where
  "returnE x = State_Monad.return (Inr x)"

definition throwE :: "error \<Rightarrow> ('s, error + 'a) state" where
  "throwE e = State_Monad.return (Inl e)"

definition bindE ::
  "('s, error + 'a) state \<Rightarrow> ('a \<Rightarrow> ('s, error + 'b) state) \<Rightarrow> ('s, error + 'b) state" where
  "bindE m f = State_Monad.bind m (\<lambda>r. case r of Inl e \<Rightarrow> throwE e | Inr x \<Rightarrow> f x)"

text \<open>A call whose error is only logged (\<^verbatim>\<open>stateful.AccessLogger.Warn\<close>).\<close>

definition ignoreE :: "('s, error + 'a) state \<Rightarrow> ('s, error + unit) state" where
  "ignoreE m = State_Monad.bind m (\<lambda>_. returnE ())"

definition lift_err :: "error + 'a \<Rightarrow> ('s, error + 'a) state" where
  "lift_err r = State_Monad.return r"

definition gets :: "('s \<Rightarrow> 'a) \<Rightarrow> ('s, 'a) state" where
  "gets f = State (\<lambda>s. (f s, s))"

definition modify :: "('s \<Rightarrow> 's) \<Rightarrow> ('s, unit) state" where
  "modify f = State (\<lambda>s. ((), f s))"

definition modifyE :: "('s \<Rightarrow> 's) \<Rightarrow> ('s, error + unit) state" where
  "modifyE f = State (\<lambda>s. (Inr (), f s))"

definition getsE :: "('s \<Rightarrow> 'a) \<Rightarrow> ('s, error + 'a) state" where
  "getsE f = State (\<lambda>s. (Inr (f s), s))"

text \<open>
  The loop shape shared by the reconcile duties: run the body for every element, log and skip
  an error, count the elements for which the body reports progress.
\<close>

fun count_ok :: "('a \<Rightarrow> ('s, error + bool) state) \<Rightarrow> 'a list \<Rightarrow> ('s, nat) state" where
  "count_ok f [] = State_Monad.return 0"
| "count_ok f (x # xs) =
     State_Monad.bind (f x) (\<lambda>r.
       State_Monad.bind (count_ok f xs) (\<lambda>n.
         State_Monad.return (case r of Inr True \<Rightarrow> Suc n | _ \<Rightarrow> n)))"

lemma run_ext_call [simp]:
  "run_state (ext_call f) s = (case faults s of
       [] \<Rightarrow> f s
     | NoFault # fs \<Rightarrow> f (s\<lparr>faults := fs\<rparr>)
     | FaultBefore # fs \<Rightarrow> (Inl ErrInfra, s\<lparr>faults := fs\<rparr>)
     | FaultAfter # fs \<Rightarrow> (Inl ErrInfra, snd (f (s\<lparr>faults := fs\<rparr>))))"
  by (simp add: ext_call_def)

lemma run_returnE [simp]: "run_state (returnE x) s = (Inr x, s)"
  by (simp add: returnE_def)

lemma run_throwE [simp]: "run_state (throwE e) s = (Inl e, s)"
  by (simp add: throwE_def)

lemma run_lift_err [simp]: "run_state (lift_err r) s = (r, s)"
  by (simp add: lift_err_def)

lemma run_gets [simp]: "run_state (gets f) s = (f s, s)"
  by (simp add: gets_def)

lemma run_modify [simp]: "run_state (modify f) s = ((), f s)"
  by (simp add: modify_def)

lemma run_modifyE [simp]: "run_state (modifyE f) s = (Inr (), f s)"
  by (simp add: modifyE_def)

lemma run_getsE [simp]: "run_state (getsE f) s = (Inr (f s), s)"
  by (simp add: getsE_def)

lemma run_bindE [simp]:
  "run_state (bindE m f) s =
     (case run_state m s of (r, s') \<Rightarrow>
        (case r of Inl e \<Rightarrow> (Inl e, s') | Inr x \<Rightarrow> run_state (f x) s'))"
  by (auto simp: bindE_def split: prod.splits sum.splits)

lemma run_ignoreE [simp]:
  "run_state (ignoreE m) s = (Inr (), snd (run_state m s))"
  by (simp add: ignoreE_def split: prod.splits)

section \<open>Hoare triples\<close>

definition hoare :: "('s \<Rightarrow> bool) \<Rightarrow> ('s, 'a) state \<Rightarrow> ('a \<Rightarrow> 's \<Rightarrow> bool) \<Rightarrow> bool" where
  "hoare P m Q \<longleftrightarrow> (\<forall>s. P s \<longrightarrow> Q (fst (run_state m s)) (snd (run_state m s)))"

text \<open>An invariant kept by a computation, whatever it returns.\<close>

definition keeps :: "('s \<Rightarrow> bool) \<Rightarrow> ('s, 'a) state \<Rightarrow> bool" where
  "keeps I m \<longleftrightarrow> hoare I m (\<lambda>_. I)"

lemma hoareI: "(\<And>s. P s \<Longrightarrow> Q (fst (run_state m s)) (snd (run_state m s))) \<Longrightarrow> hoare P m Q"
  by (simp add: hoare_def)

lemma hoareD: "hoare P m Q \<Longrightarrow> P s \<Longrightarrow> run_state m s = (r, s') \<Longrightarrow> Q r s'"
  by (auto simp: hoare_def)

lemma hoareD_sel: "hoare P m Q \<Longrightarrow> P s \<Longrightarrow> Q (fst (run_state m s)) (snd (run_state m s))"
  by (auto simp: hoare_def)

lemma hoare_weaken:
  "hoare P m Q \<Longrightarrow> (\<And>s. P' s \<Longrightarrow> P s) \<Longrightarrow> (\<And>r s. Q r s \<Longrightarrow> Q' r s) \<Longrightarrow> hoare P' m Q'"
  by (auto simp: hoare_def)

lemma hoare_bind [hoare_rules]:
  "hoare P m R \<Longrightarrow> (\<And>r. hoare (R r) (f r) Q) \<Longrightarrow> hoare P (State_Monad.bind m f) Q"
  by (auto simp: hoare_def split: prod.splits)

lemma hoare_bindE [hoare_rules]:
  assumes "hoare P m (\<lambda>r s. case r of Inl e \<Rightarrow> Q (Inl e) s | Inr x \<Rightarrow> R x s)"
    and "\<And>x. hoare (R x) (f x) Q"
  shows "hoare P (bindE m f) Q"
proof (rule hoareI)
  fix s assume "P s"
  obtain r s' where run: "run_state m s = (r, s')" by fastforce
  from hoareD [OF assms(1) \<open>P s\<close> run]
  have "case r of Inl e \<Rightarrow> Q (Inl e) s' | Inr x \<Rightarrow> R x s'" .
  then show "Q (fst (run_state (bindE m f) s)) (snd (run_state (bindE m f) s))"
    using run assms(2) by (auto simp: hoare_def split: sum.splits)
qed

lemma hoare_return: "(\<And>s. P s \<Longrightarrow> Q x s) \<Longrightarrow> hoare P (State_Monad.return x) Q"
  by (auto simp: hoare_def)

lemma hoare_bindE_getsE: "(\<And>x. hoare P (f x) Q) \<Longrightarrow> hoare P (bindE (getsE g) f) Q"
  by (simp add: hoare_def)

text \<open>A continuation that keeps what the first computation established, success or not.\<close>

lemma hoare_bindE_keeps:
  assumes "hoare P m (\<lambda>_. J)" and "\<And>x. keeps J (f x)"
  shows "hoare P (bindE m f) (\<lambda>_. J)"
proof (rule hoareI)
  fix s assume "P s"
  obtain r s' where run: "run_state m s = (r, s')" by fastforce
  with assms(1) \<open>P s\<close> have "J s'" by (auto dest: hoareD)
  then show "J (snd (run_state (bindE m f) s))"
    using run assms(2) by (auto simp: keeps_def hoare_def split: sum.splits)
qed

text \<open>
  Steps of a computation that first keeps \<open>I\<close> and ends, in one write or without one, in \<open>J\<close>.
\<close>

lemma hoare_keeps_bindE:
  assumes "keeps I m" and "\<And>s. I s \<Longrightarrow> J s" and "\<And>x. hoare I (f x) (\<lambda>_. J)"
  shows "hoare I (bindE m f) (\<lambda>_. J)"
proof (rule hoareI)
  fix s assume "I s"
  obtain r s' where run: "run_state m s = (r, s')" by fastforce
  with assms(1) \<open>I s\<close> have "I s'" by (auto simp: keeps_def dest: hoareD)
  then show "J (snd (run_state (bindE m f) s))"
    using run assms(2,3) by (auto simp: hoare_def split: sum.splits)
qed

lemma hoare_lift_err_bindE:
  "(\<And>s. I s \<Longrightarrow> J s) \<Longrightarrow> (\<And>x. r = Inr x \<Longrightarrow> hoare I (f x) (\<lambda>_. J)) \<Longrightarrow>
   hoare I (bindE (lift_err r) f) (\<lambda>_. J)"
  by (cases r) (auto simp: hoare_def)

lemma hoare_pure:
  "(\<And>s. I s \<Longrightarrow> J s) \<Longrightarrow> hoare I (returnE x) (\<lambda>_. J)"
  "(\<And>s. I s \<Longrightarrow> J s) \<Longrightarrow> hoare I (throwE e) (\<lambda>_. J)"
  by (simp_all add: hoare_def)

lemma hoare_if:
  "(b \<Longrightarrow> hoare P m Q) \<Longrightarrow> (\<not> b \<Longrightarrow> hoare P n Q) \<Longrightarrow> hoare P (if b then m else n) Q"
  by simp

lemma hoare_case_prod:
  "(\<And>a b. x = (a, b) \<Longrightarrow> hoare P (f a b) Q) \<Longrightarrow> hoare P (case x of (a, b) \<Rightarrow> f a b) Q"
  by (cases x) simp

lemma hoare_count_ok:
  assumes "\<And>x ys. x \<in> set xs \<Longrightarrow> hoare (J (x # ys)) (f x) (\<lambda>_. J ys)"
  shows "hoare (J xs) (count_ok f xs) (\<lambda>_. J [])"
  using assms
proof (induction xs)
  case Nil
  then show ?case by (auto simp: hoare_def)
next
  case (Cons x xs)
  have "hoare (J (x # xs)) (f x) (\<lambda>_. J xs)" using Cons.prems by simp
  moreover have "hoare (J xs) (count_ok f xs) (\<lambda>_. J [])" using Cons by simp
  ultimately show ?case
    by (auto simp: hoare_def split: prod.splits)
qed

lemma keepsI: "(\<And>s. I s \<Longrightarrow> I (snd (run_state m s))) \<Longrightarrow> keeps I m"
  by (simp add: keeps_def hoare_def)

lemma keepsD: "keeps I m \<Longrightarrow> I s \<Longrightarrow> I (snd (run_state m s))"
  by (simp add: keeps_def hoare_def)

lemma keepsD_run: "keeps I m \<Longrightarrow> I s \<Longrightarrow> run_state m s = (r, s') \<Longrightarrow> I s'"
  by (auto simp: keeps_def hoare_def)

lemma keeps_return [keeps_rules]: "keeps I (State_Monad.return x)"
  by (simp add: keeps_def hoare_def)

lemma keeps_returnE [keeps_rules]: "keeps I (returnE x)"
  by (simp add: keeps_def hoare_def)

lemma keeps_throwE [keeps_rules]: "keeps I (throwE e)"
  by (simp add: keeps_def hoare_def)

lemma keeps_lift_err [keeps_rules]: "keeps I (lift_err r)"
  by (simp add: keeps_def hoare_def)

lemma keeps_gets [keeps_rules]: "keeps I (gets f)"
  by (simp add: keeps_def hoare_def)

lemma keeps_getsE [keeps_rules]: "keeps I (getsE f)"
  by (simp add: keeps_def hoare_def)

lemma keeps_modify: "(\<And>s. I s \<Longrightarrow> I (f s)) \<Longrightarrow> keeps I (modify f)"
  by (simp add: keeps_def hoare_def)

lemma keeps_modifyE: "(\<And>s. I s \<Longrightarrow> I (f s)) \<Longrightarrow> keeps I (modifyE f)"
  by (simp add: keeps_def hoare_def)

lemma keeps_bind [keeps_rules]:
  "keeps I m \<Longrightarrow> (\<And>r. keeps I (f r)) \<Longrightarrow> keeps I (State_Monad.bind m f)"
  by (auto simp: keeps_def intro: hoare_bind)

lemma keeps_bindE [keeps_rules]:
  "keeps I m \<Longrightarrow> (\<And>x. keeps I (f x)) \<Longrightarrow> keeps I (bindE m f)"
  by (auto simp: keeps_def hoare_def split: prod.splits sum.splits)

text \<open>The continuation may rely on what the first computation returns.\<close>

lemma keeps_bindE_result:
  "hoare I m (\<lambda>r s. I s \<and> (\<forall>x. r = Inr x \<longrightarrow> P x)) \<Longrightarrow> (\<And>x. P x \<Longrightarrow> keeps I (f x)) \<Longrightarrow>
   keeps I (bindE m f)"
  by (fastforce simp: keeps_def hoare_def split: prod.splits sum.splits)

lemma keeps_bind_result:
  "hoare I m (\<lambda>r s. I s \<and> P r) \<Longrightarrow> (\<And>r. P r \<Longrightarrow> keeps I (f r)) \<Longrightarrow>
   keeps I (State_Monad.bind m f)"
  by (fastforce simp: keeps_def hoare_def split: prod.splits)

lemma keeps_lift_err_result:
  "(\<And>x. r = Inr x \<Longrightarrow> keeps I (f x)) \<Longrightarrow> keeps I (bindE (lift_err r) f)"
  by (cases r) (auto simp: keeps_def hoare_def)

lemma keeps_ignoreE [keeps_rules]: "keeps I m \<Longrightarrow> keeps I (ignoreE m)"
  by (auto simp: keeps_def hoare_def)

lemma keeps_if [keeps_rules]:
  "(b \<Longrightarrow> keeps I m) \<Longrightarrow> (\<not> b \<Longrightarrow> keeps I n) \<Longrightarrow> keeps I (if b then m else n)"
  by auto

lemma keeps_case_option [keeps_rules]:
  "(x = None \<Longrightarrow> keeps I m) \<Longrightarrow> (\<And>y. x = Some y \<Longrightarrow> keeps I (f y)) \<Longrightarrow>
   keeps I (case x of None \<Rightarrow> m | Some y \<Rightarrow> f y)"
  by (cases x) auto

lemma keeps_case_sum [keeps_rules]:
  "(\<And>e. x = Inl e \<Longrightarrow> keeps I (f e)) \<Longrightarrow> (\<And>y. x = Inr y \<Longrightarrow> keeps I (g y)) \<Longrightarrow>
   keeps I (case x of Inl e \<Rightarrow> f e | Inr y \<Rightarrow> g y)"
  by (cases x) auto

lemma keeps_case_prod [keeps_rules]:
  "(\<And>a b. x = (a, b) \<Longrightarrow> keeps I (f a b)) \<Longrightarrow> keeps I (case x of (a, b) \<Rightarrow> f a b)"
  by (cases x) auto

lemma keeps_count_ok [keeps_rules]:
  "(\<And>x. x \<in> set xs \<Longrightarrow> keeps I (f x)) \<Longrightarrow> keeps I (count_ok f xs)"
  by (induction xs) (auto intro!: keeps_rules)

text \<open>A call that succeeded had its effect, and had it once.\<close>

lemma ext_call_Inr:
  "run_state (ext_call f) w = (Inr x, w') \<Longrightarrow> \<exists>fs. f (w\<lparr>faults := fs\<rparr>) = (Inr x, w')"
  by (auto split: list.splits fault.splits) (metis env.surjective env.update_convs(1))

text \<open>
  An external call keeps an invariant that does not look at the fault script when its effect
  keeps it.
\<close>

definition fault_free :: "('w env_scheme \<Rightarrow> bool) \<Rightarrow> bool" where
  "fault_free I \<longleftrightarrow> (\<forall>s fs. I (s\<lparr>faults := fs\<rparr>) = I s)"

lemma fault_freeD: "fault_free I \<Longrightarrow> I (s\<lparr>faults := fs\<rparr>) = I s"
  by (simp add: fault_free_def)

lemma keeps_ext_call:
  assumes "fault_free I" and "\<And>s. I s \<Longrightarrow> I (snd (f s))"
  shows "keeps I (ext_call f)"
  using assms
  by (auto simp: keeps_def hoare_def fault_free_def split: list.splits fault.splits)

lemma hoare_ext_call:
  assumes "\<And>s fs. P (s\<lparr>faults := fs\<rparr>) = P s"
    and "\<And>s. P s \<Longrightarrow> Q (fst (f s)) (snd (f s))"
    and "\<And>s. P s \<Longrightarrow> Q (Inl ErrInfra) (snd (f s))"
    and "\<And>s. P s \<Longrightarrow> Q (Inl ErrInfra) s"
  shows "hoare P (ext_call f) Q"
  using assms by (auto simp: hoare_def split: list.splits fault.splits)

text \<open>A computation that only reads: its effect is confined to the fault script.\<close>

definition reads_only :: "('w env_scheme, 'a) state \<Rightarrow> bool" where
  "reads_only m \<longleftrightarrow> (\<forall>s. \<exists>fs. snd (run_state m s) = s\<lparr>faults := fs\<rparr>)"

lemma keeps_reads_only: "reads_only m \<Longrightarrow> fault_free I \<Longrightarrow> keeps I m"
  by (auto simp: reads_only_def keeps_def hoare_def) (metis fault_freeD)

section \<open>Lists, options and association lists\<close>

text \<open>A Go map read \<open>m[k]\<close> on an association list, and a write.\<close>

definition alist_get :: "('k \<times> 'v) list \<Rightarrow> 'k \<Rightarrow> 'v \<Rightarrow> 'v" where
  "alist_get m k d = (case map_of m k of Some v \<Rightarrow> v | None \<Rightarrow> d)"

fun alist_set :: "'k \<Rightarrow> 'v \<Rightarrow> ('k \<times> 'v) list \<Rightarrow> ('k \<times> 'v) list" where
  "alist_set k v [] = [(k, v)]"
| "alist_set k v (p # ps) = (if fst p = k then (k, v) # ps else p # alist_set k v ps)"

lemma map_of_alist_set [simp]: "map_of (alist_set k v m) = (map_of m)(k \<mapsto> v)"
  by (induction m) auto

lemma fst_set_alist_set [simp]: "fst ` set (alist_set k v m) = insert k (fst ` set m)"
  by (induction m) auto

lemma distinct_alist_set: "distinct (map fst m) \<Longrightarrow> distinct (map fst (alist_set k v m))"
  by (induction m) (auto simp: image_iff dest: map_of_SomeD
      simp flip: set_map simp: fst_set_alist_set [unfolded image_set])

text \<open>Replace the elements that match, as an SQL \<open>UPDATE ... WHERE\<close> does.\<close>

definition update_where :: "('a \<Rightarrow> bool) \<Rightarrow> ('a \<Rightarrow> 'a) \<Rightarrow> 'a list \<Rightarrow> 'a list" where
  "update_where p f xs = map (\<lambda>x. if p x then f x else x) xs"

lemma length_update_where [simp]: "length (update_where p f xs) = length xs"
  by (simp add: update_where_def)

lemma in_update_where:
  "y \<in> set (update_where p f xs) \<longleftrightarrow> (\<exists>x\<in>set xs. y = (if p x then f x else x))"
  by (auto simp: update_where_def)

lemma map_update_where:
  "(\<And>x. g (f x) = g x) \<Longrightarrow> map g (update_where p f xs) = map g xs"
  by (simp add: update_where_def)

lemma find_update_where_other:
  "(\<And>x. q (f x) = q x) \<Longrightarrow>
   List.find q (update_where p f xs) =
     map_option (\<lambda>x. if p x then f x else x) (List.find q xs)"
  by (induction xs) (auto simp: update_where_def)

lemma find_update_where_disjoint:
  "(\<And>x. q (f x) = q x) \<Longrightarrow> (\<And>x. q x \<Longrightarrow> \<not> p x) \<Longrightarrow>
   List.find q (update_where p f xs) = List.find q xs"
  by (induction xs) (auto simp: update_where_def)

lemma find_update_where_same:
  "(\<And>x. p (f x) = p x) \<Longrightarrow> List.find p (update_where p f xs) = map_option f (List.find p xs)"
  by (induction xs) (auto simp: update_where_def)

lemma find_append_snoc:
  "List.find p (xs @ [x]) =
     (case List.find p xs of Some y \<Rightarrow> Some y | None \<Rightarrow> if p x then Some x else None)"
  by (induction xs) auto

lemma find_Some_in: "List.find p xs = Some x \<Longrightarrow> x \<in> set xs \<and> p x"
  by (auto simp: find_Some_iff)

lemma find_NoneD: "List.find p xs = None \<Longrightarrow> x \<in> set xs \<Longrightarrow> \<not> p x"
  by (auto simp: find_None_iff)

lemma distinct_map_eq: "distinct (map f xs) \<Longrightarrow> x \<in> set xs \<Longrightarrow> y \<in> set xs \<Longrightarrow> f x = f y \<Longrightarrow> x = y"
  by (auto simp: distinct_map inj_on_def)

end
