(* ===== verification/GoLib.thy ===== *)
theory GoLib
  imports Prelude
begin

text \<open>
  What the sources use of the Go standard library: \<^verbatim>\<open>strings\<close> (prefixes, \<^verbatim>\<open>Cut\<close>,
  \<^verbatim>\<open>TrimSpace\<close>, \<^verbatim>\<open>TrimRight\<close>), \<^verbatim>\<open>strconv\<close> (decimal numbers at 64 bits), \<^verbatim>\<open>net.JoinHostPort\<close>,
  \<^verbatim>\<open>time\<close> (instants and saturating differences) and \<^verbatim>\<open>sort\<close>. A Go string is its list of bytes.
\<close>

section \<open>strings\<close>

definition HasPrefix :: "string \<Rightarrow> string \<Rightarrow> bool" where
  "HasPrefix s p \<longleftrightarrow> take (length p) s = p"

definition TrimPrefix :: "string \<Rightarrow> string \<Rightarrow> string" where
  "TrimPrefix s p = (if HasPrefix s p then drop (length p) s else s)"

definition CutPrefix :: "string \<Rightarrow> string \<Rightarrow> string option" where
  "CutPrefix s p = (if HasPrefix s p then Some (drop (length p) s) else None)"

text \<open>\<^verbatim>\<open>strings.Contains(s, sub)\<close>.\<close>

fun Contains :: "string \<Rightarrow> string \<Rightarrow> bool" where
  "Contains [] sub = (sub = [])"
| "Contains (c # cs) sub = (HasPrefix (c # cs) sub \<or> Contains cs sub)"

text \<open>\<^verbatim>\<open>strings.Cut(s, sep)\<close> for a one-byte separator: the text before and after the first one.\<close>

fun Cut :: "string \<Rightarrow> char \<Rightarrow> (string \<times> string) option" where
  "Cut [] c = None"
| "Cut (x # xs) c =
     (if x = c then Some ([], xs) else map_option (\<lambda>(a, b). (x # a, b)) (Cut xs c))"

text \<open>
  The bytes of every code point that \<^verbatim>\<open>unicode.IsSpace\<close> accepts: six ASCII ones, U+0085, U+00A0,
  U+1680, U+2000 to U+200A, U+2028, U+2029, U+202F, U+205F and U+3000.
\<close>

definition utf8_spaces :: "string list" where
  "utf8_spaces =
     map (\<lambda>c. [c]) [CHR 0x09, CHR 0x0A, CHR 0x0B, CHR 0x0C, CHR 0x0D, CHR 0x20] @
     [[CHR 0xC2, CHR 0x85], [CHR 0xC2, CHR 0xA0], [CHR 0xE1, CHR 0x9A, CHR 0x80],
      [CHR 0xE2, CHR 0x80, CHR 0xA8], [CHR 0xE2, CHR 0x80, CHR 0xA9], [CHR 0xE2, CHR 0x80, CHR 0xAF],
      [CHR 0xE2, CHR 0x81, CHR 0x9F], [CHR 0xE3, CHR 0x80, CHR 0x80]] @
     map (\<lambda>c. [CHR 0xE2, CHR 0x80, c])
       [CHR 0x80, CHR 0x81, CHR 0x82, CHR 0x83, CHR 0x84, CHR 0x85, CHR 0x86, CHR 0x87,
        CHR 0x88, CHR 0x89, CHR 0x8A]"

definition starting_space :: "string list \<Rightarrow> string \<Rightarrow> nat" where
  "starting_space sps s = (case List.find (\<lambda>e. HasPrefix s e) sps of None \<Rightarrow> 0 | Some e \<Rightarrow> length e)"

text \<open>Drop leading encodings; \<open>length s\<close> rounds are enough, each round drops at least a byte.\<close>

fun drop_spaces :: "nat \<Rightarrow> string list \<Rightarrow> string \<Rightarrow> string" where
  "drop_spaces 0 sps s = s"
| "drop_spaces (Suc n) sps s =
     (let k = starting_space sps s in if k = 0 then s else drop_spaces n sps (drop k s))"

definition TrimSpace :: "string \<Rightarrow> string" where
  "TrimSpace s =
     (let l = drop_spaces (length s) utf8_spaces s
      in rev (drop_spaces (length l) (map rev utf8_spaces) (rev l)))"

text \<open>\<^verbatim>\<open>strings.TrimRight(s, "/")\<close>.\<close>

definition TrimRight :: "string \<Rightarrow> char \<Rightarrow> string" where
  "TrimRight s c = rev (dropWhile (\<lambda>x. x = c) (rev s))"

text \<open>\<^verbatim>\<open>strings.Split(s, sep)\<close> and \<^verbatim>\<open>strings.Join(elems, sep)\<close> for a one-byte separator.\<close>

fun Split :: "string \<Rightarrow> char \<Rightarrow> string list" where
  "Split [] c = [[]]"
| "Split (x # xs) c =
     (if x = c then [] # Split xs c
      else case Split xs c of p # ps \<Rightarrow> (x # p) # ps | [] \<Rightarrow> [[x]])"

fun Join :: "string list \<Rightarrow> char \<Rightarrow> string" where
  "Join [] c = []"
| "Join [s] c = s"
| "Join (s # t # ts) c = s @ c # Join (t # ts) c"

lemma Split_nonempty [simp]: "Split s c \<noteq> []"
  by (induction s) (auto split: list.splits)

lemma Split_plain: "c \<notin> set s \<Longrightarrow> Split s c = [s]"
  by (induction s) auto

lemma Split_append: "c \<notin> set s \<Longrightarrow> Split (s @ c # t) c = s # Split t c"
  by (induction s) auto

text \<open>Joined pieces without the separator are split again.\<close>

lemma Split_Join: "ss \<noteq> [] \<Longrightarrow> (\<And>s. s \<in> set ss \<Longrightarrow> c \<notin> set s) \<Longrightarrow> Split (Join ss c) c = ss"
  by (induction ss c rule: Join.induct) (simp_all add: Split_plain Split_append)

lemma HasPrefix_append [simp]: "HasPrefix (p @ s) p"
  by (simp add: HasPrefix_def)

lemma HasPrefix_iff: "HasPrefix s p \<longleftrightarrow> (\<exists>t. s = p @ t)"
  by (metis HasPrefix_append HasPrefix_def append_take_drop_id)

lemma TrimPrefix_append [simp]: "TrimPrefix (p @ s) p = s"
  by (simp add: TrimPrefix_def)

lemma CutPrefix_append [simp]: "CutPrefix (p @ s) p = Some s"
  by (simp add: CutPrefix_def)

lemma CutPrefix_Some_iff: "CutPrefix s p = Some t \<longleftrightarrow> s = p @ t"
  by (auto simp: CutPrefix_def HasPrefix_iff)

lemma Cut_first: "c \<notin> set a \<Longrightarrow> Cut (a @ c # b) c = Some (a, b)"
  by (induction a) auto

lemma Cut_Some: "Cut s c = Some (a, b) \<Longrightarrow> s = a @ c # b \<and> c \<notin> set a"
  by (induction s arbitrary: a b) (auto split: if_splits)

lemma drop_spaces_suffix: "\<exists>t. s = t @ drop_spaces n sps s"
proof (induction n arbitrary: s)
  case 0
  then show ?case by simp
next
  case (Suc n)
  let ?k = "starting_space sps s"
  obtain t where "drop ?k s = t @ drop_spaces n sps (drop ?k s)" using Suc by blast
  then have "s = (take ?k s @ t) @ drop_spaces n sps (drop ?k s)"
    by (metis append_assoc append_take_drop_id)
  then have "\<exists>u. s = u @ drop_spaces n sps (drop ?k s)" by blast
  then show ?case by (auto simp: Let_def)
qed

text \<open>\<^verbatim>\<open>TrimSpace\<close> only removes bytes at the two ends.\<close>

lemma TrimSpace_infix: "\<exists>a b. s = a @ TrimSpace s @ b"
proof -
  let ?l = "drop_spaces (length s) utf8_spaces s"
  obtain a where a: "s = a @ ?l" using drop_spaces_suffix by blast
  obtain t where "rev ?l = t @ drop_spaces (length ?l) (map rev utf8_spaces) (rev ?l)"
    using drop_spaces_suffix by blast
  then have "?l = TrimSpace s @ rev t"
    unfolding TrimSpace_def Let_def by (metis rev_append rev_rev_ident)
  with a have "s = a @ TrimSpace s @ rev t" by simp
  then show ?thesis by blast
qed

lemma TrimSpace_Nil [simp]: "TrimSpace [] = []"
  by (simp add: TrimSpace_def)

lemma TrimRight_last: "TrimRight s c = [] \<or> last (TrimRight s c) \<noteq> c"
proof (cases "dropWhile (\<lambda>x. x = c) (rev s)")
  case Nil
  then show ?thesis by (simp add: TrimRight_def)
next
  case (Cons y ys)
  then have "y \<noteq> c" using hd_dropWhile [of "\<lambda>x. x = c" "rev s"] by simp
  with Cons show ?thesis by (simp add: TrimRight_def)
qed

section \<open>strconv\<close>

definition digit_char :: "nat \<Rightarrow> char" where
  "digit_char d = char_of (48 + d)"

fun digit_val :: "char \<Rightarrow> nat option" where
  "digit_val c = (let n = (of_char c :: nat) in if 48 \<le> n \<and> n \<le> 57 then Some (n - 48) else None)"

fun show_nat :: "nat \<Rightarrow> string" where
  "show_nat n = (if n < 10 then [digit_char n] else show_nat (n div 10) @ [digit_char (n mod 10)])"

declare show_nat.simps [simp del]

fun parse_digits :: "nat \<Rightarrow> string \<Rightarrow> nat option" where
  "parse_digits acc [] = Some acc"
| "parse_digits acc (c # cs) =
     (case digit_val c of None \<Rightarrow> None | Some d \<Rightarrow> parse_digits (10 * acc + d) cs)"

text \<open>\<^verbatim>\<open>strconv.ParseInt(s, 10, 64)\<close>: \<open>None\<close> is any of its errors (syntax or range).\<close>

definition ParseInt :: "string \<Rightarrow> i64 option" where
  "ParseInt s =
     (let neg = (s \<noteq> [] \<and> hd s = CHR ''-'');
          body = (if s \<noteq> [] \<and> (hd s = CHR ''-'' \<or> hd s = CHR ''+'') then tl s else s)
      in if body = [] then None
         else (case parse_digits 0 body of
                 None \<Rightarrow> None
               | Some n \<Rightarrow>
                   if \<not> neg \<and> n \<ge> 2 ^ 63 then None
                   else if neg \<and> n > 2 ^ 63 then None
                   else Some (word_of_int (if neg then - int n else int n))))"

definition show_int :: "int \<Rightarrow> string" where
  "show_int i = (if i < 0 then CHR ''-'' # show_nat (nat (- i)) else show_nat (nat i))"

text \<open>\<^verbatim>\<open>strconv.FormatInt(x, 10)\<close> and \<^verbatim>\<open>strconv.Itoa\<close>.\<close>

definition FormatInt :: "i64 \<Rightarrow> string" where
  "FormatInt x = show_int (sint x)"

lemma digit_val_digit_char [simp]: "d < 10 \<Longrightarrow> digit_val (digit_char d) = Some d"
  by (simp add: digit_char_def of_char_of take_bit_eq_mod)

lemma parse_digits_append:
  "parse_digits a (xs @ ys) = Option.bind (parse_digits a xs) (\<lambda>b. parse_digits b ys)"
  by (induction xs arbitrary: a) (auto simp del: digit_val.simps split: option.splits)

lemma show_nat_nonempty [simp]: "show_nat n \<noteq> []"
  by (subst show_nat.simps) simp

lemma parse_show_nat: "parse_digits 0 (show_nat n) = Some n"
proof (induction n rule: show_nat.induct)
  case (1 n)
  show ?case
  proof (cases "n < 10")
    case True
    then show ?thesis
      by (simp add: show_nat.simps [of n] del: digit_val.simps)
  next
    case False
    with "1.IH" have "parse_digits 0 (show_nat (n div 10)) = Some (n div 10)" by simp
    with False show ?thesis
      by (simp add: show_nat.simps [of n] parse_digits_append del: digit_val.simps)
  qed
qed

lemma show_nat_inj: "show_nat m = show_nat n \<Longrightarrow> m = n"
  using parse_show_nat by (metis option.inject)

lemma show_nat_digits: "c \<in> set (show_nat n) \<Longrightarrow> \<exists>d<10. c = digit_char d"
proof (induction n rule: show_nat.induct)
  case (1 n)
  then show ?case
    by (cases "n < 10") (auto simp: show_nat.simps [of n] intro: exI [of _ "n mod 10"])
qed

lemma digit_char_sign [simp]:
  "d < 10 \<Longrightarrow> digit_char d \<noteq> CHR ''-''" "d < 10 \<Longrightarrow> digit_char d \<noteq> CHR ''+''"
  "d < 10 \<Longrightarrow> digit_char d \<noteq> CHR '':''"
proof -
  have *: "digit_char d \<noteq> c" if "d < 10" "digit_val c = None" for c
    using that digit_val_digit_char [OF that(1)] by fastforce
  show "d < 10 \<Longrightarrow> digit_char d \<noteq> CHR ''-''" "d < 10 \<Longrightarrow> digit_char d \<noteq> CHR ''+''"
    "d < 10 \<Longrightarrow> digit_char d \<noteq> CHR '':''"
    by (rule *; simp)+
qed

lemma show_nat_no_sign:
  "CHR ''-'' \<notin> set (show_nat n)" "CHR ''+'' \<notin> set (show_nat n)" "CHR '':'' \<notin> set (show_nat n)"
  using show_nat_digits digit_char_sign by metis+

lemma hd_show_nat_no_sign: "hd (show_nat n) \<noteq> CHR ''-''" "hd (show_nat n) \<noteq> CHR ''+''"
  using show_nat_no_sign hd_in_set [OF show_nat_nonempty] by metis+

lemma ParseInt_show_int:
  assumes "- (2 ^ 63) \<le> i" "i < 2 ^ 63"
  shows "ParseInt (show_int i) = Some (word_of_int i)"
proof (cases "i < 0")
  case True
  with assms show ?thesis
    by (simp add: ParseInt_def show_int_def parse_show_nat Let_def)
next
  case False
  with assms have "nat i < 2 ^ 63" by simp
  with False show ?thesis
    by (simp add: ParseInt_def show_int_def parse_show_nat Let_def hd_show_nat_no_sign)
qed

text \<open>A 64-bit number survives the trip through its decimal text.\<close>

lemma ParseInt_FormatInt [simp]: "ParseInt (FormatInt x) = Some x"
proof -
  have "- (2 ^ 63) \<le> sint x" "sint x < 2 ^ 63"
    using sint_ge [of x] sint_lt [of x] by simp_all
  then show ?thesis unfolding FormatInt_def by (simp add: ParseInt_show_int)
qed

lemma FormatInt_nonempty [simp]: "FormatInt x \<noteq> []"
  by (simp add: FormatInt_def show_int_def)

lemma show_int_inj: "show_int i = show_int j \<Longrightarrow> i = j"
  unfolding show_int_def
  by (auto split: if_splits dest: show_nat_inj)
     (metis hd_show_nat_no_sign(1) list.sel(1))+

lemma show_int_no_colon: "CHR '':'' \<notin> set (show_int i)"
  by (simp add: show_int_def show_nat_no_sign)

section \<open>net\<close>

text \<open>\<^verbatim>\<open>net.JoinHostPort(host, strconv.Itoa(port))\<close>: a host with a colon is put in brackets.\<close>

definition JoinHostPort :: "string \<Rightarrow> int \<Rightarrow> string" where
  "JoinHostPort host port =
     (if CHR '':'' \<in> set host then ''['' @ host @ '']:'' @ show_int port
      else host @ '':'' @ show_int port)"

lemma last_colon_inj:
  fixes a b a' b' :: string
  assumes "a @ c # b = a' @ c # b'" "c \<notin> set b" "c \<notin> set b'"
  shows "a = a' \<and> b = b'"
proof -
  have "rev b @ c # rev a = rev b' @ c # rev a'"
    using arg_cong [OF assms(1), of rev] by simp
  then have "Cut (rev b @ c # rev a) c = Cut (rev b' @ c # rev a') c" by simp
  then show ?thesis using assms(2,3) by (simp add: Cut_first)
qed

text \<open>
  Distinct pairs give distinct addresses when no host starts with a bracket, as a validated
  one never does.
\<close>

lemma JoinHostPort_inj:
  assumes "JoinHostPort h p = JoinHostPort h' p'"
    and "h = [] \<or> hd h \<noteq> CHR ''[''" and "h' = [] \<or> hd h' \<noteq> CHR ''[''"
  shows "h = h' \<and> p = p'"
proof -
  let ?f = "\<lambda>h. if CHR '':'' \<in> set h then ''['' @ h @ '']'' else h"
  have j: "JoinHostPort x q = ?f x @ CHR '':'' # show_int q" for x q
    by (simp add: JoinHostPort_def)
  from assms(1) have "?f h @ CHR '':'' # show_int p = ?f h' @ CHR '':'' # show_int p'"
    by (simp only: j)
  from last_colon_inj [OF this show_int_no_colon show_int_no_colon]
  have "?f h = ?f h'" and "show_int p = show_int p'" by simp_all
  with assms(2,3) show ?thesis
    by (auto split: if_splits dest: show_int_inj)
qed

section \<open>time\<close>

text \<open>
  An instant is its distance in nanoseconds from Go's zero \<^verbatim>\<open>time.Time\<close> (1 January, year 1), so
  \<^verbatim>\<open>IsZero\<close> is equality with 0. A \<^verbatim>\<open>time.Duration\<close> is an int64 number of nanoseconds and
  \<^verbatim>\<open>Sub\<close> saturates at the ends of that range.
\<close>

type_synonym time = int
type_synonym duration = int

definition IsZero :: "time \<Rightarrow> bool" where
  "IsZero t \<longleftrightarrow> t = 0"

definition time_Sub :: "time \<Rightarrow> time \<Rightarrow> duration" where
  "time_Sub t u = max (- (2 ^ 63)) (min (2 ^ 63 - 1) (t - u))"

definition nsSecond :: duration where "nsSecond = 1000000000"

definition unixEpoch :: time where "unixEpoch = 62135596800 * nsSecond"

text \<open>\<^verbatim>\<open>time.Unix(sec, 0)\<close>.\<close>

definition time_Unix :: "i64 \<Rightarrow> time" where
  "time_Unix sec = unixEpoch + sint sec * nsSecond"

lemma time_Sub_le_iff:
  "0 \<le> d \<Longrightarrow> d < 2 ^ 63 - 1 \<Longrightarrow> time_Sub t u \<le> d \<longleftrightarrow> t - u \<le> d"
  by (auto simp: time_Sub_def)

lemma time_Sub_ge_iff:
  "0 \<le> d \<Longrightarrow> d < 2 ^ 63 \<Longrightarrow> d \<le> time_Sub t u \<longleftrightarrow> d \<le> t - u"
  by (auto simp: time_Sub_def)

end
