(* ===== verification/BatchTypes.thy ===== *)
theory BatchTypes
  imports GoLib
begin

text \<open>
  The data of the batch component (\<^verbatim>\<open>model/ibatch/types.go\<close>), its Redis key layout
  (\<^verbatim>\<open>redis_keys.go\<close>) and its errors (\<^verbatim>\<open>errors.go\<close>). Statuses stay strings, because the code
  stores whatever the provider reports. The fields of the Go structs carry the prefix of their struct
  (\<open>bt_\<close> for \<^verbatim>\<open>BatchTask\<close>, \<open>bf_\<close> for \<^verbatim>\<open>BatchFile\<close>). A row id is an \<open>int\<close>: the database hands it out and the code
  only compares it. A nil pointer is \<open>None\<close>; a Go map is an
  association list with distinct keys.
\<close>

section \<open>Status constants\<close>

abbreviation TaskStatusValidating :: string where "TaskStatusValidating \<equiv> ''validating''"
abbreviation TaskStatusQueued :: string where "TaskStatusQueued \<equiv> ''queued''"
abbreviation TaskStatusInProgress :: string where "TaskStatusInProgress \<equiv> ''in_progress''"
abbreviation TaskStatusFinalizing :: string where "TaskStatusFinalizing \<equiv> ''finalizing''"
abbreviation TaskStatusCompleted :: string where "TaskStatusCompleted \<equiv> ''completed''"
abbreviation TaskStatusExpired :: string where "TaskStatusExpired \<equiv> ''expired''"
abbreviation TaskStatusFailed :: string where "TaskStatusFailed \<equiv> ''failed''"
abbreviation TaskStatusCancelled :: string where "TaskStatusCancelled \<equiv> ''cancelled''"
abbreviation TaskStatusCancelling :: string where "TaskStatusCancelling \<equiv> ''cancelling''"

definition TerminalStatuses :: "string list" where
  "TerminalStatuses =
     [TaskStatusCompleted, TaskStatusExpired, TaskStatusFailed, TaskStatusCancelled]"

fun status_member :: "string \<Rightarrow> string list \<Rightarrow> bool" where
  "status_member status [] = False"
| "status_member status (s # ss) = (if s = status then True else status_member status ss)"

definition IsTerminalStatus :: "string \<Rightarrow> bool" where
  "IsTerminalStatus status = status_member status TerminalStatuses"

abbreviation SettleStatusReserved :: string where "SettleStatusReserved \<equiv> ''reserved''"
abbreviation SettleStatusSettled :: string where "SettleStatusSettled \<equiv> ''settled''"
abbreviation SettleStatusReleased :: string where "SettleStatusReleased \<equiv> ''released''"

abbreviation UsageSourceReconcile :: string where "UsageSourceReconcile \<equiv> ''reconcile''"
abbreviation SyncSourceRedis :: string where "SyncSourceRedis \<equiv> ''redis''"
abbreviation FileDirectionInput :: string where "FileDirectionInput \<equiv> ''input''"
abbreviation FileDirectionOutput :: string where "FileDirectionOutput \<equiv> ''output''"
abbreviation PurposeBatchInput :: string where "PurposeBatchInput \<equiv> ''batch_input''"
abbreviation PurposeBatchOutput :: string where "PurposeBatchOutput \<equiv> ''batch_output''"

section \<open>Entities\<close>

type_synonym counts = "(string \<times> i64) list"

record BatchFileMeta =
  fm_FileID :: string
  fm_Provider :: string
  fm_Purpose :: string
  fm_Filename :: string
  fm_Bytes :: i64
  fm_CreatedAt :: time

record BatchTask =
  bt_ID :: int
  bt_BatchID :: string
  bt_APIKeyID :: string
  bt_ProductName :: string
  bt_EntityID :: string
  bt_Provider :: string
  bt_KeyName :: string
  bt_Endpoint :: string
  bt_InputFileID :: string
  bt_OutputFileID :: string
  bt_Status :: string
  bt_RequestCounts :: "counts option"
  bt_EstLines :: i64
  bt_UsageInputTokens :: i64
  bt_UsageOutputTokens :: i64
  bt_UsageSource :: string
  bt_ReserveUnits :: i64
  bt_SettleUnits :: i64
  bt_SettleStatus :: string
  bt_OverReserved :: bool
  bt_SyncSource :: string
  bt_IdemKey :: string
  bt_CreatedAt :: time
  bt_UpdatedAt :: time
  bt_TerminalAt :: "time option"

record BatchFile =
  bf_ID :: int
  bf_FileID :: string
  bf_Provider :: string
  bf_KeyName :: string
  bf_APIKeyID :: string
  bf_ProductName :: string
  bf_Direction :: string
  bf_Purpose :: string
  bf_Filename :: string
  bf_Lines :: i64
  bf_Bytes :: i64
  bf_FirstSeenAt :: "time option"
  bf_LastSeenAt :: "time option"
  bf_CreatedAt :: time
  bf_UpdatedAt :: time

text \<open>The zero values of the structs.\<close>

definition zero_task :: BatchTask where
  "zero_task = \<lparr>bt_ID = 0, bt_BatchID = [], bt_APIKeyID = [], bt_ProductName = [], bt_EntityID = [],
     bt_Provider = [], bt_KeyName = [], bt_Endpoint = [], bt_InputFileID = [], bt_OutputFileID = [],
     bt_Status = [], bt_RequestCounts = None, bt_EstLines = 0, bt_UsageInputTokens = 0,
     bt_UsageOutputTokens = 0, bt_UsageSource = [], bt_ReserveUnits = 0, bt_SettleUnits = 0,
     bt_SettleStatus = [], bt_OverReserved = False, bt_SyncSource = [], bt_IdemKey = [],
     bt_CreatedAt = 0, bt_UpdatedAt = 0, bt_TerminalAt = None\<rparr>"

definition zero_file :: BatchFile where
  "zero_file = \<lparr>bf_ID = 0, bf_FileID = [], bf_Provider = [], bf_KeyName = [], bf_APIKeyID = [],
     bf_ProductName = [], bf_Direction = [], bf_Purpose = [], bf_Filename = [], bf_Lines = 0,
     bf_Bytes = 0, bf_FirstSeenAt = None, bf_LastSeenAt = None, bf_CreatedAt = 0, bf_UpdatedAt = 0\<rparr>"

definition contractPurpose :: "BatchFile \<Rightarrow> string" where
  "contractPurpose f =
     (if bf_Direction f = FileDirectionInput then PurposeBatchInput
      else if bf_Direction f = FileDirectionOutput then PurposeBatchOutput
      else bf_Purpose f)"

definition ToMeta :: "BatchFile option \<Rightarrow> BatchFileMeta option" where
  "ToMeta fo = (case fo of None \<Rightarrow> None | Some f \<Rightarrow>
     Some \<lparr>fm_FileID = bf_FileID f, fm_Provider = bf_Provider f, fm_Purpose = contractPurpose f,
       fm_Filename = bf_Filename f, fm_Bytes = bf_Bytes f, fm_CreatedAt = bf_CreatedAt f\<rparr>)"

section \<open>Filters and patches\<close>

record BatchTaskFilter =
  flt_ID :: "int option"
  flt_BatchID :: "string option"
  flt_IdemKey :: "string option"
  flt_APIKeyID :: "string option"
  flt_ProductName :: "string option"
  flt_EntityID :: "string option"
  flt_Provider :: "string option"
  flt_Status :: "string option"
  flt_StatusIn :: "string list"
  flt_StatusNotIn :: "string list"
  flt_SettleStatus :: "string option"
  flt_CreatedStart :: "time option"
  flt_CreatedEnd :: "time option"
  flt_CursorID :: "int option"
  flt_Limit :: int

definition no_filter :: BatchTaskFilter where
  "no_filter = \<lparr>flt_ID = None, flt_BatchID = None, flt_IdemKey = None, flt_APIKeyID = None,
     flt_ProductName = None, flt_EntityID = None, flt_Provider = None, flt_Status = None,
     flt_StatusIn = [], flt_StatusNotIn = [], flt_SettleStatus = None, flt_CreatedStart = None,
     flt_CreatedEnd = None, flt_CursorID = None, flt_Limit = 0\<rparr>"

record BatchFileFilter =
  ff_ID :: "int option"
  ff_FileID :: "string option"
  ff_Provider :: "string option"
  ff_APIKeyID :: "string option"
  ff_ProductName :: "string option"
  ff_Direction :: "string option"

definition no_file_filter :: BatchFileFilter where
  "no_file_filter = \<lparr>ff_ID = None, ff_FileID = None, ff_Provider = None, ff_APIKeyID = None,
     ff_ProductName = None, ff_Direction = None\<rparr>"

record BatchTaskListResult =
  lr_Tasks :: "BatchTask list"
  lr_NextCursor :: int

abbreviation DefaultListLimit :: int where "DefaultListLimit \<equiv> 50"
abbreviation MaxListLimit :: int where "MaxListLimit \<equiv> 200"

record BatchTaskProgressPatch =
  pp_Status :: "string option"
  pp_OutputFileID :: "string option"
  pp_Endpoint :: "string option"
  pp_RequestCounts :: "counts option"
  pp_TerminalAt :: "time option"

definition empty_progress :: BatchTaskProgressPatch where
  "empty_progress = \<lparr>pp_Status = None, pp_OutputFileID = None, pp_Endpoint = None,
     pp_RequestCounts = None, pp_TerminalAt = None\<rparr>"

record BatchSettlePatch =
  sp_SettleStatus :: string
  sp_SettleUnits :: "i64 option"
  sp_UsageInputTokens :: "i64 option"
  sp_UsageOutputTokens :: "i64 option"
  sp_UsageSource :: "string option"
  sp_OverReserved :: "bool option"
  sp_TerminalAt :: "time option"

section \<open>Redis keys\<close>

abbreviation batchTaskKeyPrefix :: string where "batchTaskKeyPrefix \<equiv> ''BATCH_TASK:''"
abbreviation batchFileKeyPrefix :: string where "batchFileKeyPrefix \<equiv> ''BATCH_FILE:''"
abbreviation batchSettledKeyPrefix :: string where "batchSettledKeyPrefix \<equiv> ''BATCH_SETTLED:''"
abbreviation batchReserveBatchKeyPrefix :: string where
  "batchReserveBatchKeyPrefix \<equiv> ''BATCH_RESERVE_BATCH:''"
abbreviation batchReserveMirrorPrefix :: string where
  "batchReserveMirrorPrefix \<equiv> ''BATCH_RESERVE:''"

definition BatchTaskKey :: "string \<Rightarrow> string" where
  "BatchTaskKey batchID = batchTaskKeyPrefix @ batchID"

definition ParseBatchTaskKey :: "string \<Rightarrow> string \<times> bool" where
  "ParseBatchTaskKey key =
     (if \<not> HasPrefix key batchTaskKeyPrefix then ([], False)
      else (let batchID = TrimPrefix key batchTaskKeyPrefix in (batchID, batchID \<noteq> [])))"

definition BatchFileKey :: "string \<Rightarrow> string \<Rightarrow> string" where
  "BatchFileKey part fileID = batchFileKeyPrefix @ part @ '':'' @ fileID"

definition ParseBatchFileKey :: "string \<Rightarrow> string \<times> string \<times> bool" where
  "ParseBatchFileKey key =
     (case CutPrefix key batchFileKeyPrefix of
        None \<Rightarrow> ([], [], False)
      | Some rest \<Rightarrow>
          (case Cut rest (CHR '':'') of
             None \<Rightarrow> ([], [], False)
           | Some (part, fileID) \<Rightarrow>
               if part = [] \<or> fileID = [] then ([], [], False)
               else (part, fileID, True)))"

definition BatchSettledKey :: "string \<Rightarrow> string" where
  "BatchSettledKey batchID = batchSettledKeyPrefix @ batchID"

definition BatchReserveBatchKey :: "string \<Rightarrow> string" where
  "BatchReserveBatchKey batchID = batchReserveBatchKeyPrefix @ batchID"

definition BatchReserveMirrorKey :: "string \<Rightarrow> string" where
  "BatchReserveMirrorKey planRedisKey = batchReserveMirrorPrefix @ planRedisKey"

section \<open>Facts\<close>

lemma status_member_iff: "status_member s ss \<longleftrightarrow> s \<in> set ss"
  by (induction ss) auto

lemma IsTerminalStatus_iff: "IsTerminalStatus s \<longleftrightarrow> s \<in> set TerminalStatuses"
  by (simp add: IsTerminalStatus_def status_member_iff)

lemma cancelling_not_terminal [simp]: "\<not> IsTerminalStatus TaskStatusCancelling"
  by (simp add: IsTerminalStatus_iff TerminalStatuses_def)

lemma terminal_constants [simp]:
  "IsTerminalStatus TaskStatusCompleted" "IsTerminalStatus TaskStatusExpired"
  "IsTerminalStatus TaskStatusFailed" "IsTerminalStatus TaskStatusCancelled"
  by (simp_all add: IsTerminalStatus_iff TerminalStatuses_def)

lemma ParseBatchTaskKey_BatchTaskKey [simp]:
  "ParseBatchTaskKey (BatchTaskKey b) = (b, b \<noteq> [])"
  by (simp only: ParseBatchTaskKey_def BatchTaskKey_def HasPrefix_append TrimPrefix_append
      Let_def not_True_eq_False if_False)

lemma ParseBatchTaskKey_True:
  assumes "ParseBatchTaskKey k = (b, True)"
  shows "k = BatchTaskKey b \<and> b \<noteq> []"
proof -
  from assms have "HasPrefix k batchTaskKeyPrefix"
    by (auto simp: ParseBatchTaskKey_def split: if_splits)
  then obtain t where k: "k = batchTaskKeyPrefix @ t" by (auto simp only: HasPrefix_iff)
  with assms show ?thesis
    using ParseBatchTaskKey_BatchTaskKey [of t] unfolding BatchTaskKey_def by simp
qed

lemma ParseBatchFileKey_BatchFileKey:
  "p \<noteq> [] \<Longrightarrow> f \<noteq> [] \<Longrightarrow> CHR '':'' \<notin> set p \<Longrightarrow>
   ParseBatchFileKey (BatchFileKey p f) = (p, f, True)"
  unfolding ParseBatchFileKey_def BatchFileKey_def CutPrefix_append
  by (simp add: Cut_first)

lemma ParseBatchFileKey_True:
  assumes "ParseBatchFileKey k = (p, f, True)"
  shows "k = BatchFileKey p f \<and> p \<noteq> [] \<and> f \<noteq> [] \<and> CHR '':'' \<notin> set p"
proof -
  from assms obtain rest where r: "CutPrefix k batchFileKeyPrefix = Some rest"
    by (auto simp: ParseBatchFileKey_def split: option.splits)
  with assms have c: "Cut rest (CHR '':'') = Some (p, f)" "p \<noteq> []" "f \<noteq> []"
    by (auto simp: ParseBatchFileKey_def split: option.splits if_splits)
  from r have "k = batchFileKeyPrefix @ rest" by (simp only: CutPrefix_Some_iff)
  with Cut_Some [OF c(1)] c(2,3) show ?thesis by (simp add: BatchFileKey_def)
qed

text \<open>The five key families never meet, so an operation on one cannot touch another.\<close>

lemma key_families [simp]:
  "BatchTaskKey a \<noteq> BatchSettledKey b" "BatchTaskKey a \<noteq> BatchReserveBatchKey b"
  "BatchTaskKey a \<noteq> BatchReserveMirrorKey b" "BatchSettledKey a \<noteq> BatchReserveBatchKey b"
  "BatchSettledKey a \<noteq> BatchReserveMirrorKey b" "BatchReserveBatchKey a \<noteq> BatchReserveMirrorKey b"
  "BatchSettledKey b \<noteq> BatchTaskKey a" "BatchReserveBatchKey b \<noteq> BatchTaskKey a"
  "BatchReserveMirrorKey b \<noteq> BatchTaskKey a" "BatchReserveBatchKey b \<noteq> BatchSettledKey a"
  "BatchReserveMirrorKey b \<noteq> BatchSettledKey a" "BatchReserveMirrorKey b \<noteq> BatchReserveBatchKey a"
  "BatchFileKey p f \<noteq> BatchTaskKey a" "BatchFileKey p f \<noteq> BatchSettledKey a"
  "BatchFileKey p f \<noteq> BatchReserveBatchKey a" "BatchFileKey p f \<noteq> BatchReserveMirrorKey a"
  by (simp_all add: BatchTaskKey_def BatchSettledKey_def BatchReserveBatchKey_def
      BatchReserveMirrorKey_def BatchFileKey_def)

lemma key_inj [simp]:
  "BatchTaskKey a = BatchTaskKey b \<longleftrightarrow> a = b" "BatchSettledKey a = BatchSettledKey b \<longleftrightarrow> a = b"
  "BatchReserveBatchKey a = BatchReserveBatchKey b \<longleftrightarrow> a = b"
  "BatchReserveMirrorKey a = BatchReserveMirrorKey b \<longleftrightarrow> a = b"
  by (simp_all add: BatchTaskKey_def BatchSettledKey_def BatchReserveBatchKey_def
      BatchReserveMirrorKey_def)

end
