(* ===== verification/SqlTable.thy ===== *)
theory SqlTable
  imports Prelude
begin

text \<open>
  What the components share of the relational storage: a table as its list of rows, an UPDATE
  with its affected-row count in both dialects, and the interface \<open>keyed_table\<close> of a table that
  is written by upserts on a key (the batch tables and the table of EPP assignments provide it);
  transactions over the tables of a component, with the interface \<open>txn_tables\<close>.
\<close>

section \<open>Tables\<close>

record 'r table =
  rows :: "'r list"
  next_id :: int

text \<open>
  The rows an UPDATE reports: MySQL counts the rows whose columns really changed
  (\<^verbatim>\<open>CLIENT_FOUND_ROWS\<close> is off), SQLite counts the rows that matched.
\<close>

definition affected_rows :: "bool \<Rightarrow> ('r \<Rightarrow> bool) \<Rightarrow> ('r \<Rightarrow> 'r) \<Rightarrow> 'r list \<Rightarrow> nat" where
  "affected_rows isMySQL p f rs = length (filter (\<lambda>r. p r \<and> (isMySQL \<longrightarrow> f r \<noteq> r)) rs)"

definition exec_update ::
  "bool \<Rightarrow> ('r \<Rightarrow> bool) \<Rightarrow> ('r \<Rightarrow> 'r) \<Rightarrow> 'r table \<Rightarrow> nat \<times> 'r table" where
  "exec_update isMySQL p f t =
     (affected_rows isMySQL p f (rows t), t\<lparr>rows := update_where p f (rows t)\<rparr>)"

section \<open>Statements\<close>

text \<open>A condition on a column that is left out when the pointer is nil.\<close>

definition eq_opt :: "'a option \<Rightarrow> 'a \<Rightarrow> bool" where
  "eq_opt v x = (case v of None \<Rightarrow> True | Some y \<Rightarrow> x = y)"

definition constraint_violated :: error where
  "constraint_violated = ErrMsg ''constraint violation''"

text \<open>INSERT, UPDATE and DELETE on a table with UNIQUE keys, \<open>uniq\<close> their conjunction.\<close>

definition sql_insert :: "('r list \<Rightarrow> bool) \<Rightarrow> (int \<Rightarrow> 'r) \<Rightarrow> 'r table \<Rightarrow> (error + int) \<times> 'r table" where
  "sql_insert uniq mk t =
     (if uniq (rows t @ [mk (next_id t)])
      then (Inr (next_id t), t\<lparr>rows := rows t @ [mk (next_id t)], next_id := next_id t + 1\<rparr>)
      else (Inl constraint_violated, t))"

definition sql_update ::
  "bool \<Rightarrow> ('r list \<Rightarrow> bool) \<Rightarrow> ('r \<Rightarrow> bool) \<Rightarrow> ('r \<Rightarrow> 'r) \<Rightarrow> 'r table \<Rightarrow> (error + nat) \<times> 'r table" where
  "sql_update isMySQL uniq p f t =
     (if uniq (update_where p f (rows t))
      then (Inr (affected_rows isMySQL p f (rows t)), t\<lparr>rows := update_where p f (rows t)\<rparr>)
      else (Inl constraint_violated, t))"

definition sql_delete :: "('r \<Rightarrow> bool) \<Rightarrow> 'r table \<Rightarrow> (error + nat) \<times> 'r table" where
  "sql_delete p t = (Inr (length (filter p (rows t))), t\<lparr>rows := filter (\<lambda>r. \<not> p r) (rows t)\<rparr>)"

section \<open>The interface of an upserted table\<close>

text \<open>
  What the read-merge-write code of the components relies on: a lookup by key sees the row the
  last write of that key stored, and no other key moves.
\<close>

locale keyed_table =
  fixes inv :: "'t \<Rightarrow> bool"
    and lookup :: "'t \<Rightarrow> 'k \<Rightarrow> 'r option"
    and put :: "'r \<Rightarrow> 't \<Rightarrow> 't"
    and key :: "'r \<Rightarrow> 'k"
    and stored :: "'t \<Rightarrow> 'r \<Rightarrow> 'r"
    and usable :: "'r \<Rightarrow> bool"
  assumes put_inv: "inv t \<Longrightarrow> inv (put r t)"
    and lookup_put_same: "inv t \<Longrightarrow> usable r \<Longrightarrow> lookup (put r t) (key r) = Some (stored t r)"
    and lookup_put_other: "inv t \<Longrightarrow> k \<noteq> key r \<Longrightarrow> lookup (put r t) k = lookup t k"
    and put_unusable: "\<not> usable r \<Longrightarrow> put r t = t"
begin

text \<open>A write whose stored row is above the row it replaces moves every key upwards.\<close>

lemma put_advances:
  assumes "inv t" and refl: "\<And>x. le x x"
    and up: "\<And>old. lookup t (key r) = Some old \<Longrightarrow> usable r \<Longrightarrow> le old (stored t r)"
    and "lookup t k = Some old"
  shows "\<exists>new. lookup (put r t) k = Some new \<and> le old new"
proof (cases "usable r")
  case False
  then show ?thesis using assms by (simp add: put_unusable)
next
  case True
  show ?thesis
  proof (cases "k = key r")
    case k: True
    with assms True have "lookup (put r t) k = Some (stored t r)" by (simp add: lookup_put_same)
    moreover have "le old (stored t r)" using up assms k True by simp
    ultimately show ?thesis by blast
  next
    case False
    then show ?thesis using assms by (simp add: lookup_put_other)
  qed
qed

lemma lookup_put:
  "inv t \<Longrightarrow> usable r \<Longrightarrow> lookup (put r t) k = (if k = key r then Some (stored t r) else lookup t k)"
  by (simp add: lookup_put_same lookup_put_other)

end

section \<open>Transactions\<close>

text \<open>
  \<^verbatim>\<open>RDBTxnExecute\<close> with \<^verbatim>\<open>commitOrRollback\<close>: open, run, commit or roll back. \<open>get\<close> and \<open>put\<close>
  read and replace the tables in the state of the world. The tables that the others see change at the commit, which may fail
  before or after it took effect. A rollback that fails, and a connection that is lost, leave the
  tables as they were as well. What the body did outside the database stays.
\<close>

definition RDBTxnExecute ::
  "('w env_scheme \<Rightarrow> 'd) \<Rightarrow> ('d \<Rightarrow> 'w env_scheme \<Rightarrow> 'w env_scheme) \<Rightarrow>
   ('w env_scheme, error + 'a) state \<Rightarrow> ('w env_scheme, error + 'a) state" where
  "RDBTxnExecute get put body =
     bindE (ext_call (\<lambda>w. (Inr (), w))) (\<lambda>_. State (\<lambda>w.
       case run_state body w of
         (Inl e, w') \<Rightarrow> (Inl e, put (get w) w')
       | (Inr x, w') \<Rightarrow>
           run_state (bindE (ext_call (\<lambda>v. (Inr (), put (get w') v))) (\<lambda>_. returnE x))
             (put (get w) w')))"

locale txn_tables =
  fixes get :: "'w env_scheme \<Rightarrow> 'd"
    and put :: "'d \<Rightarrow> 'w env_scheme \<Rightarrow> 'w env_scheme"
  assumes get_put: "get (put d w) = d"
    and put_get: "put (get w) w = w"
    and put_put: "put d (put d' w) = put d w"
    and faults_put: "faults (put d w) = faults w"
    and get_faults: "get (w\<lparr>faults := fs\<rparr>) = get w"
begin

lemma txn_ok:
  assumes "faults w = []" and "run_state body w = (Inr x, w')" and "faults w' = []"
  shows "run_state (RDBTxnExecute get put body) w = (Inr x, w')"
  using assms by (simp add: RDBTxnExecute_def faults_put put_put put_get)

lemma txn_err:
  assumes "faults w = []" and "run_state body w = (Inl e, w')"
  shows "run_state (RDBTxnExecute get put body) w = (Inl e, put (get w) w')"
  using assms by (simp add: RDBTxnExecute_def)

text \<open>A transaction leaves the tables it found or those that a successful body left.\<close>

lemma txn_tables:
  "get (snd (run_state (RDBTxnExecute get put body) w)) = get w \<or>
   (\<exists>w' x w''. get w' = get w \<and> run_state body w' = (Inr x, w'') \<and>
      get (snd (run_state (RDBTxnExecute get put body) w)) = get w'')"
proof -
  let ?beg = "ext_call (\<lambda>w. (Inr (), w)) :: ('w env_scheme, error + unit) state"
  obtain r1 w1 where b: "run_state ?beg w = (r1, w1)" by fastforce
  have d1: "get w1 = get w"
    using b by (auto simp: get_faults split: list.splits fault.splits)
  obtain r2 w2 where t: "run_state body w1 = (r2, w2)" by fastforce
  let ?c = "run_state (ext_call (\<lambda>v. (Inr (), put (get w2) v)) :: ('w env_scheme, error + unit) state)
    (put (get w1) w2)"
  have c: "get (snd ?c) \<in> {get w1, get w2}"
    by (auto simp: get_put get_faults split: list.splits fault.splits)
  show ?thesis
  proof (cases r1; cases r2)
    fix u x assume r: "r1 = Inr u" "r2 = Inr x"
    then have "get (snd (run_state (RDBTxnExecute get put body) w)) = get (snd ?c)"
      using b t by (auto simp: RDBTxnExecute_def simp del: run_ext_call split: prod.splits sum.splits)
    moreover have "run_state body w1 = (Inr x, w2)" using t r by simp
    ultimately show ?thesis using c d1 by auto
  qed (use b t d1 in \<open>auto simp: RDBTxnExecute_def get_put simp del: run_ext_call\<close>)
qed

lemma keeps_txn:
  assumes "keeps (\<lambda>w. P (get w)) body"
  shows "keeps (\<lambda>w. P (get w)) (RDBTxnExecute get put body)"
proof (rule keepsI)
  fix w assume P: "P (get w)"
  have "P (get w'')" if "get w' = get w" "run_state body w' = (Inr x, w'')" for w' x w''
    using keepsD_run [OF assms, of w'] that P by simp
  with P show "P (get (snd (run_state (RDBTxnExecute get put body) w)))"
    using txn_tables [of body w] by auto
qed

text \<open>A body that leads from \<open>P\<close> to \<open>Q\<close>, when \<open>P\<close> gives \<open>Q\<close> already.\<close>

lemma hoare_txn:
  assumes body: "hoare (\<lambda>w. P (get w)) body (\<lambda>_ w. Q (get w))" and weaker: "\<And>d. P d \<Longrightarrow> Q d"
  shows "hoare (\<lambda>w. P (get w)) (RDBTxnExecute get put body) (\<lambda>_ w. Q (get w))"
proof (rule hoareI)
  fix w assume P: "P (get w)"
  have "Q (get w'')" if "get w' = get w" "run_state body w' = (Inr x, w'')" for w' x w''
    using hoareD [OF body, of w'] that P by simp
  with P weaker show "Q (get (snd (run_state (RDBTxnExecute get put body) w)))"
    using txn_tables [of body w] by auto
qed

text \<open>A transaction that succeeds has the tables of a body that succeeded; one whose body always fails changes nothing.\<close>

lemma txn_success:
  assumes "run_state (RDBTxnExecute get put body) w = (Inr x, w')"
  shows "\<exists>v v'. get v = get w \<and> run_state body v = (Inr x, v') \<and> get w' = get v'"
proof -
  let ?beg = "ext_call (\<lambda>w. (Inr (), w)) :: ('w env_scheme, error + unit) state"
  obtain r1 w1 where b: "run_state ?beg w = (r1, w1)" by fastforce
  have d1: "get w1 = get w"
    using b by (auto simp: get_faults split: list.splits fault.splits)
  obtain r2 w2 where t: "run_state body w1 = (r2, w2)" by fastforce
  obtain u where r1: "r1 = Inr u" using assms b by (cases r1) (auto simp: RDBTxnExecute_def simp del: run_ext_call)
  obtain y where r2: "r2 = Inr y" using assms b t r1 by (cases r2) (auto simp: RDBTxnExecute_def simp del: run_ext_call)
  have c: "run_state (bindE (ext_call (\<lambda>v. (Inr (), put (get w2) v))) (\<lambda>_. returnE y)) (put (get w1) w2) = (Inr x, w')"
    using assms b t r1 r2 by (simp add: RDBTxnExecute_def del: run_ext_call)
  then have "x = y \<and> get w' = get w2"
    by (auto simp: get_put get_faults split: list.splits fault.splits)
  then show ?thesis using d1 t r2 by blast
qed

lemma txn_fails:
  assumes "\<And>v. get v = get w \<Longrightarrow> isl (fst (run_state body v))"
  shows "\<exists>e w'. run_state (RDBTxnExecute get put body) w = (Inl e, w') \<and> get w' = get w"
proof -
  obtain r w' where run: "run_state (RDBTxnExecute get put body) w = (r, w')" by fastforce
  have "isl r"
    using txn_success [of body w _ w'] run assms by (cases r) fastforce+
  moreover have "get w' = get w"
    using txn_tables [of body w] run assms by fastforce
  ultimately show ?thesis using run by (cases r) auto
qed

text \<open>The same with a part of the world that neither the tables nor the faults touch.\<close>

lemma keeps_txn_with:
  assumes body: "keeps (\<lambda>w. P (get w) \<and> R w) body"
    and R_put: "\<And>d w. R (put d w) = R w" and R_faults: "fault_free R"
  shows "keeps (\<lambda>w. P (get w) \<and> R w) (RDBTxnExecute get put body)"
proof (rule keepsI)
  fix w assume I: "P (get w) \<and> R w"
  let ?beg = "ext_call (\<lambda>w. (Inr (), w)) :: ('w env_scheme, error + unit) state"
  obtain r1 w1 where b: "run_state ?beg w = (r1, w1)" by fastforce
  have I1: "P (get w1) \<and> R w1"
    using b I by (auto simp: get_faults fault_freeD [OF R_faults] split: list.splits fault.splits)
  obtain r2 w2 where t: "run_state body w1 = (r2, w2)" by fastforce
  have I2: "P (get w2) \<and> R w2" using keepsD_run [OF body I1 t] .
  have c: "P (get v) \<and> R v" if "run_state (ext_call (\<lambda>v. (Inr (), put (get w2) v))) (put (get w1) w2) = (r, v)"
    for r :: "error + unit" and v
    using that I1 I2 by (auto simp: get_put get_faults R_put fault_freeD [OF R_faults]
      split: list.splits fault.splits)
  have f: "P (get (put (get w1) w2)) \<and> R (put (get w1) w2)" using I1 I2 by (simp add: get_put R_put)
  show "P (get (snd (run_state (RDBTxnExecute get put body) w))) \<and> R (snd (run_state (RDBTxnExecute get put body) w))"
    using b t I1 c f
    by (auto simp: RDBTxnExecute_def simp del: run_ext_call split: sum.splits prod.splits)
qed

text \<open>A body that never succeeds leaves the tables as they were.\<close>

lemma txn_never_ok:
  assumes body: "\<And>v. R v \<Longrightarrow> \<exists>e v'. run_state body v = (Inl e, v') \<and> R v'"
    and R_put: "\<And>d w. R (put d w) = R w" and R_faults: "fault_free R" and "R w"
  shows "\<exists>e w'. run_state (RDBTxnExecute get put body) w = (Inl e, w') \<and> get w' = get w \<and> R w'"
proof -
  let ?beg = "ext_call (\<lambda>w. (Inr (), w)) :: ('w env_scheme, error + unit) state"
  obtain r1 w1 where b: "run_state ?beg w = (r1, w1)" by fastforce
  have w1: "get w1 = get w" "R w1"
    using b \<open>R w\<close> by (auto simp: get_faults fault_freeD [OF R_faults] split: list.splits fault.splits)
  obtain e v where t: "run_state body w1 = (Inl e, v)" "R v" using body [OF w1(2)] by blast
  show ?thesis
    using b t w1 by (cases r1) (auto simp: RDBTxnExecute_def get_put R_put simp del: run_ext_call)
qed

lemma txn_quiet:
  assumes "keeps (\<lambda>w. faults w = []) body"
  shows "keeps (\<lambda>w. faults w = []) (RDBTxnExecute get put body)"
proof (rule keepsI)
  fix w :: "'w env_scheme" assume "faults w = []"
  obtain r w' where run: "run_state body w = (r, w')" by fastforce
  with assms \<open>faults w = []\<close> have "faults w' = []" by (auto dest: keepsD_run)
  with run \<open>faults w = []\<close> show "faults (snd (run_state (RDBTxnExecute get put body) w)) = []"
    by (auto simp: RDBTxnExecute_def faults_put split: sum.splits)
qed

end

end
