(* ===== verification/BatchStore.thy ===== *)
theory BatchStore
  imports BatchTypes SqlTable
begin

text \<open>
  The storage of the batch component: the tables \<^verbatim>\<open>batch_tasks\<close> and \<^verbatim>\<open>batch_files\<close> as lists of
  rows, the DAO functions of \<^verbatim>\<open>storage/rdb/internal/dao\<close> as pure functions on them (WHERE clauses,
  nil-skipping SET lists, upserts), and the two interpretations of \<open>keyed_table\<close> through which the
  sync code reads, merges and writes a row. Comparison of text columns is bytewise; truncation to
  column widths and to whole seconds is not modelled.
\<close>

text \<open>The columns of \<^verbatim>\<open>TBatchTaskParam\<close>, for WHERE and for SET: a nil column is left out.\<close>

record TBatchTaskParam =
  tp_ID :: "int option"
  tp_IDGT :: "int option"
  tp_IDLT :: "int option"
  tp_BatchID :: "string option"
  tp_APIKeyID :: "string option"
  tp_ProductName :: "string option"
  tp_EntityID :: "string option"
  tp_Provider :: "string option"
  tp_KeyName :: "string option"
  tp_Endpoint :: "string option"
  tp_InputFileID :: "string option"
  tp_OutputFileID :: "string option"
  tp_Status :: "string option"
  tp_StatusIn :: "string list"
  tp_StatusNotIn :: "string list"
  tp_RequestCounts :: "counts option"
  tp_EstLines :: "i64 option"
  tp_UsageInputTokens :: "i64 option"
  tp_UsageOutputTokens :: "i64 option"
  tp_UsageSource :: "string option"
  tp_ReserveUnits :: "i64 option"
  tp_SettleUnits :: "i64 option"
  tp_SettleStatus :: "string option"
  tp_OverReserved :: "bool option"
  tp_SyncSource :: "string option"
  tp_IdemKey :: "string option"
  tp_CreatedAt :: "time option"
  tp_CreatedAtGTE :: "time option"
  tp_CreatedAtLTE :: "time option"
  tp_UpdatedAt :: "time option"
  tp_TerminalAt :: "time option"
  tp_OrderById :: bool
  tp_Limit :: "nat option"

definition no_task_param :: TBatchTaskParam where
  "no_task_param = \<lparr>tp_ID = None, tp_IDGT = None, tp_IDLT = None, tp_BatchID = None,
     tp_APIKeyID = None, tp_ProductName = None, tp_EntityID = None, tp_Provider = None,
     tp_KeyName = None, tp_Endpoint = None, tp_InputFileID = None, tp_OutputFileID = None,
     tp_Status = None, tp_StatusIn = [], tp_StatusNotIn = [], tp_RequestCounts = None,
     tp_EstLines = None, tp_UsageInputTokens = None, tp_UsageOutputTokens = None,
     tp_UsageSource = None, tp_ReserveUnits = None, tp_SettleUnits = None, tp_SettleStatus = None,
     tp_OverReserved = None, tp_SyncSource = None, tp_IdemKey = None, tp_CreatedAt = None,
     tp_CreatedAtGTE = None, tp_CreatedAtLTE = None, tp_UpdatedAt = None, tp_TerminalAt = None,
     tp_OrderById = False, tp_Limit = None\<rparr>"

definition opt_eq :: "'a option \<Rightarrow> 'a \<Rightarrow> bool" where
  "opt_eq c x \<longleftrightarrow> (case c of None \<Rightarrow> True | Some v \<Rightarrow> x = v)"

definition opt_or :: "'a option \<Rightarrow> 'a \<Rightarrow> 'a" where
  "opt_or c d = (case c of None \<Rightarrow> d | Some v \<Rightarrow> v)"

lemma opt_eq_simps [simp]: "opt_eq None x" "opt_eq (Some v) x \<longleftrightarrow> x = v"
  by (simp_all add: opt_eq_def)

lemma opt_or_simps [simp]: "opt_or None d = d" "opt_or (Some v) d = v"
  by (simp_all add: opt_or_def)

text \<open>\<^verbatim>\<open>Struct2Where\<close>: the conjunction of the columns that are set; no filter of the component sets
  another column than these.\<close>

definition where_task :: "TBatchTaskParam \<Rightarrow> BatchTask \<Rightarrow> bool" where
  "where_task w t \<longleftrightarrow>
     opt_eq (tp_ID w) (bt_ID t)
   \<and> (case tp_IDGT w of None \<Rightarrow> True | Some i \<Rightarrow> bt_ID t > i)
   \<and> (case tp_IDLT w of None \<Rightarrow> True | Some i \<Rightarrow> bt_ID t < i)
   \<and> opt_eq (tp_BatchID w) (bt_BatchID t)
   \<and> opt_eq (tp_APIKeyID w) (bt_APIKeyID t)
   \<and> opt_eq (tp_ProductName w) (bt_ProductName t)
   \<and> opt_eq (tp_EntityID w) (bt_EntityID t)
   \<and> opt_eq (tp_Provider w) (bt_Provider t)
   \<and> opt_eq (tp_Status w) (bt_Status t)
   \<and> (tp_StatusIn w = [] \<or> bt_Status t \<in> set (tp_StatusIn w))
   \<and> (tp_StatusNotIn w = [] \<or> bt_Status t \<notin> set (tp_StatusNotIn w))
   \<and> opt_eq (tp_SettleStatus w) (bt_SettleStatus t)
   \<and> opt_eq (tp_IdemKey w) (bt_IdemKey t)
   \<and> (case tp_CreatedAtGTE w of None \<Rightarrow> True | Some c \<Rightarrow> bt_CreatedAt t \<ge> c)
   \<and> (case tp_CreatedAtLTE w of None \<Rightarrow> True | Some c \<Rightarrow> bt_CreatedAt t \<le> c)"

text \<open>
  \<^verbatim>\<open>Struct2Assign\<close>: the SET list of an UPDATE. The callers never set the primary key, the
  idempotency key or an owner column this way.
\<close>

definition assign_task :: "TBatchTaskParam \<Rightarrow> BatchTask \<Rightarrow> BatchTask" where
  "assign_task a t = t\<lparr>
     bt_Endpoint := opt_or (tp_Endpoint a) (bt_Endpoint t),
     bt_OutputFileID := opt_or (tp_OutputFileID a) (bt_OutputFileID t),
     bt_Status := opt_or (tp_Status a) (bt_Status t),
     bt_RequestCounts := (case tp_RequestCounts a of None \<Rightarrow> bt_RequestCounts t | Some c \<Rightarrow> Some c),
     bt_UsageInputTokens := opt_or (tp_UsageInputTokens a) (bt_UsageInputTokens t),
     bt_UsageOutputTokens := opt_or (tp_UsageOutputTokens a) (bt_UsageOutputTokens t),
     bt_UsageSource := opt_or (tp_UsageSource a) (bt_UsageSource t),
     bt_SettleUnits := opt_or (tp_SettleUnits a) (bt_SettleUnits t),
     bt_SettleStatus := opt_or (tp_SettleStatus a) (bt_SettleStatus t),
     bt_OverReserved := opt_or (tp_OverReserved a) (bt_OverReserved t),
     bt_UpdatedAt := opt_or (tp_UpdatedAt a) (bt_UpdatedAt t),
     bt_TerminalAt := (case tp_TerminalAt a of None \<Rightarrow> bt_TerminalAt t | Some x \<Rightarrow> Some x)\<rparr>"

section \<open>DAO functions of batch\_tasks\<close>

definition TBatchTaskOne :: "TBatchTaskParam \<Rightarrow> BatchTask table \<Rightarrow> BatchTask option" where
  "TBatchTaskOne w t = List.find (where_task w) (rows t)"

definition TBatchTaskList :: "TBatchTaskParam \<Rightarrow> BatchTask table \<Rightarrow> BatchTask list" where
  "TBatchTaskList w t =
     (let sel = filter (where_task w) (rows t);
          ord = (if tp_OrderById w then sort_key bt_ID sel else sel)
      in case tp_Limit w of None \<Rightarrow> ord | Some n \<Rightarrow> take n ord)"

definition TBatchTaskUpdate ::
  "bool \<Rightarrow> TBatchTaskParam \<Rightarrow> TBatchTaskParam \<Rightarrow> BatchTask table \<Rightarrow> nat \<times> BatchTask table" where
  "TBatchTaskUpdate isMySQL val w = exec_update isMySQL (where_task w) (assign_task val)"

text \<open>\<^verbatim>\<open>ON DUPLICATE KEY UPDATE\<close> / \<^verbatim>\<open>ON CONFLICT DO UPDATE\<close>: only the columns of the list change.\<close>

definition conflict_update :: "BatchTask \<Rightarrow> BatchTask \<Rightarrow> BatchTask" where
  "conflict_update new old = old\<lparr>
     bt_OutputFileID := bt_OutputFileID new,
     bt_Status := bt_Status new,
     bt_RequestCounts := bt_RequestCounts new,
     bt_EstLines := bt_EstLines new,
     bt_UsageInputTokens := bt_UsageInputTokens new,
     bt_UsageOutputTokens := bt_UsageOutputTokens new,
     bt_ReserveUnits := bt_ReserveUnits new,
     bt_SettleUnits := bt_SettleUnits new,
     bt_SettleStatus := bt_SettleStatus new,
     bt_UpdatedAt := bt_UpdatedAt new,
     bt_TerminalAt := bt_TerminalAt new\<rparr>"

definition insert_row :: "TBatchTaskParam \<Rightarrow> time \<Rightarrow> BatchTask" where
  "insert_row d now = \<lparr>bt_ID = 0,
     bt_BatchID = opt_or (tp_BatchID d) [], bt_APIKeyID = opt_or (tp_APIKeyID d) [],
     bt_ProductName = opt_or (tp_ProductName d) [], bt_EntityID = opt_or (tp_EntityID d) [],
     bt_Provider = opt_or (tp_Provider d) [], bt_KeyName = opt_or (tp_KeyName d) [],
     bt_Endpoint = opt_or (tp_Endpoint d) [], bt_InputFileID = opt_or (tp_InputFileID d) [],
     bt_OutputFileID = opt_or (tp_OutputFileID d) [], bt_Status = opt_or (tp_Status d) [],
     bt_RequestCounts = tp_RequestCounts d, bt_EstLines = opt_or (tp_EstLines d) 0,
     bt_UsageInputTokens = opt_or (tp_UsageInputTokens d) 0,
     bt_UsageOutputTokens = opt_or (tp_UsageOutputTokens d) 0,
     bt_UsageSource = opt_or (tp_UsageSource d) [], bt_ReserveUnits = opt_or (tp_ReserveUnits d) 0,
     bt_SettleUnits = opt_or (tp_SettleUnits d) 0, bt_SettleStatus = opt_or (tp_SettleStatus d) [],
     bt_OverReserved = opt_or (tp_OverReserved d) False,
     bt_SyncSource = opt_or (tp_SyncSource d) [], bt_IdemKey = opt_or (tp_IdemKey d) [],
     bt_CreatedAt = opt_or (tp_CreatedAt d) now, bt_UpdatedAt = opt_or (tp_UpdatedAt d) now,
     bt_TerminalAt = tp_TerminalAt d\<rparr>"

text \<open>
  The upsert by \<^verbatim>\<open>idem_key\<close>. The result is the new id, or 0 when an existing row was updated
  (no caller reads it).
\<close>

definition TBatchTaskUpsertByIdemKey ::
  "TBatchTaskParam \<Rightarrow> time \<Rightarrow> BatchTask table \<Rightarrow> (error + int) \<times> BatchTask table" where
  "TBatchTaskUpsertByIdemKey d now t =
     (if tp_IdemKey d = None \<or> tp_IdemKey d = Some [] then
        (Inl (ErrParam ''idem_key is required for upsert''), t)
      else
        (let r = insert_row d now; same = (\<lambda>x. bt_IdemKey x = bt_IdemKey r) in
         if List.find same (rows t) \<noteq> None then
           (Inr 0, t\<lparr>rows := update_where same (conflict_update r) (rows t)\<rparr>)
         else
           (Inr (next_id t),
            t\<lparr>rows := rows t @ [r\<lparr>bt_ID := next_id t\<rparr>], next_id := next_id t + 1\<rparr>)))"

definition TBatchTaskPreemptCancel ::
  "bool \<Rightarrow> string \<Rightarrow> string \<Rightarrow> string list \<Rightarrow> time \<Rightarrow> BatchTask table \<Rightarrow> nat \<times> BatchTask table" where
  "TBatchTaskPreemptCancel isMySQL batchID productName excluded now =
     exec_update isMySQL
       (\<lambda>r. bt_BatchID r = batchID \<and> bt_ProductName r = productName \<and> bt_Status r \<notin> set excluded)
       (\<lambda>r. r\<lparr>bt_Status := TaskStatusCancelling, bt_UpdatedAt := now\<rparr>)"

definition TBatchTaskUpdateSettleStatus ::
  "bool \<Rightarrow> string \<Rightarrow> string \<Rightarrow> string \<Rightarrow> TBatchTaskParam \<Rightarrow> BatchTask table \<Rightarrow> nat \<times> BatchTask table" where
  "TBatchTaskUpdateSettleStatus isMySQL batchID productName fromStatus assign =
     exec_update isMySQL
       (\<lambda>r. bt_BatchID r = batchID \<and> bt_ProductName r = productName \<and> bt_SettleStatus r = fromStatus)
       (assign_task assign)"

section \<open>Conversions of storage/rdb/batch\<close>

definition batchTaskFilterToParam :: "BatchTaskFilter \<Rightarrow> TBatchTaskParam" where
  "batchTaskFilterToParam f = no_task_param\<lparr>
     tp_ID := flt_ID f, tp_BatchID := flt_BatchID f, tp_IdemKey := flt_IdemKey f,
     tp_APIKeyID := flt_APIKeyID f, tp_ProductName := flt_ProductName f,
     tp_EntityID := flt_EntityID f, tp_Provider := flt_Provider f, tp_Status := flt_Status f,
     tp_SettleStatus := flt_SettleStatus f, tp_CreatedAtGTE := flt_CreatedStart f,
     tp_CreatedAtLTE := flt_CreatedEnd f, tp_StatusIn := flt_StatusIn f,
     tp_StatusNotIn := flt_StatusNotIn f, tp_IDGT := flt_CursorID f\<rparr>"

definition batchTaskDataToParam :: "BatchTask \<Rightarrow> TBatchTaskParam" where
  "batchTaskDataToParam t = no_task_param\<lparr>
     tp_BatchID := Some (bt_BatchID t), tp_APIKeyID := Some (bt_APIKeyID t),
     tp_ProductName := Some (bt_ProductName t), tp_EntityID := Some (bt_EntityID t),
     tp_Provider := Some (bt_Provider t), tp_KeyName := Some (bt_KeyName t),
     tp_Endpoint := Some (bt_Endpoint t), tp_InputFileID := Some (bt_InputFileID t),
     tp_OutputFileID := Some (bt_OutputFileID t), tp_Status := Some (bt_Status t),
     tp_EstLines := Some (bt_EstLines t), tp_UsageInputTokens := Some (bt_UsageInputTokens t),
     tp_UsageOutputTokens := Some (bt_UsageOutputTokens t),
     tp_UsageSource := Some (bt_UsageSource t), tp_ReserveUnits := Some (bt_ReserveUnits t),
     tp_SettleUnits := Some (bt_SettleUnits t), tp_SettleStatus := Some (bt_SettleStatus t),
     tp_OverReserved := Some (bt_OverReserved t), tp_SyncSource := Some (bt_SyncSource t),
     tp_IdemKey := Some (bt_IdemKey t), tp_TerminalAt := bt_TerminalAt t,
     tp_CreatedAt := (if IsZero (bt_CreatedAt t) then None else Some (bt_CreatedAt t)),
     tp_UpdatedAt := (if IsZero (bt_UpdatedAt t) then None else Some (bt_UpdatedAt t)),
     tp_RequestCounts := (case bt_RequestCounts t of
        Some c \<Rightarrow> if length c > 0 then Some c else None | None \<Rightarrow> None)\<rparr>"

definition settlePatchToParam :: "BatchSettlePatch \<Rightarrow> time \<Rightarrow> TBatchTaskParam" where
  "settlePatchToParam p now = no_task_param\<lparr>
     tp_SettleStatus := Some (sp_SettleStatus p), tp_SettleUnits := sp_SettleUnits p,
     tp_UsageInputTokens := sp_UsageInputTokens p, tp_UsageOutputTokens := sp_UsageOutputTokens p,
     tp_UsageSource := sp_UsageSource p, tp_OverReserved := sp_OverReserved p,
     tp_TerminalAt := sp_TerminalAt p, tp_UpdatedAt := Some now\<rparr>"

definition progressPatchToParam :: "BatchTaskProgressPatch \<Rightarrow> time \<Rightarrow> TBatchTaskParam" where
  "progressPatchToParam p now = no_task_param\<lparr>
     tp_Status := pp_Status p, tp_OutputFileID := pp_OutputFileID p, tp_Endpoint := pp_Endpoint p,
     tp_TerminalAt := pp_TerminalAt p, tp_UpdatedAt := Some now,
     tp_RequestCounts := pp_RequestCounts p\<rparr>"

section \<open>DAO functions of batch\_files\<close>

record TBatchFileParam =
  fp_ID :: "int option"
  fp_FileID :: "string option"
  fp_Provider :: "string option"
  fp_KeyName :: "string option"
  fp_APIKeyID :: "string option"
  fp_ProductName :: "string option"
  fp_Direction :: "string option"
  fp_Purpose :: "string option"
  fp_Filename :: "string option"
  fp_Lines :: "i64 option"
  fp_Bytes :: "i64 option"
  fp_FirstSeenAt :: "time option"
  fp_LastSeenAt :: "time option"
  fp_CreatedAt :: "time option"
  fp_UpdatedAt :: "time option"

definition no_file_param :: TBatchFileParam where
  "no_file_param = \<lparr>fp_ID = None, fp_FileID = None, fp_Provider = None, fp_KeyName = None,
     fp_APIKeyID = None, fp_ProductName = None, fp_Direction = None, fp_Purpose = None,
     fp_Filename = None, fp_Lines = None, fp_Bytes = None, fp_FirstSeenAt = None,
     fp_LastSeenAt = None, fp_CreatedAt = None, fp_UpdatedAt = None\<rparr>"

definition batchFileFilterToParam :: "BatchFileFilter \<Rightarrow> TBatchFileParam" where
  "batchFileFilterToParam f = no_file_param\<lparr>
     fp_ID := ff_ID f, fp_FileID := ff_FileID f, fp_Provider := ff_Provider f,
     fp_APIKeyID := ff_APIKeyID f, fp_ProductName := ff_ProductName f,
     fp_Direction := ff_Direction f\<rparr>"

definition batchFileDataToParam :: "BatchFile \<Rightarrow> TBatchFileParam" where
  "batchFileDataToParam f = no_file_param\<lparr>
     fp_FileID := Some (bf_FileID f), fp_Provider := Some (bf_Provider f),
     fp_KeyName := Some (bf_KeyName f), fp_APIKeyID := Some (bf_APIKeyID f),
     fp_ProductName := Some (bf_ProductName f), fp_Direction := Some (bf_Direction f),
     fp_Purpose := Some (bf_Purpose f), fp_Filename := Some (bf_Filename f),
     fp_Lines := Some (bf_Lines f), fp_Bytes := Some (bf_Bytes f),
     fp_FirstSeenAt := bf_FirstSeenAt f, fp_LastSeenAt := bf_LastSeenAt f,
     fp_CreatedAt := (if IsZero (bf_CreatedAt f) then None else Some (bf_CreatedAt f)),
     fp_UpdatedAt := (if IsZero (bf_UpdatedAt f) then None else Some (bf_UpdatedAt f))\<rparr>"

definition where_file :: "TBatchFileParam \<Rightarrow> BatchFile \<Rightarrow> bool" where
  "where_file w f \<longleftrightarrow>
     opt_eq (fp_ID w) (bf_ID f) \<and> opt_eq (fp_FileID w) (bf_FileID f)
   \<and> opt_eq (fp_Provider w) (bf_Provider f) \<and> opt_eq (fp_APIKeyID w) (bf_APIKeyID f)
   \<and> opt_eq (fp_ProductName w) (bf_ProductName f) \<and> opt_eq (fp_Direction w) (bf_Direction f)"

definition TBatchFileOne :: "TBatchFileParam \<Rightarrow> BatchFile table \<Rightarrow> BatchFile option" where
  "TBatchFileOne w t = List.find (where_file w) (rows t)"

definition TBatchFileList :: "TBatchFileParam \<Rightarrow> BatchFile table \<Rightarrow> BatchFile list" where
  "TBatchFileList w t = sort_key bf_ID (filter (where_file w) (rows t))"

text \<open>The conflict update of a file row; an empty file name does not overwrite a stored one.\<close>

definition file_conflict_update :: "BatchFile \<Rightarrow> BatchFile \<Rightarrow> BatchFile" where
  "file_conflict_update new old = old\<lparr>
     bf_KeyName := bf_KeyName new, bf_APIKeyID := bf_APIKeyID new,
     bf_ProductName := bf_ProductName new, bf_Direction := bf_Direction new,
     bf_Purpose := bf_Purpose new,
     bf_Filename := (if bf_Filename new = [] then bf_Filename old else bf_Filename new),
     bf_Lines := bf_Lines new, bf_Bytes := bf_Bytes new,
     bf_LastSeenAt := bf_LastSeenAt new, bf_UpdatedAt := bf_UpdatedAt new\<rparr>"

definition insert_file_row :: "TBatchFileParam \<Rightarrow> time \<Rightarrow> BatchFile" where
  "insert_file_row d now = \<lparr>bf_ID = 0,
     bf_FileID = opt_or (fp_FileID d) [], bf_Provider = opt_or (fp_Provider d) [],
     bf_KeyName = opt_or (fp_KeyName d) [], bf_APIKeyID = opt_or (fp_APIKeyID d) [],
     bf_ProductName = opt_or (fp_ProductName d) [], bf_Direction = opt_or (fp_Direction d) [],
     bf_Purpose = opt_or (fp_Purpose d) [], bf_Filename = opt_or (fp_Filename d) [],
     bf_Lines = opt_or (fp_Lines d) 0, bf_Bytes = opt_or (fp_Bytes d) 0,
     bf_FirstSeenAt = fp_FirstSeenAt d, bf_LastSeenAt = fp_LastSeenAt d,
     bf_CreatedAt = opt_or (fp_CreatedAt d) now, bf_UpdatedAt = opt_or (fp_UpdatedAt d) now\<rparr>"

definition TBatchFileUpsertByFileProvider ::
  "TBatchFileParam \<Rightarrow> time \<Rightarrow> BatchFile table \<Rightarrow> (error + int) \<times> BatchFile table" where
  "TBatchFileUpsertByFileProvider d now t =
     (if fp_FileID d = None \<or> fp_FileID d = Some [] \<or> fp_Provider d = None \<or> fp_Provider d = Some []
      then (Inl (ErrParam ''file_id and provider are required for upsert''), t)
      else
        (let r = insert_file_row d now;
             same = (\<lambda>x. bf_FileID x = bf_FileID r \<and> bf_Provider x = bf_Provider r) in
         if List.find same (rows t) \<noteq> None then
           (Inr 0, t\<lparr>rows := update_where same (file_conflict_update r) (rows t)\<rparr>)
         else
           (Inr (next_id t),
            t\<lparr>rows := rows t @ [r\<lparr>bf_ID := next_id t\<rparr>], next_id := next_id t + 1\<rparr>)))"

section \<open>The two tables provide the interface\<close>

definition wf_tasks :: "BatchTask table \<Rightarrow> bool" where
  "wf_tasks t \<longleftrightarrow> distinct (map bt_IdemKey (rows t)) \<and> distinct (map bt_ID (rows t))
     \<and> 0 < next_id t \<and> (\<forall>r\<in>set (rows t). 0 < bt_ID r \<and> bt_ID r < next_id t)"

definition lookup_task :: "BatchTask table \<Rightarrow> string \<Rightarrow> BatchTask option" where
  "lookup_task t k = List.find (\<lambda>x. bt_IdemKey x = k) (rows t)"

definition put_task :: "time \<Rightarrow> BatchTask \<Rightarrow> BatchTask table \<Rightarrow> BatchTask table" where
  "put_task now r t = snd (TBatchTaskUpsertByIdemKey (batchTaskDataToParam r) now t)"

definition stored_task :: "time \<Rightarrow> BatchTask table \<Rightarrow> BatchTask \<Rightarrow> BatchTask" where
  "stored_task now t r = (let n = insert_row (batchTaskDataToParam r) now in
     case lookup_task t (bt_IdemKey r) of
       Some old \<Rightarrow> conflict_update n old | None \<Rightarrow> n\<lparr>bt_ID := next_id t\<rparr>)"

definition wf_files :: "BatchFile table \<Rightarrow> bool" where
  "wf_files t \<longleftrightarrow> distinct (map (\<lambda>f. (bf_FileID f, bf_Provider f)) (rows t))"

definition lookup_file :: "BatchFile table \<Rightarrow> string \<times> string \<Rightarrow> BatchFile option" where
  "lookup_file t k = List.find (\<lambda>x. (bf_FileID x, bf_Provider x) = k) (rows t)"

definition put_file :: "time \<Rightarrow> BatchFile \<Rightarrow> BatchFile table \<Rightarrow> BatchFile table" where
  "put_file now r t = snd (TBatchFileUpsertByFileProvider (batchFileDataToParam r) now t)"

definition stored_file :: "time \<Rightarrow> BatchFile table \<Rightarrow> BatchFile \<Rightarrow> BatchFile" where
  "stored_file now t r = (let n = insert_file_row (batchFileDataToParam r) now in
     case lookup_file t (bf_FileID r, bf_Provider r) of
       Some old \<Rightarrow> file_conflict_update n old | None \<Rightarrow> n\<lparr>bf_ID := next_id t\<rparr>)"

lemma conflict_update_keeps [simp]:
  "bt_IdemKey (conflict_update n x) = bt_IdemKey x" "bt_ID (conflict_update n x) = bt_ID x"
  "bt_BatchID (conflict_update n x) = bt_BatchID x"
  "bt_ProductName (conflict_update n x) = bt_ProductName x"
  by (simp_all add: conflict_update_def)

lemma assign_task_keeps [simp]:
  "bt_IdemKey (assign_task a x) = bt_IdemKey x" "bt_ID (assign_task a x) = bt_ID x"
  "bt_BatchID (assign_task a x) = bt_BatchID x"
  "bt_ProductName (assign_task a x) = bt_ProductName x"
  by (simp_all add: assign_task_def)

lemma insert_row_keys [simp]:
  "bt_IdemKey (insert_row (batchTaskDataToParam r) now) = bt_IdemKey r"
  "bt_BatchID (insert_row (batchTaskDataToParam r) now) = bt_BatchID r"
  "bt_Status (insert_row (batchTaskDataToParam r) now) = bt_Status r"
  "bt_SettleStatus (insert_row (batchTaskDataToParam r) now) = bt_SettleStatus r"
  "bt_TerminalAt (insert_row (batchTaskDataToParam r) now) = bt_TerminalAt r"
  by (simp_all add: insert_row_def batchTaskDataToParam_def no_task_param_def)

lemma file_keys [simp]:
  "bf_FileID (insert_file_row (batchFileDataToParam r) now) = bf_FileID r"
  "bf_Provider (insert_file_row (batchFileDataToParam r) now) = bf_Provider r"
  "bf_FileID (file_conflict_update n x) = bf_FileID x"
  "bf_Provider (file_conflict_update n x) = bf_Provider x"
  by (simp_all add: insert_file_row_def batchFileDataToParam_def no_file_param_def
      file_conflict_update_def)

lemma put_task_eq:
  "put_task now r t =
     (if bt_IdemKey r = [] then t
      else (let n = insert_row (batchTaskDataToParam r) now in
        case lookup_task t (bt_IdemKey r) of
          Some old \<Rightarrow>
            t\<lparr>rows := update_where (\<lambda>x. bt_IdemKey x = bt_IdemKey r) (conflict_update n) (rows t)\<rparr>
        | None \<Rightarrow> t\<lparr>rows := rows t @ [n\<lparr>bt_ID := next_id t\<rparr>], next_id := next_id t + 1\<rparr>))"
proof -
  have "tp_IdemKey (batchTaskDataToParam r) = Some (bt_IdemKey r)"
    by (simp add: batchTaskDataToParam_def)
  then show ?thesis
    by (simp add: put_task_def TBatchTaskUpsertByIdemKey_def lookup_task_def Let_def
        split: option.split)
qed

lemma put_file_eq:
  "put_file now r t =
     (if bf_FileID r = [] \<or> bf_Provider r = [] then t
      else (let n = insert_file_row (batchFileDataToParam r) now in
        case lookup_file t (bf_FileID r, bf_Provider r) of
          Some old \<Rightarrow>
            t\<lparr>rows := update_where (\<lambda>x. bf_FileID x = bf_FileID r \<and> bf_Provider x = bf_Provider r)
                 (file_conflict_update n) (rows t)\<rparr>
        | None \<Rightarrow> t\<lparr>rows := rows t @ [n\<lparr>bf_ID := next_id t\<rparr>], next_id := next_id t + 1\<rparr>))"
proof -
  have "fp_FileID (batchFileDataToParam r) = Some (bf_FileID r)"
    "fp_Provider (batchFileDataToParam r) = Some (bf_Provider r)"
    by (simp_all add: batchFileDataToParam_def)
  then show ?thesis
    by (simp add: put_file_def TBatchFileUpsertByFileProvider_def lookup_file_def Let_def
        split: option.split)
qed

lemma wf_put_task: "wf_tasks t \<Longrightarrow> wf_tasks (put_task now r t)"
  by (auto simp: put_task_eq wf_tasks_def lookup_task_def Let_def map_update_where in_update_where
      find_None_iff split: option.splits)

lemma lookup_put_task_other:
  "k \<noteq> bt_IdemKey r \<Longrightarrow> lookup_task (put_task now r t) k = lookup_task t k"
  by (auto simp: put_task_eq lookup_task_def Let_def find_append_snoc
      find_update_where_disjoint split: option.splits)

lemma lookup_put_task_same:
  "bt_IdemKey r \<noteq> [] \<Longrightarrow> lookup_task (put_task now r t) (bt_IdemKey r) = Some (stored_task now t r)"
  by (auto simp: put_task_eq stored_task_def lookup_task_def Let_def find_update_where_same
      find_append_snoc split: option.splits)

lemma put_task_unusable: "bt_IdemKey r = [] \<Longrightarrow> put_task now r t = t"
  by (simp add: put_task_eq)

interpretation task_table: keyed_table wf_tasks lookup_task "put_task now" bt_IdemKey
  "stored_task now" "\<lambda>r. bt_IdemKey r \<noteq> []" for now
  by unfold_locales
    (simp_all add: wf_put_task lookup_put_task_same lookup_put_task_other put_task_unusable)

lemma wf_put_file: "wf_files t \<Longrightarrow> wf_files (put_file now r t)"
  by (auto simp: put_file_eq wf_files_def lookup_file_def Let_def map_update_where in_update_where
      find_None_iff split: option.splits)

lemma lookup_put_file_other:
  assumes "k \<noteq> (bf_FileID r, bf_Provider r)"
  shows "lookup_file (put_file now r t) k = lookup_file t k"
proof -
  let ?n = "insert_file_row (batchFileDataToParam r) now"
  have "List.find (\<lambda>x. (bf_FileID x, bf_Provider x) = k)
      (update_where (\<lambda>x. bf_FileID x = bf_FileID r \<and> bf_Provider x = bf_Provider r)
        (file_conflict_update ?n) (rows t))
    = List.find (\<lambda>x. (bf_FileID x, bf_Provider x) = k) (rows t)"
    using assms by (intro find_update_where_disjoint) auto
  with assms show ?thesis
    by (auto simp: put_file_eq lookup_file_def Let_def find_append_snoc split: option.split)
qed

lemma lookup_put_file_same:
  "bf_FileID r \<noteq> [] \<Longrightarrow> bf_Provider r \<noteq> [] \<Longrightarrow>
   lookup_file (put_file now r t) (bf_FileID r, bf_Provider r) = Some (stored_file now t r)"
  by (auto simp: put_file_eq stored_file_def lookup_file_def Let_def find_update_where_same
      find_append_snoc split: option.splits)

lemma put_file_unusable: "bf_FileID r = [] \<or> bf_Provider r = [] \<Longrightarrow> put_file now r t = t"
  by (simp add: put_file_eq)

interpretation file_table: keyed_table wf_files lookup_file "put_file now"
  "\<lambda>f. (bf_FileID f, bf_Provider f)" "stored_file now"
  "\<lambda>f. bf_FileID f \<noteq> [] \<and> bf_Provider f \<noteq> []" for now
  by unfold_locales
    (auto simp: wf_put_file lookup_put_file_same lookup_put_file_other put_file_unusable)

lemma wf_exec_update:
  assumes "wf_tasks t" "\<And>x. bt_IdemKey (f x) = bt_IdemKey x" "\<And>x. bt_ID (f x) = bt_ID x"
  shows "wf_tasks (snd (exec_update my p f t))"
  using assms by (auto simp: wf_tasks_def exec_update_def map_update_where in_update_where)

lemma TBatchTaskList_sub: "set (TBatchTaskList w t) \<subseteq> {r \<in> set (rows t). where_task w r}"
  by (auto simp: TBatchTaskList_def Let_def split: option.splits if_splits dest: in_set_takeD)

lemma distinct_TBatchTaskList:
  assumes "wf_tasks t" shows "distinct (map bt_ID (TBatchTaskList w t))"
proof -
  have d: "distinct (map bt_ID (filter (where_task w) (rows t)))"
    using assms by (simp add: wf_tasks_def distinct_map_filter)
  have "distinct (map bt_ID (sort_key bt_ID xs))" if "distinct (map bt_ID xs)" for xs
    using that by (simp add: distinct_map)
  with d show ?thesis
    by (auto simp: TBatchTaskList_def Let_def take_map [symmetric] split: option.splits)
qed

lemma TBatchTaskList_sorted:
  "tp_OrderById w \<Longrightarrow> sorted (map bt_ID (TBatchTaskList w t))"
  by (auto simp: TBatchTaskList_def Let_def take_map [symmetric] sorted_wrt_take split: option.splits)

end
