(* ===== verification/BatchWorld.thy ===== *)
theory BatchWorld
  imports BatchStore
begin

text \<open>
  The state that the batch manager works on and the calls it makes: the two tables, one Redis key
  space, the requests sent to providers and the audit log (the record \<open>world\<close>); the injected
  dependencies of \<^verbatim>\<open>manager.go\<close> (the record \<open>Manager\<close>); the methods of \<^verbatim>\<open>BatchStorager\<close>
  (\<^verbatim>\<open>storage/rdb/batch\<close>) and of \<^verbatim>\<open>RedisClient\<close> (\<^verbatim>\<open>redis_adapter.go\<close>) as calls that may
  fault; and the HTTP client. Key expiry is not modelled: a key that expires is a key that is absent at the
  start of an operation. The clock reading is constant during one operation.
\<close>

section \<open>Data of the neighbours\<close>

text \<open>Redis values: a hash, or a string that holds a number.\<close>

datatype rval = RHash "(string \<times> string) list" | RInt int

record http_request =
  hr_Method :: string
  hr_URL :: string
  hr_Header :: "(string \<times> string) list"

text \<open>The fields of \<^verbatim>\<open>iprovider.Provider\<close> that this component reads.\<close>

record ProviderKey =
  pk_Name :: string
  pk_Key :: string

record ProviderInstance =
  pi_Addr :: string
  pi_Port :: int
  pi_Weight :: i64
  pi_Disable :: bool

record Provider =
  pv_Name :: string
  pv_Keys :: "ProviderKey list"
  pv_InstancePool :: "ProviderInstance list"
  pv_InstanceSource :: string
  pv_K8sInstancePool :: "ProviderInstance list"
  pv_ProtocolPaths :: "(string \<times> string) list"

record providerAccess =
  pa_baseURL :: string
  pa_path :: string
  pa_authHeader :: string
  pa_authValue :: string

text \<open>The owner columns of \<^verbatim>\<open>api_key.APIKeyParam\<close>.\<close>

record APIKeyColumns =
  ak_ProductName :: "string option"
  ak_EntityID :: "string option"

text \<open>Decoded JSON: the provider's batch object and one row of a result file.\<close>

record providerBatchResponse =
  pb_ID :: string
  pb_Status :: string
  pb_OutputFileID :: string
  pb_Endpoint :: string
  pb_RequestCounts :: "counts option"

record usageTokens =
  ut_PromptTokens :: i64
  ut_CompletionTokens :: i64

record responseBody =
  rb_Model :: string
  rb_Usage :: "usageTokens option"

record resultResponse =
  rr_Model :: string
  rr_Usage :: "usageTokens option"
  rr_Body :: "responseBody option"

record batchResultRow =
  row_Response :: "resultResponse option"

text \<open>An entry of \<^verbatim>\<open>operation_logs\<close>, as the cancel path writes it.\<close>

record OperationLogEntry =
  ol_ResourceID :: string
  ol_Before :: "string option"
  ol_After :: string
  ol_Error :: "error option"

section \<open>State and manager\<close>

record world = env +
  tasks :: "BatchTask table"
  files :: "BatchFile table"
  redis :: "(string \<times> rval) list"
  http_log :: "http_request list"
  op_log :: "OperationLogEntry list"
  ak_cache :: "(string \<times> APIKeyColumns option) list"
  access_cache :: "(string \<times> providerAccess) list"
  clock :: time
  isMySQL :: bool
  job_lock :: bool

text \<open>
  The manager's dependencies. What lies outside the repository or in a component that is not
  modelled here is a function: the provider and price records, the API keys, whether \<^verbatim>\<open>url.Parse\<close> accepts a URL, the upstream (which may
  answer by the requests it saw before), the JSON and RFC 3339 decoders and
  \<^verbatim>\<open>golibquota.CalcCostUnits\<close>.
\<close>

record Manager =
  mg_redis :: bool
  mg_scanner :: bool
  mg_apiKeys :: "string \<Rightarrow> APIKeyColumns list"
  mg_providers :: "(string \<Rightarrow> Provider option) option"
  mg_prices :: "(string \<Rightarrow> string \<Rightarrow> (string \<times> rat) list option) option"
  mg_validURL :: "string \<Rightarrow> bool"
  mg_upstream :: "http_request list \<Rightarrow> http_request \<Rightarrow> (int \<times> string) option"
  mg_decodeBatch :: "string \<Rightarrow> providerBatchResponse option"
  mg_decodeRow :: "string \<Rightarrow> batchResultRow option"
  mg_decodeCounts :: "string \<Rightarrow> counts option"
  mg_parseRFC3339 :: "string \<Rightarrow> time option"
  mg_CalcCostUnits :: "i64 \<Rightarrow> rat \<Rightarrow> i64"
  mg_operationLog :: bool
  mg_providerTimeout :: duration
  mg_settleGrace :: duration
  mg_advanceLimit :: int
  mg_reconcileLimit :: int
  mg_scanCount :: int
  mg_maxOutputLineBytes :: int

datatype ManagerOption =
    WithProviderTimeout duration
  | WithSettleGrace duration
  | WithAdvanceLimit int
  | WithReconcileLimit int
  | WithScanCount int
  | WithMaxOutputLineBytes int

fun apply_option :: "ManagerOption \<Rightarrow> Manager \<Rightarrow> Manager" where
  "apply_option (WithProviderTimeout d) m = (if d > 0 then m\<lparr>mg_providerTimeout := d\<rparr> else m)"
| "apply_option (WithSettleGrace d) m = (if d > 0 then m\<lparr>mg_settleGrace := d\<rparr> else m)"
| "apply_option (WithAdvanceLimit n) m = (if n > 0 then m\<lparr>mg_advanceLimit := n\<rparr> else m)"
| "apply_option (WithReconcileLimit n) m = (if n > 0 then m\<lparr>mg_reconcileLimit := n\<rparr> else m)"
| "apply_option (WithScanCount n) m = (if n > 0 then m\<lparr>mg_scanCount := n\<rparr> else m)"
| "apply_option (WithMaxOutputLineBytes n) m =
     (if n > 0 then m\<lparr>mg_maxOutputLineBytes := n\<rparr> else m)"

text \<open>\<^verbatim>\<open>NewManager\<close>: the defaults, then the options in order.\<close>

definition NewManager :: "Manager \<Rightarrow> ManagerOption list \<Rightarrow> Manager" where
  "NewManager deps opts = fold apply_option opts (deps\<lparr>
     mg_providerTimeout := 10 * nsSecond, mg_settleGrace := 30 * 60 * nsSecond,
     mg_advanceLimit := 50, mg_reconcileLimit := 50, mg_scanCount := 200,
     mg_maxOutputLineBytes := 4194304\<rparr>)"

definition positive_limits :: "Manager \<Rightarrow> bool" where
  "positive_limits m \<longleftrightarrow> 0 < mg_providerTimeout m \<and> 0 < mg_settleGrace m \<and> 0 < mg_advanceLimit m
     \<and> 0 < mg_reconcileLimit m \<and> 0 < mg_scanCount m \<and> 0 < mg_maxOutputLineBytes m"

lemma apply_option_positive: "positive_limits m \<Longrightarrow> positive_limits (apply_option opt m)"
  by (cases opt) (auto simp: positive_limits_def)

lemma NewManager_positive: "positive_limits (NewManager deps opts)"
proof -
  have "positive_limits (fold apply_option opts m)" if "positive_limits m" for m
    using that by (induction opts arbitrary: m) (auto intro: apply_option_positive)
  then show ?thesis by (simp add: NewManager_def positive_limits_def nsSecond_def)
qed

section \<open>BatchStorager\<close>

type_synonym 'a io = "(world, error + 'a) state"

definition UpsertBatchTask :: "BatchTask \<Rightarrow> int io" where
  "UpsertBatchTask task = ext_call (\<lambda>s.
     case TBatchTaskUpsertByIdemKey (batchTaskDataToParam task) (clock s) (tasks s) of
       (r, t) \<Rightarrow> (r, s\<lparr>tasks := t\<rparr>))"

definition FetchBatchTask :: "BatchTaskFilter \<Rightarrow> BatchTask option io" where
  "FetchBatchTask flt = ext_call (\<lambda>s.
     (Inr (TBatchTaskOne (batchTaskFilterToParam flt) (tasks s)), s))"

definition ListBatchTasks :: "BatchTaskFilter \<Rightarrow> BatchTask list io" where
  "ListBatchTasks flt = ext_call (\<lambda>s.
     (Inr (TBatchTaskList ((batchTaskFilterToParam flt)\<lparr>tp_OrderById := True,
        tp_Limit := (if flt_Limit flt > 0 then Some (nat (flt_Limit flt)) else None)\<rparr>)
        (tasks s)), s))"

definition PreemptBatchTaskCancel :: "string \<Rightarrow> string \<Rightarrow> nat io" where
  "PreemptBatchTaskCancel batchID productName = ext_call (\<lambda>s.
     case TBatchTaskPreemptCancel (isMySQL s) batchID productName
            (TerminalStatuses @ [TaskStatusCancelling]) (clock s) (tasks s) of
       (n, t) \<Rightarrow> (Inr n, s\<lparr>tasks := t\<rparr>))"

definition UpdateBatchTaskSettleStatus ::
  "string \<Rightarrow> string \<Rightarrow> string \<Rightarrow> BatchSettlePatch \<Rightarrow> nat io" where
  "UpdateBatchTaskSettleStatus batchID productName fromStatus patch = ext_call (\<lambda>s.
     case TBatchTaskUpdateSettleStatus (isMySQL s) batchID productName fromStatus
            (settlePatchToParam patch (clock s)) (tasks s) of
       (n, t) \<Rightarrow> (Inr n, s\<lparr>tasks := t\<rparr>))"

definition UpdateBatchTaskProgress :: "int \<Rightarrow> BatchTaskProgressPatch \<Rightarrow> nat io" where
  "UpdateBatchTaskProgress taskID patch = ext_call (\<lambda>s.
     case TBatchTaskUpdate (isMySQL s) (progressPatchToParam patch (clock s))
            (no_task_param\<lparr>tp_ID := Some taskID\<rparr>) (tasks s) of
       (n, t) \<Rightarrow> (Inr n, s\<lparr>tasks := t\<rparr>))"

definition UpsertBatchFile :: "BatchFile \<Rightarrow> int io" where
  "UpsertBatchFile file = ext_call (\<lambda>s.
     case TBatchFileUpsertByFileProvider (batchFileDataToParam file) (clock s) (files s) of
       (r, t) \<Rightarrow> (r, s\<lparr>files := t\<rparr>))"

definition FetchBatchFile :: "BatchFileFilter \<Rightarrow> BatchFile option io" where
  "FetchBatchFile flt = ext_call (\<lambda>s.
     (Inr (TBatchFileOne (batchFileFilterToParam flt) (files s)), s))"

definition ListBatchFiles :: "BatchFileFilter \<Rightarrow> BatchFile list io" where
  "ListBatchFiles flt = ext_call (\<lambda>s.
     (Inr (TBatchFileList (batchFileFilterToParam flt) (files s)), s))"

section \<open>RedisClient\<close>

definition redis_get :: "(string \<times> rval) list \<Rightarrow> string \<Rightarrow> rval option" where
  "redis_get r k = map_of r k"

definition redis_del :: "string \<Rightarrow> (string \<times> rval) list \<Rightarrow> (string \<times> rval) list" where
  "redis_del k r = filter (\<lambda>p. fst p \<noteq> k) r"

text \<open>HGETALL: a missing key is an empty map; another type is a \<^verbatim>\<open>WRONGTYPE\<close> error.\<close>

definition HGetAll :: "string \<Rightarrow> (string \<times> string) list io" where
  "HGetAll key = ext_call (\<lambda>s. case redis_get (redis s) key of
       None \<Rightarrow> (Inr [], s)
     | Some (RHash h) \<Rightarrow> (Inr h, s)
     | Some (RInt _) \<Rightarrow> (Inl ErrInfra, s))"

definition HSetWithTTL :: "string \<Rightarrow> (string \<times> string) list \<Rightarrow> unit io" where
  "HSetWithTTL key flds = ext_call (\<lambda>s. case redis_get (redis s) key of
       None \<Rightarrow> (Inr (), s\<lparr>redis := alist_set key (RHash (fold (\<lambda>(k, v). alist_set k v) flds []))
                  (redis s)\<rparr>)
     | Some (RHash h) \<Rightarrow>
         (Inr (), s\<lparr>redis := alist_set key (RHash (fold (\<lambda>(k, v). alist_set k v) flds h))
            (redis s)\<rparr>)
     | Some (RInt _) \<Rightarrow> (Inl ErrInfra, s))"

text \<open>\<^verbatim>\<open>SET key 1 NX EX ttl\<close>.\<close>

definition SetNXWithTTL :: "string \<Rightarrow> bool io" where
  "SetNXWithTTL key = ext_call (\<lambda>s. case redis_get (redis s) key of
       None \<Rightarrow> (Inr True, s\<lparr>redis := alist_set key (RInt 1) (redis s)\<rparr>)
     | Some _ \<Rightarrow> (Inr False, s))"

text \<open>The Lua script \<^verbatim>\<open>luaAdapterReserveDecr\<close>: the decrement is clamped to the current value.\<close>

definition reserve_decr :: "int \<Rightarrow> int \<Rightarrow> int \<times> int" where
  "reserve_decr cur delta = (let d = min cur delta in (d, if d > 0 then cur - d else cur))"

definition ReserveDecr :: "string \<Rightarrow> i64 \<Rightarrow> int io" where
  "ReserveDecr key delta = ext_call (\<lambda>s. case redis_get (redis s) key of
       None \<Rightarrow> (Inr 0, s)
     | Some (RInt cur) \<Rightarrow> (case reserve_decr cur (sint delta) of
         (d, new) \<Rightarrow> (Inr d, s\<lparr>redis := alist_set key (RInt new) (redis s)\<rparr>))
     | Some (RHash _) \<Rightarrow> (Inl ErrInfra, s))"

definition Delete :: "string \<Rightarrow> unit io" where
  "Delete key = ext_call (\<lambda>s. (Inr (), s\<lparr>redis := redis_del key (redis s)\<rparr>))"

text \<open>
  \<^verbatim>\<open>RedigoScanner.Scan\<close> with the pattern \<^verbatim>\<open>prefix*\<close>: the first call returns every key and the
  cursor 0, a call with another cursor returns nothing.
\<close>

definition Scan :: "Manager \<Rightarrow> nat \<Rightarrow> string \<Rightarrow> (nat \<times> string list) io" where
  "Scan m cursor pref =
     (if \<not> mg_scanner m then returnE (0, [])
      else if cursor \<noteq> 0 then returnE (0, [])
      else ext_call (\<lambda>s. (Inr (0, filter (\<lambda>k. HasPrefix k pref) (map fst (redis s))), s)))"

section \<open>The HTTP client\<close>

text \<open>
  \<^verbatim>\<open>net/http\<close> refuses a request with an invalid header field name (RFC 7230 token, at least one
  byte) before anything is sent.
\<close>

definition header_token_char :: "char \<Rightarrow> bool" where
  "header_token_char c \<longleftrightarrow>
     (CHR ''0'' \<le> c \<and> c \<le> CHR ''9'') \<or> (CHR ''A'' \<le> c \<and> c \<le> CHR ''Z'')
   \<or> (CHR ''a'' \<le> c \<and> c \<le> CHR ''z'') \<or> c \<in> set ''!#$%&*+-.^_|~'' \<or> c = CHR 0x27 \<or> c = CHR 0x60"

definition valid_header_name :: "string \<Rightarrow> bool" where
  "valid_header_name n \<longleftrightarrow> n \<noteq> [] \<and> list_all header_token_char n"

definition http_Do :: "Manager \<Rightarrow> http_request \<Rightarrow> (int \<times> string) io" where
  "http_Do m req =
     (if \<not> list_all (\<lambda>h. valid_header_name (fst h)) (hr_Header req) then
        throwE (ErrMsg ''net/http: invalid header field name'')
      else ext_call (\<lambda>s.
        (case mg_upstream m (http_log s) req of None \<Rightarrow> Inl ErrInfra | Some r \<Rightarrow> Inr r,
         s\<lparr>http_log := http_log s @ [req]\<rparr>)))"

lemma valid_Authorization [simp]: "valid_header_name ''Authorization''"
  by (simp add: valid_header_name_def header_token_char_def less_eq_char_def)

lemma invalid_empty_header [simp]: "\<not> valid_header_name []"
  by (simp add: valid_header_name_def)

end
