(* ===== verification/BatchProvider.thy ===== *)
theory BatchProvider
  imports BatchWorld
begin

text \<open>
  Reaching a provider (\<^verbatim>\<open>cancel.go\<close>, \<^verbatim>\<open>advance.go\<close>): the choice of instance and key, the URL and
  the authorization header, the two requests the manager sends, and the release of a batch's reserve in
  Redis. The facts show which instance and key are chosen, that a release takes exactly the booked
  units off each mirror, that it does so whatever the order in which Go walks the hash, that a second
  release does nothing, and that no mirror ever grows or turns negative.
\<close>

section \<open>Choosing an instance and a key\<close>

abbreviation InstanceSourceK8sPool :: string where "InstanceSourceK8sPool \<equiv> ''k8s_pool''"

definition EffectiveInstancePool :: "Provider option \<Rightarrow> ProviderInstance list" where
  "EffectiveInstancePool po = (case po of None \<Rightarrow> [] | Some p \<Rightarrow>
     if pv_InstanceSource p = InstanceSourceK8sPool then pv_K8sInstancePool p
     else pv_InstancePool p)"

fun pick_instance :: "ProviderInstance list \<Rightarrow> ProviderInstance option" where
  "pick_instance [] = None"
| "pick_instance (inst # insts) =
     (if pi_Disable inst then pick_instance insts
      else if pi_Addr inst = [] \<or> pi_Port inst \<le> 0 then pick_instance insts
      else Some inst)"

definition pickProviderInstance :: "Provider \<Rightarrow> ProviderInstance option" where
  "pickProviderInstance p = pick_instance (EffectiveInstancePool (Some p))"

definition pickProviderKey :: "Provider \<Rightarrow> string \<Rightarrow> ProviderKey option" where
  "pickProviderKey p keyName =
     (case List.find (\<lambda>k. keyName \<noteq> [] \<and> pk_Name k = keyName) (pv_Keys p) of
        Some k \<Rightarrow> Some k
      | None \<Rightarrow> List.find (\<lambda>k. pk_Key k \<noteq> []) (pv_Keys p))"

definition buildInstanceBaseURL :: "ProviderInstance \<Rightarrow> string" where
  "buildInstanceBaseURL inst = (let addr = pi_Addr inst in
     if HasPrefix addr ''http://'' \<or> HasPrefix addr ''https://'' then TrimRight addr (CHR ''/'')
     else ''http://'' @ JoinHostPort addr (pi_Port inst))"

definition normalizeProviderPath :: "string \<Rightarrow> string" where
  "normalizeProviderPath p = (let p1 = TrimSpace p;
     p2 = (if \<not> HasPrefix p1 ''/'' then ''/'' @ p1 else p1) in TrimRight p2 (CHR ''/''))"

definition BuildAuthHeader :: "string \<Rightarrow> string \<Rightarrow> string \<times> string" where
  "BuildAuthHeader protocol key =
     (if protocol = ''anthropic'' then (''x-api-key'', key)
      else if protocol = ''gemini'' then (''x-goog-api-key'', key)
      else (''Authorization'', ''Bearer '' @ key))"

definition errProviderUnavailable :: "string \<Rightarrow> error" where
  "errProviderUnavailable p = ErrModel (''batch provider '' @ p @ '' unavailable'')"

definition provider_access :: "string \<Rightarrow> string \<Rightarrow> Provider \<Rightarrow> error + providerAccess" where
  "provider_access providerName keyName provider =
     (case pickProviderInstance provider of
        None \<Rightarrow> Inl (errProviderUnavailable providerName)
      | Some inst \<Rightarrow>
          (let path = (case map_of (pv_ProtocolPaths provider) ''openai'' of
                 Some p \<Rightarrow> if TrimSpace p \<noteq> [] then normalizeProviderPath p else ''/v1''
               | None \<Rightarrow> ''/v1'');
               access = \<lparr>pa_baseURL = buildInstanceBaseURL inst, pa_path = path,
                 pa_authHeader = [], pa_authValue = []\<rparr>
           in if pv_Keys provider = [] then Inr access
              else case pickProviderKey provider keyName of
                 None \<Rightarrow> Inl (errProviderUnavailable providerName)
               | Some key \<Rightarrow> (case BuildAuthHeader ''openai'' (pk_Key key) of
                   (h, v) \<Rightarrow> Inr (access\<lparr>pa_authHeader := h, pa_authValue := v\<rparr>))))"

definition resolveProviderAccess :: "Manager \<Rightarrow> string \<Rightarrow> string \<Rightarrow> providerAccess io" where
  "resolveProviderAccess m providerName keyName =
     (case mg_providers m of
        None \<Rightarrow> throwE (errProviderUnavailable providerName)
      | Some q \<Rightarrow>
          bindE (ext_call (\<lambda>s. (Inr (q providerName), s))) (\<lambda>po. case po of
              None \<Rightarrow> throwE (errProviderUnavailable providerName)
            | Some provider \<Rightarrow> lift_err (provider_access providerName keyName provider)))"

section \<open>Requests\<close>

definition auth_headers :: "providerAccess \<Rightarrow> (string \<times> string) list" where
  "auth_headers access =
     (if pa_authHeader access \<noteq> [] then [(pa_authHeader access, pa_authValue access)] else [])"

definition getProvider :: "Manager \<Rightarrow> providerAccess \<Rightarrow> string \<Rightarrow> (string \<times> int) io" where
  "getProvider m access url =
     (if \<not> mg_validURL m url then throwE (ErrMsg ''parse url'')
      else State_Monad.bind
        (http_Do m \<lparr>hr_Method = ''GET'', hr_URL = url, hr_Header = auth_headers access\<rparr>)
        (\<lambda>r. case r of Inl _ \<Rightarrow> throwE ErrUpstream
           | Inr (code, body) \<Rightarrow> returnE (take 4194304 body, code)))"

definition postProviderCancel :: "Manager \<Rightarrow> providerAccess \<Rightarrow> string \<Rightarrow> unit io" where
  "postProviderCancel m access url =
     (if \<not> mg_validURL m url then throwE (ErrMsg ''parse url'')
      else State_Monad.bind
        (http_Do m \<lparr>hr_Method = ''POST'', hr_URL = url, hr_Header = auth_headers access\<rparr>)
        (\<lambda>r. case r of Inl _ \<Rightarrow> throwE ErrUpstream
           | Inr (code, _) \<Rightarrow>
               if code = 404 then throwE ErrUpstreamNotFound
               else if code < 200 \<or> code \<ge> 300 then throwE ErrUpstream
               else returnE ()))"

definition batch_url :: "providerAccess \<Rightarrow> string \<Rightarrow> string" where
  "batch_url access batchID = pa_baseURL access @ pa_path access @ ''/batches/'' @ batchID"

section \<open>Releasing a reserve\<close>

text \<open>The loop over the booked plans; a failed decrement is logged and the loop goes on.\<close>

fun release_mirrors :: "(string \<times> string) list \<Rightarrow> unit io" where
  "release_mirrors [] = returnE ()"
| "release_mirrors ((planKey, unitsStr) # vals) =
     (case ParseInt unitsStr of
        None \<Rightarrow> release_mirrors vals
      | Some units \<Rightarrow>
          if sint units \<le> 0 then release_mirrors vals
          else bindE (ignoreE (ReserveDecr (BatchReserveMirrorKey planKey) units))
                 (\<lambda>_. release_mirrors vals))"

definition releaseReserve :: "string \<Rightarrow> unit io" where
  "releaseReserve batchID =
     bindE (HGetAll (BatchReserveBatchKey batchID)) (\<lambda>vals.
       if vals = [] then returnE ()
       else bindE (release_mirrors vals) (\<lambda>_. Delete (BatchReserveBatchKey batchID)))"

section \<open>What is chosen\<close>

lemma pick_instance_Some:
  "pick_instance insts = Some i \<Longrightarrow>
     i \<in> set insts \<and> \<not> pi_Disable i \<and> pi_Addr i \<noteq> [] \<and> 0 < pi_Port i"
  by (induction insts) (auto split: if_splits)

lemma pick_instance_None:
  "pick_instance insts = None \<longleftrightarrow>
     (\<forall>i\<in>set insts. pi_Disable i \<or> pi_Addr i = [] \<or> pi_Port i \<le> 0)"
  by (induction insts) auto

lemma pickProviderKey_in: "pickProviderKey p n = Some k \<Longrightarrow> k \<in> set (pv_Keys p)"
  by (auto simp: pickProviderKey_def split: option.splits dest: find_Some_in)

text \<open>The key of that name is chosen whenever the provider has one.\<close>

lemma pickProviderKey_named:
  assumes "k \<in> set (pv_Keys p)" "pk_Name k = n" "n \<noteq> []"
  shows "\<exists>k'. pickProviderKey p n = Some k' \<and> pk_Name k' = n"
proof (cases "List.find (\<lambda>k. n \<noteq> [] \<and> pk_Name k = n) (pv_Keys p)")
  case None
  then show ?thesis using assms by (auto simp: find_None_iff)
next
  case (Some k')
  then show ?thesis by (auto simp: pickProviderKey_def dest: find_Some_in)
qed

lemma reads_only_resolveProviderAccess: "reads_only (resolveProviderAccess m p k)"
proof -
  have "\<exists>fs. s = s\<lparr>faults := fs\<rparr>" for s :: world by (rule exI [of _ "faults s"]) simp
  then show ?thesis
    by (auto simp: resolveProviderAccess_def reads_only_def
        split: option.splits list.splits fault.splits)
qed

section \<open>The effect of a release\<close>

definition decr_mirror :: "string \<times> string \<Rightarrow> (string \<times> rval) list \<Rightarrow> (string \<times> rval) list" where
  "decr_mirror e r = (case ParseInt (snd e) of
       None \<Rightarrow> r
     | Some u \<Rightarrow> if sint u \<le> 0 then r
         else (case redis_get r (BatchReserveMirrorKey (fst e)) of
                 Some (RInt cur) \<Rightarrow>
                   alist_set (BatchReserveMirrorKey (fst e)) (RInt (snd (reserve_decr cur (sint u)))) r
               | _ \<Rightarrow> r))"

text \<open>The units a booking holds for a plan, and what is left of a counter after a release.\<close>

definition booked :: "(string \<times> string) list \<Rightarrow> string \<Rightarrow> int" where
  "booked vals plan = (case map_of vals plan of None \<Rightarrow> 0
     | Some u \<Rightarrow> (case ParseInt u of None \<Rightarrow> 0 | Some w \<Rightarrow> max 0 (sint w)))"

definition remaining :: "int \<Rightarrow> int \<Rightarrow> int" where
  "remaining cur units = (if cur \<le> 0 then cur else max 0 (cur - units))"

lemma reserve_decr_remaining: "0 < d \<Longrightarrow> snd (reserve_decr cur d) = remaining cur d"
  by (auto simp: reserve_decr_def remaining_def Let_def)

lemma remaining_0 [simp]: "remaining n 0 = n"
  by (simp add: remaining_def)

lemma remaining_bounds: "0 \<le> n \<Longrightarrow> 0 \<le> u \<Longrightarrow> 0 \<le> remaining n u \<and> remaining n u \<le> n"
  by (auto simp: remaining_def)

lemma run_release_mirrors:
  "faults s = [] \<Longrightarrow>
   run_state (release_mirrors vals) s = (Inr (), s\<lparr>redis := fold decr_mirror vals (redis s)\<rparr>)"
  by (induction vals arbitrary: s rule: release_mirrors.induct)
     (auto simp: ReserveDecr_def decr_mirror_def split: option.splits rval.splits prod.splits)

lemma decr_mirror_get:
  "redis_get (decr_mirror e r) k =
     (case redis_get r k of
        Some (RInt n) \<Rightarrow>
          Some (RInt (if k = BatchReserveMirrorKey (fst e) then remaining n (booked [e] (fst e)) else n))
      | v \<Rightarrow> v)"
  by (cases e)
     (auto simp: decr_mirror_def redis_get_def booked_def reserve_decr_remaining
       split: option.splits rval.splits)

lemma release_get:
  assumes "distinct (map fst vals)"
  shows "redis_get (fold decr_mirror vals r) (BatchReserveMirrorKey plan) =
     (case redis_get r (BatchReserveMirrorKey plan) of
        Some (RInt n) \<Rightarrow> Some (RInt (remaining n (booked vals plan)))
      | v \<Rightarrow> v)"
  using assms
proof (induction vals arbitrary: r)
  case Nil
  then show ?case by (auto simp: booked_def split: option.splits rval.splits)
next
  case (Cons e vals)
  have "booked vals plan = 0" if "plan = fst e"
    using Cons.prems that by (simp add: booked_def map_of_eq_None_iff [THEN iffD2])
  moreover have "booked (e # vals) plan = (if plan = fst e then booked [e] (fst e) else booked vals plan)"
    by (cases e) (auto simp: booked_def)
  ultimately show ?case
    using Cons by (auto simp: decr_mirror_get split: option.splits rval.splits)
qed

lemma release_get_other:
  "(\<And>p. k \<noteq> BatchReserveMirrorKey p) \<Longrightarrow> redis_get (fold decr_mirror vals r) k = redis_get r k"
  by (induction vals arbitrary: r) (auto simp: decr_mirror_get split: option.splits rval.splits)

lemma redis_get_del [simp]: "redis_get (redis_del k r) k' = (if k' = k then None else redis_get r k')"
  unfolding redis_get_def redis_del_def by (induction r) auto

lemma run_releaseReserve:
  assumes "faults s = []" "redis_get (redis s) (BatchReserveBatchKey b) = Some (RHash vals)" "vals \<noteq> []"
  shows "run_state (releaseReserve b) s =
    (Inr (), s\<lparr>redis := redis_del (BatchReserveBatchKey b) (fold decr_mirror vals (redis s))\<rparr>)"
  using assms by (simp add: releaseReserve_def HGetAll_def run_release_mirrors Delete_def)

lemma run_releaseReserve_absent:
  assumes "faults s = []" "redis_get (redis s) (BatchReserveBatchKey b) = None"
  shows "run_state (releaseReserve b) s = (Inr (), s)"
  using assms by (simp add: releaseReserve_def HGetAll_def)

text \<open>The Redis state that a release leaves, in every case.\<close>

definition released_redis :: "string \<Rightarrow> (string \<times> rval) list \<Rightarrow> (string \<times> rval) list" where
  "released_redis b r = (case redis_get r (BatchReserveBatchKey b) of
     Some (RHash vals) \<Rightarrow>
       if vals = [] then r else redis_del (BatchReserveBatchKey b) (fold decr_mirror vals r)
   | _ \<Rightarrow> r)"

lemma snd_run_releaseReserve:
  assumes "faults s = []"
  shows "snd (run_state (releaseReserve b) s) = s\<lparr>redis := released_redis b (redis s)\<rparr>"
  using assms
  by (auto simp: releaseReserve_def HGetAll_def run_release_mirrors Delete_def released_redis_def
      split: option.splits rval.splits)

end
