(* ===== verification/BatchView.thy ===== *)
theory BatchView
  imports BatchProvider
begin

text \<open>
  The read views of the Redis hashes (\<^verbatim>\<open>redis_view.go\<close>), the cache that resolves the owner of
  an API key (\<^verbatim>\<open>manager.go\<close>) and the two merges that decide what a synchronisation writes. The facts show what a
  merge may change: a terminal status and its time stay, a field that the hash does not carry keeps the stored value,
  and merging twice is merging once.
\<close>

section \<open>Views\<close>

record redisTaskView =
  rv_batchID :: string
  rv_apiKeyID :: string
  rv_provider :: string
  rv_keyName :: string
  rv_inputFileID :: string
  rv_outputFileID :: "string option"
  rv_endpoint :: "string option"
  rv_requestCounts :: "counts option"
  rv_estLines :: "i64 option"
  rv_reserveUnits :: "i64 option"
  rv_status :: string
  rv_createdAt :: "time option"
  rv_usageIn :: "i64 option"
  rv_usageOut :: "i64 option"
  rv_usageSource :: string
  rv_settleUnits :: "i64 option"
  rv_settleStatus :: string

record redisFileView =
  rf_partition :: string
  rf_fileID :: string
  rf_apiKeyID :: string
  rf_keyName :: string
  rf_cluster :: string
  rf_lines :: "i64 option"
  rf_bytes :: "i64 option"
  rf_purpose :: string
  rf_filename :: string
  rf_direction :: string
  rf_batchID :: string
  rf_linesSrc :: string
  rf_bytesSrc :: string

type_synonym hash = "(string \<times> string) list"

definition field :: "hash \<Rightarrow> string \<Rightarrow> string" where
  "field vals k = alist_get vals k []"

definition nonempty :: "string \<Rightarrow> string option" where
  "nonempty v = (if v \<noteq> [] then Some v else None)"

definition parseRequestCounts :: "Manager \<Rightarrow> string \<Rightarrow> counts option" where
  "parseRequestCounts m raw =
     (if raw = [] then None
      else case mg_decodeCounts m raw of
          None \<Rightarrow> None
        | Some c \<Rightarrow> if length c = 0 then None else Some c)"

definition parseUnixOrRFC3339 :: "Manager \<Rightarrow> string \<Rightarrow> time option" where
  "parseUnixOrRFC3339 m raw =
     (if raw = [] then None
      else case ParseInt raw of
          Some sec \<Rightarrow> if sint sec \<le> 0 then None else Some (time_Unix sec)
        | None \<Rightarrow> mg_parseRFC3339 m raw)"

definition parseInt64Field :: "hash \<Rightarrow> string \<Rightarrow> i64 option" where
  "parseInt64Field vals k =
     (case map_of vals k of
        None \<Rightarrow> None
      | Some raw \<Rightarrow> if raw = [] then None else ParseInt raw)"

definition ParseRedisTaskView :: "Manager \<Rightarrow> string \<Rightarrow> hash \<Rightarrow> error + redisTaskView" where
  "ParseRedisTaskView m batchID vals =
     (if batchID = [] then Inl (ErrMsg ''empty batch id'')
      else if field vals ''status'' = [] then
        Inl (ErrMsg (''BATCH_TASK:'' @ batchID @ '' missing status''))
      else Inr \<lparr>
        rv_batchID = batchID,
        rv_apiKeyID = field vals ''api_key_id'',
        rv_provider = (if field vals ''provider'' = [] then field vals ''cluster''
                       else field vals ''provider''),
        rv_keyName = field vals ''key_name'',
        rv_inputFileID = field vals ''input_file_id'',
        rv_outputFileID = nonempty (field vals ''output_file_id''),
        rv_endpoint = nonempty (field vals ''endpoint''),
        rv_requestCounts = parseRequestCounts m (field vals ''request_counts''),
        rv_estLines = parseInt64Field vals ''est_lines'',
        rv_reserveUnits = (case parseInt64Field vals ''reserved_units'' of
            Some v \<Rightarrow> Some v
          | None \<Rightarrow> if field vals ''reserved'' = ''1'' then Some 0 else None),
        rv_status = field vals ''status'',
        rv_createdAt = parseUnixOrRFC3339 m (field vals ''created_at''),
        rv_usageIn = parseInt64Field vals ''usage_in'',
        rv_usageOut = parseInt64Field vals ''usage_out'',
        rv_usageSource = field vals ''usage_source'',
        rv_settleUnits = parseInt64Field vals ''settle_units'',
        rv_settleStatus = field vals ''settle_status''\<rparr>)"

definition ParseRedisFileView :: "string \<Rightarrow> string \<Rightarrow> hash \<Rightarrow> redisFileView" where
  "ParseRedisFileView part fileID vals = \<lparr>
     rf_partition = part, rf_fileID = fileID, rf_apiKeyID = field vals ''api_key_id'',
     rf_keyName = field vals ''key_name'', rf_cluster = field vals ''cluster'',
     rf_lines = parseInt64Field vals ''lines'', rf_bytes = parseInt64Field vals ''bytes'',
     rf_purpose = field vals ''purpose'', rf_filename = field vals ''filename'',
     rf_direction = field vals ''dir'', rf_batchID = field vals ''batch_id'',
     rf_linesSrc = field vals ''lines_src'', rf_bytesSrc = field vals ''bytes_src''\<rparr>"

section \<open>The owner of an API key\<close>

definition newAPIKeyResolveCache :: "unit io" where
  "newAPIKeyResolveCache = modifyE (\<lambda>s. s\<lparr>ak_cache := []\<rparr>)"

definition resolve :: "Manager \<Rightarrow> string \<Rightarrow> APIKeyColumns option io" where
  "resolve m apiKeyID =
     bindE (getsE (\<lambda>s. map_of (ak_cache s) apiKeyID)) (\<lambda>hit. case hit of
         Some k \<Rightarrow> returnE k
       | None \<Rightarrow>
           bindE (ext_call (\<lambda>s. (Inr (mg_apiKeys m apiKeyID), s))) (\<lambda>keys.
             let found = (case keys of [] \<Rightarrow> None | k # _ \<Rightarrow> Some k) in
             bindE (modifyE (\<lambda>s. s\<lparr>ak_cache := alist_set apiKeyID found (ak_cache s)\<rparr>))
               (\<lambda>_. returnE found)))"

section \<open>Views to entities\<close>

text \<open>The entity built from a view once the owner is known; \<open>now\<close> is the clock of the call.\<close>

definition task_of_view :: "APIKeyColumns \<Rightarrow> redisTaskView \<Rightarrow> time \<Rightarrow> BatchTask" where
  "task_of_view ak view now = zero_task\<lparr>
     bt_BatchID := rv_batchID view,
     bt_IdemKey := rv_batchID view,
     bt_APIKeyID := rv_apiKeyID view,
     bt_Provider := rv_provider view,
     bt_KeyName := rv_keyName view,
     bt_InputFileID := rv_inputFileID view,
     bt_Status := rv_status view,
     bt_SyncSource := SyncSourceRedis,
     bt_ProductName := opt_or (ak_ProductName ak) [],
     bt_EntityID := opt_or (ak_EntityID ak) [],
     bt_EstLines := opt_or (rv_estLines view) 0,
     bt_OutputFileID := opt_or (rv_outputFileID view) [],
     bt_Endpoint := opt_or (rv_endpoint view) [],
     bt_RequestCounts := rv_requestCounts view,
     bt_CreatedAt := opt_or (rv_createdAt view) 0,
     bt_UsageSource := rv_usageSource view,
     bt_ReserveUnits := opt_or (rv_reserveUnits view) 0,
     bt_UsageInputTokens := opt_or (rv_usageIn view) 0,
     bt_UsageOutputTokens := opt_or (rv_usageOut view) 0,
     bt_SettleUnits := opt_or (rv_settleUnits view) 0,
     bt_SettleStatus := (if rv_settleStatus view \<noteq> [] then rv_settleStatus view
                         else SettleStatusReserved),
     bt_TerminalAt := (if IsTerminalStatus (rv_status view) then Some now else None)\<rparr>"

definition applyTaskView :: "Manager \<Rightarrow> redisTaskView \<Rightarrow> BatchTask option io" where
  "applyTaskView m view =
     bindE (resolve m (rv_apiKeyID view)) (\<lambda>ak. case ak of
         None \<Rightarrow> returnE None
       | Some k \<Rightarrow> bindE (getsE clock) (\<lambda>now. returnE (Some (task_of_view k view now))))"

definition file_of_view :: "APIKeyColumns \<Rightarrow> redisFileView \<Rightarrow> BatchFile" where
  "file_of_view ak view = zero_file\<lparr>
     bf_FileID := rf_fileID view,
     bf_Provider := rf_partition view,
     bf_KeyName := rf_keyName view,
     bf_APIKeyID := rf_apiKeyID view,
     bf_Direction := (if rf_direction view = [] then FileDirectionInput else rf_direction view),
     bf_Purpose := rf_purpose view,
     bf_Filename := rf_filename view,
     bf_ProductName := opt_or (ak_ProductName ak) [],
     bf_Lines := opt_or (rf_lines view) 0,
     bf_Bytes := opt_or (rf_bytes view) 0\<rparr>"

definition applyFileView :: "Manager \<Rightarrow> redisFileView \<Rightarrow> BatchFile option io" where
  "applyFileView m view =
     bindE (resolve m (rf_apiKeyID view)) (\<lambda>ak. case ak of
         None \<Rightarrow> returnE None
       | Some k \<Rightarrow> returnE (Some (file_of_view k view)))"

section \<open>Merges\<close>

definition keep_if_empty :: "string \<Rightarrow> string \<Rightarrow> string" where
  "keep_if_empty new old = (if new = [] then old else new)"

definition mergeTaskForSync ::
  "BatchTask option \<Rightarrow> BatchTask \<Rightarrow> redisTaskView \<Rightarrow> time \<Rightarrow> BatchTask" where
  "mergeTaskForSync existing incoming view now =
     (case existing of
        None \<Rightarrow> if IsTerminalStatus (bt_Status incoming) then incoming\<lparr>bt_TerminalAt := Some now\<rparr>
                else incoming
      | Some ex \<Rightarrow>
          (let merged = incoming\<lparr>
             bt_ID := bt_ID ex,
             bt_IdemKey := bt_IdemKey ex,
             bt_BatchID := bt_BatchID ex,
             bt_APIKeyID := keep_if_empty (bt_APIKeyID incoming) (bt_APIKeyID ex),
             bt_ProductName := keep_if_empty (bt_ProductName incoming) (bt_ProductName ex),
             bt_EntityID := keep_if_empty (bt_EntityID incoming) (bt_EntityID ex),
             bt_Provider := keep_if_empty (bt_Provider incoming) (bt_Provider ex),
             bt_KeyName := keep_if_empty (bt_KeyName incoming) (bt_KeyName ex),
             bt_InputFileID := keep_if_empty (bt_InputFileID incoming) (bt_InputFileID ex),
             bt_OutputFileID := keep_if_empty (bt_OutputFileID incoming) (bt_OutputFileID ex),
             bt_Endpoint := keep_if_empty (bt_Endpoint incoming) (bt_Endpoint ex),
             bt_UsageSource := keep_if_empty (bt_UsageSource incoming) (bt_UsageSource ex),
             bt_RequestCounts := (if bt_RequestCounts incoming = None then bt_RequestCounts ex
                                  else bt_RequestCounts incoming),
             bt_SyncSource := (if bt_SyncSource ex \<noteq> [] then bt_SyncSource ex
                               else bt_SyncSource incoming),
             bt_EstLines := opt_or (rv_estLines view) (bt_EstLines ex),
             bt_ReserveUnits := opt_or (rv_reserveUnits view) (bt_ReserveUnits ex),
             bt_UsageInputTokens := opt_or (rv_usageIn view) (bt_UsageInputTokens ex),
             bt_UsageOutputTokens := opt_or (rv_usageOut view) (bt_UsageOutputTokens ex),
             bt_SettleUnits := opt_or (rv_settleUnits view) (bt_SettleUnits ex),
             bt_SettleStatus := (if rv_settleStatus view = [] then bt_SettleStatus ex
                                 else bt_SettleStatus incoming),
             bt_CreatedAt := opt_or (rv_createdAt view) (bt_CreatedAt ex)\<rparr>
           in if IsTerminalStatus (bt_Status ex) then
                merged\<lparr>bt_Status := bt_Status ex, bt_TerminalAt := bt_TerminalAt ex\<rparr>
              else if IsTerminalStatus (bt_Status merged) then merged\<lparr>bt_TerminalAt := Some now\<rparr>
              else merged))"

definition mergeFileForSync ::
  "BatchFile option \<Rightarrow> BatchFile \<Rightarrow> redisFileView \<Rightarrow> time \<Rightarrow> BatchFile" where
  "mergeFileForSync existing incoming view now =
     (case existing of
        None \<Rightarrow>
          (let f = (if bf_LastSeenAt incoming = None then incoming\<lparr>bf_LastSeenAt := Some now\<rparr>
                    else incoming)
           in if bf_FirstSeenAt f = None then f\<lparr>bf_FirstSeenAt := Some now\<rparr> else f)
      | Some ex \<Rightarrow> incoming\<lparr>
          bf_ID := bf_ID ex,
          bf_APIKeyID := keep_if_empty (bf_APIKeyID incoming) (bf_APIKeyID ex),
          bf_ProductName := keep_if_empty (bf_ProductName incoming) (bf_ProductName ex),
          bf_KeyName := keep_if_empty (bf_KeyName incoming) (bf_KeyName ex),
          bf_Direction := keep_if_empty (bf_Direction incoming) (bf_Direction ex),
          bf_Purpose := keep_if_empty (bf_Purpose incoming) (bf_Purpose ex),
          bf_Filename := keep_if_empty (bf_Filename incoming) (bf_Filename ex),
          bf_Lines := opt_or (rf_lines view) (bf_Lines ex),
          bf_Bytes := opt_or (rf_bytes view) (bf_Bytes ex),
          bf_FirstSeenAt := bf_FirstSeenAt ex,
          bf_LastSeenAt := Some now\<rparr>)"

section \<open>What a merge may change\<close>

text \<open>
  The order on the versions of one row: the identity columns stay, and a terminal status is final.
\<close>

definition task_le :: "BatchTask \<Rightarrow> BatchTask \<Rightarrow> bool" where
  "task_le old new \<longleftrightarrow> bt_ID new = bt_ID old \<and> bt_IdemKey new = bt_IdemKey old
     \<and> bt_BatchID new = bt_BatchID old \<and> bt_ProductName new = bt_ProductName old
     \<and> (IsTerminalStatus (bt_Status old) \<longrightarrow> bt_Status new = bt_Status old)"

lemma task_le_refl [simp]: "task_le t t"
  by (simp add: task_le_def)

lemma task_le_trans: "task_le a b \<Longrightarrow> task_le b c \<Longrightarrow> task_le a c"
  by (auto simp: task_le_def)

lemma merge_keys [simp]:
  "bt_IdemKey (mergeTaskForSync (Some ex) inc view now) = bt_IdemKey ex"
  "bt_ID (mergeTaskForSync (Some ex) inc view now) = bt_ID ex"
  "bt_BatchID (mergeTaskForSync (Some ex) inc view now) = bt_BatchID ex"
  by (simp_all add: mergeTaskForSync_def Let_def)

lemma merge_None_keys [simp]:
  "bt_IdemKey (mergeTaskForSync None inc view now) = bt_IdemKey inc"
  "bt_Status (mergeTaskForSync None inc view now) = bt_Status inc"
  by (simp_all add: mergeTaskForSync_def)

lemma merge_status:
  "bt_Status (mergeTaskForSync (Some ex) inc view now) =
     (if IsTerminalStatus (bt_Status ex) then bt_Status ex else bt_Status inc)"
  by (simp add: mergeTaskForSync_def Let_def)

lemma merge_TerminalAt:
  "bt_TerminalAt (mergeTaskForSync (Some ex) inc view now) =
     (if IsTerminalStatus (bt_Status ex) then bt_TerminalAt ex
      else if IsTerminalStatus (bt_Status inc) then Some now else bt_TerminalAt inc)"
  by (simp add: mergeTaskForSync_def Let_def)

lemma task_of_view_simps [simp]:
  "bt_IdemKey (task_of_view ak view now) = rv_batchID view"
  "bt_BatchID (task_of_view ak view now) = rv_batchID view"
  "bt_Status (task_of_view ak view now) = rv_status view"
  "bt_ID (task_of_view ak view now) = 0"
  "bt_ProductName (task_of_view ak view now) = opt_or (ak_ProductName ak) []"
  by (simp_all add: task_of_view_def zero_task_def)

lemma ParseRedisTaskView_Inr:
  assumes "ParseRedisTaskView m b vals = Inr view"
  shows "rv_batchID view = b" "b \<noteq> []" "rv_status view = field vals ''status''"
    "rv_status view \<noteq> []" "rv_settleStatus view = field vals ''settle_status''"
    "rv_usageIn view = parseInt64Field vals ''usage_in''"
    "rv_usageOut view = parseInt64Field vals ''usage_out''"
    "rv_settleUnits view = parseInt64Field vals ''settle_units''"
  using assms by (auto simp: ParseRedisTaskView_def split: if_splits)

text \<open>The row that the upsert of a merged task leaves behind, and that a second round changes nothing.\<close>

definition resync :: "BatchTask \<Rightarrow> redisTaskView \<Rightarrow> APIKeyColumns \<Rightarrow> time \<Rightarrow> BatchTask" where
  "resync ex view ak now = conflict_update
     (insert_row (batchTaskDataToParam (mergeTaskForSync (Some ex) (task_of_view ak view now) view now))
       now) ex"

lemma task_le_resync: "task_le ex (resync ex view ak now)"
  by (simp add: task_le_def resync_def conflict_update_def merge_status)

lemma UpdatedAt_merge [simp]:
  "bt_UpdatedAt (insert_row (batchTaskDataToParam
     (mergeTaskForSync ex (task_of_view ak view now) view now)) now) = now"
  by (simp add: insert_row_def batchTaskDataToParam_def no_task_param_def mergeTaskForSync_def
      task_of_view_def zero_task_def IsZero_def Let_def split: option.split)

definition drop_empty :: "counts option \<Rightarrow> counts option" where
  "drop_empty c = (case c of Some xs \<Rightarrow> if length xs > 0 then Some xs else None | None \<Rightarrow> None)"

lemma insert_row_fields [simp]:
  "bt_OutputFileID (insert_row (batchTaskDataToParam t) now) = bt_OutputFileID t"
  "bt_RequestCounts (insert_row (batchTaskDataToParam t) now) = drop_empty (bt_RequestCounts t)"
  "bt_EstLines (insert_row (batchTaskDataToParam t) now) = bt_EstLines t"
  "bt_UsageInputTokens (insert_row (batchTaskDataToParam t) now) = bt_UsageInputTokens t"
  "bt_UsageOutputTokens (insert_row (batchTaskDataToParam t) now) = bt_UsageOutputTokens t"
  "bt_ReserveUnits (insert_row (batchTaskDataToParam t) now) = bt_ReserveUnits t"
  "bt_SettleUnits (insert_row (batchTaskDataToParam t) now) = bt_SettleUnits t"
  "bt_ProductName (insert_row (batchTaskDataToParam t) now) = bt_ProductName t"
  "bt_Provider (insert_row (batchTaskDataToParam t) now) = bt_Provider t"
  by (simp_all add: insert_row_def batchTaskDataToParam_def no_task_param_def drop_empty_def)

lemma merge_fields:
  "bt_OutputFileID (mergeTaskForSync (Some ex) inc view now) =
     keep_if_empty (bt_OutputFileID inc) (bt_OutputFileID ex)"
  "bt_RequestCounts (mergeTaskForSync (Some ex) inc view now) =
     (if bt_RequestCounts inc = None then bt_RequestCounts ex else bt_RequestCounts inc)"
  "bt_EstLines (mergeTaskForSync (Some ex) inc view now) = opt_or (rv_estLines view) (bt_EstLines ex)"
  "bt_UsageInputTokens (mergeTaskForSync (Some ex) inc view now) =
     opt_or (rv_usageIn view) (bt_UsageInputTokens ex)"
  "bt_UsageOutputTokens (mergeTaskForSync (Some ex) inc view now) =
     opt_or (rv_usageOut view) (bt_UsageOutputTokens ex)"
  "bt_ReserveUnits (mergeTaskForSync (Some ex) inc view now) =
     opt_or (rv_reserveUnits view) (bt_ReserveUnits ex)"
  "bt_SettleUnits (mergeTaskForSync (Some ex) inc view now) =
     opt_or (rv_settleUnits view) (bt_SettleUnits ex)"
  "bt_SettleStatus (mergeTaskForSync (Some ex) inc view now) =
     (if rv_settleStatus view = [] then bt_SettleStatus ex else bt_SettleStatus inc)"
  by (simp_all add: mergeTaskForSync_def Let_def)

lemma merge_rest:
  "bt_APIKeyID (mergeTaskForSync (Some ex) inc view now) =
     keep_if_empty (bt_APIKeyID inc) (bt_APIKeyID ex)"
  "bt_ProductName (mergeTaskForSync (Some ex) inc view now) =
     keep_if_empty (bt_ProductName inc) (bt_ProductName ex)"
  "bt_EntityID (mergeTaskForSync (Some ex) inc view now) =
     keep_if_empty (bt_EntityID inc) (bt_EntityID ex)"
  "bt_CreatedAt (mergeTaskForSync (Some ex) inc view now) =
     opt_or (rv_createdAt view) (bt_CreatedAt ex)"
  by (simp_all add: mergeTaskForSync_def Let_def)

lemma conflict_update_sel [simp]:
  "bt_OutputFileID (conflict_update n x) = bt_OutputFileID n"
  "bt_Status (conflict_update n x) = bt_Status n"
  "bt_RequestCounts (conflict_update n x) = bt_RequestCounts n"
  "bt_EstLines (conflict_update n x) = bt_EstLines n"
  "bt_UsageInputTokens (conflict_update n x) = bt_UsageInputTokens n"
  "bt_UsageOutputTokens (conflict_update n x) = bt_UsageOutputTokens n"
  "bt_ReserveUnits (conflict_update n x) = bt_ReserveUnits n"
  "bt_SettleUnits (conflict_update n x) = bt_SettleUnits n"
  "bt_SettleStatus (conflict_update n x) = bt_SettleStatus n"
  "bt_UpdatedAt (conflict_update n x) = bt_UpdatedAt n"
  "bt_TerminalAt (conflict_update n x) = bt_TerminalAt n"
  by (simp_all add: conflict_update_def)

lemma conflict_update_absorb:
  assumes "bt_OutputFileID n = bt_OutputFileID y" "bt_Status n = bt_Status y"
    "bt_RequestCounts n = bt_RequestCounts y" "bt_EstLines n = bt_EstLines y"
    "bt_UsageInputTokens n = bt_UsageInputTokens y" "bt_UsageOutputTokens n = bt_UsageOutputTokens y"
    "bt_ReserveUnits n = bt_ReserveUnits y" "bt_SettleUnits n = bt_SettleUnits y"
    "bt_SettleStatus n = bt_SettleStatus y" "bt_UpdatedAt n = bt_UpdatedAt y"
    "bt_TerminalAt n = bt_TerminalAt y"
  shows "conflict_update n y = y"
  using assms by (simp add: conflict_update_def)

lemma keep_if_empty_twice [simp]: "keep_if_empty a (keep_if_empty a b) = keep_if_empty a b"
  by (simp add: keep_if_empty_def)

lemma opt_or_twice [simp]: "opt_or a (opt_or a b) = opt_or a b"
  by (cases a) simp_all

lemma drop_empty_twice [simp]: "drop_empty (drop_empty c) = drop_empty c"
  by (simp add: drop_empty_def split: option.splits)

lemma resync_idem: "resync (resync ex view ak now) view ak now = resync ex view ak now"
proof -
  have T: "bt_TerminalAt (task_of_view ak view now) =
      (if IsTerminalStatus (rv_status view) then Some now else None)"
    by (simp add: task_of_view_def)
  show ?thesis
    unfolding resync_def [of "resync ex view ak now"]
    by (rule conflict_update_absorb)
       (simp_all add: resync_def merge_fields merge_status merge_TerminalAt T)
qed

end
