(* ===== verification/BatchSync.thy ===== *)
theory BatchSync
  imports BatchView
begin

text \<open>
  Reading tasks and files with the Redis fallback (\<^verbatim>\<open>manager.go\<close>: \<^verbatim>\<open>FetchTask\<close>, \<^verbatim>\<open>FetchFile\<close>,
  \<^verbatim>\<open>ListTasks\<close>) and the first duty of the reconcile job (\<^verbatim>\<open>sync.go\<close>). The scan loop takes fuel;
  one round is enough, because \<^verbatim>\<open>RedigoScanner\<close> answers with cursor 0, and \<open>scan_loop_total\<close> says
  so. The facts show that a synchronisation never loses a row nor a terminal status under any faults, that
  it is idempotent, and what the three reads return.
\<close>

section \<open>Reads\<close>

definition FetchTask :: "Manager \<Rightarrow> string \<Rightarrow> string \<Rightarrow> bool \<Rightarrow> BatchTask option io" where
  "FetchTask m batchID productName allowRedisFallback =
     bindE (FetchBatchTask (no_filter\<lparr>flt_BatchID := Some batchID,
         flt_ProductName := Some productName\<rparr>)) (\<lambda>task. case task of
       Some t \<Rightarrow> returnE (Some t)
     | None \<Rightarrow>
         if \<not> allowRedisFallback \<or> \<not> mg_redis m then returnE None
         else bindE (HGetAll (BatchTaskKey batchID)) (\<lambda>vals.
           if vals = [] then returnE None
           else case ParseRedisTaskView m batchID vals of
               Inl _ \<Rightarrow> returnE None
             | Inr view \<Rightarrow>
                 bindE newAPIKeyResolveCache (\<lambda>_.
                 bindE (applyTaskView m view) (\<lambda>resolved. case resolved of
                     None \<Rightarrow> returnE None
                   | Some t \<Rightarrow> if bt_ProductName t \<noteq> productName then returnE None
                       else returnE (Some t)))))"

definition FetchFile :: "Manager \<Rightarrow> string \<Rightarrow> string \<Rightarrow> string \<Rightarrow> bool \<Rightarrow> BatchFile option io" where
  "FetchFile m fileID provider productName allowRedisFallback =
     bindE (FetchBatchFile (no_file_filter\<lparr>ff_FileID := Some fileID, ff_Provider := Some provider,
         ff_ProductName := Some productName\<rparr>)) (\<lambda>file. case file of
       Some f \<Rightarrow> returnE (Some f)
     | None \<Rightarrow>
         if \<not> allowRedisFallback \<or> \<not> mg_redis m then returnE None
         else bindE (HGetAll (BatchFileKey provider fileID)) (\<lambda>vals.
           if vals = [] then returnE None
           else
             bindE newAPIKeyResolveCache (\<lambda>_.
             bindE (applyFileView m (ParseRedisFileView provider fileID vals)) (\<lambda>resolved.
               case resolved of
                 None \<Rightarrow> returnE None
               | Some f \<Rightarrow> if bf_ProductName f \<noteq> productName then returnE None
                   else returnE (Some f)))))"

definition ListTasks :: "BatchTaskFilter option \<Rightarrow> BatchTaskListResult io" where
  "ListTasks fo = (let flt = (case fo of None \<Rightarrow> no_filter | Some f \<Rightarrow> f) in
     if flt_ProductName flt = None \<or> flt_ProductName flt = Some [] then
       throwE (ErrParam ''product_name is required'')
     else
       (let l1 = (if flt_Limit flt \<le> 0 then DefaultListLimit else flt_Limit flt);
            limit = (if l1 > MaxListLimit then MaxListLimit else l1)
        in bindE (ListBatchTasks (flt\<lparr>flt_Limit := limit\<rparr>)) (\<lambda>ts.
             returnE \<lparr>lr_Tasks = ts,
               lr_NextCursor = (if int (length ts) \<ge> limit \<and> limit > 0 then bt_ID (last ts) else 0)\<rparr>)))"

section \<open>SyncFromRedis\<close>

definition syncOneTask :: "Manager \<Rightarrow> string \<Rightarrow> unit io" where
  "syncOneTask m batchID =
     bindE (HGetAll (BatchTaskKey batchID)) (\<lambda>vals.
       if vals = [] then returnE ()
       else bindE (lift_err (ParseRedisTaskView m batchID vals)) (\<lambda>view.
         bindE (applyTaskView m view) (\<lambda>inc. case inc of
           None \<Rightarrow> throwE ErrSyncSkip
         | Some incoming \<Rightarrow>
             bindE (FetchBatchTask (no_filter\<lparr>flt_IdemKey := Some batchID\<rparr>)) (\<lambda>existing.
             bindE (getsE clock) (\<lambda>now.
             bindE (UpsertBatchTask (mergeTaskForSync existing incoming view now)) (\<lambda>_.
               returnE ()))))))"

definition syncOneFile :: "Manager \<Rightarrow> string \<Rightarrow> string \<Rightarrow> unit io" where
  "syncOneFile m part fileID =
     bindE (HGetAll (BatchFileKey part fileID)) (\<lambda>vals.
       if vals = [] then returnE ()
       else (let view = ParseRedisFileView part fileID vals in
         bindE (applyFileView m view) (\<lambda>inc. case inc of
           None \<Rightarrow> throwE ErrSyncSkip
         | Some incoming \<Rightarrow>
             bindE (FetchBatchFile (no_file_filter\<lparr>ff_FileID := Some fileID, ff_Provider := Some part\<rparr>))
               (\<lambda>existing.
             bindE (getsE clock) (\<lambda>now.
             bindE (UpsertBatchFile (mergeFileForSync existing incoming view now)) (\<lambda>_.
               returnE ()))))))"

text \<open>One key of a scan: a foreign key is passed over, every error is logged or ignored.\<close>

definition sync_task_key :: "Manager \<Rightarrow> string \<Rightarrow> bool io" where
  "sync_task_key m key = (case ParseBatchTaskKey key of (batchID, ok) \<Rightarrow>
     if \<not> ok then returnE False else bindE (syncOneTask m batchID) (\<lambda>_. returnE True))"

definition sync_file_key :: "Manager \<Rightarrow> string \<Rightarrow> bool io" where
  "sync_file_key m key = (case ParseBatchFileKey key of (part, fileID, ok) \<Rightarrow>
     if \<not> ok then returnE False else bindE (syncOneFile m part fileID) (\<lambda>_. returnE True))"

text \<open>
  The SCAN loop of \<^verbatim>\<open>scanSyncTasks\<close> and \<^verbatim>\<open>scanSyncFiles\<close>, from a cursor and with the number of keys
  synchronised so far.
\<close>

fun scan_loop ::
  "nat \<Rightarrow> Manager \<Rightarrow> string \<Rightarrow> (string \<Rightarrow> bool io) \<Rightarrow> nat \<Rightarrow> nat \<Rightarrow> nat io" where
  "scan_loop 0 m pref body cursor synced = throwE (ErrMsg ''out of fuel'')"
| "scan_loop (Suc fuel) m pref body cursor synced =
     bindE (Scan m cursor pref) (\<lambda>(next, keys).
       State_Monad.bind (count_ok body keys) (\<lambda>n.
         if next = 0 then returnE (synced + n)
         else scan_loop fuel m pref body next (synced + n)))"

definition scanSyncTasks :: "Manager \<Rightarrow> nat io" where
  "scanSyncTasks m = bindE newAPIKeyResolveCache (\<lambda>_.
     scan_loop 1 m batchTaskKeyPrefix (sync_task_key m) 0 0)"

definition scanSyncFiles :: "Manager \<Rightarrow> nat io" where
  "scanSyncFiles m = bindE newAPIKeyResolveCache (\<lambda>_.
     scan_loop 1 m batchFileKeyPrefix (sync_file_key m) 0 0)"

definition SyncFromRedis :: "Manager \<Rightarrow> (nat \<times> nat) io" where
  "SyncFromRedis m =
     (if \<not> mg_redis m then returnE (0, 0)
      else bindE (scanSyncTasks m) (\<lambda>ts. bindE (scanSyncFiles m) (\<lambda>fs. returnE (ts, fs))))"

section \<open>The loop ends\<close>

lemma Scan_cursor: "run_state (Scan m c p) s = (Inr (next, keys), s') \<Longrightarrow> next = 0"
  by (auto simp: Scan_def split: if_splits list.splits fault.splits)

text \<open>More fuel than one round changes nothing, so one round never runs out.\<close>

lemma scan_loop_total: "scan_loop (Suc n) m p body c k = scan_loop 1 m p body c k"
proof (rule state.expand, rule ext)
  fix s
  show "run_state (scan_loop (Suc n) m p body c k) s = run_state (scan_loop 1 m p body c k) s"
    using Scan_cursor [of m c p s]
    by (auto split: prod.splits sum.splits)
qed

section \<open>Reads leave the tables alone\<close>

definition store_inv :: "(BatchTask table \<Rightarrow> BatchFile table \<Rightarrow> (string \<times> rval) list \<Rightarrow> bool) \<Rightarrow> world \<Rightarrow> bool" where
  "store_inv I s = I (tasks s) (files s) (redis s)"

lemma store_inv_simps [simp]:
  "store_inv I (s\<lparr>faults := a\<rparr>) = store_inv I s" "store_inv I (s\<lparr>ak_cache := b\<rparr>) = store_inv I s"
  "store_inv I (s\<lparr>http_log := c\<rparr>) = store_inv I s" "store_inv I (s\<lparr>op_log := d\<rparr>) = store_inv I s"
  "store_inv I (s\<lparr>access_cache := e\<rparr>) = store_inv I s" "store_inv I (s\<lparr>job_lock := h\<rparr>) = store_inv I s"
  by (simp_all add: store_inv_def)

lemma fault_free_store_inv [simp]: "fault_free (store_inv I)"
  by (simp add: fault_free_def)

lemma keeps_reads [keeps_rules]:
  "keeps (store_inv I) (FetchBatchTask f)" "keeps (store_inv I) (ListBatchTasks f)"
  "keeps (store_inv I) (FetchBatchFile g)" "keeps (store_inv I) (ListBatchFiles g)"
  "keeps (store_inv I) (HGetAll k)" "keeps (store_inv I) (Scan m c p)"
  "keeps (store_inv I) newAPIKeyResolveCache" "keeps (store_inv I) (http_Do m req)"
  unfolding FetchBatchTask_def ListBatchTasks_def FetchBatchFile_def ListBatchFiles_def
    HGetAll_def Scan_def newAPIKeyResolveCache_def http_Do_def
  by (auto intro!: keeps_ext_call keeps_modifyE keeps_rules split: option.splits rval.splits)

lemma keeps_resolve [keeps_rules]: "keeps (store_inv I) (resolve m k)"
  unfolding resolve_def Let_def
  by (auto intro!: keeps_rules keeps_ext_call keeps_modifyE)

lemma keeps_apply [keeps_rules]:
  "keeps (store_inv I) (applyTaskView m view)" "keeps (store_inv I) (applyFileView m fview)"
  unfolding applyTaskView_def applyFileView_def by (auto intro!: keeps_rules)

lemma keeps_resolveProviderAccess [keeps_rules]: "keeps (store_inv I) (resolveProviderAccess m p k)"
  by (rule keeps_reads_only [OF reads_only_resolveProviderAccess fault_free_store_inv])

lemma keeps_provider_calls [keeps_rules]:
  "keeps (store_inv I) (getProvider m a url)" "keeps (store_inv I) (postProviderCancel m a url)"
  unfolding getProvider_def postProviderCancel_def by (auto intro!: keeps_rules)

lemma keeps_FetchTask [keeps_rules]: "keeps (store_inv I) (FetchTask m b p r)"
  unfolding FetchTask_def by (auto intro!: keeps_rules)

lemma keeps_FetchFile [keeps_rules]: "keeps (store_inv I) (FetchFile m f v p r)"
  unfolding FetchFile_def by (auto intro!: keeps_rules)

section \<open>What a synchronisation may change\<close>

text \<open>
  An order on the versions of one row. \<open>table_le le t0 t\<close>: every row of \<open>t0\<close> lives on in \<open>t\<close>,
  moved upwards only.
\<close>

definition table_le :: "(BatchTask \<Rightarrow> BatchTask \<Rightarrow> bool) \<Rightarrow> BatchTask table \<Rightarrow> BatchTask table \<Rightarrow> bool" where
  "table_le le t0 t \<longleftrightarrow> wf_tasks t \<and>
     (\<forall>k old. lookup_task t0 k = Some old \<longrightarrow> (\<exists>new. lookup_task t k = Some new \<and> le old new))"

lemma table_le_wf: "table_le le t0 t \<Longrightarrow> wf_tasks t"
  by (simp add: table_le_def)

lemma lookup_task_iff:
  "wf_tasks t \<Longrightarrow> lookup_task t k = Some r \<longleftrightarrow> r \<in> set (rows t) \<and> bt_IdemKey r = k"
  by (auto simp: lookup_task_def wf_tasks_def find_Some_iff in_set_conv_nth distinct_conv_nth)

locale row_order =
  fixes le :: "BatchTask \<Rightarrow> BatchTask \<Rightarrow> bool"
  assumes le_refl: "le x x"
    and le_trans: "le x y \<Longrightarrow> le y z \<Longrightarrow> le x z"
begin

lemma refl: "wf_tasks t \<Longrightarrow> table_le le t t"
  by (auto simp: table_le_def le_refl)

lemma trans: "table_le le a b \<Longrightarrow> table_le le b c \<Longrightarrow> table_le le a c"
  unfolding table_le_def by (meson le_trans)

lemma put:
  assumes "wf_tasks t"
    and "\<And>old. lookup_task t (bt_IdemKey r) = Some old \<Longrightarrow> le old (stored_task now t r)"
  shows "table_le le t (put_task now r t)"
  unfolding table_le_def
proof (intro conjI allI impI)
  show "wf_tasks (put_task now r t)" using assms(1) by (rule task_table.put_inv)
  fix k old assume "lookup_task t k = Some old"
  then show "\<exists>new. lookup_task (put_task now r t) k = Some new \<and> le old new"
    using assms le_refl by (intro task_table.put_advances) auto
qed

text \<open>An UPDATE moves the table up when it moves every row it matches up.\<close>

lemma update:
  assumes "wf_tasks t" and f: "\<And>x. bt_IdemKey (f x) = bt_IdemKey x" "\<And>x. bt_ID (f x) = bt_ID x"
    and up: "\<And>x. x \<in> set (rows t) \<Longrightarrow> p x \<Longrightarrow> le x (f x)"
  shows "table_le le t (snd (exec_update my p f t))"
proof -
  have "lookup_task (snd (exec_update my p f t)) k =
      map_option (\<lambda>x. if p x then f x else x) (lookup_task t k)" for k
    unfolding lookup_task_def exec_update_def using f by (simp add: find_update_where_other)
  moreover have "le old (if p old then f old else old)" if "lookup_task t k = Some old" for k old
    using that up lookup_task_iff [OF assms(1)] le_refl by auto
  ultimately show ?thesis
    using wf_exec_update [OF assms(1) f] by (simp add: table_le_def)
qed

lemma update_from:
  assumes "table_le le t0 t" "\<And>x. bt_IdemKey (f x) = bt_IdemKey x" "\<And>x. bt_ID (f x) = bt_ID x"
    and "\<And>x. x \<in> set (rows t) \<Longrightarrow> p x \<Longrightarrow> le x (f x)"
  shows "table_le le t0 (snd (exec_update my p f t))"
  using assms update [OF table_le_wf [OF assms(1)], of f p my] trans by blast

end

interpretation task_order: row_order task_le
  by unfold_locales (auto intro: task_le_trans)

abbreviation advances :: "BatchTask table \<Rightarrow> BatchTask table \<Rightarrow> bool" where
  "advances \<equiv> table_le task_le"

lemma lookup_task_key: "lookup_task t k = Some r \<Longrightarrow> bt_IdemKey r = k \<and> r \<in> set (rows t)"
  by (auto simp: lookup_task_def dest: find_Some_in)

lemma advances_put_merge:
  assumes "wf_tasks t" "bt_IdemKey inc = b" "ex = lookup_task t b"
  shows "advances t (put_task now (mergeTaskForSync ex inc view now') t)"
proof (rule task_order.put [OF assms(1)])
  let ?r = "mergeTaskForSync ex inc view now'"
  fix old assume old: "lookup_task t (bt_IdemKey ?r) = Some old"
  have key: "bt_IdemKey ?r = b"
    using assms(2) lookup_task_key [of t b] assms(3) [symmetric] by (cases ex) auto
  with old assms(3) have "ex = Some old" by simp
  with key old show "task_le old (stored_task now t ?r)"
    by (simp add: stored_task_def task_le_def merge_status)
qed

lemma find_idem_filter:
  "TBatchTaskOne (batchTaskFilterToParam (no_filter\<lparr>flt_IdemKey := Some b\<rparr>)) t = lookup_task t b"
  by (simp add: TBatchTaskOne_def lookup_task_def batchTaskFilterToParam_def no_filter_def
      no_task_param_def where_task_def [abs_def])

lemma hoare_FetchBatchTask:
  "hoare (store_inv I) (FetchBatchTask f) (\<lambda>r s. case r of
     Inl e \<Rightarrow> store_inv I s
   | Inr x \<Rightarrow> store_inv (\<lambda>t fs rd. I t fs rd \<and> x = TBatchTaskOne (batchTaskFilterToParam f) t) s)"
  unfolding FetchBatchTask_def by (rule hoare_ext_call) (auto simp: store_inv_def)

lemma put_task_snd: "snd (TBatchTaskUpsertByIdemKey (batchTaskDataToParam r) now t) = put_task now r t"
  by (simp add: put_task_def)

lemma put_file_snd: "snd (TBatchFileUpsertByFileProvider (batchFileDataToParam r) now t) = put_file now r t"
  by (simp add: put_file_def)

lemma hoare_UpsertBatchTask:
  "(\<And>t f rd now. I t f rd \<Longrightarrow> J t f rd \<and> J (put_task now r t) f rd) \<Longrightarrow>
   hoare (store_inv I) (UpsertBatchTask r) (\<lambda>_. store_inv J)"
  unfolding UpsertBatchTask_def
  by (rule hoare_ext_call) (auto simp: store_inv_def put_task_snd split_beta)

lemma hoare_UpsertBatchFile:
  "(\<And>t f rd now. I t f rd \<Longrightarrow> J t f rd \<and> J t (put_file now r f) rd) \<Longrightarrow>
   hoare (store_inv I) (UpsertBatchFile r) (\<lambda>_. store_inv J)"
  unfolding UpsertBatchFile_def
  by (rule hoare_ext_call) (auto simp: store_inv_def put_file_snd split_beta)

lemma applyTaskView_result:
  "run_state (applyTaskView m view) s = (Inr (Some inc), s') \<Longrightarrow>
     \<exists>ak. inc = task_of_view ak view (clock s')"
  by (auto simp: applyTaskView_def split: prod.splits sum.splits option.splits)

lemma hoare_applyTaskView:
  "hoare (store_inv I) (applyTaskView m view) (\<lambda>r s. store_inv I s \<and>
     (\<forall>x. r = Inr x \<longrightarrow> (\<forall>inc. x = Some inc \<longrightarrow> bt_IdemKey inc = rv_batchID view)))"
  using keeps_apply(1) [of I m view] applyTaskView_result [of m view]
  by (fastforce simp: keeps_def hoare_def prod_eq_iff)

lemma keeps_syncOneTask: "keeps (store_inv (\<lambda>t f r. advances t0 t \<and> P f r)) (syncOneTask m b)"
proof -
  let ?I = "\<lambda>t f r. advances t0 t \<and> P f r"
  have tail: "hoare (store_inv ?I)
      (bindE (FetchBatchTask (no_filter\<lparr>flt_IdemKey := Some b\<rparr>)) (\<lambda>existing.
       bindE (getsE clock) (\<lambda>now.
       bindE (UpsertBatchTask (mergeTaskForSync existing inc view now)) (\<lambda>_. returnE ()))))
      (\<lambda>_. store_inv ?I)" if "bt_IdemKey inc = b" for inc view
  proof (rule hoare_bindE)
    let ?J = "\<lambda>ex t f r. ?I t f r \<and> ex = lookup_task t b"
    show "hoare (store_inv ?I) (FetchBatchTask (no_filter\<lparr>flt_IdemKey := Some b\<rparr>)) (\<lambda>r s. case r of
       Inl e \<Rightarrow> store_inv ?I s | Inr ex \<Rightarrow> store_inv (?J ex) s)"
      using hoare_FetchBatchTask [of ?I "no_filter\<lparr>flt_IdemKey := Some b\<rparr>"]
      unfolding find_idem_filter .
    fix ex
    have up: "advances t0 t \<Longrightarrow> ex = lookup_task t b \<Longrightarrow>
        advances t0 (put_task now (mergeTaskForSync ex inc view now') t)" for t now now'
      using advances_put_merge [OF table_le_wf that] task_order.trans by metis
    have "hoare (store_inv (?J ex)) (UpsertBatchTask (mergeTaskForSync ex inc view now))
        (\<lambda>_. store_inv ?I)" for now
      by (rule hoare_UpsertBatchTask) (use up in blast)
    then show "hoare (store_inv (?J ex))
       (bindE (getsE clock) (\<lambda>now. bindE (UpsertBatchTask (mergeTaskForSync ex inc view now))
          (\<lambda>_. returnE ()))) (\<lambda>_. store_inv ?I)"
      by (intro hoare_bindE_getsE hoare_bindE_keeps keeps_returnE)
  qed
  have "keeps (store_inv ?I) (bindE (applyTaskView m view) (\<lambda>inc. case inc of
           None \<Rightarrow> throwE ErrSyncSkip
         | Some incoming \<Rightarrow>
             bindE (FetchBatchTask (no_filter\<lparr>flt_IdemKey := Some b\<rparr>)) (\<lambda>existing.
             bindE (getsE clock) (\<lambda>now.
             bindE (UpsertBatchTask (mergeTaskForSync existing incoming view now)) (\<lambda>_.
               returnE ())))))" if "rv_batchID view = b" for view
    using that
    by (intro keeps_bindE_result [OF hoare_applyTaskView] keeps_case_option keeps_throwE
        tail [folded keeps_def]) simp
  then show ?thesis
    unfolding syncOneTask_def
    by (intro keeps_bindE [OF keeps_reads(5)] keeps_if keeps_returnE keeps_lift_err_result)
       (simp add: ParseRedisTaskView_Inr(1))
qed


text \<open>Files: a stored row keeps its identity, its first sighting and its name.\<close>

definition file_le :: "BatchFile \<Rightarrow> BatchFile \<Rightarrow> bool" where
  "file_le old new \<longleftrightarrow> bf_ID new = bf_ID old \<and> bf_FileID new = bf_FileID old
     \<and> bf_Provider new = bf_Provider old \<and> bf_FirstSeenAt new = bf_FirstSeenAt old
     \<and> (bf_Filename old \<noteq> [] \<longrightarrow> bf_Filename new \<noteq> [])"

definition file_advances :: "BatchFile table \<Rightarrow> BatchFile table \<Rightarrow> bool" where
  "file_advances f0 f \<longleftrightarrow> wf_files f \<and>
     (\<forall>k old. lookup_file f0 k = Some old \<longrightarrow> (\<exists>new. lookup_file f k = Some new \<and> file_le old new))"

lemma file_advances_refl: "wf_files f \<Longrightarrow> file_advances f f"
  by (auto simp: file_advances_def file_le_def)

lemma file_advances_put: "file_advances f0 f \<Longrightarrow> file_advances f0 (put_file now r f)"
proof -
  assume a: "file_advances f0 f"
  have le_refl: "file_le x x" for x by (simp add: file_le_def)
  have le_trans: "file_le x y \<Longrightarrow> file_le y z \<Longrightarrow> file_le x z" for x y z by (auto simp: file_le_def)
  have up: "file_le old (stored_file now f r)" if "lookup_file f (bf_FileID r, bf_Provider r) = Some old" for old
    using that by (auto simp: stored_file_def file_le_def file_conflict_update_def Let_def)
  have wf: "wf_files f" using a by (simp add: file_advances_def)
  have "\<exists>new. lookup_file (put_file now r f) k = Some new \<and> file_le old new"
    if "lookup_file f k = Some old" for k old
    using wf le_refl up that by (rule file_table.put_advances)
  with a show ?thesis
    unfolding file_advances_def by (meson le_trans file_table.put_inv)
qed

lemma keeps_UpsertBatchFile:
  "(\<And>t f rd now. I t f rd \<Longrightarrow> I t (put_file now r f) rd) \<Longrightarrow> keeps (store_inv I) (UpsertBatchFile r)"
  unfolding keeps_def by (rule hoare_UpsertBatchFile) auto

lemma keeps_syncOneFile:
  "(\<And>t f rd now r. I t f rd \<Longrightarrow> I t (put_file now r f) rd) \<Longrightarrow>
   keeps (store_inv I) (syncOneFile m p f)"
  unfolding syncOneFile_def Let_def by (auto intro!: keeps_rules keeps_UpsertBatchFile)

lemma keeps_scan_loop:
  "(\<And>k. keeps (store_inv I) (body k)) \<Longrightarrow> keeps (store_inv I) (scan_loop n m p body c j)"
proof (induction n arbitrary: c j)
  case 0
  then show ?case by (simp add: keeps_throwE)
next
  case (Suc n)
  then show ?case by (auto intro!: keeps_rules)
qed

lemma keeps_SyncFromRedis:
  assumes "\<And>f r now x. P f r \<Longrightarrow> P (put_file now x f) r"
  shows "keeps (store_inv (\<lambda>t f r. advances t0 t \<and> P f r)) (SyncFromRedis m)"
proof -
  let ?I = "\<lambda>t f r. advances t0 t \<and> P f r"
  have "keeps (store_inv ?I) (sync_task_key m k)" for k
    unfolding sync_task_key_def by (auto intro!: keeps_rules keeps_syncOneTask)
  moreover have "keeps (store_inv ?I) (sync_file_key m k)" for k
    unfolding sync_file_key_def by (auto intro!: keeps_rules keeps_syncOneFile assms)
  ultimately show ?thesis
    unfolding SyncFromRedis_def scanSyncTasks_def scanSyncFiles_def
    by (auto intro!: keeps_rules keeps_scan_loop)
qed

section \<open>Fault-free runs\<close>

text \<open>The owner that \<^verbatim>\<open>resolve\<close> finds, cached or fetched.\<close>

definition owner :: "Manager \<Rightarrow> world \<Rightarrow> string \<Rightarrow> APIKeyColumns option" where
  "owner m s k = (case map_of (ak_cache s) k of
     Some hit \<Rightarrow> hit | None \<Rightarrow> (case mg_apiKeys m k of [] \<Rightarrow> None | a # _ \<Rightarrow> Some a))"

definition cached :: "Manager \<Rightarrow> string \<Rightarrow> world \<Rightarrow> world" where
  "cached m k s = (case map_of (ak_cache s) k of
     Some _ \<Rightarrow> s | None \<Rightarrow> s\<lparr>ak_cache := alist_set k (owner m s k) (ak_cache s)\<rparr>)"

lemma cached_sel [simp]:
  "tasks (cached m k s) = tasks s" "files (cached m k s) = files s" "redis (cached m k s) = redis s"
  "clock (cached m k s) = clock s" "faults (cached m k s) = faults s"
  "http_log (cached m k s) = http_log s" "isMySQL (cached m k s) = isMySQL s"
  "op_log (cached m k s) = op_log s"
  by (simp_all add: cached_def split: option.split)

lemma owner_cached [simp]: "owner m (cached m k s) k = owner m s k"
  by (simp add: owner_def cached_def split: option.split)

lemma run_resolve: "faults s = [] \<Longrightarrow> run_state (resolve m k) s = (Inr (owner m s k), cached m k s)"
  by (simp add: resolve_def owner_def cached_def Let_def split: option.split list.split)

lemma run_applyTaskView:
  "faults s = [] \<Longrightarrow> run_state (applyTaskView m view) s =
     (Inr (map_option (\<lambda>ak. task_of_view ak view (clock s)) (owner m s (rv_apiKeyID view))),
      cached m (rv_apiKeyID view) s)"
  by (simp add: applyTaskView_def run_resolve split: option.split)

lemma run_UpsertBatchTask:
  "faults s = [] \<Longrightarrow> bt_IdemKey r \<noteq> [] \<Longrightarrow>
   \<exists>i. run_state (UpsertBatchTask r) s = (Inr i, s\<lparr>tasks := put_task (clock s) r (tasks s)\<rparr>)"
  by (auto simp: UpsertBatchTask_def put_task_def TBatchTaskUpsertByIdemKey_def Let_def
      batchTaskDataToParam_def split: prod.split)

text \<open>What one synchronised key does when nothing fails.\<close>

definition sync_put :: "Manager \<Rightarrow> string \<Rightarrow> redisTaskView \<Rightarrow> APIKeyColumns \<Rightarrow> time \<Rightarrow>
    BatchTask table \<Rightarrow> BatchTask table" where
  "sync_put m b view ak now t =
     put_task now (mergeTaskForSync (lookup_task t b) (task_of_view ak view now) view now) t"

lemma merge_IdemKey:
  assumes "rv_batchID view = b"
  shows "bt_IdemKey (mergeTaskForSync (lookup_task t b) (task_of_view ak view now) view now) = b"
  using assms lookup_task_key [of t b] by (cases "lookup_task t b") auto

lemma run_syncOneTask:
  assumes "faults s = []" "redis_get (redis s) (BatchTaskKey b) = Some (RHash vals)"
    and view: "ParseRedisTaskView m b vals = Inr view"
    and "owner m s (rv_apiKeyID view) = Some ak"
  shows "run_state (syncOneTask m b) s =
     (Inr (), (cached m (rv_apiKeyID view) s)\<lparr>tasks := sync_put m b view ak (clock s) (tasks s)\<rparr>)"
proof -
  have ne: "vals \<noteq> []" using view
    by (auto simp: ParseRedisTaskView_def field_def alist_get_def split: if_splits)
  let ?r = "mergeTaskForSync (lookup_task (tasks s) b) (task_of_view ak view (clock s)) view (clock s)"
  have "bt_IdemKey ?r \<noteq> []"
    using merge_IdemKey [of view b] ParseRedisTaskView_Inr [OF view] by simp
  then obtain i where "run_state (UpsertBatchTask ?r) (cached m (rv_apiKeyID view) s) =
      (Inr i, (cached m (rv_apiKeyID view) s)\<lparr>tasks := put_task (clock s) ?r (tasks s)\<rparr>)"
    using run_UpsertBatchTask [of "cached m (rv_apiKeyID view) s" ?r] assms(1) by auto
  then show ?thesis
    using assms ne
    by (simp add: syncOneTask_def HGetAll_def run_applyTaskView FetchBatchTask_def find_idem_filter
        sync_put_def)
qed

lemma sync_put_fixed:
  assumes "wf_tasks t" "lookup_task t b = Some ex" "b \<noteq> []" "resync ex view ak now = ex"
  shows "sync_put m b view ak now t = t"
proof -
  let ?r = "mergeTaskForSync (Some ex) (task_of_view ak view now) view now"
  have ex: "bt_IdemKey ex = b" "ex \<in> set (rows t)" using lookup_task_key [OF assms(2)] by auto
  have "x = ex" if "x \<in> set (rows t)" "bt_IdemKey x = b" for x
    using that ex assms(1) by (auto simp: wf_tasks_def intro: distinct_map_eq [of bt_IdemKey])
  then have "update_where (\<lambda>x. bt_IdemKey x = b)
      (conflict_update (insert_row (batchTaskDataToParam ?r) now)) (rows t) = rows t"
    unfolding update_where_def using assms(4)
    by (intro map_idI) (auto simp: resync_def)
  then show ?thesis
    using assms ex by (simp add: sync_put_def put_task_eq Let_def)
qed

lemma merge_None_fields:
  "bt_OutputFileID (mergeTaskForSync None inc view now) = bt_OutputFileID inc"
  "bt_RequestCounts (mergeTaskForSync None inc view now) = bt_RequestCounts inc"
  "bt_EstLines (mergeTaskForSync None inc view now) = bt_EstLines inc"
  "bt_UsageInputTokens (mergeTaskForSync None inc view now) = bt_UsageInputTokens inc"
  "bt_UsageOutputTokens (mergeTaskForSync None inc view now) = bt_UsageOutputTokens inc"
  "bt_ReserveUnits (mergeTaskForSync None inc view now) = bt_ReserveUnits inc"
  "bt_SettleUnits (mergeTaskForSync None inc view now) = bt_SettleUnits inc"
  "bt_SettleStatus (mergeTaskForSync None inc view now) = bt_SettleStatus inc"
  "bt_TerminalAt (mergeTaskForSync None inc view now) =
     (if IsTerminalStatus (bt_Status inc) then Some now else bt_TerminalAt inc)"
  by (simp_all add: mergeTaskForSync_def)

lemma task_of_view_fields:
  "bt_OutputFileID (task_of_view ak view now) = opt_or (rv_outputFileID view) []"
  "bt_RequestCounts (task_of_view ak view now) = rv_requestCounts view"
  "bt_EstLines (task_of_view ak view now) = opt_or (rv_estLines view) 0"
  "bt_UsageInputTokens (task_of_view ak view now) = opt_or (rv_usageIn view) 0"
  "bt_UsageOutputTokens (task_of_view ak view now) = opt_or (rv_usageOut view) 0"
  "bt_ReserveUnits (task_of_view ak view now) = opt_or (rv_reserveUnits view) 0"
  "bt_SettleUnits (task_of_view ak view now) = opt_or (rv_settleUnits view) 0"
  "bt_SettleStatus (task_of_view ak view now) =
     (if rv_settleStatus view \<noteq> [] then rv_settleStatus view else SettleStatusReserved)"
  "bt_TerminalAt (task_of_view ak view now) =
     (if IsTerminalStatus (rv_status view) then Some now else None)"
  by (simp_all add: task_of_view_def)

lemma resync_inserted:
  "resync ((insert_row (batchTaskDataToParam (mergeTaskForSync None (task_of_view ak view now) view now))
     now)\<lparr>bt_ID := i\<rparr>) view ak now =
   (insert_row (batchTaskDataToParam (mergeTaskForSync None (task_of_view ak view now) view now))
     now)\<lparr>bt_ID := i\<rparr>"
  unfolding resync_def
  by (rule conflict_update_absorb)
     (simp_all add: merge_fields merge_status merge_TerminalAt merge_None_fields task_of_view_fields
       keep_if_empty_def)

lemma sync_put_idem:
  assumes "wf_tasks t" "rv_batchID view = b" "b \<noteq> []"
  shows "sync_put m b view ak now (sync_put m b view ak now t) = sync_put m b view ak now t"
proof -
  let ?r = "mergeTaskForSync (lookup_task t b) (task_of_view ak view now) view now"
  have key: "bt_IdemKey ?r = b" using assms(2) by (rule merge_IdemKey)
  show ?thesis
  proof (rule sync_put_fixed)
    show "lookup_task (sync_put m b view ak now t) b = Some (stored_task now t ?r)"
      using task_table.lookup_put_same [OF assms(1), of ?r] key assms(3) by (simp add: sync_put_def)
    show "wf_tasks (sync_put m b view ak now t)"
      unfolding sync_put_def using assms(1) by (rule task_table.put_inv)
    show "resync (stored_task now t ?r) view ak now = stored_task now t ?r"
    proof (cases "lookup_task t b")
      case None
      then show ?thesis by (simp add: stored_task_def key Let_def assms(2) resync_inserted)
    next
      case (Some ex)
      then have "stored_task now t ?r = resync ex view ak now"
        using key by (simp add: stored_task_def resync_def Let_def)
      then show ?thesis by (simp add: resync_idem)
    qed
  qed (rule assms(3))
qed

section \<open>Pages\<close>

text \<open>The whole answer to a filter, in the order of the pages.\<close>

definition all_tasks :: "BatchTaskFilter \<Rightarrow> BatchTask table \<Rightarrow> BatchTask list" where
  "all_tasks flt t = sort_key bt_ID (filter (where_task (batchTaskFilterToParam flt)) (rows t))"

lemma filter_above_last_take:
  fixes f :: "'a \<Rightarrow> int"
  assumes "sorted_wrt (<) (map f xs)" "0 < n" "n \<le> length xs"
  shows "filter (\<lambda>x. f (last (take n xs)) < f x) xs = drop n xs"
proof -
  let ?a = "take n xs" and ?b = "drop n xs"
  have ne: "?a \<noteq> []" using assms(2,3) by auto
  have s: "sorted_wrt (<) (map f ?a @ map f ?b)"
    using assms(1) by (simp flip: map_append)
  have "f x \<le> f (last ?a)" if "x \<in> set ?a" for x
  proof -
    from that obtain i where i: "i < n" "x = xs ! i" "i < length xs" by (auto simp: in_set_conv_nth)
    have l: "last ?a = xs ! (n - 1)" using ne assms(2,3) by (simp add: last_conv_nth)
    show ?thesis
    proof (cases "i = n - 1")
      case False
      then have "f (xs ! i) < f (xs ! (n - 1))"
        using assms i sorted_wrt_nth_less [OF assms(1), of i "n - 1"] by simp
      then show ?thesis using i l by simp
    qed (use i l in simp)
  qed
  moreover have "f (last ?a) < f x" if "x \<in> set ?b" for x
    using s that last_in_set [OF ne] by (auto simp: sorted_wrt_append)
  ultimately have "filter (\<lambda>x. f (last ?a) < f x) ?a = []" "filter (\<lambda>x. f (last ?a) < f x) ?b = ?b"
    by (auto simp: filter_empty_conv filter_id_conv not_less)
  then show ?thesis
    using filter_append [of "\<lambda>x. f (last ?a) < f x" ?a ?b] unfolding append_take_drop_id by simp
qed

lemma all_tasks_strict:
  assumes "wf_tasks t" shows "sorted_wrt (<) (map bt_ID (all_tasks flt t))"
proof -
  have "distinct (map bt_ID (filter (where_task (batchTaskFilterToParam flt)) (rows t)))"
    using assms by (simp add: wf_tasks_def distinct_map_filter)
  then have "distinct (map bt_ID (all_tasks flt t))" by (simp add: all_tasks_def distinct_map)
  then show ?thesis by (simp add: strict_sorted_iff all_tasks_def)
qed

lemma all_tasks_cursor:
  "(\<forall>c0. flt_CursorID flt = Some c0 \<longrightarrow> c0 \<le> c) \<Longrightarrow>
   all_tasks (flt\<lparr>flt_CursorID := Some c\<rparr>) t = filter (\<lambda>r. c < bt_ID r) (all_tasks flt t)"
  unfolding all_tasks_def filter_sort
  by (rule arg_cong [where f = "sort_key bt_ID"])
     (auto simp: where_task_def batchTaskFilterToParam_def no_task_param_def intro!: filter_cong
       split: option.splits)

text \<open>A page and what follows its cursor is everything that was asked for.\<close>

lemma page_split:
  assumes "wf_tasks t" "0 < n"
  shows "take n (all_tasks flt t) @
     (if n \<le> length (all_tasks flt t)
      then all_tasks (flt\<lparr>flt_CursorID := Some (bt_ID (last (take n (all_tasks flt t))))\<rparr>) t else []) =
     all_tasks flt t"
proof (cases "n \<le> length (all_tasks flt t)")
  case True
  let ?a = "all_tasks flt t"
  have "last (take n ?a) \<in> set ?a"
    using True assms(2) by (metis in_set_takeD last_in_set length_0_conv length_take min.absorb2 not_less_zero)
  then have "flt_CursorID flt = Some c0 \<Longrightarrow> c0 \<le> bt_ID (last (take n ?a))" for c0
    by (auto simp: all_tasks_def where_task_def batchTaskFilterToParam_def no_task_param_def)
  then show ?thesis
    using True filter_above_last_take [OF all_tasks_strict [OF assms(1)] assms(2) True]
    by (simp add: all_tasks_cursor)
qed simp

lemma run_ListTasks:
  assumes "faults s = []" "flt_ProductName flt = Some p" "p \<noteq> []"
  defines "limit \<equiv> (if flt_Limit flt \<le> 0 then 50 else if flt_Limit flt > 200 then 200 else flt_Limit flt)"
  shows "run_state (ListTasks (Some flt)) s = (Inr \<lparr>lr_Tasks = take (nat limit) (all_tasks flt (tasks s)),
     lr_NextCursor = (if nat limit \<le> length (all_tasks flt (tasks s))
        then bt_ID (last (take (nat limit) (all_tasks flt (tasks s)))) else 0)\<rparr>, s)"
proof -
  have l: "0 < limit" "limit \<le> 200" by (auto simp: limit_def)
  have "TBatchTaskList ((batchTaskFilterToParam (flt\<lparr>flt_Limit := limit\<rparr>))\<lparr>tp_OrderById := True,
      tp_Limit := Some (nat limit)\<rparr>) t = take (nat limit) (all_tasks flt t)" for t
    by (simp add: TBatchTaskList_def all_tasks_def where_task_def [abs_def] batchTaskFilterToParam_def)
  moreover have "ListTasks (Some flt) = bindE (ListBatchTasks (flt\<lparr>flt_Limit := limit\<rparr>)) (\<lambda>ts.
      returnE \<lparr>lr_Tasks = ts,
        lr_NextCursor = (if int (length ts) \<ge> limit \<and> limit > 0 then bt_ID (last ts) else 0)\<rparr>)"
    using assms(2,3) by (simp add: ListTasks_def limit_def Let_def)
  ultimately show ?thesis
    using assms(1) l by (auto simp: ListBatchTasks_def)
qed

section \<open>Isolation of products\<close>

lemma FetchBatchTask_result:
  "run_state (FetchBatchTask f) s = (Inr x, s') \<Longrightarrow>
     x = TBatchTaskOne (batchTaskFilterToParam f) (tasks s)"
  by (auto simp: FetchBatchTask_def split: list.splits fault.splits)

lemma find_batch_filter:
  "TBatchTaskOne (batchTaskFilterToParam (no_filter\<lparr>flt_BatchID := Some b, flt_ProductName := Some p\<rparr>)) t =
     List.find (\<lambda>r. bt_BatchID r = b \<and> bt_ProductName r = p) (rows t)"
  by (simp add: TBatchTaskOne_def batchTaskFilterToParam_def no_filter_def no_task_param_def
      where_task_def [abs_def])

lemma FetchTask_owner:
  assumes "run_state (FetchTask m b p fb) s = (Inr (Some task), s')"
  shows "bt_BatchID task = b \<and> bt_ProductName task = p"
  using assms find_Some_in [of "\<lambda>r. bt_BatchID r = b \<and> bt_ProductName r = p" "rows (tasks s)" task]
  by (auto simp: FetchTask_def find_batch_filter ParseRedisTaskView_Inr
      split: prod.splits sum.splits option.splits if_splits
      dest!: FetchBatchTask_result applyTaskView_result)

end
