(* ===== verification/BatchAdvance.thy ===== *)
theory BatchAdvance
  imports BatchSync
begin

text \<open>
  The second duty of the reconcile job (\<^verbatim>\<open>advance.go\<close>): asking the provider for the state of the
  tasks that are not terminal, and completing the artifacts of completed ones. The facts show that
  no run, whatever fails, takes a terminal status back, that a task being cancelled stays so until the provider
  reports a terminal status, when a task is declared expired, and that the backfill never changes a status.
\<close>

definition nsHour :: duration where "nsHour = 3600 * nsSecond"

definition providerAbsentGrace :: duration where "providerAbsentGrace = 24 * nsHour"

definition terminalArtifactWindow :: duration where "terminalArtifactWindow = 24 * nsHour"

text \<open>Go maps are compared as finite maps; a nil map is an empty one.\<close>

definition equalCounts :: "counts \<Rightarrow> counts \<Rightarrow> bool" where
  "equalCounts a b =
     (if length a \<noteq> length b then False else list_all (\<lambda>(k, v). map_of b k = Some v) a)"

definition counts_of :: "counts option \<Rightarrow> counts" where
  "counts_of c = opt_or c []"

definition registerOutputFile :: "BatchTask \<Rightarrow> string \<Rightarrow> time \<Rightarrow> unit io" where
  "registerOutputFile task outputFileID now =
     bindE (FetchBatchFile (no_file_filter\<lparr>ff_FileID := Some outputFileID,
         ff_Provider := Some (bt_Provider task)\<rparr>)) (\<lambda>existing.
       let file = zero_file\<lparr>bf_FileID := outputFileID, bf_Provider := bt_Provider task,
             bf_KeyName := bt_KeyName task, bf_APIKeyID := bt_APIKeyID task,
             bf_ProductName := bt_ProductName task, bf_Direction := FileDirectionOutput\<rparr>;
           view = (ParseRedisFileView (bt_Provider task) outputFileID [])
       in bindE (UpsertBatchFile (mergeFileForSync existing file view now)) (\<lambda>_. returnE ()))"

definition handleProviderAbsent :: "BatchTask \<Rightarrow> bool io" where
  "handleProviderAbsent task =
     bindE (getsE clock) (\<lambda>now.
       if time_Sub now (bt_CreatedAt task) \<le> providerAbsentGrace then returnE False
       else bindE (UpdateBatchTaskProgress (bt_ID task)
              (empty_progress\<lparr>pp_Status := Some TaskStatusExpired, pp_TerminalAt := Some now\<rparr>))
            (\<lambda>affected. returnE (affected \<noteq> 0)))"

text \<open>
  The patch that a provider answer gives for a task, the flag that something changed, and whether the
  cancel request is sent again.
\<close>

definition status_held :: "BatchTask \<Rightarrow> providerBatchResponse \<Rightarrow> bool" where
  "status_held task resp \<longleftrightarrow> bt_Status task = TaskStatusCancelling
     \<and> \<not> IsTerminalStatus (pb_Status resp) \<and> pb_Status resp \<noteq> TaskStatusCancelling"

definition new_output :: "BatchTask \<Rightarrow> providerBatchResponse \<Rightarrow> bool" where
  "new_output task resp \<longleftrightarrow> pb_OutputFileID resp \<noteq> [] \<and> pb_OutputFileID resp \<noteq> bt_OutputFileID task"

definition new_endpoint :: "BatchTask \<Rightarrow> providerBatchResponse \<Rightarrow> bool" where
  "new_endpoint task resp \<longleftrightarrow> pb_Endpoint resp \<noteq> [] \<and> pb_Endpoint resp \<noteq> bt_Endpoint task"

definition advance_changed :: "BatchTask \<Rightarrow> providerBatchResponse \<Rightarrow> bool" where
  "advance_changed task resp \<longleftrightarrow>
     (\<not> status_held task resp \<and> pb_Status resp \<noteq> bt_Status task)
   \<or> \<not> equalCounts (counts_of (pb_RequestCounts resp)) (counts_of (bt_RequestCounts task))
   \<or> new_output task resp \<or> new_endpoint task resp"

definition advance_patch :: "BatchTask \<Rightarrow> providerBatchResponse \<Rightarrow> time \<Rightarrow> BatchTaskProgressPatch" where
  "advance_patch task resp now =
     (let st = (if status_held task resp \<or> IsTerminalStatus (bt_Status task) then None
                else Some (pb_Status resp))
      in \<lparr>pp_Status = st,
          pp_OutputFileID = (if new_output task resp then Some (pb_OutputFileID resp) else None),
          pp_Endpoint = (if new_endpoint task resp then Some (pb_Endpoint resp) else None),
          pp_RequestCounts = pb_RequestCounts resp,
          pp_TerminalAt = (if IsTerminalStatus (pb_Status resp) \<and> st \<noteq> None then Some now else None)\<rparr>)"

text \<open>The answer to \<^verbatim>\<open>GET /batches/{id}\<close> after the checks on its id.\<close>

definition parse_batch_response :: "Manager \<Rightarrow> BatchTask \<Rightarrow> string \<Rightarrow> error + providerBatchResponse" where
  "parse_batch_response m task body =
     (case mg_decodeBatch m body of
        None \<Rightarrow> Inl (ErrMsg ''parse provider batch response'')
      | Some resp \<Rightarrow>
          if pb_ID resp \<noteq> [] \<and> pb_ID resp \<noteq> bt_BatchID task
          then Inl (ErrMsg ''provider returned mismatched batch id'') else Inr resp)"

definition advanceOneTask :: "Manager \<Rightarrow> BatchTask \<Rightarrow> bool io" where
  "advanceOneTask m task =
     bindE (resolveProviderAccess m (bt_Provider task) (bt_KeyName task)) (\<lambda>access.
     bindE (getProvider m access (batch_url access (bt_BatchID task))) (\<lambda>(respBody, statusCode).
       if statusCode = 404 then handleProviderAbsent task
       else if statusCode < 200 \<or> statusCode \<ge> 300 then throwE ErrUpstream
       else bindE (lift_err (parse_batch_response m task respBody)) (\<lambda>resp.
         if pb_Status resp = [] then throwE (ErrMsg ''provider response missing status'')
         else bindE (getsE clock) (\<lambda>now.
           bindE (if status_held task resp
                  then ignoreE (postProviderCancel m access
                         (batch_url access (bt_BatchID task) @ ''/cancel''))
                  else returnE ()) (\<lambda>_.
           bindE (if new_output task resp
                  then ignoreE (registerOutputFile task (pb_OutputFileID resp) now)
                  else returnE ()) (\<lambda>_.
             if \<not> advance_changed task resp then returnE False
             else bindE (UpdateBatchTaskProgress (bt_ID task) (advance_patch task resp now)) (\<lambda>_.
               returnE True)))))))"

definition AdvanceStatus :: "Manager \<Rightarrow> nat io" where
  "AdvanceStatus m =
     (case mg_providers m of
        None \<Rightarrow> returnE 0
      | Some _ \<Rightarrow>
          bindE (ListBatchTasks (no_filter\<lparr>flt_StatusNotIn := TerminalStatuses,
              flt_Limit := mg_advanceLimit m\<rparr>)) (\<lambda>ts.
            State_Monad.bind (count_ok (advanceOneTask m) ts) returnE))"

section \<open>Backfill\<close>

definition fills_output :: "BatchTask \<Rightarrow> providerBatchResponse \<Rightarrow> bool" where
  "fills_output task resp \<longleftrightarrow> bt_OutputFileID task = [] \<and> pb_OutputFileID resp \<noteq> []"

definition backfill_patch :: "BatchTask \<Rightarrow> providerBatchResponse \<Rightarrow> BatchTaskProgressPatch" where
  "backfill_patch task resp = empty_progress\<lparr>
     pp_OutputFileID := (if fills_output task resp then Some (pb_OutputFileID resp) else None),
     pp_RequestCounts := (if bt_RequestCounts task = None then pb_RequestCounts resp else None),
     pp_Endpoint := (if bt_Endpoint task = [] \<and> pb_Endpoint resp \<noteq> [] then Some (pb_Endpoint resp)
                     else None)\<rparr>"

definition backfillOneTask :: "Manager \<Rightarrow> BatchTask \<Rightarrow> bool io" where
  "backfillOneTask m task =
     bindE (resolveProviderAccess m (bt_Provider task) (bt_KeyName task)) (\<lambda>access.
     bindE (getProvider m access (batch_url access (bt_BatchID task))) (\<lambda>(respBody, statusCode).
       if statusCode = 404 then returnE False
       else if statusCode < 200 \<or> statusCode \<ge> 300 then throwE ErrUpstream
       else bindE (lift_err (parse_batch_response m task respBody)) (\<lambda>resp.
         bindE (getsE clock) (\<lambda>now.
         bindE (if fills_output task resp
                then ignoreE (registerOutputFile task (pb_OutputFileID resp) now)
                else returnE ()) (\<lambda>_.
           if backfill_patch task resp = empty_progress then returnE False
           else bindE (UpdateBatchTaskProgress (bt_ID task) (backfill_patch task resp)) (\<lambda>_.
             returnE True))))))"

definition backfill_body :: "Manager \<Rightarrow> BatchTask \<Rightarrow> bool io" where
  "backfill_body m task =
     (if bt_OutputFileID task \<noteq> [] \<and> bt_RequestCounts task \<noteq> None then returnE False
      else backfillOneTask m task)"

definition BackfillTerminalArtifacts :: "Manager \<Rightarrow> nat io" where
  "BackfillTerminalArtifacts m =
     (case mg_providers m of
        None \<Rightarrow> returnE 0
      | Some _ \<Rightarrow>
          bindE (getsE clock) (\<lambda>now.
          bindE (ListBatchTasks (no_filter\<lparr>flt_Status := Some TaskStatusCompleted,
              flt_CreatedStart := Some (now - terminalArtifactWindow),
              flt_Limit := mg_advanceLimit m\<rparr>)) (\<lambda>ts.
            State_Monad.bind (count_ok (backfill_body m) ts) returnE)))"

section \<open>What an advance may change\<close>

text \<open>
  The versions that an advance may give to a row: a terminal row is untouched, a cancelling one stays
  or turns terminal, the money columns stay, and a row that turns terminal gets its time.
\<close>

definition advance_le :: "BatchTask \<Rightarrow> BatchTask \<Rightarrow> bool" where
  "advance_le old new \<longleftrightarrow> bt_ID new = bt_ID old \<and> bt_IdemKey new = bt_IdemKey old
     \<and> bt_BatchID new = bt_BatchID old \<and> bt_ProductName new = bt_ProductName old
     \<and> bt_SettleStatus new = bt_SettleStatus old \<and> bt_SettleUnits new = bt_SettleUnits old
     \<and> bt_ReserveUnits new = bt_ReserveUnits old
     \<and> (IsTerminalStatus (bt_Status old) \<longrightarrow> new = old)
     \<and> (bt_Status old = TaskStatusCancelling \<longrightarrow>
          bt_Status new = TaskStatusCancelling \<or> IsTerminalStatus (bt_Status new))
     \<and> (\<not> IsTerminalStatus (bt_Status old) \<and> IsTerminalStatus (bt_Status new) \<longrightarrow>
          bt_TerminalAt new \<noteq> None)"

interpretation advance_order: row_order advance_le
  by unfold_locales (auto simp: advance_le_def)

definition progress_ok :: "BatchTask \<Rightarrow> BatchTaskProgressPatch \<Rightarrow> bool" where
  "progress_ok task p \<longleftrightarrow> (\<forall>st. pp_Status p = Some st \<longrightarrow>
     (bt_Status task = TaskStatusCancelling \<longrightarrow> st = TaskStatusCancelling \<or> IsTerminalStatus st)
     \<and> (IsTerminalStatus st \<longrightarrow> pp_TerminalAt p \<noteq> None))"

lemma progress_ok_advance: "progress_ok task (advance_patch task resp now)"
  by (auto simp: progress_ok_def advance_patch_def Let_def status_held_def)

lemma progress_ok_expired:
  "progress_ok task (empty_progress\<lparr>pp_Status := Some TaskStatusExpired, pp_TerminalAt := Some now\<rparr>)"
  by (simp add: progress_ok_def)

lemma where_id: "where_task (no_task_param\<lparr>tp_ID := Some i\<rparr>) = (\<lambda>x. bt_ID x = i)"
  by (simp add: where_task_def [abs_def] no_task_param_def)

definition put_progress ::
  "bool \<Rightarrow> int \<Rightarrow> BatchTaskProgressPatch \<Rightarrow> time \<Rightarrow> BatchTask table \<Rightarrow> BatchTask table" where
  "put_progress my i p now t =
     snd (exec_update my (\<lambda>x. bt_ID x = i) (assign_task (progressPatchToParam p now)) t)"

lemma hoare_UpdateBatchTaskProgress:
  assumes "\<And>t f r. I t f r \<Longrightarrow> J t f r"
    and "\<And>t f r my now. I t f r \<Longrightarrow> J (put_progress my i p now t) f r"
  shows "hoare (store_inv I) (UpdateBatchTaskProgress i p) (\<lambda>_. store_inv J)"
  unfolding UpdateBatchTaskProgress_def
  by (rule hoare_ext_call)
     (use assms in \<open>auto simp: store_inv_def TBatchTaskUpdate_def where_id put_progress_def split_beta\<close>)

lemma assign_progress_sel:
  "bt_Status (assign_task (progressPatchToParam p now) x) = opt_or (pp_Status p) (bt_Status x)"
  "bt_SettleStatus (assign_task (progressPatchToParam p now) x) = bt_SettleStatus x"
  "bt_SettleUnits (assign_task (progressPatchToParam p now) x) = bt_SettleUnits x"
  "bt_ReserveUnits (assign_task (progressPatchToParam p now) x) = bt_ReserveUnits x"
  "pp_TerminalAt p \<noteq> None \<Longrightarrow> bt_TerminalAt (assign_task (progressPatchToParam p now) x) = pp_TerminalAt p"
  "pp_TerminalAt p = None \<Longrightarrow> bt_TerminalAt (assign_task (progressPatchToParam p now) x) = bt_TerminalAt x"
  by (auto simp: assign_task_def progressPatchToParam_def no_task_param_def)

lemma advance_le_progress:
  assumes "progress_ok task p" "bt_Status x = bt_Status task" "\<not> IsTerminalStatus (bt_Status x)"
  shows "advance_le x (assign_task (progressPatchToParam p now) x)"
proof (cases "pp_Status p")
  case None
  then show ?thesis using assms by (simp add: advance_le_def assign_progress_sel)
next
  case (Some st)
  have "IsTerminalStatus st \<Longrightarrow> pp_TerminalAt p \<noteq> None" using assms(1) Some by (simp add: progress_ok_def)
  then show ?thesis using assms Some
    by (auto simp: advance_le_def assign_progress_sel progress_ok_def simp del: not_None_eq)
qed

text \<open>
  One task: everything before the last write only reads, logs or registers a file, and the last
  write is a progress patch of that task.
\<close>

lemma hoare_advanceOneTask:
  assumes IJ: "\<And>t f r. I t f r \<Longrightarrow> J t f r"
    and fput: "\<And>t f r now x. I t f r \<Longrightarrow> I t (put_file now x f) r"
    and up: "\<And>t f r my p now. I t f r \<Longrightarrow> progress_ok task p \<Longrightarrow>
       J (put_progress my (bt_ID task) p now t) f r"
  shows "hoare (store_inv I) (advanceOneTask m task) (\<lambda>_. store_inv J)"
proof -
  have IJ': "store_inv I s \<Longrightarrow> store_inv J s" for s using IJ by (simp add: store_inv_def)
  have reg: "keeps (store_inv I) (registerOutputFile task x now)" for x now
    unfolding registerOutputFile_def Let_def
    by (intro keeps_rules keeps_UpsertBatchFile fput)
  have absent: "hoare (store_inv I) (handleProviderAbsent task) (\<lambda>_. store_inv J)"
    unfolding handleProviderAbsent_def
    by (intro hoare_bindE_getsE hoare_if hoare_pure IJ' hoare_bindE_keeps keeps_returnE
        hoare_UpdateBatchTaskProgress IJ up progress_ok_expired)
  show ?thesis
    unfolding advanceOneTask_def
    by (intro hoare_keeps_bindE keeps_resolveProviderAccess keeps_provider_calls IJ' hoare_case_prod
        hoare_if absent hoare_pure hoare_lift_err_bindE hoare_bindE_getsE keeps_if keeps_ignoreE
        keeps_returnE reg hoare_bindE_keeps hoare_UpdateBatchTaskProgress up progress_ok_advance IJ)
qed

section \<open>Whole runs\<close>

lemma hoare_ListBatchTasks:
  "hoare (store_inv I) (ListBatchTasks f) (\<lambda>r s. case r of
     Inl e \<Rightarrow> store_inv I s
   | Inr ts \<Rightarrow> store_inv (\<lambda>t fl rd. I t fl rd
       \<and> (\<forall>x\<in>set ts. x \<in> set (rows t) \<and> where_task (batchTaskFilterToParam f) x)
       \<and> (wf_tasks t \<longrightarrow> distinct (map bt_ID ts))) s)"
proof -
  let ?w = "(batchTaskFilterToParam f)\<lparr>tp_OrderById := True,
     tp_Limit := if flt_Limit f > 0 then Some (nat (flt_Limit f)) else None\<rparr>"
  have "x \<in> set (rows t) \<and> where_task (batchTaskFilterToParam f) x" if "x \<in> set (TBatchTaskList ?w t)" for x t
    using that TBatchTaskList_sub [of ?w t] by (auto simp: where_task_def)
  then show ?thesis
    unfolding ListBatchTasks_def
    by (intro hoare_ext_call) (auto simp: store_inv_def distinct_TBatchTaskList)
qed

text \<open>
  The invariant of the loops over a listing: the rows still to visit are as they were listed.
\<close>

definition pending :: "BatchTask list \<Rightarrow> BatchTask table \<Rightarrow> bool" where
  "pending ts t \<longleftrightarrow> distinct (map bt_ID ts) \<and>
     (\<forall>x\<in>set ts. \<forall>y\<in>set (rows t). bt_ID y = bt_ID x \<longrightarrow> y = x)"

lemma pending_listed:
  assumes "wf_tasks t" "\<forall>x\<in>set ts. x \<in> set (rows t)" "distinct (map bt_ID ts)"
  shows "pending ts t"
  using assms by (auto simp: pending_def wf_tasks_def intro: distinct_map_eq [of bt_ID])

lemma pending_tl: "pending (x # ts) t \<Longrightarrow> pending ts t"
  by (simp add: pending_def)

lemma pending_progress: "pending (x # ts) t \<Longrightarrow> pending ts (put_progress my (bt_ID x) p now t)"
  by (auto simp: pending_def put_progress_def exec_update_def in_update_where)

text \<open>
  A duty that lists tasks and runs a body on each keeps an order on the rows when the body does so for a
  row that is still as it was listed.
\<close>

lemma hoare_listing_loop:
  assumes body: "\<And>x ys. hoare (store_inv (\<lambda>t f r. table_le le t0 t \<and> pending (x # ys) t
        \<and> (\<forall>y\<in>set (x # ys). where_task (batchTaskFilterToParam flt) y) \<and> P f r)) (body x)
      (\<lambda>_. store_inv (\<lambda>t f r. table_le le t0 t \<and> pending ys t
        \<and> (\<forall>y\<in>set ys. where_task (batchTaskFilterToParam flt) y) \<and> P f r))"
  shows "keeps (store_inv (\<lambda>t f r. table_le le t0 t \<and> P f r))
    (bindE (ListBatchTasks flt) (\<lambda>ts. State_Monad.bind (count_ok body ts) returnE))"
proof -
  let ?K = "\<lambda>t f r. table_le le t0 t \<and> P f r"
  let ?L = "\<lambda>ts t f r. table_le le t0 t \<and> pending ts t
     \<and> (\<forall>y\<in>set ts. where_task (batchTaskFilterToParam flt) y) \<and> P f r"
  have lst: "hoare (store_inv ?K) (ListBatchTasks flt)
      (\<lambda>r s. case r of Inl e \<Rightarrow> store_inv ?K s | Inr ts \<Rightarrow> store_inv (?L ts) s)"
    by (rule hoare_weaken [OF hoare_ListBatchTasks [of ?K flt]])
       (auto simp: store_inv_def intro: pending_listed table_le_wf split: sum.splits)
  have "hoare (store_inv (?L ts)) (count_ok body ts) (\<lambda>_. store_inv (?L []))" for ts
    by (rule hoare_count_ok [of ts "\<lambda>ts. store_inv (?L ts)"]) (rule body)
  then have "hoare (store_inv (?L ts)) (State_Monad.bind (count_ok body ts) returnE)
      (\<lambda>_. store_inv ?K)" for ts
    by (rule hoare_bind) (auto simp: hoare_def store_inv_def)
  then show ?thesis
    unfolding keeps_def by (intro hoare_bindE [OF lst]) simp
qed

lemma keeps_AdvanceStatus:
  "keeps (store_inv (\<lambda>t f r. table_le advance_le t0 t \<and> r = r0)) (AdvanceStatus m)"
proof -
  let ?f = "no_filter\<lparr>flt_StatusNotIn := TerminalStatuses, flt_Limit := mg_advanceLimit m\<rparr>"
  have nt: "where_task (batchTaskFilterToParam ?f) x \<Longrightarrow> \<not> IsTerminalStatus (bt_Status x)" for x
    by (simp add: where_task_def batchTaskFilterToParam_def no_filter_def no_task_param_def
        IsTerminalStatus_iff TerminalStatuses_def)
  have up: "table_le advance_le t0 (put_progress my (bt_ID x) p now t)"
    if "table_le advance_le t0 t" "pending (x # ys) t" "\<not> IsTerminalStatus (bt_Status x)"
      "progress_ok x p" for x ys my p now t
    unfolding put_progress_def using that
    by (intro advance_order.update_from advance_le_progress [of x]) (auto simp: pending_def)
  show ?thesis
    unfolding AdvanceStatus_def
    by (intro keeps_case_option keeps_returnE hoare_listing_loop hoare_advanceOneTask)
       (auto dest: pending_tl nt intro: up pending_progress)
qed

section \<open>What a backfill may change\<close>

text \<open>Only an artifact that was missing, and the time of the write.\<close>

definition backfill_le :: "BatchTask \<Rightarrow> BatchTask \<Rightarrow> bool" where
  "backfill_le old new \<longleftrightarrow> new = old\<lparr>bt_OutputFileID := bt_OutputFileID new,
       bt_RequestCounts := bt_RequestCounts new, bt_Endpoint := bt_Endpoint new,
       bt_UpdatedAt := bt_UpdatedAt new\<rparr>
     \<and> (bt_OutputFileID old \<noteq> [] \<longrightarrow> bt_OutputFileID new = bt_OutputFileID old)
     \<and> (bt_RequestCounts old \<noteq> None \<longrightarrow> bt_RequestCounts new = bt_RequestCounts old)
     \<and> (bt_Endpoint old \<noteq> [] \<longrightarrow> bt_Endpoint new = bt_Endpoint old)"

lemma backfill_le_trans:
  assumes "backfill_le x y" "backfill_le y z"
  shows "backfill_le x z"
proof -
  have y: "y = x\<lparr>bt_OutputFileID := bt_OutputFileID y, bt_RequestCounts := bt_RequestCounts y,
      bt_Endpoint := bt_Endpoint y, bt_UpdatedAt := bt_UpdatedAt y\<rparr>"
    and z: "z = y\<lparr>bt_OutputFileID := bt_OutputFileID z, bt_RequestCounts := bt_RequestCounts z,
      bt_Endpoint := bt_Endpoint z, bt_UpdatedAt := bt_UpdatedAt z\<rparr>"
    using assms by (simp_all add: backfill_le_def)
  have "z = x\<lparr>bt_OutputFileID := bt_OutputFileID z, bt_RequestCounts := bt_RequestCounts z,
      bt_Endpoint := bt_Endpoint z, bt_UpdatedAt := bt_UpdatedAt z\<rparr>"
    by (subst z, subst y) simp
  with assms show ?thesis by (auto simp: backfill_le_def)
qed

lemma backfill_le_keeps:
  assumes "backfill_le x y"
  shows "bt_ID y = bt_ID x" "bt_IdemKey y = bt_IdemKey x" "bt_BatchID y = bt_BatchID x"
    "bt_ProductName y = bt_ProductName x" "bt_Status y = bt_Status x"
    "bt_SettleStatus y = bt_SettleStatus x" "bt_TerminalAt y = bt_TerminalAt x"
proof -
  obtain a b c d where "y = x\<lparr>bt_OutputFileID := a, bt_RequestCounts := b, bt_Endpoint := c,
      bt_UpdatedAt := d\<rparr>"
    using assms unfolding backfill_le_def by blast
  then show "bt_ID y = bt_ID x" "bt_IdemKey y = bt_IdemKey x" "bt_BatchID y = bt_BatchID x"
    "bt_ProductName y = bt_ProductName x" "bt_Status y = bt_Status x"
    "bt_SettleStatus y = bt_SettleStatus x" "bt_TerminalAt y = bt_TerminalAt x" by simp_all
qed

interpretation backfill_order: row_order backfill_le
  by unfold_locales (auto simp: backfill_le_def [of x x for x] intro: backfill_le_trans)

lemma backfill_le_patch:
  "backfill_le x (assign_task (progressPatchToParam (backfill_patch x resp) now) x)"
  by (simp add: backfill_le_def assign_task_def progressPatchToParam_def no_task_param_def
      backfill_patch_def empty_progress_def fills_output_def split: option.split)

lemma hoare_backfillOneTask:
  assumes IJ: "\<And>t f r. I t f r \<Longrightarrow> J t f r"
    and fput: "\<And>t f r now x. I t f r \<Longrightarrow> I t (put_file now x f) r"
    and up: "\<And>t f r my resp now. I t f r \<Longrightarrow>
       J (put_progress my (bt_ID task) (backfill_patch task resp) now t) f r"
  shows "hoare (store_inv I) (backfill_body m task) (\<lambda>_. store_inv J)"
proof -
  have IJ': "store_inv I s \<Longrightarrow> store_inv J s" for s using IJ by (simp add: store_inv_def)
  have reg: "keeps (store_inv I) (registerOutputFile task x now)" for x now
    unfolding registerOutputFile_def Let_def
    by (intro keeps_rules keeps_UpsertBatchFile fput)
  show ?thesis
    unfolding backfill_body_def backfillOneTask_def
    by (intro hoare_keeps_bindE keeps_resolveProviderAccess keeps_provider_calls IJ' hoare_case_prod
        hoare_if hoare_pure hoare_lift_err_bindE hoare_bindE_getsE keeps_if keeps_ignoreE
        keeps_returnE reg hoare_bindE_keeps hoare_UpdateBatchTaskProgress up IJ)
qed

lemma keeps_BackfillTerminalArtifacts:
  "keeps (store_inv (\<lambda>t f r. table_le backfill_le t0 t \<and> r = r0)) (BackfillTerminalArtifacts m)"
proof -
  have up: "table_le backfill_le t0 (put_progress my (bt_ID x) (backfill_patch x resp) now t)"
    if "table_le backfill_le t0 t" "pending (x # ys) t" for x ys my resp now t
    unfolding put_progress_def using that
    by (intro backfill_order.update_from) (auto simp: pending_def backfill_le_patch)
  show ?thesis
    unfolding BackfillTerminalArtifacts_def keeps_def
    by (cases "mg_providers m")
       (auto intro!: hoare_bindE_getsE hoare_pure hoare_listing_loop [unfolded keeps_def] hoare_backfillOneTask
         dest: pending_tl intro: up pending_progress)
qed

section \<open>A provider that lost the batch\<close>

lemma run_handleProviderAbsent:
  assumes "faults s = []" "t \<in> set (rows (tasks s))" "wf_tasks (tasks s)"
  shows "run_state (handleProviderAbsent t) s =
    (if time_Sub (clock s) (bt_CreatedAt t) \<le> providerAbsentGrace then (Inr False, s)
     else (Inr (\<not> isMySQL s \<or> assign_task (progressPatchToParam (empty_progress\<lparr>
              pp_Status := Some TaskStatusExpired, pp_TerminalAt := Some (clock s)\<rparr>) (clock s)) t \<noteq> t),
           s\<lparr>tasks := put_progress (isMySQL s) (bt_ID t) (empty_progress\<lparr>pp_Status := Some TaskStatusExpired,
              pp_TerminalAt := Some (clock s)\<rparr>) (clock s) (tasks s)\<rparr>))"
proof -
  let ?f = "assign_task (progressPatchToParam (empty_progress\<lparr>
     pp_Status := Some TaskStatusExpired, pp_TerminalAt := Some (clock s)\<rparr>) (clock s))"
  have "x = t" if "x \<in> set (rows (tasks s))" "bt_ID x = bt_ID t" for x
    using that assms(2,3) by (auto simp: wf_tasks_def intro: distinct_map_eq [of bt_ID])
  then have "(affected_rows (isMySQL s) (\<lambda>x. bt_ID x = bt_ID t) ?f (rows (tasks s)) \<noteq> 0) =
      (\<not> isMySQL s \<or> ?f t \<noteq> t)"
    using assms(2) unfolding affected_rows_def by (auto simp: filter_empty_conv)
  then show ?thesis
    using assms(1)
    by (auto simp: handleProviderAbsent_def UpdateBatchTaskProgress_def TBatchTaskUpdate_def where_id
        exec_update_def put_progress_def)
qed

end
