(* ===== verification/BatchCancel.thy ===== *)
theory BatchCancel
  imports BatchAdvance
begin

text \<open>
  Cancelling a task (\<^verbatim>\<open>cancel.go\<close>) and its audit entry (\<^verbatim>\<open>operation_log.go\<close>). The facts show
  that the conditional update lets exactly one caller through, in both SQL dialects, that a terminal
  task is refused without a change, that a task being cancelled is replayed, and that no cancel takes a
  terminal status or a settlement back.
\<close>

definition ErrBatchNotFound :: error where
  "ErrBatchNotFound = ErrRecordNotExist ''Batch''"

definition errBatchConflict :: "string \<Rightarrow> error" where
  "errBatchConflict batchID = ErrConflict
     (''batch task '' @ batchID @ '' is terminal or being processed by another instance'')"

definition recordCancelOperation :: "Manager \<Rightarrow> string \<Rightarrow> string \<Rightarrow> error option \<Rightarrow> unit io" where
  "recordCancelOperation m batchID prevStatus err =
     (if \<not> mg_operationLog m then returnE ()
      else modifyE (\<lambda>s. s\<lparr>op_log := op_log s @ [\<lparr>ol_ResourceID = batchID,
        ol_Before = (if prevStatus \<noteq> [] then Some prevStatus else None),
        ol_After = TaskStatusCancelling, ol_Error = err\<rparr>]\<rparr>))"

text \<open>\<^verbatim>\<open>m.recordCancelOperation(ctx, batchID, prev, err); return nil, err\<close>\<close>

definition fail_cancel :: "Manager \<Rightarrow> string \<Rightarrow> string \<Rightarrow> error \<Rightarrow> 'a io" where
  "fail_cancel m batchID prevStatus err =
     bindE (recordCancelOperation m batchID prevStatus (Some err)) (\<lambda>_. throwE err)"

text \<open>A call whose error is recorded and returned.\<close>

definition or_fail :: "Manager \<Rightarrow> string \<Rightarrow> string \<Rightarrow> 'a io \<Rightarrow> 'a io" where
  "or_fail m batchID prevStatus c =
     State_Monad.bind c (\<lambda>r. case r of
        Inl err \<Rightarrow> fail_cancel m batchID prevStatus err
      | Inr x \<Rightarrow> returnE x)"

text \<open>Sending the cancel and releasing the reserve: the tail that \<^verbatim>\<open>Cancel\<close> and \<^verbatim>\<open>cancelReplay\<close> share.\<close>

definition cancel_upstream :: "Manager \<Rightarrow> string \<Rightarrow> string \<Rightarrow> BatchTask \<Rightarrow> BatchTask io" where
  "cancel_upstream m batchID prevStatus task =
     bindE (or_fail m batchID prevStatus
         (resolveProviderAccess m (bt_Provider task) (bt_KeyName task))) (\<lambda>access.
     bindE (or_fail m batchID prevStatus
         (postProviderCancel m access (batch_url access batchID @ ''/cancel''))) (\<lambda>_.
     bindE (if mg_redis m then ignoreE (releaseReserve batchID) else returnE ()) (\<lambda>_.
     bindE (recordCancelOperation m batchID prevStatus None) (\<lambda>_.
       returnE (task\<lparr>bt_Status := TaskStatusCancelling\<rparr>)))))"

definition cancelReplay :: "Manager \<Rightarrow> BatchTask \<Rightarrow> BatchTask io" where
  "cancelReplay m task = cancel_upstream m (bt_BatchID task) TaskStatusCancelling task"

text \<open>
  The second attempt when nothing was preempted: a task that came from Redis is stored first. The
  result is the outcome of the last preempt.
\<close>

definition preempt_again :: "string \<Rightarrow> string \<Rightarrow> BatchTask \<Rightarrow> nat io" where
  "preempt_again batchID productName task =
     (if bt_ID task = 0 then
        State_Monad.bind (UpsertBatchTask task) (\<lambda>r. case r of
            Inr _ \<Rightarrow> PreemptBatchTaskCancel batchID productName
          | Inl _ \<Rightarrow> returnE 0)
      else returnE 0)"

text \<open>Nothing was preempted: a task being cancelled is replayed, anything else is a conflict.\<close>

definition cancel_not_preempted :: "Manager \<Rightarrow> string \<Rightarrow> string \<Rightarrow> string \<Rightarrow> BatchTask io" where
  "cancel_not_preempted m batchID productName prevStatus =
     State_Monad.bind (FetchTask m batchID productName False) (\<lambda>cur. case cur of
         Inr (Some c) \<Rightarrow>
           if bt_Status c = TaskStatusCancelling then cancelReplay m c
           else fail_cancel m batchID prevStatus (errBatchConflict batchID)
       | _ \<Rightarrow> fail_cancel m batchID prevStatus (errBatchConflict batchID))"

definition cancel_found :: "Manager \<Rightarrow> string \<Rightarrow> string \<Rightarrow> BatchTask \<Rightarrow> BatchTask io" where
  "cancel_found m batchID productName task = (let prevStatus = bt_Status task in
     bindE (or_fail m batchID prevStatus (PreemptBatchTaskCancel batchID productName)) (\<lambda>affected.
       if affected \<noteq> 0 then cancel_upstream m batchID prevStatus task
       else bindE (or_fail m batchID prevStatus (preempt_again batchID productName task)) (\<lambda>affected2.
         if affected2 \<noteq> 0 then cancel_upstream m batchID prevStatus task
         else cancel_not_preempted m batchID productName prevStatus)))"

definition Cancel :: "Manager \<Rightarrow> string \<Rightarrow> string \<Rightarrow> BatchTask io" where
  "Cancel m batchID productName =
     bindE (or_fail m batchID [] (FetchTask m batchID productName True)) (\<lambda>found.
       case found of
         None \<Rightarrow> fail_cancel m batchID [] ErrBatchNotFound
       | Some task \<Rightarrow> cancel_found m batchID productName task)"

section \<open>The conditional update\<close>

definition put_preempt :: "bool \<Rightarrow> string \<Rightarrow> string \<Rightarrow> time \<Rightarrow> BatchTask table \<Rightarrow> nat \<times> BatchTask table" where
  "put_preempt my b p now = TBatchTaskPreemptCancel my b p (TerminalStatuses @ [TaskStatusCancelling]) now"

definition preemptible :: "string \<Rightarrow> string \<Rightarrow> BatchTask \<Rightarrow> bool" where
  "preemptible b p r \<longleftrightarrow> bt_BatchID r = b \<and> bt_ProductName r = p
     \<and> \<not> IsTerminalStatus (bt_Status r) \<and> bt_Status r \<noteq> TaskStatusCancelling"

definition to_cancelling :: "time \<Rightarrow> BatchTask \<Rightarrow> BatchTask" where
  "to_cancelling now r = r\<lparr>bt_Status := TaskStatusCancelling, bt_UpdatedAt := now\<rparr>"

lemma to_cancelling_sel [simp]:
  "bt_Status (to_cancelling now r) = TaskStatusCancelling"
  "bt_ID (to_cancelling now r) = bt_ID r" "bt_IdemKey (to_cancelling now r) = bt_IdemKey r"
  "bt_BatchID (to_cancelling now r) = bt_BatchID r"
  "bt_ProductName (to_cancelling now r) = bt_ProductName r"
  "bt_SettleStatus (to_cancelling now r) = bt_SettleStatus r"
  "to_cancelling now (to_cancelling before r) = to_cancelling now r"
  by (simp_all add: to_cancelling_def)

lemma put_preempt_eq: "put_preempt my b p now t = exec_update my (preemptible b p) (to_cancelling now) t"
proof -
  have "(\<lambda>r. bt_BatchID r = b \<and> bt_ProductName r = p
      \<and> bt_Status r \<notin> set (TerminalStatuses @ [TaskStatusCancelling])) = preemptible b p"
    by (auto simp: fun_eq_iff preemptible_def IsTerminalStatus_iff)
  then show ?thesis
    by (simp add: put_preempt_def TBatchTaskPreemptCancel_def to_cancelling_def [abs_def])
qed

lemma preempt_changes: "preemptible b p r \<Longrightarrow> to_cancelling now r \<noteq> r"
  by (metis preemptible_def to_cancelling_sel(1))

text \<open>The affected rows are the preemptible ones, whichever way the dialect counts.\<close>

lemma preempt_count: "fst (put_preempt my b p now t) = length (filter (preemptible b p) (rows t))"
proof -
  have "(\<lambda>r. preemptible b p r \<and> (my \<longrightarrow> to_cancelling now r \<noteq> r)) = preemptible b p"
    using preempt_changes by (auto simp: fun_eq_iff)
  then show ?thesis by (simp add: put_preempt_eq exec_update_def affected_rows_def)
qed

lemma preempted_none:
  assumes "r \<in> set (rows (snd (put_preempt my b p now t)))"
  shows "\<not> preemptible b p r"
proof -
  have "\<not> preemptible b p (to_cancelling now x)" for x by (simp add: preemptible_def)
  with assms show ?thesis
    unfolding put_preempt_eq exec_update_def by (auto simp: in_update_where split: if_splits)
       (metis)
qed

lemma update_where_none: "(\<And>x. x \<in> set xs \<Longrightarrow> \<not> p x) \<Longrightarrow> update_where p f xs = xs"
  by (simp add: update_where_def map_idI)

lemma preempt_none:
  "(\<And>r. r \<in> set (rows t) \<Longrightarrow> \<not> preemptible b p r) \<Longrightarrow> put_preempt my b p now t = (0, t)"
  by (simp add: put_preempt_eq exec_update_def update_where_none affected_rows_def filter_empty_conv)

section \<open>What a cancel may change\<close>

text \<open>A row that is not terminal may turn cancelling; nothing else of it moves.\<close>

definition cancel_le :: "BatchTask \<Rightarrow> BatchTask \<Rightarrow> bool" where
  "cancel_le old new \<longleftrightarrow>
     new = old \<or> (\<not> IsTerminalStatus (bt_Status old) \<and> (\<exists>now. new = to_cancelling now old))"

lemma cancel_le_trans: "cancel_le x y \<Longrightarrow> cancel_le y z \<Longrightarrow> cancel_le x z"
  unfolding cancel_le_def by (metis to_cancelling_sel(7))

interpretation cancel_order: row_order cancel_le
  by unfold_locales (simp add: cancel_le_def, rule cancel_le_trans)

lemma keeps_ReserveDecr:
  "(\<And>t f r cur. I t f r \<Longrightarrow> redis_get r k = Some (RInt cur) \<Longrightarrow>
      I t f (alist_set k (RInt (snd (reserve_decr cur (sint d)))) r)) \<Longrightarrow>
   keeps (store_inv I) (ReserveDecr k d)"
  unfolding ReserveDecr_def
  by (rule keeps_ext_call) (auto simp: store_inv_def split_beta split: option.splits rval.splits)

lemma keeps_Delete:
  "(\<And>t f r. I t f r \<Longrightarrow> I t f (redis_del k r)) \<Longrightarrow> keeps (store_inv I) (Delete k)"
  unfolding Delete_def by (rule keeps_ext_call) (auto simp: store_inv_def)

lemma keeps_release_mirrors:
  assumes "\<And>t f r p cur u. I t f r \<Longrightarrow> redis_get r (BatchReserveMirrorKey p) = Some (RInt cur) \<Longrightarrow>
      0 < u \<Longrightarrow> I t f (alist_set (BatchReserveMirrorKey p) (RInt (remaining cur u)) r)"
  shows "keeps (store_inv I) (release_mirrors vals)"
proof (induction vals rule: release_mirrors.induct)
  case 1
  then show ?case by (simp add: keeps_returnE)
next
  case (2 planKey unitsStr vals)
  have "keeps (store_inv I) (ReserveDecr (BatchReserveMirrorKey planKey) u)" if "0 < sint u" for u
    using assms that by (intro keeps_ReserveDecr) (simp add: reserve_decr_remaining)
  with 2 show ?case
    by (auto intro!: keeps_rules split: option.split)
qed

lemma keeps_releaseReserve:
  assumes "\<And>t f r p cur u. I t f r \<Longrightarrow> redis_get r (BatchReserveMirrorKey p) = Some (RInt cur) \<Longrightarrow>
      0 < u \<Longrightarrow> I t f (alist_set (BatchReserveMirrorKey p) (RInt (remaining cur u)) r)"
    and "\<And>t f r. I t f r \<Longrightarrow> I t f (redis_del (BatchReserveBatchKey b) r)"
  shows "keeps (store_inv I) (releaseReserve b)"
  unfolding releaseReserve_def
  by (intro keeps_rules keeps_release_mirrors keeps_Delete assms)

text \<open>No mirror counter grows, and none that was not negative turns negative.\<close>

definition mirrors_le :: "(string \<times> rval) list \<Rightarrow> (string \<times> rval) list \<Rightarrow> bool" where
  "mirrors_le r0 r \<longleftrightarrow> (\<forall>p n. redis_get r0 (BatchReserveMirrorKey p) = Some (RInt n) \<and> 0 \<le> n \<longrightarrow>
     (\<exists>n'. redis_get r (BatchReserveMirrorKey p) = Some (RInt n') \<and> 0 \<le> n' \<and> n' \<le> n))"

lemma mirrors_le_refl [simp]: "mirrors_le r r"
  by (auto simp: mirrors_le_def)

lemma mirrors_le_other:
  "mirrors_le r0 r \<Longrightarrow> (\<And>p. redis_get r' (BatchReserveMirrorKey p) = redis_get r (BatchReserveMirrorKey p)) \<Longrightarrow>
   mirrors_le r0 r'"
  by (simp add: mirrors_le_def)

lemma redis_get_set [simp]: "redis_get (alist_set k v r) k' = (if k' = k then Some v else redis_get r k')"
  by (simp add: redis_get_def)

lemma mirrors_le_release:
  assumes "mirrors_le r0 r" "redis_get r (BatchReserveMirrorKey p) = Some (RInt cur)" "0 < u"
  shows "mirrors_le r0 (alist_set (BatchReserveMirrorKey p) (RInt (remaining cur u)) r)"
  unfolding mirrors_le_def
proof (intro allI impI)
  fix q n assume q: "redis_get r0 (BatchReserveMirrorKey q) = Some (RInt n) \<and> 0 \<le> n"
  then obtain n' where n': "redis_get r (BatchReserveMirrorKey q) = Some (RInt n')" "0 \<le> n'" "n' \<le> n"
    using assms(1) unfolding mirrors_le_def by blast
  then show "\<exists>n'. redis_get (alist_set (BatchReserveMirrorKey p) (RInt (remaining cur u)) r)
      (BatchReserveMirrorKey q) = Some (RInt n') \<and> 0 \<le> n' \<and> n' \<le> n"
    using assms(2,3) remaining_bounds [of n' u] by (cases "q = p") auto
qed

lemma keeps_releaseReserve_mirrors:
  "keeps (store_inv (\<lambda>t f r. P t f \<and> mirrors_le r0 r)) (releaseReserve b)"
  by (rule keeps_releaseReserve) (auto intro: mirrors_le_release mirrors_le_other)

lemma hoare_PreemptBatchTaskCancel:
  assumes "\<And>t f r. I t f r \<Longrightarrow> J t f r"
    and "\<And>t f r my now. I t f r \<Longrightarrow> J (snd (put_preempt my b p now t)) f r"
  shows "hoare (store_inv I) (PreemptBatchTaskCancel b p) (\<lambda>_. store_inv J)"
  unfolding PreemptBatchTaskCancel_def
  by (rule hoare_ext_call) (use assms in \<open>auto simp: store_inv_def put_preempt_def split_beta\<close>)

lemma keeps_recordCancelOperation [keeps_rules]: "keeps (store_inv I) (recordCancelOperation m b p e)"
  unfolding recordCancelOperation_def by (intro keeps_rules keeps_modifyE) simp

lemma keeps_fail_cancel [keeps_rules]: "keeps (store_inv I) (fail_cancel m b p e)"
  unfolding fail_cancel_def by (intro keeps_rules)

lemma hoare_or_fail:
  assumes "hoare (store_inv I) c (\<lambda>r s. case r of Inl e \<Rightarrow> store_inv J s | Inr x \<Rightarrow> store_inv (R x) s)"
  shows "hoare (store_inv I) (or_fail m b p c)
    (\<lambda>r s. case r of Inl e \<Rightarrow> store_inv J s | Inr x \<Rightarrow> store_inv (R x) s)"
  unfolding or_fail_def
proof (rule hoare_bind [OF assms])
  fix r
  show "hoare (\<lambda>s. case r of Inl e \<Rightarrow> store_inv J s | Inr x \<Rightarrow> store_inv (R x) s)
      (case r of Inl err \<Rightarrow> fail_cancel m b p err | Inr x \<Rightarrow> returnE x)
      (\<lambda>r s. case r of Inl e \<Rightarrow> store_inv J s | Inr x \<Rightarrow> store_inv (R x) s)"
    by (cases r) (auto simp: hoare_def fail_cancel_def recordCancelOperation_def)
qed

lemma keeps_or_fail:
  "keeps (store_inv I) c \<Longrightarrow> keeps (store_inv I) (or_fail m b p c)"
  unfolding or_fail_def by (intro keeps_bind keeps_case_sum keeps_fail_cancel keeps_returnE)

lemma keeps_cancel_upstream:
  "keeps (store_inv (\<lambda>t f r. P t f \<and> mirrors_le r0 r)) (cancel_upstream m b st task)"
  unfolding cancel_upstream_def
  by (intro keeps_rules keeps_or_fail keeps_releaseReserve_mirrors)

text \<open>What a found task is: a row of the table, or built from Redis when the table has none.\<close>

lemma FetchTask_result:
  assumes "run_state (FetchTask m b p fb) s = (Inr (Some task), s')"
  shows "task \<in> set (rows (tasks s)) \<and> bt_BatchID task = b \<and> bt_ProductName task = p
    \<or> bt_ID task = 0 \<and> bt_IdemKey task = b \<and>
      List.find (\<lambda>r. bt_BatchID r = b \<and> bt_ProductName r = p) (rows (tasks s)) = None"
  using assms find_Some_in [of "\<lambda>r. bt_BatchID r = b \<and> bt_ProductName r = p" "rows (tasks s)" task]
  by (auto simp: FetchTask_def find_batch_filter ParseRedisTaskView_Inr
      split: prod.splits sum.splits option.splits if_splits
      dest!: FetchBatchTask_result applyTaskView_result)

lemma hoare_FetchTask:
  "hoare (store_inv I) (FetchTask m b p fb) (\<lambda>r s. case r of
     Inl e \<Rightarrow> store_inv I s
   | Inr found \<Rightarrow> store_inv (\<lambda>t f rd. I t f rd \<and> (\<forall>task. found = Some task \<longrightarrow>
       (task \<in> set (rows t) \<and> bt_BatchID task = b \<and> bt_ProductName task = p
        \<or> bt_ID task = 0 \<and> bt_IdemKey task = b \<and>
          List.find (\<lambda>r. bt_BatchID r = b \<and> bt_ProductName r = p) (rows t) = None))) s)"
proof (rule hoareI)
  fix s assume I: "store_inv I s"
  obtain r s' where run: "run_state (FetchTask m b p fb) s = (r, s')" by fastforce
  have "store_inv (\<lambda>t f rd. I t f rd \<and> t = tasks s) s'"
    by (rule keepsD_run [OF keeps_FetchTask _ run]) (use I in \<open>simp add: store_inv_def\<close>)
  then show "case fst (run_state (FetchTask m b p fb) s) of Inl e \<Rightarrow> store_inv I (snd (run_state (FetchTask m b p fb) s))
   | Inr found \<Rightarrow> store_inv (\<lambda>t f rd. I t f rd \<and> (\<forall>task. found = Some task \<longrightarrow>
       (task \<in> set (rows t) \<and> bt_BatchID task = b \<and> bt_ProductName task = p
        \<or> bt_ID task = 0 \<and> bt_IdemKey task = b \<and>
          List.find (\<lambda>r. bt_BatchID r = b \<and> bt_ProductName r = p) (rows t) = None)))
       (snd (run_state (FetchTask m b p fb) s))"
    using run FetchTask_result [of m b p fb s _ s'] by (auto simp: store_inv_def split: sum.splits)
qed

lemma cancel_preempt: "table_le cancel_le t0 t \<Longrightarrow> table_le cancel_le t0 (snd (put_preempt my b p now t))"
  unfolding put_preempt_eq
  by (rule cancel_order.update_from) (auto simp: cancel_le_def preemptible_def)

lemma lookup_preempt_None:
  "lookup_task t k = None \<Longrightarrow> lookup_task (snd (put_preempt my b p now t)) k = None"
  by (auto simp: lookup_task_def put_preempt_eq exec_update_def find_None_iff in_update_where)

text \<open>
  \<^verbatim>\<open>Cancel\<close> under any faults. The row that carries the batch id as its idempotency key, if there is
  one, has to belong to the product that cancels.
\<close>

definition owns_batch :: "string \<Rightarrow> string \<Rightarrow> BatchTask table \<Rightarrow> bool" where
  "owns_batch b p t \<longleftrightarrow>
     (\<forall>r\<in>set (rows t). bt_IdemKey r = b \<longrightarrow> bt_BatchID r = b \<and> bt_ProductName r = p)"

abbreviation cancel_K :: "BatchTask table \<Rightarrow> (string \<times> rval) list \<Rightarrow> BatchTask table \<Rightarrow> BatchFile table \<Rightarrow>
    (string \<times> rval) list \<Rightarrow> bool" where
  "cancel_K t0 r0 \<equiv> \<lambda>t f r. table_le cancel_le t0 t \<and> mirrors_le r0 r"

text \<open>The task in hand is a row, or the table has no row of its key.\<close>

definition cancel_pre :: "BatchTask table \<Rightarrow> (string \<times> rval) list \<Rightarrow> string \<Rightarrow> BatchTask \<Rightarrow>
    BatchTask table \<Rightarrow> BatchFile table \<Rightarrow> (string \<times> rval) list \<Rightarrow> bool" where
  "cancel_pre t0 r0 b task t f r \<longleftrightarrow> cancel_K t0 r0 t f r
     \<and> (bt_ID task = 0 \<longrightarrow> bt_IdemKey task = b \<and> lookup_task t b = None)"

lemma cancel_pre_K: "store_inv (cancel_pre t0 r0 b task) s \<Longrightarrow> store_inv (cancel_K t0 r0) s"
  by (simp add: store_inv_def cancel_pre_def)

lemma keeps_cancel_preempt:
  "keeps (store_inv (cancel_K t0 r0)) (PreemptBatchTaskCancel b p)"
  "keeps (store_inv (cancel_pre t0 r0 b' task)) (PreemptBatchTaskCancel b p)"
  unfolding keeps_def
  by (rule hoare_PreemptBatchTaskCancel; auto simp: cancel_pre_def intro: cancel_preempt lookup_preempt_None)+

lemma hoare_preempt_again:
  "hoare (store_inv (cancel_pre t0 r0 b task)) (preempt_again b p task) (\<lambda>_. store_inv (cancel_K t0 r0))"
proof (cases "bt_ID task = 0")
  case True
  have "table_le cancel_le t0 (put_task now task t)"
    if "table_le cancel_le t0 t" "bt_IdemKey task = b" "lookup_task t b = None" for t now
    by (rule cancel_order.trans [OF that(1) cancel_order.put [OF table_le_wf [OF that(1)]]])
       (use that in simp)
  then have "hoare (store_inv (cancel_pre t0 r0 b task)) (UpsertBatchTask task)
      (\<lambda>_. store_inv (cancel_K t0 r0))"
    using True by (intro hoare_UpsertBatchTask) (auto simp: cancel_pre_def)
  then have "hoare (store_inv (cancel_pre t0 r0 b task))
      (State_Monad.bind (UpsertBatchTask task) (\<lambda>r. case r of
            Inr _ \<Rightarrow> PreemptBatchTaskCancel b p | Inl _ \<Rightarrow> returnE 0)) (\<lambda>_. store_inv (cancel_K t0 r0))"
    by (rule hoare_bind)
       (auto simp flip: keeps_def intro: keeps_cancel_preempt keeps_returnE split: sum.split)
  then show ?thesis using True by (simp add: preempt_again_def)
next
  case False
  then show ?thesis by (auto simp: preempt_again_def intro: hoare_pure cancel_pre_K)
qed

lemma keeps_cancel_tails:
  "keeps (store_inv (cancel_K t0 r0)) (cancel_upstream m b st task)"
  "keeps (store_inv (cancel_K t0 r0)) (cancel_not_preempted m b p st)"
proof -
  show up: "keeps (store_inv (cancel_K t0 r0)) (cancel_upstream m b st task)" for b st task
    by (rule keeps_cancel_upstream)
  show "keeps (store_inv (cancel_K t0 r0)) (cancel_not_preempted m b p st)"
    unfolding cancel_not_preempted_def cancelReplay_def
    by (intro keeps_bind keeps_FetchTask) (auto intro!: keeps_rules up split: sum.split option.split)
qed

lemma hoare_cancel_found:
  "hoare (store_inv (cancel_pre t0 r0 b task)) (cancel_found m b p task) (\<lambda>_. store_inv (cancel_K t0 r0))"
proof -
  have up: "hoare (store_inv (cancel_pre t0 r0 b task)) (cancel_upstream m b st task)
      (\<lambda>_. store_inv (cancel_K t0 r0))" for st
    by (rule hoare_weaken [OF keeps_cancel_tails(1) [unfolded keeps_def] cancel_pre_K])
  have "hoare (store_inv (cancel_pre t0 r0 b task)) (or_fail m b st (preempt_again b p task))
      (\<lambda>_. store_inv (cancel_K t0 r0))" for st
    unfolding or_fail_def
    by (rule hoare_bind [OF hoare_preempt_again])
       (auto simp flip: keeps_def intro: keeps_fail_cancel keeps_returnE split: sum.split)
  then show ?thesis
    unfolding cancel_found_def Let_def
    by (intro hoare_keeps_bindE keeps_or_fail keeps_cancel_preempt cancel_pre_K hoare_if up
        hoare_bindE_keeps keeps_if keeps_cancel_tails)
qed

definition found_ok :: "string \<Rightarrow> string \<Rightarrow> BatchTask \<Rightarrow> BatchTask table \<Rightarrow> bool" where
  "found_ok b p task t \<longleftrightarrow> task \<in> set (rows t) \<and> bt_BatchID task = b \<and> bt_ProductName task = p
     \<or> bt_ID task = 0 \<and> bt_IdemKey task = b \<and>
       List.find (\<lambda>r. bt_BatchID r = b \<and> bt_ProductName r = p) (rows t) = None"

lemma found_cancel_pre:
  assumes "cancel_K t0 r0 t f r" "owns_batch b p t" "found_ok b p task t"
  shows "cancel_pre t0 r0 b task t f r"
proof -
  have "wf_tasks t" using assms(1) by (auto dest: table_le_wf)
  then have "task \<in> set (rows t) \<Longrightarrow> bt_ID task \<noteq> 0" by (auto simp: wf_tasks_def)
  with assms show ?thesis
    by (auto simp: cancel_pre_def found_ok_def owns_batch_def lookup_task_def find_None_iff)
qed

lemma hoare_cancel_fetch:
  "hoare (store_inv (\<lambda>t f r. cancel_K t0 r0 t f r \<and> owns_batch b p t))
     (or_fail m b [] (FetchTask m b p True))
     (\<lambda>r s. case r of Inl e \<Rightarrow> store_inv (cancel_K t0 r0) s
        | Inr found \<Rightarrow> store_inv (\<lambda>t f r. cancel_K t0 r0 t f r \<and>
            (\<forall>task. found = Some task \<longrightarrow> cancel_pre t0 r0 b task t f r)) s)"
  by (intro hoare_or_fail hoare_weaken [OF hoare_FetchTask
        [of "\<lambda>t f r. cancel_K t0 r0 t f r \<and> owns_batch b p t", folded found_ok_def]])
     (auto simp: store_inv_def intro: found_cancel_pre split: sum.splits)

lemma hoare_Cancel:
  "hoare (store_inv (\<lambda>t f r. cancel_K t0 r0 t f r \<and> owns_batch b p t)) (Cancel m b p)
     (\<lambda>_. store_inv (cancel_K t0 r0))"
  unfolding Cancel_def
proof (rule hoare_bindE [OF hoare_cancel_fetch])
  fix found
  let ?R = "\<lambda>t f r. cancel_K t0 r0 t f r \<and> (\<forall>task. found = Some task \<longrightarrow> cancel_pre t0 r0 b task t f r)"
  show "hoare (store_inv ?R) (case found of None \<Rightarrow> fail_cancel m b [] ErrBatchNotFound
      | Some task \<Rightarrow> cancel_found m b p task) (\<lambda>_. store_inv (cancel_K t0 r0))"
  proof (cases found)
    case None
    then show ?thesis
      using keeps_fail_cancel [of "cancel_K t0 r0" m b "[]" ErrBatchNotFound] by (simp add: keeps_def)
  next
    case (Some task)
    then show ?thesis
      using hoare_weaken [OF hoare_cancel_found [of t0 r0 b task m p], of "store_inv ?R"]
      by (simp add: store_inv_def)
  qed
qed

section \<open>Fault-free runs\<close>

lemma run_FetchTask_db:
  assumes "faults s = []"
    and "List.find (\<lambda>r. bt_BatchID r = b \<and> bt_ProductName r = p) (rows (tasks s)) = Some r"
  shows "run_state (FetchTask m b p fb) s = (Inr (Some r), s)"
  using assms by (simp add: FetchTask_def FetchBatchTask_def find_batch_filter)

lemma run_Preempt:
  "faults s = [] \<Longrightarrow> run_state (PreemptBatchTaskCancel b p) s =
     (Inr (fst (put_preempt (isMySQL s) b p (clock s) (tasks s))),
      s\<lparr>tasks := snd (put_preempt (isMySQL s) b p (clock s) (tasks s))\<rparr>)"
  by (simp add: PreemptBatchTaskCancel_def put_preempt_def split_beta)

text \<open>The world after the audit entry.\<close>

definition logged :: "Manager \<Rightarrow> string \<Rightarrow> string \<Rightarrow> error option \<Rightarrow> world \<Rightarrow> world" where
  "logged m b prev err s = snd (run_state (recordCancelOperation m b prev err) s)"

lemma run_record [simp]: "run_state (recordCancelOperation m b prev err) s = (Inr (), logged m b prev err s)"
  by (simp add: logged_def recordCancelOperation_def)

lemma logged_sel [simp]:
  "tasks (logged m b prev err s) = tasks s" "redis (logged m b prev err s) = redis s"
  "http_log (logged m b prev err s) = http_log s" "files (logged m b prev err s) = files s"
  by (simp_all add: logged_def recordCancelOperation_def)

lemma run_or_fail [simp]:
  "run_state (or_fail m b prev c) s = (case run_state c s of
     (Inl e, s') \<Rightarrow> (Inl e, logged m b prev (Some e) s') | (Inr x, s') \<Rightarrow> (Inr x, s'))"
  by (simp add: or_fail_def fail_cancel_def split: prod.split sum.split)

lemma run_fail_cancel [simp]: "run_state (fail_cancel m b prev e) s = (Inl e, logged m b prev (Some e) s)"
  by (simp add: fail_cancel_def)

text \<open>A live row: exactly this run goes upstream.\<close>

lemma Cancel_live:
  assumes "faults s = []" "r \<in> set (rows (tasks s))" "preemptible b p r"
    and "List.find (\<lambda>r. bt_BatchID r = b \<and> bt_ProductName r = p) (rows (tasks s)) = Some r"
  shows "run_state (Cancel m b p) s = run_state (cancel_upstream m b (bt_Status r) r)
     (s\<lparr>tasks := snd (put_preempt (isMySQL s) b p (clock s) (tasks s))\<rparr>)"
proof -
  have "fst (put_preempt (isMySQL s) b p (clock s) (tasks s)) \<noteq> 0"
    using assms(2,3) by (auto simp: preempt_count filter_empty_conv)
  then show ?thesis
    using assms by (simp add: Cancel_def cancel_found_def Let_def run_FetchTask_db run_Preempt)
qed

lemma Cancel_not_live:
  assumes "faults s = []" "wf_tasks (tasks s)" "\<And>x. x \<in> set (rows (tasks s)) \<Longrightarrow> \<not> preemptible b p x"
    and find: "List.find (\<lambda>r. bt_BatchID r = b \<and> bt_ProductName r = p) (rows (tasks s)) = Some r"
  shows "run_state (Cancel m b p) s =
    (if bt_Status r = TaskStatusCancelling then run_state (cancelReplay m r) s
     else (Inl (errBatchConflict b), logged m b (bt_Status r) (Some (errBatchConflict b)) s))"
proof -
  have "bt_ID r \<noteq> 0" using find_Some_in [OF find] assms(2) by (auto simp: wf_tasks_def)
  moreover have "put_preempt (isMySQL s) b p (clock s) (tasks s) = (0, tasks s)"
    using assms(3) by (rule preempt_none)
  ultimately show ?thesis
    using assms by (simp add: Cancel_def cancel_found_def Let_def run_FetchTask_db run_Preempt preempt_again_def
        cancel_not_preempted_def)
qed

lemma run_resolveProviderAccess:
  "faults s = [] \<Longrightarrow> mg_providers m = Some q \<Longrightarrow> q n = Some prov \<Longrightarrow>
   run_state (resolveProviderAccess m n k) s = (provider_access n k prov, s)"
  by (simp add: resolveProviderAccess_def)

lemma run_postProviderCancel:
  assumes "faults s = []" "mg_validURL m url" "pa_authHeader a = [] \<or> valid_header_name (pa_authHeader a)"
  shows "run_state (postProviderCancel m a url) s =
    (let req = \<lparr>hr_Method = ''POST'', hr_URL = url, hr_Header = auth_headers a\<rparr> in
     (case mg_upstream m (http_log s) req of
        None \<Rightarrow> Inl ErrUpstream
      | Some (code, _) \<Rightarrow> if code = 404 then Inl ErrUpstreamNotFound
          else if code < 200 \<or> code \<ge> 300 then Inl ErrUpstream else Inr (),
      s\<lparr>http_log := http_log s @ [req]\<rparr>))"
  using assms
  by (auto simp: postProviderCancel_def http_Do_def auth_headers_def Let_def split: option.split)

lemma provider_access_header:
  "provider_access n k p = Inr a \<Longrightarrow> pa_authHeader a = [] \<or> pa_authHeader a = ''Authorization''"
  by (auto simp: provider_access_def BuildAuthHeader_def Let_def split: option.splits if_splits)

end
