(* ===== verification/BatchSettle.thy ===== *)
theory BatchSettle
  imports BatchCancel
begin

text \<open>
  The third duty of the reconcile job (\<^verbatim>\<open>settle.go\<close>): settling completed tasks from the usage in
  their result files, and releasing the reserve of the tasks that ended without one. Token sums are
  64-bit words. The facts show that the streaming parser computes the sum over the lines of the file, that a settlement status
  leaves \<^verbatim>\<open>reserved\<close> at most once, that the numbers written to Redis are read back by the
  synchronisation as they are in the table, and that a claim which fails is given back.
\<close>

section \<open>Result files\<close>

record usageTotals =
  us_inputTokens :: i64
  us_outputTokens :: i64
  us_model :: string
  us_parsedLines :: nat
  us_noUsageLines :: nat
  us_badLines :: nat

definition no_usage :: usageTotals where
  "no_usage = \<lparr>us_inputTokens = 0, us_outputTokens = 0, us_model = [], us_parsedLines = 0,
     us_noUsageLines = 0, us_badLines = 0\<rparr>"

definition usageAndModel :: "batchResultRow option \<Rightarrow> usageTokens option \<times> string" where
  "usageAndModel ro = (case ro of None \<Rightarrow> (None, []) | Some r \<Rightarrow>
     (case row_Response r of
        None \<Rightarrow> (None, [])
      | Some resp \<Rightarrow>
          (case rr_Body resp of
             Some body \<Rightarrow>
               if rb_Usage body \<noteq> None then (rb_Usage body, rb_Model body)
               else if rr_Usage resp \<noteq> None then (rr_Usage resp, rr_Model resp) else (None, [])
           | None \<Rightarrow>
               if rr_Usage resp \<noteq> None then (rr_Usage resp, rr_Model resp) else (None, []))))"

definition handleUsageLine :: "Manager \<Rightarrow> string \<Rightarrow> usageTotals \<Rightarrow> usageTotals" where
  "handleUsageLine m line totals = (let trimmed = TrimSpace line in
     if trimmed = [] then totals
     else case mg_decodeRow m trimmed of
         None \<Rightarrow> totals\<lparr>us_badLines := us_badLines totals + 1\<rparr>
       | Some row \<Rightarrow>
           if row_Response row = None then totals
           else (case usageAndModel (Some row) of
               (None, _) \<Rightarrow> totals\<lparr>us_noUsageLines := us_noUsageLines totals + 1\<rparr>
             | (Some usage, model) \<Rightarrow> totals\<lparr>
                 us_model := (if us_model totals = [] \<and> model \<noteq> [] then model else us_model totals),
                 us_inputTokens := us_inputTokens totals + ut_PromptTokens usage,
                 us_outputTokens := us_outputTokens totals + ut_CompletionTokens usage,
                 us_parsedLines := us_parsedLines totals + 1\<rparr>))"

text \<open>\<^verbatim>\<open>bufio.Reader.ReadBytes('\n')\<close>: a chunk, the rest, and whether the end was reached.\<close>

definition newline :: char where "newline = CHR 0x0A"

definition ReadBytes :: "string \<Rightarrow> string \<times> string \<times> bool" where
  "ReadBytes body = (case Cut body newline of
     Some (a, rest) \<Rightarrow> (a @ [newline], rest, False)
   | None \<Rightarrow> (body, [], True))"

text \<open>The \<^verbatim>\<open>switch\<close> of the loop body: pending bytes, the dirty flag and the totals after a chunk.\<close>

definition jsonl_chunk ::
  "Manager \<Rightarrow> int \<Rightarrow> string \<Rightarrow> string \<times> bool \<times> usageTotals \<Rightarrow> string \<times> bool \<times> usageTotals" where
  "jsonl_chunk m maxLineBytes chunk st = (case st of (pend, dirty, totals) \<Rightarrow>
     if chunk = [] then st
     else (let complete = (last chunk = newline);
               seg = (if complete then butlast chunk else chunk)
           in if dirty then (if complete then ([], False, totals) else st)
              else if int (length pend + length seg) > maxLineBytes then ([], \<not> complete, totals)
              else if complete then ([], dirty, handleUsageLine m (pend @ seg) totals)
              else (pend @ seg, dirty, totals)))"

function parse_loop ::
  "Manager \<Rightarrow> int \<Rightarrow> string \<Rightarrow> string \<times> bool \<times> usageTotals \<Rightarrow> usageTotals" where
  "parse_loop m maxLineBytes body st = (case ReadBytes body of (chunk, rest, eof) \<Rightarrow>
     (case jsonl_chunk m maxLineBytes chunk st of (pend, dirty, totals) \<Rightarrow>
        if \<not> eof then parse_loop m maxLineBytes rest (pend, dirty, totals)
        else if \<not> dirty \<and> TrimSpace pend \<noteq> [] then handleUsageLine m pend totals
        else totals))"
  by pat_completeness auto
termination
  by (relation "measure (\<lambda>(m, n, body, st). length body)")
     (auto simp: ReadBytes_def split: option.splits dest!: Cut_Some)

definition parseJSONLUsage :: "Manager \<Rightarrow> string \<Rightarrow> int \<Rightarrow> usageTotals \<Rightarrow> usageTotals" where
  "parseJSONLUsage m body maxLineBytes totals = parse_loop m maxLineBytes body ([], False, totals)"

declare parse_loop.simps [simp del]

definition downloadAndParseUsage :: "Manager \<Rightarrow> providerAccess \<Rightarrow> string \<Rightarrow> (usageTotals \<times> int) io" where
  "downloadAndParseUsage m access url =
     (if \<not> mg_validURL m url then throwE (ErrMsg ''parse url'')
      else bindE (http_Do m \<lparr>hr_Method = ''GET'', hr_URL = url,
             hr_Header = [(pa_authHeader access, pa_authValue access)]\<rparr>)
        (\<lambda>(code, body). if code < 200 \<or> code \<ge> 300 then returnE (no_usage, code)
           else returnE (parseJSONLUsage m body (mg_maxOutputLineBytes m) no_usage, code)))"

section \<open>Prices\<close>

text \<open>The result: the units, and whether the price was missing.\<close>

definition settle_units :: "Manager \<Rightarrow> (string \<times> rat) list \<Rightarrow> usageTotals \<Rightarrow> i64 \<times> bool" where
  "settle_units m prices usage =
     (let inputPrice = alist_get prices ''input_cost_per_token'' 0;
          outputPrice = alist_get prices ''output_cost_per_token'' 0
      in if inputPrice \<le> 0 \<and> outputPrice \<le> 0 then (0, True)
         else (mg_CalcCostUnits m (us_inputTokens usage) inputPrice
               + mg_CalcCostUnits m (us_outputTokens usage) outputPrice, False))"

definition calcSettleUnits :: "Manager \<Rightarrow> BatchTask \<Rightarrow> usageTotals \<Rightarrow> (i64 \<times> bool) io" where
  "calcSettleUnits m task usage =
     (case mg_prices m of
        None \<Rightarrow> returnE (0, True)
      | Some q \<Rightarrow>
          if us_model usage = [] then returnE (0, True)
          else bindE (ext_call (\<lambda>s. (Inr (q (bt_Provider task) (us_model usage)), s))) (\<lambda>price.
            case price of
              None \<Rightarrow> returnE (0, True)
            | Some prices \<Rightarrow> returnE (settle_units m prices usage)))"

section \<open>Settling and releasing\<close>

definition resolveProviderAccessCached :: "Manager \<Rightarrow> string \<Rightarrow> string \<Rightarrow> providerAccess io" where
  "resolveProviderAccessCached m providerName keyName =
     bindE (getsE (\<lambda>s. map_of (access_cache s) providerName)) (\<lambda>hit. case hit of
         Some access \<Rightarrow> returnE access
       | None \<Rightarrow>
           bindE (resolveProviderAccess m providerName keyName) (\<lambda>access.
           bindE (modifyE (\<lambda>s. s\<lparr>access_cache := alist_set providerName access (access_cache s)\<rparr>))
             (\<lambda>_. returnE access)))"

definition releaseOneTask :: "BatchTask \<Rightarrow> bool io" where
  "releaseOneTask task =
     bindE (releaseReserve (bt_BatchID task)) (\<lambda>_.
     bindE (UpdateBatchTaskSettleStatus (bt_BatchID task) (bt_ProductName task) SettleStatusReserved
         \<lparr>sp_SettleStatus = SettleStatusReleased, sp_SettleUnits = None, sp_UsageInputTokens = None,
          sp_UsageOutputTokens = None, sp_UsageSource = None, sp_OverReserved = None,
          sp_TerminalAt = None\<rparr>) (\<lambda>affected. returnE (affected > 0)))"

definition releaseClaim :: "string \<Rightarrow> unit io" where
  "releaseClaim batchID = ignoreE (Delete (BatchSettledKey batchID))"

text \<open>A step that gives the claim back when it fails.\<close>

definition or_unclaim :: "string \<Rightarrow> 'a io \<Rightarrow> 'a io" where
  "or_unclaim batchID c = State_Monad.bind c (\<lambda>r. case r of
      Inl e \<Rightarrow> bindE (releaseClaim batchID) (\<lambda>_. throwE e)
    | Inr x \<Rightarrow> returnE x)"

definition settled_fields :: "usageTotals \<Rightarrow> i64 \<Rightarrow> hash" where
  "settled_fields usage units =
     [(''usage_in'', FormatInt (us_inputTokens usage)),
      (''usage_out'', FormatInt (us_outputTokens usage)),
      (''settle_units'', FormatInt units),
      (''settle_status'', SettleStatusSettled)]"

definition settle_patch :: "BatchTask \<Rightarrow> usageTotals \<Rightarrow> i64 \<Rightarrow> time \<Rightarrow> BatchSettlePatch" where
  "settle_patch task usage units now = \<lparr>
     sp_SettleStatus = SettleStatusSettled, sp_SettleUnits = Some units,
     sp_UsageInputTokens = Some (us_inputTokens usage),
     sp_UsageOutputTokens = Some (us_outputTokens usage),
     sp_UsageSource = Some UsageSourceReconcile,
     sp_OverReserved = Some (sint (bt_ReserveUnits task) > 0 \<and> sint units > sint (bt_ReserveUnits task)),
     sp_TerminalAt = Some (case bt_TerminalAt task of Some t \<Rightarrow> t | None \<Rightarrow> now)\<rparr>"

text \<open>Steps 3 to 6: price, write back to Redis, release the reserve, conditional update.\<close>

definition settle_with_usage :: "Manager \<Rightarrow> BatchTask \<Rightarrow> usageTotals \<Rightarrow> bool io" where
  "settle_with_usage m task usage =
     bindE (or_unclaim (bt_BatchID task) (calcSettleUnits m task usage)) (\<lambda>(units, priceMiss).
     bindE (or_unclaim (bt_BatchID task)
         (HSetWithTTL (BatchTaskKey (bt_BatchID task)) (settled_fields usage units))) (\<lambda>_.
     bindE (ignoreE (releaseReserve (bt_BatchID task))) (\<lambda>_.
     bindE (getsE clock) (\<lambda>now.
     bindE (or_unclaim (bt_BatchID task)
         (UpdateBatchTaskSettleStatus (bt_BatchID task) (bt_ProductName task) SettleStatusReserved
           (settle_patch task usage units now))) (\<lambda>affected.
       returnE (affected > 0))))))"

definition settle_claimed :: "Manager \<Rightarrow> BatchTask \<Rightarrow> bool io" where
  "settle_claimed m task =
     bindE (or_unclaim (bt_BatchID task)
         (resolveProviderAccessCached m (bt_Provider task) (bt_KeyName task))) (\<lambda>access.
       if bt_OutputFileID task = [] then
         bindE (releaseClaim (bt_BatchID task)) (\<lambda>_.
         bindE (releaseOneTask task) (\<lambda>_. returnE False))
       else
         bindE (or_unclaim (bt_BatchID task) (downloadAndParseUsage m access
             (pa_baseURL access @ pa_path access @ ''/files/'' @ bt_OutputFileID task @ ''/content'')))
           (\<lambda>(usage, statusCode).
             if statusCode = 404 then bindE (releaseClaim (bt_BatchID task)) (\<lambda>_. returnE False)
             else if statusCode < 200 \<or> statusCode \<ge> 300 then
               bindE (releaseClaim (bt_BatchID task)) (\<lambda>_. returnE False)
             else if us_parsedLines usage = 0 \<and> us_noUsageLines usage > 0 then
               bindE (releaseClaim (bt_BatchID task)) (\<lambda>_. returnE False)
             else settle_with_usage m task usage))"

definition settleOneTask :: "Manager \<Rightarrow> BatchTask \<Rightarrow> bool io" where
  "settleOneTask m task =
     bindE (SetNXWithTTL (BatchSettledKey (bt_BatchID task))) (\<lambda>claimed.
       if \<not> claimed then returnE False else settle_claimed m task)"

definition filterBySettleGrace :: "BatchTask list \<Rightarrow> time \<Rightarrow> duration \<Rightarrow> BatchTask list" where
  "filterBySettleGrace candidates now grace = filter (\<lambda>task.
     let e1 = bt_CreatedAt task;
         e2 = (if \<not> IsZero (bt_UpdatedAt task) then bt_UpdatedAt task else e1);
         effective = (case bt_TerminalAt task of Some t \<Rightarrow> t | None \<Rightarrow> e2)
     in time_Sub now effective \<ge> grace) candidates"

definition noSettleReleaseStatuses :: "string list" where
  "noSettleReleaseStatuses = [TaskStatusExpired, TaskStatusFailed, TaskStatusCancelled]"

definition ReconcileSettle :: "Manager \<Rightarrow> (nat \<times> nat) io" where
  "ReconcileSettle m =
     (if \<not> mg_redis m then returnE (0, 0)
      else
        bindE (ListBatchTasks (no_filter\<lparr>flt_Status := Some TaskStatusCompleted,
            flt_SettleStatus := Some SettleStatusReserved, flt_Limit := mg_reconcileLimit m\<rparr>)) (\<lambda>settleCands.
        bindE (ListBatchTasks (no_filter\<lparr>flt_StatusIn := noSettleReleaseStatuses,
            flt_SettleStatus := Some SettleStatusReserved, flt_Limit := mg_reconcileLimit m\<rparr>)) (\<lambda>releaseCands.
        bindE (getsE clock) (\<lambda>now.
        bindE (modifyE (\<lambda>s. s\<lparr>access_cache := []\<rparr>)) (\<lambda>_.
          State_Monad.bind (count_ok (settleOneTask m)
              (filterBySettleGrace settleCands now (mg_settleGrace m))) (\<lambda>settled.
          State_Monad.bind (count_ok releaseOneTask releaseCands) (\<lambda>released.
            returnE (settled, released))))))))"

section \<open>The parser against its specification\<close>

text \<open>The lines of a file: the text between newlines, the last one possibly unterminated.\<close>

function split_lines :: "string \<Rightarrow> string list" where
  "split_lines body = (case Cut body newline of
     None \<Rightarrow> [body] | Some (a, rest) \<Rightarrow> a # split_lines rest)"
  by pat_completeness auto
termination
  by (relation "measure length") (auto dest!: Cut_Some)

declare split_lines.simps [simp del]

definition fits :: "int \<Rightarrow> string \<Rightarrow> bool" where
  "fits maxLineBytes line \<longleftrightarrow> int (length line) \<le> maxLineBytes"

lemma handle_blank [simp]: "TrimSpace line = [] \<Longrightarrow> handleUsageLine m line totals = totals"
  by (simp add: handleUsageLine_def)

lemma parse_loop_lines:
  "parse_loop m n body ([], False, totals) =
     fold (handleUsageLine m) (filter (fits n) (split_lines body)) totals"
proof (induction body arbitrary: totals rule: split_lines.induct)
  case (1 body)
  show ?case
  proof (cases "Cut body newline")
    case None
    then have nn: "newline \<notin> set body"
      by (induction body) (auto split: if_splits)
    have "last body \<noteq> newline" if "body \<noteq> []" using nn that last_in_set by metis
    then show ?thesis using None
      by (subst parse_loop.simps, subst split_lines.simps)
         (auto simp: ReadBytes_def jsonl_chunk_def fits_def Let_def)
  next
    case (Some p)
    obtain a rest where p: "p = (a, rest)" by fastforce
    have IH: "parse_loop m n rest ([], False, t) =
        fold (handleUsageLine m) (filter (fits n) (split_lines rest)) t" for t
      using 1 Some p by simp
    show ?thesis using Some p
      by (subst parse_loop.simps, subst split_lines.simps)
         (simp add: ReadBytes_def jsonl_chunk_def fits_def Let_def IH)
  qed
qed

text \<open>The usage of one line, as the specification sees it.\<close>

definition line_usage :: "Manager \<Rightarrow> string \<Rightarrow> (usageTokens \<times> string) option" where
  "line_usage m line =
     (if TrimSpace line = [] then None
      else case mg_decodeRow m (TrimSpace line) of
          None \<Rightarrow> None
        | Some row \<Rightarrow> (case usageAndModel (Some row) of (u, mdl) \<Rightarrow> map_option (\<lambda>u. (u, mdl)) u))"

lemma handle_tokens:
  "us_inputTokens (handleUsageLine m line t) =
     us_inputTokens t + (case line_usage m line of None \<Rightarrow> 0 | Some (u, _) \<Rightarrow> ut_PromptTokens u)"
  "us_outputTokens (handleUsageLine m line t) =
     us_outputTokens t + (case line_usage m line of None \<Rightarrow> 0 | Some (u, _) \<Rightarrow> ut_CompletionTokens u)"
  "us_parsedLines (handleUsageLine m line t) =
     us_parsedLines t + (if line_usage m line = None then 0 else 1)"
  by (auto simp: handleUsageLine_def line_usage_def usageAndModel_def Let_def
      split: option.splits prod.splits if_splits)

lemma fold_tokens:
  "us_inputTokens (fold (handleUsageLine m) ls t) = us_inputTokens t +
     (\<Sum>l\<leftarrow>ls. case line_usage m l of None \<Rightarrow> 0 | Some (u, _) \<Rightarrow> ut_PromptTokens u)"
  "us_outputTokens (fold (handleUsageLine m) ls t) = us_outputTokens t +
     (\<Sum>l\<leftarrow>ls. case line_usage m l of None \<Rightarrow> 0 | Some (u, _) \<Rightarrow> ut_CompletionTokens u)"
  "us_parsedLines (fold (handleUsageLine m) ls t) = us_parsedLines t +
     length (filter (\<lambda>l. line_usage m l \<noteq> None) ls)"
  by (induction ls arbitrary: t) (simp_all add: handle_tokens add.assoc)

text \<open>A file as JSONL writers produce it: lines joined by newlines.\<close>

lemma split_lines_append:
  "newline \<notin> set a \<Longrightarrow> split_lines (a @ newline # rest) = a # split_lines rest"
  by (subst split_lines.simps) (simp add: Cut_first)

section \<open>The conditional update of the settlement\<close>

definition put_settle :: "bool \<Rightarrow> string \<Rightarrow> string \<Rightarrow> BatchSettlePatch \<Rightarrow> time \<Rightarrow> BatchTask table \<Rightarrow>
    nat \<times> BatchTask table" where
  "put_settle my b p patch now =
     TBatchTaskUpdateSettleStatus my b p SettleStatusReserved (settlePatchToParam patch now)"

definition settleable :: "string \<Rightarrow> string \<Rightarrow> BatchTask \<Rightarrow> bool" where
  "settleable b p r \<longleftrightarrow>
     bt_BatchID r = b \<and> bt_ProductName r = p \<and> bt_SettleStatus r = SettleStatusReserved"

definition settle_row :: "BatchSettlePatch \<Rightarrow> time \<Rightarrow> BatchTask \<Rightarrow> BatchTask" where
  "settle_row patch now = assign_task (settlePatchToParam patch now)"

lemma put_settle_eq:
  "put_settle my b p patch now t = exec_update my (settleable b p) (settle_row patch now) t"
  by (simp add: put_settle_def TBatchTaskUpdateSettleStatus_def settleable_def [abs_def] settle_row_def)

lemma settle_row_sel [simp]:
  "bt_SettleStatus (settle_row patch now r) = sp_SettleStatus patch"
  "bt_Status (settle_row patch now r) = bt_Status r"
  "bt_ID (settle_row patch now r) = bt_ID r" "bt_IdemKey (settle_row patch now r) = bt_IdemKey r"
  "bt_BatchID (settle_row patch now r) = bt_BatchID r"
  "bt_ProductName (settle_row patch now r) = bt_ProductName r"
  "bt_ReserveUnits (settle_row patch now r) = bt_ReserveUnits r"
  "bt_SettleUnits (settle_row patch now r) = opt_or (sp_SettleUnits patch) (bt_SettleUnits r)"
  "bt_UsageInputTokens (settle_row patch now r) = opt_or (sp_UsageInputTokens patch) (bt_UsageInputTokens r)"
  "bt_UsageOutputTokens (settle_row patch now r) = opt_or (sp_UsageOutputTokens patch) (bt_UsageOutputTokens r)"
  "bt_OverReserved (settle_row patch now r) = opt_or (sp_OverReserved patch) (bt_OverReserved r)"
  by (simp_all add: settle_row_def assign_task_def settlePatchToParam_def no_task_param_def)

text \<open>The affected rows are those still reserved, whichever way the dialect counts.\<close>

text \<open>The row that a settlement with usage leaves, column by column.\<close>

lemma settle_row_settled:
  "settle_row (settle_patch task usage units now) now x =
     x\<lparr>bt_SettleStatus := SettleStatusSettled, bt_SettleUnits := units,
       bt_UsageInputTokens := us_inputTokens usage, bt_UsageOutputTokens := us_outputTokens usage,
       bt_UsageSource := UsageSourceReconcile,
       bt_OverReserved := (0 < sint (bt_ReserveUnits task) \<and> sint (bt_ReserveUnits task) < sint units),
       bt_UpdatedAt := now, bt_TerminalAt := Some (opt_or (bt_TerminalAt task) now)\<rparr>"
  by (simp add: settle_row_def settle_patch_def assign_task_def settlePatchToParam_def no_task_param_def
      opt_or_def split: option.split)

lemma settle_count:
  assumes "sp_SettleStatus patch \<noteq> SettleStatusReserved"
  shows "fst (put_settle my b p patch now t) = length (filter (settleable b p) (rows t))"
proof -
  have "settle_row patch now r \<noteq> r" if "settleable b p r" for r
    using that assms by (metis settle_row_sel(1) settleable_def)
  then have "(\<lambda>r. settleable b p r \<and> (my \<longrightarrow> settle_row patch now r \<noteq> r)) = settleable b p"
    by (auto simp: fun_eq_iff)
  then show ?thesis by (simp add: put_settle_eq exec_update_def affected_rows_def)
qed

lemma settled_none:
  assumes "sp_SettleStatus patch \<noteq> SettleStatusReserved"
    and "r \<in> set (rows (snd (put_settle my b p patch now t)))"
  shows "\<not> settleable b p r"
proof -
  have "\<not> settleable b p (settle_row patch now x)" for x using assms(1) by (simp add: settleable_def)
  with assms(2) show ?thesis
    unfolding put_settle_eq exec_update_def by (auto simp: in_update_where split: if_splits) metis
qed

lemma settle_none:
  "(\<And>r. r \<in> set (rows t) \<Longrightarrow> \<not> settleable b p r) \<Longrightarrow> put_settle my b p patch now t = (0, t)"
  by (simp add: put_settle_eq exec_update_def update_where_none affected_rows_def filter_empty_conv)

section \<open>What a reconciliation may change\<close>

text \<open>
  The status never moves; the money columns move only while the row is reserved, and then to settled
  or released.
\<close>

definition settle_le :: "BatchTask \<Rightarrow> BatchTask \<Rightarrow> bool" where
  "settle_le old new \<longleftrightarrow> bt_ID new = bt_ID old \<and> bt_IdemKey new = bt_IdemKey old
     \<and> bt_BatchID new = bt_BatchID old \<and> bt_ProductName new = bt_ProductName old
     \<and> bt_Status new = bt_Status old \<and> bt_ReserveUnits new = bt_ReserveUnits old
     \<and> (new = old \<or> bt_SettleStatus old = SettleStatusReserved
          \<and> bt_SettleStatus new \<in> {SettleStatusSettled, SettleStatusReleased})"

interpretation settle_order: row_order settle_le
  by unfold_locales (auto simp: settle_le_def)

definition final_patch :: "BatchSettlePatch \<Rightarrow> bool" where
  "final_patch patch \<longleftrightarrow> sp_SettleStatus patch \<in> {SettleStatusSettled, SettleStatusReleased}"

lemma settle_le_put:
  "table_le settle_le t0 t \<Longrightarrow> final_patch patch \<Longrightarrow>
   table_le settle_le t0 (snd (put_settle my b p patch now t))"
  unfolding put_settle_eq
  by (rule settle_order.update_from) (auto simp: settle_le_def settleable_def final_patch_def)

lemma keeps_UpdateBatchTaskSettleStatus:
  assumes "\<And>t f r my now. I t f r \<Longrightarrow> I (snd (put_settle my b p patch now t)) f r"
  shows "keeps (store_inv I) (UpdateBatchTaskSettleStatus b p SettleStatusReserved patch)"
  unfolding UpdateBatchTaskSettleStatus_def
  by (rule keeps_ext_call) (use assms in \<open>auto simp: store_inv_def put_settle_def split_beta\<close>)

lemma keeps_HSetWithTTL:
  "(\<And>t f r h. I t f r \<Longrightarrow> I t f (alist_set k (RHash h) r)) \<Longrightarrow>
   keeps (store_inv I) (HSetWithTTL k flds)"
  unfolding HSetWithTTL_def
  by (rule keeps_ext_call) (auto simp: store_inv_def split: option.splits rval.splits)

lemma keeps_SetNXWithTTL:
  "(\<And>t f r. I t f r \<Longrightarrow> I t f (alist_set k (RInt 1) r)) \<Longrightarrow> keeps (store_inv I) (SetNXWithTTL k)"
  unfolding SetNXWithTTL_def
  by (rule keeps_ext_call) (auto simp: store_inv_def split: option.splits)

lemma keeps_calcSettleUnits [keeps_rules]: "keeps (store_inv I) (calcSettleUnits m task u)"
  unfolding calcSettleUnits_def by (auto intro!: keeps_rules keeps_ext_call)

lemma keeps_downloadAndParseUsage [keeps_rules]: "keeps (store_inv I) (downloadAndParseUsage m a url)"
  unfolding downloadAndParseUsage_def by (auto intro!: keeps_rules)

lemma keeps_resolveProviderAccessCached [keeps_rules]:
  "keeps (store_inv I) (resolveProviderAccessCached m p k)"
  unfolding resolveProviderAccessCached_def by (intro keeps_rules keeps_modifyE) simp

text \<open>The invariant of the whole duty.\<close>

abbreviation settle_K :: "BatchTask table \<Rightarrow> (string \<times> rval) list \<Rightarrow> BatchTask table \<Rightarrow> BatchFile table \<Rightarrow>
    (string \<times> rval) list \<Rightarrow> bool" where
  "settle_K t0 r0 \<equiv> \<lambda>t f r. table_le settle_le t0 t \<and> mirrors_le r0 r"

lemma keeps_releaseClaim: "keeps (store_inv (settle_K t0 r0)) (releaseClaim b)"
  unfolding releaseClaim_def
  by (intro keeps_rules keeps_Delete) (auto intro: mirrors_le_other)

lemma keeps_or_unclaim:
  "keeps (store_inv (settle_K t0 r0)) c \<Longrightarrow> keeps (store_inv (settle_K t0 r0)) (or_unclaim b c)"
  unfolding or_unclaim_def
  by (intro keeps_bind keeps_case_sum keeps_bindE keeps_releaseClaim keeps_throwE keeps_returnE)

lemma keeps_settle_update:
  "final_patch patch \<Longrightarrow>
   keeps (store_inv (settle_K t0 r0)) (UpdateBatchTaskSettleStatus b p SettleStatusReserved patch)"
  by (rule keeps_UpdateBatchTaskSettleStatus) (simp add: settle_le_put)

lemma keeps_releaseOneTask: "keeps (store_inv (settle_K t0 r0)) (releaseOneTask task)"
  unfolding releaseOneTask_def
  by (intro keeps_bindE keeps_releaseReserve_mirrors keeps_settle_update keeps_returnE)
     (simp add: final_patch_def)

lemma keeps_settle_with_usage: "keeps (store_inv (settle_K t0 r0)) (settle_with_usage m task u)"
  unfolding settle_with_usage_def
  by (intro keeps_bindE keeps_or_unclaim keeps_calcSettleUnits keeps_case_prod keeps_HSetWithTTL
      keeps_ignoreE keeps_releaseReserve_mirrors keeps_getsE keeps_settle_update keeps_returnE)
     (auto simp: final_patch_def settle_patch_def intro: mirrors_le_other)

lemma keeps_settleOneTask: "keeps (store_inv (settle_K t0 r0)) (settleOneTask m task)"
proof -
  have "keeps (store_inv (settle_K t0 r0)) (SetNXWithTTL (BatchSettledKey b))" for b
    by (rule keeps_SetNXWithTTL) (auto intro: mirrors_le_other)
  then show ?thesis
    unfolding settleOneTask_def settle_claimed_def
    by (intro keeps_bindE keeps_if keeps_returnE keeps_or_unclaim keeps_releaseClaim
        keeps_releaseOneTask keeps_case_prod keeps_settle_with_usage
        keeps_resolveProviderAccessCached keeps_downloadAndParseUsage)
qed

lemma keeps_ReconcileSettle: "keeps (store_inv (settle_K t0 r0)) (ReconcileSettle m)"
  unfolding ReconcileSettle_def
  by (intro keeps_if keeps_returnE keeps_bindE keeps_reads keeps_getsE keeps_modifyE keeps_bind
      keeps_count_ok keeps_settleOneTask keeps_releaseOneTask) simp

section \<open>Fault-free runs\<close>

definition calc_units :: "Manager \<Rightarrow> BatchTask \<Rightarrow> usageTotals \<Rightarrow> i64 \<times> bool" where
  "calc_units m task usage = (case mg_prices m of None \<Rightarrow> (0, True) | Some q \<Rightarrow>
     if us_model usage = [] then (0, True)
     else (case q (bt_Provider task) (us_model usage) of None \<Rightarrow> (0, True)
       | Some prices \<Rightarrow> settle_units m prices usage))"

lemma run_calcSettleUnits:
  "faults s = [] \<Longrightarrow> run_state (calcSettleUnits m task usage) s = (Inr (calc_units m task usage), s)"
  by (simp add: calcSettleUnits_def calc_units_def split: option.split)

lemma run_or_unclaim:
  "run_state (or_unclaim b c) s = (case run_state c s of
     (Inl e, s') \<Rightarrow> (Inl e, snd (run_state (Delete (BatchSettledKey b)) s')) | (Inr x, s') \<Rightarrow> (Inr x, s'))"
  by (simp add: or_unclaim_def releaseClaim_def split: prod.split sum.split)

lemma run_Delete: "faults s = [] \<Longrightarrow> run_state (Delete k) s = (Inr (), s\<lparr>redis := redis_del k (redis s)\<rparr>)"
  by (simp add: Delete_def)

lemma run_releaseClaim:
  "faults s = [] \<Longrightarrow>
   run_state (releaseClaim b) s = (Inr (), s\<lparr>redis := redis_del (BatchSettledKey b) (redis s)\<rparr>)"
  by (simp add: releaseClaim_def run_Delete)

text \<open>The hash after the write of step 4.\<close>

definition settled_hash :: "hash \<Rightarrow> usageTotals \<Rightarrow> i64 \<Rightarrow> hash" where
  "settled_hash h usage units = fold (\<lambda>(k, v). alist_set k v) (settled_fields usage units) h"

lemma map_of_settled_hash:
  "map_of (settled_hash h usage units) = (map_of h)(''usage_in'' \<mapsto> FormatInt (us_inputTokens usage),
     ''usage_out'' \<mapsto> FormatInt (us_outputTokens usage), ''settle_units'' \<mapsto> FormatInt units,
     ''settle_status'' \<mapsto> SettleStatusSettled)"
  by (simp add: settled_hash_def settled_fields_def)

lemma run_settle_with_usage:
  assumes "faults s = []" and h: "redis_get (redis s) (BatchTaskKey (bt_BatchID task)) = Some (RHash h)"
    and vals: "redis_get (redis s) (BatchReserveBatchKey (bt_BatchID task)) = Some (RHash vals)" "vals \<noteq> []"
    and units: "calc_units m task usage = (units, miss)"
  defines "r1 \<equiv> alist_set (BatchTaskKey (bt_BatchID task)) (RHash (settled_hash h usage units)) (redis s)"
    and "put \<equiv> put_settle (isMySQL s) (bt_BatchID task) (bt_ProductName task)
      (settle_patch task usage units (clock s)) (clock s) (tasks s)"
  shows "run_state (settle_with_usage m task usage) s = (Inr (0 < fst put),
    s\<lparr>redis := redis_del (BatchReserveBatchKey (bt_BatchID task)) (fold decr_mirror vals r1),
      tasks := snd put\<rparr>)"
proof -
  let ?s1 = "s\<lparr>redis := r1\<rparr>"
  have w: "run_state (HSetWithTTL (BatchTaskKey (bt_BatchID task)) (settled_fields usage units)) s =
      (Inr (), ?s1)"
    using assms(1) h by (simp add: HSetWithTTL_def r1_def settled_hash_def)
  have "run_state (releaseReserve (bt_BatchID task)) ?s1 = (Inr (),
      ?s1\<lparr>redis := redis_del (BatchReserveBatchKey (bt_BatchID task)) (fold decr_mirror vals r1)\<rparr>)"
    using run_releaseReserve [of ?s1 "bt_BatchID task" vals] assms(1) vals by (simp add: r1_def)
  then show ?thesis
    using assms(1) units w
    by (simp add: settle_with_usage_def run_or_unclaim run_calcSettleUnits
        UpdateBatchTaskSettleStatus_def put_def put_settle_def split_beta)
qed

text \<open>What the next synchronisation reads from that hash.\<close>

lemma parse_settled_hash:
  assumes "b \<noteq> []" "field h ''status'' \<noteq> []"
  shows "\<exists>view. ParseRedisTaskView m b (settled_hash h usage units) = Inr view \<and>
     rv_usageIn view = Some (us_inputTokens usage) \<and> rv_usageOut view = Some (us_outputTokens usage) \<and>
     rv_settleUnits view = Some units \<and> rv_settleStatus view = SettleStatusSettled"
proof -
  have "field (settled_hash h usage units) ''status'' = field h ''status''"
    by (simp add: field_def alist_get_def map_of_settled_hash)
  then show ?thesis
    using assms
    by (simp add: ParseRedisTaskView_def parseInt64Field_def map_of_settled_hash field_def
        alist_get_def [of "settled_hash h usage units" "''settle_status''"])
qed

lemma run_downloadAndParseUsage:
  assumes "faults s = []" "mg_validURL m url" "valid_header_name (pa_authHeader a)"
    "mg_upstream m (http_log s) \<lparr>hr_Method = ''GET'', hr_URL = url,
       hr_Header = [(pa_authHeader a, pa_authValue a)]\<rparr> = Some (code, body)"
  shows "run_state (downloadAndParseUsage m a url) s =
    (Inr (if code < 200 \<or> code \<ge> 300 then (no_usage, code)
      else (parseJSONLUsage m body (mg_maxOutputLineBytes m) no_usage, code)),
     s\<lparr>http_log := http_log s @ [\<lparr>hr_Method = ''GET'', hr_URL = url,
       hr_Header = [(pa_authHeader a, pa_authValue a)]\<rparr>]\<rparr>)"
  using assms by (simp add: downloadAndParseUsage_def http_Do_def)

text \<open>A provider without keys: the request is refused before it is sent, and the claim is given back.\<close>

lemma run_download_keyless:
  "pa_authHeader a = [] \<Longrightarrow> mg_validURL m url \<Longrightarrow>
   run_state (downloadAndParseUsage m a url) s = (Inl (ErrMsg ''net/http: invalid header field name''), s)"
  by (simp add: downloadAndParseUsage_def http_Do_def)

lemma run_claim:
  "faults s = [] \<Longrightarrow> redis_get (redis s) k = None \<Longrightarrow>
   run_state (SetNXWithTTL k) s = (Inr True, s\<lparr>redis := alist_set k (RInt 1) (redis s)\<rparr>)"
  by (simp add: SetNXWithTTL_def)

lemma run_resolveCached_fresh:
  assumes "faults s = []" "map_of (access_cache s) n = None" "mg_providers m = Some q" "q n = Some prov"
    "provider_access n k prov = Inr a"
  shows "run_state (resolveProviderAccessCached m n k) s =
    (Inr a, s\<lparr>access_cache := alist_set n a (access_cache s)\<rparr>)"
  using assms by (simp add: resolveProviderAccessCached_def run_resolveProviderAccess)

end
