(* ===== verification/BatchInterleave.thy ===== *)
theory BatchInterleave
  imports BatchJob
begin

text \<open>
  Several instances at once: every SQL statement is atomic, and the statements of all instances
  interleave freely. \<open>stmt\<close> has one case per statement that the duties and the cancel path issue on
  \<^verbatim>\<open>batch_tasks\<close>: the preempt, the update of the progress, the conditional update of the settlement, and
  the upsert, which inserts a row or writes over the one with the same key (the synchronisation and
  the registration inside a cancel). An upsert writes the settlement status of the row it carries, so it
  comes with the condition \<open>keeps_decision\<close>: the row it carries does not say reserved where the stored row is
  decided already. The synchronisation meets it when the task hash of Redis carries a decided status or none
  (then \<^verbatim>\<open>mergeTaskForSync\<close> keeps the stored status); an upsert computed before the decision, from a
  hash that said reserved, breaks it. The facts show that whichever instance settles or releases a batch first is
  the only one whose conditional update affects a row.
\<close>

definition keeps_decision :: "BatchTask \<Rightarrow> BatchTask table \<Rightarrow> bool" where
  "keeps_decision r t \<longleftrightarrow> (case lookup_task t (bt_IdemKey r) of None \<Rightarrow> True
     | Some old \<Rightarrow> bt_SettleStatus old \<noteq> SettleStatusReserved \<longrightarrow> bt_SettleStatus r \<noteq> SettleStatusReserved)"

inductive stmt :: "BatchTask table \<Rightarrow> BatchTask table \<Rightarrow> bool" where
  preempt_stmt: "stmt t (snd (put_preempt my b p now t))"
| progress_stmt: "stmt t (put_progress my i patch now t)"
| settle_stmt: "final_patch patch \<Longrightarrow> stmt t (snd (put_settle my b p patch now t))"
| upsert_stmt: "bt_IdemKey r = bt_BatchID r \<Longrightarrow> keeps_decision r t \<Longrightarrow> stmt t (put_task now r t)"

inductive_cases stmtE: "stmt t t'"

text \<open>Rows are keyed by their batch id, as every writer of the component stores them.\<close>

definition wf_batch :: "BatchTask table \<Rightarrow> bool" where
  "wf_batch t \<longleftrightarrow> wf_tasks t \<and> (\<forall>r\<in>set (rows t). bt_IdemKey r = bt_BatchID r)"

definition decided :: "string \<Rightarrow> BatchTask table \<Rightarrow> bool" where
  "decided b t \<longleftrightarrow> wf_batch t \<and> (\<exists>r. lookup_task t b = Some r \<and> bt_SettleStatus r \<noteq> SettleStatusReserved)"

lemma wf_batch_key: "wf_batch t \<Longrightarrow> r \<in> set (rows t) \<Longrightarrow> lookup_task t (bt_BatchID r) = Some r"
  by (auto simp: wf_batch_def lookup_task_iff)

lemma decided_none: "decided b t \<Longrightarrow> r \<in> set (rows t) \<Longrightarrow> \<not> settleable b p r"
  using wf_batch_key by (fastforce simp: decided_def settleable_def)

lemma wf_batch_update:
  assumes "wf_batch t"
    and "\<And>x. bt_IdemKey (f x) = bt_IdemKey x" "\<And>x. bt_ID (f x) = bt_ID x" "\<And>x. bt_BatchID (f x) = bt_BatchID x"
  shows "wf_batch (snd (exec_update my q f t))"
proof -
  have "wf_tasks (snd (exec_update my q f t))"
    using assms by (intro wf_exec_update) (simp_all add: wf_batch_def)
  then show ?thesis using assms by (auto simp: wf_batch_def exec_update_def in_update_where)
qed

lemma decided_update:
  assumes "decided b t"
    and f: "\<And>x. bt_IdemKey (f x) = bt_IdemKey x" "\<And>x. bt_ID (f x) = bt_ID x" "\<And>x. bt_BatchID (f x) = bt_BatchID x"
    and s: "\<And>x. bt_SettleStatus x \<noteq> SettleStatusReserved \<Longrightarrow> bt_SettleStatus (f x) \<noteq> SettleStatusReserved"
  shows "decided b (snd (exec_update my q f t))"
proof -
  obtain r where r: "lookup_task t b = Some r" "bt_SettleStatus r \<noteq> SettleStatusReserved"
    using assms(1) by (auto simp: decided_def)
  have "lookup_task (snd (exec_update my q f t)) b = Some (if q r then f r else r)"
    using r(1) f(1) by (simp add: exec_update_def lookup_task_def find_update_where_other)
  then show ?thesis
    using wf_batch_update [OF _ f] assms(1) r(2) s by (auto simp: decided_def)
qed

lemma wf_batch_upsert:
  assumes "wf_batch t" "bt_IdemKey r = bt_BatchID r"
  shows "wf_batch (put_task now r t)"
proof -
  have "wf_tasks (put_task now r t)" using assms(1) by (intro wf_put_task) (simp add: wf_batch_def)
  then show ?thesis
    using assms by (auto simp: wf_batch_def put_task_eq Let_def in_update_where split: option.splits if_splits)
qed

lemma decided_upsert:
  assumes "decided b t" "bt_IdemKey r = bt_BatchID r" "keeps_decision r t"
  shows "decided b (put_task now r t)"
proof (cases "bt_IdemKey r = b \<and> bt_IdemKey r \<noteq> []")
  case True
  obtain old where old: "lookup_task t b = Some old" "bt_SettleStatus old \<noteq> SettleStatusReserved"
    using assms(1) by (auto simp: decided_def)
  with True assms(3) have "bt_SettleStatus r \<noteq> SettleStatusReserved" by (auto simp: keeps_decision_def)
  moreover have "lookup_task (put_task now r t) b = Some (stored_task now t r)"
    using True lookup_put_task_same by blast
  moreover have "bt_SettleStatus (stored_task now t r) = bt_SettleStatus r"
    using True old by (simp add: stored_task_def conflict_update_def Let_def)
  ultimately show ?thesis
    using wf_batch_upsert assms(1,2) by (auto simp: decided_def)
next
  case False
  then have "lookup_task (put_task now r t) b = lookup_task t b"
    by (metis lookup_put_task_other put_task_unusable)
  then show ?thesis using wf_batch_upsert assms(1,2) by (auto simp: decided_def)
qed

lemma decided_stmt: "stmt t t' \<Longrightarrow> decided b t \<Longrightarrow> decided b t'"
proof (induction rule: stmt.induct)
  case (preempt_stmt t my b' p' now)
  then show ?case unfolding put_preempt_eq by (rule decided_update) simp_all
next
  case (progress_stmt t my i patch now)
  then show ?case
    unfolding put_progress_def by (rule decided_update) (simp_all add: assign_progress_sel)
next
  case (settle_stmt patch t my b' p' now)
  then show ?case
    unfolding put_settle_eq by (intro decided_update) (auto simp: final_patch_def)
next
  case (upsert_stmt r t now)
  then show ?case by (intro decided_upsert) simp_all
qed

lemma decided_stmts: "stmt\<^sup>*\<^sup>* t t' \<Longrightarrow> decided b t \<Longrightarrow> decided b t'"
  by (induction rule: rtranclp_induct) (auto intro: decided_stmt)

text \<open>A conditional update that affected a row decides the batch.\<close>

lemma put_settle_decides:
  assumes "wf_batch t" "final_patch patch" "0 < fst (put_settle my b p patch now t)"
  shows "decided b (snd (put_settle my b p patch now t))"
proof -
  let ?t = "snd (put_settle my b p patch now t)"
  have fin: "sp_SettleStatus patch \<noteq> SettleStatusReserved" using assms(2) by (auto simp: final_patch_def)
  obtain x where x: "x \<in> set (rows t)" "settleable b p x"
    using assms(3) fin by (auto simp: settle_count filter_empty_conv)
  have "settle_row patch now x \<in> set (rows ?t)"
    using x by (auto simp: put_settle_eq exec_update_def in_update_where)
  moreover have "wf_batch ?t"
    using assms(1) unfolding put_settle_eq by (intro wf_batch_update) simp_all
  moreover have "bt_BatchID (settle_row patch now x) = b" using x by (simp add: settleable_def)
  ultimately show ?thesis using wf_batch_key fin unfolding decided_def by (metis settle_row_sel(1))
qed

lemma put_settle_decided: "decided b t \<Longrightarrow> put_settle my b p patch now t = (0, t)"
  by (rule settle_none) (rule decided_none)

text \<open>
  The upserts of the source that meet the condition: a synchronisation whose view carries no settlement status, or a
  decided one, and that read the row as it stands now.
\<close>

lemma sync_keeps_decision:
  assumes "lookup_task t k = Some old" "bt_IdemKey inc = k" "bt_IdemKey old = k"
    and "rv_settleStatus view = [] \<or> bt_SettleStatus inc \<noteq> SettleStatusReserved"
  shows "keeps_decision (mergeTaskForSync (Some old) inc view now) t"
  using assms by (auto simp: keeps_decision_def mergeTaskForSync_def Let_def)

end
