(* ===== verification/BatchProperties.thy ===== *)
theory BatchProperties
  imports BatchInterleave
begin

text \<open>
  The properties of the batch component, each with a witness where it has hypotheses. The example data
  of the witnesses comes first: a manager with one provider, a table with a running and a completed task, and
  the Redis keys that belong to them.
\<close>

section \<open>Example data\<close>

definition ex_provider :: Provider where
  "ex_provider = \<lparr>pv_Name = ''prov'', pv_Keys = [\<lparr>pk_Name = ''k1'', pk_Key = ''secret''\<rparr>],
     pv_InstancePool = [\<lparr>pi_Addr = ''10.0.0.1'', pi_Port = 80, pi_Weight = 1, pi_Disable = False\<rparr>],
     pv_InstanceSource = ''manual'', pv_K8sInstancePool = [], pv_ProtocolPaths = []\<rparr>"

definition ex_keyless :: Provider where
  "ex_keyless = ex_provider\<lparr>pv_Keys := []\<rparr>"

definition ex_manager :: Manager where
  "ex_manager = \<lparr>mg_redis = True, mg_scanner = True,
     mg_apiKeys = (\<lambda>_. [\<lparr>ak_ProductName = Some ''p'', ak_EntityID = None\<rparr>]),
     mg_providers = Some (\<lambda>n. if n = ''prov'' then Some ex_provider
        else if n = ''open'' then Some ex_keyless else None),
     mg_prices = None, mg_validURL = (\<lambda>_. True), mg_upstream = (\<lambda>_ _. Some (200, ''x'')),
     mg_decodeBatch = (\<lambda>_. None),
     mg_decodeRow = (\<lambda>l. Some \<lparr>row_Response = (if l = ''n'' then
         Some \<lparr>rr_Model = [], rr_Usage = None, rr_Body = None\<rparr> else
         Some \<lparr>rr_Model = ''m'', rr_Usage = Some \<lparr>ut_PromptTokens = 3, ut_CompletionTokens = 4\<rparr>,
           rr_Body = None\<rparr>)\<rparr>),
     mg_decodeCounts = (\<lambda>_. None), mg_parseRFC3339 = (\<lambda>_. None), mg_CalcCostUnits = (\<lambda>n _. n),
     mg_operationLog = True, mg_providerTimeout = 1, mg_settleGrace = 1, mg_advanceLimit = 50,
     mg_reconcileLimit = 50, mg_scanCount = 200, mg_maxOutputLineBytes = 100\<rparr>"

definition ex_running :: BatchTask where
  "ex_running = zero_task\<lparr>bt_ID := 1, bt_BatchID := ''b1'', bt_IdemKey := ''b1'', bt_ProductName := ''p'',
     bt_Provider := ''prov'', bt_Status := TaskStatusInProgress, bt_SettleStatus := SettleStatusReserved,
     bt_CreatedAt := 5\<rparr>"

definition ex_done :: BatchTask where
  "ex_done = zero_task\<lparr>bt_ID := 2, bt_BatchID := ''b2'', bt_IdemKey := ''b2'', bt_ProductName := ''p'',
     bt_Provider := ''prov'', bt_Status := TaskStatusCompleted, bt_SettleStatus := SettleStatusReserved,
     bt_OutputFileID := ''f2'', bt_TerminalAt := Some 7\<rparr>"

definition ex_table :: "BatchTask table" where
  "ex_table = \<lparr>rows = [ex_running, ex_done], next_id = 3\<rparr>"

definition ex_redis :: "(string \<times> rval) list" where
  "ex_redis = [(BatchTaskKey ''b1'', RHash [(''status'', ''queued''), (''api_key_id'', ''ak'')]),
     (BatchTaskKey ''b2'', RHash [(''status'', ''completed''), (''api_key_id'', ''ak'')]),
     (BatchReserveBatchKey ''b2'', RHash [(''plan'', ''3'')]),
     (BatchReserveMirrorKey ''plan'', RInt 10)]"

definition ex_world :: world where
  "ex_world = \<lparr>faults = [], tasks = ex_table, files = \<lparr>rows = [], next_id = 1\<rparr>, redis = ex_redis,
     http_log = [], op_log = [], ak_cache = [], access_cache = [], clock = 100, isMySQL = True,
     job_lock = False\<rparr>"

text \<open>The same world with faults ahead.\<close>

definition ex_faulty :: world where
  "ex_faulty = ex_world\<lparr>faults := [NoFault, FaultAfter, FaultBefore, NoFault, NoFault, FaultAfter]\<rparr>"

lemmas ex_simps = ex_world_def ex_faulty_def ex_table_def ex_running_def ex_done_def zero_task_def

lemma ex_wf: "wf_tasks ex_table"
  by (simp add: wf_tasks_def ex_table_def ex_running_def ex_done_def)

lemma ex_world_sel [simp]:
  "tasks ex_world = ex_table" "tasks ex_faulty = ex_table" "faults ex_world = []"
  "redis ex_world = ex_redis" "redis ex_faulty = ex_redis" "clock ex_world = 100" "isMySQL ex_world"
  "ak_cache ex_world = []" "access_cache ex_world = []" "http_log ex_world = []" "job_lock ex_world = False"
  by (simp_all add: ex_world_def ex_faulty_def)

lemma ex_manager_sel [simp]:
  "mg_redis ex_manager" "mg_validURL ex_manager url" "mg_upstream ex_manager l req = Some (200, ''x'')"
  "mg_providers ex_manager = Some (\<lambda>n. if n = ''prov'' then Some ex_provider
     else if n = ''open'' then Some ex_keyless else None)"
  "mg_prices ex_manager = None"
  "mg_apiKeys ex_manager k = [\<lparr>ak_ProductName = Some ''p'', ak_EntityID = None\<rparr>]"
  "mg_maxOutputLineBytes ex_manager = 100"
  by (simp_all add: ex_manager_def)

lemma ex_rows [simp]: "rows ex_table = [ex_running, ex_done]"
  by (simp add: ex_table_def)

lemma ex_fields [simp]:
  "bt_BatchID ex_running = ''b1''" "bt_ProductName ex_running = ''p''" "bt_Status ex_running = ''in_progress''"
  "bt_IdemKey ex_running = ''b1''" "bt_ID ex_running = 1" "bt_SettleStatus ex_running = ''reserved''"
  "bt_BatchID ex_done = ''b2''" "bt_ProductName ex_done = ''p''" "bt_Status ex_done = ''completed''"
  "bt_IdemKey ex_done = ''b2''" "bt_ID ex_done = 2" "bt_SettleStatus ex_done = ''reserved''"
  "bt_OutputFileID ex_done = ''f2''" "bt_Provider ex_done = ''prov''" "bt_CreatedAt ex_running = 5"
  "bt_Provider ex_running = ''prov''"
  by (simp_all add: ex_running_def ex_done_def zero_task_def)

lemma ex_redis_get [simp]:
  "redis_get ex_redis (BatchReserveBatchKey ''b2'') = Some (RHash [(''plan'', ''3'')])"
  "redis_get ex_redis (BatchTaskKey ''b1'') = Some (RHash [(''status'', ''queued''), (''api_key_id'', ''ak'')])"
  "redis_get ex_redis (BatchTaskKey ''b2'') = Some (RHash [(''status'', ''completed''), (''api_key_id'', ''ak'')])"
  "redis_get ex_redis (BatchReserveMirrorKey ''plan'') = Some (RInt 10)"
  "redis_get ex_redis (BatchSettledKey b) = None"
  by (simp_all add: ex_redis_def redis_get_def)

section \<open>A whole round, and several instances\<close>

text \<open>
  C1. One whole round of the reconcile job -- synchronisation from Redis, status advance, backfill and settlement --, whatever the hashes in
  Redis say, whatever the providers answer and whatever calls fail, keeps every task row with its identity, never takes a
  terminal status back, and never lets a reserve mirror grow or turn negative. It is about a round that no other writer of
  the tables overlaps: the named lock keeps other rounds out, but not a cancel, whose upsert may write back what it read before the round.
\<close>

theorem round_keeps_terminal_status:
  assumes "run_state (RunOnce j) s = (r, s')" "wf_tasks (tasks s)" "lookup_task (tasks s) k = Some old"
  shows "mirrors_le (redis s) (redis s') \<and> (\<exists>new. lookup_task (tasks s') k = Some new \<and> bt_ID new = bt_ID old
    \<and> bt_BatchID new = bt_BatchID old \<and> bt_ProductName new = bt_ProductName old
    \<and> (IsTerminalStatus (bt_Status old) \<longrightarrow> bt_Status new = bt_Status old))"
  using RunOnce_advances [OF assms(2,1)] assms(3) unfolding table_le_def task_le_def by blast

theorem round_keeps_terminal_status_witness:
  "\<exists>r s' new. run_state (RunOnce \<lparr>job_manager = Some ex_manager, job_db = True, job_useMySQL = True\<rparr>) ex_faulty = (r, s') \<and>
     lookup_task (tasks s') ''b2'' = Some new \<and> bt_Status new = ''completed''"
proof -
  obtain r s1 where "run_state (RunOnce \<lparr>job_manager = Some ex_manager, job_db = True, job_useMySQL = True\<rparr>)
      ex_faulty = (r, s1)" by fastforce
  moreover have "lookup_task (tasks ex_faulty) ''b2'' = Some ex_done"
    by (simp add: lookup_task_def)
  ultimately show ?thesis
    using round_keeps_terminal_status [of _ ex_faulty r s1 "''b2''" ex_done] ex_wf by fastforce
qed

text \<open>
  C2. A settlement is decided once. When a conditional update of one instance affected a row (settled or
  released it), then after any interleaving of the SQL statements of the duties and of the cancel path -- preempts,
  progress updates, settlements, and upserts that insert a row or write over one without turning a decided settlement back
  to reserved -- every further conditional update of that batch affects no row and changes nothing, in both SQL dialects.
\<close>

theorem settled_at_most_once:
  assumes "wf_batch t" "final_patch patch1" "put_settle my1 b p patch1 now1 t = (n1, t1)" "0 < n1"
    and "stmt\<^sup>*\<^sup>* t1 t2"
  shows "put_settle my2 b p patch2 now2 t2 = (0, t2)"
proof -
  have "decided b t1" using put_settle_decides [of t patch1 my1 b p now1] assms by simp
  with assms(5) have "decided b t2" by (rule decided_stmts)
  then show ?thesis by (rule put_settle_decided)
qed

definition ex_release_patch :: BatchSettlePatch where
  "ex_release_patch = \<lparr>sp_SettleStatus = SettleStatusReleased, sp_SettleUnits = None,
     sp_UsageInputTokens = None, sp_UsageOutputTokens = None, sp_UsageSource = None,
     sp_OverReserved = None, sp_TerminalAt = None\<rparr>"

definition ex_resync :: BatchTask where
  "ex_resync = mergeTaskForSync (Some (settle_row ex_release_patch 9 ex_done)) ex_done
     \<lparr>rv_batchID = ''b2'', rv_apiKeyID = ''ak'', rv_provider = ''prov'', rv_keyName = [], rv_inputFileID = [],
       rv_outputFileID = None, rv_endpoint = None, rv_requestCounts = None, rv_estLines = None,
       rv_reserveUnits = None, rv_status = ''completed'', rv_createdAt = None, rv_usageIn = None,
       rv_usageOut = None, rv_usageSource = [], rv_settleUnits = None, rv_settleStatus = []\<rparr> 10"

text \<open>A release, then a cancel of another batch and a synchronisation of the released one.\<close>

theorem settled_at_most_once_witness:
  "\<exists>t1 t2. put_settle True ''b2'' ''p'' ex_release_patch 9 ex_table = (1, t1) \<and>
     t2 = put_task 11 ex_resync (snd (put_preempt False ''b1'' ''p'' 10 t1)) \<and>
     put_settle False ''b2'' ''p'' ex_release_patch 12 t2 = (0, t2)"
proof -
  let ?t1 = "snd (put_settle True ''b2'' ''p'' ex_release_patch 9 ex_table)"
  let ?ta = "snd (put_preempt False ''b1'' ''p'' 10 ?t1)"
  let ?t2 = "put_task 11 ex_resync ?ta"
  have n: "fst (put_settle True ''b2'' ''p'' ex_release_patch 9 ex_table) = 1"
    by (simp add: settle_count ex_release_patch_def settleable_def)
  have look: "lookup_task ?ta ''b2'' = Some (settle_row ex_release_patch 9 ex_done)"
    by (simp add: put_preempt_eq put_settle_eq exec_update_def lookup_task_def update_where_def settleable_def preemptible_def)
  have "keeps_decision ex_resync ?ta"
    unfolding ex_resync_def by (rule sync_keeps_decision [OF look]) simp_all
  moreover have "bt_IdemKey ex_resync = bt_BatchID ex_resync"
    by (simp add: ex_resync_def mergeTaskForSync_def Let_def)
  ultimately have "stmt ?ta ?t2" by (intro upsert_stmt)
  moreover have "stmt ?t1 ?ta" by (rule preempt_stmt)
  ultimately have st: "stmt\<^sup>*\<^sup>* ?t1 ?t2" by (meson converse_rtranclp_into_rtranclp rtranclp.rtrancl_refl)
  have "put_settle False ''b2'' ''p'' ex_release_patch 12 ?t2 = (0, ?t2)"
    by (rule settled_at_most_once [of ex_table ex_release_patch True "''b2''" "''p''" 9 1 ?t1])
       (use n st ex_wf in \<open>auto simp: wf_batch_def final_patch_def ex_release_patch_def prod_eq_iff\<close>)
  with n show ?thesis by (intro exI [of _ ?t1] exI [of _ ?t2]) (simp add: prod_eq_iff)
qed

section \<open>The duties of the job\<close>

text \<open>
  C3. A reconciliation, whatever fails, keeps every status, moves a settlement only from reserved to settled
  or released, changes no other money column of a decided row, and never lets a reserve mirror grow or
  turn negative.
\<close>

theorem ReconcileSettle_final:
  assumes "wf_tasks (tasks s)" "run_state (ReconcileSettle m) s = (r, s')"
  shows "mirrors_le (redis s) (redis s') \<and>
    (\<forall>k old. lookup_task (tasks s) k = Some old \<longrightarrow>
      (\<exists>new. lookup_task (tasks s') k = Some new \<and> bt_Status new = bt_Status old \<and>
        (new = old \<or> bt_SettleStatus old = SettleStatusReserved
           \<and> bt_SettleStatus new \<in> {SettleStatusSettled, SettleStatusReleased})))"
proof -
  have "store_inv (settle_K (tasks s) (redis s)) s"
    using settle_order.refl [OF assms(1)] by (simp add: store_inv_def)
  from keepsD_run [OF keeps_ReconcileSettle this assms(2)]
  have "table_le settle_le (tasks s) (tasks s') \<and> mirrors_le (redis s) (redis s')"
    by (simp add: store_inv_def)
  then show ?thesis unfolding table_le_def settle_le_def by blast
qed

theorem ReconcileSettle_final_witness:
  "mirrors_le ex_redis (redis (snd (run_state (ReconcileSettle ex_manager) ex_faulty)))"
  using ReconcileSettle_final [of ex_faulty ex_manager
      "fst (run_state (ReconcileSettle ex_manager) ex_faulty)"
      "snd (run_state (ReconcileSettle ex_manager) ex_faulty)"] ex_wf by simp

text \<open>
  C4. Status advance, whatever fails: a terminal row is not touched, a row being cancelled stays
  so or turns terminal, the money columns and Redis stay, and a row that turns terminal gets its time.
\<close>

theorem AdvanceStatus_monotone:
  assumes "wf_tasks (tasks s)" "run_state (AdvanceStatus m) s = (r, s')"
    and "lookup_task (tasks s) k = Some old"
  shows "redis s' = redis s \<and> (\<exists>new. lookup_task (tasks s') k = Some new
     \<and> bt_SettleStatus new = bt_SettleStatus old \<and> bt_SettleUnits new = bt_SettleUnits old
     \<and> (IsTerminalStatus (bt_Status old) \<longrightarrow> new = old)
     \<and> (bt_Status old = TaskStatusCancelling \<longrightarrow>
          bt_Status new = TaskStatusCancelling \<or> IsTerminalStatus (bt_Status new))
     \<and> (\<not> IsTerminalStatus (bt_Status old) \<and> IsTerminalStatus (bt_Status new) \<longrightarrow>
          bt_TerminalAt new \<noteq> None))"
proof -
  have "store_inv (\<lambda>t f r. table_le advance_le (tasks s) t \<and> r = redis s) s"
    using advance_order.refl [OF assms(1)] by (simp add: store_inv_def)
  from keepsD_run [OF keeps_AdvanceStatus this assms(2)]
  have "table_le advance_le (tasks s) (tasks s')" "redis s' = redis s" by (simp_all add: store_inv_def)
  then show ?thesis using assms(3) unfolding table_le_def advance_le_def by blast
qed

theorem AdvanceStatus_monotone_witness:
  "\<exists>new. lookup_task (tasks (snd (run_state (AdvanceStatus ex_manager) ex_faulty))) ''b2'' = Some new
     \<and> new = ex_done"
  using AdvanceStatus_monotone [of ex_faulty ex_manager
      "fst (run_state (AdvanceStatus ex_manager) ex_faulty)"
      "snd (run_state (AdvanceStatus ex_manager) ex_faulty)" "''b2''" ex_done] ex_wf
  by (simp add: lookup_task_def)

text \<open>
  The backfill of artifacts, whatever fails, changes a row only in an artifact that was missing and in
  the time of the write: no status is downgraded, nothing present is overwritten.
\<close>

theorem Backfill_only_missing:
  assumes "wf_tasks (tasks s)" "run_state (BackfillTerminalArtifacts m) s = (r, s')"
    and "lookup_task (tasks s) k = Some old"
  shows "\<exists>new. lookup_task (tasks s') k = Some new \<and> bt_Status new = bt_Status old
     \<and> bt_TerminalAt new = bt_TerminalAt old \<and> bt_SettleStatus new = bt_SettleStatus old
     \<and> (bt_OutputFileID old \<noteq> [] \<longrightarrow> bt_OutputFileID new = bt_OutputFileID old)
     \<and> (bt_RequestCounts old \<noteq> None \<longrightarrow> bt_RequestCounts new = bt_RequestCounts old)
     \<and> (bt_Endpoint old \<noteq> [] \<longrightarrow> bt_Endpoint new = bt_Endpoint old)"
proof -
  have "store_inv (\<lambda>t f r. table_le backfill_le (tasks s) t \<and> r = redis s) s"
    using backfill_order.refl [OF assms(1)] by (simp add: store_inv_def)
  from keepsD_run [OF keeps_BackfillTerminalArtifacts this assms(2)]
  obtain new where "lookup_task (tasks s') k = Some new" "backfill_le old new"
    using assms(3) by (auto simp: store_inv_def table_le_def)
  moreover have "bt_OutputFileID old \<noteq> [] \<longrightarrow> bt_OutputFileID new = bt_OutputFileID old"
    "bt_RequestCounts old \<noteq> None \<longrightarrow> bt_RequestCounts new = bt_RequestCounts old"
    "bt_Endpoint old \<noteq> [] \<longrightarrow> bt_Endpoint new = bt_Endpoint old"
    using calculation(2) unfolding backfill_le_def by blast+
  ultimately show ?thesis by (auto simp: backfill_le_keeps)
qed

theorem Backfill_only_missing_witness:
  "\<exists>new. lookup_task (tasks (snd (run_state (BackfillTerminalArtifacts ex_manager) ex_faulty))) ''b2'' = Some new
     \<and> bt_Status new = ''completed'' \<and> bt_OutputFileID new = ''f2''"
  using Backfill_only_missing [of ex_faulty ex_manager
      "fst (run_state (BackfillTerminalArtifacts ex_manager) ex_faulty)"
      "snd (run_state (BackfillTerminalArtifacts ex_manager) ex_faulty)" "''b2''" ex_done] ex_wf
  by (auto simp: lookup_task_def)

text \<open>
  A batch that the provider does not know: within 24 hours of its creation nothing changes; after
  that the row is expired with the present as its terminal time.
\<close>

theorem absent_batch_expires:
  assumes "faults s = []" "wf_tasks (tasks s)" "t \<in> set (rows (tasks s))"
    and "run_state (handleProviderAbsent t) s = (r, s')"
  shows "if time_Sub (clock s) (bt_CreatedAt t) \<le> 24 * 3600 * 1000000000 then r = Inr False \<and> s' = s
    else \<exists>new. lookup_task (tasks s') (bt_IdemKey t) = Some new \<and> bt_Status new = TaskStatusExpired
      \<and> bt_TerminalAt new = Some (clock s) \<and> bt_ID new = bt_ID t"
proof -
  let ?p = "empty_progress\<lparr>pp_Status := Some TaskStatusExpired, pp_TerminalAt := Some (clock s)\<rparr>"
  have "lookup_task (tasks s) (bt_IdemKey t) = Some t" using assms(2,3) by (simp add: lookup_task_iff)
  then have "lookup_task (put_progress (isMySQL s) (bt_ID t) ?p (clock s) (tasks s)) (bt_IdemKey t) =
      Some (assign_task (progressPatchToParam ?p (clock s)) t)"
    by (simp add: put_progress_def exec_update_def lookup_task_def find_update_where_other)
  then show ?thesis
    using assms(4) run_handleProviderAbsent [OF assms(1,3,2)]
    by (auto simp: providerAbsentGrace_def nsHour_def nsSecond_def assign_progress_sel)
qed

theorem absent_batch_expires_witness:
  "run_state (handleProviderAbsent ex_running) ex_world = (Inr False, ex_world)"
  using absent_batch_expires [of ex_world ex_running] ex_wf
  by (simp add: time_Sub_def prod_eq_iff)

section \<open>Cancel\<close>

text \<open>
  C5. A cancel by the owner of the batch, whatever fails, leaves every row as it is or turns a row that is not
  terminal into cancelling, without touching its settlement, and never lets a reserve mirror grow or turn
  negative.
\<close>

theorem Cancel_safe:
  assumes "wf_tasks (tasks s)" "owns_batch b p (tasks s)" "run_state (Cancel m b p) s = (r, s')"
  shows "mirrors_le (redis s) (redis s') \<and>
    (\<forall>k old. lookup_task (tasks s) k = Some old \<longrightarrow>
      (\<exists>new. lookup_task (tasks s') k = Some new \<and> bt_SettleStatus new = bt_SettleStatus old \<and>
        (new = old \<or> \<not> IsTerminalStatus (bt_Status old) \<and> bt_Status new = TaskStatusCancelling)))"
proof -
  have "store_inv (\<lambda>t f r. cancel_K (tasks s) (redis s) t f r \<and> owns_batch b p t) s"
    using cancel_order.refl [OF assms(1)] assms(2) by (simp add: store_inv_def)
  from hoareD [OF hoare_Cancel this assms(3)]
  have le: "table_le cancel_le (tasks s) (tasks s')" and m: "mirrors_le (redis s) (redis s')"
    by (simp_all add: store_inv_def)
  have "cancel_le old new \<Longrightarrow> bt_SettleStatus new = bt_SettleStatus old \<and>
      (new = old \<or> \<not> IsTerminalStatus (bt_Status old) \<and> bt_Status new = TaskStatusCancelling)" for old new
    by (auto simp: cancel_le_def)
  with le m show ?thesis unfolding table_le_def by blast
qed

theorem Cancel_safe_witness:
  "mirrors_le ex_redis (redis (snd (run_state (Cancel ex_manager ''b1'' ''p'') ex_faulty)))"
  using Cancel_safe [of ex_faulty "''b1''" "''p''" ex_manager
      "fst (run_state (Cancel ex_manager ''b1'' ''p'') ex_faulty)"
      "snd (run_state (Cancel ex_manager ''b1'' ''p'') ex_faulty)"] ex_wf
  by (simp add: owns_batch_def)

text \<open>
  Of two preempts of the same batch only the first one affects rows: the counts do not depend on
  how the dialect counts, and the second one, after any time and in any dialect, affects none and changes nothing.
\<close>

theorem preempt_once:
  "put_preempt my2 b p now2 (snd (put_preempt my1 b p now1 t)) = (0, snd (put_preempt my1 b p now1 t))
   \<and> fst (put_preempt True b p now1 t) = fst (put_preempt False b p now1 t)"
  using preempted_none by (auto intro!: preempt_none simp: preempt_count)

text \<open>
  A cancel without faults of a task that the table knows and that is not preemptible: a task being cancelled
  is replayed, a terminal one is refused with the conflict error, and in that case neither table nor
  Redis nor the provider sees anything.
\<close>

theorem Cancel_refused_or_replayed:
  assumes "faults s = []" "wf_tasks (tasks s)"
    and "\<And>x. x \<in> set (rows (tasks s)) \<Longrightarrow> \<not> preemptible b p x"
    and "List.find (\<lambda>r. bt_BatchID r = b \<and> bt_ProductName r = p) (rows (tasks s)) = Some r"
    and "run_state (Cancel m b p) s = (res, s')"
  shows "if bt_Status r = TaskStatusCancelling then (res, s') = run_state (cancelReplay m r) s
    else res = Inl (errBatchConflict b) \<and> tasks s' = tasks s \<and> files s' = files s
      \<and> redis s' = redis s \<and> http_log s' = http_log s"
  using Cancel_not_live [OF assms(1-4), of m] assms(5) by auto

theorem Cancel_refused_or_replayed_witness:
  "fst (run_state (Cancel ex_manager ''b2'' ''p'') ex_world) = Inl (errBatchConflict ''b2'')"
proof -
  have "x \<in> set (rows (tasks ex_world)) \<Longrightarrow> \<not> preemptible ''b2'' ''p'' x" for x
    by (auto simp: preemptible_def)
  then show ?thesis
    using Cancel_refused_or_replayed [of ex_world "''b2''" "''p''" ex_done ex_manager
      "fst (run_state (Cancel ex_manager ''b2'' ''p'') ex_world)"
      "snd (run_state (Cancel ex_manager ''b2'' ''p'') ex_world)"] ex_wf
    by simp
qed

text \<open>
  A cancel without faults of a live task whose provider accepts it: the row turns cancelling, exactly one
  request is sent, the task is returned as cancelling, and Redis is what the release of its reserve leaves.
\<close>

theorem Cancel_succeeds:
  assumes "faults s = []" "r \<in> set (rows (tasks s))" "preemptible b p r"
    and "List.find (\<lambda>r. bt_BatchID r = b \<and> bt_ProductName r = p) (rows (tasks s)) = Some r"
    and "mg_providers m = Some q" "q (bt_Provider r) = Some prov"
    and "provider_access (bt_Provider r) (bt_KeyName r) prov = Inr a"
    and "mg_validURL m (batch_url a b @ ''/cancel'')"
    and "mg_upstream m (http_log s) \<lparr>hr_Method = ''POST'', hr_URL = batch_url a b @ ''/cancel'',
           hr_Header = auth_headers a\<rparr> = Some (code, body)" "200 \<le> code" "code < 300"
    and "mg_redis m" and "run_state (Cancel m b p) s = (res, s')"
  shows "res = Inr (r\<lparr>bt_Status := TaskStatusCancelling\<rparr>)
    \<and> tasks s' = snd (put_preempt (isMySQL s) b p (clock s) (tasks s))
    \<and> length (http_log s') = length (http_log s) + 1
    \<and> redis s' = released_redis b (redis s)"
proof -
  let ?s1 = "s\<lparr>tasks := snd (put_preempt (isMySQL s) b p (clock s) (tasks s))\<rparr>"
  let ?req = "\<lparr>hr_Method = ''POST'', hr_URL = batch_url a b @ ''/cancel'', hr_Header = auth_headers a\<rparr>"
  let ?s2 = "?s1\<lparr>http_log := http_log s @ [?req]\<rparr>"
  have res: "run_state (resolveProviderAccess m (bt_Provider r) (bt_KeyName r)) ?s1 = (Inr a, ?s1)"
    using assms by (simp add: run_resolveProviderAccess)
  have "pa_authHeader a = [] \<or> valid_header_name (pa_authHeader a)"
    using provider_access_header [OF assms(7)] by auto
  then have post: "run_state (postProviderCancel m a (batch_url a b @ ''/cancel'')) ?s1 = (Inr (), ?s2)"
    using run_postProviderCancel [of ?s1 m "batch_url a b @ ''/cancel''" a] assms by (simp add: Let_def)
  have "snd (run_state (releaseReserve b) ?s2) = ?s2\<lparr>redis := released_redis b (redis s)\<rparr>"
    using snd_run_releaseReserve [of ?s2 b] assms(1) by simp
  then show ?thesis
    using Cancel_live [OF assms(1-4), of m] assms(12,13) res post
    by (auto simp: cancel_upstream_def)
qed

theorem Cancel_succeeds_witness:
  "fst (run_state (Cancel ex_manager ''b1'' ''p'') ex_world) = Inr (ex_running\<lparr>bt_Status := ''cancelling''\<rparr>)"
proof -
  let ?a = "\<lparr>pa_baseURL = ''http://10.0.0.1:80'', pa_path = ''/v1'', pa_authHeader = ''Authorization'',
     pa_authValue = ''Bearer secret''\<rparr>"
  have "provider_access ''prov'' (bt_KeyName ex_running) ex_provider = Inr ?a"
    by code_simp
  then show ?thesis
    using Cancel_succeeds [of ex_world ex_running "''b1''" "''p''" ex_manager
      "\<lambda>n. if n = ''prov'' then Some ex_provider else if n = ''open'' then Some ex_keyless else None"
      ex_provider ?a 200 "''x''"
      "fst (run_state (Cancel ex_manager ''b1'' ''p'') ex_world)"
      "snd (run_state (Cancel ex_manager ''b1'' ''p'') ex_world)"]
    by (simp add: preemptible_def IsTerminalStatus_iff TerminalStatuses_def)
qed

section \<open>Reserves\<close>

text \<open>
  A release without faults takes exactly the booked units off each plan's mirror, clamped at zero, removes the
  booking, and touches nothing else.
\<close>

theorem release_is_exact:
  assumes "faults s = []" "redis_get (redis s) (BatchReserveBatchKey b) = Some (RHash vals)" "vals \<noteq> []"
    and "distinct (map fst vals)" "run_state (releaseReserve b) s = (r, s')"
  shows "r = Inr () \<and> redis_get (redis s') (BatchReserveBatchKey b) = None
    \<and> (\<forall>plan n. redis_get (redis s) (BatchReserveMirrorKey plan) = Some (RInt n) \<longrightarrow>
         redis_get (redis s') (BatchReserveMirrorKey plan) =
           Some (RInt (if n \<le> 0 then n else max 0 (n - booked vals plan))))
    \<and> (\<forall>k. k \<noteq> BatchReserveBatchKey b \<and> (\<forall>plan. k \<noteq> BatchReserveMirrorKey plan) \<longrightarrow>
         redis_get (redis s') k = redis_get (redis s) k)
    \<and> tasks s' = tasks s"
  using assms run_releaseReserve [OF assms(1-3)]
  by (auto simp: release_get release_get_other remaining_def)

theorem release_is_exact_witness:
  "redis_get (redis (snd (run_state (releaseReserve ''b2'') ex_world))) (BatchReserveMirrorKey ''plan'') =
     Some (RInt 7)"
proof -
  have "ParseInt ''3'' = Some 3" by (simp add: ParseInt_def)
  then have "booked [(''plan'', ''3'')] ''plan'' = 3" by (simp add: booked_def)
  then show ?thesis
    using release_is_exact [of ex_world "''b2''" "[(''plan'', ''3'')]"
      "fst (run_state (releaseReserve ''b2'') ex_world)" "snd (run_state (releaseReserve ''b2'') ex_world)"]
    by simp
qed

text \<open>
  A release can be repeated: after a release without faults another one of the same batch changes
  nothing at all; and the mirrors do not depend on the order in which the booking is walked.
\<close>

theorem release_is_idempotent:
  assumes "faults s = []" "redis_get (redis s) (BatchReserveBatchKey b) = Some (RHash vals)"
    and "distinct (map fst vals)" "mset vals' = mset vals"
  shows "(let s1 = snd (run_state (releaseReserve b) s) in
      redis (snd (run_state (releaseReserve b) s1)) = redis s1)
    \<and> redis_get (fold decr_mirror vals' (redis s)) (BatchReserveMirrorKey plan) =
      redis_get (fold decr_mirror vals (redis s)) (BatchReserveMirrorKey plan)"
proof
  have "redis_get (released_redis b (redis s)) (BatchReserveBatchKey b) = None \<or>
      released_redis b (redis s) = redis s"
    using assms(2) by (auto simp: released_redis_def)
  moreover have "redis_get r (BatchReserveBatchKey b) = None \<Longrightarrow> released_redis b r = r" for r
    by (simp add: released_redis_def)
  ultimately have "released_redis b (released_redis b (redis s)) = released_redis b (redis s)"
    by metis
  then show "let s1 = snd (run_state (releaseReserve b) s) in
      redis (snd (run_state (releaseReserve b) s1)) = redis s1"
    using assms(1) by (simp add: Let_def snd_run_releaseReserve)
  have d: "distinct (map fst vals')"
    using assms(3,4) by (metis mset_eq_imp_distinct_iff mset_map)
  moreover have "map_of vals' = map_of vals"
    using assms(3,4) d by (metis map_of_eqI map_of_inject_set mset_eq_setD)
  then have "booked vals' = booked vals" by (simp add: booked_def [abs_def])
  ultimately show "redis_get (fold decr_mirror vals' (redis s)) (BatchReserveMirrorKey plan) =
      redis_get (fold decr_mirror vals (redis s)) (BatchReserveMirrorKey plan)"
    using assms(3) by (simp add: release_get split: option.split rval.split)
qed

theorem release_is_idempotent_witness:
  "redis (snd (run_state (releaseReserve ''b2'') (snd (run_state (releaseReserve ''b2'') ex_world)))) =
   redis (snd (run_state (releaseReserve ''b2'') ex_world))"
  using release_is_idempotent [of ex_world "''b2''" "[(''plan'', ''3'')]" "[(''plan'', ''3'')]"]
  by (simp add: Let_def)

text \<open>
  Two instances that both read a booking before either deletes it take its units off twice: a mirror
  of 10 with a booking of 3 ends at 4.
\<close>

theorem concurrent_release_counts_twice:
  "redis_get (fold decr_mirror [(''plan'', ''3'')] (fold decr_mirror [(''plan'', ''3'')] ex_redis))
     (BatchReserveMirrorKey ''plan'') = Some (RInt 4)"
proof -
  have "ParseInt ''3'' = Some 3" by (simp add: ParseInt_def)
  then have "booked [(''plan'', ''3'')] ''plan'' = 3" by (simp add: booked_def)
  then show ?thesis by (simp add: release_get remaining_def del: fold.simps)
qed

section \<open>Settlement\<close>

text \<open>
  C6. The streaming parser of result files, with its pending buffer and dirty flag, is the fold over the lines of the file
  that fit the limit, the last one terminated or not; the token sums are the sums over these lines modulo 2 to
  the 64.
\<close>

theorem parseJSONLUsage_sums_lines:
  "parseJSONLUsage m body n totals = fold (handleUsageLine m) (filter (fits n) (split_lines body)) totals
   \<and> us_inputTokens (parseJSONLUsage m body n no_usage) = (\<Sum>l\<leftarrow>filter (fits n) (split_lines body).
       case line_usage m l of None \<Rightarrow> 0 | Some (u, _) \<Rightarrow> ut_PromptTokens u)
   \<and> us_outputTokens (parseJSONLUsage m body n no_usage) = (\<Sum>l\<leftarrow>filter (fits n) (split_lines body).
       case line_usage m l of None \<Rightarrow> 0 | Some (u, _) \<Rightarrow> ut_CompletionTokens u)"
  by (simp add: parseJSONLUsage_def parse_loop_lines fold_tokens) (simp add: no_usage_def)

text \<open>
  What a settlement writes to Redis is what the next synchronisation reads: the view of the updated hash
  carries the settled status and the very numbers of the table, so merging it leaves the settlement of the row
  as the conditional update stored it.
\<close>

theorem settle_then_sync_agrees:
  assumes "b \<noteq> []" "field h ''status'' \<noteq> []"
    and "ParseRedisTaskView m b (settled_hash h usage units) = Inr view"
    and "row = settle_row (settle_patch task usage units now) now old"
  shows "let new = resync row view ak now' in
    bt_SettleStatus new = SettleStatusSettled \<and> bt_SettleUnits new = bt_SettleUnits row
    \<and> bt_UsageInputTokens new = bt_UsageInputTokens row \<and> bt_UsageOutputTokens new = bt_UsageOutputTokens row"
proof -
  have "rv_usageIn view = Some (us_inputTokens usage)" "rv_usageOut view = Some (us_outputTokens usage)"
    "rv_settleUnits view = Some units" "rv_settleStatus view = SettleStatusSettled"
    using parse_settled_hash [OF assms(1,2), of m usage units] assms(3) by auto
  then show ?thesis
    by (simp add: resync_def Let_def merge_fields task_of_view_fields assms(4) settle_patch_def)
qed

theorem settle_then_sync_agrees_witness:
  "\<exists>view. ParseRedisTaskView ex_manager ''b2'' (settled_hash [(''status'', ''completed'')] no_usage 5) = Inr view
     \<and> bt_SettleUnits (resync (settle_row (settle_patch ex_done no_usage 5 9) 9 ex_done) view
          \<lparr>ak_ProductName = None, ak_EntityID = None\<rparr> 10) = 5"
proof -
  have st: "field [(''status'', ''completed'')] ''status'' \<noteq> []" by (simp add: field_def alist_get_def)
  obtain view where "ParseRedisTaskView ex_manager ''b2''
      (settled_hash [(''status'', ''completed'')] no_usage 5) = Inr view"
    using parse_settled_hash [OF _ st, of "''b2''" ex_manager no_usage 5] by blast
  then show ?thesis
    using settle_then_sync_agrees [OF _ st, of "''b2''" ex_manager no_usage 5 view]
    by (auto simp: Let_def settle_patch_def)
qed

text \<open>
  C7. A settlement without faults, from the price on, of a task whose hash and non-empty reserve booking are in Redis: it reports
  success exactly when a reserved row of the batch was there; those rows, and no others, become settled with the
  computed units, the prompt and completion tokens of the usage, the mark for exceeding the reserve and
  the time of the end; the hash is updated, every reserve mirror is lowered by what was booked, and the booking is gone.
\<close>

theorem settle_with_usage_effect:
  assumes "faults s = []" "redis_get (redis s) (BatchTaskKey (bt_BatchID task)) = Some (RHash h)"
    and "redis_get (redis s) (BatchReserveBatchKey (bt_BatchID task)) = Some (RHash vals)" "vals \<noteq> []"
    and "distinct (map fst vals)" "calc_units m task usage = (units, miss)"
    and "run_state (settle_with_usage m task usage) s = (r, s')"
  shows "r = Inr (\<exists>x\<in>set (rows (tasks s)). settleable (bt_BatchID task) (bt_ProductName task) x)
    \<and> rows (tasks s') = map (\<lambda>x. if settleable (bt_BatchID task) (bt_ProductName task) x
         then x\<lparr>bt_SettleStatus := SettleStatusSettled, bt_SettleUnits := units,
           bt_UsageInputTokens := us_inputTokens usage, bt_UsageOutputTokens := us_outputTokens usage,
           bt_UsageSource := UsageSourceReconcile,
           bt_OverReserved := (0 < sint (bt_ReserveUnits task) \<and> sint (bt_ReserveUnits task) < sint units),
           bt_UpdatedAt := clock s, bt_TerminalAt := Some (opt_or (bt_TerminalAt task) (clock s))\<rparr>
         else x) (rows (tasks s))
    \<and> redis_get (redis s') (BatchTaskKey (bt_BatchID task)) = Some (RHash (settled_hash h usage units))
    \<and> redis_get (redis s') (BatchReserveBatchKey (bt_BatchID task)) = None
    \<and> (\<forall>plan n. redis_get (redis s) (BatchReserveMirrorKey plan) = Some (RInt n) \<longrightarrow>
         redis_get (redis s') (BatchReserveMirrorKey plan) = Some (RInt (remaining n (booked vals plan))))"
proof -
  let ?patch = "settle_patch task usage units (clock s)"
  have fin: "sp_SettleStatus ?patch \<noteq> SettleStatusReserved" by (simp add: settle_patch_def)
  note run = run_settle_with_usage [OF assms(1-4,6)]
  have "rows (tasks s') = update_where (settleable (bt_BatchID task) (bt_ProductName task))
      (settle_row ?patch (clock s)) (rows (tasks s))"
    using run assms(7) by (auto simp: put_settle_eq exec_update_def)
  moreover have "(0 < length (filter P xs)) = (\<exists>x\<in>set xs. P x)" for P and xs :: "BatchTask list"
    by (auto simp: filter_empty_conv)
  ultimately show ?thesis
    using run assms(5,7) settle_count [OF fin]
    by (auto simp: release_get release_get_other update_where_def settle_row_settled)
qed

theorem settle_with_usage_effect_witness:
  "\<exists>s'. run_state (settle_with_usage ex_manager ex_done no_usage) ex_world = (Inr True, s') \<and>
     map bt_SettleStatus (rows (tasks s')) = [''reserved'', ''settled'']"
proof -
  obtain r s' where run: "run_state (settle_with_usage ex_manager ex_done no_usage) ex_world = (r, s')" by fastforce
  with settle_with_usage_effect [of ex_world ex_done "[(''status'', ''completed''), (''api_key_id'', ''ak'')]"
      "[(''plan'', ''3'')]" ex_manager no_usage 0 True r s']
  show ?thesis by (simp add: calc_units_def settleable_def)
qed

text \<open>
  The safety valve: when a result file has rows with a response but not one row with usage, the task is
  not settled, no table row changes, and the claim is given back for a later round.
\<close>

theorem suspicious_file_is_not_settled:
  assumes "faults s = []" "redis_get (redis s) (BatchSettledKey (bt_BatchID task)) = None"
    and "map_of (access_cache s) (bt_Provider task) = None"
    and "mg_providers m = Some q" "q (bt_Provider task) = Some prov"
    and acc: "provider_access (bt_Provider task) (bt_KeyName task) prov = Inr a" "pa_authHeader a \<noteq> []"
    and "bt_OutputFileID task \<noteq> []"
    and url: "url = pa_baseURL a @ pa_path a @ ''/files/'' @ bt_OutputFileID task @ ''/content''"
      "mg_validURL m url"
    and "mg_upstream m (http_log s) \<lparr>hr_Method = ''GET'', hr_URL = url,
       hr_Header = [(pa_authHeader a, pa_authValue a)]\<rparr> = Some (200, body)"
    and "us_parsedLines (parseJSONLUsage m body (mg_maxOutputLineBytes m) no_usage) = 0"
      "0 < us_noUsageLines (parseJSONLUsage m body (mg_maxOutputLineBytes m) no_usage)"
    and "run_state (settleOneTask m task) s = (r, s')"
  shows "r = Inr False \<and> tasks s' = tasks s \<and> redis_get (redis s') (BatchSettledKey (bt_BatchID task)) = None"
proof -
  let ?s1 = "s\<lparr>redis := alist_set (BatchSettledKey (bt_BatchID task)) (RInt 1) (redis s)\<rparr>"
  let ?s2 = "?s1\<lparr>access_cache := alist_set (bt_Provider task) a (access_cache s)\<rparr>"
  have hdr: "valid_header_name (pa_authHeader a)" using provider_access_header [OF acc(1)] acc(2) by auto
  have "run_state (downloadAndParseUsage m a url) ?s2 =
      (Inr (parseJSONLUsage m body (mg_maxOutputLineBytes m) no_usage, 200),
       ?s2\<lparr>http_log := http_log s @ [\<lparr>hr_Method = ''GET'', hr_URL = url,
         hr_Header = [(pa_authHeader a, pa_authValue a)]\<rparr>]\<rparr>)"
    using run_downloadAndParseUsage [of ?s2 m url a 200 body] assms hdr by simp
  moreover have "run_state (resolveProviderAccessCached m (bt_Provider task) (bt_KeyName task)) ?s1 = (Inr a, ?s2)"
    using run_resolveCached_fresh [of ?s1 "bt_Provider task" m q prov "bt_KeyName task" a] assms by simp
  ultimately show ?thesis
    using assms by (auto simp: settleOneTask_def run_claim settle_claimed_def run_or_unclaim run_releaseClaim)
qed

definition ex_silent :: Manager where
  "ex_silent = ex_manager\<lparr>mg_upstream := \<lambda>_ _. Some (200, ''n'')\<rparr>"

theorem suspicious_file_is_not_settled_witness:
  "fst (run_state (settleOneTask ex_silent ex_done) ex_world) = Inr False"
proof -
  let ?a = "\<lparr>pa_baseURL = ''http://10.0.0.1:80'', pa_path = ''/v1'', pa_authHeader = ''Authorization'',
     pa_authValue = ''Bearer secret''\<rparr>"
  have acc: "provider_access ''prov'' (bt_KeyName ex_done) ex_provider = Inr ?a" by code_simp
  have trim: "TrimSpace ''n'' = ''n''" by code_simp
  have "split_lines ''n'' = [''n'']" by (subst split_lines.simps) (simp add: newline_def)
  moreover have "mg_decodeRow ex_silent ''n'' =
      Some \<lparr>row_Response = Some \<lparr>rr_Model = [], rr_Usage = None, rr_Body = None\<rparr>\<rparr>"
    by (simp add: ex_silent_def ex_manager_def)
  ultimately have "parseJSONLUsage ex_silent ''n'' 100 no_usage = no_usage\<lparr>us_noUsageLines := 1\<rparr>"
    by (simp add: parseJSONLUsage_def parse_loop_lines fits_def handleUsageLine_def trim usageAndModel_def)
       (simp add: no_usage_def)
  then show ?thesis
    using suspicious_file_is_not_settled [OF _ _ _ _ _ _ _ _ refl, of ex_world ex_done ex_silent
      "\<lambda>n. if n = ''prov'' then Some ex_provider else if n = ''open'' then Some ex_keyless else None" ex_provider ?a "''n''"
      "fst (run_state (settleOneTask ex_silent ex_done) ex_world)"
      "snd (run_state (settleOneTask ex_silent ex_done) ex_world)"] acc
    by (simp add: ex_silent_def no_usage_def)
qed

text \<open>
  A completed task of a provider without keys is never settled by the job: the download sets
  a header with an empty name, which the HTTP client refuses, so nothing is sent, the table stays, and
  the claim is given back, in every round.
\<close>

theorem keyless_is_never_settled:
  assumes "faults s = []" "redis_get (redis s) (BatchSettledKey (bt_BatchID task)) = None"
    and "map_of (access_cache s) (bt_Provider task) = None"
    and "mg_providers m = Some q" "q (bt_Provider task) = Some prov" "pv_Keys prov = []"
    and acc: "provider_access (bt_Provider task) (bt_KeyName task) prov = Inr a"
    and "bt_OutputFileID task \<noteq> []" "\<And>url. mg_validURL m url"
    and "run_state (settleOneTask m task) s = (r, s')"
  shows "r = Inl (ErrMsg ''net/http: invalid header field name'') \<and> tasks s' = tasks s
    \<and> http_log s' = http_log s \<and> redis_get (redis s') (BatchSettledKey (bt_BatchID task)) = None"
proof -
  let ?s1 = "s\<lparr>redis := alist_set (BatchSettledKey (bt_BatchID task)) (RInt 1) (redis s)\<rparr>"
  have "pa_authHeader a = []"
    using acc assms(6) by (auto simp: provider_access_def Let_def split: option.splits)
  moreover have "run_state (resolveProviderAccessCached m (bt_Provider task) (bt_KeyName task)) ?s1 =
      (Inr a, ?s1\<lparr>access_cache := alist_set (bt_Provider task) a (access_cache s)\<rparr>)"
    using run_resolveCached_fresh [of ?s1 "bt_Provider task" m q prov "bt_KeyName task" a] assms by simp
  ultimately show ?thesis
    using assms
    by (auto simp: settleOneTask_def run_claim settle_claimed_def run_or_unclaim run_download_keyless run_Delete)
qed

theorem keyless_is_never_settled_witness:
  "\<exists>e. fst (run_state (settleOneTask ex_manager (ex_done\<lparr>bt_Provider := ''open''\<rparr>)) ex_world) = Inl e"
proof -
  let ?t = "ex_done\<lparr>bt_Provider := ''open''\<rparr>"
  have "provider_access ''open'' (bt_KeyName ?t) ex_keyless = Inr \<lparr>pa_baseURL = ''http://10.0.0.1:80'',
     pa_path = ''/v1'', pa_authHeader = [], pa_authValue = []\<rparr>" by code_simp
  then show ?thesis
    using keyless_is_never_settled [of ex_world ?t ex_manager
      "\<lambda>n. if n = ''prov'' then Some ex_provider else if n = ''open'' then Some ex_keyless else None" ex_keyless _
      "fst (run_state (settleOneTask ex_manager ?t) ex_world)"
      "snd (run_state (settleOneTask ex_manager ?t) ex_world)"]
    by (simp add: ex_keyless_def)
qed

section \<open>Synchronisation and reads\<close>

text \<open>
  Synchronising a key twice without faults is synchronising it once: the second run leaves the table as the first
  one left it.
\<close>

theorem sync_is_idempotent:
  assumes "faults s = []" "wf_tasks (tasks s)"
    and "redis_get (redis s) (BatchTaskKey b) = Some (RHash vals)"
    and "ParseRedisTaskView m b vals = Inr view" "owner m s (rv_apiKeyID view) = Some ak"
    and "s1 = snd (run_state (syncOneTask m b) s)"
  shows "tasks (snd (run_state (syncOneTask m b) s1)) = tasks s1
    \<and> (\<exists>row. lookup_task (tasks s1) b = Some row)"
proof -
  have s1: "s1 = (cached m (rv_apiKeyID view) s)\<lparr>tasks := sync_put m b view ak (clock s) (tasks s)\<rparr>"
    using run_syncOneTask [OF assms(1,3-5)] assms(6) by simp
  have o: "owner m s1 (rv_apiKeyID view) = Some ak"
    using owner_cached [of m "rv_apiKeyID view" s] assms(5) by (simp add: s1 owner_def)
  have "run_state (syncOneTask m b) s1 =
      (Inr (), (cached m (rv_apiKeyID view) s1)\<lparr>tasks := sync_put m b view ak (clock s1) (tasks s1)\<rparr>)"
    by (rule run_syncOneTask) (use assms(1,3,4) o in \<open>simp_all add: s1\<close>)
  moreover have "sync_put m b view ak (clock s) (sync_put m b view ak (clock s) (tasks s)) =
      sync_put m b view ak (clock s) (tasks s)"
    using ParseRedisTaskView_Inr [OF assms(4)] assms(2) by (intro sync_put_idem)
  moreover have "\<exists>row. lookup_task (sync_put m b view ak (clock s) (tasks s)) b = Some row"
    using task_table.lookup_put_same [OF assms(2)] merge_IdemKey [of view b]
      ParseRedisTaskView_Inr(1,2) [OF assms(4)] unfolding sync_put_def by metis
  ultimately show ?thesis by (simp add: s1)
qed

theorem sync_is_idempotent_witness:
  "let s1 = snd (run_state (syncOneTask ex_manager ''b1'') ex_world) in
   tasks (snd (run_state (syncOneTask ex_manager ''b1'') s1)) = tasks s1"
proof -
  obtain view where v: "ParseRedisTaskView ex_manager ''b1''
      [(''status'', ''queued''), (''api_key_id'', ''ak'')] = Inr view"
    by (simp add: ParseRedisTaskView_def field_def alist_get_def)
  show ?thesis
    using sync_is_idempotent [of ex_world "''b1''" "[(''status'', ''queued''), (''api_key_id'', ''ak'')]"
        ex_manager view, OF _ _ _ v _ refl] ex_wf
    by (simp add: Let_def owner_def)
qed

text \<open>
  A merge with a stored row keeps what the hash does not carry: numbers, creation time and settlement status
  of absent fields, non-empty owner columns against empty ones, and the whole identity; a terminal row also keeps status and terminal time.
\<close>

theorem merge_keeps_what_is_not_carried:
  assumes "merged = mergeTaskForSync (Some ex) incoming view now"
  shows "bt_ID merged = bt_ID ex \<and> bt_IdemKey merged = bt_IdemKey ex \<and> bt_BatchID merged = bt_BatchID ex
    \<and> (rv_usageIn view = None \<longrightarrow> bt_UsageInputTokens merged = bt_UsageInputTokens ex)
    \<and> (rv_usageOut view = None \<longrightarrow> bt_UsageOutputTokens merged = bt_UsageOutputTokens ex)
    \<and> (rv_settleUnits view = None \<longrightarrow> bt_SettleUnits merged = bt_SettleUnits ex)
    \<and> (rv_reserveUnits view = None \<longrightarrow> bt_ReserveUnits merged = bt_ReserveUnits ex)
    \<and> (rv_estLines view = None \<longrightarrow> bt_EstLines merged = bt_EstLines ex)
    \<and> (rv_settleStatus view = [] \<longrightarrow> bt_SettleStatus merged = bt_SettleStatus ex)
    \<and> (rv_createdAt view = None \<longrightarrow> bt_CreatedAt merged = bt_CreatedAt ex)
    \<and> (bt_ProductName ex \<noteq> [] \<longrightarrow> bt_ProductName merged \<noteq> [])
    \<and> (bt_OutputFileID ex \<noteq> [] \<longrightarrow> bt_OutputFileID merged \<noteq> [])
    \<and> (IsTerminalStatus (bt_Status ex) \<longrightarrow>
         bt_Status merged = bt_Status ex \<and> bt_TerminalAt merged = bt_TerminalAt ex)"
  unfolding assms by (simp add: merge_fields merge_rest merge_status merge_TerminalAt keep_if_empty_def)

theorem merge_keeps_what_is_not_carried_witness:
  "bt_Status (mergeTaskForSync (Some ex_done) ex_running
     (projr (ParseRedisTaskView ex_manager ''b2'' [(''status'', ''queued'')])) 9) = ''completed''"
  using merge_keeps_what_is_not_carried [OF refl, of ex_done ex_running
     "projr (ParseRedisTaskView ex_manager ''b2'' [(''status'', ''queued'')])" 9] by simp

text \<open>
  A row that is being cancelled and not yet terminal takes the status that Redis reports: a
  synchronisation undoes a cancelling, although an advance never does.
\<close>

theorem sync_overwrites_cancelling:
  assumes "bt_Status ex = TaskStatusCancelling" "rv_status view = st"
  shows "bt_Status (resync ex view ak now) = st"
  using assms by (simp add: resync_def merge_status)

theorem sync_overwrites_cancelling_witness:
  "\<exists>view. rv_status view = ''in_progress'' \<and>
     bt_Status (resync (ex_running\<lparr>bt_Status := ''cancelling''\<rparr>) view
       \<lparr>ak_ProductName = None, ak_EntityID = None\<rparr> 9) = ''in_progress''"
proof -
  obtain view where "ParseRedisTaskView ex_manager ''b1'' [(''status'', ''in_progress'')] = Inr view"
    by (simp add: ParseRedisTaskView_def field_def alist_get_def)
  then have "rv_status view = ''in_progress''"
    by (auto dest: ParseRedisTaskView_Inr(3) simp: field_def alist_get_def)
  then show ?thesis
    using sync_overwrites_cancelling [of "ex_running\<lparr>bt_Status := ''cancelling''\<rparr>" view "''in_progress''"] by auto
qed

text \<open>
  Reading a task never crosses products: what FetchTask returns, from the table or from Redis and whatever fails,
  has the batch id and the product that were asked for.
\<close>

theorem FetchTask_isolates_products:
  assumes "run_state (FetchTask m b p fb) s = (Inr (Some task), s')"
  shows "bt_BatchID task = b \<and> bt_ProductName task = p"
  using assms by (rule FetchTask_owner)

theorem FetchTask_isolates_products_witness:
  "run_state (FetchTask ex_manager ''b1'' ''p'' True) ex_world = (Inr (Some ex_running), ex_world)
   \<and> bt_ProductName ex_running = ''p''"
proof -
  have "run_state (FetchTask ex_manager ''b1'' ''p'' True) ex_world = (Inr (Some ex_running), ex_world)"
    by (rule run_FetchTask_db) simp_all
  from this FetchTask_isolates_products [OF this] show ?thesis by simp
qed

text \<open>
  Pages: the limit is between 1 and 200, a page and everything behind its cursor is everything behind the
  request, in the order of the ids and without a gap or a repetition, and a cursor of 0 says that there is no more.
\<close>

theorem ListTasks_pages:
  assumes "faults s = []" "wf_tasks (tasks s)" "flt_ProductName flt = Some p" "p \<noteq> []"
    and "run_state (ListTasks (Some flt)) s = (Inr res, s')"
  shows "length (lr_Tasks res) \<le> 200 \<and> s' = s
    \<and> lr_Tasks res @ (if lr_NextCursor res = 0 then []
        else all_tasks (flt\<lparr>flt_CursorID := Some (lr_NextCursor res)\<rparr>) (tasks s)) = all_tasks flt (tasks s)
    \<and> sorted_wrt (<) (map bt_ID (lr_Tasks res)) \<and> (\<forall>t\<in>set (lr_Tasks res). bt_ProductName t = p)"
proof -
  define n where "n = nat (if flt_Limit flt \<le> 0 then 50 else if flt_Limit flt > 200 then 200 else flt_Limit flt)"
  let ?a = "all_tasks flt (tasks s)"
  have n: "0 < n" "n \<le> 200" by (auto simp: n_def)
  have res: "lr_Tasks res = take n ?a" "s' = s"
    "lr_NextCursor res = (if n \<le> length ?a then bt_ID (last (take n ?a)) else 0)"
    using run_ListTasks [OF assms(1,3,4)] assms(5) by (auto simp: n_def)
  have ids: "0 < bt_ID t \<and> bt_ProductName t = p" if "t \<in> set ?a" for t
    using that assms(2,3)
    by (auto simp: all_tasks_def wf_tasks_def where_task_def batchTaskFilterToParam_def)
  have "lr_NextCursor res \<noteq> 0" if "n \<le> length ?a"
  proof -
    have "last (take n ?a) \<in> set ?a" using that n(1)
      by (metis in_set_takeD last_in_set length_0_conv length_take min.absorb2 not_less_zero)
    with ids res(3) that show ?thesis by fastforce
  qed
  then have "lr_Tasks res @ (if lr_NextCursor res = 0 then []
      else all_tasks (flt\<lparr>flt_CursorID := Some (lr_NextCursor res)\<rparr>) (tasks s)) = ?a"
    using page_split [OF assms(2) n(1), of flt] res by (auto split: if_splits)
  moreover have "sorted_wrt (<) (map bt_ID (take n ?a))"
    using all_tasks_strict [OF assms(2), of flt] by (simp add: sorted_wrt_take flip: take_map)
  ultimately show ?thesis using res n ids by (auto dest: in_set_takeD)
qed

theorem ListTasks_pages_witness:
  "map bt_ID (lr_Tasks (projr (fst (run_state (ListTasks (Some (no_filter\<lparr>flt_ProductName := Some ''p'',
     flt_Limit := 1\<rparr>))) ex_world)))) = [1]"
proof -
  let ?f = "no_filter\<lparr>flt_ProductName := Some ''p'', flt_Limit := 1\<rparr>"
  have a: "all_tasks ?f ex_table = [ex_running, ex_done]"
    by (simp add: all_tasks_def where_task_def batchTaskFilterToParam_def no_task_param_def no_filter_def)
  have "run_state (ListTasks (Some ?f)) ex_world =
      (Inr \<lparr>lr_Tasks = [ex_running], lr_NextCursor = 1\<rparr>, ex_world)"
    using run_ListTasks [of ex_world ?f "''p''"] a by simp
  then show ?thesis using ListTasks_pages [of ex_world ?f "''p''"] ex_wf by simp
qed

section \<open>Keys and limits\<close>

text \<open>
  The Redis keys: a task key and a file key whose partition has no colon are parsed back to what they were built from, every
  key that the parser accepts was built that way, and keys of different families never meet.
\<close>

theorem redis_keys_roundtrip:
  "ParseBatchTaskKey (BatchTaskKey b) = (b, b \<noteq> [])
   \<and> (ParseBatchTaskKey k = (b, True) \<longleftrightarrow> k = BatchTaskKey b \<and> b \<noteq> [])
   \<and> (ParseBatchFileKey k = (q, f, True) \<longleftrightarrow>
        k = BatchFileKey q f \<and> q \<noteq> [] \<and> f \<noteq> [] \<and> CHR '':'' \<notin> set q)
   \<and> distinct [BatchTaskKey a, BatchFileKey q f, BatchSettledKey c, BatchReserveBatchKey d, BatchReserveMirrorKey e]"
proof -
  have "ParseBatchFileKey k = (q, f, True) \<longleftrightarrow>
      k = BatchFileKey q f \<and> q \<noteq> [] \<and> f \<noteq> [] \<and> CHR '':'' \<notin> set q"
    using ParseBatchFileKey_True ParseBatchFileKey_BatchFileKey by metis
  moreover have "ParseBatchTaskKey k = (b, True) \<longleftrightarrow> k = BatchTaskKey b \<and> b \<noteq> []"
    using ParseBatchTaskKey_True ParseBatchTaskKey_BatchTaskKey by auto
  moreover have "BatchTaskKey a \<noteq> BatchFileKey q f" using key_families(13) by metis
  ultimately show ?thesis by simp
qed

text \<open>
  A manager built by NewManager has positive timeouts and limits, whatever options it is given.
\<close>

theorem NewManager_limits: "positive_limits (NewManager deps opts)"
  by (rule NewManager_positive)

end
