(* ===== verification/EppStore.thy ===== *)
theory EppStore
  imports GoLib SqlTable
begin

text \<open>
  The data and the storage of the EPP pool: instances and groups, assignments of clusters to
  groups, the rows of the tables \<^verbatim>\<open>epp_instances\<close>, \<^verbatim>\<open>epp_assignments\<close>, \<^verbatim>\<open>clusters\<close> and
  \<^verbatim>\<open>config_versions\<close>; the methods of \<^verbatim>\<open>EppPoolStorager\<close> (\<^verbatim>\<open>storage/rdb/epp_pool\<close>) as calls
  that may fault, and \<^verbatim>\<open>AtomExecute\<close>, which restores the tables when its body or its commit
  fails. The creation and update times are not modelled: no code of this component reads
  them. Text columns compare bytewise.
\<close>

section \<open>Data\<close>

record InstanceParam =
  ip_ID :: string
  ip_Host :: string
  ip_Port :: int
  ip_GroupName :: string

record InstanceFilter =
  if_ID :: "string option"
  if_GroupName :: "string option"

record InstanceGroup =
  ig_Name :: string
  ig_Instances :: "InstanceParam list"

record EppPool =
  ep_Name :: string
  ep_Groups :: "InstanceGroup list"

record AssignmentParam =
  ap_Cluster :: string
  ap_GroupName :: string

record EPPClusterInfo =
  ec_Name :: string
  ec_EppConfigJSON :: string

text \<open>The columns of \<^verbatim>\<open>icluster_conf.Cluster\<close> that this component reads.\<close>

record Cluster =
  cl_Name :: string
  cl_BalanceMode :: string
  cl_EppConfig :: string

record TConfigVersion =
  cv_ID :: int
  cv_Name :: string
  cv_DataSign :: string
  cv_Version :: string

definition no_filter :: InstanceFilter where
  "no_filter = \<lparr>if_ID = None, if_GroupName = None\<rparr>"

section \<open>Tables\<close>

record epp_db =
  instances :: "InstanceParam list"
  assignments :: "AssignmentParam list"
  clusters :: "Cluster list"
  config_versions :: "TConfigVersion table"

record epp_world = env +
  db :: epp_db
  db_isMySQL :: bool
  db_duplicateMsg :: string

text \<open>
  \<^verbatim>\<open>lib.DuplicateEntryError\<close> looks for three phrases in the text of the driver's error. The text is
  the driver's, so it is part of the state of the world (\<open>db_duplicateMsg\<close>).
\<close>

fun DuplicateEntryError :: "error \<Rightarrow> bool" where
  "DuplicateEntryError (ErrMsg msg) =
     (Contains msg ''Error 1062: Duplicate entry'' \<or> Contains msg ''UNIQUE constraint failed'' \<or>
      Contains msg ''duplicate key value violates unique constraint'')"
| "DuplicateEntryError _ = False"

definition where_instance :: "InstanceFilter \<Rightarrow> InstanceParam \<Rightarrow> bool" where
  "where_instance f r \<longleftrightarrow>
     (case if_ID f of None \<Rightarrow> True | Some i \<Rightarrow> ip_ID r = i) \<and>
     (case if_GroupName f of None \<Rightarrow> True | Some g \<Rightarrow> ip_GroupName r = g)"

text \<open>\<^verbatim>\<open>ORDER BY group_name, id\<close>: two stable sorts, the last key first.\<close>

definition TEppInstanceList :: "InstanceFilter \<Rightarrow> InstanceParam list \<Rightarrow> InstanceParam list" where
  "TEppInstanceList f rs = sort_key ip_GroupName (sort_key ip_ID (filter (where_instance f) rs))"

text \<open>
  One INSERT of several rows: it is refused as a whole when the primary key or the unique key
  \<open>(host, port)\<close> would repeat.
\<close>

definition instance_keys_ok :: "InstanceParam list \<Rightarrow> bool" where
  "instance_keys_ok rs \<longleftrightarrow>
     distinct (map ip_ID rs) \<and> distinct (map (\<lambda>r. (ip_Host r, ip_Port r)) rs)"

definition TEppInstanceCreate ::
  "string \<Rightarrow> InstanceParam list \<Rightarrow> InstanceParam list \<Rightarrow> (error + nat) \<times> InstanceParam list" where
  "TEppInstanceCreate dupMsg data rs =
     (if instance_keys_ok (rs @ data) then (Inr (length data), rs @ data)
      else (Inl (ErrMsg dupMsg), rs))"

definition TEppInstanceDelete ::
  "InstanceFilter \<Rightarrow> InstanceParam list \<Rightarrow> nat \<times> InstanceParam list" where
  "TEppInstanceDelete f rs =
     (length (filter (where_instance f) rs), filter (\<lambda>r. \<not> where_instance f r) rs)"

definition TEppAssignmentOne :: "string \<Rightarrow> AssignmentParam list \<Rightarrow> AssignmentParam option" where
  "TEppAssignmentOne c rs = List.find (\<lambda>r. ap_Cluster r = c) rs"

definition TEppAssignmentList :: "AssignmentParam list \<Rightarrow> AssignmentParam list" where
  "TEppAssignmentList rs = sort_key ap_Cluster rs"

definition TEppAssignmentCreate ::
  "string \<Rightarrow> AssignmentParam \<Rightarrow> AssignmentParam list \<Rightarrow> (error + nat) \<times> AssignmentParam list" where
  "TEppAssignmentCreate dupMsg d rs =
     (if \<exists>r\<in>set rs. ap_Cluster r = ap_Cluster d then (Inl (ErrMsg dupMsg), rs)
      else (Inr 1, rs @ [d]))"

definition TEppAssignmentUpdate ::
  "bool \<Rightarrow> string \<Rightarrow> string \<Rightarrow> AssignmentParam list \<Rightarrow> nat \<times> AssignmentParam list" where
  "TEppAssignmentUpdate isMySQL groupName cluster rs =
     (let p = (\<lambda>r. ap_Cluster r = cluster); f = (\<lambda>r. r\<lparr>ap_GroupName := groupName\<rparr>)
      in (affected_rows isMySQL p f rs, update_where p f rs))"

definition TEppAssignmentDelete :: "string \<Rightarrow> AssignmentParam list \<Rightarrow> nat \<times> AssignmentParam list" where
  "TEppAssignmentDelete c rs =
     (length (filter (\<lambda>r. ap_Cluster r = c) rs), filter (\<lambda>r. ap_Cluster r \<noteq> c) rs)"

section \<open>The storager\<close>

type_synonym 'a epp = "(epp_world, error + 'a) state"

definition set_instances :: "InstanceParam list \<Rightarrow> epp_world \<Rightarrow> epp_world" where
  "set_instances rs w = w\<lparr>db := (db w)\<lparr>instances := rs\<rparr>\<rparr>"

definition set_assignments :: "AssignmentParam list \<Rightarrow> epp_world \<Rightarrow> epp_world" where
  "set_assignments rs w = w\<lparr>db := (db w)\<lparr>assignments := rs\<rparr>\<rparr>"

definition set_versions :: "TConfigVersion table \<Rightarrow> epp_world \<Rightarrow> epp_world" where
  "set_versions t w = w\<lparr>db := (db w)\<lparr>config_versions := t\<rparr>\<rparr>"

definition FetchInstanceList :: "InstanceFilter \<Rightarrow> InstanceParam list epp" where
  "FetchInstanceList f = ext_call (\<lambda>w. (Inr (TEppInstanceList f (instances (db w))), w))"

definition CreateInstances :: "InstanceParam list \<Rightarrow> nat epp" where
  "CreateInstances params =
     (if params = [] then returnE 0
      else ext_call (\<lambda>w. let (r, rs) = TEppInstanceCreate (db_duplicateMsg w) params (instances (db w))
                         in (r, set_instances rs w)))"

definition DeleteInstances :: "InstanceFilter \<Rightarrow> nat epp" where
  "DeleteInstances f =
     ext_call (\<lambda>w. let (n, rs) = TEppInstanceDelete f (instances (db w))
                   in (Inr n, set_instances rs w))"

definition FetchAssignment :: "string \<Rightarrow> AssignmentParam option epp" where
  "FetchAssignment c = ext_call (\<lambda>w. (Inr (TEppAssignmentOne c (assignments (db w))), w))"

definition FetchAssignmentList :: "AssignmentParam list epp" where
  "FetchAssignmentList = ext_call (\<lambda>w. (Inr (TEppAssignmentList (assignments (db w))), w))"

definition call_TEppAssignmentUpdate :: "string \<Rightarrow> string \<Rightarrow> nat epp" where
  "call_TEppAssignmentUpdate groupName cluster =
     ext_call (\<lambda>w. let (n, rs) = TEppAssignmentUpdate (db_isMySQL w) groupName cluster (assignments (db w))
                   in (Inr n, set_assignments rs w))"

definition call_TEppAssignmentCreate :: "AssignmentParam \<Rightarrow> nat epp" where
  "call_TEppAssignmentCreate d =
     ext_call (\<lambda>w. let (r, rs) = TEppAssignmentCreate (db_duplicateMsg w) d (assignments (db w))
                   in (r, set_assignments rs w))"

text \<open>Update first, insert when no row was reported, update again when the insert is refused.\<close>

definition UpsertAssignment :: "AssignmentParam \<Rightarrow> unit epp" where
  "UpsertAssignment param =
     (if ap_Cluster param = [] then throwE (ErrParam ''epp assignment cluster is empty'')
      else bindE (call_TEppAssignmentUpdate (ap_GroupName param) (ap_Cluster param)) (\<lambda>affected.
        if affected > 0 then returnE ()
        else State_Monad.bind (call_TEppAssignmentCreate param) (\<lambda>r.
          case r of
            Inr _ \<Rightarrow> returnE ()
          | Inl err \<Rightarrow>
              State_Monad.bind (call_TEppAssignmentUpdate (ap_GroupName param) (ap_Cluster param)) (\<lambda>up.
                case up of Inr _ \<Rightarrow> returnE () | Inl _ \<Rightarrow> throwE err))))"

definition DeleteAssignment :: "string \<Rightarrow> unit epp" where
  "DeleteAssignment c =
     bindE (ext_call (\<lambda>w. let (n, rs) = TEppAssignmentDelete c (assignments (db w))
                          in (Inr n, set_assignments rs w)))
       (\<lambda>_. returnE ())"

section \<open>Transactions\<close>

definition AtomExecute :: "'a epp \<Rightarrow> 'a epp" where
  "AtomExecute body = RDBTxnExecute db (\<lambda>d w. w\<lparr>db := d\<rparr>) body"

interpretation epp_txn: txn_tables db "\<lambda>d w. w\<lparr>db := d\<rparr>"
  by unfold_locales simp_all

section \<open>What a fault-free call does\<close>

definition put_assignment :: "AssignmentParam \<Rightarrow> AssignmentParam list \<Rightarrow> AssignmentParam list" where
  "put_assignment p rs =
     (if ap_Cluster p = [] then rs
      else if \<exists>r\<in>set rs. ap_Cluster r = ap_Cluster p
      then update_where (\<lambda>r. ap_Cluster r = ap_Cluster p) (\<lambda>r. r\<lparr>ap_GroupName := ap_GroupName p\<rparr>) rs
      else rs @ [p])"

lemma set_simps [simp]:
  "faults (set_instances rs w) = faults w" "faults (set_assignments as w) = faults w"
  "faults (set_versions t w) = faults w"
  "instances (db (set_instances rs w)) = rs" "assignments (db (set_instances rs w)) = assignments (db w)"
  "instances (db (set_assignments as w)) = instances (db w)" "assignments (db (set_assignments as w)) = as"
  "clusters (db (set_instances rs w)) = clusters (db w)"
  "clusters (db (set_assignments as w)) = clusters (db w)"
  "config_versions (db (set_instances rs w)) = config_versions (db w)"
  "config_versions (db (set_assignments as w)) = config_versions (db w)"
  "config_versions (db (set_versions t w)) = t"
  "instances (db (set_versions t w)) = instances (db w)"
  "assignments (db (set_versions t w)) = assignments (db w)"
  "clusters (db (set_versions t w)) = clusters (db w)"
  "db_isMySQL (set_assignments as w) = db_isMySQL w" "db_isMySQL (set_instances rs w) = db_isMySQL w"
  "db_isMySQL (set_versions t w) = db_isMySQL w"
  "set_assignments as (set_assignments as' w) = set_assignments as w"
  "set_assignments (assignments (db w)) w = w"
  "set_instances rs (set_instances rs' w) = set_instances rs w"
  by (simp_all add: set_instances_def set_assignments_def set_versions_def)

lemma set_assignments_db [simp]:
  "(set_assignments as w)\<lparr>db := d\<rparr> = w\<lparr>db := d\<rparr>" "(set_instances rs w)\<lparr>db := d\<rparr> = w\<lparr>db := d\<rparr>"
  "(set_versions t w)\<lparr>db := d\<rparr> = w\<lparr>db := d\<rparr>"
  "w\<lparr>db := db (set_assignments as w)\<rparr> = set_assignments as w"
  "w\<lparr>db := db (set_instances rs w)\<rparr> = set_instances rs w"
  "w\<lparr>db := db (set_versions t w)\<rparr> = set_versions t w"
  "w\<lparr>db := db w\<rparr> = w"
  by (simp_all add: set_instances_def set_assignments_def set_versions_def)

lemma update_where_absent:
  "\<not> (\<exists>r\<in>set rs. p r) \<Longrightarrow> update_where p f rs = rs"
  by (induction rs) (auto simp: update_where_def)

lemma update_where_none_changed:
  "affected_rows True p f rs = 0 \<Longrightarrow> update_where p f rs = rs"
  by (induction rs) (auto simp: update_where_def affected_rows_def split: if_splits)

lemma affected_rows_zero:
  "affected_rows my p f rs = 0 \<Longrightarrow> (\<exists>r\<in>set rs. p r) \<Longrightarrow> my \<and> update_where p f rs = rs"
  by (cases my) (auto simp: affected_rows_def update_where_none_changed filter_empty_conv)

lemma update_where_twice:
  "(\<And>x. p (f x) = p x) \<Longrightarrow> (\<And>x. f (f x) = f x) \<Longrightarrow>
   update_where p f (update_where p f rs) = update_where p f rs"
  by (induction rs) (auto simp: update_where_def)

text \<open>
  The three statements of an upsert leave the same table in both dialects: a MySQL update that changes nothing
  reports no row, the insert is then refused and the second update keeps the row.
\<close>

lemma run_UpsertAssignment:
  assumes "faults w = []" and "ap_Cluster p \<noteq> []"
  shows "run_state (UpsertAssignment p) w =
    (Inr (), set_assignments (put_assignment p (assignments (db w))) w)"
proof -
  let ?as = "assignments (db w)" and ?my = "db_isMySQL w"
  let ?p = "\<lambda>r. ap_Cluster r = ap_Cluster p" and ?f = "\<lambda>r. r\<lparr>ap_GroupName := ap_GroupName p\<rparr>"
  have tw: "update_where ?p ?f (update_where ?p ?f ?as) = update_where ?p ?f ?as"
    by (rule update_where_twice) auto
  show ?thesis
  proof (cases "\<exists>r\<in>set ?as. ?p r")
    case True
    then have "\<exists>r\<in>set (update_where ?p ?f ?as). ?p r"
      by (auto simp: update_where_def image_iff Bex_def)
    with True assms tw show ?thesis
      by (auto simp: UpsertAssignment_def call_TEppAssignmentUpdate_def call_TEppAssignmentCreate_def
          TEppAssignmentUpdate_def TEppAssignmentCreate_def put_assignment_def Let_def)
  next
    case False
    then have "affected_rows ?my ?p ?f ?as = 0" "update_where ?p ?f ?as = ?as"
      by (auto simp: affected_rows_def filter_empty_conv update_where_absent)
    with False assms show ?thesis
      by (auto simp: UpsertAssignment_def call_TEppAssignmentUpdate_def call_TEppAssignmentCreate_def
          TEppAssignmentUpdate_def TEppAssignmentCreate_def put_assignment_def Let_def)
  qed
qed

lemma run_AtomExecute_ok:
  assumes "faults w = []" and "run_state body w = (Inr x, w')" and "faults w' = []"
  shows "run_state (AtomExecute body) w = (Inr x, w')"
  unfolding AtomExecute_def by (rule epp_txn.txn_ok [OF assms])

lemma run_AtomExecute_err:
  assumes "faults w = []" and "run_state body w = (Inl e, w')"
  shows "run_state (AtomExecute body) w = (Inl e, w'\<lparr>db := db w\<rparr>)"
  unfolding AtomExecute_def by (rule epp_txn.txn_err [OF assms])

lemma run_AtomExecute_Upsert [simp]:
  assumes "faults w = []" and "ap_Cluster p \<noteq> []"
  shows "run_state (AtomExecute (UpsertAssignment p)) w =
    (Inr (), set_assignments (put_assignment p (assignments (db w))) w)"
  using assms by (intro run_AtomExecute_ok run_UpsertAssignment) auto

definition del_assignment :: "string \<Rightarrow> AssignmentParam list \<Rightarrow> AssignmentParam list" where
  "del_assignment c rs = filter (\<lambda>r. ap_Cluster r \<noteq> c) rs"

lemma run_DeleteAssignment [simp]:
  "faults w = [] \<Longrightarrow> run_state (DeleteAssignment c) w =
     (Inr (), set_assignments (del_assignment c (assignments (db w))) w)"
  by (simp add: DeleteAssignment_def TEppAssignmentDelete_def del_assignment_def)

lemma run_AtomExecute_Delete [simp]:
  "faults w = [] \<Longrightarrow> run_state (AtomExecute (DeleteAssignment c)) w =
     (Inr (), set_assignments (del_assignment c (assignments (db w))) w)"
  by (rule run_AtomExecute_ok) auto

lemma run_Fetch [simp]:
  "faults w = [] \<Longrightarrow> run_state (FetchInstanceList f) w = (Inr (TEppInstanceList f (instances (db w))), w)"
  "faults w = [] \<Longrightarrow> run_state FetchAssignmentList w = (Inr (TEppAssignmentList (assignments (db w))), w)"
  "faults w = [] \<Longrightarrow> run_state (FetchAssignment c) w = (Inr (TEppAssignmentOne c (assignments (db w))), w)"
  by (simp_all add: FetchInstanceList_def FetchAssignmentList_def FetchAssignment_def)

section \<open>The assignments as a keyed table\<close>

definition wf_assignments :: "AssignmentParam list \<Rightarrow> bool" where
  "wf_assignments rs \<longleftrightarrow> distinct (map ap_Cluster rs) \<and> (\<forall>r\<in>set rs. ap_Cluster r \<noteq> [])"

definition lookup_assignment :: "AssignmentParam list \<Rightarrow> string \<Rightarrow> AssignmentParam option" where
  "lookup_assignment rs c = TEppAssignmentOne c rs"

lemma wf_put_assignment: "wf_assignments rs \<Longrightarrow> wf_assignments (put_assignment p rs)"
  by (auto simp: wf_assignments_def put_assignment_def map_update_where in_update_where split: if_splits)

interpretation assignment_table:
  keyed_table wf_assignments lookup_assignment put_assignment ap_Cluster "\<lambda>_ r. r" "\<lambda>r. ap_Cluster r \<noteq> []"
proof
  fix t :: "AssignmentParam list" and r :: AssignmentParam and k :: string
  show "wf_assignments (put_assignment r t)" if "wf_assignments t" by (rule wf_put_assignment [OF that])
  show "put_assignment r t = t" if "\<not> ap_Cluster r \<noteq> []" using that by (simp add: put_assignment_def)
  show "lookup_assignment (put_assignment r t) (ap_Cluster r) = Some r" if "ap_Cluster r \<noteq> []"
    using that
    by (induction t)
       (auto simp: lookup_assignment_def TEppAssignmentOne_def put_assignment_def update_where_def
         split: if_splits)
  show "lookup_assignment (put_assignment r t) k = lookup_assignment t k" if "k \<noteq> ap_Cluster r"
    using that
    by (auto simp: lookup_assignment_def TEppAssignmentOne_def put_assignment_def find_append_snoc
        find_update_where_disjoint split: option.splits)
qed

lemma wf_del_assignment: "wf_assignments rs \<Longrightarrow> wf_assignments (del_assignment c rs)"
  by (auto simp: wf_assignments_def del_assignment_def distinct_map_filter)

lemma lookup_del_assignment:
  "lookup_assignment (del_assignment c rs) k = (if k = c then None else lookup_assignment rs k)"
  by (induction rs) (auto simp: lookup_assignment_def TEppAssignmentOne_def del_assignment_def)

lemma lookup_assignment_in:
  "wf_assignments rs \<Longrightarrow> lookup_assignment rs c = Some r \<longleftrightarrow> r \<in> set rs \<and> ap_Cluster r = c"
  unfolding lookup_assignment_def TEppAssignmentOne_def wf_assignments_def
  by (metis (mono_tags, lifting) find_Some_in distinct_map_eq find_None_iff not_None_eq)

section \<open>What a call keeps under every fault\<close>

text \<open>
  Invariants of this component speak about the tables; \<open>tables P\<close> is such an invariant as a
  predicate of the world.
\<close>

definition tables :: "(epp_db \<Rightarrow> bool) \<Rightarrow> epp_world \<Rightarrow> bool" where
  "tables P w \<longleftrightarrow> P (db w)"

lemma fault_free_tables [simp]: "fault_free (tables P)"
  by (simp add: fault_free_def tables_def)

lemma keeps_tables_call:
  "(\<And>w. P (db w) \<Longrightarrow> P (db (snd (f w)))) \<Longrightarrow> keeps (tables P) (ext_call f)"
  by (rule keeps_ext_call) (simp_all add: tables_def)

lemma keeps_tablesD: "keeps (tables P) m \<Longrightarrow> P (db w) \<Longrightarrow> P (db (snd (run_state m w)))"
  using keepsD [of "tables P" m w] by (simp add: tables_def)

lemma keeps_table_reads [keeps_rules]:
  "keeps (tables P) (FetchInstanceList f)" "keeps (tables P) FetchAssignmentList"
  "keeps (tables P) (FetchAssignment c)"
  by (simp_all add: FetchInstanceList_def FetchAssignmentList_def FetchAssignment_def keeps_tables_call)

lemma db_set_assignments [simp]: "db (set_assignments rs w) = (db w)\<lparr>assignments := rs\<rparr>"
  by (simp add: set_assignments_def)

lemma db_set_instances [simp]: "db (set_instances rs w) = (db w)\<lparr>instances := rs\<rparr>"
  by (simp add: set_instances_def)

lemma db_set_versions [simp]: "db (set_versions t w) = (db w)\<lparr>config_versions := t\<rparr>"
  by (simp add: set_versions_def)

text \<open>Each statement of an upsert leaves the table as it is or as the whole upsert leaves it.\<close>

lemma upsert_statements:
  assumes "ap_Cluster p \<noteq> []"
  shows "snd (TEppAssignmentUpdate my (ap_GroupName p) (ap_Cluster p) rs) \<in> {rs, put_assignment p rs}"
    and "snd (TEppAssignmentCreate msg p rs) \<in> {rs, put_assignment p rs}"
  using assms update_where_absent [of rs "\<lambda>r. ap_Cluster r = ap_Cluster p"]
  by (auto simp: TEppAssignmentUpdate_def TEppAssignmentCreate_def put_assignment_def Let_def)

lemma keeps_UpsertAssignment:
  assumes "\<And>d. P d \<Longrightarrow> P (d\<lparr>assignments := put_assignment p (assignments d)\<rparr>)"
  shows "keeps (tables P) (UpsertAssignment p)"
proof (cases "ap_Cluster p = []")
  case True
  then show ?thesis by (simp add: UpsertAssignment_def keeps_throwE)
next
  case False
  have step: "P (d\<lparr>assignments := rs\<rparr>)" if "P d" "rs \<in> {assignments d, put_assignment p (assignments d)}"
    for d rs using that assms by auto
  have u: "keeps (tables P) (call_TEppAssignmentUpdate (ap_GroupName p) (ap_Cluster p))"
    unfolding call_TEppAssignmentUpdate_def
    by (rule keeps_tables_call)
       (use step upsert_statements(1) [OF False] in \<open>auto simp: Let_def split_beta\<close>)
  have c: "keeps (tables P) (call_TEppAssignmentCreate p)"
    unfolding call_TEppAssignmentCreate_def
    by (rule keeps_tables_call)
       (use step upsert_statements(2) [OF False] in \<open>auto simp: Let_def split_beta\<close>)
  show ?thesis unfolding UpsertAssignment_def
    by (intro keeps_rules u c)
qed

lemma keeps_DeleteAssignment:
  assumes "\<And>d. P d \<Longrightarrow> P (d\<lparr>assignments := del_assignment c (assignments d)\<rparr>)"
  shows "keeps (tables P) (DeleteAssignment c)"
  unfolding DeleteAssignment_def
  by (intro keeps_rules keeps_tables_call)
     (use assms in \<open>auto simp: TEppAssignmentDelete_def del_assignment_def\<close>)

text \<open>
  A transaction keeps an invariant that its body keeps, and leaves either the tables it found
  or those a successful body left.
\<close>

lemma AtomExecute_tables:
  "db (snd (run_state (AtomExecute body) w)) = db w \<or>
   (\<exists>w' x w''. db w' = db w \<and> run_state body w' = (Inr x, w'') \<and> db (snd (run_state (AtomExecute body) w)) = db w'')"
  unfolding AtomExecute_def by (rule epp_txn.txn_tables)

lemma keeps_AtomExecute [keeps_rules]:
  assumes "keeps (tables P) body"
  shows "keeps (tables P) (AtomExecute body)"
  using epp_txn.keeps_txn [of P body] assms by (simp add: tables_def [abs_def] AtomExecute_def)

text \<open>Without faults there are none later.\<close>

definition quiet :: "epp_world \<Rightarrow> bool" where
  "quiet w \<longleftrightarrow> faults w = []"

lemma keeps_quiet_call: "(\<And>w. faults (snd (f w)) = faults w) \<Longrightarrow> keeps quiet (ext_call f)"
  by (auto simp: keeps_def hoare_def quiet_def)

lemma keeps_quiet_AtomExecute:
  assumes "keeps quiet body"
  shows "keeps quiet (AtomExecute body)"
  using epp_txn.txn_quiet [of body] assms by (simp add: quiet_def [abs_def] AtomExecute_def)

end
