(* ===== verification/EppConfig.thy ===== *)
theory EppConfig
  imports GoLib
begin

text \<open>
  The per-cluster EPP configuration (\<^verbatim>\<open>model/epp_pool/epp_config.go\<close>): the simplified shape with
  its optional fields, the field rules of \<^verbatim>\<open>Validate\<close>, the defaults, and the checks of host names,
  ports and header names with the parts of \<^verbatim>\<open>net\<close>, \<^verbatim>\<open>strings\<close> and \<^verbatim>\<open>regexp\<close> they use. A nil pointer is
  \<open>None\<close>. A JSON number that Go keeps as a float64 is its rational value; the decoder of
  \<^verbatim>\<open>encoding/json\<close> is a parameter of \<open>ParseEppConfig\<close>.
\<close>

section \<open>The simplified configuration\<close>

record FlowControlSimplified =
  fc_MaxRequests :: "int option"
  fc_QueueTTL :: "int option"
  fc_NoEndpointQueueTTL :: "int option"
  fc_EnableEviction :: "bool option"

record EppConfigSimplified =
  es_LoadProfile :: "string option"
  es_Affinity :: "string option"
  es_PrefixCacheAffinity :: "bool option"
  es_SessionAffinityEnabled :: "bool option"
  es_SessionAffinityHeader :: "string option"
  es_KVCacheUtilizationMax :: "rat option"
  es_WaitingQueueMax :: "rat option"
  es_RunningRequestsMax :: "rat option"
  es_FallbackOnEmpty :: "bool option"
  es_MetricsStalenessThresholdMs :: "int option"
  es_FlowControl :: "FlowControlSimplified option"

definition LoadProfileQueueFirst :: string where "LoadProfileQueueFirst = ''queue-first''"
definition LoadProfileBalanced :: string where "LoadProfileBalanced = ''balanced''"
definition LoadProfileKVFirst :: string where "LoadProfileKVFirst = ''kv-first''"
definition AffinityOff :: string where "AffinityOff = ''off''"
definition AffinityLow :: string where "AffinityLow = ''low''"
definition AffinityMedium :: string where "AffinityMedium = ''medium''"
definition AffinityHigh :: string where "AffinityHigh = ''high''"
definition FlowControlUnlimited :: int where "FlowControlUnlimited = - 1"

text \<open>\<^verbatim>\<open>ParseEppConfig\<close>: blank text is no configuration; the decoder is strict.\<close>

definition ParseEppConfig ::
  "(string \<Rightarrow> string + EppConfigSimplified) \<Rightarrow> string \<Rightarrow> error + EppConfigSimplified option" where
  "ParseEppConfig decode raw =
     (if TrimSpace raw = [] then Inr None
      else case decode raw of
             Inl msg \<Rightarrow> Inl (ErrParam (''epp_config is invalid: '' @ msg))
           | Inr conf \<Rightarrow> Inr (Some conf))"

definition IsEmpty :: "EppConfigSimplified option \<Rightarrow> bool" where
  "IsEmpty c = (case c of None \<Rightarrow> True | Some c \<Rightarrow>
     es_LoadProfile c = None \<and> es_Affinity c = None \<and> es_PrefixCacheAffinity c = None \<and>
     es_SessionAffinityEnabled c = None \<and> es_SessionAffinityHeader c = None \<and>
     es_KVCacheUtilizationMax c = None \<and> es_WaitingQueueMax c = None \<and>
     es_RunningRequestsMax c = None \<and> es_FallbackOnEmpty c = None \<and>
     es_MetricsStalenessThresholdMs c = None \<and> es_FlowControl c = None)"

section \<open>Hosts, ports and header names\<close>

definition is_digit :: "char \<Rightarrow> bool" where
  "is_digit c \<longleftrightarrow> digit_val c \<noteq> None"

definition is_alnum :: "char \<Rightarrow> bool" where
  "is_alnum c \<longleftrightarrow> (let n = (of_char c :: nat) in
     48 \<le> n \<and> n \<le> 57 \<or> 65 \<le> n \<and> n \<le> 90 \<or> 97 \<le> n \<and> n \<le> 122)"

definition is_hex :: "char \<Rightarrow> bool" where
  "is_hex c \<longleftrightarrow> (let n = (of_char c :: nat) in
     48 \<le> n \<and> n \<le> 57 \<or> 65 \<le> n \<and> n \<le> 70 \<or> 97 \<le> n \<and> n \<le> 102)"

text \<open>
  \<^verbatim>\<open>netip\<close>'s dotted quad: four decimal octets up to 255, none empty, none with a leading zero.
\<close>

definition ipv4_octet :: "string \<Rightarrow> bool" where
  "ipv4_octet s \<longleftrightarrow> s \<noteq> [] \<and> (length s = 1 \<or> hd s \<noteq> CHR ''0'') \<and>
     (case parse_digits 0 s of None \<Rightarrow> False | Some n \<Rightarrow> n \<le> 255)"

definition parseIPv4 :: "string \<Rightarrow> bool" where
  "parseIPv4 s \<longleftrightarrow> length (Split s CHR ''.'') = 4 \<and> list_all ipv4_octet (Split s CHR ''.'')"

text \<open>
  The loop of \<^verbatim>\<open>netip\<close>'s IPv6 parser on the text after a leading ellipsis: \<open>n\<close> is the number of 16-bit
  groups that still fit, \<open>e\<close> whether an ellipsis was seen. The result tells whether the text is accepted.
\<close>

fun ipv6_groups :: "nat \<Rightarrow> bool \<Rightarrow> string \<Rightarrow> bool" where
  "ipv6_groups 0 e s = (s = [] \<and> \<not> e)"
| "ipv6_groups (Suc n) e s =
     (let h = takeWhile is_hex s; r = dropWhile is_hex s in
      if h = [] \<or> length h > 4 then False
      else case r of
        [] \<Rightarrow> (if n = 0 then \<not> e else e)
      | c # t \<Rightarrow>
          if c = CHR ''.'' then
            (if \<not> e \<and> n \<noteq> 1 then False else if n = 0 then False
             else parseIPv4 s \<and> (if n = 1 then \<not> e else e))
          else if c \<noteq> CHR '':'' then False
          else (case t of
                  [] \<Rightarrow> False
                | d # u \<Rightarrow>
                    if d = CHR '':'' then
                      (if e then False else if u = [] then n \<noteq> 0 else ipv6_groups n True u)
                    else ipv6_groups n e t))"

definition parseIPv6 :: "string \<Rightarrow> bool" where
  "parseIPv6 s = (if HasPrefix s ''::'' then (drop 2 s = [] \<or> ipv6_groups 8 True (drop 2 s))
                  else ipv6_groups 8 False s)"

text \<open>\<^verbatim>\<open>net.ParseIP(s) != nil\<close>: the first dot or colon decides the family; a zone is refused.\<close>

definition ParseIP :: "string \<Rightarrow> bool" where
  "ParseIP s = (case List.find (\<lambda>c. c = CHR ''.'' \<or> c = CHR '':'' \<or> c = CHR ''%'') s of
       None \<Rightarrow> False
     | Some c \<Rightarrow> if c = CHR ''.'' then parseIPv4 s
                 else if c = CHR '':'' then CHR ''%'' \<notin> set s \<and> parseIPv6 s
                 else False)"

text \<open>The expression \<^verbatim>\<open>^[a-zA-Z0-9]([a-zA-Z0-9-]{0,61}[a-zA-Z0-9])?$\<close>.\<close>

definition hostnameLabel :: "string \<Rightarrow> bool" where
  "hostnameLabel s \<longleftrightarrow> s \<noteq> [] \<and> length s \<le> 63 \<and> is_alnum (hd s) \<and> is_alnum (last s) \<and>
     list_all (\<lambda>c. is_alnum c \<or> c = CHR ''-'') s"

definition httpHeaderNameToken :: "string \<Rightarrow> bool" where
  "httpHeaderNameToken s \<longleftrightarrow> s \<noteq> [] \<and>
     list_all (\<lambda>c. is_alnum c \<or> c \<in> set ''!#$%&*+-.^_|~'' \<or> c = CHR 0x27 \<or> c = CHR 0x60) s"

definition validateHost :: "string \<Rightarrow> error + unit" where
  "validateHost host =
     (if host = [] then Inl (ErrParam ''host is required'')
      else if length host > 255 then Inl (ErrParam ''host length must be <= 255'')
      else if ParseIP host then Inr ()
      else if list_all hostnameLabel (Split host CHR ''.'') then Inr ()
      else Inl (ErrParam ''host contains invalid label''))"

definition validatePort :: "int \<Rightarrow> error + unit" where
  "validatePort port =
     (if port < 1 \<or> port > 65535 then Inl (ErrParam ''port must be between 1 and 65535'')
      else Inr ())"

definition validateHeaderName :: "string \<Rightarrow> error + unit" where
  "validateHeaderName name =
     (if TrimSpace name = [] then Inl (ErrParam ''header name is required'')
      else if \<not> httpHeaderNameToken name then Inl (ErrParam ''invalid HTTP header name'')
      else Inr ())"

section \<open>Validation\<close>

definition FlowControl_Validate :: "FlowControlSimplified \<Rightarrow> error + unit" where
  "FlowControl_Validate f =
     (if (case fc_MaxRequests f of None \<Rightarrow> False | Some n \<Rightarrow> n \<noteq> FlowControlUnlimited \<and> n \<le> 0)
      then Inl (ErrParam ''epp_config.flow_control.max_requests must be > 0 or -1'')
      else if (case fc_QueueTTL f of None \<Rightarrow> False | Some n \<Rightarrow> n < 0)
      then Inl (ErrParam ''epp_config.flow_control.queue_ttl must be >= 0'')
      else if (case fc_NoEndpointQueueTTL f of None \<Rightarrow> False | Some n \<Rightarrow> n < 0)
      then Inl (ErrParam ''epp_config.flow_control.no_endpoint_queue_ttl must be >= 0'')
      else if fc_EnableEviction f = Some True
      then Inl (ErrParam ''epp_config.flow_control.enable_eviction is not supported, keep false'')
      else Inr ())"

definition Validate :: "EppConfigSimplified \<Rightarrow> error + unit" where
  "Validate c =
     (if (case es_LoadProfile c of None \<Rightarrow> False
          | Some p \<Rightarrow> p \<notin> {LoadProfileQueueFirst, LoadProfileBalanced, LoadProfileKVFirst})
      then Inl (ErrParam ''epp_config.load_profile'')
      else if (case es_Affinity c of None \<Rightarrow> False
               | Some a \<Rightarrow> a \<notin> {AffinityOff, AffinityLow, AffinityMedium, AffinityHigh})
      then Inl (ErrParam ''epp_config.affinity'')
      else if (case es_KVCacheUtilizationMax c of None \<Rightarrow> False | Some x \<Rightarrow> x \<le> 0 \<or> x > 1)
      then Inl (ErrParam ''epp_config.kv_cache_utilization_max must be in (0, 1]'')
      else if (case es_WaitingQueueMax c of None \<Rightarrow> False | Some x \<Rightarrow> x < 0)
      then Inl (ErrParam ''epp_config.waiting_queue_max must be >= 0'')
      else if (case es_RunningRequestsMax c of None \<Rightarrow> False | Some x \<Rightarrow> x < 0)
      then Inl (ErrParam ''epp_config.running_requests_max must be >= 0'')
      else if (case es_MetricsStalenessThresholdMs c of None \<Rightarrow> False | Some n \<Rightarrow> n \<le> 0)
      then Inl (ErrParam ''epp_config.metrics_staleness_threshold_ms must be > 0'')
      else if es_SessionAffinityEnabled c = Some True \<and>
              (case es_SessionAffinityHeader c of None \<Rightarrow> True | Some h \<Rightarrow> TrimSpace h = [])
      then Inl (ErrParam ''epp_config.session_affinity_header is required'')
      else case (case es_SessionAffinityHeader c of None \<Rightarrow> Inr () | Some h \<Rightarrow> validateHeaderName h) of
             Inl e \<Rightarrow> Inl (ErrParam ''epp_config.session_affinity_header'')
           | Inr _ \<Rightarrow>
               (case es_FlowControl c of None \<Rightarrow> Inr () | Some f \<Rightarrow> FlowControl_Validate f))"

section \<open>Defaults\<close>

definition EffectiveLoadProfile :: "EppConfigSimplified \<Rightarrow> string" where
  "EffectiveLoadProfile c = (case es_LoadProfile c of None \<Rightarrow> LoadProfileBalanced | Some x \<Rightarrow> x)"

definition EffectiveAffinity :: "EppConfigSimplified \<Rightarrow> string" where
  "EffectiveAffinity c = (case es_Affinity c of None \<Rightarrow> AffinityMedium | Some x \<Rightarrow> x)"

definition EffectivePrefixCacheAffinity :: "EppConfigSimplified \<Rightarrow> bool" where
  "EffectivePrefixCacheAffinity c = (case es_PrefixCacheAffinity c of None \<Rightarrow> True | Some x \<Rightarrow> x)"

definition EffectiveKVCacheUtilizationMax :: "EppConfigSimplified \<Rightarrow> rat" where
  "EffectiveKVCacheUtilizationMax c =
     (case es_KVCacheUtilizationMax c of None \<Rightarrow> 9 / 10 | Some x \<Rightarrow> x)"

definition EffectiveWaitingQueueMax :: "EppConfigSimplified \<Rightarrow> rat" where
  "EffectiveWaitingQueueMax c = (case es_WaitingQueueMax c of None \<Rightarrow> 0 | Some x \<Rightarrow> x)"

definition EffectiveRunningRequestsMax :: "EppConfigSimplified \<Rightarrow> rat" where
  "EffectiveRunningRequestsMax c = (case es_RunningRequestsMax c of None \<Rightarrow> 0 | Some x \<Rightarrow> x)"

definition EffectiveFallbackOnEmpty :: "EppConfigSimplified \<Rightarrow> bool" where
  "EffectiveFallbackOnEmpty c = (case es_FallbackOnEmpty c of None \<Rightarrow> False | Some x \<Rightarrow> x)"

definition EffectiveMetricsStalenessThresholdMs :: "EppConfigSimplified \<Rightarrow> int" where
  "EffectiveMetricsStalenessThresholdMs c =
     (case es_MetricsStalenessThresholdMs c of None \<Rightarrow> 200 | Some x \<Rightarrow> x)"

definition EffectiveSessionAffinityEnabled :: "EppConfigSimplified \<Rightarrow> bool" where
  "EffectiveSessionAffinityEnabled c =
     (case es_SessionAffinityEnabled c of None \<Rightarrow> False | Some x \<Rightarrow> x)"


section \<open>What a validated value satisfies\<close>

lemma hd_Split: "s \<noteq> [] \<Longrightarrow> hd s \<noteq> c \<Longrightarrow> \<exists>t. hd (Split s c) = hd s # t"
  by (cases s) (auto split: list.splits)

lemma list_all_hd: "list_all P xs \<Longrightarrow> xs \<noteq> [] \<Longrightarrow> P (hd xs)"
  by (cases xs) auto

lemma parseIPv4_hd: "parseIPv4 s \<Longrightarrow> hd s \<noteq> CHR ''[''"
proof
  assume p: "parseIPv4 s" and h: "hd s = CHR ''[''"
  have "s \<noteq> []" using p by (auto simp: parseIPv4_def)
  with h obtain t where "hd (Split s CHR ''.'') = CHR ''['' # t" using hd_Split [of s] by force
  moreover have "ipv4_octet (hd (Split s CHR ''.''))"
    using p by (auto simp: parseIPv4_def intro: list_all_hd)
  ultimately show False by (simp add: ipv4_octet_def)
qed

lemma ipv6_groups_hd: "ipv6_groups (Suc n) e s \<Longrightarrow> hd s \<noteq> CHR ''[''"
  by (cases s) (auto simp: Let_def is_hex_def split: if_splits)

lemma parseIPv6_hd: "parseIPv6 s \<Longrightarrow> hd s \<noteq> CHR ''[''"
proof (cases "HasPrefix s ''::''")
  case True
  then show ?thesis by (auto simp: HasPrefix_iff)
next
  case False
  moreover assume "parseIPv6 s"
  ultimately have "ipv6_groups (Suc 7) False s" by (simp add: parseIPv6_def numeral_eq_Suc)
  then show ?thesis by (rule ipv6_groups_hd)
qed

lemma hostname_hd: "list_all hostnameLabel (Split s CHR ''.'') \<Longrightarrow> s \<noteq> [] \<Longrightarrow> hd s \<noteq> CHR ''[''"
proof
  assume p: "list_all hostnameLabel (Split s CHR ''.'')" and "s \<noteq> []" and h: "hd s = CHR ''[''"
  then obtain t where "hd (Split s CHR ''.'') = CHR ''['' # t" using hd_Split [of s] by force
  moreover have "hostnameLabel (hd (Split s CHR ''.''))" using p by (auto intro: list_all_hd)
  ultimately show False by (simp add: hostnameLabel_def is_alnum_def)
qed

lemma validateHost_hd: "validateHost h = Inr () \<Longrightarrow> h \<noteq> [] \<and> hd h \<noteq> CHR ''[''"
  using parseIPv4_hd parseIPv6_hd hostname_hd
  by (auto simp: validateHost_def ParseIP_def split: if_splits option.splits)

lemma validateHost_length: "validateHost h = Inr () \<Longrightarrow> length h \<le> 255"
  by (simp add: validateHost_def split: if_splits)

lemma validatePort_iff: "validatePort p = Inr () \<longleftrightarrow> 1 \<le> p \<and> p \<le> 65535"
  by (auto simp: validatePort_def)

text \<open>Distinct validated endpoints have distinct addresses.\<close>

lemma validated_address_inj:
  assumes "validateHost h = Inr ()" and "validateHost h' = Inr ()"
    and "JoinHostPort h p = JoinHostPort h' p'"
  shows "h = h' \<and> p = p'"
  using JoinHostPort_inj [OF assms(3)] validateHost_hd assms(1,2) by blast

text \<open>The field rules, in one place.\<close>

definition flow_control_ok :: "FlowControlSimplified \<Rightarrow> bool" where
  "flow_control_ok f \<longleftrightarrow>
     (\<forall>n. fc_MaxRequests f = Some n \<longrightarrow> n = - 1 \<or> 0 < n) \<and>
     (\<forall>n. fc_QueueTTL f = Some n \<longrightarrow> 0 \<le> n) \<and> (\<forall>n. fc_NoEndpointQueueTTL f = Some n \<longrightarrow> 0 \<le> n) \<and>
     fc_EnableEviction f \<noteq> Some True"

definition config_ok :: "EppConfigSimplified \<Rightarrow> bool" where
  "config_ok c \<longleftrightarrow>
     EffectiveLoadProfile c \<in> {''queue-first'', ''balanced'', ''kv-first''} \<and>
     EffectiveAffinity c \<in> {''off'', ''low'', ''medium'', ''high''} \<and>
     0 < EffectiveKVCacheUtilizationMax c \<and> EffectiveKVCacheUtilizationMax c \<le> 1 \<and>
     0 \<le> EffectiveWaitingQueueMax c \<and> 0 \<le> EffectiveRunningRequestsMax c \<and>
     0 < EffectiveMetricsStalenessThresholdMs c \<and>
     (EffectiveSessionAffinityEnabled c \<longrightarrow> es_SessionAffinityHeader c \<noteq> None) \<and>
     (\<forall>h. es_SessionAffinityHeader c = Some h \<longrightarrow> httpHeaderNameToken h) \<and>
     (\<forall>f. es_FlowControl c = Some f \<longrightarrow> flow_control_ok f)"

lemma FlowControl_Validate_iff: "FlowControl_Validate f = Inr () \<longleftrightarrow> flow_control_ok f"
  by (auto simp: FlowControl_Validate_def flow_control_ok_def FlowControlUnlimited_def
      not_less not_le split: option.splits if_splits)

text \<open>A token character starts no encoding of white space and ends none.\<close>

definition token_char :: "char \<Rightarrow> bool" where
  "token_char c \<longleftrightarrow> is_alnum c \<or> c \<in> set ''!#$%&*+-.^_|~'' \<or> c = CHR 0x27 \<or> c = CHR 0x60"

lemma space_bytes:
  "list_all (\<lambda>e. e \<noteq> [] \<and> \<not> token_char (hd e) \<and> \<not> token_char (last e)) utf8_spaces"
  by (simp add: utf8_spaces_def token_char_def is_alnum_def)

lemma starting_space_none:
  assumes "\<And>e. e \<in> set sps \<Longrightarrow> e \<noteq> [] \<and> hd e \<noteq> hd s" and "s \<noteq> []"
  shows "starting_space sps s = 0"
proof -
  have "\<not> HasPrefix s e" if "e \<in> set sps" for e
    using assms(1) [OF that] by (auto simp: HasPrefix_iff hd_append)
  then have "List.find (\<lambda>e. HasPrefix s e) sps = None" by (auto simp: find_None_iff)
  then show ?thesis by (simp add: starting_space_def)
qed

lemma drop_spaces_none:
  "(\<And>e. e \<in> set sps \<Longrightarrow> e \<noteq> [] \<and> hd e \<noteq> hd s) \<Longrightarrow> drop_spaces n sps s = s"
proof (cases n)
  case (Suc m)
  assume a: "\<And>e. e \<in> set sps \<Longrightarrow> e \<noteq> [] \<and> hd e \<noteq> hd s"
  show ?thesis
  proof (cases "s = []")
    case True
    have "drop_spaces m sps [] = []" for m by (induction m) (auto simp: Let_def)
    with True show ?thesis by simp
  next
    case False
    with a Suc show ?thesis by (simp add: starting_space_none)
  qed
qed simp

lemma TrimSpace_token:
  assumes "httpHeaderNameToken h"
  shows "TrimSpace h = h"
proof -
  have tok: "h \<noteq> []" "token_char (hd h)" "token_char (last h)"
    using assms by (auto simp: httpHeaderNameToken_def token_char_def list_all_iff)
  have sp: "e \<noteq> [] \<and> \<not> token_char (hd e) \<and> \<not> token_char (last e)" if "e \<in> set utf8_spaces" for e
    using space_bytes that by (auto simp: list_all_iff)
  have l: "drop_spaces n utf8_spaces h = h" for n
    by (rule drop_spaces_none) (use sp tok in metis)
  have r: "drop_spaces n (map rev utf8_spaces) (rev h) = rev h" for n
    by (rule drop_spaces_none) (use sp tok in \<open>fastforce simp: hd_rev\<close>)
  show ?thesis by (simp add: TrimSpace_def l r Let_def)
qed

lemma validateHeaderName_iff: "validateHeaderName h = Inr () \<longleftrightarrow> httpHeaderNameToken h"
  using TrimSpace_token by (auto simp: validateHeaderName_def httpHeaderNameToken_def)

text \<open>A chain of early returns succeeds when no check fires.\<close>

lemma check_Inr: "(if b then Inl e else r) = Inr u \<longleftrightarrow> \<not> b \<and> r = Inr u"
  by simp

lemma case_check_Inr:
  "(case r of Inl e \<Rightarrow> Inl (f e) | Inr _ \<Rightarrow> r') = Inr () \<longleftrightarrow> r = Inr () \<and> r' = Inr ()"
  by (cases r) auto

lemma opt_check:
  "(case x of None \<Rightarrow> False | Some y \<Rightarrow> P y) \<longleftrightarrow> (\<exists>y. x = Some y \<and> P y)"
  "(case x of None \<Rightarrow> True | Some y \<Rightarrow> P y) \<longleftrightarrow> (\<forall>y. x = Some y \<longrightarrow> P y)"
  "(case x of None \<Rightarrow> Inr () | Some y \<Rightarrow> g y) = Inr () \<longleftrightarrow> (\<forall>y. x = Some y \<longrightarrow> g y = Inr ())"
  by (auto split: option.splits)

text \<open>\<^verbatim>\<open>Validate\<close> accepts exactly the configurations that satisfy the rules.\<close>

lemma Validate_cases:
  "Validate c = Inr () \<longleftrightarrow>
     (\<forall>p. es_LoadProfile c = Some p \<longrightarrow> p \<in> {''queue-first'', ''balanced'', ''kv-first''}) \<and>
     (\<forall>a. es_Affinity c = Some a \<longrightarrow> a \<in> {''off'', ''low'', ''medium'', ''high''}) \<and>
     (\<forall>x. es_KVCacheUtilizationMax c = Some x \<longrightarrow> 0 < x \<and> x \<le> 1) \<and>
     (\<forall>x. es_WaitingQueueMax c = Some x \<longrightarrow> 0 \<le> x) \<and>
     (\<forall>x. es_RunningRequestsMax c = Some x \<longrightarrow> 0 \<le> x) \<and>
     (\<forall>n. es_MetricsStalenessThresholdMs c = Some n \<longrightarrow> 0 < n) \<and>
     (es_SessionAffinityEnabled c = Some True \<longrightarrow>
        (\<exists>h. es_SessionAffinityHeader c = Some h \<and> TrimSpace h \<noteq> [])) \<and>
     (\<forall>h. es_SessionAffinityHeader c = Some h \<longrightarrow> httpHeaderNameToken h) \<and>
     (\<forall>f. es_FlowControl c = Some f \<longrightarrow> flow_control_ok f)"
  unfolding Validate_def FlowControl_Validate_iff [symmetric] validateHeaderName_iff [symmetric]
    LoadProfileQueueFirst_def LoadProfileBalanced_def LoadProfileKVFirst_def
    AffinityOff_def AffinityLow_def AffinityMedium_def AffinityHigh_def
    check_Inr case_check_Inr opt_check not_le not_less de_Morgan_conj not_ex not_not not_all
    imp_conv_disj de_Morgan_disj not_less
  by meson

lemma default_check:
  "P d \<Longrightarrow> (\<forall>x. v = Some x \<longrightarrow> P x) \<longleftrightarrow> P (case v of None \<Rightarrow> d | Some x \<Rightarrow> x)"
  by (cases v) auto

lemma Effective_checks:
  "(\<forall>p. es_LoadProfile c = Some p \<longrightarrow> p \<in> {''queue-first'', ''balanced'', ''kv-first''}) \<longleftrightarrow>
     EffectiveLoadProfile c \<in> {''queue-first'', ''balanced'', ''kv-first''}"
  "(\<forall>a. es_Affinity c = Some a \<longrightarrow> a \<in> {''off'', ''low'', ''medium'', ''high''}) \<longleftrightarrow>
     EffectiveAffinity c \<in> {''off'', ''low'', ''medium'', ''high''}"
  "(\<forall>x. es_KVCacheUtilizationMax c = Some x \<longrightarrow> 0 < x \<and> x \<le> 1) \<longleftrightarrow>
     0 < EffectiveKVCacheUtilizationMax c \<and> EffectiveKVCacheUtilizationMax c \<le> 1"
  "(\<forall>x. es_WaitingQueueMax c = Some x \<longrightarrow> 0 \<le> x) \<longleftrightarrow> 0 \<le> EffectiveWaitingQueueMax c"
  "(\<forall>x. es_RunningRequestsMax c = Some x \<longrightarrow> 0 \<le> x) \<longleftrightarrow> 0 \<le> EffectiveRunningRequestsMax c"
  "(\<forall>n. es_MetricsStalenessThresholdMs c = Some n \<longrightarrow> 0 < n) \<longleftrightarrow>
     0 < EffectiveMetricsStalenessThresholdMs c"
  "es_SessionAffinityEnabled c = Some True \<longleftrightarrow> EffectiveSessionAffinityEnabled c"
  unfolding EffectiveLoadProfile_def EffectiveAffinity_def EffectiveKVCacheUtilizationMax_def
    EffectiveWaitingQueueMax_def EffectiveRunningRequestsMax_def EffectiveMetricsStalenessThresholdMs_def
    EffectiveSessionAffinityEnabled_def LoadProfileBalanced_def AffinityMedium_def
  by ((rule default_check, simp)+) (cases "es_SessionAffinityEnabled c", simp_all)

lemma Validate_iff: "Validate c = Inr () \<longleftrightarrow> config_ok c"
proof -
  have "(\<exists>h. es_SessionAffinityHeader c = Some h \<and> TrimSpace h \<noteq> []) \<longleftrightarrow> es_SessionAffinityHeader c \<noteq> None"
    if "\<forall>h. es_SessionAffinityHeader c = Some h \<longrightarrow> httpHeaderNameToken h"
    using that TrimSpace_token by (auto simp: httpHeaderNameToken_def)
  then show ?thesis unfolding Validate_cases Effective_checks config_ok_def by blast
qed

end
