(* ===== verification/EppCompile.thy ===== *)
theory EppCompile
  imports EppConfig
begin

text \<open>
  The compiler from the simplified configuration to the \<^verbatim>\<open>EndpointPickerConfig\<close> that the EPP
  scheduler reads (\<^verbatim>\<open>model/epp_pool/compiler.go\<close>), with Go's duration text and the wrap-around
  of a product of seconds and nanoseconds. The untyped parameter maps are trees (\<open>pval\<close>).
\<close>

section \<open>The compiled shape\<close>

datatype pval =
    PStr string | PNum rat | PInt int | PBool bool
  | PMap "(string \<times> pval) list" | PList "pval list"

record PluginConfig =
  pc_Name :: string
  pc_Type :: string
  pc_Parameters :: "(string \<times> pval) list"

record ProfilePluginConfig =
  pp_PluginRef :: string
  pp_Weight :: "rat option"

record SchedulingProfileConfig =
  sp_Name :: string
  sp_Plugins :: "ProfilePluginConfig list"

record PriorityBandConfig =
  pb_Priority :: int
  pb_MaxRequests :: string
  pb_MaxBytes :: string

record FlowControlConfig =
  fl_MaxRequests :: string
  fl_DefaultRequestTTL :: string
  fl_NoEndpointRequestTTL :: string
  fl_EnableEviction :: bool
  fl_SaturationDetector :: "string option"
  fl_PriorityBands :: "PriorityBandConfig list"

text \<open>
  The data layer and the request handler only carry plugin references: they are kept as the
  names they refer to.
\<close>

record EndpointPickerConfig =
  eo_FeatureGates :: "string list"
  eo_Plugins :: "PluginConfig list"
  eo_SchedulingProfiles :: "SchedulingProfileConfig list"
  eo_DataLayer :: string
  eo_FlowControl :: "FlowControlConfig option"
  eo_RequestHandler :: "string list"

section \<open>Durations\<close>

definition wrap64 :: "int \<Rightarrow> int" where
  "wrap64 x = sint (word_of_int x :: i64)"

text \<open>\<^verbatim>\<open>time.fmtFrac\<close>: the fraction of \<open>v / 10 ^ prec\<close> without trailing zeros.\<close>

fun strip_zeros :: "nat \<Rightarrow> nat \<Rightarrow> nat \<times> nat" where
  "strip_zeros 0 v = (0, v)"
| "strip_zeros (Suc n) v = (if v mod 10 = 0 then strip_zeros n (v div 10) else (Suc n, v))"

fun pad_digits :: "nat \<Rightarrow> nat \<Rightarrow> string" where
  "pad_digits 0 v = []"
| "pad_digits (Suc n) v = pad_digits n (v div 10) @ [digit_char (v mod 10)]"

definition fmtFrac :: "nat \<Rightarrow> nat \<Rightarrow> string" where
  "fmtFrac v prec =
     (let (n, w) = strip_zeros prec (v mod 10 ^ prec)
      in if n = 0 then [] else CHR ''.'' # pad_digits n w)"

text \<open>\<^verbatim>\<open>time.Duration.String\<close> on a number of nanoseconds.\<close>

definition Duration_String :: "int \<Rightarrow> string" where
  "Duration_String d =
     (let u = nat \<bar>d\<bar>; sign = (if d < 0 then ''-'' else []) in
      sign @
      (if u = 0 then ''0s''
       else if u < 1000 then show_nat u @ ''ns''
       else if u < 1000000 then show_nat (u div 1000) @ fmtFrac u 3 @ [CHR 0xC2, CHR 0xB5, CHR ''s'']
       else if u < 1000000000 then show_nat (u div 1000000) @ fmtFrac u 6 @ ''ms''
       else
         (let secs = u div 1000000000; mins = secs div 60; hours = mins div 60 in
          (if hours > 0 then show_nat hours @ ''h'' else []) @
          (if mins > 0 then show_nat (mins mod 60) @ ''m'' else []) @
          show_nat (secs mod 60) @ fmtFrac u 9 @ ''s'')))"

definition secondsToDuration :: "int \<Rightarrow> string" where
  "secondsToDuration seconds = Duration_String (wrap64 (seconds * nsSecond))"

section \<open>The compile template\<close>

definition loadProfileWeights :: "string \<Rightarrow> (rat \<times> rat) option" where
  "loadProfileWeights =
     [LoadProfileQueueFirst \<mapsto> (1 / 5, 1), LoadProfileBalanced \<mapsto> (3 / 5, 3 / 5),
      LoadProfileKVFirst \<mapsto> (1, 1 / 5)]"

definition affinityWeights :: "string \<Rightarrow> rat option" where
  "affinityWeights =
     [AffinityOff \<mapsto> 0, AffinityLow \<mapsto> 3 / 10, AffinityMedium \<mapsto> 3 / 5, AffinityHigh \<mapsto> 1]"

definition compileLoadProfileWeights :: "EppConfigSimplified \<Rightarrow> rat \<times> rat" where
  "compileLoadProfileWeights conf =
     (case loadProfileWeights (EffectiveLoadProfile conf) of
        Some w \<Rightarrow> w | None \<Rightarrow> the (loadProfileWeights LoadProfileBalanced))"

definition compileAffinityWeight :: "EppConfigSimplified \<Rightarrow> rat" where
  "compileAffinityWeight conf =
     (case affinityWeights (EffectiveAffinity conf) of
        Some w \<Rightarrow> w | None \<Rightarrow> the (affinityWeights AffinityMedium))"

definition condition :: "string \<Rightarrow> rat \<Rightarrow> pval" where
  "condition metric v = PMap [(''metric'', PStr metric), (''maxValue'', PNum v)]"

definition compileUtilFilterPlugin :: "EppConfigSimplified \<Rightarrow> PluginConfig" where
  "compileUtilFilterPlugin conf =
     \<lparr>pc_Name = ''util-filter'', pc_Type = ''utilization-filter'',
      pc_Parameters =
        [(''conditions'', PList
           ([condition ''kv-cache-utilization'' (EffectiveKVCacheUtilizationMax conf)] @
            (if EffectiveWaitingQueueMax conf > 0
             then [condition ''waiting-queue'' (EffectiveWaitingQueueMax conf)] else []) @
            (if EffectiveRunningRequestsMax conf > 0
             then [condition ''running-requests'' (EffectiveRunningRequestsMax conf)] else []))),
         (''fallbackOnEmpty'', PBool (EffectiveFallbackOnEmpty conf))]\<rparr>"

text \<open>
  The conversion \<^verbatim>\<open>int(q)\<close> truncates; outside the range of int64 Go leaves it to the
  platform, and amd64 gives the least int64.
\<close>

definition float_to_int :: "rat \<Rightarrow> int" where
  "float_to_int q =
     (let t = (if q < 0 then - \<lfloor>- q\<rfloor> else \<lfloor>q\<rfloor>)
      in if - (2 ^ 63) \<le> t \<and> t < 2 ^ 63 then t else - (2 ^ 63))"

definition compileSaturationDetectorPlugin :: "EppConfigSimplified \<Rightarrow> PluginConfig" where
  "compileSaturationDetectorPlugin conf =
     (let q = EffectiveWaitingQueueMax conf; qDepth = (if q \<ge> 1 then float_to_int q else 5)
      in \<lparr>pc_Name = ''saturation-detector'', pc_Type = ''utilization-detector'',
          pc_Parameters =
            [(''kvCacheUtilThreshold'', PNum (EffectiveKVCacheUtilizationMax conf)),
             (''queueDepthThreshold'', PInt qDepth),
             (''stalenessPolicy'', PStr ''ignore''),
             (''headroom'', PNum 0),
             (''metricsStalenessThreshold'',
              PStr (show_int (EffectiveMetricsStalenessThresholdMs conf) @ ''ms''))]\<rparr>)"

definition compileFlowControl :: "EppConfigSimplified \<Rightarrow> FlowControlConfig" where
  "compileFlowControl conf =
     (let base = \<lparr>fl_MaxRequests = [], fl_DefaultRequestTTL = [], fl_NoEndpointRequestTTL = [],
                  fl_EnableEviction = False, fl_SaturationDetector = Some ''saturation-detector'',
                  fl_PriorityBands = []\<rparr>;
          band = \<lparr>pb_Priority = 0, pb_MaxRequests = ''10000'', pb_MaxBytes = ''5Gi''\<rparr>
      in case es_FlowControl conf of
           None \<Rightarrow> base\<lparr>fl_PriorityBands := [band]\<rparr>
         | Some fc \<Rightarrow>
             (let limit = (case fc_MaxRequests fc of
                             Some n \<Rightarrow> if n > 0 then Some (show_int n) else None
                           | None \<Rightarrow> None);
                  ttl = (case fc_QueueTTL fc of None \<Rightarrow> [] | Some s \<Rightarrow> secondsToDuration s)
              in base\<lparr>fl_MaxRequests := (case limit of None \<Rightarrow> [] | Some q \<Rightarrow> q),
                      fl_DefaultRequestTTL := ttl,
                      fl_NoEndpointRequestTTL :=
                        (case fc_NoEndpointQueueTTL fc of Some s \<Rightarrow> secondsToDuration s | None \<Rightarrow> ttl),
                      fl_PriorityBands :=
                        [band\<lparr>pb_MaxRequests := (case limit of None \<Rightarrow> ''10000'' | Some q \<Rightarrow> q)\<rparr>]\<rparr>))"

definition plain_plugin :: "string \<Rightarrow> string \<Rightarrow> PluginConfig" where
  "plain_plugin name ty = \<lparr>pc_Name = name, pc_Type = ty, pc_Parameters = []\<rparr>"

definition session_plugin :: "string \<Rightarrow> PluginConfig" where
  "session_plugin header =
     \<lparr>pc_Name = ''session-scorer'', pc_Type = ''session-affinity-scorer'',
      pc_Parameters =
        [(''strategy'', PStr ''session_id''),
         (''sessionIdConfig'', PMap [(''sources'', PList [PMap [(''header'', PStr header)]])])]\<rparr>"

text \<open>
  \<^verbatim>\<open>CompileEppConfig\<close> in the pieces it appends: the conditions of the two affinity scorers, the
  plugins, the profile, and the whole.
\<close>

definition prefix_scorer :: "EppConfigSimplified \<Rightarrow> bool" where
  "prefix_scorer conf \<longleftrightarrow> EffectivePrefixCacheAffinity conf \<and> compileAffinityWeight conf > 0"

definition session_scorer :: "EppConfigSimplified \<Rightarrow> string option" where
  "session_scorer conf =
     (if EffectiveSessionAffinityEnabled conf \<and> compileAffinityWeight conf > 0
      then es_SessionAffinityHeader conf else None)"

definition compile_plugins :: "string \<Rightarrow> EppConfigSimplified \<Rightarrow> PluginConfig list" where
  "compile_plugins clusterName conf =
     [\<lparr>pc_Name = ''ep-discover'', pc_Type = ''cluster-table-discovery'',
       pc_Parameters = [(''clusterName'', PStr clusterName)]\<rparr>,
      compileUtilFilterPlugin conf, compileSaturationDetectorPlugin conf,
      plain_plugin ''kv-scorer'' ''kv-cache-utilization-scorer'',
      plain_plugin ''queue-scorer'' ''queue-scorer''] @
     (if prefix_scorer conf then [plain_plugin ''prefix-scorer'' ''prefix-cache-scorer''] else []) @
     (case session_scorer conf of None \<Rightarrow> [] | Some h \<Rightarrow> [session_plugin h]) @
     [plain_plugin ''max-score'' ''max-score-picker'', plain_plugin ''openai-parser'' ''openai-parser'']"

definition profile_plugin :: "string \<Rightarrow> rat option \<Rightarrow> ProfilePluginConfig" where
  "profile_plugin ref w = \<lparr>pp_PluginRef = ref, pp_Weight = w\<rparr>"

definition compile_profile :: "EppConfigSimplified \<Rightarrow> ProfilePluginConfig list" where
  "compile_profile conf =
     [profile_plugin ''util-filter'' None,
      profile_plugin ''kv-scorer'' (Some (fst (compileLoadProfileWeights conf))),
      profile_plugin ''queue-scorer'' (Some (snd (compileLoadProfileWeights conf)))] @
     (if prefix_scorer conf
      then [profile_plugin ''prefix-scorer'' (Some (compileAffinityWeight conf))] else []) @
     (case session_scorer conf of None \<Rightarrow> []
      | Some _ \<Rightarrow> [profile_plugin ''session-scorer'' (Some (compileAffinityWeight conf))]) @
     [profile_plugin ''max-score'' None]"

definition CompileEppConfig :: "string \<Rightarrow> EppConfigSimplified \<Rightarrow> EndpointPickerConfig" where
  "CompileEppConfig clusterName conf =
     \<lparr>eo_FeatureGates = (if es_FlowControl conf \<noteq> None then [''flowControl''] else []),
      eo_Plugins = compile_plugins clusterName conf,
      eo_SchedulingProfiles = [\<lparr>sp_Name = ''default'', sp_Plugins = compile_profile conf\<rparr>],
      eo_DataLayer = ''ep-discover'',
      eo_FlowControl = Some (compileFlowControl conf),
      eo_RequestHandler = [''openai-parser'']\<rparr>"

section \<open>Durations of whole seconds\<close>

lemma strip_zeros_0 [simp]: "strip_zeros n 0 = (0, 0)"
  by (induction n) auto

lemma fmtFrac_whole [simp]: "fmtFrac (k * 10 ^ prec) prec = []"
  by (simp add: fmtFrac_def)

lemma Duration_String_seconds:
  "Duration_String (int n * nsSecond) =
     (if n \<ge> 3600 then show_nat (n div 3600) @ ''h'' else []) @
     (if n \<ge> 60 then show_nat (n div 60 mod 60) @ ''m'' else []) @ show_nat (n mod 60) @ ''s''"
proof (cases "n = 0")
  case True
  then show ?thesis by (simp add: Duration_String_def nsSecond_def show_nat.simps digit_char_def char_of_def bit_Suc_0_iff)
next
  case False
  have u: "nat \<bar>int n * nsSecond\<bar> = n * 1000000000" by (simp add: nsSecond_def nat_mult_distrib)
  have f: "fmtFrac (n * 1000000000) 9 = []" using fmtFrac_whole [of n 9] by simp
  have h: "n div 60 div 60 = n div 3600" by (simp add: div_mult2_eq [symmetric])
  have "\<not> int n * nsSecond < 0" by (simp add: nsSecond_def)
  then show ?thesis using False unfolding Duration_String_def Let_def u
    by (simp add: f h div_greater_zero_iff)
qed

lemma wrap64_small: "- (2 ^ 63) \<le> x \<Longrightarrow> x < 2 ^ 63 \<Longrightarrow> wrap64 x = x"
  by (simp add: wrap64_def sint_sbintrunc' signed_take_bit_int_eq_self)

lemma secondsToDuration_small:
  assumes "n \<le> 9223372036"
  shows "secondsToDuration (int n) =
     (if n \<ge> 3600 then show_nat (n div 3600) @ ''h'' else []) @
     (if n \<ge> 60 then show_nat (n div 60 mod 60) @ ''m'' else []) @ show_nat (n mod 60) @ ''s''"
proof -
  have "wrap64 (int n * nsSecond) = int n * nsSecond"
    by (rule wrap64_small) (use assms in \<open>simp_all add: nsSecond_def\<close>)
  then show ?thesis by (simp add: secondsToDuration_def Duration_String_seconds)
qed

section \<open>References of a compiled configuration\<close>

definition plugin_names :: "EndpointPickerConfig \<Rightarrow> string list" where
  "plugin_names c = map pc_Name (eo_Plugins c)"

definition plugin_refs :: "EndpointPickerConfig \<Rightarrow> string list" where
  "plugin_refs c =
     concat (map (\<lambda>p. map pp_PluginRef (sp_Plugins p)) (eo_SchedulingProfiles c)) @
     [eo_DataLayer c] @ eo_RequestHandler c @
     (case eo_FlowControl c of None \<Rightarrow> []
      | Some f \<Rightarrow> (case fl_SaturationDetector f of None \<Rightarrow> [] | Some r \<Rightarrow> [r]))"

lemma plugin_names_fixed [simp]:
  "pc_Name (compileUtilFilterPlugin c) = ''util-filter''"
  "pc_Name (compileSaturationDetectorPlugin c) = ''saturation-detector''"
  "pc_Name (plain_plugin n t) = n" "pc_Name (session_plugin h) = ''session-scorer''"
  by (simp_all add: compileUtilFilterPlugin_def compileSaturationDetectorPlugin_def Let_def
      plain_plugin_def session_plugin_def)

lemma compileFlowControl_detector [simp]:
  "fl_SaturationDetector (compileFlowControl c) = Some ''saturation-detector''"
  by (simp add: compileFlowControl_def Let_def split: option.splits)

lemma profile_plugin_ref [simp]: "pp_PluginRef (profile_plugin r w) = r"
  by (simp add: profile_plugin_def)

lemma plugin_names_CompileEppConfig:
  "plugin_names (CompileEppConfig n c) =
     [''ep-discover'', ''util-filter'', ''saturation-detector'', ''kv-scorer'', ''queue-scorer''] @
     (if prefix_scorer c then [''prefix-scorer''] else []) @
     (if session_scorer c \<noteq> None then [''session-scorer''] else []) @ [''max-score'', ''openai-parser'']"
  by (cases "session_scorer c"; cases "prefix_scorer c")
     (simp_all add: plugin_names_def CompileEppConfig_def compile_plugins_def)

lemma plugin_refs_CompileEppConfig:
  "plugin_refs (CompileEppConfig n c) =
     [''util-filter'', ''kv-scorer'', ''queue-scorer''] @
     (if prefix_scorer c then [''prefix-scorer''] else []) @
     (if session_scorer c \<noteq> None then [''session-scorer''] else []) @
     [''max-score'', ''ep-discover'', ''openai-parser'', ''saturation-detector'']"
  by (cases "session_scorer c"; cases "prefix_scorer c")
     (simp_all add: plugin_refs_def CompileEppConfig_def compile_profile_def)

lemma compiled_flow_control [simp]:
  "eo_FlowControl (CompileEppConfig n c) = Some (compileFlowControl c)"
  "eo_FeatureGates (CompileEppConfig n c) = (if es_FlowControl c \<noteq> None then [''flowControl''] else [])"
  by (simp_all add: CompileEppConfig_def)

text \<open>The affinity weight of an accepted configuration is one of the four strengths.\<close>

lemma compileAffinityWeight_range: "0 \<le> compileAffinityWeight c \<and> compileAffinityWeight c \<le> 1"
  by (simp add: compileAffinityWeight_def affinityWeights_def split: option.split)

lemma float_to_int_floor: "1 \<le> q \<Longrightarrow> q < 2 ^ 63 \<Longrightarrow> float_to_int q = \<lfloor>q\<rfloor> \<and> 1 \<le> \<lfloor>q\<rfloor>"
  by (auto simp: float_to_int_def Let_def floor_less_iff le_floor_iff)

end
