(* ===== verification/EppPool.thy ===== *)
theory EppPool
  imports EppStore EppCompile
begin

text \<open>
  The instance pool (\<^verbatim>\<open>model/epp_pool/epp_pool.go\<close>): the manager and its defaults, the grouping of
  the stored instances (\<open>buildPool\<close>) with its specification, the validation of a replacement pool
  (\<open>validateGroups\<close>), the reading of the pool, and the cluster source of
  \<^verbatim>\<open>model/icluster_conf/epp.go\<close>. A nil group or instance of a request is \<open>None\<close>.
\<close>

section \<open>The manager\<close>

record ManagerOptions =
  mo_PoolName :: string
  mo_ReconcileInterval :: duration

definition withDefaults :: "ManagerOptions \<Rightarrow> ManagerOptions" where
  "withDefaults mo =
     \<lparr>mo_PoolName = (if mo_PoolName mo = [] then ''EPP.pool'' else mo_PoolName mo),
      mo_ReconcileInterval =
        (if mo_ReconcileInterval mo \<le> 0 then 30 * nsSecond else mo_ReconcileInterval mo)\<rparr>"

text \<open>The body of the \<^verbatim>\<open>epp_data\<close> export (\<^verbatim>\<open>epp_data.go\<close>); its two objects are maps.\<close>

record EppDataConfig =
  ed_EppConfig :: "string \<rightharpoonup> EndpointPickerConfig"
  ed_Assignment :: "string \<rightharpoonup> string"

record ExportEppDataConfig =
  ex_Version :: string
  ex_Config :: EppDataConfig

text \<open>
  The optional dependencies of \<^verbatim>\<open>EppPoolManager\<close> are flags; \<open>em_decode\<close> is the JSON decoder of the
  stored configurations, \<open>em_sign\<close> the digest of \<^verbatim>\<open>iversion_control.Sign\<close> (MD5 of the JSON text), \<open>em_now\<close> the
  version text of the current second and \<open>em_succ\<close> the version text of the second after a version text, in the
  local time zone (\<open>None\<close> when the text does not parse).
\<close>

record EppPoolManager =
  em_clusterSource :: bool
  em_versionControl :: bool
  em_poolName :: string
  em_reconcileInterval :: duration
  em_decode :: "string \<Rightarrow> string + EppConfigSimplified"
  em_sign :: "EppDataConfig \<Rightarrow> string"
  em_now :: string
  em_succ :: "string \<Rightarrow> string option"

definition NewEppPoolManager :: "EppPoolManager \<Rightarrow> ManagerOptions option \<Rightarrow> EppPoolManager" where
  "NewEppPoolManager deps options =
     (let opts = withDefaults (case options of None \<Rightarrow> \<lparr>mo_PoolName = [], mo_ReconcileInterval = 0\<rparr>
                               | Some x \<Rightarrow> x)
      in deps\<lparr>em_poolName := mo_PoolName opts, em_reconcileInterval := mo_ReconcileInterval opts\<rparr>)"

section \<open>Grouping\<close>

definition instanceAddress :: "string \<Rightarrow> int \<Rightarrow> string" where
  "instanceAddress host port = JoinHostPort host port"

definition add_to_group ::
  "(string \<times> InstanceParam list) list \<Rightarrow> InstanceParam \<Rightarrow> (string \<times> InstanceParam list) list" where
  "add_to_group m i = alist_set (ip_GroupName i) (alist_get m (ip_GroupName i) [] @ [i]) m"

definition buildPool :: "string \<Rightarrow> InstanceParam list \<Rightarrow> EppPool" where
  "buildPool name insts =
     (let groupMap = foldl add_to_group [] insts;
          groupNames = sort (map fst groupMap)
      in \<lparr>ep_Name = name,
          ep_Groups = map (\<lambda>g. \<lparr>ig_Name = g, ig_Instances = sort_key ip_ID (alist_get groupMap g [])\<rparr>)
                        groupNames\<rparr>)"

definition GetPool :: "EppPoolManager \<Rightarrow> EppPool epp" where
  "GetPool m =
     bindE (FetchInstanceList no_filter) (\<lambda>insts.
       if insts = [] then throwE (ErrRecordNotExist ''epp pool'')
       else returnE (buildPool (em_poolName m) insts))"

section \<open>Validation of a pool\<close>

text \<open>A group of the request body.\<close>

record group_request =
  gr_Name :: string
  gr_Instances :: "InstanceParam option list"

definition validateGroupSize :: "group_request \<Rightarrow> error + unit" where
  "validateGroupSize g =
     (if length (gr_Instances g) \<noteq> 1 then Inl (ErrParam ''epp pool group requires exactly 1 instance'')
      else Inr ())"

text \<open>The three maps of names already seen, and the flattened list.\<close>

record group_scan =
  gs_groupNames :: "string list"
  gs_instanceIDs :: "string list"
  gs_addresses :: "string list"
  gs_flat :: "InstanceParam list"

fun validate_instances ::
  "string \<Rightarrow> InstanceParam option list \<Rightarrow> group_scan \<Rightarrow> error + group_scan" where
  "validate_instances g [] s = Inr s"
| "validate_instances g (None # xs) s = Inl (ErrParam ''epp pool instance is nil'')"
| "validate_instances g (Some i # xs) s =
     (if ip_ID i = [] then Inl (ErrParam ''epp pool instance id is empty'')
      else if ip_ID i \<in> set (gs_instanceIDs s) then Inl (ErrParam ''epp pool instance id is duplicated'')
      else case validateHost (ip_Host i) of
        Inl e \<Rightarrow> Inl (ErrParam ''epp pool instance host'')
      | Inr _ \<Rightarrow> (case validatePort (ip_Port i) of
          Inl e \<Rightarrow> Inl (ErrParam ''epp pool instance port'')
        | Inr _ \<Rightarrow>
            (let addr = instanceAddress (ip_Host i) (ip_Port i) in
             if addr \<in> set (gs_addresses s) then Inl (ErrParam ''epp pool instance address is duplicated'')
             else validate_instances g xs
               (s\<lparr>gs_instanceIDs := ip_ID i # gs_instanceIDs s, gs_addresses := addr # gs_addresses s,
                  gs_flat := gs_flat s @ [i\<lparr>ip_GroupName := g\<rparr>]\<rparr>))))"

fun validate_group_list :: "group_request option list \<Rightarrow> group_scan \<Rightarrow> error + group_scan" where
  "validate_group_list [] s = Inr s"
| "validate_group_list (None # gs) s = Inl (ErrParam ''epp pool group is nil'')"
| "validate_group_list (Some g # gs) s =
     (if gr_Name g = [] then Inl (ErrParam ''epp pool group name is empty'')
      else if gr_Name g \<in> set (gs_groupNames s) then Inl (ErrParam ''epp pool group name is duplicated'')
      else case validateGroupSize g of
        Inl e \<Rightarrow> Inl e
      | Inr _ \<Rightarrow>
          (case validate_instances (gr_Name g) (gr_Instances g)
                  (s\<lparr>gs_groupNames := gr_Name g # gs_groupNames s\<rparr>) of
             Inl e \<Rightarrow> Inl e
           | Inr s' \<Rightarrow> validate_group_list gs s'))"

definition validateGroups :: "group_request option list \<Rightarrow> error + InstanceParam list" where
  "validateGroups groups =
     (if groups = [] then Inl (ErrParam ''epp pool requires at least one group'')
      else case validate_group_list groups
                  \<lparr>gs_groupNames = [], gs_instanceIDs = [], gs_addresses = [], gs_flat = []\<rparr> of
             Inl e \<Rightarrow> Inl e
           | Inr s \<Rightarrow> Inr (gs_flat s))"

section \<open>The cluster source\<close>

definition BalanceModeWRR :: string where "BalanceModeWRR = ''WRR''"
definition BalanceModeEPP :: string where "BalanceModeEPP = ''EPP''"

definition getBalanceMode :: "Cluster \<Rightarrow> string" where
  "getBalanceMode c = (if cl_BalanceMode c = [] then BalanceModeWRR else cl_BalanceMode c)"

definition epp_clusters :: "Cluster list \<Rightarrow> EPPClusterInfo list" where
  "epp_clusters cs =
     map (\<lambda>c. \<lparr>ec_Name = cl_Name c, ec_EppConfigJSON = cl_EppConfig c\<rparr>)
       (filter (\<lambda>c. getBalanceMode c = BalanceModeEPP) cs)"

definition FetchEPPClusters :: "EPPClusterInfo list epp" where
  "FetchEPPClusters = ext_call (\<lambda>w. (Inr (epp_clusters (clusters (db w))), w))"

text \<open>The balance mode and configuration that a write of a cluster results in.\<close>

definition validateClusterBalanceConfig ::
  "(string \<Rightarrow> string + EppConfigSimplified) \<Rightarrow> string option \<Rightarrow> string \<Rightarrow> string option \<Rightarrow> string \<Rightarrow>
   error + (string \<times> string)" where
  "validateClusterBalanceConfig decode balanceMode oldMode eppConfig oldEppConfig =
     (let mode0 = (if oldMode = [] then BalanceModeWRR else oldMode);
          mode = (case balanceMode of None \<Rightarrow> mode0 | Some b \<Rightarrow> if b \<noteq> [] then b else mode0);
          raw = (case eppConfig of None \<Rightarrow> oldEppConfig | Some r \<Rightarrow> TrimSpace r)
      in if mode \<noteq> BalanceModeWRR \<and> mode \<noteq> BalanceModeEPP
         then Inl (ErrParam ''balance_mode must be one of WRR/EPP'')
         else case ParseEppConfig decode raw of
           Inl e \<Rightarrow> Inl e
         | Inr conf \<Rightarrow>
             (case (case conf of None \<Rightarrow> Inr () | Some c \<Rightarrow> Validate c) of
                Inl e \<Rightarrow> Inl e
              | Inr _ \<Rightarrow>
                  if mode = BalanceModeEPP \<and> IsEmpty conf
                  then Inl (ErrParam ''epp_config is required when balance_mode is EPP'')
                  else Inr (mode, raw)))"

section \<open>What the grouping computes\<close>

lemma map_of_add_to_group:
  "alist_get (foldl add_to_group m xs) g [] = alist_get m g [] @ filter (\<lambda>i. ip_GroupName i = g) xs"
proof (induction xs arbitrary: m)
  case (Cons i xs)
  have "alist_get (add_to_group m i) g [] = alist_get m g [] @ (if ip_GroupName i = g then [i] else [])"
    by (auto simp: add_to_group_def alist_get_def)
  with Cons show ?case by auto
qed simp

lemma keys_add_to_group:
  "fst ` set (foldl add_to_group m xs) = fst ` set m \<union> ip_GroupName ` set xs"
  by (induction xs arbitrary: m) (auto simp: add_to_group_def)

lemma distinct_add_to_group:
  "distinct (map fst m) \<Longrightarrow> distinct (map fst (foldl add_to_group m xs))"
  by (induction xs arbitrary: m) (auto simp: add_to_group_def distinct_alist_set)

lemma set_group_keys: "set (map fst (foldl add_to_group [] xs)) = ip_GroupName ` set xs"
  using keys_add_to_group [of "[]" xs] by simp

lemma sorted_group_names:
  "sort (map fst (foldl add_to_group [] xs)) = sorted_list_of_set (ip_GroupName ` set xs)"
  using distinct_add_to_group [of "[]" xs] set_group_keys [of xs]
  by (metis distinct.simps(1) list.simps(8) sorted_list_of_set_sort_remdups distinct_remdups_id)

text \<open>
  The pool has one group per group name in ascending order of the names, and each group holds
  the instances of that name in ascending order of their ids.
\<close>

lemma buildPool_spec:
  "buildPool n xs =
     \<lparr>ep_Name = n,
      ep_Groups = map (\<lambda>g. \<lparr>ig_Name = g, ig_Instances = sort_key ip_ID (filter (\<lambda>i. ip_GroupName i = g) xs)\<rparr>)
                    (sorted_list_of_set (ip_GroupName ` set xs))\<rparr>"
  by (simp add: buildPool_def Let_def sorted_group_names map_of_add_to_group alist_get_def [of "[]"])

lemma buildPool_Name [simp]: "ep_Name (buildPool n xs) = n"
  by (simp add: buildPool_spec)

lemma buildPool_names: "map ig_Name (ep_Groups (buildPool n xs)) = sorted_list_of_set (ip_GroupName ` set xs)"
  by (simp add: buildPool_spec comp_def)

lemma buildPool_names_set: "ig_Name ` set (ep_Groups (buildPool n xs)) = ip_GroupName ` set xs"
  by (metis List.finite_set buildPool_names finite_imageI image_set set_sorted_list_of_set)

lemma buildPool_group:
  "g \<in> set (ep_Groups (buildPool n xs)) \<Longrightarrow>
     ig_Instances g \<noteq> [] \<and> (\<forall>i. i \<in> set (ig_Instances g) \<longleftrightarrow> i \<in> set xs \<and> ip_GroupName i = ig_Name g)"
  by (auto simp: buildPool_spec filter_empty_conv)
     (metis (mono_tags, lifting) filter_empty_conv length_0_conv length_sort)


section \<open>What the validation accepts\<close>

definition instance_ok :: "InstanceParam \<Rightarrow> bool" where
  "instance_ok i \<longleftrightarrow> ip_ID i \<noteq> [] \<and> validateHost (ip_Host i) = Inr () \<and> validatePort (ip_Port i) = Inr ()"

definition addr_of :: "InstanceParam \<Rightarrow> string" where
  "addr_of i = instanceAddress (ip_Host i) (ip_Port i)"

text \<open>The one instance of a group, under the name of the group.\<close>

definition member :: "group_request option \<Rightarrow> InstanceParam" where
  "member g = (the (hd (gr_Instances (the g))))\<lparr>ip_GroupName := gr_Name (the g)\<rparr>"

definition group_ok :: "group_request option \<Rightarrow> bool" where
  "group_ok g = (case g of None \<Rightarrow> False
     | Some g \<Rightarrow> gr_Name g \<noteq> [] \<and> (\<exists>i. gr_Instances g = [Some i] \<and> instance_ok i))"

lemma validate_instances_one:
  "validate_instances g [Some i] s = Inr s' \<longleftrightarrow>
     instance_ok i \<and> ip_ID i \<notin> set (gs_instanceIDs s) \<and> addr_of i \<notin> set (gs_addresses s) \<and>
     s' = s\<lparr>gs_instanceIDs := ip_ID i # gs_instanceIDs s, gs_addresses := addr_of i # gs_addresses s,
            gs_flat := gs_flat s @ [i\<lparr>ip_GroupName := g\<rparr>]\<rparr>"
  by (auto simp: instance_ok_def addr_of_def Let_def split: sum.splits if_splits)

definition scan_group :: "group_request option \<Rightarrow> group_scan \<Rightarrow> group_scan" where
  "scan_group g s =
     s\<lparr>gs_groupNames := ip_GroupName (member g) # gs_groupNames s,
       gs_instanceIDs := ip_ID (member g) # gs_instanceIDs s,
       gs_addresses := addr_of (member g) # gs_addresses s, gs_flat := gs_flat s @ [member g]\<rparr>"

lemma scan_group_sel [simp]:
  "gs_groupNames (scan_group g s) = ip_GroupName (member g) # gs_groupNames s"
  "gs_instanceIDs (scan_group g s) = ip_ID (member g) # gs_instanceIDs s"
  "gs_addresses (scan_group g s) = addr_of (member g) # gs_addresses s"
  "gs_flat (scan_group g s) = gs_flat s @ [member g]"
  by (simp_all add: scan_group_def)

lemma validate_group_list_Cons:
  "validate_group_list (g # gs) s = Inr s' \<longleftrightarrow>
     group_ok g \<and> ip_GroupName (member g) \<notin> set (gs_groupNames s) \<and>
     ip_ID (member g) \<notin> set (gs_instanceIDs s) \<and> addr_of (member g) \<notin> set (gs_addresses s) \<and>
     validate_group_list gs (scan_group g s) = Inr s'"
proof (cases g)
  case None
  then show ?thesis by (simp add: group_ok_def)
next
  case (Some r)
  show ?thesis
  proof (cases "\<exists>i. gr_Instances r = [Some i]")
    case True
    then obtain i where i: "gr_Instances r = [Some i]" by blast
    have m: "member g = i\<lparr>ip_GroupName := gr_Name r\<rparr>" using Some i by (simp add: member_def)
    have a: "addr_of (member g) = addr_of i" by (simp add: m addr_of_def)
    let ?s = "s\<lparr>gs_groupNames := gr_Name r # gs_groupNames s\<rparr>"
    have "(case validate_instances (gr_Name r) [Some i] ?s of Inl e \<Rightarrow> Inl e
           | Inr u \<Rightarrow> validate_group_list gs u) = Inr s' \<longleftrightarrow>
          (\<exists>u. validate_instances (gr_Name r) [Some i] ?s = Inr u \<and> validate_group_list gs u = Inr s')"
      by (cases "validate_instances (gr_Name r) [Some i] ?s") simp_all
    also have "\<dots> \<longleftrightarrow> instance_ok i \<and> ip_ID i \<notin> set (gs_instanceIDs s) \<and> addr_of i \<notin> set (gs_addresses s) \<and>
        validate_group_list gs (scan_group g s) = Inr s'"
      unfolding validate_instances_one by (simp add: scan_group_def m a [unfolded m])
    finally show ?thesis
      using Some i a m
      by (simp add: group_ok_def validateGroupSize_def del: validate_instances.simps)
  next
    case False
    then have no: "\<not> group_ok g" using Some by (auto simp: group_ok_def)
    have "validate_group_list (g # gs) s \<noteq> Inr s'"
    proof (cases "length (gr_Instances r) = 1")
      case True
      then obtain x where "gr_Instances r = [x]" by (auto simp: length_Suc_conv)
      with False have "gr_Instances r = [None]" by (cases x) auto
      then show ?thesis using Some by (simp add: validateGroupSize_def)
    qed (use Some in \<open>simp add: validateGroupSize_def\<close>)
    with no show ?thesis by blast
  qed
qed

lemma validate_group_list_iff:
  "validate_group_list gs s = Inr s' \<longleftrightarrow>
     list_all group_ok gs \<and> distinct (map (ip_GroupName \<circ> member) gs) \<and>
     distinct (map (ip_ID \<circ> member) gs) \<and> distinct (map (addr_of \<circ> member) gs) \<and>
     set (map (ip_GroupName \<circ> member) gs) \<inter> set (gs_groupNames s) = {} \<and>
     set (map (ip_ID \<circ> member) gs) \<inter> set (gs_instanceIDs s) = {} \<and>
     set (map (addr_of \<circ> member) gs) \<inter> set (gs_addresses s) = {} \<and>
     s' = foldl (\<lambda>s g. scan_group g s) s gs"
proof (induction gs arbitrary: s)
  case (Cons g gs)
  show ?case unfolding validate_group_list_Cons Cons.IH
    by (simp add: Int_insert_right Int_insert_left comp_def)
qed auto

lemma foldl_scan_flat: "gs_flat (foldl (\<lambda>s g. scan_group g s) s gs) = gs_flat s @ map member gs"
  by (induction gs arbitrary: s) simp_all

text \<open>
  \<^verbatim>\<open>validateGroups\<close> accepts exactly the non-empty lists of named groups of one valid instance
  each, with no name, id or address twice, and returns the instances in the order of the groups.
\<close>

lemma validateGroups_iff:
  "validateGroups gs = Inr flat \<longleftrightarrow>
     gs \<noteq> [] \<and> list_all group_ok gs \<and> distinct (map ip_GroupName flat) \<and>
     distinct (map ip_ID flat) \<and> distinct (map addr_of flat) \<and> flat = map member gs"
proof -
  let ?s = "\<lparr>gs_groupNames = [], gs_instanceIDs = [], gs_addresses = [], gs_flat = []\<rparr>"
  have "validateGroups gs = Inr flat \<longleftrightarrow>
     gs \<noteq> [] \<and> (\<exists>s'. validate_group_list gs ?s = Inr s' \<and> flat = gs_flat s')"
    by (auto simp: validateGroups_def split: sum.splits)
  then show ?thesis
    unfolding validate_group_list_iff by (auto simp: foldl_scan_flat)
qed

lemma group_ok_member:
  "group_ok g \<Longrightarrow> instance_ok (member g) \<and> ip_GroupName (member g) \<noteq> []"
  by (auto simp: group_ok_def member_def instance_ok_def split: option.splits)

lemma instance_ok_addr:
  "instance_ok i \<Longrightarrow> instance_ok j \<Longrightarrow> addr_of i = addr_of j \<longleftrightarrow> ip_Host i = ip_Host j \<and> ip_Port i = ip_Port j"
  using validated_address_inj by (auto simp: instance_ok_def addr_of_def instanceAddress_def)

text \<open>So the insert of an accepted pool into an empty table meets no unique key.\<close>

lemma validateGroups_keys:
  assumes "validateGroups gs = Inr flat"
  shows "instance_keys_ok flat \<and> flat \<noteq> [] \<and> (\<forall>i\<in>set flat. instance_ok i \<and> ip_GroupName i \<noteq> [])"
proof -
  from assms have ok: "\<forall>i\<in>set flat. instance_ok i \<and> ip_GroupName i \<noteq> []"
    and d: "distinct (map ip_ID flat)" "distinct (map addr_of flat)" "flat \<noteq> []"
    by (auto simp: validateGroups_iff list_all_iff dest!: group_ok_member)
  have "distinct (map (\<lambda>i. (ip_Host i, ip_Port i)) flat)"
    using d(2) ok instance_ok_addr unfolding distinct_map inj_on_def
    by (metis (no_types, lifting) Pair_inject)
  with ok d show ?thesis by (simp add: instance_keys_ok_def)
qed


section \<open>The order of the rows does not matter\<close>

lemma sort_key_unique:
  assumes "set xs = set ys" and "distinct (map f xs)" and "distinct (map f ys)"
  shows "sort_key f xs = sort_key f ys"
  using assms
  by (intro map_sorted_distinct_set_unique [of f])
     (auto simp: distinct_map inj_on_def)

lemma buildPool_perm:
  assumes "set xs = set ys" and "distinct (map ip_ID xs)" and "distinct (map ip_ID ys)"
  shows "buildPool n xs = buildPool n ys"
proof -
  have "sort_key ip_ID (filter (\<lambda>i. ip_GroupName i = g) xs) = sort_key ip_ID (filter (\<lambda>i. ip_GroupName i = g) ys)"
    for g using assms by (intro sort_key_unique) (auto simp: distinct_map_filter)
  with assms(1) show ?thesis by (simp add: buildPool_spec)
qed

lemma where_no_filter [simp]: "where_instance no_filter i"
  by (simp add: where_instance_def no_filter_def)

lemma set_TEppInstanceList [simp]: "set (TEppInstanceList f rs) = {r \<in> set rs. where_instance f r}"
  by (auto simp: TEppInstanceList_def)

lemma mset_TEppInstanceList_all [simp]: "mset (TEppInstanceList no_filter rs) = mset rs"
  by (simp add: TEppInstanceList_def)

lemma distinct_TEppInstanceList:
  "distinct (map ip_ID rs) \<Longrightarrow> distinct (map ip_ID (TEppInstanceList no_filter rs))"
  by (metis mset_TEppInstanceList_all mset_eq_imp_distinct_iff mset_map)

lemma TEppInstanceList_empty [simp]: "TEppInstanceList no_filter rs = [] \<longleftrightarrow> rs = []"
  by (metis mset_TEppInstanceList_all mset_zero_iff)

text \<open>Every reader of the pool sees the grouping of the table, whatever order the rows are in.\<close>

lemma buildPool_stored:
  "instance_keys_ok rs \<Longrightarrow> buildPool n (TEppInstanceList no_filter rs) = buildPool n rs"
  by (rule buildPool_perm) (auto simp: instance_keys_ok_def distinct_TEppInstanceList)

lemma run_GetPool:
  "faults w = [] \<Longrightarrow> instance_keys_ok (instances (db w)) \<Longrightarrow>
   run_state (GetPool m) w =
     (if instances (db w) = [] then Inl (ErrRecordNotExist ''epp pool'')
      else Inr (buildPool (em_poolName m) (instances (db w))), w)"
  by (simp add: GetPool_def buildPool_stored)

text \<open>With one instance per group the pool is the list of the instances by group name.\<close>

lemma buildPool_singletons:
  assumes "distinct (map ip_GroupName xs)"
  shows "ep_Groups (buildPool n xs) =
    map (\<lambda>i. \<lparr>ig_Name = ip_GroupName i, ig_Instances = [i]\<rparr>) (sort_key ip_GroupName xs)"
proof -
  have one: "filter (\<lambda>j. ip_GroupName j = ip_GroupName i) xs = [i]" if "i \<in> set xs" for i
    using assms that by (induction xs) (auto simp: filter_empty_conv image_iff)
  have names: "sorted_list_of_set (ip_GroupName ` set xs) = map ip_GroupName (sort_key ip_GroupName xs)"
    by (rule sorted_distinct_set_unique)
       (use assms in \<open>auto simp: distinct_map inj_on_def\<close>)
  show ?thesis
    unfolding buildPool_spec names by (simp add: one cong: map_cong)
qed

end
