(* ===== verification/EppAlloc.thy ===== *)
theory EppAlloc
  imports EppPool
begin

text \<open>
  The allocator of \<^verbatim>\<open>model/epp_pool/assignment.go\<close> and the assignment view, as pure functions of a
  pool and a list of assignments: which assignment is valid, which group the greedy choice takes,
  what a repair decides, and the join that the API and the export show.
\<close>

section \<open>Lookups\<close>

definition groupMap :: "EppPool \<Rightarrow> string \<rightharpoonup> InstanceGroup" where
  "groupMap pool = foldl (\<lambda>m g. m(ig_Name g \<mapsto> g)) Map.empty (ep_Groups pool)"

definition findValidAssignment ::
  "EppPool \<Rightarrow> AssignmentParam list \<Rightarrow> string \<Rightarrow> AssignmentParam option" where
  "findValidAssignment pool as clusterName =
     (case List.find (\<lambda>a. ap_Cluster a = clusterName) as of
        None \<Rightarrow> None
      | Some a \<Rightarrow> (case groupMap pool (ap_GroupName a) of
                     None \<Rightarrow> None
                   | Some g \<Rightarrow> if ig_Instances g = [] then None else Some a))"

definition findGroup :: "EppPool \<Rightarrow> string \<Rightarrow> InstanceGroup option" where
  "findGroup pool groupName = List.find (\<lambda>g. ig_Name g = groupName) (ep_Groups pool)"

section \<open>The greedy choice\<close>

definition candidateGroups :: "EppPool \<Rightarrow> InstanceGroup list" where
  "candidateGroups pool = sort_key ig_Name (ep_Groups pool)"

definition countGroupAssignments :: "AssignmentParam list \<Rightarrow> string \<Rightarrow> nat" where
  "countGroupAssignments as =
     foldl (\<lambda>counts a. counts(ap_GroupName a := counts (ap_GroupName a) + 1)) (\<lambda>_. 0) as"

definition select_step ::
  "(string \<Rightarrow> nat) \<Rightarrow> InstanceGroup \<times> nat \<Rightarrow> InstanceGroup \<Rightarrow> InstanceGroup \<times> nat" where
  "select_step loads sel g =
     (let load = loads (ig_Name g) in
      if load < snd sel \<or> load = snd sel \<and> ig_Name g < ig_Name (fst sel) then (g, load) else sel)"

definition allocateCluster ::
  "EppPool \<Rightarrow> AssignmentParam list \<Rightarrow> string \<Rightarrow> error + AssignmentParam" where
  "allocateCluster pool as clusterName =
     (case candidateGroups pool of
        [] \<Rightarrow> Inl (ErrModel ''epp pool has no assignable instance group'')
      | c # cs \<Rightarrow>
          (let loads = countGroupAssignments as;
               sel = foldl (select_step loads) (c, loads (ig_Name c)) cs
           in Inr \<lparr>ap_Cluster = clusterName, ap_GroupName = ig_Name (fst sel)\<rparr>))"

section \<open>Repair\<close>

datatype repairAction = repairKeep | repairReallocate | repairClear

definition repairOne ::
  "EppPool \<Rightarrow> AssignmentParam list \<Rightarrow> AssignmentParam \<Rightarrow> AssignmentParam option \<times> repairAction" where
  "repairOne pool as a =
     (if findValidAssignment pool as (ap_Cluster a) \<noteq> None then (Some a, repairKeep)
      else case allocateCluster pool as (ap_Cluster a) of
             Inl _ \<Rightarrow> (None, repairClear)
           | Inr r \<Rightarrow> (Some r, repairReallocate))"

section \<open>The assignment view\<close>

record ClusterAssignmentView =
  cav_Cluster :: string
  cav_Group :: "string option"

record AssignmentsView =
  av_Clusters :: "ClusterAssignmentView list"
  av_UnassignedClusters :: "string list"
  av_IdleGroups :: "string list"

definition assignmentMap :: "AssignmentParam list \<Rightarrow> string \<rightharpoonup> AssignmentParam" where
  "assignmentMap as = foldl (\<lambda>m a. m(ap_Cluster a \<mapsto> a)) Map.empty as"

text \<open>The group a cluster is shown with; \<open>None\<close> when it is unassigned or its group is gone.\<close>

definition shown_group :: "EppPool \<Rightarrow> AssignmentParam list \<Rightarrow> string \<Rightarrow> string option" where
  "shown_group pool as c =
     (case assignmentMap as c of
        None \<Rightarrow> None
      | Some a \<Rightarrow> (case groupMap pool (ap_GroupName a) of
                     None \<Rightarrow> None
                   | Some g \<Rightarrow> if ig_Instances g = [] then None else Some (ap_GroupName a)))"

fun view_clusters ::
  "EppPool \<Rightarrow> AssignmentParam list \<Rightarrow> EPPClusterInfo list \<Rightarrow> AssignmentsView \<Rightarrow> AssignmentsView" where
  "view_clusters pool as [] v = v"
| "view_clusters pool as (c # cs) v =
     view_clusters pool as cs
       (case shown_group pool as (ec_Name c) of
          Some g \<Rightarrow> v\<lparr>av_Clusters := av_Clusters v @ [\<lparr>cav_Cluster = ec_Name c, cav_Group = Some g\<rparr>]\<rparr>
        | None \<Rightarrow> v\<lparr>av_UnassignedClusters := av_UnassignedClusters v @ [ec_Name c]\<rparr>)"

definition buildAssignmentsView ::
  "EppPool \<Rightarrow> EPPClusterInfo list \<Rightarrow> AssignmentParam list \<Rightarrow> AssignmentsView" where
  "buildAssignmentsView pool cs as =
     (let v = view_clusters pool as (sort_key ec_Name cs)
                \<lparr>av_Clusters = [], av_UnassignedClusters = [], av_IdleGroups = []\<rparr>;
          occupied = map cav_Group (av_Clusters v)
      in v\<lparr>av_IdleGroups :=
             sort (filter (\<lambda>g. Some g \<notin> set occupied) (map ig_Name (ep_Groups pool)))\<rparr>)"

section \<open>Lookups in a built pool\<close>

lemma foldl_map_upd:
  "foldl (\<lambda>m x. m(k x \<mapsto> x)) m xs = (\<lambda>y. case List.find (\<lambda>x. k x = y) (rev xs) of Some x \<Rightarrow> Some x | None \<Rightarrow> m y)"
  by (induction xs arbitrary: m rule: rev_induct) (auto simp: fun_eq_iff)

lemma find_rev_distinct:
  "distinct (map k xs) \<Longrightarrow> List.find (\<lambda>x. k x = y) (rev xs) = List.find (\<lambda>x. k x = y) xs"
proof (induction xs)
  case (Cons a xs)
  then show ?case
    by (cases "List.find (\<lambda>x. k x = y) xs") (auto simp: find_append_snoc dest!: find_Some_in)
qed simp

lemma assignmentMap_lookup:
  "wf_assignments as \<Longrightarrow> assignmentMap as c = lookup_assignment as c"
  by (simp add: assignmentMap_def foldl_map_upd wf_assignments_def find_rev_distinct
      lookup_assignment_def TEppAssignmentOne_def split: option.splits)

lemma groupMap_built:
  "(\<exists>g. groupMap (buildPool n xs) c = Some g) \<longleftrightarrow> c \<in> ip_GroupName ` set xs"
  "groupMap (buildPool n xs) c = Some g \<Longrightarrow> ig_Instances g \<noteq> [] \<and> ig_Name g = c \<and> g \<in> set (ep_Groups (buildPool n xs))"
proof -
  have d: "distinct (map ig_Name (ep_Groups (buildPool n xs)))" by (simp add: buildPool_names)
  have m: "groupMap (buildPool n xs) c = List.find (\<lambda>g. ig_Name g = c) (ep_Groups (buildPool n xs))" for c
    by (simp add: groupMap_def foldl_map_upd find_rev_distinct [OF d] split: option.splits)
  show "(\<exists>g. groupMap (buildPool n xs) c = Some g) \<longleftrightarrow> c \<in> ip_GroupName ` set xs"
    unfolding m buildPool_names_set [of n, symmetric]
    by (metis (mono_tags, lifting) find_None_iff find_Some_in image_iff not_None_eq)
  show "groupMap (buildPool n xs) c = Some g \<Longrightarrow> ig_Instances g \<noteq> [] \<and> ig_Name g = c \<and> g \<in> set (ep_Groups (buildPool n xs))"
    unfolding m using buildPool_group by (blast dest!: find_Some_in)
qed

text \<open>An assignment is valid when its group has an instance in the table.\<close>

definition valid_group :: "InstanceParam list \<Rightarrow> string \<Rightarrow> bool" where
  "valid_group xs g \<longleftrightarrow> g \<in> ip_GroupName ` set xs"

lemma groupMap_case:
  "(case groupMap (buildPool n xs) g of None \<Rightarrow> None | Some x \<Rightarrow> if ig_Instances x = [] then None else Some y) =
   (if valid_group xs g then Some y else None)"
  using groupMap_built [of n xs g] by (auto simp: valid_group_def split: option.splits)

lemma findValidAssignment_built:
  "findValidAssignment (buildPool n xs) as c =
     (case List.find (\<lambda>a. ap_Cluster a = c) as of
        None \<Rightarrow> None | Some a \<Rightarrow> if valid_group xs (ap_GroupName a) then Some a else None)"
  unfolding findValidAssignment_def groupMap_case ..

lemma shown_group_built:
  "wf_assignments as \<Longrightarrow> shown_group (buildPool n xs) as c =
     (case lookup_assignment as c of
        None \<Rightarrow> None | Some a \<Rightarrow> if valid_group xs (ap_GroupName a) then Some (ap_GroupName a) else None)"
  unfolding shown_group_def groupMap_case by (simp add: assignmentMap_lookup)

lemma find_by_name:
  "List.find (\<lambda>x. ig_Name x = g) (map (\<lambda>g. \<lparr>ig_Name = g, ig_Instances = f g\<rparr>) gs) =
     (if g \<in> set gs then Some \<lparr>ig_Name = g, ig_Instances = f g\<rparr> else None)"
  by (induction gs) auto

lemma findGroup_built:
  "findGroup (buildPool n xs) g =
     (if valid_group xs g
      then Some \<lparr>ig_Name = g, ig_Instances = sort_key ip_ID (filter (\<lambda>i. ip_GroupName i = g) xs)\<rparr> else None)"
  by (simp add: findGroup_def buildPool_spec find_by_name valid_group_def)

section \<open>The greedy choice is a least load\<close>

definition load :: "AssignmentParam list \<Rightarrow> string \<Rightarrow> nat" where
  "load as g = length (filter (\<lambda>a. ap_GroupName a = g) as)"

lemma countGroupAssignments_load: "countGroupAssignments as = load as"
  unfolding countGroupAssignments_def
  by (induction as rule: rev_induct) (auto simp: load_def fun_eq_iff)

text \<open>The choice: least load first, then the least name.\<close>

definition best_group :: "(string \<Rightarrow> nat) \<Rightarrow> string set \<Rightarrow> string \<Rightarrow> bool" where
  "best_group loads G g \<longleftrightarrow> g \<in> G \<and> (\<forall>h\<in>G. loads g < loads h \<or> loads g = loads h \<and> g \<le> h)"

lemma best_group_unique: "best_group l G g \<Longrightarrow> best_group l G h \<Longrightarrow> g = h"
  unfolding best_group_def by (metis less_irrefl less_trans order_antisym)

lemma select_best:
  assumes "best_group l (ig_Name ` set ds) (ig_Name (fst s))" and "snd s = l (ig_Name (fst s))"
  shows "best_group l (ig_Name ` set (ds @ cs)) (ig_Name (fst (foldl (select_step l) s cs)))"
  using assms
proof (induction cs arbitrary: ds s)
  case (Cons c cs)
  let ?s = "select_step l s c"
  have "best_group l (ig_Name ` set (ds @ [c])) (ig_Name (fst ?s)) \<and> snd ?s = l (ig_Name (fst ?s))"
    using Cons.prems unfolding best_group_def select_step_def Let_def
    by (auto simp: not_less)
  then show ?case using Cons.IH [of "ds @ [c]" ?s] by simp
qed simp

lemma allocateCluster_best:
  assumes "xs \<noteq> []"
  shows "\<exists>g. best_group (load as) (ip_GroupName ` set xs) g \<and>
    allocateCluster (buildPool n xs) as c = Inr \<lparr>ap_Cluster = c, ap_GroupName = g\<rparr>"
proof -
  let ?cs = "candidateGroups (buildPool n xs)"
  have names: "ig_Name ` set ?cs = ip_GroupName ` set xs"
    using buildPool_names_set [of n xs] by (simp add: candidateGroups_def)
  then obtain d ds where cs: "?cs = d # ds" using assms by (cases ?cs) auto
  let ?g = "ig_Name (fst (foldl (select_step (load as)) (d, load as (ig_Name d)) ds))"
  have "best_group (load as) (ig_Name ` set ([d] @ ds)) ?g"
    by (rule select_best) (simp_all add: best_group_def)
  then have "best_group (load as) (ip_GroupName ` set xs) ?g" using names cs by simp
  then show ?thesis by (auto simp: allocateCluster_def cs Let_def countGroupAssignments_load)
qed

lemma allocateCluster_empty [simp]:
  "allocateCluster (buildPool n []) as c = Inl (ErrModel ''epp pool has no assignable instance group'')"
  by (simp add: allocateCluster_def candidateGroups_def buildPool_spec)

text \<open>The allocator takes the group of the least load, and among those the least name.\<close>

lemma allocateCluster_iff:
  "allocateCluster (buildPool n xs) as c = Inr a \<longleftrightarrow>
     ap_Cluster a = c \<and> best_group (load as) (ip_GroupName ` set xs) (ap_GroupName a)"
proof (cases "xs = []")
  case True
  then show ?thesis by (simp add: best_group_def)
next
  case False
  from allocateCluster_best [OF this, of as n c]
  obtain g where g: "best_group (load as) (ip_GroupName ` set xs) g"
    "allocateCluster (buildPool n xs) as c = Inr \<lparr>ap_Cluster = c, ap_GroupName = g\<rparr>" by blast
  have "best_group (load as) (ip_GroupName ` set xs) h \<longleftrightarrow> h = g" for h
    using g(1) best_group_unique by blast
  then show ?thesis unfolding g(2) by (cases a) (simp, blast)
qed

section \<open>The view\<close>

lemma view_clusters_spec:
  "view_clusters pool as cs v = v\<lparr>
     av_Clusters := av_Clusters v @
       concat (map (\<lambda>c. case shown_group pool as (ec_Name c) of None \<Rightarrow> []
                        | Some g \<Rightarrow> [\<lparr>cav_Cluster = ec_Name c, cav_Group = Some g\<rparr>]) cs),
     av_UnassignedClusters := av_UnassignedClusters v @
       map ec_Name (filter (\<lambda>c. shown_group pool as (ec_Name c) = None) cs)\<rparr>"
  by (induction cs arbitrary: v) (auto split: option.split)

lemma view_Clusters:
  "v \<in> set (av_Clusters (buildAssignmentsView pool cs as)) \<longleftrightarrow>
     (\<exists>c\<in>set cs. \<exists>g. shown_group pool as (ec_Name c) = Some g \<and>
        v = \<lparr>cav_Cluster = ec_Name c, cav_Group = Some g\<rparr>)"
  by (force simp: buildAssignmentsView_def Let_def view_clusters_spec split: option.splits)

lemma view_find:
  assumes "\<exists>e\<in>set cs. ec_Name e = c" and "shown_group pool as c = Some g"
  shows "List.find (\<lambda>e. cav_Cluster e = c) (av_Clusters (buildAssignmentsView pool cs as)) =
    Some \<lparr>cav_Cluster = c, cav_Group = Some g\<rparr>"
proof -
  have all: "\<forall>v\<in>set (av_Clusters (buildAssignmentsView pool cs as)). cav_Cluster v = c \<longrightarrow>
      v = \<lparr>cav_Cluster = c, cav_Group = Some g\<rparr>"
    using assms(2) by (auto simp: view_Clusters)
  have "\<exists>v\<in>set (av_Clusters (buildAssignmentsView pool cs as)). cav_Cluster v = c"
    using assms by (force simp: view_Clusters)
  then obtain v where v: "List.find (\<lambda>e. cav_Cluster e = c) (av_Clusters (buildAssignmentsView pool cs as)) = Some v"
    by (metis (mono_tags, lifting) find_None_iff not_None_eq)
  with all find_Some_in [OF v] show ?thesis by auto
qed

lemma view_Unassigned:
  "av_UnassignedClusters (buildAssignmentsView pool cs as) =
     map ec_Name (filter (\<lambda>c. shown_group pool as (ec_Name c) = None) (sort_key ec_Name cs))"
  by (simp add: buildAssignmentsView_def Let_def view_clusters_spec)

lemma view_Idle_set:
  "g \<in> set (av_IdleGroups (buildAssignmentsView pool cs as)) \<longleftrightarrow>
     g \<in> ig_Name ` set (ep_Groups pool) \<and> (\<forall>c\<in>set cs. shown_group pool as (ec_Name c) \<noteq> Some g)"
proof -
  have "Some g \<in> cav_Group ` set (av_Clusters (view_clusters pool as (sort_key ec_Name cs)
           \<lparr>av_Clusters = [], av_UnassignedClusters = [], av_IdleGroups = []\<rparr>)) \<longleftrightarrow>
        (\<exists>c\<in>set cs. shown_group pool as (ec_Name c) = Some g)"
    by (force simp: view_clusters_spec split: option.splits)
  then show ?thesis by (auto simp: buildAssignmentsView_def Let_def)
qed

end
