(* ===== verification/EppExport.thy ===== *)
theory EppExport
  imports EppAlloc
begin

text \<open>
  The versioned export of the EPP data: the framework of \<^verbatim>\<open>model/iversion_control\<close> with its storage
  (\<^verbatim>\<open>storage/rdb/version_control\<close>), which publishes a new version of a topic only when the digest of the
  data changed, and the generator and triggers of \<^verbatim>\<open>model/epp_pool/epp_data.go\<close>.
\<close>

section \<open>The versions of a topic\<close>

definition topic_versions :: "string \<Rightarrow> TConfigVersion table \<Rightarrow> TConfigVersion list" where
  "topic_versions topic t = filter (\<lambda>r. cv_Name r = topic) (rows t)"

text \<open>\<^verbatim>\<open>ORDER BY version DESC, id DESC LIMIT 1\<close>.\<close>

definition latestConfigVersion :: "string \<Rightarrow> TConfigVersion table \<Rightarrow> TConfigVersion option" where
  "latestConfigVersion topic t =
     (case rev (sort_key cv_Version (sort_key cv_ID (topic_versions topic t))) of
        [] \<Rightarrow> None | r # _ \<Rightarrow> Some r)"

definition TConfigVersionCreate ::
  "string \<Rightarrow> string \<Rightarrow> string \<Rightarrow> string \<Rightarrow> TConfigVersion table \<Rightarrow> (error + int) \<times> TConfigVersion table" where
  "TConfigVersionCreate dupMsg name sign version t =
     (if \<exists>r\<in>set (rows t). cv_Name r = name \<and> cv_Version r = version then (Inl (ErrMsg dupMsg), t)
      else (Inr (next_id t),
            t\<lparr>rows := rows t @ [\<lparr>cv_ID = next_id t, cv_Name = name, cv_DataSign = sign, cv_Version = version\<rparr>],
              next_id := next_id t + 1\<rparr>))"

definition bumpVersion :: "EppPoolManager \<Rightarrow> string \<Rightarrow> string \<Rightarrow> string" where
  "bumpVersion m latest candidate =
     (case em_succ m latest of
        None \<Rightarrow> candidate
      | Some next' \<Rightarrow> if candidate < next' then next' else candidate)"

definition call_latestConfigVersion :: "string \<Rightarrow> TConfigVersion option epp" where
  "call_latestConfigVersion topic =
     ext_call (\<lambda>w. (Inr (latestConfigVersion topic (config_versions (db w))), w))"

definition call_TConfigVersionCreate :: "string \<Rightarrow> string \<Rightarrow> string \<Rightarrow> int epp" where
  "call_TConfigVersionCreate name sign version =
     ext_call (\<lambda>w. let (r, t) = TConfigVersionCreate (db_duplicateMsg w) name sign version (config_versions (db w))
                   in (r, set_versions t w))"

text \<open>
  The retry loop with the number of tries left. After the last duplicate the function returns the
  error of the read that followed it, which is nil: the empty version without an error.
\<close>

fun upsert_version :: "EppPoolManager \<Rightarrow> nat \<Rightarrow> string \<Rightarrow> string \<Rightarrow> string \<Rightarrow> string epp" where
  "upsert_version m 0 topic sign version = returnE []"
| "upsert_version m (Suc n) topic sign version =
     State_Monad.bind (call_TConfigVersionCreate topic sign version) (\<lambda>r.
       case r of
         Inr _ \<Rightarrow> returnE version
       | Inl e \<Rightarrow>
           if \<not> DuplicateEntryError e then throwE e
           else bindE (call_latestConfigVersion topic) (\<lambda>latest.
             case latest of
               None \<Rightarrow> returnE []
             | Some l \<Rightarrow>
                 if cv_DataSign l = sign then returnE (cv_Version l)
                 else upsert_version m n topic sign (bumpVersion m (cv_Version l) version)))"

definition maxDuplicateRetries :: nat where "maxDuplicateRetries = 3"

definition UpsertConfigLastExportedVersion :: "EppPoolManager \<Rightarrow> string \<Rightarrow> string \<Rightarrow> string epp" where
  "UpsertConfigLastExportedVersion m topic sign =
     bindE (call_latestConfigVersion topic) (\<lambda>latest.
       case latest of
         None \<Rightarrow> upsert_version m maxDuplicateRetries topic sign (em_now m)
       | Some l \<Rightarrow>
           if cv_DataSign l = sign then returnE (cv_Version l)
           else upsert_version m maxDuplicateRetries topic sign (bumpVersion m (cv_Version l) (em_now m)))"

text \<open>
  \<^verbatim>\<open>VersionControlManager.ExportConfig\<close>: generate, sign, look up or publish the version, in one
  transaction. The digest is taken with the zero version in place, so it depends on the body only.
\<close>

definition ExportConfig ::
  "EppPoolManager \<Rightarrow> string \<Rightarrow> EppDataConfig epp \<Rightarrow> ExportEppDataConfig epp" where
  "ExportConfig m topic generator =
     AtomExecute (bindE generator (\<lambda>conf.
       bindE (UpsertConfigLastExportedVersion m topic (em_sign m conf)) (\<lambda>v.
         returnE \<lparr>ex_Version = v, ex_Config = conf\<rparr>)))"

section \<open>The EPP data\<close>

definition ConfigTopicEppData :: string where "ConfigTopicEppData = ''epp_data''"

fun compile_clusters ::
  "EppPoolManager \<Rightarrow> EPPClusterInfo list \<Rightarrow> (string \<rightharpoonup> EndpointPickerConfig) \<Rightarrow>
   error + (string \<rightharpoonup> EndpointPickerConfig)" where
  "compile_clusters m [] acc = Inr acc"
| "compile_clusters m (c # cs) acc =
     (case ParseEppConfig (em_decode m) (ec_EppConfigJSON c) of
        Inl e \<Rightarrow> Inl (ErrMsg ''epp pool: parse epp_config error'')
      | Inr None \<Rightarrow> Inl (ErrMsg ''epp pool: cluster is in EPP mode but has no epp_config'')
      | Inr (Some s) \<Rightarrow> compile_clusters m cs (acc(ec_Name c \<mapsto> CompileEppConfig (ec_Name c) s)))"

definition view_assignment :: "AssignmentsView \<Rightarrow> string \<rightharpoonup> string" where
  "view_assignment v =
     foldl (\<lambda>m e. case cav_Group e of None \<Rightarrow> m | Some g \<Rightarrow> m(cav_Cluster e \<mapsto> g)) Map.empty (av_Clusters v)"

definition EppDataGenerator :: "EppPoolManager \<Rightarrow> EppDataConfig epp" where
  "EppDataGenerator m =
     (if \<not> em_clusterSource m then throwE (ErrMsg ''epp pool: cluster source is not configured'')
      else bindE FetchEPPClusters (\<lambda>cs.
        bindE (FetchInstanceList no_filter) (\<lambda>insts.
          let pool = buildPool (em_poolName m) insts in
          bindE FetchAssignmentList (\<lambda>as.
            bindE (lift_err (compile_clusters m cs Map.empty)) (\<lambda>compiled.
              returnE \<lparr>ed_EppConfig = compiled,
                       ed_Assignment = view_assignment (buildAssignmentsView pool cs as)\<rparr>)))))"

definition ExportEppData :: "EppPoolManager \<Rightarrow> string \<Rightarrow> ExportEppDataConfig option epp" where
  "ExportEppData m lastVersion =
     (if \<not> em_versionControl m then throwE (ErrMsg ''epp pool: version control manager is not configured'')
      else bindE (ExportConfig m ConfigTopicEppData (EppDataGenerator m)) (\<lambda>conf.
        returnE (if ex_Version conf = lastVersion then None else Some conf)))"

definition triggerEppDataExport :: "EppPoolManager \<Rightarrow> unit epp" where
  "triggerEppDataExport m =
     (if \<not> em_versionControl m then returnE () else ignoreE (ExportEppData m []))"


section \<open>The latest version\<close>

lemma latest_max:
  "latestConfigVersion topic t = Some l \<Longrightarrow>
     l \<in> set (topic_versions topic t) \<and> (\<forall>r\<in>set (topic_versions topic t). cv_Version r \<le> cv_Version l)"
proof -
  let ?xs = "sort_key cv_Version (sort_key cv_ID (topic_versions topic t))"
  assume "latestConfigVersion topic t = Some l"
  then obtain ys where "rev ?xs = l # ys" by (auto simp: latestConfigVersion_def split: list.splits)
  then have x: "?xs = rev ys @ [l]" by (metis rev.simps(2) rev_rev_ident)
  then have s: "set (topic_versions topic t) = set ys \<union> {l}"
    by (metis Un_commute insert_is_Un list.simps(15) rev.simps(2) set_rev set_sort)
  have "sorted (map cv_Version (rev ys @ [l]))" using x by (metis sorted_sort_key)
  then have "\<forall>r\<in>set ys. cv_Version r \<le> cv_Version l" by (simp add: sorted_append)
  with s show ?thesis by auto
qed

lemma latest_none_iff: "latestConfigVersion topic t = None \<longleftrightarrow> topic_versions topic t = []"
  by (auto simp: latestConfigVersion_def split: list.splits)
     (metis Nil_is_rev_conv length_0_conv length_sort)

text \<open>A row above all rows of its topic becomes the latest.\<close>

lemma latest_append:
  assumes "\<forall>r\<in>set (topic_versions topic t). cv_Version r < cv_Version n" and "cv_Name n = topic"
  shows "latestConfigVersion topic (t\<lparr>rows := rows t @ [n], next_id := i\<rparr>) = Some n"
proof -
  let ?t = "t\<lparr>rows := rows t @ [n], next_id := i\<rparr>"
  have v: "topic_versions topic ?t = topic_versions topic t @ [n]"
    using assms(2) by (simp add: topic_versions_def)
  then have "latestConfigVersion topic ?t \<noteq> None" by (simp add: latest_none_iff)
  then obtain l where l: "latestConfigVersion topic ?t = Some l" by blast
  from latest_max [OF this] v have "l \<in> set (topic_versions topic t) \<union> {n}" "cv_Version n \<le> cv_Version l"
    by auto
  with assms(1) have "l = n" by (auto dest: leD)
  with l show ?thesis by simp
qed

section \<open>Publishing without faults\<close>

text \<open>
  What the bump relies on: the text of the next second is above the text it was computed from. The
  version texts of the topic parse.
\<close>

definition clock_ok :: "EppPoolManager \<Rightarrow> string \<Rightarrow> TConfigVersion table \<Rightarrow> bool" where
  "clock_ok m topic t \<longleftrightarrow>
     (\<forall>r\<in>set (topic_versions topic t). \<exists>v. em_succ m (cv_Version r) = Some v \<and> cv_Version r < v)"

lemma bumpVersion_above:
  "em_succ m v = Some v' \<Longrightarrow> v < v' \<Longrightarrow> v < bumpVersion m v cand"
  by (auto simp: bumpVersion_def)

definition published :: "string \<Rightarrow> string \<Rightarrow> string \<Rightarrow> TConfigVersion table \<Rightarrow> TConfigVersion table" where
  "published topic sign v t =
     t\<lparr>rows := rows t @ [\<lparr>cv_ID = next_id t, cv_Name = topic, cv_DataSign = sign, cv_Version = v\<rparr>],
       next_id := next_id t + 1\<rparr>"

lemma run_create_fresh:
  assumes "faults w = []" and "\<forall>r\<in>set (topic_versions topic (config_versions (db w))). cv_Version r < v"
  shows "run_state (upsert_version m (Suc n) topic sign v) w =
    (Inr v, set_versions (published topic sign v (config_versions (db w))) w)"
proof -
  have "\<not> (\<exists>r\<in>set (rows (config_versions (db w))). cv_Name r = topic \<and> cv_Version r = v)"
    using assms(2) by (auto simp: topic_versions_def)
  then have "TConfigVersionCreate msg topic sign v (config_versions (db w)) =
      (Inr (next_id (config_versions (db w))), published topic sign v (config_versions (db w)))" for msg
    unfolding TConfigVersionCreate_def published_def by (simp only: if_False)
  then show ?thesis using assms(1) by (simp add: call_TConfigVersionCreate_def)
qed

lemma run_Upsert_changed:
  assumes "faults w = []" and "clock_ok m topic (config_versions (db w))"
    and "\<And>l. latestConfigVersion topic (config_versions (db w)) = Some l \<Longrightarrow> cv_DataSign l \<noteq> sign"
  shows "\<exists>v. run_state (UpsertConfigLastExportedVersion m topic sign) w =
      (Inr v, set_versions (published topic sign v (config_versions (db w))) w) \<and>
    (\<forall>r\<in>set (topic_versions topic (config_versions (db w))). cv_Version r < v)"
proof (cases "latestConfigVersion topic (config_versions (db w))")
  case None
  then have "topic_versions topic (config_versions (db w)) = []" by (simp add: latest_none_iff)
  then show ?thesis using assms(1) None
    by (auto simp: UpsertConfigLastExportedVersion_def call_latestConfigVersion_def maxDuplicateRetries_def
        numeral_3_eq_3 run_create_fresh simp del: upsert_version.simps)
next
  case (Some l)
  let ?v = "bumpVersion m (cv_Version l) (em_now m)"
  from latest_max [OF Some] assms(2) have "cv_Version l < ?v"
    by (metis clock_ok_def bumpVersion_above)
  with latest_max [OF Some]
  have above: "\<forall>r\<in>set (topic_versions topic (config_versions (db w))). cv_Version r < ?v"
    by (meson le_less_trans)
  then show ?thesis using assms(1,3) Some
    by (auto simp: UpsertConfigLastExportedVersion_def call_latestConfigVersion_def maxDuplicateRetries_def
        numeral_3_eq_3 run_create_fresh simp del: upsert_version.simps)
qed

lemma run_Upsert_unchanged:
  assumes "faults w = []" and "latestConfigVersion topic (config_versions (db w)) = Some l"
    and "cv_DataSign l = sign"
  shows "run_state (UpsertConfigLastExportedVersion m topic sign) w = (Inr (cv_Version l), w)"
  using assms by (simp add: UpsertConfigLastExportedVersion_def call_latestConfigVersion_def)

section \<open>The exported body\<close>

text \<open>What the generator computes from the tables.\<close>

definition epp_data :: "EppPoolManager \<Rightarrow> epp_db \<Rightarrow> error + EppDataConfig" where
  "epp_data m d =
     (let cs = epp_clusters (clusters d);
          pool = buildPool (em_poolName m) (TEppInstanceList no_filter (instances d))
      in case compile_clusters m cs Map.empty of
           Inl e \<Rightarrow> Inl e
         | Inr compiled \<Rightarrow>
             Inr \<lparr>ed_EppConfig = compiled,
                  ed_Assignment = view_assignment
                    (buildAssignmentsView pool cs (TEppAssignmentList (assignments d)))\<rparr>)"

lemma run_EppDataGenerator:
  "faults w = [] \<Longrightarrow> em_clusterSource m \<Longrightarrow> run_state (EppDataGenerator m) w = (epp_data m (db w), w)"
  by (auto simp: EppDataGenerator_def FetchEPPClusters_def epp_data_def Let_def split: sum.splits)

lemma epp_data_versions [simp]: "epp_data m (d\<lparr>config_versions := t\<rparr>) = epp_data m d"
  by (simp add: epp_data_def Let_def split: sum.split)

lemma run_ExportConfig_changed:
  assumes "faults w = []" "em_clusterSource m" "epp_data m (db w) = Inr conf"
    and "clock_ok m topic (config_versions (db w))"
    and "\<And>l. latestConfigVersion topic (config_versions (db w)) = Some l \<Longrightarrow> cv_DataSign l \<noteq> em_sign m conf"
  shows "\<exists>v. run_state (ExportConfig m topic (EppDataGenerator m)) w =
      (Inr \<lparr>ex_Version = v, ex_Config = conf\<rparr>,
       set_versions (published topic (em_sign m conf) v (config_versions (db w))) w) \<and>
    (\<forall>r\<in>set (topic_versions topic (config_versions (db w))). cv_Version r < v)"
proof -
  from run_Upsert_changed [OF assms(1,4,5)] obtain v where
    v: "run_state (UpsertConfigLastExportedVersion m topic (em_sign m conf)) w =
      (Inr v, set_versions (published topic (em_sign m conf) v (config_versions (db w))) w)"
    "\<forall>r\<in>set (topic_versions topic (config_versions (db w))). cv_Version r < v" by blast
  show ?thesis unfolding ExportConfig_def
    by (intro exI [of _ v] conjI run_AtomExecute_ok)
       (use assms v in \<open>simp_all add: run_EppDataGenerator\<close>)
qed

lemma run_ExportConfig_unchanged:
  assumes "faults w = []" "em_clusterSource m" "epp_data m (db w) = Inr conf"
    and "latestConfigVersion topic (config_versions (db w)) = Some l" "cv_DataSign l = em_sign m conf"
  shows "run_state (ExportConfig m topic (EppDataGenerator m)) w =
      (Inr \<lparr>ex_Version = cv_Version l, ex_Config = conf\<rparr>, w)"
  unfolding ExportConfig_def
  by (rule run_AtomExecute_ok)
     (use assms in \<open>simp_all add: run_EppDataGenerator run_Upsert_unchanged\<close>)

section \<open>An export changes nothing else\<close>

definition versions_blind :: "(epp_db \<Rightarrow> bool) \<Rightarrow> bool" where
  "versions_blind P \<longleftrightarrow> (\<forall>d t. P (d\<lparr>config_versions := t\<rparr>) = P d)"

lemma keeps_FetchEPPClusters [keeps_rules]: "keeps (tables P) FetchEPPClusters"
  by (simp add: FetchEPPClusters_def keeps_tables_call)

lemma keeps_EppDataGenerator [keeps_rules]: "keeps (tables P) (EppDataGenerator m)"
  unfolding EppDataGenerator_def Let_def by (intro keeps_rules)

lemma keeps_upsert_version:
  assumes "versions_blind P"
  shows "keeps (tables P) (upsert_version m n topic sign v)"
proof (induction n arbitrary: v)
  case (Suc n)
  have "keeps (tables P) (call_TConfigVersionCreate topic sign u)" for u
    unfolding call_TConfigVersionCreate_def
    by (rule keeps_tables_call) (use assms in \<open>auto simp: versions_blind_def split_beta Let_def\<close>)
  moreover have "keeps (tables P) (call_latestConfigVersion topic)"
    by (simp add: call_latestConfigVersion_def keeps_tables_call)
  ultimately show ?case using Suc by (auto intro!: keeps_rules)
qed (simp add: keeps_returnE)

lemma keeps_triggerEppDataExport:
  assumes "versions_blind P"
  shows "keeps (tables P) (triggerEppDataExport m)"
proof -
  have "keeps (tables P) (call_latestConfigVersion t)" for t
    by (simp add: call_latestConfigVersion_def keeps_tables_call)
  then have "keeps (tables P) (UpsertConfigLastExportedVersion m t s)" for t s
    unfolding UpsertConfigLastExportedVersion_def
    by (intro keeps_rules keeps_upsert_version assms)
  then show ?thesis
    unfolding triggerEppDataExport_def ExportEppData_def ExportConfig_def by (intro keeps_rules)
qed

lemma quiet_calls [simp]:
  "keeps quiet (call_latestConfigVersion t)" "keeps quiet FetchEPPClusters"
  "keeps quiet (FetchInstanceList f)" "keeps quiet FetchAssignmentList"
  "keeps quiet (call_TConfigVersionCreate t s v)"
  by (simp_all add: call_latestConfigVersion_def FetchEPPClusters_def FetchInstanceList_def
      FetchAssignmentList_def call_TConfigVersionCreate_def keeps_quiet_call split_beta Let_def)

lemma quiet_upsert_version: "keeps quiet (upsert_version m n topic sign v)"
  by (induction n arbitrary: v) (auto intro!: keeps_rules)

lemma quiet_triggerEppDataExport: "keeps quiet (triggerEppDataExport m)"
proof -
  have g: "keeps quiet (EppDataGenerator m)"
    unfolding EppDataGenerator_def Let_def by (intro keeps_rules quiet_calls)
  have u: "keeps quiet (UpsertConfigLastExportedVersion m t s)" for t s
    unfolding UpsertConfigLastExportedVersion_def
    by (intro keeps_rules quiet_upsert_version quiet_calls)
  show ?thesis unfolding triggerEppDataExport_def ExportEppData_def ExportConfig_def
    by (intro keeps_rules keeps_quiet_AtomExecute g u)
qed

text \<open>A trigger never fails and, without faults, leaves all tables but the versions.\<close>

definition same_tables :: "epp_db \<Rightarrow> epp_db \<Rightarrow> bool" where
  "same_tables d d' \<longleftrightarrow>
     instances d' = instances d \<and> assignments d' = assignments d \<and> clusters d' = clusters d"

lemma run_triggerEppDataExport:
  assumes "faults w = []"
  shows "\<exists>w'. run_state (triggerEppDataExport m) w = (Inr (), w') \<and> faults w' = [] \<and>
    same_tables (db w) (db w')"
proof -
  let ?w = "snd (run_state (triggerEppDataExport m) w)"
  have "versions_blind (same_tables (db w))" by (simp add: versions_blind_def same_tables_def)
  from keepsD [OF keeps_triggerEppDataExport [OF this], of w m]
  have "same_tables (db w) (db ?w)" by (simp add: tables_def same_tables_def)
  moreover have "faults ?w = []"
    using keepsD [OF quiet_triggerEppDataExport, of w m] assms by (simp add: quiet_def)
  moreover have "fst (run_state (triggerEppDataExport m) w) = Inr ()"
    by (simp add: triggerEppDataExport_def)
  ultimately show ?thesis by (metis prod.collapse)
qed

end
