(* ===== verification/EppAssign.thy ===== *)
theory EppAssign
  imports EppExport
begin

text \<open>
  The operations on assignments of \<^verbatim>\<open>model/epp_pool/assignment.go\<close>, the replacement of the pool of
  \<^verbatim>\<open>epp_pool.go\<close>, and the calls the cluster model makes (\<^verbatim>\<open>model/icluster_conf/epp.go\<close>); then what they
  keep under every fault and what they achieve without faults. The goroutine of \<^verbatim>\<open>reconciler.go\<close>
  only calls \<open>Reconcile\<close> again and again.
\<close>

section \<open>Operations\<close>

definition clear_assignment :: "string \<Rightarrow> unit epp" where
  "clear_assignment c = DeleteAssignment c"

definition allocateAndUpsert ::
  "EppPool \<Rightarrow> AssignmentParam list \<Rightarrow> string \<Rightarrow> unit epp" where
  "allocateAndUpsert pool as clusterName =
     (case allocateCluster pool as clusterName of
        Inl _ \<Rightarrow> clear_assignment clusterName
      | Inr a \<Rightarrow>
          State_Monad.bind (AtomExecute (UpsertAssignment a)) (\<lambda>r.
            case r of
              Inr _ \<Rightarrow> returnE ()
            | Inl _ \<Rightarrow>
                bindE FetchAssignmentList (\<lambda>as'.
                  case allocateCluster pool as' clusterName of
                    Inl _ \<Rightarrow> clear_assignment clusterName
                  | Inr a' \<Rightarrow> AtomExecute (UpsertAssignment a'))))"

definition AssignCluster :: "EppPoolManager \<Rightarrow> string \<Rightarrow> unit epp" where
  "AssignCluster m clusterName =
     (if clusterName = [] then throwE (ErrParam ''cluster name is empty'')
      else bindE (FetchInstanceList no_filter) (\<lambda>insts.
        let pool = buildPool (em_poolName m) insts in
        bindE FetchAssignmentList (\<lambda>as.
          if findValidAssignment pool as clusterName \<noteq> None then returnE ()
          else allocateAndUpsert pool as clusterName)))"

text \<open>The endpoints and the flag \<^verbatim>\<open>found\<close>: \<open>None\<close> is a flag that is not set.\<close>

definition GetAssignmentEndpoints :: "EppPoolManager \<Rightarrow> string \<Rightarrow> string list option epp" where
  "GetAssignmentEndpoints m clusterName =
     (if clusterName = [] then throwE (ErrParam ''cluster name is empty'')
      else bindE (FetchInstanceList no_filter) (\<lambda>insts.
        let pool = buildPool (em_poolName m) insts in
        bindE FetchAssignmentList (\<lambda>as.
          case findValidAssignment pool as clusterName of
            None \<Rightarrow> returnE None
          | Some a \<Rightarrow>
              (case findGroup pool (ap_GroupName a) of
                 None \<Rightarrow> returnE None
               | Some g \<Rightarrow>
                   if ig_Instances g = [] then returnE None
                   else returnE (Some (map (\<lambda>i. instanceAddress (ip_Host i) (ip_Port i)) (ig_Instances g)))))))"

fun repair_loop ::
  "EppPool \<Rightarrow> AssignmentParam list \<Rightarrow> AssignmentParam list \<Rightarrow> bool \<Rightarrow> bool epp" where
  "repair_loop pool as [] changed = returnE changed"
| "repair_loop pool as (a # rest) changed =
     (case repairOne pool as a of
        (Some r, repairReallocate) \<Rightarrow>
          bindE (AtomExecute (UpsertAssignment r)) (\<lambda>_. repair_loop pool as rest True)
      | (_, repairClear) \<Rightarrow>
          bindE (AtomExecute (DeleteAssignment (ap_Cluster a))) (\<lambda>_. repair_loop pool as rest True)
      | (_, _) \<Rightarrow> repair_loop pool as rest changed)"

definition RepairDangling :: "EppPoolManager \<Rightarrow> unit epp" where
  "RepairDangling m =
     bindE (FetchInstanceList no_filter) (\<lambda>insts.
       let pool = buildPool (em_poolName m) insts in
       bindE FetchAssignmentList (\<lambda>fetched.
         let as = sort_key ap_Cluster fetched in
         bindE (repair_loop pool as as False) (\<lambda>changed.
           if changed then triggerEppDataExport m else returnE ())))"

fun reconcile_loop ::
  "EppPool \<Rightarrow> EPPClusterInfo list \<Rightarrow> AssignmentParam list \<Rightarrow> unit epp" where
  "reconcile_loop pool [] as = returnE ()"
| "reconcile_loop pool (c # cs) as =
     (if findValidAssignment pool as (ec_Name c) \<noteq> None then reconcile_loop pool cs as
      else bindE (allocateAndUpsert pool as (ec_Name c)) (\<lambda>_.
        bindE FetchAssignmentList (\<lambda>as'. reconcile_loop pool cs as')))"

definition Reconcile :: "EppPoolManager \<Rightarrow> unit epp" where
  "Reconcile m =
     (if \<not> em_clusterSource m then returnE ()
      else bindE (RepairDangling m) (\<lambda>_.
        bindE FetchEPPClusters (\<lambda>cs.
          if cs = [] then returnE ()
          else bindE (FetchInstanceList no_filter) (\<lambda>insts.
            let pool = buildPool (em_poolName m) insts in
            bindE FetchAssignmentList (\<lambda>as.
              reconcile_loop pool (sort_key ec_Name cs) as)))))"

definition GetAssignmentsView :: "EppPoolManager \<Rightarrow> AssignmentsView epp" where
  "GetAssignmentsView m =
     (if \<not> em_clusterSource m then throwE (ErrModel ''epp pool: cluster source is not configured'')
      else bindE FetchEPPClusters (\<lambda>cs.
        bindE (FetchInstanceList no_filter) (\<lambda>insts.
          let pool = buildPool (em_poolName m) insts in
          bindE FetchAssignmentList (\<lambda>as. returnE (buildAssignmentsView pool cs as)))))"

definition GetAssignmentView :: "EppPoolManager \<Rightarrow> string \<Rightarrow> ClusterAssignmentView epp" where
  "GetAssignmentView m clusterName =
     bindE (GetAssignmentsView m) (\<lambda>view.
       case List.find (\<lambda>e. cav_Cluster e = clusterName) (av_Clusters view) of
         Some e \<Rightarrow> returnE e
       | None \<Rightarrow> throwE (ErrRecordNotExist ''epp assignment''))"

definition OverrideAssignment ::
  "EppPoolManager \<Rightarrow> string \<Rightarrow> string \<Rightarrow> ClusterAssignmentView epp" where
  "OverrideAssignment m clusterName groupName =
     (if clusterName = [] then throwE (ErrParam ''cluster name is empty'')
      else if groupName = [] then throwE (ErrParam ''group_name is empty'')
      else if \<not> em_clusterSource m then throwE (ErrModel ''epp pool: cluster source is not configured'')
      else bindE FetchEPPClusters (\<lambda>cs.
        if \<not> list_ex (\<lambda>c. ec_Name c = clusterName) cs then throwE (ErrRecordNotExist ''epp assignment'')
        else bindE (FetchInstanceList \<lparr>if_ID = None, if_GroupName = Some groupName\<rparr>) (\<lambda>insts.
          if insts = [] then throwE (ErrParam ''epp pool group does not exist or is empty'')
          else bindE (AtomExecute (UpsertAssignment \<lparr>ap_Cluster = clusterName, ap_GroupName = groupName\<rparr>)) (\<lambda>_.
            bindE (triggerEppDataExport m) (\<lambda>_. GetAssignmentView m clusterName)))))"

definition replace_instances :: "InstanceParam list \<Rightarrow> unit epp" where
  "replace_instances flat =
     bindE (DeleteInstances no_filter) (\<lambda>_.
       if flat \<noteq> [] then bindE (CreateInstances flat) (\<lambda>_. returnE ()) else returnE ())"

definition PatchPool :: "EppPoolManager \<Rightarrow> group_request option list \<Rightarrow> EppPool epp" where
  "PatchPool m groups =
     bindE (lift_err (validateGroups groups)) (\<lambda>flat.
       bindE (AtomExecute (replace_instances flat)) (\<lambda>_.
         bindE (RepairDangling m) (\<lambda>_. GetPool m)))"

section \<open>Calls from the cluster model\<close>

definition assignClusterToEPP :: "EppPoolManager option \<Rightarrow> string \<Rightarrow> unit epp" where
  "assignClusterToEPP mgr clusterName =
     (case mgr of None \<Rightarrow> returnE () | Some m \<Rightarrow> ignoreE (AssignCluster m clusterName))"

text \<open>The addresses to export; \<open>None\<close> exports the cluster as WRR.\<close>

definition fetchEPPAssignmentAddrs :: "EppPoolManager option \<Rightarrow> string \<Rightarrow> string list option epp" where
  "fetchEPPAssignmentAddrs resolver clusterName =
     (case resolver of
        None \<Rightarrow> returnE None
      | Some m \<Rightarrow>
          State_Monad.bind (GetAssignmentEndpoints m clusterName) (\<lambda>r.
            case r of Inl _ \<Rightarrow> returnE None | Inr x \<Rightarrow> returnE x))"


section \<open>What every operation keeps under every fault\<close>

text \<open>A property of the tables that upserts and deletes of assignments and exports do not change.\<close>

definition assign_closed :: "(epp_db \<Rightarrow> bool) \<Rightarrow> bool" where
  "assign_closed P \<longleftrightarrow> versions_blind P \<and>
     (\<forall>d p. P d \<longrightarrow> P (d\<lparr>assignments := put_assignment p (assignments d)\<rparr>)) \<and>
     (\<forall>d c. P d \<longrightarrow> P (d\<lparr>assignments := del_assignment c (assignments d)\<rparr>))"

lemma keeps_Upsert_Delete:
  assumes "assign_closed P"
  shows "keeps (tables P) (UpsertAssignment p)" "keeps (tables P) (DeleteAssignment c)"
  using assms by (auto simp: assign_closed_def intro: keeps_UpsertAssignment keeps_DeleteAssignment)

lemma keeps_trigger:
  "assign_closed P \<Longrightarrow> keeps (tables P) (triggerEppDataExport m)"
  by (rule keeps_triggerEppDataExport) (simp add: assign_closed_def)

lemma keeps_allocateAndUpsert:
  "assign_closed P \<Longrightarrow> keeps (tables P) (allocateAndUpsert pool as c)"
  unfolding allocateAndUpsert_def clear_assignment_def
  by (intro keeps_rules keeps_Upsert_Delete)

lemma keeps_AssignCluster: "assign_closed P \<Longrightarrow> keeps (tables P) (AssignCluster m c)"
  unfolding AssignCluster_def Let_def by (intro keeps_rules keeps_allocateAndUpsert)

lemma keeps_repair_loop: "assign_closed P \<Longrightarrow> keeps (tables P) (repair_loop pool as todo ch)"
  by (induction todo arbitrary: ch)
     (auto intro!: keeps_rules keeps_Upsert_Delete split: prod.split option.split repairAction.split)

lemma keeps_RepairDangling: "assign_closed P \<Longrightarrow> keeps (tables P) (RepairDangling m)"
  unfolding RepairDangling_def Let_def by (intro keeps_rules keeps_repair_loop keeps_trigger)

lemma keeps_reconcile_loop: "assign_closed P \<Longrightarrow> keeps (tables P) (reconcile_loop pool cs as)"
  by (induction cs arbitrary: as) (auto intro!: keeps_rules keeps_allocateAndUpsert)

lemma keeps_Reconcile: "assign_closed P \<Longrightarrow> keeps (tables P) (Reconcile m)"
  unfolding Reconcile_def Let_def
  by (intro keeps_rules keeps_RepairDangling keeps_reconcile_loop)

lemma keeps_views [keeps_rules]:
  "keeps (tables P) (GetPool m)" "keeps (tables P) (GetAssignmentsView m)"
  "keeps (tables P) (GetAssignmentView m c)" "keeps (tables P) (GetAssignmentEndpoints m c)"
proof -
  show v: "keeps (tables P) (GetAssignmentsView m)"
    unfolding GetAssignmentsView_def Let_def by (intro keeps_rules)
  show "keeps (tables P) (GetPool m)" "keeps (tables P) (GetAssignmentView m c)"
    "keeps (tables P) (GetAssignmentEndpoints m c)"
    unfolding GetPool_def GetAssignmentView_def GetAssignmentEndpoints_def Let_def
    by (intro keeps_rules v)+
qed

lemma keeps_OverrideAssignment:
  "assign_closed P \<Longrightarrow> keeps (tables P) (OverrideAssignment m c g)"
  unfolding OverrideAssignment_def
  by (intro keeps_rules keeps_Upsert_Delete keeps_trigger)

section \<open>The invariant of the tables\<close>

definition epp_inv :: "epp_db \<Rightarrow> bool" where
  "epp_inv d \<longleftrightarrow> instance_keys_ok (instances d) \<and> wf_assignments (assignments d) \<and>
     (\<forall>c\<in>set (clusters d). cl_Name c \<noteq> [])"

lemma epp_inv_closed: "assign_closed epp_inv"
  by (simp add: assign_closed_def versions_blind_def epp_inv_def wf_put_assignment wf_del_assignment)

lemma instances_closed: "assign_closed (\<lambda>d. instances d = xs)"
  by (simp add: assign_closed_def versions_blind_def)

lemma keeps_replace_instances:
  assumes "\<And>d rs. P d \<Longrightarrow> instance_keys_ok rs \<Longrightarrow> P (d\<lparr>instances := rs\<rparr>)"
    and "\<And>d. P d \<Longrightarrow> instance_keys_ok (instances d)"
  shows "keeps (tables P) (replace_instances flat)"
proof -
  have d: "keeps (tables P) (DeleteInstances no_filter)"
    unfolding DeleteInstances_def
    by (intro keeps_tables_call)
       (use assms(1) in \<open>simp add: TEppInstanceDelete_def instance_keys_ok_def\<close>)
  have c: "keeps (tables P) (CreateInstances flat)"
    unfolding CreateInstances_def
    by (intro keeps_rules keeps_tables_call) (use assms in \<open>simp add: TEppInstanceCreate_def\<close>)
  show ?thesis unfolding replace_instances_def by (intro keeps_rules d c)
qed

lemma keeps_PatchPool_inv: "keeps (tables epp_inv) (PatchPool m gs)"
  unfolding PatchPool_def
  by (intro keeps_rules keeps_RepairDangling epp_inv_closed keeps_replace_instances)
     (auto simp: epp_inv_def)

text \<open>A replacement that reports success put exactly the new instances in place.\<close>

lemma replace_instances_Inr:
  assumes "run_state (replace_instances flat) w = (Inr (), w')"
  shows "instances (db w') = flat"
proof -
  obtain r1 w1 where d: "run_state (DeleteInstances no_filter) w = (r1, w1)" by fastforce
  with assms obtain n where r1: "r1 = Inr n" by (cases r1) (auto simp: replace_instances_def)
  have e: "instances (db w1) = []"
    using ext_call_Inr d r1 unfolding DeleteInstances_def by (fastforce simp: TEppInstanceDelete_def)
  show ?thesis
  proof (cases "flat = []")
    case True
    then show ?thesis using assms d r1 e by (auto simp: replace_instances_def)
  next
    case False
    with assms d r1 obtain k where c: "run_state (CreateInstances flat) w1 = (Inr k, w')"
      by (auto simp: replace_instances_def split: prod.splits sum.splits)
    with False have "run_state (ext_call (\<lambda>w. let (r, rs) = TEppInstanceCreate (db_duplicateMsg w) flat
        (instances (db w)) in (r, set_instances rs w))) w1 = (Inr k, w')"
      by (simp only: CreateInstances_def if_False)
    from ext_call_Inr [OF this] e show ?thesis
      by (auto simp: TEppInstanceCreate_def split: if_splits)
  qed
qed

end
