(* ===== verification/EppConverge.thy ===== *)
theory EppConverge
  imports EppAssign
begin

text \<open>
  What the operations on assignments achieve when no call faults: the result of a repair and of a
  reconciliation as functions of the tables, that they leave every cluster with a valid group, that
  a second run changes nothing, and how they move the load of the groups.
\<close>

section \<open>Assignments without faults\<close>

text \<open>What an allocation makes of the table.\<close>

definition allocated :: "EppPool \<Rightarrow> AssignmentParam list \<Rightarrow> string \<Rightarrow> AssignmentParam list \<Rightarrow> AssignmentParam list" where
  "allocated pool as c cur =
     (case allocateCluster pool as c of Inl _ \<Rightarrow> del_assignment c cur | Inr a \<Rightarrow> put_assignment a cur)"

lemma allocateCluster_cluster: "allocateCluster pool as c = Inr a \<Longrightarrow> ap_Cluster a = c"
  by (auto simp: allocateCluster_def Let_def split: list.splits)

lemma run_allocateAndUpsert:
  assumes "faults w = []" and "c \<noteq> []"
  shows "run_state (allocateAndUpsert pool as c) w =
    (Inr (), set_assignments (allocated pool as c (assignments (db w))) w)"
proof (cases "allocateCluster pool as c")
  case (Inl e)
  then show ?thesis using assms by (simp add: allocateAndUpsert_def clear_assignment_def allocated_def)
next
  case (Inr a)
  then have "ap_Cluster a \<noteq> []" using assms allocateCluster_cluster by metis
  with Inr assms show ?thesis by (simp add: allocateAndUpsert_def allocated_def)
qed

section \<open>Repair\<close>

definition repair_put ::
  "EppPool \<Rightarrow> AssignmentParam list \<Rightarrow> AssignmentParam list \<Rightarrow> AssignmentParam \<Rightarrow> AssignmentParam list" where
  "repair_put pool as cur a =
     (if findValidAssignment pool as (ap_Cluster a) \<noteq> None then cur
      else allocated pool as (ap_Cluster a) cur)"

lemma run_repair_loop:
  assumes "faults w = []" and "\<forall>a\<in>set todo. ap_Cluster a \<noteq> []"
  shows "run_state (repair_loop pool as todo ch) w =
    (Inr (ch \<or> (\<exists>a\<in>set todo. findValidAssignment pool as (ap_Cluster a) = None)),
     set_assignments (foldl (repair_put pool as) (assignments (db w)) todo) w)"
  using assms
proof (induction todo arbitrary: w ch)
  case (Cons a todo)
  show ?case
  proof (cases "findValidAssignment pool as (ap_Cluster a) = None")
    case False
    then have "repairOne pool as a = (Some a, repairKeep)" "repair_put pool as cur a = cur" for cur
      by (simp_all add: repairOne_def repair_put_def)
    with False Cons show ?thesis by auto
  next
    case True
    show ?thesis
    proof (cases "allocateCluster pool as (ap_Cluster a)")
      case (Inl e)
      with True have "repairOne pool as a = (None, repairClear)" by (simp add: repairOne_def)
      with True Inl Cons show ?thesis by (simp add: repair_put_def allocated_def)
    next
      case (Inr r)
      with True have r: "repairOne pool as a = (Some r, repairReallocate)" by (simp add: repairOne_def)
      have "ap_Cluster r \<noteq> []" using allocateCluster_cluster [OF Inr] Cons.prems by simp
      with r True Inr Cons show ?thesis by (simp add: repair_put_def allocated_def)
    qed
  qed
qed simp

lemma wf_allocated: "wf_assignments cur \<Longrightarrow> wf_assignments (allocated pool as c cur)"
  by (simp add: allocated_def wf_del_assignment wf_put_assignment split: sum.split)

lemma lookup_allocated:
  assumes "wf_assignments cur" and "c \<noteq> []"
  shows "lookup_assignment (allocated pool as c cur) k =
    (if k = c then (case allocateCluster pool as c of Inl _ \<Rightarrow> None | Inr a \<Rightarrow> Some a)
     else lookup_assignment cur k)"
proof (cases "allocateCluster pool as c")
  case (Inl e)
  then show ?thesis by (simp add: allocated_def lookup_del_assignment)
next
  case (Inr a)
  then have "ap_Cluster a = c" by (rule allocateCluster_cluster)
  with Inr assms show ?thesis by (simp add: allocated_def assignment_table.lookup_put)
qed

text \<open>The assignment of a cluster after the repair of an assignment \<open>a\<close>.\<close>

definition repaired :: "EppPool \<Rightarrow> AssignmentParam list \<Rightarrow> AssignmentParam \<Rightarrow> AssignmentParam option" where
  "repaired pool as a =
     (if findValidAssignment pool as (ap_Cluster a) \<noteq> None then Some a
      else case allocateCluster pool as (ap_Cluster a) of Inl _ \<Rightarrow> None | Inr r \<Rightarrow> Some r)"

lemma lookup_repair:
  assumes "wf_assignments cur" and "distinct (map ap_Cluster todo)" and "\<forall>a\<in>set todo. ap_Cluster a \<noteq> []"
    and "\<forall>a\<in>set todo. lookup_assignment cur (ap_Cluster a) = Some a"
  shows "lookup_assignment (foldl (repair_put pool as) cur todo) k =
      (case List.find (\<lambda>a. ap_Cluster a = k) todo of
         None \<Rightarrow> lookup_assignment cur k | Some a \<Rightarrow> repaired pool as a)
    \<and> wf_assignments (foldl (repair_put pool as) cur todo)"
  using assms
proof (induction todo arbitrary: cur)
  case (Cons a todo)
  let ?cur = "repair_put pool as cur a"
  have wf: "wf_assignments ?cur" using Cons.prems(1) by (simp add: repair_put_def wf_allocated)
  have look: "lookup_assignment ?cur j = (if j = ap_Cluster a then repaired pool as a else lookup_assignment cur j)" for j
    using Cons.prems by (auto simp: repair_put_def repaired_def lookup_allocated)
  have rest: "distinct (map ap_Cluster todo)" "\<forall>b\<in>set todo. ap_Cluster b \<noteq> []"
    using Cons.prems(2,3) by simp_all
  have prev: "\<forall>b\<in>set todo. lookup_assignment ?cur (ap_Cluster b) = Some b"
  proof
    fix b assume b: "b \<in> set todo"
    with Cons.prems(2) have "ap_Cluster b \<noteq> ap_Cluster a" by (auto simp: image_iff)
    with b Cons.prems(4) show "lookup_assignment ?cur (ap_Cluster b) = Some b" by (simp add: look)
  qed
  note IH' = Cons.IH [OF wf rest prev]
  have IH: "lookup_assignment (foldl (repair_put pool as) ?cur todo) k =
      (case List.find (\<lambda>a. ap_Cluster a = k) todo of
         None \<Rightarrow> lookup_assignment ?cur k | Some a \<Rightarrow> repaired pool as a)"
    and wf': "wf_assignments (foldl (repair_put pool as) ?cur todo)"
    using IH' by blast+
  show ?case
  proof (cases "ap_Cluster a = k")
    case True
    then have "List.find (\<lambda>a. ap_Cluster a = k) todo = None"
      using Cons.prems(2) by (auto simp: find_None_iff image_iff)
    with True IH wf' show ?thesis by (simp add: look)
  next
    case False
    with IH wf' show ?thesis by (simp add: look split: option.split)
  qed
qed simp

section \<open>RepairDangling\<close>

abbreviation pool_of :: "EppPoolManager \<Rightarrow> epp_db \<Rightarrow> EppPool" where
  "pool_of m d \<equiv> buildPool (em_poolName m) (instances d)"

abbreviation rows_of :: "epp_db \<Rightarrow> AssignmentParam list" where
  "rows_of d \<equiv> TEppAssignmentList (assignments d)"

definition repaired_rows :: "EppPoolManager \<Rightarrow> epp_db \<Rightarrow> AssignmentParam list" where
  "repaired_rows m d = foldl (repair_put (pool_of m d) (rows_of d)) (assignments d) (rows_of d)"

lemma rows_of_simps [simp]:
  "set (rows_of d) = set (assignments d)" "sort_key ap_Cluster (rows_of d) = rows_of d"
  "load (rows_of d) = load (assignments d)"
  "wf_assignments (rows_of d) = wf_assignments (assignments d)"
proof -
  show "set (rows_of d) = set (assignments d)" by (simp add: TEppAssignmentList_def)
  show "sort_key ap_Cluster (rows_of d) = rows_of d"
    by (simp add: TEppAssignmentList_def sort_key_id_if_sorted)
  have ms: "mset (rows_of d) = mset (assignments d)" by (simp add: TEppAssignmentList_def)
  then show "load (rows_of d) = load (assignments d)"
    by (simp add: load_def fun_eq_iff) (metis mset_filter size_mset)
  show "wf_assignments (rows_of d) = wf_assignments (assignments d)"
    using ms unfolding wf_assignments_def
    by (metis mset_eq_imp_distinct_iff mset_eq_setD mset_map)
qed

lemma lookup_rows_of:
  assumes "wf_assignments (assignments d)"
  shows "List.find (\<lambda>a. ap_Cluster a = c) (rows_of d) = lookup_assignment (assignments d) c"
proof -
  have "lookup_assignment (rows_of d) c = Some r \<longleftrightarrow> lookup_assignment (assignments d) c = Some r" for r
    using assms by (simp add: lookup_assignment_in)
  then have "lookup_assignment (rows_of d) c = lookup_assignment (assignments d) c"
    by (metis not_None_eq)
  then show ?thesis by (simp add: lookup_assignment_def TEppAssignmentOne_def)
qed

text \<open>The group of a cluster is there.\<close>

definition validly_assigned :: "epp_db \<Rightarrow> string \<Rightarrow> bool" where
  "validly_assigned d c \<longleftrightarrow>
     (\<exists>a. lookup_assignment (assignments d) c = Some a \<and> valid_group (instances d) (ap_GroupName a))"

lemma findValid_iff:
  "wf_assignments (assignments d) \<Longrightarrow>
   findValidAssignment (pool_of m d) (rows_of d) c \<noteq> None \<longleftrightarrow> validly_assigned d c"
  by (auto simp: findValidAssignment_built lookup_rows_of validly_assigned_def split: option.splits)

lemma run_RepairDangling:
  assumes "faults w = []" and "epp_inv (db w)"
  shows "\<exists>w'. run_state (RepairDangling m) w = (Inr (), w') \<and> faults w' = [] \<and>
    instances (db w') = instances (db w) \<and> clusters (db w') = clusters (db w) \<and>
    assignments (db w') = repaired_rows m (db w) \<and>
    ((\<forall>a\<in>set (assignments (db w)). validly_assigned (db w) (ap_Cluster a)) \<longrightarrow> w' = w)"
proof -
  let ?d = "db w" and ?w1 = "set_assignments (repaired_rows m (db w)) w"
  let ?ch = "\<exists>a\<in>set (rows_of ?d). findValidAssignment (pool_of m ?d) (rows_of ?d) (ap_Cluster a) = None"
  have inv: "instance_keys_ok (instances ?d)" "wf_assignments (assignments ?d)"
    using assms(2) by (auto simp: epp_inv_def)
  then have ne: "\<forall>a\<in>set (rows_of ?d). ap_Cluster a \<noteq> []" by (simp add: wf_assignments_def)
  have run: "run_state (RepairDangling m) w =
    (if ?ch then run_state (triggerEppDataExport m) ?w1 else (Inr (), ?w1))"
    using assms(1) run_repair_loop [OF assms(1) ne, of "pool_of m ?d" "rows_of ?d" False]
    by (simp add: RepairDangling_def buildPool_stored [OF inv(1)] repaired_rows_def Let_def del: rows_of_simps(1)) force
  have ch: "?ch \<longleftrightarrow> \<not> (\<forall>a\<in>set (assignments ?d). validly_assigned ?d (ap_Cluster a))"
    using findValid_iff [OF inv(2), of m] unfolding rows_of_simps(1) by blast
  show ?thesis
  proof (cases ?ch)
    case True
    from run_triggerEppDataExport [of ?w1 m] assms(1) obtain w' where
      "run_state (triggerEppDataExport m) ?w1 = (Inr (), w')" "faults w' = []" "same_tables (db ?w1) (db w')"
      by auto
    with True run ch show ?thesis by (auto simp: same_tables_def)
  next
    case False
    then have "foldl (repair_put (pool_of m ?d) (rows_of ?d)) cur xs = cur" if "set xs \<subseteq> set (rows_of ?d)" for xs cur
      using that by (induction xs) (auto simp: repair_put_def)
    then have "repaired_rows m ?d = assignments ?d" by (simp add: repaired_rows_def)
    with False run ch assms(1) show ?thesis by auto
  qed
qed

text \<open>
  After a repair every assignment has a group of the pool: a valid one is as it was, a dangling one
  goes to the group of the least load, and all are cleared when the pool is empty.
\<close>

lemma lookup_repaired_rows:
  assumes "epp_inv d"
  shows "wf_assignments (repaired_rows m d)"
    and "lookup_assignment (repaired_rows m d) c =
      (case lookup_assignment (assignments d) c of
         None \<Rightarrow> None
       | Some a \<Rightarrow> if valid_group (instances d) (ap_GroupName a) then Some a
                   else case allocateCluster (pool_of m d) (rows_of d) c of Inl _ \<Rightarrow> None | Inr r \<Rightarrow> Some r)"
proof -
  have wf: "wf_assignments (assignments d)" using assms by (simp add: epp_inv_def)
  then have wf': "wf_assignments (rows_of d)" by simp
  have look: "\<forall>a\<in>set (rows_of d). lookup_assignment (assignments d) (ap_Cluster a) = Some a"
    using wf by (auto simp: lookup_assignment_in)
  note * = lookup_repair [OF wf _ _ look, of "pool_of m d" "rows_of d"]
  show "wf_assignments (repaired_rows m d)"
    using * wf' by (simp add: repaired_rows_def wf_assignments_def)
  show "lookup_assignment (repaired_rows m d) c =
      (case lookup_assignment (assignments d) c of
         None \<Rightarrow> None
       | Some a \<Rightarrow> if valid_group (instances d) (ap_GroupName a) then Some a
                   else case allocateCluster (pool_of m d) (rows_of d) c of Inl _ \<Rightarrow> None | Inr r \<Rightarrow> Some r)"
  proof (cases "lookup_assignment (assignments d) c")
    case None
    with * [of c] wf' show ?thesis
      by (simp add: repaired_rows_def wf_assignments_def lookup_rows_of [OF wf])
  next
    case (Some a)
    then have c: "ap_Cluster a = c" using wf by (simp add: lookup_assignment_in)
    have "repaired (pool_of m d) (rows_of d) a =
      (if valid_group (instances d) (ap_GroupName a) then Some a
       else case allocateCluster (pool_of m d) (rows_of d) c of Inl _ \<Rightarrow> None | Inr r \<Rightarrow> Some r)"
      using Some by (simp add: repaired_def findValidAssignment_built c lookup_rows_of [OF wf])
    with * [of c] wf' Some show ?thesis
      by (simp add: repaired_rows_def wf_assignments_def lookup_rows_of [OF wf])
  qed
qed

lemma repaired_rows_valid:
  assumes "epp_inv d" and "instances d \<noteq> []" and "a \<in> set (repaired_rows m d)"
  shows "valid_group (instances d) (ap_GroupName a)"
proof -
  have "lookup_assignment (repaired_rows m d) (ap_Cluster a) = Some a"
    using assms lookup_repaired_rows(1) by (simp add: lookup_assignment_in)
  moreover from allocateCluster_best [OF assms(2), of "rows_of d" "em_poolName m" "ap_Cluster a"]
  obtain g where "valid_group (instances d) g"
    "allocateCluster (pool_of m d) (rows_of d) (ap_Cluster a) = Inr \<lparr>ap_Cluster = ap_Cluster a, ap_GroupName = g\<rparr>"
    by (auto simp: best_group_def valid_group_def)
  ultimately show ?thesis
    by (cases a) (auto simp: lookup_repaired_rows(2) [OF assms(1)] split: option.splits if_splits)
qed

section \<open>Reconcile\<close>

text \<open>One cluster of the loop: nothing when its assignment is valid, an allocation otherwise.\<close>

definition assign_one ::
  "EppPool \<Rightarrow> AssignmentParam list \<Rightarrow> string \<Rightarrow> AssignmentParam list" where
  "assign_one pool cur c =
     (if findValidAssignment pool (TEppAssignmentList cur) c \<noteq> None then cur
      else allocated pool (TEppAssignmentList cur) c cur)"

lemma run_reconcile_loop:
  assumes "faults w = []" and "\<forall>c\<in>set cs. ec_Name c \<noteq> []"
  shows "run_state (reconcile_loop pool cs (TEppAssignmentList (assignments (db w)))) w =
    (Inr (), set_assignments (foldl (assign_one pool) (assignments (db w)) (map ec_Name cs)) w)"
  using assms
proof (induction cs arbitrary: w)
  case (Cons c cs)
  let ?as = "TEppAssignmentList (assignments (db w))"
  show ?case
  proof (cases "findValidAssignment pool ?as (ec_Name c) = None")
    case False
    then have "assign_one pool (assignments (db w)) (ec_Name c) = assignments (db w)"
      by (simp add: assign_one_def)
    with False Cons show ?thesis by simp
  next
    case True
    let ?w = "set_assignments (allocated pool ?as (ec_Name c) (assignments (db w))) w"
    have "run_state (allocateAndUpsert pool ?as (ec_Name c)) w = (Inr (), ?w)"
      by (rule run_allocateAndUpsert) (use Cons.prems in simp_all)
    moreover have "assign_one pool (assignments (db w)) (ec_Name c) = assignments (db ?w)"
      using True by (simp add: assign_one_def)
    ultimately show ?thesis using True Cons.IH [of ?w] Cons.prems by simp
  qed
qed simp

text \<open>The fixed part of the tables during the loop: only the assignments move.\<close>

definition with_rows :: "epp_db \<Rightarrow> AssignmentParam list \<Rightarrow> epp_db" where
  "with_rows d cur = d\<lparr>assignments := cur\<rparr>"

lemma with_rows_simps [simp]:
  "instances (with_rows d cur) = instances d" "assignments (with_rows d cur) = cur" "clusters (with_rows d cur) = clusters d"
  by (simp_all add: with_rows_def)

lemma findValid_with_rows:
  "wf_assignments cur \<Longrightarrow>
   findValidAssignment (pool_of m d) (TEppAssignmentList cur) c \<noteq> None \<longleftrightarrow> validly_assigned (with_rows d cur) c"
  using findValid_iff [of "with_rows d cur" m c] by simp

lemma wf_assign_one: "wf_assignments cur \<Longrightarrow> wf_assignments (assign_one pool cur c)"
  by (simp add: assign_one_def wf_allocated)

lemma wf_foldl_assign_one:
  "wf_assignments cur \<Longrightarrow> wf_assignments (foldl (assign_one pool) cur cs)"
  by (induction cs arbitrary: cur) (auto simp: wf_assign_one)

lemma lookup_assign_one:
  assumes "wf_assignments cur" and "c \<noteq> []"
  shows "lookup_assignment (assign_one (pool_of m d) cur c) k =
    (if k = c \<and> \<not> validly_assigned (with_rows d cur) c
     then (case allocateCluster (pool_of m d) (TEppAssignmentList cur) c of Inl _ \<Rightarrow> None | Inr a \<Rightarrow> Some a)
     else lookup_assignment cur k)"
  using findValid_with_rows [OF assms(1), of m d c] lookup_allocated [OF assms]
  by (auto simp: assign_one_def)

text \<open>An allocation in a pool with an instance is valid and no valid assignment is lost.\<close>

lemma assign_one_valid:
  assumes "wf_assignments cur" "c \<noteq> []" "instances d \<noteq> []"
  shows "validly_assigned (with_rows d (assign_one (pool_of m d) cur c)) c"
proof (cases "validly_assigned (with_rows d cur) c")
  case True
  then show ?thesis using assms by (simp add: validly_assigned_def lookup_assign_one)
next
  case False
  from allocateCluster_best [OF assms(3), of "TEppAssignmentList cur" "em_poolName m" c]
  obtain g where "best_group (load (TEppAssignmentList cur)) (ip_GroupName ` set (instances d)) g"
    "allocateCluster (pool_of m d) (TEppAssignmentList cur) c = Inr \<lparr>ap_Cluster = c, ap_GroupName = g\<rparr>"
    by blast
  with False assms show ?thesis
    by (simp add: validly_assigned_def lookup_assign_one valid_group_def best_group_def)
qed

lemma assign_one_keeps:
  assumes "wf_assignments cur" "c \<noteq> []" "validly_assigned (with_rows d cur) k"
  shows "lookup_assignment (assign_one (pool_of m d) cur c) k = lookup_assignment cur k"
    and "validly_assigned (with_rows d (assign_one (pool_of m d) cur c)) k"
  using assms by (auto simp: lookup_assign_one validly_assigned_def)

lemma foldl_assign_one_keeps:
  assumes "wf_assignments cur" "\<forall>c\<in>set cs. c \<noteq> []" "validly_assigned (with_rows d cur) k"
  shows "lookup_assignment (foldl (assign_one (pool_of m d)) cur cs) k = lookup_assignment cur k \<and>
    validly_assigned (with_rows d (foldl (assign_one (pool_of m d)) cur cs)) k"
  using assms
proof (induction cs arbitrary: cur)
  case (Cons c cs)
  then show ?case
    using assign_one_keeps [of cur c d k m] wf_assign_one [of cur "pool_of m d" c] by simp
qed simp

lemma foldl_assign_one_valid:
  assumes "wf_assignments cur" "\<forall>c\<in>set cs. c \<noteq> []" "instances d \<noteq> []" "c \<in> set cs"
  shows "validly_assigned (with_rows d (foldl (assign_one (pool_of m d)) cur cs)) c"
  using assms
proof (induction cs arbitrary: cur)
  case (Cons b cs)
  have wf: "wf_assignments (assign_one (pool_of m d) cur b)" using Cons.prems(1) by (rule wf_assign_one)
  show ?case
  proof (cases "c = b")
    case True
    then have "validly_assigned (with_rows d (assign_one (pool_of m d) cur b)) c"
      using assign_one_valid [of cur b d m] Cons.prems by simp
    from foldl_assign_one_keeps [OF wf _ this] Cons.prems show ?thesis by simp
  next
    case False
    then show ?thesis using Cons.IH [OF wf] Cons.prems by simp
  qed
qed simp

text \<open>A cluster outside the list keeps its assignment.\<close>

lemma foldl_assign_one_other:
  assumes "wf_assignments cur" "\<forall>c\<in>set cs. c \<noteq> []" "k \<notin> set cs"
  shows "lookup_assignment (foldl (assign_one (pool_of m d)) cur cs) k = lookup_assignment cur k"
  using assms
proof (induction cs arbitrary: cur)
  case (Cons c cs)
  then show ?case using lookup_assign_one [of cur c m d k] wf_assign_one [of cur "pool_of m d" c] by simp
qed simp

definition epp_names :: "epp_db \<Rightarrow> string list" where
  "epp_names d = map ec_Name (sort_key ec_Name (epp_clusters (clusters d)))"

definition reconciled :: "EppPoolManager \<Rightarrow> epp_db \<Rightarrow> AssignmentParam list" where
  "reconciled m d = foldl (assign_one (pool_of m d)) (repaired_rows m d) (epp_names d)"

lemma set_epp_names: "set (epp_names d) = {cl_Name c | c. c \<in> set (clusters d) \<and> getBalanceMode c = BalanceModeEPP}"
  by (auto simp: epp_names_def epp_clusters_def image_iff)

lemma epp_names_nonempty: "epp_inv d \<Longrightarrow> c \<in> set (epp_names d) \<Longrightarrow> c \<noteq> []"
  by (auto simp: set_epp_names epp_inv_def)

lemma run_Reconcile:
  assumes "faults w = []" and "epp_inv (db w)" and "em_clusterSource m"
  shows "\<exists>w1 w'. run_state (RepairDangling m) w = (Inr (), w1) \<and> run_state (Reconcile m) w = (Inr (), w') \<and>
    w' = set_assignments (reconciled m (db w)) w1 \<and> faults w1 = [] \<and>
    instances (db w1) = instances (db w) \<and> clusters (db w1) = clusters (db w)"
proof -
  let ?d = "db w" and ?cs = "sort_key ec_Name (epp_clusters (clusters (db w)))"
  from run_RepairDangling [OF assms(1,2), of m] obtain w1 where
    w1: "run_state (RepairDangling m) w = (Inr (), w1)" "faults w1 = []"
      "instances (db w1) = instances ?d" "clusters (db w1) = clusters ?d"
      "assignments (db w1) = repaired_rows m ?d" by blast
  have keys: "instance_keys_ok (instances ?d)" using assms(2) by (simp add: epp_inv_def)
  have ne: "\<forall>c\<in>set ?cs. ec_Name c \<noteq> []"
    using epp_names_nonempty [OF assms(2)] by (auto simp: epp_names_def)
  have "run_state (Reconcile m) w = (Inr (), set_assignments (reconciled m ?d) w1)"
  proof (cases "epp_clusters (clusters ?d) = []")
    case True
    then have "reconciled m ?d = assignments (db w1)" by (simp add: reconciled_def epp_names_def w1)
    then have "set_assignments (reconciled m ?d) w1 = w1" by (simp only: set_simps)
    with True assms(3) w1 show ?thesis by (simp add: Reconcile_def FetchEPPClusters_def)
  next
    case False
    with assms(3) w1 run_reconcile_loop [OF w1(2) ne, of "pool_of m ?d"] show ?thesis
      by (simp add: Reconcile_def FetchEPPClusters_def buildPool_stored [OF keys] reconciled_def epp_names_def)
  qed
  with w1 show ?thesis by blast
qed

text \<open>After a reconciliation every EPP cluster, and every cluster that had an assignment, is served.\<close>

lemma reconciled_valid:
  assumes "epp_inv d" and "instances d \<noteq> []"
  shows "wf_assignments (reconciled m d)"
    and "c \<in> set (epp_names d) \<Longrightarrow> validly_assigned (with_rows d (reconciled m d)) c"
    and "lookup_assignment (reconciled m d) c \<noteq> None \<Longrightarrow> validly_assigned (with_rows d (reconciled m d)) c"
    and "validly_assigned d c \<Longrightarrow> lookup_assignment (reconciled m d) c = lookup_assignment (assignments d) c"
proof -
  have wf: "wf_assignments (repaired_rows m d)" by (rule lookup_repaired_rows(1) [OF assms(1)])
  have ne: "\<forall>c\<in>set (epp_names d). c \<noteq> []" using epp_names_nonempty [OF assms(1)] by blast
  show "wf_assignments (reconciled m d)" unfolding reconciled_def by (rule wf_foldl_assign_one [OF wf])
  show v: "validly_assigned (with_rows d (reconciled m d)) c" if "c \<in> set (epp_names d)" for c
    unfolding reconciled_def by (rule foldl_assign_one_valid [OF wf ne assms(2) that])
  have rep: "validly_assigned (with_rows d (repaired_rows m d)) c"
    if "lookup_assignment (repaired_rows m d) c \<noteq> None" for c
  proof -
    from allocateCluster_best [OF assms(2), of "rows_of d" "em_poolName m" c]
    obtain g where "valid_group (instances d) g"
      "allocateCluster (pool_of m d) (rows_of d) c = Inr \<lparr>ap_Cluster = c, ap_GroupName = g\<rparr>"
      by (auto simp: best_group_def valid_group_def)
    with that show ?thesis
      by (simp add: validly_assigned_def lookup_repaired_rows(2) [OF assms(1)] split: option.splits if_splits)
  qed
  show "validly_assigned (with_rows d (reconciled m d)) c"
    if l: "lookup_assignment (reconciled m d) c \<noteq> None" for c
  proof (cases "c \<in> set (epp_names d)")
    case False
    with l rep have "validly_assigned (with_rows d (repaired_rows m d)) c"
      unfolding reconciled_def using foldl_assign_one_other [OF wf ne False, of m d] by simp
    then show ?thesis unfolding reconciled_def using foldl_assign_one_keeps [OF wf ne] by blast
  qed (rule v)
  show "lookup_assignment (reconciled m d) c = lookup_assignment (assignments d) c" if "validly_assigned d c"
  proof -
    from that have l: "lookup_assignment (repaired_rows m d) c = lookup_assignment (assignments d) c"
      by (auto simp: validly_assigned_def lookup_repaired_rows(2) [OF assms(1)])
    with that have "validly_assigned (with_rows d (repaired_rows m d)) c" by (simp add: validly_assigned_def)
    from foldl_assign_one_keeps [OF wf ne this, of m] l show ?thesis by (simp add: reconciled_def)
  qed
qed

text \<open>When all is valid already, nothing changes.\<close>

lemma reconciled_fixpoint:
  assumes "epp_inv d" and "\<forall>a\<in>set (assignments d). validly_assigned d (ap_Cluster a)"
    and "\<forall>c\<in>set (epp_names d). validly_assigned d c"
  shows "reconciled m d = assignments d"
proof -
  have wf: "wf_assignments (assignments d)" using assms(1) by (simp add: epp_inv_def)
  have "repair_put (pool_of m d) (rows_of d) cur a = cur" if "a \<in> set (rows_of d)" for cur a
    using findValid_iff [OF wf, of m] assms(2) that by (auto simp: repair_put_def)
  then have "foldl (repair_put (pool_of m d) (rows_of d)) cur xs = cur" if "set xs \<subseteq> set (rows_of d)" for cur xs
    using that by (induction xs) auto
  then have r: "repaired_rows m d = assignments d" by (simp add: repaired_rows_def)
  have "assign_one (pool_of m d) (assignments d) c = assignments d" if "c \<in> set (epp_names d)" for c
    using findValid_iff [OF wf, of m] assms(3) that by (auto simp: assign_one_def)
  then have "foldl (assign_one (pool_of m d)) (assignments d) cs = assignments d" if "set cs \<subseteq> set (epp_names d)" for cs
    using that by (induction cs) auto
  then show ?thesis by (simp add: reconciled_def r)
qed

section \<open>Balance\<close>

definition balanced :: "epp_db \<Rightarrow> bool" where
  "balanced d \<longleftrightarrow> (\<forall>g h. valid_group (instances d) g \<longrightarrow> valid_group (instances d) h \<longrightarrow>
     load (assignments d) g \<le> load (assignments d) h + 1)"

lemma load_put_assignment:
  assumes "wf_assignments cur" and "ap_Cluster p \<noteq> []"
    and "\<forall>a. lookup_assignment cur (ap_Cluster p) = Some a \<longrightarrow> ap_GroupName a \<noteq> h"
  shows "load (put_assignment p cur) h = load cur h + (if ap_GroupName p = h then 1 else 0)"
proof (cases "\<exists>r\<in>set cur. ap_Cluster r = ap_Cluster p")
  case False
  then show ?thesis using assms(2) by (simp add: put_assignment_def load_def)
next
  case True
  then have "load (update_where (\<lambda>r. ap_Cluster r = ap_Cluster p) (\<lambda>r. r\<lparr>ap_GroupName := ap_GroupName p\<rparr>) cur) h =
      load cur h + (if ap_GroupName p = h then 1 else 0)"
    using assms
  proof (induction cur)
    case (Cons a cur)
    show ?case
    proof (cases "ap_Cluster a = ap_Cluster p")
      case c: True
      then have "\<not> (\<exists>r\<in>set cur. ap_Cluster r = ap_Cluster p)"
        using Cons.prems(2) by (auto simp: wf_assignments_def image_iff)
      then have "update_where (\<lambda>r. ap_Cluster r = ap_Cluster p) (\<lambda>r. r\<lparr>ap_GroupName := ap_GroupName p\<rparr>) cur = cur"
        by (rule update_where_absent)
      with c Cons.prems(4) show ?thesis
        by (simp add: load_def lookup_assignment_def TEppAssignmentOne_def update_where_def)
    next
      case False
      with Cons show ?thesis
        by (simp add: load_def wf_assignments_def lookup_assignment_def TEppAssignmentOne_def update_where_def)
    qed
  qed simp
  with True assms(2) show ?thesis by (simp add: put_assignment_def)
qed

text \<open>An allocation keeps the loads of the groups within one of each other.\<close>

lemma assign_one_balanced:
  assumes "wf_assignments cur" "c \<noteq> []" "balanced (with_rows d cur)"
  shows "balanced (with_rows d (assign_one (pool_of m d) cur c))"
proof (cases "validly_assigned (with_rows d cur) c \<or> instances d = []")
  case True
  then show ?thesis
    using assms findValid_with_rows [OF assms(1), of m d c]
    by (auto simp: assign_one_def balanced_def valid_group_def)
next
  case False
  then have ne: "instances d \<noteq> []" and nv: "\<not> validly_assigned (with_rows d cur) c" by auto
  have lo: "load (TEppAssignmentList cur) = load cur" using rows_of_simps(3) [of "with_rows d cur"] by simp
  from allocateCluster_best [OF ne, of "TEppAssignmentList cur" "em_poolName m" c] lo
  obtain g where g: "best_group (load cur) (ip_GroupName ` set (instances d)) g"
    "allocateCluster (pool_of m d) (TEppAssignmentList cur) c = Inr \<lparr>ap_Cluster = c, ap_GroupName = g\<rparr>"
    by auto
  with nv findValid_with_rows [OF assms(1), of m d c]
  have one: "assign_one (pool_of m d) cur c = put_assignment \<lparr>ap_Cluster = c, ap_GroupName = g\<rparr> cur"
    by (auto simp: assign_one_def allocated_def)
  have "load (put_assignment \<lparr>ap_Cluster = c, ap_GroupName = g\<rparr> cur) h = load cur h + (if g = h then 1 else 0)"
    if "valid_group (instances d) h" for h
  proof -
    have "\<forall>a. lookup_assignment cur c = Some a \<longrightarrow> ap_GroupName a \<noteq> h"
      using nv that by (auto simp: validly_assigned_def)
    with load_put_assignment [OF assms(1), of "\<lparr>ap_Cluster = c, ap_GroupName = g\<rparr>" h] assms(2)
    show ?thesis by simp
  qed
  with g(1) assms(3) one show ?thesis
    by (force simp: balanced_def best_group_def valid_group_def)
qed

lemma foldl_assign_one_balanced:
  "wf_assignments cur \<Longrightarrow> \<forall>c\<in>set cs. c \<noteq> [] \<Longrightarrow> balanced (with_rows d cur) \<Longrightarrow>
   balanced (with_rows d (foldl (assign_one (pool_of m d)) cur cs))"
proof (induction cs arbitrary: cur)
  case (Cons c cs)
  then show ?case
    using assign_one_balanced [of cur c d m] wf_assign_one [of cur "pool_of m d" c] by simp
qed simp

end
