(* ===== verification/EppProperties.thy ===== *)
theory EppProperties
  imports EppConverge
begin

text \<open>
  The properties of the EPP pool, each with a witness at concrete tables, and three facts that
  the model brings out about corner cases of the code.
\<close>

section \<open>Example data\<close>

definition ep_inst :: "string \<Rightarrow> string \<Rightarrow> string \<Rightarrow> InstanceParam" where
  "ep_inst i h g = \<lparr>ip_ID = i, ip_Host = h, ip_Port = 9002, ip_GroupName = g\<rparr>"

definition ep_conf :: EppConfigSimplified where
  "ep_conf = \<lparr>es_LoadProfile = Some ''kv-first'', es_Affinity = None, es_PrefixCacheAffinity = None,
     es_SessionAffinityEnabled = None, es_SessionAffinityHeader = None, es_KVCacheUtilizationMax = None,
     es_WaitingQueueMax = Some 7, es_RunningRequestsMax = None, es_FallbackOnEmpty = None,
     es_MetricsStalenessThresholdMs = None,
     es_FlowControl = Some \<lparr>fc_MaxRequests = Some 1000, fc_QueueTTL = Some 600,
       fc_NoEndpointQueueTTL = None, fc_EnableEviction = None\<rparr>\<rparr>"

definition ep_m :: EppPoolManager where
  "ep_m = \<lparr>em_clusterSource = True, em_versionControl = True, em_poolName = ''EPP.pool'',
     em_reconcileInterval = 30 * nsSecond, em_decode = (\<lambda>_. Inr ep_conf), em_sign = (\<lambda>_. ''d41d8c''),
     em_now = ''20260101000000'', em_succ = (\<lambda>v. if v = ''20260101000000'' then Some ''20260101000001'' else None)\<rparr>"

text \<open>Two groups; cluster \<open>c1\<close> is served by \<open>g1\<close>, cluster \<open>c2\<close> points to a group that is gone, \<open>c3\<close> has none.\<close>

definition ep_db :: epp_db where
  "ep_db = \<lparr>instances = [ep_inst ''b'' ''10.0.0.2'' ''g2'', ep_inst ''a'' ''10.0.0.1'' ''g1''],
     assignments = [\<lparr>ap_Cluster = ''c2'', ap_GroupName = ''gone''\<rparr>, \<lparr>ap_Cluster = ''c1'', ap_GroupName = ''g1''\<rparr>],
     clusters = [\<lparr>cl_Name = ''c3'', cl_BalanceMode = ''EPP'', cl_EppConfig = ''{}''\<rparr>,
       \<lparr>cl_Name = ''c1'', cl_BalanceMode = ''EPP'', cl_EppConfig = ''{}''\<rparr>],
     config_versions = \<lparr>rows = [], next_id = 1\<rparr>\<rparr>"

definition ep_w :: "fault list \<Rightarrow> epp_world" where
  "ep_w fs = \<lparr>faults = fs, db = ep_db, db_isMySQL = True, db_duplicateMsg = ''Error 1062 (23000): Duplicate entry''\<rparr>"

definition ep_request :: "group_request option list" where
  "ep_request =
     [Some \<lparr>gr_Name = ''g2'', gr_Instances = [Some (ep_inst ''y'' ''epp-2.local'' [])]\<rparr>,
      Some \<lparr>gr_Name = ''g1'', gr_Instances = [Some (ep_inst ''x'' ''10.0.0.1'' [])]\<rparr>]"

lemma ep_w_simps [simp]: "faults (ep_w fs) = fs" "db (ep_w fs) = ep_db"
  by (simp_all add: ep_w_def)

lemma ep_hosts [simp]: "validateHost ''10.0.0.1'' = Inr ()" "validateHost ''epp-2.local'' = Inr ()"
  by code_simp+

lemma ep_request_ok:
  "validateGroups ep_request = Inr [ep_inst ''y'' ''epp-2.local'' ''g2'', ep_inst ''x'' ''10.0.0.1'' ''g1'']"
  by (simp add: validateGroups_def ep_request_def validateGroupSize_def ep_inst_def validatePort_def
      instanceAddress_def JoinHostPort_def)

lemma ep_inv: "epp_inv ep_db"
  by (simp add: epp_inv_def ep_db_def instance_keys_ok_def wf_assignments_def ep_inst_def)

section \<open>Atomicity\<close>

text \<open>
  C8. Replacing the pool is atomic under every failure: afterwards the table holds either the
  instances it held before or exactly the instances of an accepted request, never a mixture and never
  an empty table in between.
\<close>

theorem PatchPool_is_atomic:
  "instances (db (snd (run_state (PatchPool m gs) w))) = instances (db w) \<or>
   validateGroups gs = Inr (instances (db (snd (run_state (PatchPool m gs) w))))"
proof (cases "validateGroups gs")
  case (Inl e)
  then show ?thesis by (simp add: PatchPool_def)
next
  case (Inr flat)
  obtain r1 w1 where t: "run_state (AtomExecute (replace_instances flat)) w = (r1, w1)" by fastforce
  have i1: "instances (db w1) \<in> {instances (db w), flat}"
    using AtomExecute_tables [of "replace_instances flat" w] t replace_instances_Inr by auto
  let ?rest = "bindE (RepairDangling m) (\<lambda>_. GetPool m)"
  have "keeps (tables (\<lambda>d. instances d = instances (db w1))) ?rest"
    by (intro keeps_rules keeps_RepairDangling instances_closed)
  from keeps_tablesD [OF this] have "instances (db (snd (run_state ?rest w1))) = instances (db w1)"
    by simp
  then have "instances (db (snd (run_state (PatchPool m gs) w))) = instances (db w1)"
    using Inr t by (cases r1) (simp_all add: PatchPool_def)
  with i1 Inr show ?thesis by auto
qed

text \<open>
  A request for a pool is accepted exactly when it has a group, every group has a name and one
  instance with an id, a valid host and a port from 1 to 65535, and no group name, instance id or
  address occurs twice; the instances are stored in the order of the groups, under their group names.
\<close>

theorem pool_validation:
  "validateGroups gs = Inr flat \<longleftrightarrow>
     gs \<noteq> [] \<and>
     list_all (\<lambda>g. case g of None \<Rightarrow> False | Some g \<Rightarrow> gr_Name g \<noteq> [] \<and>
       (\<exists>i. gr_Instances g = [Some i] \<and> ip_ID i \<noteq> [] \<and> validateHost (ip_Host i) = Inr () \<and>
            1 \<le> ip_Port i \<and> ip_Port i \<le> 65535)) gs \<and>
     flat = map (\<lambda>g. (the (hd (gr_Instances (the g))))\<lparr>ip_GroupName := gr_Name (the g)\<rparr>) gs \<and>
     distinct (map ip_GroupName flat) \<and> distinct (map ip_ID flat) \<and>
     distinct (map (\<lambda>i. instanceAddress (ip_Host i) (ip_Port i)) flat)"
proof -
  have addr: "addr_of = (\<lambda>i. instanceAddress (ip_Host i) (ip_Port i))" by (simp add: fun_eq_iff addr_of_def)
  have mem: "member = (\<lambda>g. (the (hd (gr_Instances (the g))))\<lparr>ip_GroupName := gr_Name (the g)\<rparr>)"
    by (simp add: fun_eq_iff member_def)
  have ok: "group_ok = (\<lambda>g. case g of None \<Rightarrow> False | Some g \<Rightarrow> gr_Name g \<noteq> [] \<and>
       (\<exists>i. gr_Instances g = [Some i] \<and> ip_ID i \<noteq> [] \<and> validateHost (ip_Host i) = Inr () \<and>
            1 \<le> ip_Port i \<and> ip_Port i \<le> 65535))"
    by (simp add: fun_eq_iff group_ok_def instance_ok_def validatePort_iff split: option.split)
  show ?thesis unfolding validateGroups_iff addr [symmetric] mem [symmetric] ok [symmetric] by blast
qed

text \<open>
  Without faults, an accepted request replaces the pool: the answer lists the groups by name with
  their one instance, the table holds the request's instances, and every assignment that is left
  points to a group of the new pool.
\<close>

theorem PatchPool_replaces_pool:
  assumes "faults w = []" and "epp_inv (db w)" and "validateGroups gs = Inr flat"
  shows "\<exists>w'. run_state (PatchPool m gs) w =
      (Inr \<lparr>ep_Name = em_poolName m,
            ep_Groups = map (\<lambda>i. \<lparr>ig_Name = ip_GroupName i, ig_Instances = [i]\<rparr>) (sort_key ip_GroupName flat)\<rparr>, w') \<and>
    instances (db w') = flat \<and>
    (\<forall>a\<in>set (assignments (db w')). ap_GroupName a \<in> ip_GroupName ` set flat)"
proof -
  from validateGroups_keys [OF assms(3)] have flat: "instance_keys_ok flat" "flat \<noteq> []" by auto
  have d: "distinct (map ip_GroupName flat)" using assms(3) unfolding validateGroups_iff by blast
  let ?w1 = "set_instances flat w"
  have "run_state (replace_instances flat) w = (Inr (), ?w1)"
    using assms(1) flat
    by (simp add: replace_instances_def DeleteInstances_def CreateInstances_def TEppInstanceDelete_def
        TEppInstanceCreate_def)
  then have t: "run_state (AtomExecute (replace_instances flat)) w = (Inr (), ?w1)"
    using assms(1) by (intro run_AtomExecute_ok) auto
  have inv: "epp_inv (db ?w1)" using assms(2) flat by (simp add: epp_inv_def)
  from run_RepairDangling [of ?w1 m] assms(1) inv obtain w2 where
    w2: "run_state (RepairDangling m) ?w1 = (Inr (), w2)" "faults w2 = []"
      "instances (db w2) = flat" "assignments (db w2) = repaired_rows m (db ?w1)" by auto
  have "buildPool (em_poolName m) flat =
     \<lparr>ep_Name = em_poolName m,
      ep_Groups = map (\<lambda>i. \<lparr>ig_Name = ip_GroupName i, ig_Instances = [i]\<rparr>) (sort_key ip_GroupName flat)\<rparr>"
    using buildPool_singletons [OF d, of "em_poolName m"] buildPool_Name [of "em_poolName m" flat]
    by (cases "buildPool (em_poolName m) flat") simp
  then have "run_state (PatchPool m gs) w =
      (Inr \<lparr>ep_Name = em_poolName m,
            ep_Groups = map (\<lambda>i. \<lparr>ig_Name = ip_GroupName i, ig_Instances = [i]\<rparr>) (sort_key ip_GroupName flat)\<rparr>, w2)"
    using assms(3) t w2 flat by (simp add: PatchPool_def run_GetPool)
  moreover have "ap_GroupName a \<in> ip_GroupName ` set flat" if "a \<in> set (assignments (db w2))" for a
    using repaired_rows_valid [OF inv, of a m] that flat w2 by (simp add: valid_group_def)
  ultimately show ?thesis using w2 by blast
qed

theorem PatchPool_replaces_pool_witness:
  "\<exists>w'. run_state (PatchPool ep_m ep_request) (ep_w []) =
      (Inr \<lparr>ep_Name = ''EPP.pool'', ep_Groups =
         [\<lparr>ig_Name = ''g1'', ig_Instances = [ep_inst ''x'' ''10.0.0.1'' ''g1'']\<rparr>,
          \<lparr>ig_Name = ''g2'', ig_Instances = [ep_inst ''y'' ''epp-2.local'' ''g2'']\<rparr>]\<rparr>, w')"
  using PatchPool_replaces_pool [OF _ _ ep_request_ok, of "ep_w []" ep_m] ep_inv
  by (auto simp: ep_m_def ep_inst_def)

section \<open>Assignments\<close>

text \<open>
  The allocator gives a cluster the group with the fewest assignments, and among those the first
  by name; it fails exactly on an empty pool.
\<close>

theorem allocation_takes_least_load:
  "(allocateCluster (buildPool n insts) as c = Inr a) =
     (ap_Cluster a = c \<and> ap_GroupName a \<in> ip_GroupName ` set insts \<and>
      set insts \<inter> {i. load as (ip_GroupName i) < load as (ap_GroupName a) \<or>
        load as (ip_GroupName i) = load as (ap_GroupName a) \<and> ip_GroupName i < ap_GroupName a} = {}) \<and>
   (\<exists>e. allocateCluster (buildPool n insts) as c = Inl e) = (insts = [])"
proof (rule conjI)
  show "(allocateCluster (buildPool n insts) as c = Inr a) =
     (ap_Cluster a = c \<and> ap_GroupName a \<in> ip_GroupName ` set insts \<and>
      set insts \<inter> {i. load as (ip_GroupName i) < load as (ap_GroupName a) \<or>
        load as (ip_GroupName i) = load as (ap_GroupName a) \<and> ip_GroupName i < ap_GroupName a} = {})"
    unfolding allocateCluster_iff best_group_def by (auto simp: not_less)
  show "(\<exists>e. allocateCluster (buildPool n insts) as c = Inl e) = (insts = [])"
    using allocateCluster_best [of insts as n c] by (cases "insts = []") auto
qed

text \<open>
  Without faults a repair leaves every assignment that points to a group of the pool as it was,
  moves every other one to a group of the pool, and creates none; on an empty pool it clears them all.
\<close>

theorem RepairDangling_repairs:
  assumes "faults w = []" and "epp_inv (db w)"
  shows "\<exists>w'. run_state (RepairDangling m) w = (Inr (), w') \<and> instances (db w') = instances (db w) \<and>
    (\<forall>c. lookup_assignment (assignments (db w')) c =
      (case lookup_assignment (assignments (db w)) c of
         None \<Rightarrow> None
       | Some a \<Rightarrow>
           if ap_GroupName a \<in> ip_GroupName ` set (instances (db w)) then Some a
           else case allocateCluster (buildPool (em_poolName m) (instances (db w)))
                       (TEppAssignmentList (assignments (db w))) c of
                  Inl _ \<Rightarrow> None | Inr r \<Rightarrow> Some r))"
proof -
  from run_RepairDangling [OF assms, of m] obtain w' where
    "run_state (RepairDangling m) w = (Inr (), w')" "instances (db w') = instances (db w)"
    "assignments (db w') = repaired_rows m (db w)" by blast
  then show ?thesis by (auto simp: lookup_repaired_rows(2) [OF assms(2), unfolded valid_group_def])
qed

lemma ep_pool_groups: "ip_GroupName ` set (instances ep_db) = {''g1'', ''g2''}"
  by (auto simp: ep_db_def ep_inst_def)

theorem RepairDangling_repairs_witness:
  "\<exists>w'. run_state (RepairDangling ep_m) (ep_w []) = (Inr (), w') \<and>
     lookup_assignment (assignments (db w')) ''c1'' = Some \<lparr>ap_Cluster = ''c1'', ap_GroupName = ''g1''\<rparr>"
  using RepairDangling_repairs [of "ep_w []" ep_m] ep_inv
  by (fastforce simp: ep_pool_groups ep_db_def [THEN arg_cong, of assignments] lookup_assignment_def TEppAssignmentOne_def)

text \<open>
  C9. When the pool has an instance and no call fails, one pass of the reconciler leaves every
  cluster in EPP mode with a group of the pool, does not move a cluster whose group was there, and a
  second pass changes nothing at all.
\<close>

theorem Reconcile_converges:
  assumes "faults w = []" and "epp_inv (db w)" and "em_clusterSource m" and "instances (db w) \<noteq> []"
  shows "\<exists>w'. run_state (Reconcile m) w = (Inr (), w') \<and>
    (\<forall>c\<in>set (clusters (db w)). getBalanceMode c = BalanceModeEPP \<longrightarrow> validly_assigned (db w') (cl_Name c)) \<and>
    (\<forall>c. validly_assigned (db w) c \<longrightarrow>
       lookup_assignment (assignments (db w')) c = lookup_assignment (assignments (db w)) c) \<and>
    run_state (Reconcile m) w' = (Inr (), w')"
proof -
  let ?d = "db w"
  from run_Reconcile [OF assms(1-3)] obtain w1 w' where
    r: "run_state (Reconcile m) w = (Inr (), w')" "w' = set_assignments (reconciled m ?d) w1" "faults w1 = []"
      "instances (db w1) = instances ?d" "clusters (db w1) = clusters ?d" by blast
  note v = reconciled_valid [OF assms(2,4), where m = m]
  have va: "validly_assigned (db w') c \<longleftrightarrow> validly_assigned (with_rows ?d (reconciled m ?d)) c" for c
    using r by (simp add: validly_assigned_def)
  have inv: "epp_inv (db w')" using r v(1) assms(2) by (simp add: epp_inv_def)
  have names: "epp_names (db w') = epp_names ?d" using r by (simp add: epp_names_def)
  have all: "validly_assigned (db w') (ap_Cluster a)" if "a \<in> set (assignments (db w'))" for a
  proof -
    have "lookup_assignment (reconciled m ?d) (ap_Cluster a) = Some a"
      using that r v(1) by (simp add: lookup_assignment_in)
    then show ?thesis using v(3) va by simp
  qed
  have served: "validly_assigned (db w') c" if "c \<in> set (epp_names ?d)" for c using v(2) [OF that] va by simp
  from run_Reconcile [OF _ inv assms(3)] r(2,3) obtain w2 w'' where
    r2: "run_state (RepairDangling m) w' = (Inr (), w2)" "run_state (Reconcile m) w' = (Inr (), w'')"
      "w'' = set_assignments (reconciled m (db w')) w2" by auto
  moreover have "w2 = w'" using run_RepairDangling [of w' m] r(2,3) inv all r2(1) by auto
  moreover have "reconciled m (db w') = assignments (db w')"
    using reconciled_fixpoint [OF inv] all served names by simp
  ultimately have "run_state (Reconcile m) w' = (Inr (), w')" by simp
  moreover have "\<forall>c\<in>set (clusters ?d). getBalanceMode c = BalanceModeEPP \<longrightarrow> validly_assigned (db w') (cl_Name c)"
    using served by (auto simp: set_epp_names)
  ultimately show ?thesis using r(1,2) v(4) by auto
qed

theorem Reconcile_converges_witness:
  "\<exists>w'. run_state (Reconcile ep_m) (ep_w []) = (Inr (), w') \<and> validly_assigned (db w') ''c3'' \<and>
     run_state (Reconcile ep_m) w' = (Inr (), w')"
  using Reconcile_converges [of "ep_w []" ep_m] ep_inv
  by (fastforce simp: ep_m_def ep_db_def getBalanceMode_def BalanceModeEPP_def)

text \<open>
  When every assignment is valid and the loads of the groups differ by at most one, they still
  differ by at most one after a pass of the reconciler has assigned the clusters that had no group.
\<close>

theorem Reconcile_keeps_balance:
  assumes "faults w = []" and "epp_inv (db w)" and "em_clusterSource m" and "balanced (db w)"
    and "\<forall>a\<in>set (assignments (db w)). validly_assigned (db w) (ap_Cluster a)"
  shows "balanced (db (snd (run_state (Reconcile m) w)))"
proof -
  let ?d = "db w"
  from run_Reconcile [OF assms(1-3)] obtain w1 w' where
    r: "run_state (RepairDangling m) w = (Inr (), w1)" "run_state (Reconcile m) w = (Inr (), w')"
      "w' = set_assignments (reconciled m ?d) w1" "instances (db w1) = instances ?d" by blast
  from run_RepairDangling [OF assms(1,2), of m] r(1) assms(5) have "w1 = w" "assignments (db w1) = repaired_rows m ?d"
    by auto
  then have rep: "repaired_rows m ?d = assignments ?d" by simp
  have wf: "wf_assignments (assignments ?d)" using assms(2) by (simp add: epp_inv_def)
  have "balanced (with_rows ?d (assignments ?d))" using assms(4) by (simp add: balanced_def)
  from foldl_assign_one_balanced [OF wf _ this, of "epp_names ?d" m] epp_names_nonempty [OF assms(2)]
  have "balanced (with_rows ?d (reconciled m ?d))" by (auto simp: reconciled_def rep)
  then show ?thesis using r by (simp add: balanced_def)
qed

theorem Reconcile_keeps_balance_witness:
  "balanced (db (snd (run_state (Reconcile ep_m) ((ep_w [])\<lparr>db := ep_db\<lparr>assignments := []\<rparr>\<rparr>))))"
  by (rule Reconcile_keeps_balance)
     (use ep_inv in \<open>simp_all add: ep_m_def ep_w_def epp_inv_def wf_assignments_def balanced_def load_def\<close>)

section \<open>Views\<close>

text \<open>
  The assignment view splits the EPP clusters: each is listed with its group when that group is in
  the pool, and as unassigned otherwise, never both; the idle groups are the groups of the pool that
  no listed cluster uses.
\<close>

theorem view_splits_clusters:
  assumes "wf_assignments as" and "c \<in> set cs"
  shows "let v = buildAssignmentsView (buildPool n insts) cs as in
    (ec_Name c \<in> set (av_UnassignedClusters v)) \<noteq> (ec_Name c \<in> cav_Cluster ` set (av_Clusters v)) \<and>
    (\<lparr>cav_Cluster = ec_Name c, cav_Group = Some g\<rparr> \<in> set (av_Clusters v)) =
      (lookup_assignment as (ec_Name c) = Some \<lparr>ap_Cluster = ec_Name c, ap_GroupName = g\<rparr> \<and>
       g \<in> ip_GroupName ` set insts) \<and>
    set (av_IdleGroups v) = ip_GroupName ` set insts - {g. Some g \<in> cav_Group ` set (av_Clusters v)}"
proof -
  let ?v = "buildAssignmentsView (buildPool n insts) cs as"
  let ?s = "shown_group (buildPool n insts) as"
  have un: "ec_Name c \<in> set (av_UnassignedClusters ?v) \<longleftrightarrow> ?s (ec_Name c) = None"
    using assms(2) by (auto simp: view_Unassigned image_iff)
  have asn: "ec_Name c \<in> cav_Cluster ` set (av_Clusters ?v) \<longleftrightarrow> ?s (ec_Name c) \<noteq> None"
    using assms(2) by (force simp: view_Clusters image_iff)
  have grp: "\<lparr>cav_Cluster = ec_Name c, cav_Group = Some g\<rparr> \<in> set (av_Clusters ?v) \<longleftrightarrow> ?s (ec_Name c) = Some g"
    using assms(2) by (auto simp: view_Clusters)
  have sg: "?s (ec_Name c) = Some g \<longleftrightarrow>
      lookup_assignment as (ec_Name c) = Some \<lparr>ap_Cluster = ec_Name c, ap_GroupName = g\<rparr> \<and> g \<in> ip_GroupName ` set insts"
  proof (cases "lookup_assignment as (ec_Name c)")
    case (Some a)
    then have "ap_Cluster a = ec_Name c" using assms(1) by (simp add: lookup_assignment_in)
    with Some show ?thesis by (cases a) (auto simp: shown_group_built [OF assms(1)] valid_group_def)
  qed (simp add: shown_group_built [OF assms(1)])
  have idle: "set (av_IdleGroups ?v) = ip_GroupName ` set insts - {g. Some g \<in> cav_Group ` set (av_Clusters ?v)}"
  proof -
    have occ: "Some h \<in> cav_Group ` set (av_Clusters ?v) \<longleftrightarrow> (\<exists>e\<in>set cs. ?s (ec_Name e) = Some h)" for h
      by (force simp: view_Clusters image_iff)
    show ?thesis unfolding set_eq_iff view_Idle_set buildPool_names_set Diff_iff mem_Collect_eq occ by blast
  qed
  show ?thesis unfolding Let_def using un asn grp sg idle by blast
qed

theorem view_splits_clusters_witness:
  "\<lparr>cav_Cluster = ''c1'', cav_Group = Some ''g1''\<rparr> \<in> set (av_Clusters (buildAssignmentsView
     (buildPool ''EPP.pool'' (instances ep_db)) (epp_clusters (clusters ep_db)) (assignments ep_db)))"
proof -
  have "wf_assignments (assignments ep_db)" using ep_inv by (simp add: epp_inv_def)
  moreover have "\<lparr>ec_Name = ''c1'', ec_EppConfigJSON = ''{}''\<rparr> \<in> set (epp_clusters (clusters ep_db))"
    by (simp add: epp_clusters_def ep_db_def getBalanceMode_def BalanceModeEPP_def)
  moreover have "lookup_assignment (assignments ep_db) ''c1'' = Some \<lparr>ap_Cluster = ''c1'', ap_GroupName = ''g1''\<rparr>"
    by (simp add: ep_db_def lookup_assignment_def TEppAssignmentOne_def)
  ultimately show ?thesis
    using view_splits_clusters [of "assignments ep_db" "\<lparr>ec_Name = ''c1'', ec_EppConfigJSON = ''{}''\<rparr>"
        "epp_clusters (clusters ep_db)" "''EPP.pool''" "instances ep_db" "''g1''"]
    by (simp add: Let_def ep_pool_groups)
qed

text \<open>
  The endpoints that are exported for a cluster are the addresses of the instances of its group,
  at least one; they are found exactly when the assignment of the cluster is valid.
\<close>

theorem endpoints_are_the_group:
  assumes "faults w = []" and "epp_inv (db w)" and "c \<noteq> []"
  shows "run_state (GetAssignmentEndpoints m c) w =
    (Inr (case lookup_assignment (assignments (db w)) c of
       None \<Rightarrow> None
     | Some a \<Rightarrow>
         (case filter (\<lambda>i. ip_GroupName i = ap_GroupName a) (instances (db w)) of
            [] \<Rightarrow> None
          | is \<Rightarrow> Some (map (\<lambda>i. instanceAddress (ip_Host i) (ip_Port i)) (sort_key ip_ID is)))), w)"
proof -
  let ?d = "db w" and ?xs = "instances (db w)"
  have inv: "instance_keys_ok ?xs" "wf_assignments (assignments ?d)" using assms(2) by (auto simp: epp_inv_def)
  have fv: "findValidAssignment (pool_of m ?d) (rows_of ?d) c =
      (case lookup_assignment (assignments ?d) c of None \<Rightarrow> None
       | Some a \<Rightarrow> if valid_group ?xs (ap_GroupName a) then Some a else None)"
    by (simp add: findValidAssignment_built lookup_rows_of [OF inv(2)])
  have em: "filter (\<lambda>i. ip_GroupName i = g) ?xs = [] \<longleftrightarrow> \<not> valid_group ?xs g" for g
    by (auto simp: filter_empty_conv valid_group_def)
  show ?thesis
  proof (cases "lookup_assignment (assignments ?d) c")
    case None
    then show ?thesis using assms(1,3)
      by (simp add: GetAssignmentEndpoints_def Let_def buildPool_stored [OF inv(1)] fv)
  next
    case (Some a)
    show ?thesis
    proof (cases "filter (\<lambda>i. ip_GroupName i = ap_GroupName a) ?xs")
      case Nil
      then have "\<not> valid_group ?xs (ap_GroupName a)" using em by simp
      then show ?thesis using assms(1,3) Some Nil
        by (simp add: GetAssignmentEndpoints_def Let_def buildPool_stored [OF inv(1)] fv)
    next
      case (Cons i rest)
      then have "valid_group ?xs (ap_GroupName a)" using em by (metis list.distinct(1))
      moreover have "sort_key ip_ID (i # rest) \<noteq> []" by (metis length_0_conv length_sort list.distinct(1))
      ultimately show ?thesis using assms(1,3) Some Cons
        by (simp add: GetAssignmentEndpoints_def Let_def buildPool_stored [OF inv(1)] fv findGroup_built del: sort_key_simps)
    qed
  qed
qed

theorem endpoints_are_the_group_witness:
  "run_state (GetAssignmentEndpoints ep_m ''c1'') (ep_w []) = (Inr (Some [''10.0.0.1:9002'']), ep_w [])"
  using endpoints_are_the_group [of "ep_w []" "''c1''" ep_m] ep_inv
  by (simp add: ep_db_def ep_inst_def lookup_assignment_def TEppAssignmentOne_def instanceAddress_def
      JoinHostPort_def show_int_def show_nat.simps digit_char_def char_of_def bit_Suc_0_iff)

text \<open>
  An override of a cluster in EPP mode with a group of the pool is in force when it returns: the
  answer shows the group, the table holds the assignment, and no other cluster moves.
\<close>

theorem OverrideAssignment_effect:
  assumes "faults w = []" and "epp_inv (db w)" and "em_clusterSource m"
    and "\<exists>cl\<in>set (clusters (db w)). cl_Name cl = c \<and> getBalanceMode cl = BalanceModeEPP"
    and "g \<in> ip_GroupName ` set (instances (db w))" and "g \<noteq> []"
  shows "\<exists>w'. run_state (OverrideAssignment m c g) w = (Inr \<lparr>cav_Cluster = c, cav_Group = Some g\<rparr>, w') \<and>
    lookup_assignment (assignments (db w')) =
      (lookup_assignment (assignments (db w)))(c \<mapsto> \<lparr>ap_Cluster = c, ap_GroupName = g\<rparr>)"
proof -
  let ?p = "\<lparr>ap_Cluster = c, ap_GroupName = g\<rparr>"
  let ?w1 = "set_assignments (put_assignment ?p (assignments (db w))) w"
  have inv: "instance_keys_ok (instances (db w))" "wf_assignments (assignments (db w))" "c \<noteq> []"
    using assms(2,4) by (auto simp: epp_inv_def)
  have ex: "list_ex (\<lambda>e. ec_Name e = c) (epp_clusters (clusters (db w)))"
    using assms(4) by (auto simp: list_ex_iff epp_clusters_def)
  have ne: "TEppInstanceList \<lparr>if_ID = None, if_GroupName = Some g\<rparr> (instances (db w)) \<noteq> []"
    using assms(5) set_TEppInstanceList [of "\<lparr>if_ID = None, if_GroupName = Some g\<rparr>" "instances (db w)"]
    by (force simp: where_instance_def)
  from run_triggerEppDataExport [of ?w1 m] assms(1) obtain w' where
    w': "run_state (triggerEppDataExport m) ?w1 = (Inr (), w')" "faults w' = []" "same_tables (db ?w1) (db w')" by auto
  have look: "lookup_assignment (assignments (db w')) =
      (lookup_assignment (assignments (db w)))(c \<mapsto> ?p)"
    using w'(3) inv assignment_table.lookup_put [OF inv(2), of ?p]
    by (auto simp: same_tables_def fun_eq_iff)
  have "wf_assignments (assignments (db w'))" using w'(3) wf_put_assignment [OF inv(2)] by (simp add: same_tables_def)
  then have wf': "wf_assignments (rows_of (db w'))" by simp
  have row: "lookup_assignment (rows_of (db w')) c = Some ?p"
    using look lookup_rows_of [of "db w'" c] wf' by (simp add: lookup_assignment_def TEppAssignmentOne_def)
  let ?v = "buildAssignmentsView (pool_of m (db w')) (epp_clusters (clusters (db w'))) (rows_of (db w'))"
  have sh: "shown_group (pool_of m (db w')) (rows_of (db w')) c = Some g"
  proof -
    have "instances (db w') = instances (db w)" using w'(3) by (simp add: same_tables_def)
    then show ?thesis using assms(5) unfolding shown_group_built [OF wf'] row by (simp add: valid_group_def)
  qed
  have fnd: "List.find (\<lambda>e. cav_Cluster e = c) (av_Clusters ?v) = Some \<lparr>cav_Cluster = c, cav_Group = Some g\<rparr>"
    using view_find [OF _ sh, of "epp_clusters (clusters (db w'))"] ex w'(3)
    by (auto simp: list_ex_iff same_tables_def)
  have "run_state (GetAssignmentView m c) w' = (Inr \<lparr>cav_Cluster = c, cav_Group = Some g\<rparr>, w')"
    using w' assms(3) inv(1) fnd
    by (simp add: GetAssignmentView_def GetAssignmentsView_def FetchEPPClusters_def Let_def
        buildPool_stored same_tables_def)
  then have "run_state (OverrideAssignment m c g) w = (Inr \<lparr>cav_Cluster = c, cav_Group = Some g\<rparr>, w')"
    using assms(1,3,6) inv ex ne w'(1) by (simp add: OverrideAssignment_def FetchEPPClusters_def)
  with look show ?thesis by blast
qed

theorem OverrideAssignment_effect_witness:
  "\<exists>w'. run_state (OverrideAssignment ep_m ''c3'' ''g2'') (ep_w []) =
     (Inr \<lparr>cav_Cluster = ''c3'', cav_Group = Some ''g2''\<rparr>, w')"
  using OverrideAssignment_effect [of "ep_w []" ep_m "''c3''" "''g2''"] ep_inv ep_pool_groups
  by (auto simp: ep_m_def ep_db_def getBalanceMode_def BalanceModeEPP_def)

section \<open>The export\<close>

text \<open>
  C10. An export of the EPP data in which no call fails, over version texts that parse and whose next second has a larger
  text (which a second repeated at the end of daylight saving time does not have): when the latest version of the topic carries the
  digest of the current data already, nothing is published; otherwise a version with that digest is published, strictly above every
  version of the topic before it, and becomes the latest. Nothing but the version table changed, and a reader that
  holds this version is told that nothing is new, without another version being published.
\<close>

theorem export_publishes_once:
  assumes "faults w = []" and "em_clusterSource m" and "em_versionControl m"
    and "epp_data m (db w) = Inr conf"
    and "\<forall>r\<in>set (topic_versions ''epp_data'' (config_versions (db w))).
       \<exists>v. em_succ m (cv_Version r) = Some v \<and> cv_Version r < v"
  shows "\<exists>l w'. snd (run_state (ExportEppData m lastVersion) w) = w' \<and>
    latestConfigVersion ''epp_data'' (config_versions (db w')) = Some l \<and> cv_DataSign l = em_sign m conf \<and>
    (if map_option cv_DataSign (latestConfigVersion ''epp_data'' (config_versions (db w))) = Some (em_sign m conf)
     then w' = w
     else rows (config_versions (db w')) = rows (config_versions (db w)) @ [l] \<and>
       (\<forall>r\<in>set (topic_versions ''epp_data'' (config_versions (db w))). cv_Version r < cv_Version l)) \<and>
    same_tables (db w) (db w') \<and> run_state (ExportEppData m (cv_Version l)) w' = (Inr None, w')"
proof -
  let ?t = "config_versions (db w)" and ?sg = "em_sign m conf"
  have again: "run_state (ExportEppData m (cv_Version l)) w' = (Inr None, w')"
    if "faults w' = []" "epp_data m (db w') = Inr conf" "cv_DataSign l = ?sg"
      "latestConfigVersion ''epp_data'' (config_versions (db w')) = Some l" for w' l
    using run_ExportConfig_unchanged [OF that(1) assms(2) that(2,4,3)] assms(3)
    by (simp add: ExportEppData_def ConfigTopicEppData_def)
  show ?thesis
  proof (cases "map_option cv_DataSign (latestConfigVersion ''epp_data'' ?t) = Some ?sg")
    case True
    then obtain l where l: "latestConfigVersion ''epp_data'' ?t = Some l" "cv_DataSign l = ?sg" by auto
    have "snd (run_state (ExportEppData m lastVersion) w) = w"
      using run_ExportConfig_unchanged [OF assms(1,2,4) l] assms(3) by (simp add: ExportEppData_def ConfigTopicEppData_def)
    with l again [OF assms(1,4) l(2,1)] show ?thesis by (auto simp: same_tables_def)
  next
    case False
    then have new: "cv_DataSign l \<noteq> ?sg" if "latestConfigVersion ''epp_data'' ?t = Some l" for l using that by simp
    have "clock_ok m ''epp_data'' ?t" using assms(5) by (simp add: clock_ok_def)
    from run_ExportConfig_changed [OF assms(1,2,4) this new] obtain v where
      v: "run_state (ExportConfig m ''epp_data'' (EppDataGenerator m)) w =
        (Inr \<lparr>ex_Version = v, ex_Config = conf\<rparr>, set_versions (published ''epp_data'' ?sg v ?t) w)"
      "\<forall>r\<in>set (topic_versions ''epp_data'' ?t). cv_Version r < v" by blast
    let ?w = "set_versions (published ''epp_data'' ?sg v ?t) w"
    let ?n = "\<lparr>cv_ID = next_id ?t, cv_Name = ''epp_data'', cv_DataSign = ?sg, cv_Version = v\<rparr>"
    have l: "latestConfigVersion ''epp_data'' (config_versions (db ?w)) = Some ?n"
      using latest_append [of "''epp_data''" ?t ?n "next_id ?t + 1"] v(2) by (simp add: published_def)
    have "snd (run_state (ExportEppData m lastVersion) w) = ?w"
      using v(1) assms(3) by (simp add: ExportEppData_def ConfigTopicEppData_def)
    moreover have "epp_data m (db ?w) = Inr conf" using assms(4) by simp
    moreover have "rows (config_versions (db ?w)) = rows ?t @ [?n]" by (simp add: published_def)
    ultimately show ?thesis unfolding if_not_P [OF False] using l v(2) again [of ?w ?n] assms(1)
      by (intro exI [of _ ?n] exI [of _ ?w]) (simp add: same_tables_def)
  qed
qed

lemma ep_data: "epp_data ep_m ep_db = Inr \<lparr>ed_EppConfig = [''c3'' \<mapsto> CompileEppConfig ''c3'' ep_conf,
    ''c1'' \<mapsto> CompileEppConfig ''c1'' ep_conf], ed_Assignment = view_assignment (buildAssignmentsView
      (buildPool ''EPP.pool'' (TEppInstanceList no_filter (instances ep_db))) (epp_clusters (clusters ep_db))
      (TEppAssignmentList (assignments ep_db)))\<rparr>"
proof -
  have "TrimSpace ''{}'' = ''{}''" by code_simp
  then show ?thesis
    by (simp add: epp_data_def Let_def ep_m_def ep_db_def epp_clusters_def getBalanceMode_def BalanceModeEPP_def
        ParseEppConfig_def)
qed

text \<open>A table whose latest version was published in the second of the export.\<close>

definition ep_versioned :: epp_world where
  "ep_versioned = (ep_w [])\<lparr>db := ep_db\<lparr>config_versions := \<lparr>rows =
     [\<lparr>cv_ID = 1, cv_Name = ''epp_data'', cv_DataSign = ''0cc175'', cv_Version = ''20260101000000''\<rparr>,
      \<lparr>cv_ID = 2, cv_Name = ''other'', cv_DataSign = ''92eb5f'', cv_Version = ''20270101000000''\<rparr>], next_id = 3\<rparr>\<rparr>\<rparr>"

theorem export_publishes_once_witness:
  "\<exists>l w'. snd (run_state (ExportEppData ep_m []) ep_versioned) = w' \<and>
     latestConfigVersion ''epp_data'' (config_versions (db w')) = Some l \<and>
     cv_DataSign l = ''d41d8c'' \<and> ''20260101000000'' < cv_Version l \<and> length (rows (config_versions (db w'))) = 3"
proof -
  let ?t = "config_versions (db ep_versioned)"
  have db: "\<exists>t. db ep_versioned = ep_db\<lparr>config_versions := t\<rparr>" by (auto simp: ep_versioned_def)
  have tv: "topic_versions ''epp_data'' ?t =
      [\<lparr>cv_ID = 1, cv_Name = ''epp_data'', cv_DataSign = ''0cc175'', cv_Version = ''20260101000000''\<rparr>]"
    by (simp add: ep_versioned_def topic_versions_def)
  have old: "map_option cv_DataSign (latestConfigVersion ''epp_data'' ?t) \<noteq> Some (em_sign ep_m conf)" for conf
    using latest_max [of "''epp_data''" ?t] by (auto simp: tv ep_m_def)
  obtain conf where conf: "epp_data ep_m (db ep_versioned) = Inr conf"
    using ep_data db by (metis epp_data_versions)
  have clk: "\<forall>r\<in>set (topic_versions ''epp_data'' ?t). \<exists>v. em_succ ep_m (cv_Version r) = Some v \<and> cv_Version r < v"
    by (simp add: tv ep_m_def)
  have "faults ep_versioned = []" "em_clusterSource ep_m" "em_versionControl ep_m" "em_sign ep_m conf = ''d41d8c''"
    "length (rows ?t) = 2"
    by (simp_all add: ep_versioned_def ep_m_def)
  with export_publishes_once [OF this(1-3) conf clk, of "[]"] show ?thesis
    unfolding if_not_P [OF old] by (fastforce simp: tv)
qed

section \<open>Compiled configurations\<close>

text \<open>
  C11. A compiled configuration is closed: the plugin names are distinct, and every reference of the
  profile, of the discovery, of the parsers and of the saturation detector names a declared plugin.
  The profile ends with the picker.
\<close>

theorem compiled_references_are_declared:
  "distinct (plugin_names (CompileEppConfig n c)) \<and>
   set (plugin_refs (CompileEppConfig n c)) \<subseteq> set (plugin_names (CompileEppConfig n c)) \<and>
   map (\<lambda>p. pp_PluginRef (last (sp_Plugins p))) (eo_SchedulingProfiles (CompileEppConfig n c)) = [''max-score'']"
proof -
  have "map (\<lambda>p. pp_PluginRef (last (sp_Plugins p))) (eo_SchedulingProfiles (CompileEppConfig n c)) = [''max-score'']"
    by (simp add: CompileEppConfig_def compile_profile_def split: option.split)
  then show ?thesis
    unfolding plugin_names_CompileEppConfig plugin_refs_CompileEppConfig by simp
qed

text \<open>
  A configuration with flow control that passes validation compiles to exactly one priority band,
  band 0, whose limit is the global limit when there is one and 10000 otherwise, and the feature gate
  is on. A queue time of up to 9223372036 seconds is printed as hours, minutes and seconds, and is the
  time without endpoints too unless that one is given.
\<close>

theorem flow_control_is_compiled:
  assumes "Validate c = Inr ()" and "es_FlowControl c = Some f" and "fc_QueueTTL f = Some s" and "s \<le> 9223372036"
  shows "\<exists>k h mi se. eo_FlowControl (CompileEppConfig n c) = Some k \<and>
    eo_FeatureGates (CompileEppConfig n c) = [''flowControl''] \<and>
    fl_PriorityBands k = [\<lparr>pb_Priority = 0,
      pb_MaxRequests = (if fl_MaxRequests k = [] then ''10000'' else fl_MaxRequests k), pb_MaxBytes = ''5Gi''\<rparr>] \<and>
    (fl_MaxRequests k = []) = (fc_MaxRequests f \<in> {None, Some (- 1)}) \<and>
    s = int (3600 * h + 60 * mi + se) \<and> mi < 60 \<and> se < 60 \<and>
    fl_DefaultRequestTTL k = (if h > 0 then show_nat h @ ''h'' else []) @
      (if h > 0 \<or> mi > 0 then show_nat mi @ ''m'' else []) @ show_nat se @ ''s'' \<and>
    (fc_NoEndpointQueueTTL f = None \<longrightarrow> fl_NoEndpointRequestTTL k = fl_DefaultRequestTTL k)"
proof -
  let ?k = "compileFlowControl c" and ?s = "nat s"
  have ok: "flow_control_ok f" using assms(1,2) unfolding Validate_iff config_ok_def by blast
  then have s: "0 \<le> s" using assms(3) by (simp add: flow_control_ok_def)
  have lim: "fc_MaxRequests f = Some i \<Longrightarrow> i = - 1 \<or> 0 < i" for i using ok by (simp add: flow_control_ok_def)
  have ne: "show_int i \<noteq> []" for i by (simp add: show_int_def)
  have bands: "fl_PriorityBands ?k = [\<lparr>pb_Priority = 0,
      pb_MaxRequests = (if fl_MaxRequests ?k = [] then ''10000'' else fl_MaxRequests ?k), pb_MaxBytes = ''5Gi''\<rparr>]"
    "(fl_MaxRequests ?k = []) = (fc_MaxRequests f \<in> {None, Some (- 1)})"
    using assms(2) lim ne
    by (auto simp: compileFlowControl_def Let_def split: option.split)
  have ttl: "fl_DefaultRequestTTL ?k = secondsToDuration s"
    "fc_NoEndpointQueueTTL f = None \<longrightarrow> fl_NoEndpointRequestTTL ?k = fl_DefaultRequestTTL ?k"
    using assms(2,3) by (simp_all add: compileFlowControl_def Let_def)
  have d60: "?s div 60 div 60 = ?s div 3600" by (simp add: div_mult2_eq [symmetric])
  have "?s = 3600 * (?s div 3600) + 60 * (?s div 60 mod 60) + ?s mod 60"
    using mult_div_mod_eq [of 60 "?s div 60"] mult_div_mod_eq [of 60 ?s] d60 by linarith
  with s have parts: "s = int (3600 * (?s div 3600) + 60 * (?s div 60 mod 60) + ?s mod 60)" by simp
  have "secondsToDuration s = (if ?s \<ge> 3600 then show_nat (?s div 3600) @ ''h'' else []) @
      (if ?s \<ge> 60 then show_nat (?s div 60 mod 60) @ ''m'' else []) @ show_nat (?s mod 60) @ ''s''"
    using secondsToDuration_small [of ?s] s assms(4) by simp
  moreover have "(0 < ?s div 3600) = (?s \<ge> 3600)" by (simp add: div_greater_zero_iff)
  moreover have "(0 < ?s div 3600 \<or> 0 < ?s div 60 mod 60) = (?s \<ge> 60)"
    using d60 by (metis div_greater_zero_iff div_less gr0I less_numeral_extra(3) mod_less not_less zero_less_numeral)
  ultimately have shown: "fl_DefaultRequestTTL ?k = (if 0 < ?s div 3600 then show_nat (?s div 3600) @ ''h'' else []) @
      (if 0 < ?s div 3600 \<or> 0 < ?s div 60 mod 60 then show_nat (?s div 60 mod 60) @ ''m'' else []) @
      show_nat (?s mod 60) @ ''s''" using ttl(1) by simp
  show ?thesis
    by (rule exI [of _ ?k], rule exI [of _ "?s div 3600"], rule exI [of _ "?s div 60 mod 60"], rule exI [of _ "?s mod 60"])
       (use assms(2) bands ttl(2) parts shown in simp)
qed

lemma ep_conf_ok: "Validate ep_conf = Inr ()"
  by (simp add: Validate_def ep_conf_def FlowControl_Validate_def LoadProfileKVFirst_def)

theorem flow_control_is_compiled_witness:
  "eo_FeatureGates (CompileEppConfig ''c1'' ep_conf) = [''flowControl''] \<and>
   fl_PriorityBands (compileFlowControl ep_conf) \<noteq> []"
  using flow_control_is_compiled [OF ep_conf_ok, of _ 600 "''c1''"] by (auto simp: ep_conf_def)

text \<open>
  A cluster write that is accepted with the balance mode EPP carries a configuration that the
  export can use: its stored text parses, every field is in range, and the queue depth of the saturation
  detector is at least one when the waiting queue limit fits in 63 bits.
\<close>

theorem accepted_cluster_is_exportable:
  assumes "validateClusterBalanceConfig decode mode oldMode conf oldConf = Inr (BalanceModeEPP, raw)"
  shows "\<exists>c. ParseEppConfig decode raw = Inr (Some c) \<and> config_ok c \<and>
    (EffectiveWaitingQueueMax c < 2 ^ 63 \<longrightarrow>
      (\<exists>d\<ge>1. (''queueDepthThreshold'', PInt d) \<in> set (pc_Parameters (compileSaturationDetectorPlugin c))))"
proof -
  from assms obtain pc where p: "ParseEppConfig decode raw = Inr pc" "\<not> IsEmpty pc"
    "(case pc of None \<Rightarrow> Inr () | Some c \<Rightarrow> Validate c) = Inr ()"
    by (auto simp: validateClusterBalanceConfig_def Let_def split: if_splits sum.splits)
  then obtain c where c: "pc = Some c" by (cases pc) (auto simp: IsEmpty_def)
  with p(3) have ok: "config_ok c" by (simp add: Validate_iff)
  let ?q = "EffectiveWaitingQueueMax c"
  have "\<exists>d\<ge>1. (''queueDepthThreshold'', PInt d) \<in> set (pc_Parameters (compileSaturationDetectorPlugin c))"
    if "?q < 2 ^ 63"
    using float_to_int_floor [of ?q] that
    by (cases "1 \<le> ?q") (auto simp: compileSaturationDetectorPlugin_def Let_def)
  with p(1) c ok show ?thesis by blast
qed

lemma ep_accepted: "validateClusterBalanceConfig (\<lambda>_. Inr ep_conf) (Some ''EPP'') [] (Some ''{}'') [] = Inr (BalanceModeEPP, ''{}'')"
proof -
  have "TrimSpace ''{}'' = ''{}''" by code_simp
  moreover have "\<not> IsEmpty (Some ep_conf)" by (simp add: IsEmpty_def ep_conf_def)
  ultimately show ?thesis
    by (simp add: validateClusterBalanceConfig_def Let_def BalanceModeEPP_def BalanceModeWRR_def ParseEppConfig_def ep_conf_ok)
qed

theorem accepted_cluster_is_exportable_witness:
  "\<exists>c. ParseEppConfig (\<lambda>_. Inr ep_conf) ''{}'' = Inr (Some c) \<and> config_ok c"
  using accepted_cluster_is_exportable [OF ep_accepted] by blast

section \<open>Corner cases\<close>

text \<open>
  A repair looks at the loads before it started, so it sends all dangling clusters to one group: here three
  of them go to \<open>a\<close>, although group \<open>b\<close> is idle.
\<close>

definition pile_db :: epp_db where
  "pile_db = \<lparr>instances = [ep_inst ''1'' ''10.0.0.1'' ''a'', ep_inst ''2'' ''10.0.0.2'' ''b''],
     assignments = [\<lparr>ap_Cluster = ''c1'', ap_GroupName = ''gone''\<rparr>, \<lparr>ap_Cluster = ''c2'', ap_GroupName = ''gone''\<rparr>,
       \<lparr>ap_Cluster = ''c3'', ap_GroupName = ''gone''\<rparr>],
     clusters = [], config_versions = \<lparr>rows = [], next_id = 1\<rparr>\<rparr>"

lemma repair_piles_up: "load (repaired_rows m pile_db) ''a'' = 3 \<and> load (repaired_rows m pile_db) ''b'' = 0"
proof -
  have best: "best_group (load (assignments pile_db)) (ip_GroupName ` set (instances pile_db)) ''a''"
    by (simp add: best_group_def pile_db_def ep_inst_def load_def)
  have al: "allocateCluster (buildPool n (instances pile_db)) (rows_of pile_db) c =
      Inr \<lparr>ap_Cluster = c, ap_GroupName = ''a''\<rparr>" for n c
    by (simp add: allocateCluster_iff best)
  have rows: "rows_of pile_db = assignments pile_db" by (simp add: TEppAssignmentList_def pile_db_def)
  have no: "findValidAssignment (buildPool n (instances pile_db)) (rows_of pile_db) (ap_Cluster r) = None"
    if "r \<in> set (assignments pile_db)" for n r
    using that unfolding rows
    by (auto simp: findValidAssignment_built pile_db_def valid_group_def ep_inst_def)
  have put: "repair_put (buildPool n (instances pile_db)) (rows_of pile_db) cur r =
      put_assignment \<lparr>ap_Cluster = ap_Cluster r, ap_GroupName = ''a''\<rparr> cur" if "r \<in> set (assignments pile_db)" for n cur r
    using no [OF that] by (simp add: repair_put_def allocated_def al)
  have "foldl (repair_put (buildPool n (instances pile_db)) (rows_of pile_db)) cur rs =
      foldl (\<lambda>cur r. put_assignment \<lparr>ap_Cluster = ap_Cluster r, ap_GroupName = ''a''\<rparr> cur) cur rs"
    if "set rs \<subseteq> set (assignments pile_db)" for n cur rs
    using that by (induction rs arbitrary: cur) (auto simp: put)
  then have "repaired_rows m pile_db =
      foldl (\<lambda>cur r. put_assignment \<lparr>ap_Cluster = ap_Cluster r, ap_GroupName = ''a''\<rparr> cur)
        (assignments pile_db) (assignments pile_db)"
    by (simp add: repaired_rows_def rows)
  then show ?thesis
    by (simp add: pile_db_def put_assignment_def update_where_def load_def)
qed

text \<open>
  The MySQL driver of the build reports a duplicate key as \<open>Error 1062 (23000): Duplicate entry\<close>, which
  \<^verbatim>\<open>DuplicateEntryError\<close> does not recognise, so a rival export makes this one fail instead of retrying; the text of
  SQLite is recognised.
\<close>

lemma duplicate_text_of_mysql_is_missed:
  "\<not> DuplicateEntryError (ErrMsg ''Error 1062 (23000): Duplicate entry'')"
  "DuplicateEntryError (ErrMsg ''constraint failed: UNIQUE constraint failed'')"
  by (simp_all add: HasPrefix_def)

text \<open>A queue time of one second more than the bound passes validation and compiles to a negative duration.\<close>

lemma queue_ttl_wraps:
  "FlowControl_Validate \<lparr>fc_MaxRequests = None, fc_QueueTTL = Some 9223372037, fc_NoEndpointQueueTTL = None,
     fc_EnableEviction = None\<rparr> = Inr ()"
  "hd (secondsToDuration 9223372037) = CHR ''-''"
proof -
  have "wrap64 (9223372037 * nsSecond) = - 9223372036709551616"
    by (simp add: wrap64_def nsSecond_def)
  then show "hd (secondsToDuration 9223372037) = CHR ''-''"
    by (simp add: secondsToDuration_def Duration_String_def)
qed (simp add: FlowControl_Validate_def)

end
