(* ===== verification/Calendar.thy ===== *)
theory Calendar
  imports GoLib
begin

text \<open>
  The calendar of Go's package \<^verbatim>\<open>time\<close>, as far as the quota periods use it: the proleptic Gregorian date of an
  instant in a zone, \<^verbatim>\<open>Weekday\<close>, \<^verbatim>\<open>time.Date\<close> at midnight and \<^verbatim>\<open>AddDate\<close> of days. A zone is its
  fixed distance from UTC in nanoseconds; a zone that changes its distance (daylight saving) is not
  modelled. Day 0 is 1 January of year 1, a Monday.

  The interface \<open>period_floor\<close> is what a periodic reset needs of ``the start of the period of an
  instant''; the reset component shows it for weeks and months.
\<close>

section \<open>Days and dates\<close>

definition nsDay :: int where "nsDay = 86400 * nsSecond"

lemma nsDay_pos [simp]: "0 < nsDay" "nsDay \<noteq> 0"
  by (simp_all add: nsDay_def nsSecond_def)

definition leap :: "int \<Rightarrow> bool" where
  "leap y \<longleftrightarrow> y mod 4 = 0 \<and> (y mod 100 \<noteq> 0 \<or> y mod 400 = 0)"

definition year_len :: "int \<Rightarrow> int" where
  "year_len y = (if leap y then 366 else 365)"

text \<open>The day number of 1 January.\<close>

definition year_start :: "int \<Rightarrow> int" where
  "year_start y = 365 * (y - 1) + (y - 1) div 4 - (y - 1) div 100 + (y - 1) div 400"

text \<open>
  The year of a day and the day in the year, by whole cycles of 400, 100, 4 and 1 years; the last
  day of a long cycle belongs to its last short one.
\<close>

definition year_yday :: "int \<Rightarrow> int \<times> int" where
  "year_yday d =
     (let a = d div 146097; r = d mod 146097;
          b = min 3 (r div 36524); r2 = r - b * 36524;
          c = r2 div 1461; r3 = r2 mod 1461;
          e = min 3 (r3 div 365)
      in (400 * a + 100 * b + 4 * c + e + 1, r3 - 365 * e))"

text \<open>The first day of a month in the year.\<close>

definition month_start :: "bool \<Rightarrow> int \<Rightarrow> int" where
  "month_start l m =
     [0, 31, 59, 90, 120, 151, 181, 212, 243, 273, 304, 334] ! nat (m - 1) +
     (if l \<and> m > 2 then 1 else 0)"

definition month_of :: "bool \<Rightarrow> int \<Rightarrow> int" where
  "month_of l yd =
     (let k = (if l then 1 else 0) in
      if yd < 31 then 1 else if yd < 59 + k then 2 else if yd < 90 + k then 3
      else if yd < 120 + k then 4 else if yd < 151 + k then 5 else if yd < 181 + k then 6
      else if yd < 212 + k then 7 else if yd < 243 + k then 8 else if yd < 273 + k then 9
      else if yd < 304 + k then 10 else if yd < 334 + k then 11 else 12)"

definition civil :: "int \<Rightarrow> int \<times> int \<times> int" where
  "civil d =
     (let (y, yd) = year_yday d; m = month_of (leap y) yd
      in (y, m, yd - month_start (leap y) m + 1))"

definition days_of :: "int \<Rightarrow> int \<Rightarrow> int \<Rightarrow> int" where
  "days_of y m d = year_start y + month_start (leap y) m + (d - 1)"

section \<open>Instants in a zone\<close>

type_synonym zone = int

definition local_day :: "zone \<Rightarrow> time \<Rightarrow> int" where
  "local_day z t = (t + z) div nsDay"

definition local_clock :: "zone \<Rightarrow> time \<Rightarrow> int" where
  "local_clock z t = (t + z) mod nsDay"

definition time_Year :: "zone \<Rightarrow> time \<Rightarrow> int" where
  "time_Year z t = fst (civil (local_day z t))"

definition time_Month :: "zone \<Rightarrow> time \<Rightarrow> int" where
  "time_Month z t = fst (snd (civil (local_day z t)))"

definition time_Day :: "zone \<Rightarrow> time \<Rightarrow> int" where
  "time_Day z t = snd (snd (civil (local_day z t)))"

text \<open>\<^verbatim>\<open>Weekday()\<close>: 0 is Sunday.\<close>

definition time_Weekday :: "zone \<Rightarrow> time \<Rightarrow> int" where
  "time_Weekday z t = (local_day z t + 1) mod 7"

text \<open>\<^verbatim>\<open>time.Date(y, m, d, ..., loc)\<close> with a time of day; a day outside the month is carried over.\<close>

definition time_Date :: "zone \<Rightarrow> int \<Rightarrow> int \<Rightarrow> int \<Rightarrow> int \<Rightarrow> time" where
  "time_Date z y m d clock = days_of y m d * nsDay + clock - z"

text \<open>\<^verbatim>\<open>t.AddDate(0, 0, n)\<close>.\<close>

definition AddDays :: "zone \<Rightarrow> time \<Rightarrow> int \<Rightarrow> time" where
  "AddDays z t n =
     time_Date z (time_Year z t) (time_Month z t) (time_Day z t + n) (local_clock z t)"

section \<open>The calendar is consistent\<close>

lemma short_cycles:
  fixes r k :: int
  assumes "0 \<le> r" "0 < k"
  defines "q \<equiv> min 3 (r div k)"
  shows "0 \<le> q" "q \<le> 3" "0 \<le> r - q * k" "q < 3 \<Longrightarrow> r - q * k < k"
proof -
  show "0 \<le> q" "q \<le> 3" using assms by (simp_all add: q_def pos_imp_zdiv_nonneg_iff)
  have "q * k \<le> r div k * k" using assms(2) by (simp add: q_def)
  then show "0 \<le> r - q * k" using div_mult_mod_eq [of r k] pos_mod_sign [OF assms(2), of r] by linarith
  show "r - q * k < k" if "q < 3"
  proof -
    have "q = r div k" using that by (simp add: q_def min_def split: if_splits)
    then have "r - q * k = r mod k" by (simp add: minus_div_mult_eq_mod)
    then show ?thesis using pos_mod_bound [OF assms(2), of r] by simp
  qed
qed

lemma cycle_div_mod:
  fixes n :: int
  assumes "n = k * q + r" "0 \<le> r" "r < k"
  shows "n div k = q" "n mod k = r"
  using int_div_pos_eq [OF assms] int_mod_pos_eq [OF assms] by simp_all

lemma year_start_cycles:
  assumes "0 \<le> b" "b \<le> 3" "0 \<le> c" "c \<le> 24" "0 \<le> e" "e \<le> 3"
  shows "year_start (400 * a + 100 * b + 4 * c + e + 1) = 146097 * a + 36524 * b + 1461 * c + 365 * e"
    and "leap (400 * a + 100 * b + 4 * c + e + 1) \<longleftrightarrow> e = 3 \<and> (c \<noteq> 24 \<or> b = 3)"
proof -
  let ?n = "400 * a + 100 * b + 4 * c + e"
  have d: "?n div 4 = 100 * a + 25 * b + c"
    by (rule cycle_div_mod(1) [where r = e]) (use assms in auto)
  have d': "?n div 100 = 4 * a + b"
    by (rule cycle_div_mod(1) [where r = "4 * c + e"]) (use assms in auto)
  have d'': "?n div 400 = a"
    by (rule cycle_div_mod(1) [where r = "100 * b + 4 * c + e"]) (use assms in auto)
  show "year_start (?n + 1) = 146097 * a + 36524 * b + 1461 * c + 365 * e"
    using d d' d'' by (simp add: year_start_def)
  have m4: "(?n + 1) mod 4 = (if e = 3 then 0 else e + 1)"
    by (rule cycle_div_mod(2) [where q = "100 * a + 25 * b + c + (if e = 3 then 1 else 0)"])
       (use assms in auto)
  have m100: "(?n + 1) mod 100 = (if c = 24 \<and> e = 3 then 0 else 4 * c + e + 1)"
    by (rule cycle_div_mod(2) [where q = "4 * a + b + (if c = 24 \<and> e = 3 then 1 else 0)"])
       (use assms in auto)
  have m400: "(?n + 1) mod 400 = (if b = 3 \<and> c = 24 \<and> e = 3 then 0 else 100 * b + 4 * c + e + 1)"
    by (rule cycle_div_mod(2) [where q = "a + (if b = 3 \<and> c = 24 \<and> e = 3 then 1 else 0)"])
       (use assms in auto)
  show "leap (?n + 1) \<longleftrightarrow> e = 3 \<and> (c \<noteq> 24 \<or> b = 3)"
    unfolding leap_def m4 m100 m400 using assms by auto
qed

lemma div_step:
  fixes y k :: int
  assumes "0 < k"
  shows "y div k = (y - 1) div k + (if y mod k = 0 then 1 else 0)"
proof (cases "y mod k = 0")
  case True
  have "(y - 1) div k = y div k - 1"
    by (rule cycle_div_mod(1) [where r = "k - 1"])
       (use True assms in \<open>auto simp: algebra_simps mult_div_mod_eq [symmetric] dest: mod_0_imp_dvd\<close>)
  with True show ?thesis by simp
next
  case False
  then have "0 < y mod k" using assms by (simp add: order_less_le)
  have "(y - 1) div k = y div k"
    by (rule cycle_div_mod(1) [where r = "y mod k - 1"])
       (use \<open>0 < y mod k\<close> assms pos_mod_bound [OF assms, of y] in \<open>simp_all\<close>)
  with False show ?thesis by simp
qed

lemma year_step_aux:
  fixes y :: int
  assumes "p100 \<Longrightarrow> p4" "p400 \<Longrightarrow> p100"
    and "x4 = a4 + (if p4 then 1 else 0)" "x100 = a100 + (if p100 then 1 else 0)"
    and "x400 = a400 + (if p400 then 1 else 0)"
  shows "365 * y + x4 - x100 + x400 =
    365 * (y - 1) + a4 - a100 + a400 + (if p4 \<and> (\<not> p100 \<or> p400) then 366 else 365)"
  using assms by (cases p4; cases p100; cases p400) auto

lemma year_start_Suc: "year_start (y + 1) = year_start y + year_len y"
proof -
  have "y mod 100 = 0 \<Longrightarrow> y mod 4 = 0"
    by (simp add: mod_eq_0_iff_dvd dvd_trans [of 4 "100::int"])
  moreover have "y mod 400 = 0 \<Longrightarrow> y mod 100 = 0"
    by (simp add: mod_eq_0_iff_dvd dvd_trans [of 100 "400::int"])
  ultimately show ?thesis
    unfolding year_start_def year_len_def leap_def add_diff_cancel_right'
    by (rule year_step_aux) (assumption | rule div_step, simp)+
qed

lemma year_yday_spec:
  assumes "year_yday d = (y, yd)"
  shows "d = year_start y + yd" "0 \<le> yd" "yd < year_len y"
proof -
  define a r where "a = d div 146097" and "r = d mod 146097"
  define b r2 where "b = min 3 (r div 36524)" and "r2 = r - b * 36524"
  define c r3 where "c = r2 div 1461" and "r3 = r2 mod 1461"
  define e where "e = min 3 (r3 div 365)"
  have "(y, yd) = (400 * a + 100 * b + 4 * c + e + 1, r3 - 365 * e)"
    unfolding assms [symmetric] year_yday_def Let_def a_def r_def b_def r2_def c_def r3_def e_def
    by (rule refl)
  then have y: "y = 400 * a + 100 * b + 4 * c + e + 1" and yd: "yd = r3 - 365 * e" by simp_all
  have r: "0 \<le> r" "r < 146097" "d = 146097 * a + r"
    unfolding r_def a_def by (rule pos_mod_sign pos_mod_bound, simp)+ (rule mult_div_mod_eq [symmetric])
  note b = short_cycles [where k = 36524, OF r(1) zero_less_numeral, folded b_def, folded r2_def]
  have r2: "r2 = 1461 * c + r3" "0 \<le> r3" "r3 < 1461"
    unfolding c_def r3_def
    by (rule mult_div_mod_eq [symmetric]) (rule pos_mod_sign pos_mod_bound, simp)+
  have r2b: "r2 \<le> 36524" using r(2) b(2,4) by (cases "b = 3") (auto simp: r2_def)
  have c: "0 \<le> c" "c \<le> 24" using r2 b(3) r2b by auto
  note e = short_cycles [where k = 365, OF r2(2) zero_less_numeral, folded e_def]
  note ys = year_start_cycles [OF b(1,2) c e(1,2), of a]
  show "d = year_start y + yd"
    unfolding y ys(1) yd using r(3) r2(1) by (simp add: r2_def)
  show "0 \<le> yd" using e(3) yd by simp
  have "c = 24 \<Longrightarrow> b < 3 \<Longrightarrow> r3 < 1460" using r2(1) b(4) by simp
  then show "yd < year_len y"
    unfolding year_len_def y ys(2) yd using e r2(3) b(2) by (cases "e = 3") auto
qed

lemma year_start_mono: "y \<le> y' \<Longrightarrow> year_start y \<le> year_start y'"
proof (induction y' rule: int_ge_induct)
  case (step i)
  then show ?case by (simp add: year_start_Suc year_len_def)
qed simp

text \<open>A day determines its year.\<close>

lemma year_yday_unique:
  assumes "0 \<le> yd" "yd < year_len y"
  shows "year_yday (year_start y + yd) = (y, yd)"
proof -
  obtain y' yd' where e: "year_yday (year_start y + yd) = (y', yd')" by fastforce
  note s = year_yday_spec [OF e]
  have "y' = y"
  proof (rule ccontr)
    assume "y' \<noteq> y"
    then consider "y' + 1 \<le> y" | "y + 1 \<le> y'" by linarith
    then show False
      using s assms year_start_mono year_start_Suc by cases fastforce+
  qed
  with s e show ?thesis by simp
qed

lemma month_start_simps [simp]:
  "month_start l 1 = 0" "month_start l 2 = 31"
  "month_start l 3 = (if l then 60 else 59)" "month_start l 4 = (if l then 91 else 90)"
  "month_start l 5 = (if l then 121 else 120)" "month_start l 6 = (if l then 152 else 151)"
  "month_start l 7 = (if l then 182 else 181)" "month_start l 8 = (if l then 213 else 212)"
  "month_start l 9 = (if l then 244 else 243)" "month_start l 10 = (if l then 274 else 273)"
  "month_start l 11 = (if l then 305 else 304)" "month_start l 12 = (if l then 335 else 334)"
  by (simp_all add: month_start_def eval_nat_numeral)

lemma month_start_le:
  assumes "0 \<le> yd"
  shows "month_start l (month_of l yd) \<le> yd" and "0 \<le> month_start l (month_of l yd)"
  using assms by (auto simp: month_of_def Let_def)

text \<open>A day from the first of the month up to a day of that month lies in that month.\<close>

lemma month_of_const:
  assumes "0 \<le> yd" "month_start l (month_of l yd) \<le> x" "x \<le> yd"
  shows "month_of l x = month_of l yd"
  using assms by (cases l) (auto simp: month_of_def Let_def split: if_splits)

text \<open>Turning a day into its date and back.\<close>

lemma days_of_civil: "civil d = (y, m, k) \<Longrightarrow> days_of y m k = d"
  by (auto simp: civil_def days_of_def Let_def split: prod.splits dest!: year_yday_spec(1))

lemma days_of_shift: "days_of y m (k + n) = days_of y m k + n"
  by (simp add: days_of_def)

lemma local_split: "t = local_day z t * nsDay + local_clock z t - z"
  unfolding local_day_def local_clock_def using div_mult_mod_eq [of "t + z" nsDay] by simp

lemma local_clock_bounds [simp]: "0 \<le> local_clock z t" "local_clock z t < nsDay"
  by (simp_all add: local_clock_def)

lemma AddDays_days: "AddDays z t n = t + n * nsDay"
proof -
  obtain y m k where c: "civil (local_day z t) = (y, m, k)" by (metis prod_cases3)
  then have "AddDays z t n = (local_day z t + n) * nsDay + local_clock z t - z"
    by (simp add: AddDays_def time_Date_def time_Year_def time_Month_def time_Day_def days_of_shift
        days_of_civil [OF c])
  also have "\<dots> = t + n * nsDay" using local_split [of t z] by (simp add: algebra_simps)
  finally show ?thesis .
qed

lemma local_day_AddDays [simp]: "local_day z (t + n * nsDay) = local_day z t + n"
  by (simp add: local_day_def add.assoc add.commute [of _ z] flip: add.assoc)

lemma local_day_midnight [simp]: "local_day z (d * nsDay - z) = d"
  by (simp add: local_day_def)

lemma local_day_mono: "t \<le> u \<Longrightarrow> local_day z t \<le> local_day z u"
  by (simp add: local_day_def zdiv_mono1)

lemma midnight_le: "d \<le> local_day z t \<longleftrightarrow> d * nsDay - z \<le> t"
proof
  assume "d \<le> local_day z t"
  then have "d * nsDay \<le> local_day z t * nsDay" by simp
  then show "d * nsDay - z \<le> t" using local_split [of t z] local_clock_bounds(1) [of z t] by linarith
next
  assume "d * nsDay - z \<le> t"
  from local_day_mono [OF this, of z] show "d \<le> local_day z t" by simp
qed

section \<open>The interface of a period\<close>

locale period_floor =
  fixes start :: "time \<Rightarrow> time"
  assumes start_le: "start t \<le> t"
    and start_const: "start t \<le> x \<Longrightarrow> x \<le> t \<Longrightarrow> start x = start t"
begin

lemma start_start [simp]: "start (start t) = start t"
  using start_const [of t "start t"] start_le by simp

lemma start_mono: "t \<le> u \<Longrightarrow> start t \<le> start u"
  using start_const [of u t] start_le [of t] by linarith

text \<open>An instant is before the current period exactly when its own period started earlier.\<close>

lemma before_period_iff: "t < start u \<longleftrightarrow> start t < start u"
proof
  assume "t < start u"
  then show "start t < start u" using start_le [of t] by linarith
next
  assume less: "start t < start u"
  show "t < start u"
  proof (rule ccontr)
    assume "\<not> t < start u"
    then have "start (start u) \<le> start t" by (intro start_mono) simp
    with less show False by simp
  qed
qed

lemma same_period: "start t \<le> u \<Longrightarrow> u \<le> t \<Longrightarrow> start u = start t"
  by (rule start_const)

end

end
