(* ===== verification/QuotaStore.thy ===== *)
theory QuotaStore
  imports Calendar SqlTable
begin

text \<open>
  The data and the storage of quota plans: the rows of \<^verbatim>\<open>quota_plans\<close>, the methods of
  \<^verbatim>\<open>QuotaPlanStorager\<close> (\<^verbatim>\<open>storage/rdb/quota\<close>) with the statements of \<^verbatim>\<open>table_quota_plans.go\<close>,
  the lists of API keys and entities of a plan, and the world in which the quota managers run: the
  tables, the keys of Redis with their expiry, the clock and the operation log.

  \<^verbatim>\<open>float64\<close> amounts are rationals (no rounding). What a column keeps of a value is a
  parameter: \<open>qc_time\<close> for a DATETIME (MySQL rounds to seconds) and \<open>qc_quota\<close> for a DECIMAL.
  MySQL's implicit \<^verbatim>\<open>ON UPDATE\<close> of \<^verbatim>\<open>updated_at\<close> is not modelled: no code reads that column.
\<close>

section \<open>Data\<close>

record TQuotaPlan =
  qp_ID :: int
  qp_Unlimited :: bool
  qp_PassWhenNoEnoughQuota :: bool
  qp_Quota :: rat
  qp_Unit :: string
  qp_ResetPeriod :: string
  qp_LastResetAt :: "time option"
  qp_CreatedAt :: time
  qp_UpdatedAt :: time

record TQuotaPlanParam =
  tq_ID :: "int option"
  tq_Unlimited :: "bool option"
  tq_PassWhenNoEnoughQuota :: "bool option"
  tq_Quota :: "rat option"
  tq_Unit :: "string option"
  tq_ResetPeriod :: "string option"
  tq_LastResetAt :: "time option"
  tq_CreatedAt :: "time option"
  tq_UpdatedAt :: "time option"

definition empty_TQuotaPlanParam :: TQuotaPlanParam where
  "empty_TQuotaPlanParam = \<lparr>tq_ID = None, tq_Unlimited = None, tq_PassWhenNoEnoughQuota = None,
     tq_Quota = None, tq_Unit = None, tq_ResetPeriod = None, tq_LastResetAt = None,
     tq_CreatedAt = None, tq_UpdatedAt = None\<rparr>"

record QuotaPlanParam =
  pl_ID :: "int option"
  pl_Unlimited :: "bool option"
  pl_PassWhenNoEnoughQuota :: "bool option"
  pl_Quota :: "rat option"
  pl_Unit :: "string option"
  pl_ResetPeriod :: "string option"
  pl_LastResetAt :: "time option"
  pl_CreateTime :: "int option"

definition empty_QuotaPlanParam :: QuotaPlanParam where
  "empty_QuotaPlanParam = \<lparr>pl_ID = None, pl_Unlimited = None, pl_PassWhenNoEnoughQuota = None,
     pl_Quota = None, pl_Unit = None, pl_ResetPeriod = None, pl_LastResetAt = None,
     pl_CreateTime = None\<rparr>"

text \<open>\<^verbatim>\<open>shared.QuotaPlanParam\<close>, without the balance that only reports fill in.\<close>

record SharedQuotaPlanParam =
  sq_Unlimited :: "bool option"
  sq_PassWhenNoEnoughQuota :: "bool option"
  sq_Quota :: "rat option"
  sq_Unit :: "string option"
  sq_ResetPeriod :: "string option"
  sq_LastResetAt :: "time option"

record QuotaPlanFilter =
  qf_ID :: "int option"
  qf_Unlimited :: "bool option"
  qf_ResetPeriod :: "string list"

definition plan_by_id :: "int \<Rightarrow> QuotaPlanFilter" where
  "plan_by_id i = \<lparr>qf_ID = Some i, qf_Unlimited = None, qf_ResetPeriod = []\<rparr>"

text \<open>The columns of \<^verbatim>\<open>api_keys\<close> and \<^verbatim>\<open>entities\<close>, and the fields read from them, that quotas use.\<close>

record TAPIKeyOwner =
  ta_ID :: string
  ta_Key :: string
  ta_QuotaPlanID :: "int option"
  ta_CreatedAt :: time

record TEntityOwner =
  te_EntityID :: string
  te_QuotaPlanID :: "int option"

record APIKeyOwnerParam =
  ka_ID :: "string option"
  ka_Key :: "string option"
  ka_KeyCreateAt :: "time option"

record EntityOwnerParam =
  ke_EntityID :: "string option"

section \<open>The world\<close>

record quota_db =
  quota_plans :: "TQuotaPlan table"
  api_keys :: "TAPIKeyOwner list"
  entities :: "TEntityOwner list"

datatype audit_value = AvInt int | AvBool bool | AvNum rat | AvStr string | AvTime time

type_synonym audit_map = "(string \<times> audit_value) list"

record OperationLogEntry =
  oe_Action :: string
  oe_ResourceID :: string
  oe_ResourceParentID :: string
  oe_Before :: "audit_map option"
  oe_After :: "audit_map option"
  oe_Error :: "error option"

text \<open>The variables of \<^verbatim>\<open>ResetBalance\<close> that the closure it runs as a transaction assigns.\<close>

record reset_vars =
  va_oldPlan :: "QuotaPlanParam option"
  va_resetQuota :: "rat option"
  va_planUnit :: "string option"

record quota_world = env +
  qdb :: quota_db
  q_redis :: "string \<Rightarrow> (string \<times> time option) option"
  q_now :: time
  q_log :: "OperationLogEntry list"
  q_vars :: reset_vars

type_synonym 'a quota = "(quota_world, error + 'a) state"

text \<open>
  What the managers are built with: the SQL dialect and the precision of its columns, the
  decryption of stored keys, the zones of the process and of the times read from the database, the
  conversion between amounts and Redis numbers (\<^verbatim>\<open>golibquota\<close>), the number that the
  client's \<^verbatim>\<open>GetInt64Batch\<close> reports for a missing key, and which optional parts are there.
\<close>

record quota_deps =
  qc_isMySQL :: bool
  qc_time :: "time \<Rightarrow> time"
  qc_quota :: "rat \<Rightarrow> rat"
  qc_decrypt :: "string \<Rightarrow> error + string"
  qc_zone :: zone
  qc_dbZone :: zone
  qc_PtrToRedisValue :: "rat option \<Rightarrow> string option \<Rightarrow> i64"
  qc_PtrFromRedisValue :: "i64 \<Rightarrow> string option \<Rightarrow> rat"
  qc_absentInBatch :: i64
  qc_entityStorager :: bool
  qc_quotaCache :: bool
  qc_redisClient :: bool
  qc_operationLog :: bool

section \<open>Statements\<close>

text \<open>A nil WHERE struct, and a nil column in it, restrict nothing.\<close>

definition where_plan :: "TQuotaPlanParam option \<Rightarrow> TQuotaPlan \<Rightarrow> bool" where
  "where_plan p r =
     (case p of None \<Rightarrow> True | Some q \<Rightarrow>
        (case tq_ID q of None \<Rightarrow> True | Some v \<Rightarrow> qp_ID r = v) \<and>
        (case tq_Unlimited q of None \<Rightarrow> True | Some v \<Rightarrow> qp_Unlimited r = v) \<and>
        (case tq_PassWhenNoEnoughQuota q of None \<Rightarrow> True | Some v \<Rightarrow> qp_PassWhenNoEnoughQuota r = v) \<and>
        (case tq_Quota q of None \<Rightarrow> True | Some v \<Rightarrow> qp_Quota r = v) \<and>
        (case tq_Unit q of None \<Rightarrow> True | Some v \<Rightarrow> qp_Unit r = v) \<and>
        (case tq_ResetPeriod q of None \<Rightarrow> True | Some v \<Rightarrow> qp_ResetPeriod r = v) \<and>
        (case tq_LastResetAt q of None \<Rightarrow> True | Some v \<Rightarrow> qp_LastResetAt r = Some v) \<and>
        (case tq_CreatedAt q of None \<Rightarrow> True | Some v \<Rightarrow> qp_CreatedAt r = v) \<and>
        (case tq_UpdatedAt q of None \<Rightarrow> True | Some v \<Rightarrow> qp_UpdatedAt r = v))"

text \<open>The SET list of an update: a nil column is skipped, a value is stored as the column keeps it.\<close>

definition opt_set :: "'a option \<Rightarrow> 'a \<Rightarrow> 'a" where
  "opt_set v old = (case v of None \<Rightarrow> old | Some x \<Rightarrow> x)"

definition assign_plan :: "quota_deps \<Rightarrow> TQuotaPlanParam \<Rightarrow> TQuotaPlan \<Rightarrow> TQuotaPlan" where
  "assign_plan dp p r =
     \<lparr>qp_ID = opt_set (tq_ID p) (qp_ID r),
      qp_Unlimited = opt_set (tq_Unlimited p) (qp_Unlimited r),
      qp_PassWhenNoEnoughQuota = opt_set (tq_PassWhenNoEnoughQuota p) (qp_PassWhenNoEnoughQuota r),
      qp_Quota = opt_set (map_option (qc_quota dp) (tq_Quota p)) (qp_Quota r),
      qp_Unit = opt_set (tq_Unit p) (qp_Unit r),
      qp_ResetPeriod = opt_set (tq_ResetPeriod p) (qp_ResetPeriod r),
      qp_LastResetAt = (case tq_LastResetAt p of None \<Rightarrow> qp_LastResetAt r | Some t \<Rightarrow> Some (qc_time dp t)),
      qp_CreatedAt = opt_set (map_option (qc_time dp) (tq_CreatedAt p)) (qp_CreatedAt r),
      qp_UpdatedAt = opt_set (map_option (qc_time dp) (tq_UpdatedAt p)) (qp_UpdatedAt r)\<rparr>"

text \<open>The row of an INSERT before its columns are assigned: the defaults of the table.\<close>

definition plan_defaults :: "int \<Rightarrow> time \<Rightarrow> TQuotaPlan" where
  "plan_defaults i now =
     \<lparr>qp_ID = i, qp_Unlimited = True, qp_PassWhenNoEnoughQuota = False, qp_Quota = 0,
      qp_Unit = ''total_token'', qp_ResetPeriod = ''never'', qp_LastResetAt = None,
      qp_CreatedAt = now, qp_UpdatedAt = now\<rparr>"

definition TQuotaPlanOne :: "TQuotaPlanParam option \<Rightarrow> TQuotaPlan table \<Rightarrow> TQuotaPlan option" where
  "TQuotaPlanOne p t = List.find (where_plan p) (rows t)"

definition TQuotaPlanList :: "TQuotaPlanParam option \<Rightarrow> TQuotaPlan table \<Rightarrow> TQuotaPlan list" where
  "TQuotaPlanList p t = filter (where_plan p) (rows t)"

definition TQuotaPlanCreate ::
  "quota_deps \<Rightarrow> TQuotaPlanParam \<Rightarrow> time \<Rightarrow> TQuotaPlan table \<Rightarrow> int \<times> TQuotaPlan table" where
  "TQuotaPlanCreate dp data now t =
     (let d = (if tq_CreatedAt data = None then data\<lparr>tq_CreatedAt := Some now\<rparr> else data)
      in (next_id t, t\<lparr>rows := rows t @ [assign_plan dp d (plan_defaults (next_id t) (qc_time dp now))],
                       next_id := next_id t + 1\<rparr>))"

definition TQuotaPlanUpdate ::
  "quota_deps \<Rightarrow> TQuotaPlanParam \<Rightarrow> TQuotaPlanParam option \<Rightarrow> TQuotaPlan table \<Rightarrow> nat \<times> TQuotaPlan table" where
  "TQuotaPlanUpdate dp val wh t = exec_update (qc_isMySQL dp) (where_plan wh) (assign_plan dp val) t"

text \<open>
  \<^verbatim>\<open>UPDATE quota_plans SET last_reset_at = ? WHERE id = ? AND (last_reset_at IS NULL OR
  last_reset_at < ?)\<close>
\<close>

definition TQuotaPlanClaimPeriodReset ::
  "quota_deps \<Rightarrow> int \<Rightarrow> time \<Rightarrow> time \<Rightarrow> TQuotaPlan table \<Rightarrow> nat \<times> TQuotaPlan table" where
  "TQuotaPlanClaimPeriodReset dp i periodStart now t =
     exec_update (qc_isMySQL dp)
       (\<lambda>r. qp_ID r = i \<and> (case qp_LastResetAt r of None \<Rightarrow> True | Some l \<Rightarrow> l < periodStart))
       (\<lambda>r. r\<lparr>qp_LastResetAt := Some (qc_time dp now)\<rparr>) t"

definition TQuotaPlanDelete :: "TQuotaPlanParam option \<Rightarrow> TQuotaPlan table \<Rightarrow> nat \<times> TQuotaPlan table" where
  "TQuotaPlanDelete wh t =
     (length (filter (where_plan wh) (rows t)), t\<lparr>rows := filter (\<lambda>r. \<not> where_plan wh r) (rows t)\<rparr>)"

section \<open>The storager\<close>

definition set_plans :: "TQuotaPlan table \<Rightarrow> quota_world \<Rightarrow> quota_world" where
  "set_plans t w = w\<lparr>qdb := (qdb w)\<lparr>quota_plans := t\<rparr>\<rparr>"

text \<open>Only the id of a filter reaches the WHERE clause.\<close>

definition quotaPlanFilterToParam :: "QuotaPlanFilter option \<Rightarrow> TQuotaPlanParam option" where
  "quotaPlanFilterToParam f = map_option (\<lambda>q. empty_TQuotaPlanParam\<lparr>tq_ID := qf_ID q\<rparr>) f"

definition quotaPlanDataToParam :: "QuotaPlanParam \<Rightarrow> TQuotaPlanParam" where
  "quotaPlanDataToParam p =
     empty_TQuotaPlanParam\<lparr>tq_Unlimited := pl_Unlimited p,
       tq_PassWhenNoEnoughQuota := pl_PassWhenNoEnoughQuota p, tq_Quota := pl_Quota p,
       tq_Unit := pl_Unit p, tq_ResetPeriod := pl_ResetPeriod p, tq_LastResetAt := pl_LastResetAt p\<rparr>"

definition quotaPlanParamToData :: "TQuotaPlan \<Rightarrow> QuotaPlanParam" where
  "quotaPlanParamToData r =
     \<lparr>pl_ID = Some (qp_ID r), pl_Unlimited = Some (qp_Unlimited r),
      pl_PassWhenNoEnoughQuota = Some (qp_PassWhenNoEnoughQuota r), pl_Quota = Some (qp_Quota r),
      pl_Unit = Some (qp_Unit r), pl_ResetPeriod = Some (qp_ResetPeriod r),
      pl_LastResetAt = qp_LastResetAt r,
      pl_CreateTime = Some ((qp_CreatedAt r - unixEpoch) div nsSecond)\<rparr>"

definition initLastResetAtAtCreate :: "time \<Rightarrow> TQuotaPlanParam \<Rightarrow> TQuotaPlanParam" where
  "initLastResetAtAtCreate now data =
     (if tq_LastResetAt data = None \<and>
         (tq_ResetPeriod data = Some ''weekly'' \<or> tq_ResetPeriod data = Some ''monthly'')
      then data\<lparr>tq_LastResetAt := Some now\<rparr> else data)"

definition storage_CreateQuotaPlan :: "quota_deps \<Rightarrow> QuotaPlanParam \<Rightarrow> int quota" where
  "storage_CreateQuotaPlan dp param =
     bindE (getsE q_now) (\<lambda>now.
       let data = initLastResetAtAtCreate now ((quotaPlanDataToParam param)\<lparr>tq_CreatedAt := Some now\<rparr>)
       in ext_call (\<lambda>w. let (i, t) = TQuotaPlanCreate dp data now (quota_plans (qdb w))
                        in (Inr i, set_plans t w)))"

definition storage_FetchQuotaPlan :: "QuotaPlanFilter option \<Rightarrow> QuotaPlanParam option quota" where
  "storage_FetchQuotaPlan f =
     ext_call (\<lambda>w. (Inr (map_option quotaPlanParamToData
       (TQuotaPlanOne (quotaPlanFilterToParam f) (quota_plans (qdb w)))), w))"

definition storage_FetchQuotaPlanList :: "QuotaPlanFilter option \<Rightarrow> QuotaPlanParam list quota" where
  "storage_FetchQuotaPlanList f =
     ext_call (\<lambda>w. (Inr (map quotaPlanParamToData
       (TQuotaPlanList (quotaPlanFilterToParam f) (quota_plans (qdb w)))), w))"

definition storage_UpdateQuotaPlan ::
  "quota_deps \<Rightarrow> QuotaPlanFilter option \<Rightarrow> QuotaPlanParam \<Rightarrow> nat quota" where
  "storage_UpdateQuotaPlan dp f param =
     bindE (getsE q_now) (\<lambda>now.
       let data = (quotaPlanDataToParam param)\<lparr>tq_UpdatedAt := Some now\<rparr>
       in ext_call (\<lambda>w. let (n, t) = TQuotaPlanUpdate dp data (quotaPlanFilterToParam f) (quota_plans (qdb w))
                        in (Inr n, set_plans t w)))"

definition ClaimQuotaPlanReset :: "quota_deps \<Rightarrow> int \<Rightarrow> time \<Rightarrow> time \<Rightarrow> nat quota" where
  "ClaimQuotaPlanReset dp i periodStart now =
     ext_call (\<lambda>w. let (n, t) = TQuotaPlanClaimPeriodReset dp i periodStart now (quota_plans (qdb w))
                   in (Inr n, set_plans t w))"

definition storage_DeleteQuotaPlan :: "QuotaPlanFilter option \<Rightarrow> unit quota" where
  "storage_DeleteQuotaPlan f =
     ext_call (\<lambda>w. let (n, t) = TQuotaPlanDelete (quotaPlanFilterToParam f) (quota_plans (qdb w))
                   in (Inr (), set_plans t w))"

section \<open>The owners of a plan\<close>

text \<open>A key that does not decrypt makes the whole list fail.\<close>

definition apiKeyParamToData :: "quota_deps \<Rightarrow> TAPIKeyOwner \<Rightarrow> error + APIKeyOwnerParam" where
  "apiKeyParamToData dp r =
     (case qc_decrypt dp (ta_Key r) of
        Inl e \<Rightarrow> Inl (ErrMsg ''api_key: decrypt'')
      | Inr k \<Rightarrow> Inr \<lparr>ka_ID = Some (ta_ID r), ka_Key = Some k, ka_KeyCreateAt = Some (ta_CreatedAt r)\<rparr>)"

fun all_ok :: "('a \<Rightarrow> error + 'b) \<Rightarrow> 'a list \<Rightarrow> error + 'b list" where
  "all_ok f [] = Inr []"
| "all_ok f (x # xs) =
     (case f x of Inl e \<Rightarrow> Inl e
      | Inr y \<Rightarrow> (case all_ok f xs of Inl e \<Rightarrow> Inl e | Inr ys \<Rightarrow> Inr (y # ys)))"

definition FetchAPIKeyList :: "quota_deps \<Rightarrow> int \<Rightarrow> APIKeyOwnerParam list quota" where
  "FetchAPIKeyList dp planID =
     ext_call (\<lambda>w. (all_ok (apiKeyParamToData dp)
       (filter (\<lambda>r. ta_QuotaPlanID r = Some planID) (api_keys (qdb w))), w))"

definition entityParamToData :: "TEntityOwner \<Rightarrow> EntityOwnerParam" where
  "entityParamToData r = \<lparr>ke_EntityID = Some (te_EntityID r)\<rparr>"

definition FetchEntityList :: "int \<Rightarrow> EntityOwnerParam list quota" where
  "FetchEntityList planID =
     ext_call (\<lambda>w. (Inr (map entityParamToData
       (filter (\<lambda>r. te_QuotaPlanID r = Some planID) (entities (qdb w)))), w))"

section \<open>Transactions\<close>

definition quota_AtomExecute :: "'a quota \<Rightarrow> 'a quota" where
  "quota_AtomExecute body = RDBTxnExecute qdb (\<lambda>d w. w\<lparr>qdb := d\<rparr>) body"

interpretation quota_txn: txn_tables qdb "\<lambda>d w. w\<lparr>qdb := d\<rparr>"
  by unfold_locales simp_all

end
