(* ===== verification/QuotaCache.thy ===== *)
theory QuotaCache
  imports QuotaStore
begin

text \<open>
  The Redis side of quotas (\<^verbatim>\<open>model/quotacache/redis.go\<close>): the commands and the Lua script that
  \<^verbatim>\<open>redisQuotaCache\<close> issues, on keys that may expire, and its operations. A Redis value is a
  string; a number is its decimal text.

  The lemmas show what an operation leaves behind when the calls succeed, and what the numbers are when requests
  consume units between the two commands of \<^verbatim>\<open>SetRemaining\<close>.
\<close>

section \<open>Commands\<close>

definition live :: "time \<Rightarrow> time option \<Rightarrow> bool" where
  "live now e = (case e of None \<Rightarrow> True | Some d \<Rightarrow> now < d)"

definition rget :: "quota_world \<Rightarrow> string \<Rightarrow> string option" where
  "rget w k = (case q_redis w k of None \<Rightarrow> None | Some (v, e) \<Rightarrow> if live (q_now w) e then Some v else None)"

definition rset :: "string \<Rightarrow> string \<Rightarrow> time option \<Rightarrow> quota_world \<Rightarrow> quota_world" where
  "rset k v e w = w\<lparr>q_redis := (q_redis w)(k \<mapsto> (v, e))\<rparr>"

definition rdel :: "string \<Rightarrow> quota_world \<Rightarrow> quota_world" where
  "rdel k w = w\<lparr>q_redis := (q_redis w)(k := None)\<rparr>"

text \<open>The expiry that INCRBY keeps: that of a live key, none for a key it creates.\<close>

definition kept_expiry :: "quota_world \<Rightarrow> string \<Rightarrow> time option" where
  "kept_expiry w k = (case q_redis w k of None \<Rightarrow> None | Some (v, e) \<Rightarrow> if live (q_now w) e then e else None)"

definition nil_returned :: error where
  "nil_returned = ErrMsg ''redigo: nil returned''"

fun is_nil_returned :: "error \<Rightarrow> bool" where
  "is_nil_returned (ErrMsg msg) = Contains msg ''redigo: nil returned''"
| "is_nil_returned _ = False"

definition GetInt64 :: "string \<Rightarrow> i64 quota" where
  "GetInt64 k = ext_call (\<lambda>w. (case rget w k of
       None \<Rightarrow> Inl nil_returned
     | Some s \<Rightarrow> (case ParseInt s of None \<Rightarrow> Inl (ErrMsg ''strconv.ParseInt'') | Some v \<Rightarrow> Inr v), w))"

text \<open>
  \<^verbatim>\<open>GetInt64Batch\<close>: a number for every key, \<open>absent\<close> for a missing one; a value that is no number makes it
  fail.
\<close>

definition batch_value :: "i64 \<Rightarrow> quota_world \<Rightarrow> string \<Rightarrow> error + i64" where
  "batch_value absent w k = (case rget w k of
       None \<Rightarrow> Inr absent
     | Some s \<Rightarrow> (case ParseInt s of None \<Rightarrow> Inl (ErrMsg ''strconv.ParseInt'') | Some v \<Rightarrow> Inr v))"

definition GetInt64Batch :: "i64 \<Rightarrow> string list \<Rightarrow> i64 list quota" where
  "GetInt64Batch absent ks = ext_call (\<lambda>w. (all_ok (batch_value absent w) ks, w))"

text \<open>INCRBY accepts only the canonical text of a 64-bit number and refuses to overflow.\<close>

definition redis_int :: "string \<Rightarrow> i64 option" where
  "redis_int s = (case ParseInt s of None \<Rightarrow> None | Some v \<Rightarrow> if FormatInt v = s then Some v else None)"

definition incr_by :: "string \<Rightarrow> i64 \<Rightarrow> quota_world \<Rightarrow> (error + i64) \<times> quota_world" where
  "incr_by k delta w =
     (case (case rget w k of None \<Rightarrow> Some 0 | Some s \<Rightarrow> redis_int s) of
        None \<Rightarrow> (Inl (ErrMsg ''ERR value is not an integer or out of range''), w)
      | Some v \<Rightarrow>
          if - (2 ^ 63) \<le> sint v + sint delta \<and> sint v + sint delta < 2 ^ 63
          then (Inr (v + delta), rset k (FormatInt (v + delta)) (kept_expiry w k) w)
          else (Inl (ErrMsg ''ERR increment or decrement would overflow''), w))"

definition IncrBy :: "string \<Rightarrow> i64 \<Rightarrow> i64 quota" where
  "IncrBy k delta = ext_call (incr_by k delta)"

definition run_setQuotaScript :: "string \<Rightarrow> i64 \<Rightarrow> unit quota" where
  "run_setQuotaScript k v = ext_call (\<lambda>w. (Inr (), rset k (FormatInt v) None w))"

definition client_Delete :: "string \<Rightarrow> unit quota" where
  "client_Delete k = ext_call (\<lambda>w. (Inr (), rdel k w))"

section \<open>The quota cache\<close>

definition AIUsedQuotaKey :: "string \<Rightarrow> string" where
  "AIUsedQuotaKey k = ''QUOTA_'' @ k"

definition GetRemaining :: "quota_deps \<Rightarrow> string \<Rightarrow> string option \<Rightarrow> rat quota" where
  "GetRemaining dp k unit =
     (if \<not> qc_redisClient dp then returnE 0
      else State_Monad.bind (GetInt64 (AIUsedQuotaKey k)) (\<lambda>r. case r of
          Inl e \<Rightarrow> if is_nil_returned e then returnE 0 else throwE e
        | Inr remain \<Rightarrow> returnE (qc_PtrFromRedisValue dp remain unit)))"

definition BatchGetRemaining ::
  "quota_deps \<Rightarrow> string list \<Rightarrow> string option \<Rightarrow> (string \<times> rat) list quota" where
  "BatchGetRemaining dp ks unit =
     (if \<not> qc_redisClient dp then returnE (map (\<lambda>k. (k, 0)) ks)
      else bindE (GetInt64Batch (qc_absentInBatch dp) (map AIUsedQuotaKey ks)) (\<lambda>values.
        returnE (zip ks (map (\<lambda>v. qc_PtrFromRedisValue dp v unit) values))))"

text \<open>\<^verbatim>\<open>GetInt64\<close> and \<^verbatim>\<open>IncrBy(delta)\<close>; the difference is taken at 64 bits.\<close>

definition SetRemaining :: "quota_deps \<Rightarrow> string \<Rightarrow> rat option \<Rightarrow> string option \<Rightarrow> unit quota" where
  "SetRemaining dp k quota unit =
     (if \<not> qc_redisClient dp \<or> quota = None then returnE ()
      else let redisKey = AIUsedQuotaKey k; targetValue = qc_PtrToRedisValue dp quota unit in
        State_Monad.bind (GetInt64 redisKey) (\<lambda>r.
          case (case r of Inl e \<Rightarrow> if is_nil_returned e then Inr 0 else Inl e | Inr v \<Rightarrow> Inr v) of
            Inl e \<Rightarrow> throwE e
          | Inr currentValue \<Rightarrow>
              bindE (IncrBy redisKey (targetValue - currentValue)) (\<lambda>_. returnE ())))"

definition ResetToQuota :: "quota_deps \<Rightarrow> string \<Rightarrow> rat option \<Rightarrow> string option \<Rightarrow> unit quota" where
  "ResetToQuota dp k quota unit = SetRemaining dp k quota unit"

definition ResetToQuotaAtomic :: "quota_deps \<Rightarrow> string \<Rightarrow> rat option \<Rightarrow> string option \<Rightarrow> unit quota" where
  "ResetToQuotaAtomic dp k quota unit =
     (if \<not> qc_redisClient dp \<or> quota = None then returnE ()
      else run_setQuotaScript (AIUsedQuotaKey k) (qc_PtrToRedisValue dp quota unit))"

fun DeleteKeys_loop :: "string list \<Rightarrow> unit quota" where
  "DeleteKeys_loop [] = returnE ()"
| "DeleteKeys_loop (k # ks) = bindE (client_Delete k) (\<lambda>_. DeleteKeys_loop ks)"

definition DeleteKeys :: "quota_deps \<Rightarrow> string list \<Rightarrow> unit quota" where
  "DeleteKeys dp ks = (if \<not> qc_redisClient dp then returnE () else DeleteKeys_loop ks)"

section \<open>What the commands leave behind\<close>

lemma rset_simps [simp]:
  "faults (rset k v e w) = faults w" "qdb (rset k v e w) = qdb w" "q_now (rset k v e w) = q_now w"
  "q_log (rset k v e w) = q_log w" "faults (rdel k w) = faults w" "qdb (rdel k w) = qdb w"
  "q_now (rdel k w) = q_now w" "q_log (rdel k w) = q_log w" "q_vars (rset k v e w) = q_vars w"
  by (simp_all add: rset_def rdel_def)

lemma rget_rset [simp]:
  "rget (rset k v e w) k' = (if k' = k then if live (q_now w) e then Some v else None else rget w k')"
  by (auto simp: rget_def rset_def split: option.splits)

lemma rget_rdel [simp]: "rget (rdel k w) k' = (if k' = k then None else rget w k')"
  by (simp add: rget_def rdel_def split: option.splits)

lemma rget_env [simp]:
  "rget (w\<lparr>faults := fs\<rparr>) k = rget w k" "rget (w\<lparr>qdb := d\<rparr>) k = rget w k"
  "rget (w\<lparr>q_log := l\<rparr>) k = rget w k" "rget (w\<lparr>q_vars := vs\<rparr>) k = rget w k"
  by (simp_all add: rget_def split: option.splits)

lemma redis_int_FormatInt [simp]: "redis_int (FormatInt v) = Some v"
  by (simp add: redis_int_def)

lemma redis_int_ParseInt: "redis_int s = Some v \<Longrightarrow> ParseInt s = Some v"
  by (simp add: redis_int_def split: option.splits if_splits)

lemma is_nil_returned [simp]: "is_nil_returned nil_returned"
  by (simp add: nil_returned_def HasPrefix_def)

text \<open>The number under a key, 0 for a missing one; \<open>None\<close> when the key holds something else.\<close>

definition number :: "quota_world \<Rightarrow> string \<Rightarrow> i64 option" where
  "number w k = (case rget w k of None \<Rightarrow> Some 0 | Some s \<Rightarrow> redis_int s)"

lemma live_kept_expiry [simp]: "live (q_now w) (kept_expiry w k)"
  by (auto simp: kept_expiry_def live_def split: option.splits)

lemma number_rset [simp]:
  "live (q_now w) e \<Longrightarrow> number (rset k (FormatInt v) e w) k' = (if k' = k then Some v else number w k')"
  by (simp add: number_def)

lemma number_env [simp]:
  "number (w\<lparr>faults := fs\<rparr>) k = number w k" "number (w\<lparr>qdb := d\<rparr>) k = number w k"
  "number (w\<lparr>q_log := l\<rparr>) k = number w k" "number (w\<lparr>q_vars := vs\<rparr>) k = number w k"
  by (simp_all add: number_def)

definition fits64 :: "int \<Rightarrow> bool" where
  "fits64 i \<longleftrightarrow> - (2 ^ 63) \<le> i \<and> i < 2 ^ 63"

lemma sint_fits64: "fits64 (sint (v :: i64))"
  using sint_ge [of v] sint_lt [of v] by (simp add: fits64_def)

lemma sint_plus_64: "fits64 (sint a + sint b) \<Longrightarrow> sint (a + b :: i64) = sint a + sint b"
  by (simp add: fits64_def sint_word_ariths signed_take_bit_int_eq_self)

lemma sint_minus_64: "fits64 (sint a - sint b) \<Longrightarrow> sint (a - b :: i64) = sint a - sint b"
  by (simp add: fits64_def sint_word_ariths signed_take_bit_int_eq_self)

text \<open>A difference that does not fit wraps so far that adding it back does not fit either.\<close>

lemma wrapped_difference:
  fixes t c :: i64
  assumes "\<not> fits64 (sint t - sint c)"
  shows "\<not> fits64 (sint c + sint (t - c))"
proof
  assume f: "fits64 (sint c + sint (t - c))"
  then have "sint (c + (t - c)) = sint c + sint (t - c)" by (rule sint_plus_64)
  then have "sint t - sint c = sint (t - c)" by simp
  with assms sint_fits64 [of "t - c"] show False by simp
qed

lemma run_GetInt64:
  assumes "faults w = []" and "number w k = Some v"
  shows "run_state (GetInt64 k) w = (if rget w k = None then Inl nil_returned else Inr v, w)"
    and "rget w k = None \<Longrightarrow> v = 0"
  using assms by (auto simp: GetInt64_def number_def dest: redis_int_ParseInt split: option.splits)

lemma incr_by_number:
  assumes "number w k = Some v" and "fits64 (sint v + sint delta)"
  shows "incr_by k delta w = (Inr (v + delta), rset k (FormatInt (v + delta)) (kept_expiry w k) w)"
  using assms by (simp add: incr_by_def number_def fits64_def)

lemma incr_by_overflow:
  assumes "number w k = Some v" and "\<not> fits64 (sint v + sint delta)"
  shows "\<exists>e. incr_by k delta w = (Inl e, w)"
  using assms by (auto simp: incr_by_def number_def fits64_def)

text \<open>
  A fault-free \<^verbatim>\<open>SetRemaining\<close> leaves the target, or refuses without an effect when the
  difference does not fit into 64 bits.
\<close>

lemma SetRemaining_run:
  assumes "faults w = []" and "qc_redisClient dp" and "number w (AIUsedQuotaKey k) = Some c"
    and target: "target = qc_PtrToRedisValue dp (Some q) unit"
  shows "fits64 (sint target - sint c) \<Longrightarrow> run_state (SetRemaining dp k (Some q) unit) w =
      (Inr (), rset (AIUsedQuotaKey k) (FormatInt target) (kept_expiry w (AIUsedQuotaKey k)) w)"
    and "\<not> fits64 (sint target - sint c) \<Longrightarrow> \<exists>e. run_state (SetRemaining dp k (Some q) unit) w = (Inl e, w)"
proof -
  let ?k = "AIUsedQuotaKey k"
  note g = run_GetInt64 [OF assms(1,3)]
  have run: "run_state (SetRemaining dp k (Some q) unit) w =
    (case incr_by ?k (target - c) w of (r, w') \<Rightarrow> (case r of Inl e \<Rightarrow> Inl e | Inr _ \<Rightarrow> Inr (), w'))"
    using assms(1,2) g
    by (auto simp: SetRemaining_def target Let_def IncrBy_def split: prod.splits sum.splits)
  show "run_state (SetRemaining dp k (Some q) unit) w =
      (Inr (), rset ?k (FormatInt target) (kept_expiry w ?k) w)" if "fits64 (sint target - sint c)"
    using that sint_minus_64 [OF that] incr_by_number [OF assms(3), of "target - c"] sint_fits64 [of target]
    by (simp add: run)
  show "\<exists>e. run_state (SetRemaining dp k (Some q) unit) w = (Inl e, w)" if "\<not> fits64 (sint target - sint c)"
    using incr_by_overflow [OF assms(3) wrapped_difference [OF that]] by (auto simp: run)
qed

lemma ResetToQuotaAtomic_run [simp]:
  "faults w = [] \<Longrightarrow> qc_redisClient dp \<Longrightarrow> run_state (ResetToQuotaAtomic dp k (Some q) unit) w =
     (Inr (), rset (AIUsedQuotaKey k) (FormatInt (qc_PtrToRedisValue dp (Some q) unit)) None w)"
  by (simp add: ResetToQuotaAtomic_def run_setQuotaScript_def)

lemma GetRemaining_run:
  assumes "faults w = []" and "qc_redisClient dp" and "number w (AIUsedQuotaKey k) = Some v"
  shows "run_state (GetRemaining dp k unit) w =
    (Inr (if rget w (AIUsedQuotaKey k) = None then 0 else qc_PtrFromRedisValue dp v unit), w)"
  using run_GetInt64 [OF assms(1,3)] assms(1,2) by (simp add: GetRemaining_def)

lemma AIUsedQuotaKey_inj [simp]: "AIUsedQuotaKey k = AIUsedQuotaKey k' \<longleftrightarrow> k = k'"
  by (simp add: AIUsedQuotaKey_def)

text \<open>Requests that consume (or return) units between the two commands.\<close>

fun consume :: "string \<Rightarrow> i64 list \<Rightarrow> quota_world \<Rightarrow> quota_world" where
  "consume k [] w = w"
| "consume k (d # ds) w = consume k ds (snd (incr_by k d w))"

text \<open>Every number on the way fits.\<close>

fun in_range :: "int \<Rightarrow> i64 list \<Rightarrow> bool" where
  "in_range v [] = fits64 v"
| "in_range v (d # ds) = (fits64 v \<and> in_range (v + sint d) ds)"

lemma in_range_fits64: "in_range v ds \<Longrightarrow> fits64 v"
  by (cases ds) simp_all

lemma in_range_sum: "in_range v ds \<Longrightarrow> fits64 (v + sum_list (map sint ds))"
  by (induction v ds rule: in_range.induct) (simp_all add: algebra_simps)

lemma consume_number:
  assumes "number w k = Some v" and "in_range (sint v) ds"
  shows "\<exists>v'. number (consume k ds w) k = Some v' \<and> sint v' = sint v + sum_list (map sint ds)"
  using assms
proof (induction ds arbitrary: w v)
  case Nil
  then show ?case by simp
next
  case (Cons d ds)
  then have r: "in_range (sint v + sint d) ds" by simp
  then have f: "fits64 (sint v + sint d)" by (rule in_range_fits64)
  from incr_by_number [OF Cons.prems(1) f]
  have "number (snd (incr_by k d w)) k = Some (v + d)" by simp
  from Cons.IH [OF this] r f show ?case by (simp add: sint_plus_64 algebra_simps)
qed

end
