(* ===== verification/QuotaPlan.thy ===== *)
theory QuotaPlan
  imports QuotaCache
begin

text \<open>
  The manager of quota plans (\<^verbatim>\<open>model/quota/quota_plan_manager.go\<close>, \<^verbatim>\<open>operation_log.go\<close> and the
  storage adapter of \<^verbatim>\<open>quota_plan.go\<close>): creating, changing and deleting plans with their operation
  log, resetting the balance of a plan, and carrying a changed quota over to the balances of its
  owners.
\<close>

section \<open>Operation log\<close>

fun audit_entry :: "string \<Rightarrow> ('a \<Rightarrow> audit_value) \<Rightarrow> 'a option \<Rightarrow> audit_map" where
  "audit_entry k f None = []"
| "audit_entry k f (Some v) = [(k, f v)]"

definition quotaPlanParamToMap :: "QuotaPlanParam option \<Rightarrow> audit_map option" where
  "quotaPlanParamToMap param = map_option (\<lambda>p.
     audit_entry ''id'' AvInt (pl_ID p) @
     audit_entry ''unlimited'' AvBool (pl_Unlimited p) @
     audit_entry ''pass_when_no_enough_quota'' AvBool (pl_PassWhenNoEnoughQuota p) @
     audit_entry ''quota'' AvNum (pl_Quota p) @
     audit_entry ''unit'' AvStr (pl_Unit p) @
     audit_entry ''reset_period'' AvStr (pl_ResetPeriod p) @
     audit_entry ''last_reset_at'' AvTime (pl_LastResetAt p)) param"

definition audit_put :: "string \<Rightarrow> audit_value \<Rightarrow> audit_map \<Rightarrow> audit_map" where
  "audit_put k v m = filter (\<lambda>e. fst e \<noteq> k) m @ [(k, v)]"

definition quotaPlanIDString :: "int \<Rightarrow> string" where
  "quotaPlanIDString i = show_int i"

definition recordQuotaPlanOperation ::
  "quota_deps \<Rightarrow> string \<Rightarrow> string \<Rightarrow> string \<Rightarrow> audit_map option \<Rightarrow> audit_map option \<Rightarrow> error option \<Rightarrow> unit quota" where
  "recordQuotaPlanOperation dp action planID parentID before after err =
     (if \<not> qc_operationLog dp then returnE ()
      else modifyE (\<lambda>w. w\<lparr>q_log := q_log w @
        [\<lparr>oe_Action = action, oe_ResourceID = planID, oe_ResourceParentID = parentID,
          oe_Before = before, oe_After = after, oe_Error = err\<rparr>]\<rparr>))"

definition filter_id_string :: "QuotaPlanFilter option \<Rightarrow> string" where
  "filter_id_string f =
     (case f of Some q \<Rightarrow> (case qf_ID q of Some i \<Rightarrow> quotaPlanIDString i | None \<Rightarrow> []) | None \<Rightarrow> [])"

definition quotaPlanParamFromShared :: "SharedQuotaPlanParam option \<Rightarrow> QuotaPlanParam option" where
  "quotaPlanParamFromShared param = map_option (\<lambda>p.
     empty_QuotaPlanParam\<lparr>pl_Unlimited := sq_Unlimited p,
       pl_PassWhenNoEnoughQuota := sq_PassWhenNoEnoughQuota p, pl_Quota := sq_Quota p,
       pl_Unit := sq_Unit p, pl_ResetPeriod := sq_ResetPeriod p, pl_LastResetAt := sq_LastResetAt p\<rparr>) param"

definition positive_id_string :: "int \<Rightarrow> string" where
  "positive_id_string i = (if i > 0 then quotaPlanIDString i else [])"

definition AuditQuotaPlanCreate ::
  "quota_deps \<Rightarrow> SharedQuotaPlanParam option \<Rightarrow> int \<Rightarrow> string \<Rightarrow> error option \<Rightarrow> unit quota" where
  "AuditQuotaPlanCreate dp param planID owner err =
     recordQuotaPlanOperation dp ''create'' (positive_id_string planID) owner None
       (quotaPlanParamToMap (quotaPlanParamFromShared param)) err"

definition AuditQuotaPlanUpdate ::
  "quota_deps \<Rightarrow> SharedQuotaPlanParam option \<Rightarrow> SharedQuotaPlanParam option \<Rightarrow> int \<Rightarrow> string \<Rightarrow>
   error option \<Rightarrow> unit quota" where
  "AuditQuotaPlanUpdate dp oldPlan param planID owner err =
     recordQuotaPlanOperation dp ''update'' (positive_id_string planID) owner
       (quotaPlanParamToMap (quotaPlanParamFromShared oldPlan))
       (quotaPlanParamToMap (quotaPlanParamFromShared param)) err"

definition AuditQuotaPlanDelete ::
  "quota_deps \<Rightarrow> SharedQuotaPlanParam option \<Rightarrow> int \<Rightarrow> string \<Rightarrow> error option \<Rightarrow> unit quota" where
  "AuditQuotaPlanDelete dp oldPlan planID owner err =
     recordQuotaPlanOperation dp ''delete'' (positive_id_string planID) owner
       (quotaPlanParamToMap (quotaPlanParamFromShared oldPlan)) None err"

section \<open>The adapter to the shared storage interface\<close>

definition adapter_CreateQuotaPlan :: "quota_deps \<Rightarrow> SharedQuotaPlanParam \<Rightarrow> int quota" where
  "adapter_CreateQuotaPlan dp param =
     storage_CreateQuotaPlan dp (the (quotaPlanParamFromShared (Some param)))"

definition adapter_UpdateQuotaPlan :: "quota_deps \<Rightarrow> int \<Rightarrow> SharedQuotaPlanParam \<Rightarrow> nat quota" where
  "adapter_UpdateQuotaPlan dp i param =
     storage_UpdateQuotaPlan dp (Some (plan_by_id i)) (the (quotaPlanParamFromShared (Some param)))"

definition adapter_DeleteQuotaPlan :: "int \<Rightarrow> unit quota" where
  "adapter_DeleteQuotaPlan i = storage_DeleteQuotaPlan (Some (plan_by_id i))"

definition adapter_FetchQuotaPlan :: "int \<Rightarrow> SharedQuotaPlanParam option quota" where
  "adapter_FetchQuotaPlan i =
     bindE (storage_FetchQuotaPlan (Some (plan_by_id i))) (\<lambda>r. returnE (map_option (\<lambda>p.
       \<lparr>sq_Unlimited = pl_Unlimited p, sq_PassWhenNoEnoughQuota = pl_PassWhenNoEnoughQuota p,
        sq_Quota = pl_Quota p, sq_Unit = pl_Unit p, sq_ResetPeriod = pl_ResetPeriod p,
        sq_LastResetAt = pl_LastResetAt p\<rparr>) r))"

section \<open>Creating, changing, deleting\<close>

definition CreateQuotaPlan :: "quota_deps \<Rightarrow> QuotaPlanParam \<Rightarrow> string \<Rightarrow> int quota" where
  "CreateQuotaPlan dp param owner =
     State_Monad.bind (storage_CreateQuotaPlan dp param) (\<lambda>r. case r of
         Inl err \<Rightarrow>
           bindE (recordQuotaPlanOperation dp ''create'' [] owner None
                    (quotaPlanParamToMap (Some param)) (Some err)) (\<lambda>_. throwE err)
       | Inr i \<Rightarrow>
           bindE (recordQuotaPlanOperation dp ''create'' (quotaPlanIDString i) owner None
                    (quotaPlanParamToMap (Some param)) None) (\<lambda>_. returnE i))"

definition UpdateQuotaPlan ::
  "quota_deps \<Rightarrow> QuotaPlanFilter option \<Rightarrow> QuotaPlanParam \<Rightarrow> string \<Rightarrow> nat quota" where
  "UpdateQuotaPlan dp f param owner =
     (let record = recordQuotaPlanOperation dp ''update'' (filter_id_string f) owner;
          after = quotaPlanParamToMap (Some param)
      in State_Monad.bind (storage_FetchQuotaPlan f) (\<lambda>r. case r of
           Inl err \<Rightarrow> bindE (record None after (Some err)) (\<lambda>_. throwE err)
         | Inr oldPlan \<Rightarrow>
             State_Monad.bind (storage_UpdateQuotaPlan dp f param) (\<lambda>u. case u of
                 Inl err \<Rightarrow> bindE (record (quotaPlanParamToMap oldPlan) after (Some err)) (\<lambda>_. throwE err)
               | Inr affected \<Rightarrow>
                   bindE (record (quotaPlanParamToMap oldPlan) after None) (\<lambda>_. returnE affected))))"

definition DeleteQuotaPlan :: "quota_deps \<Rightarrow> QuotaPlanFilter option \<Rightarrow> string \<Rightarrow> unit quota" where
  "DeleteQuotaPlan dp f owner =
     (let record = (\<lambda>before err. recordQuotaPlanOperation dp ''delete'' (filter_id_string f) owner before None err)
      in State_Monad.bind (storage_FetchQuotaPlan f) (\<lambda>r. case r of
           Inl err \<Rightarrow> bindE (record None (Some err)) (\<lambda>_. throwE err)
         | Inr oldPlan \<Rightarrow>
             State_Monad.bind (storage_DeleteQuotaPlan f) (\<lambda>u. case u of
                 Inl err \<Rightarrow> bindE (record (quotaPlanParamToMap oldPlan) (Some err)) (\<lambda>_. throwE err)
               | Inr _ \<Rightarrow> record (quotaPlanParamToMap oldPlan) None)))"

section \<open>Resetting a balance\<close>

text \<open>A loop over owners whose errors are only logged.\<close>

fun for_each :: "('a \<Rightarrow> unit quota) \<Rightarrow> 'a list \<Rightarrow> unit quota" where
  "for_each f [] = returnE ()"
| "for_each f (x # xs) = bindE (ignoreE (f x)) (\<lambda>_. for_each f xs)"

definition reset_owner ::
  "quota_deps \<Rightarrow> rat option \<Rightarrow> string option \<Rightarrow> string option \<Rightarrow> unit quota" where
  "reset_owner dp quota unit k = (case k of None \<Rightarrow> returnE () | Some key \<Rightarrow> ResetToQuota dp key quota unit)"

definition set_vars :: "(reset_vars \<Rightarrow> reset_vars) \<Rightarrow> unit quota" where
  "set_vars f = modifyE (\<lambda>w. w\<lparr>q_vars := f (q_vars w)\<rparr>)"

definition ResetBalance_txn :: "quota_deps \<Rightarrow> int \<Rightarrow> rat option \<Rightarrow> bool \<Rightarrow> unit quota" where
  "ResetBalance_txn dp planID newQuota updateLastResetAt =
     bindE (storage_FetchQuotaPlan (Some (plan_by_id planID))) (\<lambda>r. case r of
       None \<Rightarrow> throwE (ErrMsg ''quota_plan not found'')
     | Some plan \<Rightarrow>
         bindE (set_vars (\<lambda>v. v\<lparr>va_oldPlan := Some plan\<rparr>)) (\<lambda>_.
         if pl_Unlimited plan = Some True
         then throwE (ErrParam ''cannot reset balance for unlimited quota'')
         else bindE (set_vars (\<lambda>v. v\<lparr>va_resetQuota := pl_Quota plan\<rparr>)) (\<lambda>_.
           bindE (if newQuota = None then returnE ()
                  else bindE (set_vars (\<lambda>v. v\<lparr>va_resetQuota := newQuota\<rparr>)) (\<lambda>_.
                       bindE (storage_UpdateQuotaPlan dp (Some (plan_by_id planID))
                         (empty_QuotaPlanParam\<lparr>pl_Quota := newQuota\<rparr>)) (\<lambda>_. returnE ()))) (\<lambda>_.
           bindE (set_vars (\<lambda>v. v\<lparr>va_planUnit := pl_Unit plan\<rparr>)) (\<lambda>_.
           if updateLastResetAt
           then bindE (getsE q_now) (\<lambda>now.
                bindE (storage_UpdateQuotaPlan dp (Some (plan_by_id planID))
                  (empty_QuotaPlanParam\<lparr>pl_LastResetAt := Some now\<rparr>)) (\<lambda>_. returnE ()))
           else returnE ())))))"

definition reset_after_map :: "reset_vars \<Rightarrow> bool \<Rightarrow> time \<Rightarrow> audit_map" where
  "reset_after_map v updateLastResetAt now =
     (let m0 = (case quotaPlanParamToMap (va_oldPlan v) of None \<Rightarrow> [] | Some m \<Rightarrow> m);
          m1 = (case va_resetQuota v of None \<Rightarrow> m0 | Some q \<Rightarrow> audit_put ''quota'' (AvNum q) m0)
      in if updateLastResetAt then audit_put ''last_reset_at'' (AvTime now) m1 else m1)"

definition no_vars :: reset_vars where
  "no_vars = \<lparr>va_oldPlan = None, va_resetQuota = None, va_planUnit = None\<rparr>"

definition fetchEntitiesByPlan :: "quota_deps \<Rightarrow> int \<Rightarrow> EntityOwnerParam list quota" where
  "fetchEntitiesByPlan dp planID =
     (if \<not> qc_entityStorager dp then returnE [] else FetchEntityList planID)"

text \<open>The step after the commit: an error of a list ends it, an error of one owner is logged.\<close>

definition reset_owners :: "quota_deps \<Rightarrow> int \<Rightarrow> rat option \<Rightarrow> string option \<Rightarrow> unit quota" where
  "reset_owners dp planID quota unit =
     (if \<not> qc_quotaCache dp \<or> quota = None then returnE ()
      else State_Monad.bind (FetchAPIKeyList dp planID) (\<lambda>r. case r of
          Inl _ \<Rightarrow> returnE ()
        | Inr apiKeys \<Rightarrow>
            bindE (for_each (\<lambda>a. reset_owner dp quota unit (ka_Key a)) apiKeys) (\<lambda>_.
            if \<not> qc_entityStorager dp then returnE ()
            else State_Monad.bind (FetchEntityList planID) (\<lambda>r. case r of
                Inl _ \<Rightarrow> returnE ()
              | Inr ents \<Rightarrow> for_each (\<lambda>e. reset_owner dp quota unit (ke_EntityID e)) ents))))"

definition ResetBalance :: "quota_deps \<Rightarrow> int \<Rightarrow> rat option \<Rightarrow> bool \<Rightarrow> string \<Rightarrow> unit quota" where
  "ResetBalance dp planID newQuota updateLastResetAt owner =
     bindE (set_vars (\<lambda>_. no_vars)) (\<lambda>_.
     State_Monad.bind (quota_AtomExecute (ResetBalance_txn dp planID newQuota updateLastResetAt)) (\<lambda>r.
     bindE (getsE (\<lambda>w. (q_vars w, q_now w))) (\<lambda>(v, now).
     let record = recordQuotaPlanOperation dp ''reset'' (quotaPlanIDString planID) owner
           (quotaPlanParamToMap (va_oldPlan v)) (Some (reset_after_map v updateLastResetAt now))
     in case r of
          Inl err \<Rightarrow> bindE (record (Some err)) (\<lambda>_. throwE err)
        | Inr _ \<Rightarrow>
            bindE (record None) (\<lambda>_. reset_owners dp planID (va_resetQuota v) (va_planUnit v)))))"

section \<open>Carrying a changed plan over\<close>

definition ptrBoolEqual :: "bool option \<Rightarrow> bool option \<Rightarrow> bool" where
  "ptrBoolEqual a b \<longleftrightarrow> (a = Some True) = (b = Some True)"

definition ptrEqual :: "'a option \<Rightarrow> 'a option \<Rightarrow> bool" where
  "ptrEqual a b \<longleftrightarrow> a = b"

definition quotaPlanChanged :: "SharedQuotaPlanParam option \<Rightarrow> SharedQuotaPlanParam option \<Rightarrow> bool" where
  "quotaPlanChanged oldPlan newPlan =
     (case (oldPlan, newPlan) of
        (Some p, Some n) \<Rightarrow>
          sq_Unlimited n \<noteq> None \<and> \<not> ptrBoolEqual (sq_Unlimited p) (sq_Unlimited n) \<or>
          sq_Quota n \<noteq> None \<and> \<not> ptrEqual (sq_Quota p) (sq_Quota n) \<or>
          sq_Unit n \<noteq> None \<and> \<not> ptrEqual (sq_Unit p) (sq_Unit n)
      | _ \<Rightarrow> True)"

record adjustment =
  aj_newQuota :: "rat option"
  aj_oldQuota :: "rat option"
  aj_planUnit :: "string option"
  aj_useReset :: bool

text \<open>The closure of \<^verbatim>\<open>adjustQuota\<close>, once the plan is found.\<close>

definition adjust_plan ::
  "SharedQuotaPlanParam option \<Rightarrow> SharedQuotaPlanParam \<Rightarrow> QuotaPlanParam \<Rightarrow> adjustment" where
  "adjust_plan oldPlan newPlan plan =
     (let oldUnlimited = (case oldPlan of None \<Rightarrow> False | Some p \<Rightarrow> sq_Unlimited p = Some True);
          newUnlimited = (case sq_Unlimited newPlan of None \<Rightarrow> oldUnlimited | Some u \<Rightarrow> u);
          oldUnit = (case oldPlan of None \<Rightarrow> [] | Some p \<Rightarrow> opt_set (sq_Unit p) []);
          newUnit = opt_set (sq_Unit newPlan) oldUnit;
          newQuota = (case sq_Quota newPlan of None \<Rightarrow> pl_Quota plan | Some q \<Rightarrow> Some q);
          oldQuota = (case oldPlan of None \<Rightarrow> None | Some p \<Rightarrow> sq_Quota p);
          planUnit = (case pl_Unit plan of None \<Rightarrow> Some newUnit | Some u \<Rightarrow> Some u)
      in if newUnlimited
         then \<lparr>aj_newQuota = Some 100000000, aj_oldQuota = oldQuota, aj_planUnit = planUnit, aj_useReset = True\<rparr>
         else \<lparr>aj_newQuota = newQuota, aj_oldQuota = oldQuota, aj_planUnit = planUnit,
               aj_useReset = (oldPlan = None \<or> oldUnlimited \<or> oldUnit \<noteq> newUnit)\<rparr>)"

text \<open>What is left of the new quota when the units used so far stay used.\<close>

definition target_remaining :: "rat \<Rightarrow> rat \<Rightarrow> rat \<Rightarrow> rat" where
  "target_remaining oldQuota newQuota current =
     (let used = oldQuota - current; used' = (if used < 0 then 0 else used);
          target = newQuota - used'
      in if target < 0 then 0 else target)"

definition owner_keys :: "APIKeyOwnerParam list \<Rightarrow> EntityOwnerParam list \<Rightarrow> string list" where
  "owner_keys apiKeys ents = List.map_filter ka_Key apiKeys @ List.map_filter ke_EntityID ents"

definition remain_of :: "(string \<times> rat) list \<Rightarrow> string \<Rightarrow> rat" where
  "remain_of m k = (case map_of m k of None \<Rightarrow> 0 | Some v \<Rightarrow> v)"

definition adjust_owners ::
  "quota_deps \<Rightarrow> adjustment \<Rightarrow> rat \<Rightarrow> APIKeyOwnerParam list \<Rightarrow> EntityOwnerParam list \<Rightarrow> unit quota" where
  "adjust_owners dp aj newQuota apiKeys ents =
     (if aj_useReset aj then
        bindE (for_each (\<lambda>a. reset_owner dp (Some newQuota) (aj_planUnit aj) (ka_Key a)) apiKeys) (\<lambda>_.
          for_each (\<lambda>e. reset_owner dp (Some newQuota) (aj_planUnit aj) (ke_EntityID e)) ents)
      else State_Monad.bind (BatchGetRemaining dp (owner_keys apiKeys ents) (aj_planUnit aj)) (\<lambda>r. case r of
          Inl _ \<Rightarrow> returnE ()
        | Inr remainMap \<Rightarrow>
            for_each (\<lambda>k. SetRemaining dp k
                (Some (target_remaining (opt_set (aj_oldQuota aj) 0) newQuota (remain_of remainMap k)))
                (aj_planUnit aj))
              (owner_keys apiKeys ents)))"

definition adjustQuota ::
  "quota_deps \<Rightarrow> int \<Rightarrow> SharedQuotaPlanParam option \<Rightarrow> SharedQuotaPlanParam \<Rightarrow> unit quota" where
  "adjustQuota dp planID oldPlan newPlan =
     bindE (quota_AtomExecute
       (bindE (storage_FetchQuotaPlan (Some (plan_by_id planID))) (\<lambda>r. case r of
          None \<Rightarrow> throwE (ErrMsg ''quota_plan not found'')
        | Some plan \<Rightarrow> returnE (adjust_plan oldPlan newPlan plan)))) (\<lambda>aj.
     case aj_newQuota aj of
       None \<Rightarrow> returnE ()
     | Some newQuota \<Rightarrow>
         if \<not> qc_quotaCache dp then returnE ()
         else State_Monad.bind (FetchAPIKeyList dp planID) (\<lambda>r. case r of
             Inl _ \<Rightarrow> returnE ()
           | Inr apiKeys \<Rightarrow>
               State_Monad.bind (fetchEntitiesByPlan dp planID) (\<lambda>r. case r of
                   Inl _ \<Rightarrow> returnE ()
                 | Inr ents \<Rightarrow> adjust_owners dp aj newQuota apiKeys ents)))"

definition ApplyQuotaPlanChange ::
  "quota_deps \<Rightarrow> int \<Rightarrow> SharedQuotaPlanParam option \<Rightarrow> SharedQuotaPlanParam option \<Rightarrow> unit quota" where
  "ApplyQuotaPlanChange dp planID oldPlan newPlan =
     (case newPlan of
        None \<Rightarrow> returnE ()
      | Some n \<Rightarrow> if \<not> quotaPlanChanged oldPlan newPlan then returnE () else adjustQuota dp planID oldPlan n)"

section \<open>Fault-free runs\<close>

text \<open>Two worlds that differ in Redis only, and there in the quota keys of the given owners only.\<close>

definition quota_keys_only :: "string set \<Rightarrow> quota_world \<Rightarrow> quota_world \<Rightarrow> bool" where
  "quota_keys_only K w w' \<longleftrightarrow> w' = w\<lparr>q_redis := q_redis w'\<rparr> \<and>
     (\<forall>key. key \<notin> AIUsedQuotaKey ` K \<longrightarrow> q_redis w' key = q_redis w key)"

lemma quota_keys_onlyD:
  assumes "quota_keys_only K w w'"
  shows "faults w' = faults w" "qdb w' = qdb w" "q_now w' = q_now w" "q_log w' = q_log w" "q_vars w' = q_vars w"
    and "key \<notin> AIUsedQuotaKey ` K \<Longrightarrow> q_redis w' key = q_redis w key"
proof -
  have *: "w' = w\<lparr>q_redis := q_redis w'\<rparr>" using assms by (simp add: quota_keys_only_def)
  show "faults w' = faults w" by (subst *) simp
  show "qdb w' = qdb w" by (subst *) simp
  show "q_now w' = q_now w" by (subst *) simp
  show "q_log w' = q_log w" by (subst *) simp
  show "q_vars w' = q_vars w" by (subst *) simp
  show "key \<notin> AIUsedQuotaKey ` K \<Longrightarrow> q_redis w' key = q_redis w key"
    using assms by (simp add: quota_keys_only_def)
qed

lemma quota_keys_only_refl [simp]: "quota_keys_only K w w"
  by (simp add: quota_keys_only_def)

lemma quota_keys_only_rset [simp]: "k \<in> K \<Longrightarrow> quota_keys_only K w (rset (AIUsedQuotaKey k) v e w)"
  by (auto simp: quota_keys_only_def rset_def)

lemma quota_keys_only_trans:
  assumes "quota_keys_only K w w'" "quota_keys_only K' w' w''"
  shows "quota_keys_only (K \<union> K') w w''"
proof -
  have a: "w' = w\<lparr>q_redis := q_redis w'\<rparr>" and b: "w'' = w'\<lparr>q_redis := q_redis w''\<rparr>"
    using assms by (simp_all add: quota_keys_only_def)
  have "w'' = w\<lparr>q_redis := q_redis w''\<rparr>" by (subst b, subst a) simp
  moreover have "q_redis w'' key = q_redis w key" if "key \<notin> AIUsedQuotaKey ` (K \<union> K')" for key
    using assms that by (simp add: quota_keys_only_def image_Un)
  ultimately show ?thesis by (simp add: quota_keys_only_def)
qed

lemma rget_same: "q_redis w' key = q_redis w key \<Longrightarrow> q_now w' = q_now w \<Longrightarrow> rget w' key = rget w key"
  by (simp add: rget_def split: option.splits)

lemma number_same: "q_redis w' key = q_redis w key \<Longrightarrow> q_now w' = q_now w \<Longrightarrow> number w' key = number w key"
  unfolding number_def by (subst rget_same) auto

text \<open>A loop that sets the balance of every owner to a target of its own.\<close>

lemma for_each_SetRemaining:
  assumes "faults w = []" and "qc_redisClient dp"
    and "\<And>k. k \<in> set ks \<Longrightarrow> \<exists>c. number w (AIUsedQuotaKey k) = Some c \<and>
           fits64 (sint (qc_PtrToRedisValue dp (Some (q k)) unit) - sint c)"
  shows "\<exists>w'. run_state (for_each (\<lambda>k. SetRemaining dp k (Some (q k)) unit) ks) w = (Inr (), w') \<and>
    quota_keys_only (set ks) w w' \<and>
    (\<forall>k \<in> set ks. rget w' (AIUsedQuotaKey k) = Some (FormatInt (qc_PtrToRedisValue dp (Some (q k)) unit)))"
  using assms
proof (induction ks arbitrary: w)
  case Nil
  then show ?case by simp
next
  case (Cons k ks)
  let ?T = "\<lambda>k. qc_PtrToRedisValue dp (Some (q k)) unit"
  let ?w1 = "rset (AIUsedQuotaKey k) (FormatInt (?T k)) (kept_expiry w (AIUsedQuotaKey k)) w"
  obtain c where c: "number w (AIUsedQuotaKey k) = Some c" "fits64 (sint (?T k) - sint c)"
    using Cons.prems(3) by auto
  have step: "run_state (SetRemaining dp k (Some (q k)) unit) w = (Inr (), ?w1)"
    by (rule SetRemaining_run(1) [OF Cons.prems(1,2) c(1) refl c(2)])
  have "fits64 0" by (simp add: fits64_def)
  then have "\<exists>c. number ?w1 (AIUsedQuotaKey k') = Some c \<and> fits64 (sint (?T k') - sint c)"
    if "k' \<in> set ks" for k'
    using Cons.prems(3) [of k'] that by (cases "k' = k") auto
  from Cons.IH [OF _ Cons.prems(2) this] Cons.prems(1)
  obtain w' where w': "run_state (for_each (\<lambda>k. SetRemaining dp k (Some (q k)) unit) ks) ?w1 = (Inr (), w')"
    "quota_keys_only (set ks) ?w1 w'" "\<forall>k \<in> set ks. rget w' (AIUsedQuotaKey k) = Some (FormatInt (?T k))"
    by auto
  have "quota_keys_only ({k} \<union> set ks) w w'"
    by (rule quota_keys_only_trans [OF _ w'(2)]) simp
  moreover have "rget w' (AIUsedQuotaKey k) = Some (FormatInt (?T k))"
  proof (cases "k \<in> set ks")
    case False
    then have "q_redis w' (AIUsedQuotaKey k) = q_redis ?w1 (AIUsedQuotaKey k)"
      by (intro quota_keys_onlyD(6) [OF w'(2)]) auto
    then show ?thesis using rget_same [of w' "AIUsedQuotaKey k" ?w1] quota_keys_onlyD(3) [OF w'(2)] by simp
  qed (use w'(3) in simp)
  ultimately show ?case using step w' by simp
qed

lemma run_for_each_owners:
  "run_state (for_each (\<lambda>a. reset_owner dp quota unit (f a)) xs) w =
   run_state (for_each (\<lambda>k. SetRemaining dp k quota unit) (List.map_filter f xs)) w"
  by (induction xs arbitrary: w) (simp_all add: reset_owner_def ResetToQuota_def List.map_filter_simps split: option.splits)

lemma run_for_each_append:
  "run_state (for_each f (xs @ ys)) w = run_state (bindE (for_each f xs) (\<lambda>_. for_each f ys)) w"
  by (induction xs arbitrary: w) simp_all

text \<open>The owners of a plan, by the keys under which Redis counts them.\<close>

definition plan_owners :: "quota_deps \<Rightarrow> quota_db \<Rightarrow> int \<Rightarrow> error + string list" where
  "plan_owners dp d planID =
     (case all_ok (apiKeyParamToData dp) (filter (\<lambda>r. ta_QuotaPlanID r = Some planID) (api_keys d)) of
        Inl e \<Rightarrow> Inl e
      | Inr aks \<Rightarrow> Inr (owner_keys aks (if qc_entityStorager dp
          then map entityParamToData (filter (\<lambda>r. te_QuotaPlanID r = Some planID) (entities d)) else [])))"

lemma run_storage_reads [simp]:
  "faults w = [] \<Longrightarrow> run_state (storage_FetchQuotaPlan f) w =
     (Inr (map_option quotaPlanParamToData (TQuotaPlanOne (quotaPlanFilterToParam f) (quota_plans (qdb w)))), w)"
  "faults w = [] \<Longrightarrow> run_state (FetchAPIKeyList dp i) w =
     (all_ok (apiKeyParamToData dp) (filter (\<lambda>r. ta_QuotaPlanID r = Some i) (api_keys (qdb w))), w)"
  "faults w = [] \<Longrightarrow> run_state (FetchEntityList i) w =
     (Inr (map entityParamToData (filter (\<lambda>r. te_QuotaPlanID r = Some i) (entities (qdb w)))), w)"
  by (simp_all add: storage_FetchQuotaPlan_def FetchAPIKeyList_def FetchEntityList_def)

lemma run_reset_owners:
  assumes "faults w = []" and "qc_quotaCache dp" and "qc_redisClient dp"
    and "plan_owners dp (qdb w) planID = Inr ks"
    and nums: "\<And>k. k \<in> set ks \<Longrightarrow> \<exists>c. number w (AIUsedQuotaKey k) = Some c \<and>
           fits64 (sint (qc_PtrToRedisValue dp (Some q) unit) - sint c)"
  shows "run_state (reset_owners dp planID (Some q) unit) w =
    run_state (for_each (\<lambda>k. SetRemaining dp k (Some q) unit) ks) w"
proof -
  obtain aks where a: "all_ok (apiKeyParamToData dp)
      (filter (\<lambda>r. ta_QuotaPlanID r = Some planID) (api_keys (qdb w))) = Inr aks"
    using assms(4) by (auto simp: plan_owners_def split: sum.splits)
  let ?es = "map entityParamToData (filter (\<lambda>r. te_QuotaPlanID r = Some planID) (entities (qdb w)))"
  let ?aks = "List.map_filter ka_Key aks"
  have ks: "ks = ?aks @ List.map_filter ke_EntityID (if qc_entityStorager dp then ?es else [])"
    using assms(4) a by (simp add: plan_owners_def owner_keys_def)
  obtain w1 where w1: "run_state (for_each (\<lambda>k. SetRemaining dp k (Some q) unit) ?aks) w = (Inr (), w1)"
    "quota_keys_only (set ?aks) w w1"
    using for_each_SetRemaining [OF assms(1,3), of ?aks "\<lambda>_. q" unit] nums ks by auto
  note f = quota_keys_onlyD(1,2) [OF w1(2)]
  show ?thesis
    using assms(1,2) a w1(1) f
    by (simp add: reset_owners_def ks run_for_each_append run_for_each_owners List.map_filter_simps)
qed

text \<open>Setting the balances of all owners of a plan to one amount.\<close>

lemma reset_owners_effect:
  assumes "faults w = []" and "qc_quotaCache dp" and "qc_redisClient dp"
    and "plan_owners dp (qdb w) planID = Inr ks"
    and "\<And>k. k \<in> set ks \<Longrightarrow> \<exists>c. number w (AIUsedQuotaKey k) = Some c \<and>
           fits64 (sint (qc_PtrToRedisValue dp (Some q) unit) - sint c)"
  shows "\<exists>w'. run_state (reset_owners dp planID (Some q) unit) w = (Inr (), w') \<and>
    quota_keys_only (set ks) w w' \<and>
    (\<forall>k \<in> set ks. rget w' (AIUsedQuotaKey k) = Some (FormatInt (qc_PtrToRedisValue dp (Some q) unit)))"
proof -
  have run: "run_state (reset_owners dp planID (Some q) unit) w =
    run_state (for_each (\<lambda>k. SetRemaining dp k (Some q) unit) ks) w"
    by (rule run_reset_owners) (use assms in auto)
  show ?thesis
    using for_each_SetRemaining [OF assms(1,3), of ks "\<lambda>_. q" unit] assms(5) by (simp add: run)
qed

lemma where_plan_by_id [simp]:
  "where_plan (quotaPlanFilterToParam (Some (plan_by_id i))) = (\<lambda>r. qp_ID r = i)"
  by (simp add: fun_eq_iff where_plan_def quotaPlanFilterToParam_def plan_by_id_def empty_TQuotaPlanParam_def)

text \<open>The row that the two updates of a reset leave.\<close>

definition reset_row :: "quota_deps \<Rightarrow> rat option \<Rightarrow> bool \<Rightarrow> time \<Rightarrow> TQuotaPlan \<Rightarrow> TQuotaPlan" where
  "reset_row dp newQuota updateLastResetAt now p =
     (let p1 = (case newQuota of None \<Rightarrow> p
                | Some q \<Rightarrow> p\<lparr>qp_Quota := qc_quota dp q, qp_UpdatedAt := qc_time dp now\<rparr>)
      in if updateLastResetAt
         then p1\<lparr>qp_LastResetAt := Some (qc_time dp now), qp_UpdatedAt := qc_time dp now\<rparr> else p1)"

definition reset_plans :: "quota_deps \<Rightarrow> int \<Rightarrow> rat option \<Rightarrow> bool \<Rightarrow> time \<Rightarrow> TQuotaPlan table \<Rightarrow> TQuotaPlan table" where
  "reset_plans dp planID newQuota upd now t =
     t\<lparr>rows := update_where (\<lambda>p. qp_ID p = planID) (reset_row dp newQuota upd now) (rows t)\<rparr>"

lemma assign_reset:
  "assign_plan dp ((quotaPlanDataToParam (empty_QuotaPlanParam\<lparr>pl_Quota := Some q\<rparr>))\<lparr>tq_UpdatedAt := Some now\<rparr>) =
     (\<lambda>p. p\<lparr>qp_Quota := qc_quota dp q, qp_UpdatedAt := qc_time dp now\<rparr>)"
  "assign_plan dp ((quotaPlanDataToParam (empty_QuotaPlanParam\<lparr>pl_LastResetAt := Some l\<rparr>))\<lparr>tq_UpdatedAt := Some now\<rparr>) =
     (\<lambda>p. p\<lparr>qp_LastResetAt := Some (qc_time dp l), qp_UpdatedAt := qc_time dp now\<rparr>)"
  by (simp_all add: fun_eq_iff assign_plan_def quotaPlanDataToParam_def empty_QuotaPlanParam_def
      empty_TQuotaPlanParam_def opt_set_def)

lemma run_update_by_id:
  "faults w = [] \<Longrightarrow> run_state (storage_UpdateQuotaPlan dp (Some (plan_by_id i)) param) w =
    (let f = assign_plan dp ((quotaPlanDataToParam param)\<lparr>tq_UpdatedAt := Some (q_now w)\<rparr>);
         t = quota_plans (qdb w)
     in (Inr (affected_rows (qc_isMySQL dp) (\<lambda>r. qp_ID r = i) f (rows t)),
         set_plans (t\<lparr>rows := update_where (\<lambda>r. qp_ID r = i) f (rows t)\<rparr>) w))"
  by (simp add: storage_UpdateQuotaPlan_def TQuotaPlanUpdate_def exec_update_def Let_def)

lemma update_where_comp:
  "(\<And>x. p (f x) = p x) \<Longrightarrow> update_where p g (update_where p f rs) = update_where p (\<lambda>x. g (f x)) rs"
  by (induction rs) (auto simp: update_where_def)

lemma update_where_id [simp]: "update_where p (\<lambda>x. x) rs = rs"
  by (induction rs) (auto simp: update_where_def)

lemma all_vars_set:
  "v\<lparr>va_oldPlan := a, va_resetQuota := b, va_planUnit := c\<rparr> =
     \<lparr>va_oldPlan = a, va_resetQuota = b, va_planUnit = c\<rparr>"
  by (cases v) simp

lemma run_ResetBalance_txn:
  assumes "faults w = []" and "TQuotaPlanOne (quotaPlanFilterToParam (Some (plan_by_id planID))) (quota_plans (qdb w)) = Some r"
    and "\<not> qp_Unlimited r"
  shows "run_state (ResetBalance_txn dp planID newQuota upd) w =
    (Inr (), w\<lparr>qdb := (qdb w)\<lparr>quota_plans := reset_plans dp planID newQuota upd (q_now w) (quota_plans (qdb w))\<rparr>,
       q_vars := \<lparr>va_oldPlan = Some (quotaPlanParamToData r),
         va_resetQuota = (case newQuota of None \<Rightarrow> Some (qp_Quota r) | Some q \<Rightarrow> Some q),
         va_planUnit = Some (qp_Unit r)\<rparr>\<rparr>)"
  using assms
  by (cases newQuota; cases upd)
     (simp_all add: ResetBalance_txn_def quotaPlanParamToData_def set_vars_def run_update_by_id Let_def
       assign_reset set_plans_def reset_plans_def reset_row_def [abs_def] update_where_comp opt_set_def
       all_vars_set)

lemma plan_owners_plans [simp]: "plan_owners dp (d\<lparr>quota_plans := t\<rparr>) i = plan_owners dp d i"
  by (simp add: plan_owners_def split: sum.splits)

lemma run_recordQuotaPlan [simp]:
  "run_state (recordQuotaPlanOperation dp action pid par before after err) w =
    (Inr (), if qc_operationLog dp then w\<lparr>q_log := q_log w @
       [\<lparr>oe_Action = action, oe_ResourceID = pid, oe_ResourceParentID = par,
         oe_Before = before, oe_After = after, oe_Error = err\<rparr>]\<rparr> else w)"
  by (simp add: recordQuotaPlanOperation_def)

lemma run_quota_AtomExecute_ok:
  assumes "faults w = []" and "run_state body w = (Inr x, w')" and "faults w' = []"
  shows "run_state (quota_AtomExecute body) w = (Inr x, w')"
  unfolding quota_AtomExecute_def by (rule quota_txn.txn_ok [OF assms])

lemma run_quota_AtomExecute_err:
  assumes "faults w = []" and "run_state body w = (Inl e, w')"
  shows "run_state (quota_AtomExecute body) w = (Inl e, w'\<lparr>qdb := qdb w\<rparr>)"
  unfolding quota_AtomExecute_def by (rule quota_txn.txn_err [OF assms])

lemma ResetBalance_run:
  assumes "faults w = []" and "qc_quotaCache dp" and "qc_redisClient dp"
    and row: "TQuotaPlanOne (quotaPlanFilterToParam (Some (plan_by_id planID))) (quota_plans (qdb w)) = Some r"
      "\<not> qp_Unlimited r"
    and "plan_owners dp (qdb w) planID = Inr ks"
    and amount: "amount = opt_set newQuota (qp_Quota r)"
    and nums: "\<And>k. k \<in> set ks \<Longrightarrow> \<exists>c. number w (AIUsedQuotaKey k) = Some c \<and>
           fits64 (sint (qc_PtrToRedisValue dp (Some amount) (Some (qp_Unit r))) - sint c)"
  shows "\<exists>w'. run_state (ResetBalance dp planID newQuota upd owner) w = (Inr (), w') \<and>
    qdb w' = (qdb w)\<lparr>quota_plans := reset_plans dp planID newQuota upd (q_now w) (quota_plans (qdb w))\<rparr> \<and>
    (\<forall>k \<in> set ks. rget w' (AIUsedQuotaKey k) =
       Some (FormatInt (qc_PtrToRedisValue dp (Some amount) (Some (qp_Unit r))))) \<and>
    (\<forall>key. key \<notin> AIUsedQuotaKey ` set ks \<longrightarrow> q_redis w' key = q_redis w key)"
proof -
  let ?w0 = "w\<lparr>q_vars := no_vars\<rparr>"
  let ?t = "reset_plans dp planID newQuota upd (q_now w) (quota_plans (qdb w))"
  let ?v = "\<lparr>va_oldPlan = Some (quotaPlanParamToData r),
         va_resetQuota = (case newQuota of None \<Rightarrow> Some (qp_Quota r) | Some q \<Rightarrow> Some q),
         va_planUnit = Some (qp_Unit r)\<rparr>"
  let ?w1 = "w\<lparr>qdb := (qdb w)\<lparr>quota_plans := ?t\<rparr>, q_vars := ?v\<rparr>"
  have a: "va_resetQuota ?v = Some amount"
    by (simp add: amount opt_set_def split: option.splits)
  have "run_state (ResetBalance_txn dp planID newQuota upd) ?w0 = (Inr (), ?w1)"
    using run_ResetBalance_txn [of ?w0 planID r dp newQuota upd] assms(1) row by simp
  then have txn: "run_state (quota_AtomExecute (ResetBalance_txn dp planID newQuota upd)) ?w0 = (Inr (), ?w1)"
    by (rule run_quota_AtomExecute_ok [rotated]) (simp_all add: assms(1))
  let ?w2 = "snd (run_state (recordQuotaPlanOperation dp ''reset'' (quotaPlanIDString planID) owner
    (quotaPlanParamToMap (va_oldPlan ?v)) (Some (reset_after_map ?v upd (q_now w))) None) ?w1)"
  have w2: "faults ?w2 = []" "qdb ?w2 = qdb ?w1" "q_redis ?w2 = q_redis w" "q_now ?w2 = q_now w"
    using assms(1) by simp_all
  have run: "run_state (ResetBalance dp planID newQuota upd owner) w =
      run_state (reset_owners dp planID (Some amount) (Some (qp_Unit r))) ?w2"
    using txn a by (simp add: ResetBalance_def set_vars_def Let_def)
  have n2: "number ?w2 key = number w key" for key
    by (rule number_same) (simp_all add: w2)
  have "\<exists>w'. run_state (reset_owners dp planID (Some amount) (Some (qp_Unit r))) ?w2 = (Inr (), w') \<and>
    quota_keys_only (set ks) ?w2 w' \<and>
    (\<forall>k \<in> set ks. rget w' (AIUsedQuotaKey k) = Some (FormatInt (qc_PtrToRedisValue dp (Some amount) (Some (qp_Unit r)))))"
    by (rule reset_owners_effect) (use assms(2,3,6) nums n2 w2 in auto)
  then obtain w' where w': "run_state (reset_owners dp planID (Some amount) (Some (qp_Unit r))) ?w2 = (Inr (), w')"
    "quota_keys_only (set ks) ?w2 w'"
    "\<forall>k \<in> set ks. rget w' (AIUsedQuotaKey k) = Some (FormatInt (qc_PtrToRedisValue dp (Some amount) (Some (qp_Unit r))))"
    by blast
  then show ?thesis
    unfolding run using quota_keys_onlyD(2) [OF w'(2)] quota_keys_onlyD(6) [OF w'(2)] w2
    by (intro exI [of _ w']) auto
qed

text \<open>A reset of an unknown or an unlimited plan fails; the error is logged and nothing else changes.\<close>

lemma ResetBalance_refused_run:
  assumes "faults w = []"
    and row: "case TQuotaPlanOne (quotaPlanFilterToParam (Some (plan_by_id planID))) (quota_plans (qdb w)) of
       None \<Rightarrow> err = ErrMsg ''quota_plan not found''
     | Some r \<Rightarrow> qp_Unlimited r \<and> err = ErrParam ''cannot reset balance for unlimited quota''"
  shows "\<exists>w'. run_state (ResetBalance dp planID newQuota upd owner) w = (Inl err, w') \<and>
     qdb w' = qdb w \<and> q_redis w' = q_redis w \<and>
     (qc_operationLog dp \<longrightarrow> q_log w' \<noteq> [] \<and> oe_Error (last (q_log w')) = Some err)"
proof -
  let ?w0 = "w\<lparr>q_vars := no_vars\<rparr>"
  obtain v where "run_state (ResetBalance_txn dp planID newQuota upd) ?w0 = (Inl err, ?w0\<lparr>q_vars := v\<rparr>)"
  proof (cases "TQuotaPlanOne (quotaPlanFilterToParam (Some (plan_by_id planID))) (quota_plans (qdb w))")
    case None
    then show ?thesis using that [of no_vars] assms by (simp add: ResetBalance_txn_def)
  next
    case (Some r)
    then show ?thesis using that [of "no_vars\<lparr>va_oldPlan := Some (quotaPlanParamToData r)\<rparr>"] assms
      by (simp add: ResetBalance_txn_def set_vars_def quotaPlanParamToData_def)
  qed
  from run_quota_AtomExecute_err [OF _ this] assms(1)
  have "run_state (quota_AtomExecute (ResetBalance_txn dp planID newQuota upd)) ?w0 =
      (Inl err, w\<lparr>q_vars := v\<rparr>)" by simp
  then show ?thesis by (simp add: ResetBalance_def set_vars_def Let_def)
qed

text \<open>Carrying a quota over when the units used so far are kept.\<close>

lemma zip_map_lookup: "k \<in> set ks \<Longrightarrow> map_of (zip ks (map g ks)) k = Some (g k)"
  by (induction ks) auto

definition batch_number :: "quota_deps \<Rightarrow> quota_world \<Rightarrow> string \<Rightarrow> i64" where
  "batch_number dp w k =
     (if rget w (AIUsedQuotaKey k) = None then qc_absentInBatch dp else the (number w (AIUsedQuotaKey k)))"

lemma run_BatchGetRemaining:
  assumes "faults w = []" and "qc_redisClient dp"
    and "\<And>k. k \<in> set ks \<Longrightarrow> number w (AIUsedQuotaKey k) \<noteq> None"
  shows "run_state (BatchGetRemaining dp ks unit) w =
    (Inr (zip ks (map (\<lambda>k. qc_PtrFromRedisValue dp (batch_number dp w k) unit) ks)), w)"
proof -
  have "batch_value (qc_absentInBatch dp) w (AIUsedQuotaKey k) = Inr (batch_number dp w k)" if "k \<in> set ks" for k
    using assms(3) [OF that]
    by (auto simp: batch_value_def batch_number_def number_def redis_int_def split: option.splits if_splits)
  then have "all_ok (batch_value (qc_absentInBatch dp) w) (map AIUsedQuotaKey ks) = Inr (map (batch_number dp w) ks)"
    by (induction ks) simp_all
  then show ?thesis using assms(1,2) by (simp add: BatchGetRemaining_def GetInt64Batch_def comp_def)
qed

lemma adjust_plan_keeps_usage:
  assumes "oldPlan = Some p" and "sq_Unlimited p \<noteq> Some True" and "sq_Unlimited n \<noteq> Some True"
    and "sq_Unit n = None \<or> sq_Unit n = Some (opt_set (sq_Unit p) [])"
  shows "adjust_plan oldPlan n (quotaPlanParamToData r) =
    \<lparr>aj_newQuota = Some (opt_set (sq_Quota n) (qp_Quota r)), aj_oldQuota = sq_Quota p,
     aj_planUnit = Some (qp_Unit r), aj_useReset = False\<rparr>"
  using assms
  by (auto simp: adjust_plan_def Let_def quotaPlanParamToData_def opt_set_def split: option.splits)

text \<open>A change of the amount alone: every owner keeps what it has used.\<close>

lemma adjustQuota_keeps_usage_run:
  assumes "faults w = []" and "qc_quotaCache dp" and "qc_redisClient dp"
    and row: "TQuotaPlanOne (quotaPlanFilterToParam (Some (plan_by_id planID))) (quota_plans (qdb w)) = Some r"
    and "plan_owners dp (qdb w) planID = Inr ks"
    and plan: "sq_Unlimited p \<noteq> Some True" "sq_Unlimited n \<noteq> Some True"
      "sq_Unit n = None \<or> sq_Unit n = Some (opt_set (sq_Unit p) [])"
    and target: "\<And>k. target k = target_remaining (opt_set (sq_Quota p) 0) (opt_set (sq_Quota n) (qp_Quota r))
        (qc_PtrFromRedisValue dp (batch_number dp w k) (Some (qp_Unit r)))"
    and nums: "\<And>k. k \<in> set ks \<Longrightarrow> \<exists>c. number w (AIUsedQuotaKey k) = Some c \<and>
           fits64 (sint (qc_PtrToRedisValue dp (Some (target k)) (Some (qp_Unit r))) - sint c)"
  shows "\<exists>w'. run_state (adjustQuota dp planID (Some p) n) w = (Inr (), w') \<and> quota_keys_only (set ks) w w' \<and>
    (\<forall>k \<in> set ks. rget w' (AIUsedQuotaKey k) =
       Some (FormatInt (qc_PtrToRedisValue dp (Some (target k)) (Some (qp_Unit r)))))"
proof -
  obtain aks where a: "all_ok (apiKeyParamToData dp)
      (filter (\<lambda>r. ta_QuotaPlanID r = Some planID) (api_keys (qdb w))) = Inr aks"
    using assms(5) by (auto simp: plan_owners_def split: sum.splits)
  let ?es = "if qc_entityStorager dp
    then map entityParamToData (filter (\<lambda>r. te_QuotaPlanID r = Some planID) (entities (qdb w))) else []"
  have ks: "ks = owner_keys aks ?es" using assms(5) a by (simp add: plan_owners_def)
  have fe: "run_state (fetchEntitiesByPlan dp planID) w = (Inr ?es, w)"
    using assms(1) by (simp add: fetchEntitiesByPlan_def)
  let ?body = "bindE (storage_FetchQuotaPlan (Some (plan_by_id planID))) (\<lambda>r. case r of
          None \<Rightarrow> throwE (ErrMsg ''quota_plan not found'')
        | Some plan \<Rightarrow> returnE (adjust_plan (Some p) n plan))"
  have "run_state ?body w = (Inr (adjust_plan (Some p) n (quotaPlanParamToData r)), w)"
    using assms(1) row by simp
  from run_quota_AtomExecute_ok [OF assms(1) this assms(1)]
  have txn: "run_state (quota_AtomExecute ?body) w = (Inr (adjust_plan (Some p) n (quotaPlanParamToData r)), w)" .
  let ?m = "zip ks (map (\<lambda>k. qc_PtrFromRedisValue dp (batch_number dp w k) (Some (qp_Unit r))) ks)"
  have bg: "run_state (BatchGetRemaining dp ks (Some (qp_Unit r))) w = (Inr ?m, w)"
    by (rule run_BatchGetRemaining) (use assms(1,3) nums in fastforce)+
  have rm: "remain_of ?m k = qc_PtrFromRedisValue dp (batch_number dp w k) (Some (qp_Unit r))" if "k \<in> set ks" for k
    unfolding remain_of_def zip_map_lookup [OF that] by simp
  have cong: "run_state (for_each f xs) v = run_state (for_each g xs) v" if "\<And>k. k \<in> set xs \<Longrightarrow> f k = g k"
    for f g :: "string \<Rightarrow> unit quota" and xs v
    using that by (induction xs arbitrary: v) simp_all
  have run: "run_state (adjustQuota dp planID (Some p) n) w =
      run_state (for_each (\<lambda>k. SetRemaining dp k (Some (target k)) (Some (qp_Unit r))) ks) w"
    using txn a fe bg assms(1,2) adjust_plan_keeps_usage [OF refl plan, of r]
    by (simp add: adjustQuota_def adjust_owners_def ks [symmetric])
       (rule cong, simp add: rm target)
  show ?thesis unfolding run by (rule for_each_SetRemaining [OF assms(1,3) nums])
qed

text \<open>A new plan, a new unit or a switch of the limit: every owner starts again with the full amount.\<close>

lemma adjustQuota_reset_run:
  assumes "faults w = []" and "qc_quotaCache dp" and "qc_redisClient dp"
    and row: "TQuotaPlanOne (quotaPlanFilterToParam (Some (plan_by_id planID))) (quota_plans (qdb w)) = Some r"
    and "plan_owners dp (qdb w) planID = Inr ks"
    and aj: "adjust_plan oldPlan n (quotaPlanParamToData r) = aj" "aj_useReset aj" "aj_newQuota aj = Some amount"
    and nums: "\<And>k. k \<in> set ks \<Longrightarrow> \<exists>c. number w (AIUsedQuotaKey k) = Some c \<and>
           fits64 (sint (qc_PtrToRedisValue dp (Some amount) (aj_planUnit aj)) - sint c)"
  shows "\<exists>w'. run_state (adjustQuota dp planID oldPlan n) w = (Inr (), w') \<and> quota_keys_only (set ks) w w' \<and>
    (\<forall>k \<in> set ks. rget w' (AIUsedQuotaKey k) =
       Some (FormatInt (qc_PtrToRedisValue dp (Some amount) (aj_planUnit aj))))"
proof -
  obtain aks where a: "all_ok (apiKeyParamToData dp)
      (filter (\<lambda>r. ta_QuotaPlanID r = Some planID) (api_keys (qdb w))) = Inr aks"
    using assms(5) by (auto simp: plan_owners_def split: sum.splits)
  let ?es = "if qc_entityStorager dp
    then map entityParamToData (filter (\<lambda>r. te_QuotaPlanID r = Some planID) (entities (qdb w))) else []"
  have ks: "ks = owner_keys aks ?es" using assms(5) a by (simp add: plan_owners_def)
  have fe: "run_state (fetchEntitiesByPlan dp planID) w = (Inr ?es, w)"
    using assms(1) by (simp add: fetchEntitiesByPlan_def)
  let ?body = "bindE (storage_FetchQuotaPlan (Some (plan_by_id planID))) (\<lambda>r. case r of
          None \<Rightarrow> throwE (ErrMsg ''quota_plan not found'')
        | Some plan \<Rightarrow> returnE (adjust_plan oldPlan n plan))"
  have "run_state ?body w = (Inr aj, w)" using assms(1) row aj(1) by simp
  from run_quota_AtomExecute_ok [OF assms(1) this assms(1)]
  have txn: "run_state (quota_AtomExecute ?body) w = (Inr aj, w)" .
  have run: "run_state (adjustQuota dp planID oldPlan n) w =
      run_state (for_each (\<lambda>k. SetRemaining dp k (Some amount) (aj_planUnit aj)) ks) w"
    using txn a fe assms(1,2) aj(2,3)
    by (simp add: adjustQuota_def adjust_owners_def ks owner_keys_def run_for_each_append
        run_for_each_owners split: prod.split sum.split)
  show ?thesis unfolding run by (rule for_each_SetRemaining [OF assms(1,3) nums])
qed

end
