(* ===== verification/QuotaLock.thy ===== *)
theory QuotaLock
  imports QuotaCache
begin

text \<open>
  The distributed lock of \<^verbatim>\<open>model/quotacache/lock.go\<close>: its three Lua scripts, the operations that
  run them, and the interleavings of several instances that use one lock key. A lock belongs to one
  token until it is released or runs out.
\<close>

section \<open>The distributed lock\<close>

text \<open>
  The three scripts. \<^verbatim>\<open>setex\<close> and \<^verbatim>\<open>expire\<close> take whole seconds; \<^verbatim>\<open>setex\<close> refuses less
  than one, \<^verbatim>\<open>expire\<close> then deletes the key.
\<close>

definition lockAcquireScript :: "string \<Rightarrow> string \<Rightarrow> int \<Rightarrow> quota_world \<Rightarrow> (error + int) \<times> quota_world" where
  "lockAcquireScript k token secs w =
     (if rget w k = None then
        if secs \<le> 0 then (Inl (ErrMsg ''ERR invalid expire time in setex''), w)
        else (Inr 1, rset k token (Some (q_now w + secs * nsSecond)) w)
      else (Inr 0, w))"

definition lockReleaseScript :: "string \<Rightarrow> string \<Rightarrow> quota_world \<Rightarrow> (error + int) \<times> quota_world" where
  "lockReleaseScript k token w =
     (if rget w k = Some token then (Inr 1, rdel k w) else (Inr 0, w))"

definition lockRenewScript :: "string \<Rightarrow> string \<Rightarrow> int \<Rightarrow> quota_world \<Rightarrow> (error + int) \<times> quota_world" where
  "lockRenewScript k token secs w =
     (if rget w k = Some token then
        (Inr 1, if secs \<le> 0 then rdel k w else rset k token (Some (q_now w + secs * nsSecond)) w)
      else (Inr 0, w))"

definition ttl_seconds :: "duration \<Rightarrow> int" where
  "ttl_seconds ttl = (if ttl < 0 then - ((- ttl) div nsSecond) else ttl div nsSecond)"

definition Acquire :: "quota_deps \<Rightarrow> string \<Rightarrow> string \<Rightarrow> duration \<Rightarrow> bool quota" where
  "Acquire dp k token ttl =
     (if \<not> qc_redisClient dp then throwE (ErrMsg ''redis client is nil'')
      else bindE (ext_call (lockAcquireScript k token (ttl_seconds ttl))) (\<lambda>acquired.
        returnE (acquired = 1)))"

definition Release :: "quota_deps \<Rightarrow> string \<Rightarrow> string \<Rightarrow> unit quota" where
  "Release dp k token =
     (if \<not> qc_redisClient dp then throwE (ErrMsg ''redis client is nil'')
      else bindE (ext_call (lockReleaseScript k token)) (\<lambda>_. returnE ()))"

definition Renew :: "quota_deps \<Rightarrow> string \<Rightarrow> string \<Rightarrow> duration \<Rightarrow> unit quota" where
  "Renew dp k token ttl =
     (if \<not> qc_redisClient dp then throwE (ErrMsg ''redis client is nil'')
      else bindE (ext_call (lockRenewScript k token (ttl_seconds ttl))) (\<lambda>_. returnE ()))"

section \<open>Interleavings\<close>

text \<open>
  The instances that share a lock key run their operations in any order, with any faults, while the
  clock advances. The second component is what the instances were told: the end of the lease of every token that
  got the lock and has not begun to release it. Anything else may happen to the world as long as nobody else
  writes the lock key.
\<close>

inductive lock_step ::
  "quota_deps \<Rightarrow> string \<Rightarrow> duration \<Rightarrow> quota_world \<times> (string \<Rightarrow> time option) \<Rightarrow>
   quota_world \<times> (string \<Rightarrow> time option) \<Rightarrow> bool"
  for dp :: quota_deps and k :: string and ttl :: duration where
  acquired: "run_state (Acquire dp k a ttl) w = (Inr True, w') \<Longrightarrow>
    lock_step dp k ttl (w, L) (w', L(a \<mapsto> q_now w + ttl_seconds ttl * nsSecond))"
| not_acquired: "run_state (Acquire dp k a ttl) w = (r, w') \<Longrightarrow> r \<noteq> Inr True \<Longrightarrow>
    lock_step dp k ttl (w, L) (w', L)"
| released: "run_state (Release dp k a) w = (r, w') \<Longrightarrow> lock_step dp k ttl (w, L) (w', L(a := None))"
| renewed: "run_state (Renew dp k a ttl) w = (r, w') \<Longrightarrow> lock_step dp k ttl (w, L) (w', L)"
| elsewhere: "q_redis w' k = q_redis w k \<Longrightarrow> q_now w \<le> q_now w' \<Longrightarrow> lock_step dp k ttl (w, L) (w', L)"

inductive_cases lock_stepE: "lock_step dp k ttl (w, L) (w', L')"

text \<open>A running lease is backed by the key, and no lease is longer than a fresh one.\<close>

definition lock_inv :: "string \<Rightarrow> duration \<Rightarrow> quota_world \<Rightarrow> (string \<Rightarrow> time option) \<Rightarrow> bool" where
  "lock_inv k ttl w L \<longleftrightarrow>
     (\<forall>a e. L a = Some e \<longrightarrow> e \<le> q_now w + ttl_seconds ttl * nsSecond \<and>
        (q_now w < e \<longrightarrow> (\<exists>e'. q_redis w k = Some (a, Some e') \<and> e \<le> e')))"

lemma lock_inv_held:
  "lock_inv k ttl w L \<Longrightarrow> L a = Some e \<Longrightarrow> q_now w < e \<Longrightarrow> rget w k = Some a"
  by (fastforce simp: lock_inv_def rget_def live_def)

lemma q_now_lock_scripts [simp]:
  "q_now (snd (lockAcquireScript k a s w)) = q_now w" "q_now (snd (lockReleaseScript k a w)) = q_now w"
  "q_now (snd (lockRenewScript k a s w)) = q_now w"
  by (simp_all add: lockAcquireScript_def lockReleaseScript_def lockRenewScript_def)

text \<open>Each script, run in a state of the invariant, keeps it for the leases of the tokens it does not release.\<close>

lemma lock_inv_acquire:
  assumes "lock_inv k ttl w L" and "lockAcquireScript k a (ttl_seconds ttl) w = (r, w')"
  shows "lock_inv k ttl w' L"
    and "r = Inr 1 \<Longrightarrow> lock_inv k ttl w' (L(a \<mapsto> q_now w + ttl_seconds ttl * nsSecond))"
proof -
  have q: "q_now w' = q_now w" using q_now_lock_scripts(1) [of k a "ttl_seconds ttl" w] assms(2) by simp
  have no: "\<not> q_now w < e" if "L b = Some e" "w' \<noteq> w" for b e
    using lock_inv_held [OF assms(1) that(1)] that(2) assms(2)
    by (auto simp: lockAcquireScript_def split: if_splits)
  show keep: "lock_inv k ttl w' L"
  proof (cases "w' = w")
    case False
    with assms(1) no show ?thesis by (simp add: lock_inv_def q)
  qed (use assms(1) in simp)
  show "lock_inv k ttl w' (L(a \<mapsto> q_now w + ttl_seconds ttl * nsSecond))" if "r = Inr 1"
  proof -
    have "q_redis w' k = Some (a, Some (q_now w + ttl_seconds ttl * nsSecond))"
      using assms(2) that by (auto simp: lockAcquireScript_def rset_def split: if_splits)
    with keep show ?thesis by (simp add: lock_inv_def q)
  qed
qed

lemma lock_inv_release:
  assumes "lock_inv k ttl w L" and "lockReleaseScript k a w = (r, w')"
  shows "lock_inv k ttl w' (L(a := None))"
  using assms lock_inv_held [OF assms(1)]
  by (auto simp: lock_inv_def lockReleaseScript_def rdel_def split: if_splits)

lemma lock_inv_renew:
  assumes "lock_inv k ttl w L" and "lockRenewScript k a (ttl_seconds ttl) w = (r, w')"
  shows "lock_inv k ttl w' L"
proof -
  have held: "b = a" if "rget w k = Some a" "L b = Some e" "q_now w < e" for b e
    using lock_inv_held [OF assms(1) that(2,3)] that(1) by simp
  have "ttl_seconds ttl \<le> 0 \<Longrightarrow> L b = Some e \<Longrightarrow> \<not> q_now w < e" for b e
    using assms(1) by (fastforce simp: lock_inv_def nsSecond_def)
  with assms held show ?thesis
    by (fastforce simp: lock_inv_def lockRenewScript_def rdel_def rset_def split: if_splits)
qed

lemma lock_inv_faults [simp]: "lock_inv k ttl (w\<lparr>faults := fs\<rparr>) L = lock_inv k ttl w L"
  by (simp add: lock_inv_def)

text \<open>A call that failed had its effect or none.\<close>

lemma lock_inv_call:
  assumes "run_state (ext_call f) w = (r, w')" and "lock_inv k ttl w L"
    and "\<And>w r w'. lock_inv k ttl w L \<Longrightarrow> f w = (r, w') \<Longrightarrow> lock_inv k ttl w' L'"
    and "\<And>w. lock_inv k ttl w L \<Longrightarrow> lock_inv k ttl w L'"
  shows "lock_inv k ttl w' L'"
  using assms(1,2) assms(3) [of "w\<lparr>faults := tl (faults w)\<rparr>"] assms(3) [of w] assms(4)
  by (auto split: list.splits fault.splits)
     (metis (no_types, lifting) assms(3) lock_inv_faults prod.collapse)+

lemma lock_inv_drop: "lock_inv k ttl w L \<Longrightarrow> lock_inv k ttl w (L(a := None))"
  by (auto simp: lock_inv_def)

lemma Acquire_True:
  assumes "run_state (Acquire dp k a ttl) w = (Inr True, w')"
  shows "\<exists>fs. lockAcquireScript k a (ttl_seconds ttl) (w\<lparr>faults := fs\<rparr>) = (Inr 1, w')"
proof -
  let ?c = "ext_call (lockAcquireScript k a (ttl_seconds ttl))"
  have "run_state ?c w = (Inr 1, w')"
    using assms by (auto simp: Acquire_def simp del: run_ext_call split: if_splits prod.splits sum.splits)
  then show ?thesis by (rule ext_call_Inr)
qed

text \<open>Every operation on the lock is one run of its script, or nothing without a client.\<close>

lemma lock_ops_run:
  "run_state (Acquire dp k a ttl) w = (r, w') \<Longrightarrow>
     w' = w \<or> (\<exists>r'. run_state (ext_call (lockAcquireScript k a (ttl_seconds ttl))) w = (r', w'))"
  "run_state (Release dp k a) w = (r2, w') \<Longrightarrow>
     w' = w \<or> (\<exists>r'. run_state (ext_call (lockReleaseScript k a)) w = (r', w'))"
  "run_state (Renew dp k a ttl) w = (r2, w') \<Longrightarrow>
     w' = w \<or> (\<exists>r'. run_state (ext_call (lockRenewScript k a (ttl_seconds ttl))) w = (r', w'))"
  by (auto simp: Acquire_def Release_def Renew_def simp del: run_ext_call
      split: if_splits prod.splits sum.splits)

lemma lock_inv_step:
  assumes "lock_step dp k ttl (w, L) (w', L')" and "lock_inv k ttl w L"
  shows "lock_inv k ttl w' L'"
  using assms(1)
proof (cases rule: lock_step.cases)
  case (acquired a)
  then show ?thesis
    using Acquire_True assms(2) lock_inv_acquire(2) [of k ttl "w\<lparr>faults := fs\<rparr>" L for fs] by fastforce
next
  case (not_acquired a r)
  from lock_ops_run(1) [OF this(2)] show ?thesis
  proof
    assume "w' = w"
    with assms(2) show ?thesis by (simp add: not_acquired(1))
  next
    assume "\<exists>r'. run_state (ext_call (lockAcquireScript k a (ttl_seconds ttl))) w = (r', w')"
    then obtain r' where run: "run_state (ext_call (lockAcquireScript k a (ttl_seconds ttl))) w = (r', w')" by blast
    show ?thesis unfolding not_acquired(1)
      by (rule lock_inv_call [OF run assms(2)]) (erule (1) lock_inv_acquire(1) | assumption)+
  qed
next
  case (released a r)
  from lock_ops_run(2) [OF this(2)] show ?thesis
  proof
    assume "w' = w"
    with assms(2) show ?thesis by (simp add: released(1) lock_inv_drop)
  next
    assume "\<exists>r'. run_state (ext_call (lockReleaseScript k a)) w = (r', w')"
    then obtain r' where run: "run_state (ext_call (lockReleaseScript k a)) w = (r', w')" by blast
    show ?thesis unfolding released(1)
      by (rule lock_inv_call [OF run assms(2)]) (erule (1) lock_inv_release | erule lock_inv_drop)+
  qed
next
  case (renewed a r)
  from lock_ops_run(3) [OF this(2)] show ?thesis
  proof
    assume "w' = w"
    with assms(2) show ?thesis by (simp add: renewed(1))
  next
    assume "\<exists>r'. run_state (ext_call (lockRenewScript k a (ttl_seconds ttl))) w = (r', w')"
    then obtain r' where run: "run_state (ext_call (lockRenewScript k a (ttl_seconds ttl))) w = (r', w')" by blast
    show ?thesis unfolding renewed(1)
      by (rule lock_inv_call [OF run assms(2)]) (erule (1) lock_inv_renew | assumption)+
  qed
next
  case elsewhere
  with assms(2) show ?thesis by (fastforce simp: lock_inv_def)
qed

lemma lock_inv_reachable:
  assumes "(lock_step dp k ttl)\<^sup>*\<^sup>* (w, Map.empty) (w', L)"
  shows "lock_inv k ttl w' L"
proof -
  have "case s of (w', L) \<Rightarrow> lock_inv k ttl w' L"
    if "(lock_step dp k ttl)\<^sup>*\<^sup>* (w, Map.empty) s" for s
    using that
    by (induction rule: rtranclp_induct) (auto simp: lock_inv_def dest: lock_inv_step)
  from this [OF assms] show ?thesis by simp
qed

lemma Acquire_refused:
  assumes "rget w k \<noteq> None"
  shows "fst (run_state (Acquire dp k a ttl) w) \<noteq> Inr True"
proof
  assume "fst (run_state (Acquire dp k a ttl) w) = Inr True"
  then obtain w' where "run_state (Acquire dp k a ttl) w = (Inr True, w')" by (metis prod.collapse)
  from Acquire_True [OF this] assms show False by (auto simp: lockAcquireScript_def split: if_splits)
qed

end
