(* ===== verification/QuotaReset.thy ===== *)
theory QuotaReset
  imports QuotaPlan QuotaLock
begin

text \<open>
  The periodic reset of quotas: \<^verbatim>\<open>model/quota/balance_sync.go\<close> (which plans are due, the claim of
  a period, the reset of the owners) and one round of \<^verbatim>\<open>scheduler.go\<close> under the distributed lock. The
  ticker, the goroutine that renews the lock and the recovery from panics are not modelled.

  Weeks and months are instances of \<open>period_floor\<close>; through that interface the check in the
  process and the condition of the claiming UPDATE are the same.
\<close>

section \<open>Periods\<close>

definition getWeekStart :: "zone \<Rightarrow> time \<Rightarrow> time" where
  "getWeekStart z t =
     (let weekday = time_Weekday z t;
          weekday' = (if weekday = 0 then 6 else weekday - 1);
          weekStart = AddDays z t (- weekday')
      in time_Date z (time_Year z weekStart) (time_Month z weekStart) (time_Day z weekStart) 0)"

definition getMonthStart :: "zone \<Rightarrow> time \<Rightarrow> time" where
  "getMonthStart z t = time_Date z (time_Year z t) (time_Month z t) 1 0"

definition getPeriodStart :: "zone \<Rightarrow> string \<Rightarrow> time \<Rightarrow> time" where
  "getPeriodStart z resetPeriod t =
     (if resetPeriod = ''weekly'' then getWeekStart z t
      else if resetPeriod = ''monthly'' then getMonthStart z t
      else t)"

definition shouldResetByPeriod :: "quota_deps \<Rightarrow> time option \<Rightarrow> string \<Rightarrow> time \<Rightarrow> bool" where
  "shouldResetByPeriod dp lastResetAt resetPeriod now =
     (if resetPeriod \<noteq> ''weekly'' \<and> resetPeriod \<noteq> ''monthly'' then False
      else case lastResetAt of
        None \<Rightarrow> True
      | Some l \<Rightarrow> getPeriodStart (qc_zone dp) resetPeriod now > getPeriodStart (qc_dbZone dp) resetPeriod l)"

section \<open>The reset\<close>

definition reset_api_key :: "quota_deps \<Rightarrow> QuotaPlanParam \<Rightarrow> APIKeyOwnerParam \<Rightarrow> unit quota" where
  "reset_api_key dp plan a =
     (case ka_Key a of
        None \<Rightarrow> returnE ()
      | Some k \<Rightarrow> if ka_KeyCreateAt a = None then returnE ()
                  else ResetToQuotaAtomic dp k (pl_Quota plan) (pl_Unit plan))"

definition reset_entity :: "quota_deps \<Rightarrow> QuotaPlanParam \<Rightarrow> EntityOwnerParam \<Rightarrow> unit quota" where
  "reset_entity dp plan e =
     (case ke_EntityID e of
        None \<Rightarrow> returnE ()
      | Some k \<Rightarrow> ResetToQuotaAtomic dp k (pl_Quota plan) (pl_Unit plan))"

definition resetAPIKeysRedisUsage :: "quota_deps \<Rightarrow> int \<Rightarrow> unit quota" where
  "resetAPIKeysRedisUsage dp planID =
     bindE (storage_FetchQuotaPlan (Some (plan_by_id planID))) (\<lambda>r. case r of
       None \<Rightarrow> throwE (ErrMsg ''plan not found or quota is nil'')
     | Some plan \<Rightarrow>
         if pl_Quota plan = None then throwE (ErrMsg ''plan not found or quota is nil'')
         else bindE (FetchAPIKeyList dp planID) (\<lambda>apiKeys.
           bindE (fetchEntitiesByPlan dp planID) (\<lambda>ents.
           if \<not> qc_quotaCache dp then returnE ()
           else bindE (for_each (reset_api_key dp plan) apiKeys) (\<lambda>_.
             for_each (reset_entity dp plan) ents))))"

text \<open>One turn of the loop; every error in it is printed and the next plan follows.\<close>

definition reset_plan :: "quota_deps \<Rightarrow> time \<Rightarrow> QuotaPlanParam \<Rightarrow> unit quota" where
  "reset_plan dp now plan =
     (case (pl_ID plan, pl_ResetPeriod plan) of
        (Some i, Some period) \<Rightarrow>
          if \<not> shouldResetByPeriod dp (pl_LastResetAt plan) period now then returnE ()
          else bindE (ClaimQuotaPlanReset dp i (getPeriodStart (qc_zone dp) period now) now) (\<lambda>affected.
            if affected = 0 then returnE () else resetAPIKeysRedisUsage dp i)
      | _ \<Rightarrow> returnE ())"

definition expired_filter :: QuotaPlanFilter where
  "expired_filter = \<lparr>qf_ID = None, qf_Unlimited = Some False, qf_ResetPeriod = [''weekly'', ''monthly'']\<rparr>"

definition ResetExpiredBalances :: "quota_deps \<Rightarrow> unit quota" where
  "ResetExpiredBalances dp =
     quota_AtomExecute
       (bindE (storage_FetchQuotaPlanList (Some expired_filter)) (\<lambda>plans.
        bindE (getsE q_now) (\<lambda>now. for_each (reset_plan dp now) plans)))"

section \<open>The scheduler\<close>

definition schedulerLockKey :: string where
  "schedulerLockKey = ''quota:reset:scheduler:lock''"

definition schedulerLockTTL :: duration where
  "schedulerLockTTL = 5 * 60 * nsSecond"

definition resetQuotas :: "quota_deps \<Rightarrow> bool \<Rightarrow> string \<Rightarrow> unit quota" where
  "resetQuotas dp hasLock instanceToken =
     (if \<not> hasLock then ignoreE (ResetExpiredBalances dp)
      else State_Monad.bind (Acquire dp schedulerLockKey instanceToken schedulerLockTTL) (\<lambda>r. case r of
          Inr True \<Rightarrow>
            bindE (ignoreE (ResetExpiredBalances dp)) (\<lambda>_.
              ignoreE (Release dp schedulerLockKey instanceToken))
        | _ \<Rightarrow> returnE ()))"

section \<open>Weeks and months are periods\<close>

lemma getWeekStart_days: "getWeekStart z t = (local_day z t - local_day z t mod 7) * nsDay - z"
proof -
  let ?D = "local_day z t" and ?wd = "time_Weekday z t"
  have wd: "(if ?wd = 0 then 6 else ?wd - 1) = ?D mod 7"
    unfolding time_Weekday_def by presburger
  obtain y m k where c: "civil (?D - ?D mod 7) = (y, m, k)" by (metis prod_cases3)
  have "local_day z (AddDays z t (- (?D mod 7))) = ?D - ?D mod 7"
    unfolding AddDays_days local_day_AddDays by simp
  then have "getWeekStart z t = days_of y m k * nsDay - z"
    unfolding getWeekStart_def Let_def wd time_Date_def time_Year_def time_Month_def time_Day_def
    by (simp add: c)
  then show ?thesis by (simp add: days_of_civil [OF c])
qed

text \<open>The first day of the month of a day.\<close>

definition month_first :: "int \<Rightarrow> int" where
  "month_first d = (case civil d of (y, m, k) \<Rightarrow> days_of y m 1)"

lemma getMonthStart_days: "getMonthStart z t = month_first (local_day z t) * nsDay - z"
  by (simp add: getMonthStart_def month_first_def time_Date_def time_Year_def time_Month_def split: prod.splits)

lemma month_first_le: "month_first d \<le> d"
  and month_first_const: "month_first d \<le> x \<Longrightarrow> x \<le> d \<Longrightarrow> month_first x = month_first d"
proof -
  obtain y yd where y: "year_yday d = (y, yd)" by fastforce
  note s = year_yday_spec [OF y]
  let ?m = "month_of (leap y) yd"
  have first: "month_first d = year_start y + month_start (leap y) ?m"
    by (simp add: month_first_def civil_def y days_of_def Let_def)
  note ms = month_start_le [OF s(2), of "leap y"]
  show "month_first d \<le> d" using first ms s(1) by simp
  show "month_first x = month_first d" if "month_first d \<le> x" "x \<le> d"
  proof -
    let ?xd = "x - year_start y"
    have xd: "month_start (leap y) ?m \<le> ?xd" "?xd \<le> yd" using that first s(1) by simp_all
    then have "year_yday x = (y, ?xd)"
      using year_yday_unique [of ?xd y] ms(2) s(3) by simp
    then show ?thesis
      unfolding first using month_of_const [OF s(2) xd]
      by (simp add: month_first_def civil_def days_of_def Let_def)
  qed
qed

lemma midnight_floor:
  fixes f :: "int \<Rightarrow> int"
  assumes "\<And>d. f d \<le> d" and "\<And>d x. f d \<le> x \<Longrightarrow> x \<le> d \<Longrightarrow> f x = f d"
  shows "period_floor (\<lambda>t. f (local_day z t) * nsDay - z)"
proof
  fix t x
  show "f (local_day z t) * nsDay - z \<le> t"
    using assms(1) midnight_le by blast
  assume "f (local_day z t) * nsDay - z \<le> x" "x \<le> t"
  then have "f (local_day z t) \<le> local_day z x" "local_day z x \<le> local_day z t"
    by (simp add: midnight_le) (rule local_day_mono [OF \<open>x \<le> t\<close>])
  then show "f (local_day z x) * nsDay - z = f (local_day z t) * nsDay - z"
    using assms(2) by simp
qed

interpretation week: period_floor "getWeekStart z" for z
  unfolding getWeekStart_days [abs_def]
  by (rule midnight_floor [of "\<lambda>d. d - d mod 7"]) presburger+

interpretation month: period_floor "getMonthStart z" for z
  unfolding getMonthStart_days [abs_def]
  by (rule midnight_floor) (rule month_first_le, rule month_first_const)

interpretation period: period_floor "getPeriodStart z p" for z p
  by unfold_locales
     (auto simp: getPeriodStart_def week.start_le month.start_le intro: week.start_const month.start_const)

text \<open>The decision in the process is the condition of the claim.\<close>

lemma shouldReset_iff_claim:
  assumes "qc_dbZone dp = qc_zone dp"
  shows "shouldResetByPeriod dp lastReset p now \<longleftrightarrow> (p = ''weekly'' \<or> p = ''monthly'') \<and>
     (case lastReset of None \<Rightarrow> True | Some l \<Rightarrow> l < getPeriodStart (qc_zone dp) p now)"
  using assms
  by (auto simp: shouldResetByPeriod_def period.before_period_iff [symmetric] split: option.splits)

section \<open>Claims\<close>

text \<open>
  The statements that reach the table of plans, from any instance and in any order. Two conditions of
  \<open>stmt_ok\<close> hold for all statements of the code: a claim is made for the period of its own time, and no statement assigns an
  id. The third one excludes an update that sets \<^verbatim>\<open>last_reset_at\<close> before the period: the code's own
  updates write the present time, but \<^verbatim>\<open>last_reset_at\<close> is also a field of the request body of an API key or an
  entity, so that a request may carry an earlier one.
\<close>

datatype plan_stmt =
    ClaimStmt int time time
  | UpdateStmt "TQuotaPlanParam option" TQuotaPlanParam
  | CreateStmt TQuotaPlanParam time
  | DeleteStmt "TQuotaPlanParam option"

fun exec_plan_stmt :: "quota_deps \<Rightarrow> plan_stmt \<Rightarrow> TQuotaPlan table \<Rightarrow> nat \<times> TQuotaPlan table" where
  "exec_plan_stmt dp (ClaimStmt i s now) t = TQuotaPlanClaimPeriodReset dp i s now t"
| "exec_plan_stmt dp (UpdateStmt wh val) t = TQuotaPlanUpdate dp val wh t"
| "exec_plan_stmt dp (CreateStmt data now) t = (1, snd (TQuotaPlanCreate dp data now t))"
| "exec_plan_stmt dp (DeleteStmt wh) t = TQuotaPlanDelete wh t"

definition exec_plan_stmts :: "quota_deps \<Rightarrow> plan_stmt list \<Rightarrow> TQuotaPlan table \<Rightarrow> TQuotaPlan table" where
  "exec_plan_stmts dp ss t = fold (\<lambda>s t. snd (exec_plan_stmt dp s t)) ss t"

fun stmt_ok :: "time \<Rightarrow> plan_stmt \<Rightarrow> bool" where
  "stmt_ok s0 (ClaimStmt i s now) = (s \<le> now)"
| "stmt_ok s0 (UpdateStmt wh val) =
     (tq_ID val = None \<and> (case tq_LastResetAt val of None \<Rightarrow> True | Some l \<Rightarrow> s0 \<le> l))"
| "stmt_ok s0 (CreateStmt data now) = (tq_ID data = None)"
| "stmt_ok s0 (DeleteStmt wh) = True"

text \<open>A column that keeps seconds, by cutting or by rounding, keeps the order and every whole second.\<close>

definition seconds_column :: "(time \<Rightarrow> time) \<Rightarrow> bool" where
  "seconds_column f \<longleftrightarrow> (\<forall>t u. t \<le> u \<longrightarrow> f t \<le> f u) \<and> (\<forall>t. nsSecond dvd t \<longrightarrow> f t = t)"

lemma seconds_column_ge:
  "seconds_column f \<Longrightarrow> nsSecond dvd s \<Longrightarrow> s \<le> t \<Longrightarrow> s \<le> f t"
  unfolding seconds_column_def by fastforce

definition claimed :: "int \<Rightarrow> time \<Rightarrow> TQuotaPlan table \<Rightarrow> bool" where
  "claimed i s t \<longleftrightarrow> i < next_id t \<and>
     (\<forall>r \<in> set (rows t). qp_ID r = i \<longrightarrow> (\<exists>l. qp_LastResetAt r = Some l \<and> s \<le> l))"

lemma claim_rows:
  assumes "r' \<in> set (rows (snd (TQuotaPlanClaimPeriodReset dp j s now t)))"
  shows "\<exists>r \<in> set (rows t). qp_ID r' = qp_ID r \<and>
    (qp_ID r = j \<and> qp_LastResetAt r' = Some (qc_time dp now) \<and>
       (\<forall>l. qp_LastResetAt r = Some l \<longrightarrow> l < s) \<or>
     qp_LastResetAt r' = qp_LastResetAt r \<and> (qp_ID r = j \<longrightarrow> (\<exists>l. qp_LastResetAt r = Some l \<and> s \<le> l)))"
proof -
  define P where "P r \<longleftrightarrow> qp_ID r = j \<and> (case qp_LastResetAt r of None \<Rightarrow> True | Some l \<Rightarrow> l < s)" for r :: TQuotaPlan
  have "r' \<in> set (update_where P (\<lambda>r. r\<lparr>qp_LastResetAt := Some (qc_time dp now)\<rparr>) (rows t))"
    using assms by (simp add: TQuotaPlanClaimPeriodReset_def exec_update_def P_def [abs_def])
  then obtain r where r: "r \<in> set (rows t)" "r' = (if P r then r\<lparr>qp_LastResetAt := Some (qc_time dp now)\<rparr> else r)"
    unfolding in_update_where by blast
  show ?thesis
  proof (cases "P r")
    case True
    with r show ?thesis by (intro bexI [of _ r]) (auto simp: P_def split: option.splits)
  next
    case False
    then have "qp_ID r = j \<longrightarrow> (\<exists>l. qp_LastResetAt r = Some l \<and> s \<le> l)"
      by (auto simp: P_def not_less split: option.splits)
    with False r show ?thesis by (intro bexI [of _ r]) auto
  qed
qed

lemma next_id_claim [simp]: "next_id (snd (TQuotaPlanClaimPeriodReset dp j s now t)) = next_id t"
  by (simp add: TQuotaPlanClaimPeriodReset_def exec_update_def)

lemma claim_claims:
  assumes "seconds_column (qc_time dp)" "nsSecond dvd s" "s \<le> now" "i < next_id t"
  shows "claimed i s (snd (TQuotaPlanClaimPeriodReset dp i s now t))"
proof -
  have "s \<le> qc_time dp now" by (rule seconds_column_ge [OF assms(1-3)])
  with assms(4) show ?thesis
    by (auto simp: claimed_def dest!: claim_rows)
qed

lemma claimed_refuses:
  assumes "claimed i s t" "s' \<le> s"
  shows "fst (TQuotaPlanClaimPeriodReset dp i s' now t) = 0"
  using assms
  by (fastforce simp: claimed_def TQuotaPlanClaimPeriodReset_def exec_update_def affected_rows_def
      filter_empty_conv split: option.splits)

lemma claimed_stmt:
  assumes "seconds_column (qc_time dp)" "nsSecond dvd s" "stmt_ok s st" "claimed i s t"
  shows "claimed i s (snd (exec_plan_stmt dp st t))"
proof -
  have time: "s \<le> qc_time dp u" if "s \<le> u" for u by (rule seconds_column_ge [OF assms(1,2) that])
  show ?thesis
  proof (cases st)
    case (ClaimStmt j s' now)
    have "\<exists>l. qp_LastResetAt r' = Some l \<and> s \<le> l"
      if r': "r' \<in> set (rows (snd (exec_plan_stmt dp st t)))" "qp_ID r' = i" for r'
    proof -
      obtain r where r: "r \<in> set (rows t)" "qp_ID r = i"
        "qp_LastResetAt r' = qp_LastResetAt r \<or>
         qp_LastResetAt r' = Some (qc_time dp now) \<and> (\<forall>l. qp_LastResetAt r = Some l \<longrightarrow> l < s')"
        using claim_rows [of r' dp j s' now t] r' by (auto simp: ClaimStmt)
      with assms(4) obtain l where l: "qp_LastResetAt r = Some l" "s \<le> l" by (auto simp: claimed_def)
      show ?thesis using r(3) l assms(3) time [of now] by (auto simp: ClaimStmt)
    qed
    then show ?thesis using assms(4) by (simp add: claimed_def ClaimStmt)
  next
    case (UpdateStmt wh val)
    have "\<exists>l. qp_LastResetAt r' = Some l \<and> s \<le> l"
      if r': "r' \<in> set (rows (snd (exec_plan_stmt dp st t)))" "qp_ID r' = i" for r'
    proof -
      have "r' \<in> set (update_where (where_plan wh) (assign_plan dp val) (rows t))"
        using r'(1) by (simp add: UpdateStmt TQuotaPlanUpdate_def exec_update_def)
      then obtain r where r: "r \<in> set (rows t)" "r' = r \<or> r' = assign_plan dp val r"
        unfolding in_update_where by (auto split: if_splits)
      have "qp_ID r' = qp_ID r" using r(2) assms(3) by (auto simp: UpdateStmt assign_plan_def opt_set_def)
      with r' assms(4) r(1) obtain l where l: "qp_LastResetAt r = Some l" "s \<le> l"
        by (auto simp: claimed_def)
      show ?thesis
      proof (cases "tq_LastResetAt val")
        case None
        with r(2) l show ?thesis by (auto simp: assign_plan_def)
      next
        case (Some u)
        with assms(3) have "s \<le> u" by (simp add: UpdateStmt)
        with r(2) l Some time [of u] show ?thesis by (auto simp: assign_plan_def)
      qed
    qed
    then show ?thesis using assms(4)
      by (simp add: claimed_def UpdateStmt TQuotaPlanUpdate_def exec_update_def)
  next
    case (CreateStmt data now)
    then show ?thesis using assms(3,4)
      by (auto simp: claimed_def TQuotaPlanCreate_def Let_def assign_plan_def opt_set_def plan_defaults_def)
  next
    case (DeleteStmt wh)
    then show ?thesis using assms(4) by (simp add: claimed_def TQuotaPlanDelete_def)
  qed
qed

lemma claimed_stmts:
  assumes "seconds_column (qc_time dp)" "nsSecond dvd s" "\<forall>st \<in> set ss. stmt_ok s st" "claimed i s t"
  shows "claimed i s (exec_plan_stmts dp ss t)"
  using assms(3,4)
  by (induction ss arbitrary: t) (auto simp: exec_plan_stmts_def intro: claimed_stmt [OF assms(1,2)])

text \<open>Period starts are whole seconds in a zone of whole seconds.\<close>

lemma period_start_seconds:
  assumes "nsSecond dvd z" "p = ''weekly'' \<or> p = ''monthly''"
  shows "nsSecond dvd getPeriodStart z p t"
proof -
  have "nsSecond dvd d * nsDay - z" for d
    using assms(1) by (auto simp: nsDay_def)
  then show ?thesis
    using assms(2) by (auto simp: getPeriodStart_def getWeekStart_days getMonthStart_days)
qed

section \<open>What a round of resets does\<close>

definition due :: "quota_deps \<Rightarrow> time \<Rightarrow> TQuotaPlan \<Rightarrow> bool" where
  "due dp now r \<longleftrightarrow> shouldResetByPeriod dp (qp_LastResetAt r) (qp_ResetPeriod r) now"

definition full_value :: "quota_deps \<Rightarrow> TQuotaPlan \<Rightarrow> string" where
  "full_value dp r = FormatInt (qc_PtrToRedisValue dp (Some (qp_Quota r)) (Some (qp_Unit r)))"

definition set_all :: "string \<Rightarrow> string list \<Rightarrow> quota_world \<Rightarrow> quota_world" where
  "set_all v ks w = fold (\<lambda>k. rset (AIUsedQuotaKey k) v None) ks w"

lemma set_all_simps [simp]:
  "faults (set_all v ks w) = faults w" "qdb (set_all v ks w) = qdb w" "q_now (set_all v ks w) = q_now w"
  by (induction ks arbitrary: w) (simp_all add: set_all_def)

lemma set_all_append: "set_all v (ks @ ks') w = set_all v ks' (set_all v ks w)"
  by (simp add: set_all_def)

lemma q_redis_set_all:
  "q_redis (set_all v ks w) key = (if key \<in> AIUsedQuotaKey ` set ks then Some (v, None) else q_redis w key)"
  by (induction ks arbitrary: w) (auto simp: set_all_def rset_def)

lemma all_ok_set: "all_ok f xs = Inr ys \<Longrightarrow> y \<in> set ys \<Longrightarrow> \<exists>x \<in> set xs. f x = Inr y"
  by (induction xs arbitrary: ys) (auto split: sum.splits)

lemma for_each_set_all:
  assumes "faults w = []" and "\<And>x v. x \<in> set xs \<Longrightarrow> faults v = [] \<Longrightarrow>
     run_state (f x) v = (Inr (), (case g x of None \<Rightarrow> v | Some k \<Rightarrow> set_all val [k] v))"
  shows "run_state (for_each f xs) w = (Inr (), set_all val (List.map_filter g xs) w)"
  using assms
proof (induction xs arbitrary: w)
  case Nil
  then show ?case by (simp add: set_all_def List.map_filter_simps)
next
  case (Cons x xs)
  show ?case
  proof (cases "g x")
    case None
    then show ?thesis using Cons by (simp add: List.map_filter_simps)
  next
    case (Some k)
    then show ?thesis using Cons
      by (simp add: List.map_filter_simps) (simp add: set_all_def)
  qed
qed

lemma apiKeyParamToData_created: "apiKeyParamToData dp r = Inr x \<Longrightarrow> ka_KeyCreateAt x = Some (ta_CreatedAt r)"
  by (auto simp: apiKeyParamToData_def split: sum.splits)

lemma length_filter_eq: "distinct xs \<Longrightarrow> r \<in> set xs \<Longrightarrow> length (filter (\<lambda>x. x = r) xs) = 1"
  by (induction xs) (auto simp: filter_empty_conv)

lemma run_resetAPIKeysRedisUsage:
  assumes "faults w = []" "qc_quotaCache dp" "qc_redisClient dp"
    and row: "TQuotaPlanOne (quotaPlanFilterToParam (Some (plan_by_id i))) (quota_plans (qdb w)) = Some r"
    and ks: "plan_owners dp (qdb w) i = Inr ks"
  shows "run_state (resetAPIKeysRedisUsage dp i) w = (Inr (), set_all (full_value dp r) ks w)"
proof -
  obtain aks where a: "all_ok (apiKeyParamToData dp)
      (filter (\<lambda>r. ta_QuotaPlanID r = Some i) (api_keys (qdb w))) = Inr aks"
    using ks by (auto simp: plan_owners_def split: sum.splits)
  let ?es = "if qc_entityStorager dp
    then map entityParamToData (filter (\<lambda>r. te_QuotaPlanID r = Some i) (entities (qdb w))) else []"
  let ?plan = "quotaPlanParamToData r"
  have atomic: "run_state (ResetToQuotaAtomic dp k (pl_Quota ?plan) (pl_Unit ?plan)) v =
      (Inr (), set_all (full_value dp r) [k] v)" if "faults v = []" for k v
    using that assms(3) by (simp add: quotaPlanParamToData_def full_value_def set_all_def)
  have "ka_KeyCreateAt x \<noteq> None" if "x \<in> set aks" for x
    using all_ok_set [OF a that] apiKeyParamToData_created by fastforce
  then have 1: "run_state (for_each (reset_api_key dp ?plan) aks) w =
      (Inr (), set_all (full_value dp r) (List.map_filter ka_Key aks) w)"
    by (intro for_each_set_all assms(1)) (fastforce simp: reset_api_key_def atomic split: option.splits)
  have 2: "run_state (for_each (reset_entity dp ?plan) es) v =
      (Inr (), set_all (full_value dp r) (List.map_filter ke_EntityID es) v)" if "faults v = []" for es v
    by (intro for_each_set_all that) (auto simp: reset_entity_def atomic split: option.splits)
  have fe: "run_state (fetchEntitiesByPlan dp i) w = (Inr ?es, w)"
    using assms(1) by (simp add: fetchEntitiesByPlan_def)
  have "pl_Quota ?plan \<noteq> None" by (simp add: quotaPlanParamToData_def)
  moreover have "ks = List.map_filter ka_Key aks @ List.map_filter ke_EntityID ?es"
    using ks a by (simp add: plan_owners_def owner_keys_def)
  ultimately show ?thesis
    using assms(1,2) row a fe 1 by (simp add: resetAPIKeysRedisUsage_def 2 set_all_append)
qed

definition claim_row :: "quota_deps \<Rightarrow> time \<Rightarrow> TQuotaPlan \<Rightarrow> TQuotaPlan" where
  "claim_row dp now r = r\<lparr>qp_LastResetAt := Some (qc_time dp now)\<rparr>"

text \<open>In a table with distinct ids the claim of a plan that is due changes its row and no other.\<close>

lemma claim_due:
  assumes "distinct (map qp_ID (rows t))" "r \<in> set (rows t)" "due dp now r"
    and "qc_dbZone dp = qc_zone dp" "nsSecond dvd qc_zone dp" "seconds_column (qc_time dp)"
  shows "TQuotaPlanClaimPeriodReset dp (qp_ID r) (getPeriodStart (qc_zone dp) (qp_ResetPeriod r) now) now t =
    (1, t\<lparr>rows := update_where (\<lambda>x. x = r) (claim_row dp now) (rows t)\<rparr>)"
proof -
  let ?s = "getPeriodStart (qc_zone dp) (qp_ResetPeriod r) now"
  let ?P = "\<lambda>x. qp_ID x = qp_ID r \<and> (case qp_LastResetAt x of None \<Rightarrow> True | Some l \<Rightarrow> l < ?s)"
  let ?f = "\<lambda>x. x\<lparr>qp_LastResetAt := Some (qc_time dp now)\<rparr>"
  have p: "qp_ResetPeriod r = ''weekly'' \<or> qp_ResetPeriod r = ''monthly''"
    and before: "case qp_LastResetAt r of None \<Rightarrow> True | Some l \<Rightarrow> l < ?s"
    using assms(3) shouldReset_iff_claim [OF assms(4)] by (auto simp: due_def)
  have "?s \<le> qc_time dp now"
    by (rule seconds_column_ge [OF assms(6) period_start_seconds [OF assms(5) p] period.start_le])
  with before have "qp_LastResetAt r \<noteq> Some (qc_time dp now)" by auto
  then have ch: "?f r \<noteq> r" by (metis TQuotaPlan.select_convs(7) TQuotaPlan.surjective TQuotaPlan.update_convs(7))
  have eq: "?P x \<longleftrightarrow> x = r" if "x \<in> set (rows t)" for x
    using that assms(1,2) before by (auto dest: distinct_map_eq)
  have "filter (\<lambda>x. ?P x \<and> (qc_isMySQL dp \<longrightarrow> ?f x \<noteq> x)) (rows t) = filter (\<lambda>x. x = r) (rows t)"
    using eq ch by (intro filter_cong) auto
  moreover have "length (filter (\<lambda>x. x = r) (rows t)) = 1"
    using assms(1,2) by (intro length_filter_eq) (simp_all add: distinct_map)
  moreover have "update_where ?P ?f (rows t) = update_where (\<lambda>x. x = r) (claim_row dp now) (rows t)"
    unfolding update_where_def claim_row_def [abs_def] using eq by (intro map_cong) auto
  ultimately show ?thesis
    by (simp add: TQuotaPlanClaimPeriodReset_def exec_update_def affected_rows_def)
qed

lemma TQuotaPlanOne_by_id:
  assumes "distinct (map qp_ID (rows t))" "r \<in> set (rows t)"
  shows "TQuotaPlanOne (quotaPlanFilterToParam (Some (plan_by_id (qp_ID r)))) t = Some r"
proof -
  obtain x where "List.find (\<lambda>x. qp_ID x = qp_ID r) (rows t) = Some x"
    using assms(2) by (metis (mono_tags, lifting) find_None_iff not_None_eq)
  moreover from this have "x \<in> set (rows t)" "qp_ID x = qp_ID r" by (auto dest: find_Some_in)
  ultimately show ?thesis using distinct_map_eq [OF assms(1)] assms(2) by (auto simp: TQuotaPlanOne_def)
qed

text \<open>
  What the round relies on: a cache with a client, times of the database read in the zone of the process,
  which is a number of whole seconds away from UTC, and a column that keeps seconds.
\<close>

definition reset_ready :: "quota_deps \<Rightarrow> bool" where
  "reset_ready dp \<longleftrightarrow> qc_quotaCache dp \<and> qc_redisClient dp \<and> qc_dbZone dp = qc_zone dp \<and>
     nsSecond dvd qc_zone dp \<and> seconds_column (qc_time dp)"

text \<open>The balances after the given plans, in their order, were reset.\<close>

definition reset_redis :: "quota_deps \<Rightarrow> quota_db \<Rightarrow> TQuotaPlan list \<Rightarrow> quota_world \<Rightarrow> quota_world" where
  "reset_redis dp d rs w = fold (\<lambda>r w. set_all (full_value dp r) (projr (plan_owners dp d (qp_ID r))) w) rs w"

lemma reset_redis_simps [simp]:
  "faults (reset_redis dp d rs w) = faults w" "qdb (reset_redis dp d rs w) = qdb w"
  "q_now (reset_redis dp d rs w) = q_now w"
  by (induction rs arbitrary: w) (simp_all add: reset_redis_def)

definition owners_listed :: "quota_deps \<Rightarrow> quota_db \<Rightarrow> bool" where
  "owners_listed dp d \<longleftrightarrow> (\<forall>i. \<exists>ks. plan_owners dp d i = Inr ks)"

lemma run_reset_plan:
  assumes "reset_ready dp" "faults w = []" "owners_listed dp (qdb w)"
    and "distinct (map qp_ID (rows (quota_plans (qdb w))))" "r \<in> set (rows (quota_plans (qdb w)))"
  shows "run_state (reset_plan dp now (quotaPlanParamToData r)) w =
    (Inr (), if due dp now r
      then reset_redis dp (qdb w) [r] (set_plans ((quota_plans (qdb w))\<lparr>rows :=
             update_where (\<lambda>x. x = r) (claim_row dp now) (rows (quota_plans (qdb w)))\<rparr>) w)
      else w)"
proof (cases "due dp now r")
  case False
  then show ?thesis by (simp add: reset_plan_def quotaPlanParamToData_def due_def)
next
  case True
  let ?t = "quota_plans (qdb w)" and ?s = "getPeriodStart (qc_zone dp) (qp_ResetPeriod r) now"
  let ?w1 = "set_plans (?t\<lparr>rows := update_where (\<lambda>x. x = r) (claim_row dp now) (rows ?t)\<rparr>) w"
  obtain ks where ks: "plan_owners dp (qdb w) (qp_ID r) = Inr ks"
    using assms(3) by (auto simp: owners_listed_def)
  have c: "TQuotaPlanClaimPeriodReset dp (qp_ID r) ?s now ?t =
      (1, ?t\<lparr>rows := update_where (\<lambda>x. x = r) (claim_row dp now) (rows ?t)\<rparr>)"
    using claim_due [OF assms(4,5) True] assms(1) by (simp add: reset_ready_def)
  have claim: "run_state (ClaimQuotaPlanReset dp (qp_ID r) ?s now) w = (Inr 1, ?w1)"
    using assms(2) by (simp add: ClaimQuotaPlanReset_def c)
  have "map qp_ID (update_where (\<lambda>x. x = r) (claim_row dp now) (rows ?t)) = map qp_ID (rows ?t)"
    by (rule map_update_where) (simp add: claim_row_def)
  moreover have "claim_row dp now r \<in> set (update_where (\<lambda>x. x = r) (claim_row dp now) (rows ?t))"
    using assms(5) by (auto simp: in_update_where)
  ultimately have one: "TQuotaPlanOne (quotaPlanFilterToParam (Some (plan_by_id (qp_ID r)))) (quota_plans (qdb ?w1)) =
      Some (claim_row dp now r)"
    using TQuotaPlanOne_by_id [of "quota_plans (qdb ?w1)" "claim_row dp now r"] assms(4)
    by (simp add: set_plans_def claim_row_def)
  have "run_state (resetAPIKeysRedisUsage dp (qp_ID r)) ?w1 = (Inr (), set_all (full_value dp r) ks ?w1)"
    using run_resetAPIKeysRedisUsage [OF _ _ _ one, of dp ks] assms(1,2) ks
    by (simp add: reset_ready_def set_plans_def full_value_def claim_row_def)
  with True claim ks show ?thesis
    by (simp add: reset_plan_def quotaPlanParamToData_def due_def reset_redis_def)
qed

lemma set_plans_rset: "set_plans t (rset k v e w) = rset k v e (set_plans t w)"
  by (cases w) (simp add: set_plans_def rset_def)

lemma set_plans_set_all: "set_plans t (set_all v ks w) = set_all v ks (set_plans t w)"
  by (induction ks arbitrary: w) (simp_all add: set_all_def set_plans_rset)

lemma set_plans_reset_redis: "set_plans t (reset_redis dp d rs w) = reset_redis dp d rs (set_plans t w)"
  by (induction rs arbitrary: w) (simp_all add: reset_redis_def set_plans_set_all)

lemma reset_redis_owners:
  "(\<And>i. plan_owners dp d' i = plan_owners dp d i) \<Longrightarrow> reset_redis dp d' rs w = reset_redis dp d rs w"
  by (simp add: reset_redis_def)

lemma set_plans_simps [simp]:
  "set_plans t (set_plans t' w) = set_plans t w" "faults (set_plans t w) = faults w"
  "quota_plans (qdb (set_plans t w)) = t" "plan_owners dp (qdb (set_plans t w)) i = plan_owners dp (qdb w) i"
  "q_redis (set_plans t w) = q_redis w" "q_now (set_plans t w) = q_now w"
  by (simp_all add: set_plans_def)

lemma update_where_split:
  assumes "distinct (map qp_ID xs)" "r \<in> set xs" "set rs \<subseteq> set xs" "r \<notin> set rs" "d r"
  shows "update_where (\<lambda>x. x \<in> set rs \<and> d x) (claim_row dp now) (update_where (\<lambda>x. x = r) (claim_row dp now) xs) =
    update_where (\<lambda>x. x \<in> set (r # rs) \<and> d x) (claim_row dp now) xs"
proof -
  have "claim_row dp now r \<notin> set rs"
  proof
    assume c: "claim_row dp now r \<in> set rs"
    then have "claim_row dp now r = r"
      using assms(2,3) by (intro distinct_map_eq [OF assms(1)]) (auto simp: claim_row_def)
    with c assms(4) show False by simp
  qed
  with assms(4,5) show ?thesis by (auto simp: update_where_def)
qed

lemma run_reset_loop:
  assumes "reset_ready dp" "faults w = []" "owners_listed dp (qdb w)"
    and "distinct (map qp_ID (rows (quota_plans (qdb w))))" "distinct rs" "set rs \<subseteq> set (rows (quota_plans (qdb w)))"
  shows "run_state (for_each (reset_plan dp now) (map quotaPlanParamToData rs)) w =
    (Inr (), reset_redis dp (qdb w) (filter (due dp now) rs)
       (set_plans ((quota_plans (qdb w))\<lparr>rows := update_where (\<lambda>x. x \<in> set rs \<and> due dp now x)
          (claim_row dp now) (rows (quota_plans (qdb w)))\<rparr>) w))"
  using assms(2-6)
proof (induction rs arbitrary: w)
  case Nil
  have "update_where (\<lambda>x. False) f xs = xs" for f and xs :: "TQuotaPlan list"
    by (simp add: update_where_def)
  then show ?case by (simp add: reset_redis_def set_plans_def)
next
  case (Cons r rs)
  let ?t = "quota_plans (qdb w)"
  have r: "r \<in> set (rows ?t)" "r \<notin> set rs" "set rs \<subseteq> set (rows ?t)" using Cons.prems by auto
  note step = run_reset_plan [OF assms(1) Cons.prems(1-3) r(1), of now]
  show ?case
  proof (cases "due dp now r")
    case False
    have "(\<lambda>x. x \<in> set (r # rs) \<and> due dp now x) = (\<lambda>x. x \<in> set rs \<and> due dp now x)"
      using False r(2) by auto
    with False show ?thesis using step Cons.IH [OF Cons.prems(1-3)] Cons.prems by simp
  next
    case True
    let ?t1 = "?t\<lparr>rows := update_where (\<lambda>x. x = r) (claim_row dp now) (rows ?t)\<rparr>"
    let ?w1 = "reset_redis dp (qdb w) [r] (set_plans ?t1 w)"
    have ids: "map qp_ID (rows ?t1) = map qp_ID (rows ?t)"
      by (simp add: claim_row_def map_update_where)
    have rest: "set rs \<subseteq> set (rows ?t1)"
      using r(2,3) by (auto simp: in_update_where intro!: bexI)
    have own: "plan_owners dp (qdb ?w1) i = plan_owners dp (qdb w) i" for i by simp
    then have "owners_listed dp (qdb ?w1)" using Cons.prems(2) by (simp add: owners_listed_def)
    from Cons.IH [OF _ this] ids rest Cons.prems
    have "run_state (for_each (reset_plan dp now) (map quotaPlanParamToData rs)) ?w1 =
      (Inr (), reset_redis dp (qdb w) (filter (due dp now) rs)
        (set_plans (?t1\<lparr>rows := update_where (\<lambda>x. x \<in> set rs \<and> due dp now x) (claim_row dp now) (rows ?t1)\<rparr>) ?w1))"
      using reset_redis_owners [OF own] by simp
    with step True show ?thesis
      using update_where_split [where d = "due dp now", OF Cons.prems(3) r(1,3,2) True]
      by (simp add: set_plans_reset_redis) (simp add: reset_redis_def)
  qed
qed

text \<open>
  The whole round: every row that is due, and no other, carries the time of the round, and the balances of the owners of those
  plans are full.
\<close>

lemma run_ResetExpiredBalances:
  assumes "reset_ready dp" "faults w = []" "owners_listed dp (qdb w)"
    and "distinct (map qp_ID (rows (quota_plans (qdb w))))"
  shows "run_state (ResetExpiredBalances dp) w =
    (Inr (), reset_redis dp (qdb w) (filter (due dp (q_now w)) (rows (quota_plans (qdb w))))
       (set_plans ((quota_plans (qdb w))\<lparr>rows := update_where (due dp (q_now w))
          (claim_row dp (q_now w)) (rows (quota_plans (qdb w)))\<rparr>) w))"
proof -
  let ?rs = "rows (quota_plans (qdb w))"
  let ?body = "bindE (storage_FetchQuotaPlanList (Some expired_filter)) (\<lambda>plans.
        bindE (getsE q_now) (\<lambda>now. for_each (reset_plan dp now) plans))"
  have "where_plan (quotaPlanFilterToParam (Some expired_filter)) = (\<lambda>_. True)"
    by (simp add: fun_eq_iff where_plan_def quotaPlanFilterToParam_def expired_filter_def empty_TQuotaPlanParam_def)
  then have l: "TQuotaPlanList (quotaPlanFilterToParam (Some expired_filter)) (quota_plans (qdb w)) = ?rs"
    by (simp add: TQuotaPlanList_def)
  have uw: "update_where (\<lambda>x. x \<in> set xs \<and> p x) f xs = update_where p f xs" for p f and xs :: "TQuotaPlan list"
    by (simp add: update_where_def)
  have "distinct ?rs" using assms(4) by (simp add: distinct_map)
  from run_reset_loop [OF assms this order_refl, of "q_now w"]
  have body: "run_state ?body w =
    (Inr (), reset_redis dp (qdb w) (filter (due dp (q_now w)) ?rs)
       (set_plans ((quota_plans (qdb w))\<lparr>rows := update_where (due dp (q_now w))
          (claim_row dp (q_now w)) ?rs\<rparr>) w))"
    using assms(2) by (simp add: storage_FetchQuotaPlanList_def l uw)
  show ?thesis
    unfolding ResetExpiredBalances_def
    by (rule run_quota_AtomExecute_ok [OF assms(2) body]) (simp add: assms(2))
qed

text \<open>The balances, key by key.\<close>

lemma q_redis_reset_redis:
  "key \<notin> (\<Union>r \<in> set rs. AIUsedQuotaKey ` set (projr (plan_owners dp d (qp_ID r)))) \<Longrightarrow>
     q_redis (reset_redis dp d rs w) key = q_redis w key"
  "r \<in> set rs \<Longrightarrow> k \<in> set (projr (plan_owners dp d (qp_ID r))) \<Longrightarrow>
     (\<And>r'. r' \<in> set rs \<Longrightarrow> k \<in> set (projr (plan_owners dp d (qp_ID r'))) \<Longrightarrow> full_value dp r' = full_value dp r) \<Longrightarrow>
     q_redis (reset_redis dp d rs w) (AIUsedQuotaKey k) = Some (full_value dp r, None)"
proof -
  show "key \<notin> (\<Union>r \<in> set rs. AIUsedQuotaKey ` set (projr (plan_owners dp d (qp_ID r)))) \<Longrightarrow>
     q_redis (reset_redis dp d rs w) key = q_redis w key"
    by (induction rs arbitrary: w) (auto simp: reset_redis_def q_redis_set_all)
  show "r \<in> set rs \<Longrightarrow> k \<in> set (projr (plan_owners dp d (qp_ID r))) \<Longrightarrow>
     (\<And>r'. r' \<in> set rs \<Longrightarrow> k \<in> set (projr (plan_owners dp d (qp_ID r'))) \<Longrightarrow> full_value dp r' = full_value dp r) \<Longrightarrow>
     q_redis (reset_redis dp d rs w) (AIUsedQuotaKey k) = Some (full_value dp r, None)"
  proof (induction rs arbitrary: w rule: rev_induct)
    case (snoc x xs)
    have unf: "reset_redis dp d (xs @ [x]) w =
        set_all (full_value dp x) (projr (plan_owners dp d (qp_ID x))) (reset_redis dp d xs w)"
      by (simp add: reset_redis_def)
    show ?case
    proof (cases "k \<in> set (projr (plan_owners dp d (qp_ID x)))")
      case True
      then show ?thesis using snoc.prems(3) [of x] by (simp add: unf q_redis_set_all)
    next
      case False
      then have "AIUsedQuotaKey k \<notin> AIUsedQuotaKey ` set (projr (plan_owners dp d (qp_ID x)))" by auto
      moreover have "r \<in> set xs" using snoc.prems(1,2) False by auto
      moreover from this have "q_redis (reset_redis dp d xs w) (AIUsedQuotaKey k) = Some (full_value dp r, None)"
        by (intro snoc.IH snoc.prems(2)) (auto intro: snoc.prems(3))
      ultimately show ?thesis by (simp add: unf q_redis_set_all)
    qed
  qed simp
qed

end
