(* ===== verification/QuotaProperties.thy ===== *)
theory QuotaProperties
  imports QuotaReset
begin

text \<open>
  The properties of the quota component and their witnesses: periods, the claim of a period, the reset
  round, manual resets, carrying a changed quota over, the relative update of a balance and the
  scheduler's lock.
\<close>

section \<open>A concrete setting\<close>

text \<open>Whole units, plain keys, UTC and a column that keeps nanoseconds.\<close>

definition example_deps :: quota_deps where
  "example_deps = \<lparr>qc_isMySQL = True, qc_time = (\<lambda>t. t), qc_quota = (\<lambda>q. q), qc_decrypt = Inr,
     qc_zone = 0, qc_dbZone = 0,
     qc_PtrToRedisValue = (\<lambda>q u. case q of None \<Rightarrow> 0 | Some x \<Rightarrow> word_of_int \<lfloor>x\<rfloor>),
     qc_PtrFromRedisValue = (\<lambda>v u. of_int (sint v)), qc_absentInBatch = 0,
     qc_entityStorager = True, qc_quotaCache = True, qc_redisClient = True, qc_operationLog = True\<rparr>"

definition example_plan :: TQuotaPlan where
  "example_plan = \<lparr>qp_ID = 1, qp_Unlimited = False, qp_PassWhenNoEnoughQuota = False, qp_Quota = 100,
     qp_Unit = ''total_token'', qp_ResetPeriod = ''weekly'', qp_LastResetAt = Some 0,
     qp_CreatedAt = 0, qp_UpdatedAt = 0\<rparr>"

definition example_quota_world :: quota_world where
  "example_quota_world = \<lparr>faults = [],
     qdb = \<lparr>quota_plans = \<lparr>rows = [example_plan], next_id = 2\<rparr>,
       api_keys = [\<lparr>ta_ID = ''ak1'', ta_Key = ''k1'', ta_QuotaPlanID = Some 1, ta_CreatedAt = 0\<rparr>],
       entities = []\<rparr>,
     q_redis = [''QUOTA_k1'' \<mapsto> (''70'', None)], q_now = 8 * nsDay + 5, q_log = [], q_vars = no_vars\<rparr>"

lemma seconds_column_id [simp]: "seconds_column (\<lambda>t. t)"
  by (simp add: seconds_column_def)

lemma example_reads [simp]:
  "faults example_quota_world = []"
  "TQuotaPlanOne (quotaPlanFilterToParam (Some (plan_by_id 1))) (quota_plans (qdb example_quota_world)) = Some example_plan"
  "plan_owners example_deps (qdb example_quota_world) 1 = Inr [''k1'']"
  by (simp_all add: example_quota_world_def TQuotaPlanOne_def example_plan_def plan_owners_def
      example_deps_def apiKeyParamToData_def owner_keys_def List.map_filter_simps)

lemma parse_70: "ParseInt ''70'' = Some 70" "FormatInt 70 = ''70''"
  by (simp_all add: ParseInt_def Let_def FormatInt_def show_int_def show_nat.simps digit_char_def
      char_of_def bit_0)

lemma example_rget: "rget example_quota_world (AIUsedQuotaKey ''k1'') = Some ''70''"
  by (simp add: example_quota_world_def rget_def AIUsedQuotaKey_def live_def)

lemma example_number: "number example_quota_world (AIUsedQuotaKey ''k1'') = Some 70"
  by (simp add: number_def example_rget redis_int_def parse_70)

section \<open>Periods\<close>

text \<open>
  In a zone with a fixed offset from UTC (no daylight saving time), the start of a period is a true floor of the
  calendar: a week starts on the last Monday at midnight, less than seven days ago, a month on its first day at midnight, and
  the instants of one period have one start, so that starting again from a start or from any instant in between changes
  nothing. Across a change of the offset the length of a week differs and the bound of seven days is not claimed.\<close>

theorem period_start_is_calendar_start:
  "time_Weekday z (getWeekStart z t) = 1 \<and> local_clock z (getWeekStart z t) = 0 \<and>
   getWeekStart z t \<le> t \<and> t < getWeekStart z t + 7 * nsDay \<and>
   time_Day z (getMonthStart z t) = 1 \<and> time_Month z (getMonthStart z t) = time_Month z t \<and>
   time_Year z (getMonthStart z t) = time_Year z t \<and> local_clock z (getMonthStart z t) = 0 \<and>
   getMonthStart z t \<le> t \<and>
   {u. getPeriodStart z p t \<le> u \<and> u \<le> t} \<subseteq> {u. getPeriodStart z p u = getPeriodStart z p t}"
proof -
  have clock: "local_clock z (d * nsDay - z) = 0" for d by (simp add: local_clock_def)
  have wk: "(local_day z t - local_day z t mod 7 + 1) mod 7 = 1" by presburger
  have w7: "t < getWeekStart z t + 7 * nsDay"
  proof -
    have "local_day z t < local_day z t - local_day z t mod 7 + 7" by simp
    then have "\<not> local_day z t - local_day z t mod 7 + 7 \<le> local_day z t" by simp
    then have "\<not> (local_day z t - local_day z t mod 7 + 7) * nsDay - z \<le> t" by (simp only: midnight_le not_False_eq_True)
    then show ?thesis by (simp add: getWeekStart_days algebra_simps)
  qed
  obtain y yd where y: "year_yday (local_day z t) = (y, yd)" by fastforce
  note s = year_yday_spec [OF y]
  let ?m = "month_of (leap y) yd"
  note ms = month_start_le [OF s(2), of "leap y"]
  have first: "month_first (local_day z t) = year_start y + month_start (leap y) ?m"
    by (simp add: month_first_def civil_def y days_of_def Let_def)
  have yf: "year_yday (month_first (local_day z t)) = (y, month_start (leap y) ?m)"
    unfolding first using ms s(3) by (intro year_yday_unique) auto
  have mf: "month_of (leap y) (month_start (leap y) ?m) = ?m"
    by (rule month_of_const [OF s(2)]) (use ms in auto)
  have civ: "civil (month_first (local_day z t)) = (y, ?m, 1)" "civil (local_day z t) = (y, ?m, yd - month_start (leap y) ?m + 1)"
    using yf mf by (simp_all add: civil_def y Let_def)
  show ?thesis
    using w7 wk clock civ week.start_le month.start_le period.start_const
    by (auto simp: time_Weekday_def getWeekStart_days getMonthStart_days time_Day_def time_Month_def time_Year_def)
qed

text \<open>
  The scheduler's check in the process and the condition of the claiming UPDATE agree: a plan is
  due exactly when its period is weekly or monthly and its last reset is missing or before
  the start of the current period.\<close>

theorem due_is_claim_condition:
  assumes "qc_dbZone dp = qc_zone dp"
  shows "shouldResetByPeriod dp lastReset p now \<longleftrightarrow> (p = ''weekly'' \<or> p = ''monthly'') \<and>
     (case lastReset of None \<Rightarrow> True | Some l \<Rightarrow> l < getPeriodStart (qc_zone dp) p now)"
  by (rule shouldReset_iff_claim [OF assms])

theorem due_is_claim_condition_witness:
  "shouldResetByPeriod example_deps (Some 0) ''weekly'' (8 * nsDay + 5)"
  using due_is_claim_condition [of example_deps "Some 0" "''weekly''" "8 * nsDay + 5"]
  by (simp add: example_deps_def getPeriodStart_def getWeekStart_days local_day_def nsDay_def nsSecond_def)

section \<open>The claim of a period\<close>

text \<open>
  C12. A period of a plan is claimed at most once: after an instance has claimed it, a claim by any
  instance at any time of the same period affects no row, whatever statements run on the table in between that leave the time of
  the last reset alone or set it within the period or later (claims, updates, inserts and deletes; a request that carries an
  earlier time of the last reset is excluded, it opens the period again), and whether the database cuts or rounds times to seconds.\<close>

theorem period_claimed_at_most_once:
  assumes "seconds_column (qc_time dp)" and "nsSecond dvd z" and "p = ''weekly'' \<or> p = ''monthly''"
    and "i < next_id t" and "\<forall>st \<in> set ss. stmt_ok (getPeriodStart z p now) st"
    and "getPeriodStart z p now' = getPeriodStart z p now"
  shows "fst (TQuotaPlanClaimPeriodReset dp i (getPeriodStart z p now') now'
    (exec_plan_stmts dp ss (snd (TQuotaPlanClaimPeriodReset dp i (getPeriodStart z p now) now t)))) = 0"
proof -
  note sec = period_start_seconds [OF assms(2,3), of now]
  have "claimed i (getPeriodStart z p now) (snd (TQuotaPlanClaimPeriodReset dp i (getPeriodStart z p now) now t))"
    by (rule claim_claims [OF assms(1) sec period.start_le assms(4)])
  from claimed_refuses [OF claimed_stmts [OF assms(1) sec assms(5) this]] assms(6)
  show ?thesis by simp
qed

theorem period_claimed_at_most_once_witness:
  "fst (TQuotaPlanClaimPeriodReset example_deps 1 (getPeriodStart 0 ''weekly'' (8 * nsDay + 5)) (8 * nsDay + 5)
     (quota_plans (qdb example_quota_world))) = 1 \<and>
   fst (TQuotaPlanClaimPeriodReset example_deps 1 (getPeriodStart 0 ''weekly'' (9 * nsDay)) (9 * nsDay)
    (exec_plan_stmts example_deps [UpdateStmt None empty_TQuotaPlanParam]
      (snd (TQuotaPlanClaimPeriodReset example_deps 1 (getPeriodStart 0 ''weekly'' (8 * nsDay + 5)) (8 * nsDay + 5)
        (quota_plans (qdb example_quota_world)))))) = 0"
proof
  have w: "getPeriodStart 0 ''weekly'' (8 * nsDay + 5) = 7 * nsDay" "getPeriodStart 0 ''weekly'' (9 * nsDay) = 7 * nsDay"
    by (simp_all add: getPeriodStart_def getWeekStart_days local_day_def nsDay_def nsSecond_def)
  show "fst (TQuotaPlanClaimPeriodReset example_deps 1 (getPeriodStart 0 ''weekly'' (8 * nsDay + 5)) (8 * nsDay + 5)
     (quota_plans (qdb example_quota_world))) = 1"
    unfolding w by (simp add: TQuotaPlanClaimPeriodReset_def exec_update_def affected_rows_def example_quota_world_def
        example_plan_def example_deps_def nsDay_def nsSecond_def)
  show "fst (TQuotaPlanClaimPeriodReset example_deps 1 (getPeriodStart 0 ''weekly'' (9 * nsDay)) (9 * nsDay)
    (exec_plan_stmts example_deps [UpdateStmt None empty_TQuotaPlanParam]
      (snd (TQuotaPlanClaimPeriodReset example_deps 1 (getPeriodStart 0 ''weekly'' (8 * nsDay + 5)) (8 * nsDay + 5)
        (quota_plans (qdb example_quota_world)))))) = 0"
    by (rule period_claimed_at_most_once)
       (simp_all add: w example_deps_def example_quota_world_def empty_TQuotaPlanParam_def)
qed

text \<open>The effect of a round on every plan that is due, also on unlimited ones.\<close>

lemma reset_round:
  assumes "reset_ready dp" "faults w = []" "owners_listed dp (qdb w)"
    and "distinct (map qp_ID (rows (quota_plans (qdb w))))"
    and expired: "expired = filter (\<lambda>r. (qp_ResetPeriod r = ''weekly'' \<or> qp_ResetPeriod r = ''monthly'') \<and>
       (case qp_LastResetAt r of None \<Rightarrow> True
        | Some l \<Rightarrow> l < getPeriodStart (qc_zone dp) (qp_ResetPeriod r) (q_now w))) (rows (quota_plans (qdb w)))"
  shows "\<exists>w'. run_state (ResetExpiredBalances dp) w = (Inr (), w') \<and>
    rows (quota_plans (qdb w')) =
      map (\<lambda>r. if r \<in> set expired then r\<lparr>qp_LastResetAt := Some (qc_time dp (q_now w))\<rparr> else r)
        (rows (quota_plans (qdb w))) \<and>
    (\<forall>r \<in> set expired. \<forall>k \<in> set (projr (plan_owners dp (qdb w) (qp_ID r))).
       (\<forall>r' \<in> set expired. k \<in> set (projr (plan_owners dp (qdb w) (qp_ID r'))) \<longrightarrow> r' = r) \<longrightarrow>
       number w' (AIUsedQuotaKey k) = Some (qc_PtrToRedisValue dp (Some (qp_Quota r)) (Some (qp_Unit r)))) \<and>
    (\<forall>key. key \<notin> (\<Union>r \<in> set expired. AIUsedQuotaKey ` set (projr (plan_owners dp (qdb w) (qp_ID r)))) \<longrightarrow>
       q_redis w' key = q_redis w key)"
proof -
  let ?rs = "rows (quota_plans (qdb w))" and ?now = "q_now w"
  let ?w1 = "set_plans ((quota_plans (qdb w))\<lparr>rows := update_where (due dp ?now) (claim_row dp ?now) ?rs\<rparr>) w"
  let ?w' = "reset_redis dp (qdb w) (filter (due dp ?now) ?rs) ?w1"
  have z: "qc_dbZone dp = qc_zone dp" using assms(1) by (simp add: reset_ready_def)
  have e: "expired = filter (due dp ?now) ?rs"
    unfolding expired due_def shouldReset_iff_claim [OF z] by simp
  have tab: "rows (quota_plans (qdb ?w')) =
      map (\<lambda>r. if r \<in> set expired then r\<lparr>qp_LastResetAt := Some (qc_time dp ?now)\<rparr> else r) ?rs"
    unfolding e by (auto simp: update_where_def claim_row_def)
  have own: "number ?w' (AIUsedQuotaKey k) = Some (qc_PtrToRedisValue dp (Some (qp_Quota r)) (Some (qp_Unit r)))"
    if "r \<in> set expired" "k \<in> set (projr (plan_owners dp (qdb w) (qp_ID r)))"
      "\<forall>r' \<in> set expired. k \<in> set (projr (plan_owners dp (qdb w) (qp_ID r'))) \<longrightarrow> r' = r" for r k
  proof -
    have "full_value dp r' = full_value dp r"
      if "r' \<in> set expired" "k \<in> set (projr (plan_owners dp (qdb w) (qp_ID r')))" for r'
    proof -
      have "r' = r" using that \<open>\<forall>r' \<in> set expired. _ r'\<close> by blast
      then show ?thesis by simp
    qed
    from q_redis_reset_redis(2) [of r expired k dp "qdb w", OF that(1,2) this]
    have "q_redis ?w' (AIUsedQuotaKey k) = Some (full_value dp r, None)" unfolding e .
    then show ?thesis by (simp add: number_def rget_def live_def full_value_def)
  qed
  have rest: "q_redis ?w' key = q_redis w key"
    if "key \<notin> (\<Union>r \<in> set expired. AIUsedQuotaKey ` set (projr (plan_owners dp (qdb w) (qp_ID r))))" for key
    using q_redis_reset_redis(1) [where rs = expired and dp = dp and d = "qdb w" and w = ?w1 and key = key] that unfolding e by simp
  show ?thesis
  proof (rule exI [of _ ?w'], intro conjI)
    show "run_state (ResetExpiredBalances dp) w = (Inr (), ?w')"
      by (rule run_ResetExpiredBalances [OF assms(1-4)])
  qed (use tab own rest in blast)+
qed

text \<open>
  C13. A round of the periodic reset without faults, when the plans that are due are limited ones: it stamps exactly the plans
  whose period is weekly or monthly and whose last reset is missing or before the current period, gives every owner of such
  a plan, and of no other one that is due, the full quota of that plan, and leaves every other plan and every other Redis key alone.\<close>

theorem reset_round_effect:
  assumes "reset_ready dp" "faults w = []" "owners_listed dp (qdb w)"
    and "distinct (map qp_ID (rows (quota_plans (qdb w))))"
    and expired: "expired = filter (\<lambda>r. (qp_ResetPeriod r = ''weekly'' \<or> qp_ResetPeriod r = ''monthly'') \<and>
       (case qp_LastResetAt r of None \<Rightarrow> True
        | Some l \<Rightarrow> l < getPeriodStart (qc_zone dp) (qp_ResetPeriod r) (q_now w))) (rows (quota_plans (qdb w)))"
    and "\<forall>r \<in> set expired. \<not> qp_Unlimited r"
  shows "\<exists>w'. run_state (ResetExpiredBalances dp) w = (Inr (), w') \<and>
    rows (quota_plans (qdb w')) =
      map (\<lambda>r. if r \<in> set expired then r\<lparr>qp_LastResetAt := Some (qc_time dp (q_now w))\<rparr> else r)
        (rows (quota_plans (qdb w))) \<and>
    (\<forall>r \<in> set expired. \<forall>k \<in> set (projr (plan_owners dp (qdb w) (qp_ID r))).
       (\<forall>r' \<in> set expired. k \<in> set (projr (plan_owners dp (qdb w) (qp_ID r'))) \<longrightarrow> r' = r) \<longrightarrow>
       number w' (AIUsedQuotaKey k) = Some (qc_PtrToRedisValue dp (Some (qp_Quota r)) (Some (qp_Unit r)))) \<and>
    (\<forall>key. key \<notin> (\<Union>r \<in> set expired. AIUsedQuotaKey ` set (projr (plan_owners dp (qdb w) (qp_ID r)))) \<longrightarrow>
       q_redis w' key = q_redis w key)"
  by (rule reset_round [OF assms(1-5)])

lemma example_ready: "reset_ready example_deps"
  by (simp add: reset_ready_def example_deps_def)

lemma all_ok_Inr:
  assumes "\<And>x. \<exists>y. f x = Inr y"
  shows "\<exists>ys. all_ok f xs = Inr ys"
proof (induction xs)
  case (Cons x xs)
  obtain y where "f x = Inr y" using assms by blast
  with Cons show ?case by auto
qed simp

lemma example_owners: "owners_listed example_deps d"
proof -
  have "\<exists>ys. all_ok (apiKeyParamToData example_deps) xs = Inr ys" for xs
    by (rule all_ok_Inr) (simp add: apiKeyParamToData_def example_deps_def)
  then show ?thesis unfolding owners_listed_def plan_owners_def by (metis sum.case(2))
qed

theorem reset_round_effect_witness:
  "\<exists>w'. run_state (ResetExpiredBalances example_deps) example_quota_world = (Inr (), w') \<and>
     rows (quota_plans (qdb w')) = [example_plan\<lparr>qp_LastResetAt := Some (8 * nsDay + 5)\<rparr>] \<and>
     number w' (AIUsedQuotaKey ''k1'') = Some 100"
proof -
  have w: "getPeriodStart 0 ''weekly'' (8 * nsDay + 5) = 7 * nsDay"
    by (simp add: getPeriodStart_def getWeekStart_days local_day_def nsDay_def nsSecond_def)
  have e: "[example_plan] = filter (\<lambda>r. (qp_ResetPeriod r = ''weekly'' \<or> qp_ResetPeriod r = ''monthly'') \<and>
       (case qp_LastResetAt r of None \<Rightarrow> True
        | Some l \<Rightarrow> l < getPeriodStart (qc_zone example_deps) (qp_ResetPeriod r) (q_now example_quota_world)))
      (rows (quota_plans (qdb example_quota_world)))"
    by (simp add: example_plan_def example_quota_world_def example_deps_def w)
  have d: "distinct (map qp_ID (rows (quota_plans (qdb example_quota_world))))"
    by (simp add: example_quota_world_def)
  have lim: "\<forall>r \<in> set [example_plan]. \<not> qp_Unlimited r" by (simp add: example_plan_def)
  from reset_round_effect [OF example_ready example_reads(1) example_owners d e lim]
  obtain w' where "run_state (ResetExpiredBalances example_deps) example_quota_world = (Inr (), w')"
    "rows (quota_plans (qdb w')) = map (\<lambda>r. if r \<in> set [example_plan]
       then r\<lparr>qp_LastResetAt := Some (qc_time example_deps (q_now example_quota_world))\<rparr> else r)
        (rows (quota_plans (qdb example_quota_world)))"
    "number w' (AIUsedQuotaKey ''k1'') =
      Some (qc_PtrToRedisValue example_deps (Some (qp_Quota example_plan)) (Some (qp_Unit example_plan)))"
    using example_reads(3) by (auto simp: example_plan_def)
  then show ?thesis
    by (simp add: example_quota_world_def example_deps_def) (simp add: example_plan_def)
qed

text \<open>
  A plan that is created with a weekly or monthly period is not due in the period of its creation.\<close>

theorem new_plan_is_not_due:
  assumes "reset_ready dp" and "faults w = []" and "pl_LastResetAt param = None"
    and "pl_ResetPeriod param = Some ''weekly'' \<or> pl_ResetPeriod param = Some ''monthly''"
    and "getPeriodStart (qc_zone dp) (the (pl_ResetPeriod param)) now =
         getPeriodStart (qc_zone dp) (the (pl_ResetPeriod param)) (q_now w)"
  shows "\<exists>w' r. run_state (storage_CreateQuotaPlan dp param) w = (Inr (next_id (quota_plans (qdb w))), w') \<and>
    rows (quota_plans (qdb w')) = rows (quota_plans (qdb w)) @ [r] \<and>
    qp_ID r = next_id (quota_plans (qdb w)) \<and> Some (qp_ResetPeriod r) = pl_ResetPeriod param \<and>
    \<not> shouldResetByPeriod dp (qp_LastResetAt r) (qp_ResetPeriod r) now"
proof -
  obtain p where p: "pl_ResetPeriod param = Some p" "p = ''weekly'' \<or> p = ''monthly''" using assms(4) by auto
  have z: "qc_dbZone dp = qc_zone dp" "nsSecond dvd qc_zone dp" "seconds_column (qc_time dp)"
    using assms(1) by (simp_all add: reset_ready_def)
  have "getPeriodStart (qc_zone dp) p (q_now w) \<le> qc_time dp (q_now w)"
    by (rule seconds_column_ge [OF z(3) period_start_seconds [OF z(2) p(2)] period.start_le])
  then have "\<not> shouldResetByPeriod dp (Some (qc_time dp (q_now w))) p now"
    using assms(5) p(1) by (simp add: shouldReset_iff_claim [OF z(1)])
  then show ?thesis
    using assms(2,3) p
    by (auto simp: storage_CreateQuotaPlan_def initLastResetAtAtCreate_def quotaPlanDataToParam_def
        empty_TQuotaPlanParam_def TQuotaPlanCreate_def Let_def assign_plan_def opt_set_def plan_defaults_def)
qed

theorem new_plan_is_not_due_witness:
  "\<exists>w' r. run_state (storage_CreateQuotaPlan example_deps (empty_QuotaPlanParam\<lparr>pl_ResetPeriod := Some ''monthly''\<rparr>))
     example_quota_world = (Inr 2, w') \<and> rows (quota_plans (qdb w')) = [example_plan, r] \<and>
     \<not> shouldResetByPeriod example_deps (qp_LastResetAt r) (qp_ResetPeriod r) (q_now example_quota_world)"
  using new_plan_is_not_due [of example_deps example_quota_world
      "empty_QuotaPlanParam\<lparr>pl_ResetPeriod := Some ''monthly''\<rparr>" "q_now example_quota_world"] example_ready
  by (simp add: empty_QuotaPlanParam_def) (auto simp: example_quota_world_def)

lemma example_failed_commit:
  "run_state (ResetExpiredBalances example_deps)
     (example_quota_world\<lparr>faults := replicate 7 NoFault @ [FaultBefore]\<rparr>) =
   (Inl ErrInfra, rset (AIUsedQuotaKey ''k1'') (FormatInt 100) None example_quota_world)"
proof -
  have w: "getWeekStart 0 (8 * nsDay + 5) = 7 * nsDay" "getWeekStart 0 0 = 0" "8 * nsDay + 5 \<noteq> 0"
    by (simp_all add: getWeekStart_days local_day_def nsDay_def nsSecond_def)
  show ?thesis
    by (simp add: eval_nat_numeral ResetExpiredBalances_def quota_AtomExecute_def RDBTxnExecute_def
        storage_FetchQuotaPlanList_def TQuotaPlanList_def where_plan_def quotaPlanFilterToParam_def
        expired_filter_def empty_TQuotaPlanParam_def reset_plan_def quotaPlanParamToData_def
        shouldResetByPeriod_def getPeriodStart_def w example_plan_def example_deps_def example_quota_world_def
        ClaimQuotaPlanReset_def TQuotaPlanClaimPeriodReset_def exec_update_def affected_rows_def
        update_where_def set_plans_def resetAPIKeysRedisUsage_def storage_FetchQuotaPlan_def
        TQuotaPlanOne_def FetchAPIKeyList_def fetchEntitiesByPlan_def FetchEntityList_def
        apiKeyParamToData_def reset_api_key_def ResetToQuotaAtomic_def run_setQuotaScript_def
        plan_by_id_def rset_def)
qed

text \<open>
  The claim of a period is undone when the commit of the round fails, the balances in Redis stay reset: the next
  round of the same period resets them again and what was consumed in between is given back.\<close>

theorem failed_commit_resets_twice:
  "\<exists>w1 w2. run_state (ResetExpiredBalances example_deps)
       (example_quota_world\<lparr>faults := replicate 7 NoFault @ [FaultBefore]\<rparr>) = (Inl ErrInfra, w1) \<and>
     qdb w1 = qdb example_quota_world \<and> number w1 (AIUsedQuotaKey ''k1'') = Some 100 \<and>
     number (consume (AIUsedQuotaKey ''k1'') [-60] w1) (AIUsedQuotaKey ''k1'') = Some 40 \<and>
     run_state (ResetExpiredBalances example_deps) (consume (AIUsedQuotaKey ''k1'') [-60] w1) = (Inr (), w2) \<and>
     number w2 (AIUsedQuotaKey ''k1'') = Some 100"
proof -
  let ?k = "AIUsedQuotaKey ''k1''"
  let ?w1 = "rset ?k (FormatInt 100) None example_quota_world"
  let ?w2 = "rset ?k (FormatInt 40) None ?w1"
  have w: "getWeekStart 0 (8 * nsDay + 5) = 7 * nsDay" "getWeekStart 0 0 = 0"
    by (simp_all add: getWeekStart_days local_day_def nsDay_def nsSecond_def)
  have n: "number ?w1 ?k = Some 100" by (simp add: live_def)
  have c: "consume ?k [-60] ?w1 = ?w2"
    using incr_by_number [OF n, of "-60"] by (simp add: fits64_def kept_expiry_def rset_def live_def)
  have second: "run_state (ResetExpiredBalances example_deps) ?w2 = (Inr (), reset_redis example_deps (qdb ?w2)
      (filter (due example_deps (q_now ?w2)) (rows (quota_plans (qdb ?w2))))
       (set_plans ((quota_plans (qdb ?w2))\<lparr>rows := update_where (due example_deps (q_now ?w2))
          (claim_row example_deps (q_now ?w2)) (rows (quota_plans (qdb ?w2)))\<rparr>) ?w2))"
    by (rule run_ResetExpiredBalances [OF example_ready _ example_owners])
       (simp_all add: example_quota_world_def)
  have due: "filter (due example_deps (q_now ?w2)) (rows (quota_plans (qdb ?w2))) = [example_plan]"
    by (simp add: example_quota_world_def due_def shouldResetByPeriod_def getPeriodStart_def example_plan_def
        example_deps_def w)
  have pid: "qp_ID example_plan = 1" by (simp add: example_plan_def)
  have full: "full_value example_deps example_plan = FormatInt 100"
    by (simp add: full_value_def example_deps_def example_plan_def)
  have last: "number (reset_redis example_deps (qdb ?w2) [example_plan] (set_plans t ?w2)) ?k = Some 100" for t
    by (simp add: reset_redis_def pid number_def rget_def q_redis_set_all live_def full)
  let ?t = "(quota_plans (qdb ?w2))\<lparr>rows := update_where (due example_deps (q_now ?w2))
          (claim_row example_deps (q_now ?w2)) (rows (quota_plans (qdb ?w2)))\<rparr>"
  have "number ?w2 ?k = Some 40" by (simp add: live_def)
  moreover have "run_state (ResetExpiredBalances example_deps) ?w2 =
      (Inr (), reset_redis example_deps (qdb ?w2) [example_plan] (set_plans ?t ?w2))"
    using second unfolding due .
  moreover have "qdb ?w1 = qdb example_quota_world" by simp
  ultimately have "run_state (ResetExpiredBalances example_deps)
       (example_quota_world\<lparr>faults := replicate 7 NoFault @ [FaultBefore]\<rparr>) = (Inl ErrInfra, ?w1) \<and>
     qdb ?w1 = qdb example_quota_world \<and> number ?w1 ?k = Some 100 \<and>
     number (consume ?k [-60] ?w1) ?k = Some 40 \<and>
     run_state (ResetExpiredBalances example_deps) (consume ?k [-60] ?w1) =
       (Inr (), reset_redis example_deps (qdb ?w2) [example_plan] (set_plans ?t ?w2)) \<and>
     number (reset_redis example_deps (qdb ?w2) [example_plan] (set_plans ?t ?w2)) ?k = Some 100"
    unfolding c using example_failed_commit n last [of ?t] by (intro conjI)
  then show ?thesis by (intro exI)
qed

section \<open>Manual resets\<close>

text \<open>
  A manual reset of a limited plan without faults stores a new quota when one is given, moves the
  time of the last reset only when asked to, sets the balance of every owner of the plan to the new quota (or the stored one)
  and touches no other row and no other key.\<close>

theorem ResetBalance_effect:
  assumes "faults w = []" and "qc_quotaCache dp" and "qc_redisClient dp"
    and "TQuotaPlanOne (quotaPlanFilterToParam (Some (plan_by_id planID))) (quota_plans (qdb w)) = Some r"
    and "\<not> qp_Unlimited r" and "plan_owners dp (qdb w) planID = Inr ks"
    and "amount = opt_set newQuota (qp_Quota r)"
    and "target = qc_PtrToRedisValue dp (Some amount) (Some (qp_Unit r))"
    and "\<forall>k \<in> set ks. \<exists>c. number w (AIUsedQuotaKey k) = Some c \<and> fits64 (sint target - sint c)"
  shows "\<exists>w'. run_state (ResetBalance dp planID newQuota upd owner) w = (Inr (), w') \<and>
    rows (quota_plans (qdb w')) = map (\<lambda>p. if qp_ID p = planID then reset_row dp newQuota upd (q_now w) p else p)
      (rows (quota_plans (qdb w))) \<and>
    (\<forall>k \<in> set ks. number w' (AIUsedQuotaKey k) = Some target) \<and>
    (\<forall>key. key \<notin> AIUsedQuotaKey ` set ks \<longrightarrow> q_redis w' key = q_redis w key)"
proof -
  have "\<exists>w'. run_state (ResetBalance dp planID newQuota upd owner) w = (Inr (), w') \<and>
    qdb w' = (qdb w)\<lparr>quota_plans := reset_plans dp planID newQuota upd (q_now w) (quota_plans (qdb w))\<rparr> \<and>
    (\<forall>k \<in> set ks. rget w' (AIUsedQuotaKey k) = Some (FormatInt target)) \<and>
    (\<forall>key. key \<notin> AIUsedQuotaKey ` set ks \<longrightarrow> q_redis w' key = q_redis w key)"
    unfolding assms(8) by (rule ResetBalance_run) (use assms in auto)
  then obtain w' where w': "run_state (ResetBalance dp planID newQuota upd owner) w = (Inr (), w')"
    "qdb w' = (qdb w)\<lparr>quota_plans := reset_plans dp planID newQuota upd (q_now w) (quota_plans (qdb w))\<rparr>"
    "\<forall>k \<in> set ks. rget w' (AIUsedQuotaKey k) = Some (FormatInt target)"
    "\<forall>key. key \<notin> AIUsedQuotaKey ` set ks \<longrightarrow> q_redis w' key = q_redis w key" by blast
  then show ?thesis
    by (intro exI [of _ w']) (simp add: reset_plans_def update_where_def number_def)
qed

theorem ResetBalance_effect_witness:
  "\<exists>w'. run_state (ResetBalance example_deps 1 (Some 500) False ''ak1'') example_quota_world = (Inr (), w') \<and>
    map qp_Quota (rows (quota_plans (qdb w'))) = [500] \<and>
    map qp_LastResetAt (rows (quota_plans (qdb w'))) = [Some 0] \<and>
    number w' (AIUsedQuotaKey ''k1'') = Some 500"
proof -
  have "\<exists>w'. run_state (ResetBalance example_deps 1 (Some 500) False ''ak1'') example_quota_world = (Inr (), w') \<and>
    rows (quota_plans (qdb w')) = map (\<lambda>p. if qp_ID p = 1
      then reset_row example_deps (Some 500) False (q_now example_quota_world) p else p)
      (rows (quota_plans (qdb example_quota_world))) \<and>
    (\<forall>k \<in> set [''k1'']. number w' (AIUsedQuotaKey k) = Some 500) \<and>
    (\<forall>key. key \<notin> AIUsedQuotaKey ` set [''k1''] \<longrightarrow> q_redis w' key = q_redis example_quota_world key)"
    by (rule ResetBalance_effect [where r = example_plan and amount = 500])
       (simp_all add: example_number opt_set_def fits64_def example_plan_def, simp_all add: example_deps_def)
  then show ?thesis
    by (auto simp: example_quota_world_def example_plan_def reset_row_def Let_def example_deps_def)
qed

text \<open>
  A reset of an unknown or an unlimited plan is refused: the error is returned and logged, no table and no
  balance changes.\<close>

theorem ResetBalance_refused:
  assumes "faults w = []"
    and "case TQuotaPlanOne (quotaPlanFilterToParam (Some (plan_by_id planID))) (quota_plans (qdb w)) of
       None \<Rightarrow> err = ErrMsg ''quota_plan not found''
     | Some r \<Rightarrow> qp_Unlimited r \<and> err = ErrParam ''cannot reset balance for unlimited quota''"
  shows "\<exists>w'. run_state (ResetBalance dp planID newQuota upd owner) w = (Inl err, w') \<and>
     qdb w' = qdb w \<and> q_redis w' = q_redis w \<and>
     (qc_operationLog dp \<longrightarrow> q_log w' \<noteq> [] \<and> oe_Error (last (q_log w')) = Some err)"
  by (rule ResetBalance_refused_run [OF assms])

theorem ResetBalance_refused_witness:
  "\<exists>w'. run_state (ResetBalance example_deps 7 None True []) example_quota_world =
       (Inl (ErrMsg ''quota_plan not found''), w') \<and> q_redis w' = q_redis example_quota_world"
  using ResetBalance_refused [where w = example_quota_world and planID = 7 and
      err = "ErrMsg ''quota_plan not found''" and dp = example_deps and newQuota = None and upd = True and owner = "[]"]
  by (auto simp: TQuotaPlanOne_def example_quota_world_def example_plan_def)

section \<open>Changed plans\<close>

text \<open>What an owner can still use, as \<^verbatim>\<open>GetRemaining\<close> reports it.\<close>

definition remaining :: "quota_deps \<Rightarrow> string option \<Rightarrow> quota_world \<Rightarrow> string \<Rightarrow> rat" where
  "remaining dp unit w k =
     (case rget w (AIUsedQuotaKey k) of None \<Rightarrow> 0
      | Some s \<Rightarrow> (case redis_int s of None \<Rightarrow> 0 | Some v \<Rightarrow> qc_PtrFromRedisValue dp v unit))"

text \<open>The abstract operation: the owners of the plan keep the units they have used.\<close>

definition carry_over :: "rat \<Rightarrow> rat \<Rightarrow> string set \<Rightarrow> (string \<Rightarrow> rat) \<Rightarrow> string \<Rightarrow> rat" where
  "carry_over old new K balance k =
     (if k \<in> K then max 0 (new - max 0 (old - balance k)) else balance k)"

lemma target_remaining_max: "target_remaining old new b = max 0 (new - max 0 (old - b))"
  by (simp add: target_remaining_def Let_def max_def)

text \<open>
  C14. A change of the amount of a limited plan, over rational amounts and when no call fails, refines the abstract operation on
  balances: every owner of the plan, whose Redis number is there, has left what the new quota leaves after the units it
  has used, never less than nothing, and nobody else's balance moves. The conversion between amounts and
  Redis numbers is assumed to be exact on the new balances and to read a missing balance as zero; the rounding of
  floating-point amounts, and a Redis error, after which the code reports success without carrying over, are not covered.\<close>

theorem quota_change_refines_carry_over:
  assumes "faults w = []" and "qc_quotaCache dp" and "qc_redisClient dp"
    and "TQuotaPlanOne (quotaPlanFilterToParam (Some (plan_by_id planID))) (quota_plans (qdb w)) = Some r"
    and "plan_owners dp (qdb w) planID = Inr ks"
    and "sq_Unlimited p \<noteq> Some True" and "sq_Unlimited n \<noteq> Some True"
    and "sq_Unit n = None \<or> sq_Unit n = Some (opt_set (sq_Unit p) [])"
    and "sq_Quota p = Some old" and "sq_Quota n = Some new" and "old \<noteq> new"
    and unit: "unit = Some (qp_Unit r)"
    and target: "target = carry_over old new (set ks) (remaining dp unit w)"
    and absent: "qc_PtrFromRedisValue dp (qc_absentInBatch dp) unit = 0"
    and exact: "\<forall>k \<in> set ks. qc_PtrFromRedisValue dp (qc_PtrToRedisValue dp (Some (target k)) unit) unit = target k"
    and nums: "\<forall>k \<in> set ks. \<exists>c. number w (AIUsedQuotaKey k) = Some c \<and>
           fits64 (sint (qc_PtrToRedisValue dp (Some (target k)) unit) - sint c)"
  shows "\<exists>w'. run_state (ApplyQuotaPlanChange dp planID (Some p) (Some n)) w = (Inr (), w') \<and> qdb w' = qdb w \<and>
    remaining dp unit w' = carry_over old new (set ks) (remaining dp unit w)"
proof -
  have changed: "quotaPlanChanged (Some p) (Some n)"
    using assms(9-11) by (simp add: quotaPlanChanged_def ptrEqual_def)
  have t: "target k = target_remaining old new (qc_PtrFromRedisValue dp (batch_number dp w k) unit)" if "k \<in> set ks" for k
  proof -
    obtain c where "number w (AIUsedQuotaKey k) = Some c" using nums \<open>k \<in> set ks\<close> by blast
    then have "remaining dp unit w k = qc_PtrFromRedisValue dp (batch_number dp w k) unit"
      using absent by (auto simp: remaining_def batch_number_def number_def split: option.splits)
    then show ?thesis using \<open>k \<in> set ks\<close> by (simp add: target carry_over_def target_remaining_max)
  qed
  let ?T = "\<lambda>k. target_remaining (opt_set (sq_Quota p) 0) (opt_set (sq_Quota n) (qp_Quota r))
        (qc_PtrFromRedisValue dp (batch_number dp w k) (Some (qp_Unit r)))"
  have tT: "?T k = target k" if "k \<in> set ks" for k
    using t [OF that] assms(9,10) by (simp add: opt_set_def unit)
  have "\<exists>w'. run_state (adjustQuota dp planID (Some p) n) w = (Inr (), w') \<and> quota_keys_only (set ks) w w' \<and>
    (\<forall>k \<in> set ks. rget w' (AIUsedQuotaKey k) = Some (FormatInt (qc_PtrToRedisValue dp (Some (?T k)) (Some (qp_Unit r)))))"
    by (rule adjustQuota_keeps_usage_run [OF assms(1-8) refl]) (use tT nums in \<open>auto simp: unit\<close>)
  then obtain w' where w': "run_state (adjustQuota dp planID (Some p) n) w = (Inr (), w')"
    "quota_keys_only (set ks) w w'"
    "\<forall>k \<in> set ks. rget w' (AIUsedQuotaKey k) = Some (FormatInt (qc_PtrToRedisValue dp (Some (?T k)) (Some (qp_Unit r))))"
    by blast
  have "remaining dp unit w' k = target k" for k
  proof (cases "k \<in> set ks")
    case True
    then show ?thesis using w'(3) exact tT [OF True] by (simp add: remaining_def unit)
  next
    case False
    then have "q_redis w' (AIUsedQuotaKey k) = q_redis w (AIUsedQuotaKey k)"
      by (intro quota_keys_onlyD(6) [OF w'(2)]) auto
    then have "rget w' (AIUsedQuotaKey k) = rget w (AIUsedQuotaKey k)"
      by (rule rget_same) (rule quota_keys_onlyD(3) [OF w'(2)])
    with False show ?thesis by (simp add: remaining_def target carry_over_def)
  qed
  then show ?thesis
    using w'(1) changed quota_keys_onlyD(2) [OF w'(2)]
    by (intro exI [of _ w']) (simp add: ApplyQuotaPlanChange_def fun_eq_iff flip: target)
qed

definition example_change :: "rat option \<Rightarrow> SharedQuotaPlanParam" where
  "example_change q = \<lparr>sq_Unlimited = Some False, sq_PassWhenNoEnoughQuota = None, sq_Quota = q,
     sq_Unit = Some ''total_token'', sq_ResetPeriod = None, sq_LastResetAt = None\<rparr>"

theorem quota_change_refines_carry_over_witness:
  "\<exists>w'. run_state (ApplyQuotaPlanChange example_deps 1 (Some (example_change (Some 100)))
         (Some (example_change (Some 50)))) example_quota_world = (Inr (), w') \<and>
    remaining example_deps (Some ''total_token'') w' ''k1'' = 20"
proof -
  let ?u = "Some ''total_token''"
  have b: "remaining example_deps ?u example_quota_world ''k1'' = 70"
    by (simp add: remaining_def example_rget redis_int_def parse_70 example_deps_def)
  have "\<exists>w'. run_state (ApplyQuotaPlanChange example_deps 1 (Some (example_change (Some 100)))
         (Some (example_change (Some 50)))) example_quota_world = (Inr (), w') \<and> qdb w' = qdb example_quota_world \<and>
    remaining example_deps ?u w' = carry_over 100 50 (set [''k1'']) (remaining example_deps ?u example_quota_world)"
    by (rule quota_change_refines_carry_over [where r = example_plan and ks = "[''k1'']"
          and target = "carry_over 100 50 (set [''k1'']) (remaining example_deps ?u example_quota_world)"])
       (simp_all add: example_change_def opt_set_def example_number b carry_over_def fits64_def example_plan_def,
        simp_all add: example_deps_def)
  then show ?thesis using b by (auto simp: carry_over_def)
qed

text \<open>
  When a plan becomes unlimited, stops being unlimited, changes its unit or is new, every owner
  starts again: its balance is the new quota, or a hundred million units of an unlimited plan, and
  no other key changes.\<close>

theorem plan_switch_resets_balances:
  assumes "faults w = []" and "qc_quotaCache dp" and "qc_redisClient dp"
    and "TQuotaPlanOne (quotaPlanFilterToParam (Some (plan_by_id planID))) (quota_plans (qdb w)) = Some r"
    and "plan_owners dp (qdb w) planID = Inr ks"
    and "wasUnlimited = (\<exists>p. oldPlan = Some p \<and> sq_Unlimited p = Some True)"
    and "nowUnlimited = opt_set (sq_Unlimited n) wasUnlimited"
    and "nowUnlimited \<or> wasUnlimited \<or> oldPlan = None \<or>
         (\<exists>p u. oldPlan = Some p \<and> sq_Unit n = Some u \<and> u \<noteq> opt_set (sq_Unit p) [])"
    and "quotaPlanChanged oldPlan (Some n)"
    and "amount = (if nowUnlimited then 100000000 else opt_set (sq_Quota n) (qp_Quota r))"
    and "target = qc_PtrToRedisValue dp (Some amount) (Some (qp_Unit r))"
    and "\<forall>k \<in> set ks. \<exists>c. number w (AIUsedQuotaKey k) = Some c \<and> fits64 (sint target - sint c)"
  shows "\<exists>w'. run_state (ApplyQuotaPlanChange dp planID oldPlan (Some n)) w = (Inr (), w') \<and> qdb w' = qdb w \<and>
    (\<forall>k \<in> set ks. number w' (AIUsedQuotaKey k) = Some target) \<and>
    (\<forall>key. key \<notin> AIUsedQuotaKey ` set ks \<longrightarrow> q_redis w' key = q_redis w key)"
proof -
  have aj: "adjust_plan oldPlan n (quotaPlanParamToData r) =
    \<lparr>aj_newQuota = Some amount, aj_oldQuota = (case oldPlan of None \<Rightarrow> None | Some p \<Rightarrow> sq_Quota p),
     aj_planUnit = Some (qp_Unit r), aj_useReset = True\<rparr>"
    using assms(6-8,10)
    by (cases oldPlan; cases "sq_Unlimited n"; cases "sq_Quota n")
       (auto simp: adjust_plan_def Let_def quotaPlanParamToData_def opt_set_def split: if_splits)
  have "\<exists>w'. run_state (adjustQuota dp planID oldPlan n) w = (Inr (), w') \<and> quota_keys_only (set ks) w w' \<and>
    (\<forall>k \<in> set ks. rget w' (AIUsedQuotaKey k) = Some (FormatInt target))"
    using adjustQuota_reset_run [OF assms(1-5) aj, of amount] assms(11,12) by simp
  then obtain w' where "run_state (adjustQuota dp planID oldPlan n) w = (Inr (), w')"
    "quota_keys_only (set ks) w w'" "\<forall>k \<in> set ks. rget w' (AIUsedQuotaKey k) = Some (FormatInt target)" by blast
  then show ?thesis
    using assms(9) quota_keys_onlyD(2,6) [of "set ks" w w']
    by (intro exI [of _ w']) (simp add: ApplyQuotaPlanChange_def number_def)
qed

theorem plan_switch_resets_balances_witness:
  "\<exists>w'. run_state (ApplyQuotaPlanChange example_deps 1 (Some (example_change (Some 100)))
         (Some ((example_change None)\<lparr>sq_Unlimited := Some True\<rparr>))) example_quota_world = (Inr (), w') \<and>
    number w' (AIUsedQuotaKey ''k1'') = Some 100000000"
proof -
  have "\<exists>w'. run_state (ApplyQuotaPlanChange example_deps 1 (Some (example_change (Some 100)))
         (Some ((example_change None)\<lparr>sq_Unlimited := Some True\<rparr>))) example_quota_world = (Inr (), w') \<and>
    qdb w' = qdb example_quota_world \<and>
    (\<forall>k \<in> set [''k1'']. number w' (AIUsedQuotaKey k) = Some 100000000) \<and>
    (\<forall>key. key \<notin> AIUsedQuotaKey ` set [''k1''] \<longrightarrow> q_redis w' key = q_redis example_quota_world key)"
    by (rule plan_switch_resets_balances [where r = example_plan and wasUnlimited = False and nowUnlimited = True
          and amount = 100000000])
       (simp_all add: example_change_def opt_set_def example_number quotaPlanChanged_def ptrBoolEqual_def fits64_def
         example_plan_def, simp_all add: example_deps_def)
  then show ?thesis by auto
qed

text \<open>
  A change that carries no new quota, unit or limit leaves the world as it is, whatever calls would fail.\<close>

theorem unrelated_change_is_ignored:
  assumes "sq_Unlimited n = None \<or> (sq_Unlimited n = Some True) = (sq_Unlimited p = Some True)"
    and "sq_Quota n = None \<or> sq_Quota n = sq_Quota p"
    and "sq_Unit n = None \<or> sq_Unit n = sq_Unit p"
  shows "run_state (ApplyQuotaPlanChange dp planID (Some p) (Some n)) w = (Inr (), w)"
  using assms by (auto simp: ApplyQuotaPlanChange_def quotaPlanChanged_def ptrBoolEqual_def ptrEqual_def)

theorem unrelated_change_is_ignored_witness:
  "run_state (ApplyQuotaPlanChange example_deps 1 (Some (example_change (Some 100)))
     (Some ((example_change None)\<lparr>sq_ResetPeriod := Some ''monthly''\<rparr>))) example_quota_world = (Inr (), example_quota_world)"
  by (rule unrelated_change_is_ignored) (simp_all add: example_change_def)

section \<open>Balances under concurrent use\<close>

text \<open>
  Setting a balance keeps what requests consume between its two Redis commands: with the
  number read as c, the difference added after any sequence of consumptions leaves the target plus
  the (negative) sum of the consumptions, and without any it leaves the target.\<close>

theorem SetRemaining_keeps_consumption:
  assumes "faults w = []" and "qc_redisClient dp" and "number w (AIUsedQuotaKey k) = Some c"
    and "target = qc_PtrToRedisValue dp (Some q) unit"
    and "in_range (sint c) ds" and "in_range (sint target) ds" and "fits64 (sint target - sint c)"
  shows "run_state (SetRemaining dp k (Some q) unit) w =
      (Inr (), rset (AIUsedQuotaKey k) (FormatInt target) (kept_expiry w (AIUsedQuotaKey k)) w) \<and>
    (\<exists>v. number (snd (incr_by (AIUsedQuotaKey k) (target - c) (consume (AIUsedQuotaKey k) ds w))) (AIUsedQuotaKey k) = Some v \<and>
       sint v = sint target + sum_list (map sint ds))"
proof
  let ?k = "AIUsedQuotaKey k"
  show "run_state (SetRemaining dp k (Some q) unit) w = (Inr (), rset ?k (FormatInt target) (kept_expiry w ?k) w)"
    by (rule SetRemaining_run(1) [OF assms(1-4,7)])
  obtain v where v: "number (consume ?k ds w) ?k = Some v" "sint v = sint c + sum_list (map sint ds)"
    using consume_number [OF assms(3,5)] by blast
  have "fits64 (sint target + sum_list (map sint ds))"
    by (rule in_range_sum [OF assms(6)])
  then have f: "fits64 (sint v + sint (target - c))"
    by (simp add: v(2) sint_minus_64 [OF assms(7)] algebra_simps)
  have "sint (v + (target - c)) = sint target + sum_list (map sint ds)"
    unfolding sint_plus_64 [OF f] by (simp add: v(2) sint_minus_64 [OF assms(7)])
  then show "\<exists>v. number (snd (incr_by ?k (target - c) (consume ?k ds w))) ?k = Some v \<and>
       sint v = sint target + sum_list (map sint ds)"
    using incr_by_number [OF v(1) f] by simp
qed

theorem SetRemaining_keeps_consumption_witness:
  "\<exists>v. number (snd (incr_by (AIUsedQuotaKey ''k1'') (500 - 70)
      (consume (AIUsedQuotaKey ''k1'') [-10, -5] example_quota_world))) (AIUsedQuotaKey ''k1'') = Some v \<and> sint v = 485"
  using SetRemaining_keeps_consumption [OF example_reads(1) _ example_number, of example_deps 500 500 None "[-10, -5]"]
  by (simp add: example_deps_def fits64_def)

section \<open>The lock\<close>

text \<open>
  C15. The lock of the scheduler is exclusive: in every interleaving of acquire, renew and release calls of any instances,
  with any faults, two tokens whose leases both run are the same token, and while a lease runs nobody
  acquires the lock.\<close>

theorem lock_is_exclusive:
  assumes "(lock_step dp k ttl)\<^sup>*\<^sup>* (w0, Map.empty) (w, L)"
    and "L a = Some e" and "q_now w < e"
  shows "(\<forall>b e'. L b = Some e' \<and> q_now w < e' \<longrightarrow> b = a) \<and>
    fst (run_state (Acquire dp k b ttl) w) \<noteq> Inr True"
proof -
  note inv = lock_inv_reachable [OF assms(1)]
  have held: "rget w k = Some a" by (rule lock_inv_held [OF inv assms(2,3)])
  moreover have "b = a" if "L b = Some e'" "q_now w < e'" for b e'
    using lock_inv_held [OF inv that] held by simp
  ultimately show ?thesis using Acquire_refused by auto
qed

theorem lock_is_exclusive_witness:
  "\<exists>w L. (lock_step example_deps schedulerLockKey schedulerLockTTL)\<^sup>*\<^sup>* (example_quota_world, Map.empty) (w, L) \<and>
     L ''a'' = Some (q_now w + 300 * nsSecond) \<and>
     fst (run_state (Acquire example_deps schedulerLockKey ''b'' schedulerLockTTL) w) \<noteq> Inr True"
proof -
  let ?e = "q_now example_quota_world + ttl_seconds schedulerLockTTL * nsSecond"
  let ?w = "rset schedulerLockKey ''a'' (Some ?e) example_quota_world"
  have t: "ttl_seconds schedulerLockTTL = 300" by (simp add: ttl_seconds_def schedulerLockTTL_def nsSecond_def)
  have "rget example_quota_world schedulerLockKey = None"
    by (simp add: rget_def example_quota_world_def schedulerLockKey_def)
  then have "run_state (Acquire example_deps schedulerLockKey ''a'' schedulerLockTTL) example_quota_world = (Inr True, ?w)"
    by (simp add: Acquire_def lockAcquireScript_def t) (simp add: example_deps_def)
  from lock_step.acquired [OF this, of Map.empty]
  have step: "(lock_step example_deps schedulerLockKey schedulerLockTTL)\<^sup>*\<^sup>* (example_quota_world, Map.empty)
      (?w, [''a'' \<mapsto> ?e])" by auto
  from lock_is_exclusive [OF this, of "''a''" ?e "''b''"]
  have "fst (run_state (Acquire example_deps schedulerLockKey ''b'' schedulerLockTTL) ?w) \<noteq> Inr True"
    by (simp add: t nsSecond_def)
  with step show ?thesis by (intro exI [of _ ?w] exI [of _ "[''a'' \<mapsto> ?e]"]) (simp add: t)
qed

end
