(* ===== verification/GoCrypto.thy ===== *)
theory GoCrypto
  imports GoLib
begin

text \<open>
  What the sources use of Go's \<^verbatim>\<open>encoding/base64\<close> (the standard encoding with padding) and of
  \<^verbatim>\<open>crypto/cipher\<close> (Galois counter mode with 12-byte nonces and 16-byte tags, no additional data). The block
  cipher of a key is an argument of the mode: decryption never inverts it. The interface
  \<open>aead\<close> states what users of an authenticated cipher rely on.
\<close>

unbundle bit_operations_syntax

type_synonym byte = "8 word"
type_synonym block = "128 word"

section \<open>Strings and byte slices\<close>

definition bytes_of :: "string \<Rightarrow> byte list" where
  "bytes_of s = map (\<lambda>c. of_nat (of_char c)) s"

definition string_of :: "byte list \<Rightarrow> string" where
  "string_of bs = map (\<lambda>b. char_of (unat b)) bs"

lemma string_of_bytes_of [simp]: "string_of (bytes_of s) = s"
proof -
  have "char_of (unat (of_nat (of_char c) :: byte)) = c" for c
  proof -
    have "(of_char c :: nat) < 256" by simp
    then show ?thesis by (simp add: unat_of_nat take_bit_nat_eq_self)
  qed
  then show ?thesis by (simp add: string_of_def bytes_of_def o_def)
qed

lemma length_bytes_of [simp]: "length (bytes_of s) = length s"
  by (simp add: bytes_of_def)

section \<open>Base64\<close>

definition b64_alphabet :: string where
  "b64_alphabet = ''ABCDEFGHIJKLMNOPQRSTUVWXYZabcdefghijklmnopqrstuvwxyz0123456789+/''"

definition b64_char :: "nat \<Rightarrow> char" where
  "b64_char n = b64_alphabet ! n"

definition b64_val :: "char \<Rightarrow> nat option" where
  "b64_val c = map_of (zip b64_alphabet [0..<64]) c"

text \<open>\<^verbatim>\<open>base64.StdEncoding.EncodeToString\<close>.\<close>

fun EncodeToString :: "byte list \<Rightarrow> string" where
  "EncodeToString [] = []"
| "EncodeToString [a] = [b64_char (unat a div 4), b64_char (unat a mod 4 * 16), CHR ''='', CHR ''='']"
| "EncodeToString [a, b] =
     [b64_char (unat a div 4), b64_char (unat a mod 4 * 16 + unat b div 16),
      b64_char (unat b mod 16 * 4), CHR ''='']"
| "EncodeToString (a # b # c # bs) =
     b64_char (unat a div 4) # b64_char (unat a mod 4 * 16 + unat b div 16) #
     b64_char (unat b mod 16 * 4 + unat c div 64) # b64_char (unat c mod 64) # EncodeToString bs"

text \<open>The three bytes of a group of four 6-bit values.\<close>

definition b64_byte1 :: "nat \<Rightarrow> nat \<Rightarrow> byte" where "b64_byte1 p q = of_nat (p * 4 + q div 16)"
definition b64_byte2 :: "nat \<Rightarrow> nat \<Rightarrow> byte" where "b64_byte2 q s = of_nat (q mod 16 * 16 + s div 4)"
definition b64_byte3 :: "nat \<Rightarrow> nat \<Rightarrow> byte" where "b64_byte3 s t = of_nat (s mod 4 * 64 + t)"

text \<open>Groups of four characters; only the last one may be padded. Bits left over are not checked.\<close>

fun decode_groups :: "string \<Rightarrow> byte list option" where
  "decode_groups [] = Some []"
| "decode_groups (w # x # y # z # r) =
     (case (b64_val w, b64_val x) of
        (Some p, Some q) \<Rightarrow>
          if y = CHR ''='' then
            if z = CHR ''='' \<and> r = [] then Some [b64_byte1 p q] else None
          else (case b64_val y of
                  None \<Rightarrow> None
                | Some s \<Rightarrow>
                    if z = CHR ''='' then
                      if r = [] then Some [b64_byte1 p q, b64_byte2 q s]
                      else None
                    else (case b64_val z of
                            None \<Rightarrow> None
                          | Some t \<Rightarrow>
                              map_option (\<lambda>bs. b64_byte1 p q # b64_byte2 q s #
                                b64_byte3 s t # bs) (decode_groups r)))
      | _ \<Rightarrow> None)"
| "decode_groups _ = None"

text \<open>\<^verbatim>\<open>base64.StdEncoding.DecodeString\<close>: line breaks are skipped wherever they stand.\<close>

definition DecodeString :: "string \<Rightarrow> byte list option" where
  "DecodeString s = decode_groups (filter (\<lambda>c. c \<noteq> CHR 0x0A \<and> c \<noteq> CHR 0x0D) s)"

lemma b64_alphabet_distinct: "distinct b64_alphabet"
  by (simp add: b64_alphabet_def)

lemma b64_length [simp]: "length b64_alphabet = 64"
  by (simp add: b64_alphabet_def)

lemma b64_val_char [simp]: "n < 64 \<Longrightarrow> b64_val (b64_char n) = Some n"
  unfolding b64_val_def b64_char_def
  by (subst map_of_zip_nth) (simp_all add: b64_alphabet_distinct)

lemma b64_char_in: "n < 64 \<Longrightarrow> b64_char n \<in> set b64_alphabet"
  by (simp add: b64_char_def)

lemma b64_char_plain [simp]:
  "n < 64 \<Longrightarrow> b64_char n \<noteq> CHR ''=''" "n < 64 \<Longrightarrow> b64_char n \<noteq> CHR 0x0A" "n < 64 \<Longrightarrow> b64_char n \<noteq> CHR 0x0D"
proof -
  have "CHR ''='' \<notin> set b64_alphabet" "CHR 0x0A \<notin> set b64_alphabet" "CHR 0x0D \<notin> set b64_alphabet"
    by (simp_all add: b64_alphabet_def)
  then show "n < 64 \<Longrightarrow> b64_char n \<noteq> CHR ''=''" "n < 64 \<Longrightarrow> b64_char n \<noteq> CHR 0x0A"
    "n < 64 \<Longrightarrow> b64_char n \<noteq> CHR 0x0D"
    using b64_char_in by metis+
qed

lemma byte_lt: "unat (a :: byte) < 256"
  using unsigned_less [of a] by simp

lemma byte_div:
  fixes a :: byte
  shows "unat a div 4 < 64" "unat a div 16 < 16" "unat a div 64 < 4"
  using byte_lt [of a] by (simp_all add: less_mult_imp_div_less)

lemma byte_parts [simp]:
  fixes a b :: byte
  shows "unat a div 4 < 64" "unat a mod 4 * 16 + unat b div 16 < 64" "unat a mod 4 * 16 < 64"
    "unat b mod 16 * 4 < 64" "unat b mod 16 * 4 + unat a div 64 < 64" "unat a mod 64 < 64"
proof -
  have "unat a mod 4 < 4" "unat b mod 16 < 16" by simp_all
  then show "unat a div 4 < 64" "unat a mod 4 * 16 + unat b div 16 < 64" "unat a mod 4 * 16 < 64"
    "unat b mod 16 * 4 < 64" "unat b mod 16 * 4 + unat a div 64 < 64" "unat a mod 64 < 64"
    using byte_div [of a] byte_div [of b] by simp_all
qed

lemma b64_bytes:
  fixes a b c :: byte
  shows "b64_byte1 (unat a div 4) (unat a mod 4 * 16 + unat b div 16) = a"
    "b64_byte1 (unat a div 4) (unat a mod 4 * 16) = a"
    "b64_byte2 (unat a mod 4 * 16 + unat b div 16) (unat b mod 16 * 4 + unat c div 64) = b"
    "b64_byte2 (unat a mod 4 * 16 + unat b div 16) (unat b mod 16 * 4) = b"
    "b64_byte3 (unat b mod 16 * 4 + unat c div 64) (unat c mod 64) = c"
proof -
  have "unat a div 4 * 4 + (unat a mod 4 * 16 + unat b div 16) div 16 = unat a"
    "unat a div 4 * 4 + unat a mod 4 * 16 div 16 = unat a"
    "(unat a mod 4 * 16 + unat b div 16) mod 16 * 16 + (unat b mod 16 * 4 + unat c div 64) div 4 = unat b"
    "(unat a mod 4 * 16 + unat b div 16) mod 16 * 16 + unat b mod 16 * 4 div 4 = unat b"
    "(unat b mod 16 * 4 + unat c div 64) mod 4 * 64 + unat c mod 64 = unat c"
    using byte_div [of b] byte_div [of c] by (simp_all add: div_mult_mod_eq)
  then show "b64_byte1 (unat a div 4) (unat a mod 4 * 16 + unat b div 16) = a"
    "b64_byte1 (unat a div 4) (unat a mod 4 * 16) = a"
    "b64_byte2 (unat a mod 4 * 16 + unat b div 16) (unat b mod 16 * 4 + unat c div 64) = b"
    "b64_byte2 (unat a mod 4 * 16 + unat b div 16) (unat b mod 16 * 4) = b"
    "b64_byte3 (unat b mod 16 * 4 + unat c div 64) (unat c mod 64) = c"
    by (simp_all only: b64_byte1_def b64_byte2_def b64_byte3_def unsigned_of_nat of_nat_unat ucast_id)
qed

lemma decode_groups_encode: "decode_groups (EncodeToString bs) = Some bs"
  by (induction bs rule: EncodeToString.induct) (simp_all add: b64_bytes)

lemma EncodeToString_no_break:
  "filter (\<lambda>c. c \<noteq> CHR 0x0A \<and> c \<noteq> CHR 0x0D) (EncodeToString bs) = EncodeToString bs"
  by (induction bs rule: EncodeToString.induct) simp_all

lemma DecodeString_EncodeToString [simp]: "DecodeString (EncodeToString bs) = Some bs"
  by (simp add: DecodeString_def EncodeToString_no_break decode_groups_encode)

section \<open>Galois counter mode\<close>

definition block_of :: "byte list \<Rightarrow> block" where
  "block_of bs = foldl (\<lambda>a b. push_bit 8 a OR ucast b) 0 (take 16 (bs @ replicate 16 0))"

definition bytes_of_block :: "block \<Rightarrow> byte list" where
  "bytes_of_block w = map (\<lambda>i. ucast (drop_bit (8 * (15 - i)) w)) [0..<16]"

text \<open>The product in the field of the mode; the first bit of a block is its most significant one.\<close>

fun gf_mul_steps :: "nat \<Rightarrow> block \<Rightarrow> block \<Rightarrow> block \<Rightarrow> block" where
  "gf_mul_steps 0 x v z = z"
| "gf_mul_steps (Suc n) x v z =
     gf_mul_steps n x (if bit v 0 then drop_bit 1 v XOR push_bit 120 0xE1 else drop_bit 1 v)
       (if bit x n then z XOR v else z)"

definition gf_mul :: "block \<Rightarrow> block \<Rightarrow> block" where
  "gf_mul x y = gf_mul_steps 128 x y 0"

fun ghash_data :: "block \<Rightarrow> block \<Rightarrow> byte list \<Rightarrow> block" where
  "ghash_data h y [] = y"
| "ghash_data h y (b # bs) = ghash_data h (gf_mul (y XOR block_of (take 16 (b # bs))) h) (drop 15 bs)"

text \<open>The hash of the ciphertext and of the two lengths in bits; there is no additional data.\<close>

definition ghash :: "block \<Rightarrow> byte list \<Rightarrow> block" where
  "ghash h ct = gf_mul (ghash_data h 0 ct XOR of_nat (8 * length ct)) h"

definition inc32 :: "block \<Rightarrow> block" where
  "inc32 c = (c AND NOT (mask 32)) OR ((c + 1) AND mask 32)"

definition xor_bytes :: "byte list \<Rightarrow> byte list \<Rightarrow> byte list" where
  "xor_bytes xs ys = map2 (XOR) xs ys"

fun ctr_xor :: "(block \<Rightarrow> block) \<Rightarrow> block \<Rightarrow> byte list \<Rightarrow> byte list" where
  "ctr_xor E c [] = []"
| "ctr_xor E c (b # bs) =
     xor_bytes (take 16 (b # bs)) (bytes_of_block (E c)) @ ctr_xor E (inc32 c) (drop 15 bs)"

definition first_counter :: "byte list \<Rightarrow> block" where
  "first_counter nonce = block_of (nonce @ [0, 0, 0, 1])"

definition gcm_tag :: "(block \<Rightarrow> block) \<Rightarrow> byte list \<Rightarrow> byte list \<Rightarrow> byte list" where
  "gcm_tag E nonce ct = bytes_of_block (ghash (E 0) ct XOR E (first_counter nonce))"

definition gcm_Seal :: "(block \<Rightarrow> block) \<Rightarrow> byte list \<Rightarrow> byte list \<Rightarrow> byte list" where
  "gcm_Seal E nonce pt =
     (let ct = ctr_xor E (inc32 (first_counter nonce)) pt in ct @ gcm_tag E nonce ct)"

definition gcm_Open :: "(block \<Rightarrow> block) \<Rightarrow> byte list \<Rightarrow> byte list \<Rightarrow> byte list option" where
  "gcm_Open E nonce data =
     (if length data < 16 then None
      else let n = length data - 16; ct = take n data
           in if drop n data = gcm_tag E nonce ct
              then Some (ctr_xor E (inc32 (first_counter nonce)) ct) else None)"

lemma length_bytes_of_block [simp]: "length (bytes_of_block w) = 16"
  by (simp add: bytes_of_block_def)

lemma length_xor_bytes [simp]: "length (xor_bytes xs ys) = min (length xs) (length ys)"
  by (simp add: xor_bytes_def)

lemma xor_bytes_twice: "length xs \<le> length ys \<Longrightarrow> xor_bytes (xor_bytes xs ys) ys = xs"
  by (auto simp: xor_bytes_def xor.assoc intro!: nth_equalityI)

lemma length_ctr_xor [simp]: "length (ctr_xor E c bs) = length bs"
  by (induction E c bs rule: ctr_xor.induct) (auto simp: min_def)

lemma ctr_xor_chunk:
  assumes "xs \<noteq> []" "length xs \<le> 16" "length xs = 16 \<or> ys = []"
  shows "ctr_xor E c (xs @ ys) = xor_bytes xs (bytes_of_block (E c)) @ ctr_xor E (inc32 c) ys"
proof -
  obtain b bs where xs: "xs = b # bs" using assms(1) by (cases xs) auto
  from assms(2,3) xs have "take 15 (bs @ ys) = bs" "drop 15 (bs @ ys) = ys" by auto
  then show ?thesis by (simp add: xs)
qed

lemma ctr_xor_twice: "ctr_xor E c (ctr_xor E c bs) = bs"
proof (induction E c bs rule: ctr_xor.induct)
  case (2 E c b bs)
  let ?x = "xor_bytes (take 16 (b # bs)) (bytes_of_block (E c))"
  let ?r = "ctr_xor E (inc32 c) (drop 15 bs)"
  have len: "length ?x = min 16 (Suc (length bs))" by simp
  then have "?x \<noteq> []" by (metis length_0_conv min_def nat.simps(3) zero_neq_numeral)
  moreover have "length ?x \<le> 16" using len by simp
  moreover have "length ?x = 16 \<or> ?r = []" by (auto simp: min_def)
  ultimately have "ctr_xor E c (?x @ ?r) =
      xor_bytes ?x (bytes_of_block (E c)) @ ctr_xor E (inc32 c) ?r" by (rule ctr_xor_chunk)
  also have "\<dots> = take 16 (b # bs) @ drop 15 bs"
    using 2 by (simp add: xor_bytes_twice)
  finally show ?case by simp
qed simp

lemma gcm_Open_Seal: "gcm_Open E nonce (gcm_Seal E nonce pt) = Some pt"
  by (simp add: gcm_Open_def gcm_Seal_def Let_def gcm_tag_def ctr_xor_twice)

lemma length_gcm_Seal: "length (gcm_Seal E nonce pt) = length pt + 16"
  by (simp add: gcm_Seal_def Let_def gcm_tag_def)

section \<open>Authenticated ciphers\<close>

locale aead =
  fixes seal :: "'k \<Rightarrow> byte list \<Rightarrow> byte list \<Rightarrow> byte list"
    and unseal :: "'k \<Rightarrow> byte list \<Rightarrow> byte list \<Rightarrow> byte list option"
  assumes unseal_seal: "unseal k n (seal k n p) = Some p"
    and length_seal: "length (seal k n p) = length p + 16"
begin

lemma seal_inj: "seal k n p = seal k n q \<Longrightarrow> p = q"
  by (metis unseal_seal option.inject)

lemma seal_nonempty: "seal k n p \<noteq> []"
  using length_seal [of k n p] by auto

end

interpretation gcm: aead gcm_Seal gcm_Open
  by unfold_locales (simp_all add: gcm_Open_Seal length_gcm_Seal)

end
