(* ===== verification/XCrypto.thy ===== *)
theory XCrypto
  imports GoCrypto
begin

text \<open>
  \<^verbatim>\<open>lib/xcrypto\<close>: the self-describing envelope of a secret (\<^verbatim>\<open>envelope.go\<close>) and the keyring
  that encrypts with its active key and decrypts by the key id in each envelope (\<^verbatim>\<open>keyring.go\<close>).

  The parameters are the block cipher, the message authentication code, the key derivation, the reader
  of files and the TOML decoder. A nonce is drawn by the caller and given to \<open>Encrypt\<close>.
\<close>

section \<open>Envelopes\<close>

record keyringFile =
  kf_ActiveKeyID :: int
  kf_Keys :: "(string \<times> string) list"

text \<open>\<^verbatim>\<open>cr_hkdf\<close> is the reader of \<^verbatim>\<open>hkdf.New\<close>: an error, or the bytes it delivers.\<close>

record crypto =
  cr_aes :: "byte list \<Rightarrow> block \<Rightarrow> block"
  cr_hmac :: "byte list \<Rightarrow> byte list \<Rightarrow> byte list"
  cr_hkdf :: "byte list \<Rightarrow> string \<Rightarrow> error + (nat \<Rightarrow> byte)"
  cr_ReadFile :: "string \<Rightarrow> error + string"
  cr_toml :: "string \<Rightarrow> error + keyringFile"

definition Marker :: string where "Marker = ''enc$v1$''"
definition keyIDLen :: nat where "keyIDLen = 1"
definition nonceLen :: nat where "nonceLen = 12"
definition keyLen :: nat where "keyLen = 32"

definition ErrNotEncrypted :: error where "ErrNotEncrypted = ErrMsg ''value is not an encrypted envelope''"
definition ErrInvalidEnvelope :: error where "ErrInvalidEnvelope = ErrMsg ''invalid encrypted envelope''"
definition ErrKeyNotFound :: error where "ErrKeyNotFound = ErrMsg ''key not found in keyring''"

definition IsEncrypted :: "string \<Rightarrow> bool" where
  "IsEncrypted v \<longleftrightarrow> HasPrefix v Marker"

text \<open>\<^verbatim>\<open>aes.NewCipher\<close> and \<^verbatim>\<open>cipher.NewGCM\<close>, which accepts every AES cipher.\<close>

definition NewGCM :: "crypto \<Rightarrow> byte list \<Rightarrow> error + (block \<Rightarrow> block)" where
  "NewGCM cr key =
     (if length key \<in> {16, 24, 32} then Inr (cr_aes cr key)
      else Inl (ErrMsg ''crypto/aes: invalid key size''))"

definition envelope :: "byte \<Rightarrow> byte list \<Rightarrow> byte list \<Rightarrow> string" where
  "envelope keyID nonce ct = Marker @ EncodeToString ([keyID] @ nonce @ ct)"

definition Encrypt :: "crypto \<Rightarrow> byte list \<Rightarrow> string \<Rightarrow> byte list \<Rightarrow> byte \<Rightarrow> error + string" where
  "Encrypt cr nonce plaintext key keyID =
     (if length key \<noteq> keyLen then Inl (ErrMsg ''xcrypto: key length'')
      else case NewGCM cr key of
        Inl e \<Rightarrow> Inl e
      | Inr E \<Rightarrow> Inr (envelope keyID nonce (gcm_Seal E nonce (bytes_of plaintext))))"

definition EncryptDeterministic :: "crypto \<Rightarrow> string \<Rightarrow> byte list \<Rightarrow> byte \<Rightarrow> error + string" where
  "EncryptDeterministic cr plaintext key keyID =
     (if length key \<noteq> keyLen then Inl (ErrMsg ''xcrypto: key length'')
      else let nonce = take nonceLen (cr_hmac cr key (bytes_of plaintext)) in
        case NewGCM cr key of
          Inl e \<Rightarrow> Inl e
        | Inr E \<Rightarrow> Inr (envelope keyID nonce (gcm_Seal E nonce (bytes_of plaintext))))"

definition envelopeKeyID :: "string \<Rightarrow> byte option" where
  "envelopeKeyID v =
     (if \<not> IsEncrypted v then None
      else case DecodeString (drop (length Marker) v) of
        None \<Rightarrow> None
      | Some raw \<Rightarrow> if length raw < keyIDLen + nonceLen + 1 then None else Some (raw ! 0))"

definition Decrypt :: "crypto \<Rightarrow> string \<Rightarrow> (byte \<times> byte list) list \<Rightarrow> error + string" where
  "Decrypt cr v keys =
     (case envelopeKeyID v of
        None \<Rightarrow> Inl ErrNotEncrypted
      | Some keyID \<Rightarrow>
          (case map_of keys keyID of
             None \<Rightarrow> Inl ErrKeyNotFound
           | Some key \<Rightarrow>
               (case DecodeString (drop (length Marker) v) of
                  None \<Rightarrow> Inl ErrInvalidEnvelope
                | Some raw \<Rightarrow>
                    if length raw < keyIDLen + nonceLen + 1 then Inl ErrInvalidEnvelope
                    else case NewGCM cr key of
                      Inl e \<Rightarrow> Inl e
                    | Inr E \<Rightarrow>
                        (case gcm_Open E (take nonceLen (drop keyIDLen raw)) (drop (keyIDLen + nonceLen) raw) of
                           None \<Rightarrow> Inl (ErrMsg ''xcrypto: decrypt: cipher: message authentication failed'')
                         | Some pt \<Rightarrow> Inr (string_of pt)))))"

definition KeyIDOf :: "string \<Rightarrow> byte option" where
  "KeyIDOf v = envelopeKeyID v"

definition ParseKeyID :: "string \<Rightarrow> error + byte" where
  "ParseKeyID s =
     (case ParseInt (TrimSpace s) of
        None \<Rightarrow> Inl (ErrMsg ''xcrypto: invalid keyID'')
      | Some n \<Rightarrow> if sint n < 1 \<or> sint n > 255 then Inl (ErrMsg ''xcrypto: invalid keyID'')
                   else Inr (ucast n))"

section \<open>Keyrings\<close>

record Keyring =
  kr_keys :: "(byte \<times> byte list) list"
  kr_encKeys :: "(byte \<times> byte list) list"
  kr_active :: byte
  kr_filePath :: string

definition ActiveID :: "Keyring \<Rightarrow> byte" where
  "ActiveID k = kr_active k"

definition HasKey :: "Keyring \<Rightarrow> byte \<Rightarrow> bool" where
  "HasKey k i \<longleftrightarrow> map_of (kr_keys k) i \<noteq> None"

definition KeyIDs :: "Keyring \<Rightarrow> byte list" where
  "KeyIDs k = map fst (kr_keys k)"

definition Keyring_Encrypt :: "crypto \<Rightarrow> byte list \<Rightarrow> Keyring \<Rightarrow> string \<Rightarrow> error + string" where
  "Keyring_Encrypt cr nonce k plaintext =
     (case map_of (kr_encKeys k) (kr_active k) of
        None \<Rightarrow> Inl ErrKeyNotFound
      | Some key \<Rightarrow> Encrypt cr nonce plaintext key (kr_active k))"

definition Keyring_Decrypt :: "crypto \<Rightarrow> Keyring \<Rightarrow> string \<Rightarrow> error + string" where
  "Keyring_Decrypt cr k v =
     (if \<not> IsEncrypted v then Inr v
      else case envelopeKeyID v of
        None \<Rightarrow> Inl ErrInvalidEnvelope
      | Some keyID \<Rightarrow>
          (case map_of (kr_encKeys k) keyID of
             None \<Rightarrow> Inl ErrKeyNotFound
           | Some key \<Rightarrow> Decrypt cr v [(keyID, key)]))"

definition EncryptWithRawKey :: "crypto \<Rightarrow> Keyring \<Rightarrow> string \<Rightarrow> byte \<Rightarrow> error + string" where
  "EncryptWithRawKey cr k plaintext keyID =
     (let i = (if keyID = 0 then kr_active k else keyID)
      in case map_of (kr_keys k) i of
           None \<Rightarrow> Inl ErrKeyNotFound
         | Some key \<Rightarrow> EncryptDeterministic cr plaintext key i)"

definition hkdfBytes :: "crypto \<Rightarrow> byte list \<Rightarrow> string \<Rightarrow> error + byte list" where
  "hkdfBytes cr master info =
     (case cr_hkdf cr master info of Inl e \<Rightarrow> Inl e | Inr r \<Rightarrow> Inr (map r [0..<keyLen]))"

text \<open>The loop over \<^verbatim>\<open>f.Keys\<close>, in the order in which Go walks the map.\<close>

fun load_keys :: "crypto \<Rightarrow> (string \<times> string) list \<Rightarrow> Keyring \<Rightarrow> error + Keyring" where
  "load_keys cr [] k = Inr k"
| "load_keys cr ((s, b64) # r) k =
     (case ParseKeyID s of
        Inl e \<Rightarrow> Inl e
      | Inr i \<Rightarrow>
          (case DecodeString b64 of
             None \<Rightarrow> Inl (ErrMsg ''xcrypto: key: invalid base64 or length'')
           | Some master \<Rightarrow>
               if length master \<noteq> keyLen then Inl (ErrMsg ''xcrypto: key: invalid base64 or length'')
               else case hkdfBytes cr master ''db-enc-key'' of
                 Inl e \<Rightarrow> Inl e
               | Inr encKey \<Rightarrow>
                   load_keys cr r (k\<lparr>kr_keys := alist_set i master (kr_keys k),
                                    kr_encKeys := alist_set i encKey (kr_encKeys k)\<rparr>)))"

definition LoadKeyringFile :: "crypto \<Rightarrow> string \<Rightarrow> error + Keyring" where
  "LoadKeyringFile cr path =
     (if path = [] then Inl (ErrMsg ''xcrypto: keyring file path empty'')
      else case cr_ReadFile cr path of
        Inl e \<Rightarrow> Inl e
      | Inr content \<Rightarrow>
          (case cr_toml cr content of
             Inl e \<Rightarrow> Inl (ErrMsg ''xcrypto: parse keyring file'')
           | Inr f \<Rightarrow>
               if kf_Keys f = [] then Inl (ErrMsg ''xcrypto: keyring file has no [Keys] entries'')
               else case load_keys cr (kf_Keys f)
                      \<lparr>kr_keys = [], kr_encKeys = [], kr_active = 0, kr_filePath = path\<rparr> of
                 Inl e \<Rightarrow> Inl e
               | Inr k \<Rightarrow>
                   if kf_ActiveKeyID f < 1 \<or> kf_ActiveKeyID f > 255
                   then Inl (ErrMsg ''xcrypto: ActiveKeyID out of range'')
                   else let i = of_int (kf_ActiveKeyID f)
                        in if map_of (kr_keys k) i = None
                           then Inl (ErrMsg ''xcrypto: ActiveKeyID not found in [Keys]'')
                           else Inr (k\<lparr>kr_active := i\<rparr>)))"

section \<open>Round trips\<close>

lemma DecodeString_envelope:
  "DecodeString (drop (length Marker) (envelope i n ct)) = Some ([i] @ n @ ct)"
  by (simp add: envelope_def)

lemma IsEncrypted_envelope [simp]: "IsEncrypted (envelope i n ct)"
  by (simp add: IsEncrypted_def envelope_def)

lemma envelopeKeyID_envelope:
  "length n = nonceLen \<Longrightarrow> ct \<noteq> [] \<Longrightarrow> envelopeKeyID (envelope i n ct) = Some i"
  unfolding envelopeKeyID_def DecodeString_envelope
  by (cases ct) (simp_all add: keyIDLen_def nonceLen_def)

lemma envelopeKeyID_marked: "envelopeKeyID v = Some i \<Longrightarrow> IsEncrypted v"
  by (auto simp: envelopeKeyID_def split: if_splits)

lemma Decrypt_envelope:
  assumes "length n = nonceLen" "map_of keys i = Some key" "NewGCM cr key = Inr E"
  shows "Decrypt cr (envelope i n (gcm_Seal E n (bytes_of p))) keys = Inr p"
proof -
  let ?ct = "gcm_Seal E n (bytes_of p)"
  have "take nonceLen (drop keyIDLen ([i] @ n @ ?ct)) = n"
    "drop (keyIDLen + nonceLen) ([i] @ n @ ?ct) = ?ct"
    "\<not> length ([i] @ n @ ?ct) < keyIDLen + nonceLen + 1"
    using assms(1) gcm.length_seal [of E n "bytes_of p"] by (simp_all add: keyIDLen_def nonceLen_def)
  then show ?thesis
    unfolding Decrypt_def DecodeString_envelope
    using assms gcm.seal_nonempty gcm.unseal_seal
    by (simp add: envelopeKeyID_envelope del: append.simps)
qed

lemma NewGCM_keyLen: "length key = keyLen \<Longrightarrow> NewGCM cr key = Inr (cr_aes cr key)"
  by (simp add: NewGCM_def keyLen_def)

lemma Encrypt_spec:
  assumes "length key = keyLen" "length n = nonceLen"
  obtains v where "Encrypt cr n p key i = Inr v" "envelopeKeyID v = Some i"
    "\<And>keys. map_of keys i = Some key \<Longrightarrow> Decrypt cr v keys = Inr p"
proof
  let ?v = "envelope i n (gcm_Seal (cr_aes cr key) n (bytes_of p))"
  show "Encrypt cr n p key i = Inr ?v" using assms by (simp add: Encrypt_def NewGCM_keyLen)
  show "envelopeKeyID ?v = Some i" using assms gcm.seal_nonempty by (simp add: envelopeKeyID_envelope)
  show "Decrypt cr ?v keys = Inr p" if "map_of keys i = Some key" for keys
    using assms that by (simp add: Decrypt_envelope NewGCM_keyLen)
qed

text \<open>What \<^verbatim>\<open>LoadKeyringFile\<close> guarantees of a keyring.\<close>

definition wf_keyring :: "Keyring \<Rightarrow> bool" where
  "wf_keyring k \<longleftrightarrow>
     map_of (kr_encKeys k) (kr_active k) \<noteq> None \<and>
     (\<forall>(i, key) \<in> set (kr_encKeys k). length key = keyLen) \<and>
     (\<forall>(i, key) \<in> set (kr_keys k). length key = keyLen) \<and>
     fst ` set (kr_keys k) = fst ` set (kr_encKeys k) \<and> 0 \<notin> fst ` set (kr_keys k)"

lemma wf_keyring_key: "wf_keyring k \<Longrightarrow> map_of (kr_encKeys k) i = Some key \<Longrightarrow> length key = keyLen"
  by (auto simp: wf_keyring_def dest: map_of_SomeD)

text \<open>
  A value encrypted by one keyring is decrypted by every keyring that still has the key under
  its id, whatever key is active there.
\<close>

lemma Keyring_Encrypt_spec:
  assumes "wf_keyring k" "length n = nonceLen"
  obtains v where "Keyring_Encrypt cr n k p = Inr v" "KeyIDOf v = Some (ActiveID k)" "IsEncrypted v"
    "\<And>k'. map_of (kr_encKeys k') (ActiveID k) = map_of (kr_encKeys k) (ActiveID k) \<Longrightarrow>
      Keyring_Decrypt cr k' v = Inr p"
proof -
  obtain key where key: "map_of (kr_encKeys k) (kr_active k) = Some key"
    using assms(1) by (auto simp: wf_keyring_def)
  obtain v where v: "Encrypt cr n p key (kr_active k) = Inr v" "envelopeKeyID v = Some (kr_active k)"
    "\<And>keys. map_of keys (kr_active k) = Some key \<Longrightarrow> Decrypt cr v keys = Inr p"
    using Encrypt_spec [OF wf_keyring_key [OF assms(1) key] assms(2), of cr p "kr_active k"] by blast
  show thesis
  proof (rule that)
    show "Keyring_Encrypt cr n k p = Inr v" using key v(1) by (simp add: Keyring_Encrypt_def)
    show "KeyIDOf v = Some (ActiveID k)" using v(2) by (simp add: KeyIDOf_def ActiveID_def)
    show marked: "IsEncrypted v" using v(2) by (rule envelopeKeyID_marked)
    show "Keyring_Decrypt cr k' v = Inr p"
      if "map_of (kr_encKeys k') (ActiveID k) = map_of (kr_encKeys k) (ActiveID k)" for k'
      using that key marked v(2,3) by (simp add: Keyring_Decrypt_def ActiveID_def)
  qed
qed

lemma Keyring_Decrypt_plain: "\<not> IsEncrypted v \<Longrightarrow> Keyring_Decrypt cr k v = Inr v"
  by (simp add: Keyring_Decrypt_def)

section \<open>Loading\<close>

lemma ParseKeyID_range: "ParseKeyID s = Inr i \<Longrightarrow> i \<noteq> 0"
proof -
  assume "ParseKeyID s = Inr i"
  then obtain n :: i64 where n: "1 \<le> sint n" "sint n \<le> 255" "i = ucast n"
    by (force simp: ParseKeyID_def split: option.splits if_splits)
  have "uint n = sint n" using n(1,2) by (simp add: uint_sint take_bit_int_eq_self)
  then have "uint i = sint n" using n by (simp add: unsigned_ucast_eq take_bit_int_eq_self)
  with n(1) show "i \<noteq> 0" by auto
qed

definition loaded_inv :: "Keyring \<Rightarrow> bool" where
  "loaded_inv k \<longleftrightarrow>
     (\<forall>(i, key) \<in> set (kr_encKeys k). length key = keyLen) \<and>
     (\<forall>(i, key) \<in> set (kr_keys k). length key = keyLen) \<and>
     fst ` set (kr_keys k) = fst ` set (kr_encKeys k) \<and> 0 \<notin> fst ` set (kr_keys k)"

lemma set_alist_set: "x \<in> set (alist_set i v m) \<Longrightarrow> x = (i, v) \<or> x \<in> set m"
  by (induction m) (auto split: if_splits)

lemma load_keys_inv: "load_keys cr ks k = Inr k' \<Longrightarrow> loaded_inv k \<Longrightarrow> loaded_inv k'"
proof (induction cr ks k rule: load_keys.induct)
  case (2 cr s b64 r k)
  from "2.prems"(1) obtain i master encKey where i: "ParseKeyID s = Inr i"
    and d: "DecodeString b64 = Some master" "length master = keyLen"
    and h: "hkdfBytes cr master ''db-enc-key'' = Inr encKey"
    and l: "load_keys cr r (k\<lparr>kr_keys := alist_set i master (kr_keys k),
             kr_encKeys := alist_set i encKey (kr_encKeys k)\<rparr>) = Inr k'"
    by (auto split: sum.splits option.splits if_splits)
  have "length encKey = keyLen" using h by (auto simp: hkdfBytes_def split: sum.splits)
  with d(2) ParseKeyID_range [OF i] "2.prems"(2)
  have "loaded_inv (k\<lparr>kr_keys := alist_set i master (kr_keys k),
      kr_encKeys := alist_set i encKey (kr_encKeys k)\<rparr>)"
    by (auto simp: loaded_inv_def dest!: set_alist_set)
  then show ?case using "2.IH" [OF i d(1) _ h l] d(2) by blast
qed simp

lemma LoadKeyringFile_wf: "LoadKeyringFile cr path = Inr k \<Longrightarrow> wf_keyring k"
proof -
  assume "LoadKeyringFile cr path = Inr k"
  then obtain ks k0 i where
    l: "load_keys cr ks \<lparr>kr_keys = [], kr_encKeys = [], kr_active = 0, kr_filePath = path\<rparr> = Inr k0"
    and "map_of (kr_keys k0) i \<noteq> None" "k = k0\<lparr>kr_active := i\<rparr>"
    by (auto simp: LoadKeyringFile_def Let_def split: if_splits sum.splits)
  moreover have "loaded_inv k0" by (rule load_keys_inv [OF l]) (simp add: loaded_inv_def)
  ultimately show "wf_keyring k"
    by (auto simp: wf_keyring_def loaded_inv_def map_of_eq_None_iff)
qed

section \<open>Export envelopes\<close>

text \<open>
  Deterministic envelopes: equal inputs give equal envelopes, distinct plaintexts distinct ones, and
  the raw key opens them.
\<close>

lemma EncryptDeterministic_spec:
  assumes "length key = keyLen" "\<And>k m. length (cr_hmac cr k m) = 32"
  obtains v where "EncryptDeterministic cr p key i = Inr v" "envelopeKeyID v = Some i"
    "\<And>keys. map_of keys i = Some key \<Longrightarrow> Decrypt cr v keys = Inr p"
proof
  let ?n = "take nonceLen (cr_hmac cr key (bytes_of p))"
  let ?v = "envelope i ?n (gcm_Seal (cr_aes cr key) ?n (bytes_of p))"
  have n: "length ?n = nonceLen" using assms(2) by (simp add: nonceLen_def)
  show "EncryptDeterministic cr p key i = Inr ?v"
    using assms by (simp add: EncryptDeterministic_def NewGCM_keyLen Let_def)
  show "envelopeKeyID ?v = Some i" using n gcm.seal_nonempty by (simp add: envelopeKeyID_envelope)
  show "Decrypt cr ?v keys = Inr p" if "map_of keys i = Some key" for keys
    using n assms that by (simp add: Decrypt_envelope NewGCM_keyLen)
qed

end
