(* ===== verification/SecretStore.thy ===== *)
theory SecretStore
  imports XCrypto SqlTable
begin

text \<open>
  The data and the storage of the sweeps that re-encrypt stored secrets
  (\<^verbatim>\<open>model/keyrotate/types.go\<close>, \<^verbatim>\<open>tables.go\<close>, \<^verbatim>\<open>storage/rdb/keyrotate\<close>), and the world in which they run: the
  tables with secret columns, the table of sweep tasks with its lock row, the keyrings of the process, the clock and
  the source of random bytes.

  The text of a task's \<^verbatim>\<open>summary\<close> column is represented by the counters it encodes; the precision of a
  DATETIME column is a parameter. Strings are compared byte by byte, as under a binary collation.
\<close>

section \<open>Data\<close>

text \<open>The primary keys of the two swept tables: a provider's name and the number of an API key.\<close>

datatype pk = PkName string | PkId int

instantiation pk :: linorder
begin

fun less_eq_pk :: "pk \<Rightarrow> pk \<Rightarrow> bool" where
  "less_eq_pk (PkName a) (PkName b) = (a \<le> b)"
| "less_eq_pk (PkId a) (PkId b) = (a \<le> b)"
| "less_eq_pk (PkName a) (PkId b) = True"
| "less_eq_pk (PkId a) (PkName b) = False"

definition less_pk :: "pk \<Rightarrow> pk \<Rightarrow> bool" where
  "less_pk x y \<longleftrightarrow> x \<le> y \<and> \<not> y \<le> x"

instance
proof
  fix x y z :: pk
  show "(x < y) = (x \<le> y \<and> \<not> y \<le> x)" by (rule less_pk_def)
  show "x \<le> x" by (cases x) simp_all
  show "x \<le> y \<Longrightarrow> y \<le> z \<Longrightarrow> x \<le> z" by (cases x; cases y; cases z) simp_all
  show "x \<le> y \<Longrightarrow> y \<le> x \<Longrightarrow> x = y" by (cases x; cases y) simp_all
  show "x \<le> y \<or> y \<le> x" by (cases x; cases y) auto
qed

end

record SweepTable =
  sw_Name :: string
  sw_PKCol :: string
  sw_ValCol :: string

record RowRef =
  rr_PK :: pk
  rr_Value :: string

definition sweepTables :: "SweepTable list" where
  "sweepTables =
     [\<lparr>sw_Name = ''providers'', sw_PKCol = ''name'', sw_ValCol = ''api_keys''\<rparr>,
      \<lparr>sw_Name = ''api_keys'', sw_PKCol = ''inner_id'', sw_ValCol = ''api_key''\<rparr>]"

definition TablesForScope :: "string \<Rightarrow> SweepTable list" where
  "TablesForScope scope =
     (if scope = ''providers'' then take 1 sweepTables
      else if scope = ''api_keys'' then drop 1 sweepTables
      else sweepTables)"

record TableCount =
  tc_Scanned :: int
  tc_Rewritten :: int
  tc_Skipped :: int

record SweepTask =
  st_TaskID :: string
  st_Status :: string
  st_Mode :: string
  st_DryRun :: bool
  st_Scope :: string
  st_ActiveKeyID :: int
  st_Scanned :: int
  st_Rewritten :: int
  st_StartedAt :: time
  st_FinishedAt :: "time option"
  st_DurationMs :: int
  st_FailedCause :: string
  st_Summary :: "(string \<times> TableCount) list option"
  st_HeartbeatAt :: time
  st_CreatedBy :: string

record taskRow =
  tr_TaskID :: string
  tr_Status :: string
  tr_Mode :: string
  tr_DryRun :: bool
  tr_Scope :: string
  tr_ActiveKeyID :: int
  tr_Scanned :: int
  tr_Rewritten :: int
  tr_Summary :: "(string \<times> TableCount) list option"
  tr_Error :: string
  tr_HeartbeatAt :: time
  tr_StartedAt :: time
  tr_FinishedAt :: "time option"
  tr_DurationMs :: int
  tr_CreatedBy :: string

section \<open>The world\<close>

type_synonym secret_rows = "(pk \<times> string option) list"

record secret_db =
  sd_tables :: "(string \<times> secret_rows) list"
  sd_tasks :: "taskRow list"
  sd_lock :: "string option"

record exportCrypto =
  ec_kr :: "Keyring option"
  ec_activeID :: byte
  ec_enabled :: bool

text \<open>
  \<open>s_draws\<close> counts the random nonces drawn so far; \<open>s_cnt\<close> and \<open>s_rew\<close> are the counters that the
  closure of \<^verbatim>\<open>execBatchOnce\<close> captures.
\<close>

record secret_world = env +
  sdb :: secret_db
  secretRing :: "Keyring option"
  exportCryptoState :: "exportCrypto option"
  s_now :: time
  s_draws :: nat
  s_cnt :: TableCount
  s_rew :: int

type_synonym 'a sweep = "(secret_world, error + 'a) state"

record secret_deps =
  sp_crypto :: crypto
  sp_random :: "nat \<Rightarrow> nat \<Rightarrow> byte"
  sp_heartbeatTTL :: duration
  sp_time :: "time \<Rightarrow> time"
  sp_batchSize :: nat

definition DefaultBatchSize :: nat where "DefaultBatchSize = 100"
definition DefaultHeartbeatTTL :: duration where "DefaultHeartbeatTTL = 5 * 60 * nsSecond"

section \<open>Sweep tasks\<close>

definition set_tasks :: "taskRow list \<Rightarrow> secret_world \<Rightarrow> secret_world" where
  "set_tasks ts w = w\<lparr>sdb := (sdb w)\<lparr>sd_tasks := ts\<rparr>\<rparr>"

definition set_lock :: "string option \<Rightarrow> secret_world \<Rightarrow> secret_world" where
  "set_lock l w = w\<lparr>sdb := (sdb w)\<lparr>sd_lock := l\<rparr>\<rparr>"

definition find_task :: "string \<Rightarrow> taskRow list \<Rightarrow> taskRow option" where
  "find_task i ts = List.find (\<lambda>r. tr_TaskID r = i) ts"

definition taskByID :: "string \<Rightarrow> taskRow option sweep" where
  "taskByID i = ext_call (\<lambda>w. (Inr (find_task i (sd_tasks (sdb w))), w))"

definition toTask :: "taskRow \<Rightarrow> SweepTask" where
  "toTask r =
     \<lparr>st_TaskID = tr_TaskID r, st_Status = tr_Status r, st_Mode = tr_Mode r, st_DryRun = tr_DryRun r,
      st_Scope = tr_Scope r, st_ActiveKeyID = tr_ActiveKeyID r, st_Scanned = tr_Scanned r,
      st_Rewritten = tr_Rewritten r, st_StartedAt = tr_StartedAt r, st_FinishedAt = tr_FinishedAt r,
      st_DurationMs = tr_DurationMs r, st_FailedCause = tr_Error r, st_Summary = tr_Summary r,
      st_HeartbeatAt = tr_HeartbeatAt r, st_CreatedBy = tr_CreatedBy r\<rparr>"

definition ErrTaskNotFound :: error where "ErrTaskNotFound = ErrMsg ''sweep task not found''"

definition storage_GetTask :: "string \<Rightarrow> SweepTask sweep" where
  "storage_GetTask i =
     bindE (taskByID i) (\<lambda>r. case r of None \<Rightarrow> throwE ErrTaskNotFound | Some row \<Rightarrow> returnE (toTask row))"

definition sweep_AtomExecute :: "'a sweep \<Rightarrow> 'a sweep" where
  "sweep_AtomExecute body = RDBTxnExecute sdb (\<lambda>d w. w\<lparr>sdb := d\<rparr>) body"

text \<open>The SELECT ... FOR UPDATE of the lock row; a missing row is an error.\<close>

definition read_lock :: "string sweep" where
  "read_lock = ext_call (\<lambda>w. (case sd_lock (sdb w) of None \<Rightarrow> Inl ErrInfra | Some h \<Rightarrow> Inr h, w))"

definition lost_tasks :: "secret_deps \<Rightarrow> time \<Rightarrow> string \<Rightarrow> taskRow list \<Rightarrow> taskRow list" where
  "lost_tasks dp now holder ts =
     update_where (\<lambda>r. tr_TaskID r = holder \<and> tr_Status r = ''running'')
       (\<lambda>r. r\<lparr>tr_Status := ''failed'', tr_Error := ''executor lost'',
              tr_FinishedAt := Some (sp_time dp now)\<rparr>) ts"

definition mark_lost :: "secret_deps \<Rightarrow> string \<Rightarrow> unit sweep" where
  "mark_lost dp holder =
     ext_call (\<lambda>w. (Inr (), set_tasks (lost_tasks dp (s_now w) holder (sd_tasks (sdb w))) w))"

text \<open>The row of the INSERT, and the INSERT itself; \<^verbatim>\<open>task_id\<close> has a unique key.\<close>

definition task_row :: "secret_deps \<Rightarrow> SweepTask \<Rightarrow> taskRow" where
  "task_row dp task =
     \<lparr>tr_TaskID = st_TaskID task, tr_Status = st_Status task, tr_Mode = st_Mode task,
      tr_DryRun = st_DryRun task, tr_Scope = st_Scope task, tr_ActiveKeyID = st_ActiveKeyID task,
      tr_Scanned = 0, tr_Rewritten = 0, tr_Summary = None, tr_Error = [],
      tr_HeartbeatAt = sp_time dp (st_HeartbeatAt task), tr_StartedAt = sp_time dp (st_StartedAt task),
      tr_FinishedAt = None, tr_DurationMs = 0, tr_CreatedBy = st_CreatedBy task\<rparr>"

definition insert_task :: "secret_deps \<Rightarrow> SweepTask \<Rightarrow> unit sweep" where
  "insert_task dp task =
     ext_call (\<lambda>w.
       if find_task (st_TaskID task) (sd_tasks (sdb w)) \<noteq> None then (Inl ErrInfra, w)
       else (Inr (), set_tasks (sd_tasks (sdb w) @ [task_row dp task]) w))"

definition write_lock :: "string \<Rightarrow> unit sweep" where
  "write_lock i = ext_call (\<lambda>w. (Inr (), set_lock (map_option (\<lambda>_. i) (sd_lock (sdb w))) w))"

text \<open>The holder is refused while its heartbeat is fresh, and given up as lost afterwards.\<close>

definition take_over :: "secret_deps \<Rightarrow> string \<Rightarrow> unit sweep" where
  "take_over dp holder =
     (if holder = [] then returnE ()
      else bindE (taskByID holder) (\<lambda>row. case row of
        None \<Rightarrow> returnE ()
      | Some r \<Rightarrow>
          if tr_Status r \<noteq> ''running'' then returnE ()
          else bindE (getsE s_now) (\<lambda>now.
            if time_Sub now (tr_HeartbeatAt r) < sp_heartbeatTTL dp then throwE (ErrConflict holder)
            else mark_lost dp holder)))"

definition AcquireTask :: "secret_deps \<Rightarrow> SweepTask \<Rightarrow> unit sweep" where
  "AcquireTask dp task =
     sweep_AtomExecute (bindE read_lock (\<lambda>holder.
       bindE (take_over dp holder) (\<lambda>_.
         bindE (insert_task dp task) (\<lambda>_. write_lock (st_TaskID task)))))"

definition AddProgress :: "secret_deps \<Rightarrow> string \<Rightarrow> int \<Rightarrow> int \<Rightarrow> unit sweep" where
  "AddProgress dp i scanned rewritten =
     ext_call (\<lambda>w. (Inr (), set_tasks (update_where (\<lambda>r. tr_TaskID r = i)
       (\<lambda>r. r\<lparr>tr_Scanned := tr_Scanned r + scanned, tr_Rewritten := tr_Rewritten r + rewritten,
              tr_HeartbeatAt := sp_time dp (s_now w)\<rparr>) (sd_tasks (sdb w))) w))"

definition finish_row ::
  "secret_deps \<Rightarrow> string \<Rightarrow> string \<Rightarrow> (string \<times> TableCount) list \<Rightarrow> duration \<Rightarrow> time \<Rightarrow> taskRow \<Rightarrow> taskRow" where
  "finish_row dp status cause summary elapsed now r =
     r\<lparr>tr_Status := status, tr_Error := cause, tr_Summary := Some summary,
       tr_FinishedAt := Some (sp_time dp now), tr_DurationMs := elapsed div 1000000,
       tr_HeartbeatAt := sp_time dp now\<rparr>"

definition FinishTask ::
  "secret_deps \<Rightarrow> string \<Rightarrow> string \<Rightarrow> string \<Rightarrow> (string \<times> TableCount) list \<Rightarrow> duration \<Rightarrow> unit sweep" where
  "FinishTask dp i status cause summary elapsed =
     sweep_AtomExecute
       (bindE (ext_call (\<lambda>w. (Inr (), set_tasks (update_where (\<lambda>r. tr_TaskID r = i)
          (finish_row dp status cause summary elapsed (s_now w)) (sd_tasks (sdb w))) w))) (\<lambda>_.
        ext_call (\<lambda>w. (Inr (), if sd_lock (sdb w) = Some i then set_lock (Some []) w else w))))"

section \<open>Secret columns\<close>

definition rows_of :: "string \<Rightarrow> secret_db \<Rightarrow> secret_rows option" where
  "rows_of name d = map_of (sd_tables d) name"

definition after_cursor :: "pk option \<Rightarrow> pk \<times> string option \<Rightarrow> bool" where
  "after_cursor cursor r \<longleftrightarrow> (case cursor of None \<Rightarrow> True | Some c \<Rightarrow> c < fst r)"

definition page :: "pk option \<Rightarrow> nat \<Rightarrow> secret_rows \<Rightarrow> secret_rows" where
  "page cursor limit rs = take limit (sort_key fst (filter (after_cursor cursor) rs))"

text \<open>\<^verbatim>\<open>sql.NullString.String\<close>.\<close>

definition null_string :: "string option \<Rightarrow> string" where
  "null_string v = (case v of None \<Rightarrow> [] | Some s \<Rightarrow> s)"

definition row_ref :: "pk \<times> string option \<Rightarrow> RowRef" where
  "row_ref r = \<lparr>rr_PK = fst r, rr_Value = null_string (snd r)\<rparr>"

definition ListRows :: "SweepTable \<Rightarrow> pk option \<Rightarrow> nat \<Rightarrow> RowRef list sweep" where
  "ListRows t cursor limit =
     ext_call (\<lambda>w. (case rows_of (sw_Name t) (sdb w) of
         None \<Rightarrow> Inl ErrInfra
       | Some rs \<Rightarrow> Inr (map row_ref (page cursor limit rs)), w))"

definition set_value :: "pk \<Rightarrow> string \<Rightarrow> secret_rows \<Rightarrow> secret_rows" where
  "set_value k v rs = update_where (\<lambda>r. fst r = k) (\<lambda>r. (fst r, Some v)) rs"

definition set_rows :: "string \<Rightarrow> secret_rows \<Rightarrow> secret_world \<Rightarrow> secret_world" where
  "set_rows name rs w = w\<lparr>sdb := (sdb w)\<lparr>sd_tables := alist_set name rs (sd_tables (sdb w))\<rparr>\<rparr>"

definition RewriteRow :: "SweepTable \<Rightarrow> pk \<Rightarrow> string \<Rightarrow> unit sweep" where
  "RewriteRow t k v =
     ext_call (\<lambda>w. case rows_of (sw_Name t) (sdb w) of
         None \<Rightarrow> (Inl ErrInfra, w)
       | Some rs \<Rightarrow> (Inr (), set_rows (sw_Name t) (set_value k v rs) w))"

interpretation sweep_txn: txn_tables sdb "\<lambda>d w. w\<lparr>sdb := d\<rparr>"
  by unfold_locales simp_all

lemma fst_set_value [simp]: "map fst (set_value k v rs) = map fst rs"
  by (simp add: set_value_def update_where_def)

lemma rows_of_set_rows:
  "rows_of n (sdb (set_rows m rs w)) = (if n = m then Some rs else rows_of n (sdb w))"
  by (simp add: rows_of_def set_rows_def)

lemma rows_of_set_tasks [simp]:
  "rows_of n ((sdb w)\<lparr>sd_tasks := ts\<rparr>) = rows_of n (sdb w)"
  "rows_of n ((sdb w)\<lparr>sd_lock := l\<rparr>) = rows_of n (sdb w)"
  by (simp_all add: rows_of_def)

lemma set_page: "set (page cursor limit rs) \<subseteq> set rs"
  unfolding page_def by (auto dest!: in_set_takeD)

lemma page_after: "r \<in> set (page cursor limit rs) \<Longrightarrow> after_cursor cursor r"
  unfolding page_def by (auto dest!: in_set_takeD)

end
