(* ===== verification/SecretRing.thy ===== *)
theory SecretRing
  imports SecretStore
begin

text \<open>
  \<^verbatim>\<open>stateful/security.go\<close>: the keyring of the process for stored secrets, the one for exported files, their
  loading and reloading, and the check at start-up that ciphertext in the database has a keyring.
\<close>

section \<open>The ring for stored secrets\<close>

record SecurityConfig =
  sc_MasterKeyFile :: string
  sc_ActiveKeyID :: int
  sc_EncryptExports :: bool
  sc_ExportKeyFile :: string
  sc_ActiveExportKeyID :: int

definition loadSecretRing :: "secret_deps \<Rightarrow> SecurityConfig \<Rightarrow> unit sweep" where
  "loadSecretRing dp conf =
     (if sc_MasterKeyFile conf = [] then modifyE (\<lambda>w. w\<lparr>secretRing := None\<rparr>)
      else case LoadKeyringFile (sp_crypto dp) (sc_MasterKeyFile conf) of
        Inl e \<Rightarrow> throwE (ErrMsg ''security: load keyring'')
      | Inr k \<Rightarrow> modifyE (\<lambda>w. w\<lparr>secretRing := Some k\<rparr>))"

text \<open>The random bytes of one envelope.\<close>

definition nonce_of :: "secret_deps \<Rightarrow> nat \<Rightarrow> byte list" where
  "nonce_of dp i = map (sp_random dp i) [0..<nonceLen]"

definition draw_nonce :: "secret_deps \<Rightarrow> byte list sweep" where
  "draw_nonce dp = ext_call (\<lambda>w. (Inr (nonce_of dp (s_draws w)), w\<lparr>s_draws := Suc (s_draws w)\<rparr>))"

definition ring_Encrypt :: "secret_deps \<Rightarrow> Keyring \<Rightarrow> string \<Rightarrow> string sweep" where
  "ring_Encrypt dp k plaintext =
     bindE (draw_nonce dp) (\<lambda>n. lift_err (Keyring_Encrypt (sp_crypto dp) n k plaintext))"

definition EncryptIfEnabled :: "secret_deps \<Rightarrow> string \<Rightarrow> string sweep" where
  "EncryptIfEnabled dp v =
     bindE (getsE secretRing) (\<lambda>kr. case kr of None \<Rightarrow> returnE v | Some k \<Rightarrow> ring_Encrypt dp k v)"

definition DecryptIfEnabled :: "secret_deps \<Rightarrow> string \<Rightarrow> string sweep" where
  "DecryptIfEnabled dp v =
     bindE (getsE secretRing) (\<lambda>kr. case kr of
       None \<Rightarrow> returnE v | Some k \<Rightarrow> lift_err (Keyring_Decrypt (sp_crypto dp) k v))"

section \<open>The ring for exported files\<close>

definition no_export :: exportCrypto where
  "no_export = \<lparr>ec_kr = None, ec_activeID = 0, ec_enabled = False\<rparr>"

text \<open>\<^verbatim>\<open>uint8(conf.ActiveExportKeyID)\<close> keeps the low eight bits.\<close>

definition export_active :: "SecurityConfig \<Rightarrow> Keyring \<Rightarrow> byte" where
  "export_active conf k =
     (let i = (of_int (sc_ActiveExportKeyID conf) :: byte) in if i = 0 then ActiveID k else i)"

definition loadExportSecretRing :: "secret_deps \<Rightarrow> SecurityConfig \<Rightarrow> unit sweep" where
  "loadExportSecretRing dp conf =
     (if sc_ExportKeyFile conf = [] then
        if sc_EncryptExports conf then throwE (ErrMsg ''security: EncryptExports without ExportKeyFile'')
        else modifyE (\<lambda>w. w\<lparr>exportCryptoState := Some no_export\<rparr>)
      else case LoadKeyringFile (sp_crypto dp) (sc_ExportKeyFile conf) of
        Inl e \<Rightarrow>
          if sc_EncryptExports conf then throwE (ErrMsg ''security: export keyring is unusable'')
          else modifyE (\<lambda>w. w\<lparr>exportCryptoState := Some no_export\<rparr>)
      | Inr k \<Rightarrow>
          if \<not> HasKey k (export_active conf k) then throwE (ErrMsg ''security: ActiveExportKeyID not found'')
          else modifyE (\<lambda>w. w\<lparr>exportCryptoState := Some \<lparr>ec_kr = Some k,
                 ec_activeID = export_active conf k, ec_enabled = sc_EncryptExports conf\<rparr>\<rparr>))"

definition ExportCryptoEnabled :: "bool sweep" where
  "ExportCryptoEnabled =
     getsE (\<lambda>w. case exportCryptoState w of None \<Rightarrow> False | Some ec \<Rightarrow> ec_enabled ec)"

text \<open>An enabled state always has a ring.\<close>

definition ExportEncrypt :: "secret_deps \<Rightarrow> string \<Rightarrow> string sweep" where
  "ExportEncrypt dp plaintext =
     bindE (getsE exportCryptoState) (\<lambda>s. case s of
       None \<Rightarrow> throwE (ErrMsg ''security: export encryption not enabled'')
     | Some ec \<Rightarrow>
         if \<not> ec_enabled ec then throwE (ErrMsg ''security: export encryption not enabled'')
         else (case ec_kr ec of
                 None \<Rightarrow> throwE ErrKeyNotFound
               | Some k \<Rightarrow> lift_err (EncryptWithRawKey (sp_crypto dp) k plaintext (ec_activeID ec))))"

section \<open>Reloading\<close>

definition ring_size :: "int \<Rightarrow> Keyring option \<Rightarrow> int" where
  "ring_size d kr = (case kr of None \<Rightarrow> d | Some k \<Rightarrow> int (length (KeyIDs k)))"

definition export_ring :: "secret_world \<Rightarrow> Keyring option" where
  "export_ring w = (case exportCryptoState w of None \<Rightarrow> None | Some ec \<Rightarrow> ec_kr ec)"

text \<open>
  The numbers of the message, if there is one, and the error; a failure of the second ring comes with
  a message.
\<close>

definition ReloadSecurity ::
  "secret_deps \<Rightarrow> SecurityConfig \<Rightarrow> (secret_world, (int \<times> int \<times> int \<times> int) option \<times> error option) state" where
  "ReloadSecurity dp conf =
     State_Monad.bind (gets (\<lambda>w. ring_size (-1) (secretRing w))) (\<lambda>oldRules.
     State_Monad.bind (loadSecretRing dp conf) (\<lambda>r. case r of
       Inl e \<Rightarrow> State_Monad.return (None, Some e)
     | Inr _ \<Rightarrow>
         State_Monad.bind (gets (\<lambda>w. (ring_size 0 (secretRing w), ring_size (-1) (export_ring w)))) (\<lambda>(newKeys, oldExpKeys).
         State_Monad.bind (loadExportSecretRing dp conf) (\<lambda>r2.
         State_Monad.bind (gets (\<lambda>w. ring_size 0 (export_ring w))) (\<lambda>newExpKeys.
           State_Monad.return (Some (oldRules, newKeys, oldExpKeys, newExpKeys),
             case r2 of Inl e \<Rightarrow> Some (ErrMsg ''security: export keyring reload failed'') | Inr _ \<Rightarrow> None))))))"

section \<open>The check at start-up\<close>

text \<open>\<^verbatim>\<open>SELECT 1 FROM t WHERE c LIKE 'enc$v1$%' LIMIT 1\<close>; NULL matches nothing.\<close>

definition ciphertext_in :: "string \<Rightarrow> bool sweep" where
  "ciphertext_in name =
     ext_call (\<lambda>w. (case rows_of name (sdb w) of
         None \<Rightarrow> Inl ErrInfra
       | Some rs \<Rightarrow> Inr (list_ex (\<lambda>r. case snd r of None \<Rightarrow> False | Some v \<Rightarrow> IsEncrypted v) rs), w))"

definition anyCiphertextPresent :: "bool sweep" where
  "anyCiphertextPresent =
     bindE (ciphertext_in ''providers'') (\<lambda>found. if found then returnE True else ciphertext_in ''api_keys'')"

definition CheckSecretAtRest :: "unit sweep" where
  "CheckSecretAtRest =
     State_Monad.bind anyCiphertextPresent (\<lambda>r. case r of
       Inl e \<Rightarrow> throwE (ErrMsg ''security: check ciphertext presence'')
     | Inr has \<Rightarrow> bindE (getsE secretRing) (\<lambda>kr.
         if has \<and> kr = None then throwE (ErrMsg ''security: database holds encrypted secrets but no keyring'')
         else returnE ()))"

lemma length_nonce_of [simp]: "length (nonce_of dp i) = nonceLen"
  by (simp add: nonce_of_def)

end
