(* ===== verification/KeyRotate.thy ===== *)
theory KeyRotate
  imports SecretRing
begin

text \<open>
  \<^verbatim>\<open>model/keyrotate/manager.go\<close>: a sweep walks the secret columns page by page and rewrites every
  value that is not in the target form, each page in a transaction together with the progress of the task. Without
  a transaction factory (a path of the tests) nothing is modelled.
\<close>

section \<open>One value\<close>

definition decryptWith :: "secret_deps \<Rightarrow> Keyring option \<Rightarrow> string \<Rightarrow> error + string" where
  "decryptWith dp kr v = (case kr of None \<Rightarrow> Inr v | Some k \<Rightarrow> Keyring_Decrypt (sp_crypto dp) k v)"

text \<open>The new value and whether to skip the row.\<close>

definition transform :: "secret_deps \<Rightarrow> SweepTask \<Rightarrow> string \<Rightarrow> (string \<times> bool) sweep" where
  "transform dp task v =
     bindE (getsE secretRing) (\<lambda>kr.
       if st_Mode task = ''decrypt'' then
         if \<not> IsEncrypted v then returnE ([], True)
         else bindE (lift_err (decryptWith dp kr v)) (\<lambda>pt. returnE (pt, False))
       else if IsEncrypted v \<and> kr \<noteq> None \<and> KeyIDOf v = map_option ActiveID kr then returnE ([], True)
       else bindE (lift_err (decryptWith dp kr v)) (\<lambda>pt. case kr of
              None \<Rightarrow> returnE ([], True)
            | Some k \<Rightarrow> bindE (ring_Encrypt dp k pt) (\<lambda>ct. returnE (ct, False))))"

section \<open>One page\<close>

definition count_skipped :: "secret_world \<Rightarrow> secret_world" where
  "count_skipped w = w\<lparr>s_cnt := (s_cnt w)\<lparr>tc_Skipped := tc_Skipped (s_cnt w) + 1\<rparr>\<rparr>"

definition count_rewritten :: "secret_world \<Rightarrow> secret_world" where
  "count_rewritten w =
     w\<lparr>s_cnt := (s_cnt w)\<lparr>tc_Rewritten := tc_Rewritten (s_cnt w) + 1\<rparr>, s_rew := s_rew w + 1\<rparr>"

fun rewrite_rows :: "secret_deps \<Rightarrow> SweepTask \<Rightarrow> SweepTable \<Rightarrow> RowRef list \<Rightarrow> unit sweep" where
  "rewrite_rows dp task tbl [] = returnE ()"
| "rewrite_rows dp task tbl (row # rest) =
     State_Monad.bind (transform dp task (rr_Value row)) (\<lambda>r. case r of
       Inl e \<Rightarrow> throwE (ErrMsg ''decrypt fail'')
     | Inr (target, skip) \<Rightarrow>
         if skip then bindE (modifyE count_skipped) (\<lambda>_. rewrite_rows dp task tbl rest)
         else if st_DryRun task then bindE (modifyE count_rewritten) (\<lambda>_. rewrite_rows dp task tbl rest)
         else bindE (RewriteRow tbl (rr_PK row) target) (\<lambda>_.
                bindE (modifyE count_rewritten) (\<lambda>_. rewrite_rows dp task tbl rest)))"

text \<open>The closure \<^verbatim>\<open>core\<close>; its deferred call records the progress whatever happened before.\<close>

definition batch_core :: "secret_deps \<Rightarrow> SweepTask \<Rightarrow> SweepTable \<Rightarrow> RowRef list \<Rightarrow> unit sweep" where
  "batch_core dp task tbl rs =
     State_Monad.bind (rewrite_rows dp task tbl rs) (\<lambda>r.
     State_Monad.bind (gets s_rew) (\<lambda>rew.
     State_Monad.bind (AddProgress dp (st_TaskID task) (int (length rs)) rew) (\<lambda>_.
       State_Monad.return r)))"

definition execBatchOnce :: "secret_deps \<Rightarrow> SweepTask \<Rightarrow> SweepTable \<Rightarrow> RowRef list \<Rightarrow> unit sweep" where
  "execBatchOnce dp task tbl rs =
     bindE (modifyE (\<lambda>w. w\<lparr>s_rew := 0\<rparr>)) (\<lambda>_. sweep_AtomExecute (batch_core dp task tbl rs))"

fun batch_attempts :: "nat \<Rightarrow> secret_deps \<Rightarrow> SweepTask \<Rightarrow> SweepTable \<Rightarrow> RowRef list \<Rightarrow> error \<Rightarrow> unit sweep" where
  "batch_attempts 0 dp task tbl rs lastErr = throwE (ErrMsg ''rewrite batch'')"
| "batch_attempts (Suc n) dp task tbl rs lastErr =
     State_Monad.bind (execBatchOnce dp task tbl rs) (\<lambda>r. case r of
       Inr _ \<Rightarrow> returnE () | Inl e \<Rightarrow> batch_attempts n dp task tbl rs e)"

definition defaultMaxBatchAttempts :: nat where "defaultMaxBatchAttempts = 3"

definition execBatch :: "secret_deps \<Rightarrow> SweepTask \<Rightarrow> SweepTable \<Rightarrow> RowRef list \<Rightarrow> unit sweep" where
  "execBatch dp task tbl rs = batch_attempts defaultMaxBatchAttempts dp task tbl rs ErrInfra"

section \<open>One table\<close>

text \<open>The unbounded loop of \<^verbatim>\<open>sweepTable\<close>; \<open>None\<close> would be a loop that never ends.\<close>

partial_function (option) sweep_pages ::
  "secret_deps \<Rightarrow> SweepTask \<Rightarrow> SweepTable \<Rightarrow> pk option \<Rightarrow> secret_world \<Rightarrow> (error option \<times> secret_world) option" where
  "sweep_pages dp task tbl cursor w =
     (case run_state (ListRows tbl cursor (sp_batchSize dp)) w of
        (Inl e, w1) \<Rightarrow> Some (Some (ErrMsg ''scan''), w1)
      | (Inr rs, w1) \<Rightarrow>
          if rs = [] then Some (None, w1)
          else (case run_state (execBatch dp task tbl rs) w1 of
                  (Inl e, w2) \<Rightarrow> Some (Some e, w2)
                | (Inr _, w2) \<Rightarrow> sweep_pages dp task tbl (Some (rr_PK (List.last rs))) w2))"

definition zero_count :: TableCount where
  "zero_count = \<lparr>tc_Scanned = 0, tc_Rewritten = 0, tc_Skipped = 0\<rparr>"

definition sweepTable ::
  "secret_deps \<Rightarrow> SweepTask \<Rightarrow> SweepTable \<Rightarrow> secret_world \<Rightarrow> ((TableCount \<times> error option) \<times> secret_world) option" where
  "sweepTable dp task tbl w =
     map_option (\<lambda>(e, w'). ((s_cnt w', e), w')) (sweep_pages dp task tbl None (w\<lparr>s_cnt := zero_count\<rparr>))"

section \<open>One task\<close>

fun sweep_tables ::
  "secret_deps \<Rightarrow> SweepTask \<Rightarrow> SweepTable list \<Rightarrow> (string \<times> TableCount) list \<Rightarrow> error option \<Rightarrow> secret_world \<Rightarrow>
   ((string \<times> TableCount) list \<times> error option \<times> secret_world) option" where
  "sweep_tables dp task [] summary firstErr w = Some (summary, firstErr, w)"
| "sweep_tables dp task (tbl # tbls) summary firstErr w =
     (case sweepTable dp task tbl w of
        None \<Rightarrow> None
      | Some ((cnt, e), w') \<Rightarrow>
          sweep_tables dp task tbls (alist_set (sw_Name tbl) cnt summary)
            (if e \<noteq> None \<and> firstErr = None then e else firstErr) w')"

text \<open>\<^verbatim>\<open>err.Error()\<close> for the errors of a sweep.\<close>

fun error_text :: "error \<Rightarrow> string" where
  "error_text (ErrMsg s) = s"
| "error_text _ = ''infrastructure''"

definition outcome :: "SweepTask \<Rightarrow> error option \<Rightarrow> string \<times> string" where
  "outcome task firstErr =
     (let (status, cause) = (case firstErr of
            None \<Rightarrow> (''succeeded'', []) | Some e \<Rightarrow> (''failed'', error_text e))
      in (status, if st_DryRun task then ''dry_run'' else cause))"

text \<open>\<open>elapsed\<close> is the measured duration. A failure to finish the task is only logged.\<close>

definition run_task :: "secret_deps \<Rightarrow> SweepTask \<Rightarrow> duration \<Rightarrow> secret_world \<Rightarrow> secret_world option" where
  "run_task dp task elapsed w =
     (case sweep_tables dp task (TablesForScope (st_Scope task)) [] None w of
        None \<Rightarrow> None
      | Some (summary, firstErr, w') \<Rightarrow>
          (let (status, cause) = outcome task firstErr
           in Some (snd (run_state (FinishTask dp (st_TaskID task) status cause summary elapsed) w'))))"

section \<open>Triggering\<close>

definition sweep_mode :: "string \<Rightarrow> string" where
  "sweep_mode m = (if m = [] then ''reencrypt'' else m)"

definition sweep_scope :: "string \<Rightarrow> string" where
  "sweep_scope s = (if s = [] then ''all'' else s)"

definition new_task :: "string \<Rightarrow> string \<Rightarrow> bool \<Rightarrow> string \<Rightarrow> string \<Rightarrow> secret_world \<Rightarrow> SweepTask" where
  "new_task uuid mode dryRun scope operator w =
     \<lparr>st_TaskID = ''rsp-'' @ take 20 uuid, st_Status = ''running'', st_Mode = mode, st_DryRun = dryRun,
      st_Scope = scope,
      st_ActiveKeyID = (if mode \<noteq> ''decrypt'' then case secretRing w of None \<Rightarrow> 0 | Some k \<Rightarrow> uint (ActiveID k) else 0),
      st_Scanned = 0, st_Rewritten = 0, st_StartedAt = s_now w, st_FinishedAt = None, st_DurationMs = 0,
      st_FailedCause = [], st_Summary = None, st_HeartbeatAt = s_now w, st_CreatedBy = operator\<rparr>"

definition conflict_task :: "string \<Rightarrow> SweepTask" where
  "conflict_task holder =
     \<lparr>st_TaskID = holder, st_Status = ''running'', st_Mode = [], st_DryRun = False, st_Scope = [],
      st_ActiveKeyID = 0, st_Scanned = 0, st_Rewritten = 0, st_StartedAt = 0, st_FinishedAt = None,
      st_DurationMs = 0, st_FailedCause = [], st_Summary = None, st_HeartbeatAt = 0, st_CreatedBy = []\<rparr>"

text \<open>The task, if one is returned, and the error. The new task runs on its own (\<open>run_task\<close>).\<close>

definition Trigger ::
  "secret_deps \<Rightarrow> string \<Rightarrow> string \<Rightarrow> bool \<Rightarrow> string \<Rightarrow> string \<Rightarrow>
   (secret_world, SweepTask option \<times> error option) state" where
  "Trigger dp uuid mode0 dryRun scope0 operator =
     (let mode = sweep_mode mode0; scope = sweep_scope scope0 in
      if mode \<noteq> ''reencrypt'' \<and> mode \<noteq> ''decrypt''
      then State_Monad.return (None, Some (ErrMsg ''invalid mode''))
      else if scope \<noteq> ''all'' \<and> scope \<noteq> ''providers'' \<and> scope \<noteq> ''api_keys''
      then State_Monad.return (None, Some (ErrMsg ''invalid scope''))
      else State_Monad.bind (gets (new_task uuid mode dryRun scope operator)) (\<lambda>task.
        State_Monad.bind (AcquireTask dp task) (\<lambda>r. State_Monad.return (case r of
          Inr _ \<Rightarrow> (Some task, None)
        | Inl (ErrConflict holder) \<Rightarrow> (Some (conflict_task holder), Some (ErrConflict holder))
        | Inl e \<Rightarrow> (None, Some e)))))"

end
