(* ===== verification/SweepSafety.thy ===== *)
theory SweepSafety
  imports KeyRotate
begin

text \<open>
  What holds of a sweep whatever fails: it ends, because the cursor of every page is above the
  last one, and it never changes what a secret decrypts to.
\<close>

section \<open>Primary keys\<close>

definition keys_of :: "string \<Rightarrow> secret_db \<Rightarrow> pk list option" where
  "keys_of t d = map_option (map fst) (rows_of t d)"

definition same_keys :: "secret_db \<Rightarrow> secret_world \<Rightarrow> bool" where
  "same_keys d w \<longleftrightarrow> (\<forall>t. keys_of t (sdb w) = keys_of t d)"

lemma same_keys_fun: "same_keys d = (\<lambda>w. \<forall>t. keys_of t (sdb w) = keys_of t d)"
  by (rule ext) (simp add: same_keys_def)

lemma fault_free_same_keys: "fault_free (same_keys d)"
  by (simp add: fault_free_def same_keys_def)

lemma keys_of_simps [simp]:
  "keys_of t ((sdb w)\<lparr>sd_tasks := ts\<rparr>) = keys_of t (sdb w)"
  "keys_of t ((sdb w)\<lparr>sd_lock := l\<rparr>) = keys_of t (sdb w)"
  by (simp_all add: keys_of_def)

lemma keys_of_set_value:
  "rows_of n (sdb w) = Some rs \<Longrightarrow> keys_of t (sdb (set_rows n (set_value k v rs) w)) = keys_of t (sdb w)"
  by (simp add: keys_of_def rows_of_set_rows)

lemma keeps_keys_calls [keeps_rules]:
  "keeps (same_keys d) (RewriteRow tbl k v)"
  "keeps (same_keys d) (AddProgress dp i x y)"
  "keeps (same_keys d) (ListRows tbl c n)"
  "keeps (same_keys d) (draw_nonce dp)"
  unfolding RewriteRow_def AddProgress_def ListRows_def draw_nonce_def
  by (rule keeps_ext_call [OF fault_free_same_keys];
      auto simp: same_keys_def set_tasks_def keys_of_set_value split: option.splits)+

lemma keeps_keys_transform [keeps_rules]: "keeps (same_keys d) (transform dp task v)"
  unfolding transform_def ring_Encrypt_def by (auto intro!: keeps_rules)

lemma keeps_keys_modify [keeps_rules]:
  "keeps (same_keys d) (modifyE count_skipped)" "keeps (same_keys d) (modifyE count_rewritten)"
  by (rule keeps_modifyE; simp add: same_keys_def count_skipped_def count_rewritten_def)+

lemma keeps_keys_rewrite_rows [keeps_rules]: "keeps (same_keys d) (rewrite_rows dp task tbl rs)"
  by (induction rs) (auto intro!: keeps_rules)

lemma keeps_keys_txn [keeps_rules]: "keeps (same_keys d) body \<Longrightarrow> keeps (same_keys d) (sweep_AtomExecute body)"
  unfolding same_keys_fun sweep_AtomExecute_def
  by (rule sweep_txn.keeps_txn [where P = "\<lambda>x. \<forall>t. keys_of t x = keys_of t d"])

lemma keeps_keys_execBatch: "keeps (same_keys d) (execBatch dp task tbl rs)"
proof -
  have core: "keeps (same_keys d) (batch_core dp task tbl rs)"
    unfolding batch_core_def by (auto intro!: keeps_rules)
  have once: "keeps (same_keys d) (execBatchOnce dp task tbl rs)"
    unfolding execBatchOnce_def by (auto intro!: keeps_rules keeps_modifyE core simp: same_keys_def)
  have "keeps (same_keys d) (batch_attempts n dp task tbl rs e)" for n e
    by (induction n arbitrary: e) (auto intro!: keeps_rules once)
  then show ?thesis by (simp add: execBatch_def)
qed

section \<open>Termination\<close>

definition remaining :: "secret_db \<Rightarrow> SweepTable \<Rightarrow> pk option \<Rightarrow> pk set" where
  "remaining d tbl c =
     {k \<in> set (case keys_of (sw_Name tbl) d of None \<Rightarrow> [] | Some ks \<Rightarrow> ks). case c of None \<Rightarrow> True | Some x \<Rightarrow> x < k}"

lemma finite_remaining [simp]: "finite (remaining d tbl c)"
  unfolding remaining_def by (rule finite_subset [OF _ finite_set]) blast

lemma ListRows_Inr:
  assumes "run_state (ListRows tbl c n) w = (Inr rs, w1)"
  obtains rows where "rows_of (sw_Name tbl) (sdb w) = Some rows" "rs = map row_ref (page c n rows)"
    "sdb w1 = sdb w"
proof -
  obtain fs where "(case rows_of (sw_Name tbl) (sdb w) of None \<Rightarrow> Inl ErrInfra
      | Some rs \<Rightarrow> Inr (map row_ref (page c n rs)), w\<lparr>faults := fs\<rparr>) = (Inr rs, w1)"
    using ext_call_Inr [OF assms [unfolded ListRows_def]] by auto
  then show thesis using that by (auto split: option.splits)
qed

lemma remaining_decreases:
  assumes "same_keys d w" "run_state (ListRows tbl c n) w = (Inr rs, w1)" "rs \<noteq> []"
  shows "remaining d tbl (Some (rr_PK (last rs))) \<subset> remaining d tbl c"
proof -
  obtain rows where r: "rows_of (sw_Name tbl) (sdb w) = Some rows" "rs = map row_ref (page c n rows)"
    using ListRows_Inr [OF assms(2)] by metis
  define x where "x = last (page c n rows)"
  have x: "x \<in> set (page c n rows)" "rr_PK (last rs) = fst x"
    using assms(3) r by (auto simp: x_def last_map row_ref_def)
  have ks: "keys_of (sw_Name tbl) d = Some (map fst rows)"
    using assms(1) r(1) unfolding same_keys_def keys_of_def by (metis option.simps(9))
  have after: "after_cursor c x" and "x \<in> set rows"
    using page_after [OF x(1)] x(1) set_page by blast+
  then have "fst x \<in> remaining d tbl c"
    using ks by (auto simp: remaining_def after_cursor_def)
  moreover have "fst x \<notin> remaining d tbl (Some (fst x))" by (simp add: remaining_def)
  moreover have "remaining d tbl (Some (fst x)) \<subseteq> remaining d tbl c"
    using after by (auto simp: remaining_def after_cursor_def split: option.splits)
  ultimately show ?thesis using x(2) by auto
qed

lemma sweep_pages_terminates:
  "same_keys d w \<Longrightarrow> \<exists>e w'. sweep_pages dp task tbl c w = Some (e, w')"
proof (induction "card (remaining d tbl c)" arbitrary: c w rule: less_induct)
  case less
  obtain r w1 where l: "run_state (ListRows tbl c (sp_batchSize dp)) w = (r, w1)" by fastforce
  have k1: "same_keys d w1" using keepsD_run [OF keeps_keys_calls(3) less.prems l] .
  show ?case
  proof (cases r)
    case (Inl e)
    then show ?thesis using l by (subst sweep_pages.simps) simp
  next
    case r: (Inr rs)
    show ?thesis
    proof (cases "rs = []")
      case True
      then show ?thesis using l r by (subst sweep_pages.simps) simp
    next
      case False
      obtain r2 w2 where b: "run_state (execBatch dp task tbl rs) w1 = (r2, w2)" by fastforce
      have k2: "same_keys d w2" using keepsD_run [OF keeps_keys_execBatch k1 b] .
      have "card (remaining d tbl (Some (rr_PK (last rs)))) < card (remaining d tbl c)"
        using remaining_decreases [OF less.prems] l r False by (simp add: psubset_card_mono)
      from less.hyps [OF this k2] show ?thesis
        using l r b False by (subst sweep_pages.simps) (auto split: sum.splits)
    qed
  qed
qed

lemma sweepTable_terminates: "\<exists>cnt e w'. sweepTable dp task tbl w = Some ((cnt, e), w')"
proof -
  have "same_keys (sdb w) (w\<lparr>s_cnt := zero_count\<rparr>)" by (simp add: same_keys_def)
  from sweep_pages_terminates [OF this] show ?thesis by (fastforce simp: sweepTable_def)
qed

lemma sweep_tables_terminates: "\<exists>s e w'. sweep_tables dp task tbls summary f w = Some (s, e, w')"
proof (induction tbls arbitrary: summary f w)
  case (Cons tbl tbls)
  obtain cnt e w' where "sweepTable dp task tbl w = Some ((cnt, e), w')"
    using sweepTable_terminates by blast
  then show ?case using Cons by simp
qed simp


lemma run_task_terminates: "\<exists>w'. run_task dp task elapsed w = Some w'"
proof -
  obtain s e w1 where "sweep_tables dp task (TablesForScope (st_Scope task)) [] None w = Some (s, e, w1)"
    using sweep_tables_terminates by blast
  then show ?thesis by (simp add: run_task_def split_beta)
qed

section \<open>Secrets are kept\<close>

text \<open>\<open>S t k p\<close>: the secret of key \<open>k\<close> in table \<open>t\<close> is \<open>p\<close>. Rows that do not decrypt have no secret.\<close>

definition table_keeps ::
  "secret_deps \<Rightarrow> Keyring \<Rightarrow> (string \<Rightarrow> pk \<Rightarrow> string \<Rightarrow> bool) \<Rightarrow> secret_db \<Rightarrow> bool" where
  "table_keeps dp k S d \<longleftrightarrow>
     (\<forall>t rs. rows_of t d = Some rs \<longrightarrow>
        (\<forall>r \<in> set rs. \<forall>p. S t (fst r) p \<longrightarrow> Keyring_Decrypt (sp_crypto dp) k (null_string (snd r)) = Inr p))"

definition secrets_kept ::
  "secret_deps \<Rightarrow> Keyring \<Rightarrow> (string \<Rightarrow> pk \<Rightarrow> string \<Rightarrow> bool) \<Rightarrow> secret_world \<Rightarrow> bool" where
  "secrets_kept dp k S w \<longleftrightarrow> table_keeps dp k S (sdb w) \<and> secretRing w = Some k"

definition refs_kept ::
  "secret_deps \<Rightarrow> Keyring \<Rightarrow> (string \<Rightarrow> pk \<Rightarrow> string \<Rightarrow> bool) \<Rightarrow> string \<Rightarrow> RowRef list \<Rightarrow> bool" where
  "refs_kept dp k S t rs \<longleftrightarrow>
     (\<forall>r \<in> set rs. \<forall>p. S t (rr_PK r) p \<longrightarrow> Keyring_Decrypt (sp_crypto dp) k (rr_Value r) = Inr p)"

lemma fault_free_secrets_kept: "fault_free (secrets_kept dp k S)"
  by (simp add: fault_free_def secrets_kept_def)

lemma ring_Encrypt_Inr:
  assumes "run_state (ring_Encrypt dp k p) w = (Inr ct, w')"
  obtains i where "Keyring_Encrypt (sp_crypto dp) (nonce_of dp i) k p = Inr ct"
proof -
  obtain r w1 where d: "run_state (draw_nonce dp) w = (r, w1)" by fastforce
  then obtain n where n: "r = Inr n" "Keyring_Encrypt (sp_crypto dp) n k p = Inr ct"
    using assms by (auto simp: ring_Encrypt_def split: sum.splits)
  with d obtain i where "n = nonce_of dp i"
    unfolding draw_nonce_def using ext_call_Inr by fastforce
  with n(2) that show thesis by simp
qed

text \<open>A rewritten value decrypts to what the old one decrypts to.\<close>

lemma transform_keeps_plaintext:
  assumes "run_state (transform dp task v) w = (Inr (t, False), w')"
    and ring: "secretRing w = Some k" "wf_keyring k"
    and p: "Keyring_Decrypt (sp_crypto dp) k v = Inr p"
    and plain: "st_Mode task = ''decrypt'' \<Longrightarrow> \<not> IsEncrypted p"
  shows "Keyring_Decrypt (sp_crypto dp) k t = Inr p"
proof (cases "st_Mode task = ''decrypt''")
  case True
  then have "t = p" using assms(1) ring p by (auto simp: transform_def decryptWith_def split: if_splits)
  then show ?thesis using plain True by (simp add: Keyring_Decrypt_plain)
next
  case False
  then obtain ct w1 where "run_state (ring_Encrypt dp k p) w = (Inr ct, w1)" "t = ct"
    using assms(1) ring(1) p
    by (auto simp: transform_def decryptWith_def split: if_splits prod.splits sum.splits)
  then obtain i where "Keyring_Encrypt (sp_crypto dp) (nonce_of dp i) k p = Inr t"
    using ring_Encrypt_Inr by metis
  moreover obtain u where "Keyring_Encrypt (sp_crypto dp) (nonce_of dp i) k p = Inr u"
    "Keyring_Decrypt (sp_crypto dp) k u = Inr p"
    using Keyring_Encrypt_spec [OF ring(2) length_nonce_of] by metis
  ultimately show ?thesis by simp
qed

lemma table_keeps_set_value:
  assumes "table_keeps dp k S (sdb w)" "rows_of t (sdb w) = Some rs"
    and "\<And>p. S t key p \<Longrightarrow> Keyring_Decrypt (sp_crypto dp) k v = Inr p"
  shows "table_keeps dp k S (sdb (set_rows t (set_value key v rs) w))"
  using assms
  by (fastforce simp: table_keeps_def rows_of_set_rows set_value_def in_update_where null_string_def
    split: if_splits)

lemma keeps_secrets_calls:
  "keeps (secrets_kept dp k S) (AddProgress dp' i x y)"
  "keeps (secrets_kept dp k S) (ListRows tbl c n)"
  "keeps (secrets_kept dp k S) (draw_nonce dp')"
  "keeps (secrets_kept dp k S) (modifyE count_skipped)"
  "keeps (secrets_kept dp k S) (modifyE count_rewritten)"
  unfolding AddProgress_def ListRows_def draw_nonce_def
  by (rule keeps_ext_call [OF fault_free_secrets_kept] keeps_modifyE;
      auto simp: secrets_kept_def table_keeps_def set_tasks_def count_skipped_def count_rewritten_def
        split: option.splits)+

lemma keeps_secrets_RewriteRow:
  assumes "\<And>p. S (sw_Name tbl) key p \<Longrightarrow> Keyring_Decrypt (sp_crypto dp) k v = Inr p"
  shows "keeps (secrets_kept dp k S) (RewriteRow tbl key v)"
  unfolding RewriteRow_def
  by (rule keeps_ext_call [OF fault_free_secrets_kept])
     (auto simp: secrets_kept_def assms table_keeps_set_value set_rows_def
        intro: table_keeps_set_value [unfolded set_rows_def, simplified] split: option.splits)

lemma keeps_secrets_transform: "keeps (secrets_kept dp k S) (transform dp task v)"
  unfolding transform_def ring_Encrypt_def by (auto intro!: keeps_rules keeps_secrets_calls)

text \<open>The modes in which no secret of \<open>S\<close> can be taken for an envelope.\<close>

definition plain_safe :: "SweepTask \<Rightarrow> (string \<Rightarrow> pk \<Rightarrow> string \<Rightarrow> bool) \<Rightarrow> bool" where
  "plain_safe task S \<longleftrightarrow> (st_Mode task = ''decrypt'' \<longrightarrow> (\<forall>t k p. S t k p \<longrightarrow> \<not> IsEncrypted p))"

lemma keeps_secrets_rewrite_rows:
  assumes wf: "wf_keyring k" and safe: "plain_safe task S" and "refs_kept dp k S (sw_Name tbl) rs"
  shows "keeps (secrets_kept dp k S) (rewrite_rows dp task tbl rs)"
  using assms(3)
proof (induction rs)
  case (Cons row rs)
  let ?I = "secrets_kept dp k S"
  have IH: "keeps ?I (rewrite_rows dp task tbl rs)" using Cons by (simp add: refs_kept_def)
  have rewrite: "keeps ?I (RewriteRow tbl (rr_PK row) t)"
    if "run_state (transform dp task (rr_Value row)) w = (Inr (t, False), w')" "?I w" for t w w'
  proof (rule keeps_secrets_RewriteRow)
    fix p assume S: "S (sw_Name tbl) (rr_PK row) p"
    then have "Keyring_Decrypt (sp_crypto dp) k (rr_Value row) = Inr p"
      using Cons.prems by (simp add: refs_kept_def)
    then show "Keyring_Decrypt (sp_crypto dp) k t = Inr p"
      using transform_keeps_plaintext [OF that(1) _ wf] that(2) safe S
      by (auto simp: secrets_kept_def plain_safe_def)
  qed
  show ?case
  proof (rule keepsI)
    fix w assume I: "?I w"
    obtain r w1 where t: "run_state (transform dp task (rr_Value row)) w = (r, w1)" by fastforce
    have I1: "?I w1" using keepsD_run [OF keeps_secrets_transform I t] .
    have tail: "keeps ?I (bindE (modifyE f) (\<lambda>_. rewrite_rows dp task tbl rs))"
      if "f = count_skipped \<or> f = count_rewritten" for f
      using that IH by (auto intro!: keeps_rules keeps_secrets_calls)
    show "?I (snd (run_state (rewrite_rows dp task tbl (row # rs)) w))"
    proof (cases r)
      case (Inl e)
      then show ?thesis using t I1 by simp
    next
      case (Inr x)
      obtain target skip where x: "x = (target, skip)" by fastforce
      have "keeps ?I (bindE (RewriteRow tbl (rr_PK row) target) (\<lambda>_.
          bindE (modifyE count_rewritten) (\<lambda>_. rewrite_rows dp task tbl rs)))" if "\<not> skip"
        using rewrite [of w target w1] t I Inr x that by (auto intro!: keeps_bindE [OF _ tail])
      then show ?thesis
        using t Inr x keepsD [OF tail I1] keepsD [of ?I _ w1, OF _ I1] by (auto simp del: run_bindE run_modifyE)
    qed
  qed
qed (simp add: keeps_returnE)

lemma keeps_secrets_execBatch:
  assumes "wf_keyring k" "plain_safe task S" "refs_kept dp k S (sw_Name tbl) rs"
  shows "keeps (secrets_kept dp k S) (execBatch dp task tbl rs)"
proof -
  let ?I = "secrets_kept dp k S"
  have core: "keeps ?I (batch_core dp task tbl rs)"
    unfolding batch_core_def
    by (intro keeps_rules keeps_secrets_calls keeps_secrets_rewrite_rows assms)
  have txn: "keeps ?I (sweep_AtomExecute (batch_core dp task tbl rs))"
    using sweep_txn.keeps_txn_with [where P = "table_keeps dp k S" and R = "\<lambda>w. secretRing w = Some k"] core
    by (simp add: sweep_AtomExecute_def secrets_kept_def [abs_def] fault_free_def)
  have "keeps ?I (batch_attempts n dp task tbl rs e)" for n e
    by (induction n arbitrary: e)
       (auto intro!: keeps_rules keeps_modifyE txn simp: execBatchOnce_def secrets_kept_def)
  then show ?thesis by (simp add: execBatch_def)
qed

lemma refs_kept_ListRows:
  assumes "secrets_kept dp k S w" "run_state (ListRows tbl c n) w = (Inr rs, w1)"
  shows "refs_kept dp k S (sw_Name tbl) rs"
proof -
  obtain rows where "rows_of (sw_Name tbl) (sdb w) = Some rows" "rs = map row_ref (page c n rows)"
    using ListRows_Inr [OF assms(2)] by metis
  then show ?thesis
    using assms(1) set_page [of c n rows]
    by (fastforce simp: refs_kept_def secrets_kept_def table_keeps_def row_ref_def)
qed

text \<open>An invariant of reading a page and of running the batch that was read is one of the loop.\<close>

lemma sweep_pages_keeps:
  assumes list: "\<And>c. keeps I (ListRows tbl c (sp_batchSize dp))"
    and batch: "\<And>c w rs w1. I w \<Longrightarrow> run_state (ListRows tbl c (sp_batchSize dp)) w = (Inr rs, w1) \<Longrightarrow>
      keeps I (execBatch dp task tbl rs)"
  shows "I w \<Longrightarrow> sweep_pages dp task tbl c w = Some (e, w') \<Longrightarrow> I w'"
proof -
  let ?P = "\<lambda>dp' task' tbl' c w ew. dp' = dp \<longrightarrow> task' = task \<longrightarrow> tbl' = tbl \<longrightarrow> I w \<longrightarrow> I (snd ew)"
  have "?P dp task tbl c w ew" if "sweep_pages dp task tbl c w = Some ew" for c w ew
  proof (rule sweep_pages.raw_induct [where P = "?P", OF _ that], intro impI)
    fix f dp' task' tbl' c w ew
    assume IH: "\<And>dp' task' tbl' c w ew. f dp' task' tbl' c w = Some ew \<Longrightarrow> ?P dp' task' tbl' c w ew"
      and run: "(case run_state (ListRows tbl' c (sp_batchSize dp')) w of
        (Inl e, w1) \<Rightarrow> Some (Some (ErrMsg ''scan''), w1)
      | (Inr rs, w1) \<Rightarrow>
          if rs = [] then Some (None, w1)
          else (case run_state (execBatch dp' task' tbl' rs) w1 of
                  (Inl e, w2) \<Rightarrow> Some (Some e, w2)
                | (Inr _, w2) \<Rightarrow> f dp' task' tbl' (Some (rr_PK (last rs))) w2)) = Some ew"
      and eq: "dp' = dp" "task' = task" "tbl' = tbl" and "I w"
    obtain r w1 where l: "run_state (ListRows tbl c (sp_batchSize dp)) w = (r, w1)" by fastforce
    have I1: "I w1" using keepsD_run [OF list \<open>I w\<close> l] .
    show "I (snd ew)"
    proof (cases r)
      case (Inl a)
      then show ?thesis using run l I1 eq by auto
    next
      case r: (Inr rs)
      obtain r2 w2 where b: "run_state (execBatch dp task tbl rs) w1 = (r2, w2)" by fastforce
      have "I w2" using keepsD_run [OF batch [OF \<open>I w\<close> l [unfolded r]] I1 b] .
      show ?thesis
      proof (cases "rs = []")
        case True
        then show ?thesis using run l r eq I1 by auto
      next
        case False
        show ?thesis
        proof (cases r2)
          case (Inl a)
          then show ?thesis using run l r eq b False \<open>I w2\<close> by auto
        next
          case (Inr u)
          then have "f dp task tbl (Some (rr_PK (last rs))) w2 = Some ew" using run l r eq b False by simp
          then show ?thesis using IH \<open>I w2\<close> by blast
        qed
      qed
    qed
  qed
  then show "I w \<Longrightarrow> sweep_pages dp task tbl c w = Some (e, w') \<Longrightarrow> I w'" by fastforce
qed

lemma keeps_secrets_FinishTask: "keeps (secrets_kept dp k S) (FinishTask dp' i status cause summary elapsed)"
proof -
  let ?body = "bindE (ext_call (\<lambda>w. (Inr (), set_tasks (update_where (\<lambda>r. tr_TaskID r = i)
          (finish_row dp' status cause summary elapsed (s_now w)) (sd_tasks (sdb w))) w))) (\<lambda>_.
        ext_call (\<lambda>w. (Inr (), if sd_lock (sdb w) = Some i then set_lock (Some []) w else w))) :: unit sweep"
  have "keeps (secrets_kept dp k S) ?body"
    by (intro keeps_bindE keeps_ext_call [OF fault_free_secrets_kept])
       (auto simp: secrets_kept_def table_keeps_def set_tasks_def set_lock_def)
  then show ?thesis
    using sweep_txn.keeps_txn_with [where P = "table_keeps dp k S" and R = "\<lambda>w. secretRing w = Some k"]
    by (simp add: FinishTask_def sweep_AtomExecute_def secrets_kept_def [abs_def] fault_free_def)
qed

lemma sweepTable_keeps_secrets:
  assumes "wf_keyring k" "plain_safe task S" "secrets_kept dp k S w"
    and "sweepTable dp task tbl w = Some (r, w')"
  shows "secrets_kept dp k S w'"
proof -
  obtain e where "sweep_pages dp task tbl None (w\<lparr>s_cnt := zero_count\<rparr>) = Some (e, w')"
    using assms(4) by (auto simp: sweepTable_def)
  moreover have "secrets_kept dp k S (w\<lparr>s_cnt := zero_count\<rparr>)"
    using assms(3) by (simp add: secrets_kept_def)
  ultimately show ?thesis
    using sweep_pages_keeps [of "secrets_kept dp k S" tbl dp task]
      keeps_secrets_calls(2) keeps_secrets_execBatch [OF assms(1,2) refs_kept_ListRows] by blast
qed

lemma run_task_keeps_secrets:
  assumes "wf_keyring k" "plain_safe task S" "secrets_kept dp k S w"
    and "run_task dp task elapsed w = Some w'"
  shows "secrets_kept dp k S w'"
proof -
  have tables: "secrets_kept dp k S w \<Longrightarrow> sweep_tables dp task tbls summary f w = Some (s, e, w') \<Longrightarrow>
      secrets_kept dp k S w'" for tbls summary f w s e w'
  proof (induction tbls arbitrary: summary f w)
    case (Cons tbl tbls)
    obtain cnt e1 w1 where t: "sweepTable dp task tbl w = Some ((cnt, e1), w1)"
      using sweepTable_terminates by blast
    with Cons.prems(1) have "secrets_kept dp k S w1" using sweepTable_keeps_secrets [OF assms(1,2)] by blast
    moreover have "sweep_tables dp task tbls (alist_set (sw_Name tbl) cnt summary)
        (if e1 \<noteq> None \<and> f = None then e1 else f) w1 = Some (s, e, w')"
      using Cons.prems(2) t by simp
    ultimately show ?case by (rule Cons.IH)
  qed simp
  obtain s e w1 where t: "sweep_tables dp task (TablesForScope (st_Scope task)) [] None w = Some (s, e, w1)"
    using sweep_tables_terminates by blast
  then show ?thesis
    using assms(4) keepsD [OF keeps_secrets_FinishTask tables [OF assms(3) t]]
    by (auto simp: run_task_def split: prod.splits)
qed

end
