(* ===== verification/SweepEffect.thy ===== *)
theory SweepEffect
  imports SweepSafety
begin

text \<open>
  What a sweep does without faults: it takes every value to the target form of its mode, keeps its
  plaintext, counts every row once, and records the progress of its task.
\<close>

section \<open>The target form\<close>

definition in_target :: "Keyring \<Rightarrow> SweepTask \<Rightarrow> string \<Rightarrow> bool" where
  "in_target k task v \<longleftrightarrow>
     (if st_Mode task = ''decrypt'' then \<not> IsEncrypted v else KeyIDOf v = Some (ActiveID k))"

text \<open>A value that a sweep can bring to the target form.\<close>

definition sweepable :: "secret_deps \<Rightarrow> Keyring \<Rightarrow> SweepTask \<Rightarrow> string \<Rightarrow> bool" where
  "sweepable dp k task v \<longleftrightarrow>
     (\<exists>p. Keyring_Decrypt (sp_crypto dp) k v = Inr p \<and> (st_Mode task = ''decrypt'' \<longrightarrow> \<not> IsEncrypted p))"

lemma transform_skips:
  assumes "secretRing w = Some k" "in_target k task v"
  shows "run_state (transform dp task v) w = (Inr ([], True), w)"
  using assms envelopeKeyID_marked by (auto simp: transform_def in_target_def KeyIDOf_def)

lemma transform_converts:
  assumes quiet: "faults w = []" and ring: "secretRing w = Some k" "wf_keyring k"
    and v: "\<not> in_target k task v" "sweepable dp k task v"
  obtains t n where "run_state (transform dp task v) w = (Inr (t, False), w\<lparr>s_draws := n\<rparr>)"
    "in_target k task t" "Keyring_Decrypt (sp_crypto dp) k t = Keyring_Decrypt (sp_crypto dp) k v"
proof -
  obtain p where p: "Keyring_Decrypt (sp_crypto dp) k v = Inr p"
    "st_Mode task = ''decrypt'' \<Longrightarrow> \<not> IsEncrypted p"
    using v(2) by (auto simp: sweepable_def)
  show thesis
  proof (cases "st_Mode task = ''decrypt''")
    case True
    then show thesis
      using that [of p "s_draws w"] ring v(1) p
      by (simp add: transform_def in_target_def decryptWith_def Keyring_Decrypt_plain)
  next
    case False
    obtain t where t: "Keyring_Encrypt (sp_crypto dp) (nonce_of dp (s_draws w)) k p = Inr t"
      "KeyIDOf t = Some (ActiveID k)" "Keyring_Decrypt (sp_crypto dp) k t = Inr p"
      using Keyring_Encrypt_spec [OF ring(2) length_nonce_of] by metis
    then show thesis
      using that [of t "Suc (s_draws w)"] False quiet ring(1) v(1) p(1)
      by (auto simp: transform_def in_target_def decryptWith_def ring_Encrypt_def draw_nonce_def)
  qed
qed

section \<open>A page without faults\<close>

text \<open>What becomes of the value \<open>v\<close> of a row.\<close>

definition swept :: "secret_deps \<Rightarrow> Keyring \<Rightarrow> SweepTask \<Rightarrow> string option \<Rightarrow> string option \<Rightarrow> bool" where
  "swept dp k task v v' \<longleftrightarrow>
     (if in_target k task (null_string v) \<or> st_DryRun task then v' = v
      else in_target k task (null_string v') \<and>
        Keyring_Decrypt (sp_crypto dp) k (null_string v') = Keyring_Decrypt (sp_crypto dp) k (null_string v))"

definition off_target :: "Keyring \<Rightarrow> SweepTask \<Rightarrow> secret_rows \<Rightarrow> nat" where
  "off_target k task rs = length (filter (\<lambda>r. \<not> in_target k task (null_string (snd r))) rs)"

definition on_target :: "Keyring \<Rightarrow> SweepTask \<Rightarrow> secret_rows \<Rightarrow> nat" where
  "on_target k task rs = length (filter (\<lambda>r. in_target k task (null_string (snd r))) rs)"

definition add_count :: "int \<Rightarrow> int \<Rightarrow> TableCount \<Rightarrow> TableCount" where
  "add_count m n c = c\<lparr>tc_Rewritten := tc_Rewritten c + m, tc_Skipped := tc_Skipped c + n\<rparr>"

lemma alist_set_same: "map_of m k = Some v \<Longrightarrow> alist_set k v m = m"
  by (induction m) auto

lemma alist_set_twice [simp]: "alist_set k v (alist_set k u m) = alist_set k v m"
  by (induction m) auto

lemma set_rows_same: "rows_of t (sdb w) = Some rs \<Longrightarrow> set_rows t rs w = w"
  by (simp add: set_rows_def rows_of_def alist_set_same)

lemma set_rows_draws: "(set_rows t x w)\<lparr>s_draws := n\<rparr> = set_rows t x (w\<lparr>s_draws := n\<rparr>)"
  by (cases w) (simp add: set_rows_def)

lemma map_of_set_value:
  "map_of (set_value k v rs) = (if k \<in> fst ` set rs then (map_of rs)(k \<mapsto> Some v) else map_of rs)"
  by (induction rs) (auto simp: set_value_def update_where_def)

lemma run_rewrite_row:
  assumes "faults w = []" "rows_of (sw_Name tbl) (sdb w) = Some tab"
  shows "run_state (RewriteRow tbl key v) w = (Inr (), set_rows (sw_Name tbl) (set_value key v tab) w)"
  using assms by (simp add: RewriteRow_def)

text \<open>
  The effect of the rewriting of a page \<open>ps\<close>, read before from the rows \<open>tab\<close>: only its rows
  are swept, and every row of it is counted once.
\<close>

definition page_done ::
  "secret_deps \<Rightarrow> Keyring \<Rightarrow> SweepTask \<Rightarrow> string \<Rightarrow> secret_rows \<Rightarrow> secret_rows \<Rightarrow> secret_world \<Rightarrow> secret_world \<Rightarrow> bool" where
  "page_done dp k task t ps tab w w' \<longleftrightarrow>
     (\<exists>tab' n. w' = (set_rows t tab' w)\<lparr>s_draws := n,
          s_cnt := add_count (off_target k task ps) (on_target k task ps) (s_cnt w),
          s_rew := s_rew w + off_target k task ps\<rparr> \<and>
        map fst tab' = map fst tab \<and>
        (\<forall>key. key \<notin> fst ` set ps \<longrightarrow> map_of tab' key = map_of tab key) \<and>
        (\<forall>r \<in> set ps. \<exists>v'. map_of tab' (fst r) = Some v' \<and> swept dp k task (snd r) v'))"

definition row_done ::
  "secret_deps \<Rightarrow> Keyring \<Rightarrow> SweepTask \<Rightarrow> string \<Rightarrow> pk \<times> string option \<Rightarrow> secret_rows \<Rightarrow> secret_rows \<Rightarrow>
   secret_world \<Rightarrow> secret_world \<Rightarrow> bool" where
  "row_done dp k task t r tab tab' w w' \<longleftrightarrow>
     (\<exists>n. w' = (set_rows t tab' w)\<lparr>s_draws := n,
          s_cnt := add_count (off_target k task [r]) (on_target k task [r]) (s_cnt w),
          s_rew := s_rew w + off_target k task [r]\<rparr>) \<and>
     map fst tab' = map fst tab \<and> (\<forall>key. key \<noteq> fst r \<longrightarrow> map_of tab' key = map_of tab key) \<and>
     (\<exists>v'. map_of tab' (fst r) = Some v' \<and> swept dp k task (snd r) v')"

lemma page_done_Nil: "rows_of t (sdb w) = Some tab \<Longrightarrow> page_done dp k task t [] tab w w"
  by (auto simp: page_done_def off_target_def on_target_def add_count_def set_rows_same
    intro!: exI [of _ tab] exI [of _ "s_draws w"])

lemma page_done_Cons:
  assumes row: "row_done dp k task t r tab tab1 w w1" and rest: "page_done dp k task t ps tab1 w1 w2"
    and "fst r \<notin> fst ` set ps"
  shows "page_done dp k task t (r # ps) tab w w2"
proof -
  obtain tab' n where *: "w2 = (set_rows t tab' w1)\<lparr>s_draws := n,
          s_cnt := add_count (off_target k task ps) (on_target k task ps) (s_cnt w1),
          s_rew := s_rew w1 + off_target k task ps\<rparr>"
    "map fst tab' = map fst tab1" "\<forall>key. key \<notin> fst ` set ps \<longrightarrow> map_of tab' key = map_of tab1 key"
    "\<forall>r \<in> set ps. \<exists>v'. map_of tab' (fst r) = Some v' \<and> swept dp k task (snd r) v'"
    using rest by (auto simp: page_done_def)
  obtain n1 where w1: "w1 = (set_rows t tab1 w)\<lparr>s_draws := n1,
          s_cnt := add_count (off_target k task [r]) (on_target k task [r]) (s_cnt w),
          s_rew := s_rew w + off_target k task [r]\<rparr>"
    using row by (auto simp: row_done_def)
  have "w2 = (set_rows t tab' w)\<lparr>s_draws := n,
          s_cnt := add_count (off_target k task (r # ps)) (on_target k task (r # ps)) (s_cnt w),
          s_rew := s_rew w + off_target k task (r # ps)\<rparr>"
    by (simp add: *(1) w1 set_rows_def add_count_def off_target_def on_target_def)
  then show ?thesis
    using row *(2-4) assms(3) unfolding page_done_def row_done_def
    by (intro exI [of _ tab'] exI [of _ n]) auto
qed

lemma rewrite_one:
  assumes "faults w = []" "secretRing w = Some k" "wf_keyring k" "rows_of (sw_Name tbl) (sdb w) = Some tab"
    and r: "map_of tab (fst r) = Some (snd r)" "sweepable dp k task (null_string (snd r))"
  obtains tab1 w1 where "row_done dp k task (sw_Name tbl) r tab tab1 w w1"
    "\<And>ps. run_state (rewrite_rows dp task tbl (map row_ref (r # ps))) w =
       run_state (rewrite_rows dp task tbl (map row_ref ps)) w1"
proof -
  let ?t = "sw_Name tbl" and ?v = "null_string (snd r)"
  have row: "rr_Value (row_ref r) = ?v" "rr_PK (row_ref r) = fst r" by (simp_all add: row_ref_def)
  show thesis
  proof (cases "in_target k task ?v")
    case True
    show thesis
    proof (rule that)
      show "row_done dp k task ?t r tab tab w (count_skipped w)"
        using True r(1) assms(4)
        by (auto simp: row_done_def set_rows_same count_skipped_def add_count_def off_target_def
          on_target_def swept_def intro!: exI [of _ "s_draws w"])
    qed (use transform_skips [OF assms(2) True] in \<open>simp add: row\<close>)
  next
    case False
    obtain t n where t: "run_state (transform dp task ?v) w = (Inr (t, False), w\<lparr>s_draws := n\<rparr>)"
      "in_target k task t" "Keyring_Decrypt (sp_crypto dp) k t = Keyring_Decrypt (sp_crypto dp) k ?v"
      using transform_converts [OF assms(1-3) False r(2)] by blast
    define tab1 where "tab1 = (if st_DryRun task then tab else set_value (fst r) t tab)"
    define w1 where "w1 = count_rewritten ((set_rows ?t tab1 w)\<lparr>s_draws := n\<rparr>)"
    have "fst r \<in> fst ` set tab" using r(1) map_of_SomeD by force
    then have "row_done dp k task ?t r tab tab1 w w1"
      using False t(2,3) r(1)
      by (auto simp: row_done_def w1_def count_rewritten_def add_count_def off_target_def on_target_def
        tab1_def map_of_set_value swept_def null_string_def set_rows_def intro!: exI [of _ n])
    moreover have "run_state (rewrite_rows dp task tbl (map row_ref (r # ps))) w =
        run_state (rewrite_rows dp task tbl (map row_ref ps)) w1" for ps
      using t(1) assms(1,4)
      by (simp add: row w1_def tab1_def run_rewrite_row set_rows_draws set_rows_same)
    ultimately show thesis by (rule that)
  qed
qed

lemma rewrite_rows_effect:
  assumes "faults w = []" "secretRing w = Some k" "wf_keyring k"
    and "rows_of (sw_Name tbl) (sdb w) = Some tab"
    and "\<forall>r \<in> set ps. map_of tab (fst r) = Some (snd r) \<and> sweepable dp k task (null_string (snd r))"
    and "distinct (map fst ps)"
  shows "\<exists>w'. run_state (rewrite_rows dp task tbl (map row_ref ps)) w = (Inr (), w') \<and>
     page_done dp k task (sw_Name tbl) ps tab w w'"
  using assms
proof (induction ps arbitrary: w tab)
  case Nil
  then show ?case by (simp add: page_done_Nil)
next
  case (Cons r ps)
  have r: "map_of tab (fst r) = Some (snd r)" "sweepable dp k task (null_string (snd r))"
    and notin: "fst r \<notin> fst ` set ps" using Cons.prems(5,6) by auto
  obtain tab1 w1 where d: "row_done dp k task (sw_Name tbl) r tab tab1 w w1"
    and run: "run_state (rewrite_rows dp task tbl (map row_ref (r # ps))) w =
       run_state (rewrite_rows dp task tbl (map row_ref ps)) w1"
    using rewrite_one [OF Cons.prems(1-4) r] by metis
  have w1: "faults w1 = []" "secretRing w1 = Some k" "rows_of (sw_Name tbl) (sdb w1) = Some tab1"
    using d Cons.prems(1,2) by (auto simp: row_done_def set_rows_def rows_of_def)
  have "map_of tab1 (fst q) = map_of tab (fst q)" if "q \<in> set ps" for q
    using d notin that unfolding row_done_def by (metis image_eqI)
  then have "\<exists>w'. run_state (rewrite_rows dp task tbl (map row_ref ps)) w1 = (Inr (), w') \<and>
      page_done dp k task (sw_Name tbl) ps tab1 w1 w'"
    using Cons.IH [OF w1(1,2) Cons.prems(3) w1(3)] Cons.prems(5,6) by simp
  then show ?case using page_done_Cons [OF d _ notin] unfolding run by blast
qed

text \<open>The page with the progress of its task, committed at the first attempt.\<close>

definition progressed :: "secret_deps \<Rightarrow> string \<Rightarrow> int \<Rightarrow> int \<Rightarrow> time \<Rightarrow> taskRow list \<Rightarrow> taskRow list" where
  "progressed dp i m n now ts =
     update_where (\<lambda>r. tr_TaskID r = i)
       (\<lambda>r. r\<lparr>tr_Scanned := tr_Scanned r + m, tr_Rewritten := tr_Rewritten r + n,
              tr_HeartbeatAt := sp_time dp now\<rparr>) ts"

lemma execBatch_effect:
  assumes "faults w = []" "secretRing w = Some k" "wf_keyring k"
    and "rows_of (sw_Name tbl) (sdb w) = Some tab"
    and "\<forall>r \<in> set ps. map_of tab (fst r) = Some (snd r) \<and> sweepable dp k task (null_string (snd r))"
    and "distinct (map fst ps)"
  obtains w' where "page_done dp k task (sw_Name tbl) ps tab (w\<lparr>s_rew := 0\<rparr>) w'"
    "run_state (execBatch dp task tbl (map row_ref ps)) w =
       (Inr (), set_tasks (progressed dp (st_TaskID task) (length ps) (off_target k task ps) (s_now w)
          (sd_tasks (sdb w))) w')"
proof -
  let ?w = "w\<lparr>s_rew := 0\<rparr>"
  obtain w' where w': "run_state (rewrite_rows dp task tbl (map row_ref ps)) ?w = (Inr (), w')"
    "page_done dp k task (sw_Name tbl) ps tab ?w w'"
    using rewrite_rows_effect [of ?w k tbl tab ps dp task] assms by auto
  let ?w2 = "set_tasks (progressed dp (st_TaskID task) (length ps) (off_target k task ps) (s_now w)
          (sd_tasks (sdb w))) w'"
  have same: "faults w' = []" "s_now w' = s_now w" "sd_tasks (sdb w') = sd_tasks (sdb w)"
    "s_rew w' = off_target k task ps"
    using w'(2) assms(1) by (auto simp: page_done_def set_rows_def)
  have core: "run_state (batch_core dp task tbl (map row_ref ps)) ?w = (Inr (), ?w2)"
    using w'(1) same by (simp add: batch_core_def AddProgress_def progressed_def)
  have "run_state (execBatchOnce dp task tbl (map row_ref ps)) w = (Inr (), ?w2)"
    using sweep_txn.txn_ok [OF _ core] assms(1) same(1)
    by (simp add: execBatchOnce_def sweep_AtomExecute_def set_tasks_def)
  then have "run_state (execBatch dp task tbl (map row_ref ps)) w = (Inr (), ?w2)"
    by (simp add: execBatch_def defaultMaxBatchAttempts_def eval_nat_numeral)
  with w'(2) that show thesis by blast
qed

section \<open>Pages\<close>

lemma sorted_le_last: "sorted (map f xs) \<Longrightarrow> x \<in> set xs \<Longrightarrow> f x \<le> f (last xs)"
  by (induction xs) auto

lemma sorted_take_last:
  assumes "sorted (map f L)" "distinct (map f L)" "take n L \<noteq> []" "r \<in> set L"
  shows "f r \<le> f (last (take n L)) \<longleftrightarrow> r \<in> set (take n L)"
proof -
  have sd: "sorted (map f (take n L) @ map f (drop n L))" "distinct (map f (take n L) @ map f (drop n L))"
    using assms(1,2) by (simp_all flip: map_append)
  have l: "last (take n L) \<in> set (take n L)" using assms(3) by simp
  show ?thesis
  proof
    assume "r \<in> set (take n L)"
    moreover have "sorted (map f (take n L))" using sd(1) by (simp add: sorted_append)
    ultimately show "f r \<le> f (last (take n L))" by (metis sorted_le_last)
  next
    assume le: "f r \<le> f (last (take n L))"
    show "r \<in> set (take n L)"
    proof (rule ccontr)
      assume "r \<notin> set (take n L)"
      then have r: "r \<in> set (drop n L)" using assms(4) by (metis Un_iff append_take_drop_id set_append)
      then have "f (last (take n L)) \<le> f r" using sd(1) l by (simp add: sorted_append)
      then have "f r = f (last (take n L))" using le by simp
      then show False using sd(2) l r by (auto simp: distinct_append disjoint_iff)
    qed
  qed
qed

lemma distinct_sorted_rows:
  "distinct (map fst tab) \<Longrightarrow> distinct (map fst (sort_key fst (filter P tab)))"
  by (auto simp: distinct_map inj_on_def)

lemma page_boundary:
  assumes "distinct (map fst tab)" "page c n tab \<noteq> []" "r \<in> set tab"
  shows "after_cursor (Some (fst (last (page c n tab)))) r \<longleftrightarrow> after_cursor c r \<and> r \<notin> set (page c n tab)"
proof -
  let ?L = "sort_key fst (filter (after_cursor c) tab)"
  have L: "sorted (map fst ?L)" "distinct (map fst ?L)"
    using assms(1) by (simp_all add: distinct_sorted_rows)
  have x: "after_cursor c (last (page c n tab))" using assms(2) page_after last_in_set by blast
  show ?thesis
  proof (cases "after_cursor c r")
    case True
    then have "r \<in> set ?L" using assms(3) by simp
    from sorted_take_last [OF L _ this, of n] assms(2)
    have "fst r \<le> fst (last (page c n tab)) \<longleftrightarrow> r \<in> set (page c n tab)" by (simp add: page_def)
    with True show ?thesis by (auto simp: after_cursor_def [of "Some _"])
  next
    case False
    with x show ?thesis by (cases c) (auto simp: after_cursor_def)
  qed
qed

lemma distinct_page: "distinct (map fst tab) \<Longrightarrow> distinct (map fst (page c n tab))"
  unfolding page_def using distinct_sorted_rows by (metis distinct_take take_map)

lemma rows_by_key:
  assumes "distinct (map fst tab)"
  shows "map (\<lambda>k. (k, the (map_of tab k))) (map fst tab) = tab"
proof -
  have "map (\<lambda>r. (fst r, the (map_of tab (fst r)))) tab = map (\<lambda>r. r) tab"
    using assms by (intro map_cong) (auto simp: map_of_is_SomeI)
  then show ?thesis by (simp add: o_def)
qed

lemma page_cong:
  assumes "distinct (map fst tab)" "map fst tab' = map fst tab"
    and "\<And>r. r \<in> set tab \<Longrightarrow> after_cursor c r \<Longrightarrow> map_of tab' (fst r) = Some (snd r)"
  shows "page c n tab' = page c n tab"
proof -
  let ?after = "\<lambda>k. case c of None \<Rightarrow> True | Some x \<Rightarrow> x < k"
  have by_key: "filter (after_cursor c) t = map (\<lambda>k. (k, the (map_of t k))) (filter ?after (map fst t))"
    if "distinct (map fst t)" for t
    by (subst rows_by_key [OF that, symmetric]) (simp only: filter_map o_def after_cursor_def fst_conv)
  have "map_of tab' k = map_of tab k" if k: "k \<in> set (map fst tab)" "?after k" for k
  proof -
    from k(1) obtain v where "(k, v) \<in> set tab" by auto
    then show ?thesis using assms(1) assms(3) [of "(k, v)"] k(2)
      by (cases c) (simp_all add: map_of_is_SomeI after_cursor_def)
  qed
  then have "filter (after_cursor c) tab' = filter (after_cursor c) tab"
    using assms(1,2) by (simp add: by_key cong: map_cong)
  then show ?thesis by (simp add: page_def)
qed

section \<open>A table without faults\<close>

definition finished :: "pk option \<Rightarrow> secret_rows \<Rightarrow> secret_rows" where
  "finished c tab = filter (\<lambda>r. \<not> after_cursor c r) tab"

text \<open>The rows of the tasks up to their heartbeats.\<close>

definition no_beat :: "taskRow \<Rightarrow> taskRow" where
  "no_beat r = r\<lparr>tr_HeartbeatAt := 0\<rparr>"

definition add_progress :: "string \<Rightarrow> int \<Rightarrow> int \<Rightarrow> taskRow \<Rightarrow> taskRow" where
  "add_progress i m n r =
     (if tr_TaskID r = i then r\<lparr>tr_Scanned := tr_Scanned r + m, tr_Rewritten := tr_Rewritten r + n\<rparr> else r)"

text \<open>The sweep of a table with the rows \<open>tab0\<close>, begun in the world \<open>w0\<close>, has come to the cursor \<open>c\<close>.\<close>

definition swept_upto ::
  "secret_deps \<Rightarrow> Keyring \<Rightarrow> SweepTask \<Rightarrow> string \<Rightarrow> secret_rows \<Rightarrow> secret_world \<Rightarrow> pk option \<Rightarrow> secret_world \<Rightarrow> bool" where
  "swept_upto dp k task t tab0 w0 c w \<longleftrightarrow>
     faults w = [] \<and> secretRing w = Some k \<and>
     (\<exists>tab. rows_of t (sdb w) = Some tab \<and> map fst tab = map fst tab0 \<and>
        (\<forall>r \<in> set tab0. after_cursor c r \<longrightarrow> map_of tab (fst r) = Some (snd r)) \<and>
        (\<forall>r \<in> set tab0. \<not> after_cursor c r \<longrightarrow>
           (\<exists>v'. map_of tab (fst r) = Some v' \<and> swept dp k task (snd r) v'))) \<and>
     (\<forall>t'. t' \<noteq> t \<longrightarrow> rows_of t' (sdb w) = rows_of t' (sdb w0)) \<and> sd_lock (sdb w) = sd_lock (sdb w0) \<and>
     s_cnt w = add_count (off_target k task (finished c tab0)) (on_target k task (finished c tab0)) (s_cnt w0) \<and>
     map no_beat (sd_tasks (sdb w)) =
       map (no_beat \<circ> add_progress (st_TaskID task) (length (finished c tab0))
              (off_target k task (finished c tab0))) (sd_tasks (sdb w0))"

lemma swept_upto_start:
  assumes "faults w = []" "secretRing w = Some k" "rows_of t (sdb w) = Some tab" "distinct (map fst tab)"
  shows "swept_upto dp k task t tab w None w"
  using assms
  by (auto simp: swept_upto_def finished_def after_cursor_def off_target_def on_target_def add_count_def
    add_progress_def map_of_is_SomeI)

lemma finished_page:
  assumes "distinct (map fst tab)" "page c n tab \<noteq> []"
  shows "mset (finished (Some (fst (last (page c n tab)))) tab) = mset (finished c tab @ page c n tab)"
proof (rule iffD1 [OF set_eq_iff_mset_eq_distinct])
  have d: "distinct tab" "distinct (page c n tab)"
    using assms(1) distinct_page [OF assms(1), of c n] by (auto simp: distinct_map)
  show "distinct (finished (Some (fst (last (page c n tab)))) tab)" using d by (simp add: finished_def)
  show "distinct (finished c tab @ page c n tab)"
    using d page_after by (fastforce simp: finished_def)
  show "set (finished (Some (fst (last (page c n tab)))) tab) = set (finished c tab @ page c n tab)"
    using page_boundary [OF assms] set_page [of c n tab] page_after by (auto simp: finished_def)
qed

lemma target_counts_append:
  assumes "mset xs = mset (ys @ zs)"
  shows "off_target k task xs = off_target k task ys + off_target k task zs"
    "on_target k task xs = on_target k task ys + on_target k task zs" "length xs = length ys + length zs"
proof -
  have "length (filter Q xs) = length (filter Q ys) + length (filter Q zs)" for Q
    using arg_cong [OF assms, of "\<lambda>m. size (filter_mset Q m)"] by (simp flip: mset_filter)
  then show "off_target k task xs = off_target k task ys + off_target k task zs"
    "on_target k task xs = on_target k task ys + on_target k task zs"
    by (simp_all add: off_target_def on_target_def)
  show "length xs = length ys + length zs" using arg_cong [OF assms, of size] by simp
qed

lemma map_progressed:
  "map no_beat (progressed dp i m n now ts) = map (no_beat \<circ> add_progress i m n) ts"
  by (simp add: progressed_def update_where_def no_beat_def add_progress_def)

lemma add_progress_twice:
  "map no_beat ts = map (no_beat \<circ> add_progress i m n) ts0 \<Longrightarrow>
   map (no_beat \<circ> add_progress i m' n') ts = map (no_beat \<circ> add_progress i (m + m') (n + n')) ts0"
proof -
  assume "map no_beat ts = map (no_beat \<circ> add_progress i m n) ts0"
  then have "map (add_progress i m' n' \<circ> no_beat) ts = map (add_progress i m' n' \<circ> no_beat \<circ> add_progress i m n) ts0"
    by (metis map_map o_assoc)
  moreover have "no_beat \<circ> add_progress i m' n' = add_progress i m' n' \<circ> no_beat"
    "add_progress i m' n' \<circ> no_beat \<circ> add_progress i m n = no_beat \<circ> add_progress i (m + m') (n + n')"
    by (auto simp: fun_eq_iff no_beat_def add_progress_def)
  ultimately show ?thesis by simp
qed

text \<open>The rows \<open>tab\<close> were swept up to \<open>c\<close>; sweeping the next page takes them to its last key.\<close>

lemma page_moves_cursor:
  assumes dist: "distinct (map fst tab0)" and page: "page c n tab0 \<noteq> []"
    and tab: "\<And>r. r \<in> set tab0 \<Longrightarrow> after_cursor c r \<Longrightarrow> map_of tab (fst r) = Some (snd r)"
      "\<And>r. r \<in> set tab0 \<Longrightarrow> \<not> after_cursor c r \<Longrightarrow> \<exists>v'. map_of tab (fst r) = Some v' \<and> Q (snd r) v'"
    and tab': "\<And>key. key \<notin> fst ` set (page c n tab0) \<Longrightarrow> map_of tab' key = map_of tab key"
      "\<And>r. r \<in> set (page c n tab0) \<Longrightarrow> \<exists>v'. map_of tab' (fst r) = Some v' \<and> Q (snd r) v'"
    and r: "r \<in> set tab0"
  shows "after_cursor (Some (fst (last (page c n tab0)))) r \<Longrightarrow> map_of tab' (fst r) = Some (snd r)"
    "\<not> after_cursor (Some (fst (last (page c n tab0)))) r \<Longrightarrow>
      \<exists>v'. map_of tab' (fst r) = Some v' \<and> Q (snd r) v'"
proof -
  have in_page: "fst r \<in> fst ` set (page c n tab0) \<longleftrightarrow> r \<in> set (page c n tab0)"
    using r set_page [of c n tab0] distinct_map_eq [OF dist] by blast
  note b = page_boundary [OF dist page r]
  show "map_of tab' (fst r) = Some (snd r)" if "after_cursor (Some (fst (last (page c n tab0)))) r"
    using that b in_page tab(1) [OF r] tab'(1) by simp
  show "\<exists>v'. map_of tab' (fst r) = Some v' \<and> Q (snd r) v'"
    if "\<not> after_cursor (Some (fst (last (page c n tab0)))) r"
    using that b in_page tab(2) [OF r] tab'(1) tab'(2) [of r] by (cases "r \<in> set (page c n tab0)") auto
qed

lemma swept_upto_page:
  assumes I: "swept_upto dp k task (sw_Name tbl) tab0 w0 c w" and "wf_keyring k"
    and dist: "distinct (map fst tab0)" and all: "\<forall>r \<in> set tab0. sweepable dp k task (null_string (snd r))"
    and page: "page c n tab0 \<noteq> []"
  shows "\<exists>w'. run_state (execBatch dp task tbl (map row_ref (page c n tab0))) w = (Inr (), w') \<and>
     swept_upto dp k task (sw_Name tbl) tab0 w0 (Some (fst (last (page c n tab0)))) w'"
proof -
  let ?t = "sw_Name tbl" and ?P = "page c n tab0" and ?c = "Some (fst (last (page c n tab0)))"
  obtain tab where tab: "rows_of ?t (sdb w) = Some tab" "map fst tab = map fst tab0"
    "\<And>r. r \<in> set tab0 \<Longrightarrow> after_cursor c r \<Longrightarrow> map_of tab (fst r) = Some (snd r)"
    "\<And>r. r \<in> set tab0 \<Longrightarrow> \<not> after_cursor c r \<Longrightarrow> \<exists>v'. map_of tab (fst r) = Some v' \<and> swept dp k task (snd r) v'"
    using I unfolding swept_upto_def by blast
  have w: "faults w = []" "secretRing w = Some k" using I by (simp_all add: swept_upto_def)
  have P: "\<forall>r \<in> set ?P. map_of tab (fst r) = Some (snd r) \<and> sweepable dp k task (null_string (snd r))"
    using set_page [of c n tab0] tab(3) all page_after by blast
  obtain w1 where d: "page_done dp k task ?t ?P tab (w\<lparr>s_rew := 0\<rparr>) w1"
    and run: "run_state (execBatch dp task tbl (map row_ref ?P)) w =
       (Inr (), set_tasks (progressed dp (st_TaskID task) (length ?P) (off_target k task ?P) (s_now w)
          (sd_tasks (sdb w))) w1)"
    using execBatch_effect [OF w assms(2) tab(1) P distinct_page [OF dist]] by blast
  let ?w' = "set_tasks (progressed dp (st_TaskID task) (length ?P) (off_target k task ?P) (s_now w)
          (sd_tasks (sdb w))) w1"
  obtain tab' m where tab': "w1 = (set_rows ?t tab' (w\<lparr>s_rew := 0\<rparr>))\<lparr>s_draws := m,
          s_cnt := add_count (off_target k task ?P) (on_target k task ?P) (s_cnt (w\<lparr>s_rew := 0\<rparr>)),
          s_rew := s_rew (w\<lparr>s_rew := 0\<rparr>) + off_target k task ?P\<rparr>"
    "map fst tab' = map fst tab" "\<And>key. key \<notin> fst ` set ?P \<Longrightarrow> map_of tab' key = map_of tab key"
    "\<And>r. r \<in> set ?P \<Longrightarrow> \<exists>v'. map_of tab' (fst r) = Some v' \<and> swept dp k task (snd r) v'"
    using d unfolding page_done_def by blast
  have rows: "rows_of ?t (sdb ?w') = Some tab'" "map fst tab' = map fst tab0"
    using tab'(1,2) tab(2) by (simp_all add: set_tasks_def set_rows_def rows_of_def)
  note cursor = page_moves_cursor [where Q = "swept dp k task", OF dist page tab(3,4) tab'(3,4)]
  note counts = target_counts_append [OF finished_page [OF dist page]]
  have "map no_beat (sd_tasks (sdb ?w')) =
       map (no_beat \<circ> add_progress (st_TaskID task) (length (finished ?c tab0))
              (off_target k task (finished ?c tab0))) (sd_tasks (sdb w0))"
    using I add_progress_twice by (simp add: set_tasks_def map_progressed counts swept_upto_def)
  moreover have "faults ?w' = []" "secretRing ?w' = Some k" "sd_lock (sdb ?w') = sd_lock (sdb w0)"
    "\<forall>t'. t' \<noteq> ?t \<longrightarrow> rows_of t' (sdb ?w') = rows_of t' (sdb w0)"
    "s_cnt ?w' = add_count (off_target k task (finished ?c tab0)) (on_target k task (finished ?c tab0)) (s_cnt w0)"
    using I counts(1,2) unfolding swept_upto_def
    by (simp_all add: tab'(1) set_tasks_def set_rows_def add_count_def rows_of_def)
  ultimately have "swept_upto dp k task ?t tab0 w0 ?c ?w'"
    unfolding swept_upto_def using rows cursor by blast
  with run show ?thesis by blast
qed

lemma sweep_pages_effect:
  assumes "swept_upto dp k task (sw_Name tbl) tab0 w0 c w" "wf_keyring k" "distinct (map fst tab0)"
    and "\<forall>r \<in> set tab0. sweepable dp k task (null_string (snd r))" and "0 < sp_batchSize dp"
  shows "\<exists>c' w'. sweep_pages dp task tbl c w = Some (None, w') \<and>
     swept_upto dp k task (sw_Name tbl) tab0 w0 c' w' \<and> (\<forall>r \<in> set tab0. \<not> after_cursor c' r)"
  using assms(1)
proof (induction "length tab0 - length (finished c tab0)" arbitrary: c w rule: less_induct)
  case less
  let ?P = "page c (sp_batchSize dp) tab0"
  obtain tab where tab: "rows_of (sw_Name tbl) (sdb w) = Some tab" "map fst tab = map fst tab0"
    "\<And>r. r \<in> set tab0 \<Longrightarrow> after_cursor c r \<Longrightarrow> map_of tab (fst r) = Some (snd r)" and "faults w = []"
    using less.prems unfolding swept_upto_def by blast
  have list: "run_state (ListRows tbl c (sp_batchSize dp)) w = (Inr (map row_ref ?P), w)"
    using tab \<open>faults w = []\<close> page_cong [OF assms(3) tab(2,3)] by (simp add: ListRows_def)
  show ?case
  proof (cases "?P = []")
    case True
    then have "\<forall>r \<in> set tab0. \<not> after_cursor c r"
      using assms(5) by (auto simp: page_def filter_empty_conv dest: arg_cong [of "sort_key _ _" _ set])
    then show ?thesis using less.prems list True by (subst sweep_pages.simps) auto
  next
    case False
    let ?c = "Some (fst (last ?P))"
    obtain w' where w': "run_state (execBatch dp task tbl (map row_ref ?P)) w = (Inr (), w')"
      "swept_upto dp k task (sw_Name tbl) tab0 w0 ?c w'"
      using swept_upto_page [OF less.prems assms(2-4) False] by blast
    have "length (finished ?c tab0) = length (finished c tab0) + length ?P"
      using target_counts_append(3) [OF finished_page [OF assms(3) False]] .
    moreover have "length (finished ?c tab0) \<le> length tab0" by (simp add: finished_def)
    ultimately have "length tab0 - length (finished ?c tab0) < length tab0 - length (finished c tab0)"
      using False length_greater_0_conv [of ?P] by linarith
    from less.hyps [OF this w'(2)] show ?thesis
      using list w'(1) False by (subst sweep_pages.simps) (simp add: last_map row_ref_def)
  qed
qed

definition table_swept :: "secret_deps \<Rightarrow> Keyring \<Rightarrow> SweepTask \<Rightarrow> secret_rows \<Rightarrow> secret_rows \<Rightarrow> bool" where
  "table_swept dp k task tab tab' \<longleftrightarrow>
     map fst tab' = map fst tab \<and>
     (\<forall>r \<in> set tab. \<exists>v'. map_of tab' (fst r) = Some v' \<and> swept dp k task (snd r) v')"

text \<open>The table is there, its keys are unique, and every value can be brought to the target form.\<close>

definition ready :: "secret_deps \<Rightarrow> Keyring \<Rightarrow> SweepTask \<Rightarrow> secret_db \<Rightarrow> SweepTable \<Rightarrow> bool" where
  "ready dp k task d tbl \<longleftrightarrow>
     (\<exists>tab. rows_of (sw_Name tbl) d = Some tab \<and> distinct (map fst tab) \<and>
        (\<forall>r \<in> set tab. sweepable dp k task (null_string (snd r))))"

definition table_rows :: "secret_db \<Rightarrow> SweepTable \<Rightarrow> secret_rows" where
  "table_rows d tbl = (case rows_of (sw_Name tbl) d of None \<Rightarrow> [] | Some tab \<Rightarrow> tab)"

definition table_count :: "Keyring \<Rightarrow> SweepTask \<Rightarrow> secret_rows \<Rightarrow> TableCount" where
  "table_count k task tab =
     \<lparr>tc_Scanned = 0, tc_Rewritten = off_target k task tab, tc_Skipped = on_target k task tab\<rparr>"

text \<open>What a sweep of the tables \<open>tbls\<close> leaves.\<close>

definition tables_done ::
  "secret_deps \<Rightarrow> Keyring \<Rightarrow> SweepTask \<Rightarrow> SweepTable list \<Rightarrow> secret_world \<Rightarrow> secret_world \<Rightarrow> bool" where
  "tables_done dp k task tbls w w' \<longleftrightarrow>
     faults w' = [] \<and> secretRing w' = Some k \<and> sd_lock (sdb w') = sd_lock (sdb w) \<and>
     (\<forall>tbl \<in> set tbls. \<exists>tab'. rows_of (sw_Name tbl) (sdb w') = Some tab' \<and>
        table_swept dp k task (table_rows (sdb w) tbl) tab') \<and>
     (\<forall>t. t \<notin> sw_Name ` set tbls \<longrightarrow> rows_of t (sdb w') = rows_of t (sdb w)) \<and>
     map no_beat (sd_tasks (sdb w')) =
       map (no_beat \<circ> add_progress (st_TaskID task)
              (int (sum_list (map (\<lambda>tbl. length (table_rows (sdb w) tbl)) tbls)))
              (int (sum_list (map (\<lambda>tbl. off_target k task (table_rows (sdb w) tbl)) tbls))))
         (sd_tasks (sdb w))"

lemma sweepTable_effect:
  assumes "faults w = []" "secretRing w = Some k" "wf_keyring k" "0 < sp_batchSize dp"
    and ready: "ready dp k task (sdb w) tbl"
  shows "\<exists>w'. sweepTable dp task tbl w = Some ((table_count k task (table_rows (sdb w) tbl), None), w') \<and>
     tables_done dp k task [tbl] w w'"
proof -
  obtain tab where tab: "rows_of (sw_Name tbl) (sdb w) = Some tab" "distinct (map fst tab)"
    "\<forall>r \<in> set tab. sweepable dp k task (null_string (snd r))"
    using ready by (auto simp: ready_def)
  let ?w = "w\<lparr>s_cnt := zero_count\<rparr>"
  have "swept_upto dp k task (sw_Name tbl) tab ?w None ?w"
    using assms(1,2) tab by (intro swept_upto_start) auto
  then obtain c w' where run: "sweep_pages dp task tbl None ?w = Some (None, w')"
    and up: "swept_upto dp k task (sw_Name tbl) tab ?w c w'" and fin: "\<forall>r \<in> set tab. \<not> after_cursor c r"
    using sweep_pages_effect [OF _ assms(3) tab(2,3) assms(4)] by blast
  have "finished c tab = tab" using fin by (simp add: finished_def)
  then have "tables_done dp k task [tbl] w w'" "s_cnt w' = table_count k task tab"
    using up fin tab(1)
    by (auto simp: swept_upto_def tables_done_def table_swept_def table_rows_def table_count_def
      add_count_def zero_count_def)
  then show ?thesis using run tab(1) by (simp add: sweepTable_def table_rows_def)
qed

lemma tables_done_other:
  assumes "tables_done dp k task [tbl] w w1" "sw_Name tbl \<notin> sw_Name ` set tbls" "u \<in> set tbls"
  shows "rows_of (sw_Name u) (sdb w1) = rows_of (sw_Name u) (sdb w)"
proof -
  have "sw_Name u \<noteq> sw_Name tbl" using assms(2,3) by (metis image_eqI)
  with assms(1) show ?thesis by (simp add: tables_done_def)
qed

lemma tables_done_Cons:
  assumes one: "tables_done dp k task [tbl] w w1" and rest: "tables_done dp k task tbls w1 w2"
    and "sw_Name tbl \<notin> sw_Name ` set tbls"
  shows "tables_done dp k task (tbl # tbls) w w2"
proof -
  have same: "table_rows (sdb w1) t = table_rows (sdb w) t" if "t \<in> set tbls" for t
    using tables_done_other [OF one assms(3) that] by (simp add: table_rows_def)
  then have sums: "map (\<lambda>t. length (table_rows (sdb w1) t)) tbls = map (\<lambda>t. length (table_rows (sdb w) t)) tbls"
    "map (\<lambda>t. off_target k task (table_rows (sdb w1) t)) tbls = map (\<lambda>t. off_target k task (table_rows (sdb w) t)) tbls"
    by simp_all
  have "map no_beat (sd_tasks (sdb w2)) =
       map (no_beat \<circ> add_progress (st_TaskID task)
              (int (sum_list (map (\<lambda>tbl. length (table_rows (sdb w) tbl)) (tbl # tbls))))
              (int (sum_list (map (\<lambda>tbl. off_target k task (table_rows (sdb w) tbl)) (tbl # tbls)))))
         (sd_tasks (sdb w))"
    using one rest add_progress_twice by (simp add: tables_done_def sums)
  moreover have "\<exists>tab'. rows_of (sw_Name t) (sdb w2) = Some tab' \<and> table_swept dp k task (table_rows (sdb w) t) tab'"
    if t: "t \<in> set (tbl # tbls)" for t
  proof (cases "t = tbl")
    case True
    then show ?thesis using one rest assms(3) by (simp add: tables_done_def)
  next
    case False
    then have "t \<in> set tbls" using t by simp
    with rest same show ?thesis by (simp add: tables_done_def)
  qed
  moreover have "rows_of t (sdb w2) = rows_of t (sdb w)" if "t \<notin> sw_Name ` set (tbl # tbls)" for t
    using one rest that by (simp add: tables_done_def)
  ultimately show ?thesis using one rest by (simp add: tables_done_def)
qed

lemma sweep_tables_effect:
  assumes "faults w = []" "secretRing w = Some k" "wf_keyring k" "0 < sp_batchSize dp"
    and "distinct (map sw_Name tbls)" and "\<forall>tbl \<in> set tbls. ready dp k task (sdb w) tbl"
  shows "\<exists>s w'. sweep_tables dp task tbls summary None w = Some (s, None, w') \<and>
     (\<forall>tbl \<in> set tbls. map_of s (sw_Name tbl) = Some (table_count k task (table_rows (sdb w) tbl))) \<and>
     (\<forall>t. t \<notin> sw_Name ` set tbls \<longrightarrow> map_of s t = map_of summary t) \<and> tables_done dp k task tbls w w'"
  using assms
proof (induction tbls arbitrary: summary w)
  case Nil
  then show ?case by (simp add: tables_done_def add_progress_def)
next
  case (Cons tbl tbls)
  let ?cnt = "table_count k task (table_rows (sdb w) tbl)"
  have "ready dp k task (sdb w) tbl" using Cons.prems(6) by simp
  then obtain w1 where t: "sweepTable dp task tbl w = Some ((?cnt, None), w1)" and d: "tables_done dp k task [tbl] w w1"
    using sweepTable_effect [OF Cons.prems(1-4)] by blast
  have notin: "sw_Name tbl \<notin> sw_Name ` set tbls" using Cons.prems(5) by simp
  have same: "rows_of (sw_Name u) (sdb w1) = rows_of (sw_Name u) (sdb w)" if "u \<in> set tbls" for u
    by (rule tables_done_other [OF d notin that])
  have "\<forall>u \<in> set tbls. ready dp k task (sdb w1) u"
    using Cons.prems(6) same by (simp add: ready_def)
  moreover have "faults w1 = []" "secretRing w1 = Some k" using d by (simp_all add: tables_done_def)
  moreover have "distinct (map sw_Name tbls)" using Cons.prems(5) by simp
  ultimately obtain s w' where s:
    "sweep_tables dp task tbls (alist_set (sw_Name tbl) ?cnt summary) None w1 = Some (s, None, w')"
    "\<forall>u \<in> set tbls. map_of s (sw_Name u) = Some (table_count k task (table_rows (sdb w1) u))"
    "\<forall>t. t \<notin> sw_Name ` set tbls \<longrightarrow> map_of s t = map_of (alist_set (sw_Name tbl) ?cnt summary) t"
    "tables_done dp k task tbls w1 w'"
    using Cons.IH [OF _ _ Cons.prems(3,4)] by blast
  show ?case
  proof (intro exI [of _ s] exI [of _ w'] conjI)
    show "sweep_tables dp task (tbl # tbls) summary None w = Some (s, None, w')" using t s(1) by simp
    show "\<forall>u \<in> set (tbl # tbls). map_of s (sw_Name u) = Some (table_count k task (table_rows (sdb w) u))"
      using s(2,3) notin same by (simp add: table_rows_def)
    show "\<forall>t. t \<notin> sw_Name ` set (tbl # tbls) \<longrightarrow> map_of s t = map_of summary t" using s(3) by simp
    show "tables_done dp k task (tbl # tbls) w w'" by (rule tables_done_Cons [OF d s(4) notin])
  qed
qed

end
