(* ===== verification/SweepTasks.thy ===== *)
theory SweepTasks
  imports SweepEffect
begin

text \<open>
  The tasks of sweeps and their lock row: who may start a sweep, and what several instances that
  trigger, run and finish sweeps in any order keep of the table of tasks.
\<close>

section \<open>Successful steps\<close>

lemma bindE_Inr:
  assumes "run_state (bindE m f) w = (Inr y, w')"
  obtains x w1 where "run_state m w = (Inr x, w1)" "run_state (f x) w1 = (Inr y, w')"
  using assms by (cases "run_state m w") (auto split: sum.splits)

lemma read_lock_Inr:
  "run_state read_lock w = (Inr h, w') \<Longrightarrow> sd_lock (sdb w) = Some h \<and> sdb w' = sdb w"
  unfolding read_lock_def by (drule ext_call_Inr) (auto split: option.splits)

lemma taskByID_Inr:
  "run_state (taskByID i) w = (Inr r, w') \<Longrightarrow> r = find_task i (sd_tasks (sdb w)) \<and> sdb w' = sdb w"
  unfolding taskByID_def by (drule ext_call_Inr) auto

lemma mark_lost_Inr:
  "run_state (mark_lost dp h) w = (Inr u, w') \<Longrightarrow>
   sd_lock (sdb w') = sd_lock (sdb w) \<and>
   (\<exists>now. sd_tasks (sdb w') = update_where (\<lambda>r. tr_TaskID r = h \<and> tr_Status r = ''running'')
       (\<lambda>r. r\<lparr>tr_Status := ''failed'', tr_Error := ''executor lost'', tr_FinishedAt := Some now\<rparr>)
       (sd_tasks (sdb w)))"
  unfolding mark_lost_def by (drule ext_call_Inr) (auto simp: set_tasks_def lost_tasks_def)

section \<open>The invariant of the tasks\<close>

text \<open>A task that is running holds the lock; ids are unique and not empty.\<close>

definition task_inv :: "secret_db \<Rightarrow> bool" where
  "task_inv d \<longleftrightarrow>
     (\<forall>r \<in> set (sd_tasks d). tr_Status r = ''running'' \<longrightarrow> sd_lock d = Some (tr_TaskID r)) \<and>
     distinct (map tr_TaskID (sd_tasks d)) \<and> [] \<notin> tr_TaskID ` set (sd_tasks d)"

lemma find_task_distinct:
  "distinct (map tr_TaskID ts) \<Longrightarrow> r \<in> set ts \<Longrightarrow> find_task (tr_TaskID r) ts = Some r"
  unfolding find_task_def by (induction ts) auto

lemma running_is_holder:
  assumes "task_inv d" "sd_lock d = Some h" "r \<in> set (sd_tasks d)" "tr_Status r = ''running''"
  shows "find_task h (sd_tasks d) = Some r" "h \<noteq> []" "tr_TaskID r = h"
  using assms find_task_distinct [of "sd_tasks d" r] by (auto simp: task_inv_def image_iff)

text \<open>What a take-over leaves: nobody runs, and nothing else of the table changed.\<close>

definition none_running :: "secret_db \<Rightarrow> secret_db \<Rightarrow> bool" where
  "none_running d d' \<longleftrightarrow>
     sd_lock d' = sd_lock d \<and> map tr_TaskID (sd_tasks d') = map tr_TaskID (sd_tasks d) \<and>
     (\<forall>r \<in> set (sd_tasks d'). tr_Status r \<noteq> ''running'')"

lemma mark_lost_none_running:
  assumes inv: "task_inv (sdb w)" and lock: "sd_lock (sdb w) = Some h"
    and run: "run_state (mark_lost dp h) w = (Inr u, w')"
  shows "none_running (sdb w) (sdb w')"
proof -
  from mark_lost_Inr [OF run] obtain now where m: "sd_lock (sdb w') = sd_lock (sdb w)"
    "sd_tasks (sdb w') = update_where (\<lambda>r. tr_TaskID r = h \<and> tr_Status r = ''running'')
      (\<lambda>r. r\<lparr>tr_Status := ''failed'', tr_Error := ''executor lost'', tr_FinishedAt := Some now\<rparr>)
      (sd_tasks (sdb w))" by blast
  have "tr_Status (if tr_TaskID x = h \<and> tr_Status x = ''running'' then x\<lparr>tr_Status := ''failed'',
      tr_Error := ''executor lost'', tr_FinishedAt := Some now\<rparr> else x) \<noteq> ''running''"
    if "x \<in> set (sd_tasks (sdb w))" for x
    using running_is_holder(3) [OF inv lock that] by (cases "tr_Status x = ''running''") simp_all
  then have "\<forall>r \<in> set (sd_tasks (sdb w')). tr_Status r \<noteq> ''running''"
    unfolding m(2) update_where_def set_map by blast
  moreover have "map tr_TaskID (sd_tasks (sdb w')) = map tr_TaskID (sd_tasks (sdb w))"
    unfolding m(2) by (rule map_update_where) simp
  ultimately show ?thesis using m(1) by (simp add: none_running_def)
qed

lemma take_over_Inr:
  assumes inv: "task_inv (sdb w)" and lock: "sd_lock (sdb w) = Some h"
    and run: "run_state (take_over dp h) w = (Inr u, w')"
  shows "none_running (sdb w) (sdb w')"
proof (cases "h = []")
  case True
  then have "w' = w" using run by (simp add: take_over_def)
  then show ?thesis using running_is_holder(2) [OF inv lock] True by (auto simp: none_running_def)
next
  case False
  then obtain row w1 where t: "row = find_task h (sd_tasks (sdb w))" "sdb w1 = sdb w"
    and rest: "run_state (case row of None \<Rightarrow> returnE () | Some r \<Rightarrow>
        if tr_Status r \<noteq> ''running'' then returnE ()
        else bindE (getsE s_now) (\<lambda>now.
          if time_Sub now (tr_HeartbeatAt r) < sp_heartbeatTTL dp then throwE (ErrConflict h)
          else mark_lost dp h)) w1 = (Inr u, w')"
    using run unfolding take_over_def by (auto elim!: bindE_Inr dest!: taskByID_Inr simp del: run_bindE)
  show ?thesis
  proof (cases "\<exists>r. row = Some r \<and> tr_Status r = ''running''")
    case True
    then have "run_state (mark_lost dp h) w1 = (Inr u, w')" using rest by (auto split: if_splits)
    then show ?thesis using mark_lost_none_running [of w1 h] inv lock t(2) by simp
  next
    case False
    then have "w' = w1" using rest by (cases row) auto
    moreover have "tr_Status r \<noteq> ''running''" if "r \<in> set (sd_tasks (sdb w))" for r
      using running_is_holder(1) [OF inv lock that] False t(1) by blast
    ultimately show ?thesis using t(2) by (simp add: none_running_def)
  qed
qed

lemma insert_task_Inr:
  assumes "run_state (insert_task dp task) w = (Inr u, w')"
  obtains row where "find_task (st_TaskID task) (sd_tasks (sdb w)) = None" "sd_lock (sdb w') = sd_lock (sdb w)"
    "sd_tasks (sdb w') = sd_tasks (sdb w) @ [row]" "tr_TaskID row = st_TaskID task"
  using ext_call_Inr [OF assms [unfolded insert_task_def]] that
  by (auto simp: set_tasks_def task_row_def split: if_splits)

lemma write_lock_Inr:
  "run_state (write_lock i) w = (Inr u, w') \<Longrightarrow>
   sd_tasks (sdb w') = sd_tasks (sdb w) \<and> sd_lock (sdb w') = map_option (\<lambda>_. i) (sd_lock (sdb w))"
  unfolding write_lock_def by (drule ext_call_Inr) (auto simp: set_lock_def)

lemma AcquireTask_inv:
  assumes "task_inv (sdb w)" "st_TaskID task \<noteq> []"
  shows "task_inv (sdb (snd (run_state (AcquireTask dp task) w)))"
proof -
  let ?body = "bindE read_lock (\<lambda>holder. bindE (take_over dp holder) (\<lambda>_.
      bindE (insert_task dp task) (\<lambda>_. write_lock (st_TaskID task)))) :: unit sweep"
  have body: "task_inv (sdb w2)" if eq: "sdb w1 = sdb w" and ok: "run_state ?body w1 = (Inr u, w2)" for w1 u w2
  proof -
    obtain h wa wb wc where r: "run_state read_lock w1 = (Inr h, wa)" "run_state (take_over dp h) wa = (Inr (), wb)"
      "run_state (insert_task dp task) wb = (Inr (), wc)" "run_state (write_lock (st_TaskID task)) wc = (Inr u, w2)"
      using ok by (auto elim!: bindE_Inr simp del: run_bindE)
    have a: "sd_lock (sdb wa) = Some h" "task_inv (sdb wa)"
      using read_lock_Inr [OF r(1)] eq assms(1) by simp_all
    from insert_task_Inr [OF r(3)] obtain row where row:
      "find_task (st_TaskID task) (sd_tasks (sdb wb)) = None" "sd_lock (sdb wc) = sd_lock (sdb wb)"
      "sd_tasks (sdb wc) = sd_tasks (sdb wb) @ [row]" "tr_TaskID row = st_TaskID task" .
    have "st_TaskID task \<notin> set (map tr_TaskID (sd_tasks (sdb wb)))"
      using row(1) by (auto simp: find_task_def find_None_iff)
    with take_over_Inr [OF a(2,1) r(2)] write_lock_Inr [OF r(4)] row(2-4) a assms(2)
    show ?thesis by (simp add: task_inv_def none_running_def flip: set_map)
  qed
  show ?thesis
    using sweep_txn.txn_tables [of ?body w] body assms(1)
    by (auto simp: AcquireTask_def sweep_AtomExecute_def)
qed

lemma FinishTask_inv:
  assumes "task_inv (sdb w)" "status \<noteq> ''running''"
  shows "task_inv (sdb (snd (run_state (FinishTask dp i status cause summary elapsed) w)))"
proof -
  let ?finish = "\<lambda>w. set_tasks (update_where (\<lambda>r. tr_TaskID r = i)
          (finish_row dp status cause summary elapsed (s_now w)) (sd_tasks (sdb w))) w"
  let ?unlock = "\<lambda>w. if sd_lock (sdb w) = Some i then set_lock (Some []) w else w"
  let ?body = "bindE (ext_call (\<lambda>w. (Inr (), ?finish w))) (\<lambda>_. ext_call (\<lambda>w. (Inr (), ?unlock w))) :: unit sweep"
  have body: "task_inv (sdb w2)" if eq: "sdb w1 = sdb w" and ok: "run_state ?body w1 = (Inr u, w2)" for w1 u w2
  proof -
    obtain wa where "run_state (ext_call (\<lambda>w. (Inr (), ?finish w)) :: unit sweep) w1 = (Inr (), wa)"
      "run_state (ext_call (\<lambda>w. (Inr (), ?unlock w)) :: unit sweep) wa = (Inr u, w2)"
      using ok by (auto elim!: bindE_Inr simp del: run_bindE run_ext_call)
    then obtain fs fs' where wa: "wa = ?finish (w1\<lparr>faults := fs\<rparr>)" "w2 = ?unlock (wa\<lparr>faults := fs'\<rparr>)"
      by (auto dest!: ext_call_Inr simp del: run_ext_call)
    have ids: "map tr_TaskID (sd_tasks (sdb wa)) = map tr_TaskID (sd_tasks (sdb w))"
      using eq by (simp add: wa(1) set_tasks_def map_update_where finish_row_def)
    have "sd_lock (sdb w) = Some (tr_TaskID r) \<and> tr_TaskID r \<noteq> i"
      if r: "r \<in> set (sd_tasks (sdb wa))" "tr_Status r = ''running''" for r
    proof -
      obtain x where x: "x \<in> set (sd_tasks (sdb w))" "r = (if tr_TaskID x = i
          then finish_row dp status cause summary elapsed (s_now w1) x else x)"
        using r(1) eq by (auto simp: wa(1) set_tasks_def in_update_where)
      then have "r = x \<and> tr_TaskID x \<noteq> i"
        using r(2) assms(2) by (cases "tr_TaskID x = i") (simp_all add: finish_row_def)
      then show ?thesis using x(1) r(2) assms(1) by (simp add: task_inv_def)
    qed
    moreover have "sd_lock (sdb wa) = sd_lock (sdb w)" using eq by (simp add: wa(1) set_tasks_def)
    ultimately have run: "sd_lock (sdb w2) = Some (tr_TaskID r)"
      if "r \<in> set (sd_tasks (sdb wa))" "tr_Status r = ''running''" for r
      using that by (force simp: wa(2) set_lock_def)
    have "sd_tasks (sdb w2) = sd_tasks (sdb wa)" by (simp add: wa(2) set_lock_def)
    then show ?thesis using assms(1) ids run by (simp add: task_inv_def flip: set_map)
  qed
  show ?thesis
    using sweep_txn.txn_tables [of ?body w] body assms(1)
    by (auto simp: FinishTask_def sweep_AtomExecute_def)
qed

section \<open>Interleavings\<close>

text \<open>
  Several instances trigger sweeps, rewrite pages and finish tasks in any order and with any faults;
  a lost executor may go on after another instance took over. Everything else leaves the tasks and their lock alone.
\<close>

inductive task_step :: "secret_deps \<Rightarrow> secret_world \<Rightarrow> secret_world \<Rightarrow> bool" for dp :: secret_deps where
  triggered: "run_state (Trigger dp uuid mode dryRun scope operator) w = (r, w') \<Longrightarrow> task_step dp w w'"
| rewritten: "run_state (execBatch dp task tbl rs) w = (r, w') \<Longrightarrow> task_step dp w w'"
| finished: "run_state (FinishTask dp i (fst (outcome task e)) (snd (outcome task e)) summary elapsed) w = (r, w') \<Longrightarrow>
    task_step dp w w'"
| elsewhere: "sd_tasks (sdb w') = sd_tasks (sdb w) \<Longrightarrow> sd_lock (sdb w') = sd_lock (sdb w) \<Longrightarrow> task_step dp w w'"

lemma task_inv_cong:
  "sd_tasks d = sd_tasks d' \<Longrightarrow> sd_lock d = sd_lock d' \<Longrightarrow> task_inv d = task_inv d'"
  by (simp add: task_inv_def)

definition world_inv :: "secret_world \<Rightarrow> bool" where
  "world_inv w \<longleftrightarrow> task_inv (sdb w)"

lemma world_inv_fun: "world_inv = (\<lambda>w. task_inv (sdb w))"
  by (simp add: fun_eq_iff world_inv_def)

lemma keeps_world_inv_calls [keeps_rules]:
  "keeps world_inv (RewriteRow tbl key v)"
  "keeps world_inv (AddProgress dp i x y)"
  "keeps world_inv (draw_nonce dp)"
  "keeps world_inv (modifyE count_skipped)" "keeps world_inv (modifyE count_rewritten)"
proof -
  have ff: "fault_free world_inv" by (simp add: fault_free_def world_inv_def)
  show "keeps world_inv (RewriteRow tbl key v)" "keeps world_inv (draw_nonce dp)"
    "keeps world_inv (modifyE count_skipped)" "keeps world_inv (modifyE count_rewritten)"
    unfolding RewriteRow_def draw_nonce_def
    by (rule keeps_ext_call [OF ff] keeps_modifyE;
      simp add: world_inv_def task_inv_def set_rows_def count_skipped_def count_rewritten_def split: option.splits)+
  have "task_inv (d\<lparr>sd_tasks := update_where (\<lambda>r. tr_TaskID r = i) (\<lambda>r. r\<lparr>tr_Scanned := tr_Scanned r + x,
      tr_Rewritten := tr_Rewritten r + y, tr_HeartbeatAt := t\<rparr>) (sd_tasks d)\<rparr>)" if "task_inv d" for d t
    using that unfolding task_inv_def
    by (auto simp: update_where_def comp_def if_distrib [of tr_TaskID] image_iff cong: if_cong)
  then show "keeps world_inv (AddProgress dp i x y)"
    unfolding AddProgress_def by (intro keeps_ext_call [OF ff]) (simp add: world_inv_def set_tasks_def)
qed

lemma keeps_world_inv_execBatch: "keeps world_inv (execBatch dp task tbl rs)"
proof -
  have rows: "keeps world_inv (rewrite_rows dp task tbl rs)"
    by (induction rs) (auto intro!: keeps_rules simp: transform_def ring_Encrypt_def)
  have core: "keeps world_inv (batch_core dp task tbl rs)"
    unfolding batch_core_def by (auto intro!: keeps_rules rows)
  have txn: "keeps world_inv (sweep_AtomExecute (batch_core dp task tbl rs))"
    using core unfolding world_inv_fun sweep_AtomExecute_def by (rule sweep_txn.keeps_txn)
  have "keeps world_inv (batch_attempts n dp task tbl rs e)" for n e
    by (induction n arbitrary: e)
       (auto intro!: keeps_rules keeps_modifyE txn simp: execBatchOnce_def world_inv_def)
  then show ?thesis by (simp add: execBatch_def)
qed

lemma snd_Trigger:
  "snd (run_state (Trigger dp uuid mode dryRun scope operator) w) =
     (if sweep_mode mode \<noteq> ''reencrypt'' \<and> sweep_mode mode \<noteq> ''decrypt'' then w
      else if sweep_scope scope \<noteq> ''all'' \<and> sweep_scope scope \<noteq> ''providers'' \<and> sweep_scope scope \<noteq> ''api_keys'' then w
      else snd (run_state (AcquireTask dp
        (new_task uuid (sweep_mode mode) dryRun (sweep_scope scope) operator w)) w))"
proof (cases "sweep_mode mode \<noteq> ''reencrypt'' \<and> sweep_mode mode \<noteq> ''decrypt''")
  case True
  then show ?thesis unfolding Trigger_def Let_def if_P [OF True] by simp
next
  case mode: False
  show ?thesis
  proof (cases "sweep_scope scope \<noteq> ''all'' \<and> sweep_scope scope \<noteq> ''providers'' \<and> sweep_scope scope \<noteq> ''api_keys''")
    case True
    then show ?thesis unfolding Trigger_def Let_def if_not_P [OF mode] if_P [OF True] by simp
  next
    case False
    then show ?thesis unfolding Trigger_def Let_def if_not_P [OF mode] if_not_P [OF False] by (simp add: split_beta)
  qed
qed

lemma Trigger_inv:
  assumes "task_inv (sdb w)"
  shows "task_inv (sdb (snd (run_state (Trigger dp uuid mode dryRun scope operator) w)))"
proof -
  have "st_TaskID (new_task uuid m dryRun s operator w) \<noteq> []" for m s by (simp add: new_task_def)
  from AcquireTask_inv [OF assms this] show ?thesis
    unfolding snd_Trigger using assms by presburger
qed

lemma task_step_inv: "task_step dp w w' \<Longrightarrow> task_inv (sdb w) \<Longrightarrow> task_inv (sdb w')"
proof (induction rule: task_step.induct)
  case (triggered uuid mode dryRun scope operator w r w')
  then show ?case by (metis Trigger_inv snd_conv)
next
  case (rewritten task tbl rs w r w')
  then show ?case using keepsD_run [OF keeps_world_inv_execBatch] by (simp add: world_inv_def)
next
  case (finished i task e summary elapsed w r w')
  have "fst (outcome task e) \<noteq> ''running''" by (cases e) (simp_all add: outcome_def Let_def)
  from FinishTask_inv [OF finished.prems this] finished.hyps show ?case by (metis snd_conv)
next
  case (elsewhere w' w)
  then show ?case by (simp add: task_inv_def)
qed

lemma task_steps_inv: "(task_step dp)\<^sup>*\<^sup>* w w' \<Longrightarrow> task_inv (sdb w) \<Longrightarrow> task_inv (sdb w')"
  by (induction rule: rtranclp_induct) (auto dest: task_step_inv)

section \<open>Acquiring without faults\<close>

text \<open>A holder that runs and was heard of within the time limit.\<close>

definition fresh_holder :: "secret_deps \<Rightarrow> secret_world \<Rightarrow> string \<Rightarrow> bool" where
  "fresh_holder dp w h \<longleftrightarrow>
     h \<noteq> [] \<and> (case find_task h (sd_tasks (sdb w)) of
        None \<Rightarrow> False
      | Some r \<Rightarrow> tr_Status r = ''running'' \<and> time_Sub (s_now w) (tr_HeartbeatAt r) < sp_heartbeatTTL dp)"

lemma AcquireTask_refused:
  assumes "faults w = []" "sd_lock (sdb w) = Some h" "fresh_holder dp w h"
  shows "run_state (AcquireTask dp task) w = (Inl (ErrConflict h), w)"
  using assms
  by (auto simp: AcquireTask_def sweep_AtomExecute_def RDBTxnExecute_def read_lock_def take_over_def
    taskByID_def fresh_holder_def split: option.splits)

lemma lost_tasks_idle:
  assumes "task_inv d" "sd_lock d = Some h"
    and "\<And>r. find_task h (sd_tasks d) = Some r \<Longrightarrow> tr_Status r \<noteq> ''running''"
  shows "lost_tasks dp now h (sd_tasks d) = sd_tasks d"
proof -
  have "\<not> (tr_TaskID x = h \<and> tr_Status x = ''running'')" if "x \<in> set (sd_tasks d)" for x
    using running_is_holder(1) [OF assms(1,2) that] assms(3) by blast
  then show ?thesis unfolding lost_tasks_def update_where_def by (intro map_idI) (metis (full_types))
qed

lemma take_over_granted:
  assumes "faults w = []" "task_inv (sdb w)" "sd_lock (sdb w) = Some h" "\<not> fresh_holder dp w h"
  shows "run_state (take_over dp h) w = (Inr (), set_tasks (lost_tasks dp (s_now w) h (sd_tasks (sdb w))) w)"
proof (cases "\<exists>r. h \<noteq> [] \<and> find_task h (sd_tasks (sdb w)) = Some r \<and> tr_Status r = ''running''")
  case True
  then show ?thesis using assms by (auto simp: take_over_def taskByID_def mark_lost_def fresh_holder_def)
next
  case False
  have "tr_Status r \<noteq> ''running''" if "find_task h (sd_tasks (sdb w)) = Some r" for r
    using running_is_holder(2) [OF assms(2,3)] that False by (metis find_Some_in find_task_def)
  then have "lost_tasks dp (s_now w) h (sd_tasks (sdb w)) = sd_tasks (sdb w)"
    by (rule lost_tasks_idle [OF assms(2,3)])
  then have "set_tasks (lost_tasks dp (s_now w) h (sd_tasks (sdb w))) w = w" by (simp add: set_tasks_def)
  then show ?thesis
    using False assms(1) by (auto simp: take_over_def taskByID_def split: option.splits)
qed

lemma AcquireTask_granted:
  assumes "faults w = []" "task_inv (sdb w)" "sd_lock (sdb w) = Some h" "\<not> fresh_holder dp w h"
    and new: "find_task (st_TaskID task) (sd_tasks (sdb w)) = None"
  shows "run_state (AcquireTask dp task) w =
     (Inr (), set_lock (Some (st_TaskID task))
        (set_tasks (lost_tasks dp (s_now w) h (sd_tasks (sdb w)) @ [task_row dp task]) w))"
proof -
  let ?w1 = "set_tasks (lost_tasks dp (s_now w) h (sd_tasks (sdb w))) w"
  have "find_task (st_TaskID task) (sd_tasks (sdb ?w1)) = None"
    using new by (auto simp: find_task_def find_None_iff set_tasks_def lost_tasks_def in_update_where)
  then have "run_state (bindE read_lock (\<lambda>holder. bindE (take_over dp holder) (\<lambda>_.
      bindE (insert_task dp task) (\<lambda>_. write_lock (st_TaskID task))))) w =
      (Inr (), set_lock (Some (st_TaskID task)) (set_tasks (sd_tasks (sdb ?w1) @ [task_row dp task]) ?w1))"
    using assms(1,3) take_over_granted [OF assms(1-4)]
    by (simp add: read_lock_def insert_task_def write_lock_def set_tasks_def)
  from sweep_txn.txn_ok [OF assms(1) this] show ?thesis
    using assms(1) by (simp add: AcquireTask_def sweep_AtomExecute_def set_tasks_def set_lock_def)
qed

end
