(* ===== verification/SecretProperties.thy ===== *)
theory SecretProperties
  imports SweepTasks
begin

text \<open>
  The properties of secrets at rest: what a keyring encrypts it decrypts again, also after a rotation; a
  sweep ends, never loses a secret and takes every value to its target form; one task runs at a time.
\<close>

section \<open>Concrete inputs\<close>

definition wit_crypto :: crypto where
  "wit_crypto = \<lparr>cr_aes = (\<lambda>key b. b), cr_hmac = (\<lambda>key m. replicate 32 0),
     cr_hkdf = (\<lambda>key info. Inr (\<lambda>i. 7)), cr_ReadFile = (\<lambda>path. Inr path),
     cr_toml = (\<lambda>s. Inl ErrInfra)\<rparr>"

definition wit_sdeps :: secret_deps where
  "wit_sdeps = \<lparr>sp_crypto = wit_crypto, sp_random = (\<lambda>i j. 0), sp_heartbeatTTL = DefaultHeartbeatTTL,
     sp_time = (\<lambda>t. t), sp_batchSize = DefaultBatchSize\<rparr>"

definition wit_ring :: Keyring where
  "wit_ring = \<lparr>kr_keys = [(1, replicate 32 1)], kr_encKeys = [(1, replicate 32 7)], kr_active = 1,
     kr_filePath = ''keyring.toml''\<rparr>"

definition wit_swtask :: SweepTask where
  "wit_swtask = (conflict_task ''rsp-1'')\<lparr>st_Mode := ''reencrypt'', st_Scope := ''providers''\<rparr>"

definition wit_secrets :: secret_world where
  "wit_secrets = \<lparr>faults = [],
     sdb = \<lparr>sd_tables = [(''providers'', [(PkName ''openai'', Some ''sk-1'')]), (''api_keys'', [])],
            sd_tasks = [], sd_lock = Some []\<rparr>,
     secretRing = Some wit_ring, exportCryptoState = None, s_now = 1000, s_draws = 0,
     s_cnt = zero_count, s_rew = 0\<rparr>"

lemma wf_wit_ring: "wf_keyring wit_ring"
  by (simp add: wf_keyring_def wit_ring_def keyLen_def)

lemma wit_plain [simp]: "\<not> IsEncrypted ''sk-1''"
  by (simp add: IsEncrypted_def HasPrefix_def Marker_def)

section \<open>Encryption\<close>

text \<open>
  C16. Whatever configuration was loaded, a value that is encrypted for storage is read back as it
  was, by every process whose keyring still has the key it was encrypted with, whichever key is active there.
\<close>

theorem secrets_round_trip:
  assumes "run_state (loadSecretRing dp conf) w0 = (Inr (), w)" and "faults w = []"
  shows "\<exists>v w1. run_state (EncryptIfEnabled dp p) w = (Inr v, w1) \<and>
     (case secretRing w of
        None \<Rightarrow> v = p
      | Some k \<Rightarrow> KeyIDOf v = Some (ActiveID k) \<and>
          (\<forall>w2 k'. secretRing w2 = Some k' \<longrightarrow>
             map_of (kr_encKeys k') (ActiveID k) = map_of (kr_encKeys k) (ActiveID k) \<longrightarrow>
             run_state (DecryptIfEnabled dp v) w2 = (Inr p, w2)))"
proof (cases "secretRing w")
  case None
  then show ?thesis by (simp add: EncryptIfEnabled_def)
next
  case (Some k)
  have "wf_keyring k"
    using assms(1) Some
    by (auto simp: loadSecretRing_def dest: LoadKeyringFile_wf split: if_splits sum.splits)
  then obtain v where "Keyring_Encrypt (sp_crypto dp) (nonce_of dp (s_draws w)) k p = Inr v"
    "KeyIDOf v = Some (ActiveID k)"
    "\<And>k'. map_of (kr_encKeys k') (ActiveID k) = map_of (kr_encKeys k) (ActiveID k) \<Longrightarrow>
      Keyring_Decrypt (sp_crypto dp) k' v = Inr p"
    using Keyring_Encrypt_spec [OF _ length_nonce_of] by metis
  then show ?thesis
    using Some assms(2)
    by (auto simp: EncryptIfEnabled_def DecryptIfEnabled_def ring_Encrypt_def draw_nonce_def)
qed

definition wit_file_deps :: secret_deps where
  "wit_file_deps = wit_sdeps\<lparr>sp_crypto := wit_crypto\<lparr>cr_toml := (\<lambda>s. Inr \<lparr>kf_ActiveKeyID = 2,
     kf_Keys = [(''2'', EncodeToString (replicate 32 9))]\<rparr>)\<rparr>\<rparr>"

definition wit_conf :: SecurityConfig where
  "wit_conf = \<lparr>sc_MasterKeyFile = ''keyring.toml'', sc_ActiveKeyID = 0, sc_EncryptExports = False,
     sc_ExportKeyFile = [], sc_ActiveExportKeyID = 0\<rparr>"

definition wit_loaded :: Keyring where
  "wit_loaded = \<lparr>kr_keys = [(2, replicate 32 9)], kr_encKeys = [(2, replicate 32 7)], kr_active = 2,
     kr_filePath = ''keyring.toml''\<rparr>"

lemma wit_load:
  "run_state (loadSecretRing wit_file_deps wit_conf) wit_secrets = (Inr (), wit_secrets\<lparr>secretRing := Some wit_loaded\<rparr>)"
proof -
  have "TrimSpace ''2'' = ''2''" by code_simp
  then have two: "ParseKeyID ''2'' = Inr 2" by (simp add: ParseKeyID_def ParseInt_def)
  have "map (\<lambda>i. 7) [0..<32] = (replicate 32 7 :: byte list)" by (simp add: map_replicate_const)
  with two have "LoadKeyringFile (sp_crypto wit_file_deps) ''keyring.toml'' = Inr wit_loaded"
    by (simp add: LoadKeyringFile_def wit_file_deps_def wit_sdeps_def wit_crypto_def hkdfBytes_def
      wit_loaded_def keyLen_def Let_def)
  then show ?thesis by (simp add: loadSecretRing_def wit_conf_def)
qed

theorem secrets_round_trip_witness:
  "\<exists>v w1. run_state (EncryptIfEnabled wit_file_deps ''sk-1'') (wit_secrets\<lparr>secretRing := Some wit_loaded\<rparr>) = (Inr v, w1) \<and>
     KeyIDOf v = Some 2"
  using secrets_round_trip [OF wit_load, of "''sk-1''"]
  by (auto simp: wit_secrets_def wit_loaded_def ActiveID_def)

section \<open>Sweeps\<close>

text \<open>
  C17. A sweep ends in every world, whatever calls fail: the cursor of each page is above the last one, and
  there are finitely many rows.
\<close>

theorem sweep_always_ends: "\<exists>w'. run_task dp task elapsed w = Some w'"
  by (rule run_task_terminates)

lemma run_task_same_keys:
  assumes "run_task dp task elapsed w = Some w'"
  shows "same_keys (sdb w) w'"
proof -
  have tables: "same_keys d w \<Longrightarrow> sweep_tables dp task tbls summary f w = Some (s, e, w') \<Longrightarrow> same_keys d w'"
    for d tbls summary f w s e w'
  proof (induction tbls arbitrary: summary f w)
    case (Cons tbl tbls)
    obtain cnt e1 w1 where t: "sweepTable dp task tbl w = Some ((cnt, e1), w1)"
      using sweepTable_terminates by blast
    then obtain e2 where "sweep_pages dp task tbl None (w\<lparr>s_cnt := zero_count\<rparr>) = Some (e2, w1)"
      by (auto simp: sweepTable_def)
    moreover have "same_keys d (w\<lparr>s_cnt := zero_count\<rparr>)" using Cons.prems(1) by (simp add: same_keys_def)
    ultimately have "same_keys d w1"
      using sweep_pages_keeps [OF keeps_keys_calls(3) keeps_keys_execBatch] by blast
    then show ?case using Cons.IH Cons.prems(2) t by simp
  qed simp
  have finish: "keeps (same_keys d) (FinishTask dp i status cause summary el)" for d i status cause summary el
    unfolding FinishTask_def
    by (intro keeps_keys_txn keeps_bindE keeps_ext_call [OF fault_free_same_keys])
       (auto simp: same_keys_def set_tasks_def set_lock_def)
  obtain s e w1 where t: "sweep_tables dp task (TablesForScope (st_Scope task)) [] None w = Some (s, e, w1)"
    using sweep_tables_terminates by blast
  have "same_keys (sdb w) w1" using tables [OF _ t] by (simp add: same_keys_def)
  then show ?thesis
    using assms t keepsD [OF finish] by (auto simp: run_task_def split_beta)
qed

text \<open>
  C18. Whatever calls fail during a sweep, with one keyring from its begin to its end, tables of unique keys and no other writer of the
  tables at the same time, every secret that could be read with the keyring before can be read afterwards and is the same. For a sweep
  that decrypts this needs that no stored secret in the clear looks itself like an envelope (begins with the marker): such a secret
  is stored as it is and can no longer be read.
\<close>

theorem sweep_never_loses_a_secret:
  assumes "run_task dp task elapsed w = Some w'" and "secretRing w = Some k" "wf_keyring k"
    and distinct: "\<And>t tab. rows_of t (sdb w) = Some tab \<Longrightarrow> distinct (map fst tab)"
    and plain: "\<And>t tab key v p. st_Mode task = ''decrypt'' \<Longrightarrow> rows_of t (sdb w) = Some tab \<Longrightarrow>
      (key, v) \<in> set tab \<Longrightarrow> Keyring_Decrypt (sp_crypto dp) k (null_string v) = Inr p \<Longrightarrow> \<not> IsEncrypted p"
    and row: "rows_of t (sdb w) = Some tab" "(key, v) \<in> set tab"
      "Keyring_Decrypt (sp_crypto dp) k (null_string v) = Inr p"
  shows "\<exists>tab' v'. rows_of t (sdb w') = Some tab' \<and> (key, v') \<in> set tab' \<and>
     Keyring_Decrypt (sp_crypto dp) k (null_string v') = Inr p"
proof -
  define S where "S t key p \<longleftrightarrow> (\<exists>tab v. rows_of t (sdb w) = Some tab \<and> (key, v) \<in> set tab \<and>
      Keyring_Decrypt (sp_crypto dp) k (null_string v) = Inr p)" for t key p
  have "table_keeps dp k S (sdb w)"
    unfolding table_keeps_def
  proof (intro allI impI ballI)
    fix t tab r p
    assume r: "rows_of t (sdb w) = Some tab" "r \<in> set tab" and "S t (fst r) p"
    then obtain v where "(fst r, v) \<in> set tab" "Keyring_Decrypt (sp_crypto dp) k (null_string v) = Inr p"
      by (auto simp: S_def)
    moreover have "v = snd r" using eq_key_imp_eq_value [OF distinct [OF r(1)]] r(2) calculation(1) by (metis prod.collapse)
    ultimately show "Keyring_Decrypt (sp_crypto dp) k (null_string (snd r)) = Inr p" by simp
  qed
  moreover have "plain_safe task S" unfolding plain_safe_def S_def using plain by blast
  ultimately have "secrets_kept dp k S w'"
    using run_task_keeps_secrets [OF assms(3) _ _ assms(1)] assms(2) by (simp add: secrets_kept_def)
  moreover obtain tab' where tab': "rows_of t (sdb w') = Some tab'" "map fst tab' = map fst tab"
    using run_task_same_keys [OF assms(1)] row(1) unfolding same_keys_def keys_of_def by (metis map_option_eq_Some)
  moreover have "key \<in> set (map fst tab')" using row(2) unfolding tab'(2) by force
  then obtain v' where "(key, v') \<in> set tab'" by auto
  moreover have "S t key p" unfolding S_def using row by blast
  ultimately show ?thesis unfolding secrets_kept_def table_keeps_def by (metis fst_conv snd_conv)
qed

theorem sweep_never_loses_a_secret_witness:
  "\<exists>w' tab' v'. run_task wit_sdeps wit_swtask 0 (wit_secrets\<lparr>faults := [NoFault, FaultAfter]\<rparr>) = Some w' \<and>
     rows_of ''providers'' (sdb w') = Some tab' \<and> (PkName ''openai'', v') \<in> set tab' \<and>
     Keyring_Decrypt wit_crypto wit_ring (null_string v') = Inr ''sk-1''"
proof -
  let ?w = "wit_secrets\<lparr>faults := [NoFault, FaultAfter]\<rparr>"
  obtain w' where run: "run_task wit_sdeps wit_swtask 0 ?w = Some w'" using run_task_terminates by blast
  have "\<exists>tab' v'. rows_of ''providers'' (sdb w') = Some tab' \<and> (PkName ''openai'', v') \<in> set tab' \<and>
     Keyring_Decrypt (sp_crypto wit_sdeps) wit_ring (null_string v') = Inr ''sk-1''"
  proof (rule sweep_never_loses_a_secret [OF run _ wf_wit_ring])
    show "rows_of ''providers'' (sdb ?w) = Some [(PkName ''openai'', Some ''sk-1'')]"
      by (simp add: wit_secrets_def rows_of_def)
    show "distinct (map fst tab)" if "rows_of t (sdb ?w) = Some tab" for t tab
      using that by (auto simp: wit_secrets_def rows_of_def split: if_splits)
  qed (auto simp: wit_secrets_def wit_swtask_def null_string_def Keyring_Decrypt_plain)
  with run show ?thesis by (auto simp: wit_sdeps_def)
qed

lemma distinct_TablesForScope: "distinct (map sw_Name (TablesForScope scope))"
  by (simp add: TablesForScope_def sweepTables_def)

lemma run_task_effect:
  assumes "faults w = []" "secretRing w = Some k" "wf_keyring k" "0 < sp_batchSize dp"
    and "\<forall>tbl \<in> set (TablesForScope (st_Scope task)). ready dp k task (sdb w) tbl"
  obtains s w1 w' where "tables_done dp k task (TablesForScope (st_Scope task)) w w1"
    "run_task dp task elapsed w = Some w'"
    "\<forall>tbl \<in> set (TablesForScope (st_Scope task)).
       map_of s (sw_Name tbl) = Some (table_count k task (table_rows (sdb w) tbl))"
    "w' = (let w2 = set_tasks (update_where (\<lambda>r. tr_TaskID r = st_TaskID task)
          (finish_row dp ''succeeded'' (if st_DryRun task then ''dry_run'' else []) s elapsed (s_now w1))
          (sd_tasks (sdb w1))) w1
       in if sd_lock (sdb w2) = Some (st_TaskID task) then set_lock (Some []) w2 else w2)"
proof -
  obtain s w1 where s: "sweep_tables dp task (TablesForScope (st_Scope task)) [] None w = Some (s, None, w1)"
    "\<forall>tbl \<in> set (TablesForScope (st_Scope task)).
       map_of s (sw_Name tbl) = Some (table_count k task (table_rows (sdb w) tbl))"
    "tables_done dp k task (TablesForScope (st_Scope task)) w w1"
    using sweep_tables_effect [OF assms(1-4) distinct_TablesForScope assms(5), of "[]"] by blast
  let ?w2 = "set_tasks (update_where (\<lambda>r. tr_TaskID r = st_TaskID task)
          (finish_row dp ''succeeded'' (if st_DryRun task then ''dry_run'' else []) s elapsed (s_now w1))
          (sd_tasks (sdb w1))) w1"
  let ?w3 = "if sd_lock (sdb ?w2) = Some (st_TaskID task) then set_lock (Some []) ?w2 else ?w2"
  have quiet: "faults w1 = []" using s(3) by (simp add: tables_done_def)
  have "run_state (FinishTask dp (st_TaskID task) ''succeeded'' (if st_DryRun task then ''dry_run'' else [])
      s elapsed) w1 = (Inr (), ?w3)"
    unfolding FinishTask_def sweep_AtomExecute_def
    by (rule sweep_txn.txn_ok [OF quiet]) (use quiet in \<open>auto simp: set_tasks_def set_lock_def\<close>)
  then have "run_task dp task elapsed w = Some ?w3"
    using s(1) by (simp add: run_task_def outcome_def)
  with s(2,3) that show thesis unfolding Let_def by blast
qed

text \<open>
  C19. A sweep in which no call fails, without another writer, over secrets that the keyring can read (and, when it decrypts,
  none of which looks like an envelope in the clear) succeeds. When it is no dry run, each value of the tables of its scope is in the target form
  afterwards (encrypted with the active key, or in the clear for a decrypting sweep) with its plaintext unchanged, and
  values that were in that form before are not touched; a dry run touches none. No other table changes; the task is recorded as
  succeeded with the numbers of rows that were (or, in a dry run, would be) rewritten and that were skipped, and its lock is
  released. The number of scanned rows is not claimed: the code never fills it.
\<close>

theorem sweep_converges:
  assumes "faults w = []" "secretRing w = Some k" "wf_keyring k" "0 < sp_batchSize dp"
    and "\<forall>tbl \<in> set (TablesForScope (st_Scope task)). ready dp k task (sdb w) tbl"
  shows "\<exists>w' s. run_task dp task elapsed w = Some w' \<and>
     (\<forall>tbl \<in> set (TablesForScope (st_Scope task)). \<exists>tab'.
        rows_of (sw_Name tbl) (sdb w') = Some tab' \<and> table_swept dp k task (table_rows (sdb w) tbl) tab' \<and>
        map_option tc_Rewritten (map_of s (sw_Name tbl)) =
          Some (length (filter (\<lambda>r. \<not> in_target k task (null_string (snd r))) (table_rows (sdb w) tbl))) \<and>
        map_option tc_Skipped (map_of s (sw_Name tbl)) =
          Some (length (filter (\<lambda>r. in_target k task (null_string (snd r))) (table_rows (sdb w) tbl)))) \<and>
     (\<forall>t. t \<notin> sw_Name ` set (TablesForScope (st_Scope task)) \<longrightarrow> rows_of t (sdb w') = rows_of t (sdb w)) \<and>
     (\<forall>r \<in> set (sd_tasks (sdb w')). tr_TaskID r = st_TaskID task \<longrightarrow>
        tr_Status r = ''succeeded'' \<and> tr_Error r = (if st_DryRun task then ''dry_run'' else []) \<and> tr_Summary r = Some s) \<and>
     sd_lock (sdb w') = (if sd_lock (sdb w) = Some (st_TaskID task) then Some [] else sd_lock (sdb w))"
proof -
  let ?T = "TablesForScope (st_Scope task)"
  obtain s w1 w' where d: "tables_done dp k task ?T w w1" and run: "run_task dp task elapsed w = Some w'"
    and s: "\<forall>tbl \<in> set ?T. map_of s (sw_Name tbl) = Some (table_count k task (table_rows (sdb w) tbl))"
    and w': "w' = (let w2 = set_tasks (update_where (\<lambda>r. tr_TaskID r = st_TaskID task)
          (finish_row dp ''succeeded'' (if st_DryRun task then ''dry_run'' else []) s elapsed (s_now w1))
          (sd_tasks (sdb w1))) w1
       in if sd_lock (sdb w2) = Some (st_TaskID task) then set_lock (Some []) w2 else w2)"
    using run_task_effect [OF assms] by metis
  have rows: "rows_of t (sdb w') = rows_of t (sdb w1)" for t
    by (simp add: w' Let_def set_tasks_def set_lock_def rows_of_def)
  have tasks: "\<forall>r \<in> set (sd_tasks (sdb w')). tr_TaskID r = st_TaskID task \<longrightarrow>
        tr_Status r = ''succeeded'' \<and> tr_Error r = (if st_DryRun task then ''dry_run'' else []) \<and> tr_Summary r = Some s"
    by (auto simp: w' Let_def set_tasks_def set_lock_def in_update_where finish_row_def)
  have "sd_lock (sdb w') = (if sd_lock (sdb w) = Some (st_TaskID task) then Some [] else sd_lock (sdb w))"
    using d by (simp add: w' Let_def set_tasks_def set_lock_def tables_done_def)
  then show ?thesis
    using run s d tasks rows
    by (intro exI [of _ w'] exI [of _ s]) (simp add: tables_done_def table_count_def off_target_def on_target_def)
qed

theorem sweep_converges_witness:
  "\<exists>w' tab'. run_task wit_sdeps wit_swtask 0 wit_secrets = Some w' \<and>
     rows_of ''providers'' (sdb w') = Some tab' \<and>
     table_swept wit_sdeps wit_ring wit_swtask [(PkName ''openai'', Some ''sk-1'')] tab'"
proof -
  have "\<forall>tbl \<in> set (TablesForScope (st_Scope wit_swtask)). ready wit_sdeps wit_ring wit_swtask (sdb wit_secrets) tbl"
    by (simp add: TablesForScope_def sweepTables_def wit_swtask_def ready_def wit_secrets_def rows_of_def
      sweepable_def null_string_def Keyring_Decrypt_plain)
  from sweep_converges [OF _ _ wf_wit_ring _ this, where elapsed = 0] show ?thesis
    by (auto simp: TablesForScope_def sweepTables_def wit_swtask_def wit_secrets_def rows_of_def table_rows_def
      wit_sdeps_def DefaultBatchSize_def conflict_task_def)
qed

lemma run_task_tables:
  assumes "faults w = []" "secretRing w = Some k" "wf_keyring k" "0 < sp_batchSize dp"
    and "\<forall>tbl \<in> set (TablesForScope (st_Scope task)). ready dp k task (sdb w) tbl"
  shows "\<exists>w'. run_task dp task elapsed w = Some w' \<and> faults w' = [] \<and> secretRing w' = Some k \<and>
     (\<forall>tbl \<in> set (TablesForScope (st_Scope task)). \<exists>tab'. rows_of (sw_Name tbl) (sdb w') = Some tab' \<and>
        table_swept dp k task (table_rows (sdb w) tbl) tab')"
proof -
  obtain s w1 w' where d: "tables_done dp k task (TablesForScope (st_Scope task)) w w1"
    and run: "run_task dp task elapsed w = Some w'"
    and w': "w' = (let w2 = set_tasks (update_where (\<lambda>r. tr_TaskID r = st_TaskID task)
          (finish_row dp ''succeeded'' (if st_DryRun task then ''dry_run'' else []) s elapsed (s_now w1))
          (sd_tasks (sdb w1))) w1
       in if sd_lock (sdb w2) = Some (st_TaskID task) then set_lock (Some []) w2 else w2)"
    using run_task_effect [OF assms] by metis
  have "faults w' = faults w1" "secretRing w' = secretRing w1" "\<And>t. rows_of t (sdb w') = rows_of t (sdb w1)"
    by (simp_all add: w' Let_def set_tasks_def set_lock_def rows_of_def)
  then show ?thesis using run d by (simp add: tables_done_def)
qed

text \<open>A value in the clear, after a sweep that encrypts.\<close>

lemma swept_plain:
  assumes "swept dp k task v v'" "st_Mode task \<noteq> ''decrypt''" "\<not> st_DryRun task" "\<not> IsEncrypted (null_string v)"
  shows "KeyIDOf (null_string v') = Some (ActiveID k)" "IsEncrypted (null_string v')" "v' = Some (null_string v')"
    "Keyring_Decrypt (sp_crypto dp) k (null_string v') = Inr (null_string v)"
proof -
  have "\<not> in_target k task (null_string v)"
    using assms(2,4) envelopeKeyID_marked by (auto simp: in_target_def KeyIDOf_def)
  then show k: "KeyIDOf (null_string v') = Some (ActiveID k)"
    "Keyring_Decrypt (sp_crypto dp) k (null_string v') = Inr (null_string v)"
    using assms by (simp_all add: swept_def in_target_def Keyring_Decrypt_plain)
  then show marked: "IsEncrypted (null_string v')" by (auto simp: KeyIDOf_def intro: envelopeKeyID_marked)
  show "v' = Some (null_string v')"
    using marked by (cases v') (auto simp: null_string_def IsEncrypted_def HasPrefix_def Marker_def)
qed

lemma table_swept_row:
  assumes "table_swept dp k task tab tab'" "distinct (map fst tab)" "r' \<in> set tab'"
  obtains r where "r \<in> set tab" "fst r = fst r'" "swept dp k task (snd r) (snd r')"
proof -
  have keys: "map fst tab' = map fst tab" using assms(1) by (simp add: table_swept_def)
  have "fst r' \<in> set (map fst tab)" unfolding keys [symmetric] using assms(3) by simp
  then obtain r where r: "r \<in> set tab" "fst r = fst r'" by auto
  moreover have "map_of tab' (fst r') = Some (snd r')" using assms(2,3) keys by (simp add: map_of_is_SomeI)
  ultimately have "swept dp k task (snd r) (snd r')"
    using assms(1) unfolding table_swept_def by (metis option.inject)
  with r show thesis by (rule that)
qed

text \<open>Encrypting and decrypting a table of values in the clear.\<close>

lemma table_swept_twice:
  assumes enc: "table_swept dp k enc tab tab1" "st_Mode enc \<noteq> ''decrypt''" "\<not> st_DryRun enc"
    and tab: "distinct (map fst tab)" "\<forall>r \<in> set tab. \<not> IsEncrypted (null_string (snd r))"
  shows "\<forall>r1 \<in> set tab1. sweepable dp k dec (null_string (snd r1))"
    and "table_swept dp k dec tab1 tab2 \<Longrightarrow> st_Mode dec = ''decrypt'' \<Longrightarrow> \<not> st_DryRun dec \<Longrightarrow>
      \<forall>r \<in> set tab. \<exists>c v. map_of tab1 (fst r) = Some (Some c) \<and> KeyIDOf c = Some (ActiveID k) \<and>
        map_of tab2 (fst r) = Some v \<and> null_string v = null_string (snd r)"
proof -
  show "\<forall>r1 \<in> set tab1. sweepable dp k dec (null_string (snd r1))"
  proof
    fix r1 assume "r1 \<in> set tab1"
    then obtain r where "r \<in> set tab" "swept dp k enc (snd r) (snd r1)" using table_swept_row enc(1) tab(1) by blast
    then show "sweepable dp k dec (null_string (snd r1))"
      using swept_plain(4) enc(2,3) tab(2) by (auto simp: sweepable_def)
  qed
next
  assume dec: "table_swept dp k dec tab1 tab2" "st_Mode dec = ''decrypt''" "\<not> st_DryRun dec"
  show "\<forall>r \<in> set tab. \<exists>c v. map_of tab1 (fst r) = Some (Some c) \<and> KeyIDOf c = Some (ActiveID k) \<and>
        map_of tab2 (fst r) = Some v \<and> null_string v = null_string (snd r)"
  proof
    fix r assume r: "r \<in> set tab"
    then obtain v1 where v1: "map_of tab1 (fst r) = Some v1" "swept dp k enc (snd r) v1"
      using enc(1) by (auto simp: table_swept_def)
    note c = swept_plain [OF v1(2) enc(2,3) bspec [OF tab(2) r]]
    have "(fst r, v1) \<in> set tab1" using v1(1) by (rule map_of_SomeD)
    then obtain v where v: "map_of tab2 (fst r) = Some v" "swept dp k dec v1 v"
      using dec(1) by (force simp: table_swept_def)
    have "\<not> IsEncrypted (null_string v)" "Keyring_Decrypt (sp_crypto dp) k (null_string v) = Inr (null_string (snd r))"
      using v(2) c(2,4) dec(2,3) by (simp_all add: swept_def in_target_def)
    then have "null_string v = null_string (snd r)" by (simp add: Keyring_Decrypt_plain)
    then show "\<exists>c v. map_of tab1 (fst r) = Some (Some c) \<and> KeyIDOf c = Some (ActiveID k) \<and>
        map_of tab2 (fst r) = Some v \<and> null_string v = null_string (snd r)"
      using v1(1) c(1,3) v(1) by metis
  qed
qed

text \<open>
  A sweep that encrypts followed by a sweep that decrypts, both over the same tables and without
  faults, gives every plaintext back: a value in the clear is stored again as it was (a NULL may become an empty text).
\<close>

theorem decrypting_sweep_restores:
  assumes "faults w = []" "secretRing w = Some k" "wf_keyring k" "0 < sp_batchSize dp"
    and modes: "st_Mode enc = ''reencrypt''" "st_Mode dec = ''decrypt''" "st_Scope dec = st_Scope enc"
      "\<not> st_DryRun enc" "\<not> st_DryRun dec"
    and tables: "\<forall>tbl \<in> set (TablesForScope (st_Scope enc)). \<exists>tab. rows_of (sw_Name tbl) (sdb w) = Some tab \<and>
      distinct (map fst tab) \<and> (\<forall>r \<in> set tab. \<not> IsEncrypted (null_string (snd r)))"
  shows "\<exists>w1 w2. run_task dp enc e1 w = Some w1 \<and> run_task dp dec e2 w1 = Some w2 \<and>
     (\<forall>tbl \<in> set (TablesForScope (st_Scope enc)). \<exists>tab1 tab2.
        rows_of (sw_Name tbl) (sdb w1) = Some tab1 \<and> rows_of (sw_Name tbl) (sdb w2) = Some tab2 \<and>
        (\<forall>r \<in> set (table_rows (sdb w) tbl). \<exists>c v.
           map_of tab1 (fst r) = Some (Some c) \<and> KeyIDOf c = Some (ActiveID k) \<and>
           map_of tab2 (fst r) = Some v \<and> null_string v = null_string (snd r)))"
proof -
  let ?T = "TablesForScope (st_Scope enc)"
  have "\<forall>tbl \<in> set ?T. ready dp k enc (sdb w) tbl"
    using tables modes(1) by (fastforce simp: ready_def sweepable_def Keyring_Decrypt_plain)
  from run_task_tables [OF assms(1-4) this, of e1] obtain w1
    where run1: "run_task dp enc e1 w = Some w1" and w1: "faults w1 = []" "secretRing w1 = Some k"
      and T1: "\<forall>tbl \<in> set ?T. \<exists>tab1. rows_of (sw_Name tbl) (sdb w1) = Some tab1 \<and>
        table_swept dp k enc (table_rows (sdb w) tbl) tab1" by blast
  have ready: "ready dp k dec (sdb w1) tbl" if tbl: "tbl \<in> set ?T" for tbl
  proof -
    obtain tab tab1 where t: "rows_of (sw_Name tbl) (sdb w) = Some tab" "distinct (map fst tab)"
      "\<forall>r \<in> set tab. \<not> IsEncrypted (null_string (snd r))" "rows_of (sw_Name tbl) (sdb w1) = Some tab1"
      "table_swept dp k enc tab tab1"
      using bspec [OF tables tbl] bspec [OF T1 tbl] by (auto simp: table_rows_def)
    have "\<forall>r1 \<in> set tab1. sweepable dp k dec (null_string (snd r1))"
      using table_swept_twice(1) [OF t(5)] modes t(2,3) by simp
    then show ?thesis using t(2,4,5) by (simp add: ready_def table_swept_def)
  qed
  then have "\<forall>tbl \<in> set (TablesForScope (st_Scope dec)). ready dp k dec (sdb w1) tbl"
    using modes(3) by simp
  from run_task_tables [OF w1 assms(3,4) this, of e2] obtain w2
    where run2: "run_task dp dec e2 w1 = Some w2"
      and T2: "\<forall>tbl \<in> set ?T. \<exists>tab2. rows_of (sw_Name tbl) (sdb w2) = Some tab2 \<and>
        table_swept dp k dec (table_rows (sdb w1) tbl) tab2" unfolding modes(3) by blast
  have "\<exists>tab1 tab2. rows_of (sw_Name tbl) (sdb w1) = Some tab1 \<and> rows_of (sw_Name tbl) (sdb w2) = Some tab2 \<and>
        (\<forall>r \<in> set (table_rows (sdb w) tbl). \<exists>c v.
           map_of tab1 (fst r) = Some (Some c) \<and> KeyIDOf c = Some (ActiveID k) \<and>
           map_of tab2 (fst r) = Some v \<and> null_string v = null_string (snd r))" if tbl: "tbl \<in> set ?T" for tbl
  proof -
    obtain tab1 tab2 where t: "rows_of (sw_Name tbl) (sdb w1) = Some tab1" "rows_of (sw_Name tbl) (sdb w2) = Some tab2"
      "table_swept dp k enc (table_rows (sdb w) tbl) tab1" "table_swept dp k dec tab1 tab2"
      using bspec [OF T1 tbl] bspec [OF T2 tbl] by (auto simp: table_rows_def)
    moreover have "distinct (map fst (table_rows (sdb w) tbl))"
      "\<forall>r \<in> set (table_rows (sdb w) tbl). \<not> IsEncrypted (null_string (snd r))"
      using bspec [OF tables tbl] by (force simp: table_rows_def)+
    ultimately show ?thesis using table_swept_twice(2) [OF t(3) _ _ _ _ t(4)] modes by simp
  qed
  then show ?thesis using run1 run2 by blast
qed

definition wit_decrypt :: SweepTask where
  "wit_decrypt = wit_swtask\<lparr>st_TaskID := ''rsp-2'', st_Mode := ''decrypt''\<rparr>"

theorem decrypting_sweep_restores_witness:
  "\<exists>w1 w2 tab2 v. run_task wit_sdeps wit_swtask 0 wit_secrets = Some w1 \<and>
     run_task wit_sdeps wit_decrypt 0 w1 = Some w2 \<and>
     rows_of ''providers'' (sdb w2) = Some tab2 \<and> map_of tab2 (PkName ''openai'') = Some v \<and> null_string v = ''sk-1''"
proof -
  let ?T = "TablesForScope (st_Scope wit_swtask)"
  have T: "?T = [\<lparr>sw_Name = ''providers'', sw_PKCol = ''name'', sw_ValCol = ''api_keys''\<rparr>]"
    by (simp add: TablesForScope_def sweepTables_def wit_swtask_def)
  have "\<forall>tbl \<in> set ?T. \<exists>tab. rows_of (sw_Name tbl) (sdb wit_secrets) = Some tab \<and>
      distinct (map fst tab) \<and> (\<forall>r \<in> set tab. \<not> IsEncrypted (null_string (snd r)))"
    by (simp add: T wit_secrets_def rows_of_def null_string_def)
  moreover have "faults wit_secrets = []" "secretRing wit_secrets = Some wit_ring" "0 < sp_batchSize wit_sdeps"
    "st_Mode wit_swtask = ''reencrypt''" "st_Mode wit_decrypt = ''decrypt''"
    "st_Scope wit_decrypt = st_Scope wit_swtask" "\<not> st_DryRun wit_swtask" "\<not> st_DryRun wit_decrypt"
    by (simp_all add: wit_secrets_def wit_sdeps_def DefaultBatchSize_def wit_swtask_def wit_decrypt_def conflict_task_def)
  ultimately obtain w1 w2 where runs: "run_task wit_sdeps wit_swtask 0 wit_secrets = Some w1"
    "run_task wit_sdeps wit_decrypt 0 w1 = Some w2"
    and rows: "\<forall>tbl \<in> set ?T. \<exists>tab1 tab2.
        rows_of (sw_Name tbl) (sdb w1) = Some tab1 \<and> rows_of (sw_Name tbl) (sdb w2) = Some tab2 \<and>
        (\<forall>r \<in> set (table_rows (sdb wit_secrets) tbl). \<exists>c v.
           map_of tab1 (fst r) = Some (Some c) \<and> KeyIDOf c = Some (ActiveID wit_ring) \<and>
           map_of tab2 (fst r) = Some v \<and> null_string v = null_string (snd r))"
    using decrypting_sweep_restores [of wit_secrets wit_ring wit_sdeps wit_swtask wit_decrypt 0 0] wf_wit_ring by blast
  then obtain tab2 where "rows_of ''providers'' (sdb w2) = Some tab2"
    "\<forall>r \<in> set (table_rows (sdb wit_secrets) (hd ?T)). \<exists>v. map_of tab2 (fst r) = Some v \<and> null_string v = null_string (snd r)"
    by (auto simp: T)
  then show ?thesis using runs by (auto simp: T table_rows_def rows_of_def wit_secrets_def null_string_def [of "Some _"])
qed

section \<open>Tasks\<close>

text \<open>
  C20. Whatever the instances do and whatever fails, from a database without sweep tasks on: at any time
  at most one task is recorded as running, and it is the one that holds the lock.
\<close>

theorem one_task_runs:
  assumes "sd_tasks (sdb w) = []" and "(task_step dp)\<^sup>*\<^sup>* w w'"
    and "r \<in> set (sd_tasks (sdb w'))" "tr_Status r = ''running''"
  shows "sd_lock (sdb w') = Some (tr_TaskID r) \<and>
     (\<forall>s \<in> set (sd_tasks (sdb w')). tr_Status s = ''running'' \<longrightarrow> s = r)"
proof -
  have "task_inv (sdb w)" using assms(1) by (simp add: task_inv_def)
  with assms(2) have inv: "task_inv (sdb w')" by (rule task_steps_inv)
  with assms(3,4) have "sd_lock (sdb w') = Some (tr_TaskID r)" by (simp add: task_inv_def)
  then show ?thesis
    using running_is_holder(1) [OF inv _ assms(3,4)] running_is_holder(1) [OF inv] by (metis option.inject)
qed

theorem one_task_runs_witness:
  "\<exists>w' r. (task_step wit_sdeps)\<^sup>*\<^sup>* wit_secrets w' \<and> r \<in> set (sd_tasks (sdb w')) \<and>
     tr_Status r = ''running'' \<and> sd_lock (sdb w') = Some (tr_TaskID r)"
proof -
  let ?t = "new_task ''u'' ''reencrypt'' False ''all'' ''admin'' wit_secrets"
  let ?w' = "snd (run_state (Trigger wit_sdeps ''u'' [] False [] ''admin'') wit_secrets)"
  have w': "?w' = set_lock (Some (st_TaskID ?t)) (set_tasks [task_row wit_sdeps ?t] wit_secrets)"
    unfolding snd_Trigger
    using AcquireTask_granted [of wit_secrets "[]" wit_sdeps ?t]
    by (simp add: sweep_mode_def sweep_scope_def wit_secrets_def task_inv_def fresh_holder_def find_task_def
      lost_tasks_def update_where_def)
  have step: "(task_step wit_sdeps)\<^sup>*\<^sup>* wit_secrets ?w'"
    using task_step.triggered [of wit_sdeps "''u''" "[]" False "[]" "''admin''" wit_secrets] by (metis prod.collapse r_into_rtranclp)
  have "task_row wit_sdeps ?t \<in> set (sd_tasks (sdb ?w'))" "tr_Status (task_row wit_sdeps ?t) = ''running''"
    by (simp_all add: w' set_lock_def set_tasks_def task_row_def new_task_def)
  with step one_task_runs [OF _ step this] show ?thesis by (auto simp: wit_secrets_def)
qed

text \<open>
  Triggering a sweep with a new id and without faults: while the holder of the lock runs and was heard
  of within the time limit, the request is refused with the holder's id and nothing changes. Otherwise the new task runs and
  holds the lock, and a holder that was still recorded as running has failed as lost.
\<close>

theorem trigger_decides:
  assumes "faults w = []" "task_inv (sdb w)" "sd_lock (sdb w) = Some h"
    and "mode \<in> {[], ''reencrypt'', ''decrypt''}" "scope \<in> {[], ''all'', ''providers'', ''api_keys''}"
    and new: "find_task (''rsp-'' @ take 20 uuid) (sd_tasks (sdb w)) = None"
  shows "run_state (Trigger dp uuid mode dryRun scope operator) w =
     (if fresh_holder dp w h then ((Some (conflict_task h), Some (ErrConflict h)), w)
      else let task = new_task uuid (sweep_mode mode) dryRun (sweep_scope scope) operator w
           in ((Some task, None), set_lock (Some (st_TaskID task))
                (set_tasks (lost_tasks dp (s_now w) h (sd_tasks (sdb w)) @ [task_row dp task]) w)))"
proof -
  let ?task = "new_task uuid (sweep_mode mode) dryRun (sweep_scope scope) operator w"
  have "\<not> (sweep_mode mode \<noteq> ''reencrypt'' \<and> sweep_mode mode \<noteq> ''decrypt'')"
    "\<not> (sweep_scope scope \<noteq> ''all'' \<and> sweep_scope scope \<noteq> ''providers'' \<and> sweep_scope scope \<noteq> ''api_keys'')"
    using assms(4,5) by (auto simp: sweep_mode_def sweep_scope_def)
  note valid = if_not_P [OF this(1)] if_not_P [OF this(2)]
  have "find_task (st_TaskID ?task) (sd_tasks (sdb w)) = None" using new by (simp add: new_task_def)
  then show ?thesis
    unfolding Trigger_def Let_def valid
    using AcquireTask_refused [OF assms(1,3), of dp ?task] AcquireTask_granted [OF assms(1-3), of dp ?task]
    by simp
qed

theorem trigger_decides_witness:
  "fst (run_state (Trigger wit_sdeps ''u'' [] False [] ''admin'') wit_secrets) =
     (Some (new_task ''u'' ''reencrypt'' False ''all'' ''admin'' wit_secrets), None)"
  using trigger_decides [of wit_secrets "[]" "[]" "[]" "''u''" wit_sdeps False "''admin''"]
  by (simp add: wit_secrets_def task_inv_def find_task_def fresh_holder_def sweep_mode_def sweep_scope_def Let_def)

section \<open>Failures\<close>

definition ring_is :: "Keyring \<Rightarrow> secret_world \<Rightarrow> bool" where
  "ring_is k w \<longleftrightarrow> secretRing w = Some k"

lemma keeps_ring_calls [keeps_rules]:
  "keeps (ring_is k) (RewriteRow tbl key v)"
  "keeps (ring_is k) (AddProgress dp i x y)"
  "keeps (ring_is k) (draw_nonce dp)"
  "keeps (ring_is k) (modifyE count_skipped)" "keeps (ring_is k) (modifyE count_rewritten)"
proof -
  have ff: "fault_free (ring_is k)" by (simp add: fault_free_def ring_is_def)
  show "keeps (ring_is k) (RewriteRow tbl key v)" "keeps (ring_is k) (AddProgress dp i x y)"
    "keeps (ring_is k) (draw_nonce dp)" "keeps (ring_is k) (modifyE count_skipped)"
    "keeps (ring_is k) (modifyE count_rewritten)"
    unfolding RewriteRow_def draw_nonce_def AddProgress_def
    by (rule keeps_ext_call [OF ff] keeps_modifyE;
      simp add: ring_is_def set_rows_def set_tasks_def count_skipped_def count_rewritten_def split: option.splits)+
qed

lemma keeps_ring_rewrite_rows [keeps_rules]:
  "keeps (ring_is k) (transform dp task v)" "keeps (ring_is k) (rewrite_rows dp task tbl rs)"
proof -
  show t: "keeps (ring_is k) (transform dp task v)" for v
    unfolding transform_def ring_Encrypt_def by (auto intro!: keeps_rules)
  show "keeps (ring_is k) (rewrite_rows dp task tbl rs)"
    by (induction rs) (auto intro!: keeps_rules t)
qed

text \<open>A row that cannot be converted.\<close>

definition bad_row :: "secret_deps \<Rightarrow> Keyring \<Rightarrow> SweepTask \<Rightarrow> RowRef \<Rightarrow> bool" where
  "bad_row dp k task r \<longleftrightarrow>
     \<not> in_target k task (rr_Value r) \<and> (\<exists>e. Keyring_Decrypt (sp_crypto dp) k (rr_Value r) = Inl e)"

lemma transform_bad: "ring_is k w \<Longrightarrow> bad_row dp k task r \<Longrightarrow> \<exists>e. run_state (transform dp task (rr_Value r)) w = (Inl e, w)"
  by (cases "st_Mode task = ''decrypt''") (auto simp: ring_is_def bad_row_def transform_def in_target_def decryptWith_def)

lemma rewrite_rows_bad:
  assumes "ring_is k w" "r \<in> set rs" "bad_row dp k task r"
  shows "\<exists>e' w'. run_state (rewrite_rows dp task tbl rs) w = (Inl e', w')"
  using assms(1,2)
proof (induction rs arbitrary: w)
  case (Cons row rs)
  obtain x w1 where t: "run_state (transform dp task (rr_Value row)) w = (x, w1)" by fastforce
  have w1: "ring_is k w1" using keepsD_run [OF keeps_ring_rewrite_rows(1) Cons.prems(1) t] .
  show ?case
  proof (cases x)
    case (Inl e)
    then show ?thesis using t by simp
  next
    case x: (Inr y)
    then have "row \<noteq> r" using t transform_bad [OF Cons.prems(1) assms(3)] by auto
    then have IH: "\<exists>e' w'. run_state (rewrite_rows dp task tbl rs) v = (Inl e', w')" if "ring_is k v" for v
      using Cons.IH [OF that] Cons.prems(2) by simp
    have "ring_is k (count_skipped v)" "ring_is k (count_rewritten v)" if "ring_is k v" for v
      using keepsD [OF keeps_ring_calls(4) that] keepsD [OF keeps_ring_calls(5) that] by simp_all
    moreover have "ring_is k w2" if "run_state (RewriteRow tbl (rr_PK row) v) w1 = (z, w2)" for v z w2
      using keepsD_run [OF keeps_ring_calls(1) w1 that] .
    ultimately show ?thesis
      using t x IH w1 by (cases y) (auto split: prod.splits sum.splits)
  qed
qed simp

lemma execBatchOnce_bad:
  assumes ring: "ring_is k w" and bad: "r \<in> set rs" "bad_row dp k task r"
  shows "\<exists>e w'. run_state (execBatchOnce dp task tbl rs) w = (Inl e, w') \<and> sdb w' = sdb w \<and> ring_is k w'"
proof -
  have core: "\<exists>e w'. run_state (batch_core dp task tbl rs) v = (Inl e, w') \<and> ring_is k w'" if v: "ring_is k v" for v
  proof -
    obtain e w1 where "run_state (rewrite_rows dp task tbl rs) v = (Inl e, w1)"
      using rewrite_rows_bad [OF v bad] by blast
    then obtain w' where run: "run_state (batch_core dp task tbl rs) v = (Inl e, w')"
      by (auto simp: batch_core_def split_beta simp del: run_ext_call)
    have "keeps (ring_is k) (batch_core dp task tbl rs)"
      unfolding batch_core_def by (auto intro!: keeps_rules)
    from keepsD_run [OF this v run] run show ?thesis by blast
  qed
  have "ring_is k (w\<lparr>s_rew := 0\<rparr>)" using ring by (simp add: ring_is_def)
  from sweep_txn.txn_never_ok [where R = "ring_is k", OF core _ _ this] show ?thesis
    by (auto simp: execBatchOnce_def sweep_AtomExecute_def ring_is_def fault_free_def)
qed

text \<open>
  C21. A page with a row that is not yet in the target form and cannot be decrypted is never written, whatever else fails: every
  attempt fails, and the tables are those of before. (A damaged value that carries the id of the active key counts as being in the target
  form for a re-encrypting sweep; it is skipped and does not stop its page.)
\<close>

theorem page_with_bad_row_is_undone:
  assumes "ring_is k w" "r \<in> set rs" "bad_row dp k task r"
  shows "\<exists>e w'. run_state (execBatch dp task tbl rs) w = (Inl e, w') \<and> sdb w' = sdb w"
proof -
  have "\<exists>e w'. run_state (batch_attempts n dp task tbl rs x) w = (Inl e, w') \<and> sdb w' = sdb w"
    if "ring_is k w" for n x w
    using that
  proof (induction n arbitrary: x w)
    case (Suc n)
    obtain e w' where "run_state (execBatchOnce dp task tbl rs) w = (Inl e, w')" "sdb w' = sdb w" "ring_is k w'"
      using execBatchOnce_bad [OF Suc.prems assms(2,3)] by blast
    then show ?case using Suc.IH [of w' e] by simp
  qed simp
  then show ?thesis using assms(1) by (simp add: execBatch_def)
qed

theorem page_with_bad_row_is_undone_witness:
  "\<exists>e w'. run_state (execBatch wit_sdeps wit_swtask (hd sweepTables)
     [\<lparr>rr_PK = PkName ''openai'', rr_Value = ''enc$v1$?''\<rparr>]) wit_secrets = (Inl e, w') \<and> sdb w' = sdb wit_secrets"
proof (rule page_with_bad_row_is_undone)
  show "ring_is wit_ring wit_secrets" by (simp add: ring_is_def wit_secrets_def)
  have "IsEncrypted ''enc$v1$?''" "envelopeKeyID ''enc$v1$?'' = None"
    by (simp_all add: IsEncrypted_def HasPrefix_def envelopeKeyID_def Marker_def DecodeString_def)
  then show "bad_row wit_sdeps wit_ring wit_swtask \<lparr>rr_PK = PkName ''openai'', rr_Value = ''enc$v1$?''\<rparr>"
    by (simp add: bad_row_def in_target_def wit_swtask_def KeyIDOf_def Keyring_Decrypt_def)
qed simp

text \<open>
  The rewrite of a row is not conditional on the value that was read: when a request stores a new
  secret between the reading of a page and its rewriting, the sweep replaces it by the old one.
\<close>

theorem sweep_overwrites_concurrent_update:
  assumes "faults w = []" "secretRing w = Some k" "wf_keyring k" "0 < sp_batchSize dp"
    and task: "st_Mode task = ''reencrypt''" "\<not> st_DryRun task"
    and row: "rows_of (sw_Name tbl) (sdb w) = Some [(key, Some old)]" "\<not> IsEncrypted old"
  shows "\<exists>rs w2 v. run_state (ListRows tbl None (sp_batchSize dp)) w = (Inr rs, w) \<and>
     run_state (execBatch dp task tbl rs) (set_rows (sw_Name tbl) [(key, Some new)] w) = (Inr (), w2) \<and>
     rows_of (sw_Name tbl) (sdb w2) = Some [(key, Some v)] \<and> Keyring_Decrypt (sp_crypto dp) k v = Inr old"
proof -
  let ?t = "sw_Name tbl" and ?r = "\<lparr>rr_PK = key, rr_Value = old\<rparr>" and ?w = "set_rows (sw_Name tbl) [(key, Some new)] w"
  have list: "run_state (ListRows tbl None (sp_batchSize dp)) w = (Inr [?r], w)"
    using assms(1,4) row(1) by (cases "sp_batchSize dp") (simp_all add: ListRows_def page_def after_cursor_def row_ref_def null_string_def)
  have "\<not> in_target k task old" "sweepable dp k task old"
    using task(1) row(2) envelopeKeyID_marked
    by (auto simp: in_target_def KeyIDOf_def sweepable_def Keyring_Decrypt_plain)
  moreover have quiet: "faults (?w\<lparr>s_rew := 0\<rparr>) = []" "secretRing (?w\<lparr>s_rew := 0\<rparr>) = Some k"
    using assms(1,2) by (simp_all add: set_rows_def)
  ultimately obtain t n where t: "run_state (transform dp task old) (?w\<lparr>s_rew := 0\<rparr>) =
      (Inr (t, False), ?w\<lparr>s_rew := 0, s_draws := n\<rparr>)"
    "Keyring_Decrypt (sp_crypto dp) k t = Keyring_Decrypt (sp_crypto dp) k old"
    using transform_converts [OF quiet assms(3), of task old dp] by blast
  let ?w1 = "set_rows ?t [(key, Some t)] (?w\<lparr>s_rew := 0, s_draws := n\<rparr>)"
  have "run_state (RewriteRow tbl key t) (?w\<lparr>s_rew := 0, s_draws := n\<rparr>) = (Inr (), ?w1)"
    using assms(1) by (subst run_rewrite_row [of _ _ "[(key, Some new)]"])
      (simp_all add: set_rows_def rows_of_def set_value_def update_where_def)
  then have "run_state (rewrite_rows dp task tbl [?r]) (?w\<lparr>s_rew := 0\<rparr>) = (Inr (), count_rewritten ?w1)"
    using t(1) task(2) by simp
  moreover have "faults (count_rewritten ?w1) = []" "rows_of ?t (sdb (count_rewritten ?w1)) = Some [(key, Some t)]"
    using assms(1) by (simp_all add: count_rewritten_def set_rows_def rows_of_def)
  ultimately obtain wr where "run_state (rewrite_rows dp task tbl [?r]) (?w\<lparr>s_rew := 0\<rparr>) = (Inr (), wr)"
    "faults wr = []" "rows_of ?t (sdb wr) = Some [(key, Some t)]" by blast
  then obtain w2 where "run_state (batch_core dp task tbl [?r]) (?w\<lparr>s_rew := 0\<rparr>) = (Inr (), w2)"
    "faults w2 = []" "rows_of ?t (sdb w2) = Some [(key, Some t)]"
    by (simp add: batch_core_def AddProgress_def set_tasks_def del: rewrite_rows.simps)
  then have "\<exists>w2. run_state (execBatchOnce dp task tbl [?r]) ?w = (Inr (), w2) \<and> rows_of ?t (sdb w2) = Some [(key, Some t)]"
    using sweep_txn.txn_ok [OF quiet(1)] by (fastforce simp: execBatchOnce_def sweep_AtomExecute_def)
  then obtain w2 where "run_state (execBatch dp task tbl [?r]) ?w = (Inr (), w2)" "rows_of ?t (sdb w2) = Some [(key, Some t)]"
    by (auto simp: execBatch_def defaultMaxBatchAttempts_def eval_nat_numeral)
  then show ?thesis using list t(2) row(2) by (auto simp: Keyring_Decrypt_plain)
qed

theorem sweep_overwrites_concurrent_update_witness:
  "\<exists>rs w2 v. run_state (execBatch wit_sdeps wit_swtask (hd sweepTables) rs)
       (set_rows ''providers'' [(PkName ''openai'', Some ''sk-2'')] wit_secrets) = (Inr (), w2) \<and>
     rows_of ''providers'' (sdb w2) = Some [(PkName ''openai'', Some v)] \<and>
     Keyring_Decrypt (sp_crypto wit_sdeps) wit_ring v = Inr ''sk-1''"
proof -
  have "rows_of (sw_Name (hd sweepTables)) (sdb wit_secrets) = Some [(PkName ''openai'', Some ''sk-1'')]"
    "sw_Name (hd sweepTables) = ''providers''"
    by (simp_all add: sweepTables_def wit_secrets_def rows_of_def)
  moreover have "faults wit_secrets = []" "secretRing wit_secrets = Some wit_ring" "0 < sp_batchSize wit_sdeps"
    "st_Mode wit_swtask = ''reencrypt''" "\<not> st_DryRun wit_swtask"
    by (simp_all add: wit_secrets_def wit_sdeps_def DefaultBatchSize_def wit_swtask_def conflict_task_def)
  ultimately show ?thesis
    using sweep_overwrites_concurrent_update [of wit_secrets wit_ring wit_sdeps wit_swtask "hd sweepTables"
        "PkName ''openai''" "''sk-1''" "''sk-2''"] wf_wit_ring wit_plain by metis
qed

text \<open>
  An executor that was given up as lost and finishes later replaces its recorded failure by its own result, while
  the task that took over keeps the lock.
\<close>

theorem lost_task_reports_success:
  assumes "faults w = []" "r \<in> set (sd_tasks (sdb w))" "tr_TaskID r = i" "tr_Status r = ''failed''"
    and "sd_lock (sdb w) = Some j" "j \<noteq> i"
  shows "\<exists>w'. run_state (FinishTask dp i ''succeeded'' cause summary elapsed) w = (Inr (), w') \<and>
     finish_row dp ''succeeded'' cause summary elapsed (s_now w) r \<in> set (sd_tasks (sdb w')) \<and> sd_lock (sdb w') = Some j"
proof -
  let ?w' = "set_tasks (update_where (\<lambda>r. tr_TaskID r = i) (finish_row dp ''succeeded'' cause summary elapsed (s_now w))
    (sd_tasks (sdb w))) w"
  have "run_state (FinishTask dp i ''succeeded'' cause summary elapsed) w = (Inr (), ?w')"
    unfolding FinishTask_def sweep_AtomExecute_def
    by (rule sweep_txn.txn_ok) (use assms(1,5,6) in \<open>simp_all add: set_tasks_def\<close>)
  then show ?thesis using assms(2,3,5) by (auto simp: set_tasks_def in_update_where)
qed

section \<open>The rings of the process\<close>

text \<open>
  The configured id of the active export key counts modulo 256: an id out of range is not refused, it
  selects the key with the same low byte, and a multiple of 256 the active key of the file.
\<close>

theorem export_key_id_wraps:
  "loadExportSecretRing dp (conf\<lparr>sc_ActiveExportKeyID := n + 256 * m\<rparr>) =
   loadExportSecretRing dp (conf\<lparr>sc_ActiveExportKeyID := n\<rparr>)"
proof -
  have "(of_int (n + 256 * m) :: byte) = of_int n"
    by (simp add: word_of_int_eq_iff take_bit_eq_mod del: of_int_add of_int_mult)
  then have "export_active (conf\<lparr>sc_ActiveExportKeyID := n + 256 * m\<rparr>) = export_active (conf\<lparr>sc_ActiveExportKeyID := n\<rparr>)"
    by (simp add: fun_eq_iff export_active_def)
  then show ?thesis by (simp add: loadExportSecretRing_def split: sum.split)
qed

text \<open>
  The check at start-up passes exactly when there is a keyring or neither table holds ciphertext.
\<close>

theorem start_needs_ring_for_ciphertext:
  assumes "faults w = []" "rows_of ''providers'' (sdb w) = Some ps" "rows_of ''api_keys'' (sdb w) = Some ks"
  shows "fst (run_state CheckSecretAtRest w) = Inr () \<longleftrightarrow>
     secretRing w \<noteq> None \<or> (\<forall>r \<in> set (ps @ ks). \<not> IsEncrypted (null_string (snd r)))"
proof -
  have no_null: "\<not> IsEncrypted []" by (simp add: IsEncrypted_def HasPrefix_def Marker_def)
  have "(case v of None \<Rightarrow> False | Some x \<Rightarrow> IsEncrypted x) = IsEncrypted (null_string v)" for v
    using no_null by (cases v) (simp_all add: null_string_def)
  then show ?thesis
    using assms
    by (auto simp: CheckSecretAtRest_def anyCiphertextPresent_def ciphertext_in_def list_ex_iff)
qed

theorem start_needs_ring_for_ciphertext_witness:
  "fst (run_state CheckSecretAtRest wit_secrets) = Inr ()"
  using start_needs_ring_for_ciphertext [of wit_secrets "[(PkName ''openai'', Some ''sk-1'')]" "[]"]
  by (simp add: wit_secrets_def rows_of_def)

text \<open>
  A failed load keeps the ring that was in use; when it is the ring of stored secrets, the reload does not look
  at the file of the export ring.
\<close>

theorem failed_reload_keeps_rings:
  assumes "LoadKeyringFile (sp_crypto dp) (sc_MasterKeyFile conf) = Inl e" "sc_MasterKeyFile conf \<noteq> []"
  shows "run_state (ReloadSecurity dp conf) w = ((None, Some (ErrMsg ''security: load keyring'')), w)"
  using assms by (simp add: ReloadSecurity_def loadSecretRing_def)

end
