(* ===== verification/OwnerData.thy ===== *)
theory OwnerData
  imports QuotaPlan
begin

text \<open>
  The data of the owners of quota plans, rate limits and route rules: the rows of \<^verbatim>\<open>entity_types\<close>,
  \<^verbatim>\<open>entities\<close>, \<^verbatim>\<open>api_keys\<close>, \<^verbatim>\<open>api_key_tokens\<close>, \<^verbatim>\<open>rate_limit_policies\<close> and \<^verbatim>\<open>route_rules\<close> with the statements of
  \<^verbatim>\<open>storage/rdb/internal/dao\<close>, and the parameter structs of \<^verbatim>\<open>model/entity\<close>, \<^verbatim>\<open>model/api_key\<close>,
  \<^verbatim>\<open>model/rate_limit_policy\<close> and \<^verbatim>\<open>model/shared\<close>.

  A struct of pointers is a record of options. The columns of \<open>TEntityOwner\<close> and \<open>TAPIKeyOwner\<close> that the quota
  managers read come first, so that their tables are views of the ones here. An INSERT that misses a
  column without a default, and a statement that would break a UNIQUE key, fail and change nothing.
\<close>

section \<open>Rows\<close>

record TEntityType =
  et_ID :: int
  et_TypeName :: string
  et_Description :: string
  et_Level :: int
  et_CreatedAt :: time
  et_UpdatedAt :: time

record TEntityTypeParam =
  pt_ID :: "int option"
  pt_TypeName :: "string option"
  pt_Description :: "string option"
  pt_Level :: "int option"
  pt_CreatedAt :: "time option"
  pt_UpdatedAt :: "time option"
  pt_Limit :: "(nat \<times> nat) option"

record TEntity = TEntityOwner +
  te_ID :: int
  te_Name :: string
  te_Description :: string
  te_Type :: string
  te_ParentID :: "string option"
  te_AllowModels :: string
  te_BlockModels :: string
  te_RateLimitPolicyID :: "int option"
  te_RouteRulesID :: "int option"
  te_CreatedAt :: time
  te_UpdatedAt :: time

record TEntityParam =
  pe_ID :: "int option"
  pe_EntityID :: "string option"
  pe_Name :: "string option"
  pe_Description :: "string option"
  pe_Type :: "string option"
  pe_ParentID :: "string option"
  pe_AllowModels :: "string option"
  pe_BlockModels :: "string option"
  pe_QuotaPlanID :: "int option"
  pe_RateLimitPolicyID :: "int option"
  pe_RouteRulesID :: "int option"
  pe_CreatedAt :: "time option"
  pe_UpdatedAt :: "time option"
  pe_Limit :: "(nat \<times> nat) option"

record TAPIKey = TAPIKeyOwner +
  ta_InnerID :: int
  ta_Enable :: bool
  ta_KeyHash :: string
  ta_Description :: string
  ta_UnlimitedQuota :: bool
  ta_ProductName :: string
  ta_ExpiredTime :: int
  ta_AllowedModels :: string
  ta_Subnet :: string
  ta_EntityID :: "string option"
  ta_RateLimitPolicyID :: "int option"
  ta_RouteRulesID :: "int option"
  ta_UpdatedAt :: time

record TAPIKeyParam =
  pa_InnerID :: "int option"
  pa_ID :: "string option"
  pa_Enable :: "bool option"
  pa_Key :: "string option"
  pa_KeyHash :: "string option"
  pa_Description :: "string option"
  pa_UnlimitedQuota :: "bool option"
  pa_ProductName :: "string option"
  pa_ExpiredTime :: "int option"
  pa_AllowedModels :: "string option"
  pa_Subnet :: "string option"
  pa_EntityID :: "string option"
  pa_QuotaPlanID :: "int option"
  pa_RateLimitPolicyID :: "int option"
  pa_RouteRulesID :: "int option"
  pa_CreatedAt :: "time option"
  pa_UpdatedAt :: "time option"
  pa_Limit :: "(nat \<times> nat) option"

record TAPIKeyToken =
  tk_ID :: int
  tk_Key :: string
  tk_CreatedAt :: time
  tk_UpdatedAt :: time

record TRateLimitPolicy =
  tl_ID :: int
  tl_Enabled :: bool
  tl_MaxConcurrency :: int
  tl_TpmConfigs :: string
  tl_RpmConfigs :: string
  tl_BatchLimits :: string
  tl_CreatedAt :: time
  tl_UpdatedAt :: time

record TRateLimitPolicyParam =
  pr_ID :: "int option"
  pr_Enabled :: "bool option"
  pr_MaxConcurrency :: "int option"
  pr_TpmConfigs :: "string option"
  pr_RpmConfigs :: "string option"
  pr_BatchLimits :: "string option"
  pr_CreatedAt :: "time option"
  pr_UpdatedAt :: "time option"

record TRouteRules =
  to_ID :: int
  to_Type :: string
  to_Owner :: string
  to_Enabled :: bool
  to_Rules :: string
  to_CreatedAt :: time
  to_UpdatedAt :: time

record TRouteRulesParam =
  po_ID :: "int option"
  po_Type :: "string option"
  po_Owner :: "string option"
  po_Enabled :: "bool option"
  po_Rules :: "string option"
  po_CreatedAt :: "time option"
  po_UpdatedAt :: "time option"
  po_Limit :: "(nat \<times> nat) option"

section \<open>The parameter structs\<close>

text \<open>The structs of a limit have the same fields in \<^verbatim>\<open>model/shared\<close> and in \<^verbatim>\<open>model/rate_limit_policy\<close>.\<close>

record TPMConfig =
  tc_Name :: string
  tc_Model :: string
  tc_WindowMinutes :: int
  tc_MaxTokens :: int
  tc_StepMinutes :: int

record RPMConfig =
  rc_Name :: string
  rc_Model :: string
  rc_WindowMinutes :: int
  rc_MaxRequests :: int

record BatchLimits =
  bl_MaxCreateRPM :: int
  bl_MaxActiveBatches :: int
  bl_MaxFileBytes :: int
  bl_MaxFileLines :: int

record RateLimitPolicyParam =
  rl_ID :: "int option"
  rl_Enabled :: "bool option"
  rl_MaxConcurrency :: "int option"
  rl_TpmConfigs :: "TPMConfig list"
  rl_RpmConfigs :: "RPMConfig list"
  rl_BatchLimits :: "BatchLimits option"

record RateLimitRules =
  lr_TpmConfigs :: "TPMConfig list"
  lr_RpmConfigs :: "RPMConfig list"
  lr_MaxConcurrency :: "int option"
  lr_BatchLimits :: "BatchLimits option"

record SharedRateLimitPolicyParam =
  sr_Enabled :: "bool option"
  sr_Rules :: "RateLimitRules option"

text \<open>The elements of the lists are pointers, so that a JSON \<^verbatim>\<open>null\<close> in a list is \<open>None\<close>.\<close>

record AiRouteTargetParam =
  at_ClusterName :: "string option"
  at_Model :: "string option"
  at_Weight :: "i64 option"

record AiRouteFallbackParam =
  af_ClusterName :: "string option"
  af_Model :: "string option"

record AiRouteRuleParam =
  ar_Name :: "string option"
  ar_Cond :: "string option"
  ar_Targets :: "AiRouteTargetParam option list"
  ar_Fallbacks :: "AiRouteFallbackParam option list"

record RouteRulesParam =
  rs_ID :: "int option"
  rs_Enabled :: "bool option"
  rs_Rules :: "AiRouteRuleParam option list"

record BalanceSummary =
  bs_Used :: "rat option"
  bs_Remaining :: "rat option"

record QuotaPlanWithBalance = SharedQuotaPlanParam +
  sq_Balance :: "BalanceSummary option"

record EntitySummary =
  es_ID :: "string option"
  es_Name :: "string option"
  es_Type :: "string option"

record EntityParam = EntityOwnerParam +
  ke_InnerID :: "int option"
  ke_Name :: "string option"
  ke_Description :: "string option"
  ke_Type :: "string option"
  ke_ParentID :: "string option"
  ke_AllowModels :: "string list"
  ke_BlockModels :: "string list"
  ke_QuotaPlanID :: "int option"
  ke_RateLimitPolicyID :: "int option"
  ke_RouteRulesID :: "int option"
  ke_CreateTime :: "int option"
  ke_UpdateTime :: "int option"
  ke_QuotaPlan :: "QuotaPlanWithBalance option"
  ke_RateLimitPolicy :: "SharedRateLimitPolicyParam option"
  ke_RouteRules :: "RouteRulesParam option"

record EntityFilter =
  ef_EntityID :: "string option"
  ef_Name :: "string option"
  ef_Type :: "string option"
  ef_ParentID :: "string option"
  ef_QuotaPlanID :: "int option"
  ef_RouteRulesID :: "int option"
  ef_Page :: "i64 option"
  ef_PageSize :: "i64 option"

definition no_entity_filter :: EntityFilter where
  "no_entity_filter = \<lparr>ef_EntityID = None, ef_Name = None, ef_Type = None, ef_ParentID = None,
     ef_QuotaPlanID = None, ef_RouteRulesID = None, ef_Page = None, ef_PageSize = None\<rparr>"

record EntityTypeParam =
  kt_ID :: "int option"
  kt_TypeName :: "string option"
  kt_Description :: "string option"
  kt_Level :: "int option"
  kt_CreateTime :: "int option"

record EntityTypeFilter =
  ff_ID :: "int option"
  ff_TypeName :: "string option"
  ff_Level :: "int option"
  ff_Page :: "i64 option"
  ff_PageSize :: "i64 option"

definition no_type_filter :: EntityTypeFilter where
  "no_type_filter = \<lparr>ff_ID = None, ff_TypeName = None, ff_Level = None, ff_Page = None, ff_PageSize = None\<rparr>"

text \<open>\<^verbatim>\<open>Status\<close>, \<^verbatim>\<open>RemainingQuota\<close> and the fields that only other packages fill in are left out.\<close>

record APIKeyParam = APIKeyOwnerParam +
  ka_Enable :: "bool option"
  ka_CreateTime :: "int option"
  ka_UpdatedTime :: "int option"
  ka_Description :: "string option"
  ka_UnlimitedQuota :: "bool option"
  ka_ExpiredTime :: "int option"
  ka_Models :: "string list"
  ka_Subnet :: "string list"
  ka_EntityID :: "string option"
  ka_QuotaPlanID :: "int option"
  ka_RateLimitPolicyID :: "int option"
  ka_RouteRulesID :: "int option"
  ka_ProductName :: "string option"
  ka_InnerID :: "int option"
  ka_QuotaPlan :: "QuotaPlanWithBalance option"
  ka_RateLimitPolicy :: "SharedRateLimitPolicyParam option"
  ka_RouteRules :: "RouteRulesParam option"
  ka_Entity :: "EntitySummary option"

record APIKeyTokenParam =
  kk_Key :: "string option"
  kk_CreatedAt :: "time option"

record APIKeyFilter =
  kf_ProductName :: "string option"
  kf_ID :: "string option"
  kf_Key :: "string option"
  kf_InnerID :: "int option"
  kf_QuotaPlanID :: "int option"
  kf_RouteRulesID :: "int option"
  kf_Enabled :: "bool option"
  kf_EntityID :: "string option"
  kf_UnlimitedQuota :: "bool option"
  kf_Page :: "i64 option"
  kf_PageSize :: "i64 option"

definition no_key_filter :: APIKeyFilter where
  "no_key_filter = \<lparr>kf_ProductName = None, kf_ID = None, kf_Key = None, kf_InnerID = None,
     kf_QuotaPlanID = None, kf_RouteRulesID = None, kf_Enabled = None, kf_EntityID = None,
     kf_UnlimitedQuota = None, kf_Page = None, kf_PageSize = None\<rparr>"

end
