(* ===== verification/OwnerStore.thy ===== *)
theory OwnerStore
  imports OwnerData
begin

text \<open>
  The storage of the owners: the world in which their managers run, the statements of
  \<^verbatim>\<open>storage/rdb/internal/dao\<close> with the conditions and assignments that \<^verbatim>\<open>builder.go\<close> derives from nil
  columns, and the methods of the storagers in \<^verbatim>\<open>storage/rdb/entity\<close>, \<^verbatim>\<open>storage/rdb/api_key\<close>,
  \<^verbatim>\<open>storage/rdb/rate_limit_policy\<close> and \<^verbatim>\<open>storage/rdb/route_rules\<close>.

  The JSON text of a column is written and read by parameters; a decoder ignores its error, as the
  code does. The operations on quota plans and on Redis are those of the quota component, run on a view
  of this world (\<open>in_quota\<close>).
\<close>

section \<open>The world\<close>

record owner_db =
  o_entity_types :: "TEntityType table"
  o_entities :: "TEntity table"
  o_api_keys :: "TAPIKey table"
  o_api_key_tokens :: "TAPIKeyToken table"
  o_quota_plans :: "TQuotaPlan table"
  o_policies :: "TRateLimitPolicy table"
  o_route_rules :: "TRouteRules table"

datatype owner_value =
    OvQuota audit_value | OvBool bool | OvInt int | OvStr string | OvStrs "string list"
  | OvTpm "TPMConfig list" | OvRpm "RPMConfig list" | OvBatch BatchLimits | OvKey APIKeyParam
  | OvMaps "(string \<times> owner_value) list option list"

type_synonym owner_map = "(string \<times> owner_value) list"

record OwnerLogEntry =
  ol_Action :: string
  ol_ResourceType :: string
  ol_ResourceID :: string
  ol_ResourceName :: string
  ol_ResourceParentID :: string
  ol_Before :: "owner_map option"
  ol_After :: "owner_map option"
  ol_Error :: "error option"

text \<open>The variables of a manager's method that the closure it runs as a transaction assigns.\<close>

record owner_vars =
  ov_entity :: "EntityParam option"
  ov_apiKey :: "APIKeyParam option"
  ov_param :: "APIKeyParam option"
  ov_quotaPlan :: "SharedQuotaPlanParam option"
  ov_policy :: "SharedRateLimitPolicyParam option"
  ov_planID :: int
  ov_policyID :: int
  ov_quotaKey :: string
  ov_limitKeys :: "string list"

definition no_vars :: owner_vars where
  "no_vars = \<lparr>ov_entity = None, ov_apiKey = None, ov_param = None, ov_quotaPlan = None, ov_policy = None,
     ov_planID = 0, ov_policyID = 0, ov_quotaKey = [], ov_limitKeys = []\<rparr>"

record owner_world = env +
  odb :: owner_db
  o_redis :: "string \<Rightarrow> (string \<times> time option) option"
  o_now :: time
  o_log :: "OwnerLogEntry list"
  o_vars :: owner_vars

type_synonym 'a owner = "(owner_world, error + 'a) state"

text \<open>
  What the managers are built with, beside the dependencies of the quota component: the optional
  collaborators, the JSON encoders and decoders of the columns, the encryption of stored keys, their
  lookup hash, the identifier that \<^verbatim>\<open>uuid.New\<close> returns, and what the statement builder makes of a LIMIT in an UPDATE or a
  DELETE.
\<close>

record owner_deps = quota_deps +
  oc_entityTypeStorager :: bool
  oc_quotaPlanStorager :: bool
  oc_rateLimitPolicyStorager :: bool
  oc_routeRulesStorager :: bool
  oc_quotaPlanAuditor :: bool
  oc_rateLimitPolicyAuditor :: bool
  oc_encStrings :: "string list \<Rightarrow> string"
  oc_decStrings :: "string \<Rightarrow> string list \<Rightarrow> string list"
  oc_encTpm :: "TPMConfig list \<Rightarrow> string"
  oc_decTpm :: "string \<Rightarrow> TPMConfig list"
  oc_encRpm :: "RPMConfig list \<Rightarrow> string"
  oc_decRpm :: "string \<Rightarrow> RPMConfig list"
  oc_encBatch :: "BatchLimits \<Rightarrow> string"
  oc_decBatch :: "string \<Rightarrow> BatchLimits option"
  oc_encRules :: "AiRouteRuleParam option list \<Rightarrow> error + string"
  oc_decRules :: "string \<Rightarrow> AiRouteRuleParam option list"
  oc_encrypt :: "string \<Rightarrow> error + string"
  oc_keyHash :: "string \<Rightarrow> string"
  oc_uuid :: string
  oc_limit :: "nat \<times> nat \<Rightarrow> bool list \<Rightarrow> error + bool list"

section \<open>The quota component on a view of the world\<close>

definition quota_view :: "owner_world \<Rightarrow> quota_world" where
  "quota_view w =
     \<lparr>faults = faults w,
      qdb = \<lparr>quota_plans = o_quota_plans (odb w),
             api_keys = map TAPIKeyOwner.truncate (rows (o_api_keys (odb w))),
             entities = map TEntityOwner.truncate (rows (o_entities (odb w)))\<rparr>,
      q_redis = o_redis w, q_now = o_now w, q_log = [],
      q_vars = \<lparr>va_oldPlan = None, va_resetQuota = None, va_planUnit = None\<rparr>\<rparr>"

definition audit_map_to_owner :: "audit_map \<Rightarrow> owner_map" where
  "audit_map_to_owner = map (\<lambda>(k, v). (k, OvQuota v))"

definition quota_log_entry :: "OperationLogEntry \<Rightarrow> OwnerLogEntry" where
  "quota_log_entry e =
     \<lparr>ol_Action = oe_Action e, ol_ResourceType = ''quota_plan'', ol_ResourceID = oe_ResourceID e,
      ol_ResourceName = [], ol_ResourceParentID = oe_ResourceParentID e,
      ol_Before = map_option audit_map_to_owner (oe_Before e),
      ol_After = map_option audit_map_to_owner (oe_After e), ol_Error = oe_Error e\<rparr>"

definition in_quota :: "'a quota \<Rightarrow> 'a owner" where
  "in_quota m = State (\<lambda>w.
     let (r, q) = run_state m (quota_view w)
     in (r, w\<lparr>faults := faults q, odb := (odb w)\<lparr>o_quota_plans := quota_plans (qdb q)\<rparr>,
              o_redis := q_redis q, o_log := o_log w @ map quota_log_entry (q_log q)\<rparr>))"

definition qdeps :: "owner_deps \<Rightarrow> quota_deps" where
  "qdeps dp = quota_deps.truncate dp"

section \<open>Statements\<close>

definition eq_null :: "'a option \<Rightarrow> 'a option \<Rightarrow> bool" where
  "eq_null v x = (case v of None \<Rightarrow> True | Some y \<Rightarrow> x = Some y)"

definition set_null :: "'a option \<Rightarrow> 'a option \<Rightarrow> 'a option" where
  "set_null v old = (case v of None \<Rightarrow> old | Some x \<Rightarrow> Some x)"

definition take_limit :: "(nat \<times> nat) option \<Rightarrow> 'a list \<Rightarrow> 'a list" where
  "take_limit l xs = (case l of None \<Rightarrow> xs | Some (offset, n) \<Rightarrow> take n (drop offset xs))"

definition page_limit :: "i64 option \<Rightarrow> i64 option \<Rightarrow> (nat \<times> nat) option" where
  "page_limit page pageSize =
     (case (page, pageSize) of
        (Some p, Some s) \<Rightarrow>
          let offset = (p - 1) * s in Some (unat (if offset <s 0 then 0 else offset), unat s)
      | _ \<Rightarrow> None)"

text \<open>
  With a LIMIT: \<open>sel\<close> says, of the rows that match, which ones the statement of the builder reaches, or that the
  builder refuses it.
\<close>

definition limited_update ::
  "(nat \<times> nat \<Rightarrow> bool list \<Rightarrow> error + bool list) \<Rightarrow> (nat \<times> nat) option \<Rightarrow> bool \<Rightarrow> ('r list \<Rightarrow> bool) \<Rightarrow>
   ('r \<Rightarrow> bool) \<Rightarrow> ('r \<Rightarrow> 'r) \<Rightarrow> 'r table \<Rightarrow> (error + nat) \<times> 'r table" where
  "limited_update sel l isMySQL uniq p f t =
     (case l of None \<Rightarrow> sql_update isMySQL uniq p f t
      | Some x \<Rightarrow> (case sel x (map p (rows t)) of
          Inl e \<Rightarrow> (Inl e, t)
        | Inr hit \<Rightarrow>
            let rs = map (\<lambda>(h, r). if h then f r else r) (zip hit (rows t)) in
            if uniq rs
            then (Inr (length (filter (\<lambda>(h, r). h \<and> (isMySQL \<longrightarrow> f r \<noteq> r)) (zip hit (rows t)))), t\<lparr>rows := rs\<rparr>)
            else (Inl constraint_violated, t)))"

definition limited_delete ::
  "(nat \<times> nat \<Rightarrow> bool list \<Rightarrow> error + bool list) \<Rightarrow> (nat \<times> nat) option \<Rightarrow>
   ('r \<Rightarrow> bool) \<Rightarrow> 'r table \<Rightarrow> (error + nat) \<times> 'r table" where
  "limited_delete sel l p t =
     (case l of None \<Rightarrow> sql_delete p t
      | Some x \<Rightarrow> (case sel x (map p (rows t)) of
          Inl e \<Rightarrow> (Inl e, t)
        | Inr hit \<Rightarrow>
            (Inr (length (filter fst (zip hit (rows t)))),
             t\<lparr>rows := map snd (filter (\<lambda>(h, r). \<not> h) (zip hit (rows t)))\<rparr>)))"

subsection \<open>Entity types\<close>

definition uniq_types :: "TEntityType list \<Rightarrow> bool" where
  "uniq_types rs = distinct (map et_TypeName rs)"

definition where_type :: "TEntityTypeParam option \<Rightarrow> TEntityType \<Rightarrow> bool" where
  "where_type p r = (case p of None \<Rightarrow> True | Some q \<Rightarrow>
     eq_opt (pt_ID q) (et_ID r) \<and> eq_opt (pt_TypeName q) (et_TypeName r) \<and>
     eq_opt (pt_Description q) (et_Description r) \<and> eq_opt (pt_Level q) (et_Level r) \<and>
     eq_opt (pt_CreatedAt q) (et_CreatedAt r) \<and> eq_opt (pt_UpdatedAt q) (et_UpdatedAt r))"

definition assign_type :: "owner_deps \<Rightarrow> TEntityTypeParam \<Rightarrow> TEntityType \<Rightarrow> TEntityType" where
  "assign_type dp p r =
     \<lparr>et_ID = opt_set (pt_ID p) (et_ID r), et_TypeName = opt_set (pt_TypeName p) (et_TypeName r),
      et_Description = opt_set (pt_Description p) (et_Description r),
      et_Level = opt_set (pt_Level p) (et_Level r),
      et_CreatedAt = opt_set (map_option (qc_time dp) (pt_CreatedAt p)) (et_CreatedAt r),
      et_UpdatedAt = opt_set (map_option (qc_time dp) (pt_UpdatedAt p)) (et_UpdatedAt r)\<rparr>"

definition TEntityTypeCreate ::
  "owner_deps \<Rightarrow> TEntityTypeParam \<Rightarrow> time \<Rightarrow> TEntityType table \<Rightarrow> (error + int) \<times> TEntityType table" where
  "TEntityTypeCreate dp data now t =
     (let d = (if pt_CreatedAt data = None then data\<lparr>pt_CreatedAt := Some now\<rparr> else data)
      in if pt_TypeName d = None then (Inl constraint_violated, t)
         else sql_insert uniq_types (\<lambda>i. assign_type dp d
                \<lparr>et_ID = i, et_TypeName = [], et_Description = [], et_Level = 1,
                 et_CreatedAt = qc_time dp now, et_UpdatedAt = qc_time dp now\<rparr>) t)"

definition TEntityTypeList :: "TEntityTypeParam option \<Rightarrow> TEntityType table \<Rightarrow> TEntityType list" where
  "TEntityTypeList p t =
     take_limit (Option.bind p pt_Limit) (filter (where_type p) (rows t))"

definition TEntityTypeOne :: "TEntityTypeParam option \<Rightarrow> TEntityType table \<Rightarrow> TEntityType option" where
  "TEntityTypeOne p t = List.find (where_type p) (rows t)"

definition TEntityTypeUpdate ::
  "owner_deps \<Rightarrow> TEntityTypeParam \<Rightarrow> TEntityTypeParam option \<Rightarrow> TEntityType table \<Rightarrow>
   (error + nat) \<times> TEntityType table" where
  "TEntityTypeUpdate dp val wh t =
     limited_update (oc_limit dp) (Option.bind wh pt_Limit) (qc_isMySQL dp) uniq_types (where_type wh) (assign_type dp val) t"

definition TEntityTypeDelete ::
  "owner_deps \<Rightarrow> TEntityTypeParam option \<Rightarrow> TEntityType table \<Rightarrow> (error + nat) \<times> TEntityType table" where
  "TEntityTypeDelete dp wh t = limited_delete (oc_limit dp) (Option.bind wh pt_Limit) (where_type wh) t"

subsection \<open>Entities\<close>

definition uniq_entities :: "TEntity list \<Rightarrow> bool" where
  "uniq_entities rs = (distinct (map te_EntityID rs) \<and> distinct (map te_Name rs))"

definition where_entity :: "TEntityParam option \<Rightarrow> TEntity \<Rightarrow> bool" where
  "where_entity p r = (case p of None \<Rightarrow> True | Some q \<Rightarrow>
     eq_opt (pe_ID q) (te_ID r) \<and> eq_opt (pe_EntityID q) (te_EntityID r) \<and>
     eq_opt (pe_Name q) (te_Name r) \<and> eq_opt (pe_Description q) (te_Description r) \<and>
     eq_opt (pe_Type q) (te_Type r) \<and> eq_null (pe_ParentID q) (te_ParentID r) \<and>
     eq_opt (pe_AllowModels q) (te_AllowModels r) \<and> eq_opt (pe_BlockModels q) (te_BlockModels r) \<and>
     eq_null (pe_QuotaPlanID q) (te_QuotaPlanID r) \<and>
     eq_null (pe_RateLimitPolicyID q) (te_RateLimitPolicyID r) \<and>
     eq_null (pe_RouteRulesID q) (te_RouteRulesID r) \<and>
     eq_opt (pe_CreatedAt q) (te_CreatedAt r) \<and> eq_opt (pe_UpdatedAt q) (te_UpdatedAt r))"

definition assign_entity :: "owner_deps \<Rightarrow> TEntityParam \<Rightarrow> TEntity \<Rightarrow> TEntity" where
  "assign_entity dp p r =
     \<lparr>te_EntityID = opt_set (pe_EntityID p) (te_EntityID r),
      te_QuotaPlanID = set_null (pe_QuotaPlanID p) (te_QuotaPlanID r),
      te_ID = opt_set (pe_ID p) (te_ID r), te_Name = opt_set (pe_Name p) (te_Name r),
      te_Description = opt_set (pe_Description p) (te_Description r),
      te_Type = opt_set (pe_Type p) (te_Type r), te_ParentID = set_null (pe_ParentID p) (te_ParentID r),
      te_AllowModels = opt_set (pe_AllowModels p) (te_AllowModels r),
      te_BlockModels = opt_set (pe_BlockModels p) (te_BlockModels r),
      te_RateLimitPolicyID = set_null (pe_RateLimitPolicyID p) (te_RateLimitPolicyID r),
      te_RouteRulesID = set_null (pe_RouteRulesID p) (te_RouteRulesID r),
      te_CreatedAt = opt_set (map_option (qc_time dp) (pe_CreatedAt p)) (te_CreatedAt r),
      te_UpdatedAt = opt_set (map_option (qc_time dp) (pe_UpdatedAt p)) (te_UpdatedAt r)\<rparr>"

definition TEntityCreate ::
  "owner_deps \<Rightarrow> TEntityParam \<Rightarrow> time \<Rightarrow> TEntity table \<Rightarrow> (error + int) \<times> TEntity table" where
  "TEntityCreate dp data now t =
     (let d = (if pe_CreatedAt data = None then data\<lparr>pe_CreatedAt := Some now\<rparr> else data)
      in if pe_EntityID d = None \<or> pe_Name d = None \<or> pe_Type d = None then (Inl constraint_violated, t)
         else sql_insert uniq_entities (\<lambda>i. assign_entity dp d
                \<lparr>te_EntityID = [], te_QuotaPlanID = None, te_ID = i, te_Name = [], te_Description = [],
                 te_Type = [], te_ParentID = None, te_AllowModels = [], te_BlockModels = [],
                 te_RateLimitPolicyID = None, te_RouteRulesID = None,
                 te_CreatedAt = qc_time dp now, te_UpdatedAt = qc_time dp now\<rparr>) t)"

definition TEntityList :: "TEntityParam option \<Rightarrow> TEntity table \<Rightarrow> TEntity list" where
  "TEntityList p t =
     take_limit (Option.bind p pe_Limit) (filter (where_entity p) (rows t))"

definition TEntityOne :: "TEntityParam option \<Rightarrow> TEntity table \<Rightarrow> TEntity option" where
  "TEntityOne p t = List.find (where_entity p) (rows t)"

definition TEntityUpdate ::
  "owner_deps \<Rightarrow> TEntityParam \<Rightarrow> TEntityParam option \<Rightarrow> TEntity table \<Rightarrow> (error + nat) \<times> TEntity table" where
  "TEntityUpdate dp val wh t =
     limited_update (oc_limit dp) (Option.bind wh pe_Limit) (qc_isMySQL dp) uniq_entities (where_entity wh) (assign_entity dp val) t"

definition TEntityDelete ::
  "owner_deps \<Rightarrow> TEntityParam option \<Rightarrow> TEntity table \<Rightarrow> (error + nat) \<times> TEntity table" where
  "TEntityDelete dp wh t = limited_delete (oc_limit dp) (Option.bind wh pe_Limit) (where_entity wh) t"


subsection \<open>API keys and tokens\<close>

definition uniq_keys :: "TAPIKey list \<Rightarrow> bool" where
  "uniq_keys rs = (distinct (map ta_ID rs) \<and> distinct (map ta_KeyHash rs))"

definition where_key :: "TAPIKeyParam option \<Rightarrow> TAPIKey \<Rightarrow> bool" where
  "where_key p r = (case p of None \<Rightarrow> True | Some q \<Rightarrow>
     eq_opt (pa_InnerID q) (ta_InnerID r) \<and> eq_opt (pa_ID q) (ta_ID r) \<and>
     eq_opt (pa_Enable q) (ta_Enable r) \<and> eq_opt (pa_Key q) (ta_Key r) \<and>
     eq_opt (pa_KeyHash q) (ta_KeyHash r) \<and> eq_opt (pa_Description q) (ta_Description r) \<and>
     eq_opt (pa_UnlimitedQuota q) (ta_UnlimitedQuota r) \<and> eq_opt (pa_ProductName q) (ta_ProductName r) \<and>
     eq_opt (pa_ExpiredTime q) (ta_ExpiredTime r) \<and> eq_opt (pa_AllowedModels q) (ta_AllowedModels r) \<and>
     eq_opt (pa_Subnet q) (ta_Subnet r) \<and> eq_null (pa_EntityID q) (ta_EntityID r) \<and>
     eq_null (pa_QuotaPlanID q) (ta_QuotaPlanID r) \<and>
     eq_null (pa_RateLimitPolicyID q) (ta_RateLimitPolicyID r) \<and>
     eq_null (pa_RouteRulesID q) (ta_RouteRulesID r) \<and>
     eq_opt (pa_CreatedAt q) (ta_CreatedAt r) \<and> eq_opt (pa_UpdatedAt q) (ta_UpdatedAt r))"

definition assign_key :: "owner_deps \<Rightarrow> TAPIKeyParam \<Rightarrow> TAPIKey \<Rightarrow> TAPIKey" where
  "assign_key dp p r =
     \<lparr>ta_ID = opt_set (pa_ID p) (ta_ID r), ta_Key = opt_set (pa_Key p) (ta_Key r),
      ta_QuotaPlanID = set_null (pa_QuotaPlanID p) (ta_QuotaPlanID r),
      ta_CreatedAt = opt_set (map_option (qc_time dp) (pa_CreatedAt p)) (ta_CreatedAt r),
      ta_InnerID = opt_set (pa_InnerID p) (ta_InnerID r), ta_Enable = opt_set (pa_Enable p) (ta_Enable r),
      ta_KeyHash = opt_set (pa_KeyHash p) (ta_KeyHash r),
      ta_Description = opt_set (pa_Description p) (ta_Description r),
      ta_UnlimitedQuota = opt_set (pa_UnlimitedQuota p) (ta_UnlimitedQuota r),
      ta_ProductName = opt_set (pa_ProductName p) (ta_ProductName r),
      ta_ExpiredTime = opt_set (pa_ExpiredTime p) (ta_ExpiredTime r),
      ta_AllowedModels = opt_set (pa_AllowedModels p) (ta_AllowedModels r),
      ta_Subnet = opt_set (pa_Subnet p) (ta_Subnet r),
      ta_EntityID = set_null (pa_EntityID p) (ta_EntityID r),
      ta_RateLimitPolicyID = set_null (pa_RateLimitPolicyID p) (ta_RateLimitPolicyID r),
      ta_RouteRulesID = set_null (pa_RouteRulesID p) (ta_RouteRulesID r),
      ta_UpdatedAt = opt_set (map_option (qc_time dp) (pa_UpdatedAt p)) (ta_UpdatedAt r)\<rparr>"

definition TAPIKeyCreate ::
  "owner_deps \<Rightarrow> TAPIKeyParam \<Rightarrow> time \<Rightarrow> TAPIKey table \<Rightarrow> (error + int) \<times> TAPIKey table" where
  "TAPIKeyCreate dp data now t =
     (let d = (if pa_CreatedAt data = None then data\<lparr>pa_CreatedAt := Some now\<rparr> else data)
      in sql_insert uniq_keys (\<lambda>i. assign_key dp d
           \<lparr>ta_ID = [], ta_Key = [], ta_QuotaPlanID = None, ta_CreatedAt = 0, ta_InnerID = i,
            ta_Enable = False, ta_KeyHash = [], ta_Description = [], ta_UnlimitedQuota = False,
            ta_ProductName = [], ta_ExpiredTime = - 1, ta_AllowedModels = [], ta_Subnet = [],
            ta_EntityID = None, ta_RateLimitPolicyID = None, ta_RouteRulesID = None,
            ta_UpdatedAt = qc_time dp now\<rparr>) t)"

definition TAPIKeyList :: "TAPIKeyParam option \<Rightarrow> TAPIKey table \<Rightarrow> TAPIKey list" where
  "TAPIKeyList p t = take_limit (Option.bind p pa_Limit) (filter (where_key p) (rows t))"

definition TAPIKeyUpdate ::
  "owner_deps \<Rightarrow> TAPIKeyParam \<Rightarrow> TAPIKeyParam option \<Rightarrow> TAPIKey table \<Rightarrow> (error + nat) \<times> TAPIKey table" where
  "TAPIKeyUpdate dp val wh t =
     limited_update (oc_limit dp) (Option.bind wh pa_Limit) (qc_isMySQL dp) uniq_keys (where_key wh) (assign_key dp val) t"

definition TAPIKeyDelete ::
  "owner_deps \<Rightarrow> TAPIKeyParam option \<Rightarrow> TAPIKey table \<Rightarrow> (error + nat) \<times> TAPIKey table" where
  "TAPIKeyDelete dp wh t = limited_delete (oc_limit dp) (Option.bind wh pa_Limit) (where_key wh) t"

definition uniq_tokens :: "TAPIKeyToken list \<Rightarrow> bool" where
  "uniq_tokens rs = distinct (map tk_Key rs)"

definition TAPIKeyTokenList :: "string option \<Rightarrow> TAPIKeyToken table \<Rightarrow> TAPIKeyToken list" where
  "TAPIKeyTokenList k t = filter (\<lambda>r. eq_opt k (tk_Key r)) (rows t)"

definition TAPIKeyTokenCreate ::
  "owner_deps \<Rightarrow> string option \<Rightarrow> time \<Rightarrow> TAPIKeyToken table \<Rightarrow> (error + int) \<times> TAPIKeyToken table" where
  "TAPIKeyTokenCreate dp k now t =
     sql_insert uniq_tokens (\<lambda>i. \<lparr>tk_ID = i, tk_Key = opt_set k [], tk_CreatedAt = qc_time dp now,
                                  tk_UpdatedAt = qc_time dp now\<rparr>) t"

definition TAPIKeyTokenUpdate ::
  "owner_deps \<Rightarrow> string option \<Rightarrow> int option \<Rightarrow> TAPIKeyToken table \<Rightarrow> (error + nat) \<times> TAPIKeyToken table" where
  "TAPIKeyTokenUpdate dp k i t =
     sql_update (qc_isMySQL dp) uniq_tokens (\<lambda>r. eq_opt i (tk_ID r)) (\<lambda>r. r\<lparr>tk_Key := opt_set k (tk_Key r)\<rparr>) t"

subsection \<open>Rate limit policies\<close>

definition where_policy :: "TRateLimitPolicyParam option \<Rightarrow> TRateLimitPolicy \<Rightarrow> bool" where
  "where_policy p r = (case p of None \<Rightarrow> True | Some q \<Rightarrow>
     eq_opt (pr_ID q) (tl_ID r) \<and> eq_opt (pr_Enabled q) (tl_Enabled r) \<and>
     eq_opt (pr_MaxConcurrency q) (tl_MaxConcurrency r) \<and> eq_opt (pr_TpmConfigs q) (tl_TpmConfigs r) \<and>
     eq_opt (pr_RpmConfigs q) (tl_RpmConfigs r) \<and> eq_opt (pr_BatchLimits q) (tl_BatchLimits r) \<and>
     eq_opt (pr_CreatedAt q) (tl_CreatedAt r) \<and> eq_opt (pr_UpdatedAt q) (tl_UpdatedAt r))"

definition assign_policy :: "owner_deps \<Rightarrow> TRateLimitPolicyParam \<Rightarrow> TRateLimitPolicy \<Rightarrow> TRateLimitPolicy" where
  "assign_policy dp p r =
     \<lparr>tl_ID = opt_set (pr_ID p) (tl_ID r), tl_Enabled = opt_set (pr_Enabled p) (tl_Enabled r),
      tl_MaxConcurrency = opt_set (pr_MaxConcurrency p) (tl_MaxConcurrency r),
      tl_TpmConfigs = opt_set (pr_TpmConfigs p) (tl_TpmConfigs r),
      tl_RpmConfigs = opt_set (pr_RpmConfigs p) (tl_RpmConfigs r),
      tl_BatchLimits = opt_set (pr_BatchLimits p) (tl_BatchLimits r),
      tl_CreatedAt = opt_set (map_option (qc_time dp) (pr_CreatedAt p)) (tl_CreatedAt r),
      tl_UpdatedAt = opt_set (map_option (qc_time dp) (pr_UpdatedAt p)) (tl_UpdatedAt r)\<rparr>"

definition TRateLimitPolicyCreate ::
  "owner_deps \<Rightarrow> TRateLimitPolicyParam \<Rightarrow> time \<Rightarrow> TRateLimitPolicy table \<Rightarrow> (error + int) \<times> TRateLimitPolicy table" where
  "TRateLimitPolicyCreate dp data now t =
     (let d = (if pr_CreatedAt data = None then data\<lparr>pr_CreatedAt := Some now\<rparr> else data)
      in sql_insert (\<lambda>_. True) (\<lambda>i. assign_policy dp d
           \<lparr>tl_ID = i, tl_Enabled = False, tl_MaxConcurrency = - 1, tl_TpmConfigs = [], tl_RpmConfigs = [],
            tl_BatchLimits = [], tl_CreatedAt = qc_time dp now, tl_UpdatedAt = qc_time dp now\<rparr>) t)"

definition TRateLimitPolicyOne ::
  "TRateLimitPolicyParam option \<Rightarrow> TRateLimitPolicy table \<Rightarrow> TRateLimitPolicy option" where
  "TRateLimitPolicyOne p t = List.find (where_policy p) (rows t)"

definition TRateLimitPolicyList ::
  "TRateLimitPolicyParam option \<Rightarrow> TRateLimitPolicy table \<Rightarrow> TRateLimitPolicy list" where
  "TRateLimitPolicyList p t = filter (where_policy p) (rows t)"

definition TRateLimitPolicyUpdate ::
  "owner_deps \<Rightarrow> TRateLimitPolicyParam \<Rightarrow> TRateLimitPolicyParam option \<Rightarrow> TRateLimitPolicy table \<Rightarrow>
   (error + nat) \<times> TRateLimitPolicy table" where
  "TRateLimitPolicyUpdate dp val wh t =
     sql_update (qc_isMySQL dp) (\<lambda>_. True) (where_policy wh) (assign_policy dp val) t"

definition TRateLimitPolicyDelete ::
  "TRateLimitPolicyParam option \<Rightarrow> TRateLimitPolicy table \<Rightarrow> (error + nat) \<times> TRateLimitPolicy table" where
  "TRateLimitPolicyDelete wh t = sql_delete (where_policy wh) t"

subsection \<open>Route rules\<close>

definition uniq_rules :: "TRouteRules list \<Rightarrow> bool" where
  "uniq_rules rs = distinct (map (\<lambda>r. (to_Type r, to_Owner r)) rs)"

definition where_rules :: "TRouteRulesParam option \<Rightarrow> TRouteRules \<Rightarrow> bool" where
  "where_rules p r = (case p of None \<Rightarrow> True | Some q \<Rightarrow>
     eq_opt (po_ID q) (to_ID r) \<and> eq_opt (po_Type q) (to_Type r) \<and> eq_opt (po_Owner q) (to_Owner r) \<and>
     eq_opt (po_Enabled q) (to_Enabled r) \<and> eq_opt (po_Rules q) (to_Rules r) \<and>
     eq_opt (po_CreatedAt q) (to_CreatedAt r) \<and> eq_opt (po_UpdatedAt q) (to_UpdatedAt r))"

definition assign_rules :: "owner_deps \<Rightarrow> TRouteRulesParam \<Rightarrow> TRouteRules \<Rightarrow> TRouteRules" where
  "assign_rules dp p r =
     \<lparr>to_ID = opt_set (po_ID p) (to_ID r), to_Type = opt_set (po_Type p) (to_Type r),
      to_Owner = opt_set (po_Owner p) (to_Owner r), to_Enabled = opt_set (po_Enabled p) (to_Enabled r),
      to_Rules = opt_set (po_Rules p) (to_Rules r),
      to_CreatedAt = opt_set (map_option (qc_time dp) (po_CreatedAt p)) (to_CreatedAt r),
      to_UpdatedAt = opt_set (map_option (qc_time dp) (po_UpdatedAt p)) (to_UpdatedAt r)\<rparr>"

definition TRouteRulesCreate ::
  "owner_deps \<Rightarrow> TRouteRulesParam \<Rightarrow> time \<Rightarrow> TRouteRules table \<Rightarrow> (error + int) \<times> TRouteRules table" where
  "TRouteRulesCreate dp data now t =
     (let d = (if po_CreatedAt data = None then data\<lparr>po_CreatedAt := Some now\<rparr> else data)
      in if po_Owner d = None then (Inl constraint_violated, t)
         else sql_insert uniq_rules (\<lambda>i. assign_rules dp d
           \<lparr>to_ID = i, to_Type = ''api_key'', to_Owner = [], to_Enabled = False, to_Rules = [],
            to_CreatedAt = qc_time dp now, to_UpdatedAt = qc_time dp now\<rparr>) t)"

definition TRouteRulesOne :: "TRouteRulesParam option \<Rightarrow> TRouteRules table \<Rightarrow> TRouteRules option" where
  "TRouteRulesOne p t = List.find (where_rules p) (rows t)"

definition TRouteRulesList :: "TRouteRulesParam option \<Rightarrow> TRouteRules table \<Rightarrow> TRouteRules list" where
  "TRouteRulesList p t = take_limit (Option.bind p po_Limit) (filter (where_rules p) (rows t))"

definition TRouteRulesUpdate ::
  "owner_deps \<Rightarrow> TRouteRulesParam \<Rightarrow> TRouteRulesParam option \<Rightarrow> TRouteRules table \<Rightarrow>
   (error + nat) \<times> TRouteRules table" where
  "TRouteRulesUpdate dp val wh t =
     limited_update (oc_limit dp) (Option.bind wh po_Limit) (qc_isMySQL dp) uniq_rules (where_rules wh) (assign_rules dp val) t"

definition TRouteRulesDelete ::
  "owner_deps \<Rightarrow> TRouteRulesParam option \<Rightarrow> TRouteRules table \<Rightarrow> (error + nat) \<times> TRouteRules table" where
  "TRouteRulesDelete dp wh t = limited_delete (oc_limit dp) (Option.bind wh po_Limit) (where_rules wh) t"

end
