(* ===== verification/OwnerStorager.thy ===== *)
theory OwnerStorager
  imports OwnerStore
begin

text \<open>
  The storagers of the owners: \<^verbatim>\<open>storage/rdb/entity\<close>, \<^verbatim>\<open>storage/rdb/api_key\<close>,
  \<^verbatim>\<open>storage/rdb/rate_limit_policy\<close> and \<^verbatim>\<open>storage/rdb/route_rules\<close>. Every method is one call to the database;
  what it does to the tables and what it returns is written out over the statements of \<open>OwnerStore\<close>.
\<close>

definition unix_seconds :: "time \<Rightarrow> int" where
  "unix_seconds t = (t - unixEpoch) div nsSecond"

text \<open>A statement on one of the tables.\<close>

definition db_call ::
  "(owner_db \<Rightarrow> 't) \<Rightarrow> ('t \<Rightarrow> owner_db \<Rightarrow> owner_db) \<Rightarrow> ('t \<Rightarrow> (error + 'a) \<times> 't) \<Rightarrow> 'a owner" where
  "db_call get put f = ext_call (\<lambda>w. let (r, t) = f (get (odb w)) in (r, w\<lparr>odb := put t (odb w)\<rparr>))"

definition db_read :: "(owner_db \<Rightarrow> 'a) \<Rightarrow> 'a owner" where
  "db_read f = ext_call (\<lambda>w. (Inr (f (odb w)), w))"

definition on_types :: "(TEntityType table \<Rightarrow> (error + 'a) \<times> TEntityType table) \<Rightarrow> 'a owner" where
  "on_types = db_call o_entity_types (\<lambda>t d. d\<lparr>o_entity_types := t\<rparr>)"

definition on_entities :: "(TEntity table \<Rightarrow> (error + 'a) \<times> TEntity table) \<Rightarrow> 'a owner" where
  "on_entities = db_call o_entities (\<lambda>t d. d\<lparr>o_entities := t\<rparr>)"

definition on_keys :: "(TAPIKey table \<Rightarrow> (error + 'a) \<times> TAPIKey table) \<Rightarrow> 'a owner" where
  "on_keys = db_call o_api_keys (\<lambda>t d. d\<lparr>o_api_keys := t\<rparr>)"

definition on_tokens :: "(TAPIKeyToken table \<Rightarrow> (error + 'a) \<times> TAPIKeyToken table) \<Rightarrow> 'a owner" where
  "on_tokens = db_call o_api_key_tokens (\<lambda>t d. d\<lparr>o_api_key_tokens := t\<rparr>)"

definition on_policies :: "(TRateLimitPolicy table \<Rightarrow> (error + 'a) \<times> TRateLimitPolicy table) \<Rightarrow> 'a owner" where
  "on_policies = db_call o_policies (\<lambda>t d. d\<lparr>o_policies := t\<rparr>)"

definition on_rules :: "(TRouteRules table \<Rightarrow> (error + 'a) \<times> TRouteRules table) \<Rightarrow> 'a owner" where
  "on_rules = db_call o_route_rules (\<lambda>t d. d\<lparr>o_route_rules := t\<rparr>)"

definition discard :: "'a owner \<Rightarrow> unit owner" where
  "discard m = bindE m (\<lambda>_. returnE ())"

section \<open>Entity types\<close>

definition empty_TEntityTypeParam :: TEntityTypeParam where
  "empty_TEntityTypeParam = \<lparr>pt_ID = None, pt_TypeName = None, pt_Description = None, pt_Level = None,
     pt_CreatedAt = None, pt_UpdatedAt = None, pt_Limit = None\<rparr>"

definition entityTypeFilterToParam :: "EntityTypeFilter option \<Rightarrow> TEntityTypeParam option" where
  "entityTypeFilterToParam f = map_option (\<lambda>q. empty_TEntityTypeParam\<lparr>pt_ID := ff_ID q,
     pt_TypeName := ff_TypeName q, pt_Level := ff_Level q, pt_Limit := page_limit (ff_Page q) (ff_PageSize q)\<rparr>) f"

definition entityTypeParamToData :: "TEntityType \<Rightarrow> EntityTypeParam" where
  "entityTypeParamToData r =
     \<lparr>kt_ID = Some (et_ID r), kt_TypeName = Some (et_TypeName r), kt_Description = Some (et_Description r),
      kt_Level = Some (et_Level r), kt_CreateTime = Some (unix_seconds (et_CreatedAt r))\<rparr>"

definition storage_CreateEntityType :: "owner_deps \<Rightarrow> EntityTypeParam \<Rightarrow> int owner" where
  "storage_CreateEntityType dp param = bindE (getsE o_now) (\<lambda>now.
     on_types (TEntityTypeCreate dp (empty_TEntityTypeParam\<lparr>pt_TypeName := kt_TypeName param,
       pt_Description := kt_Description param, pt_Level := kt_Level param, pt_CreatedAt := Some now\<rparr>) now))"

definition storage_FetchEntityType :: "EntityTypeFilter option \<Rightarrow> EntityTypeParam option owner" where
  "storage_FetchEntityType f =
     db_read (\<lambda>d. map_option entityTypeParamToData (TEntityTypeOne (entityTypeFilterToParam f) (o_entity_types d)))"

definition storage_FetchEntityTypeList :: "EntityTypeFilter option \<Rightarrow> EntityTypeParam list owner" where
  "storage_FetchEntityTypeList f =
     db_read (\<lambda>d. map entityTypeParamToData (TEntityTypeList (entityTypeFilterToParam f) (o_entity_types d)))"

definition storage_UpdateEntityType ::
  "owner_deps \<Rightarrow> EntityTypeFilter option \<Rightarrow> EntityTypeParam \<Rightarrow> nat owner" where
  "storage_UpdateEntityType dp f param = bindE (getsE o_now) (\<lambda>now.
     on_types (TEntityTypeUpdate dp (empty_TEntityTypeParam\<lparr>pt_Description := kt_Description param,
       pt_Level := kt_Level param, pt_UpdatedAt := Some now\<rparr>) (entityTypeFilterToParam f)))"

definition storage_DeleteEntityType :: "owner_deps \<Rightarrow> EntityTypeFilter option \<Rightarrow> unit owner" where
  "storage_DeleteEntityType dp f = discard (on_types (TEntityTypeDelete dp (entityTypeFilterToParam f)))"

section \<open>Entities\<close>

definition empty_TEntityParam :: TEntityParam where
  "empty_TEntityParam = \<lparr>pe_ID = None, pe_EntityID = None, pe_Name = None, pe_Description = None,
     pe_Type = None, pe_ParentID = None, pe_AllowModels = None, pe_BlockModels = None, pe_QuotaPlanID = None,
     pe_RateLimitPolicyID = None, pe_RouteRulesID = None, pe_CreatedAt = None, pe_UpdatedAt = None,
     pe_Limit = None\<rparr>"

definition has_entity_condition :: "EntityFilter \<Rightarrow> bool" where
  "has_entity_condition q \<longleftrightarrow> ef_EntityID q \<noteq> None \<or> ef_Name q \<noteq> None \<or> ef_Type q \<noteq> None \<or>
     ef_ParentID q \<noteq> None \<or> ef_QuotaPlanID q \<noteq> None \<or> ef_RouteRulesID q \<noteq> None"

definition entityFilterToParam :: "EntityFilter option \<Rightarrow> TEntityParam option" where
  "entityFilterToParam f = (case f of None \<Rightarrow> None | Some q \<Rightarrow>
     if \<not> has_entity_condition q \<and> (ef_Page q = None \<or> ef_PageSize q = None) then None
     else Some (empty_TEntityParam\<lparr>pe_EntityID := ef_EntityID q, pe_Name := ef_Name q, pe_Type := ef_Type q,
       pe_ParentID := ef_ParentID q, pe_QuotaPlanID := ef_QuotaPlanID q, pe_RouteRulesID := ef_RouteRulesID q,
       pe_Limit := page_limit (ef_Page q) (ef_PageSize q)\<rparr>))"

definition entityBaseDataToParam :: "EntityParam \<Rightarrow> TEntityParam" where
  "entityBaseDataToParam p = empty_TEntityParam\<lparr>pe_EntityID := ke_EntityID p, pe_Name := ke_Name p,
     pe_Description := ke_Description p, pe_Type := ke_Type p, pe_ParentID := ke_ParentID p,
     pe_QuotaPlanID := ke_QuotaPlanID p, pe_RateLimitPolicyID := ke_RateLimitPolicyID p,
     pe_RouteRulesID := ke_RouteRulesID p\<rparr>"

definition entityDataToParam :: "owner_deps \<Rightarrow> EntityParam \<Rightarrow> TEntityParam" where
  "entityDataToParam dp p = (entityBaseDataToParam p)
     \<lparr>pe_AllowModels := Some (oc_encStrings dp (if ke_AllowModels p \<noteq> [] then ke_AllowModels p else [''*''])),
      pe_BlockModels := Some (if ke_BlockModels p \<noteq> [] then oc_encStrings dp (ke_BlockModels p) else ''[]'')\<rparr>"

definition entityDataToParamForUpdate :: "owner_deps \<Rightarrow> EntityParam \<Rightarrow> TEntityParam" where
  "entityDataToParamForUpdate dp p = (entityBaseDataToParam p)
     \<lparr>pe_AllowModels := if ke_AllowModels p \<noteq> [] then Some (oc_encStrings dp (ke_AllowModels p)) else None,
      pe_BlockModels := if ke_BlockModels p \<noteq> [] then Some (oc_encStrings dp (ke_BlockModels p)) else None\<rparr>"

definition or_star :: "string list \<Rightarrow> string list" where
  "or_star xs = (if xs = [] then [''*''] else xs)"

definition entity_of_row :: "owner_deps \<Rightarrow> TEntity \<Rightarrow> EntityParam" where
  "entity_of_row dp r =
     \<lparr>ke_EntityID = Some (te_EntityID r), ke_InnerID = Some (te_ID r), ke_Name = Some (te_Name r),
      ke_Description = Some (te_Description r), ke_Type = Some (te_Type r), ke_ParentID = te_ParentID r,
      ke_AllowModels = or_star (if te_AllowModels r \<noteq> [] then oc_decStrings dp (te_AllowModels r) [] else []),
      ke_BlockModels = (if te_BlockModels r \<noteq> [] then oc_decStrings dp (te_BlockModels r) [] else []),
      ke_QuotaPlanID = te_QuotaPlanID r, ke_RateLimitPolicyID = te_RateLimitPolicyID r,
      ke_RouteRulesID = te_RouteRulesID r, ke_CreateTime = Some (unix_seconds (te_CreatedAt r)),
      ke_UpdateTime = Some (unix_seconds (te_UpdatedAt r)),
      ke_QuotaPlan = None, ke_RateLimitPolicy = None, ke_RouteRules = None\<rparr>"

definition storage_CreateEntity :: "owner_deps \<Rightarrow> EntityParam \<Rightarrow> int owner" where
  "storage_CreateEntity dp param = bindE (getsE o_now) (\<lambda>now.
     on_entities (TEntityCreate dp ((entityDataToParam dp param)\<lparr>pe_CreatedAt := Some now\<rparr>) now))"

definition storage_FetchEntity :: "owner_deps \<Rightarrow> EntityFilter option \<Rightarrow> EntityParam option owner" where
  "storage_FetchEntity dp f =
     db_read (\<lambda>d. map_option (entity_of_row dp) (TEntityOne (entityFilterToParam f) (o_entities d)))"

definition storage_FetchEntityList :: "owner_deps \<Rightarrow> EntityFilter option \<Rightarrow> EntityParam list owner" where
  "storage_FetchEntityList dp f =
     db_read (\<lambda>d. map (entity_of_row dp) (TEntityList (entityFilterToParam f) (o_entities d)))"

definition storage_UpdateEntity :: "owner_deps \<Rightarrow> EntityFilter option \<Rightarrow> EntityParam \<Rightarrow> nat owner" where
  "storage_UpdateEntity dp f param = bindE (getsE o_now) (\<lambda>now.
     on_entities (TEntityUpdate dp ((entityDataToParamForUpdate dp param)\<lparr>pe_UpdatedAt := Some now\<rparr>)
       (entityFilterToParam f)))"

definition storage_DeleteEntity :: "owner_deps \<Rightarrow> EntityFilter option \<Rightarrow> unit owner" where
  "storage_DeleteEntity dp f = discard (on_entities (TEntityDelete dp (entityFilterToParam f)))"

section \<open>API keys\<close>

definition empty_TAPIKeyParam :: TAPIKeyParam where
  "empty_TAPIKeyParam = \<lparr>pa_InnerID = None, pa_ID = None, pa_Enable = None, pa_Key = None, pa_KeyHash = None,
     pa_Description = None, pa_UnlimitedQuota = None, pa_ProductName = None, pa_ExpiredTime = None,
     pa_AllowedModels = None, pa_Subnet = None, pa_EntityID = None, pa_QuotaPlanID = None,
     pa_RateLimitPolicyID = None, pa_RouteRulesID = None, pa_CreatedAt = None, pa_UpdatedAt = None,
     pa_Limit = None\<rparr>"

definition nonempty_opt :: "string option \<Rightarrow> bool" where
  "nonempty_opt v \<longleftrightarrow> v \<noteq> None \<and> v \<noteq> Some []"

text \<open>The offset of a page of keys is not raised to zero: a negative one wraps.\<close>

definition key_page_limit :: "i64 option \<Rightarrow> i64 option \<Rightarrow> (nat \<times> nat) option" where
  "key_page_limit page pageSize =
     (case (page, pageSize) of (Some p, Some s) \<Rightarrow> Some (unat ((p - 1) * s), unat s) | _ \<Rightarrow> None)"

definition newAPIKeyFilterToParam :: "owner_deps \<Rightarrow> APIKeyFilter option \<Rightarrow> TAPIKeyParam option" where
  "newAPIKeyFilterToParam dp f = map_option (\<lambda>q. empty_TAPIKeyParam\<lparr>pa_ProductName := kf_ProductName q,
     pa_ID := kf_ID q, pa_InnerID := kf_InnerID q, pa_QuotaPlanID := kf_QuotaPlanID q,
     pa_RouteRulesID := kf_RouteRulesID q, pa_Enable := kf_Enabled q, pa_EntityID := kf_EntityID q,
     pa_UnlimitedQuota := kf_UnlimitedQuota q,
     pa_KeyHash := (if nonempty_opt (kf_Key q) then map_option (oc_keyHash dp) (kf_Key q) else None),
     pa_Limit := key_page_limit (kf_Page q) (kf_PageSize q)\<rparr>) f"

definition newAPIKeyDataToParam :: "owner_deps \<Rightarrow> time \<Rightarrow> APIKeyParam \<Rightarrow> error + TAPIKeyParam" where
  "newAPIKeyDataToParam dp now p =
     (let base = (\<lambda>key hash. empty_TAPIKeyParam\<lparr>pa_ID := ka_ID p, pa_Enable := ka_Enable p, pa_Key := key,
        pa_KeyHash := hash, pa_Description := ka_Description p, pa_UnlimitedQuota := ka_UnlimitedQuota p,
        pa_ExpiredTime := ka_ExpiredTime p, pa_ProductName := ka_ProductName p, pa_EntityID := ka_EntityID p,
        pa_QuotaPlanID := ka_QuotaPlanID p, pa_RateLimitPolicyID := ka_RateLimitPolicyID p,
        pa_RouteRulesID := ka_RouteRulesID p, pa_UpdatedAt := Some now\<rparr>)
      in if nonempty_opt (ka_Key p)
         then case oc_encrypt dp (the (ka_Key p)) of
                Inl e \<Rightarrow> Inl (ErrMsg ''api_key: encrypt'')
              | Inr c \<Rightarrow> Inr (base (Some c) (Some (oc_keyHash dp (the (ka_Key p)))))
         else Inr (base None None))"

definition key_of_row :: "owner_deps \<Rightarrow> TAPIKey \<Rightarrow> error + APIKeyParam" where
  "key_of_row dp r =
     (case qc_decrypt dp (ta_Key r) of
        Inl e \<Rightarrow> Inl (ErrMsg ''api_key: decrypt'')
      | Inr k \<Rightarrow> Inr
         \<lparr>ka_ID = Some (ta_ID r), ka_Key = Some k, ka_KeyCreateAt = Some (ta_CreatedAt r),
          ka_Enable = Some (ta_Enable r), ka_CreateTime = Some (unix_seconds (ta_CreatedAt r)),
          ka_UpdatedTime = Some (unix_seconds (ta_UpdatedAt r)), ka_Description = Some (ta_Description r),
          ka_UnlimitedQuota = Some (ta_UnlimitedQuota r), ka_ExpiredTime = Some (ta_ExpiredTime r),
          ka_Models = or_star (if ta_AllowedModels r \<noteq> [] then oc_decStrings dp (ta_AllowedModels r) [''*''] else [''*'']),
          ka_Subnet = or_star (if ta_Subnet r \<noteq> [] then oc_decStrings dp (ta_Subnet r) [''*''] else [''*'']),
          ka_EntityID = ta_EntityID r, ka_QuotaPlanID = ta_QuotaPlanID r,
          ka_RateLimitPolicyID = ta_RateLimitPolicyID r, ka_RouteRulesID = ta_RouteRulesID r,
          ka_ProductName = Some (ta_ProductName r), ka_InnerID = Some (ta_InnerID r),
          ka_QuotaPlan = None, ka_RateLimitPolicy = None, ka_RouteRules = None, ka_Entity = None\<rparr>)"

definition storage_CreateAPIKey :: "owner_deps \<Rightarrow> APIKeyParam \<Rightarrow> int owner" where
  "storage_CreateAPIKey dp param = bindE (getsE o_now) (\<lambda>now.
     bindE (lift_err (newAPIKeyDataToParam dp now param)) (\<lambda>data.
       on_keys (TAPIKeyCreate dp (data\<lparr>pa_AllowedModels := Some (oc_encStrings dp (or_star (ka_Models param))),
         pa_CreatedAt := Some now, pa_Subnet := Some (oc_encStrings dp (or_star (ka_Subnet param)))\<rparr>) now)))"

definition storage_FetchAPIKeyList :: "owner_deps \<Rightarrow> APIKeyFilter option \<Rightarrow> APIKeyParam list owner" where
  "storage_FetchAPIKeyList dp f =
     bindE (db_read (\<lambda>d. TAPIKeyList (newAPIKeyFilterToParam dp f) (o_api_keys d))) (\<lambda>rs.
       lift_err (all_ok (key_of_row dp) rs))"

definition storage_UpdateAPIKey :: "owner_deps \<Rightarrow> APIKeyFilter option \<Rightarrow> APIKeyParam \<Rightarrow> nat owner" where
  "storage_UpdateAPIKey dp f param = bindE (getsE o_now) (\<lambda>now.
     bindE (lift_err (newAPIKeyDataToParam dp now param)) (\<lambda>data.
       on_keys (TAPIKeyUpdate dp
         (data\<lparr>pa_AllowedModels := (if ka_Models param \<noteq> [] then Some (oc_encStrings dp (ka_Models param)) else None),
               pa_Subnet := (if ka_Subnet param \<noteq> [] then Some (oc_encStrings dp (ka_Subnet param)) else None)\<rparr>)
         (newAPIKeyFilterToParam dp f))))"

definition storage_DeleteAPIKey :: "owner_deps \<Rightarrow> APIKeyFilter option \<Rightarrow> unit owner" where
  "storage_DeleteAPIKey dp f = discard (on_keys (TAPIKeyDelete dp (newAPIKeyFilterToParam dp f)))"

definition storage_CreateAPIKeyToken :: "owner_deps \<Rightarrow> APIKeyTokenParam \<Rightarrow> int owner" where
  "storage_CreateAPIKeyToken dp param = bindE (getsE o_now) (\<lambda>now.
     on_tokens (TAPIKeyTokenCreate dp (kk_Key param) now))"

definition storage_UpdateAPIKeyToken :: "owner_deps \<Rightarrow> int option \<Rightarrow> APIKeyTokenParam \<Rightarrow> unit owner" where
  "storage_UpdateAPIKeyToken dp i param = discard (on_tokens (TAPIKeyTokenUpdate dp (kk_Key param) i))"

definition storage_FetchAPIKeyTokenList :: "string option \<Rightarrow> APIKeyTokenParam list owner" where
  "storage_FetchAPIKeyTokenList k = db_read (\<lambda>d.
     map (\<lambda>r. \<lparr>kk_Key = Some (tk_Key r), kk_CreatedAt = Some (tk_CreatedAt r)\<rparr>) (TAPIKeyTokenList k (o_api_key_tokens d)))"

section \<open>Rate limit policies\<close>

definition empty_TRateLimitPolicyParam :: TRateLimitPolicyParam where
  "empty_TRateLimitPolicyParam = \<lparr>pr_ID = None, pr_Enabled = None, pr_MaxConcurrency = None,
     pr_TpmConfigs = None, pr_RpmConfigs = None, pr_BatchLimits = None, pr_CreatedAt = None, pr_UpdatedAt = None\<rparr>"

text \<open>The filter of a policy is its id; no filter restricts nothing.\<close>

definition rateLimitPolicyFilterToParam :: "int option option \<Rightarrow> TRateLimitPolicyParam option" where
  "rateLimitPolicyFilterToParam f = map_option (\<lambda>i. empty_TRateLimitPolicyParam\<lparr>pr_ID := i\<rparr>) f"

definition rateLimitPolicyDataToParam :: "owner_deps \<Rightarrow> RateLimitPolicyParam \<Rightarrow> TRateLimitPolicyParam" where
  "rateLimitPolicyDataToParam dp p = empty_TRateLimitPolicyParam
     \<lparr>pr_Enabled := rl_Enabled p, pr_MaxConcurrency := rl_MaxConcurrency p,
      pr_TpmConfigs := Some (if rl_TpmConfigs p \<noteq> [] then oc_encTpm dp (rl_TpmConfigs p) else ''[]''),
      pr_RpmConfigs := Some (if rl_RpmConfigs p \<noteq> [] then oc_encRpm dp (rl_RpmConfigs p) else ''[]''),
      pr_BatchLimits := Some (case rl_BatchLimits p of None \<Rightarrow> [] | Some b \<Rightarrow> oc_encBatch dp b)\<rparr>"

definition rateLimitPolicyParamToData :: "owner_deps \<Rightarrow> TRateLimitPolicy \<Rightarrow> RateLimitPolicyParam" where
  "rateLimitPolicyParamToData dp r =
     \<lparr>rl_ID = Some (tl_ID r), rl_Enabled = Some (tl_Enabled r), rl_MaxConcurrency = Some (tl_MaxConcurrency r),
      rl_TpmConfigs = (if tl_TpmConfigs r \<noteq> [] then oc_decTpm dp (tl_TpmConfigs r) else []),
      rl_RpmConfigs = (if tl_RpmConfigs r \<noteq> [] then oc_decRpm dp (tl_RpmConfigs r) else []),
      rl_BatchLimits = (if tl_BatchLimits r \<noteq> [] \<and> tl_BatchLimits r \<noteq> ''null''
                        then oc_decBatch dp (tl_BatchLimits r) else None)\<rparr>"

definition storage_CreateRateLimitPolicy :: "owner_deps \<Rightarrow> RateLimitPolicyParam \<Rightarrow> int owner" where
  "storage_CreateRateLimitPolicy dp param = bindE (getsE o_now) (\<lambda>now.
     on_policies (TRateLimitPolicyCreate dp ((rateLimitPolicyDataToParam dp param)\<lparr>pr_CreatedAt := Some now\<rparr>) now))"

definition storage_FetchRateLimitPolicy :: "owner_deps \<Rightarrow> int option option \<Rightarrow> RateLimitPolicyParam option owner" where
  "storage_FetchRateLimitPolicy dp f = db_read (\<lambda>d.
     map_option (rateLimitPolicyParamToData dp) (TRateLimitPolicyOne (rateLimitPolicyFilterToParam f) (o_policies d)))"

definition storage_FetchRateLimitPolicyList :: "owner_deps \<Rightarrow> int option option \<Rightarrow> RateLimitPolicyParam list owner" where
  "storage_FetchRateLimitPolicyList dp f = db_read (\<lambda>d.
     map (rateLimitPolicyParamToData dp) (TRateLimitPolicyList (rateLimitPolicyFilterToParam f) (o_policies d)))"

definition storage_UpdateRateLimitPolicy :: "owner_deps \<Rightarrow> int option option \<Rightarrow> RateLimitPolicyParam \<Rightarrow> nat owner" where
  "storage_UpdateRateLimitPolicy dp f param = bindE (getsE o_now) (\<lambda>now.
     on_policies (TRateLimitPolicyUpdate dp ((rateLimitPolicyDataToParam dp param)\<lparr>pr_UpdatedAt := Some now\<rparr>)
       (rateLimitPolicyFilterToParam f)))"

definition storage_DeleteRateLimitPolicy :: "int option option \<Rightarrow> unit owner" where
  "storage_DeleteRateLimitPolicy f = discard (on_policies (TRateLimitPolicyDelete (rateLimitPolicyFilterToParam f)))"

section \<open>Route rules\<close>

definition empty_TRouteRulesParam :: TRouteRulesParam where
  "empty_TRouteRulesParam = \<lparr>po_ID = None, po_Type = None, po_Owner = None, po_Enabled = None, po_Rules = None,
     po_CreatedAt = None, po_UpdatedAt = None, po_Limit = None\<rparr>"

definition marshalRouteRules :: "owner_deps \<Rightarrow> AiRouteRuleParam option list \<Rightarrow> error + string" where
  "marshalRouteRules dp rs = (if rs = [] then Inr ''[]'' else oc_encRules dp rs)"

definition routeRulesDataToParam :: "owner_deps \<Rightarrow> TRouteRules \<Rightarrow> RouteRulesParam" where
  "routeRulesDataToParam dp r = \<lparr>rs_ID = Some (to_ID r), rs_Enabled = Some (to_Enabled r),
     rs_Rules = (if to_Rules r \<noteq> [] then oc_decRules dp (to_Rules r) else [])\<rparr>"

definition storage_CreateRouteRules ::
  "owner_deps \<Rightarrow> string \<Rightarrow> string option \<Rightarrow> RouteRulesParam \<Rightarrow> int owner" where
  "storage_CreateRouteRules dp ruleType owner param =
     bindE (lift_err (marshalRouteRules dp (rs_Rules param))) (\<lambda>text. bindE (getsE o_now) (\<lambda>now.
       on_rules (TRouteRulesCreate dp (empty_TRouteRulesParam\<lparr>po_Type := Some ruleType, po_Owner := owner,
         po_Enabled := rs_Enabled param, po_Rules := Some text\<rparr>) now)))"

definition storage_FetchRouteRules :: "owner_deps \<Rightarrow> string \<Rightarrow> string option \<Rightarrow> RouteRulesParam option owner" where
  "storage_FetchRouteRules dp ruleType owner = db_read (\<lambda>d. map_option (routeRulesDataToParam dp)
     (TRouteRulesOne (Some (empty_TRouteRulesParam\<lparr>po_Type := Some ruleType, po_Owner := owner\<rparr>)) (o_route_rules d)))"

definition storage_UpdateRouteRules :: "owner_deps \<Rightarrow> int \<Rightarrow> RouteRulesParam \<Rightarrow> nat owner" where
  "storage_UpdateRouteRules dp i param =
     bindE (lift_err (marshalRouteRules dp (rs_Rules param))) (\<lambda>text.
       on_rules (TRouteRulesUpdate dp (empty_TRouteRulesParam\<lparr>po_Enabled := rs_Enabled param, po_Rules := Some text\<rparr>)
         (Some (empty_TRouteRulesParam\<lparr>po_ID := Some i\<rparr>))))"

definition storage_DeleteRouteRules :: "owner_deps \<Rightarrow> int \<Rightarrow> unit owner" where
  "storage_DeleteRouteRules dp i =
     discard (on_rules (TRouteRulesDelete dp (Some (empty_TRouteRulesParam\<lparr>po_ID := Some i\<rparr>))))"

definition storage_FetchRouteRulesByID :: "owner_deps \<Rightarrow> int \<Rightarrow> RouteRulesParam option owner" where
  "storage_FetchRouteRulesByID dp i = db_read (\<lambda>d. map_option (routeRulesDataToParam dp)
     (TRouteRulesOne (Some (empty_TRouteRulesParam\<lparr>po_ID := Some i\<rparr>)) (o_route_rules d)))"

definition storage_FetchAllRouteRules :: "owner_deps \<Rightarrow> RouteRulesParam list owner" where
  "storage_FetchAllRouteRules dp = db_read (\<lambda>d. map (routeRulesDataToParam dp)
     (TRouteRulesList (Some empty_TRouteRulesParam) (o_route_rules d)))"

section \<open>Transactions\<close>

definition owner_AtomExecute :: "'a owner \<Rightarrow> 'a owner" where
  "owner_AtomExecute body = RDBTxnExecute odb (\<lambda>d w. w\<lparr>odb := d\<rparr>) body"

interpretation owner_txn: txn_tables odb "\<lambda>d w. w\<lparr>odb := d\<rparr>"
  by unfold_locales simp_all

end
