(* ===== verification/RateLimit.thy ===== *)
theory RateLimit
  imports OwnerStorager
begin

text \<open>
  Rate limit policies: the Redis keys of their counters (\<^verbatim>\<open>model/shared/rate_limit_redis_key.go\<close>), the storage
  adapter and the operations of \<^verbatim>\<open>model/rate_limit_policy\<close> with their operation log. The keys are shared with the data plane,
  which counts in them; the control plane deletes the keys of limits that are gone.
\<close>

section \<open>Keys\<close>

definition BuildBFERateLimitRedisKey :: "int \<Rightarrow> string \<Rightarrow> string \<Rightarrow> string" where
  "BuildBFERateLimitRedisKey policyID ruleType name =
     ''default_bfe_rlp-'' @ show_int policyID @ ''_'' @ ruleType @ ''_rlp-'' @ show_int policyID @ ''_'' @ name"

definition BuildBatchRateLimitRedisKey :: "int \<Rightarrow> string" where
  "BuildBatchRateLimitRedisKey policyID = BuildBFERateLimitRedisKey policyID ''RL_BATCH'' ''rpm''"

definition BatchRateLimitEnabled :: "RateLimitRules option \<Rightarrow> bool" where
  "BatchRateLimitEnabled rules =
     (case rules of None \<Rightarrow> False
      | Some r \<Rightarrow> (case lr_BatchLimits r of None \<Rightarrow> False | Some b \<Rightarrow> bl_MaxCreateRPM b > 0))"

definition buildTpmRpmRateLimitRedisKeys :: "int \<Rightarrow> RateLimitRules option \<Rightarrow> string list" where
  "buildTpmRpmRateLimitRedisKeys policyID rules =
     (case rules of None \<Rightarrow> []
      | Some r \<Rightarrow>
          map (\<lambda>c. BuildBFERateLimitRedisKey policyID ''RL_TPM'' (tc_Name c)) (lr_TpmConfigs r) @
          map (\<lambda>c. BuildBFERateLimitRedisKey policyID ''RL_RPM'' (rc_Name c)) (lr_RpmConfigs r))"

definition BuildRateLimitRedisKeys :: "int \<Rightarrow> RateLimitRules option \<Rightarrow> string list" where
  "BuildRateLimitRedisKeys policyID rules =
     buildTpmRpmRateLimitRedisKeys policyID rules @
     (if BatchRateLimitEnabled rules then [BuildBatchRateLimitRedisKey policyID] else [])"

text \<open>The text after the last occurrence of \<open>sub\<close> (\<^verbatim>\<open>strings.LastIndex\<close>), for a non-empty \<open>sub\<close>.\<close>

fun after_last :: "string \<Rightarrow> string \<Rightarrow> string option" where
  "after_last sub [] = None"
| "after_last sub (c # cs) =
     (case after_last sub cs of
        Some r \<Rightarrow> Some r
      | None \<Rightarrow> if HasPrefix (c # cs) sub then Some (drop (length sub) (c # cs)) else None)"

definition extractRateLimitNameFromKey :: "string \<Rightarrow> string" where
  "extractRateLimitNameFromKey key =
     (case after_last ''_rlp-'' key of
        None \<Rightarrow> []
      | Some rest \<Rightarrow> (case Cut rest CHR ''_'' of None \<Rightarrow> [] | Some (_, name) \<Rightarrow> name))"

definition rule_names :: "RateLimitRules option \<Rightarrow> string list" where
  "rule_names rules =
     (case rules of None \<Rightarrow> [] | Some r \<Rightarrow> map tc_Name (lr_TpmConfigs r) @ map rc_Name (lr_RpmConfigs r))"

definition DiffRateLimitRedisKeys ::
  "int \<Rightarrow> RateLimitRules option \<Rightarrow> RateLimitRules option \<Rightarrow> string list" where
  "DiffRateLimitRedisKeys policyID oldRules newRules =
     filter (\<lambda>key. extractRateLimitNameFromKey key \<notin> set (rule_names newRules))
       (buildTpmRpmRateLimitRedisKeys policyID oldRules) @
     (if BatchRateLimitEnabled oldRules \<and> \<not> BatchRateLimitEnabled newRules
      then [BuildBatchRateLimitRedisKey policyID] else [])"

section \<open>Operation log\<close>

definition owner_log :: "owner_deps \<Rightarrow> OwnerLogEntry \<Rightarrow> unit owner" where
  "owner_log dp e = (if \<not> qc_operationLog dp then returnE () else modifyE (\<lambda>w. w\<lparr>o_log := o_log w @ [e]\<rparr>))"

definition rateLimitPolicyParamToMap :: "RateLimitPolicyParam option \<Rightarrow> owner_map option" where
  "rateLimitPolicyParamToMap param = map_option (\<lambda>p.
     (case rl_ID p of None \<Rightarrow> [] | Some v \<Rightarrow> [(''id'', OvInt v)]) @
     (case rl_Enabled p of None \<Rightarrow> [] | Some v \<Rightarrow> [(''enabled'', OvBool v)]) @
     (case rl_MaxConcurrency p of None \<Rightarrow> [] | Some v \<Rightarrow> [(''max_concurrency'', OvInt v)]) @
     (if rl_TpmConfigs p \<noteq> [] then [(''tpm_configs'', OvTpm (rl_TpmConfigs p))] else []) @
     (if rl_RpmConfigs p \<noteq> [] then [(''rpm_configs'', OvRpm (rl_RpmConfigs p))] else []) @
     (case rl_BatchLimits p of None \<Rightarrow> [] | Some v \<Rightarrow> [(''batch_limits'', OvBatch v)])) param"

definition recordRateLimitPolicyOperation ::
  "owner_deps \<Rightarrow> string \<Rightarrow> string \<Rightarrow> string \<Rightarrow> owner_map option \<Rightarrow> owner_map option \<Rightarrow> error option \<Rightarrow> unit owner" where
  "recordRateLimitPolicyOperation dp action policyID parentID before after err =
     owner_log dp \<lparr>ol_Action = action, ol_ResourceType = ''rate_limit_policy'', ol_ResourceID = policyID,
       ol_ResourceName = [], ol_ResourceParentID = parentID, ol_Before = before, ol_After = after, ol_Error = err\<rparr>"

definition rateLimitPolicyIDString :: "int \<Rightarrow> string" where
  "rateLimitPolicyIDString i = show_int i"

definition audited_id :: "int \<Rightarrow> string" where
  "audited_id i = (if i > 0 then rateLimitPolicyIDString i else [])"

text \<open>The conversion that the adapter and the auditor share: a policy without rules has no limits.\<close>

definition rateLimitPolicyParamFromShared :: "SharedRateLimitPolicyParam \<Rightarrow> RateLimitPolicyParam" where
  "rateLimitPolicyParamFromShared p =
     (case sr_Rules p of
        None \<Rightarrow> \<lparr>rl_ID = None, rl_Enabled = sr_Enabled p, rl_MaxConcurrency = None, rl_TpmConfigs = [],
                 rl_RpmConfigs = [], rl_BatchLimits = None\<rparr>
      | Some r \<Rightarrow> \<lparr>rl_ID = None, rl_Enabled = sr_Enabled p, rl_MaxConcurrency = lr_MaxConcurrency r,
                   rl_TpmConfigs = lr_TpmConfigs r, rl_RpmConfigs = lr_RpmConfigs r,
                   rl_BatchLimits = lr_BatchLimits r\<rparr>)"

definition AuditRateLimitPolicyCreate ::
  "owner_deps \<Rightarrow> SharedRateLimitPolicyParam option \<Rightarrow> int \<Rightarrow> string \<Rightarrow> error option \<Rightarrow> unit owner" where
  "AuditRateLimitPolicyCreate dp param policyID owner err =
     recordRateLimitPolicyOperation dp ''create'' (audited_id policyID) owner None
       (rateLimitPolicyParamToMap (map_option rateLimitPolicyParamFromShared param)) err"

definition AuditRateLimitPolicyUpdate ::
  "owner_deps \<Rightarrow> SharedRateLimitPolicyParam option \<Rightarrow> SharedRateLimitPolicyParam option \<Rightarrow> int \<Rightarrow> string \<Rightarrow>
   error option \<Rightarrow> unit owner" where
  "AuditRateLimitPolicyUpdate dp oldPolicy param policyID owner err =
     recordRateLimitPolicyOperation dp ''update'' (audited_id policyID) owner
       (rateLimitPolicyParamToMap (map_option rateLimitPolicyParamFromShared oldPolicy))
       (rateLimitPolicyParamToMap (map_option rateLimitPolicyParamFromShared param)) err"

definition AuditRateLimitPolicyDelete ::
  "owner_deps \<Rightarrow> SharedRateLimitPolicyParam option \<Rightarrow> int \<Rightarrow> string \<Rightarrow> error option \<Rightarrow> unit owner" where
  "AuditRateLimitPolicyDelete dp oldPolicy policyID owner err =
     recordRateLimitPolicyOperation dp ''delete'' (audited_id policyID) owner
       (rateLimitPolicyParamToMap (map_option rateLimitPolicyParamFromShared oldPolicy)) None err"

section \<open>The adapter to the shared storage interface\<close>

definition adapter_CreateRateLimitPolicy :: "owner_deps \<Rightarrow> SharedRateLimitPolicyParam \<Rightarrow> int owner" where
  "adapter_CreateRateLimitPolicy dp param =
     storage_CreateRateLimitPolicy dp (rateLimitPolicyParamFromShared param)"

definition adapter_UpdateRateLimitPolicy :: "owner_deps \<Rightarrow> int \<Rightarrow> SharedRateLimitPolicyParam \<Rightarrow> nat owner" where
  "adapter_UpdateRateLimitPolicy dp i param =
     storage_UpdateRateLimitPolicy dp (Some (Some i)) (rateLimitPolicyParamFromShared param)"

definition adapter_DeleteRateLimitPolicy :: "int \<Rightarrow> unit owner" where
  "adapter_DeleteRateLimitPolicy i = storage_DeleteRateLimitPolicy (Some (Some i))"

definition rateLimitPolicyToShared :: "RateLimitPolicyParam \<Rightarrow> SharedRateLimitPolicyParam" where
  "rateLimitPolicyToShared p = \<lparr>sr_Enabled = rl_Enabled p, sr_Rules = Some \<lparr>lr_TpmConfigs = rl_TpmConfigs p,
     lr_RpmConfigs = rl_RpmConfigs p, lr_MaxConcurrency = rl_MaxConcurrency p, lr_BatchLimits = rl_BatchLimits p\<rparr>\<rparr>"

definition adapter_FetchRateLimitPolicy :: "owner_deps \<Rightarrow> int \<Rightarrow> SharedRateLimitPolicyParam option owner" where
  "adapter_FetchRateLimitPolicy dp i =
     bindE (storage_FetchRateLimitPolicy dp (Some (Some i))) (\<lambda>r. returnE (map_option rateLimitPolicyToShared r))"

section \<open>The manager\<close>

definition policy_filter_id :: "int option option \<Rightarrow> string" where
  "policy_filter_id f =
     (case f of Some (Some i) \<Rightarrow> rateLimitPolicyIDString i | _ \<Rightarrow> [])"

definition CreateRateLimitPolicy :: "owner_deps \<Rightarrow> RateLimitPolicyParam \<Rightarrow> string \<Rightarrow> int owner" where
  "CreateRateLimitPolicy dp param owner =
     State_Monad.bind (storage_CreateRateLimitPolicy dp param) (\<lambda>r. case r of
         Inl err \<Rightarrow> bindE (recordRateLimitPolicyOperation dp ''create'' [] owner None
                      (rateLimitPolicyParamToMap (Some param)) (Some err)) (\<lambda>_. throwE err)
       | Inr i \<Rightarrow> bindE (recordRateLimitPolicyOperation dp ''create'' (rateLimitPolicyIDString i) owner None
                      (rateLimitPolicyParamToMap (Some param)) None) (\<lambda>_. returnE i))"

definition UpdateRateLimitPolicy ::
  "owner_deps \<Rightarrow> int option option \<Rightarrow> RateLimitPolicyParam \<Rightarrow> string \<Rightarrow> nat owner" where
  "UpdateRateLimitPolicy dp f param owner =
     (let record = recordRateLimitPolicyOperation dp ''update'' (policy_filter_id f) owner;
          after = rateLimitPolicyParamToMap (Some param)
      in State_Monad.bind (storage_FetchRateLimitPolicy dp f) (\<lambda>r. case r of
           Inl err \<Rightarrow> bindE (record None after (Some err)) (\<lambda>_. throwE err)
         | Inr oldPolicy \<Rightarrow>
             State_Monad.bind (storage_UpdateRateLimitPolicy dp f param) (\<lambda>u. case u of
                 Inl err \<Rightarrow> bindE (record (rateLimitPolicyParamToMap oldPolicy) after (Some err)) (\<lambda>_. throwE err)
               | Inr affected \<Rightarrow>
                   bindE (record (rateLimitPolicyParamToMap oldPolicy) after None) (\<lambda>_. returnE affected))))"

definition DeleteRateLimitPolicy :: "owner_deps \<Rightarrow> int option option \<Rightarrow> string \<Rightarrow> unit owner" where
  "DeleteRateLimitPolicy dp f owner =
     (let record = (\<lambda>before err. recordRateLimitPolicyOperation dp ''delete'' (policy_filter_id f) owner before None err)
      in State_Monad.bind (storage_FetchRateLimitPolicy dp f) (\<lambda>r. case r of
           Inl err \<Rightarrow> bindE (record None (Some err)) (\<lambda>_. throwE err)
         | Inr oldPolicy \<Rightarrow>
             State_Monad.bind (storage_DeleteRateLimitPolicy f) (\<lambda>u. case u of
                 Inl err \<Rightarrow> bindE (record (rateLimitPolicyParamToMap oldPolicy) (Some err)) (\<lambda>_. throwE err)
               | Inr _ \<Rightarrow> record (rateLimitPolicyParamToMap oldPolicy) None)))"

section \<open>What the keys tell\<close>

lemma HasPrefix_Cons [simp]: "HasPrefix (c # cs) (d # ds) \<longleftrightarrow> c = d \<and> HasPrefix cs ds"
  by (simp add: HasPrefix_iff)

lemma after_last_None: "sub \<noteq> [] \<Longrightarrow> after_last sub s = None \<longleftrightarrow> \<not> Contains s sub"
  by (induction s) (auto simp: HasPrefix_def split: option.splits)

lemma after_last_append:
  "after_last sub t = Some r \<Longrightarrow> after_last sub (s @ t) = Some r"
  by (induction s) auto

lemma after_last_here:
  assumes "sub \<noteq> []" and "after_last sub (tl sub @ t) = None"
  shows "after_last sub (s @ sub @ t) = Some t"
proof -
  obtain c cs where "sub = c # cs" using assms(1) by (cases sub) auto
  then have "after_last sub (sub @ t) = Some t" using assms(2) by simp
  then show ?thesis by (rule after_last_append)
qed

lemma after_last_skip:
  "d \<notin> set u \<Longrightarrow> after_last (d # ds) (u @ t) = after_last (d # ds) t"
  by (induction u) (auto split: option.splits)

lemma show_int_no_underscore: "CHR ''_'' \<notin> set (show_int i)"
proof -
  have "digit_val CHR ''_'' = None" by simp
  then have "CHR ''_'' \<notin> set (show_nat n)" for n
    using show_nat_digits [of "CHR ''_''" n] digit_val_digit_char by fastforce
  then show ?thesis by (simp add: show_int_def)
qed

lemma extract_built_key:
  assumes "\<not> Contains (CHR ''_'' # name) ''_rlp-''"
  shows "extractRateLimitNameFromKey (BuildBFERateLimitRedisKey i ty name) = name"
proof -
  let ?rest = "show_int i @ CHR ''_'' # name"
  have no_ul: "CHR ''_'' \<notin> set (''rlp-'' @ show_int i)" using show_int_no_underscore [of i] by simp
  have "after_last ''_rlp-'' (''rlp-'' @ ?rest) = after_last ''_rlp-'' (CHR ''_'' # name)"
    using after_last_skip [OF no_ul, of "''rlp-''" "CHR ''_'' # name"] by (simp only: append_assoc)
  also have "\<dots> = None" using assms after_last_None [of "''_rlp-''"] by blast
  finally have "after_last ''_rlp-'' (tl ''_rlp-'' @ ?rest) = None" by simp
  then have last: "after_last ''_rlp-'' (s @ ''_rlp-'' @ ?rest) = Some ?rest" for s
    by (intro after_last_here) simp_all
  have "BuildBFERateLimitRedisKey i ty name =
        (''default_bfe_rlp-'' @ show_int i @ ''_'' @ ty) @ ''_rlp-'' @ ?rest"
    by (simp add: BuildBFERateLimitRedisKey_def)
  then have "after_last ''_rlp-'' (BuildBFERateLimitRedisKey i ty name) = Some ?rest"
    by (simp only: last)
  then show ?thesis
    using Cut_first [OF show_int_no_underscore [of i], of name] by (simp add: extractRateLimitNameFromKey_def)
qed

end
