(* ===== verification/OwnerNested.thy ===== *)
theory OwnerNested
  imports RateLimit
begin

text \<open>
  What the managers of entities and of API keys do alike: write the quota plan, the rate limit policy and the
  route rules of an owner inside its transaction, clean up its Redis keys after the commit, audit the
  nested writes, and fill in what is read back (\<^verbatim>\<open>model/entity/entity_manager.go\<close>, \<^verbatim>\<open>operation_log.go\<close>;
  \<^verbatim>\<open>model/api_key/api_key.go\<close> and \<^verbatim>\<open>api_key_operation_log.go\<close> repeat this code).
\<close>

section \<open>Variables of a method\<close>

definition set_vars :: "(owner_vars \<Rightarrow> owner_vars) \<Rightarrow> unit owner" where
  "set_vars f = modifyE (\<lambda>w. w\<lparr>o_vars := f (o_vars w)\<rparr>)"

text \<open>A fetch whose error only leaves the snapshot of the operation log empty.\<close>

definition soft_fetch_plan :: "owner_deps \<Rightarrow> int \<Rightarrow> unit owner" where
  "soft_fetch_plan dp i = State_Monad.bind (in_quota (adapter_FetchQuotaPlan i)) (\<lambda>r.
     case r of Inl _ \<Rightarrow> returnE () | Inr p \<Rightarrow> set_vars (\<lambda>v. v\<lparr>ov_quotaPlan := p\<rparr>))"

section \<open>Creating\<close>

definition create_plan :: "owner_deps \<Rightarrow> QuotaPlanWithBalance option \<Rightarrow> int option owner" where
  "create_plan dp plan =
     (case plan of None \<Rightarrow> returnE None
      | Some p \<Rightarrow>
          if \<not> oc_quotaPlanStorager dp then returnE None
          else bindE (in_quota (adapter_CreateQuotaPlan (qdeps dp) (SharedQuotaPlanParam.truncate p))) (\<lambda>i.
            bindE (set_vars (\<lambda>v. v\<lparr>ov_planID := i\<rparr>)) (\<lambda>_. returnE (Some i))))"

definition create_policy :: "owner_deps \<Rightarrow> SharedRateLimitPolicyParam option \<Rightarrow> int option owner" where
  "create_policy dp policy =
     (case policy of None \<Rightarrow> returnE None
      | Some p \<Rightarrow>
          if \<not> oc_rateLimitPolicyStorager dp then returnE None
          else bindE (adapter_CreateRateLimitPolicy dp p) (\<lambda>i.
            bindE (set_vars (\<lambda>v. v\<lparr>ov_policyID := i\<rparr>)) (\<lambda>_. returnE (Some i))))"

definition create_rules ::
  "owner_deps \<Rightarrow> string \<Rightarrow> string option \<Rightarrow> RouteRulesParam option \<Rightarrow> int option owner" where
  "create_rules dp ruleType owner rules =
     (case rules of None \<Rightarrow> returnE None
      | Some r \<Rightarrow>
          if \<not> oc_routeRulesStorager dp then returnE None
          else bindE (storage_CreateRouteRules dp ruleType owner r) (\<lambda>i. returnE (Some i)))"

section \<open>Changing\<close>

text \<open>The result is the id of a plan that had to be created.\<close>

definition change_plan :: "owner_deps \<Rightarrow> int option \<Rightarrow> QuotaPlanWithBalance option \<Rightarrow> int option owner" where
  "change_plan dp old plan =
     (case (plan, old) of
        (Some p, Some i) \<Rightarrow>
          if \<not> oc_quotaPlanStorager dp then returnE None
          else bindE (in_quota (adapter_UpdateQuotaPlan (qdeps dp) i (SharedQuotaPlanParam.truncate p))) (\<lambda>_. returnE None)
      | _ \<Rightarrow> create_plan dp plan)"

definition change_policy ::
  "owner_deps \<Rightarrow> int option \<Rightarrow> SharedRateLimitPolicyParam option \<Rightarrow> int option owner" where
  "change_policy dp old policy =
     (case (policy, old) of
        (Some p, Some i) \<Rightarrow>
          if \<not> oc_rateLimitPolicyStorager dp then returnE None
          else bindE (adapter_FetchRateLimitPolicy dp i) (\<lambda>oldPolicy.
            bindE (set_vars (\<lambda>v. v\<lparr>ov_policy := oldPolicy\<rparr>)) (\<lambda>_.
            bindE (adapter_UpdateRateLimitPolicy dp i p) (\<lambda>_.
              case oldPolicy of
                Some q \<Rightarrow>
                  if sr_Rules q \<noteq> None
                  then bindE (set_vars (\<lambda>v. v\<lparr>ov_limitKeys := DiffRateLimitRedisKeys i (sr_Rules q) (sr_Rules p)\<rparr>))
                         (\<lambda>_. returnE None)
                  else returnE None
              | None \<Rightarrow> returnE None)))
      | _ \<Rightarrow> create_policy dp policy)"

definition change_rules ::
  "owner_deps \<Rightarrow> string \<Rightarrow> string option \<Rightarrow> int option \<Rightarrow> RouteRulesParam option \<Rightarrow> int option owner" where
  "change_rules dp ruleType owner old rules =
     (case (rules, old) of
        (Some r, Some i) \<Rightarrow>
          if \<not> oc_routeRulesStorager dp then returnE None
          else bindE (storage_UpdateRouteRules dp i r) (\<lambda>_. returnE None)
      | _ \<Rightarrow> create_rules dp ruleType owner rules)"

section \<open>Deleting\<close>

text \<open>The reads before the deletion: the old policy, whose counters are to be removed, and the old plan.\<close>

definition read_nested :: "owner_deps \<Rightarrow> int option \<Rightarrow> int option \<Rightarrow> unit owner" where
  "read_nested dp planID policyID =
     bindE (case policyID of None \<Rightarrow> returnE ()
        | Some i \<Rightarrow>
            if \<not> oc_rateLimitPolicyStorager dp then returnE ()
            else bindE (adapter_FetchRateLimitPolicy dp i) (\<lambda>policy.
              bindE (set_vars (\<lambda>v. v\<lparr>ov_policy := policy\<rparr>)) (\<lambda>_.
                case policy of
                  Some q \<Rightarrow> if sr_Rules q \<noteq> None
                            then set_vars (\<lambda>v. v\<lparr>ov_limitKeys := BuildRateLimitRedisKeys i (sr_Rules q)\<rparr>)
                            else returnE ()
                | None \<Rightarrow> returnE ())))
       (\<lambda>_. case planID of None \<Rightarrow> returnE ()
          | Some i \<Rightarrow> if \<not> oc_quotaPlanStorager dp then returnE () else soft_fetch_plan dp i)"

definition delete_nested :: "owner_deps \<Rightarrow> int option \<Rightarrow> int option \<Rightarrow> int option \<Rightarrow> unit owner" where
  "delete_nested dp planID policyID rulesID =
     bindE (case planID of None \<Rightarrow> returnE ()
        | Some i \<Rightarrow> if \<not> oc_quotaPlanStorager dp then returnE () else in_quota (adapter_DeleteQuotaPlan i)) (\<lambda>_.
     bindE (case policyID of None \<Rightarrow> returnE ()
        | Some i \<Rightarrow> if \<not> oc_rateLimitPolicyStorager dp then returnE () else adapter_DeleteRateLimitPolicy i) (\<lambda>_.
       case rulesID of None \<Rightarrow> returnE ()
        | Some i \<Rightarrow> if \<not> oc_routeRulesStorager dp then returnE () else storage_DeleteRouteRules dp i))"

definition cleanupRedisKeys :: "owner_deps \<Rightarrow> string \<Rightarrow> string list \<Rightarrow> unit owner" where
  "cleanupRedisKeys dp quotaKey rateLimitKeys =
     (let ks = (if quotaKey \<noteq> [] then [AIUsedQuotaKey quotaKey] else []) @ rateLimitKeys
      in if \<not> qc_quotaCache dp \<or> ks = [] then returnE ()
         else ignoreE (in_quota (DeleteKeys (qdeps dp) ks)))"

section \<open>Auditing\<close>

definition opt_string :: "string option \<Rightarrow> string" where
  "opt_string v = (case v of None \<Rightarrow> [] | Some s \<Rightarrow> s)"

definition shared_plan :: "QuotaPlanWithBalance option \<Rightarrow> SharedQuotaPlanParam option" where
  "shared_plan p = map_option SharedQuotaPlanParam.truncate p"

definition audit_plan_create ::
  "owner_deps \<Rightarrow> QuotaPlanWithBalance option \<Rightarrow> string option \<Rightarrow> int \<Rightarrow> error option \<Rightarrow> unit owner" where
  "audit_plan_create dp plan owner planID err =
     (if \<not> oc_quotaPlanAuditor dp \<or> plan = None then returnE ()
      else in_quota (AuditQuotaPlanCreate (qdeps dp) (shared_plan plan) planID (opt_string owner) err))"

definition audit_plan_change ::
  "owner_deps \<Rightarrow> QuotaPlanWithBalance option \<Rightarrow> string option \<Rightarrow> int option \<Rightarrow> int \<Rightarrow>
   SharedQuotaPlanParam option \<Rightarrow> error option \<Rightarrow> unit owner" where
  "audit_plan_change dp plan owner oldID createdID oldPlan err =
     (if \<not> oc_quotaPlanAuditor dp \<or> plan = None then returnE ()
      else case oldID of
        Some i \<Rightarrow> in_quota (AuditQuotaPlanUpdate (qdeps dp) oldPlan (shared_plan plan) i (opt_string owner) err)
      | None \<Rightarrow> in_quota (AuditQuotaPlanCreate (qdeps dp) (shared_plan plan) createdID (opt_string owner) err))"

definition audit_plan_delete ::
  "owner_deps \<Rightarrow> string option \<Rightarrow> int option \<Rightarrow> SharedQuotaPlanParam option \<Rightarrow> error option \<Rightarrow> unit owner" where
  "audit_plan_delete dp owner oldID oldPlan err =
     (case oldID of None \<Rightarrow> returnE ()
      | Some i \<Rightarrow>
          if \<not> oc_quotaPlanAuditor dp then returnE ()
          else in_quota (AuditQuotaPlanDelete (qdeps dp) oldPlan i (opt_string owner) err))"

definition audit_policy_create ::
  "owner_deps \<Rightarrow> SharedRateLimitPolicyParam option \<Rightarrow> string option \<Rightarrow> int \<Rightarrow> error option \<Rightarrow> unit owner" where
  "audit_policy_create dp policy owner policyID err =
     (if \<not> oc_rateLimitPolicyAuditor dp \<or> policy = None then returnE ()
      else AuditRateLimitPolicyCreate dp policy policyID (opt_string owner) err)"

definition audit_policy_change ::
  "owner_deps \<Rightarrow> SharedRateLimitPolicyParam option \<Rightarrow> string option \<Rightarrow> int option \<Rightarrow> int \<Rightarrow>
   SharedRateLimitPolicyParam option \<Rightarrow> error option \<Rightarrow> unit owner" where
  "audit_policy_change dp policy owner oldID createdID oldPolicy err =
     (if \<not> oc_rateLimitPolicyAuditor dp \<or> policy = None then returnE ()
      else case oldID of
        Some i \<Rightarrow> AuditRateLimitPolicyUpdate dp oldPolicy policy i (opt_string owner) err
      | None \<Rightarrow> AuditRateLimitPolicyCreate dp policy createdID (opt_string owner) err)"

definition audit_policy_delete ::
  "owner_deps \<Rightarrow> string option \<Rightarrow> int option \<Rightarrow> SharedRateLimitPolicyParam option \<Rightarrow> error option \<Rightarrow> unit owner" where
  "audit_policy_delete dp owner oldID oldPolicy err =
     (case oldID of None \<Rightarrow> returnE ()
      | Some i \<Rightarrow>
          if \<not> oc_rateLimitPolicyAuditor dp then returnE ()
          else AuditRateLimitPolicyDelete dp oldPolicy i (opt_string owner) err)"

section \<open>Balances\<close>

definition unlimitedSentinel :: rat where "unlimitedSentinel = 100000000"

definition is_unlimited :: "QuotaPlanWithBalance \<Rightarrow> bool" where
  "is_unlimited p \<longleftrightarrow> sq_Unlimited p = Some True"

definition fillQuotaBalance :: "QuotaPlanWithBalance option \<Rightarrow> rat \<Rightarrow> QuotaPlanWithBalance option" where
  "fillQuotaBalance plan remaining =
     (case plan of None \<Rightarrow> None
      | Some p \<Rightarrow> (case sq_Quota p of None \<Rightarrow> Some p
          | Some q \<Rightarrow>
              let r = (if remaining < 0 then 0 else remaining); used = (if q - r < 0 then 0 else q - r)
              in Some (p\<lparr>sq_Balance := Some \<lparr>bs_Used = Some used, bs_Remaining = Some r\<rparr>\<rparr>)))"

definition fillUnlimitedQuotaBalance :: "QuotaPlanWithBalance option \<Rightarrow> QuotaPlanWithBalance option" where
  "fillUnlimitedQuotaBalance plan =
     map_option (\<lambda>p. p\<lparr>sq_Balance := Some \<lparr>bs_Used = Some 0, bs_Remaining = Some unlimitedSentinel\<rparr>\<rparr>) plan"

text \<open>The balance of one owner; an error of the cache is only logged and leaves the plan as it is.\<close>

definition populateQuotaBalance ::
  "owner_deps \<Rightarrow> string option \<Rightarrow> QuotaPlanWithBalance option \<Rightarrow> (owner_world, QuotaPlanWithBalance option) state" where
  "populateQuotaBalance dp key plan =
     (case (plan, key) of
        (Some p, Some k) \<Rightarrow>
          if \<not> qc_quotaCache dp \<or> sq_Quota p = None then State_Monad.return plan
          else if is_unlimited p then State_Monad.return (fillUnlimitedQuotaBalance plan)
          else State_Monad.bind (in_quota (GetRemaining (qdeps dp) k (sq_Unit p))) (\<lambda>r. case r of
              Inl _ \<Rightarrow> State_Monad.return plan
            | Inr remaining \<Rightarrow> State_Monad.return (fillQuotaBalance plan remaining))
      | _ \<Rightarrow> State_Monad.return plan)"

text \<open>
  The balances of a list: one read of Redis per unit. The owners are given by their key and plan; \<open>units\<close> is the order in
  which the range over the map of groups visits them. An error ends the loop.
\<close>

definition unit_of :: "QuotaPlanWithBalance \<Rightarrow> string" where
  "unit_of p = opt_string (sq_Unit p)"

definition in_group :: "string \<Rightarrow> string option \<times> QuotaPlanWithBalance option \<Rightarrow> bool" where
  "in_group u e = (case e of
       (Some k, Some p) \<Rightarrow> sq_Quota p \<noteq> None \<and> \<not> is_unlimited p \<and> unit_of p = u
     | _ \<Rightarrow> False)"

fun fill_groups ::
  "owner_deps \<Rightarrow> string list \<Rightarrow> (string option \<times> QuotaPlanWithBalance option) list \<Rightarrow>
   (owner_world, (string option \<times> QuotaPlanWithBalance option) list) state" where
  "fill_groups dp [] es = State_Monad.return es"
| "fill_groups dp (u # us) es =
     State_Monad.bind (in_quota (BatchGetRemaining (qdeps dp) (map (the \<circ> fst) (filter (in_group u) es))
         (if u \<noteq> [] then Some u else None))) (\<lambda>r. case r of
        Inl _ \<Rightarrow> State_Monad.return es
      | Inr res \<Rightarrow> fill_groups dp us (map (\<lambda>e. if in_group u e
            then (fst e, fillQuotaBalance (snd e) (case map_of (rev res) (the (fst e)) of None \<Rightarrow> 0 | Some v \<Rightarrow> v)) else e) es))"

definition populateQuotaBalances ::
  "owner_deps \<Rightarrow> string list \<Rightarrow> (string option \<times> QuotaPlanWithBalance option) list \<Rightarrow>
   (owner_world, (string option \<times> QuotaPlanWithBalance option) list) state" where
  "populateQuotaBalances dp units es =
     (if \<not> qc_quotaCache dp then State_Monad.return es
      else fill_groups dp units (map (\<lambda>e. case e of
          (Some k, Some p) \<Rightarrow> if sq_Quota p \<noteq> None \<and> is_unlimited p then (fst e, fillUnlimitedQuotaBalance (snd e)) else e
        | _ \<Rightarrow> e) es))"

end
