(* ===== verification/EntityManager.thy ===== *)
theory EntityManager
  imports OwnerNested
begin

text \<open>
  Entity types and entities (\<^verbatim>\<open>model/entity/entity_type_manager.go\<close>, \<^verbatim>\<open>entity_manager.go\<close>, \<^verbatim>\<open>operation_log.go\<close>).
  Entities form a tree by their parent ids; the type of a child must have a higher level than that of its parent.
  An entity owns a quota plan, a rate limit policy and route rules, written in the transaction of the
  entity itself.
\<close>

section \<open>Operation log\<close>

definition str_field :: "string \<Rightarrow> string option \<Rightarrow> owner_map" where
  "str_field k v = (case v of None \<Rightarrow> [] | Some s \<Rightarrow> [(k, OvStr s)])"

definition entityTypeParamToMap :: "EntityTypeParam option \<Rightarrow> owner_map option" where
  "entityTypeParamToMap param = map_option (\<lambda>p.
     str_field ''type_name'' (kt_TypeName p) @ str_field ''description'' (kt_Description p) @
     (case kt_Level p of None \<Rightarrow> [] | Some v \<Rightarrow> [(''level'', OvInt v)])) param"

definition recordEntityTypeOperation ::
  "owner_deps \<Rightarrow> string \<Rightarrow> EntityTypeParam option \<Rightarrow> owner_map option \<Rightarrow> owner_map option \<Rightarrow> error option \<Rightarrow> unit owner" where
  "recordEntityTypeOperation dp action param before after err =
     (case param of None \<Rightarrow> returnE ()
      | Some p \<Rightarrow> owner_log dp \<lparr>ol_Action = action, ol_ResourceType = ''entity_type'',
          ol_ResourceID = opt_string (kt_TypeName p),
          ol_ResourceName = (if nonempty_opt (kt_Description p) then the (kt_Description p) else opt_string (kt_TypeName p)),
          ol_ResourceParentID = [], ol_Before = before, ol_After = after, ol_Error = err\<rparr>)"

definition entityParamToMap :: "EntityParam option \<Rightarrow> owner_map option" where
  "entityParamToMap param = map_option (\<lambda>p.
     str_field ''name'' (ke_Name p) @ str_field ''description'' (ke_Description p) @ str_field ''type'' (ke_Type p) @
     str_field ''parent_id'' (ke_ParentID p) @ str_field ''entity_id'' (ke_EntityID p) @
     (if ke_AllowModels p \<noteq> [] then [(''allow_models'', OvStrs (ke_AllowModels p))] else []) @
     (if ke_BlockModels p \<noteq> [] then [(''block_models'', OvStrs (ke_BlockModels p))] else [])) param"

definition recordEntityOperation ::
  "owner_deps \<Rightarrow> string \<Rightarrow> string \<times> string \<times> string \<Rightarrow> owner_map option \<Rightarrow> owner_map option \<Rightarrow> error option \<Rightarrow> unit owner" where
  "recordEntityOperation dp action ident before after err = (case ident of (entityID, entityName, parentID) \<Rightarrow>
     owner_log dp \<lparr>ol_Action = action, ol_ResourceType = ''entity'', ol_ResourceID = entityID,
       ol_ResourceName = entityName, ol_ResourceParentID = parentID, ol_Before = before, ol_After = after,
       ol_Error = err\<rparr>)"

definition entityParamIdentifiers :: "EntityParam option \<Rightarrow> string \<times> string \<times> string" where
  "entityParamIdentifiers param = (case param of None \<Rightarrow> ([], [], [])
     | Some p \<Rightarrow> (opt_string (ke_EntityID p), opt_string (ke_Name p), opt_string (ke_ParentID p)))"

definition resolveEntityIdentifiers ::
  "EntityFilter option \<Rightarrow> EntityParam \<Rightarrow> EntityParam option \<Rightarrow> string \<times> string \<times> string" where
  "resolveEntityIdentifiers f param old =
     (let (pID, pName, pParent) = entityParamIdentifiers (Some param) in
      case old of
        Some _ \<Rightarrow> (case entityParamIdentifiers old of (a, b, c) \<Rightarrow> (a, b, if c = [] then pParent else c))
      | None \<Rightarrow>
          let fID = (case f of None \<Rightarrow> [] | Some q \<Rightarrow> opt_string (ef_EntityID q))
          in (if fID = [] then pID else fID, pName, pParent))"

section \<open>Entity types\<close>

definition type_named :: "string \<Rightarrow> EntityTypeFilter" where
  "type_named t = no_type_filter\<lparr>ff_TypeName := Some t\<rparr>"

definition CreateEntityType :: "owner_deps \<Rightarrow> EntityTypeParam \<Rightarrow> int owner" where
  "CreateEntityType dp param =
     (let record = recordEntityTypeOperation dp ''create'' (Some param) None (entityTypeParamToMap (Some param))
      in State_Monad.bind
           (if \<not> nonempty_opt (kt_TypeName param) then throwE (ErrParam ''type_name is required'')
            else bindE (storage_FetchEntityType (Some (no_type_filter\<lparr>ff_TypeName := kt_TypeName param\<rparr>))) (\<lambda>existing.
              if existing \<noteq> None then throwE (ErrExisted ''Entity-Type'')
              else storage_CreateEntityType dp param))
           (\<lambda>r. case r of
              Inl err \<Rightarrow> bindE (record (Some err)) (\<lambda>_. throwE err)
            | Inr i \<Rightarrow> bindE (record None) (\<lambda>_. returnE i)))"

definition UpdateEntityType :: "owner_deps \<Rightarrow> EntityTypeFilter option \<Rightarrow> EntityTypeParam \<Rightarrow> nat owner" where
  "UpdateEntityType dp f param =
     (let after = entityTypeParamToMap (Some param) in
      State_Monad.bind (storage_FetchEntityType f) (\<lambda>r.
        case (case r of Inr None \<Rightarrow> Inl (ErrRecordNotExist ''Entity-Type'') | Inr (Some t) \<Rightarrow> Inr t | Inl e \<Rightarrow> Inl e) of
          Inl err \<Rightarrow> bindE (recordEntityTypeOperation dp ''update'' (Some param) after None (Some err)) (\<lambda>_. throwE err)
        | Inr old \<Rightarrow>
            State_Monad.bind (storage_UpdateEntityType dp f param) (\<lambda>u.
              let record = recordEntityTypeOperation dp ''update'' (Some old) (entityTypeParamToMap (Some old)) after
              in case u of
                   Inl err \<Rightarrow> bindE (record (Some err)) (\<lambda>_. throwE err)
                 | Inr affected \<Rightarrow> bindE (record None) (\<lambda>_. returnE affected))))"

definition DeleteEntityType :: "owner_deps \<Rightarrow> EntityTypeFilter option \<Rightarrow> unit owner" where
  "DeleteEntityType dp f =
     (let fallback = \<lparr>kt_ID = None, kt_TypeName = (case f of None \<Rightarrow> None | Some q \<Rightarrow> ff_TypeName q),
                      kt_Description = None, kt_Level = None, kt_CreateTime = None\<rparr> in
      State_Monad.bind (storage_FetchEntityType f) (\<lambda>r.
        case (case r of Inr None \<Rightarrow> Inl (ErrRecordNotExist ''Entity-Type'') | Inr (Some t) \<Rightarrow> Inr t | Inl e \<Rightarrow> Inl e) of
          Inl err \<Rightarrow> bindE (recordEntityTypeOperation dp ''delete'' (Some fallback)
                        (entityTypeParamToMap (Some fallback)) None (Some err)) (\<lambda>_. throwE err)
        | Inr old \<Rightarrow>
            State_Monad.bind (storage_DeleteEntityType dp f) (\<lambda>u.
              let record = recordEntityTypeOperation dp ''delete'' (Some old) (entityTypeParamToMap (Some old)) None
              in case u of
                   Inl err \<Rightarrow> bindE (record (Some err)) (\<lambda>_. throwE err)
                 | Inr _ \<Rightarrow> record None)))"

section \<open>The level of an entity\<close>

definition entity_by_id :: "string option \<Rightarrow> EntityFilter option" where
  "entity_by_id i = Some (no_entity_filter\<lparr>ef_EntityID := i\<rparr>)"

definition checkEntityLevel :: "owner_deps \<Rightarrow> string \<Rightarrow> string \<Rightarrow> unit owner" where
  "checkEntityLevel dp entityType parentID =
     (if \<not> oc_entityTypeStorager dp then returnE ()
      else bindE (storage_FetchEntityType (Some (type_named entityType))) (\<lambda>ti.
        case Option.bind ti kt_Level of
          None \<Rightarrow> throwE (ErrParam (if ti = None then ''entity type not found'' else ''entity type level not set''))
        | Some level \<Rightarrow>
            bindE (storage_FetchEntity dp (entity_by_id (Some parentID))) (\<lambda>parent.
              case Option.bind parent ke_Type of
                None \<Rightarrow> throwE (ErrParam (if parent = None then ''parent entity not found'' else ''parent entity type not set''))
              | Some pt \<Rightarrow>
                  bindE (storage_FetchEntityType (Some (type_named pt))) (\<lambda>pti.
                    case Option.bind pti kt_Level of
                      None \<Rightarrow> throwE (ErrParam (if pti = None then ''parent entity type not found'' else ''parent entity type level not set''))
                    | Some parentLevel \<Rightarrow>
                        if level \<le> parentLevel
                        then throwE (ErrParam ''entity type level must be higher than parent entity type level'')
                        else returnE ()))))"

section \<open>Creating an entity\<close>

definition create_entity_checks :: "owner_deps \<Rightarrow> EntityParam \<Rightarrow> unit owner" where
  "create_entity_checks dp param =
     bindE (case ke_Type param of
         Some t \<Rightarrow>
           if oc_entityTypeStorager dp
           then bindE (storage_FetchEntityType (Some (type_named t))) (\<lambda>ti.
                  if ti = None then throwE (ErrParam ''entity type not found'') else returnE ())
           else returnE ()
       | None \<Rightarrow> returnE ()) (\<lambda>_.
     bindE (if nonempty_opt (ke_Name param)
            then bindE (storage_FetchEntity dp (Some (no_entity_filter\<lparr>ef_Name := ke_Name param\<rparr>))) (\<lambda>existing.
                   if existing \<noteq> None then throwE (ErrExisted ''Entity'') else returnE ())
            else returnE ()) (\<lambda>_.
       case (ke_Type param, ke_ParentID param) of
         (Some t, Some p) \<Rightarrow> if p \<noteq> [] \<and> oc_entityTypeStorager dp then checkEntityLevel dp t p else returnE ()
       | _ \<Rightarrow> returnE ()))"

definition CreateEntity_txn :: "owner_deps \<Rightarrow> EntityParam \<Rightarrow> int owner" where
  "CreateEntity_txn dp param =
     bindE (create_plan dp (ke_QuotaPlan param)) (\<lambda>p.
     bindE (create_policy dp (ke_RateLimitPolicy param)) (\<lambda>l.
     bindE (create_rules dp ''entity'' (ke_EntityID param) (ke_RouteRules param)) (\<lambda>r.
       storage_CreateEntity dp (param\<lparr>ke_QuotaPlanID := set_null p (ke_QuotaPlanID param),
         ke_RateLimitPolicyID := set_null l (ke_RateLimitPolicyID param),
         ke_RouteRulesID := set_null r (ke_RouteRulesID param)\<rparr>))))"

definition sync_entity_quota :: "owner_deps \<Rightarrow> EntityParam \<Rightarrow> unit owner" where
  "sync_entity_quota dp param =
     (case (ke_EntityID param, ke_QuotaPlan param) of
        (Some e, Some p) \<Rightarrow>
          if \<not> qc_quotaCache dp then returnE ()
          else if is_unlimited p
            then ignoreE (in_quota (SetRemaining (qdeps dp) e (Some unlimitedSentinel) (sq_Unit p)))
          else if sq_Quota p \<noteq> None
            then ignoreE (in_quota (SetRemaining (qdeps dp) e (sq_Quota p) (sq_Unit p)))
          else returnE ()
      | _ \<Rightarrow> returnE ())"

definition log_create_entity :: "owner_deps \<Rightarrow> EntityParam \<Rightarrow> error option \<Rightarrow> unit owner" where
  "log_create_entity dp param err =
     recordEntityOperation dp ''create'' (entityParamIdentifiers (Some param)) None (entityParamToMap (Some param)) err"

definition audit_create_entity :: "owner_deps \<Rightarrow> EntityParam \<Rightarrow> int \<Rightarrow> int \<Rightarrow> error option \<Rightarrow> unit owner" where
  "audit_create_entity dp param planID policyID err =
     bindE (log_create_entity dp param err) (\<lambda>_.
     bindE (audit_plan_create dp (ke_QuotaPlan param) (ke_EntityID param) planID err) (\<lambda>_.
       audit_policy_create dp (ke_RateLimitPolicy param) (ke_EntityID param) policyID err))"

definition CreateEntity :: "owner_deps \<Rightarrow> EntityParam \<Rightarrow> int owner" where
  "CreateEntity dp param =
     State_Monad.bind (bindE (set_vars (\<lambda>_. no_vars)) (\<lambda>_. create_entity_checks dp param)) (\<lambda>c. case c of
         Inl err \<Rightarrow> bindE (log_create_entity dp param (Some err)) (\<lambda>_. throwE err)
       | Inr _ \<Rightarrow>
           State_Monad.bind (owner_AtomExecute (CreateEntity_txn dp param)) (\<lambda>r. case r of
               Inl err \<Rightarrow> bindE (audit_create_entity dp param 0 0 (Some err)) (\<lambda>_. throwE err)
             | Inr i \<Rightarrow>
                 bindE (sync_entity_quota dp param) (\<lambda>_.
                 bindE (getsE o_vars) (\<lambda>v.
                 bindE (audit_create_entity dp param (ov_planID v) (ov_policyID v) None) (\<lambda>_. returnE i)))))"

section \<open>Changing an entity\<close>

definition update_entity_checks ::
  "owner_deps \<Rightarrow> EntityParam \<Rightarrow> error + EntityParam list \<Rightarrow> unit owner" where
  "update_entity_checks dp param fetched =
     (let old = (case fetched of Inr (x # _) \<Rightarrow> Some x | _ \<Rightarrow> None) in
      if ke_Type param \<noteq> None \<and> Option.bind old ke_Type \<noteq> None \<and> ke_Type param \<noteq> Option.bind old ke_Type
      then throwE (ErrParam ''type is immutable'')
      else if nonempty_opt (ke_ParentID param) \<and> oc_entityTypeStorager dp
      then (case ke_Type param of
              Some t \<Rightarrow> checkEntityLevel dp t (the (ke_ParentID param))
            | None \<Rightarrow> (case fetched of
                Inl err \<Rightarrow> throwE err
              | Inr [] \<Rightarrow> throwE (ErrRecordNotExist ''Entity'')
              | Inr (x # _) \<Rightarrow> (case ke_Type x of
                  None \<Rightarrow> returnE ()
                | Some t \<Rightarrow> checkEntityLevel dp t (the (ke_ParentID param)))))
      else returnE ())"

definition UpdateEntity_txn :: "owner_deps \<Rightarrow> EntityFilter option \<Rightarrow> EntityParam \<Rightarrow> nat owner" where
  "UpdateEntity_txn dp f param =
     bindE (storage_FetchEntityList dp f) (\<lambda>list. case list of
         [] \<Rightarrow> throwE (ErrRecordNotExist ''Entity'')
       | one # _ \<Rightarrow>
           bindE (set_vars (\<lambda>v. v\<lparr>ov_entity := Some one\<rparr>)) (\<lambda>_.
           bindE (change_plan dp (ke_QuotaPlanID one) (ke_QuotaPlan param)) (\<lambda>p.
           bindE (change_policy dp (ke_RateLimitPolicyID one) (ke_RateLimitPolicy param)) (\<lambda>l.
           bindE (change_rules dp ''entity'' (ke_EntityID one) (ke_RouteRulesID one) (ke_RouteRules param)) (\<lambda>r.
             storage_UpdateEntity dp (entity_by_id (ke_EntityID one))
               (param\<lparr>ke_QuotaPlanID := set_null p (ke_QuotaPlanID param),
                 ke_RateLimitPolicyID := set_null l (ke_RateLimitPolicyID param),
                 ke_RouteRulesID := set_null r (ke_RouteRulesID param)\<rparr>))))))"

definition audit_update_entity ::
  "owner_deps \<Rightarrow> EntityParam \<Rightarrow> owner_vars \<Rightarrow> int \<Rightarrow> int \<Rightarrow> error option \<Rightarrow> unit owner" where
  "audit_update_entity dp param v planID policyID err =
     (let old = ov_entity v; owner = Option.bind old ke_EntityID in
      bindE (recordEntityOperation dp ''update''
               (if old = None \<and> err \<noteq> None then entityParamIdentifiers (Some param) else entityParamIdentifiers old)
               (entityParamToMap old) (entityParamToMap (Some param)) err) (\<lambda>_.
      bindE (audit_plan_change dp (ke_QuotaPlan param) owner (Option.bind old ke_QuotaPlanID) planID (ov_quotaPlan v) err) (\<lambda>_.
        audit_policy_change dp (ke_RateLimitPolicy param) owner (Option.bind old ke_RateLimitPolicyID) policyID (ov_policy v) err)))"

definition UpdateEntity :: "owner_deps \<Rightarrow> EntityFilter option \<Rightarrow> EntityParam \<Rightarrow> nat owner" where
  "UpdateEntity dp f param =
     bindE (set_vars (\<lambda>_. no_vars)) (\<lambda>_.
     State_Monad.bind (storage_FetchEntityList dp f) (\<lambda>fetched.
       let old = (case fetched of Inr (x # _) \<Rightarrow> Some x | _ \<Rightarrow> None) in
       bindE (set_vars (\<lambda>v. v\<lparr>ov_entity := old\<rparr>)) (\<lambda>_.
       bindE (case (ke_QuotaPlan param, Option.bind old ke_QuotaPlanID) of
            (Some _, Some i) \<Rightarrow> if oc_quotaPlanStorager dp then soft_fetch_plan dp i else returnE ()
          | _ \<Rightarrow> returnE ()) (\<lambda>_.
       State_Monad.bind (update_entity_checks dp param fetched) (\<lambda>c. case c of
           Inl err \<Rightarrow>
             bindE (recordEntityOperation dp ''update'' (resolveEntityIdentifiers f param old)
                      (entityParamToMap old) (entityParamToMap (Some param)) (Some err)) (\<lambda>_. throwE err)
         | Inr _ \<Rightarrow>
             State_Monad.bind (owner_AtomExecute (UpdateEntity_txn dp f param)) (\<lambda>r. bindE (getsE o_vars) (\<lambda>v.
               case r of
                 Inl err \<Rightarrow> bindE (audit_update_entity dp param v 0 0 (Some err)) (\<lambda>_. throwE err)
               | Inr affected \<Rightarrow>
                   bindE (if ov_limitKeys v \<noteq> [] then cleanupRedisKeys dp [] (ov_limitKeys v) else returnE ()) (\<lambda>_.
                   bindE (audit_update_entity dp param v (ov_planID v) (ov_policyID v) None) (\<lambda>_.
                     returnE affected)))))))))"

section \<open>Deleting an entity\<close>

definition DeleteEntity_txn :: "owner_deps \<Rightarrow> EntityFilter option \<Rightarrow> unit owner" where
  "DeleteEntity_txn dp f =
     bindE (storage_FetchEntityList dp f) (\<lambda>list. case list of
         [] \<Rightarrow> throwE (ErrRecordNotExist ''Entity'')
       | one # _ \<Rightarrow>
           bindE (set_vars (\<lambda>v. v\<lparr>ov_entity := Some one, ov_quotaKey := opt_string (ke_EntityID one)\<rparr>)) (\<lambda>_.
           bindE (read_nested dp (ke_QuotaPlanID one) (ke_RateLimitPolicyID one)) (\<lambda>_.
           bindE (storage_FetchEntityList dp (Some (no_entity_filter\<lparr>ef_ParentID := ke_EntityID one\<rparr>))) (\<lambda>children.
             if children \<noteq> [] then throwE (ErrConflict ''cannot delete entity with children'')
             else bindE (delete_nested dp (ke_QuotaPlanID one) (ke_RateLimitPolicyID one) (ke_RouteRulesID one)) (\<lambda>_.
               storage_DeleteEntity dp f)))))"

definition audit_delete_entity :: "owner_deps \<Rightarrow> owner_vars \<Rightarrow> error option \<Rightarrow> unit owner" where
  "audit_delete_entity dp v err =
     (let old = ov_entity v; owner = Option.bind old ke_EntityID in
      bindE (recordEntityOperation dp ''delete'' (entityParamIdentifiers old) (entityParamToMap old) None err) (\<lambda>_.
      bindE (audit_plan_delete dp owner (Option.bind old ke_QuotaPlanID) (ov_quotaPlan v) err) (\<lambda>_.
        audit_policy_delete dp owner (Option.bind old ke_RateLimitPolicyID) (ov_policy v) err)))"

definition DeleteEntity :: "owner_deps \<Rightarrow> EntityFilter option \<Rightarrow> unit owner" where
  "DeleteEntity dp f =
     bindE (set_vars (\<lambda>_. no_vars)) (\<lambda>_.
     State_Monad.bind (owner_AtomExecute (DeleteEntity_txn dp f)) (\<lambda>r. bindE (getsE o_vars) (\<lambda>v.
       case r of
         Inl err \<Rightarrow> bindE (audit_delete_entity dp v (Some err)) (\<lambda>_. throwE err)
       | Inr _ \<Rightarrow>
           bindE (cleanupRedisKeys dp (ov_quotaKey v) (ov_limitKeys v)) (\<lambda>_. audit_delete_entity dp v None))))"

section \<open>Reading entities\<close>

definition empty_plan :: QuotaPlanWithBalance where
  "empty_plan = \<lparr>sq_Unlimited = None, sq_PassWhenNoEnoughQuota = None, sq_Quota = None, sq_Unit = None,
     sq_ResetPeriod = None, sq_LastResetAt = None, sq_Balance = None\<rparr>"

definition with_balance :: "SharedQuotaPlanParam \<Rightarrow> QuotaPlanWithBalance" where
  "with_balance p = SharedQuotaPlanParam.extend p (QuotaPlanWithBalance.fields None)"

definition default_rules :: "RouteRulesParam option \<Rightarrow> RouteRulesParam" where
  "default_rules r = (case r of None \<Rightarrow> \<lparr>rs_ID = None, rs_Enabled = Some False, rs_Rules = []\<rparr>
     | Some x \<Rightarrow> if rs_Enabled x = None then x\<lparr>rs_Enabled := Some False\<rparr> else x)"

text \<open>A plan or policy that is gone is read as nil; route rules that are gone keep the default.\<close>

definition populateAssociatedData :: "owner_deps \<Rightarrow> EntityParam \<Rightarrow> EntityParam owner" where
  "populateAssociatedData dp one =
     bindE (case ke_QuotaPlanID one of
         Some i \<Rightarrow> if oc_quotaPlanStorager dp
                   then bindE (in_quota (adapter_FetchQuotaPlan i)) (\<lambda>p. returnE (map_option with_balance p))
                   else returnE (Some (case ke_QuotaPlan one of None \<Rightarrow> empty_plan | Some p \<Rightarrow> p))
       | None \<Rightarrow> returnE (Some (case ke_QuotaPlan one of None \<Rightarrow> empty_plan | Some p \<Rightarrow> p))) (\<lambda>plan.
     bindE (case ke_RateLimitPolicyID one of
         Some i \<Rightarrow> if oc_rateLimitPolicyStorager dp then adapter_FetchRateLimitPolicy dp i
                   else returnE (Some (case ke_RateLimitPolicy one of None \<Rightarrow> \<lparr>sr_Enabled = None, sr_Rules = None\<rparr> | Some p \<Rightarrow> p))
       | None \<Rightarrow> returnE (Some (case ke_RateLimitPolicy one of None \<Rightarrow> \<lparr>sr_Enabled = None, sr_Rules = None\<rparr> | Some p \<Rightarrow> p))) (\<lambda>policy.
     bindE (case ke_RouteRulesID one of
         Some i \<Rightarrow> if oc_routeRulesStorager dp then storage_FetchRouteRulesByID dp i else returnE None
       | None \<Rightarrow> returnE None) (\<lambda>rules.
       returnE (one\<lparr>ke_QuotaPlan := plan, ke_RateLimitPolicy := policy,
         ke_RouteRules := Some (case rules of Some r \<Rightarrow> r | None \<Rightarrow> default_rules (ke_RouteRules one))\<rparr>))))"

fun for_all :: "('a \<Rightarrow> 'b owner) \<Rightarrow> 'a list \<Rightarrow> 'b list owner" where
  "for_all f [] = returnE []"
| "for_all f (x # xs) = bindE (f x) (\<lambda>y. bindE (for_all f xs) (\<lambda>ys. returnE (y # ys)))"

definition FetchEntity :: "owner_deps \<Rightarrow> EntityFilter option \<Rightarrow> EntityParam option owner" where
  "FetchEntity dp f =
     bindE (owner_AtomExecute (bindE (storage_FetchEntity dp f) (\<lambda>one. case one of
         None \<Rightarrow> returnE None
       | Some e \<Rightarrow> bindE (populateAssociatedData dp e) (\<lambda>e'. returnE (Some e'))))) (\<lambda>one. case one of
         None \<Rightarrow> returnE None
       | Some e \<Rightarrow> State_Monad.bind (populateQuotaBalance dp (ke_EntityID e) (ke_QuotaPlan e)) (\<lambda>plan.
           returnE (Some (e\<lparr>ke_QuotaPlan := plan\<rparr>))))"

definition manager_FetchEntityList :: "owner_deps \<Rightarrow> string list \<Rightarrow> EntityFilter option \<Rightarrow> EntityParam list owner" where
  "manager_FetchEntityList dp units f =
     bindE (owner_AtomExecute (bindE (storage_FetchEntityList dp f) (for_all (populateAssociatedData dp)))) (\<lambda>list.
       State_Monad.bind (populateQuotaBalances dp units (map (\<lambda>e. (ke_EntityID e, ke_QuotaPlan e)) list)) (\<lambda>es.
         returnE (map (\<lambda>(e, x). e\<lparr>ke_QuotaPlan := snd x\<rparr>) (zip list es))))"

definition entity_summary :: "EntityParam \<Rightarrow> EntitySummary" where
  "entity_summary e = \<lparr>es_ID = ke_EntityID e, es_Name = ke_Name e, es_Type = ke_Type e\<rparr>"

definition FetchEntitySummary :: "owner_deps \<Rightarrow> string \<Rightarrow> EntitySummary option owner" where
  "FetchEntitySummary dp i =
     bindE (FetchEntity dp (entity_by_id (Some i))) (\<lambda>e. returnE (map_option entity_summary e))"

text \<open>The adapter through which API keys look an entity up; they only pass the id of a filter.\<close>

definition adapter_FetchEntity :: "owner_deps \<Rightarrow> string option \<Rightarrow> EntitySummary option owner" where
  "adapter_FetchEntity dp i =
     bindE (storage_FetchEntity dp (entity_by_id i)) (\<lambda>e. returnE (map_option entity_summary e))"

end
