(* ===== verification/ApiKeyManager.thy ===== *)
theory ApiKeyManager
  imports EntityManager
begin

text \<open>
  API keys (\<^verbatim>\<open>model/api_key/api_key.go\<close>, \<^verbatim>\<open>api_key_operation_log.go\<close>): creating, changing, deleting and reading
  keys with their quota plan, rate limit policy and route rules. The value of a key is stored encrypted and looked up by
  its hash; Redis keeps the balance under the value itself.
\<close>

section \<open>Operation log\<close>

text \<open>
  \<^verbatim>\<open>ioperlog.ParamToMap\<close>: the JSON object of the parameter, represented by the parameter without the fields that JSON
  leaves out.
\<close>

definition json_fields :: "APIKeyParam \<Rightarrow> APIKeyParam" where
  "json_fields p = p\<lparr>ka_KeyCreateAt := None, ka_QuotaPlanID := None, ka_RateLimitPolicyID := None,
     ka_RouteRulesID := None, ka_ProductName := None, ka_InnerID := None\<rparr>"

definition apiKeyParamToMap :: "APIKeyParam option \<Rightarrow> owner_map option" where
  "apiKeyParamToMap param = map_option (\<lambda>p. [(''param'', OvKey (json_fields p))]) param"

definition recordAPIKeyOperation ::
  "owner_deps \<Rightarrow> string \<Rightarrow> APIKeyParam option \<Rightarrow> owner_map option \<Rightarrow> owner_map option \<Rightarrow> error option \<Rightarrow> unit owner" where
  "recordAPIKeyOperation dp action apiKey before after err =
     (case apiKey of None \<Rightarrow> returnE ()
      | Some k \<Rightarrow> owner_log dp \<lparr>ol_Action = action, ol_ResourceType = ''api_key'', ol_ResourceID = opt_string (ka_ID k),
          ol_ResourceName = (if nonempty_opt (ka_Description k) then the (ka_Description k) else opt_string (ka_ID k)),
          ol_ResourceParentID = opt_string (ka_EntityID k), ol_Before = before, ol_After = after, ol_Error = err\<rparr>)"

section \<open>Deleting a key\<close>

definition DeleteAPIKey_txn :: "owner_deps \<Rightarrow> APIKeyFilter option \<Rightarrow> unit owner" where
  "DeleteAPIKey_txn dp f =
     bindE (storage_FetchAPIKeyList dp f) (\<lambda>list. case list of
         [] \<Rightarrow> throwE (ErrRecordNotExist ''APIKey'')
       | one # _ \<Rightarrow>
           bindE (set_vars (\<lambda>v. v\<lparr>ov_apiKey := Some one, ov_quotaKey := opt_string (ka_Key one)\<rparr>)) (\<lambda>_.
           bindE (read_nested dp (ka_QuotaPlanID one) (ka_RateLimitPolicyID one)) (\<lambda>_.
           bindE (delete_nested dp (ka_QuotaPlanID one) (ka_RateLimitPolicyID one) (ka_RouteRulesID one)) (\<lambda>_.
             storage_DeleteAPIKey dp f))))"

text \<open>The old key is passed as the state after the deletion.\<close>

definition audit_delete_key :: "owner_deps \<Rightarrow> owner_vars \<Rightarrow> error option \<Rightarrow> unit owner" where
  "audit_delete_key dp v err =
     (let old = ov_apiKey v; owner = Option.bind old ka_ID in
      bindE (recordAPIKeyOperation dp ''delete'' old None (apiKeyParamToMap old) err) (\<lambda>_.
      bindE (audit_plan_delete dp owner (Option.bind old ka_QuotaPlanID) (ov_quotaPlan v) err) (\<lambda>_.
        audit_policy_delete dp owner (Option.bind old ka_RateLimitPolicyID) (ov_policy v) err)))"

definition DeleteAPIKey :: "owner_deps \<Rightarrow> APIKeyFilter option \<Rightarrow> unit owner" where
  "DeleteAPIKey dp f =
     bindE (set_vars (\<lambda>_. no_vars)) (\<lambda>_.
     State_Monad.bind (owner_AtomExecute (DeleteAPIKey_txn dp f)) (\<lambda>r. bindE (getsE o_vars) (\<lambda>v.
       case r of
         Inl err \<Rightarrow> bindE (audit_delete_key dp v (Some err)) (\<lambda>_. throwE err)
       | Inr _ \<Rightarrow>
           bindE (cleanupRedisKeys dp (ov_quotaKey v) (ov_limitKeys v)) (\<lambda>_. audit_delete_key dp v None))))"

section \<open>Changing a key\<close>

definition entity_must_exist :: "owner_deps \<Rightarrow> string option \<Rightarrow> unit owner" where
  "entity_must_exist dp i =
     (if nonempty_opt i \<and> qc_entityStorager dp
      then bindE (adapter_FetchEntity dp i) (\<lambda>e. if e = None then throwE (ErrParam ''Entity not found'') else returnE ())
      else returnE ())"

definition UpdateAPIKey_txn :: "owner_deps \<Rightarrow> APIKeyFilter option \<Rightarrow> APIKeyParam \<Rightarrow> unit owner" where
  "UpdateAPIKey_txn dp f param =
     bindE (storage_FetchAPIKeyList dp f) (\<lambda>list. case list of
         [] \<Rightarrow> throwE (ErrRecordNotExist ''API-Key'')
       | one # _ \<Rightarrow>
           bindE (set_vars (\<lambda>v. v\<lparr>ov_apiKey := Some one\<rparr>)) (\<lambda>_.
           bindE (entity_must_exist dp (ka_EntityID param)) (\<lambda>_.
           bindE (case (ka_QuotaPlan param, ka_QuotaPlanID one) of
               (Some _, Some i) \<Rightarrow> if oc_quotaPlanStorager dp then soft_fetch_plan dp i else returnE ()
             | _ \<Rightarrow> returnE ()) (\<lambda>_.
           bindE (change_plan dp (ka_QuotaPlanID one) (ka_QuotaPlan param)) (\<lambda>p.
           bindE (change_policy dp (ka_RateLimitPolicyID one) (ka_RateLimitPolicy param)) (\<lambda>l.
           bindE (change_rules dp ''apikey'' (ka_ID one) (ka_RouteRulesID one) (ka_RouteRules param)) (\<lambda>r.
             discard (storage_UpdateAPIKey dp (Some (no_key_filter\<lparr>kf_InnerID := ka_InnerID one\<rparr>))
               (param\<lparr>ka_Key := None, ka_QuotaPlanID := set_null p (ka_QuotaPlanID param),
                 ka_RateLimitPolicyID := set_null l (ka_RateLimitPolicyID param),
                 ka_RouteRulesID := set_null r (ka_RouteRulesID param)\<rparr>)))))))))"

text \<open>The log shows the parameter as the closure changed it: its value is cleared once a key was found.\<close>

definition audit_update_key ::
  "owner_deps \<Rightarrow> APIKeyParam \<Rightarrow> owner_vars \<Rightarrow> int \<Rightarrow> int \<Rightarrow> error option \<Rightarrow> unit owner" where
  "audit_update_key dp param v planID policyID err =
     (let old = ov_apiKey v; owner = Option.bind old ka_ID;
          param' = (if old = None then param else param\<lparr>ka_Key := None\<rparr>) in
      bindE (recordAPIKeyOperation dp ''update'' old (apiKeyParamToMap old) (apiKeyParamToMap (Some param')) err) (\<lambda>_.
      bindE (audit_plan_change dp (ka_QuotaPlan param) owner (Option.bind old ka_QuotaPlanID) planID (ov_quotaPlan v) err) (\<lambda>_.
        audit_policy_change dp (ka_RateLimitPolicy param) owner (Option.bind old ka_RateLimitPolicyID) policyID (ov_policy v) err)))"

definition UpdateAPIKey :: "owner_deps \<Rightarrow> APIKeyFilter option \<Rightarrow> APIKeyParam \<Rightarrow> unit owner" where
  "UpdateAPIKey dp f param =
     bindE (set_vars (\<lambda>_. no_vars)) (\<lambda>_.
     State_Monad.bind (owner_AtomExecute (UpdateAPIKey_txn dp f param)) (\<lambda>r. bindE (getsE o_vars) (\<lambda>v.
       case r of
         Inl err \<Rightarrow> bindE (audit_update_key dp param v 0 0 (Some err)) (\<lambda>_. throwE err)
       | Inr _ \<Rightarrow>
           bindE (if ov_limitKeys v \<noteq> [] then cleanupRedisKeys dp [] (ov_limitKeys v) else returnE ()) (\<lambda>_.
             audit_update_key dp param v (ov_planID v) (ov_policyID v) None))))"

section \<open>Creating a key\<close>

definition key_with_id :: "owner_deps \<Rightarrow> APIKeyParam \<Rightarrow> APIKeyParam" where
  "key_with_id dp param = (if nonempty_opt (ka_ID param) then param else param\<lparr>ka_ID := Some (oc_uuid dp)\<rparr>)"

text \<open>The checks on the value of a key; the result is the time of a token that is used again.\<close>

definition check_key_value :: "owner_deps \<Rightarrow> APIKeyParam \<Rightarrow> int option owner" where
  "check_key_value dp param =
     (if \<not> nonempty_opt (ka_Key param) then returnE None
      else bindE (storage_FetchAPIKeyTokenList (ka_Key param)) (\<lambda>tokens.
        if length tokens > 1 then throwE (ErrDirty ''API-Key-Token'')
        else bindE (storage_FetchAPIKeyList dp (Some (no_key_filter\<lparr>kf_Key := ka_Key param\<rparr>))) (\<lambda>existing.
          if existing \<noteq> [] then throwE (ErrParam ''API-Key value already exists'')
          else returnE (case tokens of [] \<Rightarrow> None | t # _ \<Rightarrow> map_option unix_seconds (kk_CreatedAt t)))))"

definition CreateAPIKey_txn :: "owner_deps \<Rightarrow> APIKeyParam \<Rightarrow> int owner" where
  "CreateAPIKey_txn dp param0 =
     (let param = key_with_id dp param0; note = (\<lambda>q. set_vars (\<lambda>v. v\<lparr>ov_param := Some q\<rparr>)) in
      bindE (note param) (\<lambda>_.
      bindE (storage_FetchAPIKeyList dp (Some (no_key_filter\<lparr>kf_ID := ka_ID param, kf_ProductName := ka_ProductName param\<rparr>))) (\<lambda>list.
       if list \<noteq> [] then throwE (if ka_ProductName param = None then ErrMsg ''nil pointer dereference''
                                else ErrParam ''Duplicate id with product'')
       else bindE (entity_must_exist dp (ka_EntityID param)) (\<lambda>_.
       bindE (getsE o_now) (\<lambda>now.
       bindE (note (param\<lparr>ka_UpdatedTime := Some (unix_seconds now)\<rparr>)) (\<lambda>_.
       bindE (check_key_value dp param) (\<lambda>t.
       let timed = param\<lparr>ka_UpdatedTime := set_null t (Some (unix_seconds now))\<rparr> in
       bindE (note timed) (\<lambda>_.
       bindE (create_plan dp (ka_QuotaPlan param)) (\<lambda>p.
       bindE (create_policy dp (ka_RateLimitPolicy param)) (\<lambda>l.
       bindE (create_rules dp ''apikey'' (ka_ID param) (ka_RouteRules param)) (\<lambda>r.
         storage_CreateAPIKey dp (timed\<lparr>ka_QuotaPlanID := set_null p (ka_QuotaPlanID param),
           ka_RateLimitPolicyID := set_null l (ka_RateLimitPolicyID param),
           ka_RouteRulesID := set_null r (ka_RouteRulesID param)\<rparr>))))))))))))"

definition sync_key_quota :: "owner_deps \<Rightarrow> APIKeyParam \<Rightarrow> unit owner" where
  "sync_key_quota dp param =
     (case (ka_Key param, ka_QuotaPlan param) of
        (Some k, Some p) \<Rightarrow>
          if \<not> is_unlimited p \<and> sq_Quota p \<noteq> None \<and> qc_quotaCache dp
          then ignoreE (in_quota (SetRemaining (qdeps dp) k (sq_Quota p) (sq_Unit p)))
          else returnE ()
      | _ \<Rightarrow> returnE ())"

definition audit_create_key :: "owner_deps \<Rightarrow> APIKeyParam \<Rightarrow> int \<Rightarrow> int \<Rightarrow> error option \<Rightarrow> unit owner" where
  "audit_create_key dp param planID policyID err =
     bindE (recordAPIKeyOperation dp ''create'' (Some param) None (apiKeyParamToMap (Some param)) err) (\<lambda>_.
     bindE (audit_plan_create dp (ka_QuotaPlan param) (ka_ID param) planID err) (\<lambda>_.
       audit_policy_create dp (ka_RateLimitPolicy param) (ka_ID param) policyID err))"

definition CreateAPIKey :: "owner_deps \<Rightarrow> APIKeyParam \<Rightarrow> unit owner" where
  "CreateAPIKey dp param =
     bindE (set_vars (\<lambda>_. no_vars\<lparr>ov_param := Some param\<rparr>)) (\<lambda>_.
     State_Monad.bind (owner_AtomExecute (CreateAPIKey_txn dp param)) (\<lambda>r. bindE (getsE o_vars) (\<lambda>v.
       let q = the (ov_param v) in
       case r of
         Inl err \<Rightarrow> bindE (audit_create_key dp q 0 0 (Some err)) (\<lambda>_. throwE err)
       | Inr _ \<Rightarrow>
           bindE (sync_key_quota dp q) (\<lambda>_. audit_create_key dp q (ov_planID v) (ov_policyID v) None))))"

definition CreateAPIKeyToken :: "owner_deps \<Rightarrow> APIKeyTokenParam \<Rightarrow> int owner" where
  "CreateAPIKeyToken dp param =
     owner_AtomExecute (bindE (storage_CreateAPIKeyToken dp param) (\<lambda>i.
       case kk_Key param of
         None \<Rightarrow> throwE (ErrMsg ''nil pointer dereference'')
       | Some k \<Rightarrow>
           bindE (storage_UpdateAPIKeyToken dp (Some i) \<lparr>kk_Key = Some (k @ ''-'' @ show_int i), kk_CreatedAt = None\<rparr>)
             (\<lambda>_. returnE i)))"

section \<open>Reading keys\<close>

definition GetRemainingQuota :: "owner_deps \<Rightarrow> APIKeyParam \<Rightarrow> rat option owner" where
  "GetRemainingQuota dp param =
     (if ka_UnlimitedQuota param = Some True then returnE None
      else case ka_QuotaPlan param of
        None \<Rightarrow> returnE None
      | Some p \<Rightarrow>
          if is_unlimited p \<or> sq_Quota p = None then returnE None
          else if \<not> qc_quotaCache dp then returnE (sq_Quota p)
          else case ka_Key param of
            None \<Rightarrow> throwE (ErrMsg ''nil pointer dereference'')
          | Some k \<Rightarrow>
              State_Monad.bind (in_quota (GetRemaining (qdeps dp) k (sq_Unit p))) (\<lambda>r. case r of
                  Inl _ \<Rightarrow> throwE (ErrMsg ''get from cache is error'')
                | Inr remain \<Rightarrow> returnE (Some (if remain < 0 then 0 else remain))))"

text \<open>In contrast to an entity, a plan or policy that is gone leaves an empty one.\<close>

definition populate_key :: "owner_deps \<Rightarrow> APIKeyParam \<Rightarrow> APIKeyParam owner" where
  "populate_key dp one =
     bindE (case ka_QuotaPlanID one of
         Some i \<Rightarrow> if oc_quotaPlanStorager dp then in_quota (adapter_FetchQuotaPlan i) else returnE None
       | None \<Rightarrow> returnE None) (\<lambda>plan.
     bindE (case ka_RateLimitPolicyID one of
         Some i \<Rightarrow> if oc_rateLimitPolicyStorager dp then adapter_FetchRateLimitPolicy dp i else returnE None
       | None \<Rightarrow> returnE None) (\<lambda>policy.
     bindE (case ka_RouteRulesID one of
         Some i \<Rightarrow> if oc_routeRulesStorager dp then storage_FetchRouteRulesByID dp i else returnE None
       | None \<Rightarrow> returnE None) (\<lambda>rules.
     bindE (if ka_EntityID one \<noteq> None \<and> qc_entityStorager dp then adapter_FetchEntity dp (ka_EntityID one)
            else returnE (ka_Entity one)) (\<lambda>e.
       returnE (one\<lparr>
         ka_QuotaPlan := Some (case plan of Some p \<Rightarrow> with_balance p
           | None \<Rightarrow> (case ka_QuotaPlan one of None \<Rightarrow> empty_plan | Some p \<Rightarrow> p)),
         ka_RateLimitPolicy := Some (case policy of Some p \<Rightarrow> p
           | None \<Rightarrow> (case ka_RateLimitPolicy one of None \<Rightarrow> \<lparr>sr_Enabled = None, sr_Rules = None\<rparr> | Some p \<Rightarrow> p)),
         ka_RouteRules := Some (case rules of Some r \<Rightarrow> r | None \<Rightarrow> default_rules (ka_RouteRules one)),
         ka_Entity := e\<rparr>)))))"

definition FetchAPIKey :: "owner_deps \<Rightarrow> APIKeyFilter option \<Rightarrow> APIKeyParam option owner" where
  "FetchAPIKey dp f =
     bindE (owner_AtomExecute (bindE (storage_FetchAPIKeyList dp f) (\<lambda>list. case list of
         [] \<Rightarrow> returnE None
       | one # _ \<Rightarrow> bindE (populate_key dp one) (\<lambda>k. returnE (Some k))))) (\<lambda>one. case one of
         None \<Rightarrow> returnE None
       | Some k \<Rightarrow> State_Monad.bind (populateQuotaBalance dp (ka_Key k) (ka_QuotaPlan k)) (\<lambda>plan.
           returnE (Some (k\<lparr>ka_QuotaPlan := plan\<rparr>))))"

definition manager_FetchAPIKeyList :: "owner_deps \<Rightarrow> string list \<Rightarrow> APIKeyFilter option \<Rightarrow> APIKeyParam list owner" where
  "manager_FetchAPIKeyList dp units f =
     bindE (owner_AtomExecute (bindE (storage_FetchAPIKeyList dp f) (for_all (populate_key dp)))) (\<lambda>list.
       State_Monad.bind (populateQuotaBalances dp units (map (\<lambda>k. (ka_Key k, ka_QuotaPlan k)) list)) (\<lambda>es.
         returnE (map (\<lambda>(k, x). k\<lparr>ka_QuotaPlan := snd x\<rparr>) (zip list es))))"

end
