(* ===== verification/OwnerExport.thy ===== *)
theory OwnerExport
  imports ApiKeyManager
begin

text \<open>
  What the data plane is told about API keys: their rate limits (\<^verbatim>\<open>RateLimitPolicyGenerator\<close> of
  \<^verbatim>\<open>model/rate_limit_policy\<close>), their route tables (\<^verbatim>\<open>AIRouteGenerator\<close> of \<^verbatim>\<open>model/imods/ai_route_exporter.go\<close>), and their
  tokens with quota plans and allowed models (\<^verbatim>\<open>model/imods/exporter.go\<close>). All three walk from the entity of a key
  up to the root. The first walk is a recursion and the second a loop, both without a bound: they are partial functions
  into \<open>option\<close>, \<open>None\<close> when they do not return. The third is bounded by ten levels.

  Maps that are only looked up are functions; maps that are exported are association lists in the order of their
  insertion.
\<close>

section \<open>Computations that may not return\<close>

type_synonym 'a running = "owner_world \<Rightarrow> ((error + 'a) \<times> owner_world) option"

definition running :: "'a owner \<Rightarrow> 'a running" where
  "running m w = Some (run_state m w)"

definition then_run :: "'a running \<Rightarrow> ('a \<Rightarrow> 'b running) \<Rightarrow> 'b running" where
  "then_run m k w =
     Option.bind (m w) (\<lambda>(r, w'). case r of Inl e \<Rightarrow> Some (Inl e, w') | Inr x \<Rightarrow> k x w')"

section \<open>Rate limits\<close>

record ExportTPMConfig =
  xt_Name :: string
  xt_Models :: "string list"
  xt_WindowMinutes :: int
  xt_MaxTokens :: int
  xt_StepMinutes :: int
  xt_RedisKey :: string

record ExportRPMConfig =
  xr_Name :: string
  xr_Models :: "string list"
  xr_WindowMinutes :: int
  xr_MaxRequests :: int
  xr_Burst :: int
  xr_RedisKey :: string

record ExportBatchLimits =
  xb_MaxCreateRPM :: int
  xb_MaxActiveBatches :: int
  xb_MaxFileBytes :: int
  xb_MaxFileLines :: int
  xb_RedisKey :: string

record ExportRateLimitPolicy =
  xp_Name :: string
  xp_Enabled :: bool
  xp_TPM :: "ExportTPMConfig list"
  xp_RPM :: "ExportRPMConfig list"
  xp_MaxConcurrency :: int
  xp_Batch :: "ExportBatchLimits option"

definition export_models :: "string \<Rightarrow> string list" where
  "export_models m = (if m \<noteq> [] \<and> m \<noteq> ''*'' then [m] else [''*''])"

definition exportBatchLimits :: "int \<Rightarrow> BatchLimits \<Rightarrow> ExportBatchLimits" where
  "exportBatchLimits policyID b =
     \<lparr>xb_MaxCreateRPM = bl_MaxCreateRPM b, xb_MaxActiveBatches = bl_MaxActiveBatches b,
      xb_MaxFileBytes = bl_MaxFileBytes b, xb_MaxFileLines = bl_MaxFileLines b,
      xb_RedisKey = (if bl_MaxCreateRPM b > 0 then BuildBatchRateLimitRedisKey policyID else [])\<rparr>"

definition policy_key :: "int \<Rightarrow> string" where
  "policy_key i = ''rlp-'' @ show_int i"

definition export_policy :: "int \<Rightarrow> RateLimitPolicyParam \<Rightarrow> ExportRateLimitPolicy" where
  "export_policy i p =
     \<lparr>xp_Name = policy_key i, xp_Enabled = True,
      xp_TPM = map (\<lambda>c. \<lparr>xt_Name = tc_Name c, xt_Models = export_models (tc_Model c),
        xt_WindowMinutes = tc_WindowMinutes c, xt_MaxTokens = tc_MaxTokens c, xt_StepMinutes = tc_StepMinutes c,
        xt_RedisKey = BuildBFERateLimitRedisKey i ''RL_TPM'' (tc_Name c)\<rparr>) (rl_TpmConfigs p),
      xp_RPM = map (\<lambda>c. \<lparr>xr_Name = rc_Name c, xr_Models = export_models (rc_Model c),
        xr_WindowMinutes = rc_WindowMinutes c, xr_MaxRequests = rc_MaxRequests c, xr_Burst = 1,
        xr_RedisKey = BuildBFERateLimitRedisKey i ''RL_RPM'' (rc_Name c)\<rparr>) (rl_RpmConfigs p),
      xp_MaxConcurrency = (case rl_MaxConcurrency p of None \<Rightarrow> 0 | Some n \<Rightarrow> n),
      xp_Batch = map_option (exportBatchLimits i) (rl_BatchLimits p)\<rparr>"

record ExportRouteRule =
  xh_Cond :: string
  xh_Cmd :: string
  xh_Params :: "string list"

record ExportRateLimitPolicyConfig =
  xc_Config :: "(string \<times> ExportRouteRule list) list"
  xc_Policies :: "(string \<times> ExportRateLimitPolicy) list"
  xc_Bindings :: "(string \<times> string list) list"

definition default_config :: "(string \<times> ExportRouteRule list) list" where
  "default_config = [(''AI_product'', [\<lparr>xh_Cond = ''default_t()'', xh_Cmd = ''FINISH'', xh_Params = []\<rparr>])]"

definition policy_map :: "RateLimitPolicyParam list \<Rightarrow> int \<Rightarrow> RateLimitPolicyParam option" where
  "policy_map ps i = List.find (\<lambda>p. rl_ID p = Some i) (rev ps)"

fun bind_policies ::
  "(int \<Rightarrow> RateLimitPolicyParam option) \<Rightarrow> string \<Rightarrow> int list \<Rightarrow> ExportRateLimitPolicyConfig \<Rightarrow> ExportRateLimitPolicyConfig" where
  "bind_policies pm key [] conf = conf"
| "bind_policies pm key (i # is) conf =
     (case pm i of
        None \<Rightarrow> bind_policies pm key is conf
      | Some p \<Rightarrow>
          if rl_Enabled p \<noteq> Some True then bind_policies pm key is conf
          else bind_policies pm key is conf
            \<lparr>xc_Policies := (if map_of (xc_Policies conf) (policy_key i) = None
                             then alist_set (policy_key i) (export_policy i p) (xc_Policies conf) else xc_Policies conf),
             xc_Bindings := alist_set key (alist_get (xc_Bindings conf) key [] @ [policy_key i]) (xc_Bindings conf)\<rparr>)"

definition own_policy :: "int option \<Rightarrow> int list" where
  "own_policy i = (case i of None \<Rightarrow> [] | Some x \<Rightarrow> [x])"

partial_function (option) fetchEntityRateLimitPolicyIDs :: "owner_deps \<Rightarrow> EntityParam \<Rightarrow> owner_world \<Rightarrow> ((error + int list) \<times> owner_world) option" where
  "fetchEntityRateLimitPolicyIDs dp ent w =
     (if nonempty_opt (ke_ParentID ent) \<and> qc_entityStorager dp
      then case run_state (storage_FetchEntity dp (entity_by_id (ke_ParentID ent))) w of
             (Inl e, w') \<Rightarrow> Some (Inl e, w')
           | (Inr None, w') \<Rightarrow> Some (Inr (own_policy (ke_RateLimitPolicyID ent)), w')
           | (Inr (Some parent), w') \<Rightarrow>
               Option.bind (fetchEntityRateLimitPolicyIDs dp parent w') (\<lambda>(r, w'').
                 Some (map_sum (\<lambda>e. e) (\<lambda>ids. own_policy (ke_RateLimitPolicyID ent) @ ids) r, w''))
      else Some (Inr (own_policy (ke_RateLimitPolicyID ent)), w))"

definition fetchRateLimitPolicyIDsWithEntityHierarchy :: "owner_deps \<Rightarrow> APIKeyParam \<Rightarrow> int list running" where
  "fetchRateLimitPolicyIDsWithEntityHierarchy dp k =
     (if nonempty_opt (ka_EntityID k) \<and> qc_entityStorager dp
      then then_run (running (storage_FetchEntity dp (entity_by_id (ka_EntityID k)))) (\<lambda>e. case e of
             None \<Rightarrow> running (returnE (own_policy (ka_RateLimitPolicyID k)))
           | Some ent \<Rightarrow> then_run (fetchEntityRateLimitPolicyIDs dp ent) (\<lambda>ids.
               running (returnE (own_policy (ka_RateLimitPolicyID k) @ ids))))
      else running (returnE (own_policy (ka_RateLimitPolicyID k))))"

definition wrap_error :: "string \<Rightarrow> 'a running \<Rightarrow> 'a running" where
  "wrap_error msg m w = map_option (\<lambda>(r, w'). (map_sum (\<lambda>_. ErrMsg msg) (\<lambda>x. x) r, w')) (m w)"

fun bind_keys ::
  "owner_deps \<Rightarrow> (int \<Rightarrow> RateLimitPolicyParam option) \<Rightarrow> APIKeyParam list \<Rightarrow> ExportRateLimitPolicyConfig \<Rightarrow>
   ExportRateLimitPolicyConfig running" where
  "bind_keys dp pm [] conf = running (returnE conf)"
| "bind_keys dp pm (k # ks) conf =
     (case ka_Key k of
        None \<Rightarrow> bind_keys dp pm ks conf
      | Some key \<Rightarrow>
          then_run (wrap_error ''fetch rate limit policy ids error'' (fetchRateLimitPolicyIDsWithEntityHierarchy dp k)) (\<lambda>ids.
            bind_keys dp pm ks (bind_policies pm key ids conf)))"

definition RateLimitPolicyGenerator :: "owner_deps \<Rightarrow> ExportRateLimitPolicyConfig running" where
  "RateLimitPolicyGenerator dp =
     then_run (wrap_error ''fetch api keys error'' (running (storage_FetchAPIKeyList dp (Some no_key_filter)))) (\<lambda>ks.
     then_run (wrap_error ''fetch rate limit policies error'' (running (storage_FetchRateLimitPolicyList dp (Some None)))) (\<lambda>ps.
       bind_keys dp (policy_map ps) ks \<lparr>xc_Config = default_config, xc_Policies = [], xc_Bindings = []\<rparr>))"

section \<open>Route tables\<close>

record AiRouteTargetExport =
  xg_ClusterName :: string
  xg_Model :: string
  xg_Weight :: i64

record AiRouteFallbackExport =
  xf_ClusterName :: string
  xf_Model :: string

record RouteRuleExport =
  xu_Name :: string
  xu_Cond :: string
  xu_Targets :: "AiRouteTargetExport list"
  xu_Fallbacks :: "AiRouteFallbackExport list"

record RouteTableExport =
  xe_Type :: string
  xe_Owner :: string
  xe_Rules :: "RouteRuleExport list"

record AiRouteDataExport =
  xd_RouteRules :: "(string \<times> RouteTableExport) list"
  xd_Bindings :: "(string \<times> string list) list"

definition nil_dereference :: error where
  "nil_dereference = ErrMsg ''nil pointer dereference''"

definition not_nil :: "'a option \<Rightarrow> error + 'a" where
  "not_nil v = (case v of None \<Rightarrow> Inl nil_dereference | Some x \<Rightarrow> Inr x)"

definition export_target :: "AiRouteTargetParam \<Rightarrow> AiRouteTargetExport" where
  "export_target t = \<lparr>xg_ClusterName = opt_string (at_ClusterName t), xg_Model = opt_string (at_Model t),
     xg_Weight = (case at_Weight t of None \<Rightarrow> 0 | Some n \<Rightarrow> n)\<rparr>"

definition export_fallback :: "AiRouteFallbackParam \<Rightarrow> AiRouteFallbackExport" where
  "export_fallback t = \<lparr>xf_ClusterName = opt_string (af_ClusterName t), xf_Model = opt_string (af_Model t)\<rparr>"

definition export_rule :: "AiRouteRuleParam option \<Rightarrow> error + RouteRuleExport" where
  "export_rule rule =
     (case not_nil rule of Inl e \<Rightarrow> Inl e
      | Inr r \<Rightarrow> (case all_ok not_nil (ar_Targets r) of Inl e \<Rightarrow> Inl e
          | Inr ts \<Rightarrow> (case all_ok not_nil (ar_Fallbacks r) of Inl e \<Rightarrow> Inl e
              | Inr fs \<Rightarrow> Inr \<lparr>xu_Name = opt_string (ar_Name r), xu_Cond = opt_string (ar_Cond r),
                  xu_Targets = map export_target ts, xu_Fallbacks = map export_fallback fs\<rparr>)))"

definition convertToRouteTableExport ::
  "string \<Rightarrow> string \<Rightarrow> AiRouteRuleParam option list \<Rightarrow> error + RouteTableExport" where
  "convertToRouteTableExport ruleType owner rules =
     map_sum (\<lambda>e. e) (\<lambda>rs. \<lparr>xe_Type = ruleType, xe_Owner = owner, xe_Rules = rs\<rparr>) (all_ok export_rule rules)"

text \<open>The tables so far and the tables of the current key, both extended by one table when it is enabled.\<close>

type_synonym route_acc = "(string \<times> RouteTableExport) list \<times> string list"

definition add_table ::
  "string \<Rightarrow> string \<Rightarrow> string \<Rightarrow> RouteRulesParam option \<Rightarrow> route_acc \<Rightarrow> error + route_acc" where
  "add_table tableKey ruleType owner rules acc =
     (case rules of
        None \<Rightarrow> Inr acc
      | Some r \<Rightarrow>
          if rs_Enabled r \<noteq> Some True then Inr acc
          else map_sum (\<lambda>e. e) (\<lambda>t. (alist_set tableKey t (fst acc), snd acc @ [tableKey]))
                 (convertToRouteTableExport ruleType owner (rs_Rules r)))"

definition entity_map :: "EntityParam list \<Rightarrow> string \<Rightarrow> EntityParam option" where
  "entity_map es i = List.find (\<lambda>e. ke_EntityID e = Some i) (rev es)"

definition add_entity_table :: "owner_deps \<Rightarrow> EntityParam \<Rightarrow> route_acc \<Rightarrow> route_acc owner" where
  "add_entity_table dp e acc =
     (case ke_RouteRulesID e of
        None \<Rightarrow> returnE acc
      | Some i \<Rightarrow>
          bindE (storage_FetchRouteRulesByID dp i) (\<lambda>r.
            case ke_Name e of
              None \<Rightarrow> returnE acc
            | Some n \<Rightarrow> lift_err (add_table (''entity_'' @ n) ''entity'' n r acc)))"

partial_function (option) route_walk :: "owner_deps \<Rightarrow> (string \<Rightarrow> EntityParam option) \<Rightarrow> string option \<Rightarrow> route_acc \<Rightarrow> owner_world \<Rightarrow> ((error + route_acc) \<times> owner_world) option" where
  "route_walk dp em cur acc w =
     (if \<not> nonempty_opt cur then Some (Inr acc, w)
      else case em (the cur) of
        None \<Rightarrow> Some (Inr acc, w)
      | Some e \<Rightarrow> (case run_state (add_entity_table dp e acc) w of
          (Inl err, w') \<Rightarrow> Some (Inl err, w')
        | (Inr acc', w') \<Rightarrow> route_walk dp em (ke_ParentID e) acc' w'))"

definition key_tables ::
  "owner_deps \<Rightarrow> (string \<Rightarrow> EntityParam option) \<Rightarrow> RouteRulesParam option \<Rightarrow> APIKeyParam \<Rightarrow> string \<Rightarrow>
   (string \<times> RouteTableExport) list \<Rightarrow> route_acc running" where
  "key_tables dp em global k key tables =
     then_run (running (case ka_RouteRulesID k of
         None \<Rightarrow> returnE (tables, [])
       | Some i \<Rightarrow> bindE (storage_FetchRouteRulesByID dp i) (\<lambda>r.
           lift_err (add_table (''apikey_'' @ key) ''apikey'' key r (tables, []))))) (\<lambda>acc.
     then_run (route_walk dp em (ka_EntityID k) acc) (\<lambda>acc'.
       running (lift_err (add_table ''global_default'' ''global'' ''global'' global acc'))))"

fun route_keys ::
  "owner_deps \<Rightarrow> (string \<Rightarrow> EntityParam option) \<Rightarrow> RouteRulesParam option \<Rightarrow> APIKeyParam list \<Rightarrow>
   AiRouteDataExport \<Rightarrow> AiRouteDataExport running" where
  "route_keys dp em global [] conf = running (returnE conf)"
| "route_keys dp em global (k # ks) conf =
     (case ka_Key k of
        None \<Rightarrow> route_keys dp em global ks conf
      | Some key \<Rightarrow>
          then_run (key_tables dp em global k key (xd_RouteRules conf)) (\<lambda>(tables, names).
            route_keys dp em global ks
              \<lparr>xd_RouteRules = tables,
               xd_Bindings = (if names \<noteq> [] then alist_set key names (xd_Bindings conf) else xd_Bindings conf)\<rparr>))"

definition AIRouteGenerator :: "owner_deps \<Rightarrow> AiRouteDataExport running" where
  "AIRouteGenerator dp =
     then_run (wrap_error ''fetch api keys error'' (running (storage_FetchAPIKeyList dp (Some no_key_filter)))) (\<lambda>ks.
     then_run (wrap_error ''fetch entities error'' (running (storage_FetchEntityList dp (Some no_entity_filter)))) (\<lambda>es.
     then_run (wrap_error ''fetch global route rules error'' (running (storage_FetchRouteRules dp ''global'' (Some ''global'')))) (\<lambda>global.
       route_keys dp (entity_map es) global ks \<lparr>xd_RouteRules = [], xd_Bindings = []\<rparr>)))"

end
