(* ===== verification/TokenExport.thy ===== *)
theory TokenExport
  imports OwnerExport
begin

text \<open>
  The tokens of the data plane (\<^verbatim>\<open>model/imods/exporter.go\<close>): for every API key the models it may use, the quota
  plans it draws on and the entities it belongs to, collected from the key and from at most ten levels of its entity hierarchy.
  The rules of the module (which requests are checked) come from the AI routes and are not part of the model; the encryption of the
  exported keys is a parameter, absent when it is switched off.
\<close>

record ApikeyTag =
  tg_TagName :: string
  tg_TagValue :: string
  tg_TagLevel :: int

record ExportQuotaPlan =
  xq_Id :: string
  xq_Unlimited :: bool
  xq_PassNoQuota :: bool
  xq_RedisKey :: string
  xq_ExpiredTime :: int
  xq_Quota :: i64
  xq_Unit :: string

record TokenFile =
  tf_Key :: string
  tf_KeyID :: string
  tf_Enabled :: bool
  tf_ExpiredTime :: int
  tf_UnlimitedQuota :: bool
  tf_Models :: "string option"
  tf_BlockModels :: "string option"
  tf_Subnet :: "string option"
  tf_Tags :: "ApikeyTag list"
  tf_QuotaPlans :: "string list"

section \<open>Models\<close>

definition maxEntityHierarchyDepth :: nat where "maxEntityHierarchyDepth = 10"

definition containsStar :: "string list \<Rightarrow> bool" where
  "containsStar xs \<longleftrightarrow> ''*'' \<in> set xs"

definition intersectSlices :: "string list \<Rightarrow> string list \<Rightarrow> string list" where
  "intersectSlices a b = filter (\<lambda>s. s \<in> set b) a"

definition intersectAllowModels :: "string list list \<Rightarrow> string list" where
  "intersectAllowModels ls = (case ls of [] \<Rightarrow> [] | l # rest \<Rightarrow> foldl intersectSlices l rest)"

text \<open>The loop over the levels, with the number of levels left.\<close>

fun model_hierarchy ::
  "(string \<Rightarrow> EntityParam option) \<Rightarrow> nat \<Rightarrow> string \<Rightarrow> string list list \<Rightarrow> string list \<Rightarrow> string list list \<times> string list" where
  "model_hierarchy em 0 i allow block = (allow, block)"
| "model_hierarchy em (Suc n) i allow block =
     (case em i of
        None \<Rightarrow> (allow, block)
      | Some e \<Rightarrow>
          let allow' = (if ke_AllowModels e \<noteq> [] \<and> \<not> containsStar (ke_AllowModels e) then allow @ [ke_AllowModels e] else allow);
              block' = (if ke_BlockModels e \<noteq> [] \<and> \<not> containsStar (ke_BlockModels e) then block @ ke_BlockModels e else block)
          in if nonempty_opt (ke_ParentID e) then model_hierarchy em n (the (ke_ParentID e)) allow' block'
             else (allow', block'))"

definition fetchEntityModelHierarchy ::
  "(string \<Rightarrow> EntityParam option) \<Rightarrow> string \<Rightarrow> string list \<times> string list" where
  "fetchEntityModelHierarchy em i =
     (case model_hierarchy em maxEntityHierarchyDepth i [] [] of (allow, block) \<Rightarrow> (intersectAllowModels allow, block))"

fun join_comma :: "string list \<Rightarrow> string" where
  "join_comma [] = []"
| "join_comma [s] = s"
| "join_comma (s # t # ss) = s @ '','' @ join_comma (t # ss)"

definition star_blank :: "string \<Rightarrow> string" where
  "star_blank s = (if s = ''*'' then [] else s)"

text \<open>The three rules for the models of a token: the exported list (empty: all models) and whether the token stays enabled.\<close>

definition token_models :: "string list \<Rightarrow> string list \<Rightarrow> string list \<times> bool" where
  "token_models keyModels entityAllow =
     (let keyAllow = filter (\<lambda>m. m \<noteq> [] \<and> m \<noteq> ''*'') keyModels in
      if keyAllow = [] \<and> entityAllow = [] then ([], True)
      else let final = (if keyAllow = [] then entityAllow else if entityAllow = [] then keyAllow
                        else intersectSlices keyAllow entityAllow)
           in if final = [] then ([], False) else (final, True))"

section \<open>Quota plans and tags\<close>

definition convertQuotaPlanToExport :: "owner_deps \<Rightarrow> QuotaPlanParam \<Rightarrow> string \<Rightarrow> ExportQuotaPlan" where
  "convertQuotaPlanToExport dp p i =
     \<lparr>xq_Id = i, xq_Unlimited = (pl_Unlimited p = Some True), xq_PassNoQuota = (pl_PassWhenNoEnoughQuota p = Some True),
      xq_RedisKey = ''QUOTA_'' @ i, xq_ExpiredTime = - 1,
      xq_Quota = (if pl_Quota p \<noteq> None then qc_PtrToRedisValue dp (pl_Quota p) (pl_Unit p) else 0),
      xq_Unit = opt_string (pl_Unit p)\<rparr>"

type_synonym collected = "(string \<times> ExportQuotaPlan list) list"

definition collect_plan :: "string \<Rightarrow> ExportQuotaPlan \<Rightarrow> collected \<Rightarrow> collected" where
  "collect_plan product qp c =
     (if xq_Id qp \<in> xq_Id ` set (alist_get c product []) then c
      else alist_set product (alist_get c product [] @ [qp]) c)"

text \<open>A plan of the owner \<open>i\<close>, unless it is gone or unlimited.\<close>

definition use_plan ::
  "owner_deps \<Rightarrow> (int \<Rightarrow> QuotaPlanParam option) \<Rightarrow> string \<Rightarrow> int option \<Rightarrow> string option \<Rightarrow>
   collected \<times> string list \<Rightarrow> collected \<times> string list" where
  "use_plan dp qm product planID owner acc =
     (case (Option.bind planID qm, owner) of
        (Some p, Some i) \<Rightarrow>
          if oc_quotaPlanStorager dp \<and> pl_Unlimited p \<noteq> Some True
          then (collect_plan product (convertQuotaPlanToExport dp p i) (fst acc), snd acc @ [i])
          else acc
      | _ \<Rightarrow> acc)"

definition entity_tag ::
  "owner_deps \<Rightarrow> (string \<Rightarrow> EntityTypeParam option) \<Rightarrow> EntityParam \<Rightarrow> error + ApikeyTag list" where
  "entity_tag dp tm e =
     (case (ke_EntityID e, ke_Type e, ke_Name e) of
        (Some _, Some t, Some n) \<Rightarrow>
          if \<not> oc_entityTypeStorager dp then Inr [\<lparr>tg_TagName = t, tg_TagValue = n, tg_TagLevel = 0\<rparr>]
          else (case Option.bind (tm t) kt_Level of
                  None \<Rightarrow> Inl (ErrMsg ''entity type not found or level invalid'')
                | Some l \<Rightarrow> Inr [\<lparr>tg_TagName = t, tg_TagValue = n, tg_TagLevel = l\<rparr>])
      | _ \<Rightarrow> Inr [])"

fun plan_hierarchy ::
  "owner_deps \<Rightarrow> (string \<Rightarrow> EntityParam option) \<Rightarrow> (int \<Rightarrow> QuotaPlanParam option) \<Rightarrow> (string \<Rightarrow> EntityTypeParam option) \<Rightarrow>
   nat \<Rightarrow> string \<Rightarrow> string \<Rightarrow> collected \<times> string list \<Rightarrow> ApikeyTag list \<Rightarrow>
   error + (collected \<times> string list) \<times> ApikeyTag list" where
  "plan_hierarchy dp em qm tm 0 i product acc tags = Inr (acc, tags)"
| "plan_hierarchy dp em qm tm (Suc n) i product acc tags =
     (case em i of
        None \<Rightarrow> Inr (acc, tags)
      | Some e \<Rightarrow> (case entity_tag dp tm e of
          Inl err \<Rightarrow> Inl err
        | Inr tg \<Rightarrow>
            let acc' = use_plan dp qm product (ke_QuotaPlanID e) (ke_EntityID e) acc in
            if nonempty_opt (ke_ParentID e)
            then plan_hierarchy dp em qm tm n (the (ke_ParentID e)) product acc' (tags @ tg)
            else Inr (acc', tags @ tg)))"

definition fetchQuotaPlansWithEntityHierarchy ::
  "owner_deps \<Rightarrow> (string \<Rightarrow> EntityParam option) \<Rightarrow> (int \<Rightarrow> QuotaPlanParam option) \<Rightarrow> (string \<Rightarrow> EntityTypeParam option) \<Rightarrow>
   APIKeyParam \<Rightarrow> string \<Rightarrow> collected \<Rightarrow> error + (collected \<times> string list) \<times> ApikeyTag list" where
  "fetchQuotaPlansWithEntityHierarchy dp em qm tm k product c =
     (let acc = use_plan dp qm product (ka_QuotaPlanID k) (ka_Key k) (c, []) in
      if nonempty_opt (ka_EntityID k) \<and> qc_entityStorager dp
      then plan_hierarchy dp em qm tm maxEntityHierarchyDepth (the (ka_EntityID k)) product acc []
      else Inr (acc, []))"

section \<open>Tokens\<close>

text \<open>A token, from a key whose value, id and product are there (others make the code panic).\<close>

definition build_token ::
  "owner_deps \<Rightarrow> (string \<Rightarrow> EntityParam option) \<Rightarrow> (int \<Rightarrow> QuotaPlanParam option) \<Rightarrow> (string \<Rightarrow> EntityTypeParam option) \<Rightarrow>
   APIKeyParam \<Rightarrow> string \<Rightarrow> string \<Rightarrow> string \<Rightarrow> collected \<Rightarrow> error + TokenFile \<times> collected" where
  "build_token dp em qm tm k key keyID product c =
     (let (entityAllow, entityBlock) =
            (if nonempty_opt (ka_EntityID k) \<and> qc_entityStorager dp
             then fetchEntityModelHierarchy em (the (ka_EntityID k)) else ([], []));
          (models, ok) = token_models (ka_Models k) entityAllow in
      case fetchQuotaPlansWithEntityHierarchy dp em qm tm k product c of
        Inl e \<Rightarrow> Inl (ErrMsg ''fetch quota plans error'')
      | Inr ((c', plans), tags) \<Rightarrow> Inr
         (\<lparr>tf_Key = key, tf_KeyID = keyID, tf_Enabled = (ka_Enable k = Some True \<and> ok),
           tf_ExpiredTime = (case ka_ExpiredTime k of None \<Rightarrow> - 1 | Some t \<Rightarrow> t),
           tf_UnlimitedQuota = (ka_UnlimitedQuota k = Some True \<or> plans = []),
           tf_Models = Some (join_comma models),
           tf_BlockModels = (if entityBlock \<noteq> [] then Some (star_blank (join_comma entityBlock)) else None),
           tf_Subnet = (if ka_Subnet k \<noteq> [] then Some (star_blank (join_comma (ka_Subnet k))) else None),
           tf_Tags = tags, tf_QuotaPlans = plans\<rparr>, c'))"

record TokenExportData =
  td_QuotaPlans :: collected
  td_Tokens :: "(string \<times> (string \<times> TokenFile) list) list"

definition add_token ::
  "(string \<Rightarrow> error + string) option \<Rightarrow> string \<Rightarrow> string \<Rightarrow> TokenFile \<Rightarrow>
   (string \<times> (string \<times> TokenFile) list) list \<Rightarrow> error + (string \<times> (string \<times> TokenFile) list) list" where
  "add_token enc product key t tokens =
     (case (case enc of None \<Rightarrow> Inr (key, t) | Some f \<Rightarrow> map_sum (\<lambda>e. e) (\<lambda>c. (c, t\<lparr>tf_Key := []\<rparr>)) (f key)) of
        Inl e \<Rightarrow> Inl (ErrMsg ''encrypt token key_id failed'')
      | Inr (tokenKey, t') \<Rightarrow> Inr (alist_set product (alist_set tokenKey t' (alist_get tokens product [])) tokens))"

fun build_tokens ::
  "owner_deps \<Rightarrow> (string \<Rightarrow> error + string) option \<Rightarrow> (string \<Rightarrow> EntityParam option) \<Rightarrow> (int \<Rightarrow> QuotaPlanParam option) \<Rightarrow>
   (string \<Rightarrow> EntityTypeParam option) \<Rightarrow> APIKeyParam list \<Rightarrow> TokenExportData \<Rightarrow> error + TokenExportData" where
  "build_tokens dp enc em qm tm [] conf = Inr conf"
| "build_tokens dp enc em qm tm (k # ks) conf =
     (case (ka_Key k, ka_ID k, ka_ProductName k) of
        (Some key, Some keyID, Some product) \<Rightarrow>
          (case build_token dp em qm tm k key keyID product (td_QuotaPlans conf) of
             Inl e \<Rightarrow> Inl e
           | Inr (t, c') \<Rightarrow> (case add_token enc product key t (td_Tokens conf) of
               Inl e \<Rightarrow> Inl e
             | Inr tokens \<Rightarrow> build_tokens dp enc em qm tm ks \<lparr>td_QuotaPlans = c', td_Tokens = tokens\<rparr>))
      | _ \<Rightarrow> Inl nil_dereference)"

definition buildEntityMap :: "owner_deps \<Rightarrow> (string \<Rightarrow> EntityParam option) owner" where
  "buildEntityMap dp = (if \<not> qc_entityStorager dp then returnE (\<lambda>_. None)
     else bindE (storage_FetchEntityList dp (Some no_entity_filter)) (\<lambda>es. returnE (entity_map es)))"

definition buildQuotaPlanMap :: "owner_deps \<Rightarrow> (int \<Rightarrow> QuotaPlanParam option) owner" where
  "buildQuotaPlanMap dp = (if \<not> oc_quotaPlanStorager dp then returnE (\<lambda>_. None)
     else bindE (in_quota (storage_FetchQuotaPlanList (Some \<lparr>qf_ID = None, qf_Unlimited = None, qf_ResetPeriod = []\<rparr>))) (\<lambda>ps.
       returnE (\<lambda>i. List.find (\<lambda>p. pl_ID p = Some i) (rev ps))))"

definition buildEntityTypeMap :: "owner_deps \<Rightarrow> (string \<Rightarrow> EntityTypeParam option) owner" where
  "buildEntityTypeMap dp = (if \<not> oc_entityTypeStorager dp then returnE (\<lambda>_. None)
     else bindE (storage_FetchEntityTypeList (Some no_type_filter)) (\<lambda>ts.
       returnE (\<lambda>n. List.find (\<lambda>t. kt_TypeName t = Some n) (rev ts))))"

definition token_export :: "owner_deps \<Rightarrow> (string \<Rightarrow> error + string) option \<Rightarrow> TokenExportData owner" where
  "token_export dp enc =
     bindE (storage_FetchAPIKeyList dp (Some no_key_filter)) (\<lambda>ks.
     bindE (buildEntityMap dp) (\<lambda>em.
     bindE (buildQuotaPlanMap dp) (\<lambda>qm.
     bindE (buildEntityTypeMap dp) (\<lambda>tm.
       lift_err (build_tokens dp enc em qm tm ks \<lparr>td_QuotaPlans = [], td_Tokens = []\<rparr>)))))"

end
