(* ===== verification/OwnerFrame.thy ===== *)
theory OwnerFrame
  imports TokenExport
begin

text \<open>
  What the nested writes leave alone. A property of the tables that does not look at quota plans, rate limit policies and
  route rules (the interface \<open>nested_frame\<close>) is kept by everything the managers of entities and API keys do before and after
  they write their own table, whatever fails.
\<close>

lemma fault_free_odb [simp]: "fault_free (\<lambda>w. P (odb w))"
  by (simp add: fault_free_def)

lemma keeps_db_call:
  assumes "\<And>d. P d \<Longrightarrow> P (put (snd (f (get d))) d)"
  shows "keeps (\<lambda>w. P (odb w)) (db_call get put f)"
  unfolding db_call_def using assms by (intro keeps_ext_call) (simp_all add: case_prod_unfold Let_def)

lemma keeps_db_read [keeps_rules]: "keeps (\<lambda>w. P (odb w)) (db_read f)"
  unfolding db_read_def by (intro keeps_ext_call) simp_all

lemma keeps_set_vars [keeps_rules]: "keeps (\<lambda>w. P (odb w)) (set_vars f)"
  by (simp add: set_vars_def keeps_def hoare_def)

lemma keeps_owner_log [keeps_rules]: "keeps (\<lambda>w. P (odb w)) (owner_log dp e)"
  by (simp add: owner_log_def keeps_def hoare_def)

lemma keeps_discard [keeps_rules]: "keeps I m \<Longrightarrow> keeps I (discard m)"
  unfolding discard_def by (intro keeps_rules)

lemmas storage_reads =
  storage_FetchEntityType_def storage_FetchEntityTypeList_def storage_FetchEntity_def storage_FetchEntityList_def
  storage_FetchAPIKeyTokenList_def storage_FetchRateLimitPolicy_def storage_FetchRateLimitPolicyList_def
  storage_FetchRouteRules_def storage_FetchRouteRulesByID_def storage_FetchAllRouteRules_def

lemma keeps_storage_reads [keeps_rules]:
  "keeps (\<lambda>w. P (odb w)) (storage_FetchEntityType f)" "keeps (\<lambda>w. P (odb w)) (storage_FetchEntityTypeList f)"
  "keeps (\<lambda>w. P (odb w)) (storage_FetchEntity dp g)" "keeps (\<lambda>w. P (odb w)) (storage_FetchEntityList dp g)"
  "keeps (\<lambda>w. P (odb w)) (storage_FetchAPIKeyTokenList k)" "keeps (\<lambda>w. P (odb w)) (storage_FetchRateLimitPolicy dp h)"
  "keeps (\<lambda>w. P (odb w)) (storage_FetchRouteRulesByID dp i)" "keeps (\<lambda>w. P (odb w)) (storage_FetchAPIKeyList dp kf)"
  unfolding storage_reads storage_FetchAPIKeyList_def by (intro keeps_rules)+

lemma keeps_lookups [keeps_rules]:
  "keeps (\<lambda>w. P (odb w)) (adapter_FetchRateLimitPolicy dp i)" "keeps (\<lambda>w. P (odb w)) (adapter_FetchEntity dp e)"
  "keeps (\<lambda>w. P (odb w)) (checkEntityLevel dp t p)" "keeps (\<lambda>w. P (odb w)) (entity_must_exist dp e)"
  "keeps (\<lambda>w. P (odb w)) (check_key_value dp k)"
  unfolding adapter_FetchRateLimitPolicy_def adapter_FetchEntity_def checkEntityLevel_def entity_must_exist_def
    check_key_value_def
  by (intro keeps_rules keeps_returnE keeps_throwE)+

lemma keeps_create_entity_checks [keeps_rules]: "keeps (\<lambda>w. P (odb w)) (create_entity_checks dp param)"
  unfolding create_entity_checks_def
  by (intro keeps_rules)

locale nested_frame =
  fixes P :: "owner_db \<Rightarrow> bool"
  assumes frame_plans: "P (d\<lparr>o_quota_plans := t\<rparr>) = P d"
    and frame_policies: "P (d\<lparr>o_policies := u\<rparr>) = P d"
    and frame_rules: "P (d\<lparr>o_route_rules := v\<rparr>) = P d"
begin

lemma keeps_in_quota: "keeps (\<lambda>w. P (odb w)) (in_quota m)"
  by (auto simp: in_quota_def keeps_def hoare_def frame_plans split: prod.splits)

lemma keeps_on_policies: "keeps (\<lambda>w. P (odb w)) (on_policies f)"
  unfolding on_policies_def by (intro keeps_db_call) (simp add: frame_policies)

lemma keeps_on_rules: "keeps (\<lambda>w. P (odb w)) (on_rules f)"
  unfolding on_rules_def by (intro keeps_db_call) (simp add: frame_rules)

lemma keeps_soft_fetch: "keeps (\<lambda>w. P (odb w)) (soft_fetch_plan dp i)"
  unfolding soft_fetch_plan_def by (intro keeps_rules keeps_in_quota)

lemma keeps_policy_writes:
  "keeps (\<lambda>w. P (odb w)) (adapter_CreateRateLimitPolicy dp p)" "keeps (\<lambda>w. P (odb w)) (adapter_UpdateRateLimitPolicy dp i p)"
  "keeps (\<lambda>w. P (odb w)) (adapter_DeleteRateLimitPolicy i)"
  unfolding adapter_CreateRateLimitPolicy_def adapter_UpdateRateLimitPolicy_def adapter_DeleteRateLimitPolicy_def
    storage_CreateRateLimitPolicy_def storage_UpdateRateLimitPolicy_def storage_DeleteRateLimitPolicy_def
  by (intro keeps_rules keeps_on_policies)+

lemma keeps_rule_writes:
  "keeps (\<lambda>w. P (odb w)) (storage_CreateRouteRules dp ty ow r)" "keeps (\<lambda>w. P (odb w)) (storage_UpdateRouteRules dp i r)"
  "keeps (\<lambda>w. P (odb w)) (storage_DeleteRouteRules dp i)"
  unfolding storage_CreateRouteRules_def storage_UpdateRouteRules_def storage_DeleteRouteRules_def
  by (intro keeps_rules keeps_on_rules)+

lemmas keeps_calls = keeps_in_quota keeps_policy_writes keeps_rule_writes keeps_soft_fetch

lemma keeps_creates:
  "keeps (\<lambda>w. P (odb w)) (create_plan dp a)" "keeps (\<lambda>w. P (odb w)) (create_policy dp b)"
  "keeps (\<lambda>w. P (odb w)) (create_rules dp ty ow c)"
  unfolding create_plan_def create_policy_def create_rules_def by (intro keeps_rules keeps_calls)+

lemma keeps_changes:
  "keeps (\<lambda>w. P (odb w)) (change_plan dp i a)" "keeps (\<lambda>w. P (odb w)) (change_policy dp j b)"
  "keeps (\<lambda>w. P (odb w)) (change_rules dp ty ow k c)"
  unfolding change_plan_def change_policy_def change_rules_def
  by (auto split: option.splits intro!: keeps_rules keeps_calls keeps_creates)

lemma keeps_nested_deletes:
  "keeps (\<lambda>w. P (odb w)) (read_nested dp i j)" "keeps (\<lambda>w. P (odb w)) (delete_nested dp i j k)"
  unfolding read_nested_def delete_nested_def by (intro keeps_rules keeps_calls)+

lemma keeps_cleanup: "keeps (\<lambda>w. P (odb w)) (cleanupRedisKeys dp q ks)"
  unfolding cleanupRedisKeys_def Let_def by (intro keeps_rules keeps_calls)

lemma keeps_syncs:
  "keeps (\<lambda>w. P (odb w)) (sync_entity_quota dp e)" "keeps (\<lambda>w. P (odb w)) (sync_key_quota dp k)"
  unfolding sync_entity_quota_def sync_key_quota_def
  by (auto split: option.splits intro!: keeps_rules keeps_calls)

lemma keeps_nested_audits:
  "keeps (\<lambda>w. P (odb w)) (audit_plan_create dp a ow i err)" "keeps (\<lambda>w. P (odb w)) (audit_plan_change dp a ow j i b err)"
  "keeps (\<lambda>w. P (odb w)) (audit_plan_delete dp ow j b err)"
  "keeps (\<lambda>w. P (odb w)) (audit_policy_create dp c ow i err)" "keeps (\<lambda>w. P (odb w)) (audit_policy_change dp c ow j i e err)"
  "keeps (\<lambda>w. P (odb w)) (audit_policy_delete dp ow j e err)"
  unfolding audit_plan_create_def audit_plan_change_def audit_plan_delete_def audit_policy_create_def
    audit_policy_change_def audit_policy_delete_def AuditRateLimitPolicyCreate_def AuditRateLimitPolicyUpdate_def
    AuditRateLimitPolicyDelete_def recordRateLimitPolicyOperation_def
  by (intro keeps_rules keeps_calls)+

lemma keeps_audits:
  "keeps (\<lambda>w. P (odb w)) (log_create_entity dp e err)"
  "keeps (\<lambda>w. P (odb w)) (audit_create_entity dp e i j err)" "keeps (\<lambda>w. P (odb w)) (audit_update_entity dp e v i j err)"
  "keeps (\<lambda>w. P (odb w)) (audit_delete_entity dp v err)" "keeps (\<lambda>w. P (odb w)) (audit_create_key dp k i j err)"
  "keeps (\<lambda>w. P (odb w)) (audit_update_key dp k v i j err)" "keeps (\<lambda>w. P (odb w)) (audit_delete_key dp v err)"
  "keeps (\<lambda>w. P (odb w)) (recordEntityOperation dp act ident before after err)"
  unfolding audit_create_entity_def audit_update_entity_def audit_delete_entity_def audit_create_key_def
    audit_update_key_def audit_delete_key_def log_create_entity_def recordEntityOperation_def recordAPIKeyOperation_def Let_def
  by (intro keeps_rules keeps_nested_audits)+

end

end
