(* ===== verification/TreeOps.thy ===== *)
theory TreeOps
  imports EntityTree
begin

text \<open>
  The operations of the managers keep the tree of entities, whatever calls fail. The checks of an operation establish a
  predicate that the nested writes leave alone (\<open>placed\<close> for a creation, \<open>aimed\<close> for a change, \<open>childless\<close> for a deletion), and
  the statement on the table of entities leads from it back to \<open>tree_ok\<close>.
\<close>

section \<open>Frames\<close>

lemma placed_tree: "placed t p d \<Longrightarrow> tree_ok d"
  by (simp add: placed_def)

text \<open>The entity \<open>i\<close> may be put below the parent \<open>p\<close>.\<close>

definition aimed :: "string \<Rightarrow> string option \<Rightarrow> owner_db \<Rightarrow> bool" where
  "aimed i p d \<longleftrightarrow> tree_ok d \<and>
     (nonempty_opt p \<longrightarrow> (\<forall>r\<in>set (rows (o_entities d)). te_EntityID r = i \<longrightarrow> below d (te_Type r) (the p)))"

interpretation aimed: nested_frame "aimed i p" for i p
  by unfold_locales (simp_all add: aimed_def tree_ok_frames below_frames)

text \<open>The first entity that the filter finds may be put below the parent \<open>p\<close>.\<close>

definition chosen :: "EntityFilter option \<Rightarrow> string option \<Rightarrow> owner_db \<Rightarrow> bool" where
  "chosen f p d \<longleftrightarrow> tree_ok d \<and>
     (nonempty_opt p \<longrightarrow>
        (\<forall>x xs. TEntityList (entityFilterToParam f) (o_entities d) = x # xs \<longrightarrow> below d (te_Type x) (the p)))"

interpretation chosen: nested_frame "chosen f p" for f p
  by unfold_locales (simp_all add: chosen_def tree_ok_frames below_frames)

definition childless :: "string \<Rightarrow> owner_db \<Rightarrow> bool" where
  "childless i d \<longleftrightarrow> tree_ok d \<and> (\<forall>e\<in>set (rows (o_entities d)). te_ParentID e \<noteq> Some i)"

interpretation childless: nested_frame "childless i" for i
  by unfold_locales (simp_all add: childless_def tree_ok_frames)

section \<open>The statements on the table of entities\<close>

lemma entity_row_in: "entity_row d i = Some r \<Longrightarrow> r \<in> set (rows (o_entities d)) \<and> te_EntityID r = i"
  by (auto simp: entity_row_def find_Some_iff)

lemma list_in: "TEntityList p t = x # xs \<Longrightarrow> x \<in> set (rows t)"
proof -
  have "set (TEntityList p t) \<subseteq> set (rows t)"
    by (auto simp: TEntityList_def take_limit_def split: option.splits prod.splits dest!: in_set_takeD in_set_dropD)
  then show "TEntityList p t = x # xs \<Longrightarrow> x \<in> set (rows t)" by auto
qed

lemma no_limit: "Option.bind (entityFilterToParam (entity_by_id (Some i))) pe_Limit = None"
  by (simp add: entityFilterToParam_def entity_by_id_def no_entity_filter_def has_entity_condition_def
    page_limit_def empty_TEntityParam_def)

lemma find_filter: "(\<And>x. q x \<Longrightarrow> p x) \<Longrightarrow> List.find q (filter p xs) = List.find q xs"
  by (induction xs) auto

lemma below_same_rows:
  assumes "below d t p"
    and "\<And>r. entity_row d p = Some r \<Longrightarrow> \<exists>r'. entity_row d' p = Some r' \<and> te_Type r' = te_Type r"
    and "\<And>t. type_level d' t = type_level d t"
  shows "below d' t p"
  using assms by (force simp: below_def row_level_def)

lemma create_keeps_tree:
  assumes "placed (pe_Type data) (pe_ParentID data) d"
  shows "tree_ok (d\<lparr>o_entities := snd (TEntityCreate dp data now (o_entities d))\<rparr>)"
proof (cases "pe_EntityID data = None \<or> pe_Name data = None \<or> pe_Type data = None")
  case True
  then show ?thesis using assms by (auto simp: TEntityCreate_def placed_def)
next
  case False
  let ?rs = "rows (o_entities d)"
  define new where "new = assign_entity dp (if pe_CreatedAt data = None then data\<lparr>pe_CreatedAt := Some now\<rparr> else data)
    \<lparr>te_EntityID = [], te_QuotaPlanID = None, te_ID = next_id (o_entities d), te_Name = [], te_Description = [],
     te_Type = [], te_ParentID = None, te_AllowModels = [], te_BlockModels = [],
     te_RateLimitPolicyID = None, te_RouteRulesID = None, te_CreatedAt = qc_time dp now, te_UpdatedAt = qc_time dp now\<rparr>"
  let ?d = "d\<lparr>o_entities := snd (TEntityCreate dp data now (o_entities d))\<rparr>"
  have new: "te_Type new = the (pe_Type data)" "te_ParentID new = pe_ParentID data"
    using False by (auto simp: new_def assign_entity_def set_null_def opt_set_def split: option.splits)
  show ?thesis
  proof (cases "uniq_entities (?rs @ [new])")
    case False
    with \<open>\<not> (_ \<or> _ \<or> _)\<close> have "snd (TEntityCreate dp data now (o_entities d)) = o_entities d"
      by (auto simp: TEntityCreate_def sql_insert_def new_def Let_def)
    then show ?thesis using assms by (simp add: placed_def)
  next
    case True
    then have rows: "rows (snd (TEntityCreate dp data now (o_entities d))) = ?rs @ [new]"
      using False by (auto simp: TEntityCreate_def sql_insert_def new_def Let_def)
    have ext: "below ?d t p" if "below d t p" for t p
      by (rule below_same_rows [OF that]) (auto simp: entity_row_def rows find_append_snoc type_level_def)
    have "parent_ok ?d e" if "e \<in> set ?rs" for e
      using assms that ext by (auto simp: placed_def tree_ok_def parent_ok_def split: option.splits)
    moreover have "parent_ok ?d new"
      using assms False ext by (auto simp: placed_def parent_ok_def new nonempty_opt_def split: option.splits)
    ultimately show ?thesis using True by (simp add: tree_ok_def rows)
  qed
qed

lemma update_keeps_tree:
  assumes "aimed i (pe_ParentID val) d" and "pe_Type val = None" "pe_EntityID val = None" "pe_ID val = None"
  shows "tree_ok (d\<lparr>o_entities := snd (TEntityUpdate dp val (entityFilterToParam (entity_by_id (Some i))) (o_entities d))\<rparr>)"
proof -
  let ?p = "\<lambda>r. te_EntityID r = i" let ?f = "assign_entity dp val" let ?rs = "rows (o_entities d)"
  let ?new = "update_where ?p ?f ?rs"
  have f: "te_EntityID (?f r) = te_EntityID r" "te_Type (?f r) = te_Type r"
    "te_ParentID (?f r) = set_null (pe_ParentID val) (te_ParentID r)" for r
    using assms by (auto simp: assign_entity_def opt_set_def)
  show ?thesis
  proof (cases "uniq_entities ?new")
    case False
    then show ?thesis using assms
      by (simp add: TEntityUpdate_def limited_update_def no_limit sql_update_def where_entity_by_id aimed_def)
  next
    case True
    let ?d = "d\<lparr>o_entities := (o_entities d)\<lparr>rows := ?new\<rparr>\<rparr>"
    have ext: "below ?d t p" if "below d t p" for t p
      by (rule below_same_rows [OF that])
         (auto simp: entity_row_def type_level_def find_update_where_other f)
    have "parent_ok ?d e" if "e \<in> set ?new" for e
    proof -
      from that obtain r where r: "r \<in> set ?rs" "e = (if ?p r then ?f r else r)" by (auto simp: in_update_where)
      then show ?thesis using assms ext
        by (auto simp: aimed_def tree_ok_def parent_ok_def f set_null_def nonempty_opt_def split: option.splits)
    qed
    then show ?thesis using True
      by (simp add: TEntityUpdate_def limited_update_def no_limit sql_update_def where_entity_by_id tree_ok_def)
  qed
qed

lemma delete_keeps_tree:
  assumes "childless i d"
  shows "tree_ok (d\<lparr>o_entities := snd (TEntityDelete dp (entityFilterToParam (entity_by_id (Some i))) (o_entities d))\<rparr>)"
proof -
  let ?rs = "rows (o_entities d)" let ?new = "filter (\<lambda>r. te_EntityID r \<noteq> i) ?rs"
  let ?d = "d\<lparr>o_entities := (o_entities d)\<lparr>rows := ?new\<rparr>\<rparr>"
  have row: "entity_row ?d p = entity_row d p" if "p \<noteq> i" for p
    using that find_filter [of "\<lambda>r. te_EntityID r = p" "\<lambda>r. te_EntityID r \<noteq> i" ?rs] by (auto simp: entity_row_def)
  have "below ?d t p" if "below d t p" "p \<noteq> i" for t p
    using that row by (intro below_same_rows [OF that(1)]) (auto simp: type_level_def)
  then have "parent_ok ?d e" if "e \<in> set ?new" for e
    using that assms by (fastforce simp: childless_def tree_ok_def parent_ok_def split: option.splits)
  moreover have "uniq_entities ?new"
    using assms by (simp add: childless_def tree_ok_def uniq_entities_def distinct_map_filter)
  ultimately show ?thesis
    by (simp add: TEntityDelete_def limited_delete_def no_limit sql_delete_def where_entity_by_id tree_ok_def)
qed

section \<open>Creating\<close>

lemma hoare_db_read:
  "hoare (\<lambda>w. P (odb w)) (db_read f) (\<lambda>r w. case r of Inl e \<Rightarrow> P (odb w) | Inr x \<Rightarrow> P (odb w) \<and> x = f (odb w))"
proof (rule hoareI)
  fix w :: owner_world assume "P (odb w)"
  then show "case fst (run_state (db_read f) w) of Inl e \<Rightarrow> P (odb (snd (run_state (db_read f) w)))
    | Inr x \<Rightarrow> P (odb (snd (run_state (db_read f) w))) \<and> x = f (odb (snd (run_state (db_read f) w)))"
    by (cases rule: run_db_read_cases [of f w]) simp_all
qed

lemma hoare_fetch_first:
  assumes "\<And>d. P d \<Longrightarrow> Q d" and "\<And>d x xs. P d \<Longrightarrow> l d = x # xs \<Longrightarrow> R (g x) d"
    and "\<And>x. hoare (\<lambda>w. R x (odb w)) (f x) (\<lambda>_ w. Q (odb w))"
  shows "hoare (\<lambda>w. P (odb w)) (bindE (db_read (\<lambda>d. map g (l d))) (\<lambda>es. case es of [] \<Rightarrow> throwE e | x # _ \<Rightarrow> f x)) (\<lambda>_ w. Q (odb w))"
proof (rule hoareI)
  fix w :: owner_world assume P: "P (odb w)"
  show "Q (odb (snd (run_state (bindE (db_read (\<lambda>d. map g (l d))) (\<lambda>es. case es of [] \<Rightarrow> throwE e | x # _ \<Rightarrow> f x)) w)))"
  proof (cases rule: run_db_read_cases [of "\<lambda>d. map g (l d)" w])
    case (failed fs)
    then show ?thesis using P assms(1) by simp
  next
    case (ok fs)
    then show ?thesis
      using P assms(1,2) [of "odb w"] hoareD_sel [OF assms(3), of _ "w\<lparr>faults := fs\<rparr>"] by (cases "l (odb w)") simp_all
  qed
qed

lemma hoare_bind_sum:
  assumes "hoare P m (\<lambda>r s. case r of Inl e \<Rightarrow> A s | Inr x \<Rightarrow> B s)"
    and "\<And>e. hoare A (f e) Q" and "\<And>x. hoare B (g x) Q"
  shows "hoare P (State_Monad.bind m (case_sum f g)) Q"
proof (rule hoare_bind [OF assms(1)])
  fix r
  show "hoare (\<lambda>s. case r of Inl e \<Rightarrow> A s | Inr x \<Rightarrow> B s) (case r of Inl e \<Rightarrow> f e | Inr x \<Rightarrow> g x) Q"
    using assms(2,3) by (cases r) simp_all
qed

lemma hoare_on_entities:
  assumes "\<And>d. P d \<Longrightarrow> Q (d\<lparr>o_entities := snd (f (o_entities d))\<rparr>)" and "\<And>d. P d \<Longrightarrow> Q d"
  shows "hoare (\<lambda>w. P (odb w)) (on_entities f) (\<lambda>_ w. Q (odb w))"
  unfolding on_entities_def db_call_def using assms
  by (intro hoare_ext_call) (auto simp: case_prod_unfold Let_def)

lemma create_checks_place:
  assumes "oc_entityTypeStorager dp"
  shows "hoare (\<lambda>w. tree_ok (odb w)) (create_entity_checks dp param)
    (\<lambda>r w. case r of Inl e \<Rightarrow> tree_ok (odb w) | Inr _ \<Rightarrow> placed (ke_Type param) (ke_ParentID param) (odb w))"
proof -
  have lvl: "hoare (\<lambda>w. tree_ok (odb w)) (checkEntityLevel dp t p)
    (\<lambda>r w. case r of Inl e \<Rightarrow> tree_ok (odb w) | Inr _ \<Rightarrow> placed (Some t) (Some p) (odb w))" for t p
  proof (rule hoareI)
    fix w :: owner_world assume "tree_ok (odb w)"
    then show "case fst (run_state (checkEntityLevel dp t p) w) of Inl e \<Rightarrow> tree_ok (odb (snd (run_state (checkEntityLevel dp t p) w)))
      | Inr _ \<Rightarrow> placed (Some t) (Some p) (odb (snd (run_state (checkEntityLevel dp t p) w)))"
      using run_checkEntityLevel [OF assms, of t p w] by (auto simp: placed_def split: sum.splits)
  qed
  let ?last = "case (ke_Type param, ke_ParentID param) of
         (Some t, Some p) \<Rightarrow> if p \<noteq> [] \<and> oc_entityTypeStorager dp then checkEntityLevel dp t p else returnE ()
       | _ \<Rightarrow> returnE ()"
  have tail: "hoare (\<lambda>w. tree_ok (odb w)) ?last
    (\<lambda>r w. case r of Inl e \<Rightarrow> tree_ok (odb w) | Inr _ \<Rightarrow> placed (ke_Type param) (ke_ParentID param) (odb w))"
  proof (cases "\<exists>t p. ke_Type param = Some t \<and> ke_ParentID param = Some p \<and> p \<noteq> []")
    case True
    then obtain t p where "ke_Type param = Some t" "ke_ParentID param = Some p" "p \<noteq> []" by blast
    then show ?thesis using lvl [of t p] by (simp add: assms cong: sum.case_cong)
  next
    case False
    then have "?last = returnE ()" by (auto split: option.splits)
    moreover have "placed (ke_Type param) (ke_ParentID param) d" if "tree_ok d" for d
      using False that by (auto simp: placed_def nonempty_opt_def)
    ultimately show ?thesis by (simp add: hoare_def)
  qed
  have step: "hoare (\<lambda>w. tree_ok (odb w)) (bindE m (\<lambda>_ :: unit. n)) (\<lambda>r w. case r of Inl e \<Rightarrow> tree_ok (odb w) | Inr _ \<Rightarrow> Q (odb w))"
    if "keeps (\<lambda>w. tree_ok (odb w)) m" "hoare (\<lambda>w. tree_ok (odb w)) n (\<lambda>r w. case r of Inl e \<Rightarrow> tree_ok (odb w) | Inr _ \<Rightarrow> Q (odb w))"
    for m and n :: "unit owner" and Q
    using that by (intro hoare_bindE [where R = "\<lambda>_ w. tree_ok (odb w)"])
      (auto simp: keeps_def hoare_def split: sum.splits)
  show ?thesis
    unfolding create_entity_checks_def by (intro step tail keeps_rules)
qed

lemma CreateEntity_txn_places:
  "hoare (\<lambda>w. placed (ke_Type param) (ke_ParentID param) (odb w)) (CreateEntity_txn dp param) (\<lambda>_ w. tree_ok (odb w))"
  unfolding CreateEntity_txn_def storage_CreateEntity_def
  by (intro hoare_keeps_bindE placed.keeps_creates hoare_bindE_getsE hoare_on_entities create_keeps_tree)
     (auto simp: placed_def entityDataToParam_def entityBaseDataToParam_def empty_TEntityParam_def)

lemma CreateEntity_keeps_tree:
  assumes "oc_entityTypeStorager dp"
  shows "keeps (\<lambda>w. tree_ok (odb w)) (CreateEntity dp param)"
proof -
  let ?t = "\<lambda>w. tree_ok (odb w)" let ?p = "\<lambda>w. placed (ke_Type param) (ke_ParentID param) (odb w)"
  have checks: "hoare ?t (bindE (set_vars (\<lambda>_. no_vars)) (\<lambda>_. create_entity_checks dp param))
      (\<lambda>r w. case r of Inl e \<Rightarrow> ?t w | Inr _ \<Rightarrow> ?p w)"
    using create_checks_place [OF assms] by (intro hoare_bindE [where R = "\<lambda>_. ?t"]) (auto simp: hoare_def set_vars_def)
  have txn: "hoare ?p (owner_AtomExecute (CreateEntity_txn dp param)) (\<lambda>_. ?t)"
    unfolding owner_AtomExecute_def by (intro owner_txn.hoare_txn CreateEntity_txn_places) (rule placed_tree)
  show ?thesis
    unfolding CreateEntity_def keeps_def
    by (rule hoare_bind_sum [OF checks _ hoare_bind [OF txn]])
       (unfold keeps_def [symmetric], (intro keeps_rules tree.keeps_audits tree.keeps_syncs)+)
qed

section \<open>Changing\<close>

lemma update_checks_choose:
  assumes "oc_entityTypeStorager dp" "ke_Type param = None"
  shows "hoare (\<lambda>w. tree_ok (odb w) \<and>
      (\<forall>es. fetched = Inr es \<longrightarrow> es = map (entity_of_row dp) (TEntityList (entityFilterToParam f) (o_entities (odb w)))))
    (update_entity_checks dp param fetched)
    (\<lambda>r w. case r of Inl e \<Rightarrow> tree_ok (odb w) | Inr _ \<Rightarrow> chosen f (ke_ParentID param) (odb w))"
proof (rule hoareI)
  fix w :: owner_world
  assume pre: "tree_ok (odb w) \<and>
      (\<forall>es. fetched = Inr es \<longrightarrow> es = map (entity_of_row dp) (TEntityList (entityFilterToParam f) (o_entities (odb w))))"
  show "case fst (run_state (update_entity_checks dp param fetched) w) of
      Inl e \<Rightarrow> tree_ok (odb (snd (run_state (update_entity_checks dp param fetched) w)))
    | Inr _ \<Rightarrow> chosen f (ke_ParentID param) (odb (snd (run_state (update_entity_checks dp param fetched) w)))"
  proof (cases "nonempty_opt (ke_ParentID param)")
    case False
    then show ?thesis using pre assms by (auto simp: update_entity_checks_def chosen_def Let_def)
  next
    case parent: True
    show ?thesis
    proof (cases fetched)
      case (Inl e)
      then show ?thesis using pre assms parent by (simp add: update_entity_checks_def)
    next
      case (Inr es)
      with pre have es: "es = map (entity_of_row dp) (TEntityList (entityFilterToParam f) (o_entities (odb w)))" by simp
      show ?thesis
      proof (cases "TEntityList (entityFilterToParam f) (o_entities (odb w))")
        case Nil
        then show ?thesis using pre assms parent Inr es by (simp add: update_entity_checks_def)
      next
        case (Cons x xs)
        then have "update_entity_checks dp param fetched = checkEntityLevel dp (te_Type x) (the (ke_ParentID param))"
          using assms parent Inr es by (simp add: update_entity_checks_def)
        then show ?thesis
          using run_checkEntityLevel [OF assms(1), of "te_Type x" "the (ke_ParentID param)" w] pre Cons
          by (auto simp: chosen_def split: sum.splits)
      qed
    qed
  qed
qed

lemma chosen_aims:
  assumes "chosen f p d" and "TEntityList (entityFilterToParam f) (o_entities d) = x # xs"
  shows "aimed (te_EntityID x) p d"
proof -
  have "r = x" if "r \<in> set (rows (o_entities d))" "te_EntityID r = te_EntityID x" for r
    using that assms list_in [OF assms(2)]
    by (auto simp: chosen_def tree_ok_def uniq_entities_def distinct_map inj_on_def)
  then show ?thesis using assms by (auto simp: chosen_def aimed_def)
qed

lemma UpdateEntity_txn_aims:
  assumes "ke_Type param = None" "ke_EntityID param = None"
  shows "hoare (\<lambda>w. chosen f (ke_ParentID param) (odb w)) (UpdateEntity_txn dp f param) (\<lambda>_ w. tree_ok (odb w))"
proof -
  let ?c = "chosen f (ke_ParentID param)"
  let ?l = "\<lambda>d. TEntityList (entityFilterToParam f) (o_entities d)"
  have stmt: "hoare (\<lambda>w. aimed i (ke_ParentID param) (odb w)) (storage_UpdateEntity dp (entity_by_id (Some i))
     (param\<lparr>ke_QuotaPlanID := a, ke_RateLimitPolicyID := b, ke_RouteRulesID := c\<rparr>)) (\<lambda>_ w. tree_ok (odb w))" for i a b c
    unfolding storage_UpdateEntity_def using assms
    by (intro hoare_bindE_getsE hoare_on_entities update_keeps_tree)
       (auto simp: aimed_def entityDataToParamForUpdate_def entityBaseDataToParam_def empty_TEntityParam_def)
  have rest: "hoare (\<lambda>w. aimed i (ke_ParentID param) (odb w))
       (bindE (set_vars g) (\<lambda>_.
           bindE (change_plan dp x1 (ke_QuotaPlan param)) (\<lambda>p.
           bindE (change_policy dp x2 (ke_RateLimitPolicy param)) (\<lambda>l.
           bindE (change_rules dp ''entity'' (Some i) x3 (ke_RouteRules param)) (\<lambda>r.
             storage_UpdateEntity dp (entity_by_id (Some i))
               (param\<lparr>ke_QuotaPlanID := set_null p (ke_QuotaPlanID param),
                 ke_RateLimitPolicyID := set_null l (ke_RateLimitPolicyID param),
                 ke_RouteRulesID := set_null r (ke_RouteRulesID param)\<rparr>)))))) (\<lambda>_ w. tree_ok (odb w))" for i g x1 x2 x3
    by (intro hoare_keeps_bindE aimed.keeps_changes keeps_set_vars stmt) (auto simp: aimed_def)
  show ?thesis
    unfolding UpdateEntity_txn_def storage_FetchEntityList_def
    apply (rule hoare_fetch_first [where R = "\<lambda>x d. ke_EntityID x \<noteq> None \<and> aimed (the (ke_EntityID x)) (ke_ParentID param) d"])
      apply (simp add: chosen_def)
     apply (simp add: chosen_aims)
    subgoal for x
      using rest [of "the (ke_EntityID x)"] by (cases "ke_EntityID x") (simp_all add: hoare_def [of "\<lambda>_. False"])
    done
qed

lemma UpdateEntity_keeps_tree:
  assumes "oc_entityTypeStorager dp" "ke_Type param = None" "ke_EntityID param = None"
  shows "keeps (\<lambda>w. tree_ok (odb w)) (UpdateEntity dp f param)"
proof -
  let ?t = "\<lambda>w. tree_ok (odb w)" let ?c = "\<lambda>w. chosen f (ke_ParentID param) (odb w)"
  let ?es = "\<lambda>d. map (entity_of_row dp) (TEntityList (entityFilterToParam f) (o_entities d))"
  let ?k = "\<lambda>fetched d. tree_ok d \<and> (\<forall>es. fetched = Inr es \<longrightarrow> es = ?es d)"
  have frame: "nested_frame (?k fetched)" for fetched :: "error + EntityParam list"
    by unfold_locales (simp_all add: tree_ok_frames)
  have fetch: "hoare ?t (storage_FetchEntityList dp f) (\<lambda>r w. ?k r (odb w))"
    unfolding storage_FetchEntityList_def
    by (rule hoare_weaken [OF hoare_db_read [of tree_ok]]) (auto split: sum.splits)
  have txn: "hoare ?c (owner_AtomExecute (UpdateEntity_txn dp f param)) (\<lambda>_. ?t)"
    unfolding owner_AtomExecute_def
    by (intro owner_txn.hoare_txn UpdateEntity_txn_aims assms) (simp add: chosen_def)
  have after: "keeps ?t (bindE (getsE o_vars) (\<lambda>v. case r of
                 Inl err \<Rightarrow> bindE (audit_update_entity dp param v 0 0 (Some err)) (\<lambda>_. throwE err)
               | Inr affected \<Rightarrow>
                   bindE (if ov_limitKeys v \<noteq> [] then cleanupRedisKeys dp [] (ov_limitKeys v) else returnE ()) (\<lambda>_.
                   bindE (audit_update_entity dp param v (ov_planID v) (ov_policyID v) None) (\<lambda>_.
                     returnE affected))))" for r :: "error + nat"
    by (intro keeps_rules tree.keeps_audits tree.keeps_cleanup)
  have log: "keeps ?t (bindE (recordEntityOperation dp ''update'' a b c (Some err)) (\<lambda>_. throwE err :: nat owner))" for a b c err
    by (intro keeps_rules tree.keeps_audits)
  have soft: "keeps (\<lambda>w. ?k fetched (odb w)) (case (x, y) of
            (Some _, Some i) \<Rightarrow> if oc_quotaPlanStorager dp then soft_fetch_plan dp i else returnE ()
          | _ \<Rightarrow> returnE ())" for fetched :: "error + EntityParam list" and x :: "QuotaPlanWithBalance option" and y
    using nested_frame.keeps_soft_fetch [OF frame, of fetched]
    by (cases x; cases y) (simp_all add: keeps_returnE)
  have vars: "keeps (\<lambda>w. ?k fetched (odb w)) (set_vars g)" for fetched :: "error + EntityParam list" and g
    by (rule keeps_set_vars)
  show ?thesis
    unfolding UpdateEntity_def keeps_def Let_def
    apply (rule hoare_keeps_bindE)
      apply (rule keeps_set_vars)
     apply simp
    apply (rule hoare_bind [OF fetch])
    apply (rule hoare_keeps_bindE [OF vars])
     apply simp
    apply (rule hoare_keeps_bindE [OF soft])
     apply simp
    apply (rule hoare_bind_sum [OF update_checks_choose [OF assms(1,2)]])
     apply (rule log [unfolded keeps_def])
    apply (rule hoare_bind [OF txn])
    apply (rule after [unfolded keeps_def])
    done
qed

section \<open>Deleting\<close>

lemma DeleteEntity_txn_keeps:
  "keeps (\<lambda>w. tree_ok (odb w)) (DeleteEntity_txn dp (entity_by_id (Some i)))"
proof -
  let ?f = "entity_by_id (Some i)" let ?t = "\<lambda>w. tree_ok (odb w)"
  let ?kids = "\<lambda>d. map (entity_of_row dp) (TEntityList (entityFilterToParam (Some (no_entity_filter\<lparr>ef_ParentID := Some i\<rparr>))) (o_entities d))"
  have kids: "childless i d" if "tree_ok d" "?kids d = []" for d
    using that by (auto simp: childless_def TEntityList_def entityFilterToParam_def no_entity_filter_def
      has_entity_condition_def page_limit_def empty_TEntityParam_def take_limit_def where_entity_def eq_null_def eq_opt_def
      filter_empty_conv)
  have del: "hoare (\<lambda>w. childless i (odb w)) (bindE (delete_nested dp a b c) (\<lambda>_. storage_DeleteEntity dp ?f)) (\<lambda>_. ?t)" for a b c
    unfolding storage_DeleteEntity_def discard_def
    by (intro hoare_keeps_bindE childless.keeps_nested_deletes hoare_bindE_keeps hoare_on_entities delete_keeps_tree keeps_rules)
       (auto simp: childless_def)
  have guard: "hoare ?t (bindE (storage_FetchEntityList dp (Some (no_entity_filter\<lparr>ef_ParentID := Some i\<rparr>))) (\<lambda>children.
             if children \<noteq> [] then throwE e
             else bindE (delete_nested dp a b c) (\<lambda>_. storage_DeleteEntity dp ?f))) (\<lambda>_. ?t)" for a b c e
    unfolding storage_FetchEntityList_def
  proof (rule hoare_bindE [where R = "\<lambda>es w. ?t w \<and> es = ?kids (odb w)"])
    show "hoare ?t (db_read ?kids) (\<lambda>r w. case r of Inl e \<Rightarrow> ?t w | Inr es \<Rightarrow> ?t w \<and> es = ?kids (odb w))"
      by (rule hoare_db_read)
    show "hoare (\<lambda>w. ?t w \<and> es = ?kids (odb w)) (if es \<noteq> [] then throwE e
             else bindE (delete_nested dp a b c) (\<lambda>_. storage_DeleteEntity dp ?f)) (\<lambda>_. ?t)" for es
    proof (cases "es = []")
      case True
      then show ?thesis using kids by (simp, intro hoare_weaken [OF del]) auto
    next
      case False
      then show ?thesis by (simp add: hoare_def)
    qed
  qed
  have first: "te_EntityID x = i" if "TEntityList (entityFilterToParam ?f) (o_entities d) = x # xs" for d x xs
    using that no_limit [of i] by (auto simp: TEntityList_def take_limit_def where_entity_by_id dest!: filter_eq_ConsD)
  show ?thesis
    unfolding DeleteEntity_txn_def storage_FetchEntityList_def [of dp ?f] keeps_def
    apply (rule hoare_fetch_first [where R = "\<lambda>x d. ke_EntityID x = Some i \<and> tree_ok d"])
      apply simp
     apply (simp add: first)
    subgoal for x
      by (cases "ke_EntityID x = Some i")
         (auto simp: hoare_def [of "\<lambda>_. False"] intro!: hoare_keeps_bindE keeps_set_vars tree.keeps_nested_deletes guard)
    done
qed

lemma DeleteEntity_keeps_tree: "keeps (\<lambda>w. tree_ok (odb w)) (DeleteEntity dp (entity_by_id (Some i)))"
  unfolding DeleteEntity_def owner_AtomExecute_def
  by (intro keeps_rules owner_txn.keeps_txn DeleteEntity_txn_keeps tree.keeps_audits tree.keeps_cleanup)

section \<open>API keys and types\<close>

lemma tree_ok_keys: "tree_ok (d\<lparr>o_api_keys := t\<rparr>) = tree_ok d"
proof -
  have "below (d\<lparr>o_api_keys := t\<rparr>) = below d"
    by (simp add: fun_eq_iff below_def row_level_def type_level_def entity_row_def)
  then show ?thesis by (simp add: tree_ok_def parent_ok_def cong: option.case_cong)
qed

lemma keeps_on_keys: "keeps (\<lambda>w. tree_ok (odb w)) (on_keys f)"
  unfolding on_keys_def
  by (intro keeps_db_call) (simp add: tree_ok_keys)

lemma keeps_storage_keys:
  "keeps (\<lambda>w. tree_ok (odb w)) (storage_CreateAPIKey dp k)" "keeps (\<lambda>w. tree_ok (odb w)) (storage_UpdateAPIKey dp f k)"
  "keeps (\<lambda>w. tree_ok (odb w)) (storage_DeleteAPIKey dp f)"
  unfolding storage_CreateAPIKey_def storage_UpdateAPIKey_def storage_DeleteAPIKey_def
  by (intro keeps_rules keeps_on_keys)+

lemma CreateAPIKey_keeps_tree: "keeps (\<lambda>w. tree_ok (odb w)) (CreateAPIKey dp k)"
  unfolding CreateAPIKey_def owner_AtomExecute_def CreateAPIKey_txn_def Let_def
  by (intro keeps_rules owner_txn.keeps_txn tree.keeps_creates tree.keeps_audits tree.keeps_syncs keeps_storage_keys)

lemma DeleteAPIKey_keeps_tree: "keeps (\<lambda>w. tree_ok (odb w)) (DeleteAPIKey dp f)"
proof -
  have "keeps (\<lambda>w. tree_ok (odb w)) (DeleteAPIKey_txn dp f)"
    unfolding DeleteAPIKey_txn_def
    by (rule keeps_bindE, rule keeps_storage_reads)
       (auto split: list.splits intro!: keeps_rules tree.keeps_nested_deletes keeps_storage_keys)
  then show ?thesis
    unfolding DeleteAPIKey_def owner_AtomExecute_def
    by (intro keeps_rules owner_txn.keeps_txn tree.keeps_audits tree.keeps_cleanup)
qed

lemma UpdateAPIKey_keeps_tree: "keeps (\<lambda>w. tree_ok (odb w)) (UpdateAPIKey dp f k)"
proof -
  have "keeps (\<lambda>w. tree_ok (odb w)) (UpdateAPIKey_txn dp f k)"
    unfolding UpdateAPIKey_txn_def
    by (rule keeps_bindE, rule keeps_storage_reads)
       (auto split: list.splits option.splits intro!: keeps_rules tree.keeps_changes tree.keeps_soft_fetch keeps_storage_keys)
  then show ?thesis
    unfolding UpdateAPIKey_def owner_AtomExecute_def
    by (intro keeps_rules owner_txn.keeps_txn tree.keeps_audits tree.keeps_cleanup)
qed

lemma create_type_keeps_tree:
  assumes "tree_ok d"
  shows "tree_ok (d\<lparr>o_entity_types := snd (TEntityTypeCreate dp data now (o_entity_types d))\<rparr>)"
proof -
  let ?d = "d\<lparr>o_entity_types := snd (TEntityTypeCreate dp data now (o_entity_types d))\<rparr>"
  have level: "type_level d t = Some l \<Longrightarrow> type_level ?d t = Some l" for t l
    by (auto simp: type_level_def TEntityTypeCreate_def sql_insert_def find_append_snoc Let_def)
  have "below ?d t p" if "below d t p" for t p
    using that by (auto simp: below_def row_level_def entity_row_def intro!: level)
  then show ?thesis using assms by (auto simp: tree_ok_def parent_ok_def split: option.splits)
qed

lemma CreateEntityType_keeps_tree: "keeps (\<lambda>w. tree_ok (odb w)) (CreateEntityType dp t)"
proof -
  have "keeps (\<lambda>w. tree_ok (odb w)) (storage_CreateEntityType dp t)"
    unfolding storage_CreateEntityType_def on_types_def
    by (intro keeps_rules keeps_db_call) (simp add: create_type_keeps_tree)
  then show ?thesis
    unfolding CreateEntityType_def Let_def recordEntityTypeOperation_def by (intro keeps_rules)
qed

end
