(* ===== verification/TreeWalk.thy ===== *)
theory TreeWalk
  imports TreeOps
begin

text \<open>
  Walks to the root. In a tree of entities the two unbounded walks of the exports return, with every pattern of failures, and
  what the first one collects is the policies along the \<open>lineage\<close> of the entity. On a cycle the walks do not return.
\<close>

section \<open>The way to the root\<close>

definition parent_row :: "owner_db \<Rightarrow> TEntity \<Rightarrow> TEntity option" where
  "parent_row d r = (if nonempty_opt (te_ParentID r) then entity_row d (the (te_ParentID r)) else None)"

text \<open>The row and its ancestors, at most \<open>n\<close> of them.\<close>

fun lineage :: "owner_db \<Rightarrow> nat \<Rightarrow> TEntity \<Rightarrow> TEntity list" where
  "lineage d n r = r # (case n of 0 \<Rightarrow> [] | Suc m \<Rightarrow> (case parent_row d r of None \<Rightarrow> [] | Some q \<Rightarrow> lineage d m q))"

declare lineage.simps [simp del]

definition lower_rows :: "owner_db \<Rightarrow> TEntity \<Rightarrow> nat" where
  "lower_rows d r = card {x \<in> set (rows (o_entities d)). \<exists>l l'. row_level d x = Some l \<and> row_level d r = Some l' \<and> l < l'}"

lemma parent_row_in: "parent_row d r = Some q \<Longrightarrow> q \<in> set (rows (o_entities d))"
  by (auto simp: parent_row_def dest: entity_row_in split: if_splits)

lemma parent_lower:
  assumes "tree_ok d" "r \<in> set (rows (o_entities d))" "parent_row d r = Some q"
  shows "lower_rows d q < lower_rows d r"
proof -
  let ?S = "\<lambda>r. {x \<in> set (rows (o_entities d)). \<exists>l l'. row_level d x = Some l \<and> row_level d r = Some l' \<and> l < l'}"
  obtain p where p: "te_ParentID r = Some p" "p \<noteq> []" "entity_row d p = Some q"
    using assms(3) by (auto simp: parent_row_def nonempty_opt_def split: if_splits)
  then have "below d (te_Type r) p" using assms(1,2) by (auto simp: tree_ok_def parent_ok_def)
  then obtain l l' where l: "row_level d q = Some l" "row_level d r = Some l'" "l < l'"
    using p by (auto simp: below_def row_level_def)
  then have "q \<in> ?S r" "q \<notin> ?S q" using parent_row_in [OF assms(3)] by auto
  moreover have "?S q \<subseteq> ?S r" using l by fastforce
  ultimately have "?S q \<subset> ?S r" by blast
  then show ?thesis unfolding lower_rows_def by (intro psubset_card_mono) auto
qed

lemma lower_rows_bound:
  assumes "r \<in> set (rows (o_entities d))"
  shows "lower_rows d r < length (rows (o_entities d))"
proof -
  let ?S = "{x \<in> set (rows (o_entities d)). \<exists>l l'. row_level d x = Some l \<and> row_level d r = Some l' \<and> l < l'}"
  have "r \<notin> ?S" "?S \<subseteq> set (rows (o_entities d))" by auto
  with assms have "?S \<subset> set (rows (o_entities d))" by blast
  then have "lower_rows d r < card (set (rows (o_entities d)))"
    unfolding lower_rows_def by (intro psubset_card_mono) auto
  also have "\<dots> \<le> length (rows (o_entities d))" by (rule card_length)
  finally show ?thesis .
qed

text \<open>Beyond the number of lower rows, more levels find nothing more.\<close>

lemma lineage_enough:
  assumes "tree_ok d" "r \<in> set (rows (o_entities d))" "lower_rows d r \<le> n" "lower_rows d r \<le> m"
  shows "lineage d n r = lineage d m r"
  using assms(2-)
proof (induction n arbitrary: m r)
  case 0
  then have "parent_row d r = None" using parent_lower [OF assms(1)] by (cases "parent_row d r") fastforce+
  then show ?case by (simp add: lineage.simps split: nat.splits)
next
  case (Suc n)
  show ?case
  proof (cases "parent_row d r")
    case None
    then show ?thesis by (simp add: lineage.simps split: nat.splits)
  next
    case (Some q)
    with Suc.prems parent_lower [OF assms(1) Suc.prems(1) Some] obtain k where k: "m = Suc k" "lower_rows d q \<le> k" "lower_rows d q \<le> n"
      by (cases m) auto
    show ?thesis
      using Suc.IH [OF parent_row_in [OF Some] k(3,2)] Some k by (simp add: lineage.simps [of _ "Suc _"])
  qed
qed

section \<open>The recursion over the hierarchy\<close>

lemma odb_db_read: "odb (snd (run_state (db_read f) w)) = odb w"
  by (cases rule: run_db_read_cases [of f w]) simp_all

lemma fetch_parent:
  "nonempty_opt (te_ParentID r) \<Longrightarrow>
   storage_FetchEntity dp (entity_by_id (te_ParentID r)) =
     db_read (\<lambda>d. map_option (entity_of_row dp) (parent_row d r))"
  by (cases "te_ParentID r") (auto simp: nonempty_opt_def parent_row_def fetch_entity_by_id)

lemma policy_walk_returns:
  assumes "tree_ok (odb w)" "r \<in> set (rows (o_entities (odb w)))"
  shows "\<exists>y w'. fetchEntityRateLimitPolicyIDs dp (entity_of_row dp r) w = Some (y, w') \<and> odb w' = odb w"
  using assms
proof (induction "lower_rows (odb w) r" arbitrary: r w rule: less_induct)
  case less
  show ?case
  proof (cases "nonempty_opt (te_ParentID r) \<and> qc_entityStorager dp")
    case False
    then show ?thesis by (subst fetchEntityRateLimitPolicyIDs.simps) auto
  next
    case parent: True
    let ?f = "\<lambda>d. map_option (entity_of_row dp) (parent_row d r)"
    show ?thesis
    proof (cases rule: run_db_read_cases [of ?f w])
      case (failed fs)
      with parent show ?thesis by (subst fetchEntityRateLimitPolicyIDs.simps) (simp add: fetch_parent)
    next
      case (ok fs)
      show ?thesis
      proof (cases "parent_row (odb w) r")
        case None
        with parent ok show ?thesis by (subst fetchEntityRateLimitPolicyIDs.simps) (simp add: fetch_parent)
      next
        case (Some q)
        have "\<exists>y w'. fetchEntityRateLimitPolicyIDs dp (entity_of_row dp q) (w\<lparr>faults := fs\<rparr>) = Some (y, w') \<and> odb w' = odb w"
          using less.hyps [of "w\<lparr>faults := fs\<rparr>" q] less.prems parent_lower parent_row_in Some by simp
        with Some parent ok show ?thesis
          by (subst fetchEntityRateLimitPolicyIDs.simps) (auto simp: fetch_parent)
      qed
    qed
  qed
qed

lemma policy_walk_result:
  assumes "tree_ok (odb w)" "r \<in> set (rows (o_entities (odb w)))" "faults w = []" "qc_entityStorager dp"
    "lower_rows (odb w) r \<le> n"
  shows "fetchEntityRateLimitPolicyIDs dp (entity_of_row dp r) w =
    Some (Inr (concat (map (\<lambda>x. own_policy (te_RateLimitPolicyID x)) (lineage (odb w) n r))), w)"
  using assms(2,5)
proof (induction n arbitrary: r)
  case 0
  then have "parent_row (odb w) r = None" using parent_lower [OF assms(1)] by (cases "parent_row (odb w) r") fastforce+
  then show ?case
    by (subst fetchEntityRateLimitPolicyIDs.simps) (simp add: fetch_parent assms lineage.simps db_read_def)
next
  case (Suc n)
  show ?case
  proof (cases "parent_row (odb w) r")
    case None
    then show ?thesis
      by (subst fetchEntityRateLimitPolicyIDs.simps) (simp add: fetch_parent assms lineage.simps db_read_def)
  next
    case (Some q)
    then have "nonempty_opt (te_ParentID r)" by (auto simp: parent_row_def split: if_splits)
    moreover have "fetchEntityRateLimitPolicyIDs dp (entity_of_row dp q) w =
        Some (Inr (concat (map (\<lambda>x. own_policy (te_RateLimitPolicyID x)) (lineage (odb w) n q))), w)"
      using Suc parent_lower [OF assms(1) Suc.prems(1) Some] parent_row_in [OF Some] by simp
    ultimately show ?thesis
      using Some by (subst fetchEntityRateLimitPolicyIDs.simps) (simp add: fetch_parent assms db_read_def lineage.simps [of _ "Suc _"])
  qed
qed

section \<open>The loop over the map of entities\<close>

text \<open>A map of entities that agrees with the rows of the table.\<close>

definition map_of_rows :: "owner_deps \<Rightarrow> owner_db \<Rightarrow> (string \<Rightarrow> EntityParam option) \<Rightarrow> bool" where
  "map_of_rows dp d em \<longleftrightarrow> (\<forall>i. em i = map_option (entity_of_row dp) (entity_row d i))"

lemma find_rev_unique: "distinct (map k xs) \<Longrightarrow> List.find (\<lambda>x. k x = i) (rev xs) = List.find (\<lambda>x. k x = i) xs"
proof (induction xs)
  case (Cons x xs)
  then have "List.find (\<lambda>y. k y = i) xs = None" if "k x = i" using that by (auto simp: find_None_iff image_iff)
  with Cons show ?case by (auto simp: find_append_snoc split: option.splits)
qed simp

lemma find_map_option: "List.find p (map f xs) = map_option f (List.find (\<lambda>x. p (f x)) xs)"
  by (induction xs) auto

lemma entity_map_rows:
  assumes "tree_ok d"
  shows "map_of_rows dp d (entity_map (map (entity_of_row dp) (rows (o_entities d))))"
proof -
  have "List.find (\<lambda>e. ke_EntityID e = Some i) (map (entity_of_row dp) (rev (rows (o_entities d)))) =
        map_option (entity_of_row dp) (entity_row d i)" for i
    using assms find_rev_unique [of te_EntityID "rows (o_entities d)" i]
    by (simp add: find_map_option entity_row_def tree_ok_def uniq_entities_def)
  then show ?thesis by (simp add: map_of_rows_def entity_map_def rev_map)
qed

lemma odb_add_entity_table: "odb (snd (run_state (add_entity_table dp e acc) w)) = odb w"
proof -
  have "keeps (\<lambda>x. odb x = odb w) (add_entity_table dp e acc)"
    unfolding add_entity_table_def by (intro keeps_rules)
  then show ?thesis by (auto dest: keepsD)
qed

lemma route_walk_row:
  assumes "tree_ok d" "map_of_rows dp d em" "r \<in> set (rows (o_entities d))" "odb w = d"
  shows "\<exists>y w'. route_walk dp em (Some (te_EntityID r)) acc w = Some (y, w') \<and> odb w' = d"
  using assms(3,4)
proof (induction "lower_rows d r" arbitrary: r w acc rule: less_induct)
  case less
  show ?case
  proof (cases "te_EntityID r = []")
    case True
    then show ?thesis using less.prems by (subst route_walk.simps) (simp add: nonempty_opt_def)
  next
    case False
    have "entity_row d (te_EntityID r) = Some r"
    proof -
      obtain q where "entity_row d (te_EntityID r) = Some q"
        using less.prems by (cases "entity_row d (te_EntityID r)") (auto simp: entity_row_def find_None_iff)
      moreover from this have "q = r"
        using assms(1) less.prems by (auto simp: tree_ok_def uniq_entities_def distinct_map inj_on_def dest!: entity_row_in)
      ultimately show ?thesis by simp
    qed
    then have em: "em (te_EntityID r) = Some (entity_of_row dp r)" using assms(2) by (simp add: map_of_rows_def)
    obtain y w1 where run: "run_state (add_entity_table dp (entity_of_row dp r) acc) w = (y, w1)" by fastforce
    then have w1: "odb w1 = d" using odb_add_entity_table [of dp "entity_of_row dp r" acc w] less.prems by simp
    show ?thesis
    proof (cases y)
      case (Inl e)
      then show ?thesis using em run w1 False by (subst route_walk.simps) (simp add: nonempty_opt_def)
    next
      case (Inr acc')
      have rec: "\<exists>y w'. route_walk dp em (te_ParentID r) acc' w1 = Some (y, w') \<and> odb w' = d"
      proof (cases "parent_row d r")
        case None
        then show ?thesis using w1 assms(2)
          by (subst route_walk.simps) (auto simp: parent_row_def map_of_rows_def split: if_splits option.splits)
      next
        case (Some q)
        then have "te_ParentID r = Some (te_EntityID q)"
          by (auto simp: parent_row_def nonempty_opt_def dest: entity_row_in split: if_splits)
        then show ?thesis
          using less.hyps [OF parent_lower [OF assms(1) less.prems(1) Some] parent_row_in [OF Some] w1] by simp
      qed
      then show ?thesis using em run Inr False by (subst route_walk.simps) (simp add: nonempty_opt_def)
    qed
  qed
qed

lemma route_walk_returns:
  assumes "tree_ok d" "map_of_rows dp d em" "odb w = d"
  shows "\<exists>y w'. route_walk dp em i acc w = Some (y, w') \<and> odb w' = d"
proof (cases "nonempty_opt i \<and> entity_row d (the i) \<noteq> None")
  case True
  then obtain r where "entity_row d (the i) = Some r" by blast
  moreover from this True have "i = Some (te_EntityID r)" by (auto simp: nonempty_opt_def dest: entity_row_in)
  ultimately have "r \<in> set (rows (o_entities d))" "i = Some (te_EntityID r)" using entity_row_in by blast+
  then show ?thesis using route_walk_row [OF assms(1,2) _ assms(3), of r acc] by simp
next
  case False
  then show ?thesis using assms(2,3) by (subst route_walk.simps) (auto simp: map_of_rows_def)
qed

section \<open>A cycle\<close>

text \<open>A set of rows that is closed under the way to the parent is never left.\<close>

lemma policy_walk_cycle:
  assumes closed: "\<And>r. r \<in> S \<Longrightarrow> \<exists>q\<in>S. parent_row d r = Some q" and "qc_entityStorager dp" "r \<in> S"
    and "odb w = d" "faults w = []"
  shows "fetchEntityRateLimitPolicyIDs dp (entity_of_row dp r) w = None"
proof (rule ccontr)
  assume "fetchEntityRateLimitPolicyIDs dp (entity_of_row dp r) w \<noteq> None"
  then obtain y where y: "fetchEntityRateLimitPolicyIDs dp (entity_of_row dp r) w = Some y" by blast
  have "\<not> (\<exists>x\<in>S. e = entity_of_row dp x \<and> odb v = d \<and> faults v = [] \<and> dp' = dp)"
    if "fetchEntityRateLimitPolicyIDs dp' e v = Some z" for dp' e v z
  proof (rule fetchEntityRateLimitPolicyIDs.raw_induct [where P =
      "\<lambda>dp' e v z. \<not> (\<exists>x\<in>S. e = entity_of_row dp x \<and> odb v = d \<and> faults v = [] \<and> dp' = dp)", OF _ that], rule notI)
    fix f dp' e v z
    assume IH: "\<And>dp' e v z. f dp' e v = Some z \<Longrightarrow> \<not> (\<exists>x\<in>S. e = entity_of_row dp x \<and> odb v = d \<and> faults v = [] \<and> dp' = dp)"
      and body: "(if nonempty_opt (ke_ParentID e) \<and> qc_entityStorager dp'
      then case run_state (storage_FetchEntity dp' (entity_by_id (ke_ParentID e))) v of
             (Inl err, w') \<Rightarrow> Some (Inl err, w')
           | (Inr None, w') \<Rightarrow> Some (Inr (own_policy (ke_RateLimitPolicyID e)), w')
           | (Inr (Some parent), w') \<Rightarrow>
               Option.bind (f dp' parent w') (\<lambda>(r, w'').
                 Some (map_sum (\<lambda>e. e) (\<lambda>ids. own_policy (ke_RateLimitPolicyID e) @ ids) r, w''))
      else Some (Inr (own_policy (ke_RateLimitPolicyID e)), v)) = Some z"
      and "\<exists>x\<in>S. e = entity_of_row dp x \<and> odb v = d \<and> faults v = [] \<and> dp' = dp"
    then obtain x where x: "x \<in> S" "e = entity_of_row dp x" "odb v = d" "faults v = []" "dp' = dp" by blast
    then obtain q where q: "q \<in> S" "parent_row d x = Some q" using closed by blast
    then have ne: "nonempty_opt (te_ParentID x)" by (auto simp: parent_row_def split: if_splits)
    have "run_state (storage_FetchEntity dp (entity_by_id (te_ParentID x))) v = (Inr (Some (entity_of_row dp q)), v)"
      using x q by (simp add: fetch_parent [OF ne] db_read_def)
    with body x ne assms(2) obtain z' where "f dp (entity_of_row dp q) v = Some z'"
      by (auto simp: bind_eq_Some_conv)
    from IH [OF this] x q show False by blast
  qed
  with y assms show False by blast
qed

section \<open>The exports\<close>

lemma then_run_returns:
  assumes "\<exists>y w'. m w = Some (y, w') \<and> odb w' = d"
    and "\<And>x w'. odb w' = d \<Longrightarrow> \<exists>y w''. k x w' = Some (y, w'') \<and> odb w'' = d"
  shows "\<exists>y w'. then_run m k w = Some (y, w') \<and> odb w' = d"
proof -
  obtain y w' where m: "m w = Some (y, w')" "odb w' = d" using assms(1) by blast
  then show ?thesis using assms(2) [of w'] by (cases y) (auto simp: then_run_def)
qed

lemma running_returns: "keeps (\<lambda>v. odb v = d) m \<Longrightarrow> odb w = d \<Longrightarrow> \<exists>y w'. running m w = Some (y, w') \<and> odb w' = d"
  by (cases "run_state m w") (auto simp: running_def dest: keepsD_run)

lemma wrap_error_returns:
  "\<exists>y w'. m w = Some (y, w') \<and> odb w' = d \<Longrightarrow> \<exists>y w'. wrap_error msg m w = Some (y, w') \<and> odb w' = d"
  by (auto simp: wrap_error_def)

lemma policy_ids_return:
  assumes "tree_ok d" "odb w = d"
  shows "\<exists>y w'. fetchRateLimitPolicyIDsWithEntityHierarchy dp k w = Some (y, w') \<and> odb w' = d"
proof (cases "nonempty_opt (ka_EntityID k) \<and> qc_entityStorager dp")
  case False
  then show ?thesis using assms by (auto simp: fetchRateLimitPolicyIDsWithEntityHierarchy_def running_def)
next
  case True
  then obtain i where i: "ka_EntityID k = Some i" by (auto simp: nonempty_opt_def)
  show ?thesis
  proof (cases rule: run_db_read_cases [of "\<lambda>d. map_option (entity_of_row dp) (entity_row d i)" w])
    case (failed fs)
    with True i assms show ?thesis
      by (simp add: fetchRateLimitPolicyIDsWithEntityHierarchy_def fetch_entity_by_id then_run_def running_def)
  next
    case (ok fs)
    show ?thesis
    proof (cases "entity_row d i")
      case None
      with ok True i assms show ?thesis
        by (simp add: fetchRateLimitPolicyIDsWithEntityHierarchy_def fetch_entity_by_id then_run_def running_def)
    next
      case (Some r)
      obtain y w' where "fetchEntityRateLimitPolicyIDs dp (entity_of_row dp r) (w\<lparr>faults := fs\<rparr>) = Some (y, w')" "odb w' = d"
        using policy_walk_returns [of "w\<lparr>faults := fs\<rparr>" r dp] entity_row_in [OF Some] assms by auto
      with ok Some True i assms show ?thesis
        by (cases y) (simp_all add: fetchRateLimitPolicyIDsWithEntityHierarchy_def fetch_entity_by_id then_run_def running_def)
    qed
  qed
qed

lemma bind_keys_returns:
  assumes "tree_ok d"
  shows "odb w = d \<Longrightarrow> \<exists>y w'. bind_keys dp pm ks conf w = Some (y, w') \<and> odb w' = d"
proof (induction ks arbitrary: conf w)
  case Nil
  then show ?case by (simp add: running_def)
next
  case (Cons k ks)
  show ?case
    using Cons policy_ids_return [OF assms]
    by (cases "ka_Key k") (auto intro!: then_run_returns wrap_error_returns)
qed

lemma RateLimitPolicyGenerator_returns:
  assumes "tree_ok (odb w)"
  shows "\<exists>y w'. RateLimitPolicyGenerator dp w = Some (y, w') \<and> odb w' = odb w"
  unfolding RateLimitPolicyGenerator_def storage_FetchRateLimitPolicyList_def
  by (intro then_run_returns wrap_error_returns running_returns bind_keys_returns assms keeps_rules) simp_all

lemma route_keys_returns:
  assumes "tree_ok d" "map_of_rows dp d em"
  shows "odb w = d \<Longrightarrow> \<exists>y w'. route_keys dp em global ks conf w = Some (y, w') \<and> odb w' = d"
proof (induction ks arbitrary: conf w)
  case Nil
  then show ?case by (simp add: running_def)
next
  case (Cons k ks)
  have "\<exists>y w'. key_tables dp em global k key tables v = Some (y, w') \<and> odb w' = d" if "odb v = d" for key tables v
    unfolding key_tables_def using that
    by (intro then_run_returns running_returns route_walk_returns [OF assms] keeps_rules) simp_all
  with Cons show ?case
    by (cases "ka_Key k") (auto simp: case_prod_unfold intro!: then_run_returns)
qed

lemma list_all_rows: "TEntityList (entityFilterToParam (Some no_entity_filter)) t = rows t"
  by (simp add: TEntityList_def entityFilterToParam_def no_entity_filter_def has_entity_condition_def take_limit_def where_entity_def)

lemma AIRouteGenerator_returns:
  assumes "tree_ok (odb w)"
  shows "\<exists>y w'. AIRouteGenerator dp w = Some (y, w') \<and> odb w' = odb w"
proof -
  let ?es = "map (entity_of_row dp) (rows (o_entities (odb w)))"
  have es: "\<exists>r v'. wrap_error msg (running (storage_FetchEntityList dp (Some no_entity_filter))) v = Some (r, v') \<and>
      odb v' = odb w \<and> (r = Inr ?es \<or> r = Inl (ErrMsg msg))" if "odb v = odb w" for v msg
    unfolding storage_FetchEntityList_def list_all_rows using that
    by (cases rule: run_db_read_cases [of "\<lambda>d. map (entity_of_row dp) (rows (o_entities d))" v])
       (simp_all add: wrap_error_def running_def)
  have tail: "\<exists>y w'. then_run (wrap_error m1 (running (storage_FetchEntityList dp (Some no_entity_filter)))) (\<lambda>es.
     then_run (wrap_error m2 (running (storage_FetchRouteRules dp a b))) (\<lambda>global.
       route_keys dp (entity_map es) global ks c)) v = Some (y, w') \<and> odb w' = odb w" if v: "odb v = odb w" for v m1 m2 a b ks c
  proof -
    obtain r v' where r: "wrap_error m1 (running (storage_FetchEntityList dp (Some no_entity_filter))) v = Some (r, v')"
      "odb v' = odb w" "r = Inr ?es \<or> r = Inl (ErrMsg m1)" using es [OF v, of m1] by blast
    have "\<exists>y w'. then_run (wrap_error m2 (running (storage_FetchRouteRules dp a b))) (\<lambda>global.
       route_keys dp (entity_map ?es) global ks c) v' = Some (y, w') \<and> odb w' = odb w"
      using r(2) unfolding storage_FetchRouteRules_def
      by (intro then_run_returns wrap_error_returns running_returns route_keys_returns assms entity_map_rows keeps_rules) simp_all
    then show ?thesis using r by (auto simp: then_run_def [of "wrap_error m1 _"])
  qed
  show ?thesis
    unfolding AIRouteGenerator_def
    by (rule then_run_returns) (use tail in \<open>auto intro!: wrap_error_returns running_returns keeps_rules\<close>)
qed

text \<open>Without failures a walk that returns has found ids and changed nothing.\<close>

lemma policy_walk_quiet:
  assumes "fetchEntityRateLimitPolicyIDs dp e w = Some y" and "faults w = []"
  shows "\<exists>ids. y = (Inr ids, w)"
proof -
  have "faults w = [] \<longrightarrow> (\<exists>ids. y = (Inr ids, w))"
  proof (rule fetchEntityRateLimitPolicyIDs.raw_induct [where P = "\<lambda>dp e w y. faults w = [] \<longrightarrow> (\<exists>ids. y = (Inr ids, w))", OF _ assms(1)])
    fix f dp e w y
    assume "\<And>dp e w y. f dp e w = Some y \<Longrightarrow> faults w = [] \<longrightarrow> (\<exists>ids. y = (Inr ids, w))"
      and "(if nonempty_opt (ke_ParentID e) \<and> qc_entityStorager dp
      then case run_state (storage_FetchEntity dp (entity_by_id (ke_ParentID e))) w of
             (Inl err, w') \<Rightarrow> Some (Inl err, w')
           | (Inr None, w') \<Rightarrow> Some (Inr (own_policy (ke_RateLimitPolicyID e)), w')
           | (Inr (Some parent), w') \<Rightarrow>
               Option.bind (f dp parent w') (\<lambda>(r, w'').
                 Some (map_sum (\<lambda>e. e) (\<lambda>ids. own_policy (ke_RateLimitPolicyID e) @ ids) r, w''))
      else Some (Inr (own_policy (ke_RateLimitPolicyID e)), w)) = Some y"
    then show "faults w = [] \<longrightarrow> (\<exists>ids. y = (Inr ids, w))"
      by (fastforce simp: storage_FetchEntity_def db_read_def bind_eq_Some_conv split: if_splits option.splits)
  qed
  with assms(2) show ?thesis by simp
qed

lemma bind_keys_cycle:
  assumes "\<And>r. r \<in> S \<Longrightarrow> \<exists>q\<in>S. parent_row (odb w) r = Some q" and "qc_entityStorager dp" and quiet: "faults w = []"
    and r: "r \<in> S" "entity_row (odb w) i = Some r" "i \<noteq> []"
    and k: "k \<in> set ks" "ka_Key k \<noteq> None" "ka_EntityID k = Some i"
  shows "bind_keys dp pm ks conf w = None"
  using k(1)
proof (induction ks arbitrary: conf)
  case (Cons k' ks)
  have walk: "fetchRateLimitPolicyIDsWithEntityHierarchy dp k w = None"
    using policy_walk_cycle [OF assms(1), of dp r] assms(2) quiet r k
    by (simp add: fetchRateLimitPolicyIDsWithEntityHierarchy_def fetch_entity_by_id db_read_def then_run_def running_def nonempty_opt_def)
  have other: "fetchRateLimitPolicyIDsWithEntityHierarchy dp k' w = None \<or>
      (\<exists>ids. fetchRateLimitPolicyIDsWithEntityHierarchy dp k' w = Some (Inr ids, w))"
  proof (cases "TEntityOne (entityFilterToParam (entity_by_id (ka_EntityID k'))) (o_entities (odb w))")
    case None
    then show ?thesis using quiet
      by (simp add: fetchRateLimitPolicyIDsWithEntityHierarchy_def storage_FetchEntity_def db_read_def then_run_def running_def)
  next
    case (Some x)
    have "fetchEntityRateLimitPolicyIDs dp (entity_of_row dp x) w = None \<or>
        (\<exists>ids. fetchEntityRateLimitPolicyIDs dp (entity_of_row dp x) w = Some (Inr ids, w))"
      using policy_walk_quiet quiet by (metis not_None_eq)
    then show ?thesis using quiet Some
      by (auto simp: fetchRateLimitPolicyIDsWithEntityHierarchy_def storage_FetchEntity_def db_read_def then_run_def running_def)
  qed
  show ?case
  proof (cases "k = k'")
    case True
    then show ?thesis using walk k(2) by (auto simp: then_run_def wrap_error_def)
  next
    case False
    then have "bind_keys dp pm ks c w = None" for c using Cons by simp
    then show ?thesis using other by (cases "ka_Key k'") (auto simp: then_run_def wrap_error_def)
  qed
qed simp

end
