(* ===== verification/OwnerReach.thy ===== *)
theory OwnerReach
  imports TreeWalk
begin

text \<open>
  Histories of the management operations, and a concrete installation for the witnesses: two types, an organisation with a
  team below it, and a key of the team.
\<close>

section \<open>Histories\<close>

datatype owner_op =
    OpCreateType EntityTypeParam
  | OpCreateEntity EntityParam
  | OpUpdateEntity "EntityFilter option" EntityParam
  | OpDeleteEntity string
  | OpCreateKey APIKeyParam
  | OpUpdateKey "APIKeyFilter option" APIKeyParam
  | OpDeleteKey "APIKeyFilter option"

definition exec_op :: "owner_deps \<Rightarrow> owner_op \<Rightarrow> owner_world \<Rightarrow> owner_world" where
  "exec_op dp op w = (case op of
       OpCreateType t \<Rightarrow> snd (run_state (CreateEntityType dp t) w)
     | OpCreateEntity e \<Rightarrow> snd (run_state (CreateEntity dp e) w)
     | OpUpdateEntity f e \<Rightarrow> snd (run_state (UpdateEntity dp f e) w)
     | OpDeleteEntity i \<Rightarrow> snd (run_state (DeleteEntity dp (entity_by_id (Some i))) w)
     | OpCreateKey k \<Rightarrow> snd (run_state (CreateAPIKey dp k) w)
     | OpUpdateKey f k \<Rightarrow> snd (run_state (UpdateAPIKey dp f k) w)
     | OpDeleteKey f \<Rightarrow> snd (run_state (DeleteAPIKey dp f) w))"

text \<open>A change of an entity names neither its type nor a new id.\<close>

definition op_ok :: "owner_op \<Rightarrow> bool" where
  "op_ok op = (case op of OpUpdateEntity f e \<Rightarrow> ke_Type e = None \<and> ke_EntityID e = None | _ \<Rightarrow> True)"

definition empty_owner_db :: owner_db where
  "empty_owner_db = \<lparr>o_entity_types = \<lparr>rows = [], next_id = 1\<rparr>, o_entities = \<lparr>rows = [], next_id = 1\<rparr>,
     o_api_keys = \<lparr>rows = [], next_id = 1\<rparr>, o_api_key_tokens = \<lparr>rows = [], next_id = 1\<rparr>,
     o_quota_plans = \<lparr>rows = [], next_id = 1\<rparr>, o_policies = \<lparr>rows = [], next_id = 1\<rparr>,
     o_route_rules = \<lparr>rows = [], next_id = 1\<rparr>\<rparr>"

text \<open>
  The tables after any sequence of operations; each one meets its own clock, Redis contents, log and failures, and each may run
  in an instance with other collaborators, as long as the types of entities are among them.
\<close>

inductive owner_reach :: "owner_db \<Rightarrow> bool" where
  start: "owner_reach empty_owner_db"
| step: "owner_reach (odb w) \<Longrightarrow> oc_entityTypeStorager dp \<Longrightarrow> op_ok op \<Longrightarrow> owner_reach (odb (exec_op dp op w))"

lemma op_keeps_tree:
  assumes "tree_ok (odb w)" "oc_entityTypeStorager dp" "op_ok op"
  shows "tree_ok (odb (exec_op dp op w))"
  using assms keepsD [OF CreateEntityType_keeps_tree] keepsD [OF CreateEntity_keeps_tree]
    keepsD [OF UpdateEntity_keeps_tree] keepsD [OF DeleteEntity_keeps_tree]
    keepsD [OF CreateAPIKey_keeps_tree] keepsD [OF UpdateAPIKey_keeps_tree] keepsD [OF DeleteAPIKey_keeps_tree]
  by (cases op) (simp_all add: exec_op_def op_ok_def)

lemma reach_tree: "owner_reach d \<Longrightarrow> tree_ok d"
proof (induction rule: owner_reach.induct)
  case start
  show ?case by (simp add: tree_ok_def empty_owner_db_def uniq_entities_def)
next
  case (step w dp op)
  then show ?case by (intro op_keeps_tree)
qed

text \<open>The child ids and the parent ids they name.\<close>

definition parent_ids :: "owner_db \<Rightarrow> (string \<times> string) set" where
  "parent_ids d = {(te_EntityID r, p) | r p. r \<in> set (rows (o_entities d)) \<and> te_ParentID r = Some p \<and> p \<noteq> []}"

lemma tree_parents:
  assumes "tree_ok d"
  shows "acyclic (parent_ids d)" "snd ` parent_ids d \<subseteq> te_EntityID ` set (rows (o_entities d))"
proof -
  have up: "\<exists>r q. entity_row d i = Some r \<and> entity_row d p = Some q \<and> lower_rows d q < lower_rows d r"
    if "(i, p) \<in> parent_ids d" for i p
  proof -
    obtain r where r: "r \<in> set (rows (o_entities d))" "te_EntityID r = i" "te_ParentID r = Some p" "p \<noteq> []"
      using \<open>(i, p) \<in> _\<close> by (auto simp: parent_ids_def)
    then have "below d (te_Type r) p" using assms by (auto simp: tree_ok_def parent_ok_def)
    then obtain q where q: "entity_row d p = Some q" by (auto simp: below_def)
    with r have "parent_row d r = Some q" by (simp add: parent_row_def nonempty_opt_def)
    then have "lower_rows d q < lower_rows d r" using parent_lower assms r by blast
    moreover obtain r' where "entity_row d i = Some r'"
      using r by (cases "entity_row d i") (auto simp: entity_row_def find_None_iff)
    moreover from this have "r' = r"
      using r assms by (auto simp: tree_ok_def uniq_entities_def distinct_map inj_on_def dest!: entity_row_in)
    ultimately show ?thesis using q by blast
  qed
  have "converse (parent_ids d) \<subseteq> measure (\<lambda>i. case entity_row d i of None \<Rightarrow> 0 | Some r \<Rightarrow> lower_rows d r)"
    using up by fastforce
  from wf_subset [OF wf_measure this] show "acyclic (parent_ids d)"
    by (metis acyclic_converse wf_acyclic)
  show "snd ` parent_ids d \<subseteq> te_EntityID ` set (rows (o_entities d))"
    using up by (fastforce dest: entity_row_in)
qed

section \<open>A concrete installation\<close>

definition owner_example_deps :: owner_deps where
  "owner_example_deps = \<lparr>qc_isMySQL = True, qc_time = (\<lambda>t. t), qc_quota = (\<lambda>q. q), qc_decrypt = Inr,
     qc_zone = 0, qc_dbZone = 0,
     qc_PtrToRedisValue = (\<lambda>q u. case q of None \<Rightarrow> 0 | Some x \<Rightarrow> word_of_int \<lfloor>x\<rfloor>),
     qc_PtrFromRedisValue = (\<lambda>v u. of_int (sint v)), qc_absentInBatch = 0,
     qc_entityStorager = True, qc_quotaCache = True, qc_redisClient = True, qc_operationLog = True,
     oc_entityTypeStorager = True, oc_quotaPlanStorager = True, oc_rateLimitPolicyStorager = True,
     oc_routeRulesStorager = True, oc_quotaPlanAuditor = True, oc_rateLimitPolicyAuditor = True,
     oc_encStrings = join_comma, oc_decStrings = (\<lambda>s old. if s = ''*'' then [''*''] else old),
     oc_encTpm = (\<lambda>_. ''t''), oc_decTpm = (\<lambda>_. []), oc_encRpm = (\<lambda>_. ''r''), oc_decRpm = (\<lambda>_. []),
     oc_encBatch = (\<lambda>_. ''b''), oc_decBatch = (\<lambda>_. None), oc_encRules = (\<lambda>_. Inr ''rules''), oc_decRules = (\<lambda>_. []),
     oc_encrypt = Inr, oc_keyHash = (\<lambda>k. CHR ''#'' # k), oc_uuid = ''uuid'', oc_limit = (\<lambda>_ hits. Inr hits)\<rparr>"

definition new_type :: "string \<Rightarrow> int \<Rightarrow> EntityTypeParam" where
  "new_type n l = \<lparr>kt_ID = None, kt_TypeName = Some n, kt_Description = None, kt_Level = Some l, kt_CreateTime = None\<rparr>"

definition no_entity :: EntityParam where
  "no_entity = \<lparr>ke_EntityID = None, ke_InnerID = None, ke_Name = None, ke_Description = None, ke_Type = None,
     ke_ParentID = None, ke_AllowModels = [], ke_BlockModels = [], ke_QuotaPlanID = None,
     ke_RateLimitPolicyID = None, ke_RouteRulesID = None, ke_CreateTime = None, ke_UpdateTime = None,
     ke_QuotaPlan = None, ke_RateLimitPolicy = None, ke_RouteRules = None\<rparr>"

definition new_entity :: "string \<Rightarrow> string \<Rightarrow> string option \<Rightarrow> EntityParam" where
  "new_entity i t p = no_entity\<lparr>ke_EntityID := Some i, ke_Name := Some i, ke_Type := Some t, ke_ParentID := p\<rparr>"

definition owner_empty_world :: owner_world where
  "owner_empty_world = \<lparr>faults = [], odb = empty_owner_db, o_redis = (\<lambda>_. None), o_now = 0, o_log = [], o_vars = no_vars\<rparr>"

definition example_ops :: "owner_op list" where
  "example_ops = [OpCreateType (new_type ''org'' 1), OpCreateType (new_type ''team'' 2),
     OpCreateEntity (new_entity ''acme'' ''org'' None), OpCreateEntity (new_entity ''blue'' ''team'' (Some ''acme''))]"

definition example_world :: owner_world where
  "example_world = fold (exec_op owner_example_deps) example_ops owner_empty_world"

lemma example_world_rows:
  "map (\<lambda>r. (te_EntityID r, te_Type r, te_ParentID r)) (rows (o_entities (odb example_world))) =
     [(''acme'', ''org'', None), (''blue'', ''team'', Some ''acme'')]"
  by code_simp

end
