(* ===== verification/KeyValue.thy ===== *)
theory KeyValue
  imports OwnerReach
begin

text \<open>
  The values of API keys: they are fixed at creation, found by their hash, and never stored twice, whatever fails.
\<close>

section \<open>A value is fixed\<close>

definition stored_values :: "owner_db \<Rightarrow> (int \<times> string \<times> string) list" where
  "stored_values d = map (\<lambda>r. (ta_InnerID r, ta_Key r, ta_KeyHash r)) (rows (o_api_keys d))"

interpretation valued: nested_frame "\<lambda>d. stored_values d = vs" for vs
  by unfold_locales (simp_all add: stored_values_def)

lemma update_keeps_values:
  assumes "pa_InnerID val = None" "pa_Key val = None" "pa_KeyHash val = None"
  shows "map (\<lambda>r. (ta_InnerID r, ta_Key r, ta_KeyHash r)) (rows (snd (TAPIKeyUpdate dp val
      (newAPIKeyFilterToParam dp (Some (no_key_filter\<lparr>kf_InnerID := i\<rparr>))) t))) =
    map (\<lambda>r. (ta_InnerID r, ta_Key r, ta_KeyHash r)) (rows t)"
proof -
  have "ta_InnerID (assign_key dp val r) = ta_InnerID r \<and> ta_Key (assign_key dp val r) = ta_Key r \<and>
      ta_KeyHash (assign_key dp val r) = ta_KeyHash r" for r
    using assms by (simp add: assign_key_def opt_set_def)
  moreover have "Option.bind (newAPIKeyFilterToParam dp (Some (no_key_filter\<lparr>kf_InnerID := i\<rparr>))) pa_Limit = None"
    by (simp add: newAPIKeyFilterToParam_def no_key_filter_def key_page_limit_def)
  ultimately show ?thesis
    by (simp add: TAPIKeyUpdate_def limited_update_def sql_update_def map_update_where)
qed

lemma keeps_values_update:
  assumes "ka_Key k = None"
  shows "keeps (\<lambda>w. stored_values (odb w) = vs) (storage_UpdateAPIKey dp (Some (no_key_filter\<lparr>kf_InnerID := i\<rparr>)) k)"
  unfolding storage_UpdateAPIKey_def on_keys_def stored_values_def
  using assms
  by (intro keeps_bindE keeps_getsE keeps_lift_err_result keeps_db_call)
     (auto simp: newAPIKeyDataToParam_def nonempty_opt_def update_keeps_values empty_TAPIKeyParam_def Let_def)

lemma UpdateAPIKey_keeps_values: "keeps (\<lambda>w. stored_values (odb w) = vs) (UpdateAPIKey dp f k)"
proof -
  have "keeps (\<lambda>w. stored_values (odb w) = vs) (UpdateAPIKey_txn dp f k)"
    unfolding UpdateAPIKey_txn_def
    by (rule keeps_bindE, rule keeps_storage_reads)
       (auto split: list.splits option.splits
         intro!: keeps_rules keeps_storage_reads [where P = "\<lambda>d. stored_values d = vs"] valued.keeps_changes valued.keeps_soft_fetch keeps_values_update
           keeps_lookups [where P = "\<lambda>d. stored_values d = vs"] keeps_set_vars [where P = "\<lambda>d. stored_values d = vs"])
  then show ?thesis
    unfolding UpdateAPIKey_def owner_AtomExecute_def
    by (intro keeps_rules owner_txn.keeps_txn [where P = "\<lambda>d. stored_values d = vs"] valued.keeps_audits valued.keeps_cleanup
      keeps_set_vars [where P = "\<lambda>d. stored_values d = vs"])
qed

section \<open>A stored value is refused\<close>

definition has_hash :: "string \<Rightarrow> owner_db \<Rightarrow> bool" where
  "has_hash h d \<longleftrightarrow> h \<in> ta_KeyHash ` set (rows (o_api_keys d))"

interpretation hashed: nested_frame "has_hash h" for h
  by unfold_locales (simp_all add: has_hash_def)

text \<open>A computation that cannot succeed once its last step cannot.\<close>

lemma fails_bindE:
  assumes "keeps P m" and "\<And>x. hoare P (f x) (\<lambda>r _. isl r)"
  shows "hoare P (bindE m f) (\<lambda>r _. isl r)"
proof (rule hoareI)
  fix s assume "P s"
  obtain r s' where run: "run_state m s = (r, s')" by fastforce
  with assms(1) \<open>P s\<close> have "P s'" by (auto dest: keepsD_run)
  with run assms(2) show "isl (fst (run_state (bindE m f) s))" by (cases r) (auto simp: hoare_def)
qed

lemma fails_if: "(b \<Longrightarrow> hoare P m Q) \<Longrightarrow> (\<not> b \<Longrightarrow> hoare P n Q) \<Longrightarrow> hoare P (if b then m else n) Q"
  by simp

lemma fails_throwE: "hoare P (throwE e) (\<lambda>r _. isl r)"
  by (simp add: hoare_def)

lemma insert_stored_hash:
  assumes "pa_KeyHash data = Some h" and "h \<in> ta_KeyHash ` set (rows t)"
  shows "isl (fst (TAPIKeyCreate dp data now t))"
proof -
  have "ta_KeyHash (assign_key dp (if pa_CreatedAt data = None then data\<lparr>pa_CreatedAt := Some now\<rparr> else data) r) = h" for r
    using assms(1) by (simp add: assign_key_def opt_set_def)
  then show ?thesis using assms(2) by (auto simp: TAPIKeyCreate_def sql_insert_def uniq_keys_def Let_def)
qed

lemma fails_storage_create:
  assumes "ka_Key k = Some v" "v \<noteq> []"
  shows "hoare (\<lambda>w. has_hash (oc_keyHash dp v) (odb w)) (storage_CreateAPIKey dp k) (\<lambda>r _. isl r)"
proof -
  have data: "pa_KeyHash d = Some (oc_keyHash dp v)" if "newAPIKeyDataToParam dp now k = Inr d" for now d
    using that assms by (auto simp: newAPIKeyDataToParam_def nonempty_opt_def empty_TAPIKeyParam_def Let_def split: sum.splits)
  have ins: "hoare (\<lambda>w. has_hash (oc_keyHash dp v) (odb w)) (on_keys (TAPIKeyCreate dp
       (d\<lparr>pa_AllowedModels := a, pa_CreatedAt := b, pa_Subnet := c\<rparr>) now)) (\<lambda>r _. isl r)"
    if "newAPIKeyDataToParam dp now' k = Inr d" for now now' a b c d
    unfolding on_keys_def db_call_def
    using insert_stored_hash [of "d\<lparr>pa_AllowedModels := a, pa_CreatedAt := b, pa_Subnet := c\<rparr>"] data [OF that]
    by (intro hoare_ext_call) (auto simp: has_hash_def case_prod_unfold Let_def)
  show ?thesis
    unfolding storage_CreateAPIKey_def
    apply (rule fails_bindE [OF keeps_getsE])
    subgoal for now by (cases "newAPIKeyDataToParam dp now k") (use ins in \<open>auto simp: hoare_def\<close>)
    done
qed

lemma fails_create_txn:
  assumes "ka_Key k = Some v" "v \<noteq> []"
  shows "hoare (\<lambda>w. has_hash (oc_keyHash dp v) (odb w)) (CreateAPIKey_txn dp k) (\<lambda>r _. isl r)"
proof -
  have k: "ka_Key (key_with_id dp k) = Some v" using assms by (simp add: key_with_id_def)
  show ?thesis
    unfolding CreateAPIKey_txn_def Let_def
    by (intro fails_bindE fails_if fails_throwE fails_storage_create keeps_rules hashed.keeps_creates) (simp_all add: k assms)
qed

section \<open>A created value is found\<close>

definition found_by :: "owner_deps \<Rightarrow> string \<Rightarrow> owner_db \<Rightarrow> bool" where
  "found_by dp v d \<longleftrightarrow> uniq_keys (rows (o_api_keys d)) \<and>
     (\<exists>r\<in>set (rows (o_api_keys d)). ta_KeyHash r = oc_keyHash dp v \<and> oc_encrypt dp v = Inr (ta_Key r))"

interpretation found: nested_frame "found_by dp v" for dp v
  by unfold_locales (simp_all add: found_by_def)

lemma succeeds_bindE:
  assumes "\<And>x. hoare (\<lambda>_. True) (f x) (\<lambda>r w. \<not> isl r \<longrightarrow> Q w)"
  shows "hoare (\<lambda>_. True) (bindE m f) (\<lambda>r w. \<not> isl r \<longrightarrow> Q w)"
proof (rule hoareI)
  fix s show "\<not> isl (fst (run_state (bindE m f) s)) \<longrightarrow> Q (snd (run_state (bindE m f) s))"
    using assms by (cases "run_state m s"; cases "fst (run_state m s)") (auto simp: hoare_def)
qed

lemma create_finds:
  assumes "pa_Key data = Some c" "pa_KeyHash data = Some (oc_keyHash dp v)" "oc_encrypt dp v = Inr c"
    and "\<not> isl (fst (TAPIKeyCreate dp data now (o_api_keys d)))"
  shows "found_by dp v (d\<lparr>o_api_keys := snd (TAPIKeyCreate dp data now (o_api_keys d))\<rparr>)"
  using assms by (auto simp: found_by_def TAPIKeyCreate_def sql_insert_def assign_key_def opt_set_def Let_def split: if_splits)

lemma storage_create_finds:
  assumes "ka_Key k = Some v" "v \<noteq> []"
  shows "hoare (\<lambda>_. True) (storage_CreateAPIKey dp k) (\<lambda>r w. \<not> isl r \<longrightarrow> found_by dp v (odb w))"
proof -
  have data: "\<exists>c. pa_KeyHash d = Some (oc_keyHash dp v) \<and> pa_Key d = Some c \<and> oc_encrypt dp v = Inr c"
    if "newAPIKeyDataToParam dp now k = Inr d" for now d
    using that assms by (auto simp: newAPIKeyDataToParam_def nonempty_opt_def empty_TAPIKeyParam_def Let_def split: sum.splits)
  have ins: "hoare (\<lambda>_. True) (on_keys (TAPIKeyCreate dp (d\<lparr>pa_AllowedModels := a, pa_CreatedAt := b, pa_Subnet := c\<rparr>) now))
       (\<lambda>r w. \<not> isl r \<longrightarrow> found_by dp v (odb w))"
    if "newAPIKeyDataToParam dp now' k = Inr d" for now now' a b c d
    unfolding on_keys_def db_call_def
    using create_finds [of "d\<lparr>pa_AllowedModels := a, pa_CreatedAt := b, pa_Subnet := c\<rparr>" _ dp v now] data [OF that]
    by (intro hoare_ext_call) (auto simp: case_prod_unfold Let_def)
  show ?thesis
    unfolding storage_CreateAPIKey_def
    apply (rule succeeds_bindE)
    subgoal for now by (cases "newAPIKeyDataToParam dp now k") (use ins in \<open>auto simp: hoare_def\<close>)
    done
qed

lemma create_txn_finds:
  assumes "ka_Key k = Some v" "v \<noteq> []"
  shows "hoare (\<lambda>_. True) (CreateAPIKey_txn dp k) (\<lambda>r w. \<not> isl r \<longrightarrow> found_by dp v (odb w))"
proof -
  have k: "ka_Key (key_with_id dp k) = Some v" using assms by (simp add: key_with_id_def)
  have throw: "hoare (\<lambda>_. True) (throwE e) (\<lambda>r w. \<not> isl r \<longrightarrow> found_by dp v (odb w))" for e :: error
    by (simp add: hoare_def)
  show ?thesis
    unfolding CreateAPIKey_txn_def Let_def
    by (intro succeeds_bindE fails_if throw storage_create_finds) (simp_all add: k assms)
qed

lemma filter_unique: "distinct (map k xs) \<Longrightarrow> x \<in> set xs \<Longrightarrow> filter (\<lambda>y. k y = k x) xs = [x]"
  by (induction xs) (auto simp: filter_empty_conv image_iff)

lemma lookup_by_value:
  assumes "found_by dp v (odb w)" "v \<noteq> []" "faults w = []"
    and dec: "\<And>c. oc_encrypt dp v = Inr c \<Longrightarrow> qc_decrypt dp c = Inr v"
  shows "\<exists>k. run_state (storage_FetchAPIKeyList dp (Some (no_key_filter\<lparr>kf_Key := Some v\<rparr>))) w = (Inr [k], w) \<and> ka_Key k = Some v"
proof -
  let ?p = "\<lambda>r. ta_KeyHash r = oc_keyHash dp v" let ?rs = "rows (o_api_keys (odb w))"
  have "TAPIKeyList (newAPIKeyFilterToParam dp (Some (no_key_filter\<lparr>kf_Key := Some v\<rparr>))) (o_api_keys (odb w)) = filter ?p ?rs"
    using assms(2) by (simp add: TAPIKeyList_def newAPIKeyFilterToParam_def no_key_filter_def key_page_limit_def empty_TAPIKeyParam_def
      take_limit_def where_key_def [abs_def] eq_opt_def eq_null_def nonempty_opt_def)
  moreover obtain r where r: "r \<in> set ?rs" "?p r" "oc_encrypt dp v = Inr (ta_Key r)"
    using assms(1) by (auto simp: found_by_def)
  moreover have "filter ?p ?rs = [r]"
    using filter_unique [of ta_KeyHash ?rs r] assms(1) r(1,2) by (simp add: found_by_def uniq_keys_def)
  ultimately show ?thesis
    using assms(3) dec by (simp add: storage_FetchAPIKeyList_def db_read_def key_of_row_def)
qed

section \<open>The manager\<close>

text \<open>The audit of a creation writes no table.\<close>

lemma keeps_audit_db:
  "keeps (\<lambda>v. odb v = d) (audit_create_key dp k i j err)"
proof -
  have "keeps (\<lambda>v. odb v = d) (in_quota (AuditQuotaPlanCreate (qdeps dp) p i ow err))" for p ow
    by (auto simp: keeps_def hoare_def in_quota_def AuditQuotaPlanCreate_def recordQuotaPlanOperation_def quota_view_def)
  then have "keeps (\<lambda>v. odb v = d) (audit_plan_create dp p ow i err)" for p ow
    unfolding audit_plan_create_def by (intro keeps_rules)
  then show ?thesis
    unfolding audit_create_key_def recordAPIKeyOperation_def audit_policy_create_def AuditRateLimitPolicyCreate_def
      recordRateLimitPolicyOperation_def
    by (intro keeps_rules keeps_owner_log [where P = "\<lambda>v. v = d"])
qed

lemma CreateAPIKey_finds:
  assumes "ka_Key k = Some v" "v \<noteq> []" "run_state (CreateAPIKey dp k) w = (Inr (), w')"
  shows "found_by dp v (odb w')"
proof -
  let ?body = "CreateAPIKey_txn dp k"
  let ?w0 = "w\<lparr>o_vars := no_vars\<lparr>ov_param := Some k\<rparr>\<rparr>"
  obtain r w1 where txn: "run_state (owner_AtomExecute ?body) ?w0 = (r, w1)" by fastforce
  obtain i where r: "r = Inr i"
    using assms(3) txn by (cases r) (auto simp: CreateAPIKey_def set_vars_def Let_def split: prod.splits sum.splits)
  obtain u u' where "run_state ?body u = (Inr i, u')" "odb w1 = odb u'"
    using owner_txn.txn_success [of ?body ?w0 i w1] txn r by (auto simp: owner_AtomExecute_def)
  then have "found_by dp v (odb w1)"
    using hoareD [OF create_txn_finds [OF assms(1,2)]] by fastforce
  moreover have "keeps (\<lambda>w. found_by dp v (odb w)) (bindE (getsE o_vars) (\<lambda>vs. let q = the (ov_param vs) in
       case r of
         Inl err \<Rightarrow> bindE (audit_create_key dp q 0 0 (Some err)) (\<lambda>_. throwE err)
       | Inr _ \<Rightarrow>
           bindE (sync_key_quota dp q) (\<lambda>_. audit_create_key dp q (ov_planID vs) (ov_policyID vs) None)))"
    unfolding Let_def by (intro keeps_rules found.keeps_audits found.keeps_syncs)
  ultimately show ?thesis
    using keepsD assms(3) txn by (fastforce simp: CreateAPIKey_def set_vars_def)
qed

lemma CreateAPIKey_refuses:
  assumes "ka_Key k = Some v" "v \<noteq> []" "has_hash (oc_keyHash dp v) (odb w)"
  shows "\<exists>e w'. run_state (CreateAPIKey dp k) w = (Inl e, w') \<and> odb w' = odb w"
proof -
  let ?w0 = "w\<lparr>o_vars := no_vars\<lparr>ov_param := Some k\<rparr>\<rparr>"
  obtain e w1 where txn: "run_state (owner_AtomExecute (CreateAPIKey_txn dp k)) ?w0 = (Inl e, w1)" "odb w1 = odb w"
    using owner_txn.txn_fails [of ?w0 "CreateAPIKey_txn dp k"] fails_create_txn [OF assms(1,2), of dp] assms(3)
    by (force simp: hoare_def owner_AtomExecute_def isl_def)
  obtain r2 w2 where audit: "run_state (audit_create_key dp (the (ov_param (o_vars w1))) 0 0 (Some e)) w1 = (r2, w2)" by fastforce
  then have "odb w2 = odb w" using keepsD_run [OF keeps_audit_db _ audit] txn(2) by blast
  with txn(1) audit show ?thesis
    by (cases r2) (auto simp: CreateAPIKey_def set_vars_def Let_def)
qed

end
