(* ===== verification/TokenFacts.thy ===== *)
theory TokenFacts
  imports OwnerReach
begin

text \<open>
  What the tokens of the data plane mean: the models they allow, the quota plans they refer to; and the keys of the counters of rate limits.
\<close>

section \<open>The hierarchy of a key\<close>

text \<open>The entity and its ancestors, at most \<open>n\<close> of them: what the two bounded loops visit.\<close>

fun hierarchy :: "(string \<Rightarrow> EntityParam option) \<Rightarrow> nat \<Rightarrow> string \<Rightarrow> EntityParam list" where
  "hierarchy em 0 i = []"
| "hierarchy em (Suc n) i =
     (case em i of None \<Rightarrow> [] | Some e \<Rightarrow>
        e # (if nonempty_opt (ke_ParentID e) then hierarchy em n (the (ke_ParentID e)) else []))"

definition allow_lists :: "EntityParam list \<Rightarrow> string list list" where
  "allow_lists es = map ke_AllowModels (filter (\<lambda>e. ke_AllowModels e \<noteq> [] \<and> \<not> containsStar (ke_AllowModels e)) es)"

definition block_list :: "EntityParam list \<Rightarrow> string list" where
  "block_list es = concat (map ke_BlockModels (filter (\<lambda>e. ke_BlockModels e \<noteq> [] \<and> \<not> containsStar (ke_BlockModels e)) es))"

lemma model_hierarchy_eq:
  "model_hierarchy em n i allow block = (allow @ allow_lists (hierarchy em n i), block @ block_list (hierarchy em n i))"
  by (induction n arbitrary: i allow block) (auto simp: allow_lists_def block_list_def Let_def split: option.splits)

lemma set_foldl_intersect: "set (foldl intersectSlices l ls) = set l \<inter> (\<Inter>x\<in>set ls. set x)"
  by (induction ls arbitrary: l) (auto simp: intersectSlices_def)

lemma set_intersectAllowModels: "ls \<noteq> [] \<Longrightarrow> set (intersectAllowModels ls) = (\<Inter>x\<in>set ls. set x)"
  by (cases ls) (auto simp: intersectAllowModels_def set_foldl_intersect)

lemma intersect_nil [simp]: "intersectAllowModels [] = []"
  by (simp add: intersectAllowModels_def)

text \<open>The models that a list allows: all of them when the list is empty.\<close>

definition allows :: "string list \<Rightarrow> string \<Rightarrow> bool" where
  "allows l x \<longleftrightarrow> l = [] \<or> x \<in> set l"

definition key_list :: "string list \<Rightarrow> string list" where
  "key_list ms = filter (\<lambda>m. m \<noteq> [] \<and> m \<noteq> ''*'') ms"

lemma key_list_allows:
  assumes "[] \<notin> set ms" "''*'' \<in> set ms \<longrightarrow> set ms = {''*''}"
  shows "allows (key_list ms) x \<longleftrightarrow> ms = [] \<or> ''*'' \<in> set ms \<or> x \<in> set ms"
proof (cases "''*'' \<in> set ms")
  case True
  then have "\<forall>m\<in>set ms. m = ''*''" using assms(2) by blast
  then have "key_list ms = []" unfolding key_list_def filter_empty_conv by blast
  then show ?thesis using True by (simp add: allows_def)
next
  case False
  then have "key_list ms = ms" unfolding key_list_def using assms(1) by (intro filter_True) metis
  then show ?thesis using False unfolding allows_def by simp
qed

lemma token_models_cases:
  obtains (all) "key_list ks = []" "es = []" "token_models ks es = ([], True)"
  | (some) ms where "token_models ks es = (ms, True)" "ms \<noteq> []" "\<And>x. x \<in> set ms \<longleftrightarrow> allows (key_list ks) x \<and> allows es x"
  | (none) "token_models ks es = ([], False)" "key_list ks \<noteq> []" "es \<noteq> []" "\<And>x. \<not> (allows (key_list ks) x \<and> allows es x)"
proof (cases "key_list ks = []"; cases "es = []")
  assume "key_list ks = []" "es = []"
  then show ?thesis using all by (simp add: token_models_def key_list_def)
next
  assume a: "key_list ks = []" "es \<noteq> []"
  then have "token_models ks es = (es, True)" by (simp add: token_models_def key_list_def)
  then show ?thesis using some [of es] a by (simp add: allows_def)
next
  assume a: "key_list ks \<noteq> []" "es = []"
  then have "token_models ks es = (key_list ks, True)" by (simp add: token_models_def key_list_def Let_def)
  then show ?thesis using some [of "key_list ks"] a by (simp add: allows_def)
next
  assume a: "key_list ks \<noteq> []" "es \<noteq> []"
  let ?i = "intersectSlices (key_list ks) es"
  have i: "x \<in> set ?i \<longleftrightarrow> allows (key_list ks) x \<and> allows es x" for x
    using a by (auto simp: intersectSlices_def allows_def)
  show ?thesis
  proof (cases "?i = []")
    case True
    then have "token_models ks es = ([], False)" using a by (simp add: token_models_def key_list_def Let_def)
    then show ?thesis using none a i True by simp
  next
    case False
    then have "token_models ks es = (?i, True)" using a by (simp add: token_models_def key_list_def Let_def)
    then show ?thesis using some [of ?i] i False by simp
  qed
qed

definition entity_lists :: "owner_deps \<Rightarrow> (string \<Rightarrow> EntityParam option) \<Rightarrow> APIKeyParam \<Rightarrow> string list list" where
  "entity_lists dp em k = (if nonempty_opt (ka_EntityID k) \<and> qc_entityStorager dp
     then allow_lists (hierarchy em maxEntityHierarchyDepth (the (ka_EntityID k))) else [])"

lemma build_token_models:
  assumes "build_token dp em qm tm k key keyID product c = Inr (t, c')"
  shows "tf_Models t = Some (join_comma (fst (token_models (ka_Models k) (intersectAllowModels (entity_lists dp em k))))) \<and>
    tf_Enabled t = (ka_Enable k = Some True \<and> snd (token_models (ka_Models k) (intersectAllowModels (entity_lists dp em k))))"
proof -
  have "(if nonempty_opt (ka_EntityID k) \<and> qc_entityStorager dp
       then fetchEntityModelHierarchy em (the (ka_EntityID k)) else ([], [])) =
     (intersectAllowModels (entity_lists dp em k), if nonempty_opt (ka_EntityID k) \<and> qc_entityStorager dp
       then block_list (hierarchy em maxEntityHierarchyDepth (the (ka_EntityID k))) else [])"
    by (simp add: fetchEntityModelHierarchy_def model_hierarchy_eq entity_lists_def)
  then show ?thesis
    using assms by (auto simp: build_token_def Let_def split: sum.splits prod.splits)
qed

section \<open>Quota plans of a token\<close>

definition plan_ids :: "collected \<Rightarrow> string \<Rightarrow> string set" where
  "plan_ids c product = xq_Id ` set (alist_get c product [])"

lemma alist_get_set: "alist_get (alist_set k v m) k' d = (if k' = k then v else alist_get m k' d)"
  by (simp add: alist_get_def)

lemma in_alist_set: "p \<in> set (alist_set k v m) \<Longrightarrow> p = (k, v) \<or> p \<in> set m"
  by (induction m) (auto split: if_splits)

lemma plan_ids_collect: "plan_ids (collect_plan p qp c) p' = plan_ids c p' \<union> (if p' = p then {xq_Id qp} else {})"
  by (auto simp: plan_ids_def collect_plan_def alist_get_set)

lemma use_plan_refs:
  assumes "set (snd acc) \<subseteq> plan_ids (fst acc) product"
  shows "set (snd (use_plan dp qm product planID ow acc)) \<subseteq> plan_ids (fst (use_plan dp qm product planID ow acc)) product \<and>
    (\<forall>p. plan_ids (fst acc) p \<subseteq> plan_ids (fst (use_plan dp qm product planID ow acc)) p)"
  using assms by (auto simp: use_plan_def plan_ids_collect convertQuotaPlanToExport_def split: option.splits)

lemma plan_hierarchy_refs:
  assumes "plan_hierarchy dp em qm tm n i product acc tags = Inr (acc', tags')" "set (snd acc) \<subseteq> plan_ids (fst acc) product"
  shows "set (snd acc') \<subseteq> plan_ids (fst acc') product \<and> (\<forall>p. plan_ids (fst acc) p \<subseteq> plan_ids (fst acc') p)"
  using assms
proof (induction n arbitrary: i acc tags)
  case (Suc n)
  show ?case
  proof (cases "em i")
    case None
    then show ?thesis using Suc.prems by simp
  next
    case (Some e)
    then obtain tg where tg: "entity_tag dp tm e = Inr tg" using Suc.prems by (auto split: sum.splits)
    let ?acc = "use_plan dp qm product (ke_QuotaPlanID e) (ke_EntityID e) acc"
    note u = use_plan_refs [OF Suc.prems(2), of dp qm "ke_QuotaPlanID e" "ke_EntityID e"]
    show ?thesis
    proof (cases "nonempty_opt (ke_ParentID e)")
      case True
      then have "plan_hierarchy dp em qm tm n (the (ke_ParentID e)) product ?acc (tags @ tg) = Inr (acc', tags')"
        using Suc.prems Some tg by (simp add: Let_def)
      then show ?thesis using Suc.IH u by blast
    next
      case False
      then show ?thesis using Suc.prems Some tg u by (auto simp: Let_def)
    qed
  qed
qed simp

lemma build_token_refs:
  assumes "build_token dp em qm tm k key keyID product c = Inr (t, c')"
  shows "set (tf_QuotaPlans t) \<subseteq> plan_ids c' product \<and> (\<forall>p. plan_ids c p \<subseteq> plan_ids c' p)"
proof -
  let ?acc = "use_plan dp qm product (ka_QuotaPlanID k) (ka_Key k) (c, [])"
  obtain plans tags where f: "fetchQuotaPlansWithEntityHierarchy dp em qm tm k product c = Inr ((c', plans), tags)"
    "tf_QuotaPlans t = plans"
    using assms by (auto simp: build_token_def Let_def split: sum.splits prod.splits)
  have u: "set (snd ?acc) \<subseteq> plan_ids (fst ?acc) product \<and> (\<forall>p. plan_ids c p \<subseteq> plan_ids (fst ?acc) p)"
    using use_plan_refs [of "(c, [])" product dp qm "ka_QuotaPlanID k" "ka_Key k"] by simp
  show ?thesis
  proof (cases "nonempty_opt (ka_EntityID k) \<and> qc_entityStorager dp")
    case True
    then have "plan_hierarchy dp em qm tm maxEntityHierarchyDepth (the (ka_EntityID k)) product ?acc [] = Inr ((c', plans), tags)"
      using f(1) by (simp add: fetchQuotaPlansWithEntityHierarchy_def Let_def)
    from plan_hierarchy_refs [OF this] u f(2) show ?thesis by fastforce
  next
    case False
    then have "?acc = (c', plans)"
      using f(1) by (auto simp: fetchQuotaPlansWithEntityHierarchy_def Let_def split: if_splits)
    then show ?thesis using u f(2) by simp
  qed
qed

definition refs_declared :: "TokenExportData \<Rightarrow> bool" where
  "refs_declared conf \<longleftrightarrow> (\<forall>product key t. (key, t) \<in> set (alist_get (td_Tokens conf) product []) \<longrightarrow>
     set (tf_QuotaPlans t) \<subseteq> plan_ids (td_QuotaPlans conf) product)"

lemma add_token_in:
  assumes "add_token enc product key t tokens = Inr tokens'" "(k, u) \<in> set (alist_get tokens' p [])"
  shows "(k, u) \<in> set (alist_get tokens p []) \<or> p = product \<and> tf_QuotaPlans u = tf_QuotaPlans t"
proof (cases enc)
  case None
  then show ?thesis using assms by (auto simp: add_token_def alist_get_set split: if_splits dest!: in_alist_set)
next
  case (Some f)
  then show ?thesis using assms
    by (cases "f key") (auto simp: add_token_def alist_get_set split: if_splits dest!: in_alist_set)
qed

lemma build_tokens_refs:
  "build_tokens dp enc em qm tm ks conf = Inr conf' \<Longrightarrow> refs_declared conf \<Longrightarrow> refs_declared conf'"
proof (induction ks arbitrary: conf)
  case (Cons k ks)
  obtain key keyID product where k: "ka_Key k = Some key" "ka_ID k = Some keyID" "ka_ProductName k = Some product"
    using Cons.prems(1) by (auto split: option.splits)
  obtain t c' where b: "build_token dp em qm tm k key keyID product (td_QuotaPlans conf) = Inr (t, c')"
    using Cons.prems(1) k by (auto split: sum.splits)
  obtain tokens where a: "add_token enc product key t (td_Tokens conf) = Inr tokens"
    using Cons.prems(1) k b by (auto split: sum.splits)
  have "refs_declared \<lparr>td_QuotaPlans = c', td_Tokens = tokens\<rparr>"
    unfolding refs_declared_def
  proof (intro allI impI)
    fix p key' u assume "(key', u) \<in> set (alist_get (td_Tokens \<lparr>td_QuotaPlans = c', td_Tokens = tokens\<rparr>) p [])"
    then have "(key', u) \<in> set (alist_get (td_Tokens conf) p []) \<or> p = product \<and> tf_QuotaPlans u = tf_QuotaPlans t"
      using add_token_in [OF a] by simp
    then show "set (tf_QuotaPlans u) \<subseteq> plan_ids (td_QuotaPlans \<lparr>td_QuotaPlans = c', td_Tokens = tokens\<rparr>) p"
      using Cons.prems(2) build_token_refs [OF b] by (fastforce simp: refs_declared_def)
  qed
  then show ?case using Cons.IH Cons.prems(1) k b a by simp
qed simp

section \<open>The counters of rate limits\<close>

lemma split_at_sep:
  "x \<notin> set a \<Longrightarrow> x \<notin> set b \<Longrightarrow> a @ x # c = b @ x # e \<Longrightarrow> a = b \<and> c = e"
  by (induction a arbitrary: b) (auto simp: Cons_eq_append_conv append_eq_Cons_conv)

definition limit_kinds :: "string list" where
  "limit_kinds = [''RL_TPM'', ''RL_RPM'', ''RL_BATCH'']"

lemma limit_key_inj:
  assumes "BuildBFERateLimitRedisKey i ty n = BuildBFERateLimitRedisKey j ty' n'" "ty \<in> set limit_kinds" "ty' \<in> set limit_kinds"
  shows "i = j \<and> ty = ty' \<and> n = n'"
proof -
  have "show_int i @ CHR ''_'' # ty @ ''_rlp-'' @ show_int i @ ''_'' @ n = show_int j @ CHR ''_'' # ty' @ ''_rlp-'' @ show_int j @ ''_'' @ n'"
    using assms(1) by (simp add: BuildBFERateLimitRedisKey_def)
  from split_at_sep [OF show_int_no_underscore show_int_no_underscore this]
  have "show_int i = show_int j" and rest: "ty @ ''_rlp-'' @ show_int i @ ''_'' @ n = ty' @ ''_rlp-'' @ show_int j @ ''_'' @ n'" by blast+
  then have "i = j" by (blast intro: show_int_inj)
  with rest assms(2,3) show ?thesis by (auto simp: limit_kinds_def)
qed

lemma deleted_limit_key:
  assumes "\<not> Contains (CHR ''_'' # n) ''_rlp-''" "ty = ''RL_TPM'' \<or> ty = ''RL_RPM''"
    "BuildBFERateLimitRedisKey i ty n \<in> set (buildTpmRpmRateLimitRedisKeys i oldRules)"
  shows "BuildBFERateLimitRedisKey i ty n \<in> set (DiffRateLimitRedisKeys i oldRules newRules) \<longleftrightarrow> n \<notin> set (rule_names newRules)"
proof -
  have "BuildBFERateLimitRedisKey i ty n \<noteq> BuildBatchRateLimitRedisKey i"
    using limit_key_inj [of i ty n i "''RL_BATCH''" "''rpm''"] assms(2) by (auto simp: BuildBatchRateLimitRedisKey_def limit_kinds_def)
  then show ?thesis
    using assms extract_built_key [of n i ty] by (auto simp: DiffRateLimitRedisKeys_def)
qed

lemma deleted_batch_key:
  "BuildBatchRateLimitRedisKey i \<in> set (DiffRateLimitRedisKeys i oldRules newRules) \<longleftrightarrow>
   BatchRateLimitEnabled oldRules \<and> \<not> BatchRateLimitEnabled newRules"
proof -
  have "BuildBatchRateLimitRedisKey i \<notin> set (buildTpmRpmRateLimitRedisKeys i oldRules)"
    using limit_key_inj [of i "''RL_BATCH''" "''rpm''" i]
    by (auto simp: BuildBatchRateLimitRedisKey_def buildTpmRpmRateLimitRedisKeys_def limit_kinds_def split: option.splits)
  then show ?thesis by (auto simp: DiffRateLimitRedisKeys_def)
qed

lemma deleted_are_old: "set (DiffRateLimitRedisKeys i oldRules newRules) \<subseteq> set (BuildRateLimitRedisKeys i oldRules)"
  by (auto simp: DiffRateLimitRedisKeys_def BuildRateLimitRedisKeys_def)

end
