(* ===== verification/OwnerProperties.thy ===== *)
theory OwnerProperties
  imports KeyValue TokenFacts
begin

text \<open>
  The properties of the owners and their witnesses: the tree of entities and the walks over it, API keys and their values, the counters of
  rate limits, and what the data plane is told about keys.
\<close>

section \<open>The tree of entities\<close>

text \<open>
  C22. Whatever sequence of these operations has run on empty tables, with whatever failures -- creating entity types; creating entities,
  changing them without naming a type or a new id, and deleting them by their id, as the endpoints do; creating, changing and deleting API
  keys --, every parent that an entity names exists, and the relation from entities to parents has no cycle. Changes and deletions of entity
  types, and deletions of entities by another filter, which look for the children of the first row only, are not among the operations.\<close>

theorem entity_tree_has_no_cycle:
  assumes "owner_reach d"
  shows "acyclic (parent_ids d) \<and> snd ` parent_ids d \<subseteq> te_EntityID ` set (rows (o_entities d))"
  using tree_parents [OF reach_tree [OF assms]] by blast

lemma example_reach: "owner_reach (odb example_world)"
proof -
  have dp: "oc_entityTypeStorager owner_example_deps" by (simp add: owner_example_deps_def)
  have "owner_reach (odb owner_empty_world)" using start by (simp add: owner_empty_world_def)
  then show ?thesis
    unfolding example_world_def example_ops_def
    by (simp add: step [OF _ dp] op_ok_def)
qed

theorem entity_tree_has_no_cycle_witness:
  "(''blue'', ''acme'') \<in> parent_ids (odb example_world) \<and> acyclic (parent_ids (odb example_world))"
proof -
  have "(''blue'', ''team'', Some ''acme'') \<in> (\<lambda>r. (te_EntityID r, te_Type r, te_ParentID r)) ` set (rows (o_entities (odb example_world)))"
    unfolding set_map [symmetric] example_world_rows by simp
  then have "(''blue'', ''acme'') \<in> parent_ids (odb example_world)" by (auto simp: parent_ids_def)
  then show ?thesis using entity_tree_has_no_cycle [OF example_reach] by simp
qed

text \<open>
  C23. On every table that such a history leaves, the exports of the rate limits and of the routes return, though neither walk up the
  hierarchy is bounded: with a result or with an error, whatever reads fail.\<close>

theorem exports_terminate:
  assumes "owner_reach (odb w)"
  shows "RateLimitPolicyGenerator dp w \<noteq> None \<and> AIRouteGenerator dp w \<noteq> None"
  using RateLimitPolicyGenerator_returns [OF reach_tree [OF assms], of dp]
    AIRouteGenerator_returns [OF reach_tree [OF assms], of dp] by auto

theorem exports_terminate_witness:
  "RateLimitPolicyGenerator owner_example_deps (example_world\<lparr>faults := [NoFault, FaultBefore]\<rparr>) \<noteq> None \<and>
   AIRouteGenerator owner_example_deps (example_world\<lparr>faults := [NoFault, FaultBefore]\<rparr>) \<noteq> None"
  by (rule exports_terminate) (simp add: example_reach)

text \<open>
  C24. In a reached table the recursion over the hierarchy collects, without failures, exactly the policies of the entity and of its
  ancestors, from the entity up; as many levels as there are entities are enough to list them.\<close>

theorem hierarchy_policies_are_the_lineage:
  assumes "owner_reach (odb w)" "faults w = []" "qc_entityStorager dp" "r \<in> set (rows (o_entities (odb w)))"
  shows "fetchEntityRateLimitPolicyIDs dp (entity_of_row dp r) w =
    Some (Inr (concat (map (\<lambda>x. own_policy (te_RateLimitPolicyID x))
      (lineage (odb w) (length (rows (o_entities (odb w)))) r))), w)"
  using policy_walk_result [OF reach_tree [OF assms(1)] assms(4,2,3)] lower_rows_bound [OF assms(4)] by simp

definition policy_world :: owner_world where
  "policy_world = fold (exec_op owner_example_deps)
     (take 2 example_ops @ [OpCreateEntity ((new_entity ''acme'' ''org'' None)\<lparr>ke_RateLimitPolicy := Some \<lparr>sr_Enabled = Some True, sr_Rules = None\<rparr>\<rparr>),
       OpCreateEntity ((new_entity ''blue'' ''team'' (Some ''acme''))\<lparr>ke_RateLimitPolicy := Some \<lparr>sr_Enabled = Some True, sr_Rules = None\<rparr>\<rparr>)]) owner_empty_world"

theorem hierarchy_policies_are_the_lineage_witness:
  "fetchEntityRateLimitPolicyIDs owner_example_deps (entity_of_row owner_example_deps (rows (o_entities (odb policy_world)) ! 1)) policy_world =
   Some (Inr [2, 1], policy_world)"
proof -
  have dp: "oc_entityTypeStorager owner_example_deps" by (simp add: owner_example_deps_def)
  have "owner_reach (odb owner_empty_world)" using start by (simp add: owner_empty_world_def)
  then have "owner_reach (odb policy_world)"
    unfolding policy_world_def example_ops_def by (simp add: step [OF _ dp] op_ok_def)
  moreover have "faults policy_world = []" by code_simp
  moreover have "length (rows (o_entities (odb policy_world))) = 2" by code_simp
  moreover have "concat (map (\<lambda>x. own_policy (te_RateLimitPolicyID x))
      (lineage (odb policy_world) 2 (rows (o_entities (odb policy_world)) ! 1))) = [2, 1]" by code_simp
  ultimately show ?thesis
    using hierarchy_policies_are_the_lineage [of policy_world owner_example_deps "rows (o_entities (odb policy_world)) ! 1"]
    by (simp add: owner_example_deps_def)
qed

lemma all_ok_in: "all_ok f xs = Inr ys \<Longrightarrow> x \<in> set xs \<Longrightarrow> \<exists>y\<in>set ys. f x = Inr y"
  by (induction xs arbitrary: ys) (auto split: sum.splits)

lemma all_ok_total: "(\<And>x. x \<in> set xs \<Longrightarrow> \<exists>y. f x = Inr y) \<Longrightarrow> \<exists>ys. all_ok f xs = Inr ys"
  by (induction xs) fastforce+

text \<open>
  The export of the rate limits does not return when the entity of some key is on a cycle: entities that all have a parent among
  themselves. Such a cycle is made by two accepted requests, one that changes the level of a type that entities have and one
  that moves an entity; the witness runs them.\<close>

theorem cycle_stops_the_export:
  assumes "\<forall>r\<in>S. \<exists>q\<in>S. parent_row (odb w) r = Some q" and "qc_entityStorager dp" and "faults w = []"
    and "r \<in> S" "entity_row (odb w) i = Some r" "i \<noteq> []"
    and "all_ok (key_of_row dp) (rows (o_api_keys (odb w))) = Inr ks"
    and "k \<in> set (rows (o_api_keys (odb w)))" "ta_EntityID k = Some i"
  shows "RateLimitPolicyGenerator dp w = None"
proof -
  obtain k' where k': "k' \<in> set ks" "key_of_row dp k = Inr k'"
    using all_ok_in [OF assms(7,8)] by blast
  then have "ka_Key k' \<noteq> None" "ka_EntityID k' = Some i"
    using assms(9) by (auto simp: key_of_row_def split: sum.splits)
  then have "bind_keys dp pm ks conf w = None" for pm conf
    using bind_keys_cycle [of S w dp r i k' ks] assms k' by blast
  moreover have "TAPIKeyList (newAPIKeyFilterToParam dp (Some no_key_filter)) (o_api_keys (odb w)) = rows (o_api_keys (odb w))"
    by (simp add: TAPIKeyList_def newAPIKeyFilterToParam_def no_key_filter_def key_page_limit_def empty_TAPIKeyParam_def
      take_limit_def where_key_def eq_opt_def eq_null_def nonempty_opt_def)
  ultimately show ?thesis
    using assms(3,7)
    by (simp add: RateLimitPolicyGenerator_def then_run_def wrap_error_def running_def storage_FetchAPIKeyList_def db_read_def
      storage_FetchRateLimitPolicyList_def)
qed

definition new_key :: "string \<Rightarrow> string \<Rightarrow> APIKeyParam" where
  "new_key v i = \<lparr>ka_ID = Some (''id-'' @ v), ka_Key = Some v, ka_KeyCreateAt = None, ka_Enable = Some True, ka_CreateTime = None,
     ka_UpdatedTime = None, ka_Description = None, ka_UnlimitedQuota = None, ka_ExpiredTime = None, ka_Models = [],
     ka_Subnet = [], ka_EntityID = Some i, ka_QuotaPlanID = None, ka_RateLimitPolicyID = None, ka_RouteRulesID = None,
     ka_ProductName = Some ''product'', ka_InnerID = None, ka_QuotaPlan = None, ka_RateLimitPolicy = None,
     ka_RouteRules = None, ka_Entity = None\<rparr>"

definition cycle_world :: owner_world where
  "cycle_world =
     (let w0 = exec_op owner_example_deps (OpCreateKey (new_key ''sk-1'' ''blue'')) example_world;
          w1 = snd (run_state (UpdateEntityType owner_example_deps (Some (type_named ''org''))
                 ((new_type ''org'' 3)\<lparr>kt_TypeName := None\<rparr>)) w0)
      in exec_op owner_example_deps (OpUpdateEntity (entity_by_id (Some ''acme'')) (no_entity\<lparr>ke_ParentID := Some ''blue''\<rparr>)) w1)"

definition owner_summary :: "owner_world \<Rightarrow> fault list \<times> (string \<times> string option) list \<times> string option list" where
  "owner_summary w = (faults w, map (\<lambda>r. (te_EntityID r, te_ParentID r)) (rows (o_entities (odb w))),
     map ta_EntityID (rows (o_api_keys (odb w))))"

lemma cycle_world_summary:
  "owner_summary cycle_world =
     ([], [(''acme'', Some ''blue''), (''blue'', Some ''acme'')], [Some ''blue''])"
  by code_simp

theorem cycle_stops_the_export_witness:
  "RateLimitPolicyGenerator owner_example_deps cycle_world = None"
proof -
  obtain a b where rows: "rows (o_entities (odb cycle_world)) = [a, b]"
    and a: "te_EntityID a = ''acme''" "te_ParentID a = Some ''blue''"
    and b: "te_EntityID b = ''blue''" "te_ParentID b = Some ''acme''"
    using cycle_world_summary by (auto simp: owner_summary_def map_eq_Cons_conv)
  obtain k where k: "k \<in> set (rows (o_api_keys (odb cycle_world)))" "ta_EntityID k = Some ''blue''"
    using cycle_world_summary by (auto simp: owner_summary_def map_eq_Cons_conv)
  have "\<forall>r\<in>{a, b}. \<exists>q\<in>{a, b}. parent_row (odb cycle_world) r = Some q" "entity_row (odb cycle_world) ''blue'' = Some b"
    by (simp_all add: parent_row_def entity_row_def rows a b nonempty_opt_def)
  moreover have "\<exists>ks. all_ok (key_of_row owner_example_deps) (rows (o_api_keys (odb cycle_world))) = Inr ks"
    by (rule all_ok_total) (simp add: key_of_row_def owner_example_deps_def)
  ultimately show ?thesis
    using cycle_stops_the_export [of "{a, b}" cycle_world owner_example_deps b "''blue''"] cycle_world_summary k
    by (auto simp: owner_example_deps_def owner_summary_def)
qed

section \<open>The values of API keys\<close>

text \<open>
  C25. Changing a key never changes its stored value, its hash or its row, whatever the request carries and whatever fails.\<close>

theorem key_value_is_fixed:
  "stored_values (odb (snd (run_state (UpdateAPIKey dp f k) w))) = stored_values (odb w)"
  using keepsD [OF UpdateAPIKey_keeps_values, of w "stored_values (odb w)" dp f k] by simp

text \<open>
  C26. When the creation of a key reports success, whatever failed on the way, the lookup by its value finds exactly one key, and it has
  this value; it is assumed that a value that was encrypted is decrypted to itself.\<close>

theorem created_key_is_found:
  assumes "run_state (CreateAPIKey dp k) w = (Inr (), w')" and "ka_Key k = Some v" "v \<noteq> []"
    and "\<And>c. oc_encrypt dp v = Inr c \<Longrightarrow> qc_decrypt dp c = Inr v"
  shows "\<exists>k'. run_state (storage_FetchAPIKeyList dp (Some (no_key_filter\<lparr>kf_Key := Some v\<rparr>))) (w'\<lparr>faults := []\<rparr>) =
    (Inr [k'], w'\<lparr>faults := []\<rparr>) \<and> ka_Key k' = Some v"
  using lookup_by_value [of dp v "w'\<lparr>faults := []\<rparr>"] CreateAPIKey_finds [OF assms(2,3,1)] assms(3,4) by simp

lemma example_create: "fst (run_state (CreateAPIKey owner_example_deps (new_key ''sk-1'' ''blue'')) example_world) = Inr ()"
  by code_simp

theorem created_key_is_found_witness:
  "\<exists>w' k'. run_state (CreateAPIKey owner_example_deps (new_key ''sk-1'' ''blue'')) example_world = (Inr (), w') \<and>
    fst (run_state (storage_FetchAPIKeyList owner_example_deps (Some (no_key_filter\<lparr>kf_Key := Some ''sk-1''\<rparr>))) (w'\<lparr>faults := []\<rparr>)) =
      Inr [k'] \<and> ka_Key k' = Some ''sk-1''"
proof -
  obtain w' where w': "run_state (CreateAPIKey owner_example_deps (new_key ''sk-1'' ''blue'')) example_world = (Inr (), w')"
    using example_create by (metis fst_conv surj_pair)
  from created_key_is_found [OF this, of "''sk-1''"]
  obtain k' where "run_state (storage_FetchAPIKeyList owner_example_deps (Some (no_key_filter\<lparr>kf_Key := Some ''sk-1''\<rparr>))) (w'\<lparr>faults := []\<rparr>) =
    (Inr [k'], w'\<lparr>faults := []\<rparr>)" "ka_Key k' = Some ''sk-1''"
    by (auto simp: new_key_def owner_example_deps_def)
  with w' show ?thesis by auto
qed

text \<open>
  A key with a value that is already stored is never created: the request fails and no table changes, whatever else fails.\<close>

theorem stored_value_is_refused:
  assumes "ka_Key k = Some v" "v \<noteq> []" "oc_keyHash dp v \<in> ta_KeyHash ` set (rows (o_api_keys (odb w)))"
  shows "\<exists>e w'. run_state (CreateAPIKey dp k) w = (Inl e, w') \<and> odb w' = odb w"
  using CreateAPIKey_refuses [OF assms(1,2)] assms(3) by (simp add: has_hash_def)

theorem stored_value_is_refused_witness:
  "\<exists>w' e w''. run_state (CreateAPIKey owner_example_deps (new_key ''sk-1'' ''blue'')) example_world = (Inr (), w') \<and>
    run_state (CreateAPIKey owner_example_deps ((new_key ''sk-1'' ''acme'')\<lparr>ka_ID := Some ''other''\<rparr>)) w' = (Inl e, w'') \<and> odb w'' = odb w'"
proof -
  obtain w' where w': "run_state (CreateAPIKey owner_example_deps (new_key ''sk-1'' ''blue'')) example_world = (Inr (), w')"
    using example_create by (metis fst_conv surj_pair)
  have "found_by owner_example_deps ''sk-1'' (odb w')"
    by (rule CreateAPIKey_finds [OF _ _ w']) (simp_all add: new_key_def)
  then have "oc_keyHash owner_example_deps ''sk-1'' \<in> ta_KeyHash ` set (rows (o_api_keys (odb w')))"
    unfolding found_by_def by (metis imageI)
  from stored_value_is_refused [OF _ _ this, of "(new_key ''sk-1'' ''acme'')\<lparr>ka_ID := Some ''other''\<rparr>"]
  have "\<exists>e w''. run_state (CreateAPIKey owner_example_deps ((new_key ''sk-1'' ''acme'')\<lparr>ka_ID := Some ''other''\<rparr>)) w' = (Inl e, w'') \<and>
      odb w'' = odb w'"
    by (simp add: new_key_def)
  with w' show ?thesis by blast
qed

section \<open>Tokens\<close>



definition example_entities :: "string list \<Rightarrow> string list \<Rightarrow> string \<Rightarrow> EntityParam option" where
  "example_entities a b i = (if i = ''blue'' then Some ((new_entity ''blue'' ''team'' (Some ''acme''))\<lparr>ke_AllowModels := a\<rparr>)
     else if i = ''acme'' then Some ((new_entity ''acme'' ''org'' None)\<lparr>ke_AllowModels := b\<rparr>) else None)"

definition example_token :: "string list \<Rightarrow> string list \<Rightarrow> string list \<Rightarrow> error + TokenFile \<times> collected" where
  "example_token ms a b = build_token (owner_example_deps\<lparr>oc_entityTypeStorager := False\<rparr>) (example_entities a b) (\<lambda>_. None) (\<lambda>_. None)
     ((new_key ''sk-1'' ''blue'')\<lparr>ka_Models := ms\<rparr>) ''sk-1'' ''id-1'' ''product'' []"

lemma example_lists:
  assumes "a \<noteq> []" "b \<noteq> []" "''*'' \<notin> set a" "''*'' \<notin> set b"
  shows "entity_lists (owner_example_deps\<lparr>oc_entityTypeStorager := False\<rparr>) (example_entities a b) ((new_key ''sk-1'' ''blue'')\<lparr>ka_Models := ms\<rparr>) = [a, b]"
  using assms
  by (simp add: entity_lists_def new_key_def owner_example_deps_def maxEntityHierarchyDepth_def eval_nat_numeral example_entities_def
    new_entity_def no_entity_def allow_lists_def containsStar_def nonempty_opt_def)

lemma example_token_built: "\<exists>t c'. example_token ms a b = Inr (t, c')"
  by (simp add: example_token_def build_token_def fetchQuotaPlansWithEntityHierarchy_def use_plan_def entity_tag_def
    new_key_def owner_example_deps_def maxEntityHierarchyDepth_def eval_nat_numeral example_entities_def
    new_entity_def no_entity_def nonempty_opt_def Let_def split: prod.splits)


text \<open>
  When the lists of the entities of a key have no model in common and the key itself is not restricted, the token stays enabled and
  its list of models is empty, so that it allows every model, instead of none.\<close>

theorem disjoint_entities_open_the_token:
  assumes "build_token dp em qm tm k key keyID product c = Inr (t, c')" and "ka_Enable k = Some True"
    and "entity_lists dp em k \<noteq> []" "(\<Inter>l\<in>set (entity_lists dp em k). set l) = {}" "key_list (ka_Models k) = []"
  shows "tf_Enabled t \<and> tf_Models t = Some []"
proof -
  have "intersectAllowModels (entity_lists dp em k) = []"
    using set_intersectAllowModels [OF assms(3)] assms(4) by simp
  moreover have "token_models (ka_Models k) [] = ([], True)"
    using assms(5) by (simp add: token_models_def key_list_def)
  ultimately show ?thesis using build_token_models [OF assms(1)] assms(2) by simp
qed

theorem disjoint_entities_open_the_token_witness:
  "\<exists>t c'. example_token [] [''m1''] [''m2''] = Inr (t, c') \<and> tf_Enabled t \<and> tf_Models t = Some []"
proof -
  obtain t c' where t: "example_token [] [''m1''] [''m2''] = Inr (t, c')" using example_token_built by blast
  have l: "entity_lists (owner_example_deps\<lparr>oc_entityTypeStorager := False\<rparr>) (example_entities [''m1''] [''m2''])
      ((new_key ''sk-1'' ''blue'')\<lparr>ka_Models := []\<rparr>) = [[''m1''], [''m2'']]"
    by (rule example_lists) simp_all
  have e: "ka_Enable ((new_key ''sk-1'' ''blue'')\<lparr>ka_Models := []\<rparr>) = Some True"
    "key_list (ka_Models ((new_key ''sk-1'' ''blue'')\<lparr>ka_Models := []\<rparr>)) = []"
    by (simp_all add: new_key_def key_list_def)
  from disjoint_entities_open_the_token [OF t [unfolded example_token_def] e(1), unfolded l e(2)] t
  show ?thesis by simp
qed

text \<open>
  In every exported set of tokens the quota plans that a token refers to are exported for its product.\<close>

theorem token_quota_plans_are_declared:
  assumes "run_state (token_export dp enc) w = (Inr conf, w')"
  shows "refs_declared conf"
proof -
  obtain ks em qm tm where "build_tokens dp enc em qm tm ks \<lparr>td_QuotaPlans = [], td_Tokens = []\<rparr> = Inr conf"
    using assms by (auto simp: token_export_def split: prod.splits sum.splits)
  then show ?thesis by (rule build_tokens_refs) (simp add: refs_declared_def alist_get_def)
qed

theorem token_quota_plans_are_declared_witness:
  "\<exists>conf w'. run_state (token_export owner_example_deps None) cycle_world = (Inr conf, w') \<and> td_Tokens conf \<noteq> [] \<and> refs_declared conf"
proof -
  have "case fst (run_state (token_export owner_example_deps None) cycle_world) of Inl _ \<Rightarrow> False | Inr conf \<Rightarrow> td_Tokens conf \<noteq> []"
    by code_simp
  then obtain conf w' where "run_state (token_export owner_example_deps None) cycle_world = (Inr conf, w')" "td_Tokens conf \<noteq> []"
    by (cases "run_state (token_export owner_example_deps None) cycle_world") (auto split: sum.splits)
  then show ?thesis using token_quota_plans_are_declared by blast
qed

section \<open>The counters of rate limits\<close>

text \<open>
  Limits of different policies, kinds or names count under different Redis keys. After a change of a policy the keys to delete are
  old ones; the key of an old limit is among them exactly when no new limit, of either kind, has its name, and the key of the batch limit
  exactly when the batch limit was switched off, as long as the name of the old limit does not look like the end of a key.\<close>

theorem removed_limits_lose_their_counters:
  assumes "oldRules = Some r" "\<forall>n\<in>set (rule_names oldRules). \<not> Contains (CHR ''_'' # n) ''_rlp-''"
  shows "set (DiffRateLimitRedisKeys i oldRules newRules) \<subseteq> set (BuildRateLimitRedisKeys i oldRules) \<and>
    (\<forall>c\<in>set (lr_TpmConfigs r). BuildBFERateLimitRedisKey i ''RL_TPM'' (tc_Name c) \<in> set (DiffRateLimitRedisKeys i oldRules newRules) \<longleftrightarrow>
       tc_Name c \<notin> set (rule_names newRules)) \<and>
    (\<forall>c\<in>set (lr_RpmConfigs r). BuildBFERateLimitRedisKey i ''RL_RPM'' (rc_Name c) \<in> set (DiffRateLimitRedisKeys i oldRules newRules) \<longleftrightarrow>
       rc_Name c \<notin> set (rule_names newRules)) \<and>
    (BuildBatchRateLimitRedisKey i \<in> set (DiffRateLimitRedisKeys i oldRules newRules) \<longleftrightarrow>
       BatchRateLimitEnabled oldRules \<and> \<not> BatchRateLimitEnabled newRules) \<and>
    inj_on (\<lambda>(p, ty, n). BuildBFERateLimitRedisKey p ty n) (UNIV \<times> set limit_kinds \<times> UNIV)"
proof (intro conjI ballI)
  show "set (DiffRateLimitRedisKeys i oldRules newRules) \<subseteq> set (BuildRateLimitRedisKeys i oldRules)" by (rule deleted_are_old)
  show "BuildBFERateLimitRedisKey i ''RL_TPM'' (tc_Name c) \<in> set (DiffRateLimitRedisKeys i oldRules newRules) \<longleftrightarrow>
       tc_Name c \<notin> set (rule_names newRules)" if "c \<in> set (lr_TpmConfigs r)" for c
    using that assms by (intro deleted_limit_key) (auto simp: rule_names_def buildTpmRpmRateLimitRedisKeys_def)
  show "BuildBFERateLimitRedisKey i ''RL_RPM'' (rc_Name c) \<in> set (DiffRateLimitRedisKeys i oldRules newRules) \<longleftrightarrow>
       rc_Name c \<notin> set (rule_names newRules)" if "c \<in> set (lr_RpmConfigs r)" for c
    using that assms by (intro deleted_limit_key) (auto simp: rule_names_def buildTpmRpmRateLimitRedisKeys_def)
  show "BuildBatchRateLimitRedisKey i \<in> set (DiffRateLimitRedisKeys i oldRules newRules) \<longleftrightarrow>
       BatchRateLimitEnabled oldRules \<and> \<not> BatchRateLimitEnabled newRules" by (rule deleted_batch_key)
  show "inj_on (\<lambda>(p, ty, n). BuildBFERateLimitRedisKey p ty n) (UNIV \<times> set limit_kinds \<times> UNIV)"
    by (auto simp: inj_on_def dest: limit_key_inj)
qed

definition example_rules :: "string list \<Rightarrow> RateLimitRules option" where
  "example_rules ns = Some \<lparr>lr_TpmConfigs = map (\<lambda>n. \<lparr>tc_Name = n, tc_Model = ''*'', tc_WindowMinutes = 1, tc_MaxTokens = 1, tc_StepMinutes = 1\<rparr>) ns,
     lr_RpmConfigs = [], lr_MaxConcurrency = None, lr_BatchLimits = None\<rparr>"

theorem removed_limits_lose_their_counters_witness:
  "BuildBFERateLimitRedisKey 7 ''RL_TPM'' ''fast'' \<in> set (DiffRateLimitRedisKeys 7 (example_rules [''fast'', ''slow'']) (example_rules [''slow''])) \<and>
   BuildBFERateLimitRedisKey 7 ''RL_TPM'' ''slow'' \<notin> set (DiffRateLimitRedisKeys 7 (example_rules [''fast'', ''slow'']) (example_rules [''slow'']))"
proof -
  have "\<forall>n\<in>set (rule_names (example_rules [''fast'', ''slow''])). \<not> Contains (CHR ''_'' # n) ''_rlp-''"
    by code_simp
  from removed_limits_lose_their_counters [OF _ this, of _ 7 "example_rules [''slow'']"]
  show ?thesis by (simp add: example_rules_def rule_names_def)
qed

end
