(* ===== verification/OperLog.thy ===== *)
theory OperLog
  imports GoLib SqlTable
begin

text \<open>
  The operation log: values of a snapshot, masking of secrets (\<^verbatim>\<open>model/ioperlog/mask.go\<close>), the change
  summary (\<^verbatim>\<open>change_summary.go\<close>) and the bounded error text (\<^verbatim>\<open>helper.go\<close>).

  A Go map is an association list without repeated keys; the code never depends on its order.
\<close>

section \<open>Values\<close>

text \<open>
  The values of a \<^verbatim>\<open>map[string]interface{}\<close>, by the types that masking tells apart: a string, a nested
  \<^verbatim>\<open>map[string]interface{}\<close>, a \<^verbatim>\<open>[]interface{}\<close>; \<open>LvMaps\<close> is a \<^verbatim>\<open>[]map[string]interface{}\<close> and \<open>LvStrMap\<close>
  a \<^verbatim>\<open>map[string]string\<close>, which are types of their own.
\<close>

datatype log_value =
    LvNil
  | LvBool bool
  | LvInt int
  | LvNum rat
  | LvTime time
  | LvStr string
  | LvStrs "string list"
  | LvStrMap "(string \<times> string) list"
  | LvMap "(string \<times> log_value) list"
  | LvArr "log_value list"
  | LvMaps "(string \<times> log_value) list list"

type_synonym log_map = "(string \<times> log_value) list"

section \<open>Masking\<close>

definition maskPlaceholder :: string where
  "maskPlaceholder = ''******''"

definition updatedMarker :: string where
  "updatedMarker = CHR 0x5B # map char_of [0xE5, 0xB7, 0xB2, 0xE6, 0x9B, 0xB4, 0xE6, 0x96, 0xB0 :: nat] @ [CHR 0x5D]"

definition MaskAPIKeyToken :: "string \<Rightarrow> string" where
  "MaskAPIKeyToken token =
     (if length token \<le> 8 then maskPlaceholder
      else take 4 token @ ''****'' @ drop (length token - 4) token)"

text \<open>
  \<^verbatim>\<open>strings.ToLower\<close> as far as a comparison with an ASCII name can see it: the letters A to Z, and the two other
  code points whose lower case is an ASCII letter, U+212A (k) and U+0130 (i). Every other code point
  stays outside ASCII.
\<close>

fun ToLower :: "string \<Rightarrow> string" where
  "ToLower [] = []"
| "ToLower (a # s) =
     (if a = CHR 0xC4 \<and> s \<noteq> [] \<and> hd s = CHR 0xB0 then CHR ''i'' # ToLower (tl s)
      else if a = CHR 0xE2 \<and> take 2 s = [CHR 0x84, CHR 0xAA] then CHR ''k'' # ToLower (drop 2 s)
      else let n = (of_char a :: nat) in (if 65 \<le> n \<and> n \<le> 90 then char_of (n + 32) else a) # ToLower s)"

definition secret_keys :: "string list" where
  "secret_keys =
     [''password'', ''secret'', ''session_key'', ''sessionkey'', ''private_key'', ''privatekey'',
      ''token'', ''access_token'', ''refresh_token'', ''session_token'', ''id_token'',
      ''secret_key'', ''secretkey'', ''client_secret'', ''clientsecret'',
      ''access_key'', ''accesskey'']"

definition token_keys :: "string list" where
  "token_keys = [''api_key'', ''apikey'', ''key'']"

definition cert_keys :: "string list" where
  "cert_keys = [''certificate'', ''cert'', ''cert_body'', ''private_key_body'']"

fun MaskSensitiveFields :: "log_map \<Rightarrow> log_map"
and maskSlice :: "log_value list \<Rightarrow> log_value list" where
  "MaskSensitiveFields [] = []"
| "MaskSensitiveFields ((key, val) # data) =
     (let lowerKey = ToLower key in
      (key,
       if lowerKey \<in> set secret_keys then LvStr maskPlaceholder
       else if lowerKey \<in> set token_keys then
         (case val of LvStr s \<Rightarrow> LvStr (MaskAPIKeyToken s) | _ \<Rightarrow> val)
       else if lowerKey \<in> set cert_keys then LvStr updatedMarker
       else (case val of
               LvMap typed \<Rightarrow> LvMap (MaskSensitiveFields typed)
             | LvArr typed \<Rightarrow> LvArr (maskSlice typed)
             | _ \<Rightarrow> val))) # MaskSensitiveFields data"
| "maskSlice [] = []"
| "maskSlice (item # items) =
     (case item of
        LvMap v \<Rightarrow> LvMap (MaskSensitiveFields v)
      | LvArr v \<Rightarrow> LvArr (maskSlice v)
      | _ \<Rightarrow> item) # maskSlice items"

text \<open>
  \<^verbatim>\<open>strings.ReplaceAll\<close> for a non-empty text: every occurrence from the left, none overlapping.
\<close>

function ReplaceAll :: "string \<Rightarrow> string \<Rightarrow> string \<Rightarrow> string" where
  "ReplaceAll s old new =
     (if s = [] \<or> old = [] then s
      else if HasPrefix s old then new @ ReplaceAll (drop (length old) s) old new
      else hd s # ReplaceAll (tl s) old new)"
  by pat_completeness auto
termination
  by (relation "measure (\<lambda>(s, _, _). length s)") auto

declare ReplaceAll.simps [simp del]

fun MaskErrorMessage :: "string \<Rightarrow> string list \<Rightarrow> string" where
  "MaskErrorMessage msg [] = msg"
| "MaskErrorMessage msg (v # vs) =
     MaskErrorMessage (if v = [] then msg else ReplaceAll msg v (MaskAPIKeyToken v)) vs"

section \<open>The change summary\<close>

definition computeDiffKeys :: "log_map \<Rightarrow> log_map \<Rightarrow> string list" where
  "computeDiffKeys before after =
     sort (map fst (filter (\<lambda>(key, afterVal).
        case map_of before key of None \<Rightarrow> True | Some beforeVal \<Rightarrow> beforeVal \<noteq> afterVal) after))"

text \<open>A nil map and an empty map are the same to \<^verbatim>\<open>BuildChangeSummary\<close>; \<open>None\<close> is its nil result.\<close>

definition BuildChangeSummary :: "string \<Rightarrow> log_map \<Rightarrow> log_map \<Rightarrow> log_map option" where
  "BuildChangeSummary action before after =
     (let diffKeys = (if action = ''update'' then computeDiffKeys before after else []);
          changeSummary =
            (if before \<noteq> [] then [(''before'', LvMap (MaskSensitiveFields before))] else []) @
            (if after \<noteq> [] then [(''after'', LvMap (MaskSensitiveFields after))] else [])
      in if changeSummary = [] then None
         else Some (changeSummary @ (if action = ''update'' then [(''diff_keys'', LvStrs diffKeys)] else [])))"

section \<open>Error texts\<close>

definition DefaultErrorMessageMaxLen :: int where
  "DefaultErrorMessageMaxLen = 1024"

definition TruncateErrorMessage :: "string option \<Rightarrow> int \<Rightarrow> string" where
  "TruncateErrorMessage err maxLen =
     (case err of None \<Rightarrow> []
      | Some msg \<Rightarrow>
          if maxLen \<le> 0 then msg
          else if int (length msg) \<le> maxLen then msg
          else if maxLen \<le> 3 then take (nat maxLen) msg
          else take (nat (maxLen - 3)) msg @ ''...'')"

definition TruncateErrorMessageDefault :: "string option \<Rightarrow> string" where
  "TruncateErrorMessageDefault err = TruncateErrorMessage err DefaultErrorMessageMaxLen"

section \<open>What masking guarantees\<close>

text \<open>
  Two snapshots that an observer of the log must not tell apart: they have the same keys, under a secret or
  certificate key the values are free, under a token key two strings agree in what the mask leaves of them, and
  maps and slices are compared inside.
\<close>

inductive same_public :: "log_map \<Rightarrow> log_map \<Rightarrow> bool"
and same_item :: "log_value \<Rightarrow> log_value \<Rightarrow> bool"
and same_items :: "log_value list \<Rightarrow> log_value list \<Rightarrow> bool" where
  sp_nil: "same_public [] []"
| sp_secret: "ToLower k \<in> set secret_keys \<union> set cert_keys \<Longrightarrow> same_public d d' \<Longrightarrow>
    same_public ((k, v) # d) ((k, v') # d')"
| sp_token: "ToLower k \<in> set token_keys \<Longrightarrow> MaskAPIKeyToken s = MaskAPIKeyToken s' \<Longrightarrow> same_public d d' \<Longrightarrow>
    same_public ((k, LvStr s) # d) ((k, LvStr s') # d')"
| sp_equal: "same_public d d' \<Longrightarrow> same_public ((k, v) # d) ((k, v) # d')"
| sp_inside: "ToLower k \<notin> set token_keys \<Longrightarrow> same_item v v' \<Longrightarrow> same_public d d' \<Longrightarrow>
    same_public ((k, v) # d) ((k, v') # d')"
| si_map: "same_public m m' \<Longrightarrow> same_item (LvMap m) (LvMap m')"
| si_arr: "same_items xs xs' \<Longrightarrow> same_item (LvArr xs) (LvArr xs')"
| ss_nil: "same_items [] []"
| ss_equal: "same_items xs xs' \<Longrightarrow> same_items (x # xs) (x # xs')"
| ss_inside: "same_item x x' \<Longrightarrow> same_items xs xs' \<Longrightarrow> same_items (x # xs) (x' # xs')"

definition mask_item :: "log_value \<Rightarrow> log_value" where
  "mask_item v = (case v of LvMap m \<Rightarrow> LvMap (MaskSensitiveFields m) | LvArr xs \<Rightarrow> LvArr (maskSlice xs) | _ \<Rightarrow> v)"

lemma mask_item_simps [simp]:
  "mask_item (LvMap m) = LvMap (MaskSensitiveFields m)" "mask_item (LvArr xs) = LvArr (maskSlice xs)"
  by (simp_all add: mask_item_def)

lemma maskSlice_map: "maskSlice xs = map mask_item xs"
  by (induction xs) (auto simp: mask_item_def split: log_value.splits)

lemma Mask_Cons:
  "MaskSensitiveFields ((k, v) # d) =
     (k, if ToLower k \<in> set secret_keys then LvStr maskPlaceholder
         else if ToLower k \<in> set token_keys then (case v of LvStr s \<Rightarrow> LvStr (MaskAPIKeyToken s) | _ \<Rightarrow> v)
         else if ToLower k \<in> set cert_keys then LvStr updatedMarker
         else mask_item v) # MaskSensitiveFields d"
  by (simp add: Let_def mask_item_def)

lemmas mask_simps = Mask_Cons maskSlice_map

declare MaskSensitiveFields.simps (2) [simp del]

lemma key_kinds:
  "k \<in> set cert_keys \<Longrightarrow> k \<notin> set token_keys" "k \<in> set cert_keys \<Longrightarrow> k \<notin> set secret_keys"
  "k \<in> set token_keys \<Longrightarrow> k \<notin> set secret_keys"
  by (auto simp: cert_keys_def token_keys_def secret_keys_def)

lemma same_public_masks:
  "same_public d d' \<Longrightarrow> MaskSensitiveFields d = MaskSensitiveFields d'"
  "same_item v v' \<Longrightarrow> mask_item v = mask_item v'"
  "same_items xs xs' \<Longrightarrow> maskSlice xs = maskSlice xs'"
proof (induction rule: same_public_same_item_same_items.inducts)
  case (sp_inside k v v' d d')
  then show ?case by (auto simp: Mask_Cons)
qed (auto simp: mask_simps key_kinds)

text \<open>A mask is stable: what it leaves is what it leaves of that.\<close>

lemma MaskAPIKeyToken_idem [simp]: "MaskAPIKeyToken (MaskAPIKeyToken t) = MaskAPIKeyToken t"
proof (cases "length t \<le> 8")
  case False
  then have "drop (length t - 4) t \<noteq> [] \<and> length (drop (length t - 4) t) = 4" by auto
  with False show ?thesis by (simp add: MaskAPIKeyToken_def)
qed (simp add: MaskAPIKeyToken_def maskPlaceholder_def)

lemma mask_idem:
  "MaskSensitiveFields (MaskSensitiveFields d) = MaskSensitiveFields d"
  "maskSlice (maskSlice xs) = maskSlice xs"
proof (induction d and xs rule: MaskSensitiveFields_maskSlice.induct)
  case (2 key val data)
  then show ?case by (cases val) (auto simp: Mask_Cons mask_item_def)
next
  case (4 item items)
  then show ?case by (cases item) auto
qed auto

text \<open>The keys of a snapshot stay.\<close>

lemma mask_keys [simp]: "map fst (MaskSensitiveFields d) = map fst d"
  by (induction d) (auto simp: Mask_Cons)

text \<open>
  Every value under a secret key is the placeholder and under a certificate key the marker, at every depth that
  maps and slices of values reach.
\<close>

fun masked_map :: "log_map \<Rightarrow> bool"
and masked_slice :: "log_value list \<Rightarrow> bool" where
  "masked_map [] = True"
| "masked_map ((k, v) # d) =
     (masked_map d \<and>
      (ToLower k \<in> set secret_keys \<longrightarrow> v = LvStr maskPlaceholder) \<and>
      (ToLower k \<in> set cert_keys \<longrightarrow> v = LvStr updatedMarker) \<and>
      (ToLower k \<in> set token_keys \<longrightarrow> (case v of LvStr s \<Rightarrow> s = MaskAPIKeyToken s | _ \<Rightarrow> True)) \<and>
      (ToLower k \<notin> set token_keys \<longrightarrow>
        (case v of LvMap m \<Rightarrow> masked_map m | LvArr xs \<Rightarrow> masked_slice xs | _ \<Rightarrow> True)))"
| "masked_slice [] = True"
| "masked_slice (v # vs) =
     ((case v of LvMap m \<Rightarrow> masked_map m | LvArr xs \<Rightarrow> masked_slice xs | _ \<Rightarrow> True) \<and> masked_slice vs)"

lemma mask_masks: "masked_map (MaskSensitiveFields d)" "masked_slice (maskSlice xs)"
proof (induction d and xs rule: MaskSensitiveFields_maskSlice.induct)
  case (2 key val data)
  then show ?case by (cases val) (auto simp: Mask_Cons mask_item_def key_kinds)
next
  case (4 item items)
  then show ?case by (cases item) auto
qed auto

text \<open>What is recorded of a token has at most eight of its bytes.\<close>

lemma MaskAPIKeyToken_bytes:
  "MaskAPIKeyToken t = maskPlaceholder \<or>
   (\<exists>a m b. t = a @ m @ b \<and> length a = 4 \<and> length b = 4 \<and> m \<noteq> [] \<and> MaskAPIKeyToken t = a @ ''****'' @ b)"
proof (cases "length t \<le> 8")
  case False
  let ?a = "take 4 t" and ?m = "take (length t - 8) (drop 4 t)" and ?b = "drop (length t - 4) t"
  have "drop (length t - 8) (drop 4 t) = ?b" using False by (simp add: add.commute)
  then have "t = ?a @ ?m @ ?b" by (metis append_take_drop_id)
  moreover have "length ?a = 4" "length ?b = 4" "?m \<noteq> []" using False by auto
  moreover have "MaskAPIKeyToken t = ?a @ ''****'' @ ?b" using False by (simp add: MaskAPIKeyToken_def)
  ultimately show ?thesis by blast
qed (simp add: MaskAPIKeyToken_def)

lemma TruncateErrorMessageDefault_bound: "int (length (TruncateErrorMessageDefault err)) \<le> DefaultErrorMessageMaxLen"
  by (auto simp: TruncateErrorMessageDefault_def TruncateErrorMessage_def DefaultErrorMessageMaxLen_def split: option.splits)

text \<open>
  The keys an update reports are those of the state after it whose value is new: exactly the keys that a reader of both
  snapshots finds changed, in order and without repetition.
\<close>

lemma computeDiffKeys_spec:
  assumes "distinct (map fst after)"
  shows "k \<in> set (computeDiffKeys before after) \<longleftrightarrow> (\<exists>v. map_of after k = Some v \<and> map_of before k \<noteq> Some v)"
  and "sorted (computeDiffKeys before after)" and "distinct (computeDiffKeys before after)"
proof -
  show "k \<in> set (computeDiffKeys before after) \<longleftrightarrow> (\<exists>v. map_of after k = Some v \<and> map_of before k \<noteq> Some v)"
    using assms by (force simp: computeDiffKeys_def split: option.splits dest: map_of_SomeD)
  show "distinct (computeDiffKeys before after)"
    using assms by (auto simp: computeDiffKeys_def distinct_map_filter)
qed (simp add: computeDiffKeys_def)

text \<open>Both snapshots of a summary are masked.\<close>

lemma summary_masked: "BuildChangeSummary action before after = Some s \<Longrightarrow> masked_map s"
  by (auto simp: BuildChangeSummary_def Let_def mask_masks secret_keys_def cert_keys_def token_keys_def split: if_splits)

end
