(* ===== verification/OperLogStore.thy ===== *)
theory OperLogStore
  imports OperLog QuotaCache
begin

text \<open>
  The storage of the operation log: rows, filters and pages (\<^verbatim>\<open>storage/rdb/ioperlog/operation_log.go\<close>,
  \<^verbatim>\<open>dao/table_operation_logs.go\<close>) and the cache of totals in Redis (\<^verbatim>\<open>count_cache.go\<close>).

  The JSON text of a change summary, the digest of a cache key and the precision of a stored time are parameters.
\<close>

section \<open>Data\<close>

record LogEntry =
  le_ID :: int
  le_LogID :: string
  le_OperatorType :: int
  le_OperatorID :: int
  le_OperatorName :: string
  le_Action :: string
  le_ResourceType :: string
  le_ResourceID :: string
  le_ResourceName :: string
  le_ResourceParentID :: string
  le_Status :: int
  le_ErrorMsg :: string
  le_ChangeSummary :: "log_map option"
  le_RequestPath :: string
  le_RequestMethod :: string
  le_ClientIP :: string
  le_UserAgent :: string
  le_CreatedAt :: time

record OperationLogFilter =
  lf_LogID :: "string option"
  lf_OperatorType :: "int option"
  lf_OperatorID :: "int option"
  lf_OperatorName :: "string option"
  lf_Action :: "string option"
  lf_ResourceType :: "string option"
  lf_ResourceID :: "string option"
  lf_ResourceName :: "string option"
  lf_ResourceParentID :: "string option"
  lf_Status :: "int option"
  lf_StartTime :: "time option"
  lf_EndTime :: "time option"
  lf_Page :: "i64 option"
  lf_PageSize :: "i64 option"

record TOperationLog =
  tl_ID :: int
  tl_LogID :: string
  tl_OperatorType :: int
  tl_OperatorID :: int
  tl_OperatorName :: string
  tl_Action :: string
  tl_ResourceType :: string
  tl_ResourceID :: string
  tl_ResourceName :: string
  tl_ResourceParentID :: string
  tl_Status :: int
  tl_ErrorMsg :: string
  tl_ChangeSummary :: string
  tl_RequestPath :: string
  tl_RequestMethod :: string
  tl_ClientIP :: string
  tl_UserAgent :: string
  tl_CreatedAt :: time

text \<open>The columns that a filter or an entry sets; \<open>pl_Limit\<close> is the offset and the number of rows.\<close>

record TOperationLogParam =
  pl_LogID :: "string option"
  pl_OperatorType :: "int option"
  pl_OperatorID :: "int option"
  pl_OperatorName :: "string option"
  pl_Action :: "string option"
  pl_ResourceType :: "string option"
  pl_ResourceID :: "string option"
  pl_ResourceName :: "string option"
  pl_ResourceParentID :: "string option"
  pl_Status :: "int option"
  pl_ErrorMsg :: "string option"
  pl_ChangeSummary :: "string option"
  pl_RequestPath :: "string option"
  pl_RequestMethod :: "string option"
  pl_ClientIP :: "string option"
  pl_UserAgent :: "string option"
  pl_CreatedAt :: "time option"
  pl_CreatedAtGTE :: "time option"
  pl_CreatedAtLTE :: "time option"
  pl_OrderBy :: bool
  pl_Limit :: "(nat \<times> nat) option"

definition no_log_param :: TOperationLogParam where
  "no_log_param =
     \<lparr>pl_LogID = None, pl_OperatorType = None, pl_OperatorID = None, pl_OperatorName = None, pl_Action = None,
      pl_ResourceType = None, pl_ResourceID = None, pl_ResourceName = None, pl_ResourceParentID = None,
      pl_Status = None, pl_ErrorMsg = None, pl_ChangeSummary = None, pl_RequestPath = None,
      pl_RequestMethod = None, pl_ClientIP = None, pl_UserAgent = None, pl_CreatedAt = None,
      pl_CreatedAtGTE = None, pl_CreatedAtLTE = None, pl_OrderBy = False, pl_Limit = None\<rparr>"

record log_deps =
  ld_counter :: bool
  ld_encSummary :: "log_map option \<Rightarrow> string"
  ld_decSummary :: "string \<Rightarrow> log_map option"
  ld_digest :: "string \<Rightarrow> string"
  ld_time :: "time \<Rightarrow> time"

record log_world = env +
  lw_logs :: "TOperationLog table"
  lw_redis :: "string \<Rightarrow> (string \<times> time option) option"
  lw_now :: time

type_synonym 'a logging = "(log_world, error + 'a) state"

section \<open>Rows\<close>

definition entryToParam :: "log_deps \<Rightarrow> LogEntry \<Rightarrow> TOperationLogParam" where
  "entryToParam dp e = no_log_param
     \<lparr>pl_LogID := Some (le_LogID e), pl_OperatorType := Some (le_OperatorType e),
      pl_OperatorID := Some (le_OperatorID e), pl_OperatorName := Some (le_OperatorName e),
      pl_Action := Some (le_Action e), pl_ResourceType := Some (le_ResourceType e),
      pl_ResourceID := Some (le_ResourceID e), pl_ResourceName := Some (le_ResourceName e),
      pl_ResourceParentID := Some (le_ResourceParentID e), pl_Status := Some (le_Status e),
      pl_ErrorMsg := Some (le_ErrorMsg e), pl_RequestPath := Some (le_RequestPath e),
      pl_RequestMethod := Some (le_RequestMethod e), pl_ClientIP := Some (le_ClientIP e),
      pl_UserAgent := Some (le_UserAgent e), pl_CreatedAt := Some (le_CreatedAt e),
      pl_ChangeSummary := Some (ld_encSummary dp (le_ChangeSummary e))\<rparr>"

definition paramToEntry :: "log_deps \<Rightarrow> TOperationLog \<Rightarrow> LogEntry" where
  "paramToEntry dp r =
     \<lparr>le_ID = tl_ID r, le_LogID = tl_LogID r, le_OperatorType = tl_OperatorType r,
      le_OperatorID = tl_OperatorID r, le_OperatorName = tl_OperatorName r, le_Action = tl_Action r,
      le_ResourceType = tl_ResourceType r, le_ResourceID = tl_ResourceID r, le_ResourceName = tl_ResourceName r,
      le_ResourceParentID = tl_ResourceParentID r, le_Status = tl_Status r, le_ErrorMsg = tl_ErrorMsg r,
      le_ChangeSummary = (if tl_ChangeSummary r \<noteq> [] then ld_decSummary dp (tl_ChangeSummary r) else None),
      le_RequestPath = tl_RequestPath r, le_RequestMethod = tl_RequestMethod r, le_ClientIP = tl_ClientIP r,
      le_UserAgent = tl_UserAgent r, le_CreatedAt = tl_CreatedAt r\<rparr>"

text \<open>The row an INSERT adds: the columns of the statement, the defaults of the table for the others.\<close>

definition new_log_row :: "log_deps \<Rightarrow> time \<Rightarrow> TOperationLogParam \<Rightarrow> int \<Rightarrow> TOperationLog" where
  "new_log_row dp now p i =
     \<lparr>tl_ID = i, tl_LogID = opt_set (pl_LogID p) [], tl_OperatorType = opt_set (pl_OperatorType p) 0,
      tl_OperatorID = opt_set (pl_OperatorID p) 0, tl_OperatorName = opt_set (pl_OperatorName p) [],
      tl_Action = opt_set (pl_Action p) [], tl_ResourceType = opt_set (pl_ResourceType p) [],
      tl_ResourceID = opt_set (pl_ResourceID p) [], tl_ResourceName = opt_set (pl_ResourceName p) [],
      tl_ResourceParentID = opt_set (pl_ResourceParentID p) [], tl_Status = opt_set (pl_Status p) 1,
      tl_ErrorMsg = opt_set (pl_ErrorMsg p) [], tl_ChangeSummary = opt_set (pl_ChangeSummary p) [],
      tl_RequestPath = opt_set (pl_RequestPath p) [], tl_RequestMethod = opt_set (pl_RequestMethod p) [],
      tl_ClientIP = opt_set (pl_ClientIP p) [], tl_UserAgent = opt_set (pl_UserAgent p) [],
      tl_CreatedAt = ld_time dp (opt_set (pl_CreatedAt p) now)\<rparr>"

text \<open>One INSERT for all rows of a batch.\<close>

fun insert_logs :: "log_deps \<Rightarrow> time \<Rightarrow> TOperationLogParam list \<Rightarrow> TOperationLog table \<Rightarrow> TOperationLog table" where
  "insert_logs dp now [] t = t"
| "insert_logs dp now (p # ps) t =
     insert_logs dp now ps
       (t\<lparr>rows := rows t @ [new_log_row dp now p (next_id t)], next_id := next_id t + 1\<rparr>)"

definition TOperationLogCreate :: "log_deps \<Rightarrow> TOperationLogParam list \<Rightarrow> unit logging" where
  "TOperationLogCreate dp ps =
     ext_call (\<lambda>w. (Inr (), w\<lparr>lw_logs := insert_logs dp (lw_now w) ps (lw_logs w)\<rparr>))"

section \<open>Conditions\<close>

definition filterToParam :: "OperationLogFilter option \<Rightarrow> TOperationLogParam option" where
  "filterToParam flt = map_option (\<lambda>f.
     let param = no_log_param
       \<lparr>pl_LogID := lf_LogID f, pl_OperatorType := lf_OperatorType f, pl_OperatorID := lf_OperatorID f,
        pl_OperatorName := lf_OperatorName f, pl_Action := lf_Action f, pl_ResourceType := lf_ResourceType f,
        pl_ResourceID := lf_ResourceID f, pl_ResourceName := lf_ResourceName f,
        pl_ResourceParentID := lf_ResourceParentID f, pl_Status := lf_Status f,
        pl_CreatedAtGTE := lf_StartTime f, pl_CreatedAtLTE := lf_EndTime f\<rparr>
     in (case (lf_Page f, lf_PageSize f) of
           (Some page, Some pageSize) \<Rightarrow>
             let offset = (page - 1) * pageSize;
                 offset' = (if offset <s 0 then 0 else offset)
             in param\<lparr>pl_Limit := Some (unat offset', unat pageSize), pl_OrderBy := True\<rparr>
         | _ \<Rightarrow> param)) flt"

definition where_log :: "TOperationLogParam option \<Rightarrow> TOperationLog \<Rightarrow> bool" where
  "where_log p r = (case p of None \<Rightarrow> True | Some q \<Rightarrow>
     eq_opt (pl_LogID q) (tl_LogID r) \<and> eq_opt (pl_OperatorType q) (tl_OperatorType r) \<and>
     eq_opt (pl_OperatorID q) (tl_OperatorID r) \<and> eq_opt (pl_OperatorName q) (tl_OperatorName r) \<and>
     eq_opt (pl_Action q) (tl_Action r) \<and> eq_opt (pl_ResourceType q) (tl_ResourceType r) \<and>
     eq_opt (pl_ResourceID q) (tl_ResourceID r) \<and> eq_opt (pl_ResourceName q) (tl_ResourceName r) \<and>
     eq_opt (pl_ResourceParentID q) (tl_ResourceParentID r) \<and> eq_opt (pl_Status q) (tl_Status r) \<and>
     eq_opt (pl_ErrorMsg q) (tl_ErrorMsg r) \<and> eq_opt (pl_ChangeSummary q) (tl_ChangeSummary r) \<and>
     eq_opt (pl_RequestPath q) (tl_RequestPath r) \<and> eq_opt (pl_RequestMethod q) (tl_RequestMethod r) \<and>
     eq_opt (pl_ClientIP q) (tl_ClientIP r) \<and> eq_opt (pl_UserAgent q) (tl_UserAgent r) \<and>
     eq_opt (pl_CreatedAt q) (tl_CreatedAt r) \<and>
     (case pl_CreatedAtGTE q of None \<Rightarrow> True | Some t \<Rightarrow> t \<le> tl_CreatedAt r) \<and>
     (case pl_CreatedAtLTE q of None \<Rightarrow> True | Some t \<Rightarrow> tl_CreatedAt r \<le> t))"

text \<open>\<^verbatim>\<open>ORDER BY created_at DESC, id DESC\<close>: the second sort is stable.\<close>

definition newest_first :: "TOperationLog list \<Rightarrow> TOperationLog list" where
  "newest_first rs = sort_key (\<lambda>r. - tl_CreatedAt r) (sort_key (\<lambda>r. - tl_ID r) rs)"

definition log_page :: "TOperationLogParam option \<Rightarrow> TOperationLog list \<Rightarrow> TOperationLog list" where
  "log_page p rs =
     (let matched = filter (where_log p) rs;
          ordered = (if (case p of None \<Rightarrow> False | Some q \<Rightarrow> pl_OrderBy q) then newest_first matched else matched)
      in case Option.bind p pl_Limit of None \<Rightarrow> ordered | Some (offset, n) \<Rightarrow> take n (drop offset ordered))"

definition TOperationLogList :: "TOperationLogParam option \<Rightarrow> TOperationLog list logging" where
  "TOperationLogList p = ext_call (\<lambda>w. (Inr (log_page p (rows (lw_logs w))), w))"

text \<open>The page is chosen by the inner query; the outer one orders the joined rows again.\<close>

definition TOperationLogListDeferred :: "TOperationLogParam option \<Rightarrow> TOperationLog list logging" where
  "TOperationLogListDeferred p = ext_call (\<lambda>w.
     (let ids = map tl_ID (log_page p (rows (lw_logs w)))
      in Inr (newest_first (filter (\<lambda>r. tl_ID r \<in> set ids) (rows (lw_logs w)))), w))"

definition matching :: "TOperationLogParam option \<Rightarrow> log_world \<Rightarrow> nat" where
  "matching p w = length (filter (where_log p) (rows (lw_logs w)))"

definition TOperationLogCount :: "TOperationLogParam option \<Rightarrow> i64 logging" where
  "TOperationLogCount p = ext_call (\<lambda>w. (Inr (of_nat (matching p w)), w))"

section \<open>The cache of totals\<close>

definition countCacheGenKey :: string where "countCacheGenKey = ''OPERLOG_COUNT_GEN''"
definition countCacheTTL :: duration where "countCacheTTL = 10 * nsSecond"

definition log_rget :: "log_world \<Rightarrow> string \<Rightarrow> string option" where
  "log_rget w k = (case lw_redis w k of None \<Rightarrow> None | Some (v, e) \<Rightarrow> if live (lw_now w) e then Some v else None)"

definition log_GetInt64 :: "string \<Rightarrow> i64 logging" where
  "log_GetInt64 k = ext_call (\<lambda>w. (case log_rget w k of
       None \<Rightarrow> Inl nil_returned
     | Some s \<Rightarrow> (case ParseInt s of None \<Rightarrow> Inl (ErrMsg ''strconv.ParseInt'') | Some v \<Rightarrow> Inr v), w))"

definition Setex :: "string \<Rightarrow> string \<Rightarrow> duration \<Rightarrow> unit logging" where
  "Setex k v ttl = ext_call (\<lambda>w. (Inr (), w\<lparr>lw_redis := (lw_redis w)(k \<mapsto> (v, Some (lw_now w + ttl)))\<rparr>))"

definition Incr :: "string \<Rightarrow> i64 logging" where
  "Incr k = ext_call (\<lambda>w.
     case (case log_rget w k of None \<Rightarrow> Some 0 | Some s \<Rightarrow> redis_int s) of
       None \<Rightarrow> (Inl (ErrMsg ''ERR value is not an integer or out of range''), w)
     | Some v \<Rightarrow>
         if sint v + 1 < 2 ^ 63
         then (Inr (v + 1),
               w\<lparr>lw_redis := (lw_redis w)(k \<mapsto> (FormatInt (v + 1),
                 case lw_redis w k of None \<Rightarrow> None | Some (_, e) \<Rightarrow> if live (lw_now w) e then e else None))\<rparr>)
         else (Inl (ErrMsg ''ERR increment or decrement would overflow''), w))"

text \<open>\<^verbatim>\<open>url.QueryEscape\<close>.\<close>

definition hex_digit :: "nat \<Rightarrow> char" where
  "hex_digit n = ''0123456789ABCDEF'' ! n"

definition query_plain :: "char \<Rightarrow> bool" where
  "query_plain c =
     (let n = (of_char c :: nat) in
      97 \<le> n \<and> n \<le> 122 \<or> 65 \<le> n \<and> n \<le> 90 \<or> 48 \<le> n \<and> n \<le> 57 \<or> c \<in> set ''-_.~'')"

definition escape_char :: "char \<Rightarrow> string" where
  "escape_char c =
     (if query_plain c then [c]
      else if c = CHR '' '' then ''+''
      else let n = (of_char c :: nat) in [CHR ''%'', hex_digit (n div 16), hex_digit (n mod 16)])"

definition QueryEscape :: "string \<Rightarrow> string" where
  "QueryEscape s = concat (map escape_char s)"

text \<open>The text of a filter. Optional numbers are left out, absent strings are written as empty ones.\<close>

definition writeOptString :: "string \<Rightarrow> string option \<Rightarrow> string" where
  "writeOptString name v = ''|'' @ name @ ''='' @ (case v of None \<Rightarrow> [] | Some s \<Rightarrow> QueryEscape s)"

definition writeOptInt :: "string \<Rightarrow> int option \<Rightarrow> string" where
  "writeOptInt name v = (case v of None \<Rightarrow> [] | Some i \<Rightarrow> ''|'' @ name @ ''='' @ show_int i)"

definition unix_seconds :: "time \<Rightarrow> int" where
  "unix_seconds t = (t - unixEpoch) div nsSecond"

definition no_log_filter :: OperationLogFilter where
  "no_log_filter =
     \<lparr>lf_LogID = None, lf_OperatorType = None, lf_OperatorID = None, lf_OperatorName = None, lf_Action = None,
      lf_ResourceType = None, lf_ResourceID = None, lf_ResourceName = None, lf_ResourceParentID = None,
      lf_Status = None, lf_StartTime = None, lf_EndTime = None, lf_Page = None, lf_PageSize = None\<rparr>"

definition filter_text :: "OperationLogFilter option \<Rightarrow> string" where
  "filter_text flt =
     (let f = (case flt of None \<Rightarrow> no_log_filter | Some g \<Rightarrow> g) in
      ''v1'' @ writeOptString ''log_id'' (lf_LogID f) @
      writeOptInt ''operator_type'' (lf_OperatorType f) @
      writeOptInt ''operator_id'' (lf_OperatorID f) @
      writeOptString ''operator_name'' (lf_OperatorName f) @
      writeOptString ''action'' (lf_Action f) @
      writeOptString ''resource_type'' (lf_ResourceType f) @
      writeOptString ''resource_id'' (lf_ResourceID f) @
      writeOptString ''resource_name'' (lf_ResourceName f) @
      writeOptString ''resource_parent_id'' (lf_ResourceParentID f) @
      writeOptInt ''status'' (lf_Status f) @
      writeOptInt ''start_time'' (map_option unix_seconds (lf_StartTime f)) @
      writeOptInt ''end_time'' (map_option unix_seconds (lf_EndTime f)))"

definition countCacheFilterHash :: "log_deps \<Rightarrow> OperationLogFilter option \<Rightarrow> string" where
  "countCacheFilterHash dp flt = ld_digest dp (filter_text flt)"

definition countCacheValueKey :: "log_deps \<Rightarrow> i64 \<Rightarrow> OperationLogFilter option \<Rightarrow> string" where
  "countCacheValueKey dp gen flt =
     ''OPERLOG_COUNT:G'' @ FormatInt gen @ '':'' @ countCacheFilterHash dp flt"

definition generation :: "(i64 option) logging" where
  "generation = State_Monad.bind (log_GetInt64 countCacheGenKey) (\<lambda>r. case r of
       Inl e \<Rightarrow> returnE (if is_nil_returned e then Some 0 else None)
     | Inr gen \<Rightarrow> returnE (Some gen))"

definition counter_get :: "log_deps \<Rightarrow> OperationLogFilter option \<Rightarrow> (i64 option) logging" where
  "counter_get dp flt =
     bindE generation (\<lambda>g. case g of
         None \<Rightarrow> returnE None
       | Some gen \<Rightarrow> State_Monad.bind (log_GetInt64 (countCacheValueKey dp gen flt)) (\<lambda>r. case r of
             Inl e \<Rightarrow> returnE None
           | Inr raw \<Rightarrow> returnE (if raw \<le>s 0 then None else Some (raw - 1))))"

definition counter_set :: "log_deps \<Rightarrow> OperationLogFilter option \<Rightarrow> i64 \<Rightarrow> unit logging" where
  "counter_set dp flt tot =
     bindE generation (\<lambda>g. case g of
         None \<Rightarrow> returnE ()
       | Some gen \<Rightarrow> ignoreE (Setex (countCacheValueKey dp gen flt) (FormatInt (tot + 1)) countCacheTTL))"

definition invalidate :: "unit logging" where
  "invalidate = ignoreE (Incr countCacheGenKey)"

section \<open>The storager\<close>

definition BatchCreate :: "log_deps \<Rightarrow> LogEntry list \<Rightarrow> unit logging" where
  "BatchCreate dp entries =
     (if entries = [] then returnE ()
      else bindE (TOperationLogCreate dp (map (entryToParam dp) entries)) (\<lambda>_.
        if ld_counter dp then invalidate else returnE ()))"

definition storager_count :: "log_deps \<Rightarrow> TOperationLogParam option \<Rightarrow> OperationLogFilter option \<Rightarrow> i64 logging" where
  "storager_count dp wh flt =
     bindE (if ld_counter dp then counter_get dp flt else returnE None) (\<lambda>hit. case hit of
         Some tot \<Rightarrow> returnE tot
       | None \<Rightarrow> bindE (TOperationLogCount wh) (\<lambda>total.
           bindE (if ld_counter dp then counter_set dp flt total else returnE ()) (\<lambda>_. returnE total)))"

definition storager_List :: "log_deps \<Rightarrow> OperationLogFilter option \<Rightarrow> (LogEntry list \<times> i64) logging" where
  "storager_List dp flt =
     (let wh = filterToParam flt in
      bindE (storager_count dp wh flt) (\<lambda>total.
        bindE (case Option.bind flt (\<lambda>f. case (lf_Page f, lf_PageSize f) of
                   (Some page, Some pageSize) \<Rightarrow> Some ((page - 1) * pageSize) | _ \<Rightarrow> None) of
            None \<Rightarrow> TOperationLogList wh
          | Some offset \<Rightarrow>
              let offset' = (if offset <s 0 then 0 else offset) in
              if total \<le>s offset' then returnE [] else TOperationLogListDeferred wh) (\<lambda>list.
          returnE (map (paramToEntry dp) list, total))))"

record OperationLogQueryResult =
  lr_Total :: i64
  lr_Page :: i64
  lr_PageSize :: i64
  lr_List :: "LogEntry list"

definition QueryLogs :: "log_deps \<Rightarrow> OperationLogFilter option \<Rightarrow> OperationLogQueryResult logging" where
  "QueryLogs dp flt =
     bindE (storager_List dp flt) (\<lambda>(list, total). returnE
       \<lparr>lr_Total = total, lr_Page = opt_set (Option.bind flt lf_Page) 1,
        lr_PageSize = opt_set (Option.bind flt lf_PageSize) (of_nat (length list)), lr_List = list\<rparr>)"

end
