(* ===== verification/AuthData.thy ===== *)
theory AuthData
  imports OperLogStore GoCrypto
begin

text \<open>
  The data of authentication and authorization (\<^verbatim>\<open>model/iauth\<close>): visitors, roles and scopes, actions as bits of
  an int64, the table of permissions, passwords (\<^verbatim>\<open>lib/xcrypto/password.go\<close>), and the context of a request with
  the fields that it gives an operation log entry.
\<close>

section \<open>Products\<close>

record Product =
  pd_ID :: int
  pd_Name :: string
  pd_Description :: string
  pd_MailList :: "string list"
  pd_PhoneList :: "string list"
  pd_ContactPersonList :: "string list"
  pd_CreatedAt :: time
  pd_UpdatedAt :: time

section \<open>Scopes and roles\<close>

abbreviation (input) ScopeSystem :: string where "ScopeSystem \<equiv> ''System''"
abbreviation (input) ScopeProduct :: string where "ScopeProduct \<equiv> ''Product''"
abbreviation (input) ScopeSupport :: string where "ScopeSupport \<equiv> ''Support''"
abbreviation (input) ScopeSystemReadonly :: string where "ScopeSystemReadonly \<equiv> ''SystemReadonly''"
abbreviation (input) RoleSystemAdmin :: string where "RoleSystemAdmin \<equiv> ''system_admin''"
abbreviation (input) RoleSystemAdminReadonly :: string where "RoleSystemAdminReadonly \<equiv> ''system_admin_readonly''"
abbreviation (input) UserTypeNormal :: int where "UserTypeNormal \<equiv> 0"
abbreviation (input) UserTypeToken :: int where "UserTypeToken \<equiv> 1"

definition RoleToScopes :: "string \<Rightarrow> error + string list" where
  "RoleToScopes role =
     (if role = RoleSystemAdmin then Inr [ScopeSystem]
      else if role = RoleSystemAdminReadonly then Inr [ScopeSystemReadonly]
      else Inl (ErrParam ''role must be system_admin or system_admin_readonly''))"

fun ScopesToRole :: "string list \<Rightarrow> bool \<Rightarrow> string" where
  "ScopesToRole [] admin = (if admin then RoleSystemAdmin else RoleSystemAdminReadonly)"
| "ScopesToRole (s # scopes) admin =
     (if s = ScopeSystem then RoleSystemAdmin
      else if s = ScopeSystemReadonly then RoleSystemAdminReadonly
      else ScopesToRole scopes admin)"

lemma role_round_trip: "RoleToScopes role = Inr scopes \<Longrightarrow> ScopesToRole scopes admin = role"
  by (auto simp: RoleToScopes_def split: if_splits)

section \<open>Visitors\<close>

record User =
  us_ID :: int
  us_Name :: string
  us_Type :: int
  us_Admin :: bool
  us_Password :: string
  us_SessionKey :: string
  us_SessionKeyCreateAt :: time
  us_Scopes :: "string list"

record Token =
  tk_ID :: int
  tk_Name :: string
  tk_Token :: string
  tk_Scope :: string
  tk_Product :: "Product option"

text \<open>Every \<^verbatim>\<open>Visitor\<close> is built with exactly one of its two pointers.\<close>

datatype Visitor = UserVisitor User | TokenVisitor Token

definition user_GetScopes :: "User \<Rightarrow> string list" where
  "user_GetScopes u =
     (if us_Scopes u \<noteq> [] then us_Scopes u else if us_Admin u then [ScopeSystem] else [ScopeProduct])"

fun GetName :: "Visitor \<Rightarrow> string" where
  "GetName (UserVisitor u) = us_Name u"
| "GetName (TokenVisitor t) = tk_Name t"

fun GetScopes :: "Visitor \<Rightarrow> string list" where
  "GetScopes (UserVisitor u) = user_GetScopes u"
| "GetScopes (TokenVisitor t) = [tk_Scope t]"

fun GetType :: "Visitor \<Rightarrow> int" where
  "GetType (UserVisitor u) = us_Type u"
| "GetType (TokenVisitor t) = UserTypeToken"

fun IsAdmin :: "Visitor \<Rightarrow> bool" where
  "IsAdmin (UserVisitor u) = us_Admin u"
| "IsAdmin (TokenVisitor t) = (tk_Scope t = ScopeSystem)"

definition HasScope :: "Visitor \<Rightarrow> string \<Rightarrow> bool" where
  "HasScope v scope = list_ex (\<lambda>s. s = scope) (GetScopes v)"

definition IsSystemReadonly :: "Visitor \<Rightarrow> bool" where
  "IsSystemReadonly v = (\<not> IsAdmin v \<and> HasScope v ScopeSystemReadonly)"

definition newFakeVisitor :: "string \<Rightarrow> Visitor" where
  "newFakeVisitor scope =
     TokenVisitor \<lparr>tk_ID = 1, tk_Name = ''SkipUser'', tk_Token = [], tk_Scope = scope, tk_Product = None\<rparr>"

section \<open>Actions and permissions\<close>

type_synonym Feature = string
type_synonym Action = i64

abbreviation (input) ActionDeny :: Action where "ActionDeny \<equiv> 1"
abbreviation (input) ActionRead :: Action where "ActionRead \<equiv> 2"
abbreviation (input) ActionReadAll :: Action where "ActionReadAll \<equiv> 4"
abbreviation (input) ActionUpdate :: Action where "ActionUpdate \<equiv> 8"
abbreviation (input) ActionCreate :: Action where "ActionCreate \<equiv> 16"
abbreviation (input) ActionDelete :: Action where "ActionDelete \<equiv> 32"
abbreviation (input) ActionExport :: Action where "ActionExport \<equiv> 64"
abbreviation (input) ActionCancel :: Action where "ActionCancel \<equiv> 128"

definition Revoke :: "Action \<Rightarrow> Action \<Rightarrow> Action" where "Revoke a b = a AND NOT b"
definition Grant :: "Action \<Rightarrow> Action \<Rightarrow> Action" where "Grant a b = a OR b"
definition IsAllowed :: "Action \<Rightarrow> Action \<Rightarrow> bool" where "IsAllowed a b \<longleftrightarrow> a AND b \<noteq> 0"

definition actionProductNormal :: Action where
  "actionProductNormal =
     Grant (Grant (Grant (Grant (Grant ActionDeny ActionRead) ActionUpdate) ActionCreate) ActionReadAll) ActionDelete"

definition actionAll :: Action where
  "actionAll =
     Grant (Grant (Grant (Grant (Grant (Grant ActionDeny ActionRead) ActionUpdate) ActionCreate) ActionDelete)
       ActionReadAll) ActionExport"

definition actionReadonly :: Action where
  "actionReadonly = Grant ActionRead ActionReadAll"

definition with_action :: "Action \<Rightarrow> Feature list \<Rightarrow> (Feature \<times> Action) list" where
  "with_action a fs = map (\<lambda>f. (f, a)) fs"

text \<open>The features, in the order of the table; those of the two system scopes are the same.\<close>

definition system_features :: "Feature list" where
  "system_features =
     [''ProxyPool'', ''BFECluster'', ''BFEPool'', ''Area'', ''Domain'', ''Product'', ''ExtraFile'',
      ''ProductPool'', ''Route'', ''SubCluster'', ''ProductCluster'', ''Traffic'', ''General'', ''Cert'',
      ''ActiveHealthCheck'',
      ''AuthProductUser'', ''User'', ''Token'',
      ''NLBPool'', ''NLBCluster'', ''AIRoute'', ''APIKey'',
      ''EntityType'', ''Entity'', ''QuotaPlan'', ''RateLimitPolicy'', ''AICache'', ''AIContext'',
      ''TrafficMirror'', ''AIIntent'',
      ''ModelPrice'', ''Provider'', ''K8sPool'', ''OperationLog'', ''Report'', ''Security'', ''Batch'']"

definition scope2permission :: "(string \<times> (Feature \<times> Action) list) list" where
  "scope2permission =
     [(ScopeSystem, with_action actionAll system_features),
      (ScopeSystemReadonly, with_action actionReadonly system_features),
      (ScopeProduct,
         with_action ActionReadAll [''User'', ''Token''] @
         [(''ProxyPool'', Grant actionProductNormal ActionReadAll)] @
         with_action actionProductNormal [''BFECluster'', ''BFEPool''] @
         with_action (Grant actionProductNormal ActionReadAll) [''Area'', ''Domain'', ''Product''] @
         with_action actionProductNormal
           [''ProductPool'', ''Route'', ''SubCluster'', ''ProductCluster'', ''Traffic'', ''General'', ''Cert'',
            ''ActiveHealthCheck'', ''AuthProductUser'', ''NLBPool'', ''NLBCluster'', ''AIRoute'', ''APIKey''] @
         [(''Report'', ActionRead), (''Batch'', Grant ActionRead ActionCancel)]),
      (ScopeSupport,
         with_action ActionExport
           [''ProxyPool'', ''Route'', ''Cert'', ''ActiveHealthCheck'', ''ExtraFile'', ''APIKey'',
            ''RateLimitPolicy'', ''AICache'', ''AIContext'', ''TrafficMirror'', ''AIIntent''])]"

record Authorization =
  az_Feature :: Feature
  az_Action :: Action
  az_ValidateProduct :: bool

definition NewFeatureAuthorization :: "Feature \<Rightarrow> Action \<Rightarrow> Authorization" where
  "NewFeatureAuthorization f a = \<lparr>az_Feature = f, az_Action = a, az_ValidateProduct = False\<rparr>"

definition NewFeatureAuthorizerWithFactoryWithProduct :: "Feature \<Rightarrow> Action \<Rightarrow> Authorization" where
  "NewFeatureAuthorizerWithFactoryWithProduct f a = (NewFeatureAuthorization f a)\<lparr>az_ValidateProduct := True\<rparr>"

text \<open>The loop of \<^verbatim>\<open>Authorizate\<close> over the scopes.\<close>

definition scope_grants :: "string \<Rightarrow> Feature \<Rightarrow> Action \<Rightarrow> bool" where
  "scope_grants scope feature action =
     (case map_of scope2permission scope of None \<Rightarrow> False
      | Some permissions \<Rightarrow> (case map_of permissions feature of None \<Rightarrow> False | Some a \<Rightarrow> IsAllowed a action))"

fun featureGranted :: "string list \<Rightarrow> Feature \<Rightarrow> Action \<Rightarrow> bool" where
  "featureGranted [] feature action = False"
| "featureGranted (scope # scopes) feature action =
     (if scope_grants scope feature action then True else featureGranted scopes feature action)"

lemma featureGranted_iff: "featureGranted scopes f a \<longleftrightarrow> (\<exists>s\<in>set scopes. scope_grants s f a)"
  by (induction scopes) auto

lemma map_of_with_action:
  "map_of (with_action a fs) f = (if f \<in> set fs then Some a else None)"
  by (induction fs) (auto simp: with_action_def)

text \<open>Granting and revoking bits.\<close>

lemma IsAllowed_Grant: "IsAllowed (Grant a b) c \<longleftrightarrow> IsAllowed a c \<or> IsAllowed b c"
  by (auto simp: IsAllowed_def Grant_def bit_eq_iff bit_simps)

lemma IsAllowed_Revoke: "\<not> IsAllowed (Revoke a b) b"
  by (auto simp: IsAllowed_def Revoke_def bit_eq_iff bit_simps)

lemma Revoke_other: "b AND c = 0 \<Longrightarrow> IsAllowed (Revoke a b) c \<longleftrightarrow> IsAllowed a c"
  by (auto simp: IsAllowed_def Revoke_def bit_eq_iff bit_simps)

lemma action_values:
  "actionProductNormal = 63" "actionAll = 127" "actionReadonly = 6"
  by (simp_all add: actionProductNormal_def actionAll_def actionReadonly_def Grant_def)

text \<open>What the scopes grant.\<close>

lemma readonly_grants:
  "scope_grants ScopeSystemReadonly f a \<longleftrightarrow> f \<in> set system_features \<and> (IsAllowed ActionRead a \<or> IsAllowed ActionReadAll a)"
  by (simp add: scope_grants_def scope2permission_def map_of_with_action actionReadonly_def IsAllowed_Grant)

lemma support_grants:
  "scope_grants ScopeSupport f a \<Longrightarrow> IsAllowed ActionExport a"
  by (simp add: scope_grants_def scope2permission_def map_of_with_action split: if_splits)

lemma unknown_scope:
  "scope_grants s f a \<Longrightarrow> s \<in> {ScopeSystem, ScopeSystemReadonly, ScopeProduct, ScopeSupport}"
  by (auto simp: scope_grants_def scope2permission_def split: if_splits)

section \<open>Passwords\<close>

text \<open>
  bcrypt is a parameter: \<open>ac_generate n cost p\<close> is the hash of \<open>p\<close> made with the \<open>n\<close>-th salt that is drawn,
  \<open>ac_compare h p\<close> the result of \<^verbatim>\<open>CompareHashAndPassword\<close>; \<open>ac_random n len\<close> are the bytes of the \<open>n\<close>-th draw
  from \<^verbatim>\<open>crypto/rand\<close>, or its failure.
\<close>

record auth_crypto =
  ac_generate :: "nat \<Rightarrow> int \<Rightarrow> string \<Rightarrow> error + string"
  ac_compare :: "string \<Rightarrow> string \<Rightarrow> bool"
  ac_random :: "nat \<Rightarrow> nat \<Rightarrow> byte list option"
  ac_cost :: int

definition DefaultPasswordHashCost :: int where "DefaultPasswordHashCost = 10"
definition minPasswordHashCost :: int where "minPasswordHashCost = 4"
definition maxPasswordHashCost :: int where "maxPasswordHashCost = 16"
definition passwordMaxBytes :: nat where "passwordMaxBytes = 72"

definition SetPasswordHashCost :: "int \<Rightarrow> auth_crypto \<Rightarrow> error + auth_crypto" where
  "SetPasswordHashCost cost ac =
     (let cost' = (if cost = 0 then DefaultPasswordHashCost else cost)
      in if cost' < minPasswordHashCost \<or> maxPasswordHashCost < cost' then Inl (ErrMsg ''password hash cost out of range'')
         else Inr (ac\<lparr>ac_cost := cost'\<rparr>))"

definition IsHashedPassword :: "string \<Rightarrow> bool" where
  "IsHashedPassword s = (HasPrefix s ''$2a$'' \<or> HasPrefix s ''$2b$'' \<or> HasPrefix s ''$2y$'')"

definition HashPassword :: "auth_crypto \<Rightarrow> nat \<Rightarrow> string \<Rightarrow> error + string" where
  "HashPassword ac n plaintext =
     (case ac_generate ac n (ac_cost ac) plaintext of
        Inl e \<Rightarrow> Inl (ErrMsg ''xcrypto: hash password'') | Inr h \<Rightarrow> Inr h)"

definition CheckPassword :: "auth_crypto \<Rightarrow> string \<Rightarrow> string \<Rightarrow> bool \<times> bool" where
  "CheckPassword ac hashed plaintext =
     (if passwordMaxBytes < length plaintext then (False, False)
      else if IsHashedPassword hashed then (ac_compare ac hashed plaintext, False)
      else if hashed = plaintext then (True, True)
      else (False, False))"

definition passwordCheck :: "string \<Rightarrow> error + unit" where
  "passwordCheck password =
     (if length password < 8 \<or> 72 < length password
      then Inl (ErrParam ''Password Length Must Be Between 8 and 72 Bytes'') else Inr ())"

text \<open>\<^verbatim>\<open>base64.URLEncoding\<close> differs from the standard encoding in two letters.\<close>

definition URLEncodeToString :: "byte list \<Rightarrow> string" where
  "URLEncodeToString bs =
     map (\<lambda>c. if c = CHR ''+'' then CHR ''-'' else if c = CHR ''/'' then CHR ''_'' else c) (EncodeToString bs)"

text \<open>
  The documented behaviour of bcrypt that the code relies on: a hash has the prefix of its version and is accepted for
  the password it was made of, and longer passwords than 72 bytes are refused. Which other passwords a hash accepts
  is left open.
\<close>

definition bcrypt_ok :: "auth_crypto \<Rightarrow> bool" where
  "bcrypt_ok ac \<longleftrightarrow> (\<forall>n c p.
     (case ac_generate ac n c p of
        Inl e \<Rightarrow> True
      | Inr h \<Rightarrow> HasPrefix h ''$2a$'' \<and> length p \<le> 72 \<and> ac_compare ac h p))"

lemma HashPassword_facts:
  assumes "bcrypt_ok ac" "HashPassword ac n p = Inr h"
  shows "IsHashedPassword h" "length p \<le> 72" "CheckPassword ac h p = (True, False)"
    and "CheckPassword ac h q = (length q \<le> 72 \<and> ac_compare ac h q, False)"
proof -
  have "ac_generate ac n (ac_cost ac) p = Inr h" using assms(2) by (auto simp: HashPassword_def split: sum.splits)
  moreover have "case ac_generate ac n (ac_cost ac) p of Inl e \<Rightarrow> True
      | Inr h \<Rightarrow> HasPrefix h ''$2a$'' \<and> length p \<le> 72 \<and> ac_compare ac h p"
    using assms(1) unfolding bcrypt_ok_def by blast
  ultimately have g: "HasPrefix h ''$2a$''" "length p \<le> 72" "ac_compare ac h p" by simp_all
  then show "IsHashedPassword h" "length p \<le> 72" by (simp_all add: IsHashedPassword_def)
  then show "CheckPassword ac h p = (True, False)" "CheckPassword ac h q = (length q \<le> 72 \<and> ac_compare ac h q, False)"
    using g by (auto simp: CheckPassword_def passwordMaxBytes_def)
qed

section \<open>The context of a request\<close>

record RequestInfo =
  ri_LogID :: string
  ri_URLPath :: string
  ri_Method :: string
  ri_ClientIP :: string
  ri_UserAgent :: string

record req_ctx =
  cx_visitor :: "Visitor option"
  cx_product :: "Product option"
  cx_request :: "RequestInfo option"

definition MustGetVisitor :: "bool \<Rightarrow> req_ctx \<Rightarrow> error + Visitor" where
  "MustGetVisitor skipTokenValidate ctx =
     (case cx_visitor ctx of
        Some v \<Rightarrow> Inr v
      | None \<Rightarrow> if skipTokenValidate then Inr (newFakeVisitor ScopeSystem)
                else Inl (ErrAuthenticate ''User Not Login''))"

definition MustGetProduct :: "req_ctx \<Rightarrow> error + Product" where
  "MustGetProduct ctx =
     (case cx_product ctx of None \<Rightarrow> Inl (ErrParam ''Fail To Get Product'') | Some p \<Rightarrow> Inr p)"

definition operationLogContextExtractor :: "bool \<Rightarrow> req_ctx \<Rightarrow> LogEntry \<Rightarrow> LogEntry" where
  "operationLogContextExtractor skip ctx entry =
     (let entry1 = (case MustGetVisitor skip ctx of
            Inl e \<Rightarrow> entry
          | Inr v \<Rightarrow> (case v of
                UserVisitor u \<Rightarrow> entry\<lparr>le_OperatorName := GetName v, le_OperatorType := 0, le_OperatorID := us_ID u\<rparr>
              | TokenVisitor t \<Rightarrow> entry\<lparr>le_OperatorName := GetName v, le_OperatorType := 1, le_OperatorID := tk_ID t\<rparr>))
      in case cx_request ctx of
           None \<Rightarrow> entry1
         | Some ri \<Rightarrow> entry1\<lparr>le_LogID := ri_LogID ri, le_RequestPath := ri_URLPath ri,
                        le_RequestMethod := ri_Method ri, le_ClientIP := ri_ClientIP ri,
                        le_UserAgent := ri_UserAgent ri\<rparr>)"

lemma extractor_idem:
  "operationLogContextExtractor skip ctx (operationLogContextExtractor skip ctx e) = operationLogContextExtractor skip ctx e"
  by (simp add: operationLogContextExtractor_def split: sum.splits Visitor.splits option.splits)

lemma extractor_created [simp]: "le_CreatedAt (operationLogContextExtractor skip ctx e) = le_CreatedAt e"
  by (simp add: operationLogContextExtractor_def split: sum.splits Visitor.splits option.splits)

lemma extractor_set_created:
  "(operationLogContextExtractor skip ctx e)\<lparr>le_CreatedAt := c\<rparr> = operationLogContextExtractor skip ctx (e\<lparr>le_CreatedAt := c\<rparr>)"
  by (simp add: operationLogContextExtractor_def split: sum.splits Visitor.splits option.splits)

end
