(* ===== verification/OperLogManager.thy ===== *)
theory OperLogManager
  imports AuthData
begin

text \<open>
  The writer of the operation log (\<^verbatim>\<open>model/ioperlog/manager.go\<close>): a bounded channel that the managers send to, a
  worker that collects batches and inserts them, and its shutdown. A run is a sequence of steps: a call of
  \<^verbatim>\<open>Record\<close>, one turn of a \<^verbatim>\<open>select\<close> of the worker, or \<^verbatim>\<open>Close\<close>. Where Go's \<^verbatim>\<open>select\<close> chooses among
  ready cases, the relation has a step for each.
\<close>

section \<open>State\<close>

datatype OverflowStrategy = OverflowSync | OverflowDiscard

datatype worker = Serving | Draining | Stopped

text \<open>\<open>lm_lost\<close> are the entries that the manager gave up with a warning in the access log.\<close>

record log_manager =
  lm_world :: log_world
  lm_buffer :: "LogEntry list"
  lm_bufferSize :: nat
  lm_closed :: bool
  lm_worker :: worker
  lm_batch :: "LogEntry list"
  lm_batchSize :: nat
  lm_retryTimes :: nat
  lm_overflow :: OverflowStrategy
  lm_contextExtractor :: "(req_ctx \<Rightarrow> LogEntry \<Rightarrow> LogEntry) option"
  lm_lost :: "LogEntry list"

definition defaultBufferSize :: nat where "defaultBufferSize = 4096"
definition defaultBatchSize :: nat where "defaultBatchSize = 200"
definition defaultRetryTimes :: nat where "defaultRetryTimes = 3"

definition NewOperationLogManager :: "log_world \<Rightarrow> int \<Rightarrow> log_manager" where
  "NewOperationLogManager w bufferSize =
     \<lparr>lm_world = w, lm_buffer = [], lm_bufferSize = (if bufferSize \<le> 0 then defaultBufferSize else nat bufferSize),
      lm_closed = False, lm_worker = Serving, lm_batch = [], lm_batchSize = defaultBatchSize,
      lm_retryTimes = defaultRetryTimes, lm_overflow = OverflowSync, lm_contextExtractor = None,
      lm_lost = []\<rparr>"

definition SetContextExtractor :: "(req_ctx \<Rightarrow> LogEntry \<Rightarrow> LogEntry) \<Rightarrow> log_manager \<Rightarrow> log_manager" where
  "SetContextExtractor extractor m = m\<lparr>lm_contextExtractor := Some extractor\<rparr>"

section \<open>Recording\<close>

definition prepared :: "log_manager \<Rightarrow> req_ctx \<Rightarrow> LogEntry \<Rightarrow> LogEntry" where
  "prepared m ctx entry =
     (let entry' = (if IsZero (le_CreatedAt entry) then entry\<lparr>le_CreatedAt := lw_now (lm_world m)\<rparr> else entry)
      in case lm_contextExtractor m of None \<Rightarrow> entry' | Some extractor \<Rightarrow> extractor ctx entry')"

definition RecordSync :: "log_deps \<Rightarrow> req_ctx \<Rightarrow> LogEntry \<Rightarrow> log_manager \<Rightarrow> (error + unit) \<times> log_manager" where
  "RecordSync dp ctx entry m =
     (case run_state (BatchCreate dp [prepared m ctx entry]) (lm_world m) of (r, w) \<Rightarrow> (r, m\<lparr>lm_world := w\<rparr>))"

definition sync_write :: "log_deps \<Rightarrow> req_ctx \<Rightarrow> LogEntry \<Rightarrow> log_manager \<Rightarrow> log_manager" where
  "sync_write dp ctx entry m =
     (case RecordSync dp ctx entry m of
        (Inr _, m') \<Rightarrow> m'
      | (Inl _, m') \<Rightarrow> m'\<lparr>lm_lost := lm_lost m' @ [prepared m ctx entry]\<rparr>)"

definition send :: "LogEntry \<Rightarrow> log_manager \<Rightarrow> log_manager" where
  "send entry m = m\<lparr>lm_buffer := lm_buffer m @ [entry]\<rparr>"

text \<open>The \<^verbatim>\<open>default\<close> case: the buffer is full.\<close>

definition overflowed :: "log_deps \<Rightarrow> req_ctx \<Rightarrow> LogEntry \<Rightarrow> log_manager \<Rightarrow> log_manager" where
  "overflowed dp ctx entry m =
     (case lm_overflow m of
        OverflowDiscard \<Rightarrow> m\<lparr>lm_lost := lm_lost m @ [entry]\<rparr>
      | OverflowSync \<Rightarrow> sync_write dp ctx entry m)"

section \<open>The worker\<close>

fun flush_attempts :: "nat \<Rightarrow> log_deps \<Rightarrow> LogEntry list \<Rightarrow> log_world \<Rightarrow> bool \<times> log_world" where
  "flush_attempts 0 dp batch w = (False, w)"
| "flush_attempts (Suc n) dp batch w =
     (case run_state (BatchCreate dp batch) w of
        (Inr _, w') \<Rightarrow> (True, w')
      | (Inl _, w') \<Rightarrow> flush_attempts n dp batch w')"

definition flushBatch :: "log_deps \<Rightarrow> log_manager \<Rightarrow> log_manager" where
  "flushBatch dp m =
     (if lm_batch m = [] then m
      else case flush_attempts (lm_retryTimes m) dp (lm_batch m) (lm_world m) of
          (True, w) \<Rightarrow> m\<lparr>lm_world := w, lm_batch := []\<rparr>
        | (False, w) \<Rightarrow> m\<lparr>lm_world := w, lm_batch := [], lm_lost := lm_lost m @ lm_batch m\<rparr>)"

definition collect :: "log_deps \<Rightarrow> log_manager \<Rightarrow> log_manager" where
  "collect dp m =
     (let m' = m\<lparr>lm_buffer := tl (lm_buffer m), lm_batch := lm_batch m @ [hd (lm_buffer m)]\<rparr>
      in if lm_batchSize m \<le> length (lm_batch m') then flushBatch dp m' else m')"

datatype log_event =
    EvRecord req_ctx LogEntry
  | EvReceive | EvTick | EvClose | EvNotice | EvDrain | EvDrainEnd | EvClock time

inductive log_step :: "log_deps \<Rightarrow> log_manager \<Rightarrow> log_event \<Rightarrow> log_manager \<Rightarrow> bool" for dp where
  record_send: "length (lm_buffer m) < lm_bufferSize m \<Longrightarrow> entry' = prepared m ctx entry \<Longrightarrow>
    log_step dp m (EvRecord ctx entry) (send entry' m)"
| record_closed: "lm_closed m \<Longrightarrow> entry' = prepared m ctx entry \<Longrightarrow>
    log_step dp m (EvRecord ctx entry) (sync_write dp ctx entry' m)"
| record_full: "\<not> lm_closed m \<Longrightarrow> \<not> length (lm_buffer m) < lm_bufferSize m \<Longrightarrow>
    entry' = prepared m ctx entry \<Longrightarrow>
    log_step dp m (EvRecord ctx entry) (overflowed dp ctx entry' m)"
| receive: "lm_worker m = Serving \<Longrightarrow> lm_buffer m \<noteq> [] \<Longrightarrow> log_step dp m EvReceive (collect dp m)"
| tick: "lm_worker m = Serving \<Longrightarrow> log_step dp m EvTick (flushBatch dp m)"
| close: "log_step dp m EvClose (m\<lparr>lm_closed := True\<rparr>)"
| notice: "lm_worker m = Serving \<Longrightarrow> lm_closed m \<Longrightarrow> log_step dp m EvNotice (m\<lparr>lm_worker := Draining\<rparr>)"
| drain: "lm_worker m = Draining \<Longrightarrow> lm_buffer m \<noteq> [] \<Longrightarrow> log_step dp m EvDrain (collect dp m)"
| drain_end: "lm_worker m = Draining \<Longrightarrow> log_step dp m EvDrainEnd (flushBatch dp (m\<lparr>lm_worker := Stopped\<rparr>))"
| clock: "log_step dp m (EvClock t) (m\<lparr>lm_world := (lm_world m)\<lparr>lw_now := t\<rparr>\<rparr>)"

inductive_cases log_stepE: "log_step dp m ev m'"

text \<open>The entries that the calls of \<^verbatim>\<open>Record\<close> of a run submitted, with their context, in order.\<close>

definition submitted :: "log_event \<Rightarrow> log_manager \<Rightarrow> LogEntry list" where
  "submitted ev m = (case ev of EvRecord ctx entry \<Rightarrow> [prepared m ctx entry] | _ \<Rightarrow> [])"

inductive log_run :: "log_deps \<Rightarrow> log_manager \<Rightarrow> LogEntry list \<Rightarrow> log_manager \<Rightarrow> bool" for dp m0 where
  run_start: "log_run dp m0 [] m0"
| run_step: "log_run dp m0 hist m \<Longrightarrow> log_step dp m ev m' \<Longrightarrow> log_run dp m0 (hist @ submitted ev m) m'"

section \<open>Rows of entries\<close>

definition row_for :: "log_deps \<Rightarrow> LogEntry \<Rightarrow> int \<Rightarrow> TOperationLog" where
  "row_for dp e i = new_log_row dp 0 (entryToParam dp e) i"

definition appended :: "log_deps \<Rightarrow> LogEntry list \<Rightarrow> TOperationLog table \<Rightarrow> TOperationLog table" where
  "appended dp es t = insert_logs dp 0 (map (entryToParam dp) es) t"

lemma new_row_now: "new_log_row dp now (entryToParam dp e) i = row_for dp e i"
  by (simp add: row_for_def new_log_row_def entryToParam_def opt_set_def)

lemma insert_logs_now: "insert_logs dp now (map (entryToParam dp) es) t = appended dp es t"
  unfolding appended_def by (induction es arbitrary: t) (simp_all add: new_row_now)

lemma appended_simps [simp]:
  "appended dp [] t = t"
  "appended dp (e # es) t = appended dp es (t\<lparr>rows := rows t @ [row_for dp e (next_id t)], next_id := next_id t + 1\<rparr>)"
  by (simp_all add: appended_def new_row_now)

lemma appended_append: "appended dp (es @ es') t = appended dp es' (appended dp es t)"
  by (induction es arbitrary: t) simp_all

lemma appended_rows:
  "rows (appended dp es t) = rows t @ map (\<lambda>(j, e). row_for dp e (next_id t + int j)) (enumerate 0 es)"
proof (induction es arbitrary: t)
  case (Cons e es)
  have "enumerate 0 (e # es) = (0, e) # map (\<lambda>(j, x). (Suc j, x)) (enumerate 0 es)"
    by (auto simp: enumerate_Suc_eq)
  then show ?case using Cons by (simp add: case_prod_unfold o_def add.assoc)
qed simp

lemma appended_row:
  assumes "e \<in> set es"
  shows "\<exists>i. row_for dp e i \<in> set (rows (appended dp es t))"
proof -
  obtain j where "j < length es" "es ! j = e" using assms by (auto simp: in_set_conv_nth)
  then have "(j, e) \<in> set (enumerate 0 es)" by (auto simp: in_set_enumerate_eq)
  then show ?thesis by (force simp: appended_rows)
qed

section \<open>What a write leaves\<close>

lemma generation_free_call:
  "run_state invalidate w = (r, w') \<Longrightarrow> lw_logs w' = lw_logs w \<and> lw_now w' = lw_now w \<and> r = Inr ()"
  by (auto simp: invalidate_def Incr_def split: list.splits fault.splits option.splits if_splits prod.splits)

text \<open>An insertion whose outcome the caller sees is done or not; one that reports an error may have been done.\<close>

lemma BatchCreate_outcome:
  assumes "run_state (BatchCreate dp es) w = (r, w')"
  shows "lw_now w' = lw_now w"
    and "lw_logs w' = appended dp es (lw_logs w) \<or> isl r \<and> lw_logs w' = lw_logs w"
    and "faults w = [] \<Longrightarrow> faults w' = [] \<and> r = Inr ()"
proof -
  let ?c = "TOperationLogCreate dp (map (entryToParam dp) es)"
  obtain r1 w1 where c: "run_state ?c w = (r1, w1)" by fastforce
  have c1: "lw_now w1 = lw_now w" "lw_logs w1 = appended dp es (lw_logs w) \<or> isl r1 \<and> lw_logs w1 = lw_logs w"
    "faults w = [] \<Longrightarrow> faults w1 = [] \<and> r1 = Inr ()"
    using c by (auto simp: TOperationLogCreate_def insert_logs_now split: list.splits fault.splits)
  obtain r2 w2 where i: "run_state invalidate w1 = (r2, w2)" by fastforce
  have i1: "faults w1 = [] \<Longrightarrow> faults w2 = []"
    using i by (auto simp: invalidate_def Incr_def split: list.splits fault.splits option.splits if_splits prod.splits)
  note i2 = generation_free_call [OF i]
  have eq: "(r, w') = (if es = [] then (Inr (), w) else case r1 of Inl e \<Rightarrow> (Inl e, w1) | Inr _ \<Rightarrow> if ld_counter dp then (r2, w2) else (Inr (), w1))"
    using assms c i by (auto simp: BatchCreate_def split: sum.splits)
  show "lw_now w' = lw_now w" using eq c1 i2 by (auto split: if_splits sum.splits)
  show "lw_logs w' = appended dp es (lw_logs w) \<or> isl r \<and> lw_logs w' = lw_logs w"
    using eq c1 i2 by (auto split: if_splits sum.splits)
  show "faults w = [] \<Longrightarrow> faults w' = [] \<and> r = Inr ()"
    using eq c1 i1 i2 by (auto split: if_splits sum.splits)
qed

definition writes :: "log_deps \<Rightarrow> LogEntry list \<Rightarrow> LogEntry list \<Rightarrow> log_manager \<Rightarrow> log_manager \<Rightarrow> bool" where
  "writes dp es given m m' \<longleftrightarrow>
     lw_logs (lm_world m') = appended dp es (lw_logs (lm_world m)) \<and> lm_lost m' = lm_lost m @ given \<and>
     lw_now (lm_world m') = lw_now (lm_world m) \<and> lm_bufferSize m' = lm_bufferSize m \<and>
     lm_batchSize m' = lm_batchSize m \<and> lm_retryTimes m' = lm_retryTimes m \<and> lm_overflow m' = lm_overflow m \<and>
     lm_contextExtractor m' = lm_contextExtractor m \<and>
     lm_closed m' = lm_closed m \<and> lm_worker m' = lm_worker m \<and> lm_buffer m' = lm_buffer m \<and>
     (faults (lm_world m) = [] \<longrightarrow> faults (lm_world m') = [])"

lemma flush_attempts_outcome:
  assumes "flush_attempts n dp batch w = (ok, w')"
  shows "\<exists>k. k \<le> n \<and> lw_logs w' = appended dp (concat (replicate k batch)) (lw_logs w) \<and> (ok \<longrightarrow> 0 < k) \<and>
    lw_now w' = lw_now w \<and> (faults w = [] \<longrightarrow> faults w' = [] \<and> (0 < n \<longrightarrow> ok \<and> k = 1))"
  using assms
proof (induction n arbitrary: w)
  case 0
  then show ?case by auto
next
  case (Suc n)
  obtain r w1 where run: "run_state (BatchCreate dp batch) w = (r, w1)" by fastforce
  note out = BatchCreate_outcome [OF run]
  show ?case
  proof (cases r)
    case (Inr x)
    then have "w' = w1" "ok" using Suc.prems run by simp_all
    with out Inr show ?thesis by (intro exI [of _ 1]) auto
  next
    case (Inl e)
    then have rest: "flush_attempts n dp batch w1 = (ok, w')" using Suc.prems run by simp
    obtain k where k: "k \<le> n" "lw_logs w' = appended dp (concat (replicate k batch)) (lw_logs w1)"
      "ok \<longrightarrow> 0 < k" "lw_now w' = lw_now w1" using Suc.IH [OF rest] by blast
    have nf: "faults w \<noteq> []" using out(3) Inl by auto
    from out(2) show ?thesis
    proof
      assume "lw_logs w1 = appended dp batch (lw_logs w)"
      with k out(1) nf show ?thesis by (intro exI [of _ "Suc k"]) (simp add: appended_append)
    next
      assume "isl r \<and> lw_logs w1 = lw_logs w"
      with k out(1) nf show ?thesis by (intro exI [of _ k]) simp
    qed
  qed
qed

text \<open>
  A flush inserts its batch at most \<open>lm_retryTimes\<close> times, and exactly once when nothing fails; a batch it gives up
  is in \<open>lm_lost\<close>.
\<close>

lemma flushBatch_outcome:
  "\<exists>k given. k \<le> lm_retryTimes m \<and> writes dp (concat (replicate k (lm_batch m))) given m (flushBatch dp m) \<and>
     lm_batch (flushBatch dp m) = [] \<and> (k = 0 \<longrightarrow> given = lm_batch m) \<and> set given \<subseteq> set (lm_batch m) \<and>
     (faults (lm_world m) = [] \<and> 0 < lm_retryTimes m \<longrightarrow> (k = 1 \<or> lm_batch m = []) \<and> given = [])"
proof (cases "lm_batch m = []")
  case True
  then show ?thesis by (intro exI [of _ 0] exI [of _ "[]"]) (simp add: flushBatch_def writes_def)
next
  case False
  obtain ok w where f: "flush_attempts (lm_retryTimes m) dp (lm_batch m) (lm_world m) = (ok, w)" by fastforce
  obtain k where k: "k \<le> lm_retryTimes m"
    "lw_logs w = appended dp (concat (replicate k (lm_batch m))) (lw_logs (lm_world m))" "ok \<longrightarrow> 0 < k"
    "lw_now w = lw_now (lm_world m)"
    "faults (lm_world m) = [] \<longrightarrow> faults w = [] \<and> (0 < lm_retryTimes m \<longrightarrow> ok \<and> k = 1)"
    using flush_attempts_outcome [OF f] by (elim exE conjE) (rule that)
  have fl: "flushBatch dp m = m\<lparr>lm_world := w, lm_batch := [], lm_lost := lm_lost m @ (if ok then [] else lm_batch m)\<rparr>"
    using False f by (cases m; cases ok) (simp_all add: flushBatch_def)
  show ?thesis
    using k False by (intro exI [of _ k] exI [of _ "if ok then [] else lm_batch m"]) (auto simp: fl writes_def)
qed

lemma sync_write_outcome:
  assumes "sync_write dp ctx entry m = m'" and "entry' = prepared m ctx entry"
  shows "\<exists>es given. (es = [entry'] \<and> given = [] \<or> es \<in> {[], [entry']} \<and> given = [entry'] \<and> faults (lm_world m) \<noteq> []) \<and>
    writes dp es given m m' \<and> lm_batch m' = lm_batch m"
proof -
  obtain r w where run: "run_state (BatchCreate dp [entry']) (lm_world m) = (r, w)" by fastforce
  note out = BatchCreate_outcome [OF run]
  show ?thesis
  proof (cases r)
    case (Inr x)
    with out assms run show ?thesis
      by (intro exI [of _ "[entry']"] exI [of _ "[]"]) (auto simp: sync_write_def RecordSync_def writes_def)
  next
    case (Inl e)
    then have nf: "faults (lm_world m) \<noteq> []" using out by auto
    have m': "m' = m\<lparr>lm_world := w, lm_lost := lm_lost m @ [entry']\<rparr>"
      using assms run Inl by (auto simp: sync_write_def RecordSync_def)
    from out(2) show ?thesis
    proof
      assume "lw_logs w = appended dp [entry'] (lw_logs (lm_world m))"
      with nf out m' show ?thesis by (intro exI [of _ "[entry']"] exI [of _ "[entry']"]) (auto simp: writes_def)
    next
      assume "isl r \<and> lw_logs w = lw_logs (lm_world m)"
      with nf out m' show ?thesis by (intro exI [of _ "[]"] exI [of _ "[entry']"]) (auto simp: writes_def)
    qed
  qed
qed


section \<open>Nothing that was submitted disappears\<close>

text \<open>
  A manager whose extractor, if it has one, is the one of the process: preparing an entry twice, as the fallback of
  \<^verbatim>\<open>Record\<close> does, changes nothing.
\<close>

definition extracts :: "log_manager \<Rightarrow> bool" where
  "extracts m \<longleftrightarrow> lm_contextExtractor m = None \<or> (\<exists>skip. lm_contextExtractor m = Some (operationLogContextExtractor skip))"

lemma prepared_idem: "extracts m \<Longrightarrow> prepared m ctx (prepared m ctx e) = prepared m ctx e"
  by (auto simp: extracts_def prepared_def Let_def extractor_idem extractor_set_created IsZero_def)

text \<open>
  The table is the first one with rows for \<open>written\<close> at its end; every submitted entry is written, waits in the
  batch or in the buffer, or was given up; nothing else is written.
\<close>

definition accounted :: "log_deps \<Rightarrow> TOperationLog table \<Rightarrow> LogEntry list \<Rightarrow> log_manager \<Rightarrow> bool" where
  "accounted dp t0 hist m \<longleftrightarrow>
     (\<exists>written. lw_logs (lm_world m) = appended dp written t0 \<and>
        set hist = set written \<union> set (lm_batch m) \<union> set (lm_buffer m) \<union> set (lm_lost m))"

text \<open>Without faults, exactly once.\<close>

definition exactly_once :: "log_deps \<Rightarrow> TOperationLog table \<Rightarrow> LogEntry list \<Rightarrow> log_manager \<Rightarrow> bool" where
  "exactly_once dp t0 hist m \<longleftrightarrow>
     (\<exists>written. lw_logs (lm_world m) = appended dp written t0 \<and>
        mset hist = mset written + mset (lm_batch m) + mset (lm_buffer m) + mset (lm_lost m))"

definition pipe_ok :: "log_manager \<Rightarrow> bool" where
  "pipe_ok m \<longleftrightarrow> extracts m \<and> length (lm_batch m) < lm_batchSize m \<and> length (lm_buffer m) \<le> lm_bufferSize m \<and>
     0 < lm_retryTimes m \<and> (lm_worker m = Stopped \<longrightarrow> lm_batch m = [] \<and> lm_closed m) \<and>
     (lm_worker m = Draining \<longrightarrow> lm_closed m)"

text \<open>What a step moves: \<open>new\<close> is submitted, \<open>es\<close> written, \<open>given\<close> given up.\<close>

definition moves :: "log_deps \<Rightarrow> LogEntry list \<Rightarrow> LogEntry list \<Rightarrow> LogEntry list \<Rightarrow> log_manager \<Rightarrow> log_manager \<Rightarrow> bool" where
  "moves dp new es given m m' \<longleftrightarrow>
     lw_logs (lm_world m') = appended dp es (lw_logs (lm_world m)) \<and> lm_lost m' = lm_lost m @ given \<and>
     set (lm_batch m @ lm_buffer m @ new) = set es \<union> set given \<union> set (lm_batch m') \<union> set (lm_buffer m') \<and>
     (faults (lm_world m) = [] \<and> 0 < lm_retryTimes m \<longrightarrow> faults (lm_world m') = [] \<and>
       mset (lm_batch m @ lm_buffer m @ new) = mset es + mset given + mset (lm_batch m') + mset (lm_buffer m'))"

lemma flush_moves: "\<exists>es given. moves dp [] es given m (flushBatch dp m)"
proof -
  obtain k given where k: "writes dp (concat (replicate k (lm_batch m))) given m (flushBatch dp m)"
    "lm_batch (flushBatch dp m) = []" "k = 0 \<longrightarrow> given = lm_batch m" "set given \<subseteq> set (lm_batch m)"
    "faults (lm_world m) = [] \<and> 0 < lm_retryTimes m \<longrightarrow> (k = 1 \<or> lm_batch m = []) \<and> given = []"
    using flushBatch_outcome [of m dp] by (elim exE conjE) (rule that)
  have "set (concat (replicate k (lm_batch m))) \<union> set given = set (lm_batch m)"
    using k(3,4) by (cases k) auto
  moreover have "mset (concat (replicate k (lm_batch m))) = mset (lm_batch m)" if "k = 1 \<or> lm_batch m = []"
    using that by (cases k) auto
  ultimately have "moves dp [] (concat (replicate k (lm_batch m))) given m (flushBatch dp m)"
    using k unfolding moves_def writes_def by (simp add: Un_assoc [symmetric])
  then show ?thesis by blast
qed

lemma sync_moves: "extracts m \<Longrightarrow> \<exists>es given. moves dp [prepared m ctx e] es given m (sync_write dp ctx (prepared m ctx e) m)"
proof -
  assume "extracts m"
  then have p: "prepared m ctx e = prepared m ctx (prepared m ctx e)" by (simp add: prepared_idem)
  obtain es given where
    "es = [prepared m ctx e] \<and> given = [] \<or> es \<in> {[], [prepared m ctx e]} \<and> given = [prepared m ctx e] \<and> faults (lm_world m) \<noteq> []"
    "writes dp es given m (sync_write dp ctx (prepared m ctx e) m)"
    "lm_batch (sync_write dp ctx (prepared m ctx e) m) = lm_batch m"
    using sync_write_outcome [OF refl p, of dp] by (elim exE conjE) (rule that)
  then show ?thesis by (intro exI [of _ es] exI [of _ given]) (auto simp: moves_def writes_def)
qed

lemma collect_moves:
  assumes "lm_buffer m \<noteq> []"
  shows "\<exists>es given. moves dp [] es given m (collect dp m)"
proof -
  let ?m = "m\<lparr>lm_buffer := tl (lm_buffer m), lm_batch := lm_batch m @ [hd (lm_buffer m)]\<rparr>"
  obtain es given where f: "moves dp [] es given ?m (flushBatch dp ?m)" using flush_moves by blast
  obtain x xs where b: "lm_buffer m = x # xs" using assms by (cases "lm_buffer m") auto
  have "moves dp [] es given m (flushBatch dp ?m)"
    using f b by (auto simp: moves_def ac_simps)
  moreover have "moves dp [] [] [] m ?m" using b by (auto simp: moves_def)
  ultimately show ?thesis unfolding collect_def Let_def by (auto split: if_splits)
qed

lemma step_moves:
  assumes "log_step dp m ev m'" and "extracts m"
  shows "\<exists>es given. moves dp (submitted ev m) es given m m'"
  using assms(1)
proof (cases rule: log_step.cases)
  case (record_send entry' ctx entry)
  then have "moves dp (submitted ev m) [] [] m m'" by (simp add: submitted_def moves_def send_def Un_assoc)
  then show ?thesis by blast
next
  case (record_closed entry' ctx entry)
  then show ?thesis using sync_moves [OF assms(2), of dp ctx entry] by (simp add: submitted_def)
next
  case (record_full entry' ctx entry)
  then have "moves dp (submitted ev m) [] [entry'] m m'" if "lm_overflow m = OverflowDiscard"
    using that by (simp add: overflowed_def submitted_def moves_def Un_assoc)
  with record_full show ?thesis
    using sync_moves [OF assms(2), of dp ctx entry] by (cases "lm_overflow m") (auto simp: overflowed_def submitted_def)
next
  case receive
  then show ?thesis using collect_moves [of m dp] by (simp add: submitted_def)
next
  case tick
  then show ?thesis using flush_moves [of dp m] by (simp add: submitted_def)
next
  case close
  then have "moves dp (submitted ev m) [] [] m m'" by (simp add: submitted_def moves_def)
  then show ?thesis by blast
next
  case notice
  then have "moves dp (submitted ev m) [] [] m m'" by (simp add: submitted_def moves_def)
  then show ?thesis by blast
next
  case drain
  then show ?thesis using collect_moves [of m dp] by (simp add: submitted_def)
next
  case drain_end
  have "moves dp [] es given m m'" if "moves dp [] es given (m\<lparr>lm_worker := Stopped\<rparr>) m'" for es given
    using that by (simp add: moves_def)
  then show ?thesis using drain_end flush_moves [of dp "m\<lparr>lm_worker := Stopped\<rparr>"] by (auto simp: submitted_def)
next
  case (clock t)
  then have "moves dp (submitted ev m) [] [] m m'" by (simp add: submitted_def moves_def)
  then show ?thesis by blast
qed

text \<open>The sizes, the shutdown and the configuration.\<close>

definition same_config :: "log_manager \<Rightarrow> log_manager \<Rightarrow> bool" where
  "same_config m m' \<longleftrightarrow> lm_contextExtractor m' = lm_contextExtractor m \<and> lm_batchSize m' = lm_batchSize m \<and>
     lm_bufferSize m' = lm_bufferSize m \<and> lm_retryTimes m' = lm_retryTimes m"

lemma flush_frame:
  "same_config m (flushBatch dp m)" "lm_batch (flushBatch dp m) = []" "lm_buffer (flushBatch dp m) = lm_buffer m"
  "lm_worker (flushBatch dp m) = lm_worker m" "lm_closed (flushBatch dp m) = lm_closed m"
proof -
  obtain k given where "writes dp (concat (replicate k (lm_batch m))) given m (flushBatch dp m)"
    "lm_batch (flushBatch dp m) = []" using flushBatch_outcome [of m dp] by (elim exE conjE) (rule that)
  then show "same_config m (flushBatch dp m)" "lm_batch (flushBatch dp m) = []"
    "lm_buffer (flushBatch dp m) = lm_buffer m" "lm_worker (flushBatch dp m) = lm_worker m"
    "lm_closed (flushBatch dp m) = lm_closed m"
    by (simp_all add: same_config_def writes_def)
qed

lemma sync_frame:
  "same_config m (sync_write dp ctx e m)" "lm_batch (sync_write dp ctx e m) = lm_batch m"
  "lm_buffer (sync_write dp ctx e m) = lm_buffer m" "lm_worker (sync_write dp ctx e m) = lm_worker m"
  "lm_closed (sync_write dp ctx e m) = lm_closed m"
proof -
  obtain es given where "writes dp es given m (sync_write dp ctx e m)" "lm_batch (sync_write dp ctx e m) = lm_batch m"
    using sync_write_outcome [OF refl refl, of m ctx e dp] by (elim exE conjE) (rule that)
  then show "same_config m (sync_write dp ctx e m)" "lm_batch (sync_write dp ctx e m) = lm_batch m"
    "lm_buffer (sync_write dp ctx e m) = lm_buffer m" "lm_worker (sync_write dp ctx e m) = lm_worker m"
    "lm_closed (sync_write dp ctx e m) = lm_closed m"
    by (simp_all add: same_config_def writes_def)
qed

lemma collect_frame:
  assumes "lm_buffer m \<noteq> []" "0 < lm_batchSize m"
  shows "same_config m (collect dp m)" "length (lm_batch (collect dp m)) < lm_batchSize m"
    "lm_buffer (collect dp m) = tl (lm_buffer m)" "lm_worker (collect dp m) = lm_worker m"
    "lm_closed (collect dp m) = lm_closed m"
  using assms by (simp_all add: collect_def Let_def flush_frame same_config_def flush_frame(1) [unfolded same_config_def])

lemmas pipe_frames = flush_frame sync_frame collect_frame flush_frame(1) [unfolded same_config_def]
  sync_frame(1) [unfolded same_config_def] collect_frame(1) [unfolded same_config_def]

lemma extracts_config: "same_config m m' \<Longrightarrow> extracts m' = extracts m"
  by (simp add: same_config_def extracts_def)

lemma step_config: "log_step dp m ev m' \<Longrightarrow> pipe_ok m \<Longrightarrow> same_config m m'"
  by (erule log_step.cases)
    (auto simp: pipe_ok_def same_config_def send_def overflowed_def pipe_frames split: OverflowStrategy.splits)

lemma step_pipe_ok:
  assumes "log_step dp m ev m'" and ok: "pipe_ok m"
  shows "pipe_ok m'"
proof -
  have c: "same_config m m'" using step_config assms by blast
  have "length (lm_batch m') < lm_batchSize m \<and> length (lm_buffer m') \<le> lm_bufferSize m \<and>
     (lm_worker m' = Stopped \<longrightarrow> lm_batch m' = [] \<and> lm_closed m') \<and> (lm_worker m' = Draining \<longrightarrow> lm_closed m')"
    using assms(1) ok
    by (cases rule: log_step.cases)
      (auto simp: pipe_ok_def send_def overflowed_def pipe_frames split: OverflowStrategy.splits)
  then show ?thesis using ok c extracts_config [OF c] by (auto simp: pipe_ok_def same_config_def)
qed

lemma accounted_moves:
  assumes "accounted dp t0 hist m" "moves dp new es given m m'"
  shows "accounted dp t0 (hist @ new) m'"
proof -
  obtain written where "lw_logs (lm_world m) = appended dp written t0"
    "set hist = set written \<union> set (lm_batch m) \<union> set (lm_buffer m) \<union> set (lm_lost m)"
    using assms(1) by (auto simp: accounted_def)
  moreover have "set (lm_batch m) \<union> set (lm_buffer m) \<union> set new = set es \<union> set given \<union> set (lm_batch m') \<union> set (lm_buffer m')"
    using assms(2) by (simp add: moves_def Un_assoc)
  ultimately show ?thesis
    using assms(2) unfolding accounted_def moves_def
    by (intro exI [of _ "written @ es"]) (simp add: appended_append, blast)
qed

lemma exactly_once_moves:
  assumes "exactly_once dp t0 hist m" "moves dp new es given m m'" "faults (lm_world m) = []" "0 < lm_retryTimes m"
  shows "exactly_once dp t0 (hist @ new) m'" "faults (lm_world m') = []"
proof -
  obtain written where w: "lw_logs (lm_world m) = appended dp written t0"
    "mset hist = mset written + mset (lm_batch m) + mset (lm_buffer m) + mset (lm_lost m)"
    using assms(1) by (auto simp: exactly_once_def)
  have mv: "mset (lm_batch m) + mset (lm_buffer m) + mset new = mset es + mset given + mset (lm_batch m') + mset (lm_buffer m')"
    "lm_lost m' = lm_lost m @ given" "faults (lm_world m') = []"
    "lw_logs (lm_world m') = appended dp es (lw_logs (lm_world m))"
    using assms(2-) by (auto simp: moves_def add.assoc)
  have "mset (hist @ new) = mset written + (mset (lm_batch m) + mset (lm_buffer m) + mset new) + mset (lm_lost m)"
    using w(2) by (simp add: ac_simps)
  then have "mset (hist @ new) = mset (written @ es) + mset (lm_batch m') + mset (lm_buffer m') + mset (lm_lost m')"
    using mv(1,2) by (simp add: ac_simps)
  then show "exactly_once dp t0 (hist @ new) m'"
    using w(1) mv(4) unfolding exactly_once_def by (intro exI [of _ "written @ es"]) (simp add: appended_append)
  show "faults (lm_world m') = []" by fact
qed

lemma run_accounted:
  assumes "log_run dp m0 hist m" "pipe_ok m0" "lm_batch m0 = []" "lm_buffer m0 = []" "lm_lost m0 = []"
  shows "pipe_ok m \<and> accounted dp (lw_logs (lm_world m0)) hist m"
  using assms(1)
proof induction
  case run_start
  then show ?case using assms(2-) by (auto simp: accounted_def intro!: exI [of _ "[]"])
next
  case (run_step hist m ev m')
  then have "extracts m" by (auto simp: pipe_ok_def)
  then show ?case using run_step step_moves step_pipe_ok accounted_moves by blast
qed

lemma run_exactly_once:
  assumes "log_run dp m0 hist m" "pipe_ok m0" "lm_batch m0 = []" "lm_buffer m0 = []" "lm_lost m0 = []"
    "faults (lm_world m0) = []"
  shows "exactly_once dp (lw_logs (lm_world m0)) hist m \<and> faults (lm_world m) = []"
  using assms(1)
proof induction
  case run_start
  then show ?case using assms(2-) by (auto simp: exactly_once_def intro!: exI [of _ "[]"])
next
  case (run_step hist m ev m')
  have ok: "pipe_ok m" using run_accounted [OF run_step.hyps(1) assms(2-5)] by simp
  then have "extracts m" "0 < lm_retryTimes m" by (auto simp: pipe_ok_def)
  then show ?case using run_step step_moves exactly_once_moves by meson
qed

lemma new_manager_ok:
  "pipe_ok (SetContextExtractor (operationLogContextExtractor skip) (NewOperationLogManager w n))"
  by (auto simp: pipe_ok_def SetContextExtractor_def NewOperationLogManager_def extracts_def defaultBatchSize_def defaultRetryTimes_def)

text \<open>Once the worker has stopped, what is in the buffer stays there: nobody receives any more.\<close>

lemma stopped_step:
  "log_step dp m ev m' \<Longrightarrow> lm_worker m = Stopped \<Longrightarrow> lm_worker m' = Stopped \<and> set (lm_buffer m) \<subseteq> set (lm_buffer m')"
  by (erule log_step.cases) (auto simp: send_def overflowed_def pipe_frames split: OverflowStrategy.splits)

end
