(* ===== verification/OperLogFacts.thy ===== *)
theory OperLogFacts
  imports OperLogManager
begin

text \<open>
  What readers of the operation log get: the text of a filter tells filters apart up to an empty string for an absent
  one, the cached totals are exact as long as the calls succeed one after the other, and the pages cut the matching
  entries, newest first, into consecutive pieces.
\<close>

section \<open>The text of a filter\<close>

fun hex_val :: "char \<Rightarrow> nat" where
  "hex_val c = (let n = (of_char c :: nat) in if n \<le> 57 then n - 48 else n - 55)"

fun unescape :: "string \<Rightarrow> string" where
  "unescape [] = []"
| "unescape (c # s) =
     (if c = CHR ''+'' then CHR '' '' # unescape s
      else if c = CHR ''%'' then
        (case s of a # b # r \<Rightarrow> char_of (16 * hex_val a + hex_val b) # unescape r | _ \<Rightarrow> [])
      else c # unescape s)"

lemma hex_digit_facts:
  assumes "n < 16"
  shows "hex_val (hex_digit n) = n" "hex_digit n \<notin> set ''|=''"
proof -
  have "n \<in> set [0..<16]" using assms by simp
  then show "hex_val (hex_digit n) = n" "hex_digit n \<notin> set ''|=''"
    by (auto simp: hex_digit_def upt_rec numeral_nat)
qed

lemma query_plain_special: "\<not> query_plain (CHR ''+'')" "\<not> query_plain (CHR ''%'')" "\<not> query_plain (CHR ''|'')" "\<not> query_plain (CHR ''='')"
  by (simp_all add: query_plain_def Let_def)

lemma unescape_char: "unescape (escape_char c @ s) = c # unescape s"
proof -
  have n: "(of_char c :: nat) < 256" by simp
  then have "(of_char c :: nat) div 16 < 16" "(of_char c :: nat) mod 16 < 16" by (auto intro: less_mult_imp_div_less)
  then have "char_of (16 * hex_val (hex_digit (of_char c div 16)) + hex_val (hex_digit (of_char c mod 16))) = c"
    by (simp add: hex_digit_facts del: hex_val.simps)
  then show ?thesis
    using query_plain_special by (auto simp: escape_char_def Let_def simp del: hex_val.simps)
qed

lemma unescape_QueryEscape: "unescape (QueryEscape s) = s"
  by (induction s) (simp_all add: QueryEscape_def unescape_char)

lemma QueryEscape_inj: "QueryEscape s = QueryEscape t \<longleftrightarrow> s = t"
  by (metis unescape_QueryEscape)

lemma escape_no_separator: "CHR ''|'' \<notin> set (QueryEscape s)" "CHR ''='' \<notin> set (QueryEscape s)"
proof -
  have "CHR ''|'' \<notin> set (escape_char c) \<and> CHR ''='' \<notin> set (escape_char c)" for c
  proof -
    have n: "(of_char c :: nat) < 256" by simp
    then have "(of_char c :: nat) div 16 < 16" "(of_char c :: nat) mod 16 < 16" by (auto intro: less_mult_imp_div_less)
    note h = hex_digit_facts(2) [OF this(1)] hex_digit_facts(2) [OF this(2)]
    show ?thesis
    proof (cases "query_plain c")
      case True
      then have "c \<noteq> CHR ''|''" "c \<noteq> CHR ''=''" using query_plain_special by auto
      with True show ?thesis by (simp add: escape_char_def)
    qed (use h in \<open>simp add: escape_char_def Let_def eq_commute\<close>)
  qed
  then show "CHR ''|'' \<notin> set (QueryEscape s)" "CHR ''='' \<notin> set (QueryEscape s)" by (auto simp: QueryEscape_def)
qed

lemma show_int_no_separator: "CHR ''|'' \<notin> set (show_int i)"
proof -
  have "CHR ''|'' \<notin> set (show_nat n)" for n
  proof
    assume "CHR ''|'' \<in> set (show_nat n)"
    then obtain d where "d < 10" "CHR ''|'' = digit_char d" using show_nat_digits by blast
    then have "digit_val CHR ''|'' = Some d" by (simp del: digit_val.simps)
    then show False by simp
  qed
  then show ?thesis by (simp add: show_int_def)
qed

definition opt_field :: "string \<Rightarrow> string option \<Rightarrow> (string \<times> string) list" where
  "opt_field name v = (case v of None \<Rightarrow> [] | Some s \<Rightarrow> [(name, s)])"

definition string_field :: "string option \<Rightarrow> string" where
  "string_field v = (case v of None \<Rightarrow> [] | Some s \<Rightarrow> QueryEscape s)"

definition filter_fields :: "OperationLogFilter \<Rightarrow> (string \<times> string) list" where
  "filter_fields f =
     (''log_id'', string_field (lf_LogID f)) #
     opt_field ''operator_type'' (map_option show_int (lf_OperatorType f)) @
     opt_field ''operator_id'' (map_option show_int (lf_OperatorID f)) @
     [(''operator_name'', string_field (lf_OperatorName f)), (''action'', string_field (lf_Action f)),
      (''resource_type'', string_field (lf_ResourceType f)), (''resource_id'', string_field (lf_ResourceID f)),
      (''resource_name'', string_field (lf_ResourceName f)),
      (''resource_parent_id'', string_field (lf_ResourceParentID f))] @
     opt_field ''status'' (map_option show_int (lf_Status f)) @
     opt_field ''start_time'' (map_option (show_int \<circ> unix_seconds) (lf_StartTime f)) @
     opt_field ''end_time'' (map_option (show_int \<circ> unix_seconds) (lf_EndTime f))"

lemma Split_concat:
  "c \<notin> set s \<Longrightarrow> (\<And>x. x \<in> set xs \<Longrightarrow> c \<notin> set x) \<Longrightarrow> Split (s @ concat (map ((#) c) xs)) c = s # xs"
proof (induction xs arbitrary: s)
  case Nil
  then show ?case by (simp add: Split_plain)
next
  case (Cons x xs)
  have "Split (x @ concat (map ((#) c) xs)) c = x # xs" using Cons by simp
  with Cons.prems(1) show ?case by (simp add: Split_append)
qed

definition segment :: "string \<times> string \<Rightarrow> string" where
  "segment p = fst p @ CHR ''='' # snd p"

lemma filter_text_fields:
  "filter_text (Some f) = ''v1'' @ concat (map ((#) CHR ''|'') (map segment (filter_fields f)))"
proof -
  have s: "writeOptString name v = concat (map ((#) CHR ''|'') (map segment [(name, string_field v)]))" for name v
    by (simp add: writeOptString_def string_field_def segment_def)
  have i: "writeOptInt name v = concat (map ((#) CHR ''|'') (map segment (opt_field name (map_option show_int v))))" for name v
    by (cases v) (simp_all add: writeOptInt_def opt_field_def segment_def)
  show ?thesis
    by (simp add: filter_text_def filter_fields_def s i Let_def option.map_comp)
qed

lemma fields_clean:
  assumes "p \<in> set (filter_fields f)"
  shows "CHR ''|'' \<notin> set (segment p)" "CHR ''='' \<notin> set (fst p)"
proof -
  have o: "\<forall>p\<in>set (opt_field m (map_option g x)). CHR ''|'' \<notin> set (segment p) \<and> CHR ''='' \<notin> set (fst p)"
    if "CHR ''|'' \<notin> set m" "CHR ''='' \<notin> set m" "\<And>i. CHR ''|'' \<notin> set (g i)" for m x and g :: "'a \<Rightarrow> string"
    using that by (cases x) (simp_all add: opt_field_def segment_def)
  have f: "CHR ''|'' \<notin> set (string_field v)" for v
    using escape_no_separator by (simp add: string_field_def split: option.splits)
  have "\<forall>p\<in>set (filter_fields f). CHR ''|'' \<notin> set (segment p) \<and> CHR ''='' \<notin> set (fst p)"
    unfolding filter_fields_def set_append set_simps(2) ball_Un ball_simps(7)
    by (intro conjI o) (simp_all add: show_int_no_separator segment_def f)
  then show "CHR ''|'' \<notin> set (segment p)" "CHR ''='' \<notin> set (fst p)" using assms by blast+
qed

lemma segment_inj: "CHR ''='' \<notin> set (fst p) \<Longrightarrow> CHR ''='' \<notin> set (fst q) \<Longrightarrow> segment p = segment q \<Longrightarrow> p = q"
  unfolding segment_def by (metis Cut_first option.inject prod.inject prod_eqI)

lemma filter_text_eq: "filter_text (Some f) = filter_text (Some g) \<longleftrightarrow> filter_fields f = filter_fields g"
proof
  assume "filter_text (Some f) = filter_text (Some g)"
  then have "Split ([] @ concat (map ((#) CHR ''|'') (map segment (filter_fields f)))) CHR ''|'' =
      Split ([] @ concat (map ((#) CHR ''|'') (map segment (filter_fields g)))) CHR ''|''"
    by (simp add: filter_text_fields)
  then have "[] # map segment (filter_fields f) = [] # map segment (filter_fields g)"
    using fields_clean(1) by (subst (asm) (1 2) Split_concat) auto
  then have "map segment (filter_fields f) = map segment (filter_fields g)" by simp
  moreover have "inj_on segment (set (filter_fields f) \<union> set (filter_fields g))"
    using fields_clean(2) segment_inj by (intro inj_onI) (metis Un_iff)
  ultimately show "filter_fields f = filter_fields g" by (rule map_inj_on)
qed (simp add: filter_text_fields)

text \<open>What the key of a cached total still knows of a filter.\<close>

definition cache_view ::
  "OperationLogFilter \<Rightarrow> string list \<times> int option list" where
  "cache_view f =
     (map (\<lambda>v. opt_set v []) [lf_LogID f, lf_OperatorName f, lf_Action f, lf_ResourceType f, lf_ResourceID f,
        lf_ResourceName f, lf_ResourceParentID f],
      [lf_OperatorType f, lf_OperatorID f, lf_Status f, map_option unix_seconds (lf_StartTime f),
       map_option unix_seconds (lf_EndTime f)])"

lemma string_field_eq: "string_field v = string_field v' \<longleftrightarrow> opt_set v [] = opt_set v' []"
proof -
  have "string_field x = QueryEscape (opt_set x [])" for x
    by (simp add: string_field_def opt_set_def QueryEscape_def split: option.splits)
  then show ?thesis by (simp add: QueryEscape_inj)
qed

lemma show_int_eq: "show_int i = show_int j \<longleftrightarrow> i = j"
  by (metis show_int_inj)

lemma opt_int_eq: "map_option show_int a = map_option show_int b \<longleftrightarrow> a = b"
  "map_option (show_int \<circ> unix_seconds) c = map_option (show_int \<circ> unix_seconds) d \<longleftrightarrow> map_option unix_seconds c = map_option unix_seconds d"
  by (cases a; cases b; auto simp: show_int_eq) (cases c; cases d; auto simp: show_int_eq)

lemma map_of_opt_field: "map_of (opt_field n v) k = (if k = n then v else None)"
  by (auto simp: opt_field_def split: option.splits)

lemma map_of_app: "map_of (xs @ ys) k = (if map_of xs k = None then map_of ys k else map_of xs k)"
  by (auto simp: map_add_def split: option.splits)

lemma field_values:
  "map_of (filter_fields f) ''log_id'' = Some (string_field (lf_LogID f))"
  "map_of (filter_fields f) ''operator_type'' = map_option show_int (lf_OperatorType f)"
  "map_of (filter_fields f) ''operator_id'' = map_option show_int (lf_OperatorID f)"
  "map_of (filter_fields f) ''operator_name'' = Some (string_field (lf_OperatorName f))"
  "map_of (filter_fields f) ''action'' = Some (string_field (lf_Action f))"
  "map_of (filter_fields f) ''resource_type'' = Some (string_field (lf_ResourceType f))"
  "map_of (filter_fields f) ''resource_id'' = Some (string_field (lf_ResourceID f))"
  "map_of (filter_fields f) ''resource_name'' = Some (string_field (lf_ResourceName f))"
  "map_of (filter_fields f) ''resource_parent_id'' = Some (string_field (lf_ResourceParentID f))"
  "map_of (filter_fields f) ''status'' = map_option show_int (lf_Status f)"
  "map_of (filter_fields f) ''start_time'' = map_option (show_int \<circ> unix_seconds) (lf_StartTime f)"
  "map_of (filter_fields f) ''end_time'' = map_option (show_int \<circ> unix_seconds) (lf_EndTime f)"
  by (simp_all add: filter_fields_def map_of_app map_of_opt_field del: Map.map_of_append)

lemma filter_text_view: "filter_text (Some f) = filter_text (Some g) \<longleftrightarrow> cache_view f = cache_view g"
proof
  assume "filter_text (Some f) = filter_text (Some g)"
  then have e: "map_of (filter_fields f) k = map_of (filter_fields g) k" for k by (simp add: filter_text_eq)
  show "cache_view f = cache_view g"
    using e [of "''log_id''"] e [of "''operator_type''"] e [of "''operator_id''"] e [of "''operator_name''"]
      e [of "''action''"] e [of "''resource_type''"] e [of "''resource_id''"] e [of "''resource_name''"]
      e [of "''resource_parent_id''"] e [of "''status''"] e [of "''start_time''"] e [of "''end_time''"]
    by (simp add: field_values cache_view_def string_field_eq opt_int_eq)
next
  assume v: "cache_view f = cache_view g"
  have "string_field (lf_LogID f) = string_field (lf_LogID g)" "string_field (lf_OperatorName f) = string_field (lf_OperatorName g)"
    "string_field (lf_Action f) = string_field (lf_Action g)" "string_field (lf_ResourceType f) = string_field (lf_ResourceType g)"
    "string_field (lf_ResourceID f) = string_field (lf_ResourceID g)" "string_field (lf_ResourceName f) = string_field (lf_ResourceName g)"
    "string_field (lf_ResourceParentID f) = string_field (lf_ResourceParentID g)"
    using v unfolding string_field_eq by (simp_all add: cache_view_def)
  moreover have "lf_OperatorType f = lf_OperatorType g" "lf_OperatorID f = lf_OperatorID g" "lf_Status f = lf_Status g"
    using v by (simp_all add: cache_view_def)
  moreover have "map_option (show_int \<circ> unix_seconds) (lf_StartTime f) = map_option (show_int \<circ> unix_seconds) (lf_StartTime g)"
    "map_option (show_int \<circ> unix_seconds) (lf_EndTime f) = map_option (show_int \<circ> unix_seconds) (lf_EndTime g)"
    using v unfolding opt_int_eq by (simp_all add: cache_view_def)
  ultimately show "filter_text (Some f) = filter_text (Some g)"
    unfolding filter_text_eq filter_fields_def by (simp only:)
qed

section \<open>Order and pages\<close>

definition newer :: "TOperationLog \<Rightarrow> TOperationLog \<Rightarrow> bool" where
  "newer a b \<longleftrightarrow> tl_CreatedAt b < tl_CreatedAt a \<or> tl_CreatedAt a = tl_CreatedAt b \<and> tl_ID b < tl_ID a"

lemma insort_lex:
  fixes f g :: "'a \<Rightarrow> int"
  assumes "sorted_wrt (\<lambda>a b. f a < f b \<or> f a = f b \<and> g a \<le> g b) ys" "\<And>y. y \<in> set ys \<Longrightarrow> g x \<le> g y"
  shows "sorted_wrt (\<lambda>a b. f a < f b \<or> f a = f b \<and> g a \<le> g b) (insort_key f x ys)"
  using assms
proof (induction ys)
  case (Cons y ys)
  show ?case
  proof (cases "f x \<le> f y")
    case True
    then have "\<forall>z\<in>set (y # ys). f x < f z \<or> f x = f z \<and> g x \<le> g z" using Cons.prems by fastforce
    with True Cons.prems show ?thesis by simp
  next
    case False
    with Cons show ?thesis by (auto simp: set_insort_key)
  qed
qed simp

lemma sort_key_lex:
  fixes f g :: "'a \<Rightarrow> int"
  assumes "sorted (map g xs)"
  shows "sorted_wrt (\<lambda>a b. f a < f b \<or> f a = f b \<and> g a \<le> g b) (sort_key f xs)"
  using assms by (induction xs) (auto intro: insort_lex)

lemma newest_first_sorted:
  assumes "distinct (map tl_ID rs)"
  shows "sorted_wrt newer (newest_first rs)"
proof -
  have "sorted_wrt (\<lambda>a b. - tl_CreatedAt a < - tl_CreatedAt b \<or> - tl_CreatedAt a = - tl_CreatedAt b \<and> - tl_ID a \<le> - tl_ID b)
    (newest_first rs)" unfolding newest_first_def by (rule sort_key_lex) simp
  moreover have "sorted_wrt (\<lambda>a b. tl_ID a \<noteq> tl_ID b) (newest_first rs)"
  proof -
    have "mset (newest_first rs) = mset rs" by (simp add: newest_first_def)
    then have "distinct (map tl_ID (newest_first rs))" using assms by (metis mset_eq_imp_distinct_iff mset_map)
    then show ?thesis by (simp add: distinct_conv_nth sorted_wrt_iff_nth_less)
  qed
  ultimately show ?thesis unfolding sorted_wrt_iff_nth_less newer_def by fastforce
qed

lemma newest_first_set [simp]: "set (newest_first rs) = set rs" "length (newest_first rs) = length rs"
  by (simp_all add: newest_first_def)

lemma newer_trans: "newer a b \<Longrightarrow> newer b c \<Longrightarrow> newer a c"
  by (auto simp: newer_def)

lemma newer_irrefl: "\<not> newer a a"
  by (simp add: newer_def)

lemma sorted_newer_unique:
  assumes "sorted_wrt newer xs" "sorted_wrt newer ys" "set xs = set ys"
  shows "xs = ys"
  using assms
proof (induction xs arbitrary: ys)
  case Nil
  then show ?case by simp
next
  case (Cons x xs)
  then obtain y zs where ys: "ys = y # zs" by (cases ys) auto
  have "x = y" using Cons.prems newer_trans newer_irrefl unfolding ys by (metis insert_iff list.simps(15) sorted_wrt.simps(2))
  moreover have "x \<notin> set xs" "y \<notin> set zs" using Cons.prems newer_irrefl unfolding ys by auto
  ultimately have "set xs = set zs" using Cons.prems(3) unfolding ys by (metis insert_ident list.simps(15))
  with Cons.IH [of zs] Cons.prems \<open>x = y\<close> show ?case unfolding ys by simp
qed

text \<open>The join on the identifiers of the page gives the page again.\<close>

lemma deferred_page:
  assumes "distinct (map tl_ID rs)" and "pg = take n (drop k (newest_first (filter P rs)))"
  shows "newest_first (filter (\<lambda>r. tl_ID r \<in> set (map tl_ID pg)) rs) = pg"
proof (rule sorted_newer_unique)
  have d: "distinct (map tl_ID (filter Q rs))" for Q using assms(1) by (rule distinct_map_filter)
  show "sorted_wrt newer (newest_first (filter (\<lambda>r. tl_ID r \<in> set (map tl_ID pg)) rs))" by (rule newest_first_sorted [OF d])
  show "sorted_wrt newer pg" unfolding assms(2)
    by (intro sorted_wrt_take sorted_wrt_drop newest_first_sorted d)
  have sub: "set pg \<subseteq> set rs" unfolding assms(2)
    using set_take_subset set_drop_subset newest_first_set(1) by (metis (no_types, lifting) filter_is_subset order_trans)
  show "set (newest_first (filter (\<lambda>r. tl_ID r \<in> set (map tl_ID pg)) rs)) = set pg"
  proof
    show "set (newest_first (filter (\<lambda>r. tl_ID r \<in> set (map tl_ID pg)) rs)) \<subseteq> set pg"
    proof
      fix r assume "r \<in> set (newest_first (filter (\<lambda>r. tl_ID r \<in> set (map tl_ID pg)) rs))"
      then obtain r' where "r \<in> set rs" "r' \<in> set pg" "tl_ID r = tl_ID r'" by auto
      with sub assms(1) show "r \<in> set pg" by (metis inj_on_def distinct_map subsetD)
    qed
  qed (use sub in auto)
qed

lemma pages_concat: "concat (map (\<lambda>p. take s (drop (p * s) xs)) [0..<k]) = take (k * s) xs"
proof (induction k)
  case (Suc k)
  have "take (Suc k * s) xs = take (k * s) xs @ take s (drop (k * s) xs)"
    using take_add [of "k * s" s xs] by (simp add: add.commute)
  with Suc show ?case by simp
qed simp

section \<open>Totals\<close>

definition definite :: "OperationLogFilter \<Rightarrow> bool" where
  "definite f \<longleftrightarrow>
     list_all (\<lambda>v. v \<noteq> Some []) [lf_LogID f, lf_OperatorName f, lf_Action f, lf_ResourceType f, lf_ResourceID f,
        lf_ResourceName f, lf_ResourceParentID f] \<and>
     list_all (\<lambda>v. case v of None \<Rightarrow> True | Some t \<Rightarrow> (t - unixEpoch) mod nsSecond = 0) [lf_StartTime f, lf_EndTime f]"

lemma opt_set_definite: "v \<noteq> Some [] \<Longrightarrow> v' \<noteq> Some [] \<Longrightarrow> opt_set v [] = opt_set v' [] \<Longrightarrow> v = v'"
  by (cases v; cases v') (auto simp: opt_set_def)

lemma seconds_definite:
  assumes "case v of None \<Rightarrow> True | Some t \<Rightarrow> (t - unixEpoch) mod nsSecond = 0"
    "case v' of None \<Rightarrow> True | Some t \<Rightarrow> (t - unixEpoch) mod nsSecond = 0"
    "map_option unix_seconds v = map_option unix_seconds v'"
  shows "v = v'"
proof (cases v; cases v')
  fix t t' assume "v = Some t" "v' = Some t'"
  moreover have "t - unixEpoch = t' - unixEpoch"
    using assms calculation div_mult_mod_eq [of "t - unixEpoch" nsSecond] div_mult_mod_eq [of "t' - unixEpoch" nsSecond]
    by (simp add: unix_seconds_def)
  ultimately show ?thesis by simp
qed (use assms in auto)

lemma eq_opt_None: "eq_opt None x"
  by (simp add: eq_opt_def)

lemma where_param:
  "where_log (filterToParam (Some f)) r =
     (eq_opt (lf_LogID f) (tl_LogID r) \<and> eq_opt (lf_OperatorType f) (tl_OperatorType r) \<and>
      eq_opt (lf_OperatorID f) (tl_OperatorID r) \<and> eq_opt (lf_OperatorName f) (tl_OperatorName r) \<and>
      eq_opt (lf_Action f) (tl_Action r) \<and> eq_opt (lf_ResourceType f) (tl_ResourceType r) \<and>
      eq_opt (lf_ResourceID f) (tl_ResourceID r) \<and> eq_opt (lf_ResourceName f) (tl_ResourceName r) \<and>
      eq_opt (lf_ResourceParentID f) (tl_ResourceParentID r) \<and> eq_opt (lf_Status f) (tl_Status r) \<and>
      (case lf_StartTime f of None \<Rightarrow> True | Some t \<Rightarrow> t \<le> tl_CreatedAt r) \<and>
      (case lf_EndTime f of None \<Rightarrow> True | Some t \<Rightarrow> tl_CreatedAt r \<le> t))"
  by (cases "lf_Page f"; cases "lf_PageSize f")
    (simp_all add: where_log_def filterToParam_def no_log_param_def Let_def eq_opt_None)

lemma where_view:
  assumes "definite f" "definite g" "cache_view f = cache_view g"
  shows "where_log (filterToParam (Some f)) = where_log (filterToParam (Some g))"
proof -
  have "lf_LogID f = lf_LogID g" "lf_OperatorName f = lf_OperatorName g" "lf_Action f = lf_Action g"
    "lf_ResourceType f = lf_ResourceType g" "lf_ResourceID f = lf_ResourceID g" "lf_ResourceName f = lf_ResourceName g"
    "lf_ResourceParentID f = lf_ResourceParentID g"
    by (rule opt_set_definite; use assms in \<open>simp add: definite_def cache_view_def\<close>)+
  moreover have "lf_StartTime f = lf_StartTime g" "lf_EndTime f = lf_EndTime g"
    by (rule seconds_definite; use assms in \<open>simp add: definite_def cache_view_def\<close>)+
  ultimately show ?thesis using assms(3) by (intro ext) (simp add: where_param cache_view_def)
qed

end
