(* ===== verification/OperLogTotals.thy ===== *)
theory OperLogTotals
  imports OperLogFacts
begin

text \<open>
  The cache of totals is coherent: as long as the calls succeed one after the other, what it holds under the current
  generation is the number of matching rows.
\<close>

section \<open>The invariant\<close>

definition log_count :: "OperationLogFilter \<Rightarrow> log_world \<Rightarrow> nat" where
  "log_count f w = matching (filterToParam (Some f)) w"

text \<open>A total that is stored is the one of the current generation \<open>n\<close> and exact.\<close>

definition total_ok :: "log_deps \<Rightarrow> nat \<Rightarrow> log_world \<Rightarrow> OperationLogFilter \<Rightarrow> nat \<Rightarrow> bool" where
  "total_ok dp n w f m =
     (case lw_redis w (countCacheValueKey dp (of_nat m) (Some f)) of
        None \<Rightarrow> True | Some (s, e) \<Rightarrow> m = n \<and> s = FormatInt (of_nat (log_count f w) + 1))"

definition gen_ok :: "nat \<Rightarrow> log_world \<Rightarrow> bool" where
  "gen_ok n w =
     (case lw_redis w countCacheGenKey of None \<Rightarrow> n = 0 | Some (s, e) \<Rightarrow> s = FormatInt (of_nat n) \<and> e = None)"

definition coherent :: "log_deps \<Rightarrow> OperationLogFilter set \<Rightarrow> nat \<Rightarrow> log_world \<Rightarrow> bool" where
  "coherent dp F n w \<longleftrightarrow> n < 2 ^ 63 \<and> gen_ok n w \<and> (\<forall>f\<in>F. \<forall>m<2 ^ 63. n \<le> m \<longrightarrow> total_ok dp n w f m)"

lemma coherentD: "coherent dp F n w \<Longrightarrow> f \<in> F \<Longrightarrow> m < 2 ^ 63 \<Longrightarrow> n \<le> m \<Longrightarrow> total_ok dp n w f m"
  by (simp add: coherent_def)

lemma coherent_gen: "coherent dp F n w \<Longrightarrow> gen_ok n w \<and> n < 2 ^ 63"
  by (simp add: coherent_def)

text \<open>The digest tells the texts of the filters in use apart, and every one of them is definite.\<close>

definition told_apart :: "log_deps \<Rightarrow> OperationLogFilter set \<Rightarrow> bool" where
  "told_apart dp F \<longleftrightarrow> (\<forall>f\<in>F. definite f) \<and>
     (\<forall>f\<in>F. \<forall>g\<in>F. ld_digest dp (filter_text (Some f)) = ld_digest dp (filter_text (Some g)) \<longrightarrow>
        filter_text (Some f) = filter_text (Some g))"

definition ids_ok :: "TOperationLog table \<Rightarrow> bool" where
  "ids_ok t \<longleftrightarrow> distinct (map tl_ID (rows t)) \<and> (\<forall>r\<in>set (rows t). tl_ID r < next_id t)"

definition quiet :: "log_deps \<Rightarrow> OperationLogFilter set \<Rightarrow> nat \<Rightarrow> log_world \<Rightarrow> bool" where
  "quiet dp F n w \<longleftrightarrow> faults w = [] \<and> coherent dp F n w \<and> ids_ok (lw_logs w)"

lemma row_for_ID [simp]: "tl_ID (row_for dp e i) = i"
  by (simp add: row_for_def new_log_row_def)

lemma ids_ok_appended: "ids_ok t \<Longrightarrow> ids_ok (appended dp es t)"
proof (induction es arbitrary: t)
  case (Cons e es)
  have "ids_ok (t\<lparr>rows := rows t @ [row_for dp e (next_id t)], next_id := next_id t + 1\<rparr>)"
    using Cons.prems by (force simp: ids_ok_def)
  then show ?case using Cons.IH by simp
qed simp

section \<open>Keys\<close>

lemma unat_of_nat_i64: "c < 2 ^ 63 \<Longrightarrow> unat (of_nat c :: i64) = c"
  by (simp add: unat_of_nat take_bit_nat_eq_self)

lemma sint_of_nat_i64: "c < 2 ^ 63 \<Longrightarrow> sint (of_nat c :: i64) = int c"
  by (simp add: signed_of_nat signed_take_bit_int_eq_self)

lemma sint_unat_i64: "0 \<le> sint (x :: i64) \<Longrightarrow> sint x = int (unat x)"
proof -
  assume "0 \<le> sint x"
  moreover have "sint x < 2 ^ 63" using sint_lt [of x] by simp
  ultimately have "uint x = sint x" unfolding uint_sint by (simp add: take_bit_int_eq_self)
  then show ?thesis by simp
qed

lemma of_nat_i64_inj: "m < 2 ^ 63 \<Longrightarrow> n < 2 ^ 63 \<Longrightarrow> (of_nat m :: i64) = of_nat n \<longleftrightarrow> m = n"
  by (metis unat_of_nat_i64)

lemma FormatInt_inj: "FormatInt x = FormatInt y \<longleftrightarrow> x = y"
  by (metis ParseInt_FormatInt option.inject)

lemma FormatInt_no_colon: "CHR '':'' \<notin> set (FormatInt x)"
  by (simp add: FormatInt_def show_int_no_colon)

lemma value_key_eq:
  assumes "countCacheValueKey dp g f = countCacheValueKey dp g' f'"
  shows "g = g' \<and> countCacheFilterHash dp f = countCacheFilterHash dp f'"
proof -
  have "Cut (FormatInt g @ CHR '':'' # countCacheFilterHash dp f) CHR '':'' =
      Cut (FormatInt g' @ CHR '':'' # countCacheFilterHash dp f') CHR '':''"
    using assms by (simp add: countCacheValueKey_def)
  then show ?thesis by (simp add: Cut_first FormatInt_no_colon FormatInt_inj)
qed

lemma gen_key_no_value: "countCacheGenKey \<noteq> countCacheValueKey dp g f"
  by (simp add: countCacheGenKey_def countCacheValueKey_def)

lemma same_key_same_count:
  assumes "told_apart dp F" "f \<in> F" "g \<in> F" "countCacheFilterHash dp (Some f) = countCacheFilterHash dp (Some g)"
  shows "log_count f w = log_count g w"
proof -
  have "filter_text (Some f) = filter_text (Some g)" using assms by (auto simp: told_apart_def countCacheFilterHash_def)
  moreover have "definite f" "definite g" using assms(1-3) by (simp_all add: told_apart_def)
  ultimately have "where_log (filterToParam (Some f)) = where_log (filterToParam (Some g))"
    by (intro where_view) (simp_all only: filter_text_view)
  then show ?thesis by (simp add: log_count_def matching_def)
qed

section \<open>Reading\<close>

lemma generation_run:
  assumes "faults w = []" "coherent dp F n w"
  shows "run_state generation w = (Inr (Some (of_nat n)), w)"
proof -
  have "gen_ok n w" using assms(2) by (simp add: coherent_def)
  then show ?thesis
    using assms(1)
    by (cases "lw_redis w countCacheGenKey")
      (auto simp: gen_ok_def generation_def log_GetInt64_def log_rget_def live_def nil_returned_def HasPrefix_def)
qed

lemma positive_total:
  assumes "c < 2 ^ 63 - 1"
  shows "\<not> (of_nat c + 1 :: i64) \<le>s 0"
proof -
  have "sint (of_nat (Suc c) :: i64) = int (Suc c)" using assms by (intro sint_of_nat_i64) simp
  then show ?thesis by (simp add: word_sle_eq add.commute)
qed

lemma counter_get_run:
  assumes "faults w = []" "coherent dp F n w" "f \<in> F" "log_count f w < 2 ^ 63 - 1"
  shows "\<exists>hit. run_state (counter_get dp (Some f)) w = (Inr hit, w) \<and> hit \<in> {None, Some (of_nat (log_count f w))}"
proof -
  have g: "run_state generation w = (Inr (Some (of_nat n)), w)" using generation_run assms by blast
  have k: "total_ok dp n w f n" using coherentD [OF assms(2,3), of n] coherent_gen [OF assms(2)] by simp
  show ?thesis
  proof (cases "log_rget w (countCacheValueKey dp (of_nat n) (Some f))")
    case None
    then show ?thesis using g assms(1) by (simp add: counter_get_def log_GetInt64_def)
  next
    case (Some s)
    then have "s = FormatInt (of_nat (log_count f w) + 1)"
      using k by (auto simp: total_ok_def log_rget_def split: option.splits if_splits)
    with Some show ?thesis
      using g assms(1) positive_total [OF assms(4)] by (simp add: counter_get_def log_GetInt64_def)
  qed
qed

lemma counter_set_run:
  assumes "faults w = []" "coherent dp F n w" "f \<in> F" "told_apart dp F"
  shows "\<exists>w'. run_state (counter_set dp (Some f) (of_nat (log_count f w))) w = (Inr (), w') \<and> faults w' = [] \<and>
    coherent dp F n w' \<and> lw_logs w' = lw_logs w \<and> lw_now w' = lw_now w"
proof -
  let ?k = "countCacheValueKey dp (of_nat n) (Some f)"
  let ?w = "w\<lparr>lw_redis := (lw_redis w)(?k \<mapsto> (FormatInt (of_nat (log_count f w) + 1), Some (lw_now w + countCacheTTL)))\<rparr>"
  have g: "run_state generation w = (Inr (Some (of_nat n)), w)" using generation_run assms by blast
  have run: "run_state (counter_set dp (Some f) (of_nat (log_count f w))) w = (Inr (), ?w)"
    using assms(1) by (simp add: counter_set_def g Setex_def)
  have c: "log_count h ?w = log_count h w" for h by (simp add: log_count_def matching_def)
  have n: "n < 2 ^ 63" using assms(2) by (simp add: coherent_def)
  have "total_ok dp n ?w h m" if "h \<in> F" "m < 2 ^ 63" "n \<le> m" for h m
  proof (cases "countCacheValueKey dp (of_nat m) (Some h) = ?k")
    case True
    then have "(of_nat m :: i64) = of_nat n" "countCacheFilterHash dp (Some h) = countCacheFilterHash dp (Some f)"
      using value_key_eq by blast+
    then have "m = n" "log_count h w = log_count f w"
      using that n same_key_same_count [OF assms(4) that(1) assms(3)] by (simp_all add: of_nat_i64_inj)
    then show ?thesis using True by (simp add: total_ok_def c)
  next
    case False
    then show ?thesis using coherentD [OF assms(2) that] by (simp add: total_ok_def c cong: option.case_cong)
  qed
  moreover have "gen_ok n ?w" using coherent_gen [OF assms(2)] gen_key_no_value by (simp add: gen_ok_def)
  ultimately have "coherent dp F n ?w" using n by (simp add: coherent_def)
  with run assms(1) show ?thesis by (intro exI [of _ ?w]) simp
qed

lemma count_run:
  assumes "quiet dp F n w" "f \<in> F" "told_apart dp F" "log_count f w < 2 ^ 63 - 1"
  shows "\<exists>w'. run_state (storager_count dp (filterToParam (Some f)) (Some f)) w = (Inr (of_nat (log_count f w)), w') \<and>
    quiet dp F n w' \<and> lw_logs w' = lw_logs w \<and> lw_now w' = lw_now w"
proof -
  have q: "faults w = []" "coherent dp F n w" "ids_ok (lw_logs w)" using assms(1) by (simp_all add: quiet_def)
  obtain hit where h: "run_state (counter_get dp (Some f)) w = (Inr hit, w)" "hit \<in> {None, Some (of_nat (log_count f w))}"
    using counter_get_run [OF q(1,2) assms(2,4)] by blast
  obtain w' where s: "run_state (counter_set dp (Some f) (of_nat (log_count f w))) w = (Inr (), w')" "faults w' = []"
    "coherent dp F n w'" "lw_logs w' = lw_logs w" "lw_now w' = lw_now w"
    using counter_set_run [OF q(1,2) assms(2,3)] by blast
  have c: "run_state (TOperationLogCount (filterToParam (Some f))) w = (Inr (of_nat (log_count f w)), w)"
    using q(1) by (simp add: TOperationLogCount_def log_count_def)
  show ?thesis
  proof (cases "ld_counter dp \<and> hit \<noteq> None")
    case True
    then show ?thesis using h assms(1) by (intro exI [of _ w]) (auto simp: storager_count_def)
  next
    case False
    then show ?thesis
      using h c s q assms(1)
      by (cases "ld_counter dp") (auto simp: storager_count_def quiet_def)
  qed
qed

text \<open>The page that a filter asks for.\<close>

definition expected_page :: "OperationLogFilter \<Rightarrow> log_world \<Rightarrow> TOperationLog list" where
  "expected_page f w = log_page (filterToParam (Some f)) (rows (lw_logs w))"

lemma list_run:
  assumes "quiet dp F n w" "f \<in> F" "told_apart dp F" "log_count f w < 2 ^ 63 - 1"
  shows "\<exists>w'. run_state (storager_List dp (Some f)) w = (Inr (map (paramToEntry dp) (expected_page f w), of_nat (log_count f w)), w') \<and>
    quiet dp F n w' \<and> lw_logs w' = lw_logs w \<and> lw_now w' = lw_now w"
proof -
  obtain w' where c: "run_state (storager_count dp (filterToParam (Some f)) (Some f)) w = (Inr (of_nat (log_count f w)), w')"
    and w': "quiet dp F n w'" "lw_logs w' = lw_logs w" "lw_now w' = lw_now w"
    using count_run [OF assms] by blast
  have fl: "faults w' = []" and ids: "distinct (map tl_ID (rows (lw_logs w)))" using w' by (auto simp: quiet_def ids_ok_def)
  show ?thesis
  proof (cases "lf_Page f = None \<or> lf_PageSize f = None")
    case True
    then have "run_state (storager_List dp (Some f)) w = (Inr (map (paramToEntry dp) (expected_page f w), of_nat (log_count f w)), w')"
      using c fl w'(2)
      by (cases "lf_Page f"; cases "lf_PageSize f") (simp_all add: storager_List_def Let_def TOperationLogList_def expected_page_def)
    with w' show ?thesis by blast
  next
    case False
    then obtain pg sz where p: "lf_Page f = Some pg" "lf_PageSize f = Some sz" by auto
    let ?o = "(pg - 1) * sz" and ?L = "newest_first (filter (where_log (filterToParam (Some f))) (rows (lw_logs w)))"
    let ?off = "if ?o <s 0 then 0 else ?o"
    have e: "expected_page f w = take (unat sz) (drop (unat ?off) ?L)"
      by (simp add: expected_page_def log_page_def filterToParam_def p Let_def)
    have len: "length ?L = log_count f w" by (simp add: log_count_def matching_def)
    have empty: "expected_page f w = []" if "of_nat (log_count f w) \<le>s ?off"
    proof -
      have "int (log_count f w) \<le> sint ?off"
        using that sint_of_nat_i64 [of "log_count f w"] assms(4) unfolding word_sle_eq by simp
      moreover from this have "sint ?off = int (unat ?off)" by (intro sint_unat_i64) linarith
      ultimately have "length ?L \<le> unat ?off" using len by linarith
      then show ?thesis by (simp only: e drop_all take_Nil)
    qed
    have d: "newest_first (filter (\<lambda>r. tl_ID r \<in> set (map tl_ID (expected_page f w))) (rows (lw_logs w))) = expected_page f w"
      by (rule deferred_page [OF ids e])
    have "run_state (storager_List dp (Some f)) w = (Inr (map (paramToEntry dp) (expected_page f w), of_nat (log_count f w)), w')"
      using c fl w'(2) d empty
      by (simp add: storager_List_def Let_def TOperationLogListDeferred_def p expected_page_def)
    with w' show ?thesis by blast
  qed
qed

section \<open>Writing\<close>

lemma redis_int_gen: "n < 2 ^ 63 \<Longrightarrow> redis_int (FormatInt (of_nat n)) = Some (of_nat n)"
  by (rule redis_int_FormatInt)

lemma invalidate_run:
  assumes "faults w = []" "gen_ok n w" "n + 1 < 2 ^ 63" and "\<forall>f\<in>F. \<forall>m<2 ^ 63. n < m \<longrightarrow> lw_redis w (countCacheValueKey dp (of_nat m) (Some f)) = None"
  shows "\<exists>w'. run_state invalidate w = (Inr (), w') \<and> faults w' = [] \<and> coherent dp F (n + 1) w' \<and> lw_logs w' = lw_logs w"
proof -
  have "sint (of_nat n :: i64) = int n" using assms(3) by (intro sint_of_nat_i64) simp
  then have s: "sint (of_nat n :: i64) + 1 < 2 ^ 63" using assms(3) by simp
  let ?w = "w\<lparr>lw_redis := (lw_redis w)(countCacheGenKey \<mapsto> (FormatInt (of_nat (n + 1)), None))\<rparr>"
  have "run_state invalidate w = (Inr (), ?w)"
    using assms(1,2) s
    by (cases "lw_redis w countCacheGenKey")
      (auto simp: invalidate_def Incr_def log_rget_def gen_ok_def live_def add.commute)
  moreover have "coherent dp F (n + 1) ?w"
    using assms(3,4) gen_key_no_value gen_key_no_value [symmetric] by (auto simp: coherent_def gen_ok_def total_ok_def)
  ultimately show ?thesis using assms(1) by (intro exI [of _ ?w]) simp
qed

lemma BatchCreate_run:
  assumes "quiet dp F n w" "n + 1 < 2 ^ 63" "ld_counter dp"
  shows "\<exists>w' n'. run_state (BatchCreate dp es) w = (Inr (), w') \<and> n' \<le> n + 1 \<and> quiet dp F n' w' \<and>
    lw_logs w' = appended dp es (lw_logs w)"
proof (cases "es = []")
  case True
  then show ?thesis using assms by (intro exI [of _ w] exI [of _ n]) (simp add: BatchCreate_def)
next
  case False
  let ?w = "w\<lparr>lw_logs := appended dp es (lw_logs w)\<rparr>"
  have q: "faults w = []" "coherent dp F n w" "ids_ok (lw_logs w)" using assms(1) by (simp_all add: quiet_def)
  have c: "run_state (TOperationLogCreate dp (map (entryToParam dp) es)) w = (Inr (), ?w)"
    using q(1) by (simp add: TOperationLogCreate_def insert_logs_now)
  have g: "gen_ok n ?w" using coherent_gen [OF q(2)] by (simp add: gen_ok_def)
  have "lw_redis ?w (countCacheValueKey dp (of_nat m) (Some f)) = None" if "f \<in> F" "m < 2 ^ 63" "n < m" for f m
    using coherentD [OF q(2) that(1,2)] that(3) by (auto simp: total_ok_def split: option.splits)
  then obtain w' where i: "run_state invalidate ?w = (Inr (), w')" "faults w' = []" "coherent dp F (n + 1) w'" "lw_logs w' = lw_logs ?w"
    using invalidate_run [of ?w n F dp] q(1) g assms(2) by auto
  have "run_state (BatchCreate dp es) w = (Inr (), w')" using False c i(1) assms(3) by (simp add: BatchCreate_def)
  with i q(3) show ?thesis by (intro exI [of _ w'] exI [of _ "n + 1"]) (simp add: quiet_def ids_ok_appended)
qed

section \<open>Sequences of calls\<close>

datatype log_op = OpWrite "LogEntry list" | OpQuery OperationLogFilter | OpClock time

fun log_ops :: "log_deps \<Rightarrow> log_op list \<Rightarrow> log_world \<Rightarrow> log_world" where
  "log_ops dp [] w = w"
| "log_ops dp (OpWrite es # os) w = log_ops dp os (snd (run_state (BatchCreate dp es) w))"
| "log_ops dp (OpQuery f # os) w = log_ops dp os (snd (run_state (QueryLogs dp (Some f)) w))"
| "log_ops dp (OpClock t # os) w = log_ops dp os (w\<lparr>lw_now := t\<rparr>)"

fun op_entries :: "log_op \<Rightarrow> LogEntry list" where
  "op_entries (OpWrite es) = es"
| "op_entries _ = []"

fun op_within :: "OperationLogFilter set \<Rightarrow> log_op \<Rightarrow> bool" where
  "op_within F (OpQuery f) = (f \<in> F)"
| "op_within F _ = True"

lemma log_count_le: "log_count f w \<le> length (rows (lw_logs w))"
  by (simp add: log_count_def matching_def)

lemma length_appended [simp]: "length (rows (appended dp es t)) = length (rows t) + length es"
  by (simp add: appended_rows)

lemma QueryLogs_run:
  assumes "quiet dp F n w" "f \<in> F" "told_apart dp F" "length (rows (lw_logs w)) < 2 ^ 63 - 1"
  shows "\<exists>r w'. run_state (QueryLogs dp (Some f)) w = (Inr r, w') \<and> lr_Total r = of_nat (log_count f w) \<and>
    lr_List r = map (paramToEntry dp) (expected_page f w) \<and> quiet dp F n w' \<and> lw_logs w' = lw_logs w"
proof -
  have "log_count f w < 2 ^ 63 - 1" using log_count_le [of f w] assms(4) by linarith
  from list_run [OF assms(1-3) this] show ?thesis by (auto simp: QueryLogs_def)
qed

lemma log_ops_quiet:
  assumes "quiet dp F n w" "told_apart dp F" "ld_counter dp" "n + length os < 2 ^ 63"
    "length (rows (lw_logs w)) + length (concat (map op_entries os)) < 2 ^ 63 - 1" "list_all (op_within F) os"
  shows "\<exists>n'. quiet dp F n' (log_ops dp os w) \<and> lw_logs (log_ops dp os w) = appended dp (concat (map op_entries os)) (lw_logs w)"
  using assms
proof (induction os arbitrary: n w)
  case Nil
  then show ?case by auto
next
  case (Cons op os)
  show ?case
  proof (cases op)
    case (OpWrite es)
    obtain w' n' where w': "run_state (BatchCreate dp es) w = (Inr (), w')" "n' \<le> n + 1" "quiet dp F n' w'"
      "lw_logs w' = appended dp es (lw_logs w)" using BatchCreate_run [OF Cons.prems(1) _ Cons.prems(3), of es] Cons.prems(4) by auto
    show ?thesis using Cons.IH [OF w'(3) Cons.prems(2,3)] Cons.prems(4-) w' OpWrite by (simp add: appended_append)
  next
    case (OpQuery f)
    obtain r w' where w': "run_state (QueryLogs dp (Some f)) w = (Inr r, w')" "quiet dp F n w'" "lw_logs w' = lw_logs w"
      using QueryLogs_run [OF Cons.prems(1) _ Cons.prems(2), of f] Cons.prems(5,6) OpQuery by auto
    show ?thesis using Cons.IH [OF w'(2) Cons.prems(2,3)] Cons.prems(4-) w' OpQuery by simp
  next
    case (OpClock t)
    have c: "log_count f (w\<lparr>lw_now := t\<rparr>) = log_count f w" for f by (simp add: log_count_def matching_def)
    have "quiet dp F n (w\<lparr>lw_now := t\<rparr>)"
      using Cons.prems(1) by (simp add: quiet_def coherent_def gen_ok_def total_ok_def c cong: option.case_cong)
    then show ?thesis using Cons.IH [of n "w\<lparr>lw_now := t\<rparr>"] Cons.prems OpClock by simp
  qed
qed

end
