(* ===== verification/OperLogProperties.thy ===== *)
theory OperLogProperties
  imports OperLogTotals
begin

text \<open>
  The properties of the operation log and their witnesses: what becomes of an entry, what a shutdown writes, what a query
  returns, and what a recorded change shows.
\<close>

section \<open>A running manager\<close>

text \<open>The manager as the process builds it (\<^verbatim>\<open>stateful/container/rdb/components.go\<close>).\<close>

definition process_manager :: "bool \<Rightarrow> log_world \<Rightarrow> int \<Rightarrow> log_manager" where
  "process_manager skip w n = SetContextExtractor (operationLogContextExtractor skip) (NewOperationLogManager w n)"

lemma process_manager_sel [simp]:
  "lm_world (process_manager skip w n) = w" "lm_batch (process_manager skip w n) = []"
  "lm_buffer (process_manager skip w n) = []" "lm_lost (process_manager skip w n) = []"
  "lm_overflow (process_manager skip w n) = OverflowSync" "lm_worker (process_manager skip w n) = Serving"
  "lm_batchSize (process_manager skip w n) = defaultBatchSize" "pipe_ok (process_manager skip w n)"
  "lm_bufferSize (process_manager skip w n) = (if n \<le> 0 then defaultBufferSize else nat n)"
  unfolding process_manager_def by (rule new_manager_ok | simp add: SetContextExtractor_def NewOperationLogManager_def)+

section \<open>Without faults nothing is given up\<close>

lemma flush_lost:
  assumes "faults (lm_world m) = []" "0 < lm_retryTimes m"
  shows "lm_lost (flushBatch dp m) = lm_lost m" "lm_overflow (flushBatch dp m) = lm_overflow m"
proof -
  obtain k given where "writes dp (concat (replicate k (lm_batch m))) given m (flushBatch dp m)"
    "faults (lm_world m) = [] \<and> 0 < lm_retryTimes m \<longrightarrow> (k = 1 \<or> lm_batch m = []) \<and> given = []"
    using flushBatch_outcome [of m dp] by (elim exE conjE) (rule that)
  then show "lm_lost (flushBatch dp m) = lm_lost m" "lm_overflow (flushBatch dp m) = lm_overflow m"
    using assms by (auto simp: writes_def)
qed

lemma sync_lost:
  assumes "faults (lm_world m) = []"
  shows "lm_lost (sync_write dp ctx e m) = lm_lost m" "lm_overflow (sync_write dp ctx e m) = lm_overflow m"
proof -
  obtain es given where "es = [prepared m ctx e] \<and> given = [] \<or> es \<in> {[], [prepared m ctx e]} \<and> given = [prepared m ctx e] \<and> faults (lm_world m) \<noteq> []"
    "writes dp es given m (sync_write dp ctx e m)"
    using sync_write_outcome [OF refl refl, of m ctx e dp] by (elim exE conjE) (rule that)
  then show "lm_lost (sync_write dp ctx e m) = lm_lost m" "lm_overflow (sync_write dp ctx e m) = lm_overflow m"
    using assms by (auto simp: writes_def)
qed

lemma step_lost:
  assumes "log_step dp m ev m'" "pipe_ok m" "faults (lm_world m) = []" "lm_overflow m = OverflowSync"
  shows "lm_lost m' = lm_lost m \<and> lm_overflow m' = OverflowSync"
proof -
  have c: "lm_lost (collect dp m) = lm_lost m \<and> lm_overflow (collect dp m) = lm_overflow m"
    using assms(2,3) by (simp add: collect_def Let_def flush_lost pipe_ok_def)
  show ?thesis
    using assms(1) c assms(2-) by (cases rule: log_step.cases) (simp_all add: send_def overflowed_def sync_lost flush_lost pipe_ok_def)
qed

lemma run_lost:
  assumes "log_run dp (process_manager skip w n) hist m" "faults w = []"
  shows "lm_lost m = [] \<and> lm_overflow m = OverflowSync"
  using assms(1)
proof induction
  case (run_step hist m ev m')
  have "pipe_ok m" using run_accounted [OF run_step.hyps(1)] by simp
  moreover have "faults (lm_world m) = []" using run_exactly_once [OF run_step.hyps(1)] assms(2) by simp
  ultimately show ?case using step_lost [OF run_step.hyps(2)] run_step.IH by auto
qed simp

lemma run_sizes:
  assumes "log_run dp (process_manager skip w n) hist m"
  shows "lm_batchSize m = defaultBatchSize \<and> lm_bufferSize m = lm_bufferSize (process_manager skip w n)"
  using assms
proof induction
  case (run_step hist m ev m')
  have "pipe_ok m" using run_accounted [OF run_step.hyps(1)] by simp
  then show ?case using step_config [OF run_step.hyps(2)] run_step.IH by (simp add: same_config_def)
qed simp

section \<open>A shutdown\<close>

lemma run_silent: "log_run dp m0 hist m \<Longrightarrow> log_step dp m ev m' \<Longrightarrow> (\<And>ctx e. ev \<noteq> EvRecord ctx e) \<Longrightarrow> log_run dp m0 hist m'"
  using log_run.run_step [of dp m0 hist m ev m'] by (cases ev) (auto simp: submitted_def)

lemma drain_all:
  assumes "log_run dp m0 hist m" "pipe_ok m" "lm_worker m = Draining"
  shows "\<exists>m'. log_run dp m0 hist m' \<and> pipe_ok m' \<and> lm_worker m' = Draining \<and> lm_buffer m' = []"
  using assms
proof (induction "length (lm_buffer m)" arbitrary: m)
  case (Suc k m)
  then have b: "lm_buffer m \<noteq> []" by auto
  have s: "log_step dp m EvDrain (collect dp m)" using Suc.prems(3) b by (rule log_step.drain)
  have "0 < lm_batchSize m" using Suc.prems(2) by (auto simp: pipe_ok_def)
  note f = collect_frame [OF b this, of dp]
  show ?case
  proof (rule Suc.hyps(1))
    show "k = length (lm_buffer (collect dp m))" using Suc.hyps(2) f(3) by simp
    show "log_run dp m0 hist (collect dp m)" using run_silent [OF Suc.prems(1) s] by simp
    show "pipe_ok (collect dp m)" using step_pipe_ok [OF s Suc.prems(2)] .
    show "lm_worker (collect dp m) = Draining" using f(4) Suc.prems(3) by simp
  qed
qed auto

lemma shutdown_run:
  assumes "log_run dp m0 hist m" "pipe_ok m" "lm_worker m \<noteq> Stopped"
  shows "\<exists>m'. log_run dp m0 hist m' \<and> lm_worker m' = Stopped \<and> lm_buffer m' = [] \<and> lm_batch m' = []"
proof -
  let ?c = "m\<lparr>lm_closed := True\<rparr>"
  have c: "log_run dp m0 hist ?c" using run_silent [OF assms(1) log_step.close] by simp
  have ok: "pipe_ok ?c" using step_pipe_ok [OF log_step.close assms(2)] .
  obtain m1 where m1: "log_run dp m0 hist m1" "pipe_ok m1" "lm_worker m1 = Draining"
  proof (cases "lm_worker m")
    case Serving
    then have s: "log_step dp ?c EvNotice (?c\<lparr>lm_worker := Draining\<rparr>)" by (intro log_step.notice) simp_all
    show ?thesis using that [OF run_silent [OF c s] step_pipe_ok [OF s ok]] by simp
  next
    case Draining
    then show ?thesis using that [OF c ok] by simp
  qed (use assms(3) in simp)
  obtain m2 where m2: "log_run dp m0 hist m2" "pipe_ok m2" "lm_worker m2 = Draining" "lm_buffer m2 = []"
    using drain_all [OF m1] by blast
  have s: "log_step dp m2 EvDrainEnd (flushBatch dp (m2\<lparr>lm_worker := Stopped\<rparr>))" using m2(3) by (rule log_step.drain_end)
  show ?thesis
    using run_silent [OF m2(1) s] m2(4) by (intro exI [of _ "flushBatch dp (m2\<lparr>lm_worker := Stopped\<rparr>)"]) (simp add: flush_frame)
qed

section \<open>Properties\<close>

lemma submitted_entries_are_accounted_for_facts:
  assumes "log_run dp (process_manager skip w n) hist m"
  shows "\<exists>written. lw_logs (lm_world m) = appended dp written (lw_logs w) \<and>
      set hist = set written \<union> set (lm_batch m) \<union> set (lm_buffer m) \<union> set (lm_lost m) \<and>
      (faults w = [] \<longrightarrow> lm_lost m = [] \<and> mset hist = mset written + mset (lm_batch m) + mset (lm_buffer m))"
    and "length (lm_batch m) < 200 \<and> length (lm_buffer m) \<le> (if n \<le> 0 then 4096 else nat n)"
proof -
  have a: "pipe_ok m" "accounted dp (lw_logs w) hist m" using run_accounted [OF assms] by simp_all
  show "\<exists>written. lw_logs (lm_world m) = appended dp written (lw_logs w) \<and>
      set hist = set written \<union> set (lm_batch m) \<union> set (lm_buffer m) \<union> set (lm_lost m) \<and>
      (faults w = [] \<longrightarrow> lm_lost m = [] \<and> mset hist = mset written + mset (lm_batch m) + mset (lm_buffer m))"
  proof (cases "faults w = []")
    case True
    have lost: "lm_lost m = []" using run_lost [OF assms True] by simp
    obtain written where "lw_logs (lm_world m) = appended dp written (lw_logs w)"
      and eq: "mset hist = mset written + mset (lm_batch m) + mset (lm_buffer m)"
      using run_exactly_once [OF assms] True lost by (auto simp: exactly_once_def)
    moreover have "set hist = set written \<union> set (lm_batch m) \<union> set (lm_buffer m)"
      using arg_cong [OF eq, of set_mset] by simp
    ultimately show ?thesis using lost by auto
  next
    case False
    then show ?thesis using a(2) by (auto simp: accounted_def)
  qed
  show "length (lm_batch m) < 200 \<and> length (lm_buffer m) \<le> (if n \<le> 0 then 4096 else nat n)"
    using a(1) run_sizes [OF assms] by (auto simp: pipe_ok_def defaultBatchSize_def defaultBufferSize_def)
qed

text \<open>
  C28. Whatever the order of the calls of Record, the turns of the worker and the shutdown, and whatever
  writes fail: the table is the first one with rows for written entries at its end; every submitted entry is
  written, waits in the batch or in the buffer, or was given up with a warning, and nothing else is written. Batch and buffer
  stay within their sizes. When no call fails every entry is in exactly one place, once, and none is given up.\<close>

theorem submitted_entries_are_accounted_for:
  assumes "log_run dp (process_manager skip w n) hist m"
  shows "(\<exists>written. lw_logs (lm_world m) = appended dp written (lw_logs w) \<and>
      set hist = set written \<union> set (lm_batch m) \<union> set (lm_buffer m) \<union> set (lm_lost m) \<and>
      (faults w = [] \<longrightarrow> lm_lost m = [] \<and> mset hist = mset written + mset (lm_batch m) + mset (lm_buffer m))) \<and>
    length (lm_batch m) < 200 \<and> length (lm_buffer m) \<le> (if n \<le> 0 then 4096 else nat n)"
  using submitted_entries_are_accounted_for_facts [OF assms] by (intro conjI) blast+

definition example_log_deps :: log_deps where
  "example_log_deps = \<lparr>ld_counter = True, ld_encSummary = (\<lambda>_. ''null''), ld_decSummary = (\<lambda>_. None), ld_digest = id, ld_time = id\<rparr>"

definition empty_log_world :: log_world where
  "empty_log_world = \<lparr>faults = [], lw_logs = \<lparr>rows = [], next_id = 1\<rparr>, lw_redis = (\<lambda>_. None), lw_now = 5\<rparr>"

definition example_entry :: LogEntry where
  "example_entry =
     \<lparr>le_ID = 0, le_LogID = [], le_OperatorType = 0, le_OperatorID = 0, le_OperatorName = [], le_Action = ''create'',
      le_ResourceType = ''user'', le_ResourceID = ''7'', le_ResourceName = ''ann'', le_ResourceParentID = [], le_Status = 1,
      le_ErrorMsg = [], le_ChangeSummary = None, le_RequestPath = [], le_RequestMethod = [], le_ClientIP = [],
      le_UserAgent = [], le_CreatedAt = 3\<rparr>"

definition nobody :: req_ctx where
  "nobody = \<lparr>cx_visitor = None, cx_product = None, cx_request = None\<rparr>"

text \<open>A manager with room for one entry: the second one is written by its caller.\<close>

definition example_sent :: "fault list \<Rightarrow> log_manager" where
  "example_sent fs = send example_entry (process_manager False (empty_log_world\<lparr>faults := fs\<rparr>) 1)"

lemma example_prepared [simp]:
  "lm_contextExtractor m = Some (operationLogContextExtractor False) \<Longrightarrow> prepared m nobody example_entry = example_entry"
  by (simp add: prepared_def example_entry_def nobody_def operationLogContextExtractor_def MustGetVisitor_def IsZero_def)

lemma example_extractor [simp]:
  "lm_contextExtractor (process_manager skip w n) = Some (operationLogContextExtractor skip)"
  "lm_contextExtractor (example_sent fs) = Some (operationLogContextExtractor False)"
  by (simp_all add: process_manager_def SetContextExtractor_def example_sent_def send_def)

lemma example_run:
  "log_run example_log_deps (process_manager False (empty_log_world\<lparr>faults := fs\<rparr>) 1) [example_entry, example_entry]
     (sync_write example_log_deps nobody example_entry (example_sent fs))"
proof -
  let ?m = "process_manager False (empty_log_world\<lparr>faults := fs\<rparr>) 1"
  have "log_step example_log_deps ?m (EvRecord nobody example_entry) (send example_entry ?m)"
    by (rule log_step.record_send) simp_all
  from run_step [OF run_start this] have one: "log_run example_log_deps ?m [example_entry] (example_sent fs)"
    by (simp add: submitted_def example_sent_def)
  have "log_step example_log_deps (example_sent fs) (EvRecord nobody example_entry)
      (overflowed example_log_deps nobody example_entry (example_sent fs))"
    by (rule log_step.record_full) (simp_all add: example_sent_def send_def process_manager_def SetContextExtractor_def NewOperationLogManager_def)
  then have "log_step example_log_deps (example_sent fs) (EvRecord nobody example_entry)
      (sync_write example_log_deps nobody example_entry (example_sent fs))"
    by (simp add: overflowed_def example_sent_def send_def)
  from run_step [OF one this] show ?thesis by (simp add: submitted_def)
qed

theorem submitted_entries_are_accounted_for_witness:
  "let m = sync_write example_log_deps nobody example_entry (example_sent []) in
     lm_lost m = [] \<and> length (lm_batch m) < 200 \<and> length (lm_buffer m) \<le> 1 \<and>
     (\<exists>written. lw_logs (lm_world m) = appended example_log_deps written \<lparr>rows = [], next_id = 1\<rparr> \<and>
        mset written + mset (lm_batch m) + mset (lm_buffer m) = mset [example_entry, example_entry])"
proof -
  have f: "faults (empty_log_world\<lparr>faults := []\<rparr>) = []" by simp
  show ?thesis
    using submitted_entries_are_accounted_for [OF example_run [of "[]"]] f by (auto simp: Let_def empty_log_world_def)
qed

lemma shutdown_writes_every_entry_facts:
  assumes "log_run dp (process_manager skip w n) hist m" "faults w = []" "lm_worker m \<noteq> Stopped"
  shows "\<exists>m'. log_run dp (process_manager skip w n) hist m' \<and> lm_worker m' = Stopped \<and> lm_buffer m' = []"
    and "log_run dp (process_manager skip w n) hist m' \<Longrightarrow> lm_worker m' = Stopped \<Longrightarrow> lm_buffer m' = [] \<Longrightarrow>
      \<exists>written. mset written = mset hist \<and>
        rows (lw_logs (lm_world m')) = rows (lw_logs w) @ map (\<lambda>(j, e). row_for dp e (next_id (lw_logs w) + int j)) (enumerate 0 written)"
proof -
  show "\<exists>m'. log_run dp (process_manager skip w n) hist m' \<and> lm_worker m' = Stopped \<and> lm_buffer m' = []"
    using shutdown_run [OF assms(1) _ assms(3)] run_accounted [OF assms(1)] by auto
  assume r: "log_run dp (process_manager skip w n) hist m'" and e: "lm_worker m' = Stopped" "lm_buffer m' = []"
  have "pipe_ok m'" using run_accounted [OF r] by simp
  then have "lm_batch m' = []" using e(1) by (simp add: pipe_ok_def)
  moreover have "lm_lost m' = []" using run_lost [OF r assms(2)] by simp
  ultimately show "\<exists>written. mset written = mset hist \<and>
      rows (lw_logs (lm_world m')) = rows (lw_logs w) @ map (\<lambda>(j, e). row_for dp e (next_id (lw_logs w) + int j)) (enumerate 0 written)"
    using run_exactly_once [OF r] assms(2) e(2) by (auto simp: exactly_once_def appended_rows)
qed

text \<open>
  C29. From every state that a run without failing calls has reached before the worker has stopped, the shutdown can run to its
  end, and when it empties the buffer before the worker stops, every entry that was ever submitted is in the table, exactly
  once, in rows behind the first ones.\<close>

theorem shutdown_writes_every_entry:
  assumes "log_run dp (process_manager skip w n) hist m" "faults w = []" "lm_worker m \<noteq> Stopped"
  shows "(\<exists>m'. log_run dp (process_manager skip w n) hist m' \<and> lm_worker m' = Stopped \<and> lm_buffer m' = []) \<and>
    (\<forall>m'. log_run dp (process_manager skip w n) hist m' \<and> lm_worker m' = Stopped \<and> lm_buffer m' = [] \<longrightarrow>
      (\<exists>written. mset written = mset hist \<and>
        rows (lw_logs (lm_world m')) = rows (lw_logs w) @ map (\<lambda>(j, e). row_for dp e (next_id (lw_logs w) + int j)) (enumerate 0 written)))"
  using shutdown_writes_every_entry_facts [OF assms] by (intro conjI allI impI) simp_all

theorem shutdown_writes_every_entry_witness:
  "\<exists>m' :: log_manager. lm_worker m' = Stopped \<and> (\<exists>written. mset written = mset [example_entry, example_entry] \<and>
     rows (lw_logs (lm_world m')) = map (\<lambda>(j, e). row_for example_log_deps e (1 + int j)) (enumerate 0 written))"
proof -
  let ?m = "sync_write example_log_deps nobody example_entry (example_sent [])"
  have s: "lm_worker ?m \<noteq> Stopped" by (simp add: sync_frame example_sent_def send_def)
  have f: "faults (empty_log_world\<lparr>faults := []\<rparr>) = []" by simp
  obtain m' where m': "log_run example_log_deps (process_manager False (empty_log_world\<lparr>faults := []\<rparr>) 1) [example_entry, example_entry] m'"
    "lm_worker m' = Stopped" "lm_buffer m' = []"
    using shutdown_writes_every_entry [OF example_run f s] by blast
  have "\<exists>written. mset written = mset [example_entry, example_entry] \<and>
     rows (lw_logs (lm_world m')) = map (\<lambda>(j, e). row_for example_log_deps e (1 + int j)) (enumerate 0 written)"
    using shutdown_writes_every_entry [OF example_run f s] m' by (simp add: empty_log_world_def)
  with m'(2) show ?thesis by (intro exI [of _ m'] conjI)
qed

section \<open>Queries\<close>

text \<open>
  C30. Without failing calls and without two calls at the same time: after any sequence of writes and queries, with any time between
  them, a query returns the exact number of the rows that match its filter, though it may take it from the cache, and the
  page that the filter asks for, newest first, though it reads it with a deferred join, as if the whole log had been sorted and
  cut. The filters in use have no empty text as a condition (an empty and an absent condition share a cached number) and
  whole seconds as times, the digest tells their texts apart, and the counts stay below the limits of 64-bit numbers.\<close>

theorem log_queries_are_exact:
  assumes "quiet dp F n w" "told_apart dp F" "ld_counter dp" "n + length os < 2 ^ 63"
    "length (rows (lw_logs w)) + length (concat (map op_entries os)) < 2 ^ 63 - 1" "list_all (op_within F) os" "f \<in> F"
  shows "\<exists>r w'. run_state (QueryLogs dp (Some f)) (log_ops dp os w) = (Inr r, w') \<and>
    (let t = appended dp (concat (map op_entries os)) (lw_logs w) in
      lw_logs w' = t \<and>
      lr_Total r = of_nat (length (filter (where_log (filterToParam (Some f))) (rows t))) \<and>
      lr_List r = map (paramToEntry dp) (log_page (filterToParam (Some f)) (rows t)))"
proof -
  obtain n' where q: "quiet dp F n' (log_ops dp os w)"
    and t: "lw_logs (log_ops dp os w) = appended dp (concat (map op_entries os)) (lw_logs w)"
    using log_ops_quiet [OF assms(1-6)] by blast
  have "length (rows (lw_logs (log_ops dp os w))) < 2 ^ 63 - 1" using t assms(5) by simp
  from QueryLogs_run [OF q assms(7,2) this] obtain r w' where
    "run_state (QueryLogs dp (Some f)) (log_ops dp os w) = (Inr r, w')"
    "lr_Total r = of_nat (log_count f (log_ops dp os w))"
    "lr_List r = map (paramToEntry dp) (expected_page f (log_ops dp os w))" "lw_logs w' = lw_logs (log_ops dp os w)"
    by blast
  then show ?thesis using t by (simp add: Let_def log_count_def matching_def expected_page_def)
qed

definition users_filter :: OperationLogFilter where
  "users_filter = no_log_filter\<lparr>lf_ResourceType := Some ''user'', lf_Page := Some 1, lf_PageSize := Some 20\<rparr>"

theorem log_queries_are_exact_witness:
  "\<exists>r w'. run_state (QueryLogs example_log_deps (Some users_filter))
      (log_ops example_log_deps [OpWrite [example_entry], OpQuery users_filter, OpWrite [example_entry]] empty_log_world) = (Inr r, w') \<and>
    lr_Total r = 2 \<and> map le_ID (lr_List r) = [2, 1]"
proof -
  let ?os = "[OpWrite [example_entry], OpQuery users_filter, OpWrite [example_entry]]"
  have q: "quiet example_log_deps {users_filter} 0 empty_log_world"
    by (simp add: quiet_def coherent_def gen_ok_def total_ok_def ids_ok_def empty_log_world_def)
  have a: "told_apart example_log_deps {users_filter}"
    by (simp add: told_apart_def definite_def users_filter_def no_log_filter_def)
  have c: "ld_counter example_log_deps" "0 + length ?os < 2 ^ 63"
    "length (rows (lw_logs empty_log_world)) + length (concat (map op_entries ?os)) < 2 ^ 63 - 1"
    "list_all (op_within {users_filter}) ?os" "users_filter \<in> {users_filter}"
    by (simp_all add: example_log_deps_def empty_log_world_def)
  let ?r = "row_for example_log_deps example_entry"
  let ?t = "appended example_log_deps (concat (map op_entries ?os)) (lw_logs empty_log_world)"
  have t: "rows ?t = [?r 1, ?r 2]" by (simp add: empty_log_world_def)
  have wl: "where_log (filterToParam (Some users_filter)) (?r i)" for i
    by (simp add: where_log_def filterToParam_def users_filter_def no_log_filter_def no_log_param_def eq_opt_def row_for_def
        new_log_row_def entryToParam_def example_entry_def opt_set_def Let_def)
  have c0: "tl_CreatedAt (?r i) = 3" for i
    by (simp add: row_for_def new_log_row_def entryToParam_def example_entry_def opt_set_def example_log_deps_def no_log_param_def)
  have l: "log_page (filterToParam (Some users_filter)) (rows ?t) = [?r 2, ?r 1]"
  proof -
    have "filterToParam (Some users_filter) = Some p \<Longrightarrow> pl_OrderBy p \<and> pl_Limit p = Some (0, 20)" for p
      by (auto simp: filterToParam_def users_filter_def no_log_filter_def Let_def)
    moreover obtain p where "filterToParam (Some users_filter) = Some p" by (simp add: filterToParam_def)
    ultimately show ?thesis using wl unfolding log_page_def t by (simp add: newest_first_def c0)
  qed
  obtain r w' where "run_state (QueryLogs example_log_deps (Some users_filter)) (log_ops example_log_deps ?os empty_log_world) = (Inr r, w')"
    "lr_Total r = of_nat (length (filter (where_log (filterToParam (Some users_filter))) (rows ?t)))"
    "lr_List r = map (paramToEntry example_log_deps) (log_page (filterToParam (Some users_filter)) (rows ?t))"
    using log_queries_are_exact [OF q a c] unfolding Let_def by blast
  moreover from this(2,3) have "lr_Total r = 2" "map le_ID (lr_List r) = [2, 1]"
    unfolding l unfolding t by (simp_all add: wl paramToEntry_def)
  ultimately show ?thesis by (intro exI conjI)
qed

section \<open>Secrets\<close>

lemma summaries_hide_secrets_facts:
  assumes "same_public before before'" "same_public after after'"
  shows "action \<noteq> ''update'' \<Longrightarrow> BuildChangeSummary action before after = BuildChangeSummary action before' after'"
    and "map_option (filter (\<lambda>p. fst p \<noteq> ''diff_keys'')) (BuildChangeSummary action before after) =
      map_option (filter (\<lambda>p. fst p \<noteq> ''diff_keys'')) (BuildChangeSummary action before' after')"
    and "BuildChangeSummary action before after = Some s \<Longrightarrow> masked_map s"
proof -
  note m = same_public_masks(1) [OF assms(1)] same_public_masks(1) [OF assms(2)]
  have e: "(before = []) = (before' = [])" "(after = []) = (after' = [])"
    using assms by (auto elim: same_public.cases)
  show "action \<noteq> ''update'' \<Longrightarrow> BuildChangeSummary action before after = BuildChangeSummary action before' after'"
    using m e by (simp add: BuildChangeSummary_def Let_def)
  show "map_option (filter (\<lambda>p. fst p \<noteq> ''diff_keys'')) (BuildChangeSummary action before after) =
      map_option (filter (\<lambda>p. fst p \<noteq> ''diff_keys'')) (BuildChangeSummary action before' after')"
    using m e by (simp add: BuildChangeSummary_def Let_def)
  show "BuildChangeSummary action before after = Some s \<Longrightarrow> masked_map s" by (rule summary_masked)
qed

text \<open>
  C31. The snapshots that are recorded of a change do not depend on secrets: two pairs of snapshots that agree outside the values under the
  names of secrets and certificates, and in the eight outer bytes of long tokens (which are recorded), at any depth of maps and slices
  of values, give the same summary of the change for every action other than an update. For an update the
  recorded snapshots are the same too, but the list of the changed fields may differ: it tells whether a secret was
  changed. Every recorded snapshot is masked.\<close>

theorem summaries_hide_secrets:
  assumes "same_public before before'" "same_public after after'"
  shows "(action \<noteq> ''update'' \<longrightarrow> BuildChangeSummary action before after = BuildChangeSummary action before' after') \<and>
    map_option (filter (\<lambda>p. fst p \<noteq> ''diff_keys'')) (BuildChangeSummary action before after) =
      map_option (filter (\<lambda>p. fst p \<noteq> ''diff_keys'')) (BuildChangeSummary action before' after') \<and>
    (\<forall>s. BuildChangeSummary action before after = Some s \<longrightarrow> masked_map s)"
  using summaries_hide_secrets_facts [OF assms] by (intro conjI allI impI) simp_all

theorem summaries_hide_secrets_witness:
  "BuildChangeSummary ''create'' [] [(''name'', LvStr ''ann''), (''Password'', LvStr ''hunter22'')] =
     BuildChangeSummary ''create'' [] [(''name'', LvStr ''ann''), (''Password'', LvStr ''tr0ub4dor'')] \<and>
   masked_map [(''after'', LvMap [(''name'', LvStr ''ann''), (''Password'', LvStr ''******'')])]"
proof -
  have p: "same_public [(''name'', LvStr ''ann''), (''Password'', LvStr ''hunter22'')] [(''name'', LvStr ''ann''), (''Password'', LvStr ''tr0ub4dor'')]"
    by (intro sp_equal sp_secret sp_nil) code_simp
  have s: "BuildChangeSummary ''create'' [] [(''name'', LvStr ''ann''), (''Password'', LvStr ''hunter22'')] =
      Some [(''after'', LvMap [(''name'', LvStr ''ann''), (''Password'', LvStr ''******'')])]" by code_simp
  show ?thesis
    using summaries_hide_secrets [OF sp_nil p, of "''create''"] s by simp
qed

end
