(* ===== verification/AuthStore.thy ===== *)
theory AuthStore
  imports OperLogManager Calendar
begin

text \<open>
  The storage of users, tokens, products and their bindings: the tables \<^verbatim>\<open>users\<close>, \<^verbatim>\<open>user_products\<close> and
  \<^verbatim>\<open>products\<close> with the statements of \<^verbatim>\<open>storage/rdb/internal/dao\<close>, and the storagers of
  \<^verbatim>\<open>storage/rdb/auth\<close> and \<^verbatim>\<open>storage/rdb/basic/product.go\<close>. Users and tokens are rows of one table, told
  apart by their type. Texts are compared byte by byte. What the database itself does with \<^verbatim>\<open>updated_at\<close> is left out.
\<close>

section \<open>The world\<close>

record TUser =
  tu_ID :: int
  tu_Name :: string
  tu_Type :: int
  tu_Password :: string
  tu_Ticket :: string
  tu_TicketCreatedAt :: time
  tu_Scopes :: string
  tu_CreatedAt :: time
  tu_UpdatedAt :: time

record TUserParam =
  pu_IDs :: "int list option"
  pu_ID :: "int option"
  pu_Name :: "string option"
  pu_Type :: "int option"
  pu_Types :: "int list option"
  pu_Password :: "string option"
  pu_Ticket :: "string option"
  pu_TicketCreatedAt :: "time option"
  pu_Scopes :: "string option"
  pu_CreatedAt :: "time option"
  pu_UpdatedAt :: "time option"

record TUserProduct =
  up_UserID :: int
  up_ProductID :: int
  up_CreatedAt :: time
  up_UpdatedAt :: time

record TUserProductParam =
  pp_UserID :: "int option"
  pp_UserIDs :: "int list option"
  pp_ProductID :: "int option"
  pp_CreatedAt :: "time option"
  pp_UpdatedAt :: "time option"

record TProduct =
  tp_Id :: int
  tp_Name :: string
  tp_MailList :: string
  tp_ContactPerson :: string
  tp_SmsList :: string
  tp_Description :: string
  tp_CreatedAt :: time
  tp_UpdatedAt :: time

record TProductParam =
  pr_Id :: "int option"
  pr_Name :: "string option"
  pr_MailList :: "string option"
  pr_ContactPerson :: "string option"
  pr_SmsList :: "string option"
  pr_Description :: "string option"
  pr_CreatedAt :: "time option"
  pr_UpdatedAt :: "time option"
  pr_IDs :: "int list option"
  pr_NeId :: "int option"

record auth_db =
  a_users :: "TUser table"
  a_user_products :: "TUserProduct list"
  a_products :: "TProduct table"

text \<open>
  \<open>a_draws\<close> counts what was taken from the source of randomness, \<open>a_log\<close> are the entries handed to the operation
  log, \<open>a_oldUser\<close> and \<open>a_token\<close> the variables of a method that the closure it runs as a transaction assigns.
\<close>

record auth_world = env +
  adb :: auth_db
  a_now :: time
  a_draws :: nat
  a_log :: "LogEntry list"
  a_oldUser :: "User option"
  a_token :: "Token option"

type_synonym 'a auth = "(auth_world, error + 'a) state"

record auth_deps =
  ad_crypto :: auth_crypto
  ad_isMySQL :: bool
  ad_time :: "time \<Rightarrow> time"
  ad_operationLog :: bool
  ad_errText :: "error \<Rightarrow> string"
  ad_SkipTokenValidate :: bool
  ad_SessionExpireInDay :: int
  ad_zone :: zone

section \<open>Statements\<close>

definition in_opt :: "'a list option \<Rightarrow> 'a \<Rightarrow> bool" where
  "in_opt v x = (case v of None \<Rightarrow> True | Some xs \<Rightarrow> x \<in> set xs)"

definition no_user :: TUserParam where
  "no_user = \<lparr>pu_IDs = None, pu_ID = None, pu_Name = None, pu_Type = None, pu_Types = None, pu_Password = None,
     pu_Ticket = None, pu_TicketCreatedAt = None, pu_Scopes = None, pu_CreatedAt = None, pu_UpdatedAt = None\<rparr>"

definition uniq_users :: "TUser list \<Rightarrow> bool" where
  "uniq_users rs \<longleftrightarrow> distinct (map tu_ID rs) \<and> distinct (map (\<lambda>r. (tu_Name r, tu_Type r)) rs)"

definition where_user :: "TUserParam \<Rightarrow> TUser \<Rightarrow> bool" where
  "where_user q r \<longleftrightarrow>
     in_opt (pu_IDs q) (tu_ID r) \<and> eq_opt (pu_ID q) (tu_ID r) \<and> eq_opt (pu_Name q) (tu_Name r) \<and>
     eq_opt (pu_Type q) (tu_Type r) \<and> in_opt (pu_Types q) (tu_Type r) \<and>
     eq_opt (pu_Password q) (tu_Password r) \<and> eq_opt (pu_Ticket q) (tu_Ticket r) \<and>
     eq_opt (pu_TicketCreatedAt q) (tu_TicketCreatedAt r) \<and> eq_opt (pu_Scopes q) (tu_Scopes r) \<and>
     eq_opt (pu_CreatedAt q) (tu_CreatedAt r) \<and> eq_opt (pu_UpdatedAt q) (tu_UpdatedAt r)"

definition assign_user :: "auth_deps \<Rightarrow> TUserParam \<Rightarrow> TUser \<Rightarrow> TUser" where
  "assign_user dp p r =
     \<lparr>tu_ID = opt_set (pu_ID p) (tu_ID r), tu_Name = opt_set (pu_Name p) (tu_Name r),
      tu_Type = opt_set (pu_Type p) (tu_Type r), tu_Password = opt_set (pu_Password p) (tu_Password r),
      tu_Ticket = opt_set (pu_Ticket p) (tu_Ticket r),
      tu_TicketCreatedAt = opt_set (map_option (ad_time dp) (pu_TicketCreatedAt p)) (tu_TicketCreatedAt r),
      tu_Scopes = opt_set (pu_Scopes p) (tu_Scopes r),
      tu_CreatedAt = opt_set (map_option (ad_time dp) (pu_CreatedAt p)) (tu_CreatedAt r),
      tu_UpdatedAt = opt_set (map_option (ad_time dp) (pu_UpdatedAt p)) (tu_UpdatedAt r)\<rparr>"

text \<open>The default of \<^verbatim>\<open>ticket_created_at\<close>, the first of January of the year 0.\<close>

definition defaultTicketAt :: time where
  "defaultTicketAt = - 366 * nsDay"

definition TUserCreate :: "auth_deps \<Rightarrow> TUserParam \<Rightarrow> unit auth" where
  "TUserCreate dp data = ext_call (\<lambda>w.
     let d = (if pu_CreatedAt data = None then data\<lparr>pu_CreatedAt := Some (a_now w)\<rparr> else data);
         t = a_users (adb w)
     in if pu_Name d = None then (Inl constraint_violated, w)
        else case sql_insert uniq_users (\<lambda>i. assign_user dp d
               \<lparr>tu_ID = i, tu_Name = [], tu_Type = 0, tu_Password = [], tu_Ticket = [],
                tu_TicketCreatedAt = defaultTicketAt, tu_Scopes = [], tu_CreatedAt = 0,
                tu_UpdatedAt = ad_time dp (a_now w)\<rparr>) t of
            (Inl e, _) \<Rightarrow> (Inl e, w)
          | (Inr i, t') \<Rightarrow> (Inr (), w\<lparr>adb := (adb w)\<lparr>a_users := t'\<rparr>\<rparr>))"

definition TUserList :: "TUserParam \<Rightarrow> TUser list auth" where
  "TUserList p = ext_call (\<lambda>w. (Inr (filter (where_user p) (rows (a_users (adb w)))), w))"

definition TUserUpdate :: "auth_deps \<Rightarrow> TUserParam \<Rightarrow> TUserParam \<Rightarrow> unit auth" where
  "TUserUpdate dp val wh = ext_call (\<lambda>w.
     case sql_update (ad_isMySQL dp) uniq_users (where_user wh) (assign_user dp val) (a_users (adb w)) of
       (Inl e, _) \<Rightarrow> (Inl e, w)
     | (Inr n, t') \<Rightarrow> (Inr (), w\<lparr>adb := (adb w)\<lparr>a_users := t'\<rparr>\<rparr>))"

definition TUserDelete :: "TUserParam \<Rightarrow> unit auth" where
  "TUserDelete wh = ext_call (\<lambda>w.
     (Inr (), w\<lparr>adb := (adb w)\<lparr>a_users := snd (sql_delete (where_user wh) (a_users (adb w)))\<rparr>\<rparr>))"

definition no_binding :: TUserProductParam where
  "no_binding = \<lparr>pp_UserID = None, pp_UserIDs = None, pp_ProductID = None, pp_CreatedAt = None, pp_UpdatedAt = None\<rparr>"

definition where_binding :: "TUserProductParam \<Rightarrow> TUserProduct \<Rightarrow> bool" where
  "where_binding q r \<longleftrightarrow> eq_opt (pp_UserID q) (up_UserID r) \<and> in_opt (pp_UserIDs q) (up_UserID r) \<and>
     eq_opt (pp_ProductID q) (up_ProductID r) \<and> eq_opt (pp_CreatedAt q) (up_CreatedAt r) \<and>
     eq_opt (pp_UpdatedAt q) (up_UpdatedAt r)"

definition TUserProductOne :: "TUserProductParam \<Rightarrow> (TUserProduct option) auth" where
  "TUserProductOne p = ext_call (\<lambda>w. (Inr (List.find (where_binding p) (a_user_products (adb w))), w))"

definition TUserProductList :: "TUserProductParam \<Rightarrow> TUserProduct list auth" where
  "TUserProductList p = ext_call (\<lambda>w. (Inr (filter (where_binding p) (a_user_products (adb w))), w))"

text \<open>The primary key is the pair of the two identifiers.\<close>

definition TUserProductCreate :: "auth_deps \<Rightarrow> int \<Rightarrow> int \<Rightarrow> unit auth" where
  "TUserProductCreate dp userID productID = ext_call (\<lambda>w.
     let bs = a_user_products (adb w);
         now = ad_time dp (a_now w);
         b = \<lparr>up_UserID = userID, up_ProductID = productID, up_CreatedAt = now, up_UpdatedAt = now\<rparr>
     in if list_ex (\<lambda>r. up_UserID r = userID \<and> up_ProductID r = productID) bs then (Inl constraint_violated, w)
        else (Inr (), w\<lparr>adb := (adb w)\<lparr>a_user_products := bs @ [b]\<rparr>\<rparr>))"

definition TUserProductDelete :: "TUserProductParam \<Rightarrow> unit auth" where
  "TUserProductDelete p = ext_call (\<lambda>w.
     (Inr (), w\<lparr>adb := (adb w)\<lparr>a_user_products := filter (\<lambda>r. \<not> where_binding p r) (a_user_products (adb w))\<rparr>\<rparr>))"

definition no_product :: TProductParam where
  "no_product = \<lparr>pr_Id = None, pr_Name = None, pr_MailList = None, pr_ContactPerson = None, pr_SmsList = None,
     pr_Description = None, pr_CreatedAt = None, pr_UpdatedAt = None, pr_IDs = None, pr_NeId = None\<rparr>"

definition uniq_products :: "TProduct list \<Rightarrow> bool" where
  "uniq_products rs \<longleftrightarrow> distinct (map tp_Id rs) \<and> distinct (map tp_Name rs)"

definition where_product :: "TProductParam option \<Rightarrow> TProduct \<Rightarrow> bool" where
  "where_product p r = (case p of None \<Rightarrow> True | Some q \<Rightarrow>
     eq_opt (pr_Id q) (tp_Id r) \<and> eq_opt (pr_Name q) (tp_Name r) \<and> eq_opt (pr_MailList q) (tp_MailList r) \<and>
     eq_opt (pr_ContactPerson q) (tp_ContactPerson r) \<and> eq_opt (pr_SmsList q) (tp_SmsList r) \<and>
     eq_opt (pr_Description q) (tp_Description r) \<and> eq_opt (pr_CreatedAt q) (tp_CreatedAt r) \<and>
     eq_opt (pr_UpdatedAt q) (tp_UpdatedAt r) \<and> in_opt (pr_IDs q) (tp_Id r) \<and>
     (case pr_NeId q of None \<Rightarrow> True | Some i \<Rightarrow> tp_Id r \<noteq> i))"

definition assign_product :: "auth_deps \<Rightarrow> TProductParam \<Rightarrow> TProduct \<Rightarrow> TProduct" where
  "assign_product dp p r =
     \<lparr>tp_Id = opt_set (pr_Id p) (tp_Id r), tp_Name = opt_set (pr_Name p) (tp_Name r),
      tp_MailList = opt_set (pr_MailList p) (tp_MailList r),
      tp_ContactPerson = opt_set (pr_ContactPerson p) (tp_ContactPerson r),
      tp_SmsList = opt_set (pr_SmsList p) (tp_SmsList r), tp_Description = opt_set (pr_Description p) (tp_Description r),
      tp_CreatedAt = opt_set (map_option (ad_time dp) (pr_CreatedAt p)) (tp_CreatedAt r),
      tp_UpdatedAt = opt_set (map_option (ad_time dp) (pr_UpdatedAt p)) (tp_UpdatedAt r)\<rparr>"

definition TProductList :: "TProductParam option \<Rightarrow> TProduct list auth" where
  "TProductList p = ext_call (\<lambda>w. (Inr (filter (where_product p) (rows (a_products (adb w)))), w))"

text \<open>The name, the mail list and the contact person have no default.\<close>

definition TProductCreate :: "auth_deps \<Rightarrow> TProductParam \<Rightarrow> unit auth" where
  "TProductCreate dp data = ext_call (\<lambda>w.
     let d = (if pr_CreatedAt data = None then data\<lparr>pr_CreatedAt := Some (a_now w)\<rparr> else data)
     in if pr_Name d = None \<or> pr_MailList d = None \<or> pr_ContactPerson d = None then (Inl constraint_violated, w)
        else case sql_insert uniq_products (\<lambda>i. assign_product dp d
               \<lparr>tp_Id = i, tp_Name = [], tp_MailList = [], tp_ContactPerson = [], tp_SmsList = ''no sms'',
                tp_Description = ''no desc'', tp_CreatedAt = 0, tp_UpdatedAt = ad_time dp (a_now w)\<rparr>) (a_products (adb w)) of
            (Inl e, _) \<Rightarrow> (Inl e, w)
          | (Inr i, t') \<Rightarrow> (Inr (), w\<lparr>adb := (adb w)\<lparr>a_products := t'\<rparr>\<rparr>))"

definition TProductUpdate :: "auth_deps \<Rightarrow> TProductParam \<Rightarrow> TProductParam option \<Rightarrow> unit auth" where
  "TProductUpdate dp val wh = ext_call (\<lambda>w.
     case sql_update (ad_isMySQL dp) uniq_products (where_product wh) (assign_product dp val) (a_products (adb w)) of
       (Inl e, _) \<Rightarrow> (Inl e, w)
     | (Inr n, t') \<Rightarrow> (Inr (), w\<lparr>adb := (adb w)\<lparr>a_products := t'\<rparr>\<rparr>))"

section \<open>Users\<close>

record UserParam =
  ua_Name :: "string option"
  ua_Password :: "string option"
  ua_Scopes :: "string list option"
  ua_SessionKey :: "string option"
  ua_SessionKeyCreateAt :: "time option"

definition no_user_param :: UserParam where
  "no_user_param = \<lparr>ua_Name = None, ua_Password = None, ua_Scopes = None, ua_SessionKey = None, ua_SessionKeyCreateAt = None\<rparr>"

record UserFilter =
  uf_IDs :: "int list option"
  uf_Name :: "string option"
  uf_SessionKey :: "string option"
  uf_Type :: "int option"
  uf_Types :: "int list option"

definition no_user_filter :: UserFilter where
  "no_user_filter = \<lparr>uf_IDs = None, uf_Name = None, uf_SessionKey = None, uf_Type = None, uf_Types = None\<rparr>"

definition parseScopes :: "string \<Rightarrow> string list" where
  "parseScopes s =
     (if s = [] then [] else filter (\<lambda>p. p \<noteq> []) (map TrimSpace (Split s CHR '','')))"

definition scopesContain :: "string list \<Rightarrow> string \<Rightarrow> bool" where
  "scopesContain scopes target = list_ex (\<lambda>s. s = target) scopes"

definition userD2M :: "TUser \<Rightarrow> User" where
  "userD2M r =
     (let scopes = parseScopes (tu_Scopes r) in
      \<lparr>us_ID = tu_ID r, us_Name = tu_Name r, us_Type = tu_Type r, us_Admin = scopesContain scopes ScopeSystem,
       us_Password = tu_Password r, us_SessionKey = tu_Ticket r, us_SessionKeyCreateAt = tu_TicketCreatedAt r,
       us_Scopes = scopes\<rparr>)"

definition userFilter2Param :: "UserFilter \<Rightarrow> TUserParam" where
  "userFilter2Param f = no_user\<lparr>pu_IDs := uf_IDs f, pu_Name := uf_Name f, pu_Ticket := uf_SessionKey f,
     pu_Type := uf_Type f, pu_Types := uf_Types f\<rparr>"

definition userParamM2D :: "UserParam \<Rightarrow> TUserParam" where
  "userParamM2D p = no_user\<lparr>pu_Name := ua_Name p, pu_Type := Some UserTypeNormal, pu_Password := ua_Password p,
     pu_Scopes := map_option (\<lambda>ss. Join ss CHR '','') (ua_Scopes p), pu_Ticket := ua_SessionKey p,
     pu_TicketCreatedAt := ua_SessionKeyCreateAt p\<rparr>"

definition st_FetchUserList :: "UserFilter option \<Rightarrow> User list auth" where
  "st_FetchUserList flt =
     (let f = (case flt of None \<Rightarrow> no_user_filter | Some g \<Rightarrow> g)\<lparr>uf_Type := Some UserTypeNormal\<rparr>
      in bindE (TUserList (userFilter2Param f)) (\<lambda>list. returnE (map userD2M list)))"

definition st_FetchUser :: "UserFilter option \<Rightarrow> (User option) auth" where
  "st_FetchUser flt =
     bindE (st_FetchUserList flt) (\<lambda>list. returnE (case list of [] \<Rightarrow> None | u # _ \<Rightarrow> Some u))"

definition st_UpdateUser :: "auth_deps \<Rightarrow> User \<Rightarrow> UserParam \<Rightarrow> unit auth" where
  "st_UpdateUser dp user param = TUserUpdate dp (userParamM2D param) (no_user\<lparr>pu_ID := Some (us_ID user)\<rparr>)"

definition st_CreateUser :: "auth_deps \<Rightarrow> UserParam \<Rightarrow> unit auth" where
  "st_CreateUser dp param = TUserCreate dp (userParamM2D param)"

definition st_DeleteUser :: "User \<Rightarrow> unit auth" where
  "st_DeleteUser user = TUserDelete (no_user\<lparr>pu_ID := Some (us_ID user)\<rparr>)"

section \<open>Tokens\<close>

record TokenFilter =
  tf_IDs :: "int list option"
  tf_Name :: "string option"
  tf_Token :: "string option"

definition no_token_filter :: TokenFilter where
  "no_token_filter = \<lparr>tf_IDs = None, tf_Name = None, tf_Token = None\<rparr>"

record TokenParam =
  ta_Name :: "string option"
  ta_Token :: "string option"
  ta_Scope :: "string option"

definition tokenD2M :: "TUser \<Rightarrow> Token" where
  "tokenD2M r = \<lparr>tk_ID = tu_ID r, tk_Name = tu_Name r, tk_Token = tu_Ticket r, tk_Scope = tu_Scopes r, tk_Product = None\<rparr>"

definition tokenFilter2Param :: "TokenFilter option \<Rightarrow> TUserParam" where
  "tokenFilter2Param flt =
     (let f = (case flt of None \<Rightarrow> no_token_filter | Some g \<Rightarrow> g)
      in no_user\<lparr>pu_IDs := tf_IDs f, pu_Name := tf_Name f, pu_Type := Some UserTypeToken, pu_Ticket := tf_Token f\<rparr>)"

definition tokenParamM2D :: "TokenParam \<Rightarrow> TUserParam" where
  "tokenParamM2D p = no_user\<lparr>pu_Name := ta_Name p, pu_Type := Some UserTypeToken, pu_Ticket := ta_Token p,
     pu_Scopes := ta_Scope p\<rparr>"

definition st_FetchTokens :: "TokenFilter option \<Rightarrow> Token list auth" where
  "st_FetchTokens flt = bindE (TUserList (tokenFilter2Param flt)) (\<lambda>list. returnE (map tokenD2M list))"

definition st_CreateToken :: "auth_deps \<Rightarrow> TokenParam \<Rightarrow> unit auth" where
  "st_CreateToken dp param = TUserCreate dp (tokenParamM2D param)"

definition st_DeleteToken :: "Token \<Rightarrow> unit auth" where
  "st_DeleteToken token = TUserDelete (no_user\<lparr>pu_Name := Some (tk_Name token), pu_Type := Some UserTypeToken\<rparr>)"

section \<open>Products\<close>

record ProductFilter =
  pf_ID :: "int option"
  pf_NeID :: "int option"
  pf_IDs :: "int list option"
  pf_Name :: "string option"

record ProductParam =
  pa_ID :: "int option"
  pa_Name :: "string option"
  pa_Description :: "string option"
  pa_MailList :: "string list option"
  pa_PhoneList :: "string list option"
  pa_ContactPersonList :: "string list option"

definition unmarshal_list :: "string \<Rightarrow> string list" where
  "unmarshal_list s = (if s = [] then [] else Split s CHR '';'')"

definition productd2i :: "TProduct \<Rightarrow> Product" where
  "productd2i p =
     \<lparr>pd_ID = tp_Id p, pd_Name = tp_Name p, pd_Description = tp_Description p,
      pd_MailList = unmarshal_list (tp_MailList p), pd_PhoneList = unmarshal_list (tp_SmsList p),
      pd_ContactPersonList = unmarshal_list (tp_ContactPerson p), pd_CreatedAt = tp_CreatedAt p,
      pd_UpdatedAt = tp_UpdatedAt p\<rparr>"

definition productParami2d :: "ProductParam \<Rightarrow> TProductParam" where
  "productParami2d p =
     (let marshal = map_option (\<lambda>s. Join s CHR '';'') in
      no_product\<lparr>pr_Id := pa_ID p, pr_Name := pa_Name p, pr_Description := pa_Description p,
        pr_MailList := marshal (pa_MailList p), pr_ContactPerson := marshal (pa_ContactPersonList p),
        pr_SmsList := marshal (pa_PhoneList p)\<rparr>)"

definition productFilter2Param :: "ProductFilter option \<Rightarrow> TProductParam option" where
  "productFilter2Param flt = map_option (\<lambda>f. no_product\<lparr>pr_IDs := pf_IDs f, pr_Id := pf_ID f, pr_NeId := pf_NeID f,
     pr_Name := pf_Name f\<rparr>) flt"

definition st_FetchProducts :: "ProductFilter option \<Rightarrow> Product list auth" where
  "st_FetchProducts flt = bindE (TProductList (productFilter2Param flt)) (\<lambda>list. returnE (map productd2i list))"

definition st_CreateProduct :: "auth_deps \<Rightarrow> ProductParam \<Rightarrow> unit auth" where
  "st_CreateProduct dp p = TProductCreate dp (productParami2d p)"

definition st_UpdateProduct :: "auth_deps \<Rightarrow> Product \<Rightarrow> ProductParam \<Rightarrow> unit auth" where
  "st_UpdateProduct dp product p =
     TProductUpdate dp (productParami2d p) (Some (no_product\<lparr>pr_Name := Some (pd_Name product)\<rparr>))"

section \<open>Bindings\<close>

definition unbindTokenAllProduct :: "int \<Rightarrow> unit auth" where
  "unbindTokenAllProduct userID = TUserProductDelete (no_binding\<lparr>pp_UserID := Some userID\<rparr>)"

definition UnbindUserProduct :: "User \<Rightarrow> Product \<Rightarrow> unit auth" where
  "UnbindUserProduct user product =
     TUserProductDelete (no_binding\<lparr>pp_UserID := Some (us_ID user), pp_ProductID := Some (pd_ID product)\<rparr>)"

definition bindUserProduct :: "auth_deps \<Rightarrow> int \<Rightarrow> Product \<Rightarrow> unit auth" where
  "bindUserProduct dp userID product =
     bindE (TUserProductOne (no_binding\<lparr>pp_UserID := Some userID, pp_ProductID := Some (pd_ID product)\<rparr>)) (\<lambda>one.
       if one \<noteq> None then returnE () else TUserProductCreate dp userID (pd_ID product))"

definition isTokenProductGranted :: "int \<Rightarrow> Product \<Rightarrow> bool auth" where
  "isTokenProductGranted userID product =
     bindE (TUserProductOne (no_binding\<lparr>pp_UserID := Some userID, pp_ProductID := Some (pd_ID product)\<rparr>)) (\<lambda>one.
       returnE (one \<noteq> None))"

definition no_product_filter :: ProductFilter where
  "no_product_filter = \<lparr>pf_ID = None, pf_NeID = None, pf_IDs = None, pf_Name = None\<rparr>"

definition fetchUserProducts :: "int \<Rightarrow> Product list auth" where
  "fetchUserProducts userID =
     bindE (TUserProductList (no_binding\<lparr>pp_UserID := Some userID\<rparr>)) (\<lambda>list.
       if list = [] then returnE []
       else st_FetchProducts (Some (no_product_filter\<lparr>pf_IDs := Some (remdups (map up_ProductID list))\<rparr>)))"

definition st_FetchTokenProduct :: "Token \<Rightarrow> (Product option) auth" where
  "st_FetchTokenProduct token =
     bindE (fetchUserProducts (tk_ID token)) (\<lambda>list. returnE (case list of [] \<Rightarrow> None | p # _ \<Rightarrow> Some p))"

definition st_FetchProductUsers :: "Product \<Rightarrow> User list auth" where
  "st_FetchProductUsers product =
     bindE (TUserProductList (no_binding\<lparr>pp_ProductID := Some (pd_ID product)\<rparr>)) (\<lambda>list.
       if list = [] then returnE []
       else st_FetchUserList (Some (no_user_filter\<lparr>uf_IDs := Some (remdups (map up_UserID list))\<rparr>)))"

definition st_FetchProductTokens :: "Product \<Rightarrow> Token list auth" where
  "st_FetchProductTokens product =
     bindE (TUserProductList (no_binding\<lparr>pp_ProductID := Some (pd_ID product)\<rparr>)) (\<lambda>list.
       if list = [] then returnE []
       else st_FetchTokens (Some (no_token_filter\<lparr>tf_IDs := Some (remdups (map up_UserID list))\<rparr>)))"

text \<open>The result maps a token to its product, nil when the product is gone; a later binding replaces an earlier one.\<close>

definition BatchFetchTokenProduct :: "Token list \<Rightarrow> (int \<rightharpoonup> Product option) auth" where
  "BatchFetchTokenProduct tokens =
     (if tokens = [] then returnE Map.empty
      else bindE (TUserProductList (no_binding\<lparr>pp_UserIDs := Some (map tk_ID tokens)\<rparr>)) (\<lambda>bindList.
        if bindList = [] then returnE Map.empty
        else bindE (st_FetchProducts (Some (no_product_filter\<lparr>pf_IDs := Some (remdups (map up_ProductID bindList))\<rparr>))) (\<lambda>productList.
          let productObjMap = map_of (rev (map (\<lambda>p. (pd_ID p, p)) productList))
          in returnE (map_of (rev (map (\<lambda>b. (up_UserID b, productObjMap (up_ProductID b))) bindList))))))"

definition st_UpdateUserScopes :: "auth_deps \<Rightarrow> User \<Rightarrow> string list \<Rightarrow> unit auth" where
  "st_UpdateUserScopes dp user scopes = st_UpdateUser dp user (no_user_param\<lparr>ua_Scopes := Some scopes\<rparr>)"

section \<open>Transactions\<close>

definition auth_AtomExecute :: "'a auth \<Rightarrow> 'a auth" where
  "auth_AtomExecute body = RDBTxnExecute adb (\<lambda>d w. w\<lparr>adb := d\<rparr>) body"

interpretation auth_txn: txn_tables adb "\<lambda>d w. w\<lparr>adb := d\<rparr>"
  by unfold_locales simp_all

section \<open>Scopes of a row\<close>

lemma TrimSpace_scopes:
  "TrimSpace ScopeSystem = ScopeSystem" "TrimSpace ScopeSystemReadonly = ScopeSystemReadonly"
  by code_simp+

lemma parse_joined:
  assumes "ss \<noteq> []" "\<And>s. s \<in> set ss \<Longrightarrow> CHR '','' \<notin> set s \<and> TrimSpace s = s \<and> s \<noteq> []"
  shows "parseScopes (Join ss CHR '','') = ss"
proof -
  have "Split (Join ss CHR '','') CHR '','' = ss" using assms by (intro Split_Join) auto
  moreover have "map TrimSpace ss = ss" using assms(2) by (simp add: map_idI)
  moreover have "filter (\<lambda>p. p \<noteq> []) ss = ss" using assms(2) by (simp add: filter_id_conv)
  moreover have "Join ss CHR '','' \<noteq> []" using assms by (cases ss rule: remdups_adj.cases) auto
  ultimately show ?thesis by (simp add: parseScopes_def)
qed

lemma parse_role_scopes:
  "parseScopes ScopeSystem = [ScopeSystem]" "parseScopes ScopeSystemReadonly = [ScopeSystemReadonly]"
  by code_simp+

end
