(* ===== verification/AuthManager.thy ===== *)
theory AuthManager
  imports AuthStore
begin

text \<open>
  The managers of authentication and authorization (\<^verbatim>\<open>model/iauth/authentication.go\<close>, \<^verbatim>\<open>authorization.go\<close>,
  \<^verbatim>\<open>operation_log.go\<close>), the products (\<^verbatim>\<open>model/ibasic/product.go\<close>), and the middleware that turns the headers
  of a request into its context (\<^verbatim>\<open>endpoints/middleware\<close>).
\<close>

section \<open>Operation log\<close>

definition log_entry :: "time \<Rightarrow> LogEntry" where
  "log_entry now =
     \<lparr>le_ID = 0, le_LogID = [], le_OperatorType = 0, le_OperatorID = 0, le_OperatorName = [], le_Action = [],
      le_ResourceType = [], le_ResourceID = [], le_ResourceName = [], le_ResourceParentID = [], le_Status = 0,
      le_ErrorMsg = [], le_ChangeSummary = None, le_RequestPath = [], le_RequestMethod = [], le_ClientIP = [],
      le_UserAgent = [], le_CreatedAt = now\<rparr>"

definition recordAuthOperation ::
  "auth_deps \<Rightarrow> string \<Rightarrow> string \<Rightarrow> int \<Rightarrow> string \<Rightarrow> string \<Rightarrow> log_map \<Rightarrow> log_map \<Rightarrow> error option \<Rightarrow> unit auth" where
  "recordAuthOperation dp action resourceType resourceID resourceName parentID before after err =
     modifyE (\<lambda>w. if \<not> ad_operationLog dp then w
       else w\<lparr>a_log := a_log w @ [(log_entry (a_now w))
         \<lparr>le_Action := action, le_ResourceType := resourceType,
          le_ResourceID := (if resourceID \<noteq> 0 then show_int resourceID else []),
          le_ResourceName := resourceName, le_ResourceParentID := parentID,
          le_Status := (case err of None \<Rightarrow> 1 | Some _ \<Rightarrow> 2),
          le_ErrorMsg := (case err of None \<Rightarrow> [] | Some e \<Rightarrow> TruncateErrorMessageDefault (Some (ad_errText dp e))),
          le_ChangeSummary := BuildChangeSummary action before after\<rparr>]\<rparr>)"

definition recordUserOperation ::
  "auth_deps \<Rightarrow> string \<Rightarrow> int \<Rightarrow> string \<Rightarrow> string \<Rightarrow> log_map \<Rightarrow> log_map \<Rightarrow> error option \<Rightarrow> unit auth" where
  "recordUserOperation dp action userID userName parentID before after err =
     recordAuthOperation dp action ''user'' userID userName parentID before after err"

definition recordTokenOperation ::
  "auth_deps \<Rightarrow> string \<Rightarrow> int \<Rightarrow> string \<Rightarrow> string \<Rightarrow> log_map \<Rightarrow> log_map \<Rightarrow> error option \<Rightarrow> unit auth" where
  "recordTokenOperation dp action tokenID tokenName parentID before after err =
     recordAuthOperation dp action ''token'' tokenID tokenName parentID before after err"

definition opt_entry :: "string \<Rightarrow> ('a \<Rightarrow> log_value) \<Rightarrow> 'a option \<Rightarrow> log_map" where
  "opt_entry k f v = (case v of None \<Rightarrow> [] | Some x \<Rightarrow> [(k, f x)])"

definition userParamName :: "UserParam \<Rightarrow> string" where
  "userParamName p = opt_set (ua_Name p) []"

definition userParamToMap :: "UserParam \<Rightarrow> log_map" where
  "userParamToMap p =
     opt_entry ''name'' LvStr (ua_Name p) @ opt_entry ''password'' LvStr (ua_Password p) @
     (if opt_set (ua_Scopes p) [] \<noteq> [] then [(''scopes'', LvStrs (opt_set (ua_Scopes p) []))] else []) @
     opt_entry ''session_key'' LvStr (ua_SessionKey p) @
     opt_entry ''session_key_create_at'' LvTime (ua_SessionKeyCreateAt p)"

definition userToMap :: "User option \<Rightarrow> log_map" where
  "userToMap user = (case user of None \<Rightarrow> [] | Some u \<Rightarrow>
     [(''id'', LvInt (us_ID u)), (''name'', LvStr (us_Name u)), (''type'', LvInt (us_Type u)), (''admin'', LvBool (us_Admin u))] @
     (if us_Password u \<noteq> [] then [(''password'', LvStr (us_Password u))] else []) @
     (if us_SessionKey u \<noteq> [] then [(''session_key'', LvStr (us_SessionKey u))] else []))"

definition tokenToMap :: "Token \<Rightarrow> log_map" where
  "tokenToMap t =
     [(''id'', LvInt (tk_ID t)), (''name'', LvStr (tk_Name t)), (''scope'', LvStr (tk_Scope t))] @
     (if tk_Token t \<noteq> [] then [(''token'', LvStr (tk_Token t))] else []) @
     opt_entry ''product'' (\<lambda>p. LvStr (pd_Name p)) (tk_Product t)"

definition tokenParamToMap :: "TokenParam \<Rightarrow> log_map" where
  "tokenParamToMap p =
     opt_entry ''name'' LvStr (ta_Name p) @ opt_entry ''token'' LvStr (ta_Token p) @ opt_entry ''scope'' LvStr (ta_Scope p)"

definition productToMap :: "Product \<Rightarrow> log_map" where
  "productToMap p = (''name'', LvStr (pd_Name p)) # (if pd_ID p \<noteq> 0 then [(''id'', LvInt (pd_ID p))] else [])"

definition recordUserProductBinding :: "auth_deps \<Rightarrow> string \<Rightarrow> User \<Rightarrow> Product \<Rightarrow> error option \<Rightarrow> unit auth" where
  "recordUserProductBinding dp action user product err =
     recordAuthOperation dp action ''user'' (us_ID user) (us_Name user) (pd_Name product)
       [(''user'', LvMap (userToMap (Some user)))] [(''product'', LvMap (productToMap product))] err"

text \<open>Run a transaction, record its outcome, and return it.\<close>

definition logged :: "'a auth \<Rightarrow> (error + 'a \<Rightarrow> auth_world \<Rightarrow> unit auth) \<Rightarrow> 'a auth" where
  "logged body rec =
     State_Monad.bind body (\<lambda>r. State_Monad.bind (gets id) (\<lambda>w. bindE (rec r w) (\<lambda>_. lift_err r)))"

definition err_of :: "error + 'a \<Rightarrow> error option" where
  "err_of r = (case r of Inl e \<Rightarrow> Some e | Inr _ \<Rightarrow> None)"

section \<open>Authentication\<close>

record AuthenticateParam =
  ap_Type :: string
  ap_Identify :: string
  ap_Extend :: string

definition draw :: "(nat \<Rightarrow> 'a) \<Rightarrow> (auth_world, 'a) state" where
  "draw f = State (\<lambda>w. (f (a_draws w), w\<lparr>a_draws := a_draws w + 1\<rparr>))"

definition session_key_of :: "auth_deps \<Rightarrow> nat \<Rightarrow> error + string" where
  "session_key_of dp n =
     (case ac_random (ad_crypto dp) n 15 of
        None \<Rightarrow> Inl (ErrModel ''rand.Read data error'') | Some bs \<Rightarrow> Inr (URLEncodeToString bs))"

definition sessionKeyFactory :: "auth_deps \<Rightarrow> string auth" where
  "sessionKeyFactory dp = draw (session_key_of dp)"

definition hash_password :: "auth_deps \<Rightarrow> string \<Rightarrow> string auth" where
  "hash_password dp plaintext = draw (\<lambda>n. HashPassword (ad_crypto dp) n plaintext)"

definition clearedAt :: time where
  "clearedAt = 32 * nsDay"

text \<open>
  The loop that looks for an unused session key has no bound: \<open>None\<close> is a login that never returns.
\<close>

type_synonym 'a looping = "auth_world \<Rightarrow> ((error + 'a) \<times> auth_world) option"

partial_function (option) fresh_session :: "auth_deps \<Rightarrow> User \<Rightarrow> bool \<Rightarrow> auth_world \<Rightarrow> ((error + Visitor) \<times> auth_world) option" where
  "fresh_session dp user needMigrate w =
     (case run_state (sessionKeyFactory dp) w of
        (Inl e, w1) \<Rightarrow> Some (Inl e, w1)
      | (Inr sessionKey, w1) \<Rightarrow>
          (case run_state (st_FetchUser (Some (no_user_filter\<lparr>uf_SessionKey := Some sessionKey\<rparr>))) w1 of
             (Inl e, w2) \<Rightarrow> Some (Inl e, w2)
           | (Inr (Some user1), w2) \<Rightarrow> fresh_session dp user needMigrate w2
           | (Inr None, w2) \<Rightarrow>
               Some (run_state
                 (bindE (st_UpdateUser dp user (no_user_param
                    \<lparr>ua_SessionKey := Some sessionKey, ua_SessionKeyCreateAt := Some (a_now w2),
                     ua_Password := (if needMigrate then Some (us_Password user) else None)\<rparr>)) (\<lambda>_.
                   returnE (UserVisitor (user\<lparr>us_SessionKey := sessionKey\<rparr>)))) w2)))"

definition verify_password :: "auth_deps \<Rightarrow> AuthenticateParam \<Rightarrow> (User \<times> bool) auth" where
  "verify_password dp param =
     bindE (st_FetchUser (Some (no_user_filter\<lparr>uf_Name := Some (ap_Identify param)\<rparr>))) (\<lambda>user. case user of
         None \<Rightarrow> throwE (ErrAuthenticate ''User Not Exist'')
       | Some u \<Rightarrow>
           let (ok, needMigrate) = CheckPassword (ad_crypto dp) (us_Password u) (ap_Extend param) in
           if \<not> ok then throwE (ErrAuthenticate ''Password Wrong'')
           else if needMigrate then
             bindE (hash_password dp (ap_Extend param)) (\<lambda>reHashed. returnE (u\<lparr>us_Password := reHashed\<rparr>, True))
           else returnE (u, False))"

definition password_body :: "auth_deps \<Rightarrow> AuthenticateParam \<Rightarrow> Visitor looping" where
  "password_body dp param w =
     (case run_state (verify_password dp param) w of
        (Inl e, w1) \<Rightarrow> Some (Inl e, w1)
      | (Inr (u, needMigrate), w1) \<Rightarrow> fresh_session dp u needMigrate w1)"

text \<open>\<^verbatim>\<open>AtomExecute\<close> around a body that may not return.\<close>

definition looping_txn :: "'a looping \<Rightarrow> 'a looping" where
  "looping_txn body w =
     (case run_state (ext_call (\<lambda>v. (Inr (), v))) w of
        (Inl e, w1) \<Rightarrow> Some (Inl e, w1)
      | (Inr _, w1) \<Rightarrow>
          (case body w1 of
             None \<Rightarrow> None
           | Some r \<Rightarrow> Some (run_state (auth_AtomExecute (State (\<lambda>_. r))) w)))"

definition authTypePassword :: "auth_deps \<Rightarrow> AuthenticateParam \<Rightarrow> Visitor looping" where
  "authTypePassword dp param = looping_txn (password_body dp param)"

definition authTypeSession :: "auth_deps \<Rightarrow> AuthenticateParam \<Rightarrow> Visitor auth" where
  "authTypeSession dp param =
     bindE (st_FetchUser (Some (no_user_filter\<lparr>uf_SessionKey := Some (ap_Identify param)\<rparr>))) (\<lambda>user. case user of
         None \<Rightarrow> throwE (ErrAuthenticate ''Session Key Wrong'')
       | Some u \<Rightarrow> State_Monad.bind (gets a_now) (\<lambda>now.
           if AddDays (ad_zone dp) (us_SessionKeyCreateAt u) (ad_SessionExpireInDay dp) < now
           then throwE (ErrAuthenticate ''Session Key Expired'')
           else returnE (UserVisitor u)))"

definition authTypeToken :: "AuthenticateParam \<Rightarrow> Visitor auth" where
  "authTypeToken param =
     bindE (st_FetchTokens (Some (no_token_filter\<lparr>tf_Token := Some (ap_Identify param)\<rparr>))) (\<lambda>tokens. case tokens of
         [] \<Rightarrow> throwE (ErrAuthenticate ''Token Wrong'')
       | t # _ \<Rightarrow> returnE (TokenVisitor t))"

definition authTypeSkip :: "auth_deps \<Rightarrow> AuthenticateParam \<Rightarrow> Visitor auth" where
  "authTypeSkip dp param =
     (if \<not> ad_SkipTokenValidate dp then throwE (ErrAuthenticate ''Bad Authorization Flag'')
      else returnE (newFakeVisitor (ap_Identify param)))"

definition Authenticate :: "auth_deps \<Rightarrow> AuthenticateParam \<Rightarrow> Visitor looping" where
  "Authenticate dp param w =
     (if ap_Type param = ''Password'' then authTypePassword dp param w
      else if ap_Type param = ''Session'' then Some (run_state (authTypeSession dp param) w)
      else if ap_Type param = ''Token'' then Some (run_state (authTypeToken param) w)
      else if ap_Type param = ''Skip'' then Some (run_state (authTypeSkip dp param) w)
      else Some (Inl (ErrParam ''Illegal Authenticate Type''), w))"

definition set_oldUser :: "User option \<Rightarrow> unit auth" where
  "set_oldUser u = modifyE (\<lambda>w. w\<lparr>a_oldUser := u\<rparr>)"

text \<open>Clear the variable, run the transaction of a method that assigns it.\<close>

definition with_oldUser :: "'a auth \<Rightarrow> 'a auth" where
  "with_oldUser body = bindE (set_oldUser None) (\<lambda>_. auth_AtomExecute body)"

definition old_id :: "auth_world \<Rightarrow> int" where
  "old_id w = (case a_oldUser w of None \<Rightarrow> 0 | Some u \<Rightarrow> us_ID u)"

definition old_name :: "string \<Rightarrow> auth_world \<Rightarrow> string" where
  "old_name d w = (case a_oldUser w of None \<Rightarrow> d | Some u \<Rightarrow> us_Name u)"

definition cleared_session :: UserParam where
  "cleared_session = no_user_param\<lparr>ua_SessionKey := Some [], ua_SessionKeyCreateAt := Some clearedAt\<rparr>"

definition DestroySessionKey :: "auth_deps \<Rightarrow> string \<Rightarrow> unit auth" where
  "DestroySessionKey dp sessionKey =
     logged (with_oldUser
       (bindE (st_FetchUser (Some (no_user_filter\<lparr>uf_SessionKey := Some sessionKey\<rparr>))) (\<lambda>user. case user of
           None \<Rightarrow> throwE (ErrAuthenticate ''Session Key Not Exist'')
         | Some u \<Rightarrow> bindE (set_oldUser (Some u)) (\<lambda>_. st_UpdateUser dp u cleared_session))))
       (\<lambda>r w. recordUserOperation dp ''reset'' (old_id w) (old_name [] w) [] (userToMap (a_oldUser w))
          (userParamToMap cleared_session) (err_of r))"

definition CreateUser :: "auth_deps \<Rightarrow> UserParam \<Rightarrow> unit auth" where
  "CreateUser dp param =
     bindE (case ua_Password param of
         None \<Rightarrow> returnE param
       | Some password \<Rightarrow>
           bindE (lift_err (passwordCheck password)) (\<lambda>_.
           bindE (hash_password dp password) (\<lambda>hashed. returnE (param\<lparr>ua_Password := Some hashed\<rparr>)))) (\<lambda>p.
     logged (auth_AtomExecute
       (bindE (st_FetchUser (Some (no_user_filter\<lparr>uf_Name := ua_Name p\<rparr>))) (\<lambda>user.
          if user \<noteq> None then throwE (ErrExisted ''User'') else st_CreateUser dp p)))
       (\<lambda>r w. recordUserOperation dp ''create'' 0 (userParamName p) [] [] (userParamToMap p) (err_of r)))"

definition DeleteUser :: "auth_deps \<Rightarrow> string \<Rightarrow> unit auth" where
  "DeleteUser dp userName =
     logged (with_oldUser
       (bindE (st_FetchUser (Some (no_user_filter\<lparr>uf_Name := Some userName\<rparr>))) (\<lambda>user. case user of
           None \<Rightarrow> throwE (ErrRecordNotExist ''User'')
         | Some u \<Rightarrow>
             bindE (set_oldUser (Some u)) (\<lambda>_.
             bindE (st_DeleteUser u) (\<lambda>_. unbindTokenAllProduct (us_ID u))))))
       (\<lambda>r w. recordUserOperation dp ''delete'' (old_id w) (old_name userName w) [] (userToMap (a_oldUser w)) [] (err_of r))"

definition updateUser :: "auth_deps \<Rightarrow> UserFilter \<Rightarrow> (User \<Rightarrow> error + unit) \<Rightarrow> UserParam \<Rightarrow> unit auth" where
  "updateUser dp flt userChecker newData =
     with_oldUser
       (bindE (st_FetchUser (Some flt)) (\<lambda>user. case user of
           None \<Rightarrow> throwE (ErrRecordNotExist ''User'')
         | Some u \<Rightarrow>
             bindE (set_oldUser (Some u)) (\<lambda>_.
             bindE (lift_err (userChecker u)) (\<lambda>_. st_UpdateUser dp u newData))))"

record PasswordChangeData =
  pc_UserName :: string
  pc_OldPassword :: string
  pc_Password :: string

definition UpdateUserPassword :: "auth_deps \<Rightarrow> PasswordChangeData \<Rightarrow> unit auth" where
  "UpdateUserPassword dp pcd =
     bindE (lift_err (passwordCheck (pc_Password pcd))) (\<lambda>_.
     bindE (hash_password dp (pc_Password pcd)) (\<lambda>hashed.
     let newData = cleared_session\<lparr>ua_Password := Some hashed\<rparr> in
     logged (updateUser dp (no_user_filter\<lparr>uf_Name := Some (pc_UserName pcd)\<rparr>)
       (\<lambda>user. if pc_OldPassword pcd \<noteq> [] \<and> \<not> fst (CheckPassword (ad_crypto dp) (us_Password user) (pc_OldPassword pcd))
               then Inl (ErrParam ''Invalid Password'') else Inr ()) newData)
       (\<lambda>r w. recordUserOperation dp ''update'' (old_id w) (old_name (pc_UserName pcd) w) [] (userToMap (a_oldUser w))
          (userParamToMap newData) (err_of r))))"

definition FetchUserList :: "UserFilter option \<Rightarrow> User list auth" where
  "FetchUserList flt = auth_AtomExecute (st_FetchUserList flt)"

definition FetchUser :: "UserFilter option \<Rightarrow> (User option) auth" where
  "FetchUser flt = bindE (FetchUserList flt) (\<lambda>list. returnE (case list of [] \<Rightarrow> None | u # _ \<Rightarrow> Some u))"

section \<open>Tokens\<close>

definition FetchTokens :: "TokenFilter option \<Rightarrow> Token list auth" where
  "FetchTokens flt = auth_AtomExecute
     (bindE (st_FetchTokens flt) (\<lambda>list.
      bindE (BatchFetchTokenProduct list) (\<lambda>products.
      returnE (map (\<lambda>t. t\<lparr>tk_Product := Option.bind (products (tk_ID t)) id\<rparr>) list))))"

definition DeleteToken :: "auth_deps \<Rightarrow> Token \<Rightarrow> unit auth" where
  "DeleteToken dp token =
     logged (auth_AtomExecute (bindE (st_DeleteToken token) (\<lambda>_. unbindTokenAllProduct (tk_ID token))))
       (\<lambda>r w. recordTokenOperation dp ''delete'' (tk_ID token) (tk_Name token) [] (tokenToMap token) [] (err_of r))"

definition set_token :: "Token \<Rightarrow> unit auth" where
  "set_token t = modifyE (\<lambda>w. w\<lparr>a_token := Some t\<rparr>)"

text \<open>
  At most \<open>n\<close> draws; \<open>err\<close> is the value of the variable at the head of the loop, which the closure returns when
  every draw was in use: nil, unless the last draw failed.
\<close>

fun token_attempts :: "nat \<Rightarrow> auth_deps \<Rightarrow> string \<Rightarrow> string \<Rightarrow> Product option \<Rightarrow> error option \<Rightarrow> unit auth" where
  "token_attempts 0 dp name scope product err = (case err of None \<Rightarrow> returnE () | Some e \<Rightarrow> throwE e)"
| "token_attempts (Suc n) dp name scope product err =
     State_Monad.bind (sessionKeyFactory dp) (\<lambda>k. case k of
         Inl e \<Rightarrow> token_attempts n dp name scope product (Some e)
       | Inr tokenVal \<Rightarrow>
           State_Monad.bind (st_FetchTokens (Some (no_token_filter\<lparr>tf_Token := Some tokenVal\<rparr>))) (\<lambda>ts. case ts of
               Inl e \<Rightarrow> token_attempts n dp name scope product (Some e)
             | Inr (_ # _) \<Rightarrow> token_attempts n dp name scope product None
             | Inr [] \<Rightarrow>
                 bindE (set_token \<lparr>tk_ID = 0, tk_Name = name, tk_Token = tokenVal, tk_Scope = scope, tk_Product = None\<rparr>) (\<lambda>_.
                 bindE (st_CreateToken dp \<lparr>ta_Name = Some name, ta_Token = Some tokenVal, ta_Scope = Some scope\<rparr>) (\<lambda>_.
                 bindE (st_FetchTokens (Some (no_token_filter\<lparr>tf_Name := Some name\<rparr>))) (\<lambda>tokens. case tokens of
                     [] \<Rightarrow> throwE (ErrMsg ''panic: index out of range'')
                   | t # _ \<Rightarrow> bindE (set_token t) (\<lambda>_. case product of
                         None \<Rightarrow> returnE ()
                       | Some p \<Rightarrow> bindUserProduct dp (tk_ID t) p))))))"

text \<open>The error of the first read is not looked at.\<close>

definition create_token_body :: "auth_deps \<Rightarrow> string \<Rightarrow> string \<Rightarrow> Product option \<Rightarrow> unit auth" where
  "create_token_body dp name scope product =
     State_Monad.bind (st_FetchTokens (Some (no_token_filter\<lparr>tf_Name := Some name\<rparr>))) (\<lambda>ts. case ts of
         Inr (_ # _) \<Rightarrow> throwE (ErrExisted ''Token'')
       | Inr [] \<Rightarrow> token_attempts 5 dp name scope product None
       | Inl e \<Rightarrow> token_attempts 5 dp name scope product (Some e))"

definition CreateToken :: "auth_deps \<Rightarrow> string \<Rightarrow> string \<Rightarrow> Product option \<Rightarrow> Token auth" where
  "CreateToken dp name scope product =
     (let parentID = (case product of None \<Rightarrow> [] | Some p \<Rightarrow> pd_Name p);
          param = \<lparr>ta_Name = Some name, ta_Token = None, ta_Scope = Some scope\<rparr>
      in State_Monad.bind (modify (\<lambda>w. w\<lparr>a_token := None\<rparr>)) (\<lambda>_.
         State_Monad.bind (auth_AtomExecute (create_token_body dp name scope product)) (\<lambda>r.
         State_Monad.bind (gets a_token) (\<lambda>token. case (r, token) of
             (Inl e, _) \<Rightarrow>
               bindE (recordTokenOperation dp ''create'' 0 (case token of None \<Rightarrow> name | Some t \<Rightarrow> tk_Name t) parentID []
                 (tokenParamToMap param) (Some e)) (\<lambda>_. throwE e)
           | (Inr _, None) \<Rightarrow> throwE (ErrMsg ''panic: nil pointer dereference'')
           | (Inr _, Some t) \<Rightarrow>
               bindE (recordTokenOperation dp ''create'' (tk_ID t) (tk_Name t) parentID [] (tokenToMap t) None) (\<lambda>_.
                 returnE t)))))"

section \<open>Authorization\<close>

text \<open>\<^verbatim>\<open>strings.EqualFold\<close> with a text of ASCII letters that are neither k nor s.\<close>

definition fold_ascii :: "char \<Rightarrow> char" where
  "fold_ascii c = (let n = (of_char c :: nat) in if 65 \<le> n \<and> n \<le> 90 then char_of (n + 32) else c)"

definition EqualFold_ascii :: "string \<Rightarrow> string \<Rightarrow> bool" where
  "EqualFold_ascii s t = (map fold_ascii s = map fold_ascii t)"

definition UpdateUserRole :: "auth_deps \<Rightarrow> User \<Rightarrow> string \<Rightarrow> unit auth" where
  "UpdateUserRole dp user role =
     bindE (lift_err (RoleToScopes role)) (\<lambda>scopes.
     if EqualFold_ascii (us_Name user) ''admin'' \<and> role \<noteq> RoleSystemAdmin
     then throwE (ErrParam ''user admin role is fixed to system_admin'')
     else logged (auth_AtomExecute (st_UpdateUserScopes dp user scopes))
       (\<lambda>r w. recordUserOperation dp ''update'' (us_ID user) (us_Name user) [] (userToMap (Some user))
          [(''role'', LvStr role), (''scopes'', LvStrs scopes)] (err_of r)))"

definition IsVisitorProductGranted :: "Visitor \<Rightarrow> Product \<Rightarrow> bool auth" where
  "IsVisitorProductGranted v product = auth_AtomExecute (case v of
       UserVisitor u \<Rightarrow> isTokenProductGranted (us_ID u) product
     | TokenVisitor t \<Rightarrow> isTokenProductGranted (tk_ID t) product)"

definition Authorizate :: "auth_deps \<Rightarrow> req_ctx \<Rightarrow> Authorization \<Rightarrow> unit auth" where
  "Authorizate dp ctx authrizer =
     bindE (lift_err (MustGetVisitor (ad_SkipTokenValidate dp) ctx)) (\<lambda>visitor.
     if IsAdmin visitor then returnE ()
     else if \<not> featureGranted (GetScopes visitor) (az_Feature authrizer) (az_Action authrizer)
     then throwE (ErrAuthorizate ''Feature Access Deny'')
     else if az_ValidateProduct authrizer then
       bindE (lift_err (MustGetProduct ctx)) (\<lambda>product.
       bindE (IsVisitorProductGranted visitor product) (\<lambda>ok.
       if ok then returnE () else throwE (ErrAuthorizate ''Product Access Deny'')))
     else returnE ())"

definition FetchVisitorProductList :: "Visitor \<Rightarrow> Product option list auth" where
  "FetchVisitorProductList v = auth_AtomExecute (case v of
       UserVisitor u \<Rightarrow> bindE (fetchUserProducts (us_ID u)) (\<lambda>ps. returnE (map Some ps))
     | TokenVisitor t \<Rightarrow> bindE (st_FetchTokenProduct t) (\<lambda>p. returnE [p]))"

definition FetchProductUsers :: "Product \<Rightarrow> User list auth" where
  "FetchProductUsers product = auth_AtomExecute (st_FetchProductUsers product)"

definition FetchProductTokens :: "Product \<Rightarrow> Token list auth" where
  "FetchProductTokens product = auth_AtomExecute (st_FetchProductTokens product)"

definition BindUserProduct :: "auth_deps \<Rightarrow> User \<Rightarrow> Product \<Rightarrow> unit auth" where
  "BindUserProduct dp user product =
     logged (auth_AtomExecute (bindUserProduct dp (us_ID user) product))
       (\<lambda>r w. recordUserProductBinding dp ''bind'' user product (err_of r))"

definition UnBindUserProduct :: "auth_deps \<Rightarrow> User \<Rightarrow> Product \<Rightarrow> unit auth" where
  "UnBindUserProduct dp user product =
     logged (auth_AtomExecute
       (bindE (isTokenProductGranted (us_ID user) product) (\<lambda>bound.
          if \<not> bound then throwE (ErrRecordNotExist ''User Product Binding'') else UnbindUserProduct user product)))
       (\<lambda>r w. recordUserProductBinding dp ''unbind'' user product (err_of r))"

section \<open>Products\<close>

definition FetchProducts :: "ProductFilter option \<Rightarrow> Product list auth" where
  "FetchProducts flt = auth_AtomExecute (st_FetchProducts flt)"

definition CreateProduct :: "auth_deps \<Rightarrow> ProductParam \<Rightarrow> unit auth" where
  "CreateProduct dp p = auth_AtomExecute
     (bindE (st_FetchProducts (Some (no_product_filter\<lparr>pf_Name := pa_Name p\<rparr>))) (\<lambda>list.
        if list \<noteq> [] then throwE (ErrExisted ''Product'') else st_CreateProduct dp p))"

definition UpdateProduct :: "auth_deps \<Rightarrow> Product \<Rightarrow> ProductParam \<Rightarrow> unit auth" where
  "UpdateProduct dp p newVal =
     (if pd_ID p = 1 then throwE (ErrModel ''Cant Delete Build-in Product'')
      else auth_AtomExecute (st_UpdateProduct dp p newVal))"

section \<open>The context of a request\<close>

definition UserProbeAction :: "auth_deps \<Rightarrow> string \<Rightarrow> req_ctx \<Rightarrow> req_ctx looping" where
  "UserProbeAction dp authHeader ctx w =
     (if authHeader = [] then Some (Inr ctx, w)
      else case Cut authHeader CHR '' '' of
          None \<Rightarrow> Some (Inl (ErrAuthenticate ''Bad Format Header Authorization''), w)
        | Some (ty, ident) \<Rightarrow>
            (case Authenticate dp \<lparr>ap_Type = ty, ap_Identify = ident, ap_Extend = []\<rparr> w of
               None \<Rightarrow> None
             | Some (Inl e, w') \<Rightarrow> Some (Inl e, w')
             | Some (Inr visitor, w') \<Rightarrow> Some (Inr (ctx\<lparr>cx_visitor := Some visitor\<rparr>), w')))"

definition ProductProbeAction :: "int option \<Rightarrow> string option \<Rightarrow> req_ctx \<Rightarrow> req_ctx auth" where
  "ProductProbeAction productID productName ctx =
     (if productID = None \<and> productName = None then returnE ctx
      else bindE (FetchProducts (Some (no_product_filter\<lparr>pf_ID := productID, pf_Name := productName\<rparr>))) (\<lambda>products.
        case products of
          [p] \<Rightarrow> returnE (ctx\<lparr>cx_product := Some p\<rparr>)
        | _ \<Rightarrow> throwE (ErrRecordNotExist ''Product'')))"

section \<open>Endpoints that check more than the managers\<close>

definition userUpdatePasswordActionProcess :: "auth_deps \<Rightarrow> req_ctx \<Rightarrow> string \<Rightarrow> string \<Rightarrow> string \<Rightarrow> unit auth" where
  "userUpdatePasswordActionProcess dp ctx userName oldPassword password =
     bindE (lift_err (MustGetVisitor (ad_SkipTokenValidate dp) ctx)) (\<lambda>user.
     if GetName user = userName \<and> oldPassword = [] then throwE (ErrParam ''Want Old Password'')
     else UpdateUserPassword dp \<lparr>pc_UserName = userName, pc_OldPassword = oldPassword, pc_Password = password\<rparr>)"

definition userUpdateRoleActionProcess :: "auth_deps \<Rightarrow> string \<Rightarrow> string \<Rightarrow> unit auth" where
  "userUpdateRoleActionProcess dp userName role =
     bindE (FetchUser (Some (no_user_filter\<lparr>uf_Name := Some userName\<rparr>))) (\<lambda>user. case user of
         None \<Rightarrow> throwE (ErrRecordNotExist ''User'')
       | Some u \<Rightarrow> UpdateUserRole dp u role)"

definition userCreateActionProcess :: "auth_deps \<Rightarrow> string \<Rightarrow> string \<Rightarrow> string \<Rightarrow> unit auth" where
  "userCreateActionProcess dp userName password role =
     bindE (lift_err (RoleToScopes role)) (\<lambda>scopes.
       CreateUser dp (no_user_param\<lparr>ua_Name := Some userName, ua_Password := Some password, ua_Scopes := Some scopes\<rparr>))"

end
