(* ===== verification/AuthFacts.thy ===== *)
theory AuthFacts
  imports AuthManager
begin

text \<open>
  Facts on authentication: what the reads return under faults, the effect of a login on the table, when it returns,
  and the decision of the authorization.
\<close>

section \<open>Reads\<close>

definition reads :: "'a auth \<Rightarrow> (auth_db \<Rightarrow> 'a) \<Rightarrow> bool" where
  "reads m f \<longleftrightarrow> (\<forall>w r w'. run_state m w = (r, w') \<longrightarrow>
     w' = w\<lparr>faults := faults w'\<rparr> \<and> (r = Inr (f (adb w)) \<or> isl r) \<and> (faults w = [] \<longrightarrow> r = Inr (f (adb w)) \<and> w' = w))"

lemma readsD:
  assumes "reads m f" "run_state m w = (r, w')"
  shows "w' = w\<lparr>faults := faults w'\<rparr>" "r = Inr (f (adb w)) \<or> isl r" "faults w = [] \<Longrightarrow> r = Inr (f (adb w)) \<and> w' = w"
  using assms by (auto simp: reads_def)

lemma reads_frame:
  assumes "reads m f" "run_state m w = (r, w')"
  shows "adb w' = adb w" "a_now w' = a_now w" "a_draws w' = a_draws w" "a_log w' = a_log w"
    "a_oldUser w' = a_oldUser w" "a_token w' = a_token w"
  by (subst readsD(1) [OF assms]; simp)+

lemma reads_ok:
  assumes "reads m f" "faults w = []"
  shows "run_state m w = (Inr (f (adb w)), w)"
proof -
  obtain r w' where "run_state m w = (r, w')" by fastforce
  with readsD(3) [OF assms(1) this assms(2)] show ?thesis by simp
qed

lemma reads_call: "reads (ext_call (\<lambda>w. (Inr (f (adb w)), w))) f"
  by (auto simp: reads_def split: list.splits fault.splits)

lemma reads_map:
  assumes "reads m f"
  shows "reads (bindE m (\<lambda>x. returnE (g x))) (\<lambda>db. g (f db))"
  unfolding reads_def
proof (intro allI impI)
  fix w r w' assume run: "run_state (bindE m (\<lambda>x. returnE (g x))) w = (r, w')"
  obtain r1 w1 where m: "run_state m w = (r1, w1)" by fastforce
  note d = readsD [OF assms m]
  show "w' = w\<lparr>faults := faults w'\<rparr> \<and> (r = Inr (g (f (adb w))) \<or> isl r) \<and> (faults w = [] \<longrightarrow> r = Inr (g (f (adb w))) \<and> w' = w)"
    using run m d by (cases r1) auto
qed

definition users_of :: "auth_db \<Rightarrow> TUser list" where
  "users_of db = rows (a_users db)"

definition user_rows :: "UserFilter option \<Rightarrow> auth_db \<Rightarrow> TUser list" where
  "user_rows flt db =
     filter (where_user (userFilter2Param ((case flt of None \<Rightarrow> no_user_filter | Some g \<Rightarrow> g)\<lparr>uf_Type := Some UserTypeNormal\<rparr>)))
       (users_of db)"

definition token_rows :: "TokenFilter option \<Rightarrow> auth_db \<Rightarrow> TUser list" where
  "token_rows flt db = filter (where_user (tokenFilter2Param flt)) (users_of db)"

lemma reads_list: "reads (TUserList p) (\<lambda>db. filter (where_user p) (users_of db))"
  unfolding TUserList_def users_of_def by (rule reads_call)

lemma reads_users: "reads (st_FetchUserList flt) (\<lambda>db. map userD2M (user_rows flt db))"
  unfolding st_FetchUserList_def Let_def user_rows_def by (rule reads_map [OF reads_list])

definition first_user :: "UserFilter option \<Rightarrow> auth_db \<Rightarrow> User option" where
  "first_user flt db = (case user_rows flt db of [] \<Rightarrow> None | r # _ \<Rightarrow> Some (userD2M r))"

lemma reads_user: "reads (st_FetchUser flt) (first_user flt)"
proof -
  have "reads (st_FetchUser flt) (\<lambda>db. case map userD2M (user_rows flt db) of [] \<Rightarrow> None | u # _ \<Rightarrow> Some u)"
    unfolding st_FetchUser_def by (rule reads_map [OF reads_users])
  moreover have "(case map userD2M rs of [] \<Rightarrow> None | u # _ \<Rightarrow> Some u) = (case rs of [] \<Rightarrow> None | r # _ \<Rightarrow> Some (userD2M r))" for rs
    by (cases rs) auto
  ultimately show ?thesis by (simp add: first_user_def [abs_def])
qed

lemma reads_tokens: "reads (st_FetchTokens flt) (\<lambda>db. map tokenD2M (token_rows flt db))"
  unfolding st_FetchTokens_def token_rows_def by (rule reads_map [OF reads_list])

lemma user_rows_by_key:
  "set (user_rows (Some (no_user_filter\<lparr>uf_SessionKey := Some k\<rparr>)) db) =
     {r \<in> set (users_of db). tu_Type r = 0 \<and> tu_Ticket r = k}"
  by (auto simp: user_rows_def where_user_def userFilter2Param_def no_user_filter_def no_user_def eq_opt_def in_opt_def)

lemma user_rows_by_name:
  "set (user_rows (Some (no_user_filter\<lparr>uf_Name := Some n\<rparr>)) db) = {r \<in> set (users_of db). tu_Type r = 0 \<and> tu_Name r = n}"
  by (auto simp: user_rows_def where_user_def userFilter2Param_def no_user_filter_def no_user_def eq_opt_def in_opt_def)

lemma token_rows_by_key:
  "set (token_rows (Some (no_token_filter\<lparr>tf_Token := Some k\<rparr>)) db) = {r \<in> set (users_of db). tu_Type r = 1 \<and> tu_Ticket r = k}"
  by (auto simp: token_rows_def where_user_def tokenFilter2Param_def no_token_filter_def no_user_def eq_opt_def in_opt_def)

lemma token_rows_by_name:
  "set (token_rows (Some (no_token_filter\<lparr>tf_Name := Some k\<rparr>)) db) = {r \<in> set (users_of db). tu_Type r = 1 \<and> tu_Name r = k}"
  by (auto simp: token_rows_def where_user_def tokenFilter2Param_def no_token_filter_def no_user_def eq_opt_def in_opt_def)

lemma first_user_Some: "first_user flt db = Some u \<Longrightarrow> \<exists>r\<in>set (user_rows flt db). u = userD2M r"
  by (auto simp: first_user_def split: list.splits)

lemma first_user_None: "first_user flt db = None \<longleftrightarrow> user_rows flt db = []"
  by (auto simp: first_user_def split: list.splits)

lemma first_user_unique:
  assumes "set (user_rows flt db) = {r}"
  shows "first_user flt db = Some (userD2M r)"
  using assms by (cases "user_rows flt db") (auto simp: first_user_def)

section \<open>Writes\<close>

text \<open>An update of a user by its identifier: what it does when it reports success, and that it does nothing else.\<close>

definition set_users :: "TUser list \<Rightarrow> auth_db \<Rightarrow> auth_db" where
  "set_users rs db = db\<lparr>a_users := (a_users db)\<lparr>rows := rs\<rparr>\<rparr>"

definition updated_users :: "auth_deps \<Rightarrow> int \<Rightarrow> UserParam \<Rightarrow> TUser list \<Rightarrow> TUser list" where
  "updated_users dp i param rs = update_where (\<lambda>r. tu_ID r = i) (assign_user dp (userParamM2D param)) rs"

lemma st_UpdateUser_outcome:
  assumes "run_state (st_UpdateUser dp u param) w = (r, w')"
  shows "adb w' = adb w \<and> isl r \<or>
      adb w' = set_users (updated_users dp (us_ID u) param (users_of (adb w))) (adb w) \<and>
      uniq_users (updated_users dp (us_ID u) param (users_of (adb w)))"
    and "a_now w' = a_now w" "a_log w' = a_log w" "a_draws w' = a_draws w" "a_oldUser w' = a_oldUser w" "a_token w' = a_token w"
proof -
  have e: "where_user (no_user\<lparr>pu_ID := Some (us_ID u)\<rparr>) = (\<lambda>r. tu_ID r = us_ID u)"
    by (intro ext) (simp add: where_user_def no_user_def eq_opt_def in_opt_def)
  note defs = st_UpdateUser_def TUserUpdate_def sql_update_def e updated_users_def set_users_def users_of_def
  show "adb w' = adb w \<and> isl r \<or>
      adb w' = set_users (updated_users dp (us_ID u) param (users_of (adb w))) (adb w) \<and>
      uniq_users (updated_users dp (us_ID u) param (users_of (adb w)))"
    using assms by (auto simp: defs split: list.splits fault.splits if_splits)
  show "a_now w' = a_now w" "a_log w' = a_log w" "a_draws w' = a_draws w" "a_oldUser w' = a_oldUser w" "a_token w' = a_token w"
    using assms by (auto simp: defs split: list.splits fault.splits if_splits)
qed

lemma users_of_set [simp]: "users_of (set_users rs db) = rs"
  by (simp add: users_of_def set_users_def)

section \<open>Login\<close>

definition key_free :: "string \<Rightarrow> auth_db \<Rightarrow> bool" where
  "key_free k db \<longleftrightarrow> (\<forall>r\<in>set (users_of db). tu_Type r = 0 \<longrightarrow> tu_Ticket r \<noteq> k)"

lemma key_free_iff: "first_user (Some (no_user_filter\<lparr>uf_SessionKey := Some k\<rparr>)) db = None \<longleftrightarrow> key_free k db"
proof -
  have "user_rows (Some (no_user_filter\<lparr>uf_SessionKey := Some k\<rparr>)) db = [] \<longleftrightarrow>
      set (user_rows (Some (no_user_filter\<lparr>uf_SessionKey := Some k\<rparr>)) db) = {}" by simp
  then show ?thesis unfolding first_user_None user_rows_by_key by (auto simp: key_free_def)
qed

definition session_param :: "string \<Rightarrow> time \<Rightarrow> bool \<Rightarrow> User \<Rightarrow> UserParam" where
  "session_param k now mig u = no_user_param
     \<lparr>ua_SessionKey := Some k, ua_SessionKeyCreateAt := Some now,
      ua_Password := (if mig then Some (us_Password u) else None)\<rparr>"

lemma run_sessionKeyFactory: "run_state (sessionKeyFactory dp) w = (session_key_of dp (a_draws w), w\<lparr>a_draws := a_draws w + 1\<rparr>)"
  by (simp add: sessionKeyFactory_def draw_def)

lemma fresh_session_result:
  assumes "fresh_session dp u mig w = Some (r, w')"
  shows "adb w' = adb w \<and> isl r \<or>
    (\<exists>k n. session_key_of dp n = Inr k \<and> key_free k (adb w) \<and> (isl r \<or> r = Inr (UserVisitor (u\<lparr>us_SessionKey := k\<rparr>))) \<and>
      adb w' = set_users (updated_users dp (us_ID u) (session_param k (a_now w) mig u) (users_of (adb w))) (adb w) \<and>
      uniq_users (updated_users dp (us_ID u) (session_param k (a_now w) mig u) (users_of (adb w))))"
    (is "?Q dp u mig w (r, w')") and "a_now w' = a_now w \<and> a_log w' = a_log w \<and> a_oldUser w' = a_oldUser w \<and> a_token w' = a_token w"
    (is "?F w (r, w')")
proof -
  let ?P = "\<lambda>dp u mig w (r, w'). (adb w' = adb w \<and> isl r \<or>
    (\<exists>k n. session_key_of dp n = Inr k \<and> key_free k (adb w) \<and> (isl r \<or> r = Inr (UserVisitor (u\<lparr>us_SessionKey := k\<rparr>))) \<and>
      adb w' = set_users (updated_users dp (us_ID u) (session_param k (a_now w) mig u) (users_of (adb w))) (adb w) \<and>
      uniq_users (updated_users dp (us_ID u) (session_param k (a_now w) mig u) (users_of (adb w))))) \<and>
    a_now w' = a_now w \<and> a_log w' = a_log w \<and> a_oldUser w' = a_oldUser w \<and> a_token w' = a_token w"
  have "?P dp u mig w (r, w')"
  proof (rule fresh_session.raw_induct [where P = ?P, OF _ assms])
    fix f dp u mig w y
    assume IH: "\<And>dp u mig w y. f dp u mig w = Some y \<Longrightarrow> ?P dp u mig w y"
      and b: "(case run_state (sessionKeyFactory dp) w of
        (Inl e, w1) \<Rightarrow> Some (Inl e, w1)
      | (Inr sessionKey, w1) \<Rightarrow>
          (case run_state (st_FetchUser (Some (no_user_filter\<lparr>uf_SessionKey := Some sessionKey\<rparr>))) w1 of
             (Inl e, w2) \<Rightarrow> Some (Inl e, w2)
           | (Inr (Some user1), w2) \<Rightarrow> f dp u mig w2
           | (Inr None, w2) \<Rightarrow>
               Some (run_state
                 (bindE (st_UpdateUser dp u (no_user_param
                    \<lparr>ua_SessionKey := Some sessionKey, ua_SessionKeyCreateAt := Some (a_now w2),
                     ua_Password := (if mig then Some (us_Password u) else None)\<rparr>)) (\<lambda>_.
                   returnE (UserVisitor (u\<lparr>us_SessionKey := sessionKey\<rparr>)))) w2))) = Some y"
    let ?w1 = "w\<lparr>a_draws := a_draws w + 1\<rparr>"
    show "?P dp u mig w y"
    proof (cases "session_key_of dp (a_draws w)")
      case (Inl e)
      then show ?thesis using b by (auto simp: run_sessionKeyFactory)
    next
      case (Inr k)
      obtain ru w2 where fu: "run_state (st_FetchUser (Some (no_user_filter\<lparr>uf_SessionKey := Some k\<rparr>))) ?w1 = (ru, w2)" by fastforce
      note fr = reads_frame [OF reads_user fu] readsD(2) [OF reads_user fu]
      show ?thesis
      proof (cases ru)
        case (Inl e)
        then show ?thesis using b Inr fu fr by (auto simp: run_sessionKeyFactory)
      next
        case ok: (Inr x)
        then have x: "x = first_user (Some (no_user_filter\<lparr>uf_SessionKey := Some k\<rparr>)) (adb w)" using fr by auto
        show ?thesis
        proof (cases x)
          case (Some u1)
          then have "f dp u mig w2 = Some y" using b Inr fu ok by (simp add: run_sessionKeyFactory)
          from IH [OF this] show ?thesis using fr by (auto split: prod.splits)
        next
          case None
          then have free: "key_free k (adb w)" using x key_free_iff by metis
          let ?m = "st_UpdateUser dp u (session_param k (a_now w) mig u)"
          obtain rr w3 where up: "run_state ?m w2 = (rr, w3)" by fastforce
          note out = st_UpdateUser_outcome [OF up]
          have y: "y = (case rr of Inl e \<Rightarrow> (Inl e, w3) | Inr _ \<Rightarrow> (Inr (UserVisitor (u\<lparr>us_SessionKey := k\<rparr>)), w3))"
            using b Inr fu ok None up fr(2) by (auto simp: run_sessionKeyFactory session_param_def split: sum.splits)
          show ?thesis using y out fr free Inr by (cases rr) auto
        qed
      qed
    qed
  qed
  then show "?Q dp u mig w (r, w')" "?F w (r, w')" by auto
qed

lemma run_hash_password: "run_state (hash_password dp p) w = (HashPassword (ad_crypto dp) (a_draws w) p, w\<lparr>a_draws := a_draws w + 1\<rparr>)"
  by (simp add: hash_password_def draw_def)

text \<open>What a verified password says: of which row it is the password, and the hash that replaces a plaintext one.\<close>

definition verified :: "auth_deps \<Rightarrow> AuthenticateParam \<Rightarrow> TUser \<Rightarrow> User \<Rightarrow> bool \<Rightarrow> bool" where
  "verified dp param row u mig \<longleftrightarrow> tu_Type row = 0 \<and> tu_Name row = ap_Identify param \<and>
     CheckPassword (ad_crypto dp) (tu_Password row) (ap_Extend param) = (True, mig) \<and>
     (if mig then \<exists>n h. HashPassword (ad_crypto dp) n (ap_Extend param) = Inr h \<and> u = (userD2M row)\<lparr>us_Password := h\<rparr>
      else u = userD2M row)"

lemma userD2M_sel [simp]:
  "us_ID (userD2M r) = tu_ID r" "us_Name (userD2M r) = tu_Name r" "us_Type (userD2M r) = tu_Type r"
  "us_Password (userD2M r) = tu_Password r" "us_SessionKey (userD2M r) = tu_Ticket r"
  "us_SessionKeyCreateAt (userD2M r) = tu_TicketCreatedAt r"
  by (simp_all add: userD2M_def Let_def)

lemma verified_id: "verified dp param row u mig \<Longrightarrow> us_ID u = tu_ID row \<and> us_Name u = tu_Name row"
  by (auto simp: verified_def split: if_splits)

lemma verify_password_outcome:
  assumes "run_state (verify_password dp param) w = (r, w1)"
  shows "adb w1 = adb w \<and> a_now w1 = a_now w \<and> a_log w1 = a_log w \<and> a_draws w1 \<in> {a_draws w, a_draws w + 1}"
    and "r = Inr (u, mig) \<Longrightarrow> \<exists>row\<in>set (users_of (adb w)). verified dp param row u mig"
proof -
  let ?flt = "Some (no_user_filter\<lparr>uf_Name := Some (ap_Identify param)\<rparr>)"
  obtain ru w2 where f: "run_state (st_FetchUser ?flt) w = (ru, w2)" by fastforce
  note fr = reads_frame [OF reads_user f] readsD(2) [OF reads_user f]
  show "adb w1 = adb w \<and> a_now w1 = a_now w \<and> a_log w1 = a_log w \<and> a_draws w1 \<in> {a_draws w, a_draws w + 1}"
    using assms f fr
    by (auto simp: verify_password_def run_hash_password Let_def case_prod_unfold split: sum.splits option.splits if_splits)
  show "\<exists>row\<in>set (users_of (adb w)). verified dp param row u mig" if r: "r = Inr (u, mig)"
  proof -
    obtain u0 where u0: "ru = Inr (Some u0)"
      using assms f r by (auto simp: verify_password_def split: sum.splits option.splits)
    then have "first_user ?flt (adb w) = Some u0" using fr by auto
    then obtain row where row: "row \<in> set (users_of (adb w))" "tu_Type row = 0" "tu_Name row = ap_Identify param" "u0 = userD2M row"
      using first_user_Some [of ?flt "adb w" u0] user_rows_by_name by auto
    have "verified dp param row u mig"
      using assms f u0 r row
      by (auto simp: verify_password_def verified_def run_hash_password Let_def case_prod_unfold prod_eq_iff split: sum.splits if_splits)
    with row(1) show ?thesis by blast
  qed
qed

lemma looping_txn_outcome:
  assumes "looping_txn body w = Some (r, w')"
  shows "adb w' = adb w \<and> isl r \<or>
    (\<exists>w1 x w2. w1 = w\<lparr>faults := faults w1\<rparr> \<and> body w1 = Some (Inr x, w2) \<and> adb w' = adb w2 \<and> (isl r \<or> r = Inr x))"
proof -
  obtain r0 w1 where b: "run_state (ext_call (\<lambda>v. (Inr (), v)) :: unit auth) w = (r0, w1)" by fastforce
  then have w1: "w1 = w\<lparr>faults := faults w1\<rparr>" by (auto split: list.splits fault.splits)
  show ?thesis
  proof (cases r0)
    case (Inl e)
    then show ?thesis using assms b w1 by (auto simp: looping_txn_def simp del: run_ext_call) (metis auth_world.select_convs(1) auth_txn.get_faults)
  next
    case (Inr u)
    then obtain y where y: "body w1 = Some y" "run_state (auth_AtomExecute (State (\<lambda>_. y))) w = (r, w')"
      using assms b by (auto simp: looping_txn_def simp del: run_ext_call split: option.splits)
    note t = auth_txn.txn_tables [of "State (\<lambda>_. y)" w] and ok = auth_txn.txn_success [of "State (\<lambda>_. y)" w]
    show ?thesis
    proof (cases r)
      case (Inr x)
      then have "\<exists>v'. y = (Inr x, v') \<and> adb w' = adb v'"
        using ok y(2) unfolding auth_AtomExecute_def by auto
      then show ?thesis using y(1) w1 Inr by blast
    next
      case (Inl e)
      have "adb w' = adb w \<or> (\<exists>x v'. y = (Inr x, v') \<and> adb w' = adb v')"
        using t y(2) unfolding auth_AtomExecute_def by auto
      then show ?thesis using y(1) w1 Inl by auto
    qed
  qed
qed

text \<open>The effect of a login, whatever fails.\<close>

definition logged_in :: "auth_deps \<Rightarrow> AuthenticateParam \<Rightarrow> TUser \<Rightarrow> User \<Rightarrow> string \<Rightarrow> auth_world \<Rightarrow> auth_db \<Rightarrow> bool" where
  "logged_in dp param row u k w db \<longleftrightarrow>
     (\<exists>mig n. verified dp param row u mig \<and> session_key_of dp n = Inr k \<and> key_free k (adb w) \<and>
       db = set_users (updated_users dp (tu_ID row) (session_param k (a_now w) mig u) (users_of (adb w))) (adb w) \<and>
       uniq_users (updated_users dp (tu_ID row) (session_param k (a_now w) mig u) (users_of (adb w))))"

lemma login_effect:
  assumes "authTypePassword dp param w = Some (r, w')"
  shows "adb w' = adb w \<and> isl r \<or>
    (\<exists>row\<in>set (users_of (adb w)). \<exists>u k. logged_in dp param row u k w (adb w') \<and>
       (isl r \<or> r = Inr (UserVisitor (u\<lparr>us_SessionKey := k\<rparr>))))"
proof -
  have body: "\<exists>row\<in>set (users_of (adb w1)). \<exists>u k. logged_in dp param row u k w1 (adb w2) \<and> x = UserVisitor (u\<lparr>us_SessionKey := k\<rparr>)"
    if pb: "password_body dp param w1 = Some (Inr x, w2)" for w1 x w2
  proof -
    obtain rv wv where v: "run_state (verify_password dp param) w1 = (rv, wv)" by fastforce
    then obtain u mig where u: "rv = Inr (u, mig)" and fs: "fresh_session dp u mig wv = Some (Inr x, w2)"
      using pb by (cases rv) (auto simp: password_body_def)
    obtain row where row: "row \<in> set (users_of (adb w1))" "verified dp param row u mig"
      using verify_password_outcome(2) [OF v u] by blast
    have same: "adb wv = adb w1" "a_now wv = a_now w1" using verify_password_outcome(1) [OF v] by auto
    show ?thesis
      using fresh_session_result(1) [OF fs] row same verified_id [OF row(2)]
      by (intro bexI [OF _ row(1)]) (auto simp: logged_in_def)
  qed
  show ?thesis
  proof (cases "adb w' = adb w \<and> isl r")
    case False
    then obtain w1 x w2 where w1: "w1 = w\<lparr>faults := faults w1\<rparr>" and b: "password_body dp param w1 = Some (Inr x, w2)"
      and w': "adb w' = adb w2" and r: "isl r \<or> r = Inr x"
      using looping_txn_outcome [OF assms [unfolded authTypePassword_def]] by blast
    have same: "adb w1 = adb w" "a_now w1 = a_now w" by (subst w1, simp)+
    obtain row u k where "row \<in> set (users_of (adb w1))" "logged_in dp param row u k w1 (adb w2)"
      and x: "x = UserVisitor (u\<lparr>us_SessionKey := k\<rparr>)" using body [OF b] by blast
    then have "row \<in> set (users_of (adb w))" "logged_in dp param row u k w (adb w')"
      using same w' by (simp_all add: logged_in_def)
    then show ?thesis using r x by blast
  qed blast
qed

section \<open>A login returns\<close>

definition usable_draw :: "auth_deps \<Rightarrow> auth_db \<Rightarrow> nat \<Rightarrow> bool" where
  "usable_draw dp db n = (case session_key_of dp n of Inl _ \<Rightarrow> True | Inr k \<Rightarrow> key_free k db)"

lemma fresh_session_returns:
  assumes "usable_draw dp (adb w) (a_draws w + d)"
  shows "\<exists>r. fresh_session dp u mig w = Some r"
  using assms
proof (induction d arbitrary: w)
  case (0 w)
  show ?case
  proof (cases "session_key_of dp (a_draws w)")
    case (Inl e)
    then show ?thesis by (simp add: fresh_session.simps [of dp u mig w] run_sessionKeyFactory)
  next
    case (Inr k)
    let ?w1 = "w\<lparr>a_draws := a_draws w + 1\<rparr>"
    obtain ru w2 where f: "run_state (st_FetchUser (Some (no_user_filter\<lparr>uf_SessionKey := Some k\<rparr>))) ?w1 = (ru, w2)" by fastforce
    have "ru = Inr None \<or> isl ru"
      using readsD(2) [OF reads_user f] 0 Inr key_free_iff by (auto simp: usable_draw_def)
    then show ?thesis
      using Inr f by (auto simp: fresh_session.simps [of dp u mig w] run_sessionKeyFactory isl_def)
  qed
next
  case (Suc d w)
  show ?case
  proof (cases "session_key_of dp (a_draws w)")
    case (Inl e)
    then show ?thesis by (simp add: fresh_session.simps [of dp u mig w] run_sessionKeyFactory)
  next
    case (Inr k)
    let ?w1 = "w\<lparr>a_draws := a_draws w + 1\<rparr>"
    obtain ru w2 where f: "run_state (st_FetchUser (Some (no_user_filter\<lparr>uf_SessionKey := Some k\<rparr>))) ?w1 = (ru, w2)" by fastforce
    note fr = reads_frame [OF reads_user f]
    have "\<exists>r. fresh_session dp u mig w2 = Some r" using Suc.IH [of w2] Suc.prems fr by simp
    then show ?thesis
      using Inr f by (auto simp: fresh_session.simps [of dp u mig w] run_sessionKeyFactory split: sum.splits option.splits)
  qed
qed

lemma distinct_draws_usable:
  assumes "distinct (map (session_key_of dp) [d..<d + length (users_of db) + 1])"
  shows "\<exists>n\<in>{d..<d + length (users_of db) + 1}. usable_draw dp db n"
proof (rule ccontr)
  let ?N = "{d..<d + length (users_of db) + 1}"
  assume no: "\<not> ?thesis"
  have "session_key_of dp n \<in> (Inr \<circ> tu_Ticket) ` set (users_of db)" if "n \<in> ?N" for n
    using no that by (fastforce simp: usable_draw_def key_free_def split: sum.splits)
  then have "session_key_of dp ` ?N \<subseteq> (Inr \<circ> tu_Ticket) ` set (users_of db)" by blast
  then have "card (session_key_of dp ` ?N) \<le> length (users_of db)"
    by (meson List.finite_set card_image_le card_length card_mono finite_imageI le_trans)
  moreover have "inj_on (session_key_of dp) ?N" using assms by (simp add: distinct_map del: upt_Suc)
  then have "card (session_key_of dp ` ?N) = length (users_of db) + 1" by (simp add: card_image)
  ultimately show False by simp
qed

lemma login_returns:
  assumes "distinct (map (session_key_of dp) [a_draws w..<a_draws w + length (users_of (adb w)) + 2])"
  shows "\<exists>r. authTypePassword dp param w = Some r"
proof -
  let ?l = "length (users_of (adb w))"
  have u: "\<exists>n\<in>{d..<d + ?l + 1}. usable_draw dp (adb w) n" if "d \<in> {a_draws w, a_draws w + 1}" for d
  proof (rule distinct_draws_usable)
    have "{d..<d + ?l + 1} \<subseteq> {a_draws w..<a_draws w + ?l + 2}" using that by auto
    with assms show "distinct (map (session_key_of dp) [d..<d + ?l + 1])"
      unfolding distinct_map by (simp del: upt_Suc add: inj_on_subset)
  qed
  have "\<exists>y. password_body dp param w1 = Some y" if w1: "w1 = w\<lparr>faults := fs\<rparr>" for w1 fs
  proof -
    obtain rv wv where v: "run_state (verify_password dp param) w1 = (rv, wv)" by fastforce
    have same: "adb wv = adb w" "a_draws wv \<in> {a_draws w, a_draws w + 1}"
      using verify_password_outcome(1) [OF v] w1 by auto
    obtain n where "n \<ge> a_draws wv" "usable_draw dp (adb wv) n" using u [OF same(2)] same(1) by auto
    then have "\<exists>r. fresh_session dp x y wv = Some r" for x y
      using fresh_session_returns [of dp wv "n - a_draws wv"] by simp
    then show ?thesis using v by (auto simp: password_body_def split: sum.splits)
  qed
  note b = this
  obtain r0 w1 where beg: "run_state (ext_call (\<lambda>v. (Inr (), v)) :: unit auth) w = (r0, w1)" by fastforce
  then have "w1 = w\<lparr>faults := faults w1\<rparr>" by (auto split: list.splits fault.splits)
  from b [OF this] show ?thesis
    using beg by (auto simp: authTypePassword_def looping_txn_def simp del: run_ext_call split: sum.splits)
qed

end
