(* ===== verification/AuthReach.thy ===== *)
theory AuthReach
  imports AuthFacts
begin

text \<open>
  Histories of the calls that write the tables of authentication, and what they leave: keys that identify one
  holder, and a log without secrets.
\<close>

section \<open>The invariant\<close>

text \<open>
  A session key that is not empty is one of one user, a token one of one token; a user without a session has one of the two
  times that the schema and the code store then.
\<close>

definition keys_ok :: "auth_deps \<Rightarrow> auth_db \<Rightarrow> bool" where
  "keys_ok dp db \<longleftrightarrow> uniq_users (users_of db) \<and>
     (\<forall>r\<in>set (users_of db). tu_Type r \<in> {0, 1} \<and>
        (tu_Type r = 0 \<and> tu_Ticket r = [] \<longrightarrow> tu_TicketCreatedAt r \<in> {defaultTicketAt, ad_time dp clearedAt})) \<and>
     (\<forall>r\<in>set (users_of db). \<forall>s\<in>set (users_of db).
        tu_Type r = tu_Type s \<and> tu_Ticket r = tu_Ticket s \<and> (tu_Type r = 0 \<longrightarrow> tu_Ticket r \<noteq> []) \<longrightarrow> r = s) \<and>
     distinct (map (\<lambda>b. (up_UserID b, up_ProductID b)) (a_user_products db))"

abbreviation (input) keeps_keys :: "auth_deps \<Rightarrow> 'a auth \<Rightarrow> bool" where
  "keeps_keys dp \<equiv> keeps (\<lambda>w. keys_ok dp (adb w))"

lemma keys_fault_free: "fault_free (\<lambda>w. keys_ok dp (adb w))"
  by (simp add: fault_free_def)

lemma keys_txn [keeps_rules]: "keeps_keys dp body \<Longrightarrow> keeps_keys dp (auth_AtomExecute body)"
  unfolding auth_AtomExecute_def by (rule auth_txn.keeps_txn)

section \<open>Reads before writes\<close>

lemma reads_only_reads: "reads m f \<Longrightarrow> reads_only m"
  unfolding reads_only_def by (metis readsD(1) surj_pair snd_conv)

lemma keeps_by_reading: "reads m f \<Longrightarrow> fault_free I \<Longrightarrow> keeps I m"
  by (rule keeps_reads_only [OF reads_only_reads])

text \<open>The continuation may rely on what was read being what the tables hold.\<close>

lemma keeps_after_read:
  assumes "reads m f" and I: "\<And>w fs. I (w\<lparr>faults := fs\<rparr>) = I w"
    and g: "\<And>x. hoare (\<lambda>w. I w \<and> f (adb w) = x) (g x) (\<lambda>_. I)"
  shows "keeps I (bindE m g)"
proof (rule keepsI)
  fix w assume "I w"
  obtain r w' where m: "run_state m w = (r, w')" by fastforce
  have w': "I w'" "adb w' = adb w" using readsD(1) [OF assms(1) m] I [where w = w and fs = "faults w'"] \<open>I w\<close> reads_frame(1) [OF assms(1) m] by simp_all
  show "I (snd (run_state (bindE m g) w))"
  proof (cases r)
    case (Inr x)
    then have "f (adb w') = x" using readsD(2) [OF assms(1) m] w'(2) by simp
    then show ?thesis using hoareD [OF g, of w' x] m Inr w'(1) by (cases "run_state (g x) w'") auto
  qed (use m w' in simp)
qed

section \<open>Writes of users\<close>

lemma assign_sel:
  "tu_ID (assign_user dp (userParamM2D p) r) = tu_ID r" "tu_Type (assign_user dp (userParamM2D p) r) = 0"
  "tu_Ticket (assign_user dp (userParamM2D p) r) = opt_set (ua_SessionKey p) (tu_Ticket r)"
  "tu_TicketCreatedAt (assign_user dp (userParamM2D p) r) = opt_set (map_option (ad_time dp) (ua_SessionKeyCreateAt p)) (tu_TicketCreatedAt r)"
  "tu_Password (assign_user dp (userParamM2D p) r) = opt_set (ua_Password p) (tu_Password r)"
  "tu_Name (assign_user dp (userParamM2D p) r) = opt_set (ua_Name p) (tu_Name r)"
  "tu_Scopes (assign_user dp (userParamM2D p) r) = opt_set (map_option (\<lambda>ss. Join ss CHR '','') (ua_Scopes p)) (tu_Scopes r)"
  by (simp_all add: assign_user_def userParamM2D_def no_user_def opt_set_def)

text \<open>What an update may do to the session of a user: leave it, clear it, or give it a key that no user has.\<close>

definition session_safe :: "auth_db \<Rightarrow> UserParam \<Rightarrow> bool" where
  "session_safe db p \<longleftrightarrow>
     ua_SessionKey p = None \<and> ua_SessionKeyCreateAt p = None \<or>
     ua_SessionKey p = Some [] \<and> ua_SessionKeyCreateAt p = Some clearedAt \<or>
     (\<exists>k. ua_SessionKey p = Some k \<and> k \<noteq> [] \<and> key_free k db)"

definition is_user_id :: "int \<Rightarrow> auth_db \<Rightarrow> bool" where
  "is_user_id i db \<longleftrightarrow> (\<forall>r\<in>set (users_of db). tu_ID r = i \<longrightarrow> tu_Type r = 0)"

lemma uniq_ids: "uniq_users rs \<Longrightarrow> r \<in> set rs \<Longrightarrow> s \<in> set rs \<Longrightarrow> tu_ID r = tu_ID s \<Longrightarrow> r = s"
  by (auto simp: uniq_users_def distinct_map dest: inj_onD)

lemma bindings_set_users [simp]: "a_user_products (set_users rs db) = a_user_products db"
  by (simp add: set_users_def)

lemma keys_ok_update:
  assumes ok: "keys_ok dp db" and s: "session_safe db p" and i: "is_user_id i db"
    and u: "uniq_users (updated_users dp i p (users_of db))"
  shows "keys_ok dp (set_users (updated_users dp i p (users_of db)) db)"
proof -
  let ?f = "\<lambda>r. if tu_ID r = i then assign_user dp (userParamM2D p) r else r"
  have rows: "\<exists>r0\<in>set (users_of db). r = ?f r0" if "r \<in> set (updated_users dp i p (users_of db))" for r
    using that by (auto simp: updated_users_def update_where_def)
  have ty: "tu_Type (?f r0) = tu_Type r0" "tu_ID (?f r0) = tu_ID r0" if "r0 \<in> set (users_of db)" for r0
    using i that by (simp_all add: is_user_id_def assign_sel)
  have one: "?f r0 = ?f s0"
    if "r0 \<in> set (users_of db)" "s0 \<in> set (users_of db)" "tu_Type r0 = tu_Type s0" "tu_Ticket (?f r0) = tu_Ticket (?f s0)"
      "tu_Type r0 = 0 \<longrightarrow> tu_Ticket (?f r0) \<noteq> []" for r0 s0
  proof (cases "tu_ID r0 = tu_ID s0")
    case True
    then show ?thesis using uniq_ids that ok by (auto simp: keys_ok_def)
  next
    case False
    have "tu_Ticket r0 = tu_Ticket s0 \<and> (tu_Type r0 = 0 \<longrightarrow> tu_Ticket r0 \<noteq> [])"
      using that s i False by (auto simp: session_safe_def assign_sel opt_set_def key_free_def is_user_id_def split: if_splits)
    then show ?thesis using that ok False unfolding keys_ok_def by blast
  qed
  have at: "tu_TicketCreatedAt (?f r0) \<in> {defaultTicketAt, ad_time dp clearedAt}"
    if "r0 \<in> set (users_of db)" "tu_Type r0 = 0" "tu_Ticket (?f r0) = []" for r0
    using that s ok by (auto simp: session_safe_def assign_sel opt_set_def keys_ok_def split: if_splits)
  show ?thesis
    unfolding keys_ok_def users_of_set
  proof (intro conjI ballI impI)
    fix r s
    assume m: "r \<in> set (updated_users dp i p (users_of db))" "s \<in> set (updated_users dp i p (users_of db))"
      and eq: "tu_Type r = tu_Type s \<and> tu_Ticket r = tu_Ticket s \<and> (tu_Type r = 0 \<longrightarrow> tu_Ticket r \<noteq> [])"
    obtain r0 s0 where z: "r0 \<in> set (users_of db)" "r = ?f r0" "s0 \<in> set (users_of db)" "s = ?f s0" using rows m by blast
    have "tu_Type r0 = tu_Type s0" "tu_Type r0 = 0 \<longrightarrow> tu_Ticket (?f r0) \<noteq> []" "tu_Ticket (?f r0) = tu_Ticket (?f s0)"
      using eq unfolding z(2,4) ty(1) [OF z(1)] ty(1) [OF z(3)] by blast+
    then show "r = s" using one [OF z(1,3)] z(2,4) by simp
  next
    fix r assume "r \<in> set (updated_users dp i p (users_of db))"
    then obtain r0 where r0: "r0 \<in> set (users_of db)" "r = ?f r0" using rows by blast
    have t: "tu_Type r = tu_Type r0" using ty(1) [OF r0(1)] unfolding r0(2) .
    then show "tu_Type r \<in> {0, 1}" using r0(1) ok unfolding keys_ok_def by simp
    show "tu_TicketCreatedAt r \<in> {defaultTicketAt, ad_time dp clearedAt}" if "tu_Type r = 0 \<and> tu_Ticket r = []"
      using that at [OF r0(1)] t unfolding r0(2) by simp
  qed (use u ok in \<open>simp_all add: keys_ok_def\<close>)
qed

lemma update_keeps:
  "hoare (\<lambda>w. keys_ok dp (adb w) \<and> session_safe (adb w) p \<and> is_user_id (us_ID u) (adb w)) (st_UpdateUser dp u p) (\<lambda>_ w. keys_ok dp (adb w))"
proof (rule hoareI)
  fix w :: auth_world assume "keys_ok dp (adb w) \<and> session_safe (adb w) p \<and> is_user_id (us_ID u) (adb w)"
  moreover obtain r w' where "run_state (st_UpdateUser dp u p) w = (r, w')" by fastforce
  ultimately show "keys_ok dp (adb (snd (run_state (st_UpdateUser dp u p) w)))"
    using st_UpdateUser_outcome(1) [of dp u p w r w'] keys_ok_update [of dp "adb w" p "us_ID u"] by auto
qed

lemma found_is_user:
  assumes "uniq_users (users_of db)" "first_user flt db = Some u"
  shows "is_user_id (us_ID u) db"
proof -
  obtain r where r: "r \<in> set (user_rows flt db)" "u = userD2M r" using first_user_Some [OF assms(2)] by blast
  then have "r \<in> set (users_of db)" "tu_Type r = 0"
    by (auto simp: user_rows_def where_user_def userFilter2Param_def eq_opt_def no_user_def split: option.splits)
  then show ?thesis using uniq_ids [OF assms(1)] r(2) by (auto simp: is_user_id_def)
qed

text \<open>New rows: a user without a session, a token with a value that no token has.\<close>

lemma keys_ok_insert:
  assumes "keys_ok dp db" "uniq_users (users_of db @ [r])" "tu_Type r = 0 \<and> tu_Ticket r = [] \<and> tu_TicketCreatedAt r = defaultTicketAt \<or>
    tu_Type r = 1 \<and> (\<forall>s\<in>set (users_of db). tu_Type s = 1 \<longrightarrow> tu_Ticket s \<noteq> tu_Ticket r)"
  shows "keys_ok dp (db\<lparr>a_users := (a_users db)\<lparr>rows := users_of db @ [r], next_id := n\<rparr>\<rparr>)"
  using assms by (auto simp: keys_ok_def users_of_def)

lemma create_keeps:
  "hoare (\<lambda>w. keys_ok dp (adb w) \<and> (pu_Type p = Some 0 \<and> pu_Ticket p = None \<and> pu_TicketCreatedAt p = None \<or>
      pu_Type p = Some 1 \<and> (\<exists>k. pu_Ticket p = Some k \<and> (\<forall>s\<in>set (users_of (adb w)). tu_Type s = 1 \<longrightarrow> tu_Ticket s \<noteq> k))))
    (TUserCreate dp p) (\<lambda>_ w. keys_ok dp (adb w))"
  (is "hoare ?P _ _")
proof -
  let ?f = "\<lambda>w. let d = (if pu_CreatedAt p = None then p\<lparr>pu_CreatedAt := Some (a_now w)\<rparr> else p); t = a_users (adb w)
     in if pu_Name d = None then (Inl constraint_violated, w)
        else case sql_insert uniq_users (\<lambda>i. assign_user dp d
               \<lparr>tu_ID = i, tu_Name = [], tu_Type = 0, tu_Password = [], tu_Ticket = [],
                tu_TicketCreatedAt = defaultTicketAt, tu_Scopes = [], tu_CreatedAt = 0,
                tu_UpdatedAt = ad_time dp (a_now w)\<rparr>) t of
            (Inl e, _) \<Rightarrow> (Inl e, w)
          | (Inr i, t') \<Rightarrow> (Inr (), w\<lparr>adb := (adb w)\<lparr>a_users := t'\<rparr>\<rparr>)"
  have key: "keys_ok dp (adb (snd (?f w)))" if P: "?P w" for w :: auth_world
  proof -
    let ?r = "assign_user dp (if pu_CreatedAt p = None then p\<lparr>pu_CreatedAt := Some (a_now w)\<rparr> else p)
       \<lparr>tu_ID = next_id (a_users (adb w)), tu_Name = [], tu_Type = 0, tu_Password = [], tu_Ticket = [],
        tu_TicketCreatedAt = defaultTicketAt, tu_Scopes = [], tu_CreatedAt = 0, tu_UpdatedAt = ad_time dp (a_now w)\<rparr>"
    have "tu_Type ?r = 0 \<and> tu_Ticket ?r = [] \<and> tu_TicketCreatedAt ?r = defaultTicketAt \<or>
      tu_Type ?r = 1 \<and> (\<forall>s\<in>set (users_of (adb w)). tu_Type s = 1 \<longrightarrow> tu_Ticket s \<noteq> tu_Ticket ?r)"
      using P by (auto simp: assign_user_def opt_set_def)
    from keys_ok_insert [OF _ _ this] P show ?thesis by (simp add: Let_def sql_insert_def users_of_def)
  qed
  then show ?thesis
    unfolding TUserCreate_def by (intro hoare_ext_call) simp_all
qed

section \<open>The operations keep the keys\<close>

lemma keys_frame: "(\<And>w. I w \<Longrightarrow> adb (g w) = adb w) \<Longrightarrow> (\<And>w. I w = keys_ok dp (adb w)) \<Longrightarrow> keeps I (modifyE g)"
  by (intro keeps_modifyE) simp

lemma record_keeps [keeps_rules]:
  "keeps_keys dp' (recordAuthOperation dp a t i n pid b c e)" "keeps_keys dp' (recordUserOperation dp a i n pid b c e)"
  "keeps_keys dp' (recordTokenOperation dp a i n pid b c e)" "keeps_keys dp' (recordUserProductBinding dp a u q e)"
  by (simp_all add: recordAuthOperation_def recordUserOperation_def recordTokenOperation_def recordUserProductBinding_def keeps_modifyE)

lemma variable_keeps [keeps_rules]: "keeps_keys dp (set_oldUser u)" "keeps_keys dp (set_token t)"
  by (simp_all add: set_oldUser_def set_token_def keeps_modifyE)

lemma draw_keeps [keeps_rules]: "keeps_keys dp (sessionKeyFactory dp')" "keeps_keys dp (hash_password dp' p)"
  by (auto simp: keeps_def hoare_def sessionKeyFactory_def hash_password_def draw_def)

lemma logged_keeps [keeps_rules]: "keeps I body \<Longrightarrow> (\<And>r w. keeps I (rec r w)) \<Longrightarrow> keeps I (logged body rec)"
  unfolding logged_def by (intro keeps_rules)

lemma with_oldUser_keeps [keeps_rules]: "keeps_keys dp body \<Longrightarrow> keeps_keys dp (with_oldUser body)"
  unfolding with_oldUser_def by (intro keeps_rules)

lemma reads_keep [keeps_rules]:
  "keeps_keys dp (st_FetchUser flt)" "keeps_keys dp (st_FetchUserList flt)" "keeps_keys dp (st_FetchTokens tf)"
  by (rule keeps_by_reading [OF _ keys_fault_free], rule reads_user reads_users reads_tokens)+

lemma product_reads_keep [keeps_rules]:
  "keeps_keys dp (TUserProductOne p)" "keeps_keys dp (TUserProductList p)" "keeps_keys dp (TProductList q)"
  by (simp_all add: TUserProductOne_def TUserProductList_def TProductList_def keeps_ext_call [OF keys_fault_free])

lemma binding_writes_keep [keeps_rules]:
  "keeps_keys dp (TUserProductDelete p)" "keeps_keys dp (TUserProductCreate dp' i j)"
proof -
  show "keeps_keys dp (TUserProductDelete p)"
    unfolding TUserProductDelete_def by (rule keeps_ext_call [OF keys_fault_free]) (auto simp: keys_ok_def users_of_def distinct_map_filter)
  show "keeps_keys dp (TUserProductCreate dp' i j)"
    unfolding TUserProductCreate_def
    by (rule keeps_ext_call [OF keys_fault_free]) (auto simp: keys_ok_def users_of_def Let_def list_ex_iff)
qed

lemma delete_keeps [keeps_rules]: "keeps_keys dp (TUserDelete p)"
  unfolding TUserDelete_def
  by (rule keeps_ext_call [OF keys_fault_free])
    (auto simp: keys_ok_def users_of_def sql_delete_def uniq_users_def distinct_map_filter)

lemma product_writes_keep [keeps_rules]: "keeps_keys dp (TProductCreate dp' p)" "keeps_keys dp (TProductUpdate dp' p q)"
proof -
  have e: "keys_ok dp (d\<lparr>a_products := t\<rparr>) = keys_ok dp d" for d t by (simp add: keys_ok_def users_of_def)
  show "keeps_keys dp (TProductCreate dp' p)" "keeps_keys dp (TProductUpdate dp' p q)"
    unfolding TProductCreate_def TProductUpdate_def
    by (rule keeps_ext_call [OF keys_fault_free]; auto simp: Let_def e split: prod.splits sum.splits)+
qed

text \<open>An update of a user that was read before, as every method that updates one does.\<close>

lemma update_found_keeps:
  assumes "\<And>db. session_safe db p"
  shows "hoare (\<lambda>w. keys_ok dp (adb w) \<and> first_user flt (adb w) = Some u) (st_UpdateUser dp u p) (\<lambda>_ w. keys_ok dp (adb w))"
proof (rule hoareI)
  fix w :: auth_world assume w: "keys_ok dp (adb w) \<and> first_user flt (adb w) = Some u"
  then have "uniq_users (users_of (adb w))" by (simp add: keys_ok_def)
  then have "keys_ok dp (adb w) \<and> session_safe (adb w) p \<and> is_user_id (us_ID u) (adb w)"
    using w assms found_is_user by blast
  then show "keys_ok dp (adb (snd (run_state (st_UpdateUser dp u p) w)))"
    using update_keeps [of dp p u] unfolding hoare_def by (auto split: prod.splits)
qed

lemma reads_txn:
  assumes "reads m f"
  shows "reads (auth_AtomExecute m) f"
  unfolding reads_def
proof (intro allI impI)
  fix w r w' assume run: "run_state (auth_AtomExecute m) w = (r, w')"
  let ?beg = "ext_call (\<lambda>v. (Inr (), v)) :: unit auth"
  obtain r1 w1 where b: "run_state ?beg w = (r1, w1)" by fastforce
  then have w1: "w1 = w\<lparr>faults := faults w1\<rparr>" "faults w = [] \<longrightarrow> r1 = Inr () \<and> w1 = w"
    by (auto split: list.splits fault.splits)
  obtain r2 w2 where m: "run_state m w1 = (r2, w2)" by fastforce
  note d = readsD [OF assms m]
  have a: "adb w1 = adb w" by (subst w1(1)) simp
  have "adb w2 = adb w1" by (rule reads_frame(1) [OF assms m])
  then have a2: "w2\<lparr>adb := adb w1\<rparr> = w2" "adb w2 = adb w1" by (metis auth_txn.put_get, simp)
  have w2: "w2 = w\<lparr>faults := faults w2\<rparr>" by (subst d(1), subst (1) w1(1)) simp
  show "w' = w\<lparr>faults := faults w'\<rparr> \<and> (r = Inr (f (adb w)) \<or> isl r) \<and> (faults w = [] \<longrightarrow> r = Inr (f (adb w)) \<and> w' = w)"
  proof (cases r1)
    case (Inl e)
    then have "w' = w1" "isl r" using run b by (auto simp: auth_AtomExecute_def RDBTxnExecute_def simp del: run_ext_call)
    then show ?thesis using w1 Inl by auto
  next
    case ok1: (Inr u)
    show ?thesis
    proof (cases r2)
      case (Inl e)
      then have "w' = w2" "isl r"
        using run b m ok1 a2 by (auto simp: auth_AtomExecute_def RDBTxnExecute_def simp del: run_ext_call)
      then show ?thesis using w2 w1(2) d(3) Inl by auto
    next
      case (Inr x)
      let ?com = "ext_call (\<lambda>v. (Inr (), v\<lparr>adb := adb w2\<rparr>)) :: unit auth"
      obtain r3 w3 where c: "run_state ?com w2 = (r3, w3)" by fastforce
      have w3: "w3 = w2\<lparr>faults := faults w3\<rparr>" "faults w2 = [] \<longrightarrow> r3 = Inr () \<and> w3 = w2"
        using c by (auto split: list.splits fault.splits)
      have res: "w' = w3 \<and> (r = Inr x \<or> isl r) \<and> (r3 = Inr () \<longrightarrow> r = Inr x)"
        using run b m ok1 Inr a2 c by (cases r3) (auto simp: auth_AtomExecute_def RDBTxnExecute_def simp del: run_ext_call)
      have "w3 = w\<lparr>faults := faults w3\<rparr>" by (subst w3(1), subst (1) w2) simp
      moreover have "x = f (adb w)" using d(2) Inr a by simp
      moreover have "faults w = [] \<longrightarrow> r3 = Inr () \<and> w3 = w" using w1(2) d(3) w3(2) by auto
      ultimately show ?thesis using res by auto
    qed
  qed
qed

section \<open>Methods\<close>

lemma safe_params:
  "session_safe db cleared_session" "session_safe db (cleared_session\<lparr>ua_Password := h\<rparr>)"
  "session_safe db (no_user_param\<lparr>ua_Scopes := ss\<rparr>)"
  by (simp_all add: session_safe_def cleared_session_def no_user_param_def)

lemma keeps_first_user: "(\<And>w. adb (g w) = adb w) \<Longrightarrow> keeps (\<lambda>w. keys_ok dp (adb w) \<and> first_user flt (adb w) = x) (modifyE g)"
  by (rule keeps_modifyE) simp

lemma updateUser_keeps:
  assumes "\<And>db. session_safe db p"
  shows "keeps_keys dp (bindE (st_FetchUser flt) (\<lambda>user. case user of None \<Rightarrow> throwE e | Some u \<Rightarrow>
     bindE (set_oldUser (Some u)) (\<lambda>_. bindE (lift_err (chk u)) (\<lambda>_. st_UpdateUser dp u p))))"
proof (rule keeps_after_read [OF reads_user])
  fix x
  show "hoare (\<lambda>w. keys_ok dp (adb w) \<and> first_user flt (adb w) = x)
     (case x of None \<Rightarrow> throwE e | Some u \<Rightarrow>
       bindE (set_oldUser (Some u)) (\<lambda>_. bindE (lift_err (chk u)) (\<lambda>_. st_UpdateUser dp u p)))
     (\<lambda>_ w. keys_ok dp (adb w))"
  proof (cases x)
    case (Some u)
    have "hoare (\<lambda>w. keys_ok dp (adb w) \<and> first_user flt (adb w) = Some u)
       (bindE (set_oldUser (Some u)) (\<lambda>_. bindE (lift_err (chk u)) (\<lambda>_. st_UpdateUser dp u p))) (\<lambda>_ w. keys_ok dp (adb w))"
    proof (rule hoare_keeps_bindE)
      show "keeps (\<lambda>w. keys_ok dp (adb w) \<and> first_user flt (adb w) = Some u) (set_oldUser (Some u))"
        unfolding set_oldUser_def by (rule keeps_first_user) simp
      show "hoare (\<lambda>w. keys_ok dp (adb w) \<and> first_user flt (adb w) = Some u)
          (bindE (lift_err (chk u)) (\<lambda>_. st_UpdateUser dp u p)) (\<lambda>_ w. keys_ok dp (adb w))"
        by (rule hoare_lift_err_bindE) (use update_found_keeps [OF assms] in auto)
    qed simp
    with Some show ?thesis by simp
  qed (auto intro!: hoare_pure)
qed simp

lemma DestroySessionKey_keeps: "keeps_keys dp (DestroySessionKey dp k)"
proof -
  have eq: "bindE (lift_err (Inr ())) (\<lambda>_. m) = m" for m :: "unit auth" by (simp add: bindE_def lift_err_def)
  have u: "keeps_keys dp (bindE (st_FetchUser flt) (\<lambda>user. case user of None \<Rightarrow> throwE e | Some u \<Rightarrow>
      bindE (set_oldUser (Some u)) (\<lambda>_. st_UpdateUser dp u cleared_session)))" for flt e
    using updateUser_keeps [OF safe_params(1), where chk = "\<lambda>_. Inr ()" and dp = dp] unfolding eq .
  show ?thesis
    unfolding DestroySessionKey_def by (intro logged_keeps with_oldUser_keeps record_keeps u)
qed

lemma updateUser_op_keeps: "(\<And>db. session_safe db p) \<Longrightarrow> keeps_keys dp (updateUser dp flt chk p)"
  unfolding updateUser_def by (intro keeps_rules updateUser_keeps)

lemma UpdateUserPassword_keeps: "keeps_keys dp (UpdateUserPassword dp d)"
  unfolding UpdateUserPassword_def Let_def by (intro keeps_rules updateUser_op_keeps safe_params)

lemma userUpdatePassword_keeps: "keeps_keys dp (userUpdatePasswordActionProcess dp ctx n old new)"
  unfolding userUpdatePasswordActionProcess_def by (intro keeps_rules UpdateUserPassword_keeps)

lemma create_user_keeps:
  assumes "ua_SessionKey p = None" "ua_SessionKeyCreateAt p = None"
  shows "keeps_keys dp (st_CreateUser dp p)"
proof (rule keepsI)
  fix w :: auth_world assume "keys_ok dp (adb w)"
  then show "keys_ok dp (adb (snd (run_state (st_CreateUser dp p) w)))"
    using assms hoareD_sel [OF create_keeps, where s = w] unfolding st_CreateUser_def
    by (simp add: userParamM2D_def no_user_def)
qed

lemma userCreate_keeps: "keeps_keys dp (userCreateActionProcess dp n pw role)"
proof -
  have "keeps_keys dp (CreateUser dp p)" if p: "ua_SessionKey p = None" "ua_SessionKeyCreateAt p = None" for p
    unfolding CreateUser_def
  proof (rule keeps_bindE_result [where P = "\<lambda>q. ua_SessionKey q = None \<and> ua_SessionKeyCreateAt q = None"])
    show "hoare (\<lambda>w. keys_ok dp (adb w)) (case ua_Password p of None \<Rightarrow> returnE p | Some password \<Rightarrow>
           bindE (lift_err (passwordCheck password)) (\<lambda>_.
           bindE (hash_password dp password) (\<lambda>hashed. returnE (p\<lparr>ua_Password := Some hashed\<rparr>))))
        (\<lambda>r s. keys_ok dp (adb s) \<and> (\<forall>x. r = Inr x \<longrightarrow> ua_SessionKey x = None \<and> ua_SessionKeyCreateAt x = None))"
      using p by (auto simp: hoare_def hash_password_def draw_def split: option.splits sum.splits)
    show "keeps_keys dp (logged (auth_AtomExecute (bindE (st_FetchUser (Some (no_user_filter\<lparr>uf_Name := ua_Name x\<rparr>))) (\<lambda>user.
          if user \<noteq> None then throwE (ErrExisted ''User'') else st_CreateUser dp x)))
       (\<lambda>r w. recordUserOperation dp ''create'' 0 (userParamName x) [] [] (userParamToMap x) (err_of r)))"
      if "ua_SessionKey x = None \<and> ua_SessionKeyCreateAt x = None" for x
      using that by (intro keeps_rules create_user_keeps) auto
  qed
  then show ?thesis
    unfolding userCreateActionProcess_def by (intro keeps_rules) (simp add: no_user_param_def)
qed

lemma DeleteUser_keeps: "keeps_keys dp (DeleteUser dp n)"
  unfolding DeleteUser_def st_DeleteUser_def unbindTokenAllProduct_def by (intro keeps_rules)

lemma DeleteToken_keeps: "keeps_keys dp (DeleteToken dp t)"
  unfolding DeleteToken_def st_DeleteToken_def unbindTokenAllProduct_def by (intro keeps_rules)

lemma bind_keeps: "keeps_keys dp (bindUserProduct dp' i p)" "keeps_keys dp (isTokenProductGranted i p)" "keeps_keys dp (UnbindUserProduct u p)"
  unfolding bindUserProduct_def isTokenProductGranted_def UnbindUserProduct_def by (intro keeps_rules)+

lemma BindUserProduct_keeps: "keeps_keys dp (BindUserProduct dp' u p)" "keeps_keys dp (UnBindUserProduct dp' u p)"
  unfolding BindUserProduct_def UnBindUserProduct_def by (intro keeps_rules bind_keeps)+

lemma products_keep: "keeps_keys dp (CreateProduct dp' p)" "keeps_keys dp (UpdateProduct dp' q p)"
  unfolding CreateProduct_def UpdateProduct_def st_FetchProducts_def st_CreateProduct_def st_UpdateProduct_def
  by (intro keeps_rules)+

lemma userUpdateRole_keeps: "keeps_keys dp (userUpdateRoleActionProcess dp n role)"
proof -
  let ?flt = "Some (no_user_filter\<lparr>uf_Name := Some n\<rparr>)"
  have fl: "reads (FetchUser ?flt) (first_user ?flt)"
  proof -
    have "reads (FetchUser ?flt) (\<lambda>db. case map userD2M (user_rows ?flt db) of [] \<Rightarrow> None | u # _ \<Rightarrow> Some u)"
      unfolding FetchUser_def FetchUserList_def by (rule reads_map [OF reads_txn [OF reads_users]])
    moreover have "(case map userD2M rs of [] \<Rightarrow> None | u # _ \<Rightarrow> Some u) = (case rs of [] \<Rightarrow> None | r # _ \<Rightarrow> Some (userD2M r))" for rs
      by (cases rs) auto
    ultimately show ?thesis by (simp add: first_user_def [abs_def])
  qed
  have txn: "hoare (\<lambda>w. keys_ok dp (adb w) \<and> first_user ?flt (adb w) = Some u) (auth_AtomExecute (st_UpdateUserScopes dp u ss))
      (\<lambda>_ w. keys_ok dp (adb w))" for u ss
    unfolding auth_AtomExecute_def st_UpdateUserScopes_def
    by (rule auth_txn.hoare_txn [where P = "\<lambda>d. keys_ok dp d \<and> first_user ?flt d = Some u", OF update_found_keeps [OF safe_params(3)]]) simp
  have role: "hoare (\<lambda>w. keys_ok dp (adb w) \<and> first_user ?flt (adb w) = Some u) (UpdateUserRole dp u role) (\<lambda>_ w. keys_ok dp (adb w))" for u
    unfolding UpdateUserRole_def
  proof (rule hoare_lift_err_bindE, simp, rule hoare_if)
    fix ss
    let ?m = "logged (auth_AtomExecute (st_UpdateUserScopes dp u ss)) (\<lambda>r w. recordUserOperation dp ''update'' (us_ID u) (us_Name u) []
       (userToMap (Some u)) [(''role'', LvStr role), (''scopes'', LvStrs ss)] (err_of r))"
    show "hoare (\<lambda>w. keys_ok dp (adb w) \<and> first_user ?flt (adb w) = Some u) ?m (\<lambda>_ w. keys_ok dp (adb w))"
      unfolding logged_def
      by (rule hoare_bind [OF txn]) (intro keeps_rules [unfolded keeps_def])
  qed (auto intro!: hoare_pure)
  show ?thesis
    unfolding userUpdateRoleActionProcess_def
  proof (rule keeps_after_read [OF fl])
    fix x
    show "hoare (\<lambda>w. keys_ok dp (adb w) \<and> first_user ?flt (adb w) = x)
      (case x of None \<Rightarrow> throwE (ErrRecordNotExist ''User'') | Some u \<Rightarrow> UpdateUserRole dp u role) (\<lambda>_ w. keys_ok dp (adb w))"
      using role by (cases x) (auto intro!: hoare_pure)
  qed simp
qed

lemma create_token_keeps:
  "hoare (\<lambda>w. keys_ok dp (adb w) \<and> token_rows (Some (no_token_filter\<lparr>tf_Token := Some k\<rparr>)) (adb w) = [])
     (st_CreateToken dp \<lparr>ta_Name = n, ta_Token = Some k, ta_Scope = s\<rparr>) (\<lambda>_ w. keys_ok dp (adb w))"
proof (rule hoareI)
  fix w :: auth_world assume w: "keys_ok dp (adb w) \<and> token_rows (Some (no_token_filter\<lparr>tf_Token := Some k\<rparr>)) (adb w) = []"
  then have "{r \<in> set (users_of (adb w)). tu_Type r = 1 \<and> tu_Ticket r = k} = {}"
    unfolding token_rows_by_key [symmetric] by simp
  then have "\<forall>r\<in>set (users_of (adb w)). tu_Type r = 1 \<longrightarrow> tu_Ticket r \<noteq> k" by blast
  then show "keys_ok dp (adb (snd (run_state (st_CreateToken dp \<lparr>ta_Name = n, ta_Token = Some k, ta_Scope = s\<rparr>) w)))"
    using w hoareD_sel [OF create_keeps, where s = w] unfolding st_CreateToken_def
    by (simp add: tokenParamM2D_def no_user_def)
qed

lemma token_attempts_keeps: "keeps_keys dp (token_attempts n dp name scope product err)"
proof (induction n arbitrary: err)
  case 0
  show ?case by (simp only: token_attempts.simps) (intro keeps_rules)
next
  case (Suc n)
  let ?I = "\<lambda>w. keys_ok dp (adb w)"
  let ?flt = "\<lambda>k. Some (no_token_filter\<lparr>tf_Token := Some k\<rparr>)"
  let ?new = "\<lambda>k. bindE (set_token \<lparr>tk_ID = 0, tk_Name = name, tk_Token = k, tk_Scope = scope, tk_Product = None\<rparr>) (\<lambda>_.
     bindE (st_CreateToken dp \<lparr>ta_Name = Some name, ta_Token = Some k, ta_Scope = Some scope\<rparr>) (\<lambda>_.
     bindE (st_FetchTokens (Some (no_token_filter\<lparr>tf_Name := Some name\<rparr>))) (\<lambda>tokens. case tokens of
         [] \<Rightarrow> throwE (ErrMsg ''panic: index out of range'')
       | t # _ \<Rightarrow> bindE (set_token t) (\<lambda>_. case product of None \<Rightarrow> returnE () | Some p \<Rightarrow> bindUserProduct dp (tk_ID t) p))))"
  let ?J = "\<lambda>k w. ?I w \<and> token_rows (?flt k) (adb w) = []"
  have rest: "hoare ?I (bindE (st_FetchTokens (Some (no_token_filter\<lparr>tf_Name := Some name\<rparr>))) (\<lambda>tokens. case tokens of
         [] \<Rightarrow> throwE (ErrMsg ''panic: index out of range'')
       | t # _ \<Rightarrow> bindE (set_token t) (\<lambda>_. case product of None \<Rightarrow> returnE () | Some p \<Rightarrow> bindUserProduct dp (tk_ID t) p))) (\<lambda>_. ?I)"
    unfolding keeps_def [symmetric]
    by (intro keeps_rules bind_keeps) (auto split: list.splits intro!: keeps_rules bind_keeps)
  have new: "hoare (?J k) (?new k) (\<lambda>_. ?I)" for k
  proof (rule hoare_keeps_bindE)
    show "keeps (?J k) (set_token \<lparr>tk_ID = 0, tk_Name = name, tk_Token = k, tk_Scope = scope, tk_Product = None\<rparr>)"
      by (simp add: set_token_def keeps_modifyE)
    show "hoare (?J k) (bindE (st_CreateToken dp \<lparr>ta_Name = Some name, ta_Token = Some k, ta_Scope = Some scope\<rparr>) (\<lambda>_.
     bindE (st_FetchTokens (Some (no_token_filter\<lparr>tf_Name := Some name\<rparr>))) (\<lambda>tokens. case tokens of
         [] \<Rightarrow> throwE (ErrMsg ''panic: index out of range'')
       | t # _ \<Rightarrow> bindE (set_token t) (\<lambda>_. case product of None \<Rightarrow> returnE () | Some p \<Rightarrow> bindUserProduct dp (tk_ID t) p)))) (\<lambda>_. ?I)"
      by (rule hoare_bindE_keeps [OF create_token_keeps]) (rule rest [folded keeps_def])
  qed simp
  have attempt: "keeps ?I (State_Monad.bind (st_FetchTokens (?flt k)) (\<lambda>ts. case ts of
               Inl e \<Rightarrow> token_attempts n dp name scope product (Some e)
             | Inr (_ # _) \<Rightarrow> token_attempts n dp name scope product None
             | Inr [] \<Rightarrow> ?new k))" for k
  proof (rule keepsI)
    fix w :: auth_world assume I: "?I w"
    obtain r w' where f: "run_state (st_FetchTokens (?flt k)) w = (r, w')" by fastforce
    have w': "?I w'" "adb w' = adb w" using reads_frame(1) [OF reads_tokens f] I by simp_all
    have "?J k w'" if "r = Inr []" using readsD(2) [OF reads_tokens f] that w' by simp
    then show "?I (snd (run_state (State_Monad.bind (st_FetchTokens (?flt k)) (\<lambda>ts. case ts of
               Inl e \<Rightarrow> token_attempts n dp name scope product (Some e)
             | Inr (_ # _) \<Rightarrow> token_attempts n dp name scope product None
             | Inr [] \<Rightarrow> ?new k)) w))"
      using f w'(1) keepsD [OF Suc.IH, of w'] hoareD_sel [OF new, where s = w']
      by (auto split: sum.splits list.splits)
  qed
  show ?case
    unfolding token_attempts.simps by (rule keeps_bind [OF draw_keeps(1)]) (rule keeps_case_sum [OF Suc.IH attempt])
qed

lemma CreateToken_keeps: "keeps_keys dp (CreateToken dp n s p)"
proof -
  have "keeps_keys dp (create_token_body dp n s p)"
    unfolding create_token_body_def
    by (intro keeps_rules token_attempts_keeps) (auto split: list.splits intro!: keeps_rules token_attempts_keeps)
  then show ?thesis
    unfolding CreateToken_def Let_def
    by (intro keeps_rules; (auto intro!: keeps_rules keeps_modify split: sum.splits option.splits)?)
qed

end
