(* ===== verification/AuthHistory.thy ===== *)
theory AuthHistory
  imports AuthReach
begin

text \<open>
  The calls of a history and what they keep: the snapshots that the methods log are masked, a login keeps the keys, and so
  does every sequence of calls, with whatever failures.
\<close>

section \<open>The log\<close>

definition entry_ok :: "LogEntry \<Rightarrow> bool" where
  "entry_ok e \<longleftrightarrow> (case le_ChangeSummary e of None \<Rightarrow> True | Some s \<Rightarrow> masked_map s) \<and> length (le_ErrorMsg e) \<le> 1024 \<and>
     le_Status e \<in> {1, 2} \<and> (le_Status e = 1 \<longrightarrow> le_ErrorMsg e = [])"

abbreviation (input) keeps_log :: "'a auth \<Rightarrow> bool" where
  "keeps_log \<equiv> keeps (\<lambda>w. list_all entry_ok (a_log w))"

lemma log_fault_free: "fault_free (\<lambda>w. list_all entry_ok (a_log w))"
  by (simp add: fault_free_def)

lemma log_txn [keeps_rules]: "keeps_log body \<Longrightarrow> keeps_log (auth_AtomExecute body)"
  using auth_txn.keeps_txn_with [of "\<lambda>_. True" "\<lambda>w. list_all entry_ok (a_log w)" body]
  by (simp add: auth_AtomExecute_def log_fault_free)

lemma record_log [keeps_rules]:
  "keeps_log (recordAuthOperation dp a t i n pid b c e)" "keeps_log (recordUserOperation dp a i n pid b c e)"
  "keeps_log (recordTokenOperation dp a i n pid b c e)" "keeps_log (recordUserProductBinding dp a u q e)"
proof -
  have "keeps_log (recordAuthOperation dp a t i n pid b c e)" for a t i n pid b c e
  proof -
    have "int (length (TruncateErrorMessageDefault x)) \<le> 1024" for x
      using TruncateErrorMessageDefault_bound [of x] by (simp add: DefaultErrorMessageMaxLen_def)
    then have "length (TruncateErrorMessageDefault x) \<le> 1024" for x by (metis of_nat_le_iff of_nat_numeral)
    then show ?thesis
      unfolding recordAuthOperation_def
      by (intro keeps_modifyE) (auto simp: entry_ok_def log_entry_def summary_masked split: option.splits)
  qed
  then show "keeps_log (recordAuthOperation dp a t i n pid b c e)" "keeps_log (recordUserOperation dp a i n pid b c e)"
    "keeps_log (recordTokenOperation dp a i n pid b c e)" "keeps_log (recordUserProductBinding dp a u q e)"
    by (simp_all add: recordUserOperation_def recordTokenOperation_def recordUserProductBinding_def)
qed

lemma variable_log [keeps_rules]: "keeps_log (set_oldUser u)" "keeps_log (set_token t)" "keeps (\<lambda>w. list_all entry_ok (a_log w)) (modify (\<lambda>w. w\<lparr>a_token := None\<rparr>))"
  by (simp_all add: set_oldUser_def set_token_def keeps_modifyE keeps_modify)

lemma draw_log [keeps_rules]: "keeps_log (sessionKeyFactory dp')" "keeps_log (hash_password dp' p)"
  by (auto simp: keeps_def hoare_def sessionKeyFactory_def hash_password_def draw_def)

lemma with_oldUser_log [keeps_rules]: "keeps_log body \<Longrightarrow> keeps_log (with_oldUser body)"
  unfolding with_oldUser_def by (intro keeps_rules)

lemma statements_log [keeps_rules]:
  "keeps_log (TUserCreate dp p)" "keeps_log (TUserList p)" "keeps_log (TUserUpdate dp p q)" "keeps_log (TUserDelete p)"
  "keeps_log (TUserProductOne b)" "keeps_log (TUserProductList b)" "keeps_log (TUserProductCreate dp i j)"
  "keeps_log (TUserProductDelete b)" "keeps_log (TProductList c)" "keeps_log (TProductCreate dp d)" "keeps_log (TProductUpdate dp d c)"
  unfolding TUserCreate_def TUserList_def TUserUpdate_def TUserDelete_def TUserProductOne_def TUserProductList_def
    TUserProductCreate_def TUserProductDelete_def TProductList_def TProductCreate_def TProductUpdate_def
  by (rule keeps_ext_call [OF log_fault_free]; auto simp: Let_def split: prod.splits sum.splits)+

lemma storage_log [keeps_rules]:
  "keeps_log (st_FetchUserList uf)" "keeps_log (st_FetchUser uf)" "keeps_log (st_UpdateUser dp u p)" "keeps_log (st_CreateUser dp p)"
  "keeps_log (st_DeleteUser u)" "keeps_log (st_FetchTokens tf)" "keeps_log (st_CreateToken dp tp)" "keeps_log (st_DeleteToken t)"
  "keeps_log (st_FetchProducts pf)" "keeps_log (st_CreateProduct dp q)" "keeps_log (st_UpdateProduct dp r q)"
  "keeps_log (unbindTokenAllProduct i)" "keeps_log (UnbindUserProduct u r)" "keeps_log (bindUserProduct dp i r)"
  "keeps_log (isTokenProductGranted i r)" "keeps_log (st_UpdateUserScopes dp u ss)"
  unfolding st_FetchUserList_def st_FetchUser_def st_UpdateUser_def st_CreateUser_def st_DeleteUser_def st_FetchTokens_def
    st_CreateToken_def st_DeleteToken_def st_FetchProducts_def st_CreateProduct_def st_UpdateProduct_def
    unbindTokenAllProduct_def UnbindUserProduct_def bindUserProduct_def isTokenProductGranted_def st_UpdateUserScopes_def Let_def
  by (intro keeps_rules)+

lemma methods_log:
  "keeps_log (DestroySessionKey dp k)" "keeps_log (userUpdatePasswordActionProcess dp ctx n old new)" "keeps_log (DeleteUser dp n)"
  "keeps_log (DeleteToken dp t)" "keeps_log (BindUserProduct dp u r)" "keeps_log (UnBindUserProduct dp u r)"
  "keeps_log (CreateProduct dp q)" "keeps_log (UpdateProduct dp r q)"
  unfolding DestroySessionKey_def userUpdatePasswordActionProcess_def UpdateUserPassword_def updateUser_def DeleteUser_def DeleteToken_def
    BindUserProduct_def UnBindUserProduct_def CreateProduct_def UpdateProduct_def Let_def
  by (intro keeps_rules)+

lemma role_log: "keeps_log (userUpdateRoleActionProcess dp n role)"
  unfolding userUpdateRoleActionProcess_def UpdateUserRole_def FetchUser_def FetchUserList_def by (intro keeps_rules)

lemma create_user_log: "keeps_log (userCreateActionProcess dp n pw role)"
  unfolding userCreateActionProcess_def CreateUser_def by (intro keeps_rules)

lemma keeps_case_list [keeps_rules]:
  "(x = [] \<Longrightarrow> keeps I m) \<Longrightarrow> (\<And>y ys. x = y # ys \<Longrightarrow> keeps I (f y ys)) \<Longrightarrow> keeps I (case x of [] \<Rightarrow> m | y # ys \<Rightarrow> f y ys)"
  by (cases x) auto

lemma token_attempts_log: "keeps_log (token_attempts n dp name scope product err)"
proof (induction n arbitrary: err)
  case 0
  show ?case by (simp only: token_attempts.simps) (intro keeps_rules)
next
  case (Suc n)
  show ?case unfolding token_attempts.simps by (intro keeps_rules Suc.IH)
qed

lemma create_token_log: "keeps_log (CreateToken dp n s p)"
  unfolding CreateToken_def create_token_body_def Let_def by (intro keeps_rules token_attempts_log)

section \<open>A login\<close>

lemma looping_txn_log:
  assumes "looping_txn body w = Some (r, w')" "\<And>w1 y. body w1 = Some y \<Longrightarrow> a_log (snd y) = a_log w1"
  shows "a_log w' = a_log w"
proof -
  obtain r0 w1 where b: "run_state (ext_call (\<lambda>v. (Inr (), v)) :: unit auth) w = (r0, w1)" by fastforce
  then have l1: "a_log w1 = a_log w" by (auto split: list.splits fault.splits)
  show ?thesis
  proof (cases r0)
    case (Inl e)
    then show ?thesis using assms b l1 by (auto simp: looping_txn_def simp del: run_ext_call)
  next
    case (Inr u)
    then obtain y where y: "body w1 = Some y" "run_state (auth_AtomExecute (State (\<lambda>_. y))) w = (r, w')"
      using assms b by (auto simp: looping_txn_def simp del: run_ext_call split: option.splits)
    have "keeps (\<lambda>v. True \<and> a_log v = a_log w) (auth_AtomExecute (State (\<lambda>_. y)))"
      unfolding auth_AtomExecute_def
      by (rule auth_txn.keeps_txn_with) (use assms(2) [OF y(1)] l1 in \<open>auto simp: keeps_def hoare_def fault_free_def\<close>)
    from keepsD_run [OF this _ y(2)] show ?thesis by simp
  qed
qed

lemma login_log:
  assumes "authTypePassword dp param w = Some (r, w')"
  shows "a_log w' = a_log w"
proof (rule looping_txn_log [OF assms [unfolded authTypePassword_def]])
  fix w1 y assume y: "password_body dp param w1 = Some y"
  obtain rv wv where v: "run_state (verify_password dp param) w1 = (rv, wv)" by fastforce
  have l: "a_log wv = a_log w1" using verify_password_outcome(1) [OF v] by simp
  show "a_log (snd y) = a_log w1"
    using y v l fresh_session_result(2) [of dp _ _ wv "fst y" "snd y"]
    by (cases rv) (auto simp: password_body_def)
qed

lemma login_keeps_keys:
  assumes "authTypePassword dp param w = Some (r, w')" "keys_ok dp (adb w)" "\<And>n k. session_key_of dp n = Inr k \<Longrightarrow> k \<noteq> []"
  shows "keys_ok dp (adb w')"
proof (cases "adb w' = adb w")
  case False
  then obtain row u k where row: "row \<in> set (users_of (adb w))" and l: "logged_in dp param row u k w (adb w')"
    using login_effect [OF assms(1)] by blast
  obtain mig n where m: "verified dp param row u mig" "session_key_of dp n = Inr k" "key_free k (adb w)"
    "adb w' = set_users (updated_users dp (tu_ID row) (session_param k (a_now w) mig u) (users_of (adb w))) (adb w)"
    "uniq_users (updated_users dp (tu_ID row) (session_param k (a_now w) mig u) (users_of (adb w)))"
    using l unfolding logged_in_def by (elim exE conjE) (rule that)
  have "session_safe (adb w) (session_param k (a_now w) mig u)"
    using m(3) assms(3) [OF m(2)] by (simp add: session_safe_def session_param_def no_user_param_def)
  moreover have "is_user_id (tu_ID row) (adb w)"
    using uniq_ids [of "users_of (adb w)" _ row] row assms(2) m(1) by (auto simp: is_user_id_def keys_ok_def verified_def)
  ultimately show ?thesis using keys_ok_update [OF assms(2) _ _ m(5)] m(4) by simp
qed (use assms(2) in simp)

section \<open>Histories\<close>

datatype auth_call =
    Login AuthenticateParam
  | DestroyKey string
  | NewUser string string string
  | DropUser string
  | ChangePassword req_ctx string string string
  | ChangeRole string string
  | NewToken string string "Product option"
  | DropToken Token
  | BindTo User Product
  | UnbindFrom User Product
  | NewProduct ProductParam
  | ChangeProduct Product ProductParam

definition returns :: "'a auth \<Rightarrow> auth_world \<Rightarrow> auth_world option" where
  "returns m w = Some (snd (run_state m w))"

fun run_call :: "auth_deps \<Rightarrow> auth_call \<Rightarrow> auth_world \<Rightarrow> auth_world option" where
  "run_call dp (Login param) w = map_option snd (Authenticate dp param w)"
| "run_call dp (DestroyKey k) w = returns (DestroySessionKey dp k) w"
| "run_call dp (NewUser n pw role) w = returns (userCreateActionProcess dp n pw role) w"
| "run_call dp (DropUser n) w = returns (DeleteUser dp n) w"
| "run_call dp (ChangePassword ctx n old new) w = returns (userUpdatePasswordActionProcess dp ctx n old new) w"
| "run_call dp (ChangeRole n role) w = returns (userUpdateRoleActionProcess dp n role) w"
| "run_call dp (NewToken n s p) w = returns (CreateToken dp n s p) w"
| "run_call dp (DropToken t) w = returns (DeleteToken dp t) w"
| "run_call dp (BindTo u p) w = returns (BindUserProduct dp u p) w"
| "run_call dp (UnbindFrom u p) w = returns (UnBindUserProduct dp u p) w"
| "run_call dp (NewProduct q) w = returns (CreateProduct dp q) w"
| "run_call dp (ChangeProduct p q) w = returns (UpdateProduct dp p q) w"

text \<open>The tables as the schema creates them: one user, the built-in administrator, and no binding.\<close>

definition seeded :: "auth_world \<Rightarrow> bool" where
  "seeded w \<longleftrightarrow> a_log w = [] \<and> a_user_products (adb w) = [] \<and>
     (\<exists>h c u. users_of (adb w) = [\<lparr>tu_ID = 1, tu_Name = ''admin'', tu_Type = 0, tu_Password = h, tu_Ticket = [],
        tu_TicketCreatedAt = defaultTicketAt, tu_Scopes = ScopeSystem, tu_CreatedAt = c, tu_UpdatedAt = u\<rparr>])"

inductive auth_reach :: "auth_deps \<Rightarrow> auth_world \<Rightarrow> bool" for dp where
  reach_start: "seeded w \<Longrightarrow> auth_reach dp w"
| reach_call: "auth_reach dp w \<Longrightarrow> run_call dp c w = Some w' \<Longrightarrow> auth_reach dp w'"
| reach_time: "auth_reach dp w \<Longrightarrow> auth_reach dp (w\<lparr>a_now := t, faults := fs\<rparr>)"

lemma session_reads: "keeps_keys dp (authTypeSession dp' p)" "keeps_keys dp (authTypeToken p)" "keeps_keys dp (authTypeSkip dp' p)"
  "keeps_log (authTypeSession dp' p)" "keeps_log (authTypeToken p)" "keeps_log (authTypeSkip dp' p)"
  unfolding authTypeSession_def authTypeToken_def authTypeSkip_def by (intro keeps_rules)+

lemma both_kept:
  assumes "keeps_keys dp m" "keeps_log m" "keys_ok dp (adb w)" "list_all entry_ok (a_log w)"
  shows "keys_ok dp (adb (snd (run_state m w))) \<and> list_all entry_ok (a_log (snd (run_state m w)))"
  using keepsD [OF assms(1,3)] keepsD [OF assms(2,4)] by simp

lemma Authenticate_keeps:
  assumes "Authenticate dp param w = Some (r, w')" "keys_ok dp (adb w)" "list_all entry_ok (a_log w)"
    "\<And>n k. session_key_of dp n = Inr k \<Longrightarrow> k \<noteq> []"
  shows "keys_ok dp (adb w') \<and> list_all entry_ok (a_log w')"
proof (cases "ap_Type param = ''Password''")
  case True
  then have "authTypePassword dp param w = Some (r, w')" using assms(1) by (simp add: Authenticate_def)
  then show ?thesis using login_keeps_keys [OF _ assms(2,4)] login_log assms(3) by fastforce
next
  case False
  then have "w' = w \<or> w' = snd (run_state (authTypeSession dp param) w) \<or> w' = snd (run_state (authTypeToken param) w) \<or>
      w' = snd (run_state (authTypeSkip dp param) w)"
    using assms(1) by (auto simp: Authenticate_def split: if_splits)
  then show ?thesis
    using assms(2,3) both_kept [OF session_reads(1,4) assms(2,3)] both_kept [OF session_reads(2,5) assms(2,3)]
      both_kept [OF session_reads(3,6) assms(2,3)] by (elim disjE) simp_all
qed

lemmas calls_keep_keys = DestroySessionKey_keeps userCreate_keeps DeleteUser_keeps userUpdatePassword_keeps userUpdateRole_keeps
  CreateToken_keeps DeleteToken_keeps BindUserProduct_keeps products_keep
lemmas calls_keep_log = methods_log role_log create_user_log create_token_log

lemma reach_keeps:
  assumes "auth_reach dp w" and k: "\<And>n k. session_key_of dp n = Inr k \<Longrightarrow> k \<noteq> []"
  shows "keys_ok dp (adb w) \<and> list_all entry_ok (a_log w)"
  using assms(1)
proof induction
  case (reach_start w)
  then show ?case by (auto simp: seeded_def keys_ok_def uniq_users_def)
next
  case (reach_call w c w')
  show ?case
  proof (cases "\<exists>param. c = Login param")
    case True
    then show ?thesis using reach_call Authenticate_keeps [OF _ _ _ k] by auto
  next
    case False
    note kept = calls_keep_keys [THEN keepsD, of _ w] calls_keep_log [THEN keepsD, of w] reach_call.IH
    show ?thesis
      using reach_call.hyps(2) False by (cases c) (auto simp: returns_def kept)
  qed
qed simp

end
