(* ===== verification/AuthProperties.thy ===== *)
theory AuthProperties
  imports AuthHistory
begin

text \<open>
  The properties of authentication and authorization and their witnesses: who may do what, what a login gives and how long, what a
  change of a password takes away, and what any history of calls leaves.
\<close>

section \<open>Authorization\<close>

fun holder :: "Visitor \<Rightarrow> int" where
  "holder (UserVisitor u) = us_ID u"
| "holder (TokenVisitor t) = tk_ID t"

definition bound_to :: "int \<Rightarrow> Product \<Rightarrow> auth_db \<Rightarrow> bool" where
  "bound_to i p db \<longleftrightarrow> (\<exists>b\<in>set (a_user_products db). up_UserID b = i \<and> up_ProductID b = pd_ID p)"

text \<open>Who may do what, without the calls that find it out.\<close>

definition entitled :: "auth_deps \<Rightarrow> req_ctx \<Rightarrow> Authorization \<Rightarrow> auth_db \<Rightarrow> bool" where
  "entitled dp ctx az db \<longleftrightarrow> (\<exists>v. MustGetVisitor (ad_SkipTokenValidate dp) ctx = Inr v \<and>
     (IsAdmin v \<or>
      (\<exists>s\<in>set (GetScopes v). scope_grants s (az_Feature az) (az_Action az)) \<and>
      (az_ValidateProduct az \<longrightarrow> (\<exists>p. cx_product ctx = Some p \<and> bound_to (holder v) p db))))"

lemma reads_one: "reads (TUserProductOne p) (\<lambda>db. List.find (where_binding p) (a_user_products db))"
  unfolding TUserProductOne_def by (rule reads_call)

lemma reads_granted: "reads (isTokenProductGranted i p) (bound_to i p)"
proof -
  let ?q = "no_binding\<lparr>pp_UserID := Some i, pp_ProductID := Some (pd_ID p)\<rparr>"
  have "(List.find (where_binding ?q) bs \<noteq> None) = (\<exists>b\<in>set bs. up_UserID b = i \<and> up_ProductID b = pd_ID p)" for bs
    by (auto simp: find_None_iff where_binding_def no_binding_def eq_opt_def in_opt_def)
  then have eq: "bound_to i p = (\<lambda>db. List.find (where_binding ?q) (a_user_products db) \<noteq> None)"
    by (intro ext) (simp add: bound_to_def)
  show ?thesis unfolding isTokenProductGranted_def eq by (rule reads_map [OF reads_one])
qed

lemma reads_visitor_granted: "reads (IsVisitorProductGranted v p) (bound_to (holder v) p)"
  unfolding IsVisitorProductGranted_def by (cases v) (simp_all add: reads_txn [OF reads_granted])

lemma Authorizate_outcome:
  assumes "run_state (Authorizate dp ctx az) w = (r, w')"
  shows "adb w' = adb w \<and> (r = Inr () \<longrightarrow> entitled dp ctx az (adb w)) \<and> (faults w = [] \<and> entitled dp ctx az (adb w) \<longrightarrow> r = Inr ())"
proof (cases "MustGetVisitor (ad_SkipTokenValidate dp) ctx")
  case (Inl e)
  then show ?thesis using assms by (auto simp: Authorizate_def entitled_def)
next
  case (Inr v)
  show ?thesis
  proof (cases "\<not> IsAdmin v \<and> featureGranted (GetScopes v) (az_Feature az) (az_Action az) \<and> az_ValidateProduct az \<and> cx_product ctx \<noteq> None")
    case True
    then obtain p where p: "cx_product ctx = Some p" by auto
    obtain rg wg where g: "run_state (IsVisitorProductGranted v p) w = (rg, wg)" by fastforce
    note d = reads_frame(1) [OF reads_visitor_granted g] readsD(2,3) [OF reads_visitor_granted g]
    have run: "(r, w') = (case rg of Inl e \<Rightarrow> (Inl e, wg) | Inr ok \<Rightarrow> if ok then (Inr (), wg) else (Inl (ErrAuthorizate ''Product Access Deny''), wg))"
      using assms True p g Inr by (auto simp: Authorizate_def MustGetProduct_def split: sum.splits)
    have "entitled dp ctx az (adb w) \<longleftrightarrow> bound_to (holder v) p (adb w)"
      using True p Inr by (auto simp: entitled_def featureGranted_iff)
    then show ?thesis using run d by (cases rg) (auto split: if_splits)
  next
    case False
    then show ?thesis
      using assms Inr by (auto simp: Authorizate_def entitled_def featureGranted_iff MustGetProduct_def split: if_splits option.splits)
  qed
qed

text \<open>
  C32. Whatever calls fail, a request is let through only when its visitor is an administrator, or one of the scopes of the
  visitor grants the action on the feature and, where the endpoint asks for it, the visitor is bound to the product of the
  request; when no call fails every such request is let through. Deciding changes no table.\<close>

theorem authorization_is_the_entitlement:
  assumes "run_state (Authorizate dp ctx az) w = (r, w')"
  shows "(r = Inr () \<longrightarrow> entitled dp ctx az (adb w)) \<and> (faults w = [] \<longrightarrow> (r = Inr ()) = entitled dp ctx az (adb w)) \<and> adb w' = adb w"
  using Authorizate_outcome [OF assms] by auto

text \<open>A bcrypt and a source of randomness for examples.\<close>

definition example_crypto :: auth_crypto where
  "example_crypto =
     \<lparr>ac_generate = (\<lambda>n c p. if length p \<le> 72 then Inr (''$2a$'' @ p) else Inl (ErrMsg ''too long'')),
      ac_compare = (\<lambda>h p. h = ''$2a$'' @ p), ac_random = (\<lambda>n l. Some (replicate (l - 1) 0 @ [of_nat n])), ac_cost = 10\<rparr>"

definition example_auth :: auth_deps where
  "example_auth =
     \<lparr>ad_crypto = example_crypto, ad_isMySQL = False, ad_time = id, ad_operationLog = True, ad_errText = (\<lambda>_. ''error''),
      ad_SkipTokenValidate = False, ad_SessionExpireInDay = 7, ad_zone = 0\<rparr>"

definition admin_row :: TUser where
  "admin_row = \<lparr>tu_ID = 1, tu_Name = ''admin'', tu_Type = 0, tu_Password = ''$2a$sesame00'', tu_Ticket = [],
     tu_TicketCreatedAt = defaultTicketAt, tu_Scopes = ''System'', tu_CreatedAt = 0, tu_UpdatedAt = 0\<rparr>"

definition today :: time where "today = 738000 * nsDay"

definition seeded_world :: auth_world where
  "seeded_world = \<lparr>faults = [], adb = \<lparr>a_users = \<lparr>rows = [admin_row], next_id = 2\<rparr>, a_user_products = [],
     a_products = \<lparr>rows = [], next_id = 1\<rparr>\<rparr>, a_now = today, a_draws = 0, a_log = [], a_oldUser = None, a_token = None\<rparr>"

definition example_product :: Product where
  "example_product = \<lparr>pd_ID = 2, pd_Name = ''AI_product'', pd_Description = [], pd_MailList = [], pd_PhoneList = [],
     pd_ContactPersonList = [], pd_CreatedAt = 0, pd_UpdatedAt = 0\<rparr>"

definition product_token :: Visitor where
  "product_token = TokenVisitor \<lparr>tk_ID = 9, tk_Name = ''ci'', tk_Token = ''t'', tk_Scope = ''Product'', tk_Product = None\<rparr>"

definition token_ctx :: req_ctx where
  "token_ctx = \<lparr>cx_visitor = Some product_token, cx_product = Some example_product, cx_request = None\<rparr>"

theorem authorization_is_the_entitlement_witness:
  "entitled example_auth token_ctx (NewFeatureAuthorizerWithFactoryWithProduct ''APIKey'' ActionUpdate)
     ((adb seeded_world)\<lparr>a_user_products := [\<lparr>up_UserID = 9, up_ProductID = 2, up_CreatedAt = 0, up_UpdatedAt = 0\<rparr>]\<rparr>) \<and>
   \<not> entitled example_auth token_ctx (NewFeatureAuthorizerWithFactoryWithProduct ''APIKey'' ActionUpdate) (adb seeded_world)"
proof -
  let ?az = "NewFeatureAuthorizerWithFactoryWithProduct ''APIKey'' ActionUpdate"
  let ?w = "seeded_world\<lparr>adb := (adb seeded_world)\<lparr>a_user_products := [\<lparr>up_UserID = 9, up_ProductID = 2, up_CreatedAt = 0, up_UpdatedAt = 0\<rparr>]\<rparr>\<rparr>"
  have yes: "run_state (Authorizate example_auth token_ctx ?az) ?w = (Inr (), ?w)" by code_simp
  have no: "run_state (Authorizate example_auth token_ctx ?az) seeded_world = (Inl (ErrAuthorizate ''Product Access Deny''), seeded_world)"
    by code_simp
  show ?thesis
    using authorization_is_the_entitlement [OF yes] authorization_is_the_entitlement [OF no] by (simp add: seeded_world_def)
qed

section \<open>Roles\<close>

lemma record_run:
  "\<exists>w1. run_state (recordUserOperation dp a i n p b c e) w = (Inr (), w1) \<and> adb w1 = adb w"
  by (auto simp: recordUserOperation_def recordAuthOperation_def)

lemma logged_run:
  assumes "run_state (logged body (\<lambda>r w. recordUserOperation dp a (i w) (n w) p (b w) c (err_of r))) w = (r, w')"
  shows "\<exists>w1. run_state body w = (r, w1) \<and> adb w' = adb w1"
proof -
  obtain r1 w1 where b: "run_state body w = (r1, w1)" by fastforce
  obtain w2 where "run_state (recordUserOperation dp a (i w1) (n w1) p (b w1) c (err_of r1)) w1 = (Inr (), w2)" "adb w2 = adb w1"
    using record_run by blast
  then show ?thesis using assms b by (auto simp: logged_def)
qed

lemma txn_update_success:
  assumes "run_state (auth_AtomExecute body) w = (Inr x, w')"
  obtains v v' where "adb v = adb w" "run_state body v = (Inr x, v')" "adb w' = adb v'"
  using auth_txn.txn_success [OF assms [unfolded auth_AtomExecute_def]] by blast

lemma UpdateUserRole_success:
  assumes "run_state (UpdateUserRole dp u role) w = (Inr (), w')"
  obtains ss where "RoleToScopes role = Inr ss"
    "users_of (adb w') = updated_users dp (us_ID u) (no_user_param\<lparr>ua_Scopes := Some ss\<rparr>) (users_of (adb w))"
proof -
  obtain ss where ss: "RoleToScopes role = Inr ss" using assms by (cases "RoleToScopes role") (auto simp: UpdateUserRole_def)
  have "run_state (logged (auth_AtomExecute (st_UpdateUserScopes dp u ss)) (\<lambda>r w. recordUserOperation dp ''update'' (us_ID u) (us_Name u) []
      (userToMap (Some u)) [(''role'', LvStr role), (''scopes'', LvStrs ss)] (err_of r))) w = (Inr (), w')"
    using assms ss by (auto simp: UpdateUserRole_def split: if_splits)
  from logged_run [OF this] obtain w1 where "run_state (auth_AtomExecute (st_UpdateUserScopes dp u ss)) w = (Inr (), w1)" "adb w' = adb w1"
    by blast
  then obtain v v' where "adb v = adb w" "run_state (st_UpdateUserScopes dp u ss) v = (Inr (), v')" "adb w' = adb v'"
    using txn_update_success by metis
  then have "users_of (adb w') = updated_users dp (us_ID u) (no_user_param\<lparr>ua_Scopes := Some ss\<rparr>) (users_of (adb w))"
    using st_UpdateUser_outcome(1) [of dp u "no_user_param\<lparr>ua_Scopes := Some ss\<rparr>" v] by (auto simp: st_UpdateUserScopes_def)
  with ss that show thesis by blast
qed

lemma role_of_row:
  assumes "RoleToScopes role = Inr ss" "tu_Scopes r = Join ss CHR '',''"
  shows "us_Admin (userD2M r) = (role = ''system_admin'')" "user_GetScopes (userD2M r) = ss"
  using assms by (auto simp: RoleToScopes_def userD2M_def scopesContain_def user_GetScopes_def parse_role_scopes split: if_splits)

lemma role_decides_what_a_user_may_do_facts:
  assumes "run_state (UpdateUserRole dp u role) w = (Inr (), w')"
    and "row \<in> set (users_of (adb w'))" "tu_ID row = us_ID u"
    and "cx_visitor ctx = Some (UserVisitor (userD2M row))" and "run_state (Authorizate dp ctx az) v = (r, v')"
  shows "role = RoleSystemAdmin \<Longrightarrow> r = Inr ()"
    and "role \<noteq> RoleSystemAdmin \<Longrightarrow>
      az_Action az \<in> {ActionUpdate, ActionCreate, ActionDelete, ActionExport, ActionCancel} \<or> az_Feature az \<notin> set system_features \<Longrightarrow> isl r"
proof -
  obtain ss where ss: "RoleToScopes role = Inr ss"
    and us: "users_of (adb w') = updated_users dp (us_ID u) (no_user_param\<lparr>ua_Scopes := Some ss\<rparr>) (users_of (adb w))"
    using UpdateUserRole_success [OF assms(1)] .
  obtain r0 where "row = assign_user dp (userParamM2D (no_user_param\<lparr>ua_Scopes := Some ss\<rparr>)) r0"
    using assms(2,3) us by (auto simp: updated_users_def in_update_where split: if_splits)
  then have "tu_Scopes row = Join ss CHR '',''" by (simp add: assign_sel opt_set_def)
  note role = role_of_row [OF ss this]
  have v: "MustGetVisitor (ad_SkipTokenValidate dp) ctx = Inr (UserVisitor (userD2M row))"
    using assms(4) by (simp add: MustGetVisitor_def)
  show "role = RoleSystemAdmin \<Longrightarrow> r = Inr ()"
    using assms(5) v role(1) by (simp add: Authorizate_def)
  assume ro: "role \<noteq> RoleSystemAdmin" and
    a: "az_Action az \<in> {ActionUpdate, ActionCreate, ActionDelete, ActionExport, ActionCancel} \<or> az_Feature az \<notin> set system_features"
  have "ss = [ScopeSystemReadonly]" using ss ro by (auto simp: RoleToScopes_def split: if_splits)
  then have "\<not> featureGranted (GetScopes (UserVisitor (userD2M row))) (az_Feature az) (az_Action az)"
    using a role(2) by (auto simp: featureGranted_iff readonly_grants IsAllowed_def)
  then show "isl r" using assms(5) v role(1) ro by (auto simp: Authorizate_def)
qed

text \<open>
  C33. A change of a role that succeeds decides what the user may do from then on: an administrator passes every authorization, of
  any feature and product; a read-only administrator passes none that asks for an update, a creation, a deletion, an export or a
  cancellation, and none of a feature outside the table.\<close>

theorem role_decides_what_a_user_may_do:
  assumes "run_state (UpdateUserRole dp u role) w = (Inr (), w')"
    and "row \<in> set (users_of (adb w'))" "tu_ID row = us_ID u"
    and "cx_visitor ctx = Some (UserVisitor (userD2M row))" and "run_state (Authorizate dp ctx az) v = (r, v')"
  shows "if role = RoleSystemAdmin then r = Inr ()
    else az_Action az \<in> {ActionUpdate, ActionCreate, ActionDelete, ActionExport, ActionCancel} \<or> az_Feature az \<notin> set system_features \<longrightarrow> isl r"
  using role_decides_what_a_user_may_do_facts [OF assms] by simp

definition demoted_row :: TUser where
  "demoted_row = admin_row\<lparr>tu_ID := 2, tu_Name := ''ann''\<rparr>"

definition two_users :: auth_world where
  "two_users = seeded_world\<lparr>adb := (adb seeded_world)\<lparr>a_users := \<lparr>rows = [admin_row, demoted_row], next_id = 3\<rparr>\<rparr>\<rparr>"

theorem role_decides_what_a_user_may_do_witness:
  "let w' = snd (run_state (UpdateUserRole example_auth (userD2M demoted_row) ''system_admin_readonly'') two_users);
       row = rows (a_users (adb w')) ! 1;
       ctx = \<lparr>cx_visitor = Some (UserVisitor (userD2M row)), cx_product = None, cx_request = None\<rparr>
   in isl (fst (run_state (Authorizate example_auth ctx (NewFeatureAuthorization ''User'' ActionCreate)) w')) \<and> tu_Name row = ''ann''"
proof -
  let ?m = "UpdateUserRole example_auth (userD2M demoted_row) ''system_admin_readonly''"
  let ?w = "snd (run_state ?m two_users)" and ?row = "demoted_row\<lparr>tu_Scopes := ''SystemReadonly''\<rparr>"
  have ok: "fst (run_state ?m two_users) = Inr ()" by code_simp
  have rs: "rows (a_users (adb ?w)) = [admin_row, ?row]" by code_simp
  have run: "run_state ?m two_users = (Inr (), ?w)" using ok by (metis prod.collapse)
  have i: "?row \<in> set (users_of (adb ?w))" "tu_ID ?row = us_ID (userD2M demoted_row)" by (simp_all add: users_of_def rs)
  let ?ctx = "\<lparr>cx_visitor = Some (UserVisitor (userD2M ?row)), cx_product = None, cx_request = None\<rparr>"
  have c: "cx_visitor ?ctx = Some (UserVisitor (userD2M ?row))" by simp
  have "isl (fst (run_state (Authorizate example_auth ?ctx (NewFeatureAuthorization ''User'' ActionCreate)) ?w))"
    using role_decides_what_a_user_may_do [OF run i c surjective_pairing] by (simp add: NewFeatureAuthorization_def)
  then show ?thesis by (simp add: Let_def rs) (simp add: demoted_row_def)
qed

section \<open>Sessions\<close>

lemma session_run:
  assumes "faults w = []"
  shows "run_state (authTypeSession dp p) w =
    (case first_user (Some (no_user_filter\<lparr>uf_SessionKey := Some (ap_Identify p)\<rparr>)) (adb w) of
       None \<Rightarrow> Inl (ErrAuthenticate ''Session Key Wrong'')
     | Some u \<Rightarrow> if us_SessionKeyCreateAt u + ad_SessionExpireInDay dp * nsDay < a_now w
         then Inl (ErrAuthenticate ''Session Key Expired'') else Inr (UserVisitor u), w)"
  using reads_ok [OF reads_user assms] by (simp add: authTypeSession_def AddDays_days split: option.splits)

lemma session_success:
  assumes "run_state (authTypeSession dp p) w = (Inr v, w')"
  shows "\<exists>row\<in>set (users_of (adb w)). tu_Type row = 0 \<and> tu_Ticket row = ap_Identify p \<and> v = UserVisitor (userD2M row) \<and>
    a_now w \<le> tu_TicketCreatedAt row + ad_SessionExpireInDay dp * nsDay"
proof -
  let ?flt = "Some (no_user_filter\<lparr>uf_SessionKey := Some (ap_Identify p)\<rparr>)"
  obtain ru w1 where f: "run_state (st_FetchUser ?flt) w = (ru, w1)" by fastforce
  obtain u where u: "ru = Inr (Some u)" "v = UserVisitor u" "a_now w \<le> us_SessionKeyCreateAt u + ad_SessionExpireInDay dp * nsDay"
    using assms f reads_frame(2) [OF reads_user f]
    by (auto simp: authTypeSession_def AddDays_days split: sum.splits option.splits if_splits)
  then have "first_user ?flt (adb w) = Some u" using readsD(2) [OF reads_user f] by auto
  from first_user_Some [OF this] u(2,3) show ?thesis unfolding user_rows_by_key by auto
qed

text \<open>The row of a user who has just logged in is the only one with the new key.\<close>

lemma logged_in_row:
  assumes "logged_in dp param row u k w db" "row \<in> set (users_of (adb w))"
  obtains row' where "set (user_rows (Some (no_user_filter\<lparr>uf_SessionKey := Some k\<rparr>)) db) = {row'}" "tu_ID row' = tu_ID row"
    "tu_Name row' = tu_Name row" "tu_TicketCreatedAt row' = ad_time dp (a_now w)"
proof -
  obtain mig n where m: "verified dp param row u mig" "key_free k (adb w)"
    "db = set_users (updated_users dp (tu_ID row) (session_param k (a_now w) mig u) (users_of (adb w))) (adb w)"
    "uniq_users (updated_users dp (tu_ID row) (session_param k (a_now w) mig u) (users_of (adb w)))"
    using assms(1) unfolding logged_in_def by (elim exE conjE) (rule that)
  let ?p = "session_param k (a_now w) mig u"
  let ?us = "updated_users dp (tu_ID row) ?p (users_of (adb w))" and ?row = "assign_user dp (userParamM2D ?p) row"
  have sel: "tu_ID ?row = tu_ID row" "tu_Name ?row = tu_Name row" "tu_Type ?row = 0" "tu_Ticket ?row = k"
    "tu_TicketCreatedAt ?row = ad_time dp (a_now w)"
    by (simp_all add: assign_sel session_param_def no_user_param_def opt_set_def)
  have mem: "?row \<in> set ?us" using assms(2) by (auto simp: updated_users_def in_update_where)
  have "r = ?row" if r: "r \<in> set ?us" "tu_Type r = 0" "tu_Ticket r = k" for r
  proof -
    obtain x where x: "x \<in> set (users_of (adb w))" "r = (if tu_ID x = tu_ID row then assign_user dp (userParamM2D ?p) x else x)"
      using r(1) by (auto simp: updated_users_def in_update_where)
    then have "tu_ID r = tu_ID row" using r(2,3) m(2) by (cases "tu_ID x = tu_ID row") (simp_all add: assign_sel key_free_def)
    then show ?thesis using uniq_ids [OF m(4) r(1) mem] sel(1) by simp
  qed
  then have "set (user_rows (Some (no_user_filter\<lparr>uf_SessionKey := Some k\<rparr>)) db) = {?row}"
    unfolding user_rows_by_key m(3) users_of_set using mem sel by blast
  then show thesis using that sel by blast
qed

text \<open>
  C34. The session of a login: after a login that succeeded, whatever failed on its way, and as long as no operation has changed the tables
  since (another login of the user, a logout or a change of the password ends the session earlier), a check of the key that the login
  returned, in which no call fails, finds that user until the configured number of days of 24 hours after the stored time of the login
  has passed, and answers that the key has expired from then on.\<close>

theorem login_opens_a_session:
  assumes "authTypePassword dp param w = Some (Inr v, w')" and "adb w2 = adb w'" "faults w2 = []"
  shows "\<exists>u u'. v = UserVisitor u \<and> us_Name u = ap_Identify param \<and> us_ID u' = us_ID u \<and> us_Name u' = us_Name u \<and>
    fst (run_state (authTypeSession dp \<lparr>ap_Type = ''Session'', ap_Identify = us_SessionKey u, ap_Extend = []\<rparr>) w2) =
      (if ad_time dp (a_now w) + ad_SessionExpireInDay dp * nsDay < a_now w2
       then Inl (ErrAuthenticate ''Session Key Expired'') else Inr (UserVisitor u'))"
proof -
  obtain row u k where row: "row \<in> set (users_of (adb w))" and l: "logged_in dp param row u k w (adb w')"
    and v: "v = UserVisitor (u\<lparr>us_SessionKey := k\<rparr>)" using login_effect [OF assms(1)] by auto
  obtain mig where ver: "verified dp param row u mig" using l unfolding logged_in_def by blast
  obtain row' where one: "set (user_rows (Some (no_user_filter\<lparr>uf_SessionKey := Some k\<rparr>)) (adb w')) = {row'}" and
    r': "tu_ID row' = tu_ID row" "tu_Name row' = tu_Name row" "tu_TicketCreatedAt row' = ad_time dp (a_now w)"
    using logged_in_row [OF l row] .
  have f: "first_user (Some (no_user_filter\<lparr>uf_SessionKey := Some k\<rparr>)) (adb w2) = Some (userD2M row')"
    using first_user_unique [OF one] assms(2) by simp
  have n: "us_Name u = ap_Identify param" "us_Name u = tu_Name row" "us_ID u = tu_ID row"
    using verified_id [OF ver] ver by (auto simp: verified_def)
  show ?thesis
    unfolding session_run [OF assms(3)] using v n r' f
    by (intro exI [of _ "u\<lparr>us_SessionKey := k\<rparr>"] exI [of _ "userD2M row'"]) simp
qed

definition admin_login :: AuthenticateParam where
  "admin_login = \<lparr>ap_Type = ''Password'', ap_Identify = ''admin'', ap_Extend = ''sesame00''\<rparr>"

lemma example_keys: "session_key_of example_auth n = Inr (URLEncodeToString (replicate 14 0 @ [of_nat n]))"
  by (simp add: session_key_of_def example_auth_def example_crypto_def)

lemma example_login:
  "\<exists>w'. authTypePassword example_auth admin_login seeded_world = Some (Inr (UserVisitor ((userD2M admin_row)\<lparr>us_SessionKey := ''AAAAAAAAAAAAAAAAAAAA''\<rparr>)), w')"
proof -
  have v: "run_state (verify_password example_auth admin_login) seeded_world = (Inr (userD2M admin_row, False), seeded_world)"
    by code_simp
  have k: "run_state (sessionKeyFactory example_auth) seeded_world = (Inr ''AAAAAAAAAAAAAAAAAAAA'', seeded_world\<lparr>a_draws := 1\<rparr>)"
    by code_simp
  have f: "run_state (st_FetchUser (Some (no_user_filter\<lparr>uf_SessionKey := Some ''AAAAAAAAAAAAAAAAAAAA''\<rparr>))) (seeded_world\<lparr>a_draws := 1\<rparr>) =
      (Inr None, seeded_world\<lparr>a_draws := 1\<rparr>)"
    by code_simp
  let ?m = "bindE (st_UpdateUser example_auth (userD2M admin_row) (no_user_param
      \<lparr>ua_SessionKey := Some ''AAAAAAAAAAAAAAAAAAAA'', ua_SessionKeyCreateAt := Some (a_now (seeded_world\<lparr>a_draws := 1\<rparr>)),
       ua_Password := (if False then Some (us_Password (userD2M admin_row)) else None)\<rparr>)) (\<lambda>_.
      returnE (UserVisitor ((userD2M admin_row)\<lparr>us_SessionKey := ''AAAAAAAAAAAAAAAAAAAA''\<rparr>)))"
  have u: "fst (run_state ?m (seeded_world\<lparr>a_draws := 1\<rparr>)) = Inr (UserVisitor ((userD2M admin_row)\<lparr>us_SessionKey := ''AAAAAAAAAAAAAAAAAAAA''\<rparr>)) \<and>
      faults (snd (run_state ?m (seeded_world\<lparr>a_draws := 1\<rparr>))) = []"
    by code_simp
  have fs: "fresh_session example_auth (userD2M admin_row) False seeded_world = Some (run_state ?m (seeded_world\<lparr>a_draws := 1\<rparr>))"
    using k f by (simp add: fresh_session.simps [of example_auth "userD2M admin_row" False seeded_world])
  then have b: "password_body example_auth admin_login seeded_world = Some (run_state ?m (seeded_world\<lparr>a_draws := 1\<rparr>))"
    by (simp add: password_body_def v)
  obtain r w1 where rw: "run_state ?m (seeded_world\<lparr>a_draws := 1\<rparr>) = (r, w1)" by fastforce
  have fl: "faults seeded_world = []" by (simp add: seeded_world_def)
  have "run_state (auth_AtomExecute (State (\<lambda>_. (r, w1)))) seeded_world = (r, w1)"
    using auth_txn.txn_ok [of seeded_world "State (\<lambda>_. (r, w1))"] u fl rw by (auto simp: auth_AtomExecute_def)
  then show ?thesis
    using b fl rw u by (auto simp: authTypePassword_def looping_txn_def)
qed

theorem login_opens_a_session_witness:
  "\<exists>(w' :: auth_world) (u' :: User). us_Name u' = ''admin'' \<and>
    fst (run_state (authTypeSession example_auth \<lparr>ap_Type = ''Session'', ap_Identify = ''AAAAAAAAAAAAAAAAAAAA'', ap_Extend = []\<rparr>)
      (seeded_world\<lparr>adb := adb w', a_now := today + 7 * nsDay\<rparr>)) = Inr (UserVisitor u') \<and>
    fst (run_state (authTypeSession example_auth \<lparr>ap_Type = ''Session'', ap_Identify = ''AAAAAAAAAAAAAAAAAAAA'', ap_Extend = []\<rparr>)
      (seeded_world\<lparr>adb := adb w', a_now := today + 7 * nsDay + 1\<rparr>)) = Inl (ErrAuthenticate ''Session Key Expired'')"
proof -
  obtain w' where w': "authTypePassword example_auth admin_login seeded_world =
      Some (Inr (UserVisitor ((userD2M admin_row)\<lparr>us_SessionKey := ''AAAAAAAAAAAAAAAAAAAA''\<rparr>)), w')" using example_login by blast
  let ?w2 = "\<lambda>t. seeded_world\<lparr>adb := adb w', a_now := t\<rparr>"
  have e: "adb (?w2 t) = adb w'" "faults (?w2 t) = []" for t by (simp_all add: seeded_world_def)
  note l = login_opens_a_session [OF w' e]
  have n: "a_now seeded_world = today" "ad_time example_auth = id" "ad_SessionExpireInDay example_auth = 7"
    by (simp_all add: seeded_world_def example_auth_def)
  show ?thesis
    using l [of "today + 7 * nsDay"] l [of "today + 7 * nsDay + 1"]
    by (intro exI [of _ w']) (auto simp: n admin_login_def)
qed

text \<open>
  C35. A login returns, though its search for an unused session key has no bound: if the draws that follow give different keys,
  as many as there are rows and two more, whatever calls fail.\<close>

theorem login_terminates:
  assumes "distinct (map (session_key_of dp) [a_draws w..<a_draws w + length (rows (a_users (adb w))) + 2])"
  shows "\<exists>r w'. Authenticate dp param w = Some (r, w')"
proof -
  obtain y where "authTypePassword dp param w = Some y" using login_returns [of dp w param] assms by (auto simp: users_of_def)
  then show ?thesis by (cases y) (auto simp: Authenticate_def)
qed

theorem login_terminates_witness:
  "\<exists>r w'. Authenticate example_auth admin_login (seeded_world\<lparr>faults := [NoFault, FaultAfter]\<rparr>) = Some (r, w')"
proof (rule login_terminates)
  have d: "distinct (map (session_key_of example_auth) [0, 1, 2])" by code_simp
  have "[0..<3] = [0, 1, 2 :: nat]" by (simp add: upt_rec)
  then show "distinct (map (session_key_of example_auth) [a_draws (seeded_world\<lparr>faults := [NoFault, FaultAfter]\<rparr>)..<
      a_draws (seeded_world\<lparr>faults := [NoFault, FaultAfter]\<rparr>) + length (rows (a_users (adb (seeded_world\<lparr>faults := [NoFault, FaultAfter]\<rparr>)))) + 2])"
    using d by (simp add: seeded_world_def numeral_2_eq_2)
qed

section \<open>Passwords\<close>

lemma run_set_oldUser: "run_state (set_oldUser u) w = (Inr (), w\<lparr>a_oldUser := u\<rparr>)"
  by (simp add: set_oldUser_def)

lemma UpdateUserPassword_success:
  assumes "run_state (UpdateUserPassword dp pcd) w = (Inr (), w')"
  obtains row n h where "row \<in> set (users_of (adb w))" "tu_Type row = 0" "tu_Name row = pc_UserName pcd"
    "passwordCheck (pc_Password pcd) = Inr ()" "HashPassword (ad_crypto dp) n (pc_Password pcd) = Inr h"
    "pc_OldPassword pcd \<noteq> [] \<longrightarrow> fst (CheckPassword (ad_crypto dp) (tu_Password row) (pc_OldPassword pcd))"
    "users_of (adb w') = updated_users dp (tu_ID row) (cleared_session\<lparr>ua_Password := Some h\<rparr>) (users_of (adb w))"
    "uniq_users (users_of (adb w'))"
proof -
  let ?flt = "no_user_filter\<lparr>uf_Name := Some (pc_UserName pcd)\<rparr>"
  let ?chk = "\<lambda>user. if pc_OldPassword pcd \<noteq> [] \<and> \<not> fst (CheckPassword (ad_crypto dp) (us_Password user) (pc_OldPassword pcd))
     then Inl (ErrParam ''Invalid Password'') else Inr ()"
  let ?w1 = "w\<lparr>a_draws := a_draws w + 1\<rparr>"
  have pc: "passwordCheck (pc_Password pcd) = Inr ()"
    using assms by (cases "passwordCheck (pc_Password pcd)") (auto simp: UpdateUserPassword_def)
  obtain h where h: "HashPassword (ad_crypto dp) (a_draws w) (pc_Password pcd) = Inr h"
    using assms pc by (cases "HashPassword (ad_crypto dp) (a_draws w) (pc_Password pcd)") (auto simp: UpdateUserPassword_def run_hash_password)
  let ?d = "cleared_session\<lparr>ua_Password := Some h\<rparr>"
  have "run_state (logged (updateUser dp ?flt ?chk ?d) (\<lambda>r w. recordUserOperation dp ''update'' (old_id w) (old_name (pc_UserName pcd) w) []
      (userToMap (a_oldUser w)) (userParamToMap ?d) (err_of r))) ?w1 = (Inr (), w')"
    using assms pc h by (simp add: UpdateUserPassword_def run_hash_password Let_def)
  from logged_run [OF this] obtain w2 where w2: "run_state (updateUser dp ?flt ?chk ?d) ?w1 = (Inr (), w2)" "adb w' = adb w2" by blast
  let ?body = "bindE (st_FetchUser (Some ?flt)) (\<lambda>user. case user of None \<Rightarrow> throwE (ErrRecordNotExist ''User'') | Some u \<Rightarrow>
     bindE (set_oldUser (Some u)) (\<lambda>_. bindE (lift_err (?chk u)) (\<lambda>_. st_UpdateUser dp u ?d)))"
  have "run_state (auth_AtomExecute ?body) (?w1\<lparr>a_oldUser := None\<rparr>) = (Inr (), w2)"
    using w2(1) unfolding updateUser_def with_oldUser_def by (simp add: run_set_oldUser)
  from txn_update_success [OF this] obtain v v' where v: "adb v = adb (?w1\<lparr>a_oldUser := None\<rparr>)" "run_state ?body v = (Inr (), v')" "adb w2 = adb v'"
    by blast
  have v0: "adb v = adb w" using v(1) by simp
  obtain ru v1 where f: "run_state (st_FetchUser (Some ?flt)) v = (ru, v1)" by fastforce
  obtain u where u: "ru = Inr (Some u)" "?chk u = Inr ()" "run_state (st_UpdateUser dp u ?d) (v1\<lparr>a_oldUser := Some u\<rparr>) = (Inr (), v')"
  proof (cases ru)
    case (Inr x)
    then obtain u where x: "ru = Inr (Some u)" using v(2) f by (cases x) auto
    then have "run_state (bindE (lift_err (?chk u)) (\<lambda>_. st_UpdateUser dp u ?d)) (v1\<lparr>a_oldUser := Some u\<rparr>) = (Inr (), v')"
      using v(2) f by (simp add: run_set_oldUser)
    then show ?thesis using that [OF x] by (cases "?chk u") auto
  qed (use v(2) f in simp)
  have "first_user (Some ?flt) (adb w) = Some u" using readsD(2) [OF reads_user f] u(1) v0 by auto
  from first_user_Some [OF this] obtain row where row: "row \<in> set (users_of (adb w))" "tu_Type row = 0" "tu_Name row = pc_UserName pcd"
    "u = userD2M row" unfolding user_rows_by_name by auto
  have "adb v1 = adb w" using reads_frame(1) [OF reads_user f] v0 by simp
  then have out: "adb v' = set_users (updated_users dp (tu_ID row) ?d (users_of (adb w))) (adb w)"
      "uniq_users (updated_users dp (tu_ID row) ?d (users_of (adb w)))"
    using st_UpdateUser_outcome(1) [OF u(3)] row(4) by auto
  show thesis
  proof (rule that [OF row(1-3) pc h])
    show "pc_OldPassword pcd \<noteq> [] \<longrightarrow> fst (CheckPassword (ad_crypto dp) (tu_Password row) (pc_OldPassword pcd))"
      using u(2) row(4) by (auto split: if_splits)
  qed (use out w2(2) v(3) in simp_all)
qed

lemma password_change_ends_sessions_facts:
  assumes "bcrypt_ok (ad_crypto dp)" and "run_state (UpdateUserPassword dp pcd) w = (Inr (), w')"
  shows "\<exists>row\<in>set (users_of (adb w)). \<exists>row'\<in>set (users_of (adb w')).
      tu_Type row = 0 \<and> tu_Name row = pc_UserName pcd \<and> tu_ID row' = tu_ID row \<and> tu_Name row' = tu_Name row \<and>
      (pc_OldPassword pcd \<noteq> [] \<longrightarrow> fst (CheckPassword (ad_crypto dp) (tu_Password row) (pc_OldPassword pcd))) \<and>
      8 \<le> length (pc_Password pcd) \<and> length (pc_Password pcd) \<le> 72 \<and>
      IsHashedPassword (tu_Password row') \<and> CheckPassword (ad_crypto dp) (tu_Password row') (pc_Password pcd) = (True, False) \<and>
      (\<forall>r. tu_ID r \<noteq> tu_ID row \<longrightarrow> (r \<in> set (users_of (adb w'))) = (r \<in> set (users_of (adb w))))"
    and "adb w2 = adb w' \<Longrightarrow> ad_time dp clearedAt + ad_SessionExpireInDay dp * nsDay < a_now w2 \<Longrightarrow>
      run_state (authTypeSession dp p) w2 = (Inr (UserVisitor u), w3) \<Longrightarrow> us_Name u \<noteq> pc_UserName pcd"
proof -
  obtain row n h where row: "row \<in> set (users_of (adb w))" "tu_Type row = 0" "tu_Name row = pc_UserName pcd"
    and pc: "passwordCheck (pc_Password pcd) = Inr ()" and h: "HashPassword (ad_crypto dp) n (pc_Password pcd) = Inr h"
    and old: "pc_OldPassword pcd \<noteq> [] \<longrightarrow> fst (CheckPassword (ad_crypto dp) (tu_Password row) (pc_OldPassword pcd))"
    and us: "users_of (adb w') = updated_users dp (tu_ID row) (cleared_session\<lparr>ua_Password := Some h\<rparr>) (users_of (adb w))"
    and uq: "uniq_users (users_of (adb w'))"
    using UpdateUserPassword_success [OF assms(2)] .
  let ?row = "assign_user dp (userParamM2D (cleared_session\<lparr>ua_Password := Some h\<rparr>)) row"
  have sel: "tu_ID ?row = tu_ID row" "tu_Name ?row = tu_Name row" "tu_Type ?row = 0" "tu_Ticket ?row = []" "tu_Password ?row = h"
    "tu_TicketCreatedAt ?row = ad_time dp clearedAt"
    by (simp_all add: assign_sel cleared_session_def no_user_param_def opt_set_def)
  have mem: "?row \<in> set (users_of (adb w'))" using row(1) us by (auto simp: updated_users_def in_update_where)
  have len: "8 \<le> length (pc_Password pcd)" "length (pc_Password pcd) \<le> 72" using pc by (auto simp: passwordCheck_def split: if_splits)
  have others: "(r \<in> set (users_of (adb w'))) = (r \<in> set (users_of (adb w)))" if "tu_ID r \<noteq> tu_ID row" for r
    using that us by (auto simp: updated_users_def in_update_where assign_sel)
  show "\<exists>row\<in>set (users_of (adb w)). \<exists>row'\<in>set (users_of (adb w')).
      tu_Type row = 0 \<and> tu_Name row = pc_UserName pcd \<and> tu_ID row' = tu_ID row \<and> tu_Name row' = tu_Name row \<and>
      (pc_OldPassword pcd \<noteq> [] \<longrightarrow> fst (CheckPassword (ad_crypto dp) (tu_Password row) (pc_OldPassword pcd))) \<and>
      8 \<le> length (pc_Password pcd) \<and> length (pc_Password pcd) \<le> 72 \<and>
      IsHashedPassword (tu_Password row') \<and> CheckPassword (ad_crypto dp) (tu_Password row') (pc_Password pcd) = (True, False) \<and>
      (\<forall>r. tu_ID r \<noteq> tu_ID row \<longrightarrow> (r \<in> set (users_of (adb w'))) = (r \<in> set (users_of (adb w))))"
    using row old len others HashPassword_facts(1,3) [OF assms(1) h] sel
    by (intro bexI [OF _ row(1)] bexI [OF _ mem]) simp_all
  assume w2: "adb w2 = adb w'" "ad_time dp clearedAt + ad_SessionExpireInDay dp * nsDay < a_now w2"
    and s: "run_state (authTypeSession dp p) w2 = (Inr (UserVisitor u), w3)"
  obtain r where r: "r \<in> set (users_of (adb w'))" "tu_Type r = 0" "u = userD2M r" "a_now w2 \<le> tu_TicketCreatedAt r + ad_SessionExpireInDay dp * nsDay"
    using session_success [OF s] w2(1) by auto
  show "us_Name u \<noteq> pc_UserName pcd"
  proof
    assume "us_Name u = pc_UserName pcd"
    then have "tu_Name r = tu_Name ?row" "tu_Type r = tu_Type ?row" using r(2,3) row(3) sel by simp_all
    then have "r = ?row" using uq r(1) mem by (auto simp: uniq_users_def distinct_map dest: inj_onD)
    then show False using r(4) sel(6) w2(2) by simp
  qed
qed

text \<open>
  C36. A change of a password that succeeds: the old password was the right one, unless the request left it empty, as the reset by an administrator
  does, which is not checked; the new one has between 8 and 72 bytes, is stored only as its hash and accepted by the next
  login; no other user changes; and as long as the tables are those that the change left, and the clock is past the expiry of the
  time that stands for a cleared session, no session key opens a session of that user, not even the empty one that is stored.\<close>

theorem password_change_ends_sessions:
  assumes "bcrypt_ok (ad_crypto dp)" and "run_state (UpdateUserPassword dp pcd) w = (Inr (), w')"
  shows "(\<exists>row\<in>set (users_of (adb w)). \<exists>row'\<in>set (users_of (adb w')).
      tu_Type row = 0 \<and> tu_Name row = pc_UserName pcd \<and> tu_ID row' = tu_ID row \<and> tu_Name row' = tu_Name row \<and>
      (pc_OldPassword pcd \<noteq> [] \<longrightarrow> fst (CheckPassword (ad_crypto dp) (tu_Password row) (pc_OldPassword pcd))) \<and>
      8 \<le> length (pc_Password pcd) \<and> length (pc_Password pcd) \<le> 72 \<and>
      IsHashedPassword (tu_Password row') \<and> CheckPassword (ad_crypto dp) (tu_Password row') (pc_Password pcd) = (True, False) \<and>
      (\<forall>r. tu_ID r \<noteq> tu_ID row \<longrightarrow> (r \<in> set (users_of (adb w'))) = (r \<in> set (users_of (adb w))))) \<and>
    (\<forall>w2 p u w3. adb w2 = adb w' \<and> ad_time dp clearedAt + ad_SessionExpireInDay dp * nsDay < a_now w2 \<and>
      run_state (authTypeSession dp p) w2 = (Inr (UserVisitor u), w3) \<longrightarrow> us_Name u \<noteq> pc_UserName pcd)"
  by (intro conjI allI impI, rule password_change_ends_sessions_facts(1) [OF assms])
    (elim conjE, rule password_change_ends_sessions_facts(2) [OF assms])

definition admin_change :: PasswordChangeData where
  "admin_change = \<lparr>pc_UserName = ''admin'', pc_OldPassword = ''sesame00'', pc_Password = ''open-up-9''\<rparr>"

lemma example_bcrypt: "bcrypt_ok (ad_crypto example_auth)"
  by (simp add: bcrypt_ok_def example_auth_def example_crypto_def HasPrefix_def)

theorem password_change_ends_sessions_witness:
  "(\<exists>row'\<in>set (users_of (adb (snd (run_state (UpdateUserPassword example_auth admin_change) seeded_world)))).
      tu_Name row' = ''admin'' \<and> CheckPassword example_crypto (tu_Password row') ''open-up-9'' = (True, False)) \<and>
   fst (CheckPassword example_crypto (tu_Password admin_row) ''sesame00'')"
proof -
  let ?m = "UpdateUserPassword example_auth admin_change"
  have "fst (run_state ?m seeded_world) = Inr ()" by code_simp
  then have run: "run_state ?m seeded_world = (Inr (), snd (run_state ?m seeded_world))" by (metis prod.collapse)
  have us: "users_of (adb seeded_world) = [admin_row]" by (simp add: seeded_world_def users_of_def)
  show ?thesis
    using conjunct1 [OF password_change_ends_sessions [OF example_bcrypt run]]
    by (auto simp: us admin_change_def example_auth_def admin_row_def)
qed

section \<open>Histories\<close>

text \<open>\<^verbatim>\<open>rand.Read\<close> fills the buffer it is given, or fails.\<close>

definition rand_ok :: "auth_crypto \<Rightarrow> bool" where
  "rand_ok ac \<longleftrightarrow> (\<forall>n l bs. ac_random ac n l = Some bs \<longrightarrow> length bs = l)"

lemma EncodeToString_empty: "EncodeToString bs = [] \<longleftrightarrow> bs = []"
  by (cases bs rule: EncodeToString.cases) simp_all

lemma keys_not_empty: "rand_ok (ad_crypto dp) \<Longrightarrow> session_key_of dp n = Inr k \<Longrightarrow> k \<noteq> []"
  by (fastforce simp: session_key_of_def rand_ok_def URLEncodeToString_def EncodeToString_empty split: option.splits)

lemma keys_identify_one_holder_facts:
  assumes "auth_reach dp w" "rand_ok (ad_crypto dp)"
  shows "r \<in> set (users_of (adb w)) \<Longrightarrow> s \<in> set (users_of (adb w)) \<Longrightarrow> tu_Type r = tu_Type s \<Longrightarrow> tu_Ticket r = tu_Ticket s \<Longrightarrow>
      tu_Type r = 1 \<or> tu_Ticket r \<noteq> [] \<Longrightarrow> r = s"
    and "ad_time dp clearedAt + ad_SessionExpireInDay dp * nsDay < a_now w \<Longrightarrow>
      defaultTicketAt + ad_SessionExpireInDay dp * nsDay < a_now w \<Longrightarrow> ap_Identify p = [] \<Longrightarrow>
      isl (fst (run_state (authTypeSession dp p) w))"
proof -
  have ok: "keys_ok dp (adb w)" using reach_keeps [OF assms(1)] keys_not_empty [OF assms(2)] by blast
  show "r \<in> set (users_of (adb w)) \<Longrightarrow> s \<in> set (users_of (adb w)) \<Longrightarrow> tu_Type r = tu_Type s \<Longrightarrow> tu_Ticket r = tu_Ticket s \<Longrightarrow>
      tu_Type r = 1 \<or> tu_Ticket r \<noteq> [] \<Longrightarrow> r = s"
    using ok unfolding keys_ok_def by force
  assume t: "ad_time dp clearedAt + ad_SessionExpireInDay dp * nsDay < a_now w"
    "defaultTicketAt + ad_SessionExpireInDay dp * nsDay < a_now w" and e: "ap_Identify p = []"
  obtain x w' where run: "run_state (authTypeSession dp p) w = (x, w')" by fastforce
  show "isl (fst (run_state (authTypeSession dp p) w))"
  proof (cases x)
    case (Inr v)
    then obtain row where "row \<in> set (users_of (adb w))" "tu_Type row = 0" "tu_Ticket row = []"
      "a_now w \<le> tu_TicketCreatedAt row + ad_SessionExpireInDay dp * nsDay"
      using session_success [of dp p w v w'] run e by auto
    then show ?thesis using ok t by (auto simp: keys_ok_def)
  qed (use run in simp)
qed

text \<open>
  C37. Whatever sequence of logins, logouts and changes of users, roles, passwords, tokens, products and bindings has run on the
  tables of the schema, with whatever failures: a session key belongs to at most one user and a token to at most one token row, so that
  what a request presents identifies one visitor; and the empty key, which all users without a session share, opens no session.\<close>

theorem keys_identify_one_holder:
  assumes "auth_reach dp w" "rand_ok (ad_crypto dp)"
  shows "(\<forall>r\<in>set (users_of (adb w)). \<forall>s\<in>set (users_of (adb w)).
      tu_Type r = tu_Type s \<and> tu_Ticket r = tu_Ticket s \<and> (tu_Type r = 1 \<or> tu_Ticket r \<noteq> []) \<longrightarrow> r = s) \<and>
    (ad_time dp clearedAt + ad_SessionExpireInDay dp * nsDay < a_now w \<and>
      defaultTicketAt + ad_SessionExpireInDay dp * nsDay < a_now w \<and> ap_Identify p = [] \<longrightarrow>
      isl (fst (run_state (authTypeSession dp p) w)))"
  by (intro conjI ballI impI; elim conjE; rule keys_identify_one_holder_facts [OF assms]; assumption)

definition filled_auth :: auth_deps where
  "filled_auth = example_auth\<lparr>ad_crypto := example_crypto\<lparr>ac_random := (\<lambda>n l. Some (replicate l (of_nat n)))\<rparr>\<rparr>"

text \<open>The administrator creates a user and gives it another password.\<close>

definition example_calls :: "auth_call list" where
  "example_calls =
     [NewUser ''ann'' ''password1'' ''system_admin_readonly'',
      ChangePassword \<lparr>cx_visitor = Some (UserVisitor (userD2M admin_row)), cx_product = None, cx_request = None\<rparr> ''ann'' [] ''password2'']"

fun run_calls :: "auth_deps \<Rightarrow> auth_call list \<Rightarrow> auth_world \<Rightarrow> auth_world option" where
  "run_calls dp [] w = Some w"
| "run_calls dp (c # cs) w = (case run_call dp c w of None \<Rightarrow> None | Some w' \<Rightarrow> run_calls dp cs w')"

lemma reach_calls: "auth_reach dp w \<Longrightarrow> run_calls dp cs w = Some w' \<Longrightarrow> auth_reach dp w'"
  by (induction cs arbitrary: w) (auto split: option.splits intro: reach_call)

lemma seeded_reach: "auth_reach dp seeded_world"
  by (rule reach_start) (simp add: seeded_def seeded_world_def users_of_def admin_row_def)

lemma example_history:
  "\<exists>w. run_calls filled_auth example_calls seeded_world = Some w \<and> map tu_Name (users_of (adb w)) = [''admin'', ''ann''] \<and>
     map le_Action (a_log w) = [''create'', ''update''] \<and> a_now w = today"
proof -
  have "map_option (\<lambda>w. (map tu_Name (users_of (adb w)), map le_Action (a_log w), a_now w)) (run_calls filled_auth example_calls seeded_world) =
      Some ([''admin'', ''ann''], [''create'', ''update''], today)"
    by code_simp
  then show ?thesis by auto
qed

theorem keys_identify_one_holder_witness:
  "\<exists>w :: auth_world. map tu_Name (users_of (adb w)) = [''admin'', ''ann''] \<and>
     isl (fst (run_state (authTypeSession filled_auth \<lparr>ap_Type = ''Session'', ap_Identify = [], ap_Extend = []\<rparr>) w))"
proof -
  obtain w where w: "run_calls filled_auth example_calls seeded_world = Some w"
    "map tu_Name (users_of (adb w)) = [''admin'', ''ann'']" "a_now w = today" using example_history by (elim exE conjE) (rule that)
  have rd: "rand_ok (ad_crypto filled_auth)" by (simp add: rand_ok_def filled_auth_def)
  have "ad_time filled_auth clearedAt + ad_SessionExpireInDay filled_auth * nsDay < a_now w"
    "defaultTicketAt + ad_SessionExpireInDay filled_auth * nsDay < a_now w"
    by (simp_all add: w(3) today_def clearedAt_def defaultTicketAt_def filled_auth_def example_auth_def nsDay_def nsSecond_def)
  then have "isl (fst (run_state (authTypeSession filled_auth \<lparr>ap_Type = ''Session'', ap_Identify = [], ap_Extend = []\<rparr>) w))"
    using keys_identify_one_holder [OF reach_calls [OF seeded_reach w(1)] rd, of "\<lparr>ap_Type = ''Session'', ap_Identify = [], ap_Extend = []\<rparr>"] by simp
  then show ?thesis using w(2) by (intro exI conjI)
qed

end
