(* ===== verification/Validate.thy ===== *)
theory Validate
  imports EppConfig OperLog OwnerData "HOL-Library.Sublist"
begin

text \<open>
  The checks of request fields in \<^verbatim>\<open>lib/validate/validate.go\<close>: hosts, names, passwords, descriptions, keys, quota plans and
  rate limits. A check returns \<open>Inr ()\<close> or the parameter error of the code, without the values that the messages quote.

  The regular expressions are anchored at both ends and describe sets of bytes. Loops over runes look for code points whose
  encodings cannot overlap others, so they are searches in the text; a text is turned into runes where the code does so.
\<close>

section \<open>Sequences of checks\<close>

type_synonym check = "error + unit"

text \<open>\<^verbatim>\<open>if err := a; err != nil { return err }\<close> and then the rest.\<close>

definition seqE :: "check \<Rightarrow> check \<Rightarrow> check" where
  "seqE a b = (case a of Inl e \<Rightarrow> Inl e | Inr _ \<Rightarrow> b)"

definition fail_if :: "bool \<Rightarrow> string \<Rightarrow> check" where
  "fail_if b msg = (if b then Inl (ErrParam msg) else Inr ())"

definition given :: "'a option \<Rightarrow> ('a \<Rightarrow> check) \<Rightarrow> check" where
  "given v f = (case v of None \<Rightarrow> Inr () | Some x \<Rightarrow> f x)"

text \<open>\<^verbatim>\<open>xerror.WrapParamErrorWithMsg("...: %v", err)\<close>, and the panic of a nil pointer.\<close>

definition wrapParam :: "string \<Rightarrow> check \<Rightarrow> check" where
  "wrapParam msg r = (case r of Inl e \<Rightarrow> Inl (ErrParam msg) | Inr _ \<Rightarrow> Inr ())"

definition nil_deref :: error where
  "nil_deref = ErrMsg ''panic: nil pointer dereference''"

lemma seqE_ok [simp]: "seqE a b = Inr () \<longleftrightarrow> a = Inr () \<and> b = Inr ()"
  by (auto simp: seqE_def split: sum.splits)

lemma fail_if_ok [simp]: "fail_if b msg = Inr () \<longleftrightarrow> \<not> b"
  by (simp add: fail_if_def)

lemma given_ok [simp]: "given v f = Inr () \<longleftrightarrow> (\<forall>x. v = Some x \<longrightarrow> f x = Inr ())"
  by (auto simp: given_def split: option.splits)

lemma wrapParam_ok [simp]: "wrapParam msg r = Inr () \<longleftrightarrow> r = Inr ()"
  by (auto simp: wrapParam_def split: sum.splits)

text \<open>A value that a loop has met before is refused: \<open>seen\<close> is the set of the map, \<open>f\<close> the rest of the body.\<close>

fun check_each :: "('s \<Rightarrow> 'a \<Rightarrow> error + 's) \<Rightarrow> 's \<Rightarrow> 'a list \<Rightarrow> error + 's" where
  "check_each f s [] = Inr s"
| "check_each f s (x # xs) = (case f s x of Inl e \<Rightarrow> Inl e | Inr s' \<Rightarrow> check_each f s' xs)"

section \<open>Hosts and networks\<close>

definition validate_Hostname :: "string \<Rightarrow> check" where
  "validate_Hostname s =
     seqE (fail_if (s = []) ''hostname is required'')
    (seqE (fail_if (length s > 255) ''hostname length must be <= 255'')
    (seqE (fail_if (length s < 2) ''hostname length must be >= 2'')
      (if ParseIP s then Inr ()
       else fail_if (\<not> list_all hostnameLabel (Split s CHR ''.'')) ''hostname contains invalid label'')))"

definition validate_IPAddress :: "string \<Rightarrow> check" where
  "validate_IPAddress s = fail_if (\<not> ParseIP s) ''invalid IP address''"

definition validate_Port :: "int \<Rightarrow> check" where
  "validate_Port i = fail_if (i < 1 \<or> i > 65535) ''port must be between 1 and 65535''"

text \<open>
  \<^verbatim>\<open>net.ParseCIDR\<close>: an address without a zone, a slash, and decimal digits up to the width of the address.
\<close>

definition ParseCIDR :: "string \<Rightarrow> bool" where
  "ParseCIDR s = (case Cut s CHR ''/'' of
       None \<Rightarrow> False
     | Some (addr, bits) \<Rightarrow> ParseIP addr \<and> bits \<noteq> [] \<and>
         (case parse_digits 0 bits of None \<Rightarrow> False | Some n \<Rightarrow> n \<le> (if CHR '':'' \<in> set addr then 128 else 32)))"

definition validate_CIDR :: "string \<Rightarrow> check" where
  "validate_CIDR s = (if s = ''*'' then Inr () else fail_if (\<not> ParseCIDR s) ''invalid CIDR'')"

definition validate_AIModelFormat :: "string \<Rightarrow> check" where
  "validate_AIModelFormat s =
     (if s = ''*'' then Inr () else fail_if (length s = 0) ''model name cannot be empty'')"

section \<open>Characters\<close>

text \<open>The control characters are single bytes; no byte of a longer encoding is one.\<close>

definition validate_NoControlChars :: "string \<Rightarrow> check" where
  "validate_NoControlChars s =
     fail_if (\<exists>c\<in>set s. (of_char c :: nat) < 32 \<or> of_char c = (127 :: nat)) ''string contains control characters''"

text \<open>\<^verbatim>\<open>unicode.IsSpace(rune(b))\<close> for a byte reads it as a Latin-1 code point.\<close>

definition latin1_space :: "char \<Rightarrow> bool" where
  "latin1_space c = (c \<in> {CHR 0x09, CHR 0x0A, CHR 0x0B, CHR 0x0C, CHR 0x0D, CHR 0x20, CHR 0x85, CHR 0xA0})"

definition validate_NoLeadingTrailingSpace :: "string \<Rightarrow> check" where
  "validate_NoLeadingTrailingSpace s =
     (if s = [] then Inr ()
      else fail_if (latin1_space (hd s) \<or> latin1_space (last s)) ''string cannot have leading or trailing whitespace'')"

text \<open>
  A loop that looks for a white-space rune. An encoding of white space starts with a byte that no other encoding has inside,
  so it is met at the start of a rune wherever it stands.
\<close>

definition has_space :: "string \<Rightarrow> bool" where
  "has_space s = (\<exists>t\<in>set (suffixes s). starting_space utf8_spaces t \<noteq> 0)"

definition validate_NoWhitespace :: "string \<Rightarrow> check" where
  "validate_NoWhitespace s = fail_if (has_space s) ''string cannot contain whitespace''"

section \<open>Names\<close>

definition validateName :: "string \<Rightarrow> nat \<Rightarrow> nat \<Rightarrow> check" where
  "validateName s minLen maxLen = fail_if (length s < minLen \<or> length s > maxLen) ''length out of range''"

definition validateNamePattern :: "string \<Rightarrow> (string \<Rightarrow> bool) \<Rightarrow> check" where
  "validateNamePattern s re = fail_if (\<not> re s) ''contains invalid characters''"

definition nameToken :: "string \<Rightarrow> bool" where
  "nameToken s = (s \<noteq> [] \<and> list_all (\<lambda>c. is_alnum c \<or> c \<in> set ''_.-'') s)"

definition is_lower_digit :: "char \<Rightarrow> bool" where
  "is_lower_digit c \<longleftrightarrow> (let n = (of_char c :: nat) in 48 \<le> n \<and> n \<le> 57 \<or> 97 \<le> n \<and> n \<le> 122)"

definition entityNameToken :: "string \<Rightarrow> bool" where
  "entityNameToken s = (s \<noteq> [] \<and> list_all (\<lambda>c. is_lower_digit c \<or> c \<in> set ''_@-'') s)"

definition entityTypeToken :: "string \<Rightarrow> bool" where
  "entityTypeToken s = (s \<noteq> [] \<and> list_all (\<lambda>c. is_lower_digit c \<or> c \<in> set ''_-'') s)"

definition rateLimitNameToken :: "string \<Rightarrow> bool" where
  "rateLimitNameToken s = (s \<noteq> [] \<and> list_all (\<lambda>c. is_alnum c \<or> c \<in> set ''_-'') s)"

definition edges_in :: "string \<Rightarrow> string \<Rightarrow> bool" where
  "edges_in bad s = (hd s \<in> set bad \<or> last s \<in> set bad)"

definition validateNameEdges :: "string \<Rightarrow> check" where
  "validateNameEdges s = fail_if (edges_in ''.-_'' s) ''cannot start or end with a separator''"

definition userNameFormat :: "string \<Rightarrow> check" where
  "userNameFormat s = seqE (validateName s 1 64) (seqE (validateNamePattern s nameToken) (validateNameEdges s))"

definition reservedUserNames :: "string list" where
  "reservedUserNames = [''admin'', ''root'', ''system'']"

definition reservedTokenNames :: "string list" where
  "reservedTokenNames = [''admin'', ''system'', ''default'']"

definition validate_UserName :: "string \<Rightarrow> check" where
  "validate_UserName s = seqE (userNameFormat s) (fail_if (ToLower s \<in> set reservedUserNames) ''user_name is reserved'')"

definition validate_UserNameRef :: "string \<Rightarrow> check" where
  "validate_UserNameRef s = userNameFormat s"

definition validate_TokenName :: "string \<Rightarrow> check" where
  "validate_TokenName s =
     seqE (validateName s 1 64) (seqE (validateNamePattern s nameToken) (seqE (validateNameEdges s)
       (fail_if (ToLower s \<in> set reservedTokenNames) ''token_name is reserved'')))"

definition validate_ClusterName :: "string \<Rightarrow> check" where
  "validate_ClusterName s = seqE (validateName s 1 64) (seqE (validateNamePattern s nameToken) (validateNameEdges s))"

definition validate_CertName :: "string \<Rightarrow> check" where
  "validate_CertName s = seqE (validateName s 2 64) (seqE (validateNamePattern s nameToken) (validateNameEdges s))"

definition validate_EntityName :: "string \<Rightarrow> check" where
  "validate_EntityName s = seqE (validateName s 1 64) (seqE (validateNamePattern s entityNameToken)
     (fail_if (edges_in ''-_@'' s) ''name cannot start or end with a separator''))"

definition validate_EntityTypeName :: "string \<Rightarrow> check" where
  "validate_EntityTypeName s = seqE (validateName s 1 32) (seqE (validateNamePattern s entityTypeToken)
     (fail_if (edges_in ''-_'' s) ''type_name cannot start or end with a separator''))"

section \<open>Passwords\<close>

text \<open>
  \<^verbatim>\<open>[]rune(s)\<close> by the length of the encoding at the start of a text; a byte that starts none becomes U+FFFD.
\<close>

definition cont_byte :: "nat \<Rightarrow> nat \<Rightarrow> char \<Rightarrow> bool" where
  "cont_byte lo hi c \<longleftrightarrow> lo \<le> of_char c \<and> of_char c \<le> hi"

definition rune_len :: "string \<Rightarrow> nat" where
  "rune_len s =
     (let b = (of_char (hd s) :: nat); follows = (\<lambda>k lo hi. length s \<ge> k \<and> cont_byte lo hi (s ! 1) \<and>
            (\<forall>i\<in>{2..<k}. cont_byte 128 191 (s ! i)))
      in if b < 128 then 1
         else if 194 \<le> b \<and> b \<le> 223 then (if follows 2 128 191 then 2 else 0)
         else if 224 \<le> b \<and> b \<le> 239 then
           (if follows 3 (if b = 224 then 160 else 128) (if b = 237 then 159 else 191) then 3 else 0)
         else if 240 \<le> b \<and> b \<le> 244 then
           (if follows 4 (if b = 240 then 144 else 128) (if b = 244 then 143 else 191) then 4 else 0)
         else 0)"

function runes :: "string \<Rightarrow> string list" where
  "runes s = (if s = [] then []
     else if rune_len s = 0 then [CHR 0xEF, CHR 0xBF, CHR 0xBD] # runes (tl s)
     else take (rune_len s) s # runes (drop (rune_len s) s))"
  by pat_completeness auto
termination
  by (relation "measure length") auto

declare runes.simps [simp del]

definition reverseString :: "string \<Rightarrow> string" where
  "reverseString s = concat (rev (runes s))"

definition validate_Password :: "string \<Rightarrow> string \<Rightarrow> check" where
  "validate_Password password userName =
     seqE (fail_if (length password < 8 \<or> length password > 72) ''password length must be between 8 and 72 bytes'')
    (seqE (fail_if (has_space password) ''password cannot contain whitespace'')
      (fail_if (password = userName \<or> password = reverseString userName)
         ''password cannot be the same as or the reverse of user_name''))"

section \<open>Descriptions, keys, scopes and roles\<close>

definition validate_Description :: "string \<Rightarrow> nat \<Rightarrow> check" where
  "validate_Description s maxLen =
     seqE (fail_if (length s > maxLen) ''length out of range'') (validate_NoControlChars s)"

definition MaxAPIDescriptionLength :: nat where "MaxAPIDescriptionLength = 512"

definition validate_APIKeyDescription :: "string \<Rightarrow> check" where
  "validate_APIKeyDescription s =
     seqE (fail_if (s = []) ''description is required'') (validate_Description s MaxAPIDescriptionLength)"

definition validate_APIKeyValue :: "string \<Rightarrow> check" where
  "validate_APIKeyValue s =
     seqE (fail_if (length s = 0 \<or> length s > 128) ''key length must be between 1 and 128'')
       (fail_if (\<not> list_all (\<lambda>c. is_alnum c \<or> c = CHR ''-'' \<or> c = CHR ''_'') s) ''key contains invalid characters'')"

text \<open>\<open>now\<close> is the current time in seconds.\<close>

definition validate_ExpiredTime :: "int \<Rightarrow> int option \<Rightarrow> check" where
  "validate_ExpiredTime now t = given t (\<lambda>t.
     seqE (fail_if (t < -1) ''expired_time must be -1 or a valid Unix timestamp'')
       (fail_if (t \<noteq> -1 \<and> t < now) ''expired_time must be >= current time''))"

definition validate_Scope :: "string \<Rightarrow> check" where
  "validate_Scope s = fail_if (s \<noteq> ''System'' \<and> s \<noteq> ''SystemReadonly'' \<and> s \<noteq> ''Support'')
     ''scope must be System, SystemReadonly or Support''"

definition validate_Role :: "string \<Rightarrow> check" where
  "validate_Role s = fail_if (s \<noteq> ''system_admin'' \<and> s \<noteq> ''system_admin_readonly'')
     ''role must be system_admin or system_admin_readonly''"

section \<open>Quota plans\<close>

text \<open>\<^verbatim>\<open>math.Mod(v, 1) != 0\<close> and \<^verbatim>\<open>math.Round\<close> (half away from zero) on exact numbers.\<close>

definition validDecimalPlaces :: "rat \<Rightarrow> nat \<Rightarrow> bool" where
  "validDecimalPlaces v maxPlaces =
     (let scaled = v * 10 ^ maxPlaces;
          rounded = (if scaled < 0 then - of_int (round (- scaled)) else of_int (round scaled))
      in \<bar>scaled - rounded\<bar> < 1 / 10 ^ 9)"

definition validate_QuotaValue :: "rat \<Rightarrow> rat option \<Rightarrow> string \<Rightarrow> check" where
  "validate_QuotaValue maxRMB quota unit = given quota (\<lambda>q.
     seqE (fail_if (q < 0) ''quota must be >= 0'')
      (if unit = ''total_token''
       then fail_if (frac q \<noteq> 0) ''quota must be an integer when unit is total_token''
       else if unit = ''RMB''
       then seqE (fail_if (\<not> validDecimalPlaces q 8) ''quota can have at most 8 decimal places when unit is RMB'')
         (fail_if (q > maxRMB) ''quota out of range when unit is RMB'')
       else Inr ()))"

definition validate_QuotaPlan :: "rat \<Rightarrow> ('a SharedQuotaPlanParam_scheme) option \<Rightarrow> check" where
  "validate_QuotaPlan maxRMB p = given p (\<lambda>p.
     let unit = (case sq_Unit p of None \<Rightarrow> ''total_token'' | Some u \<Rightarrow> if u = [] then ''total_token'' else u)
     in seqE (fail_if (unit \<noteq> ''total_token'' \<and> unit \<noteq> ''RMB'') ''unit must be total_token or RMB'')
       (seqE (validate_QuotaValue maxRMB (sq_Quota p) unit)
         (given (sq_ResetPeriod p) (\<lambda>r. fail_if (r \<noteq> [] \<and> r \<notin> {''never'', ''weekly'', ''monthly''})
            ''reset_period must be never, weekly or monthly''))))"

end
