(* ===== verification/SettingsData.thy ===== *)
theory SettingsData
  imports GoLib
begin

text \<open>
  The request bodies that \<^verbatim>\<open>model/shared/types.go\<close> declares for AI cache rules, AI context rules and traffic mirror rules, and
  the configuration of a cluster (\<^verbatim>\<open>model/icluster_conf\<close>) as far as the checks read it.

  A pointer is an option, so that an omitted field and a JSON \<^verbatim>\<open>null\<close> are \<open>None\<close>; a nil slice is the empty list where no code
  tells them apart. A \<^verbatim>\<open>map[string]string\<close> is an association list without repeated keys.
\<close>

section \<open>Collections of rules\<close>

record AICacheRuleParam =
  cw_Name :: "string option"
  cw_Cond :: "string option"
  cw_CacheKeyStrategy :: "string option"
  cw_CacheTTL :: "int option"
  cw_MaxBodyBytes :: "int option"
  cw_MaxValueBytes :: "int option"
  cw_EnableSemanticCache :: "bool option"

record AIContextRuleParam =
  xw_Cond :: "string option"
  xw_Mode :: "string option"
  xw_MaxContextTokens :: "int option"
  xw_ReserveTokens :: "int option"

record TrafficMirrorBodyRewriteParam =
  mb_Path :: "string option"
  mb_Value :: "string option"

record TrafficMirrorRuleParam =
  mw_Name :: "string option"
  mw_Cond :: "string option"
  mw_MirrorCluster :: "string option"
  mw_Percentage :: "int option"
  mw_RemoveHeaders :: "string list option"
  mw_SetHeaders :: "(string \<times> string) list option"
  mw_BodyRewrites :: "TrafficMirrorBodyRewriteParam option list"
  mw_PathRewrite :: "string option"
  mw_CreatedAt :: "time option"
  mw_UpdatedAt :: "time option"

section \<open>Singleton settings\<close>

record AICacheSemanticSettingsParam =
  ss_TopK :: "int option"
  ss_Threshold :: "rat option"
  ss_ThresholdRelation :: "string option"
  ss_CreatedAt :: "time option"
  ss_UpdatedAt :: "time option"

record AIContextRewriteParam =
  xv_Strength :: "string option"
  xv_ProtectedSurvivalRate :: "rat option"

record AIContextSettingsParam =
  xp_TriggerRatio :: "rat option"
  xp_KeepLatestImages :: "int option"
  xp_ToolResultMaxChars :: "int option"
  xp_ThinkingPolicy :: "string option"
  xp_CharsPerToken :: "int option"
  xp_ImageTokenEstimate :: "int option"
  xp_Rewrite :: "AIContextRewriteParam option"

section \<open>The configuration of a cluster\<close>

record Mapping =
  lm_SourceModel :: "string option"
  lm_TargetModel :: "string option"

record ClusterKeyRef =
  lk_Name :: "string option"
  lk_Weight :: "int option"

record KeyPolicy =
  lp_Strategy :: "string option"
  lp_MaxRetries :: "int option"
  lp_RetryBackoffInitial :: "int option"
  lp_RetryBackoffMax :: "int option"

record KeyAffinity =
  la_Enabled :: "bool option"
  la_TTL :: "int option"
  la_RedisPrefix :: "string option"
  la_PenaltyEnable :: "bool option"

record NormalizeUpstreamError =
  ln_Enabled :: "bool option"
  ln_StreamEnabled :: "bool option"
  ln_UnrecognizedAction :: "string option"
  ln_MaxBodyBytes :: "int option"
  ln_RedactSecrets :: "bool option"

record LLMConfig =
  ll_Models :: "string list"
  ll_ModelMappings :: "Mapping option list"
  ll_Keys :: "ClusterKeyRef list"
  ll_KeyPolicy :: "KeyPolicy option"
  ll_KeyAffinity :: "KeyAffinity option"
  ll_NormalizeUpstreamError :: "NormalizeUpstreamError option"
  ll_Provider :: "string option"
  ll_MatchPrefix :: "string option"
  ll_StripPrefix :: "bool option"

record Instance =
  is_Name :: string
  is_Addr :: string
  is_Port :: int
  is_Weight :: int
  is_Disable :: bool

end
