(* ===== verification/ValidateRules.thy ===== *)
theory ValidateRules
  imports Validate SettingsData
begin

text \<open>
  The checks of collections in \<^verbatim>\<open>lib/validate/validate.go\<close> (rate limits, route rules, the rules and settings of the AI cache, AI
  context and traffic mirror modules, the configuration of a cluster and its instances), and the checks of the endpoints of API keys
  (\<^verbatim>\<open>endpoints/openapi_v1/api_key/checker.go\<close>) and entities (\<^verbatim>\<open>entity/validator.go\<close>) that call them.

  A loop is \<open>check_each\<close> over the elements; its state holds the keys of the maps that detect duplicates. \<open>build\<close> says whether
  \<^verbatim>\<open>condition.Build\<close> of the data plane accepts a condition. Where the code reads through a nil pointer in a list, the model returns \<open>nil_deref\<close>.
\<close>

section \<open>Checks on optional fields\<close>

definition required :: "string option \<Rightarrow> string \<Rightarrow> (string \<Rightarrow> error + 's) \<Rightarrow> error + 's" where
  "required v msg f = (case v of None \<Rightarrow> Inl (ErrParam msg) | Some s \<Rightarrow> if s = [] then Inl (ErrParam msg) else f s)"

definition andthen :: "check \<Rightarrow> (error + 's) \<Rightarrow> error + 's" where
  "andthen c r = (case c of Inl e \<Rightarrow> Inl e | Inr _ \<Rightarrow> r)"

definition one_of :: "string list \<Rightarrow> string \<Rightarrow> string option \<Rightarrow> check" where
  "one_of vs msg v = given v (\<lambda>s. fail_if (s \<notin> set vs) msg)"

definition all_fine :: "error + 's \<Rightarrow> check" where
  "all_fine r = (case r of Inl e \<Rightarrow> Inl e | Inr _ \<Rightarrow> Inr ())"

lemma required_ok [simp]: "required v msg f = Inr r \<longleftrightarrow> (\<exists>s. v = Some s \<and> s \<noteq> [] \<and> f s = Inr r)"
  by (auto simp: required_def split: option.splits)

lemma andthen_ok [simp]: "andthen c x = Inr r \<longleftrightarrow> c = Inr () \<and> x = Inr r"
  by (auto simp: andthen_def split: sum.splits)

lemma one_of_ok [simp]: "one_of vs msg v = Inr () \<longleftrightarrow> (\<forall>s. v = Some s \<longrightarrow> s \<in> set vs)"
  by (simp add: one_of_def)

lemma all_fine_ok [simp]: "all_fine r = Inr () \<longleftrightarrow> (\<exists>s. r = Inr s)"
  by (auto simp: all_fine_def split: sum.splits)

section \<open>Rate limits\<close>

text \<open>Names of both kinds share one set; the second component holds the keys \<^verbatim>\<open>model|window|...\<close> of the kind.\<close>

definition limit_name_check :: "string \<Rightarrow> check" where
  "limit_name_check n = seqE (fail_if (length n = 0) ''name is required'')
     (seqE (fail_if (length n > 128) ''name length must be <= 128'')
       (fail_if (\<not> rateLimitNameToken n) ''name can only contain letters, digits, _ and -''))"

definition tpm_key :: "TPMConfig \<Rightarrow> string" where
  "tpm_key c = tc_Model c @ ''|'' @ show_int (tc_WindowMinutes c) @ ''|'' @ show_int (tc_MaxTokens c) @ ''|'' @
     show_int (tc_StepMinutes c)"

definition rpm_key :: "RPMConfig \<Rightarrow> string" where
  "rpm_key c = rc_Model c @ ''|'' @ show_int (rc_WindowMinutes c) @ ''|'' @ show_int (rc_MaxRequests c)"

definition check_tpm :: "string list \<times> string list \<Rightarrow> TPMConfig \<Rightarrow> error + string list \<times> string list" where
  "check_tpm s c =
     andthen (seqE (limit_name_check (tc_Name c)) (fail_if (tc_Name c \<in> set (fst s)) ''duplicate rate limit name''))
    (andthen (wrapParam ''tpm model'' (validate_AIModelFormat (tc_Model c)))
    (andthen (fail_if (tc_WindowMinutes c < 1 \<or> tc_WindowMinutes c > 360) ''tpm window_minutes must be between 1 and 360'')
    (andthen (fail_if (tc_MaxTokens c < 0) ''tpm max_tokens must be >= 0'')
    (andthen (fail_if (tc_StepMinutes c < 1 \<or> tc_StepMinutes c > 360) ''tpm step_minutes must be between 1 and 360'')
    (andthen (fail_if (tc_StepMinutes c > tc_WindowMinutes c) ''tpm step_minutes must be <= window_minutes'')
    (andthen (fail_if (tpm_key c \<in> set (snd s)) ''duplicate tpm config'')
      (Inr (tc_Name c # fst s, tpm_key c # snd s))))))))"

definition check_rpm :: "string list \<times> string list \<Rightarrow> RPMConfig \<Rightarrow> error + string list \<times> string list" where
  "check_rpm s c =
     andthen (seqE (limit_name_check (rc_Name c)) (fail_if (rc_Name c \<in> set (fst s)) ''duplicate rate limit name''))
    (andthen (wrapParam ''rpm model'' (validate_AIModelFormat (rc_Model c)))
    (andthen (fail_if (rc_WindowMinutes c < 1 \<or> rc_WindowMinutes c > 360) ''rpm window_minutes must be between 1 and 360'')
    (andthen (fail_if (rc_MaxRequests c < 0) ''rpm max_requests must be >= 0'')
    (andthen (fail_if (rpm_key c \<in> set (snd s)) ''duplicate rpm config'')
      (Inr (rc_Name c # fst s, rpm_key c # snd s))))))"

definition limit_is_set :: "RateLimitRules \<Rightarrow> bool" where
  "limit_is_set r \<longleftrightarrow> lr_TpmConfigs r \<noteq> [] \<or> lr_RpmConfigs r \<noteq> [] \<or>
     (case lr_MaxConcurrency r of None \<Rightarrow> False | Some c \<Rightarrow> c \<ge> 0) \<or> lr_BatchLimits r \<noteq> None"

definition check_batch_limits :: "BatchLimits \<Rightarrow> check" where
  "check_batch_limits b =
     seqE (fail_if (bl_MaxCreateRPM b < 0) ''batch_limits.max_create_rpm must be >= 0'')
    (seqE (fail_if (bl_MaxActiveBatches b < 0) ''batch_limits.max_active_batches must be >= 0'')
    (seqE (fail_if (bl_MaxFileBytes b < 0) ''batch_limits.max_file_bytes must be >= 0'')
      (fail_if (bl_MaxFileLines b < 0) ''batch_limits.max_file_lines must be >= 0'')))"

definition check_limit_rules :: "RateLimitRules \<Rightarrow> check" where
  "check_limit_rules r =
     seqE (fail_if (length (lr_TpmConfigs r) > 3) ''tpm configs must be <= 3'')
    (seqE (fail_if (length (lr_RpmConfigs r) > 3) ''rpm configs must be <= 3'')
    (seqE (given (lr_MaxConcurrency r) (\<lambda>c. fail_if (c < -1) ''max_concurrency must be -1 or >= 0''))
    (seqE (given (lr_BatchLimits r) check_batch_limits)
      (case check_each check_tpm ([], []) (lr_TpmConfigs r) of
         Inl e \<Rightarrow> Inl e
       | Inr s \<Rightarrow> all_fine (check_each check_rpm (fst s, []) (lr_RpmConfigs r))))))"

definition validate_RateLimitPolicy :: "SharedRateLimitPolicyParam option \<Rightarrow> check" where
  "validate_RateLimitPolicy p = given p (\<lambda>p.
     seqE (if sr_Enabled p = Some True
           then (case sr_Rules p of
                   None \<Rightarrow> Inl (ErrParam ''when rate_limit_policy.enabled is true, rules must be set'')
                 | Some r \<Rightarrow> fail_if (\<not> limit_is_set r) ''when rate_limit_policy.enabled is true, a limit must be set'')
           else Inr ())
       (given (sr_Rules p) check_limit_rules))"

section \<open>Route rules\<close>

definition validate_ConditionExpression :: "(string \<Rightarrow> bool) \<Rightarrow> string \<Rightarrow> check" where
  "validate_ConditionExpression build cond = fail_if (\<not> build cond) ''invalid route rule Cond''"

definition str_of :: "string option \<Rightarrow> string" where
  "str_of v = (case v of None \<Rightarrow> [] | Some s \<Rightarrow> s)"

definition target_key :: "string \<Rightarrow> string option \<Rightarrow> string" where
  "target_key cluster model = cluster @ ''|'' @ str_of model"

text \<open>The part that targets and fallbacks share: cluster name, model and the key against duplicates.\<close>

definition check_cluster_ref :: "string list \<Rightarrow> string option \<Rightarrow> string option \<Rightarrow> error + string list" where
  "check_cluster_ref keys cluster model =
     required cluster ''ClusterName is required'' (\<lambda>c.
       andthen (wrapParam ''ClusterName'' (validate_ClusterName c))
      (andthen (if str_of model = [] then Inr () else wrapParam ''Model'' (validate_AIModelFormat (str_of model)))
      (andthen (fail_if (target_key c model \<in> set keys) ''duplicate target or fallback'')
        (Inr (target_key c model # keys)))))"

definition check_target :: "i64 \<times> string list \<Rightarrow> AiRouteTargetParam option \<Rightarrow> error + i64 \<times> string list" where
  "check_target s target = (case target of None \<Rightarrow> Inl nil_deref | Some t \<Rightarrow>
     (case at_Weight t of
        None \<Rightarrow> Inl (ErrParam ''target weight is required'')
      | Some w \<Rightarrow>
          andthen (fail_if (w <s 0 \<or> 100 <s w) ''target weight must be between 0 and 100'')
            (case check_cluster_ref (snd s) (at_ClusterName t) (at_Model t) of
               Inl e \<Rightarrow> Inl e | Inr keys \<Rightarrow> Inr (fst s + w, keys))))"

definition check_fallback :: "string list \<Rightarrow> AiRouteFallbackParam option \<Rightarrow> error + string list" where
  "check_fallback keys fallback = (case fallback of None \<Rightarrow> Inl nil_deref | Some f \<Rightarrow>
     check_cluster_ref keys (af_ClusterName f) (af_Model f))"

definition check_targets :: "AiRouteTargetParam option list \<Rightarrow> check" where
  "check_targets ts = (case check_each check_target (0, []) ts of
       Inl e \<Rightarrow> Inl e
     | Inr s \<Rightarrow> fail_if (fst s \<noteq> 100) ''targets total weight must be 100'')"

definition check_route_rule ::
  "(string \<Rightarrow> bool) \<Rightarrow> string list \<Rightarrow> AiRouteRuleParam option \<Rightarrow> error + string list" where
  "check_route_rule build names rule = (case rule of None \<Rightarrow> Inl nil_deref | Some r \<Rightarrow>
     required (ar_Name r) ''route rule name is required'' (\<lambda>n.
       andthen (fail_if (n \<in> set names) ''duplicate route rule name'')
      (required (ar_Cond r) ''route rule Cond is required'' (\<lambda>c.
       andthen (validate_ConditionExpression build c)
      (andthen (fail_if (ar_Targets r = []) ''route rule targets cannot be empty'')
      (andthen (check_targets (ar_Targets r))
      (andthen (all_fine (check_each check_fallback [] (ar_Fallbacks r)))
        (Inr (n # names)))))))))"

definition validate_RouteRules :: "(string \<Rightarrow> bool) \<Rightarrow> RouteRulesParam option \<Rightarrow> check" where
  "validate_RouteRules build p = given p (\<lambda>p. all_fine (check_each (check_route_rule build) [] (rs_Rules p)))"

section \<open>AI cache\<close>

text \<open>The state of the loop over named rules: the names and the conditions seen so far.\<close>

definition named_cond ::
  "(string \<Rightarrow> bool) \<Rightarrow> string list \<times> string list \<Rightarrow> string option \<Rightarrow> string option \<Rightarrow> check \<Rightarrow>
   error + string list \<times> string list" where
  "named_cond build s name cond rest =
     required name ''rule name is required'' (\<lambda>n.
       andthen (fail_if (length n > 128) ''rule name length must be <= 128'')
      (andthen (fail_if (n \<in> set (fst s)) ''duplicate rule name'')
      (required cond ''rule cond is required'' (\<lambda>c.
       andthen (wrapParam ''rule cond'' (validate_ConditionExpression build c))
      (andthen (fail_if (c \<in> set (snd s)) ''duplicate rule cond'')
      (andthen rest (Inr (n # fst s, c # snd s))))))))"

definition check_cache_rule ::
  "(string \<Rightarrow> bool) \<Rightarrow> string list \<times> string list \<Rightarrow> AICacheRuleParam option \<Rightarrow> error + string list \<times> string list" where
  "check_cache_rule build s rule = (case rule of None \<Rightarrow> Inl (ErrParam ''ai cache rule is null'') | Some r \<Rightarrow>
     named_cond build s (cw_Name r) (cw_Cond r)
      (seqE (one_of [''lastQuestion'', ''allQuestions'', ''disabled''] ''cache_key_strategy is not one of the strategies'' (cw_CacheKeyStrategy r))
      (seqE (given (cw_CacheTTL r) (\<lambda>v. fail_if (v < 0) ''cache_ttl must be >= 0''))
      (seqE (given (cw_MaxBodyBytes r) (\<lambda>v. fail_if (v \<le> 0) ''max_body_bytes must be > 0''))
        (given (cw_MaxValueBytes r) (\<lambda>v. fail_if (v \<le> 0) ''max_value_bytes must be > 0''))))))"

definition validate_AICacheRules :: "(string \<Rightarrow> bool) \<Rightarrow> AICacheRuleParam option list option \<Rightarrow> check" where
  "validate_AICacheRules build param = given param (\<lambda>rules. all_fine (check_each (check_cache_rule build) ([], []) rules))"

definition validate_AICacheSemanticSettings :: "AICacheSemanticSettingsParam option \<Rightarrow> check" where
  "validate_AICacheSemanticSettings param = given param (\<lambda>p.
     seqE (given (ss_TopK p) (\<lambda>v. fail_if (v < 1 \<or> v > 10) ''top_k must be in [1, 10]''))
    (seqE (given (ss_Threshold p) (\<lambda>v. fail_if (v < 0 \<or> v > 2) ''threshold must be in [0, 2]''))
      (one_of [''lt'', ''lte'', ''gt'', ''gte''] ''threshold_relation is not one of the relations'' (ss_ThresholdRelation p))))"

section \<open>AI context\<close>

definition check_context_rule ::
  "(string \<Rightarrow> bool) \<Rightarrow> string list \<Rightarrow> AIContextRuleParam option \<Rightarrow> error + string list" where
  "check_context_rule build conds rule = (case rule of None \<Rightarrow> Inl (ErrParam ''ai context rule is null'') | Some r \<Rightarrow>
     required (xw_Cond r) ''ai context rule cond is required'' (\<lambda>c.
       andthen (wrapParam ''ai context rule cond'' (validate_ConditionExpression build c))
      (andthen (fail_if (c \<in> set conds) ''duplicate ai context rule cond'')
      (required (xw_Mode r) ''ai context rule mode is required'' (\<lambda>m.
       andthen (fail_if (m \<notin> set [''off'', ''conservative'', ''balanced'', ''aggressive'']) ''mode is not one of the modes'')
      (andthen (given (xw_MaxContextTokens r) (\<lambda>v. fail_if (v < 0) ''max_context_tokens must be >= 0''))
      (andthen (given (xw_ReserveTokens r) (\<lambda>v. fail_if (v < 0) ''reserve_tokens must be >= 0''))
        (Inr (c # conds)))))))))"

definition validate_AIContextRules :: "(string \<Rightarrow> bool) \<Rightarrow> AIContextRuleParam option list option \<Rightarrow> check" where
  "validate_AIContextRules build param = given param (\<lambda>rules. all_fine (check_each (check_context_rule build) [] rules))"

definition ratio_check :: "string \<Rightarrow> rat option \<Rightarrow> check" where
  "ratio_check msg v = given v (\<lambda>v. fail_if (v \<le> 0 \<or> v > 1) msg)"

definition validate_AIContextSettings :: "AIContextSettingsParam option \<Rightarrow> check" where
  "validate_AIContextSettings param = given param (\<lambda>p.
     seqE (ratio_check ''trigger_ratio must be in (0, 1]'' (xp_TriggerRatio p))
    (seqE (given (xp_KeepLatestImages p) (\<lambda>v. fail_if (v < 0) ''keep_latest_images must be >= 0''))
    (seqE (given (xp_ToolResultMaxChars p) (\<lambda>v. fail_if (v < 0) ''tool_result_max_chars must be >= 0''))
    (seqE (one_of [''trim-all-but-last'', ''keep''] ''thinking_policy is not one of the policies'' (xp_ThinkingPolicy p))
    (seqE (given (xp_CharsPerToken p) (\<lambda>v. fail_if (v < 1) ''chars_per_token must be >= 1''))
    (seqE (given (xp_ImageTokenEstimate p) (\<lambda>v. fail_if (v < 0) ''image_token_estimate must be >= 0''))
      (given (xp_Rewrite p) (\<lambda>w.
         seqE (one_of [''lite'', ''full''] ''rewrite.strength is not one of the strengths'' (xv_Strength w))
           (ratio_check ''rewrite.protected_survival_rate must be in (0, 1]'' (xv_ProtectedSurvivalRate w))))))))))"

section \<open>Traffic mirror\<close>

definition check_body_rewrite :: "unit \<Rightarrow> TrafficMirrorBodyRewriteParam option \<Rightarrow> error + unit" where
  "check_body_rewrite u rw = (case rw of None \<Rightarrow> Inl (ErrParam ''body_rewrites cannot contain null element'') | Some r \<Rightarrow>
     seqE (fail_if (mb_Path r \<noteq> Some ''model'') ''body_rewrites path must be model'')
       (fail_if (str_of (mb_Value r) = []) ''body_rewrites value is required and cannot be empty''))"

definition check_mirror_rule ::
  "(string \<Rightarrow> bool) \<Rightarrow> string list \<times> string list \<Rightarrow> TrafficMirrorRuleParam option \<Rightarrow> error + string list \<times> string list" where
  "check_mirror_rule build s rule = (case rule of None \<Rightarrow> Inl (ErrParam ''traffic mirror rule is null'') | Some r \<Rightarrow>
     named_cond build s (mw_Name r) (mw_Cond r)
      (seqE (fail_if (str_of (mw_MirrorCluster r) = []) ''mirror_cluster is required'')
      (seqE (fail_if (length (str_of (mw_MirrorCluster r)) > 128) ''mirror_cluster length must be <= 128'')
      (seqE (given (mw_Percentage r) (\<lambda>v. fail_if (v < 0 \<or> v > 100) ''percentage must be between 0 and 100''))
      (seqE (given (mw_RemoveHeaders r) (\<lambda>hs. fail_if ([] \<in> set hs) ''remove_headers cannot contain empty header''))
      (seqE (given (mw_SetHeaders r) (\<lambda>hs. fail_if (\<exists>(k, v)\<in>set hs. k = [] \<or> v = []) ''set_headers key/value cannot be empty''))
      (seqE (check_each check_body_rewrite () (mw_BodyRewrites r))
        (given (mw_PathRewrite r) (\<lambda>p. fail_if (p \<noteq> [] \<and> \<not> HasPrefix p ''/'') ''path_rewrite must start with a slash'')))))))))"

definition validate_TrafficMirrorRules :: "(string \<Rightarrow> bool) \<Rightarrow> TrafficMirrorRuleParam option list option \<Rightarrow> check" where
  "validate_TrafficMirrorRules build param =
     given param (\<lambda>rules. all_fine (check_each (check_mirror_rule build) ([], []) rules))"

section \<open>Clusters\<close>

definition check_model :: "string list \<Rightarrow> string \<Rightarrow> error + string list" where
  "check_model seen m =
     andthen (fail_if (m = []) ''llm_config.models cannot contain empty model name'')
    (andthen (fail_if (m \<in> set seen) ''duplicate model in llm_config.models'') (Inr (m # seen)))"

definition check_mapping :: "string list \<Rightarrow> Mapping option \<Rightarrow> error + string list" where
  "check_mapping seen mapping = (case mapping of None \<Rightarrow> Inl nil_deref | Some m \<Rightarrow>
     required (lm_SourceModel m) ''llm_config.model_mappings.source_model is required'' (\<lambda>src.
       required (lm_TargetModel m) ''llm_config.model_mappings.target_model is required'' (\<lambda>_.
         andthen (fail_if (src \<in> set seen) ''duplicate source_model in llm_config.model_mappings'') (Inr (src # seen)))))"

definition check_key_ref :: "int \<times> string list \<Rightarrow> ClusterKeyRef \<Rightarrow> error + int \<times> string list" where
  "check_key_ref s k =
     required (lk_Name k) ''llm_config.keys.name is required'' (\<lambda>n.
       andthen (fail_if (length n < 1 \<or> length n > 128) ''llm_config.keys.name length must be between 1 and 128'')
      (andthen (fail_if (n \<in> set (snd s)) ''duplicate name in llm_config.keys'')
        (case lk_Weight k of
           None \<Rightarrow> Inl (ErrParam ''llm_config.keys.weight is required'')
         | Some w \<Rightarrow> andthen (fail_if (w < 0 \<or> w > 100) ''llm_config.keys.weight must be between 0 and 100'')
             (Inr (fst s + w, n # snd s)))))"

definition check_key_refs :: "ClusterKeyRef list \<Rightarrow> check" where
  "check_key_refs ks = (if ks = [] then Inr () else
     (case check_each check_key_ref (0, []) ks of
        Inl e \<Rightarrow> Inl e
      | Inr s \<Rightarrow> fail_if (fst s \<noteq> 100) ''llm_config.keys total weight must be 100''))"

definition not_negative :: "string \<Rightarrow> int option \<Rightarrow> check" where
  "not_negative msg v = given v (\<lambda>v. fail_if (v < 0) msg)"

definition check_key_policy :: "KeyPolicy \<Rightarrow> check" where
  "check_key_policy p =
     seqE (given (lp_Strategy p) (\<lambda>s. fail_if (s \<noteq> [] \<and> s \<noteq> ''weighted_random'') ''key_policy.strategy must be weighted_random''))
    (seqE (not_negative ''key_policy.max_retries must be >= 0'' (lp_MaxRetries p))
    (seqE (not_negative ''key_policy.retry_backoff_initial must be >= 0'' (lp_RetryBackoffInitial p))
    (seqE (not_negative ''key_policy.retry_backoff_max must be >= 0'' (lp_RetryBackoffMax p))
      (given (lp_RetryBackoffInitial p) (\<lambda>a. given (lp_RetryBackoffMax p) (\<lambda>b.
         fail_if (b < a) ''key_policy.retry_backoff_max must be >= retry_backoff_initial''))))))"

definition check_key_affinity :: "KeyAffinity \<Rightarrow> check" where
  "check_key_affinity a =
     seqE (given (la_TTL a) (\<lambda>v. fail_if (v \<le> 0) ''key_affinity.ttl must be > 0''))
       (fail_if (la_RedisPrefix a = Some []) ''key_affinity.redis_prefix must not be empty'')"

definition check_normalize :: "NormalizeUpstreamError \<Rightarrow> check" where
  "check_normalize n =
     seqE (given (ln_UnrecognizedAction n) (\<lambda>s. fail_if (s \<noteq> [] \<and> s \<noteq> ''passthrough'' \<and> s \<noteq> ''rewrite_generic'')
             ''unrecognized_action must be passthrough or rewrite_generic''))
       (given (ln_MaxBodyBytes n) (\<lambda>v. fail_if (v < 0 \<or> v > 4 * 1024 * 1024) ''max_body_bytes must be between 0 and 4194304''))"

definition check_prefix :: "bool option \<Rightarrow> string option \<Rightarrow> check" where
  "check_prefix strip match =
     seqE (fail_if (strip = Some True \<and> str_of match = []) ''llm_config.match_prefix is required when strip_prefix is true'')
       (given match (\<lambda>p. fail_if (p \<noteq> [] \<and> last p \<noteq> CHR ''/'') ''llm_config.match_prefix must end with a slash''))"

definition validate_LLMConfig :: "LLMConfig option \<Rightarrow> check" where
  "validate_LLMConfig c = (case c of None \<Rightarrow> Inl (ErrParam ''llm_config is required'') | Some c \<Rightarrow>
     seqE (fail_if (str_of (ll_Provider c) = []) ''llm_config.provider is required'')
    (seqE (fail_if (ll_Models c = []) ''llm_config.models is required'')
    (seqE (all_fine (check_each check_model [] (ll_Models c)))
    (seqE (all_fine (check_each check_mapping [] (ll_ModelMappings c)))
    (seqE (check_key_refs (ll_Keys c))
    (seqE (given (ll_KeyPolicy c) check_key_policy)
    (seqE (given (ll_KeyAffinity c) check_key_affinity)
    (seqE (given (ll_NormalizeUpstreamError c) check_normalize)
      (check_prefix (ll_StripPrefix c) (ll_MatchPrefix c))))))))))"

definition validate_Instance :: "Instance \<Rightarrow> check" where
  "validate_Instance i =
     seqE (fail_if (is_Name i \<noteq> [] \<and> (length (is_Name i) < 1 \<or> length (is_Name i) > 128))
             ''instance name length must be between 1 and 128'')
    (seqE (wrapParam ''instance addr'' (validate_Hostname (is_Addr i)))
    (seqE (wrapParam ''instance port'' (validate_Port (is_Port i)))
      (fail_if (is_Weight i < 0 \<or> is_Weight i > 100) ''instance weight must be between 0 and 100'')))"

definition instance_key :: "Instance \<Rightarrow> string" where
  "instance_key i = is_Name i @ ''|'' @ is_Addr i @ ''|'' @ show_int (is_Port i)"

definition check_instance ::
  "bool \<times> string list \<times> string list \<Rightarrow> Instance \<Rightarrow> error + bool \<times> string list \<times> string list" where
  "check_instance s i = (case s of (pos, names, keys) \<Rightarrow>
     andthen (wrapParam ''instance_pool'' (validate_Instance i))
    (andthen (fail_if (is_Name i \<noteq> [] \<and> is_Name i \<in> set names) ''duplicate instance name'')
    (andthen (fail_if (instance_key i \<in> set keys) ''duplicate instance'')
      (Inr (pos \<or> is_Weight i > 0, (if is_Name i \<noteq> [] then is_Name i # names else names), instance_key i # keys)))))"

definition validate_InstancePool :: "Instance list \<Rightarrow> check" where
  "validate_InstancePool is =
     seqE (fail_if (is = []) ''instance_pool is required'')
      (case check_each check_instance (False, [], []) is of
         Inl e \<Rightarrow> Inl e
       | Inr s \<Rightarrow> fail_if (\<not> fst s) ''instance_pool must have at least one instance with weight > 0'')"

section \<open>The bodies of API keys and entities\<close>

definition checkKey :: "string option \<Rightarrow> check" where
  "checkKey key = required key ''Must set key'' validate_APIKeyValue"

definition checkAllowSubnet :: "string list \<Rightarrow> check" where
  "checkAllowSubnet cidrs = check_each (\<lambda>_. validate_CIDR) () cidrs"

text \<open>The part that all three checks of an API key end with.\<close>

definition check_nested ::
  "(string \<Rightarrow> bool) \<Rightarrow> rat \<Rightarrow> SharedRateLimitPolicyParam option \<Rightarrow> 'a SharedQuotaPlanParam_scheme option \<Rightarrow>
   RouteRulesParam option \<Rightarrow> check" where
  "check_nested build maxRMB policy plan rules =
     seqE (validate_RateLimitPolicy policy) (seqE (validate_QuotaPlan maxRMB plan) (validate_RouteRules build rules))"

definition checkCreateAPIKey :: "(string \<Rightarrow> bool) \<Rightarrow> rat \<Rightarrow> int \<Rightarrow> APIKeyParam \<Rightarrow> check" where
  "checkCreateAPIKey build maxRMB now p =
     required (ka_Description p) ''description is required'' (\<lambda>d.
       seqE (validate_APIKeyDescription d)
      (seqE (checkAllowSubnet (ka_Subnet p))
      (seqE (checkKey (ka_Key p))
      (seqE (validate_ExpiredTime now (ka_ExpiredTime p))
        (check_nested build maxRMB (ka_RateLimitPolicy p) (ka_QuotaPlan p) (ka_RouteRules p))))))"

definition checkUpdateAPIKey :: "(string \<Rightarrow> bool) \<Rightarrow> rat \<Rightarrow> int \<Rightarrow> APIKeyParam \<Rightarrow> check" where
  "checkUpdateAPIKey build maxRMB now p =
     seqE (given (ka_Description p) (\<lambda>d. validate_Description d MaxAPIDescriptionLength))
    (seqE (checkAllowSubnet (ka_Subnet p))
    (seqE (given (ka_Key p) validate_APIKeyValue)
    (seqE (validate_ExpiredTime now (ka_ExpiredTime p))
      (check_nested build maxRMB (ka_RateLimitPolicy p) (ka_QuotaPlan p) (ka_RouteRules p)))))"

definition checkFullUpdateAPIKey :: "(string \<Rightarrow> bool) \<Rightarrow> rat \<Rightarrow> int \<Rightarrow> APIKeyParam \<Rightarrow> check" where
  "checkFullUpdateAPIKey build maxRMB now p =
     required (ka_Description p) ''description is required'' (\<lambda>d.
       seqE (validate_APIKeyDescription d) (checkUpdateAPIKey build maxRMB now p))"

definition validateEntityParam :: "(string \<Rightarrow> bool) \<Rightarrow> rat \<Rightarrow> EntityParam \<Rightarrow> bool \<Rightarrow> check" where
  "validateEntityParam build maxRMB p requireNameType =
     seqE (if requireNameType
           then seqE (fail_if (str_of (ke_Name p) = []) ''name is required'')
                  (fail_if (str_of (ke_Type p) = []) ''type is required'')
           else Inr ())
    (seqE (given (ke_Name p) (\<lambda>n. if n = [] then Inr () else validate_EntityName n))
    (seqE (given (ke_Description p) (\<lambda>d. validate_Description d 255))
    (seqE (given (ke_Type p) validate_EntityTypeName)
      (check_nested build maxRMB (ke_RateLimitPolicy p) (ke_QuotaPlan p) (ke_RouteRules p)))))"

definition validateTypeImmutable :: "string option \<Rightarrow> string option \<Rightarrow> check" where
  "validateTypeImmutable paramType existingType = given paramType (\<lambda>a. given existingType (\<lambda>b.
     fail_if (a \<noteq> b) ''type is immutable, cannot be modified after creation''))"

end
