(* ===== verification/RouteManager.thy ===== *)
theory RouteManager
  imports ValidateRules RateLimit
begin

text \<open>
  The manager of route rules (\<^verbatim>\<open>model/route_rules\<close>): the rules of one owner, the global rules with their operation log, the list of
  route tables, and the checks that keep a cluster or a model of a cluster while a rule refers to it; with the rest of
  \<^verbatim>\<open>storage/rdb/route_rules\<close> and the endpoint of the global rules.

  What the database makes of an ORDER BY clause is the argument \<open>ord\<close>.
\<close>

section \<open>Route tables\<close>

record RouteTableParam =
  rtp_ID :: "int option"
  rtp_Type :: string
  rtp_Owner :: string
  rtp_Enabled :: bool

record RouteRulesFilter =
  rf_Type :: "string option"
  rf_Owner :: "string option"
  rf_Enabled :: "bool option"
  rf_Page :: "i64 option"
  rf_PageSize :: "i64 option"
  rf_SortBy :: "string option"
  rf_SortOrder :: "string option"

definition ToRouteTableType :: "string \<Rightarrow> string" where
  "ToRouteTableType internalType = (if internalType = ''apikey'' then ''api_key'' else internalType)"

definition FromRouteTableType :: "string \<Rightarrow> string" where
  "FromRouteTableType apiType = (if apiType = ''api_key'' then ''apikey'' else apiType)"

definition routeRulesFilterToParam :: "RouteRulesFilter \<Rightarrow> TRouteRulesParam \<times> string option" where
  "routeRulesFilterToParam f =
     (empty_TRouteRulesParam\<lparr>po_Type := map_option FromRouteTableType (rf_Type f), po_Owner := rf_Owner f,
        po_Enabled := rf_Enabled f\<rparr>,
      case rf_SortBy f of
        None \<Rightarrow> None
      | Some order \<Rightarrow>
          if order = [] then None
          else Some (order @ (case rf_SortOrder f of
                 Some dir \<Rightarrow> if dir = ''asc'' \<or> dir = ''desc'' then CHR '' '' # dir else []
               | None \<Rightarrow> [])))"

definition route_page :: "RouteRulesFilter \<Rightarrow> nat \<times> nat" where
  "route_page f =
     (let page = (case rf_Page f of Some p \<Rightarrow> if 0 <s p then p else 1 | None \<Rightarrow> 1);
          pageSize = (case rf_PageSize f of Some s \<Rightarrow> if 0 <s s then (if 100 <s s then 100 else s) else 20 | None \<Rightarrow> 20);
          offset = (page - 1) * pageSize
      in (unat (if offset <s 0 then 0 else offset), unat pageSize))"

definition routeTable_of_row :: "TRouteRules \<Rightarrow> RouteTableParam" where
  "routeTable_of_row r = \<lparr>rtp_ID = Some (to_ID r), rtp_Type = ToRouteTableType (to_Type r), rtp_Owner = to_Owner r,
     rtp_Enabled = to_Enabled r\<rparr>"

definition ordered_rules ::
  "(string \<Rightarrow> TRouteRules list \<Rightarrow> error + TRouteRules list) \<Rightarrow> string option \<Rightarrow> TRouteRules list \<Rightarrow> error + TRouteRules list" where
  "ordered_rules ord clause rs = (case clause of None \<Rightarrow> Inr rs | Some c \<Rightarrow> ord c rs)"

definition select_rules ::
  "(string \<Rightarrow> TRouteRules list \<Rightarrow> error + TRouteRules list) \<Rightarrow> TRouteRulesParam \<times> string option \<Rightarrow> (nat \<times> nat) option \<Rightarrow>
   TRouteRules list owner" where
  "select_rules ord wh limit =
     bindE (db_read (\<lambda>d. filter (where_rules (Some (fst wh))) (rows (o_route_rules d)))) (\<lambda>rs.
       bindE (lift_err (ordered_rules ord (snd wh) rs)) (\<lambda>rs. returnE (take_limit limit rs)))"

definition storage_FetchRouteRulesList ::
  "(string \<Rightarrow> TRouteRules list \<Rightarrow> error + TRouteRules list) \<Rightarrow> RouteRulesFilter \<Rightarrow> (RouteTableParam list \<times> nat) owner" where
  "storage_FetchRouteRulesList ord f =
     (let wh = routeRulesFilterToParam f in
      bindE (select_rules ord wh None) (\<lambda>allList.
        bindE (select_rules ord wh (Some (route_page f))) (\<lambda>list.
          returnE (map routeTable_of_row list, length allList))))"

section \<open>Checks of the manager\<close>

definition add_weight :: "i64 \<Rightarrow> AiRouteTargetParam option \<Rightarrow> error + i64" where
  "add_weight totalWeight target = (case target of None \<Rightarrow> Inl nil_deref | Some t \<Rightarrow>
     (case at_Weight t of None \<Rightarrow> Inl (ErrParam ''target weight is required'') | Some w \<Rightarrow> Inr (totalWeight + w)))"

definition fallback_named :: "unit \<Rightarrow> AiRouteFallbackParam option \<Rightarrow> check" where
  "fallback_named u fallback = (case fallback of None \<Rightarrow> Inl nil_deref | Some f \<Rightarrow>
     fail_if (str_of (af_ClusterName f) = []) ''fallback ClusterName cannot be empty'')"

definition manager_check_rule ::
  "(string \<Rightarrow> bool) \<Rightarrow> string list \<Rightarrow> AiRouteRuleParam option \<Rightarrow> error + string list" where
  "manager_check_rule build names rule = (case rule of None \<Rightarrow> Inl nil_deref | Some r \<Rightarrow>
     required (ar_Name r) ''rule name is required'' (\<lambda>n.
       andthen (fail_if (n \<in> set names) ''duplicate rule name'')
      (required (ar_Cond r) ''rule Cond is required'' (\<lambda>c.
       andthen (validate_ConditionExpression build c)
      (andthen (fail_if (ar_Targets r = []) ''targets cannot be empty'')
      (andthen (case check_each add_weight 0 (ar_Targets r) of
                 Inl e \<Rightarrow> Inl e | Inr totalWeight \<Rightarrow> fail_if (totalWeight \<noteq> 100) ''targets total weight must be 100'')
      (andthen (check_each fallback_named () (ar_Fallbacks r))
        (Inr (n # names)))))))))"

definition validateRouteRules :: "(string \<Rightarrow> bool) \<Rightarrow> RouteRulesParam option \<Rightarrow> check" where
  "validateRouteRules build param =
     given param (\<lambda>p. all_fine (check_each (manager_check_rule build) [] (rs_Rules p)))"

section \<open>The rules of an owner\<close>

definition CreateRouteRules ::
  "owner_deps \<Rightarrow> (string \<Rightarrow> bool) \<Rightarrow> string \<Rightarrow> string option \<Rightarrow> RouteRulesParam \<Rightarrow> int owner" where
  "CreateRouteRules dp build ruleType owner param =
     owner_AtomExecute (bindE (lift_err (validateRouteRules build (Some param))) (\<lambda>_.
       storage_CreateRouteRules dp ruleType owner param))"

definition UpdateRouteRules ::
  "owner_deps \<Rightarrow> (string \<Rightarrow> bool) \<Rightarrow> string \<Rightarrow> string option \<Rightarrow> RouteRulesParam \<Rightarrow> int owner" where
  "UpdateRouteRules dp build ruleType owner param =
     owner_AtomExecute (bindE (lift_err (validateRouteRules build (Some param))) (\<lambda>_.
       bindE (storage_FetchRouteRules dp ruleType owner) (\<lambda>existing.
         case Option.bind existing rs_ID of
           None \<Rightarrow> storage_CreateRouteRules dp ruleType owner param
         | Some i \<Rightarrow> bindE (storage_UpdateRouteRules dp i param) (\<lambda>_. returnE i))))"

definition FetchRouteRules :: "owner_deps \<Rightarrow> string \<Rightarrow> string option \<Rightarrow> RouteRulesParam option owner" where
  "FetchRouteRules dp ruleType owner = owner_AtomExecute (storage_FetchRouteRules dp ruleType owner)"

definition DeleteRouteRules :: "owner_deps \<Rightarrow> string \<Rightarrow> string option \<Rightarrow> unit owner" where
  "DeleteRouteRules dp ruleType owner =
     owner_AtomExecute (bindE (storage_FetchRouteRules dp ruleType owner) (\<lambda>existing.
       case Option.bind existing rs_ID of
         None \<Rightarrow> returnE ()
       | Some i \<Rightarrow> storage_DeleteRouteRules dp i))"

definition FetchRouteRulesByID :: "owner_deps \<Rightarrow> int \<Rightarrow> RouteRulesParam option owner" where
  "FetchRouteRulesByID dp i = owner_AtomExecute (storage_FetchRouteRulesByID dp i)"

definition ListRouteTables ::
  "(string \<Rightarrow> TRouteRules list \<Rightarrow> error + TRouteRules list) \<Rightarrow> RouteRulesFilter \<Rightarrow> (RouteTableParam list \<times> nat) owner" where
  "ListRouteTables ord f = owner_AtomExecute (storage_FetchRouteRulesList ord f)"

section \<open>The operation log\<close>

definition aiRouteTargetParamToMap :: "AiRouteTargetParam option \<Rightarrow> owner_map option" where
  "aiRouteTargetParamToMap target = map_option (\<lambda>t.
     (case at_ClusterName t of None \<Rightarrow> [] | Some v \<Rightarrow> [(''cluster_name'', OvStr v)]) @
     (case at_Model t of None \<Rightarrow> [] | Some v \<Rightarrow> [(''model'', OvStr v)]) @
     (case at_Weight t of None \<Rightarrow> [] | Some v \<Rightarrow> [(''weight'', OvInt (sint v))])) target"

definition aiRouteFallbackParamToMap :: "AiRouteFallbackParam option \<Rightarrow> owner_map option" where
  "aiRouteFallbackParamToMap fallback = map_option (\<lambda>f.
     (case af_ClusterName f of None \<Rightarrow> [] | Some v \<Rightarrow> [(''cluster_name'', OvStr v)]) @
     (case af_Model f of None \<Rightarrow> [] | Some v \<Rightarrow> [(''model'', OvStr v)])) fallback"

definition aiRouteRuleParamToMap :: "AiRouteRuleParam option \<Rightarrow> owner_map option" where
  "aiRouteRuleParamToMap rule = map_option (\<lambda>r.
     (case ar_Name r of None \<Rightarrow> [] | Some v \<Rightarrow> [(''name'', OvStr v)]) @
     (case ar_Cond r of None \<Rightarrow> [] | Some v \<Rightarrow> [(''cond'', OvStr v)]) @
     (if ar_Targets r \<noteq> [] then [(''targets'', OvMaps (map aiRouteTargetParamToMap (ar_Targets r)))] else []) @
     (if ar_Fallbacks r \<noteq> [] then [(''fallbacks'', OvMaps (map aiRouteFallbackParamToMap (ar_Fallbacks r)))] else [])) rule"

definition routeRulesParamToMap :: "RouteRulesParam option \<Rightarrow> owner_map option" where
  "routeRulesParamToMap param = map_option (\<lambda>p.
     (case rs_ID p of None \<Rightarrow> [] | Some v \<Rightarrow> [(''id'', OvInt v)]) @
     (case rs_Enabled p of None \<Rightarrow> [] | Some v \<Rightarrow> [(''enabled'', OvBool v)]) @
     (if rs_Rules p \<noteq> [] then [(''rules'', OvMaps (map aiRouteRuleParamToMap (rs_Rules p)))] else [])) param"

definition recordGlobalRouteRulesOperation ::
  "owner_deps \<Rightarrow> string \<Rightarrow> owner_map option \<Rightarrow> owner_map option \<Rightarrow> error option \<Rightarrow> unit owner" where
  "recordGlobalRouteRulesOperation dp action before after err =
     owner_log dp \<lparr>ol_Action = action, ol_ResourceType = ''route'', ol_ResourceID = ''global'', ol_ResourceName = ''global'',
       ol_ResourceParentID = [], ol_Before = before, ol_After = after, ol_Error = err\<rparr>"

section \<open>The global rules\<close>

definition GetGlobalRouteRules :: "owner_deps \<Rightarrow> RouteRulesParam option owner" where
  "GetGlobalRouteRules dp = FetchRouteRules dp ''global'' (Some ''global'')"

text \<open>An error is recorded with the submitted rules and then returned.\<close>

definition SetGlobalRouteRules :: "owner_deps \<Rightarrow> (string \<Rightarrow> bool) \<Rightarrow> RouteRulesParam \<Rightarrow> RouteRulesParam owner" where
  "SetGlobalRouteRules dp build param =
     State_Monad.bind (storage_FetchRouteRules dp ''global'' (Some ''global'')) (\<lambda>b.
       let beforeMap = routeRulesParamToMap (case b of Inl e \<Rightarrow> None | Inr x \<Rightarrow> x);
           failed = (\<lambda>e. bindE (recordGlobalRouteRulesOperation dp ''update'' beforeMap (routeRulesParamToMap (Some param)) (Some e))
                     (\<lambda>_. throwE e))
       in State_Monad.bind (UpdateRouteRules dp build ''global'' (Some ''global'') param) (\<lambda>u. case u of
            Inl e \<Rightarrow> failed e
          | Inr i \<Rightarrow> State_Monad.bind (storage_FetchRouteRulesByID dp i) (\<lambda>f. case f of
              Inl e \<Rightarrow> failed e
            | Inr None \<Rightarrow> failed (ErrRecordNotExist ''global route rules'')
            | Inr (Some updated) \<Rightarrow>
                bindE (recordGlobalRouteRulesOperation dp ''update'' beforeMap (routeRulesParamToMap (Some updated)) None)
                  (\<lambda>_. returnE updated))))"

definition EnsureGlobalRouteRules :: "owner_deps \<Rightarrow> unit owner" where
  "EnsureGlobalRouteRules dp =
     owner_AtomExecute (bindE (storage_FetchRouteRules dp ''global'' (Some ''global'')) (\<lambda>existing.
       case existing of
         Some _ \<Rightarrow> returnE ()
       | None \<Rightarrow> discard (storage_CreateRouteRules dp ''global'' (Some ''global'')
           \<lparr>rs_ID = None, rs_Enabled = Some False, rs_Rules = []\<rparr>)))"

text \<open>\<^verbatim>\<open>GlobalRouteRulesUpdateAction\<close> after the body is decoded.\<close>

definition GlobalRouteRulesUpdateAction :: "owner_deps \<Rightarrow> (string \<Rightarrow> bool) \<Rightarrow> RouteRulesParam \<Rightarrow> RouteRulesParam owner" where
  "GlobalRouteRulesUpdateAction dp build param =
     bindE (lift_err (validate_RouteRules build (Some param))) (\<lambda>_.
       let param' = (if rs_Enabled param = None then param\<lparr>rs_Enabled := Some True\<rparr> else param)
       in bindE (SetGlobalRouteRules dp build param') (\<lambda>updated. returnE (updated\<lparr>rs_ID := None\<rparr>)))"

section \<open>References to clusters and models\<close>

definition target_hit :: "(string \<Rightarrow> string option \<Rightarrow> bool) \<Rightarrow> AiRouteTargetParam option \<Rightarrow> bool" where
  "target_hit p t = (case t of None \<Rightarrow> False | Some x \<Rightarrow>
     (case at_ClusterName x of None \<Rightarrow> False | Some c \<Rightarrow> p c (at_Model x)))"

definition fallback_hit :: "(string \<Rightarrow> string option \<Rightarrow> bool) \<Rightarrow> AiRouteFallbackParam option \<Rightarrow> bool" where
  "fallback_hit p f = (case f of None \<Rightarrow> False | Some x \<Rightarrow>
     (case af_ClusterName x of None \<Rightarrow> False | Some c \<Rightarrow> p c (af_Model x)))"

definition check_rule_refs :: "(string \<Rightarrow> string option \<Rightarrow> bool) \<Rightarrow> string \<Rightarrow> unit \<Rightarrow> AiRouteRuleParam option \<Rightarrow> check" where
  "check_rule_refs p msg u rule = (case rule of None \<Rightarrow> Inr () | Some r \<Rightarrow>
     if (\<exists>t\<in>set (ar_Targets r). target_hit p t) \<or> (\<exists>f\<in>set (ar_Fallbacks r). fallback_hit p f)
     then Inl (ErrConflict (str_of (ar_Name r) @ msg)) else Inr ())"

definition checkClusterReferencedByRouteRules :: "string \<Rightarrow> RouteRulesParam list \<Rightarrow> check" where
  "checkClusterReferencedByRouteRules clusterName routeRules =
     check_each (\<lambda>u p. check_each (check_rule_refs (\<lambda>c _. c = clusterName) '' Refer To This Cluster'') u (rs_Rules p)) () routeRules"

definition ClusterDeleteChecker :: "owner_deps \<Rightarrow> string \<Rightarrow> unit owner" where
  "ClusterDeleteChecker dp clusterName =
     bindE (storage_FetchAllRouteRules dp) (\<lambda>allRouteRules.
       lift_err (checkClusterReferencedByRouteRules clusterName allRouteRules))"

definition removedModels :: "LLMConfig option \<Rightarrow> LLMConfig \<Rightarrow> string list" where
  "removedModels oldConfig newConfig =
     filter (\<lambda>m. m \<notin> set (ll_Models newConfig)) (remdups (case oldConfig of None \<Rightarrow> [] | Some c \<Rightarrow> ll_Models c))"

definition checkClusterModelsReferenced :: "string \<Rightarrow> string list \<Rightarrow> RouteRulesParam list \<Rightarrow> check" where
  "checkClusterModelsReferenced clusterName models routeRules =
     check_each (\<lambda>u p. check_each (check_rule_refs (\<lambda>c m. c = clusterName \<and> (\<exists>x. m = Some x \<and> x \<in> set models))
       '' Refer To Model In Cluster'') u (rs_Rules p)) () routeRules"

definition ClusterModelUpdateChecker ::
  "owner_deps \<Rightarrow> string \<Rightarrow> LLMConfig option \<Rightarrow> LLMConfig option \<Rightarrow> unit owner" where
  "ClusterModelUpdateChecker dp clusterName oldConfig newConfig = (case newConfig of
       None \<Rightarrow> returnE ()
     | Some c \<Rightarrow>
         let removed = removedModels oldConfig c in
         if removed = [] then returnE ()
         else bindE (storage_FetchAllRouteRules dp) (\<lambda>allRouteRules.
           lift_err (checkClusterModelsReferenced clusterName removed allRouteRules)))"

end
