(* ===== verification/ValidateFacts.thy ===== *)
theory ValidateFacts
  imports ValidateRules OperLogFacts
begin

text \<open>
  What the checks accept, stated over the elements of a request instead of the loops with their maps of keys. The keys that detect
  duplicates are texts joined by a separator; they tell elements apart because the parts around the separator cannot contain it.
\<close>

section \<open>Loops that refuse duplicates\<close>

lemma check_each_keys:
  assumes "\<And>ks x r. f ks x = Inr r \<longleftrightarrow> good x \<and> key x \<notin> set ks \<and> r = key x # ks"
  shows "check_each f ks xs = Inr r \<longleftrightarrow>
    (\<forall>x\<in>set xs. good x) \<and> distinct (map key xs) \<and> set (map key xs) \<inter> set ks = {} \<and> r = rev (map key xs) @ ks"
proof (induction xs arbitrary: ks)
  case (Cons x xs)
  show ?case
  proof (cases "f ks x")
    case (Inl e)
    then have "\<not> (good x \<and> key x \<notin> set ks)" using assms [of ks x] by auto
    with Inl show ?thesis by auto
  next
    case (Inr r')
    then have "good x \<and> key x \<notin> set ks \<and> r' = key x # ks" using assms by blast
    with Inr Cons.IH [of "key x # ks"] show ?thesis by auto
  qed
qed auto

lemma check_each_sum:
  assumes "\<And>t ks x r. f (t, ks) x = Inr r \<longleftrightarrow> good x \<and> key x \<notin> set ks \<and> r = (upd t x, key x # ks)"
  shows "check_each f (t, ks) xs = Inr r \<longleftrightarrow>
    (\<forall>x\<in>set xs. good x) \<and> distinct (map key xs) \<and> set (map key xs) \<inter> set ks = {} \<and>
    r = (foldl upd t xs, rev (map key xs) @ ks)"
proof (induction xs arbitrary: t ks)
  case (Cons x xs)
  show ?case
  proof (cases "f (t, ks) x")
    case (Inl e)
    then have "\<not> (good x \<and> key x \<notin> set ks)" using assms [of t ks x] by auto
    with Inl show ?thesis by auto
  next
    case (Inr r')
    then have "good x \<and> key x \<notin> set ks \<and> r' = (upd t x, key x # ks)" using assms by blast
    with Inr Cons.IH [of "upd t x" "key x # ks"] show ?thesis by auto
  qed
qed auto

lemma check_each_two:
  assumes "\<And>as bs x r. f (as, bs) x = Inr r \<longleftrightarrow>
    good x \<and> k1 x \<notin> set as \<and> k2 x \<notin> set bs \<and> r = (k1 x # as, k2 x # bs)"
  shows "check_each f (as, bs) xs = Inr r \<longleftrightarrow>
    (\<forall>x\<in>set xs. good x) \<and> distinct (map k1 xs) \<and> distinct (map k2 xs) \<and>
    set (map k1 xs) \<inter> set as = {} \<and> set (map k2 xs) \<inter> set bs = {} \<and>
    r = (rev (map k1 xs) @ as, rev (map k2 xs) @ bs)"
proof (induction xs arbitrary: as bs)
  case (Cons x xs)
  show ?case
  proof (cases "f (as, bs) x")
    case (Inl e)
    then have "\<not> (good x \<and> k1 x \<notin> set as \<and> k2 x \<notin> set bs)" using assms [of as bs x] by auto
    with Inl show ?thesis by auto
  next
    case (Inr r')
    then have "good x \<and> k1 x \<notin> set as \<and> k2 x \<notin> set bs \<and> r' = (k1 x # as, k2 x # bs)" using assms by blast
    with Inr Cons.IH [of "k1 x # as" "k2 x # bs"] show ?thesis by auto
  qed
qed auto

lemma check_each_unit: "check_each (\<lambda>_. f) () xs = Inr () \<longleftrightarrow> (\<forall>x\<in>set xs. f x = Inr ())"
  by (induction xs) (auto split: sum.splits)

text \<open>Keys can be replaced by what they stand for when they tell the elements apart.\<close>

lemma distinct_keys:
  assumes "\<And>x y. x \<in> set xs \<Longrightarrow> y \<in> set xs \<Longrightarrow> k x = k y \<longleftrightarrow> j x = j y"
  shows "distinct (map k xs) \<longleftrightarrow> distinct (map j xs)"
  using assms by (induction xs) auto

section \<open>Names\<close>

lemma alnum_letters: "is_alnum c \<Longrightarrow> c \<notin> set ''|:/.-_@ *''"
  by (auto simp: is_alnum_def)

lemma nameToken_letters: "nameToken s \<Longrightarrow> c \<in> set s \<Longrightarrow> is_alnum c \<or> c \<in> set ''_.-''"
  by (auto simp: nameToken_def list_all_iff)

lemma ClusterName_ok:
  "validate_ClusterName s = Inr () \<longleftrightarrow>
     s \<noteq> [] \<and> length s \<le> 64 \<and> (\<forall>c\<in>set s. is_alnum c \<or> c \<in> set ''_.-'') \<and> is_alnum (hd s) \<and> is_alnum (last s)"
proof (cases "s = []")
  case False
  then have h: "hd s \<in> set s" "last s \<in> set s" by auto
  show ?thesis
    using False h alnum_letters [of "hd s"] alnum_letters [of "last s"]
    by (auto simp: validate_ClusterName_def validateName_def validateNamePattern_def validateNameEdges_def edges_in_def
        nameToken_def list_all_iff)
qed (simp add: validate_ClusterName_def validateName_def)

lemma ClusterName_no_separator: "validate_ClusterName s = Inr () \<Longrightarrow> CHR ''|'' \<notin> set s"
  using alnum_letters [of "CHR ''|''"] by (auto simp: ClusterName_ok)

section \<open>Route rules\<close>

lemma target_key_inj:
  assumes "CHR ''|'' \<notin> set c" "CHR ''|'' \<notin> set c'"
  shows "target_key c m = target_key c' m' \<longleftrightarrow> c = c' \<and> str_of m = str_of m'"
proof
  assume "target_key c m = target_key c' m'"
  then have "Cut (c @ CHR ''|'' # str_of m) CHR ''|'' = Cut (c' @ CHR ''|'' # str_of m') CHR ''|''"
    by (simp add: target_key_def)
  with assms show "c = c' \<and> str_of m = str_of m'" by (simp add: Cut_first)
qed (simp add: target_key_def)

lemma check_cluster_ref_ok:
  "check_cluster_ref keys cluster model = Inr r \<longleftrightarrow>
     (\<exists>c. cluster = Some c \<and> validate_ClusterName c = Inr () \<and> target_key c model \<notin> set keys \<and> r = target_key c model # keys)"
  by (auto simp: check_cluster_ref_def validate_AIModelFormat_def ClusterName_ok)

text \<open>What a target and a fallback refer to, and when they are in order.\<close>

definition ref_ok :: "string option \<Rightarrow> bool" where
  "ref_ok cluster = (\<exists>c. cluster = Some c \<and> validate_ClusterName c = Inr ())"

definition target_ok :: "AiRouteTargetParam option \<Rightarrow> bool" where
  "target_ok t = (\<exists>x w. t = Some x \<and> at_Weight x = Some w \<and> 0 \<le> sint w \<and> sint w \<le> 100 \<and> ref_ok (at_ClusterName x))"

definition target_ref :: "AiRouteTargetParam option \<Rightarrow> string \<times> string" where
  "target_ref t = (case t of None \<Rightarrow> ([], []) | Some x \<Rightarrow> (str_of (at_ClusterName x), str_of (at_Model x)))"

definition target_weight :: "AiRouteTargetParam option \<Rightarrow> i64" where
  "target_weight t = (case t of None \<Rightarrow> 0 | Some x \<Rightarrow> (case at_Weight x of None \<Rightarrow> 0 | Some w \<Rightarrow> w))"

definition fallback_ok :: "AiRouteFallbackParam option \<Rightarrow> bool" where
  "fallback_ok f = (\<exists>x. f = Some x \<and> ref_ok (af_ClusterName x))"

definition fallback_ref :: "AiRouteFallbackParam option \<Rightarrow> string \<times> string" where
  "fallback_ref f = (case f of None \<Rightarrow> ([], []) | Some x \<Rightarrow> (str_of (af_ClusterName x), str_of (af_Model x)))"

definition ref_key :: "string \<times> string \<Rightarrow> string" where
  "ref_key r = target_key (fst r) (Some (snd r))"

lemma target_key_opt: "target_key c m = ref_key (c, str_of m)"
  by (simp add: ref_key_def target_key_def str_of_def split: option.splits)

lemma check_target_ok:
  "check_target (s, ks) t = Inr r \<longleftrightarrow>
     target_ok t \<and> ref_key (target_ref t) \<notin> set ks \<and> r = (s + target_weight t, ref_key (target_ref t) # ks)"
proof (cases t)
  case (Some x)
  show ?thesis
  proof (cases "at_Weight x")
    case w: (Some w)
    show ?thesis
    proof (cases "check_cluster_ref ks (at_ClusterName x) (at_Model x)")
      case (Inl e)
      then have "\<not> (ref_ok (at_ClusterName x) \<and> ref_key (target_ref t) \<notin> set ks)"
        using Some check_cluster_ref_ok [of ks "at_ClusterName x" "at_Model x" "ref_key (target_ref t) # ks"]
        by (auto simp: ref_ok_def target_ref_def target_key_opt str_of_def)
      with Inl Some w show ?thesis by (auto simp: check_target_def target_ok_def)
    next
      case (Inr ks')
      then have "ref_ok (at_ClusterName x) \<and> ref_key (target_ref t) \<notin> set ks \<and> ks' = ref_key (target_ref t) # ks"
        using Some check_cluster_ref_ok [of ks "at_ClusterName x" "at_Model x" ks']
        by (auto simp: ref_ok_def target_ref_def target_key_opt str_of_def)
      with Inr Some w show ?thesis
        by (auto simp: check_target_def target_ok_def target_weight_def word_sless_alt not_less)
    qed
  qed (auto simp: Some check_target_def target_ok_def)
qed (simp add: check_target_def target_ok_def)

lemma check_fallback_ok:
  "check_fallback ks f = Inr r \<longleftrightarrow>
     fallback_ok f \<and> ref_key (fallback_ref f) \<notin> set ks \<and> r = ref_key (fallback_ref f) # ks"
  by (cases f) (auto simp: check_fallback_def fallback_ok_def ref_ok_def fallback_ref_def target_key_opt str_of_def
      check_cluster_ref_ok)

lemma ref_key_inj:
  assumes "CHR ''|'' \<notin> set (fst a)" "CHR ''|'' \<notin> set (fst b)"
  shows "ref_key a = ref_key b \<longleftrightarrow> a = b"
  using target_key_inj [OF assms, of "Some (snd a)" "Some (snd b)"]
  by (auto simp: ref_key_def str_of_def prod_eq_iff)

lemma distinct_refs:
  assumes "\<And>x. x \<in> set xs \<Longrightarrow> CHR ''|'' \<notin> set (fst (ref x))"
  shows "distinct (map (\<lambda>x. ref_key (ref x)) xs) \<longleftrightarrow> distinct (map ref xs)"
  using assms by (intro distinct_keys) (auto simp: ref_key_inj)

lemma target_ref_plain: "target_ok t \<Longrightarrow> CHR ''|'' \<notin> set (fst (target_ref t))"
  by (auto simp: target_ok_def ref_ok_def target_ref_def str_of_def ClusterName_no_separator)

lemma fallback_ref_plain: "fallback_ok f \<Longrightarrow> CHR ''|'' \<notin> set (fst (fallback_ref f))"
  by (auto simp: fallback_ok_def ref_ok_def fallback_ref_def str_of_def ClusterName_no_separator)

text \<open>Weights up to a hundred do not wrap in a sum over fewer elements than memory can hold.\<close>

lemma foldl_weights: "foldl (\<lambda>s t. s + target_weight t) s ts = s + sum_list (map target_weight ts)"
  by (induction ts arbitrary: s) (simp_all add: add.assoc)

lemma sum_weights:
  "\<forall>t\<in>set ts. target_ok t \<Longrightarrow>
     sum_list (map target_weight ts) = word_of_int (sum_list (map (\<lambda>t. sint (target_weight t)) ts)) \<and>
     0 \<le> sum_list (map (\<lambda>t. sint (target_weight t)) ts) \<and>
     sum_list (map (\<lambda>t. sint (target_weight t)) ts) \<le> 100 * int (length ts)"
  by (induction ts) (auto simp: target_ok_def target_weight_def algebra_simps)

lemma weights_hundred:
  assumes "\<forall>t\<in>set ts. target_ok t" "length ts < 2 ^ 50"
  shows "sum_list (map target_weight ts) = 100 \<longleftrightarrow> sum_list (map (\<lambda>t. sint (target_weight t)) ts) = 100"
proof -
  let ?n = "sum_list (map (\<lambda>t. sint (target_weight t)) ts)"
  have n: "sum_list (map target_weight ts) = word_of_int ?n" "0 \<le> ?n" "?n \<le> 100 * int (length ts)"
    using sum_weights [OF assms(1)] by auto
  have "int (length ts) < 2 ^ 50" using assms(2) by (metis of_nat_less_numeral_power_cancel_iff)
  with n have "?n < 2 ^ 64" by simp
  with n(2) have "uint (word_of_int ?n :: i64) = ?n" by (simp add: uint_word_of_int)
  then have "(word_of_int ?n :: i64) = 100 \<longleftrightarrow> ?n = 100" by (auto simp: word_uint_eq_iff)
  with n(1) show ?thesis by simp
qed

lemma check_targets_ok:
  "check_targets ts = Inr () \<longleftrightarrow>
     (\<forall>t\<in>set ts. target_ok t) \<and> distinct (map target_ref ts) \<and> sum_list (map target_weight ts) = 100"
proof -
  have e: "check_each check_target (0, []) ts = Inr r \<longleftrightarrow>
    (\<forall>t\<in>set ts. target_ok t) \<and> distinct (map (\<lambda>t. ref_key (target_ref t)) ts) \<and>
    r = (sum_list (map target_weight ts), rev (map (\<lambda>t. ref_key (target_ref t)) ts))" for r
    using check_each_sum [of check_target target_ok "\<lambda>t. ref_key (target_ref t)" "\<lambda>s t. s + target_weight t" 0 "[]" ts r,
        OF check_target_ok]
    by (simp add: foldl_weights)
  have "check_targets ts = Inr () \<longleftrightarrow> (\<exists>r. check_each check_target (0, []) ts = Inr r \<and> fst r = 100)"
    by (cases "check_each check_target (0, []) ts") (auto simp: check_targets_def)
  also have "\<dots> \<longleftrightarrow> (\<forall>t\<in>set ts. target_ok t) \<and> distinct (map (\<lambda>t. ref_key (target_ref t)) ts) \<and>
      sum_list (map target_weight ts) = 100"
    unfolding e by auto
  also have "\<dots> \<longleftrightarrow> (\<forall>t\<in>set ts. target_ok t) \<and> distinct (map target_ref ts) \<and> sum_list (map target_weight ts) = 100"
    using distinct_refs [of ts target_ref] target_ref_plain by auto
  finally show ?thesis .
qed

lemma check_fallbacks_ok:
  "all_fine (check_each check_fallback [] fs) = Inr () \<longleftrightarrow> (\<forall>f\<in>set fs. fallback_ok f) \<and> distinct (map fallback_ref fs)"
  using check_each_keys [of check_fallback fallback_ok "\<lambda>f. ref_key (fallback_ref f)" "[]" fs, OF check_fallback_ok]
    distinct_refs [of fs fallback_ref] fallback_ref_plain
  by auto

definition rule_ok :: "(string \<Rightarrow> bool) \<Rightarrow> AiRouteRuleParam option \<Rightarrow> bool" where
  "rule_ok build rule = (\<exists>r n c. rule = Some r \<and> ar_Name r = Some n \<and> n \<noteq> [] \<and> ar_Cond r = Some c \<and> c \<noteq> [] \<and> build c \<and>
     (\<forall>t\<in>set (ar_Targets r). target_ok t) \<and> distinct (map target_ref (ar_Targets r)) \<and>
     sum_list (map target_weight (ar_Targets r)) = 100 \<and>
     (\<forall>f\<in>set (ar_Fallbacks r). fallback_ok f) \<and> distinct (map fallback_ref (ar_Fallbacks r)))"

definition rule_name :: "AiRouteRuleParam option \<Rightarrow> string" where
  "rule_name rule = (case rule of None \<Rightarrow> [] | Some r \<Rightarrow> str_of (ar_Name r))"

lemma check_route_rule_ok:
  "check_route_rule build names rule = Inr r \<longleftrightarrow>
     rule_ok build rule \<and> rule_name rule \<notin> set names \<and> r = rule_name rule # names"
proof (cases rule)
  case (Some x)
  have "ar_Targets x \<noteq> []" if "sum_list (map target_weight (ar_Targets x)) = 100" using that by auto
  then show ?thesis
    by (auto simp: Some check_route_rule_def rule_ok_def rule_name_def str_of_def validate_ConditionExpression_def
        check_targets_ok check_fallbacks_ok simp del: all_fine_ok)
qed (simp add: check_route_rule_def rule_ok_def)

lemma RouteRules_ok:
  "validate_RouteRules build (Some p) = Inr () \<longleftrightarrow>
     (\<forall>r\<in>set (rs_Rules p). rule_ok build r) \<and> distinct (map rule_name (rs_Rules p))"
  using check_each_keys [of "check_route_rule build" "rule_ok build" rule_name "[]" "rs_Rules p", OF check_route_rule_ok]
  by (auto simp: validate_RouteRules_def)

section \<open>Rate limits\<close>

lemma AIModelFormat_ok: "validate_AIModelFormat s = Inr () \<longleftrightarrow> s \<noteq> []"
  by (auto simp: validate_AIModelFormat_def)

lemma limit_name_ok: "limit_name_check n = Inr () \<longleftrightarrow> rateLimitNameToken n \<and> length n \<le> 128"
  by (auto simp: limit_name_check_def rateLimitNameToken_def)

text \<open>Numbers at the end of a key: the text before the last separator is what comes before it.\<close>

lemma number_suffix_inj:
  "a @ CHR ''|'' # show_int i = b @ CHR ''|'' # show_int j \<longleftrightarrow> a = b \<and> i = j"
  using last_colon_inj [of a "CHR ''|''" "show_int i" b "show_int j"] show_int_no_separator show_int_inj by blast

definition tpm_ref :: "TPMConfig \<Rightarrow> string \<times> int \<times> int \<times> int" where
  "tpm_ref c = (tc_Model c, tc_WindowMinutes c, tc_MaxTokens c, tc_StepMinutes c)"

definition rpm_ref :: "RPMConfig \<Rightarrow> string \<times> int \<times> int" where
  "rpm_ref c = (rc_Model c, rc_WindowMinutes c, rc_MaxRequests c)"

lemma tpm_key_inj: "tpm_key c = tpm_key d \<longleftrightarrow> tpm_ref c = tpm_ref d"
proof -
  have k: "tpm_key c = ((tc_Model c @ CHR ''|'' # show_int (tc_WindowMinutes c)) @ CHR ''|'' # show_int (tc_MaxTokens c)) @
      CHR ''|'' # show_int (tc_StepMinutes c)" for c
    by (simp add: tpm_key_def)
  show ?thesis unfolding k number_suffix_inj by (auto simp: tpm_ref_def)
qed

lemma rpm_key_inj: "rpm_key c = rpm_key d \<longleftrightarrow> rpm_ref c = rpm_ref d"
proof -
  have k: "rpm_key c = (rc_Model c @ CHR ''|'' # show_int (rc_WindowMinutes c)) @ CHR ''|'' # show_int (rc_MaxRequests c)" for c
    by (simp add: rpm_key_def)
  show ?thesis unfolding k number_suffix_inj by (auto simp: rpm_ref_def)
qed

definition tpm_ok :: "TPMConfig \<Rightarrow> bool" where
  "tpm_ok c \<longleftrightarrow> rateLimitNameToken (tc_Name c) \<and> length (tc_Name c) \<le> 128 \<and> tc_Model c \<noteq> [] \<and>
     tc_WindowMinutes c \<le> 360 \<and> 0 \<le> tc_MaxTokens c \<and> 1 \<le> tc_StepMinutes c \<and> tc_StepMinutes c \<le> tc_WindowMinutes c"

definition rpm_ok :: "RPMConfig \<Rightarrow> bool" where
  "rpm_ok c \<longleftrightarrow> rateLimitNameToken (rc_Name c) \<and> length (rc_Name c) \<le> 128 \<and> rc_Model c \<noteq> [] \<and>
     1 \<le> rc_WindowMinutes c \<and> rc_WindowMinutes c \<le> 360 \<and> 0 \<le> rc_MaxRequests c"

lemma check_tpm_ok:
  "check_tpm (ns, ks) c = Inr r \<longleftrightarrow>
     tpm_ok c \<and> tc_Name c \<notin> set ns \<and> tpm_key c \<notin> set ks \<and> r = (tc_Name c # ns, tpm_key c # ks)"
  by (auto simp: check_tpm_def tpm_ok_def limit_name_ok AIModelFormat_ok)

lemma check_rpm_ok:
  "check_rpm (ns, ks) c = Inr r \<longleftrightarrow>
     rpm_ok c \<and> rc_Name c \<notin> set ns \<and> rpm_key c \<notin> set ks \<and> r = (rc_Name c # ns, rpm_key c # ks)"
  by (auto simp: check_rpm_def rpm_ok_def limit_name_ok AIModelFormat_ok)

lemma distinct_tpm: "distinct (map tpm_key cs) \<longleftrightarrow> distinct (map tpm_ref cs)"
  by (rule distinct_keys) (rule tpm_key_inj)

lemma distinct_rpm: "distinct (map rpm_key cs) \<longleftrightarrow> distinct (map rpm_ref cs)"
  by (rule distinct_keys) (rule rpm_key_inj)

definition batch_limits_ok :: "BatchLimits \<Rightarrow> bool" where
  "batch_limits_ok b \<longleftrightarrow> 0 \<le> bl_MaxCreateRPM b \<and> 0 \<le> bl_MaxActiveBatches b \<and> 0 \<le> bl_MaxFileBytes b \<and> 0 \<le> bl_MaxFileLines b"

definition limits_ok :: "RateLimitRules \<Rightarrow> bool" where
  "limits_ok r \<longleftrightarrow> length (lr_TpmConfigs r) \<le> 3 \<and> length (lr_RpmConfigs r) \<le> 3 \<and>
     (\<forall>c. lr_MaxConcurrency r = Some c \<longrightarrow> -1 \<le> c) \<and> (\<forall>b. lr_BatchLimits r = Some b \<longrightarrow> batch_limits_ok b) \<and>
     (\<forall>c\<in>set (lr_TpmConfigs r). tpm_ok c) \<and> (\<forall>c\<in>set (lr_RpmConfigs r). rpm_ok c) \<and>
     distinct (map tc_Name (lr_TpmConfigs r) @ map rc_Name (lr_RpmConfigs r)) \<and>
     distinct (map tpm_ref (lr_TpmConfigs r)) \<and> distinct (map rpm_ref (lr_RpmConfigs r))"

lemma check_limits_loops:
  "(case check_each check_tpm ([], []) ts of Inl e \<Rightarrow> Inl e | Inr s \<Rightarrow> all_fine (check_each check_rpm (fst s, []) rs)) = Inr () \<longleftrightarrow>
     (\<forall>c\<in>set ts. tpm_ok c) \<and> (\<forall>c\<in>set rs. rpm_ok c) \<and> distinct (map tc_Name ts @ map rc_Name rs) \<and>
     distinct (map tpm_ref ts) \<and> distinct (map rpm_ref rs)"
proof -
  have t: "check_each check_tpm ([], []) ts = Inr s \<longleftrightarrow> (\<forall>c\<in>set ts. tpm_ok c) \<and> distinct (map tc_Name ts) \<and>
      distinct (map tpm_ref ts) \<and> s = (rev (map tc_Name ts), rev (map tpm_key ts))" for s
    using check_each_two [of check_tpm tpm_ok tc_Name tpm_key "[]" "[]" ts s, OF check_tpm_ok] by (auto simp: distinct_tpm)
  have r: "(\<exists>x. check_each check_rpm (ns, []) rs = Inr x) \<longleftrightarrow> (\<forall>c\<in>set rs. rpm_ok c) \<and> distinct (map rc_Name rs) \<and>
      distinct (map rpm_ref rs) \<and> set (map rc_Name rs) \<inter> set ns = {}" for ns
    using check_each_two [of check_rpm rpm_ok rc_Name rpm_key ns "[]" rs, OF check_rpm_ok] by (auto simp: distinct_rpm)
  show ?thesis
  proof (cases "check_each check_tpm ([], []) ts")
    case (Inl e)
    then have "\<not> ((\<forall>c\<in>set ts. tpm_ok c) \<and> distinct (map tc_Name ts) \<and> distinct (map tpm_ref ts))"
      using t [of "(rev (map tc_Name ts), rev (map tpm_key ts))"] by auto
    with Inl show ?thesis by auto
  next
    case (Inr s)
    then have s: "(\<forall>c\<in>set ts. tpm_ok c) \<and> distinct (map tc_Name ts) \<and> distinct (map tpm_ref ts)" "fst s = rev (map tc_Name ts)"
      using t by auto
    have "(case check_each check_tpm ([], []) ts of Inl e \<Rightarrow> Inl e | Inr s \<Rightarrow> all_fine (check_each check_rpm (fst s, []) rs)) = Inr ()
        \<longleftrightarrow> (\<exists>x. check_each check_rpm (fst s, []) rs = Inr x)" using Inr by simp
    also have "\<dots> \<longleftrightarrow> (\<forall>c\<in>set rs. rpm_ok c) \<and> distinct (map rc_Name rs) \<and> distinct (map rpm_ref rs) \<and>
        set (map rc_Name rs) \<inter> set (map tc_Name ts) = {}" unfolding r s(2) by simp
    finally show ?thesis using s(1) by (auto simp: distinct_append)
  qed
qed

lemma check_limit_rules_ok: "check_limit_rules r = Inr () \<longleftrightarrow> limits_ok r"
proof -
  have b: "check_batch_limits b = Inr () \<longleftrightarrow> batch_limits_ok b" for b
    by (auto simp: check_batch_limits_def batch_limits_ok_def)
  show ?thesis unfolding check_limit_rules_def seqE_ok check_limits_loops limits_ok_def fail_if_ok given_ok b by auto
qed

lemma RateLimitPolicy_ok:
  "validate_RateLimitPolicy (Some p) = Inr () \<longleftrightarrow>
     (sr_Enabled p = Some True \<longrightarrow> (\<exists>r. sr_Rules p = Some r \<and> limit_is_set r)) \<and>
     (\<forall>r. sr_Rules p = Some r \<longrightarrow> limits_ok r)"
  by (cases "sr_Rules p") (auto simp: validate_RateLimitPolicy_def check_limit_rules_ok)

section \<open>Texts of hosts\<close>

lemma Split_covers: "a \<in> set s \<Longrightarrow> a \<noteq> c \<Longrightarrow> \<exists>x\<in>set (Split s c). a \<in> set x"
  by (induction s c rule: Split.induct) (auto split: list.splits)

lemma parse_digits_letters: "parse_digits n s = Some m \<Longrightarrow> c \<in> set s \<Longrightarrow> digit_val c \<noteq> None"
  by (induction s arbitrary: n) (auto split: option.splits)

lemma parseIPv4_no_bar: "parseIPv4 s \<Longrightarrow> CHR ''|'' \<notin> set s"
proof
  assume p: "parseIPv4 s" and "CHR ''|'' \<in> set s"
  then obtain x where x: "x \<in> set (Split s CHR ''.'')" "CHR ''|'' \<in> set x" using Split_covers [of "CHR ''|''" s "CHR ''.''"] by auto
  with p have "ipv4_octet x" by (auto simp: parseIPv4_def list_all_iff)
  then obtain m where "parse_digits 0 x = Some m" by (auto simp: ipv4_octet_def split: option.splits)
  from parse_digits_letters [OF this x(2)] show False by simp
qed

lemma ipv6_groups_no_bar: "ipv6_groups n e s \<Longrightarrow> CHR ''|'' \<notin> set s"
proof (induction n e s rule: ipv6_groups.induct)
  case (2 n e s)
  let ?h = "takeWhile is_hex s" and ?r = "dropWhile is_hex s"
  have h: "CHR ''|'' \<notin> set ?h" by (auto dest!: set_takeWhileD simp: is_hex_def)
  have s: "set s = set ?h \<union> set ?r" by (metis set_append takeWhile_dropWhile_id)
  from 2(3) h have r: "?h \<noteq> []" "length ?h \<le> 4" by (auto simp: Let_def split: if_splits)
  show ?case
  proof (cases ?r)
    case Nil
    with h s show ?thesis by simp
  next
    case (Cons c t)
    consider "c = CHR ''.''" | "c = CHR '':''" "c \<noteq> CHR ''.''" using 2(3) r Cons by (auto simp: Let_def split: if_splits)
    then show ?thesis
    proof cases
      case 1
      with 2(3) r Cons have "parseIPv4 s" by (auto simp: Let_def split: if_splits)
      then show ?thesis by (rule parseIPv4_no_bar)
    next
      case c: 2
      then obtain d u where t: "t = d # u" using 2(3) r Cons by (cases t) (auto simp: Let_def split: if_splits)
      have "CHR ''|'' \<notin> set t"
      proof (cases "d = CHR '':''")
        case True
        then show ?thesis using 2(3) r Cons t c 2(1) [OF refl refl _ Cons _ _ t True] by (auto simp: Let_def split: if_splits)
      next
        case False
        then show ?thesis using 2(3) r Cons t c 2(2) [OF refl refl _ Cons _ _ t False] by (auto simp: Let_def split: if_splits)
      qed
      with h s Cons c show ?thesis by auto
    qed
  qed
qed simp

lemma ParseIP_no_bar: "ParseIP s \<Longrightarrow> CHR ''|'' \<notin> set s"
proof -
  assume p: "ParseIP s"
  have "CHR ''|'' \<notin> set s" if pre: "HasPrefix s ''::''" and rest: "CHR ''|'' \<notin> set (drop 2 s)"
  proof -
    obtain t where "s = ''::'' @ t" using pre unfolding HasPrefix_iff by blast
    with rest show ?thesis by simp
  qed
  then have "parseIPv6 s \<Longrightarrow> CHR ''|'' \<notin> set s"
    using ipv6_groups_no_bar by (auto simp: parseIPv6_def split: if_splits)
  with p show ?thesis using parseIPv4_no_bar by (auto simp: ParseIP_def split: option.splits if_splits)
qed

section \<open>Clusters\<close>

lemma Hostname_no_separator: "validate_Hostname s = Inr () \<Longrightarrow> CHR ''|'' \<notin> set s"
proof
  assume ok: "validate_Hostname s = Inr ()" and bar: "CHR ''|'' \<in> set s"
  have not: "\<not> is_alnum CHR ''|''" "\<not> is_hex CHR ''|''" "digit_val CHR ''|'' = None" by (simp_all add: is_alnum_def is_hex_def)
  show False
  proof (cases "ParseIP s")
    case True
    with bar show False using ParseIP_no_bar by blast
  next
    case False
    with ok have l: "\<And>x. x \<in> set (Split s CHR ''.'') \<Longrightarrow> hostnameLabel x" by (auto simp: validate_Hostname_def list_all_iff)
    from bar obtain x where "x \<in> set (Split s CHR ''.'')" "CHR ''|'' \<in> set x" using Split_covers [of "CHR ''|''" s "CHR ''.''"] by auto
    with l [of x] not(1) show False by (auto simp: hostnameLabel_def list_all_iff)
  qed
qed

lemma instance_key_inj:
  assumes "CHR ''|'' \<notin> set (is_Addr i)" "CHR ''|'' \<notin> set (is_Addr j)"
  shows "instance_key i = instance_key j \<longleftrightarrow> is_Name i = is_Name j \<and> is_Addr i = is_Addr j \<and> is_Port i = is_Port j"
proof -
  have k: "instance_key x = (is_Name x @ CHR ''|'' # is_Addr x) @ CHR ''|'' # show_int (is_Port x)" for x
    by (simp add: instance_key_def)
  show ?thesis unfolding k number_suffix_inj
    using last_colon_inj [of "is_Name i" "CHR ''|''" "is_Addr i" "is_Name j" "is_Addr j"] assms by auto
qed

lemma Instance_ok:
  "validate_Instance i = Inr () \<longleftrightarrow> length (is_Name i) \<le> 128 \<and> validate_Hostname (is_Addr i) = Inr () \<and>
     1 \<le> is_Port i \<and> is_Port i \<le> 65535 \<and> 0 \<le> is_Weight i \<and> is_Weight i \<le> 100"
  by (auto simp: validate_Instance_def validate_Port_def not_le Suc_le_eq simp flip: length_greater_0_conv)

definition instance_ref :: "Instance \<Rightarrow> string \<times> string \<times> int" where
  "instance_ref i = (is_Name i, is_Addr i, is_Port i)"

lemma check_instances_ok:
  "check_each check_instance (p, ns, ks) xs = Inr r \<longleftrightarrow>
     (\<forall>i\<in>set xs. validate_Instance i = Inr ()) \<and>
     distinct (filter (\<lambda>n. n \<noteq> []) (map is_Name xs)) \<and> set (filter (\<lambda>n. n \<noteq> []) (map is_Name xs)) \<inter> set ns = {} \<and>
     distinct (map instance_key xs) \<and> set (map instance_key xs) \<inter> set ks = {} \<and>
     r = (p \<or> (\<exists>i\<in>set xs. is_Weight i > 0), rev (filter (\<lambda>n. n \<noteq> []) (map is_Name xs)) @ ns, rev (map instance_key xs) @ ks)"
proof (induction xs arbitrary: p ns ks)
  case (Cons x xs)
  let ?ok = "validate_Instance x = Inr () \<and> (is_Name x = [] \<or> is_Name x \<notin> set ns) \<and> instance_key x \<notin> set ks"
  have step: "check_instance (p, ns, ks) x = Inr s \<longleftrightarrow> ?ok \<and>
      s = (p \<or> is_Weight x > 0, (if is_Name x \<noteq> [] then is_Name x # ns else ns), instance_key x # ks)" for s
    by (auto simp: check_instance_def)
  show ?case
  proof (cases "check_instance (p, ns, ks) x")
    case (Inl e)
    then have "\<not> ?ok" using step by auto
    with Inl show ?thesis by auto
  next
    case (Inr s)
    then have "?ok" "s = (p \<or> is_Weight x > 0, (if is_Name x \<noteq> [] then is_Name x # ns else ns), instance_key x # ks)"
      using step by blast+
    with Inr show ?thesis by (auto simp: Cons.IH)
  qed
qed auto

lemma InstancePool_ok:
  "validate_InstancePool xs = Inr () \<longleftrightarrow>
     (\<forall>i\<in>set xs. validate_Instance i = Inr ()) \<and> distinct (filter (\<lambda>n. n \<noteq> []) (map is_Name xs)) \<and>
     distinct (map instance_ref xs) \<and> (\<exists>i\<in>set xs. is_Weight i > 0)"
proof -
  have d: "distinct (map instance_key xs) \<longleftrightarrow> distinct (map instance_ref xs)" if "\<forall>i\<in>set xs. validate_Instance i = Inr ()"
    using that by (intro distinct_keys) (simp add: instance_key_inj Hostname_no_separator Instance_ok instance_ref_def)
  have "validate_InstancePool xs = Inr () \<longleftrightarrow>
      xs \<noteq> [] \<and> (\<exists>r. check_each check_instance (False, [], []) xs = Inr r \<and> fst r)"
    by (cases "check_each check_instance (False, [], []) xs") (auto simp: validate_InstancePool_def)
  then show ?thesis using d unfolding check_instances_ok by auto
qed

definition key_ref_ok :: "ClusterKeyRef \<Rightarrow> bool" where
  "key_ref_ok k = (\<exists>n w. lk_Name k = Some n \<and> n \<noteq> [] \<and> length n \<le> 128 \<and> lk_Weight k = Some w \<and> 0 \<le> w \<and> w \<le> 100)"

definition key_ref_weight :: "ClusterKeyRef \<Rightarrow> int" where
  "key_ref_weight k = (case lk_Weight k of None \<Rightarrow> 0 | Some w \<Rightarrow> w)"

lemma check_key_ref_ok:
  "check_key_ref (t, ns) k = Inr r \<longleftrightarrow> key_ref_ok k \<and> str_of (lk_Name k) \<notin> set ns \<and>
     r = (t + key_ref_weight k, str_of (lk_Name k) # ns)"
  by (cases "lk_Weight k") (auto simp: check_key_ref_def key_ref_ok_def key_ref_weight_def str_of_def Suc_le_eq
      simp flip: length_greater_0_conv)

lemma foldl_key_weights: "foldl (\<lambda>s k. s + key_ref_weight k) s ks = s + sum_list (map key_ref_weight ks)"
  by (induction ks arbitrary: s) simp_all

lemma check_key_refs_ok:
  "check_key_refs ks = Inr () \<longleftrightarrow> ks = [] \<or>
     (\<forall>k\<in>set ks. key_ref_ok k) \<and> distinct (map (\<lambda>k. str_of (lk_Name k)) ks) \<and> sum_list (map key_ref_weight ks) = 100"
proof (cases "ks = []")
  case False
  have "check_key_refs ks = Inr () \<longleftrightarrow> (\<exists>r. check_each check_key_ref (0, []) ks = Inr r \<and> fst r = 100)"
    using False by (cases "check_each check_key_ref (0, []) ks") (auto simp: check_key_refs_def)
  also have "\<dots> \<longleftrightarrow> (\<forall>k\<in>set ks. key_ref_ok k) \<and> distinct (map (\<lambda>k. str_of (lk_Name k)) ks) \<and>
      sum_list (map key_ref_weight ks) = 100"
    using check_each_sum [of check_key_ref key_ref_ok "\<lambda>k. str_of (lk_Name k)" "\<lambda>s k. s + key_ref_weight k" 0 "[]" ks,
        OF check_key_ref_ok]
    by (auto simp: foldl_key_weights)
  finally show ?thesis using False by simp
qed (simp add: check_key_refs_def)

section \<open>Named rules\<close>

lemma named_cond_ok:
  "named_cond build (ns, cs) name cond rest = Inr r \<longleftrightarrow>
     (\<exists>n c. name = Some n \<and> n \<noteq> [] \<and> length n \<le> 128 \<and> cond = Some c \<and> c \<noteq> [] \<and> build c \<and> rest = Inr ()) \<and>
     str_of name \<notin> set ns \<and> str_of cond \<notin> set cs \<and> r = (str_of name # ns, str_of cond # cs)"
  by (cases name; cases cond) (auto simp: named_cond_def validate_ConditionExpression_def str_of_def)

text \<open>A collection of named rules is accepted when every rule is, and no name and no condition repeats.\<close>

lemma named_rules_ok:
  assumes step: "\<And>s x. f s (Some x) = named_cond build s (name x) (cond x) (rest x)" and null: "\<And>s. \<exists>e. f s None = Inl e"
  shows "(\<exists>r. check_each f ([], []) xs = Inr r) \<longleftrightarrow>
    (\<forall>x\<in>set xs. \<exists>y n c. x = Some y \<and> name y = Some n \<and> n \<noteq> [] \<and> length n \<le> 128 \<and> cond y = Some c \<and> c \<noteq> [] \<and> build c \<and>
       rest y = Inr ()) \<and>
    distinct (map (\<lambda>x. Option.bind x name) xs) \<and> distinct (map (\<lambda>x. Option.bind x cond) xs)"
proof -
  let ?good = "\<lambda>x. \<exists>y n c. x = Some y \<and> name y = Some n \<and> n \<noteq> [] \<and> length n \<le> 128 \<and> cond y = Some c \<and> c \<noteq> [] \<and> build c \<and>
       rest y = Inr ()"
  let ?k1 = "\<lambda>x. str_of (Option.bind x name)" and ?k2 = "\<lambda>x. str_of (Option.bind x cond)"
  have "f (as, bs) x = Inr r \<longleftrightarrow> ?good x \<and> ?k1 x \<notin> set as \<and> ?k2 x \<notin> set bs \<and> r = (?k1 x # as, ?k2 x # bs)" for as bs x r
    using null [of "(as, bs)"] by (cases x) (auto simp: step named_cond_ok)
  from check_each_two [of f ?good ?k1 ?k2, OF this, of "[]" "[]" xs]
  have e: "(\<exists>r. check_each f ([], []) xs = Inr r) \<longleftrightarrow> (\<forall>x\<in>set xs. ?good x) \<and> distinct (map ?k1 xs) \<and> distinct (map ?k2 xs)"
    by auto
  have inj: "?k1 x = ?k1 y \<longleftrightarrow> Option.bind x name = Option.bind y name" "?k2 x = ?k2 y \<longleftrightarrow> Option.bind x cond = Option.bind y cond"
    if "?good x" "?good y" for x y
    using that by (elim exE conjE, simp add: str_of_def)+
  have "distinct (map ?k1 xs) \<longleftrightarrow> distinct (map (\<lambda>x. Option.bind x name) xs)"
      "distinct (map ?k2 xs) \<longleftrightarrow> distinct (map (\<lambda>x. Option.bind x cond) xs)" if g: "\<forall>x\<in>set xs. ?good x"
    by (rule distinct_keys; rule inj; use g in blast)+
  with e show ?thesis by blast
qed

end
