(* ===== verification/RouteFacts.thy ===== *)
theory RouteFacts
  imports RouteManager ValidateFacts
begin

text \<open>
  Facts about the manager of route rules: it accepts what the endpoint's check accepts, its reference checks find exactly the rules that
  refer to a cluster or model, and what a run without failures does to the table.
\<close>

section \<open>Both checks of a request\<close>

lemma add_weights:
  "\<forall>t\<in>set ts. target_ok t \<Longrightarrow> check_each add_weight s ts = Inr (s + sum_list (map target_weight ts))"
  by (induction ts arbitrary: s) (auto simp: add_weight_def target_ok_def target_weight_def add.assoc)

definition manager_rule_ok :: "(string \<Rightarrow> bool) \<Rightarrow> AiRouteRuleParam option \<Rightarrow> bool" where
  "manager_rule_ok build rule = (\<exists>r n c. rule = Some r \<and> ar_Name r = Some n \<and> n \<noteq> [] \<and> ar_Cond r = Some c \<and> c \<noteq> [] \<and> build c \<and>
     ar_Targets r \<noteq> [] \<and> check_each add_weight 0 (ar_Targets r) = Inr 100 \<and>
     (\<forall>f\<in>set (ar_Fallbacks r). fallback_named () f = Inr ()))"

lemma manager_check_rule_ok:
  "manager_check_rule build names rule = Inr r \<longleftrightarrow>
     manager_rule_ok build rule \<and> rule_name rule \<notin> set names \<and> r = rule_name rule # names"
proof (cases rule)
  case (Some x)
  have s: "(case check_each add_weight 0 (ar_Targets x) of Inl e \<Rightarrow> Inl e
      | Inr s \<Rightarrow> fail_if (s \<noteq> 100) ''targets total weight must be 100'') = Inr () \<longleftrightarrow>
      check_each add_weight 0 (ar_Targets x) = Inr 100"
    by (cases "check_each add_weight 0 (ar_Targets x)") auto
  have f: "check_each fallback_named () fs = Inr () \<longleftrightarrow> (\<forall>f\<in>set fs. fallback_named () f = Inr ())" for fs
    using check_each_unit [of "fallback_named ()" fs] by (simp add: fallback_named_def [abs_def])
  show ?thesis
    by (auto simp: Some manager_check_rule_def manager_rule_ok_def rule_name_def str_of_def
        validate_ConditionExpression_def s f)
qed (simp add: manager_check_rule_def manager_rule_ok_def)

lemma manager_RouteRules_ok:
  "validateRouteRules build (Some p) = Inr () \<longleftrightarrow>
     (\<forall>r\<in>set (rs_Rules p). manager_rule_ok build r) \<and> distinct (map rule_name (rs_Rules p))"
  using check_each_keys [of "manager_check_rule build" "manager_rule_ok build" rule_name "[]" "rs_Rules p", OF manager_check_rule_ok]
  by (auto simp: validateRouteRules_def)

lemma fallback_ok_named: "fallback_ok f \<Longrightarrow> fallback_named () f = Inr ()"
  by (auto simp: fallback_ok_def ref_ok_def fallback_named_def str_of_def ClusterName_ok)

lemma rule_ok_manager:
  assumes "rule_ok build r"
  shows "manager_rule_ok build r"
proof -
  from assms obtain x n c where x: "r = Some x" "ar_Name x = Some n" "n \<noteq> []" "ar_Cond x = Some c" "c \<noteq> []" "build c"
    and t: "\<forall>t\<in>set (ar_Targets x). target_ok t" "sum_list (map target_weight (ar_Targets x)) = 100"
    and f: "\<forall>f\<in>set (ar_Fallbacks x). fallback_ok f"
    unfolding rule_ok_def by (elim exE conjE) (rule that)
  from t have "ar_Targets x \<noteq> []" "check_each add_weight 0 (ar_Targets x) = Inr 100" by (auto simp: add_weights)
  then show ?thesis unfolding manager_rule_ok_def using x f fallback_ok_named by blast
qed

text \<open>What the endpoint accepts, the manager accepts.\<close>

lemma endpoint_check_is_stronger:
  "validate_RouteRules build (Some p) = Inr () \<Longrightarrow> validateRouteRules build (Some p) = Inr ()"
  by (simp add: RouteRules_ok manager_RouteRules_ok rule_ok_manager)

section \<open>References\<close>

text \<open>The clusters and models that a rule names, in targets and fallbacks.\<close>

definition rule_refs :: "AiRouteRuleParam \<Rightarrow> (string \<times> string option) set" where
  "rule_refs r =
     {(c, at_Model x) | x c. Some x \<in> set (ar_Targets r) \<and> at_ClusterName x = Some c} \<union>
     {(c, af_Model x) | x c. Some x \<in> set (ar_Fallbacks r) \<and> af_ClusterName x = Some c}"

definition table_refs :: "owner_deps \<Rightarrow> owner_db \<Rightarrow> (string \<times> string option) set" where
  "table_refs dp d = (\<Union>row\<in>set (rows (o_route_rules d)). \<Union>r\<in>{r. Some r \<in> set (rs_Rules (routeRulesDataToParam dp row))}. rule_refs r)"

lemma target_hit_iff: "target_hit p t \<longleftrightarrow> (\<exists>x c. t = Some x \<and> at_ClusterName x = Some c \<and> p c (at_Model x))"
  by (auto simp: target_hit_def split: option.splits)

lemma fallback_hit_iff: "fallback_hit p f \<longleftrightarrow> (\<exists>x c. f = Some x \<and> af_ClusterName x = Some c \<and> p c (af_Model x))"
  by (auto simp: fallback_hit_def split: option.splits)

lemma check_rule_refs_ok:
  "check_rule_refs p msg u rule = Inr () \<longleftrightarrow> (\<forall>r. rule = Some r \<longrightarrow> (\<forall>(c, m)\<in>rule_refs r. \<not> p c m))"
proof (cases rule)
  case (Some r)
  have "(\<exists>t\<in>set (ar_Targets r). target_hit p t) \<or> (\<exists>f\<in>set (ar_Fallbacks r). fallback_hit p f) \<longleftrightarrow> (\<exists>(c, m)\<in>rule_refs r. p c m)"
    unfolding target_hit_iff fallback_hit_iff rule_refs_def by blast
  then show ?thesis using Some by (auto simp: check_rule_refs_def)
qed (simp add: check_rule_refs_def)

lemma check_tables_ok:
  "check_each (\<lambda>u p. check_each (check_rule_refs q msg) u (rs_Rules p)) () ps = Inr () \<longleftrightarrow>
     (\<forall>p\<in>set ps. \<forall>r. Some r \<in> set (rs_Rules p) \<longrightarrow> (\<forall>(c, m)\<in>rule_refs r. \<not> q c m))"
proof -
  have u: "check_rule_refs q msg = (\<lambda>_. check_rule_refs q msg ())" by (rule ext) simp
  have i: "check_each (check_rule_refs q msg) () rs = Inr () \<longleftrightarrow> (\<forall>x\<in>set rs. check_rule_refs q msg () x = Inr ())" for rs
    by (subst u) (rule check_each_unit)
  have e: "(\<lambda>u p. check_each (check_rule_refs q msg) u (rs_Rules p)) = (\<lambda>_ p. check_each (check_rule_refs q msg) () (rs_Rules p))"
    by (intro ext) simp
  have "check_each (\<lambda>u p. check_each (check_rule_refs q msg) u (rs_Rules p)) () ps = Inr () \<longleftrightarrow>
      (\<forall>p\<in>set ps. check_each (check_rule_refs q msg) () (rs_Rules p) = Inr ())"
    by (subst e) (rule check_each_unit)
  then show ?thesis unfolding i check_rule_refs_ok by blast
qed

lemma fetched_rules:
  "fst (run_state (storage_FetchAllRouteRules dp) w) = Inr ps \<Longrightarrow> ps = map (routeRulesDataToParam dp) (rows (o_route_rules (odb w)))"
  by (auto simp: storage_FetchAllRouteRules_def db_read_def TRouteRulesList_def take_limit_def empty_TRouteRulesParam_def
      where_rules_def eq_opt_def split: list.splits fault.splits)

lemma fetch_all_quiet:
  "faults w = [] \<Longrightarrow> run_state (storage_FetchAllRouteRules dp) w =
     (Inr (map (routeRulesDataToParam dp) (rows (o_route_rules (odb w)))), w)"
  by (simp add: storage_FetchAllRouteRules_def db_read_def TRouteRulesList_def take_limit_def empty_TRouteRulesParam_def
      where_rules_def eq_opt_def)

lemma tables_without_refs:
  "check_each (\<lambda>u p. check_each (check_rule_refs q msg) u (rs_Rules p)) () (map (routeRulesDataToParam dp) (rows (o_route_rules d))) = Inr () \<longleftrightarrow>
     (\<forall>(c, m)\<in>table_refs dp d. \<not> q c m)"
  unfolding check_tables_ok table_refs_def by fastforce

lemma removedModels_set:
  "set (removedModels oldConfig newConfig) = (case oldConfig of None \<Rightarrow> {} | Some c \<Rightarrow> set (ll_Models c)) - set (ll_Models newConfig)"
  by (auto simp: removedModels_def split: option.splits)

lemma refs_call:
  "fst (run_state (bindE (storage_FetchAllRouteRules dp) (\<lambda>ps. lift_err (f ps))) w) = Inr () \<Longrightarrow>
     f (map (routeRulesDataToParam dp) (rows (o_route_rules (odb w)))) = Inr ()"
  using fetched_rules [of dp w]
  by (cases "run_state (storage_FetchAllRouteRules dp) w") (auto split: sum.splits)

lemma refs_call_quiet:
  "faults w = [] \<Longrightarrow> run_state (bindE (storage_FetchAllRouteRules dp) (\<lambda>ps. lift_err (f ps))) w =
     (f (map (routeRulesDataToParam dp) (rows (o_route_rules (odb w)))), w)"
  by (simp add: fetch_all_quiet)

lemma delete_check_refs:
  "checkClusterReferencedByRouteRules name (map (routeRulesDataToParam dp) (rows (o_route_rules d))) = Inr () \<longleftrightarrow>
     (\<forall>(c, m)\<in>table_refs dp d. c \<noteq> name)"
  unfolding checkClusterReferencedByRouteRules_def tables_without_refs ..

lemma model_check_refs:
  "checkClusterModelsReferenced name models (map (routeRulesDataToParam dp) (rows (o_route_rules d))) = Inr () \<longleftrightarrow>
     (\<forall>x\<in>set models. (name, Some x) \<notin> table_refs dp d)"
  unfolding checkClusterModelsReferenced_def tables_without_refs by fastforce

section \<open>Changing the global rules\<close>

text \<open>The keys of the table: ids below the next one, each used once, and one row for an owner.\<close>

definition route_table_ok :: "TRouteRules table \<Rightarrow> bool" where
  "route_table_ok t \<longleftrightarrow> uniq_rules (rows t) \<and> distinct (map to_ID (rows t)) \<and> (\<forall>r\<in>set (rows t). to_ID r < next_id t)"

definition is_global :: "TRouteRules \<Rightarrow> bool" where
  "is_global r \<longleftrightarrow> to_Type r = ''global'' \<and> to_Owner r = ''global''"

text \<open>
  What the code relies on of the JSON of a list of rules: a text is written that reads back to the list. It holds when the texts in the rules are
  valid UTF-8, as those of a decoded request are.\<close>

definition rules_codec :: "owner_deps \<Rightarrow> AiRouteRuleParam option list \<Rightarrow> bool" where
  "rules_codec dp rs \<longleftrightarrow> (\<forall>s. marshalRouteRules dp rs = Inr s \<longrightarrow> s \<noteq> [] \<and> oc_decRules dp s = rs)"

lemma run_fetch_global:
  "faults w = [] \<Longrightarrow> run_state (storage_FetchRouteRules dp ''global'' (Some ''global'')) w =
     (Inr (map_option (routeRulesDataToParam dp) (List.find is_global (rows (o_route_rules (odb w))))), w)"
proof -
  have "where_rules (Some (empty_TRouteRulesParam\<lparr>po_Type := Some ''global'', po_Owner := Some ''global''\<rparr>)) = is_global"
    by (intro ext) (simp add: where_rules_def empty_TRouteRulesParam_def eq_opt_def is_global_def)
  then show "faults w = [] \<Longrightarrow> ?thesis" by (simp add: storage_FetchRouteRules_def db_read_def TRouteRulesOne_def)
qed

lemma run_fetch_id:
  "faults w = [] \<Longrightarrow> run_state (storage_FetchRouteRulesByID dp i) w =
     (Inr (map_option (routeRulesDataToParam dp) (List.find (\<lambda>r. to_ID r = i) (rows (o_route_rules (odb w))))), w)"
proof -
  have "where_rules (Some (empty_TRouteRulesParam\<lparr>po_ID := Some i\<rparr>)) = (\<lambda>r. to_ID r = i)"
    by (intro ext) (simp add: where_rules_def empty_TRouteRulesParam_def eq_opt_def)
  then show "faults w = [] \<Longrightarrow> ?thesis" by (simp add: storage_FetchRouteRulesByID_def db_read_def TRouteRulesOne_def)
qed

text \<open>The row that a change leaves: the old one with new contents, or a new one at the end.\<close>

definition changed_row :: "string \<Rightarrow> bool option \<Rightarrow> TRouteRules \<Rightarrow> TRouteRules" where
  "changed_row text enabled r = r\<lparr>to_Enabled := opt_set enabled (to_Enabled r), to_Rules := text\<rparr>"

lemma find_row:
  assumes "distinct (map to_ID rs)" "r \<in> set rs"
  shows "List.find (\<lambda>x. to_ID x = to_ID r) rs = Some r"
proof -
  have "List.find (\<lambda>x. to_ID x = to_ID r) rs \<noteq> None" using assms(2) find_NoneD by fastforce
  then obtain x where x: "List.find (\<lambda>x. to_ID x = to_ID r) rs = Some x" by blast
  from find_Some_in [OF this] assms have "x = r" by (metis distinct_map_eq)
  with x show ?thesis by simp
qed

lemma find_global:
  assumes "uniq_rules rs" "r \<in> set rs" "is_global r"
  shows "List.find is_global rs = Some r"
proof -
  have "List.find is_global rs \<noteq> None" using assms(2,3) find_NoneD by fastforce
  then obtain x where x: "List.find is_global rs = Some x" by blast
  from find_Some_in [OF this] have "x \<in> set rs" "is_global x" by simp_all
  with assms have "x = r"
    using distinct_map_eq [of "\<lambda>r. (to_Type r, to_Owner r)" rs x r] by (simp add: uniq_rules_def is_global_def)
  with x show ?thesis by simp
qed

definition rules_changed :: "string \<Rightarrow> bool \<Rightarrow> int \<Rightarrow> TRouteRules table \<Rightarrow> TRouteRules table \<Rightarrow> bool" where
  "rules_changed body e i t t' \<longleftrightarrow> route_table_ok t' \<and>
     (\<exists>r\<in>set (rows t'). is_global r \<and> to_ID r = i \<and> to_Rules r = body \<and> to_Enabled r = e) \<and>
     filter (\<lambda>r. \<not> is_global r) (rows t') = filter (\<lambda>r. \<not> is_global r) (rows t)"

lemma changed_row_keys [simp]:
  "to_ID (changed_row x e r) = to_ID r" "to_Type (changed_row x e r) = to_Type r" "to_Owner (changed_row x e r) = to_Owner r"
  "is_global (changed_row x e r) = is_global r"
  by (simp_all add: changed_row_def is_global_def)

lemma filter_update_where:
  "(\<And>x. x \<in> set xs \<Longrightarrow> p x \<Longrightarrow> \<not> q x) \<Longrightarrow> (\<And>x. q (f x) = q x) \<Longrightarrow> filter q (update_where p f xs) = filter q xs"
  by (induction xs) (auto simp: update_where_def)

lemma rules_changed_update:
  assumes ok: "route_table_ok t" and r: "r \<in> set (rows t)" "is_global r"
  shows "uniq_rules (update_where (\<lambda>x. to_ID x = to_ID r) (changed_row body (Some e)) (rows t))"
    and "rules_changed body e (to_ID r) t (t\<lparr>rows := update_where (\<lambda>x. to_ID x = to_ID r) (changed_row body (Some e)) (rows t)\<rparr>)"
proof -
  let ?f = "changed_row body (Some e)" and ?p = "\<lambda>x. to_ID x = to_ID r"
  have ids: "map to_ID (update_where ?p ?f (rows t)) = map to_ID (rows t)" by (auto simp: update_where_def)
  have "map (\<lambda>r. (to_Type r, to_Owner r)) (update_where ?p ?f (rows t)) = map (\<lambda>r. (to_Type r, to_Owner r)) (rows t)"
    by (auto simp: update_where_def)
  with ok show u: "uniq_rules (update_where ?p ?f (rows t))" by (simp add: route_table_ok_def uniq_rules_def)
  have "\<forall>x\<in>set (update_where ?p ?f (rows t)). to_ID x < next_id t"
    using ok by (auto simp: route_table_ok_def update_where_def)
  with ok u ids have ok': "route_table_ok (t\<lparr>rows := update_where ?p ?f (rows t)\<rparr>)" by (simp add: route_table_ok_def)
  have "is_global x" if "x \<in> set (rows t)" "?p x" for x
  proof -
    have "x = r" using ok r that by (auto simp: route_table_ok_def dest: distinct_map_eq)
    with r show ?thesis by simp
  qed
  then have "filter (\<lambda>x. \<not> is_global x) (update_where ?p ?f (rows t)) = filter (\<lambda>x. \<not> is_global x) (rows t)"
    by (intro filter_update_where) auto
  moreover have "?f r \<in> set (update_where ?p ?f (rows t))" using r by (force simp: update_where_def)
  ultimately show "rules_changed body e (to_ID r) t (t\<lparr>rows := update_where ?p ?f (rows t)\<rparr>)"
    using ok' r by (auto simp: rules_changed_def changed_row_def is_global_def opt_set_def intro!: bexI [of _ "?f r"])
qed

lemma rules_changed_insert:
  assumes ok: "route_table_ok t" and none: "\<forall>r\<in>set (rows t). \<not> is_global r"
    and n: "is_global n" "to_ID n = next_id t" "to_Rules n = body" "to_Enabled n = e"
  shows "uniq_rules (rows t @ [n])"
    and "rules_changed body e (next_id t) t (t\<lparr>rows := rows t @ [n], next_id := next_id t + 1\<rparr>)"
proof -
  show u: "uniq_rules (rows t @ [n])"
    using ok none n(1) by (auto simp: route_table_ok_def uniq_rules_def is_global_def)
  have "distinct (map to_ID (rows t @ [n]))" "\<forall>x\<in>set (rows t @ [n]). to_ID x < next_id t + 1"
    using ok n(2) by (auto simp: route_table_ok_def)
  with u have "route_table_ok (t\<lparr>rows := rows t @ [n], next_id := next_id t + 1\<rparr>)" by (simp add: route_table_ok_def)
  then show "rules_changed body e (next_id t) t (t\<lparr>rows := rows t @ [n], next_id := next_id t + 1\<rparr>)"
    using n by (simp add: rules_changed_def)
qed

lemma run_UpdateRouteRules_global:
  assumes w: "faults w = []" and ok: "route_table_ok (o_route_rules (odb w))"
    and v: "validateRouteRules build (Some p) = Inr ()" and m: "marshalRouteRules dp (rs_Rules p) = Inr body" and e: "rs_Enabled p = Some e"
  obtains i t' where "run_state (UpdateRouteRules dp build ''global'' (Some ''global'') p) w =
      (Inr i, w\<lparr>odb := (odb w)\<lparr>o_route_rules := t'\<rparr>\<rparr>)" "rules_changed body e i (o_route_rules (odb w)) t'"
proof (cases "List.find is_global (rows (o_route_rules (odb w)))")
  case None
  let ?t = "o_route_rules (odb w)"
  let ?n = "\<lparr>to_ID = next_id ?t, to_Type = ''global'', to_Owner = ''global'', to_Enabled = e, to_Rules = body,
    to_CreatedAt = qc_time dp (o_now w), to_UpdatedAt = qc_time dp (o_now w)\<rparr>"
  let ?t' = "?t\<lparr>rows := rows ?t @ [?n], next_id := next_id ?t + 1\<rparr>"
  have none: "\<forall>r\<in>set (rows ?t). \<not> is_global r" using None by (simp add: find_None_iff)
  note ins = rules_changed_insert [OF ok none, of ?n body e]
  have u: "uniq_rules (rows ?t @ [?n])" and c: "rules_changed body e (next_id ?t) ?t ?t'"
    using ins by (simp_all add: is_global_def)
  have "run_state (UpdateRouteRules dp build ''global'' (Some ''global'') p) w = (Inr (next_id ?t), w\<lparr>odb := (odb w)\<lparr>o_route_rules := ?t'\<rparr>\<rparr>)"
    unfolding UpdateRouteRules_def owner_AtomExecute_def
    by (rule owner_txn.txn_ok)
       (use w v m e None u in \<open>simp_all add: run_fetch_global storage_CreateRouteRules_def on_rules_def db_call_def TRouteRulesCreate_def
         empty_TRouteRulesParam_def assign_rules_def opt_set_def sql_insert_def\<close>)
  then show ?thesis using c by (rule that)
next
  case (Some r)
  let ?t = "o_route_rules (odb w)"
  let ?t' = "?t\<lparr>rows := update_where (\<lambda>x. to_ID x = to_ID r) (changed_row body (Some e)) (rows ?t)\<rparr>"
  from find_Some_in [OF Some] have r: "r \<in> set (rows ?t)" "is_global r" by simp_all
  note upd = rules_changed_update [OF ok r, of body e]
  have wh: "where_rules (Some (empty_TRouteRulesParam\<lparr>po_ID := Some i\<rparr>)) = (\<lambda>r. to_ID r = i)" for i
    by (intro ext) (simp add: where_rules_def empty_TRouteRulesParam_def eq_opt_def)
  have as: "assign_rules dp (empty_TRouteRulesParam\<lparr>po_Enabled := Some e, po_Rules := Some body\<rparr>) = changed_row body (Some e)"
    by (intro ext) (simp add: assign_rules_def empty_TRouteRulesParam_def changed_row_def opt_set_def)
  have lim: "po_Limit (empty_TRouteRulesParam\<lparr>po_ID := Some i\<rparr>) = None" for i by (simp add: empty_TRouteRulesParam_def)
  have "run_state (UpdateRouteRules dp build ''global'' (Some ''global'') p) w = (Inr (to_ID r), w\<lparr>odb := (odb w)\<lparr>o_route_rules := ?t'\<rparr>\<rparr>)"
    unfolding UpdateRouteRules_def owner_AtomExecute_def
    by (rule owner_txn.txn_ok)
       (use w v m e Some upd(1) in \<open>simp_all add: run_fetch_global routeRulesDataToParam_def storage_UpdateRouteRules_def on_rules_def
         db_call_def TRouteRulesUpdate_def wh as lim limited_update_def sql_update_def\<close>)
  then show ?thesis using upd(2) by (rule that)
qed

lemma read_back:
  assumes "rules_codec dp rs" "marshalRouteRules dp rs = Inr body" "to_Rules r = body" "to_Enabled r = e"
  shows "routeRulesDataToParam dp r = \<lparr>rs_ID = Some (to_ID r), rs_Enabled = Some e, rs_Rules = rs\<rparr>"
  using assms by (auto simp: rules_codec_def routeRulesDataToParam_def)

lemma validate_rules_only [simp]: "validateRouteRules build (Some (p\<lparr>rs_Enabled := e\<rparr>)) = validateRouteRules build (Some p)"
  by (simp add: validateRouteRules_def given_def)

lemma run_GetGlobal:
  assumes "faults w = []" "route_table_ok (o_route_rules (odb w))" "r \<in> set (rows (o_route_rules (odb w)))" "is_global r"
  shows "run_state (GetGlobalRouteRules dp) w = (Inr (Some (routeRulesDataToParam dp r)), w)"
proof -
  have "List.find is_global (rows (o_route_rules (odb w))) = Some r"
    using assms by (intro find_global) (simp_all add: route_table_ok_def)
  then show ?thesis unfolding GetGlobalRouteRules_def FetchRouteRules_def owner_AtomExecute_def
    by (intro owner_txn.txn_ok) (use assms(1) in \<open>simp_all add: run_fetch_global\<close>)
qed

text \<open>The run of a change of the global rules, up to the entry of the log.\<close>

lemma run_SetGlobal:
  assumes w: "faults w = []" and ok: "route_table_ok (o_route_rules (odb w))" and codec: "rules_codec dp (rs_Rules p)"
    and v: "validateRouteRules build (Some p) = Inr ()" and m: "marshalRouteRules dp (rs_Rules p) = Inr body" and e: "rs_Enabled p = Some e"
  obtains i t' l where "run_state (SetGlobalRouteRules dp build p) w =
      (Inr \<lparr>rs_ID = Some i, rs_Enabled = Some e, rs_Rules = rs_Rules p\<rparr>, w\<lparr>odb := (odb w)\<lparr>o_route_rules := t'\<rparr>, o_log := l\<rparr>)"
    "rules_changed body e i (o_route_rules (odb w)) t'"
proof -
  from run_UpdateRouteRules_global [OF w ok v m e] obtain i t' where
    run: "run_state (UpdateRouteRules dp build ''global'' (Some ''global'') p) w = (Inr i, w\<lparr>odb := (odb w)\<lparr>o_route_rules := t'\<rparr>\<rparr>)"
    and c: "rules_changed body e i (o_route_rules (odb w)) t'" .
  let ?w = "w\<lparr>odb := (odb w)\<lparr>o_route_rules := t'\<rparr>\<rparr>"
  from c obtain r where r: "r \<in> set (rows t')" "to_ID r = i" "to_Rules r = body" "to_Enabled r = e" and t': "route_table_ok t'"
    by (auto simp: rules_changed_def)
  have "List.find (\<lambda>r. to_ID r = i) (rows t') = Some r" using find_row [of "rows t'" r] r t' by (simp add: route_table_ok_def)
  then have id: "run_state (storage_FetchRouteRulesByID dp i) ?w =
      (Inr (Some \<lparr>rs_ID = Some i, rs_Enabled = Some e, rs_Rules = rs_Rules p\<rparr>), ?w)"
    using w read_back [OF codec m r(3,4)] r(2) by (simp add: run_fetch_id)
  have same: "?w\<lparr>o_log := o_log w\<rparr> = ?w" by (cases w) simp
  have "\<exists>l. run_state (SetGlobalRouteRules dp build p) w =
      (Inr \<lparr>rs_ID = Some i, rs_Enabled = Some e, rs_Rules = rs_Rules p\<rparr>, ?w\<lparr>o_log := l\<rparr>)"
  proof (cases "qc_operationLog dp")
    case True
    then show ?thesis using w run id
      by (simp add: SetGlobalRouteRules_def run_fetch_global Let_def recordGlobalRouteRulesOperation_def owner_log_def)
         (rule exI, rule refl)
  next
    case False
    then have "run_state (SetGlobalRouteRules dp build p) w =
        (Inr \<lparr>rs_ID = Some i, rs_Enabled = Some e, rs_Rules = rs_Rules p\<rparr>, ?w)" using w run id
      by (simp add: SetGlobalRouteRules_def run_fetch_global Let_def recordGlobalRouteRulesOperation_def owner_log_def)
    then show ?thesis by (intro exI [of _ "o_log w"]) (simp only: same)
  qed
  then obtain l where "run_state (SetGlobalRouteRules dp build p) w =
      (Inr \<lparr>rs_ID = Some i, rs_Enabled = Some e, rs_Rules = rs_Rules p\<rparr>, ?w\<lparr>o_log := l\<rparr>)" ..
  then show ?thesis using c by (intro that) simp_all
qed

end
