(* ===== verification/RequestProperties.thy ===== *)
theory RequestProperties
  imports RouteFacts AuthManager TokenFacts OwnerReach
begin

text \<open>
  Properties of the request checks and of the manager of route rules: what is accepted, that the checks of the endpoints and of the
  managers agree, that a cluster in use is kept, and that the global rules are read back as they were written.
\<close>

section \<open>Route rules\<close>




definition sample_target :: "string \<Rightarrow> string \<Rightarrow> i64 \<Rightarrow> AiRouteTargetParam option" where
  "sample_target c m w = Some \<lparr>at_ClusterName = Some c, at_Model = Some m, at_Weight = Some w\<rparr>"

definition sample_rules :: RouteRulesParam where
  "sample_rules = \<lparr>rs_ID = None, rs_Enabled = None, rs_Rules = [Some \<lparr>ar_Name = Some ''chat'', ar_Cond = Some ''default_t()'',
     ar_Targets = [sample_target ''east'' ''m1'' 70, sample_target ''east'' ''m2'' 30],
     ar_Fallbacks = [Some \<lparr>af_ClusterName = Some ''west'', af_Model = None\<rparr>]\<rparr>]\<rparr>"

lemma sample_rules_ok: "validate_RouteRules (\<lambda>_. True) (Some sample_rules) = Inr ()"
  by code_simp


section \<open>Clusters that rules refer to\<close>

text \<open>
  C38. The check before a cluster is deleted passes only when no stored rule names the cluster, as a target or as a fallback, whatever
  calls fail; the check before the models of a cluster change passes only when no stored rule names one of the models that go. Without failures both pass in exactly these
  cases, and neither changes anything.\<close>

theorem clusters_in_use_are_kept:
  "(fst (run_state (ClusterDeleteChecker dp name) w) = Inr () \<longrightarrow> (\<forall>(c, m)\<in>table_refs dp (odb w). c \<noteq> name)) \<and>
   (fst (run_state (ClusterModelUpdateChecker dp name old (Some new)) w) = Inr () \<longrightarrow>
      (\<forall>x\<in>(case old of None \<Rightarrow> {} | Some c \<Rightarrow> set (ll_Models c)) - set (ll_Models new). (name, Some x) \<notin> table_refs dp (odb w))) \<and>
   (faults w = [] \<longrightarrow>
      (fst (run_state (ClusterDeleteChecker dp name) w) = Inr () \<longleftrightarrow> (\<forall>(c, m)\<in>table_refs dp (odb w). c \<noteq> name)) \<and>
      (fst (run_state (ClusterModelUpdateChecker dp name old (Some new)) w) = Inr () \<longleftrightarrow>
        (\<forall>x\<in>(case old of None \<Rightarrow> {} | Some c \<Rightarrow> set (ll_Models c)) - set (ll_Models new). (name, Some x) \<notin> table_refs dp (odb w))) \<and>
      snd (run_state (ClusterDeleteChecker dp name) w) = w \<and> snd (run_state (ClusterModelUpdateChecker dp name old (Some new)) w) = w)"
proof (intro conjI impI)
  let ?gone = "(case old of None \<Rightarrow> {} | Some c \<Rightarrow> set (ll_Models c)) - set (ll_Models new)"
  let ?model = "run_state (ClusterModelUpdateChecker dp name old (Some new)) w"
  have g: "?gone = set (removedModels old new)" by (simp add: removedModels_set)
  show "\<forall>(c, m)\<in>table_refs dp (odb w). c \<noteq> name" if "fst (run_state (ClusterDeleteChecker dp name) w) = Inr ()"
    using refs_call [OF that [unfolded ClusterDeleteChecker_def]] by (simp only: delete_check_refs)
  show "\<forall>x\<in>?gone. (name, Some x) \<notin> table_refs dp (odb w)" if ok: "fst ?model = Inr ()"
  proof (cases "removedModels old new = []")
    case False
    with ok have "fst (run_state (bindE (storage_FetchAllRouteRules dp)
        (\<lambda>ps. lift_err (checkClusterModelsReferenced name (removedModels old new) ps))) w) = Inr ()"
      by (simp add: ClusterModelUpdateChecker_def Let_def del: run_bindE)
    from refs_call [OF this] show ?thesis unfolding g by (simp only: model_check_refs)
  qed (simp add: g)
  assume w: "faults w = []"
  have d: "run_state (ClusterDeleteChecker dp name) w =
      (checkClusterReferencedByRouteRules name (map (routeRulesDataToParam dp) (rows (o_route_rules (odb w)))), w)"
    unfolding ClusterDeleteChecker_def by (rule refs_call_quiet [OF w])
  have m: "?model = (checkClusterModelsReferenced name (removedModels old new) (map (routeRulesDataToParam dp) (rows (o_route_rules (odb w)))), w)"
    if "removedModels old new \<noteq> []"
    using that refs_call_quiet [OF w, of dp "checkClusterModelsReferenced name (removedModels old new)"]
    by (simp add: ClusterModelUpdateChecker_def Let_def del: run_bindE)
  have n: "?model = (Inr (), w)" if "removedModels old new = []" using that by (simp add: ClusterModelUpdateChecker_def)
  show "fst (run_state (ClusterDeleteChecker dp name) w) = Inr () \<longleftrightarrow> (\<forall>(c, m)\<in>table_refs dp (odb w). c \<noteq> name)"
    unfolding d fst_conv by (rule delete_check_refs)
  show "fst ?model = Inr () \<longleftrightarrow> (\<forall>x\<in>?gone. (name, Some x) \<notin> table_refs dp (odb w))"
  proof (cases "removedModels old new = []")
    case False
    then show ?thesis unfolding m [OF False] g fst_conv by (simp only: model_check_refs)
  qed (simp add: n g)
  show "snd (run_state (ClusterDeleteChecker dp name) w) = w" by (simp only: d snd_conv)
  show "snd ?model = w" using m n by (cases "removedModels old new = []") simp_all
qed

section \<open>The global rules\<close>

text \<open>
  C40. Global route rules that pass the check of the endpoint and whose JSON reads back to them (as it does for valid UTF-8) are stored: without failing calls,
  and on a table with unique ids and owners, the endpoint answers with the submitted rules, enabled unless the request says otherwise, and the
  next read returns them; the rules of the entities and API keys stay as they were.\<close>

theorem global_rules_round_trip:
  assumes "faults w = []" "route_table_ok (o_route_rules (odb w))" "rules_codec dp (rs_Rules p)"
    and "validate_RouteRules build (Some p) = Inr ()" "marshalRouteRules dp (rs_Rules p) = Inr body"
  shows "\<exists>i w'. run_state (GlobalRouteRulesUpdateAction dp build p) w =
      (Inr \<lparr>rs_ID = None, rs_Enabled = Some (rs_Enabled p \<noteq> Some False), rs_Rules = rs_Rules p\<rparr>, w') \<and>
    run_state (GetGlobalRouteRules dp) w' =
      (Inr (Some \<lparr>rs_ID = Some i, rs_Enabled = Some (rs_Enabled p \<noteq> Some False), rs_Rules = rs_Rules p\<rparr>), w') \<and>
    filter (\<lambda>r. \<not> is_global r) (rows (o_route_rules (odb w'))) = filter (\<lambda>r. \<not> is_global r) (rows (o_route_rules (odb w))) \<and>
    route_table_ok (o_route_rules (odb w'))"
proof -
  let ?e = "rs_Enabled p \<noteq> Some False"
  let ?p = "p\<lparr>rs_Enabled := Some ?e\<rparr>"
  have p: "(if rs_Enabled p = None then p\<lparr>rs_Enabled := Some True\<rparr> else p) = ?p" by (cases p) auto
  have v: "validateRouteRules build (Some ?p) = Inr ()" using endpoint_check_is_stronger [OF assms(4)] by simp
  have m: "marshalRouteRules dp (rs_Rules ?p) = Inr body" using assms(5) by simp
  obtain i t' l where
    run: "run_state (SetGlobalRouteRules dp build ?p) w =
      (Inr \<lparr>rs_ID = Some i, rs_Enabled = Some ?e, rs_Rules = rs_Rules ?p\<rparr>, w\<lparr>odb := (odb w)\<lparr>o_route_rules := t'\<rparr>, o_log := l\<rparr>)"
    and c: "rules_changed body ?e i (o_route_rules (odb w)) t'"
    by (rule run_SetGlobal [of w dp ?p build body ?e]) (use assms(1-3) v m in simp_all)
  let ?w = "w\<lparr>odb := (odb w)\<lparr>o_route_rules := t'\<rparr>, o_log := l\<rparr>"
  from c obtain r where r: "r \<in> set (rows t')" "is_global r" "to_ID r = i" "to_Rules r = body" "to_Enabled r = ?e"
    and t': "route_table_ok t'" and o: "filter (\<lambda>r. \<not> is_global r) (rows t') = filter (\<lambda>r. \<not> is_global r) (rows (o_route_rules (odb w)))"
    unfolding rules_changed_def by blast
  have "run_state (GlobalRouteRulesUpdateAction dp build p) w =
      (Inr \<lparr>rs_ID = None, rs_Enabled = Some ?e, rs_Rules = rs_Rules p\<rparr>, ?w)"
    unfolding GlobalRouteRulesUpdateAction_def Let_def p using assms(4) run by simp
  moreover have "run_state (GetGlobalRouteRules dp) ?w = (Inr (Some \<lparr>rs_ID = Some i, rs_Enabled = Some ?e, rs_Rules = rs_Rules p\<rparr>), ?w)"
    using run_GetGlobal [of ?w r dp] assms(1) t' r read_back [OF assms(3,5) r(4,5)] by simp
  ultimately show ?thesis using o t' by (intro exI [of _ i] exI [of _ ?w] conjI) simp_all
qed

definition stored_rules_deps :: owner_deps where
  "stored_rules_deps = owner_example_deps\<lparr>oc_encRules := (\<lambda>rs. if rs = rs_Rules sample_rules then Inr ''rules'' else Inl ErrInfra),
     oc_decRules := (\<lambda>s. if s = ''rules'' then rs_Rules sample_rules else [])\<rparr>"

definition routed_world :: owner_world where
  "routed_world = snd (run_state (GlobalRouteRulesUpdateAction stored_rules_deps (\<lambda>_. True) sample_rules) owner_empty_world)"

lemma stored_rules_codec: "rules_codec stored_rules_deps (rs_Rules sample_rules)"
  by (auto simp: rules_codec_def marshalRouteRules_def stored_rules_deps_def split: if_splits)

theorem global_rules_round_trip_witness:
  "\<exists>i w'. run_state (GlobalRouteRulesUpdateAction stored_rules_deps (\<lambda>_. True) sample_rules) owner_empty_world =
      (Inr (sample_rules\<lparr>rs_Enabled := Some True\<rparr>), w') \<and>
    run_state (GetGlobalRouteRules stored_rules_deps) w' = (Inr (Some (sample_rules\<lparr>rs_ID := Some i, rs_Enabled := Some True\<rparr>)), w')"
proof -
  have "faults owner_empty_world = []" "route_table_ok (o_route_rules (odb owner_empty_world))"
    by (simp_all add: owner_empty_world_def empty_owner_db_def route_table_ok_def uniq_rules_def)
  moreover have "marshalRouteRules stored_rules_deps (rs_Rules sample_rules) = Inr ''rules''"
    by (simp add: marshalRouteRules_def stored_rules_deps_def sample_rules_def)
  ultimately show ?thesis
    using global_rules_round_trip [of owner_empty_world stored_rules_deps sample_rules "\<lambda>_. True" "''rules''", OF _ _ stored_rules_codec sample_rules_ok]
    by (auto simp: sample_rules_def)
qed

lemma routed_world_facts:
  "faults routed_world = []" "fst (run_state (ClusterDeleteChecker stored_rules_deps ''north'') routed_world) = Inr ()"
  "fst (run_state (ClusterDeleteChecker stored_rules_deps ''west'') routed_world) \<noteq> Inr ()"
  by code_simp+

definition one_model :: LLMConfig where
  "one_model = \<lparr>ll_Models = [''m1''], ll_ModelMappings = [], ll_Keys = [], ll_KeyPolicy = None, ll_KeyAffinity = None,
     ll_NormalizeUpstreamError = None, ll_Provider = Some ''prov'', ll_MatchPrefix = None, ll_StripPrefix = None\<rparr>"

theorem clusters_in_use_are_kept_witness:
  "''north'' \<notin> fst ` table_refs stored_rules_deps (odb routed_world) \<and>
   ''west'' \<in> fst ` table_refs stored_rules_deps (odb routed_world)"
  using clusters_in_use_are_kept [of stored_rules_deps "''north''" routed_world None one_model]
    clusters_in_use_are_kept [of stored_rules_deps "''west''" routed_world None one_model] routed_world_facts
  by (force simp: image_iff)

section \<open>Users and tokens\<close>

lemma ToLower_ascii: "\<forall>c\<in>set s. (of_char c :: nat) < 128 \<Longrightarrow> ToLower s = map fold_ascii s"
  by (induction s rule: ToLower.induct) (auto simp: fold_ascii_def Let_def)

lemma runes_ascii: "\<forall>c\<in>set s. (of_char c :: nat) < 128 \<Longrightarrow> runes s = map (\<lambda>c. [c]) s"
proof (induction s)
  case (Cons c s)
  then have "rune_len (c # s) = 1" by (simp add: rune_len_def)
  with Cons show ?case by (simp add: runes.simps [of "c # s"])
qed (simp add: runes.simps)

lemma concat_singletons: "concat (map (\<lambda>c. [c]) s) = s"
  by (induction s) auto

lemma reverse_ascii: "\<forall>c\<in>set s. (of_char c :: nat) < 128 \<Longrightarrow> reverseString s = rev s"
  by (simp add: reverseString_def runes_ascii concat_singletons rev_map)

lemma userName_ascii:
  assumes "userNameFormat s = Inr ()"
  shows "\<forall>c\<in>set s. (of_char c :: nat) < 128"
proof -
  have "(of_char c :: nat) < 128" if "is_alnum c \<or> c \<in> set ''_.-''" for c using that by (auto simp: is_alnum_def Let_def)
  with assms show ?thesis by (simp add: userNameFormat_def validateNamePattern_def nameToken_def list_all_iff)
qed

text \<open>
  What the endpoints check and what the managers check agree. A password that passes at the endpoint passes the manager and is neither the name of its
  user nor the reverse of it; a role passes exactly when the manager knows its scopes; a scope passes only when permissions are
  defined for it; the name of a new user is never the one whose role is fixed, in any spelling, while that name can be used to refer to the user.\<close>

theorem endpoint_checks_agree_with_the_managers:
  "(validate_Password password user = Inr () \<longrightarrow> passwordCheck password = Inr () \<and> password \<noteq> user \<and>
      (validate_UserNameRef user = Inr () \<longrightarrow> password \<noteq> rev user)) \<and>
   (validate_Role role = Inr () \<longleftrightarrow> (\<exists>scopes. RoleToScopes role = Inr scopes)) \<and>
   (validate_Scope scope = Inr () \<longrightarrow> map_of scope2permission scope \<noteq> None) \<and>
   (validate_UserName name = Inr () \<longrightarrow> \<not> EqualFold_ascii name ''admin'' \<and> validate_UserNameRef name = Inr ()) \<and>
   validate_UserNameRef ''admin'' = Inr ()"
proof (intro conjI impI)
  assume p: "validate_Password password user = Inr ()"
  then show "passwordCheck password = Inr ()" "password \<noteq> user" by (auto simp: validate_Password_def passwordCheck_def)
  show "password \<noteq> rev user" if "validate_UserNameRef user = Inr ()"
    using p reverse_ascii [OF userName_ascii [of user]] that by (simp add: validate_Password_def validate_UserNameRef_def)
next
  assume n: "validate_UserName name = Inr ()"
  then have f: "userNameFormat name = Inr ()" "ToLower name \<notin> set reservedUserNames" by (simp_all add: validate_UserName_def)
  show "validate_UserNameRef name = Inr ()" using f by (simp add: validate_UserNameRef_def)
  have "map fold_ascii ''admin'' = ''admin''" by code_simp
  then show "\<not> EqualFold_ascii name ''admin''" using f ToLower_ascii [OF userName_ascii [OF f(1)]]
    by (auto simp: EqualFold_ascii_def reservedUserNames_def)
next
  show "validate_UserNameRef ''admin'' = Inr ()" by code_simp
qed (auto simp: validate_Role_def RoleToScopes_def validate_Scope_def scope2permission_def)

theorem endpoint_checks_agree_with_the_managers_witness:
  "passwordCheck ''s3cret-pass'' = Inr () \<and> ''s3cret-pass'' \<noteq> rev ''carol'' \<and> \<not> EqualFold_ascii ''carol'' ''admin'' \<and>
   map_of scope2permission ''Support'' \<noteq> None"
proof -
  have "validate_Password ''s3cret-pass'' ''carol'' = Inr ()" "validate_UserName ''carol'' = Inr ()" "validate_Scope ''Support'' = Inr ()"
    "validate_UserNameRef ''carol'' = Inr ()" by code_simp+
  with endpoint_checks_agree_with_the_managers [of "''s3cret-pass''" "''carol''" "''system_admin''" "''Support''" "''carol''"]
  show ?thesis by blast
qed

section \<open>Rate limits\<close>

text \<open>
  A rate limit policy is accepted exactly when it sets a limit if it is enabled, has at most three limits of each kind, the bounds of
  every limit hold, and neither a name nor a limit repeats. All limits of an accepted policy count under different Redis keys, at most seven in all.\<close>

theorem accepted_limits_count_apart:
  "(validate_RateLimitPolicy (Some p) = Inr () \<longleftrightarrow>
      (sr_Enabled p = Some True \<longrightarrow> (\<exists>r. sr_Rules p = Some r \<and> limit_is_set r)) \<and> (\<forall>r. sr_Rules p = Some r \<longrightarrow> limits_ok r)) \<and>
   (validate_RateLimitPolicy (Some p) = Inr () \<longrightarrow>
      distinct (BuildRateLimitRedisKeys i (sr_Rules p)) \<and> length (BuildRateLimitRedisKeys i (sr_Rules p)) \<le> 7)"
proof (intro conjI impI)
  show "validate_RateLimitPolicy (Some p) = Inr () \<longleftrightarrow>
      (sr_Enabled p = Some True \<longrightarrow> (\<exists>r. sr_Rules p = Some r \<and> limit_is_set r)) \<and> (\<forall>r. sr_Rules p = Some r \<longrightarrow> limits_ok r)"
    by (rule RateLimitPolicy_ok)
  assume "validate_RateLimitPolicy (Some p) = Inr ()"
  then have ok: "limits_ok r" if "sr_Rules p = Some r" for r using that by (simp add: RateLimitPolicy_ok)
  have key: "BuildBFERateLimitRedisKey i ty n = BuildBFERateLimitRedisKey i ty' n' \<longleftrightarrow> ty = ty' \<and> n = n'"
    if "ty \<in> set limit_kinds" "ty' \<in> set limit_kinds" for ty ty' n n'
    using limit_key_inj [of i ty n i ty' n'] that by blast
  have k: "''RL_TPM'' \<in> set limit_kinds" "''RL_RPM'' \<in> set limit_kinds" "''RL_BATCH'' \<in> set limit_kinds" by (simp_all add: limit_kinds_def)
  have "distinct (BuildRateLimitRedisKeys i (Some r)) \<and> length (BuildRateLimitRedisKeys i (Some r)) \<le> 7" if "limits_ok r" for r
    using that by (auto simp: BuildRateLimitRedisKeys_def buildTpmRpmRateLimitRedisKeys_def BuildBatchRateLimitRedisKey_def limits_ok_def
        distinct_map inj_on_def key k)
  then show "distinct (BuildRateLimitRedisKeys i (sr_Rules p))" "length (BuildRateLimitRedisKeys i (sr_Rules p)) \<le> 7"
    using ok by (cases "sr_Rules p"; simp add: BuildRateLimitRedisKeys_def buildTpmRpmRateLimitRedisKeys_def BatchRateLimitEnabled_def)+
qed

definition sample_policy :: SharedRateLimitPolicyParam where
  "sample_policy = \<lparr>sr_Enabled = Some True, sr_Rules = Some \<lparr>
     lr_TpmConfigs = [\<lparr>tc_Name = ''minute'', tc_Model = ''*'', tc_WindowMinutes = 1, tc_MaxTokens = 1000, tc_StepMinutes = 1\<rparr>],
     lr_RpmConfigs = [\<lparr>rc_Name = ''rate'', rc_Model = ''m1'', rc_WindowMinutes = 1, rc_MaxRequests = 60\<rparr>],
     lr_MaxConcurrency = None, lr_BatchLimits = None\<rparr>\<rparr>"

theorem accepted_limits_count_apart_witness:
  "distinct (BuildRateLimitRedisKeys 7 (sr_Rules sample_policy)) \<and> length (BuildRateLimitRedisKeys 7 (sr_Rules sample_policy)) \<le> 7"
proof -
  have "validate_RateLimitPolicy (Some sample_policy) = Inr ()" by code_simp
  with accepted_limits_count_apart [of sample_policy 7] show ?thesis by blast
qed

section \<open>Clusters\<close>

text \<open>
  A pool of instances is accepted exactly when every instance has a valid address, port, weight and name length, one of them has a positive weight, no
  name is given to two instances, and no two instances agree in name, address and port; the text that is compared never confuses two
  instances. References to the keys of a provider are accepted exactly when they name different keys with weights between 0 and 100 that add up to 100.\<close>

theorem cluster_pools_are_accepted_exactly:
  "(validate_InstancePool is = Inr () \<longleftrightarrow>
      (\<forall>i\<in>set is. length (is_Name i) \<le> 128 \<and> validate_Hostname (is_Addr i) = Inr () \<and> 1 \<le> is_Port i \<and> is_Port i \<le> 65535 \<and>
         0 \<le> is_Weight i \<and> is_Weight i \<le> 100) \<and>
      distinct (filter (\<lambda>n. n \<noteq> []) (map is_Name is)) \<and> distinct (map instance_ref is) \<and> (\<exists>i\<in>set is. is_Weight i > 0)) \<and>
   (check_key_refs ks = Inr () \<longleftrightarrow> ks = [] \<or>
      (\<forall>k\<in>set ks. key_ref_ok k) \<and> distinct (map (\<lambda>k. str_of (lk_Name k)) ks) \<and> sum_list (map key_ref_weight ks) = 100)"
  by (simp add: InstancePool_ok Instance_ok check_key_refs_ok)

theorem cluster_pools_are_accepted_exactly_witness:
  "\<exists>i\<in>set [\<lparr>is_Name = ''a'', is_Addr = ''10.0.0.1'', is_Port = 80, is_Weight = 10, is_Disable = False\<rparr>]. is_Weight i > 0"
proof -
  have "validate_InstancePool [\<lparr>is_Name = ''a'', is_Addr = ''10.0.0.1'', is_Port = 80, is_Weight = 10, is_Disable = False\<rparr>] = Inr ()"
    by code_simp
  with cluster_pools_are_accepted_exactly [of "[\<lparr>is_Name = ''a'', is_Addr = ''10.0.0.1'', is_Port = 80, is_Weight = 10, is_Disable = False\<rparr>]" "[]"]
  show ?thesis by blast
qed

end
