(* ===== verification/Spec2Isabelle.thy ===== *)
theory Spec2Isabelle
  imports BatchProperties EppProperties QuotaProperties SecretProperties OwnerProperties
    OperLogProperties AuthProperties RequestProperties
begin

text \<open>
  A verification of the control plane of an AI gateway (\<^verbatim>\<open>ai-gateway-api\<close>, Go).

  \<^bold>\<open>The program.\<close> The control plane keeps the configuration of the gateway in a relational
  database (MySQL or SQLite), shares live counters with the data plane through Redis, and exports
  configuration files to it. Its parts are packages under \<^verbatim>\<open>src/model\<close> (managers), each with a
  storage package under \<^verbatim>\<open>src/storage/rdb\<close> and the statements under
  \<^verbatim>\<open>src/storage/rdb/internal/dao\<close>; HTTP handlers under \<^verbatim>\<open>src/endpoints\<close> call the managers. Several instances of the
  process run at once on the same database and Redis. Eight parts are modelled:

  \<^item> \<^bold>\<open>Batches\<close> (\<^verbatim>\<open>model/ibatch\<close>): the data plane writes every batch task it submits to a provider into
    Redis; the control plane synchronises these hashes into \<^verbatim>\<open>batch_tasks\<close>, advances their status
    by asking the provider, cancels them, and settles the reserved quota once from the usage in
    the result file. A job runs these duties in turn under a named lock.

  \<^item> \<^bold>\<open>The EPP pool\<close> (\<^verbatim>\<open>model/epp_pool\<close>): endpoint picker instances in groups, the assignment of clusters
    to groups, a reconciler that keeps every cluster served, the compiler from the simplified
    settings of a cluster to the configuration of the endpoint picker, and the versioned export.

  \<^item> \<^bold>\<open>Quotas\<close> (\<^verbatim>\<open>model/quota\<close>, \<^verbatim>\<open>model/quotacache\<close>): plans in the database, the balance of every owner (API
    key or entity) in Redis, manual and periodic resets, and the carry-over of a changed plan; a scheduler runs the
    periodic reset under a distributed lock.

  \<^item> \<^bold>\<open>Secrets at rest\<close> (\<^verbatim>\<open>lib/xcrypto\<close>, \<^verbatim>\<open>stateful/security.go\<close>, \<^verbatim>\<open>model/keyrotate\<close>): the columns of the
    database that hold credentials are encrypted into envelopes under the active key of a key ring, an old key may
    stay in the ring for reading, and a sweep rewrites every stored secret under the active key (or back to plaintext),
    page by page, while the tables are in use and at most one sweep task runs.

  \<^item> \<^bold>\<open>Owners\<close> (\<^verbatim>\<open>model/entity\<close>, \<^verbatim>\<open>model/api_key\<close>, \<^verbatim>\<open>model/rate_limit_policy\<close>, \<^verbatim>\<open>model/imods\<close>): entities in a tree ordered by
    the levels of their types, and API keys that belong to them. Either kind owns a quota plan, a rate limit policy and route rules, written in its own
    transaction, and counters in Redis, cleaned up afterwards. The exports collect what applies to a key along the tree.

  \<^item> \<^bold>\<open>The operation log\<close> (\<^verbatim>\<open>model/ioperlog\<close>): every manager records its changes with masked snapshots; a bounded channel and
    a worker write them in batches, and queries page through them with totals cached in Redis.

  \<^item> \<^bold>\<open>Authentication and authorization\<close> (\<^verbatim>\<open>model/iauth\<close>, \<^verbatim>\<open>model/ibasic/product.go\<close>): users log in with a password and get a
    session key, tokens are issued for programs, roles and scopes grant actions on features, and users and tokens are bound to products.

  \<^item> \<^bold>\<open>Request checks and route rules\<close> (\<^verbatim>\<open>lib/validate\<close>, \<^verbatim>\<open>model/route_rules\<close>): what the endpoints accept in a request body, and the manager of
    the route rules of entities, API keys and the whole gateway, which also protects clusters and models that rules refer to.

  \<^bold>\<open>How the code is modelled.\<close> A Go function that touches a database, Redis or an upstream is a
  computation in the state monad over the world of its component (\<open>world\<close>, \<open>epp_world\<close>,
  \<open>quota_world\<close>, \<open>secret_world\<close>, \<open>owner_world\<close>, \<open>log_world\<close>, \<open>auth_world\<close>: the tables, the Redis keys, the clock, the upstream); \<^verbatim>\<open>error\<close> results are values of \<open>error\<close> in
  a sum. \<open>Prelude\<close> has the monad (\<open>bindE\<close> is \<^verbatim>\<open>if err != nil { return err }\<close>) and \<open>ext_call\<close>: every call that leaves
  the process consumes an entry of a script of faults and may fail before or after its effect. A theorem about any world
  therefore covers every pattern of failures; one that asks for \<open>faults w = []\<close> describes the run
  without failures. Machine integers are 64-bit words where they can wrap (tokens, settle units, Redis counters, durations), and
  unbounded numbers elsewhere. Strings are lists of bytes. Loops are recursive functions; \<open>scan_loop\<close> (the
  SCAN of Redis) takes fuel, and \<open>scan_loop_total\<close> shows that one round is enough because the scanner of the code answers with
  cursor 0; \<open>drop_spaces\<close> takes the length of its text, \<open>upsert_version\<close> the three retries of the code. The loop of a sweep
  over the pages of a table (\<open>sweep_pages\<close>) has no bound in the code: it is a partial function into \<open>option\<close>, and \<open>sweep_always_ends\<close> shows
  that it returns in every world. So are the two walks of the exports up the tree, \<open>fetchEntityRateLimitPolicyIDs\<close> and \<open>route_walk\<close>: \<open>exports_terminate\<close>
  shows that they return on every tree the managers build, and \<open>cycle_stops_the_export\<close> that they do not on a cycle. So is the search of a login for an unused session key, \<open>fresh_session\<close>: \<open>login_terminates\<close> shows that it returns when the draws
  differ. The channel and the worker of the operation log are a step relation (\<open>log_step\<close>). A component that calls another
  runs it on a view of its world (\<open>in_quota\<close> for the operations on plans and balances).

  \<^bold>\<open>The theories.\<close>

  \<^item> \<open>Prelude\<close>, \<open>GoLib\<close>, \<open>SqlTable\<close>, \<open>Calendar\<close>: the monad with Hoare triples and the rule collections
    \<open>hoare_rules\<close> and \<open>keeps_rules\<close>; what is used of Go's \<^verbatim>\<open>strings\<close>, \<^verbatim>\<open>strconv\<close>, \<^verbatim>\<open>net\<close> and \<^verbatim>\<open>time\<close>; tables,
    affected rows in both dialects, transactions (\<^verbatim>\<open>lib/xdb.go\<close>); the calendar. They state the interfaces
    \<open>keyed_table\<close> (upserts by a key), \<open>txn_tables\<close> (what a transaction leaves) and \<open>period_floor\<close> (the start of a period).

  \<^item> \<open>BatchTypes\<close> (\<^verbatim>\<open>types.go\<close>, \<^verbatim>\<open>redis_keys.go\<close>), \<open>BatchStore\<close> (the tables and storagers of batches and
    files), \<open>BatchWorld\<close> (\<^verbatim>\<open>redis_adapter.go\<close>, the world), \<open>BatchProvider\<close> (provider choice and
    HTTP access of \<^verbatim>\<open>cancel.go\<close>), \<open>BatchView\<close> (\<^verbatim>\<open>redis_view.go\<close>), \<open>BatchSync\<close> (\<^verbatim>\<open>sync.go\<close>, \<^verbatim>\<open>manager.go\<close>),
    \<open>BatchAdvance\<close>, \<open>BatchCancel\<close>, \<open>BatchSettle\<close> (the files of the same names), \<open>BatchJob\<close> (\<^verbatim>\<open>job.go\<close>) and
    \<open>BatchInterleave\<close> (several instances). Each duty has an order on rows (\<open>task_le\<close>, \<open>advance_le\<close>, \<open>cancel_le\<close>, \<open>settle_le\<close>,
    \<open>backfill_le\<close>), an instance of \<open>row_order\<close>, and is shown to move rows only upwards. \<open>BatchProperties\<close>: a whole round of
    the job and each of its duties keep terminal statuses, whatever fails, when no other writer overlaps them; a batch is settled at most once under every
    interleaving of the SQL statements in which no upsert writes reserved over a decided settlement; cancelling, releasing, settling and listing do what they promise;
    the parser of result files equals a fold over lines; keys and settlement numbers survive the trip through Redis.

  \<^item> \<open>EppStore\<close> (storager and transactions), \<open>EppConfig\<close> (\<^verbatim>\<open>epp_config.go\<close>), \<open>EppCompile\<close> (\<^verbatim>\<open>compiler.go\<close>), \<open>EppPool\<close>
    (\<^verbatim>\<open>epp_pool.go\<close> and the calls of \<^verbatim>\<open>icluster_conf/epp.go\<close>), \<open>EppAlloc\<close> and \<open>EppAssign\<close> (\<^verbatim>\<open>assignment.go\<close>), \<open>EppExport\<close>
    (\<^verbatim>\<open>epp_data.go\<close>, \<^verbatim>\<open>version_control\<close>) and \<open>EppConverge\<close> (what repair and reconciliation reach). \<open>EppProperties\<close>: replacing the pool is atomic, validation accepts exactly the pools it should, the
    reconciler serves every cluster, keeps the balance and then rests, the export publishes a change once, and compiled
    configurations refer only to plugins they declare.

  \<^item> \<open>QuotaStore\<close> (\<^verbatim>\<open>storage/rdb/quota\<close>, the world), \<open>QuotaCache\<close> (\<^verbatim>\<open>quotacache/redis.go\<close>), \<open>QuotaLock\<close>
    (\<^verbatim>\<open>quotacache/lock.go\<close> and its interleavings), \<open>QuotaPlan\<close> (\<^verbatim>\<open>quota_plan_manager.go\<close>, \<^verbatim>\<open>operation_log.go\<close>) and \<open>QuotaReset\<close>
    (\<^verbatim>\<open>balance_sync.go\<close>, \<^verbatim>\<open>scheduler.go\<close>). \<open>QuotaProperties\<close>: a period is claimed at most once unless a
    request sets the time of the last reset back, a round resets exactly the plans that are due, a changed quota refines an abstract carry-over of balances, setting a balance keeps
    concurrent consumption, the lock is exclusive, and what a failed commit leads to.

  \<^item> \<open>GoCrypto\<close> (what is used of \<^verbatim>\<open>encoding/base64\<close> and \<^verbatim>\<open>crypto/cipher\<close>: the counter mode with its tag over an arbitrary block
    cipher, an instance of the interface \<open>aead\<close>), \<open>XCrypto\<close> (\<^verbatim>\<open>envelope.go\<close>, \<^verbatim>\<open>keyring.go\<close>), \<open>SecretRing\<close> (\<^verbatim>\<open>security.go\<close>: the rings
    of the process, their loading, reloading and the check at the start), \<open>SecretStore\<close> (\<^verbatim>\<open>storage/rdb/keyrotate\<close>), \<open>KeyRotate\<close>
    (\<^verbatim>\<open>model/keyrotate/manager.go\<close>), \<open>SweepSafety\<close> (termination, and that no readable secret is lost), \<open>SweepEffect\<close> (the run without failures) and
    \<open>SweepTasks\<close> (the invariant of the task table under all interleavings). \<open>SecretProperties\<close>: what is encrypted decrypts to itself, a sweep
    always ends, keeps every secret (but, when it decrypts, one that looks like an envelope in the clear) and reaches its goal, a page with a bad row is undone, one task runs at a time, and where the code falls short.

  \<^item> \<open>OwnerData\<close> (rows and parameters), \<open>OwnerStore\<close> (statements on \<^verbatim>\<open>entity_types\<close>, \<^verbatim>\<open>entities\<close>, \<^verbatim>\<open>api_keys\<close>, \<^verbatim>\<open>api_key_tokens\<close>, \<^verbatim>\<open>rate_limit_policies\<close> and
    \<^verbatim>\<open>route_rules\<close>), \<open>OwnerStorager\<close> (the storagers), \<open>RateLimit\<close> (\<^verbatim>\<open>model/rate_limit_policy\<close>, \<^verbatim>\<open>rate_limit_redis_key.go\<close>), \<open>OwnerNested\<close>
    (what both managers do for nested resources), \<open>EntityManager\<close> and \<open>ApiKeyManager\<close> (\<^verbatim>\<open>entity_manager.go\<close>, \<^verbatim>\<open>entity_type_manager.go\<close>, \<^verbatim>\<open>api_key.go\<close> and
    their logs), \<open>OwnerExport\<close> (the generators of rate limits and of route tables), \<open>TokenExport\<close> (\<^verbatim>\<open>imods/exporter.go\<close>). The interface \<open>nested_frame\<close> of
    \<open>OwnerFrame\<close> says which predicates the nested writes keep; \<open>EntityTree\<close>, \<open>TreeOps\<close> and \<open>TreeWalk\<close> use it for the tree and the walks, \<open>KeyValue\<close> for the values
    of keys; \<open>TokenFacts\<close> is about tokens and counters, \<open>OwnerReach\<close> about histories. \<open>OwnerProperties\<close>: after every history of the operations of \<open>owner_op\<close> the tree has no cycle, whatever fails, the
    exports return and collect the lineage, a key's value is fixed, found and unique, a token allows the common models and refers to exported plans, and the
    counters of removed limits go.

  \<^item> \<open>OperLog\<close> (\<^verbatim>\<open>mask.go\<close>, \<^verbatim>\<open>change_summary.go\<close>, \<^verbatim>\<open>helper.go\<close>), \<open>OperLogStore\<close> (\<^verbatim>\<open>storage/rdb/ioperlog\<close>), \<open>OperLogManager\<close> (\<^verbatim>\<open>manager.go\<close>),
    \<open>OperLogFacts\<close> (texts of filters, order and pages) and \<open>OperLogTotals\<close> (the cache of totals is coherent). \<open>OperLogProperties\<close>: every submitted
    entry is accounted for under all interleavings and failures, a shutdown writes what is left, queries are exact, and the snapshots of summaries do not depend on secrets.

  \<^item> \<open>AuthData\<close> (visitors, scopes, permissions, passwords, \<^verbatim>\<open>lib/xcrypto/password.go\<close>, the context of a request), \<open>AuthStore\<close>
    (\<^verbatim>\<open>storage/rdb/auth\<close>, \<^verbatim>\<open>storage/rdb/basic/product.go\<close> and the statements), \<open>AuthManager\<close> (\<^verbatim>\<open>authentication.go\<close>, \<^verbatim>\<open>authorization.go\<close>, \<^verbatim>\<open>operation_log.go\<close>,
    \<^verbatim>\<open>product.go\<close>, and the middleware and endpoints that check more), \<open>AuthFacts\<close> (reads, the effect and the termination of a login), \<open>AuthReach\<close> and \<open>AuthHistory\<close> (what every
    call keeps). \<open>AuthProperties\<close>: the decision is the entitlement, roles decide what a user may do, a login opens a session for the configured time, a
    change of a password ends the sessions, and after any history keys identify one holder.

  \<^item> \<open>Validate\<close> and \<open>ValidateRules\<close> (\<^verbatim>\<open>validate.go\<close> and the checks of the API key and entity endpoints), \<open>SettingsData\<close> (the request bodies they read),
    \<open>RouteManager\<close> (\<^verbatim>\<open>route_rules.go\<close>, \<^verbatim>\<open>operation_log.go\<close>, the list of the storager and the endpoint of the global rules), \<open>ValidateFacts\<close> and \<open>RouteFacts\<close> (what is
    accepted, the references in stored rules, the run of a change). \<open>RequestProperties\<close>: a request is accepted exactly when it meets its specification, the
    endpoints and the managers agree, clusters in use are kept, and global rules are read back as they were written.

  \<^bold>\<open>Parameters.\<close> Code that is not part of the repository is an argument: the JSON and RFC 3339
  decoders, the HTTP upstream, the price function, the digest of an export, the fixed-point conversion of
  quotas, the decryption of stored keys, the precision of database columns, the
  block cipher, the parser of conditions, the meaning of an ORDER BY clause, the hash functions and key derivation, the generated identifiers, what the statement builder makes of a LIMIT in an UPDATE, the TOML decoder, the file reader, bcrypt, the JSON of a change summary and the source of randomness. Hypotheses about them are named in the theorems and shown to
  be satisfiable by the witnesses.

  \<^bold>\<open>Not modelled.\<close> Goroutines, tickers, contexts and panics of the jobs; errors while reading an HTTP
  body; expiry of the batch keys in Redis (the quota keys and the lock do expire); column widths, collations and time columns that no code reads;
  the rounding of \<^verbatim>\<open>float64\<close> (amounts and prices are rationals) and of Lua numbers; zones that change their
  distance from UTC (a zone is a fixed offset: starts of weeks and months, and the days of a session, are counted with it); the listing of sweep tasks and the inspection of column types; a deadlock that makes the server roll
  back a whole transaction in the middle. Of the owners, the generators of ids and the rules of the token module; the tree theorems leave out changes
  of the level of a type, which break the tree, deletions of types, whose check is in the HTTP handler, and deletions of entities by another filter than the id.
  Of the batches, operations that overlap statement by statement are covered for the settlement only: a cancel that read its task from Redis may write an
  old status over a terminal one, as the manifest records. Of the operation log, the pauses
  between retries and the deadline of a flush; of authentication, the deletion of a product, which is one script over the tables of all components, and the constant time of a
  comparison. The other managers (the older AI routes, clusters, providers, cache, context and mirror settings apart from their checks, domains and certificates), the reports, whose meaning is SQL text for
  four databases, and the HTTP layer are listed in the manifest with their state.
\<close>

end
